(* ===== verification/Prelude.thy ===== *)
theory Prelude
  imports Main "HOL-Library.Word"
begin

text \<open>
  Shared vocabulary of the development: the proof-hint collections, Go's machine integers and
  clock arithmetic (package \<^verbatim>\<open>time\<close>), the results of fallible calls, and database tables
  as lists of rows with the five statement shapes the repositories use (select the first row,
  insert under a primary key, save, update where, delete where) together with their laws.
\<close>

named_theorems row_simps \<open>laws of table statements, oriented as rewrite rules\<close>
named_theorems op_defs \<open>definitions of service operations\<close>
named_theorems repo_defs \<open>definitions of repository statements\<close>

section \<open>Integers, durations and instants\<close>

text \<open>An instant and a duration are counted in nanoseconds, as Go's \<^verbatim>\<open>time\<close> package does.
  A \<^verbatim>\<open>time.Duration\<close> is an \<^verbatim>\<open>int64\<close>, so products wrap around.\<close>

type_synonym time = int
type_synonym duration = int

definition int64 :: "int \<Rightarrow> int" where
  "int64 x = signed_take_bit 63 x"

definition nanos_per_second :: int where
  "nanos_per_second = 1000000000"

definition seconds :: "int \<Rightarrow> duration" where
  "seconds n = int64 (n * nanos_per_second)"

definition minutes :: "int \<Rightarrow> duration" where
  "minutes n = int64 (n * (60 * nanos_per_second))"

definition hours :: "int \<Rightarrow> duration" where
  "hours n = int64 (n * (3600 * nanos_per_second))"

text \<open>Go's integer division truncates towards zero.\<close>

definition trunc_div :: "int \<Rightarrow> int \<Rightarrow> int" where
  "trunc_div a b = sgn a * sgn b * (\<bar>a\<bar> div \<bar>b\<bar>)"

definition whole_seconds :: "duration \<Rightarrow> int" where
  "whole_seconds d = trunc_div d nanos_per_second"

text \<open>\<^verbatim>\<open>Time.Unix\<close> floors, unlike integer division.\<close>

definition unix :: "time \<Rightarrow> int" where
  "unix t = t div nanos_per_second"

text \<open>\<^verbatim>\<open>Time.Sub\<close> saturates at the largest and smallest duration.\<close>

definition time_sub :: "time \<Rightarrow> time \<Rightarrow> duration" where
  "time_sub a b = max (- (2 ^ 63)) (min (2 ^ 63 - 1) (a - b))"

lemma int64_id: "- (2 ^ 63) \<le> x \<Longrightarrow> x < 2 ^ 63 \<Longrightarrow> int64 x = x"
  unfolding int64_def by (rule signed_take_bit_int_eq_self) simp_all

lemma int64_range: "- (2 ^ 63) \<le> int64 x \<and> int64 x < 2 ^ 63"
  unfolding int64_def
  using signed_take_bit_int_greater_eq_minus_exp [of 63 x] signed_take_bit_int_less_exp [of 63 x]
  by simp

lemma seconds_exact: "\<bar>n\<bar> \<le> 9223372036 \<Longrightarrow> seconds n = n * nanos_per_second"
  unfolding seconds_def by (rule int64_id) (auto simp: nanos_per_second_def)

lemma seconds_pos: "0 < n \<Longrightarrow> n \<le> 9223372036 \<Longrightarrow> 0 < seconds n"
  by (simp add: seconds_exact nanos_per_second_def)

lemma whole_seconds_seconds:
  assumes "\<bar>n\<bar> \<le> 9223372036"
  shows "whole_seconds (seconds n) = n"
proof -
  have "\<bar>n * 1000000000\<bar> div \<bar>1000000000\<bar> = \<bar>n\<bar>"
    by (simp add: abs_mult)
  then show ?thesis
    using assms
    by (simp add: whole_seconds_def seconds_exact trunc_div_def nanos_per_second_def
        sgn_mult mult_sgn_abs)
qed

lemma time_sub_le_iff:
  assumes "- (2 ^ 63) \<le> d" and "d < 2 ^ 63 - 1"
  shows "time_sub a b > d \<longleftrightarrow> a - b > d"
  using assms unfolding time_sub_def by auto

section \<open>Results of fallible calls\<close>

text \<open>The outcome of one database statement: an I/O error, or a value.\<close>

datatype 'a dbres = DbErr | DbOk 'a

text \<open>Statements whose error the caller discards (\<^verbatim>\<open>_ = repo.Update(...)\<close>).\<close>

fun db_ignore :: "'s \<Rightarrow> 's dbres \<Rightarrow> 's" where
  "db_ignore st DbErr = st"
| "db_ignore st (DbOk st') = st'"

text \<open>Lookups whose error the caller discards (\<^verbatim>\<open>x, _ := repo.Find(...)\<close>): the result is nil.\<close>

fun db_maybe :: "'a option dbres \<Rightarrow> 'a option" where
  "db_maybe DbErr = None"
| "db_maybe (DbOk r) = r"

section \<open>Tables\<close>

fun first_where :: "('r \<Rightarrow> bool) \<Rightarrow> 'r list \<Rightarrow> 'r option" where
  "first_where P [] = None"
| "first_where P (r # rs) = (if P r then Some r else first_where P rs)"

definition update_where :: "('r \<Rightarrow> bool) \<Rightarrow> ('r \<Rightarrow> 'r) \<Rightarrow> 'r list \<Rightarrow> 'r list" where
  "update_where P f rs = map (\<lambda>r. if P r then f r else r) rs"

definition delete_where :: "('r \<Rightarrow> bool) \<Rightarrow> 'r list \<Rightarrow> 'r list" where
  "delete_where P rs = filter (\<lambda>r. \<not> P r) rs"

text \<open>An insert is refused when a row with the same key is already stored.\<close>

definition insert_row :: "('r \<Rightarrow> 'k) \<Rightarrow> 'r \<Rightarrow> 'r list \<Rightarrow> 'r list option" where
  "insert_row key r rs = (if key r \<in> set (map key rs) then None else Some (rs @ [r]))"

text \<open>GORM's \<^verbatim>\<open>Save\<close>: replace the row with this key, or add it when there is none.\<close>

definition save_row :: "('r \<Rightarrow> 'k) \<Rightarrow> 'r \<Rightarrow> 'r list \<Rightarrow> 'r list" where
  "save_row key r rs =
     (if key r \<in> set (map key rs) then map (\<lambda>r'. if key r' = key r then r else r') rs
      else rs @ [r])"

definition keys_unique :: "('r \<Rightarrow> 'k) \<Rightarrow> 'r list \<Rightarrow> bool" where
  "keys_unique key rs \<longleftrightarrow> distinct (map key rs)"

lemma first_where_SomeD: "first_where P rs = Some r \<Longrightarrow> r \<in> set rs \<and> P r"
  by (induction rs) (auto split: if_splits)

lemma first_where_None_iff: "first_where P rs = None \<longleftrightarrow> (\<forall>r \<in> set rs. \<not> P r)"
  by (induction rs) auto

lemma first_where_absent:
  "k \<notin> set (map key rs) \<Longrightarrow> first_where (\<lambda>x. key x = k) rs = None"
  by (induction rs) auto

lemma first_where_append [row_simps]:
  "first_where P (xs @ ys) =
     (case first_where P xs of None \<Rightarrow> first_where P ys | Some r \<Rightarrow> Some r)"
  by (induction xs) auto

lemma first_where_key:
  assumes "keys_unique key rs" and "r \<in> set rs"
  shows "first_where (\<lambda>x. key x = key r) rs = Some r"
  using assms by (induction rs) (auto simp: keys_unique_def rev_image_eqI)

lemma first_where_update [row_simps]:
  assumes "\<And>r. key (f r) = key r"
  shows "first_where (\<lambda>x. key x = k) (update_where P f rs) =
    map_option (\<lambda>r. if P r then f r else r) (first_where (\<lambda>x. key x = k) rs)"
  using assms by (induction rs) (auto simp: update_where_def)

lemma first_where_save [row_simps]:
  "first_where (\<lambda>x. key x = k) (save_row key r rs) =
     (if k = key r then Some r else first_where (\<lambda>x. key x = k) rs)"
proof -
  have rep: "first_where (\<lambda>x. key x = k) (map (\<lambda>r'. if key r' = key r then r else r') rs) =
    (if k = key r \<and> key r \<in> set (map key rs) then Some r
     else first_where (\<lambda>x. key x = k) rs)" for rs
    by (induction rs) auto
  have none: "first_where (\<lambda>x. key x = key r) rs = None" if "key r \<notin> set (map key rs)"
    using that by (rule first_where_absent)
  show ?thesis
    using rep [of rs] none
    by (auto simp: save_row_def first_where_append split: option.splits)
qed

lemma first_where_delete [row_simps]:
  "first_where P (delete_where Q rs) = first_where (\<lambda>r. P r \<and> \<not> Q r) rs"
  by (induction rs) (auto simp: delete_where_def)

lemma insert_row_Some_iff:
  "insert_row key r rs = Some rs' \<longleftrightarrow> key r \<notin> set (map key rs) \<and> rs' = rs @ [r]"
  by (auto simp: insert_row_def)

lemma first_where_insert:
  assumes "insert_row key r rs = Some rs'"
  shows "first_where (\<lambda>x. key x = k) rs' =
    (if k = key r then Some r else first_where (\<lambda>x. key x = k) rs)"
proof -
  have "rs' = rs @ [r]" and "first_where (\<lambda>x. key x = key r) rs = None"
    using assms first_where_absent by (auto simp: insert_row_Some_iff)
  then show ?thesis by (auto simp: first_where_append split: option.splits)
qed

lemma keys_unique_insert: "insert_row key r rs = Some rs' \<Longrightarrow> keys_unique key rs \<Longrightarrow> keys_unique key rs'"
  by (auto simp: insert_row_Some_iff keys_unique_def)

lemma map_key_save: "map key (save_row key r rs) =
    (if key r \<in> set (map key rs) then map key rs else map key rs @ [key r])"
  by (auto simp: save_row_def)

lemma keys_unique_save: "keys_unique key rs \<Longrightarrow> keys_unique key (save_row key r rs)"
  unfolding keys_unique_def map_key_save by (simp del: set_map)

lemma keys_unique_update:
  assumes "\<And>r. key (f r) = key r" and "keys_unique key rs"
  shows "keys_unique key (update_where P f rs)"
proof -
  have "map key (update_where P f rs) = map key rs"
    using assms(1) by (auto simp: update_where_def)
  with assms(2) show ?thesis by (simp add: keys_unique_def)
qed

lemma keys_unique_delete: "keys_unique key rs \<Longrightarrow> keys_unique key (delete_where P rs)"
  by (simp add: keys_unique_def delete_where_def distinct_map_filter)

lemma set_update_where: "r' \<in> set (update_where P f rs) \<longleftrightarrow>
    (\<exists>r \<in> set rs. r' = (if P r then f r else r))"
  by (auto simp: update_where_def)

lemma in_update_whereE:
  assumes "r' \<in> set (update_where P f rs)"
  obtains (changed) r where "r \<in> set rs" "P r" "r' = f r" | (kept) "r' \<in> set rs" "\<not> P r'"
  using assms by (auto simp: update_where_def)

lemma set_delete_where: "r \<in> set (delete_where P rs) \<longleftrightarrow> r \<in> set rs \<and> \<not> P r"
  by (auto simp: delete_where_def)

lemma set_save_row: "set (save_row key r rs) \<subseteq> insert r (set rs)"
  by (auto simp: save_row_def)

lemma save_row_in: "r \<in> set (save_row key r rs)"
  by (auto simp: save_row_def)

section \<open>A keyed table as an interface\<close>

text \<open>
  What a service relies on when it stores rows under a primary key. The operations take the
  whole database state, as the repositories do; each table of the store provides them and the
  laws are discharged there.
\<close>

locale keyed_rows =
  fixes find :: "'s \<Rightarrow> 'k \<Rightarrow> 'r option"
    and create :: "'s \<Rightarrow> 'r \<Rightarrow> 's option"
    and modify :: "'s \<Rightarrow> 'k \<Rightarrow> 's"
    and change :: "'r \<Rightarrow> 'r"
    and key :: "'r \<Rightarrow> 'k"
  assumes find_create: "create s r = Some s' \<Longrightarrow> find s' k = (if k = key r then Some r else find s k)"
    and create_free: "create s r = Some s' \<Longrightarrow> find s (key r) = None"
    and find_modify: "find (modify s k) k' = (if k' = k then map_option change (find s k') else find s k')"
begin

lemma created_is_found: "create s r = Some s' \<Longrightarrow> find s' (key r) = Some r"
  by (simp add: find_create)

lemma create_keeps_others: "create s r = Some s' \<Longrightarrow> find s k = Some r' \<Longrightarrow> find s' k = Some r'"
  using create_free [of s r s'] by (auto simp: find_create)

lemma created_then_modified:
  "create s r = Some s' \<Longrightarrow> find (modify s' (key r)) (key r) = Some (change r)"
  by (simp add: find_modify find_create)

lemma modify_keeps_absence: "find (modify s k) k' = None \<longleftrightarrow> find s k' = None"
  by (simp add: find_modify)

lemma create_twice_fails: "create s r = Some s' \<Longrightarrow> key r' = key r \<Longrightarrow> create s' r' = None"
  using create_free [of s' r'] created_is_found [of s r s'] by (cases "create s' r'") auto

end

end
