(* ===== verification/GoLib.thy ===== *)
theory GoLib
  imports Prelude
begin

text \<open>
  What the sources use of Go's standard library on strings: byte strings are lists of 8-bit
  characters, with prefix tests, splitting, trimming, ASCII lower-casing, decimal parsing
  (\<^verbatim>\<open>strconv.Atoi\<close>), and the two encodings of \<^verbatim>\<open>crypto/token.go\<close>: lower-case hexadecimal
  and unpadded URL-safe base64, each with its decoder and a round-trip theorem.
\<close>

section \<open>Strings\<close>

definition has_prefix :: "string \<Rightarrow> string \<Rightarrow> bool" where
  "has_prefix p s \<longleftrightarrow> take (length p) s = p"

definition char_count :: "char \<Rightarrow> string \<Rightarrow> nat" where
  "char_count c s = length (filter (\<lambda>x. x = c) s)"

text \<open>\<^verbatim>\<open>strings.Split(s, sep)\<close> for a one-character separator keeps empty pieces.\<close>

fun split_on :: "char \<Rightarrow> string \<Rightarrow> string list" where
  "split_on d [] = [[]]"
| "split_on d (c # cs) =
     (if c = d then [] # split_on d cs
      else (case split_on d cs of [] \<Rightarrow> [[c]] | p # ps \<Rightarrow> (c # p) # ps))"

definition is_space :: "char \<Rightarrow> bool" where
  "is_space c \<longleftrightarrow> (let n = (of_char c :: nat) in n = 32 \<or> (9 \<le> n \<and> n \<le> 13))"

definition trim_space :: "string \<Rightarrow> string" where
  "trim_space s = rev (dropWhile is_space (rev (dropWhile is_space s)))"

definition lower_char :: "char \<Rightarrow> char" where
  "lower_char c = (let n = (of_char c :: nat) in if 65 \<le> n \<and> n \<le> 90 then char_of (n + 32) else c)"

definition to_lower :: "string \<Rightarrow> string" where
  "to_lower s = map lower_char s"

definition lower_trim :: "string \<Rightarrow> string" where
  "lower_trim s = to_lower (trim_space s)"

lemma lower_char_idem: "lower_char (lower_char c) = lower_char c"
  by (auto simp: lower_char_def Let_def)

lemma to_lower_idem [simp]: "to_lower (to_lower s) = to_lower s"
  by (simp add: to_lower_def lower_char_idem comp_def)

lemma is_space_lower: "is_space (lower_char c) = is_space c"
  by (auto simp: is_space_def lower_char_def Let_def)

lemma dropWhile_idem: "dropWhile P (dropWhile P xs) = dropWhile P xs"
  by (induction xs) auto

lemma trim_space_ends: "trim_space s \<noteq> [] \<Longrightarrow> \<not> is_space (last (trim_space s))"
  unfolding trim_space_def by (simp add: last_rev hd_dropWhile)

lemma dropWhile_rev_dropWhile:
  "dropWhile P (rev (dropWhile P (rev (dropWhile P s)))) = rev (dropWhile P (rev (dropWhile P s)))"
proof (cases "dropWhile P s")
  case Nil
  then show ?thesis by (simp only: rev.simps dropWhile.simps)
next
  case (Cons c t)
  then have c: "\<not> P c" by (metis dropWhile_eq_Cons_conv)
  have "\<exists>u. dropWhile P (rev t @ [c]) = u @ [c]"
    using c by (induction "rev t" rule: list.induct) (auto simp: dropWhile_append)
  then obtain u where "dropWhile P (rev (c # t)) = u @ [c]" by auto
  then have "rev (dropWhile P (rev (c # t))) = c # rev u" by (simp only: rev_append rev.simps append.simps)
  with Cons c show ?thesis by (simp only: dropWhile.simps if_False)
qed

lemma trim_space_idem [simp]: "trim_space (trim_space s) = trim_space s"
  unfolding trim_space_def by (simp add: dropWhile_rev_dropWhile dropWhile_idem)

lemma trim_to_lower: "trim_space (to_lower s) = to_lower (trim_space s)"
  by (simp add: trim_space_def to_lower_def dropWhile_map rev_map comp_def is_space_lower)

lemma lower_trim_idem: "lower_trim (lower_trim s) = lower_trim s"
  by (simp add: lower_trim_def trim_to_lower)

section \<open>Decimal integers\<close>

definition digit_value :: "char \<Rightarrow> int option" where
  "digit_value c = (let n = (of_char c :: int) in if 48 \<le> n \<and> n \<le> 57 then Some (n - 48) else None)"

fun digits_value :: "int \<Rightarrow> string \<Rightarrow> int option" where
  "digits_value acc [] = Some acc"
| "digits_value acc (c # cs) =
     (case digit_value c of None \<Rightarrow> None | Some d \<Rightarrow> digits_value (10 * acc + d) cs)"

definition in_int64 :: "int \<Rightarrow> bool" where
  "in_int64 n \<longleftrightarrow> - (2 ^ 63) \<le> n \<and> n < 2 ^ 63"

definition range_checked :: "int option \<Rightarrow> int option" where
  "range_checked r = (case r of None \<Rightarrow> None | Some n \<Rightarrow> if in_int64 n then Some n else None)"

fun atoi :: "string \<Rightarrow> int option" where
  "atoi [] = None"
| "atoi (c # cs) =
     (if c = CHR ''-'' then (if cs = [] then None else range_checked (map_option uminus (digits_value 0 cs)))
      else if c = CHR ''+'' then (if cs = [] then None else range_checked (digits_value 0 cs))
      else range_checked (digits_value 0 (c # cs)))"

lemma range_checked_SomeD: "range_checked r = Some n \<Longrightarrow> in_int64 n"
  by (auto simp: range_checked_def split: option.splits if_splits)

lemma atoi_in_int64: "atoi s = Some n \<Longrightarrow> in_int64 n"
  by (cases s) (auto split: if_splits dest: range_checked_SomeD)

text \<open>\<^verbatim>\<open>%d\<close> of \<^verbatim>\<open>fmt\<close>.\<close>

fun nat_digits :: "nat \<Rightarrow> string" where
  "nat_digits n = (if n < 10 then [char_of (48 + n)] else nat_digits (n div 10) @ [char_of (48 + n mod 10)])"

declare nat_digits.simps [simp del]

definition itoa :: "int \<Rightarrow> string" where
  "itoa n = (if n < 0 then CHR ''-'' # nat_digits (nat (- n)) else nat_digits (nat n))"

text \<open>\<^verbatim>\<open>strings.Join\<close>.\<close>

fun join_with :: "string \<Rightarrow> string list \<Rightarrow> string" where
  "join_with sep [] = []"
| "join_with sep [s] = s"
| "join_with sep (s # t # ts) = s @ sep @ join_with sep (t # ts)"

text \<open>\<^verbatim>\<open>%q\<close>: quotes, with Go's escapes; bytes of printable non-ASCII runes stay as they are.\<close>

definition hex2 :: "nat \<Rightarrow> string" where
  "hex2 n = (let d = (\<lambda>k. ''0123456789abcdef'' ! k) in [d (n div 16), d (n mod 16)])"

definition quote_char :: "char \<Rightarrow> string" where
  "quote_char c =
     (let n = (of_char c :: nat); bs = char_of (92::nat)
      in if n = 34 \<or> n = 92 then [bs, c]
         else if n = 7 then [bs, CHR ''a''] else if n = 8 then [bs, CHR ''b'']
         else if n = 12 then [bs, CHR ''f''] else if n = 10 then [bs, CHR ''n'']
         else if n = 13 then [bs, CHR ''r''] else if n = 9 then [bs, CHR ''t'']
         else if n = 11 then [bs, CHR ''v'']
         else if n < 32 \<or> n = 127 then [bs, CHR ''x''] @ hex2 n
         else [c])"

definition quoted :: "string \<Rightarrow> string" where
  "quoted s = [char_of (34::nat)] @ concat (map quote_char s) @ [char_of (34::nat)]"

lemma digit_value_char: "d < 10 \<Longrightarrow> digit_value (char_of (48 + d)) = Some (int d)"
proof -
  assume "d < 10"
  then have "(of_char (char_of (48 + d)) :: nat) = 48 + d" by simp
  then have "(of_char (char_of (48 + d)) :: int) = 48 + int d" by (metis of_nat_of_char of_nat_add of_nat_numeral)
  then show ?thesis using \<open>d < 10\<close> by (simp add: digit_value_def Let_def)
qed

lemma digits_value_append: "digits_value acc (s @ [c]) =
    (case digits_value acc s of None \<Rightarrow> None | Some v \<Rightarrow> map_option (\<lambda>d. 10 * v + d) (digit_value c))"
  by (induction acc s rule: digits_value.induct) (auto split: option.splits)

lemma digits_value_nat_digits: "digits_value 0 (nat_digits n) = Some (int n)"
proof (induction n rule: nat_digits.induct)
  case (1 n)
  show ?case
  proof (cases "n < 10")
    case True
    then show ?thesis by (simp add: nat_digits.simps [of n] digit_value_char)
  next
    case False
    then have "digits_value 0 (nat_digits (n div 10)) = Some (int (n div 10))" by (rule 1)
    then show ?thesis using False
      by (simp add: nat_digits.simps [of n] digits_value_append digit_value_char zmod_int zdiv_int)
  qed
qed

section \<open>Hexadecimal\<close>

definition hex_digits :: string where
  "hex_digits = ''0123456789abcdef''"

definition hex_digit :: "nat \<Rightarrow> char" where
  "hex_digit n = hex_digits ! n"

fun index_of :: "char \<Rightarrow> string \<Rightarrow> nat option" where
  "index_of c [] = None"
| "index_of c (x # xs) = (if c = x then Some 0 else map_option Suc (index_of c xs))"

fun hex_encode :: "string \<Rightarrow> string" where
  "hex_encode [] = []"
| "hex_encode (c # cs) =
     (let n = (of_char c :: nat) in hex_digit (n div 16) # hex_digit (n mod 16) # hex_encode cs)"

fun hex_decode :: "string \<Rightarrow> string option" where
  "hex_decode [] = Some []"
| "hex_decode [c] = None"
| "hex_decode (a # b # cs) =
     (case (index_of a hex_digits, index_of b hex_digits, hex_decode cs) of
        (Some h, Some l, Some s) \<Rightarrow> Some (char_of (16 * h + l) # s)
      | _ \<Rightarrow> None)"

lemma index_of_nth:
  "distinct xs \<Longrightarrow> n < length xs \<Longrightarrow> index_of (xs ! n) xs = Some n"
proof (induction xs arbitrary: n)
  case Nil
  then show ?case by simp
next
  case (Cons x xs)
  then show ?case by (cases n) (auto simp: nth_mem)
qed

lemma index_of_hex_digit: "n < 16 \<Longrightarrow> index_of (hex_digit n) hex_digits = Some n"
  unfolding hex_digit_def by (rule index_of_nth) (simp_all add: hex_digits_def)

lemma of_char_less_256: "(of_char c :: nat) < 256"
  using mod_less_divisor [of 256 "of_char c :: nat"] by simp

theorem hex_roundtrip: "hex_decode (hex_encode s) = Some s"
proof (induction s)
  case Nil
  then show ?case by simp
next
  case (Cons c cs)
  have "(of_char c :: nat) div 16 < 16" and "(of_char c :: nat) mod 16 < 16"
    using of_char_less_256 [of c] by (simp_all add: less_mult_imp_div_less)
  with Cons show ?case by (simp add: Let_def index_of_hex_digit)
qed

lemma hex_encode_inject [simp]: "hex_encode s = hex_encode t \<longleftrightarrow> s = t"
  by (metis hex_roundtrip option.inject)

lemma length_hex_encode: "length (hex_encode s) = 2 * length s"
  by (induction s) (simp_all add: Let_def)

section \<open>Unpadded URL-safe base64\<close>

definition b64_digits :: string where
  "b64_digits = ''ABCDEFGHIJKLMNOPQRSTUVWXYZabcdefghijklmnopqrstuvwxyz0123456789-_''"

definition b64_digit :: "nat \<Rightarrow> char" where
  "b64_digit n = b64_digits ! n"

fun b64_encode :: "string \<Rightarrow> string" where
  "b64_encode [] = []"
| "b64_encode [x] = (let a = (of_char x :: nat) in
     [b64_digit (a div 4), b64_digit (a mod 4 * 16)])"
| "b64_encode [x, y] = (let a = (of_char x :: nat); b = (of_char y :: nat) in
     [b64_digit (a div 4), b64_digit (a mod 4 * 16 + b div 16), b64_digit (b mod 16 * 4)])"
| "b64_encode (x # y # z # cs) =
     (let a = (of_char x :: nat); b = (of_char y :: nat); c = (of_char z :: nat) in
      b64_digit (a div 4) # b64_digit (a mod 4 * 16 + b div 16) #
      b64_digit (b mod 16 * 4 + c div 64) # b64_digit (c mod 64) # b64_encode cs)"

fun b64_decode :: "string \<Rightarrow> string option" where
  "b64_decode [] = Some []"
| "b64_decode [p] = None"
| "b64_decode [p, q] =
     (case (index_of p b64_digits, index_of q b64_digits) of
        (Some i, Some j) \<Rightarrow> Some [char_of (4 * i + j div 16)]
      | _ \<Rightarrow> None)"
| "b64_decode [p, q, r] =
     (case (index_of p b64_digits, index_of q b64_digits, index_of r b64_digits) of
        (Some i, Some j, Some k) \<Rightarrow> Some [char_of (4 * i + j div 16), char_of (j mod 16 * 16 + k div 4)]
      | _ \<Rightarrow> None)"
| "b64_decode (p # q # r # t # cs) =
     (case (index_of p b64_digits, index_of q b64_digits, index_of r b64_digits,
            index_of t b64_digits, b64_decode cs) of
        (Some i, Some j, Some k, Some l, Some s) \<Rightarrow>
          Some (char_of (4 * i + j div 16) # char_of (j mod 16 * 16 + k div 4) #
                char_of (k mod 4 * 64 + l) # s)
      | _ \<Rightarrow> None)"

lemma distinct_b64_digits: "distinct b64_digits"
  by (simp add: b64_digits_def)

lemma index_of_b64_digit: "n < 64 \<Longrightarrow> index_of (b64_digit n) b64_digits = Some n"
  unfolding b64_digit_def by (rule index_of_nth [OF distinct_b64_digits]) (simp add: b64_digits_def)

lemma high_bits: "(a::nat) < 256 \<Longrightarrow> a div 4 < 64" "(a::nat) < 256 \<Longrightarrow> a div 16 < 16"
  "(a::nat) < 256 \<Longrightarrow> a div 64 < 4"
  by (simp_all add: less_mult_imp_div_less)

lemma pack16: "(h::nat) < 16 \<Longrightarrow> (p * 16 + h) div 16 = p" "(h::nat) < 16 \<Longrightarrow> (p * 16 + h) mod 16 = h"
  by simp_all

lemma pack4: "(k::nat) < 4 \<Longrightarrow> (l * 4 + k) div 4 = l" "(k::nat) < 4 \<Longrightarrow> (l * 4 + k) mod 4 = k"
  by simp_all

lemma pack_bounds: "(h::nat) < 16 \<Longrightarrow> a mod 4 * 16 + h < 64" "(k::nat) < 4 \<Longrightarrow> b mod 16 * 4 + k < 64"
  "a mod 4 * 16 < (64::nat)" "b mod 16 * 4 < (64::nat)"
proof -
  have "a mod 4 < (4::nat)" and "b mod 16 < (16::nat)" by simp_all
  then show "h < 16 \<Longrightarrow> a mod 4 * 16 + h < 64" "k < 4 \<Longrightarrow> b mod 16 * 4 + k < 64"
    "a mod 4 * 16 < (64::nat)" "b mod 16 * 4 < (64::nat)"
    by linarith+
qed

lemma unpack: "4 * (a div 4) + a mod 4 = (a::nat)" "a div 16 * 16 + a mod 16 = (a::nat)"
  "a div 64 * 64 + a mod 64 = (a::nat)"
  by simp_all

text \<open>The 6-bit groups of three characters, by name: in range, and reassembled.\<close>

lemmas group_bounds = high_bits [OF of_char_less_256] pack_bounds
lemmas group_index = index_of_b64_digit [OF group_bounds(1)]
  index_of_b64_digit [OF group_bounds(4) [OF group_bounds(2)]]
  index_of_b64_digit [OF group_bounds(5) [OF group_bounds(3)]]
  index_of_b64_digit [OF group_bounds(6)] index_of_b64_digit [OF group_bounds(7)]
  index_of_b64_digit [OF mod_less_divisor [of 64]]
lemmas group_pack = mod_less [OF group_bounds(2)] mod_less [OF group_bounds(3)] pack16 [OF group_bounds(2)] pack4 [OF group_bounds(3)]

theorem b64_roundtrip: "b64_decode (b64_encode s) = Some s"
proof (induction s rule: b64_encode.induct)
  case 1
  then show ?case by simp
next
  case (2 x)
  then show ?case by (simp add: Let_def group_index)
next
  case (3 x y)
  then show ?case by (simp add: Let_def group_index group_pack del: div_mult_self3 div_mult_self4)
next
  case (4 x y z cs)
  then show ?case by (simp add: Let_def group_index group_pack del: div_mult_self3 div_mult_self4)
qed

lemma b64_encode_inject [simp]: "b64_encode s = b64_encode t \<longleftrightarrow> s = t"
  by (metis b64_roundtrip option.inject)

text \<open>32 random bytes give a token of 43 characters.\<close>

lemma length_b64_encode: "length (b64_encode s) = (4 * length s + 2) div 3"
  by (induction s rule: b64_encode.induct) (simp_all add: Let_def)

text \<open>No encoded string holds a dot, which is what tells an opaque token from a JWT.\<close>

lemma b64_digit_not_dot: "n < 64 \<Longrightarrow> CHR ''.'' \<noteq> b64_digit n"
proof
  assume "n < 64" and "CHR ''.'' = b64_digit n"
  then have "CHR ''.'' \<in> set b64_digits"
    using nth_mem [of n b64_digits] by (simp add: b64_digit_def b64_digits_def)
  then show False by (simp add: b64_digits_def)
qed

lemmas group_not_dot = b64_digit_not_dot [OF group_bounds(1)]
  b64_digit_not_dot [OF group_bounds(4) [OF group_bounds(2)]]
  b64_digit_not_dot [OF group_bounds(5) [OF group_bounds(3)]]
  b64_digit_not_dot [OF group_bounds(6)] b64_digit_not_dot [OF group_bounds(7)]
  b64_digit_not_dot [OF mod_less_divisor [of 64]]

lemma b64_encode_no_dot: "CHR ''.'' \<notin> set (b64_encode s)"
  by (induction s rule: b64_encode.induct) (simp_all add: Let_def group_not_dot)

end
