(* ===== verification/Errors.thy ===== *)
theory Errors
  imports GoLib
begin

text \<open>
  The errors of the services (\<^verbatim>\<open>pkg/errors.go\<close>): OAuth errors with an RFC 6749 code, application
  errors with a code of this API, both with an HTTP status, and the plain errors of the database
  driver that a service passes through. A fallible operation returns \<open>err + 'a\<close>.
\<close>

datatype err =
    OAuthError (oauth_code: string) (oauth_desc: string) (oauth_status: nat)
  | AppError (app_message: string) (app_code: string) (app_status: nat)
  | DriverError string

type_synonym 'a res = "err + 'a"

text \<open>The methods \<^verbatim>\<open>Error()\<close>.\<close>

fun err_text :: "err \<Rightarrow> string" where
  "err_text (OAuthError code desc status) = (if desc \<noteq> [] then code @ '': '' @ desc else code)"
| "err_text (AppError msg code status) = msg"
| "err_text (DriverError s) = s"

definition ErrInvalidRequest :: "string \<Rightarrow> err" where
  "ErrInvalidRequest d = OAuthError ''invalid_request'' d 400"

definition ErrUnauthorizedClient :: "string \<Rightarrow> err" where
  "ErrUnauthorizedClient d = OAuthError ''unauthorized_client'' d 403"

definition ErrAccessDenied :: "string \<Rightarrow> err" where
  "ErrAccessDenied d = OAuthError ''access_denied'' d 403"

definition ErrUnsupportedResponseType :: "string \<Rightarrow> err" where
  "ErrUnsupportedResponseType d = OAuthError ''unsupported_response_type'' d 400"

definition ErrInvalidScope :: "string \<Rightarrow> err" where
  "ErrInvalidScope d = OAuthError ''invalid_scope'' d 400"

definition ErrServerError :: "string \<Rightarrow> err" where
  "ErrServerError d = OAuthError ''server_error'' d 500"

definition ErrUnsupportedGrantType :: "string \<Rightarrow> err" where
  "ErrUnsupportedGrantType d = OAuthError ''unsupported_grant_type'' d 400"

definition ErrInvalidGrant :: "string \<Rightarrow> err" where
  "ErrInvalidGrant d = OAuthError ''invalid_grant'' d 400"

definition ErrInvalidClient :: "string \<Rightarrow> err" where
  "ErrInvalidClient d = OAuthError ''invalid_client'' d 401"

definition ErrAuthorizationPending :: err where
  "ErrAuthorizationPending =
     OAuthError ''authorization_pending'' ''authorization request is still pending'' 400"

definition ErrSlowDown :: err where
  "ErrSlowDown = OAuthError ''slow_down'' ''polling too frequently'' 400"

definition ErrExpiredToken :: "string \<Rightarrow> err" where
  "ErrExpiredToken d = OAuthError ''expired_token'' d 400"

definition ErrLoginRequired :: "string \<Rightarrow> err" where
  "ErrLoginRequired d = OAuthError ''login_required'' d 400"

definition ErrConsentRequired :: "string \<Rightarrow> err" where
  "ErrConsentRequired d = OAuthError ''consent_required'' d 400"

definition ErrAccountSelectionRequired :: "string \<Rightarrow> err" where
  "ErrAccountSelectionRequired d = OAuthError ''account_selection_required'' d 400"

definition ErrBadRequest :: "string \<Rightarrow> err" where
  "ErrBadRequest m = AppError m ''bad_request'' 400"

definition ErrNotFound :: "string \<Rightarrow> err" where
  "ErrNotFound m = AppError m ''not_found'' 404"

definition ErrUnauthorized :: "string \<Rightarrow> err" where
  "ErrUnauthorized m = AppError m ''unauthorized'' 401"

definition ErrForbidden :: "string \<Rightarrow> err" where
  "ErrForbidden m = AppError m ''forbidden'' 403"

definition ErrConflict :: "string \<Rightarrow> err" where
  "ErrConflict m = AppError m ''conflict'' 409"

definition ErrInternal :: "string \<Rightarrow> err" where
  "ErrInternal m = AppError m ''internal_error'' 500"

definition ErrAccountLocked :: "string \<Rightarrow> err" where
  "ErrAccountLocked m = AppError m ''account_locked'' 403"

definition ErrEmailNotVerified :: "string \<Rightarrow> err" where
  "ErrEmailNotVerified m = AppError m ''email_not_verified'' 403"

lemmas err_defs = ErrInvalidRequest_def ErrUnauthorizedClient_def ErrAccessDenied_def
  ErrUnsupportedResponseType_def ErrInvalidScope_def ErrServerError_def
  ErrUnsupportedGrantType_def ErrInvalidGrant_def ErrInvalidClient_def
  ErrAuthorizationPending_def ErrSlowDown_def ErrExpiredToken_def ErrLoginRequired_def
  ErrConsentRequired_def ErrAccountSelectionRequired_def ErrBadRequest_def ErrNotFound_def
  ErrUnauthorized_def ErrForbidden_def ErrConflict_def ErrInternal_def ErrAccountLocked_def
  ErrEmailNotVerified_def

end
