(* ===== verification/Model.thy ===== *)
theory Model
  imports Complex_Main Errors
begin

text \<open>
  The rows of the database (package \<^verbatim>\<open>model\<close>), one record per Go struct with its fields in the
  source's order (columns that no modelled operation reads are left out of \<open>user\<close> and
  \<open>client\<close>), and the methods the structs carry. A nullable column (a Go pointer) is an
  option. Methods that read \<^verbatim>\<open>time.Now()\<close> take that instant as their last argument.
\<close>

section \<open>Untyped JSON values\<close>

text \<open>What Go's \<^verbatim>\<open>encoding/json\<close> decodes into an \<^verbatim>\<open>any\<close>, and the typed slices the services store in
  one. A map with string keys is an association list.\<close>

datatype any =
    ANil
  | ABool bool
  | AInt int
  | AFloat rat
  | ANumber string
  | AStr string
  | AStrings "string list"
  | AArr "any list"
  | AObj "(string \<times> any) list"

type_synonym any_map = "(string \<times> any) list"

section \<open>Identifiers\<close>

datatype uuid = UUID nat

definition uuid_nil :: uuid where
  "uuid_nil = UUID 0"

instantiation uuid :: linorder
begin

definition less_eq_uuid :: "uuid \<Rightarrow> uuid \<Rightarrow> bool" where
  "less_eq_uuid a b = (case (a, b) of (UUID m, UUID n) \<Rightarrow> m \<le> n)"

definition less_uuid :: "uuid \<Rightarrow> uuid \<Rightarrow> bool" where
  "less_uuid a b = (case (a, b) of (UUID m, UUID n) \<Rightarrow> m < n)"

instance
  by standard (auto simp: less_eq_uuid_def less_uuid_def split: uuid.splits)

end

section \<open>Clients\<close>

record client =
  cl_id :: uuid
  cl_created_at :: time
  cl_secret_hash :: "string option"
  cl_name :: string
  cl_description :: "string option"
  cl_redirect_uris :: "string list"
  cl_grant_types :: "string list"
  cl_response_types :: "string list"
  cl_scopes :: "string list"
  cl_token_auth_method :: string
  cl_is_public :: bool
  cl_is_first_party :: bool
  cl_require_pkce :: bool
  cl_jwks_uri :: "string option"
  cl_request_uris :: "string list"
  cl_access_token_ttl :: int
  cl_refresh_token_ttl :: int
  cl_id_token_ttl :: int
  cl_post_logout_redirect_uris :: "string list"
  cl_backchannel_logout_uri :: "string option"
  cl_backchannel_logout_session_req :: bool
  cl_frontchannel_logout_uri :: "string option"
  cl_frontchannel_logout_session_req :: bool
  cl_subject_type :: string
  cl_sector_identifier_uri :: "string option"
  cl_userinfo_signed_alg :: "string option"
  cl_id_token_enc_alg :: "string option"
  cl_id_token_enc_enc :: "string option"
  cl_userinfo_enc_alg :: "string option"
  cl_userinfo_enc_enc :: "string option"
  cl_secret_hmac_key :: string
  cl_rat_hash :: "string option"
  cl_rat_expires_at :: "time option"
  cl_active :: bool

definition blank_client :: client where
  "blank_client = \<lparr>cl_id = uuid_nil, cl_created_at = 0, cl_secret_hash = None, cl_name = [], cl_description = None,
     cl_redirect_uris = [], cl_grant_types = [], cl_response_types = [], cl_scopes = [],
     cl_token_auth_method = [], cl_is_public = False, cl_is_first_party = False, cl_require_pkce = False,
     cl_jwks_uri = None, cl_request_uris = [], cl_access_token_ttl = 0, cl_refresh_token_ttl = 0,
     cl_id_token_ttl = 0, cl_post_logout_redirect_uris = [], cl_backchannel_logout_uri = None,
     cl_backchannel_logout_session_req = False, cl_frontchannel_logout_uri = None,
     cl_frontchannel_logout_session_req = False, cl_subject_type = [], cl_sector_identifier_uri = None,
     cl_userinfo_signed_alg = None, cl_id_token_enc_alg = None, cl_id_token_enc_enc = None,
     cl_userinfo_enc_alg = None, cl_userinfo_enc_enc = None, cl_secret_hmac_key = [], cl_rat_hash = None,
     cl_rat_expires_at = None, cl_active = False\<rparr>"

definition HasGrantType :: "client \<Rightarrow> string \<Rightarrow> bool" where
  "HasGrantType c g = List.member (cl_grant_types c) g"

definition HasScope :: "client \<Rightarrow> string \<Rightarrow> bool" where
  "HasScope c s = List.member (cl_scopes c) s"

definition HasRedirectURI :: "client \<Rightarrow> string \<Rightarrow> bool" where
  "HasRedirectURI c u = List.member (cl_redirect_uris c) u"

definition HasPostLogoutRedirectURI :: "client \<Rightarrow> string \<Rightarrow> bool" where
  "HasPostLogoutRedirectURI c u = List.member (cl_post_logout_redirect_uris c) u"

definition HasRequestURI :: "client \<Rightarrow> string \<Rightarrow> bool" where
  "HasRequestURI c u = List.member (cl_request_uris c) u"

definition ValidateScopes :: "client \<Rightarrow> string list \<Rightarrow> string list" where
  "ValidateScopes c requested =
     (if requested = [] then cl_scopes c else filter (HasScope c) requested)"

lemma ValidateScopes_subset: "set (ValidateScopes c req) \<subseteq> set (cl_scopes c)"
  by (auto simp: ValidateScopes_def HasScope_def)

lemma ValidateScopes_requested: "req \<noteq> [] \<Longrightarrow> set (ValidateScopes c req) \<subseteq> set req"
  by (auto simp: ValidateScopes_def)

section \<open>Authorization requests, codes and tokens\<close>

record auth_request =
  ar_id :: uuid
  ar_client_id :: uuid
  ar_redirect_uri :: string
  ar_response_type :: string
  ar_scopes :: "string list"
  ar_state :: "string option"
  ar_nonce :: "string option"
  ar_code_challenge :: "string option"
  ar_code_challenge_method :: "string option"
  ar_user_id :: "uuid option"
  ar_authenticated :: bool
  ar_consent_given :: bool
  ar_audience :: "string option"
  ar_prompt :: "string option"
  ar_max_age :: "int option"
  ar_display :: "string option"
  ar_ui_locales :: "string option"
  ar_claims_locales :: "string option"
  ar_acr_values :: "string option"
  ar_login_hint :: "string option"
  ar_claims_param :: "string option"
  ar_id_token_hint :: "string option"
  ar_auth_time :: "time option"
  ar_response_mode :: "string option"
  ar_auth_methods :: "string list"
  ar_remember_me :: bool
  ar_expires_at :: time

definition ar_IsExpired :: "auth_request \<Rightarrow> time \<Rightarrow> bool" where
  "ar_IsExpired r now \<longleftrightarrow> ar_expires_at r < now"

definition ar_IsReady :: "auth_request \<Rightarrow> time \<Rightarrow> bool" where
  "ar_IsReady r now \<longleftrightarrow> ar_authenticated r \<and> ar_consent_given r \<and> \<not> ar_IsExpired r now"

record auth_code =
  ac_code_hash :: string
  ac_client_id :: uuid
  ac_user_id :: uuid
  ac_redirect_uri :: string
  ac_scopes :: "string list"
  ac_code_challenge :: "string option"
  ac_code_challenge_method :: "string option"
  ac_nonce :: "string option"
  ac_session_id :: "uuid option"
  ac_audience :: "string option"
  ac_claims_param :: "string option"
  ac_auth_time :: "time option"
  ac_auth_methods :: "string list"
  ac_expires_at :: time
  ac_used :: bool
  ac_created_at :: time

definition ac_IsValid :: "auth_code \<Rightarrow> time \<Rightarrow> bool" where
  "ac_IsValid c now \<longleftrightarrow> \<not> ac_used c \<and> ac_expires_at c > now"

definition HasPKCE :: "auth_code \<Rightarrow> bool" where
  "HasPKCE c = (case ac_code_challenge c of None \<Rightarrow> False | Some ch \<Rightarrow> ch \<noteq> [])"

record access_token =
  at_id :: string
  at_client_id :: uuid
  at_user_id :: "uuid option"
  at_session_id :: "uuid option"
  at_refresh_token_id :: "string option"
  at_scopes :: "string list"
  at_audience :: "string option"
  at_jti :: "string option"
  at_expires_at :: time
  at_revoked :: bool
  at_created_at :: time

definition at_IsValid :: "access_token \<Rightarrow> time \<Rightarrow> bool" where
  "at_IsValid t now \<longleftrightarrow> \<not> at_revoked t \<and> at_expires_at t > now"

record refresh_token =
  rt_id :: string
  rt_client_id :: uuid
  rt_user_id :: uuid
  rt_session_id :: uuid
  rt_scopes :: "string list"
  rt_audience :: "string option"
  rt_family_id :: uuid
  rt_parent_id :: "string option"
  rt_expires_at :: time
  rt_revoked :: bool
  rt_rotated_at :: "time option"
  rt_created_at :: time

definition WasRotated :: "refresh_token \<Rightarrow> bool" where
  "WasRotated t \<longleftrightarrow> rt_rotated_at t \<noteq> None"

definition rt_IsValid :: "refresh_token \<Rightarrow> time \<Rightarrow> bool" where
  "rt_IsValid t now \<longleftrightarrow> \<not> rt_revoked t \<and> rt_rotated_at t = None \<and> rt_expires_at t > now"

record consent =
  co_id :: uuid
  co_user_id :: uuid
  co_client_id :: uuid
  co_scopes :: "string list"
  co_granted_at :: time
  co_revoked_at :: "time option"

definition co_IsActive :: "consent \<Rightarrow> bool" where
  "co_IsActive c \<longleftrightarrow> co_revoked_at c = None"

definition CoversScopes :: "consent \<Rightarrow> string list \<Rightarrow> bool" where
  "CoversScopes c requested = list_all (List.member (co_scopes c)) requested"

lemma CoversScopes_iff: "CoversScopes c req \<longleftrightarrow> set req \<subseteq> set (co_scopes c)"
  by (auto simp: CoversScopes_def list_all_iff)

record device_code =
  dc_hash :: string
  dc_user_code :: string
  dc_client_id :: uuid
  dc_scopes :: "string list"
  dc_user_id :: "uuid option"
  dc_session_id :: "uuid option"
  dc_audience :: "string option"
  dc_status :: string
  dc_interval_secs :: int
  dc_expires_at :: time
  dc_last_polled_at :: "time option"
  dc_created_at :: time

definition dc_IsExpired :: "device_code \<Rightarrow> time \<Rightarrow> bool" where
  "dc_IsExpired d now \<longleftrightarrow> dc_expires_at d < now"

record revoked_jti =
  rj_jti :: string
  rj_expires_at :: time

section \<open>Users, sessions and second factors\<close>

record session =
  se_id :: uuid
  se_user_id :: uuid
  se_ip_address :: "string option"
  se_user_agent :: "string option"
  se_last_active_at :: time
  se_authenticated_at :: time
  se_revoked :: bool
  se_revoked_at :: "time option"
  se_expires_at :: time
  se_extended :: bool
  se_cookie_token_hash :: string

definition se_IsActive :: "session \<Rightarrow> time \<Rightarrow> bool" where
  "se_IsActive s now \<longleftrightarrow> \<not> se_revoked s \<and> se_expires_at s > now"

record user =
  us_id :: uuid
  us_email :: string
  us_email_verified :: bool
  us_email_verify_token :: "string option"
  us_email_verify_expires_at :: "time option"
  us_password_hash :: "string option"
  us_must_set_password :: bool
  us_password_reset_token :: "string option"
  us_password_reset_expires_at :: "time option"
  us_display_name :: "string option"
  us_avatar_url :: "string option"
  us_phone :: "string option"
  us_locked_until :: "time option"
  us_failed_login_attempts :: int
  us_active :: bool
  us_metadata :: any_map
  us_deleted_at :: "time option"
  us_deletion_token :: "string option"
  us_deletion_purge_after :: "time option"
  us_email_change_new :: "string option"
  us_email_change_token :: "string option"
  us_email_change_expires_at :: "time option"
  us_created_at :: time
  us_updated_at :: time

text \<open>A fresh \<^verbatim>\<open>model.User\<close>: every column zero.\<close>

definition blank_user :: user where
  "blank_user = \<lparr>us_id = uuid_nil, us_email = [], us_email_verified = False,
     us_email_verify_token = None, us_email_verify_expires_at = None, us_password_hash = None,
     us_must_set_password = False, us_password_reset_token = None, us_password_reset_expires_at = None,
     us_display_name = None, us_avatar_url = None, us_phone = None, us_locked_until = None,
     us_failed_login_attempts = 0, us_active = False, us_metadata = [], us_deleted_at = None,
     us_deletion_token = None, us_deletion_purge_after = None, us_email_change_new = None,
     us_email_change_token = None, us_email_change_expires_at = None, us_created_at = 0, us_updated_at = 0\<rparr>"

definition us_IsLocked :: "user \<Rightarrow> time \<Rightarrow> bool" where
  "us_IsLocked u now = (case us_locked_until u of None \<Rightarrow> False | Some t \<Rightarrow> t > now)"

definition IsPendingDeletion :: "user \<Rightarrow> time \<Rightarrow> bool" where
  "IsPendingDeletion u now =
     (us_deleted_at u \<noteq> None \<and>
      (case us_deletion_purge_after u of None \<Rightarrow> False | Some t \<Rightarrow> t > now))"

record invitation =
  iv_id :: uuid
  iv_email :: string
  iv_token :: string
  iv_role_ids :: "string list"
  iv_invited_by :: uuid
  iv_used :: bool
  iv_used_at :: "time option"
  iv_expires_at :: time
  iv_created_at :: time

definition iv_IsExpired :: "invitation \<Rightarrow> time \<Rightarrow> bool" where
  "iv_IsExpired i now \<longleftrightarrow> iv_expires_at i < now"

record reauth_token =
  ra_id :: string
  ra_user_id :: uuid
  ra_session_id :: uuid
  ra_method :: string
  ra_used :: bool
  ra_used_at :: "time option"
  ra_consumed_by :: "string option"
  ra_expires_at :: time

record reg_field =
  rf_id :: uuid
  rf_key :: string
  rf_label :: string
  rf_description :: "string option"
  rf_placeholder :: "string option"
  rf_kind :: string
  rf_standard_target :: "string option"
  rf_type :: string
  rf_required :: bool
  rf_enabled :: bool
  rf_display_order :: int
  rf_options :: string
  rf_validation :: string
  rf_applies_to :: "string list"

record policy =
  po_id :: uuid
  po_name :: string
  po_description :: "string option"
  po_type :: string
  po_rego :: string
  po_version :: int
  po_active :: bool
  po_priority :: int

record mfa_method =
  mf_id :: uuid
  mf_user_id :: uuid
  mf_type :: string
  mf_secret :: string
  mf_verified :: bool
  mf_backup_codes :: "string list"
  mf_last_used_totp_step :: int

section \<open>API resources\<close>

record permission =
  pm_id :: uuid
  pm_resource_id :: uuid
  pm_name :: string
  pm_description :: "string option"

record api_resource =
  res_id :: uuid
  res_name :: string
  res_identifier :: string
  res_description :: "string option"
  res_signing_alg :: string
  res_token_format :: string
  res_access_token_ttl :: int
  res_active :: bool
  res_permissions :: "permission list"

definition EmitsJWTAccessTokens :: "api_resource \<Rightarrow> bool" where
  "EmitsJWTAccessTokens r \<longleftrightarrow> res_token_format r = ''jwt''"

section \<open>Parameters of an authorization request (\<^verbatim>\<open>oauth.InitAuthorizeParams\<close>)\<close>

record authorize_params =
  p_redirect_uri :: string
  p_response_type :: string
  p_scope :: string
  p_state :: string
  p_nonce :: string
  p_code_challenge :: string
  p_code_challenge_method :: string
  p_audience :: string
  p_prompt :: string
  p_max_age :: string
  p_display :: string
  p_ui_locales :: string
  p_claims_locales :: string
  p_acr_values :: string
  p_login_hint :: string
  p_claims :: string
  p_id_token_hint :: string
  p_response_mode :: string
  p_session_cookie :: string

definition empty_params :: authorize_params where
  "empty_params = \<lparr>p_redirect_uri = [], p_response_type = [], p_scope = [], p_state = [],
     p_nonce = [], p_code_challenge = [], p_code_challenge_method = [], p_audience = [],
     p_prompt = [], p_max_age = [], p_display = [], p_ui_locales = [], p_claims_locales = [],
     p_acr_values = [], p_login_hint = [], p_claims = [], p_id_token_hint = [],
     p_response_mode = [], p_session_cookie = []\<rparr>"

record par_request =
  pr_request_uri :: string
  pr_client_id :: uuid
  pr_params :: string
  pr_expires_at :: time

text \<open>A Go string field that is stored only when it is not empty.\<close>

definition non_empty :: "string \<Rightarrow> string option" where
  "non_empty s = (if s = [] then None else Some s)"

lemma non_empty_Some [simp]: "non_empty s = Some t \<longleftrightarrow> s = t \<and> t \<noteq> []"
  by (auto simp: non_empty_def)

section \<open>Signing keys, federation, passkeys and queued mail\<close>

record signing_key =
  sk_id :: uuid
  sk_private_key_pem :: string
  sk_public_key_pem :: string
  sk_algorithm :: string
  sk_active :: bool
  sk_expires_at :: "time option"
  sk_created_at :: time

record fed_provider =
  fp_id :: uuid
  fp_name :: string
  fp_display_name :: "string option"
  fp_type :: string
  fp_client_id :: string
  fp_client_secret :: "string option"
  fp_client_secret_encrypted :: string
  fp_issuer_url :: "string option"
  fp_authorization_url :: "string option"
  fp_token_url :: "string option"
  fp_userinfo_url :: "string option"
  fp_jwks_uri :: "string option"
  fp_scopes :: "string list"
  fp_attribute_mapper :: "any option"
  fp_sync_on_login :: bool
  fp_allow_link_confirmation :: bool
  fp_active :: bool
  fp_updated_at :: time

record fed_link =
  fl_id :: uuid
  fl_user_id :: uuid
  fl_provider_id :: uuid
  fl_external_id :: string
  fl_email :: "string option"
  fl_metadata :: any_map

record fed_request =
  fr_state :: string
  fr_provider_id :: uuid
  fr_code_verifier :: string
  fr_nonce :: string
  fr_return_to :: "string option"
  fr_oauth_request_id :: "uuid option"
  fr_invitation_token :: "string option"
  fr_link_user_id :: "uuid option"
  fr_ip_address :: "string option"
  fr_user_agent :: "string option"
  fr_expires_at :: time

record fed_pending_link =
  fk_token_hash :: string
  fk_user_id :: uuid
  fk_provider_id :: uuid
  fk_external_id :: string
  fk_email :: "string option"
  fk_raw_claims :: any_map
  fk_oauth_request_id :: "uuid option"
  fk_return_to :: "string option"
  fk_ip_address :: "string option"
  fk_user_agent :: "string option"
  fk_expires_at :: time

record fed_pending_signup =
  fs_token_hash :: string
  fs_provider_id :: uuid
  fs_external_id :: string
  fs_email :: string
  fs_email_verified :: bool
  fs_display_name :: "string option"
  fs_avatar_url :: "string option"
  fs_raw_claims :: any_map
  fs_oauth_request_id :: "uuid option"
  fs_return_to :: "string option"
  fs_invitation_token :: "string option"
  fs_ip_address :: "string option"
  fs_user_agent :: "string option"
  fs_expires_at :: time

record passkey =
  pk_id :: uuid
  pk_user_id :: uuid
  pk_credential_id :: string
  pk_public_key :: string
  pk_attestation_type :: string
  pk_aaguid :: string
  pk_sign_count :: nat
  pk_transports :: "string list"
  pk_flags :: nat
  pk_clone_warning :: bool
  pk_name :: string
  pk_last_used_at :: "time option"
  pk_created_at :: time

record passkey_challenge =
  pc_id :: uuid
  pc_user_id :: "uuid option"
  pc_purpose :: string
  pc_session_data :: string
  pc_expires_at :: time

definition pc_IsExpired :: "passkey_challenge \<Rightarrow> time \<Rightarrow> bool" where
  "pc_IsExpired c now \<longleftrightarrow> pc_expires_at c < now"

text \<open>A message: recipient, template, the secret and the address it mentions. The subject and body
  of a queued row are what the templates make of it.\<close>

record mail =
  ml_to :: string
  ml_kind :: string
  ml_token :: string
  ml_new_email :: string

record outbound_email =
  oe_id :: uuid
  oe_recipient :: string
  oe_subject :: string
  oe_body_html :: string
  oe_status :: string
  oe_attempts :: int
  oe_max_attempts :: int
  oe_next_retry_at :: time
  oe_last_error :: "string option"
  oe_created_at :: time
  oe_sent_at :: "time option"

end
