(* ===== verification/Scopes.thy ===== *)
theory Scopes
  imports Model
begin

text \<open>
  The pure helpers of \<^verbatim>\<open>oauth/service.go\<close>: parsing, printing, filtering, splitting and joining of
  scope lists, response types, the authentication context class, and the PKCE and token-hash
  computations, which take SHA-256 as the parameter \<open>sha\<close>.
\<close>

section \<open>Space-delimited lists\<close>

text \<open>The loop of \<^verbatim>\<open>splitBySpace\<close>: \<open>cur\<close> is the piece \<^verbatim>\<open>s[start:i]\<close> read so far.\<close>

fun splitBySpace_loop :: "string \<Rightarrow> string \<Rightarrow> string list" where
  "splitBySpace_loop cur [] = (if cur \<noteq> [] then [cur] else [])"
| "splitBySpace_loop cur (c # cs) =
     (if c = CHR '' '' then (if cur \<noteq> [] then cur # splitBySpace_loop [] cs else splitBySpace_loop [] cs)
      else splitBySpace_loop (cur @ [c]) cs)"

definition splitBySpace :: "string \<Rightarrow> string list" where
  "splitBySpace s = splitBySpace_loop [] s"

definition parseSpaceDelimited :: "string \<Rightarrow> string list" where
  "parseSpaceDelimited s = (if s = [] then [] else filter (\<lambda>part. part \<noteq> []) (splitBySpace s))"

fun joinScopes :: "string list \<Rightarrow> string" where
  "joinScopes [] = []"
| "joinScopes [s] = s"
| "joinScopes (s # t # ts) = s @ '' '' @ joinScopes (t # ts)"

definition scope_token :: "string \<Rightarrow> bool" where
  "scope_token s \<longleftrightarrow> s \<noteq> [] \<and> CHR '' '' \<notin> set s"

lemma split_loop_word:
  "CHR '' '' \<notin> set w \<Longrightarrow> splitBySpace_loop cur (w @ rest) = splitBySpace_loop (cur @ w) rest"
  by (induction w arbitrary: cur) auto

lemma split_loop_tokens:
  "CHR '' '' \<notin> set cur \<Longrightarrow> list_all scope_token (splitBySpace_loop cur s)"
  by (induction cur s rule: splitBySpace_loop.induct) (auto simp: scope_token_def)

lemma parse_tokens: "list_all scope_token (parseSpaceDelimited s)"
  using split_loop_tokens [of "[]" s]
  by (auto simp: parseSpaceDelimited_def splitBySpace_def list_all_iff)

lemma split_join: "list_all scope_token xs \<Longrightarrow> splitBySpace_loop [] (joinScopes xs) = xs"
proof (induction xs rule: joinScopes.induct)
  case 1
  then show ?case by simp
next
  case (2 s)
  then show ?case using split_loop_word [of s "[]" "[]"] by (simp add: scope_token_def)
next
  case (3 s t ts)
  then show ?case
    using split_loop_word [of s "[]" "'' '' @ joinScopes (t # ts)"] by (simp add: scope_token_def)
qed

lemma joinScopes_Nil_iff: "list_all scope_token xs \<Longrightarrow> joinScopes xs = [] \<longleftrightarrow> xs = []"
  by (cases xs rule: joinScopes.cases) (auto simp: scope_token_def)

text \<open>Printing a list of scope tokens and parsing it again is the identity.\<close>

lemma parse_join_tokens:
  assumes "list_all scope_token xs"
  shows "parseSpaceDelimited (joinScopes xs) = xs"
proof (cases "xs = []")
  case True
  then show ?thesis by (simp add: parseSpaceDelimited_def)
next
  case False
  then have "joinScopes xs \<noteq> []" using assms joinScopes_Nil_iff by simp
  moreover have "filter (\<lambda>part. part \<noteq> []) xs = xs"
    using assms by (auto simp: filter_id_conv list_all_iff scope_token_def)
  ultimately show ?thesis
    using split_join [OF assms] by (simp add: parseSpaceDelimited_def splitBySpace_def)
qed

section \<open>Set operations that keep order\<close>

definition containsScope :: "string list \<Rightarrow> string \<Rightarrow> bool" where
  "containsScope scopes target = List.member scopes target"

definition filterScopes :: "string list \<Rightarrow> string list \<Rightarrow> string list" where
  "filterScopes requested allowed = filter (List.member allowed) requested"

fun add_unseen :: "string list \<Rightarrow> string list \<Rightarrow> string list" where
  "add_unseen acc [] = acc"
| "add_unseen acc (s # ss) = add_unseen (if List.member acc s then acc else acc @ [s]) ss"

definition unionScopes :: "string list \<Rightarrow> string list \<Rightarrow> string list" where
  "unionScopes a b = add_unseen (add_unseen [] a) b"

definition splitResourceScopes :: "string list \<Rightarrow> permission list \<Rightarrow> string list \<times> string list" where
  "splitResourceScopes scopes perms =
     (if perms = [] then ([], scopes)
      else (filter (List.member (map pm_name perms)) scopes,
            filter (\<lambda>s. \<not> List.member (map pm_name perms) s) scopes))"

lemma filterScopes_set: "set (filterScopes req allowed) = set req \<inter> set allowed"
  by (auto simp: filterScopes_def)

lemma set_add_unseen: "set (add_unseen acc ss) = set acc \<union> set ss"
  by (induction acc ss rule: add_unseen.induct) auto

lemma distinct_add_unseen: "distinct acc \<Longrightarrow> distinct (add_unseen acc ss)"
  by (induction acc ss rule: add_unseen.induct) auto

lemma add_unseen_prefix: "\<exists>t. add_unseen acc ss = acc @ t"
proof (induction acc ss rule: add_unseen.induct)
  case (1 acc)
  then show ?case by simp
next
  case (2 acc s ss)
  then show ?case by (auto split: if_splits)
qed

lemma set_unionScopes [simp]: "set (unionScopes a b) = set a \<union> set b"
  by (simp add: unionScopes_def set_add_unseen)

lemma distinct_unionScopes: "distinct (unionScopes a b)"
  by (simp add: unionScopes_def distinct_add_unseen)

lemma unionScopes_Nil_iff: "unionScopes a b = [] \<longleftrightarrow> a = [] \<and> b = []"
  using set_unionScopes [of a b] by (metis Un_empty set_empty)

lemma splitResourceScopes_sets:
  "splitResourceScopes scopes perms = (res, oth) \<Longrightarrow>
     set res = set scopes \<inter> set (map pm_name perms) \<and> set oth = set scopes - set (map pm_name perms)"
  by (auto simp: splitResourceScopes_def split: if_splits)

section \<open>Response types and authentication context\<close>

definition isValidResponseType :: "string \<Rightarrow> bool" where
  "isValidResponseType rt \<longleftrightarrow>
     List.member [''code'', ''code id_token'', ''code token'', ''code id_token token''] rt"

definition isHybridResponseType :: "string \<Rightarrow> bool" where
  "isHybridResponseType rt \<longleftrightarrow> rt \<noteq> ''code'' \<and> isValidResponseType rt"

definition responseTypeIncludes :: "string \<Rightarrow> string \<Rightarrow> bool" where
  "responseTypeIncludes rt part = List.member (split_on (CHR '' '') rt) part"

lemma valid_response_type_has_code: "isValidResponseType rt \<Longrightarrow> responseTypeIncludes rt ''code''"
  by (auto simp: isValidResponseType_def responseTypeIncludes_def)

definition computeACR :: "string list \<Rightarrow> string \<times> string list" where
  "computeACR methods =
     (if methods = [] then ([], [])
      else (if List.member methods ''otp'' then ''urn:orionauth:acr:mfa'' else ''urn:orionauth:acr:pwd'',
            methods))"

section \<open>Hashes\<close>

definition HashToken :: "(string \<Rightarrow> string) \<Rightarrow> string \<Rightarrow> string" where
  "HashToken sha tok = hex_encode (sha tok)"

definition computeATHash :: "(string \<Rightarrow> string) \<Rightarrow> string \<Rightarrow> string" where
  "computeATHash sha tok = b64_encode (take 16 (sha tok))"

definition verifyPKCE :: "(string \<Rightarrow> string) \<Rightarrow> string \<Rightarrow> string \<Rightarrow> bool" where
  "verifyPKCE sha verifier challenge \<longleftrightarrow> b64_encode (sha verifier) = challenge"

text \<open>Token hashes and PKCE challenges collide only where SHA-256 does.\<close>

lemma HashToken_inject: "HashToken sha s = HashToken sha t \<longleftrightarrow> sha s = sha t"
  by (simp add: HashToken_def)

lemma verifyPKCE_unique:
  "verifyPKCE sha v ch \<Longrightarrow> verifyPKCE sha v' ch \<Longrightarrow> sha v = sha v'"
  by (metis verifyPKCE_def b64_encode_inject)

end
