(* ===== verification/PolicyInputs.thy ===== *)
theory PolicyInputs
  imports Complex_Main Scopes
begin

text \<open>
  Untyped JSON values as the policy code handles them, the readers of a policy's \<^verbatim>\<open>modify\<close> map
  (\<^verbatim>\<open>oauth/policy_modify.go\<close>), and the builders of the policy inputs (\<^verbatim>\<open>policy/inputs\<close>).
  A Go map with string keys is an association list.
\<close>

text \<open>\<^verbatim>\<open>json.Number.Int64\<close> is \<^verbatim>\<open>strconv.ParseInt\<close> on the literal.\<close>

definition trunc_rat :: "rat \<Rightarrow> int" where
  "trunc_rat r = (if 0 \<le> r then \<lfloor>r\<rfloor> else \<lceil>r\<rceil>)"

section \<open>Reading a modify map\<close>

definition readModifyBool :: "any_map \<Rightarrow> string \<Rightarrow> bool option" where
  "readModifyBool m k = (case map_of m k of Some (ABool b) \<Rightarrow> Some b | _ \<Rightarrow> None)"

definition readModifyInt :: "any_map \<Rightarrow> string \<Rightarrow> int option" where
  "readModifyInt m k =
     (case map_of m k of
        None \<Rightarrow> None
      | Some (ANumber s) \<Rightarrow> atoi s
      | Some (AFloat r) \<Rightarrow> Some (trunc_rat r)
      | Some (AInt n) \<Rightarrow> Some n
      | Some _ \<Rightarrow> None)"

fun strings_of :: "any list \<Rightarrow> string list" where
  "strings_of [] = []"
| "strings_of (AStr s # vs) = s # strings_of vs"
| "strings_of (v # vs) = strings_of vs"

definition stringSetFromAny :: "any \<Rightarrow> string list option" where
  "stringSetFromAny raw = (case raw of AArr vs \<Rightarrow> Some (strings_of vs) | _ \<Rightarrow> None)"

definition readModifyScopes :: "any_map \<Rightarrow> string list \<Rightarrow> string list option" where
  "readModifyScopes m requested =
     (case map_of m ''scopes'' of
        None \<Rightarrow> None
      | Some raw \<Rightarrow>
          (case stringSetFromAny raw of
             None \<Rightarrow> None
           | Some allowed \<Rightarrow> Some (filter (List.member allowed) requested)))"

lemma readModifyScopes_narrows: "readModifyScopes m req = Some ss \<Longrightarrow> set ss \<subseteq> set req"
  by (auto simp: readModifyScopes_def split: option.splits)

lemma readModifyScopes_length: "readModifyScopes m req = Some ss \<Longrightarrow> length ss \<le> length req"
  by (auto simp: readModifyScopes_def split: option.splits)

section \<open>Input builders\<close>

text \<open>The clock reading that every input carries: hour, weekday (0 is Sunday) and Unix time in
  the server's time zone, which is \<open>off\<close> seconds east of UTC. 1970-01-01 was a Thursday.\<close>

definition weekday_names :: "string list" where
  "weekday_names = [''Sunday'', ''Monday'', ''Tuesday'', ''Wednesday'', ''Thursday'', ''Friday'', ''Saturday'']"

definition weekday_number :: "int \<Rightarrow> time \<Rightarrow> int" where
  "weekday_number off t = ((unix t + off) div 86400 + 4) mod 7"

definition timeFields :: "int \<Rightarrow> time \<Rightarrow> any_map" where
  "timeFields off t =
     [(''hour'', AInt ((unix t + off) div 3600 mod 24)),
      (''weekday'', AStr (weekday_names ! nat (weekday_number off t))),
      (''weekday_n'', AInt (weekday_number off t)),
      (''unix'', AInt (unix t))]"

record input_env =
  ie_now :: time
  ie_zone :: int
  ie_uuid_string :: "uuid \<Rightarrow> string"

definition userFields :: "input_env \<Rightarrow> user \<Rightarrow> any_map" where
  "userFields I u =
     [(''id'', AStr (ie_uuid_string I (us_id u))), (''email'', AStr (us_email u)),
      (''email_verified'', ABool (us_email_verified u)), (''active'', ABool (us_active u))]"

definition userFieldsWithRoles :: "input_env \<Rightarrow> user \<Rightarrow> string list \<Rightarrow> string list \<Rightarrow> any_map" where
  "userFieldsWithRoles I u roles permissions =
     userFields I u @ [(''roles'', AStrings roles), (''permissions'', AStrings permissions)]"

definition clientFields :: "input_env \<Rightarrow> client \<Rightarrow> any_map" where
  "clientFields I c =
     [(''id'', AStr (ie_uuid_string I (cl_id c))), (''name'', AStr (cl_name c)),
      (''is_public'', ABool (cl_is_public c)), (''is_first_party'', ABool (cl_is_first_party c))]"

definition time_entry :: "input_env \<Rightarrow> string \<times> any" where
  "time_entry I = (''time'', AObj (timeFields (ie_zone I) (ie_now I)))"

definition client_entry :: "input_env \<Rightarrow> client option \<Rightarrow> any_map" where
  "client_entry I c = (case c of None \<Rightarrow> [] | Some c \<Rightarrow> [(''client'', AObj (clientFields I c))])"

definition user_entry :: "input_env \<Rightarrow> user option \<Rightarrow> string list \<Rightarrow> string list \<Rightarrow> any_map" where
  "user_entry I u roles perms =
     (case u of None \<Rightarrow> [] | Some u \<Rightarrow> [(''user'', AObj (userFieldsWithRoles I u roles perms))])"

definition BuildLoginInput ::
  "input_env \<Rightarrow> user \<Rightarrow> client option \<Rightarrow> string list \<Rightarrow> string list \<Rightarrow> string \<Rightarrow> string \<Rightarrow> any_map" where
  "BuildLoginInput I u c roles perms ip ua =
     [(''user'', AObj (userFieldsWithRoles I u roles perms)), (''ip_address'', AStr ip),
      (''user_agent'', AStr ua), time_entry I] @ client_entry I c"

definition BuildTokenIssuanceInput ::
  "input_env \<Rightarrow> client \<Rightarrow> user option \<Rightarrow> string list \<Rightarrow> string list \<Rightarrow> string list \<Rightarrow> string \<Rightarrow> any_map" where
  "BuildTokenIssuanceInput I c u roles perms scopes ip =
     [(''client'', AObj (clientFields I c)), (''scopes'', AStrings scopes), (''ip_address'', AStr ip),
      time_entry I] @ user_entry I u roles perms"

definition BuildRefreshInput ::
  "input_env \<Rightarrow> user option \<Rightarrow> client \<Rightarrow> string list \<Rightarrow> string list \<Rightarrow> string list \<Rightarrow> string list \<Rightarrow>
   string \<Rightarrow> string \<Rightarrow> any_map" where
  "BuildRefreshInput I u c roles perms requested granted session_id ip =
     [(''client'', AObj (clientFields I c)), (''scopes_requested'', AStrings requested),
      (''scopes_granted'', AStrings granted), (''session_id'', AStr session_id),
      (''ip_address'', AStr ip), time_entry I] @ user_entry I u roles perms"

definition BuildConsentInput ::
  "input_env \<Rightarrow> user \<Rightarrow> client \<Rightarrow> string list \<Rightarrow> string list \<Rightarrow> string list \<Rightarrow> string list \<Rightarrow>
   string \<Rightarrow> string \<Rightarrow> any_map" where
  "BuildConsentInput I u c roles perms requested granted ip ua =
     [(''user'', AObj (userFieldsWithRoles I u roles perms)), (''client'', AObj (clientFields I c)),
      (''scopes_requested'', AStrings requested), (''scopes_granted'', AStrings granted),
      (''ip_address'', AStr ip), (''user_agent'', AStr ua), time_entry I]"

definition BuildMFAInput ::
  "input_env \<Rightarrow> user \<Rightarrow> client option \<Rightarrow> string list \<Rightarrow> string list \<Rightarrow> string list \<Rightarrow> bool \<Rightarrow>
   string \<Rightarrow> string \<Rightarrow> any_map" where
  "BuildMFAInput I u c roles perms scopes hasMFA ip ua =
     [(''user'', AObj (userFieldsWithRoles I u roles perms)), (''scopes'', AStrings scopes),
      (''has_mfa'', ABool hasMFA), (''ip_address'', AStr ip), (''user_agent'', AStr ua),
      time_entry I] @ client_entry I c"

definition BuildDeviceApprovalInput ::
  "input_env \<Rightarrow> user \<Rightarrow> client option \<Rightarrow> string list \<Rightarrow> string list \<Rightarrow> string list \<Rightarrow> string \<Rightarrow>
   string \<Rightarrow> string \<Rightarrow> any_map" where
  "BuildDeviceApprovalInput I u c roles perms scopes user_code ip ua =
     [(''user'', AObj (userFieldsWithRoles I u roles perms)), (''scopes'', AStrings scopes),
      (''user_code'', AStr user_code), (''ip_address'', AStr ip), (''user_agent'', AStr ua),
      time_entry I] @ client_entry I c"

definition BuildIntrospectInput ::
  "input_env \<Rightarrow> string \<Rightarrow> string \<Rightarrow> string \<Rightarrow> string list \<Rightarrow> string option \<Rightarrow> string \<Rightarrow> string \<Rightarrow> any_map" where
  "BuildIntrospectInput I tokenType tokenClientID tokenUserID scopes audience requester ip =
     [(''token'', AObj ([(''type'', AStr tokenType), (''client_id'', AStr tokenClientID),
         (''scopes'', AStrings scopes)]
         @ (if tokenUserID \<noteq> [] then [(''user_id'', AStr tokenUserID)] else [])
         @ (case audience of None \<Rightarrow> [] | Some a \<Rightarrow> [(''audience'', AStr a)]))),
      (''requesting_client'', AObj [(''id'', AStr requester)]),
      (''ip_address'', AStr ip), time_entry I]"

definition BuildClientAuthInput ::
  "input_env \<Rightarrow> client \<Rightarrow> string \<Rightarrow> string \<Rightarrow> string \<Rightarrow> string \<Rightarrow> string \<Rightarrow> any_map" where
  "BuildClientAuthInput I c auth_method meth path ip ua =
     [(''client'', AObj (clientFields I c)), (''auth_method'', AStr auth_method),
      (''request'', AObj [(''method'', AStr meth), (''path'', AStr path)]),
      (''ip_address'', AStr ip), (''user_agent'', AStr ua), time_entry I]"

definition BuildAccountActionInput ::
  "input_env \<Rightarrow> user \<Rightarrow> string list \<Rightarrow> string list \<Rightarrow> string \<Rightarrow> bool \<Rightarrow> bool \<Rightarrow> int \<Rightarrow>
   string \<Rightarrow> string \<Rightarrow> any_map" where
  "BuildAccountActionInput I u roles perms action hasMFA hasPasskey age ip ua =
     [(''user'', AObj (userFieldsWithRoles I u roles perms)), (''action'', AStr action),
      (''has_mfa'', ABool hasMFA), (''has_passkey'', ABool hasPasskey),
      (''account_age_days'', AInt age), (''ip_address'', AStr ip), (''user_agent'', AStr ua),
      time_entry I]"

definition BuildAdminAPIInput ::
  "input_env \<Rightarrow> uuid \<Rightarrow> string list \<Rightarrow> string \<Rightarrow> string \<Rightarrow> string \<Rightarrow> any_map" where
  "BuildAdminAPIInput I user_id perms meth path ip =
     [(''user'', AObj [(''id'', AStr (ie_uuid_string I user_id)), (''permissions'', AStrings perms)]),
      (''request'', AObj [(''method'', AStr meth), (''path'', AStr path)]),
      (''ip_address'', AStr ip), time_entry I]"

lemma weekday_number_range: "0 \<le> weekday_number off t \<and> weekday_number off t < 7"
  by (simp add: weekday_number_def)

text \<open>The weekday name and number of an input always agree.\<close>

lemma timeFields_weekday:
  "map_of (timeFields off t) ''weekday'' = Some (AStr (weekday_names ! nat (weekday_number off t)))"
  "nat (weekday_number off t) < length weekday_names"
  using weekday_number_range [of off t]
  by (simp_all add: timeFields_def weekday_names_def nat_less_iff)

end
