(* ===== verification/Store.thy ===== *)
theory Store
  imports PolicyInputs
begin

text \<open>
  The environment of the services and the database. \<open>env\<close> holds what the sources take from
  outside (the two clocks, randomness, SHA-256, password hashing, TOTP, JWT signing, database
  faults) and the optional integrations of \<^verbatim>\<open>oauth.Options\<close>; \<open>db\<close> holds the tables. The second
  half is \<^verbatim>\<open>oauth/repository.go\<close>, one definition per method: each first asks the environment
  whether the statement fails, then runs the statement on the table. The keyed tables are
  interpretations of the \<open>keyed_rows\<close> interface.
\<close>

section \<open>The integrations of \<^verbatim>\<open>oauth.Options\<close>\<close>

record policy_result =
  pol_allow :: bool
  pol_deny :: bool
  pol_deny_reason :: string
  pol_modify :: "any_map option"

record resource_validator =
  rv_audience :: "string \<Rightarrow> api_resource res"
  rv_client_scopes :: "uuid \<Rightarrow> uuid \<Rightarrow> string list \<Rightarrow> string list res"
  rv_user_scopes :: "uuid \<Rightarrow> uuid \<Rightarrow> string list \<Rightarrow> string list res"

record id_token_claims =
  it_user_id :: uuid
  it_client_id :: uuid
  it_scopes :: "string list"
  it_nonce :: string
  it_auth_time :: time
  it_at_hash :: string
  it_c_hash :: string
  it_s_hash :: string
  it_ttl :: duration
  it_requested_claims :: string
  it_acr :: string
  it_amr :: "string list"
  it_subject_type :: string
  it_sector_identifier :: string
  it_extra_claims :: "any_map option"
  it_enc_jwks_uri :: string
  it_enc_alg :: string
  it_enc_enc :: string

record jwt_claims =
  jc_user_id :: "uuid option"
  jc_client_id :: uuid
  jc_scopes :: "string list"
  jc_audience :: string
  jc_ttl :: duration
  jc_extra_claims :: "any_map option"

record jwt_signer =
  js_generate :: "nat \<Rightarrow> jwt_claims \<Rightarrow> string \<Rightarrow> string + (string \<times> string)"
  js_validate :: "string \<Rightarrow> any_map option"

record role_provider =
  rp_roles :: "uuid \<Rightarrow> string list option"
  rp_permissions :: "uuid \<Rightarrow> string list option"

record auth_config =
  cfg_auth_code_ttl :: duration
  cfg_device_code_ttl :: duration
  cfg_session_ttl :: duration
  cfg_session_extended_ttl :: duration
  cfg_max_fail_attempts :: int
  cfg_lockout_duration :: duration

section \<open>Tables\<close>

record role =
  ro_id :: uuid
  ro_name :: string
  ro_description :: "string option"

record db =
  t_clients :: "client list"
  t_users :: "user list"
  t_roles :: "role list"
  t_permissions :: "(uuid \<times> string) list"
  t_role_permissions :: "(uuid \<times> uuid) list"
  t_user_roles :: "(uuid \<times> uuid) list"
  t_resources :: "api_resource list"
  t_resource_permissions :: "permission list"
  t_client_permissions :: "(uuid \<times> uuid) list"
  t_role_resource_permissions :: "(uuid \<times> uuid) list"
  t_sessions :: "session list"
  t_auth_requests :: "auth_request list"
  t_auth_codes :: "auth_code list"
  t_access_tokens :: "access_token list"
  t_refresh_tokens :: "refresh_token list"
  t_consents :: "consent list"
  t_device_codes :: "device_code list"
  t_pars :: "par_request list"
  t_revoked_jtis :: "revoked_jti list"
  t_mfa_methods :: "mfa_method list"
  t_settings :: "(string \<times> string) list"
  t_invitations :: "invitation list"
  t_reauth_tokens :: "reauth_token list"
  t_reg_fields :: "reg_field list"
  t_policies :: "policy list"
  t_outbox :: "outbound_email list"
  t_signing_keys :: "signing_key list"
  t_fed_providers :: "fed_provider list"
  t_fed_links :: "fed_link list"
  t_fed_requests :: "fed_request list"
  t_fed_pending_links :: "fed_pending_link list"
  t_fed_pending_signups :: "fed_pending_signup list"
  t_passkeys :: "passkey list"
  t_passkey_challenges :: "passkey_challenge list"
  draws :: nat

text \<open>A statement is named after its repository method.\<close>

type_synonym db_call = string

section \<open>The environment\<close>

record env =
  clk :: time
  wall :: time
  zone :: int
  cfg :: auth_config
  issuer :: string
  sha256 :: "string \<Rightarrow> string"
  rand_bytes :: "nat \<Rightarrow> nat \<Rightarrow> string option"
  rand_int :: "nat \<Rightarrow> nat \<Rightarrow> nat option"
  uuid_v7 :: "nat \<Rightarrow> uuid option"
  uuid_string :: "uuid \<Rightarrow> string"
  uuid_parse :: "string \<Rightarrow> uuid option"
  db_err :: "db_call \<Rightarrow> bool"
  rollback :: "db \<Rightarrow> db \<Rightarrow> db"
  hash_password :: "nat \<Rightarrow> string \<Rightarrow> string option"
  verify_identify :: "string \<Rightarrow> string \<Rightarrow> (bool \<times> bool) option"
  password_policy :: "string \<Rightarrow> string list \<Rightarrow> err option"
  totp_validate :: "time \<Rightarrow> string \<Rightarrow> string \<Rightarrow> bool"
  totp_generate :: "nat \<Rightarrow> string \<Rightarrow> (string \<times> string) option"
  json_valid :: "string \<Rightarrow> bool"
  marshal_params :: "authorize_params \<Rightarrow> string"
  unmarshal_params :: "string \<Rightarrow> authorize_params option"
  url_origin :: "string \<Rightarrow> string option"
  policy_evaluator :: "(string \<Rightarrow> any_map \<Rightarrow> policy_result option dbres) option"
  resource_validator :: "resource_validator option"
  id_token_gen :: "(nat \<Rightarrow> id_token_claims \<Rightarrow> string option) option"
  id_token_validator :: "(string \<Rightarrow> uuid option) option"
  jwt_signer :: "jwt_signer option"
  role_provider :: "role_provider option"
  mfa_configured :: bool
  session_ttl_resolver :: "(bool \<Rightarrow> duration) option"
  email_verification_gate :: "bool option"
  default_role :: "uuid option"
  reg_form :: "(user \<Rightarrow> any_map \<Rightarrow> string \<Rightarrow> user res) option"
  action_token_sign :: "(uuid \<Rightarrow> string \<Rightarrow> string \<Rightarrow> uuid option \<Rightarrow> time \<Rightarrow> time \<Rightarrow> string option) option"
  action_token_parse :: "string \<Rightarrow> (uuid \<times> string \<times> string \<times> uuid option) option"
  mail_sender :: "(mail \<Rightarrow> (string \<times> string) option) option"

text \<open>Named facts about code outside the repository: GORM rolls a failed transaction's tables
  back (the randomness it consumed stays consumed), \<^verbatim>\<open>google/uuid\<close> parses what it prints, and
  \<^verbatim>\<open>crypto/rand.Int\<close> stays below its bound.\<close>

definition gorm_rollback :: "env \<Rightarrow> bool" where
  "gorm_rollback E \<longleftrightarrow> (\<forall>st st'. rollback E st st' = st\<lparr>draws := draws st'\<rparr>)"

definition uuid_roundtrip :: "env \<Rightarrow> bool" where
  "uuid_roundtrip E \<longleftrightarrow> (\<forall>u. uuid_parse E (uuid_string E u) = Some u)"

definition rand_int_bounded :: "env \<Rightarrow> bool" where
  "rand_int_bounded E \<longleftrightarrow> (\<forall>n bound i. rand_int E n bound = Some i \<longrightarrow> i < bound)"

definition json_roundtrip :: "env \<Rightarrow> bool" where
  "json_roundtrip E \<longleftrightarrow> (\<forall>p. unmarshal_params E (marshal_params E p) = Some p)"

definition input_env_of :: "env \<Rightarrow> input_env" where
  "input_env_of E = \<lparr>ie_now = wall E, ie_zone = zone E, ie_uuid_string = uuid_string E\<rparr>"

section \<open>Randomness\<close>

definition bump :: "db \<Rightarrow> db" where
  "bump st = st\<lparr>draws := Suc (draws st)\<rparr>"

definition new_uuid :: "env \<Rightarrow> db \<Rightarrow> uuid option \<times> db" where
  "new_uuid E st = (uuid_v7 E (draws st), bump st)"

definition GenerateOpaqueToken :: "env \<Rightarrow> db \<Rightarrow> (string \<times> string) option \<times> db" where
  "GenerateOpaqueToken E st =
     (case rand_bytes E (draws st) 32 of
        None \<Rightarrow> (None, bump st)
      | Some b \<Rightarrow> (Some (b64_encode b, HashToken (sha256 E) (b64_encode b)), bump st))"

definition GenerateRandomString :: "env \<Rightarrow> nat \<Rightarrow> db \<Rightarrow> string option \<times> db" where
  "GenerateRandomString E n st = (map_option b64_encode (rand_bytes E (draws st) n), bump st)"

lemma GenerateOpaqueToken_SomeD:
  "GenerateOpaqueToken E st = (Some (raw, h), st') \<Longrightarrow>
     h = HashToken (sha256 E) raw \<and> st' = bump st \<and> CHR ''.'' \<notin> set raw"
  by (auto simp: GenerateOpaqueToken_def b64_encode_no_dot split: option.splits)

lemma GenerateOpaqueToken_state: "snd (GenerateOpaqueToken E st) = bump st"
  by (simp add: GenerateOpaqueToken_def split: option.splits)

section \<open>Rows of the keyed tables\<close>

definition request_row :: "db \<Rightarrow> uuid \<Rightarrow> auth_request option" where
  "request_row st i = first_where (\<lambda>r. ar_id r = i) (t_auth_requests st)"

definition code_row :: "db \<Rightarrow> string \<Rightarrow> auth_code option" where
  "code_row st h = first_where (\<lambda>c. ac_code_hash c = h) (t_auth_codes st)"

definition access_row :: "db \<Rightarrow> string \<Rightarrow> access_token option" where
  "access_row st i = first_where (\<lambda>t. at_id t = i) (t_access_tokens st)"

definition refresh_row :: "db \<Rightarrow> string \<Rightarrow> refresh_token option" where
  "refresh_row st i = first_where (\<lambda>t. rt_id t = i) (t_refresh_tokens st)"

definition device_row :: "db \<Rightarrow> string \<Rightarrow> device_code option" where
  "device_row st h = first_where (\<lambda>d. dc_hash d = h) (t_device_codes st)"

definition par_row :: "db \<Rightarrow> string \<Rightarrow> par_request option" where
  "par_row st u = first_where (\<lambda>p. pr_request_uri p = u) (t_pars st)"

definition add_request :: "db \<Rightarrow> auth_request \<Rightarrow> db option" where
  "add_request st r = map_option (\<lambda>t. st\<lparr>t_auth_requests := t\<rparr>) (insert_row ar_id r (t_auth_requests st))"

definition add_code :: "db \<Rightarrow> auth_code \<Rightarrow> db option" where
  "add_code st r = map_option (\<lambda>t. st\<lparr>t_auth_codes := t\<rparr>) (insert_row ac_code_hash r (t_auth_codes st))"

definition add_access :: "db \<Rightarrow> access_token \<Rightarrow> db option" where
  "add_access st r = map_option (\<lambda>t. st\<lparr>t_access_tokens := t\<rparr>) (insert_row at_id r (t_access_tokens st))"

definition add_refresh :: "db \<Rightarrow> refresh_token \<Rightarrow> db option" where
  "add_refresh st r = map_option (\<lambda>t. st\<lparr>t_refresh_tokens := t\<rparr>) (insert_row rt_id r (t_refresh_tokens st))"

definition use_code :: "db \<Rightarrow> string \<Rightarrow> db" where
  "use_code st h = st\<lparr>t_auth_codes :=
     update_where (\<lambda>c. ac_code_hash c = h) (\<lambda>c. c\<lparr>ac_used := True\<rparr>) (t_auth_codes st)\<rparr>"

definition revoke_access :: "db \<Rightarrow> string \<Rightarrow> db" where
  "revoke_access st i = st\<lparr>t_access_tokens :=
     update_where (\<lambda>t. at_id t = i) (\<lambda>t. t\<lparr>at_revoked := True\<rparr>) (t_access_tokens st)\<rparr>"

definition rotate_refresh :: "time \<Rightarrow> db \<Rightarrow> string \<Rightarrow> db" where
  "rotate_refresh now st i = st\<lparr>t_refresh_tokens :=
     update_where (\<lambda>t. rt_id t = i) (\<lambda>t. t\<lparr>rt_rotated_at := Some now\<rparr>) (t_refresh_tokens st)\<rparr>"

section \<open>Repository methods (\<^verbatim>\<open>oauth/repository.go\<close>)\<close>

definition stmt :: "env \<Rightarrow> db_call \<Rightarrow> 'a \<Rightarrow> 'a dbres" where
  "stmt E c v = (if db_err E c then DbErr else DbOk v)"

definition stmt_opt :: "env \<Rightarrow> db_call \<Rightarrow> 'a option \<Rightarrow> 'a dbres" where
  "stmt_opt E c v = (if db_err E c then DbErr else (case v of None \<Rightarrow> DbErr | Some x \<Rightarrow> DbOk x))"

definition findClient :: "env \<Rightarrow> string \<Rightarrow> db \<Rightarrow> client res" where
  "findClient E s st =
     (case uuid_parse E s of
        None \<Rightarrow> Inl (ErrInvalidRequest ''invalid client_id'')
      | Some i \<Rightarrow>
          if db_err E ''FindClient'' then Inl (ErrInvalidClient ''unknown client'')
          else (case first_where (\<lambda>c. cl_id c = i \<and> cl_active c) (t_clients st) of
                  None \<Rightarrow> Inl (ErrInvalidClient ''unknown client'')
                | Some c \<Rightarrow> Inr c))"

text \<open>\<^verbatim>\<open>Create\<close> of a row with a nil UUID draws one first (\<^verbatim>\<open>BaseModel.BeforeCreate\<close>).\<close>

definition CreateAuthRequest :: "env \<Rightarrow> auth_request \<Rightarrow> db \<Rightarrow> auth_request dbres \<times> db" where
  "CreateAuthRequest E r st =
     (case new_uuid E st of
        (None, st1) \<Rightarrow> (DbErr, st1)
      | (Some i, st1) \<Rightarrow>
          (case stmt_opt E ''CreateAuthRequest'' (add_request st1 (r\<lparr>ar_id := i\<rparr>)) of
             DbErr \<Rightarrow> (DbErr, st1)
           | DbOk st2 \<Rightarrow> (DbOk (r\<lparr>ar_id := i\<rparr>), st2)))"

definition FindAuthRequest :: "env \<Rightarrow> uuid \<Rightarrow> db \<Rightarrow> auth_request option dbres" where
  "FindAuthRequest E i st = stmt E ''FindAuthRequest''
     (first_where (\<lambda>r. ar_id r = i \<and> ar_expires_at r > wall E) (t_auth_requests st))"

definition UpdateAuthRequest :: "env \<Rightarrow> auth_request \<Rightarrow> db \<Rightarrow> db dbres" where
  "UpdateAuthRequest E r st = stmt E ''UpdateAuthRequest''
     (st\<lparr>t_auth_requests := save_row ar_id r (t_auth_requests st)\<rparr>)"

definition DeleteAuthRequest :: "env \<Rightarrow> uuid \<Rightarrow> db \<Rightarrow> db dbres" where
  "DeleteAuthRequest E i st = stmt E ''DeleteAuthRequest''
     (st\<lparr>t_auth_requests := delete_where (\<lambda>r. ar_id r = i) (t_auth_requests st)\<rparr>)"

definition CreateAuthCode :: "env \<Rightarrow> auth_code \<Rightarrow> db \<Rightarrow> db dbres" where
  "CreateAuthCode E c st = stmt_opt E ''CreateAuthCode'' (add_code st (c\<lparr>ac_created_at := wall E\<rparr>))"

definition FindAuthCode :: "env \<Rightarrow> string \<Rightarrow> db \<Rightarrow> auth_code option dbres" where
  "FindAuthCode E h st = stmt E ''FindAuthCode'' (code_row st h)"

definition MarkAuthCodeUsed :: "env \<Rightarrow> string \<Rightarrow> db \<Rightarrow> db dbres" where
  "MarkAuthCodeUsed E h st = stmt E ''MarkAuthCodeUsed'' (use_code st h)"

definition CreateAccessToken :: "env \<Rightarrow> access_token \<Rightarrow> db \<Rightarrow> db dbres" where
  "CreateAccessToken E t st = stmt_opt E ''CreateAccessToken'' (add_access st (t\<lparr>at_created_at := wall E\<rparr>))"

definition FindAccessToken :: "env \<Rightarrow> string \<Rightarrow> db \<Rightarrow> access_token option dbres" where
  "FindAccessToken E i st = stmt E ''FindAccessToken'' (access_row st i)"

definition RevokeAccessToken :: "env \<Rightarrow> string \<Rightarrow> db \<Rightarrow> db dbres" where
  "RevokeAccessToken E i st = stmt E ''RevokeAccessToken'' (revoke_access st i)"

definition RevokeAccessTokensByRefreshToken :: "env \<Rightarrow> string \<Rightarrow> db \<Rightarrow> db dbres" where
  "RevokeAccessTokensByRefreshToken E i st = stmt E ''RevokeAccessTokensByRefreshToken''
     (st\<lparr>t_access_tokens := update_where (\<lambda>t. at_refresh_token_id t = Some i \<and> \<not> at_revoked t)
        (\<lambda>t. t\<lparr>at_revoked := True\<rparr>) (t_access_tokens st)\<rparr>)"

definition RevokeAccessTokensBySession :: "env \<Rightarrow> uuid \<Rightarrow> db \<Rightarrow> db dbres" where
  "RevokeAccessTokensBySession E i st = stmt E ''RevokeAccessTokensBySession''
     (st\<lparr>t_access_tokens := update_where (\<lambda>t. at_session_id t = Some i \<and> \<not> at_revoked t)
        (\<lambda>t. t\<lparr>at_revoked := True\<rparr>) (t_access_tokens st)\<rparr>)"

definition CreateRefreshToken :: "env \<Rightarrow> refresh_token \<Rightarrow> db \<Rightarrow> db dbres" where
  "CreateRefreshToken E t st =
     stmt_opt E ''CreateRefreshToken'' (add_refresh st (t\<lparr>rt_created_at := wall E\<rparr>))"

definition FindRefreshToken :: "env \<Rightarrow> string \<Rightarrow> db \<Rightarrow> refresh_token option dbres" where
  "FindRefreshToken E i st = stmt E ''FindRefreshToken'' (refresh_row st i)"

definition RotateRefreshToken :: "env \<Rightarrow> string \<Rightarrow> db \<Rightarrow> db dbres" where
  "RotateRefreshToken E i st = stmt E ''RotateRefreshToken'' (rotate_refresh (wall E) st i)"

definition RevokeRefreshTokenFamily :: "env \<Rightarrow> uuid \<Rightarrow> db \<Rightarrow> db dbres" where
  "RevokeRefreshTokenFamily E f st = stmt E ''RevokeRefreshTokenFamily''
     (st\<lparr>t_refresh_tokens := update_where (\<lambda>t. rt_family_id t = f \<and> \<not> rt_revoked t)
        (\<lambda>t. t\<lparr>rt_revoked := True\<rparr>) (t_refresh_tokens st)\<rparr>)"

definition RevokeRefreshTokensBySession :: "env \<Rightarrow> uuid \<Rightarrow> db \<Rightarrow> db dbres" where
  "RevokeRefreshTokensBySession E i st = stmt E ''RevokeRefreshTokensBySession''
     (st\<lparr>t_refresh_tokens := update_where (\<lambda>t. rt_session_id t = i \<and> \<not> rt_revoked t)
        (\<lambda>t. t\<lparr>rt_revoked := True\<rparr>) (t_refresh_tokens st)\<rparr>)"

definition FindActiveConsent :: "env \<Rightarrow> uuid \<Rightarrow> uuid \<Rightarrow> db \<Rightarrow> consent option dbres" where
  "FindActiveConsent E u c st = stmt E ''FindActiveConsent''
     (first_where (\<lambda>x. co_user_id x = u \<and> co_client_id x = c \<and> co_revoked_at x = None) (t_consents st))"

text \<open>The partial unique index allows one active consent for a user and client.\<close>

definition CreateConsent :: "env \<Rightarrow> consent \<Rightarrow> db \<Rightarrow> db dbres \<times> db" where
  "CreateConsent E c st =
     (case new_uuid E st of
        (None, st1) \<Rightarrow> (DbErr, st1)
      | (Some i, st1) \<Rightarrow>
          (if first_where (\<lambda>x. co_user_id x = co_user_id c \<and> co_client_id x = co_client_id c \<and>
                 co_revoked_at x = None) (t_consents st1) \<noteq> None
           then (DbErr, st1)
           else (stmt_opt E ''CreateConsent''
             (map_option (\<lambda>t. st1\<lparr>t_consents := t\<rparr>) (insert_row co_id (c\<lparr>co_id := i\<rparr>) (t_consents st1))), st1)))"

definition UpdateConsent :: "env \<Rightarrow> consent \<Rightarrow> db \<Rightarrow> db dbres" where
  "UpdateConsent E c st = stmt E ''UpdateConsent'' (st\<lparr>t_consents := save_row co_id c (t_consents st)\<rparr>)"

definition CreateDeviceCode :: "env \<Rightarrow> device_code \<Rightarrow> db \<Rightarrow> db dbres" where
  "CreateDeviceCode E d st = stmt_opt E ''CreateDeviceCode''
     (if List.member (map dc_user_code (t_device_codes st)) (dc_user_code d) then None
      else map_option (\<lambda>t. st\<lparr>t_device_codes := t\<rparr>)
             (insert_row dc_hash (d\<lparr>dc_created_at := wall E\<rparr>) (t_device_codes st)))"

definition FindDeviceCode :: "env \<Rightarrow> string \<Rightarrow> db \<Rightarrow> device_code option dbres" where
  "FindDeviceCode E h st = stmt E ''FindDeviceCode'' (device_row st h)"

definition FindDeviceCodeByUserCode :: "env \<Rightarrow> string \<Rightarrow> db \<Rightarrow> device_code option dbres" where
  "FindDeviceCodeByUserCode E u st = stmt E ''FindDeviceCodeByUserCode''
     (first_where (\<lambda>d. dc_user_code d = u) (t_device_codes st))"

definition UpdateDeviceCode :: "env \<Rightarrow> device_code \<Rightarrow> db \<Rightarrow> db dbres" where
  "UpdateDeviceCode E d st = stmt E ''UpdateDeviceCode''
     (st\<lparr>t_device_codes := save_row dc_hash d (t_device_codes st)\<rparr>)"

definition CreatePAR_row :: "env \<Rightarrow> par_request \<Rightarrow> db \<Rightarrow> db dbres" where
  "CreatePAR_row E p st = stmt_opt E ''CreatePAR''
     (map_option (\<lambda>t. st\<lparr>t_pars := t\<rparr>) (insert_row pr_request_uri p (t_pars st)))"

definition FindPAR :: "env \<Rightarrow> string \<Rightarrow> db \<Rightarrow> par_request option dbres" where
  "FindPAR E u st = stmt E ''FindPAR''
     (first_where (\<lambda>p. pr_request_uri p = u \<and> pr_expires_at p > wall E) (t_pars st))"

definition DeletePAR :: "env \<Rightarrow> string \<Rightarrow> db \<Rightarrow> db dbres" where
  "DeletePAR E u st = stmt E ''DeletePAR''
     (st\<lparr>t_pars := delete_where (\<lambda>p. pr_request_uri p = u) (t_pars st)\<rparr>)"

definition IsJTIRevoked :: "env \<Rightarrow> string \<Rightarrow> db \<Rightarrow> bool dbres" where
  "IsJTIRevoked E j st =
     (if j = [] then DbOk False
      else stmt E ''IsJTIRevoked''
        (first_where (\<lambda>r. rj_jti r = j \<and> rj_expires_at r > wall E) (t_revoked_jtis st) \<noteq> None))"

definition RevokeJTI :: "env \<Rightarrow> string \<Rightarrow> time \<Rightarrow> db \<Rightarrow> db dbres" where
  "RevokeJTI E j expires st =
     (if j = [] then DbOk st
      else stmt E ''RevokeJTI''
        (case insert_row rj_jti \<lparr>rj_jti = j, rj_expires_at = expires\<rparr> (t_revoked_jtis st) of
           None \<Rightarrow> st
         | Some t \<Rightarrow> st\<lparr>t_revoked_jtis := t\<rparr>))"

definition PurgeExpiredRevokedJTIs :: "env \<Rightarrow> db \<Rightarrow> db" where
  "PurgeExpiredRevokedJTIs E st =
     st\<lparr>t_revoked_jtis := delete_where (\<lambda>r. rj_expires_at r < wall E) (t_revoked_jtis st)\<rparr>"

definition Transaction :: "env \<Rightarrow> (db \<Rightarrow> 'a res \<times> db) \<Rightarrow> db \<Rightarrow> 'a res \<times> db" where
  "Transaction E fn st =
     (case fn st of
        (Inl e, st') \<Rightarrow> (Inl e, rollback E st st')
      | (Inr v, st') \<Rightarrow>
          if db_err E ''Commit'' then (Inl (DriverError ''commit''), rollback E st st')
          else (Inr v, st'))"

lemma Transaction_Inr: "Transaction E fn st = (Inr v, st') \<Longrightarrow> fn st = (Inr v, st')"
  by (auto simp: Transaction_def split: prod.splits sum.splits if_splits)

text \<open>The tables without the randomness drawn so far: what a rolled-back operation preserves.\<close>

definition tables :: "db \<Rightarrow> db" where
  "tables st = st\<lparr>draws := 0\<rparr>"

lemma tables_draws [simp]: "tables (st\<lparr>draws := n\<rparr>) = tables st"
  by (simp add: tables_def)

lemma tables_bump [simp]: "tables (bump st) = tables st"
  by (simp add: bump_def)

lemma tables_field: "tables st = tables st' \<Longrightarrow> (\<And>s n. f (s\<lparr>draws := n\<rparr>) = f s) \<Longrightarrow> f st = f st'"
  unfolding tables_def by metis

lemma Transaction_Inl_tables:
  assumes "gorm_rollback E" and "Transaction E fn st = (Inl e, st')"
  shows "tables st' = tables st"
  using assms by (auto simp: Transaction_def gorm_rollback_def split: prod.splits sum.splits if_splits)

lemma new_uuid_tables: "new_uuid E st = (r, st') \<Longrightarrow> tables st' = tables st"
  by (auto simp: new_uuid_def)

lemmas [repo_defs] = stmt_def stmt_opt_def FindAuthRequest_def UpdateAuthRequest_def
  DeleteAuthRequest_def CreateAuthCode_def FindAuthCode_def MarkAuthCodeUsed_def
  CreateAccessToken_def FindAccessToken_def RevokeAccessToken_def
  RevokeAccessTokensByRefreshToken_def RevokeAccessTokensBySession_def CreateRefreshToken_def
  FindRefreshToken_def RotateRefreshToken_def RevokeRefreshTokenFamily_def
  RevokeRefreshTokensBySession_def FindActiveConsent_def UpdateConsent_def CreateDeviceCode_def
  FindDeviceCode_def FindDeviceCodeByUserCode_def UpdateDeviceCode_def CreatePAR_row_def
  FindPAR_def DeletePAR_def IsJTIRevoked_def RevokeJTI_def

section \<open>The keyed tables provide the row interface\<close>

interpretation codes: keyed_rows code_row add_code use_code "\<lambda>c. c\<lparr>ac_used := True\<rparr>" ac_code_hash
proof unfold_locales
  fix s r s' k assume "add_code s r = Some s'"
  then show "code_row s' k = (if k = ac_code_hash r then Some r else code_row s k)"
    by (auto simp: add_code_def code_row_def first_where_insert)
next
  fix s r s' assume "add_code s r = Some s'"
  then show "code_row s (ac_code_hash r) = None"
    by (auto simp: add_code_def code_row_def insert_row_Some_iff first_where_absent)
next
  fix s k k'
  show "code_row (use_code s k) k' =
      (if k' = k then map_option (\<lambda>c. c\<lparr>ac_used := True\<rparr>) (code_row s k') else code_row s k')"
    using first_where_SomeD [of "\<lambda>c. ac_code_hash c = k'" "t_auth_codes s"]
    by (cases "first_where (\<lambda>c. ac_code_hash c = k') (t_auth_codes s)")
       (auto simp: use_code_def code_row_def row_simps)
qed

interpretation access: keyed_rows access_row add_access revoke_access "\<lambda>t. t\<lparr>at_revoked := True\<rparr>" at_id
proof unfold_locales
  fix s r s' k assume "add_access s r = Some s'"
  then show "access_row s' k = (if k = at_id r then Some r else access_row s k)"
    by (auto simp: add_access_def access_row_def first_where_insert)
next
  fix s r s' assume "add_access s r = Some s'"
  then show "access_row s (at_id r) = None"
    by (auto simp: add_access_def access_row_def insert_row_Some_iff first_where_absent)
next
  fix s k k'
  show "access_row (revoke_access s k) k' =
      (if k' = k then map_option (\<lambda>t. t\<lparr>at_revoked := True\<rparr>) (access_row s k') else access_row s k')"
    using first_where_SomeD [of "\<lambda>t. at_id t = k'" "t_access_tokens s"]
    by (cases "first_where (\<lambda>t. at_id t = k') (t_access_tokens s)")
       (auto simp: revoke_access_def access_row_def row_simps)
qed

interpretation refresh: keyed_rows refresh_row add_refresh "rotate_refresh now"
    "\<lambda>t. t\<lparr>rt_rotated_at := Some now\<rparr>" rt_id for now
proof unfold_locales
  fix s r s' k assume "add_refresh s r = Some s'"
  then show "refresh_row s' k = (if k = rt_id r then Some r else refresh_row s k)"
    by (auto simp: add_refresh_def refresh_row_def first_where_insert)
next
  fix s r s' assume "add_refresh s r = Some s'"
  then show "refresh_row s (rt_id r) = None"
    by (auto simp: add_refresh_def refresh_row_def insert_row_Some_iff first_where_absent)
next
  fix s k k'
  show "refresh_row (rotate_refresh now s k) k' =
      (if k' = k then map_option (\<lambda>t. t\<lparr>rt_rotated_at := Some now\<rparr>) (refresh_row s k') else refresh_row s k')"
    using first_where_SomeD [of "\<lambda>t. rt_id t = k'" "t_refresh_tokens s"]
    by (cases "first_where (\<lambda>t. rt_id t = k') (t_refresh_tokens s)")
       (auto simp: rotate_refresh_def refresh_row_def row_simps)
qed

end
