(* ===== verification/Rbac.thy ===== *)
theory Rbac
  imports Store
begin

text \<open>
  Roles and permissions (\<^verbatim>\<open>rbac/service.go\<close> over \<^verbatim>\<open>rbac/repository.go\<close>) with the constraints of
  migration 011: unique role names, composite keys and cascading foreign keys on the join tables.
  The permission middleware (\<^verbatim>\<open>rbac/middleware.go\<close>) is a function from the caller's identity to
  a decision.
\<close>

section \<open>Repository\<close>

definition role_row :: "db \<Rightarrow> uuid \<Rightarrow> role option" where
  "role_row st i = first_where (\<lambda>r. ro_id r = i) (t_roles st)"

definition FindRoleByID :: "env \<Rightarrow> uuid \<Rightarrow> db \<Rightarrow> role option dbres" where
  "FindRoleByID E i st = stmt E ''rbac.FindRoleByID'' (role_row st i)"

definition FindRoleByName :: "env \<Rightarrow> string \<Rightarrow> db \<Rightarrow> role option dbres" where
  "FindRoleByName E n st = stmt E ''rbac.FindRoleByName'' (first_where (\<lambda>r. ro_name r = n) (t_roles st))"

definition CreateRole_row :: "env \<Rightarrow> role \<Rightarrow> db \<Rightarrow> role dbres \<times> db" where
  "CreateRole_row E r st =
     (case new_uuid E st of
        (None, st1) \<Rightarrow> (DbErr, st1)
      | (Some i, st1) \<Rightarrow>
          if List.member (map ro_name (t_roles st1)) (ro_name r) then (DbErr, st1)
          else (case stmt_opt E ''rbac.CreateRole'' (map_option (\<lambda>t. st1\<lparr>t_roles := t\<rparr>)
                  (insert_row ro_id (r\<lparr>ro_id := i\<rparr>) (t_roles st1))) of
             DbErr \<Rightarrow> (DbErr, st1)
           | DbOk st2 \<Rightarrow> (DbOk (r\<lparr>ro_id := i\<rparr>), st2)))"

definition UpdateRole_row :: "env \<Rightarrow> role \<Rightarrow> db \<Rightarrow> db dbres" where
  "UpdateRole_row E r st = stmt_opt E ''rbac.UpdateRole''
     (if first_where (\<lambda>x. ro_name x = ro_name r \<and> ro_id x \<noteq> ro_id r) (t_roles st) \<noteq> None then None
      else Some (st\<lparr>t_roles := save_row ro_id r (t_roles st)\<rparr>))"

definition DeleteRole_row :: "env \<Rightarrow> uuid \<Rightarrow> db \<Rightarrow> db dbres" where
  "DeleteRole_row E i st = stmt E ''rbac.DeleteRole''
     (st\<lparr>t_roles := delete_where (\<lambda>r. ro_id r = i) (t_roles st),
         t_role_permissions := delete_where (\<lambda>(r, p). r = i) (t_role_permissions st),
         t_role_resource_permissions := delete_where (\<lambda>(r, p). r = i) (t_role_resource_permissions st),
         t_user_roles := delete_where (\<lambda>(u, r). r = i) (t_user_roles st)\<rparr>)"

text \<open>A join row is refused when it is stored already or one of its ends does not exist.\<close>

fun add_role_permissions :: "db \<Rightarrow> uuid \<Rightarrow> uuid list \<Rightarrow> db option" where
  "add_role_permissions st r [] = Some st"
| "add_role_permissions st r (p # ps) =
     (if role_row st r = None \<or> \<not> List.member (map fst (t_permissions st)) p
         \<or> List.member (t_role_permissions st) (r, p) then None
      else add_role_permissions (st\<lparr>t_role_permissions := t_role_permissions st @ [(r, p)]\<rparr>) r ps)"

definition SetRolePermissions_row :: "env \<Rightarrow> uuid \<Rightarrow> uuid list \<Rightarrow> db \<Rightarrow> unit res \<times> db" where
  "SetRolePermissions_row E r ps st = Transaction E
     (\<lambda>st1. let st2 = st1\<lparr>t_role_permissions := delete_where (\<lambda>(x, p). x = r) (t_role_permissions st1)\<rparr>
            in case stmt_opt E ''rbac.SetRolePermissions'' (add_role_permissions st2 r ps) of
                 DbErr \<Rightarrow> (Inl (DriverError ''rbac.SetRolePermissions''), st2)
               | DbOk st3 \<Rightarrow> (Inr (), st3)) st"

definition AssignRole_row :: "env \<Rightarrow> uuid \<Rightarrow> uuid \<Rightarrow> db \<Rightarrow> db dbres" where
  "AssignRole_row E u r st = stmt_opt E ''rbac.AssignRole''
     (if List.member (t_user_roles st) (u, r) \<or> role_row st r = None
         \<or> \<not> List.member (map us_id (t_users st)) u then None
      else Some (st\<lparr>t_user_roles := t_user_roles st @ [(u, r)]\<rparr>))"

definition RemoveRole_row :: "env \<Rightarrow> uuid \<Rightarrow> uuid \<Rightarrow> db \<Rightarrow> db dbres" where
  "RemoveRole_row E u r st = stmt E ''rbac.RemoveRole''
     (st\<lparr>t_user_roles := delete_where (\<lambda>(x, y). x = u \<and> y = r) (t_user_roles st)\<rparr>)"

definition GetUserRoles_row :: "env \<Rightarrow> uuid \<Rightarrow> db \<Rightarrow> role list dbres" where
  "GetUserRoles_row E u st = stmt E ''rbac.GetUserRoles''
     (filter (\<lambda>r. List.member (t_user_roles st) (u, ro_id r)) (t_roles st))"

text \<open>\<^verbatim>\<open>SELECT DISTINCT permissions.name\<close> over the two joins.\<close>

definition holds_permission :: "db \<Rightarrow> uuid \<Rightarrow> uuid \<Rightarrow> bool" where
  "holds_permission st u p \<longleftrightarrow>
     list_ex (\<lambda>(u', r). u' = u \<and> List.member (t_role_permissions st) (r, p)) (t_user_roles st)"

definition GetUserPermissions_row :: "env \<Rightarrow> uuid \<Rightarrow> db \<Rightarrow> string list dbres" where
  "GetUserPermissions_row E u st = stmt E ''rbac.GetUserPermissions''
     (remdups (map snd (filter (\<lambda>(p, n). holds_permission st u p) (t_permissions st))))"

lemmas [repo_defs] = FindRoleByID_def FindRoleByName_def UpdateRole_row_def DeleteRole_row_def
  AssignRole_row_def RemoveRole_row_def GetUserRoles_row_def GetUserPermissions_row_def

section \<open>Service\<close>

definition CreateRole :: "env \<Rightarrow> string \<Rightarrow> string option \<Rightarrow> db \<Rightarrow> role res \<times> db" where
  "CreateRole E name description st =
     (if db_maybe (FindRoleByName E name st) \<noteq> None
      then (Inl (ErrConflict ''role name already exists''), st)
      else (case CreateRole_row E \<lparr>ro_id = uuid_nil, ro_name = name, ro_description = description\<rparr> st of
              (DbErr, st1) \<Rightarrow> (Inl (ErrInternal ''failed to create role''), st1)
            | (DbOk r, st1) \<Rightarrow> (Inr r, st1)))"

definition GetRole :: "env \<Rightarrow> uuid \<Rightarrow> db \<Rightarrow> role res" where
  "GetRole E i st =
     (case FindRoleByID E i st of
        DbErr \<Rightarrow> Inl (ErrInternal ''failed to find role'')
      | DbOk None \<Rightarrow> Inl (ErrNotFound ''role not found'')
      | DbOk (Some r) \<Rightarrow> Inr r)"

definition UpdateRole :: "env \<Rightarrow> uuid \<Rightarrow> string option \<Rightarrow> string option \<Rightarrow> db \<Rightarrow> role res \<times> db" where
  "UpdateRole E i name description st =
     (case GetRole E i st of
        Inl e \<Rightarrow> (Inl e, st)
      | Inr r \<Rightarrow>
          (let r1 = (case name of None \<Rightarrow> r | Some n \<Rightarrow> r\<lparr>ro_name := n\<rparr>);
               r2 = (case description of None \<Rightarrow> r1 | Some d \<Rightarrow> r1\<lparr>ro_description := Some d\<rparr>)
           in case UpdateRole_row E r2 st of
                DbErr \<Rightarrow> (Inl (ErrInternal ''failed to update role''), st)
              | DbOk st1 \<Rightarrow> (Inr r2, st1)))"

definition DeleteRole :: "env \<Rightarrow> uuid \<Rightarrow> db \<Rightarrow> unit res \<times> db" where
  "DeleteRole E i st =
     (case GetRole E i st of
        Inl e \<Rightarrow> (Inl e, st)
      | Inr r \<Rightarrow>
          (case DeleteRole_row E i st of
             DbErr \<Rightarrow> (Inl (ErrInternal ''failed to delete role''), st)
           | DbOk st1 \<Rightarrow> (Inr (), st1)))"

definition SetRolePermissions :: "env \<Rightarrow> uuid \<Rightarrow> uuid list \<Rightarrow> db \<Rightarrow> unit res \<times> db" where
  "SetRolePermissions E i ps st =
     (case GetRole E i st of
        Inl e \<Rightarrow> (Inl e, st)
      | Inr r \<Rightarrow>
          (case SetRolePermissions_row E i ps st of
             (Inl e, st1) \<Rightarrow> (Inl (ErrInternal ''failed to set permissions''), st1)
           | (Inr x, st1) \<Rightarrow> (Inr (), st1)))"

definition AssignRole :: "env \<Rightarrow> uuid \<Rightarrow> uuid \<Rightarrow> db \<Rightarrow> unit res \<times> db" where
  "AssignRole E u r st =
     (case GetRole E r st of
        Inl e \<Rightarrow> (Inl e, st)
      | Inr _ \<Rightarrow>
          (case AssignRole_row E u r st of
             DbErr \<Rightarrow> (Inl (ErrInternal ''failed to assign role''), st)
           | DbOk st1 \<Rightarrow> (Inr (), st1)))"

definition RemoveRole :: "env \<Rightarrow> uuid \<Rightarrow> uuid \<Rightarrow> db \<Rightarrow> unit res \<times> db" where
  "RemoveRole E u r st =
     (case RemoveRole_row E u r st of
        DbErr \<Rightarrow> (Inl (ErrInternal ''failed to remove role''), st)
      | DbOk st1 \<Rightarrow> (Inr (), st1))"

definition HasPermission :: "env \<Rightarrow> uuid \<Rightarrow> string \<Rightarrow> db \<Rightarrow> bool res" where
  "HasPermission E u p st =
     (case GetUserPermissions_row E u st of
        DbErr \<Rightarrow> Inl (DriverError ''rbac.GetUserPermissions'')
      | DbOk perms \<Rightarrow> Inr (List.member perms p))"

text \<open>\<^verbatim>\<open>OAuthRoleProvider\<close>: role and permission names for the policy inputs.\<close>

definition rbac_role_provider :: "env \<Rightarrow> db \<Rightarrow> role_provider" where
  "rbac_role_provider E st =
     \<lparr>rp_roles = (\<lambda>u. case GetUserRoles_row E u st of DbErr \<Rightarrow> None | DbOk rs \<Rightarrow> Some (map ro_name rs)),
      rp_permissions = (\<lambda>u. case GetUserPermissions_row E u st of DbErr \<Rightarrow> None | DbOk ps \<Rightarrow> Some ps)\<rparr>"

section \<open>Permission middleware\<close>

text \<open>The result of a middleware: the error it answers with, or pass on to the handler.\<close>

definition RequirePermission :: "env \<Rightarrow> string \<Rightarrow> uuid option \<Rightarrow> db \<Rightarrow> unit res" where
  "RequirePermission E p caller st =
     (case caller of
        None \<Rightarrow> Inl (ErrUnauthorized ''not authenticated'')
      | Some u \<Rightarrow>
          (case HasPermission E u p st of
             Inr True \<Rightarrow> Inr ()
           | _ \<Rightarrow> Inl (ErrForbidden ''insufficient permissions'')))"

fun any_permission :: "env \<Rightarrow> uuid \<Rightarrow> string list \<Rightarrow> db \<Rightarrow> bool" where
  "any_permission E u [] st = False"
| "any_permission E u (p # ps) st = (HasPermission E u p st = Inr True \<or> any_permission E u ps st)"

definition RequireAnyPermission :: "env \<Rightarrow> string list \<Rightarrow> uuid option \<Rightarrow> db \<Rightarrow> unit res" where
  "RequireAnyPermission E ps caller st =
     (case caller of
        None \<Rightarrow> Inl (ErrUnauthorized ''not authenticated'')
      | Some u \<Rightarrow> if any_permission E u ps st then Inr () else Inl (ErrForbidden ''insufficient permissions''))"

section \<open>Lemmas\<close>

definition permitted :: "db \<Rightarrow> uuid \<Rightarrow> string \<Rightarrow> bool" where
  "permitted st u p \<longleftrightarrow>
     (\<exists>r i. (u, r) \<in> set (t_user_roles st) \<and> (r, i) \<in> set (t_role_permissions st) \<and>
        (i, p) \<in> set (t_permissions st))"

lemma HasPermission_iff: "HasPermission E u p st = Inr True \<longleftrightarrow>
    \<not> db_err E ''rbac.GetUserPermissions'' \<and> permitted st u p"
  by (force simp: HasPermission_def repo_defs permitted_def holds_permission_def list_ex_iff image_iff
      split: if_splits)

text \<open>The middleware lets a request through exactly when the caller is known and some role of the
  caller carries the permission; a database fault refuses.\<close>

lemma granted_iff: "(case r of Inl e \<Rightarrow> Inl x | Inr True \<Rightarrow> Inr () | Inr False \<Rightarrow> Inl x) = Inr () \<longleftrightarrow> r = Inr True"
  by (auto split: sum.splits bool.splits)

lemma RequirePermission_iff: "RequirePermission E p caller st = Inr () \<longleftrightarrow>
    (\<exists>u. caller = Some u \<and> \<not> db_err E ''rbac.GetUserPermissions'' \<and> permitted st u p)"
  by (cases caller)
    (simp_all add: RequirePermission_def granted_iff HasPermission_iff del: not_None_eq)

lemma any_permission_iff: "any_permission E u ps st \<longleftrightarrow> (\<exists>p \<in> set ps. HasPermission E u p st = Inr True)"
  by (induction ps) auto

lemma RequireAnyPermission_iff: "RequireAnyPermission E ps caller st = Inr () \<longleftrightarrow>
    (\<exists>p \<in> set ps. RequirePermission E p caller st = Inr ())"
  by (cases caller) (auto simp: RequireAnyPermission_def any_permission_iff RequirePermission_def granted_iff)

text \<open>Deleting a role takes its permissions away from every user at once.\<close>

lemma DeleteRole_revokes:
  assumes "DeleteRole E i st = (Inr (), st')" and "permitted st' u p"
  shows "\<exists>r k. r \<noteq> i \<and> (u, r) \<in> set (t_user_roles st) \<and> (r, k) \<in> set (t_role_permissions st) \<and>
    (k, p) \<in> set (t_permissions st)"
  using assms
  by (fastforce simp: DeleteRole_def DeleteRole_row_def stmt_def permitted_def set_delete_where
      split: sum.splits dbres.splits if_splits)

lemma add_role_permissions_table:
  "add_role_permissions st r ps = Some st' \<Longrightarrow>
     st' = st\<lparr>t_role_permissions := t_role_permissions st @ map (Pair r) ps\<rparr>"
proof (induction ps arbitrary: st)
  case (Cons p ps)
  then have "add_role_permissions (st\<lparr>t_role_permissions := t_role_permissions st @ [(r, p)]\<rparr>) r ps = Some st'"
    by (simp split: if_splits)
  from Cons.IH [OF this] show ?case by simp
qed simp

text \<open>Setting a role's permissions replaces them: exactly the given ones, other roles untouched.\<close>

lemma SetRolePermissions_exact:
  assumes "SetRolePermissions E i ps st = (Inr (), st')"
  shows "(r, p) \<in> set (t_role_permissions st') \<longleftrightarrow>
    (if r = i then p \<in> set ps else (r, p) \<in> set (t_role_permissions st))"
proof -
  let ?st2 = "st\<lparr>t_role_permissions := delete_where (\<lambda>(x, p). x = i) (t_role_permissions st)\<rparr>"
  have "add_role_permissions ?st2 i ps = Some st'"
    using assms by (auto simp: SetRolePermissions_def SetRolePermissions_row_def Transaction_def
        stmt_opt_def Let_def split: sum.splits dbres.splits option.splits if_splits prod.splits)
  then have "t_role_permissions st' = delete_where (\<lambda>(x, p). x = i) (t_role_permissions st) @ map (Pair i) ps"
    using add_role_permissions_table by fastforce
  then show ?thesis by (auto simp: set_delete_where)
qed

text \<open>A failed replacement leaves the old permissions in place, because it runs in a transaction.\<close>

lemma SetRolePermissions_atomic:
  assumes "gorm_rollback E" and "SetRolePermissions E i ps st = (Inl e, st')"
  shows "t_role_permissions st' = t_role_permissions st"
  using assms
  by (auto simp: SetRolePermissions_def SetRolePermissions_row_def Transaction_def gorm_rollback_def
      Let_def split: sum.splits dbres.splits if_splits prod.splits)

end
