(* ===== verification/Profile.thy ===== *)
theory Profile
  imports Model "HOL-Library.AList"
begin

text \<open>
  The OIDC standard claims kept in a user's metadata (\<^verbatim>\<open>model/user.go\<close>): the two claim structs,
  their decoding from and encoding to the metadata object, the merge of a profile update, and the
  claims the userinfo endpoint returns for a list of granted scopes.
\<close>

record address_claim =
  ad_formatted :: "string option"
  ad_street_address :: "string option"
  ad_locality :: "string option"
  ad_region :: "string option"
  ad_postal_code :: "string option"
  ad_country :: "string option"

record profile_metadata =
  pf_given_name :: "string option"
  pf_family_name :: "string option"
  pf_middle_name :: "string option"
  pf_nickname :: "string option"
  pf_preferred_username :: "string option"
  pf_profile_url :: "string option"
  pf_website :: "string option"
  pf_gender :: "string option"
  pf_birthdate :: "string option"
  pf_zoneinfo :: "string option"
  pf_locale :: "string option"
  pf_phone_verified :: "bool option"
  pf_address :: "address_claim option"

section \<open>Decoding and encoding\<close>

text \<open>
  \<^verbatim>\<open>json.Unmarshal\<close> into a pointer field visits the members of the object in order, matches names
  without regard to case, sets the field to nil on \<^verbatim>\<open>null\<close>, and allocates the field's zero value
  before it notices that the JSON value has another type.
\<close>

definition names_field :: "string \<Rightarrow> string \<Rightarrow> bool" where
  "names_field k name \<longleftrightarrow> to_lower k = name"

fun json_field :: "(any \<Rightarrow> 'a option) \<Rightarrow> 'a \<Rightarrow> string \<Rightarrow> 'a option \<Rightarrow> any_map \<Rightarrow> 'a option" where
  "json_field rd zero name acc [] = acc"
| "json_field rd zero name acc ((k, v) # m) =
     json_field rd zero name
       (if names_field k name
        then (if v = ANil then None
              else case rd v of
                     Some x \<Rightarrow> Some x
                   | None \<Rightarrow> (case acc of None \<Rightarrow> Some zero | Some x \<Rightarrow> Some x))
        else acc) m"

definition as_string :: "any \<Rightarrow> string option" where
  "as_string v = (case v of AStr s \<Rightarrow> Some s | _ \<Rightarrow> None)"

definition as_bool :: "any \<Rightarrow> bool option" where
  "as_bool v = (case v of ABool b \<Rightarrow> Some b | _ \<Rightarrow> None)"

definition string_field :: "string \<Rightarrow> any_map \<Rightarrow> string option" where
  "string_field name m = json_field as_string [] name None m"

definition decode_address :: "any_map \<Rightarrow> address_claim" where
  "decode_address m =
     \<lparr>ad_formatted = string_field ''formatted'' m, ad_street_address = string_field ''street_address'' m,
      ad_locality = string_field ''locality'' m, ad_region = string_field ''region'' m,
      ad_postal_code = string_field ''postal_code'' m, ad_country = string_field ''country'' m\<rparr>"

definition as_address :: "any \<Rightarrow> address_claim option" where
  "as_address v = (case v of AObj m \<Rightarrow> Some (decode_address m) | _ \<Rightarrow> None)"

definition decode_profile :: "any_map \<Rightarrow> profile_metadata" where
  "decode_profile m =
     \<lparr>pf_given_name = string_field ''given_name'' m, pf_family_name = string_field ''family_name'' m,
      pf_middle_name = string_field ''middle_name'' m, pf_nickname = string_field ''nickname'' m,
      pf_preferred_username = string_field ''preferred_username'' m,
      pf_profile_url = string_field ''profile'' m, pf_website = string_field ''website'' m,
      pf_gender = string_field ''gender'' m, pf_birthdate = string_field ''birthdate'' m,
      pf_zoneinfo = string_field ''zoneinfo'' m, pf_locale = string_field ''locale'' m,
      pf_phone_verified = json_field as_bool False ''phone_number_verified'' None m,
      pf_address = json_field as_address (decode_address []) ''address'' None m\<rparr>"

definition GetProfileMetadata :: "user \<Rightarrow> profile_metadata" where
  "GetProfileMetadata u = decode_profile (us_metadata u)"

text \<open>\<^verbatim>\<open>json.Marshal\<close> with \<^verbatim>\<open>omitempty\<close> drops the nil pointers.\<close>

definition str_member :: "string \<Rightarrow> string option \<Rightarrow> any_map" where
  "str_member k v = (case v of None \<Rightarrow> [] | Some s \<Rightarrow> [(k, AStr s)])"

definition encode_address :: "address_claim \<Rightarrow> any_map" where
  "encode_address a =
     str_member ''formatted'' (ad_formatted a) @ str_member ''street_address'' (ad_street_address a)
     @ str_member ''locality'' (ad_locality a) @ str_member ''region'' (ad_region a)
     @ str_member ''postal_code'' (ad_postal_code a) @ str_member ''country'' (ad_country a)"

definition bool_member :: "string \<Rightarrow> bool option \<Rightarrow> any_map" where
  "bool_member k v = (case v of None \<Rightarrow> [] | Some b \<Rightarrow> [(k, ABool b)])"

definition address_member :: "string \<Rightarrow> address_claim option \<Rightarrow> any_map" where
  "address_member k v = (case v of None \<Rightarrow> [] | Some a \<Rightarrow> [(k, AObj (encode_address a))])"

definition encode_profile :: "profile_metadata \<Rightarrow> any_map" where
  "encode_profile p =
     str_member ''given_name'' (pf_given_name p) @ str_member ''family_name'' (pf_family_name p)
     @ str_member ''middle_name'' (pf_middle_name p) @ str_member ''nickname'' (pf_nickname p)
     @ str_member ''preferred_username'' (pf_preferred_username p)
     @ str_member ''profile'' (pf_profile_url p) @ str_member ''website'' (pf_website p)
     @ str_member ''gender'' (pf_gender p) @ str_member ''birthdate'' (pf_birthdate p)
     @ str_member ''zoneinfo'' (pf_zoneinfo p) @ str_member ''locale'' (pf_locale p)
     @ bool_member ''phone_number_verified'' (pf_phone_verified p) @ address_member ''address'' (pf_address p)"

section \<open>Merging a profile update\<close>

definition supplied :: "'a option \<Rightarrow> 'a option \<Rightarrow> 'a option" where
  "supplied src dst = (if src \<noteq> None then src else dst)"

definition mergeProfileMetadata :: "profile_metadata \<Rightarrow> profile_metadata \<Rightarrow> profile_metadata" where
  "mergeProfileMetadata dst src =
     \<lparr>pf_given_name = supplied (pf_given_name src) (pf_given_name dst),
      pf_family_name = supplied (pf_family_name src) (pf_family_name dst),
      pf_middle_name = supplied (pf_middle_name src) (pf_middle_name dst),
      pf_nickname = supplied (pf_nickname src) (pf_nickname dst),
      pf_preferred_username = supplied (pf_preferred_username src) (pf_preferred_username dst),
      pf_profile_url = supplied (pf_profile_url src) (pf_profile_url dst),
      pf_website = supplied (pf_website src) (pf_website dst),
      pf_gender = supplied (pf_gender src) (pf_gender dst),
      pf_birthdate = supplied (pf_birthdate src) (pf_birthdate dst),
      pf_zoneinfo = supplied (pf_zoneinfo src) (pf_zoneinfo dst),
      pf_locale = supplied (pf_locale src) (pf_locale dst),
      pf_phone_verified = supplied (pf_phone_verified src) (pf_phone_verified dst),
      pf_address = supplied (pf_address src) (pf_address dst)\<rparr>"

text \<open>The metadata an update of the profile stores.\<close>

definition merged_metadata :: "user \<Rightarrow> profile_metadata \<Rightarrow> any_map" where
  "merged_metadata u inp = encode_profile (mergeProfileMetadata (GetProfileMetadata u) inp)"

section \<open>Claims by scope\<close>

definition profile_claims :: "user \<Rightarrow> profile_metadata \<Rightarrow> any_map" where
  "profile_claims u meta =
     str_member ''name'' (us_display_name u) @ str_member ''picture'' (us_avatar_url u)
     @ [(''updated_at'', AInt (unix (us_updated_at u)))]
     @ str_member ''given_name'' (pf_given_name meta) @ str_member ''family_name'' (pf_family_name meta)
     @ str_member ''middle_name'' (pf_middle_name meta) @ str_member ''nickname'' (pf_nickname meta)
     @ str_member ''preferred_username'' (pf_preferred_username meta)
     @ str_member ''profile'' (pf_profile_url meta) @ str_member ''website'' (pf_website meta)
     @ str_member ''gender'' (pf_gender meta) @ str_member ''birthdate'' (pf_birthdate meta)
     @ str_member ''zoneinfo'' (pf_zoneinfo meta) @ str_member ''locale'' (pf_locale meta)"

definition OIDCClaims :: "(uuid \<Rightarrow> string) \<Rightarrow> user \<Rightarrow> string list \<Rightarrow> any_map" where
  "OIDCClaims str u scopes =
     (let meta = GetProfileMetadata u in
      [(''sub'', AStr (str (us_id u)))]
      @ (if List.member scopes ''profile'' then profile_claims u meta else [])
      @ (if List.member scopes ''email''
         then [(''email'', AStr (us_email u)), (''email_verified'', ABool (us_email_verified u))] else [])
      @ (if List.member scopes ''phone''
         then str_member ''phone_number'' (us_phone u)
              @ bool_member ''phone_number_verified'' (pf_phone_verified meta) else [])
      @ (if List.member scopes ''address'' then address_member ''address'' (pf_address meta) else []))"

section \<open>Lemmas\<close>

lemma json_field_append: "json_field rd z n acc (m @ m') = json_field rd z n (json_field rd z n acc m) m'"
  by (induction rd z n acc m rule: json_field.induct) auto

lemma json_field_str_member: "json_field as_string z n acc (str_member k v) =
    (if names_field k n \<and> v \<noteq> None then v else acc)"
  by (cases v) (auto simp: str_member_def as_string_def)

lemma json_field_str_member_bool: "\<not> names_field k n \<Longrightarrow> json_field rd z n acc (str_member k v) = acc"
  by (cases v) (auto simp: str_member_def)

text \<open>The claim names are in lower case, so that a stored name matches its own field only.\<close>

definition claim_names :: "string list" where
  "claim_names = [''formatted'', ''street_address'', ''locality'', ''region'', ''postal_code'', ''country'',
     ''given_name'', ''family_name'', ''middle_name'', ''nickname'', ''preferred_username'', ''profile'',
     ''website'', ''gender'', ''birthdate'', ''zoneinfo'', ''locale'', ''phone_number_verified'', ''address'']"

lemma lower_char_letters:
  "lower_char (CHR ''a'') = CHR ''a''" "lower_char (CHR ''b'') = CHR ''b''" "lower_char (CHR ''c'') = CHR ''c''"
  "lower_char (CHR ''d'') = CHR ''d''" "lower_char (CHR ''e'') = CHR ''e''" "lower_char (CHR ''f'') = CHR ''f''"
  "lower_char (CHR ''g'') = CHR ''g''" "lower_char (CHR ''h'') = CHR ''h''" "lower_char (CHR ''i'') = CHR ''i''"
  "lower_char (CHR ''j'') = CHR ''j''" "lower_char (CHR ''k'') = CHR ''k''" "lower_char (CHR ''l'') = CHR ''l''"
  "lower_char (CHR ''m'') = CHR ''m''" "lower_char (CHR ''n'') = CHR ''n''" "lower_char (CHR ''o'') = CHR ''o''"
  "lower_char (CHR ''p'') = CHR ''p''" "lower_char (CHR ''q'') = CHR ''q''" "lower_char (CHR ''r'') = CHR ''r''"
  "lower_char (CHR ''s'') = CHR ''s''" "lower_char (CHR ''t'') = CHR ''t''" "lower_char (CHR ''u'') = CHR ''u''"
  "lower_char (CHR ''v'') = CHR ''v''" "lower_char (CHR ''w'') = CHR ''w''" "lower_char (CHR ''x'') = CHR ''x''"
  "lower_char (CHR ''y'') = CHR ''y''" "lower_char (CHR ''z'') = CHR ''z''" "lower_char (CHR ''_'') = CHR ''_''"
  by (simp_all add: lower_char_def)

lemma claim_names_lower: "list_all (\<lambda>k. to_lower k = k) claim_names"
  by (simp add: claim_names_def to_lower_def lower_char_letters)

lemma names_field_claim: "k \<in> set claim_names \<Longrightarrow> names_field k n \<longleftrightarrow> k = n"
  using claim_names_lower by (auto simp: names_field_def list_all_iff)

lemma names_field_literals:
  "names_field ''formatted'' n = (''formatted'' = n)" "names_field ''street_address'' n = (''street_address'' = n)"
  "names_field ''locality'' n = (''locality'' = n)" "names_field ''region'' n = (''region'' = n)"
  "names_field ''postal_code'' n = (''postal_code'' = n)" "names_field ''country'' n = (''country'' = n)"
  "names_field ''given_name'' n = (''given_name'' = n)" "names_field ''family_name'' n = (''family_name'' = n)"
  "names_field ''middle_name'' n = (''middle_name'' = n)" "names_field ''nickname'' n = (''nickname'' = n)"
  "names_field ''preferred_username'' n = (''preferred_username'' = n)"
  "names_field ''profile'' n = (''profile'' = n)" "names_field ''website'' n = (''website'' = n)"
  "names_field ''gender'' n = (''gender'' = n)" "names_field ''birthdate'' n = (''birthdate'' = n)"
  "names_field ''zoneinfo'' n = (''zoneinfo'' = n)" "names_field ''locale'' n = (''locale'' = n)"
  "names_field ''phone_number_verified'' n = (''phone_number_verified'' = n)"
  "names_field ''address'' n = (''address'' = n)"
  by (rule names_field_claim; simp add: claim_names_def)+

lemma address_roundtrip: "decode_address (encode_address a) = a"
  by (cases a) (simp add: decode_address_def encode_address_def string_field_def json_field_append
      json_field_str_member names_field_literals)

text \<open>A profile that is encoded into the metadata is read back unchanged.\<close>

lemma json_field_other_member:
  "\<not> names_field k n \<Longrightarrow> json_field rd z n acc (bool_member k v) = acc"
  "\<not> names_field k n \<Longrightarrow> json_field rd z n acc (address_member k w) = acc"
  by (auto simp: bool_member_def address_member_def split: option.splits)

lemma json_field_own_member:
  "names_field k n \<Longrightarrow> json_field as_bool z n None (bool_member k v) = v"
  "names_field k n \<Longrightarrow> json_field as_address y n None (address_member k w) = w"
  by (auto simp: bool_member_def address_member_def as_bool_def as_address_def address_roundtrip split: option.splits)

lemma take_if_some: "(if b \<and> v \<noteq> None then v else None) = (if b then v else None)"
  by auto

lemmas decode_simps = string_field_def json_field_append json_field_str_member json_field_str_member_bool
  json_field_other_member json_field_own_member names_field_literals take_if_some

lemma decode_encoded_fields:
  "string_field ''given_name'' (encode_profile p) = pf_given_name p"
  "string_field ''family_name'' (encode_profile p) = pf_family_name p"
  "string_field ''middle_name'' (encode_profile p) = pf_middle_name p"
  "string_field ''nickname'' (encode_profile p) = pf_nickname p"
  "string_field ''preferred_username'' (encode_profile p) = pf_preferred_username p"
  "string_field ''profile'' (encode_profile p) = pf_profile_url p"
  "string_field ''website'' (encode_profile p) = pf_website p"
  "string_field ''gender'' (encode_profile p) = pf_gender p"
  "string_field ''birthdate'' (encode_profile p) = pf_birthdate p"
  "string_field ''zoneinfo'' (encode_profile p) = pf_zoneinfo p"
  "string_field ''locale'' (encode_profile p) = pf_locale p"
  "json_field as_bool False ''phone_number_verified'' None (encode_profile p) = pf_phone_verified p"
  "json_field as_address y ''address'' None (encode_profile p) = pf_address p"
  unfolding encode_profile_def by (simp_all add: decode_simps)

lemma profile_roundtrip: "decode_profile (encode_profile p) = p"
  unfolding decode_profile_def by (simp add: decode_encoded_fields)

text \<open>
  An update that carries metadata keeps the claims only: whatever else was stored with the user,
  such as the custom fields of the registration form, is dropped.
\<close>

lemma member_keys:
  "fst ` set (str_member k s) \<subseteq> {k}" "fst ` set (bool_member k b) \<subseteq> {k}" "fst ` set (address_member k a) \<subseteq> {k}"
  by (auto simp: str_member_def bool_member_def address_member_def split: option.splits)

lemma encode_profile_keys: "fst ` set (encode_profile p) \<subseteq> set claim_names"
  unfolding encode_profile_def set_append image_Un Un_subset_iff
  by (intro conjI member_keys [THEN subset_trans]) (simp_all add: claim_names_def)

lemma merged_metadata_drops_custom: "map_of (merged_metadata u inp) ''custom_fields'' = None"
proof -
  have "''custom_fields'' \<notin> set claim_names" by (simp add: claim_names_def)
  then show ?thesis
    unfolding merged_metadata_def map_of_eq_None_iff using encode_profile_keys by blast
qed

lemma supplied_simps [simp]: "supplied None d = d" "supplied s (supplied s d) = supplied s d"
  by (simp_all add: supplied_def)

lemma merge_with_nothing: "mergeProfileMetadata p (decode_profile []) = p"
  by (rule profile_metadata.equality)
     (simp_all add: mergeProfileMetadata_def decode_profile_def string_field_def)

lemma merge_idem: "mergeProfileMetadata (mergeProfileMetadata p q) q = mergeProfileMetadata p q"
  by (simp add: mergeProfileMetadata_def)

text \<open>Claims of a scope that was not granted are never returned.\<close>

definition claims_of_scope :: "string \<Rightarrow> string list" where
  "claims_of_scope s =
     (if s = ''email'' then [''email'', ''email_verified'']
      else if s = ''phone'' then [''phone_number'', ''phone_number_verified'']
      else if s = ''address'' then [''address'']
      else if s = ''profile'' then [''name'', ''picture'', ''updated_at'', ''given_name'', ''family_name'',
        ''middle_name'', ''nickname'', ''preferred_username'', ''profile'', ''website'', ''gender'',
        ''birthdate'', ''zoneinfo'', ''locale'']
      else [])"

lemma profile_claims_keys: "fst ` set (profile_claims u meta) \<subseteq> set (claims_of_scope ''profile'')"
  unfolding profile_claims_def set_append image_Un Un_subset_iff
  by (intro conjI member_keys [THEN subset_trans]) (simp_all add: claims_of_scope_def)

lemma OIDCClaims_keys:
  "fst ` set (OIDCClaims str u scopes) \<subseteq> insert ''sub'' (\<Union>s \<in> set scopes. set (claims_of_scope s))"
proof -
  have granted: "fst ` set (if List.member scopes s then c else []) \<subseteq> (\<Union>s \<in> set scopes. set (claims_of_scope s))"
    if "fst ` set c \<subseteq> set (claims_of_scope s)" for s and c :: any_map
    using that by auto
  have addr: "fst ` set (address_member ''address'' a) \<subseteq> set (claims_of_scope ''address'')" for a
    by (rule member_keys(3) [THEN subset_trans]) (simp add: claims_of_scope_def)
  have phone: "fst ` set (str_member ''phone_number'' p @ bool_member ''phone_number_verified'' b)
      \<subseteq> set (claims_of_scope ''phone'')" for p b
    unfolding set_append image_Un Un_subset_iff
    by (intro conjI member_keys [THEN subset_trans]) (simp_all add: claims_of_scope_def)
  have email: "fst ` set [(''email'', AStr e), (''email_verified'', ABool v)] \<subseteq> set (claims_of_scope ''email'')" for e v
    by (simp add: claims_of_scope_def)
  have "fst ` set [(''sub'', x)] \<subseteq> insert ''sub'' A" for x :: any and A by simp
  then show ?thesis
    unfolding OIDCClaims_def Let_def set_append image_Un Un_subset_iff
    using granted [OF profile_claims_keys] granted [OF email] granted [OF phone] granted [OF addr]
    by (intro conjI) (assumption | rule subset_insertI2)+
qed

lemma OIDCClaims_sub: "map_of (OIDCClaims str u scopes) ''sub'' = Some (AStr (str (us_id u)))"
  by (simp add: OIDCClaims_def Let_def)

end
