(* ===== verification/RegForm.thy ===== *)
theory RegForm
  imports Store "HOL-Library.AList"
begin

text \<open>
  The operator-configurable registration form (package \<^verbatim>\<open>regform\<close>): the schema service with its
  validation, and the applicator that checks the submitted values against the schema and writes
  them to the user. JSON decoding of an options blob, \<^verbatim>\<open>strconv.ParseFloat\<close> and the failure of
  \<^verbatim>\<open>json.Marshal\<close> (on NaN and infinities) are the fields of \<open>rf_lib\<close>.
\<close>

record rf_lib =
  rl_options :: "string \<Rightarrow> (string \<times> string) list option"
  rl_parse_float :: "string \<Rightarrow> any option"
  rl_marshal_ok :: "any_map \<Rightarrow> bool"

section \<open>Applicator\<close>

definition isZero :: "any \<Rightarrow> bool" where
  "isZero v = (case v of ANil \<Rightarrow> True | AStr s \<Rightarrow> trim_space s = [] | AArr xs \<Rightarrow> xs = [] | _ \<Rightarrow> False)"

definition field_error :: "reg_field \<Rightarrow> string \<Rightarrow> err" where
  "field_error f m = ErrBadRequest (''field '' @ quoted (rf_key f) @ m)"

definition text_types :: "string list" where
  "text_types = [''text'', ''textarea'', ''email'', ''url'', ''tel'', ''date'', ''select'', ''radio'']"

fun all_strings :: "any list \<Rightarrow> string list option" where
  "all_strings [] = Some []"
| "all_strings (AStr s # vs) = map_option (Cons s) (all_strings vs)"
| "all_strings (v # vs) = None"

definition coerceValue :: "rf_lib \<Rightarrow> reg_field \<Rightarrow> any \<Rightarrow> any res" where
  "coerceValue L f raw =
     (if List.member text_types (rf_type f) then
        (case raw of AStr s \<Rightarrow> Inr (AStr (trim_space s)) | _ \<Rightarrow> Inl (field_error f '' expects a string value''))
      else if rf_type f = ''number'' then
        (case raw of
           AFloat r \<Rightarrow> Inr (AFloat r)
         | AInt n \<Rightarrow> Inr (AFloat (of_int n))
         | AStr s \<Rightarrow> (case rl_parse_float L s of None \<Rightarrow> Inl (field_error f '' expects a number'') | Some v \<Rightarrow> Inr v)
         | _ \<Rightarrow> Inl (field_error f '' expects a number''))
      else if rf_type f = ''checkbox'' then
        (case raw of ABool b \<Rightarrow> Inr (ABool b) | _ \<Rightarrow> Inl (field_error f '' expects a boolean''))
      else if rf_type f = ''multiselect'' then
        (case raw of
           AArr vs \<Rightarrow> (case all_strings vs of
                         None \<Rightarrow> Inl (field_error f '' expects an array of strings'')
                       | Some ss \<Rightarrow> Inr (AStrings ss))
         | _ \<Rightarrow> Inl (field_error f '' expects an array of strings''))
      else Inr raw)"

definition decodeOptions :: "rf_lib \<Rightarrow> string \<Rightarrow> (string \<times> string) list res" where
  "decodeOptions L raw =
     (if raw = [] then Inr []
      else case rl_options L raw of
             None \<Rightarrow> Inl (ErrInternal ''invalid options blob on field'')
           | Some opts \<Rightarrow> Inr opts)"

fun all_allowed :: "reg_field \<Rightarrow> string list \<Rightarrow> string list \<Rightarrow> unit res" where
  "all_allowed f allowed [] = Inr ()"
| "all_allowed f allowed (v # vs) =
     (if List.member allowed v then all_allowed f allowed vs
      else Inl (field_error f ('' value '' @ quoted v @ '' not in options'')))"

text \<open>The type assertions of \<^verbatim>\<open>validateValue\<close> cannot fail after \<^verbatim>\<open>coerceValue\<close>.\<close>

definition validateValue :: "rf_lib \<Rightarrow> reg_field \<Rightarrow> any \<Rightarrow> unit res" where
  "validateValue L f v =
     (if rf_type f = ''select'' \<or> rf_type f = ''radio'' then
        (case decodeOptions L (rf_options f) of
           Inl e \<Rightarrow> Inl e
         | Inr opts \<Rightarrow>
             (case v of
                AStr s \<Rightarrow> if List.member (map fst opts) s then Inr () else Inl (field_error f '' value not in options'')
              | _ \<Rightarrow> Inl (DriverError ''panic'')))
      else if rf_type f = ''multiselect'' then
        (case decodeOptions L (rf_options f) of
           Inl e \<Rightarrow> Inl e
         | Inr opts \<Rightarrow>
             (case v of
                AStrings ss \<Rightarrow> all_allowed f (map fst opts) ss
              | _ \<Rightarrow> Inl (DriverError ''panic'')))
      else Inr ())"

definition metadata_targets :: "(string \<times> string) list" where
  "metadata_targets =
     [(''metadata.given_name'', ''given_name''), (''metadata.family_name'', ''family_name''),
      (''metadata.middle_name'', ''middle_name''), (''metadata.nickname'', ''nickname''),
      (''metadata.preferred_username'', ''preferred_username''), (''metadata.profile'', ''profile''),
      (''metadata.website'', ''website''), (''metadata.gender'', ''gender''),
      (''metadata.birthdate'', ''birthdate''), (''metadata.zoneinfo'', ''zoneinfo''),
      (''metadata.locale'', ''locale'')]"

definition string_or_empty :: "any \<Rightarrow> string" where
  "string_or_empty v = (case v of AStr s \<Rightarrow> s | _ \<Rightarrow> [])"

definition applyStandard :: "user \<Rightarrow> any_map \<Rightarrow> string \<Rightarrow> any \<Rightarrow> (user \<times> any_map) res" where
  "applyStandard u meta target v =
     (let s = string_or_empty v
      in if target = ''display_name'' then Inr (u\<lparr>us_display_name := Some s\<rparr>, meta)
         else if target = ''phone'' then Inr (u\<lparr>us_phone := Some s\<rparr>, meta)
         else case map_of metadata_targets target of
                Some k \<Rightarrow> Inr (u, AList.update k (AStr s) meta)
              | None \<Rightarrow> Inl (ErrInternal (''unsupported standard_target '' @ quoted target)))"

definition custom_fields :: "any_map \<Rightarrow> any_map" where
  "custom_fields meta = (case map_of meta ''custom_fields'' of Some (AObj m) \<Rightarrow> m | _ \<Rightarrow> [])"

definition applyCustom :: "any_map \<Rightarrow> string \<Rightarrow> any \<Rightarrow> any_map" where
  "applyCustom meta key v =
     AList.update ''custom_fields'' (AObj (AList.update key v (custom_fields meta))) meta"

definition apply_value :: "user \<Rightarrow> any_map \<Rightarrow> reg_field \<Rightarrow> any \<Rightarrow> (user \<times> any_map) res" where
  "apply_value u meta f v =
     (if rf_kind f = ''standard'' then
        (case rf_standard_target f of
           None \<Rightarrow> Inl (ErrInternal (''field '' @ quoted (rf_key f) @ '' is standard but has no target''))
         | Some t \<Rightarrow> applyStandard u meta t v)
      else if rf_kind f = ''custom'' then Inr (u, applyCustom meta (rf_key f) v)
      else Inl (ErrInternal (''field '' @ quoted (rf_key f) @ '' has unsupported kind '' @ quoted (rf_kind f))))"

definition field_active :: "string \<Rightarrow> reg_field \<Rightarrow> bool" where
  "field_active ctx f \<longleftrightarrow> rf_enabled f \<and> List.member (rf_applies_to f) ctx"

definition submitted :: "any_map \<Rightarrow> reg_field \<Rightarrow> any option" where
  "submitted extras f =
     (case map_of extras (rf_key f) of None \<Rightarrow> None | Some v \<Rightarrow> if isZero v then None else Some v)"

fun apply_fields :: "rf_lib \<Rightarrow> any_map \<Rightarrow> string \<Rightarrow> reg_field list \<Rightarrow> user \<times> any_map \<Rightarrow> (user \<times> any_map) res" where
  "apply_fields L extras ctx [] um = Inr um"
| "apply_fields L extras ctx (f # fs) (u, meta) =
     (if \<not> field_active ctx f then apply_fields L extras ctx fs (u, meta)
      else case submitted extras f of
             None \<Rightarrow> if rf_required f then Inl (field_error f '' is required'')
                     else apply_fields L extras ctx fs (u, meta)
           | Some raw \<Rightarrow>
               (case coerceValue L f raw of
                  Inl e \<Rightarrow> Inl e
                | Inr v \<Rightarrow>
                    (case validateValue L f v of
                       Inl e \<Rightarrow> Inl e
                     | Inr x \<Rightarrow>
                         (case apply_value u meta f v of
                            Inl e \<Rightarrow> Inl e
                          | Inr um \<Rightarrow> apply_fields L extras ctx fs um))))"

definition reg_Apply :: "rf_lib \<Rightarrow> user \<Rightarrow> any_map \<Rightarrow> reg_field list \<Rightarrow> string \<Rightarrow> user res" where
  "reg_Apply L u extras schema ctx =
     (case apply_fields L extras ctx schema (u, us_metadata u) of
        Inl e \<Rightarrow> Inl e
      | Inr (u1, meta) \<Rightarrow>
          if rl_marshal_ok L meta then Inr (u1\<lparr>us_metadata := meta\<rparr>)
          else Inl (ErrInternal ''failed to serialise user metadata''))"

section \<open>Schema repository and service\<close>

definition field_order :: "reg_field list \<Rightarrow> reg_field list" where
  "field_order fs = sort_key rf_display_order fs"

definition reg_List_row :: "env \<Rightarrow> db \<Rightarrow> reg_field list dbres" where
  "reg_List_row E st = stmt E ''regform.List'' (field_order (t_reg_fields st))"

definition reg_ListForContext_row :: "env \<Rightarrow> string \<Rightarrow> db \<Rightarrow> reg_field list dbres" where
  "reg_ListForContext_row E ctx st = stmt E ''regform.ListForContext''
     (field_order (filter (field_active ctx) (t_reg_fields st)))"

definition reg_FindByID :: "env \<Rightarrow> uuid \<Rightarrow> db \<Rightarrow> reg_field option dbres" where
  "reg_FindByID E i st = stmt E ''regform.FindByID'' (first_where (\<lambda>f. rf_id f = i) (t_reg_fields st))"

definition reg_FindByKey :: "env \<Rightarrow> string \<Rightarrow> db \<Rightarrow> reg_field option dbres" where
  "reg_FindByKey E k st = stmt E ''regform.FindByKey'' (first_where (\<lambda>f. rf_key f = k) (t_reg_fields st))"

text \<open>GORM writes a column's default for a zero value on \<^verbatim>\<open>Create\<close>: \<^verbatim>\<open>Enabled\<close> has the default true, so a
  row that is created disabled is stored, and handed back, enabled.\<close>

definition gorm_default_true :: "bool \<Rightarrow> bool" where
  "gorm_default_true b = (if b then b else True)"

definition reg_Create_row :: "env \<Rightarrow> reg_field \<Rightarrow> db \<Rightarrow> reg_field dbres \<times> db" where
  "reg_Create_row E f st =
     (case new_uuid E st of
        (None, st1) \<Rightarrow> (DbErr, st1)
      | (Some i, st1) \<Rightarrow>
          let f1 = f\<lparr>rf_id := i, rf_enabled := gorm_default_true (rf_enabled f)\<rparr>
          in if List.member (map rf_key (t_reg_fields st1)) (rf_key f) then (DbErr, st1)
          else (case stmt_opt E ''regform.Create'' (map_option (\<lambda>t. st1\<lparr>t_reg_fields := t\<rparr>)
                  (insert_row rf_id f1 (t_reg_fields st1))) of
             DbErr \<Rightarrow> (DbErr, st1)
           | DbOk st2 \<Rightarrow> (DbOk f1, st2)))"

definition reg_Update_row :: "env \<Rightarrow> reg_field \<Rightarrow> db \<Rightarrow> db dbres" where
  "reg_Update_row E f st = stmt E ''regform.Update'' (st\<lparr>t_reg_fields := save_row rf_id f (t_reg_fields st)\<rparr>)"

definition reg_Delete_row :: "env \<Rightarrow> uuid \<Rightarrow> db \<Rightarrow> db dbres" where
  "reg_Delete_row E i st = stmt E ''regform.Delete''
     (st\<lparr>t_reg_fields := delete_where (\<lambda>f. rf_id f = i) (t_reg_fields st)\<rparr>)"

fun reorder_rows :: "env \<Rightarrow> int \<Rightarrow> uuid list \<Rightarrow> db \<Rightarrow> unit res \<times> db" where
  "reorder_rows E idx [] st = (Inr (), st)"
| "reorder_rows E idx (i # ids) st =
     (if db_err E ''regform.Reorder'' then (Inl (DriverError ''regform.Reorder''), st)
      else reorder_rows E (idx + 1) ids
             (st\<lparr>t_reg_fields := update_where (\<lambda>f. rf_id f = i) (\<lambda>f. f\<lparr>rf_display_order := idx\<rparr>) (t_reg_fields st)\<rparr>))"

definition reg_Reorder_row :: "env \<Rightarrow> uuid list \<Rightarrow> db \<Rightarrow> unit res \<times> db" where
  "reg_Reorder_row E ids st = Transaction E (reorder_rows E 0 ids) st"

definition single_quoted :: "string \<Rightarrow> string" where
  "single_quoted s = [char_of (39::nat)] @ s @ [char_of (39::nat)]"

definition field_key_ok :: "string \<Rightarrow> bool" where
  "field_key_ok k =
     (case k of
        [] \<Rightarrow> False
      | c # cs \<Rightarrow>
          97 \<le> (of_char c :: nat) \<and> (of_char c :: nat) \<le> 122 \<and> length cs \<le> 63 \<and>
          list_all (\<lambda>x. (97 \<le> (of_char x :: nat) \<and> (of_char x :: nat) \<le> 122) \<or>
             (48 \<le> (of_char x :: nat) \<and> (of_char x :: nat) \<le> 57) \<or> x = CHR ''_'') cs)"

definition allowedContexts :: "string list" where
  "allowedContexts = [''register'', ''federation'']"

definition allowedTypes :: "string list" where
  "allowedTypes = text_types @ [''number'', ''multiselect'', ''checkbox'']"

definition standard_targets :: "string list" where
  "standard_targets = [''display_name'', ''phone''] @ map fst metadata_targets"

definition validateKindTargetType :: "string \<Rightarrow> string option \<Rightarrow> string \<Rightarrow> unit res" where
  "validateKindTargetType kind target typ =
     (if \<not> List.member [''standard'', ''custom''] kind
      then Inl (ErrBadRequest (''kind must be '' @ single_quoted ''standard'' @ '' or '' @ single_quoted ''custom''))
      else if \<not> List.member allowedTypes typ
      then Inl (ErrBadRequest (''type '' @ quoted typ @ '' is not supported''))
      else if kind = ''standard'' then
        (if target = None \<or> target = Some []
         then Inl (ErrBadRequest ''standard kind requires a standard_target'')
         else if \<not> List.member standard_targets (the target)
         then Inl (ErrBadRequest (''standard_target '' @ quoted (the target) @ '' is not in the catalogue''))
         else Inr ())
      else if target \<noteq> None \<and> target \<noteq> Some []
      then Inl (ErrBadRequest ''custom kind must not declare a standard_target'')
      else Inr ())"

definition validateOptions :: "rf_lib \<Rightarrow> string \<Rightarrow> string \<Rightarrow> unit res" where
  "validateOptions L typ raw =
     (if \<not> List.member [''select'', ''multiselect'', ''radio''] typ then Inr ()
      else if raw = [] then Inl (ErrBadRequest (''type '' @ quoted typ @ '' requires options''))
      else case rl_options L raw of
             None \<Rightarrow> Inl (ErrBadRequest ''options must be an array of {value, label} pairs'')
           | Some opts \<Rightarrow>
               if opts = [] then Inl (ErrBadRequest (''type '' @ quoted typ @ '' requires at least one option''))
               else if list_ex (\<lambda>(v, l). v = [] \<or> l = []) opts
               then Inl (ErrBadRequest ''each option must have a non-empty value and label'')
               else Inr ())"

fun dedup_contexts :: "string list \<Rightarrow> string list \<Rightarrow> string list res" where
  "dedup_contexts out [] = Inr out"
| "dedup_contexts out (c # cs) =
     (if \<not> List.member allowedContexts c
      then Inl (ErrBadRequest (''applies_to value '' @ quoted c @ '' is not allowed''))
      else if List.member out c then dedup_contexts out cs
      else dedup_contexts (out @ [c]) cs)"

definition normaliseContexts :: "string list \<Rightarrow> string list res" where
  "normaliseContexts cs = (if cs = [] then Inr allowedContexts else dedup_contexts [] cs)"

definition reg_ListForContext :: "env \<Rightarrow> string \<Rightarrow> db \<Rightarrow> reg_field list res" where
  "reg_ListForContext E ctx st =
     (if \<not> List.member allowedContexts ctx
      then Inl (ErrBadRequest (''context must be '' @ single_quoted ''register'' @ '' or '' @ single_quoted ''federation''))
      else case reg_ListForContext_row E ctx st of
             DbErr \<Rightarrow> Inl (ErrInternal ''failed to list registration fields'')
           | DbOk fs \<Rightarrow> Inr fs)"

definition reg_Get :: "env \<Rightarrow> uuid \<Rightarrow> db \<Rightarrow> reg_field res" where
  "reg_Get E i st =
     (case reg_FindByID E i st of
        DbErr \<Rightarrow> Inl (ErrInternal ''failed to find registration field'')
      | DbOk None \<Rightarrow> Inl (ErrNotFound ''registration field not found'')
      | DbOk (Some f) \<Rightarrow> Inr f)"

record reg_create_input =
  rc_key :: string
  rc_label :: string
  rc_description :: "string option"
  rc_placeholder :: "string option"
  rc_kind :: string
  rc_standard_target :: "string option"
  rc_type :: string
  rc_required :: bool
  rc_enabled :: "bool option"
  rc_options :: string
  rc_validation :: string
  rc_applies_to :: "string list"

definition reg_Create :: "rf_lib \<Rightarrow> env \<Rightarrow> reg_create_input \<Rightarrow> db \<Rightarrow> reg_field res \<times> db" where
  "reg_Create L E inp st =
     (if \<not> field_key_ok (rc_key inp)
      then (Inl (ErrBadRequest ''field_key must match ^[a-z][a-z0-9_]{0,63}$''), st)
      else if db_maybe (reg_FindByKey E (rc_key inp) st) \<noteq> None
      then (Inl (ErrConflict ''field_key already exists''), st)
      else case validateKindTargetType (rc_kind inp) (rc_standard_target inp) (rc_type inp) of
             Inl e \<Rightarrow> (Inl e, st)
           | Inr x \<Rightarrow>
               (case validateOptions L (rc_type inp) (rc_options inp) of
                  Inl e \<Rightarrow> (Inl e, st)
                | Inr y \<Rightarrow>
                    (case normaliseContexts (rc_applies_to inp) of
                       Inl e \<Rightarrow> (Inl e, st)
                     | Inr contexts \<Rightarrow>
                         (let f = \<lparr>rf_id = uuid_nil, rf_key = rc_key inp, rf_label = rc_label inp,
                                   rf_description = rc_description inp, rf_placeholder = rc_placeholder inp,
                                   rf_kind = rc_kind inp, rf_standard_target = rc_standard_target inp,
                                   rf_type = rc_type inp, rf_required = rc_required inp,
                                   rf_enabled = (case rc_enabled inp of None \<Rightarrow> True | Some b \<Rightarrow> b),
                                   rf_display_order = (case reg_List_row E st of DbErr \<Rightarrow> 0 | DbOk fs \<Rightarrow> int (length fs)),
                                   rf_options = (if rc_options inp = [] then ''[]'' else rc_options inp),
                                   rf_validation = (if rc_validation inp = [] then ''{}'' else rc_validation inp),
                                   rf_applies_to = contexts\<rparr>
                          in case reg_Create_row E f st of
                               (DbErr, st1) \<Rightarrow> (Inl (ErrInternal ''failed to create registration field''), st1)
                             | (DbOk f1, st1) \<Rightarrow> (Inr f1, st1)))))"

record reg_update_input =
  ru_label :: "string option"
  ru_description :: "string option"
  ru_placeholder :: "string option"
  ru_kind :: "string option"
  ru_standard_target :: "string option"
  ru_type :: "string option"
  ru_required :: "bool option"
  ru_enabled :: "bool option"
  ru_options :: string
  ru_validation :: string
  ru_applies_to :: "string list option"

definition given :: "'a option \<Rightarrow> 'a \<Rightarrow> 'a" where
  "given v old = (case v of None \<Rightarrow> old | Some x \<Rightarrow> x)"

definition given_text :: "string option \<Rightarrow> string option \<Rightarrow> string option" where
  "given_text v old = (case v of None \<Rightarrow> old | Some x \<Rightarrow> non_empty x)"

definition updated_field :: "reg_update_input \<Rightarrow> reg_field \<Rightarrow> reg_field res" where
  "updated_field inp f =
     (let f1 = f\<lparr>rf_label := given (ru_label inp) (rf_label f),
                rf_description := given_text (ru_description inp) (rf_description f),
                rf_placeholder := given_text (ru_placeholder inp) (rf_placeholder f),
                rf_kind := given (ru_kind inp) (rf_kind f),
                rf_standard_target := given_text (ru_standard_target inp) (rf_standard_target f),
                rf_type := given (ru_type inp) (rf_type f),
                rf_required := given (ru_required inp) (rf_required f),
                rf_enabled := given (ru_enabled inp) (rf_enabled f),
                rf_options := (if ru_options inp = [] then rf_options f else ru_options inp),
                rf_validation := (if ru_validation inp = [] then rf_validation f else ru_validation inp)\<rparr>
      in case ru_applies_to inp of
           None \<Rightarrow> Inr f1
         | Some cs \<Rightarrow> (case normaliseContexts cs of Inl e \<Rightarrow> Inl e | Inr contexts \<Rightarrow> Inr (f1\<lparr>rf_applies_to := contexts\<rparr>)))"

definition reg_Update :: "rf_lib \<Rightarrow> env \<Rightarrow> uuid \<Rightarrow> reg_update_input \<Rightarrow> db \<Rightarrow> reg_field res \<times> db" where
  "reg_Update L E i inp st =
     (case reg_Get E i st of
        Inl e \<Rightarrow> (Inl e, st)
      | Inr f \<Rightarrow>
          (case updated_field inp f of
             Inl e \<Rightarrow> (Inl e, st)
           | Inr f1 \<Rightarrow>
               (case validateKindTargetType (rf_kind f1) (rf_standard_target f1) (rf_type f1) of
                  Inl e \<Rightarrow> (Inl e, st)
                | Inr x \<Rightarrow>
                    (case validateOptions L (rf_type f1) (rf_options f1) of
                       Inl e \<Rightarrow> (Inl e, st)
                     | Inr y \<Rightarrow>
                         (case reg_Update_row E f1 st of
                            DbErr \<Rightarrow> (Inl (ErrInternal ''failed to update registration field''), st)
                          | DbOk st1 \<Rightarrow> (Inr f1, st1))))))"

definition reg_Delete :: "env \<Rightarrow> uuid \<Rightarrow> db \<Rightarrow> unit res \<times> db" where
  "reg_Delete E i st =
     (case reg_Get E i st of
        Inl e \<Rightarrow> (Inl e, st)
      | Inr f \<Rightarrow>
          (case reg_Delete_row E i st of
             DbErr \<Rightarrow> (Inl (ErrInternal ''failed to delete registration field''), st)
           | DbOk st1 \<Rightarrow> (Inr (), st1)))"

definition reg_Reorder :: "env \<Rightarrow> uuid list \<Rightarrow> db \<Rightarrow> unit res \<times> db" where
  "reg_Reorder E ids st =
     (if ids = [] then (Inl (ErrBadRequest ''ids must be a non-empty list''), st)
      else case reg_Reorder_row E ids st of
             (Inl e, st1) \<Rightarrow> (Inl (ErrInternal ''failed to reorder registration fields''), st1)
           | (Inr x, st1) \<Rightarrow> (Inr (), st1))"

text \<open>\<^verbatim>\<open>user.Service.applyRegFormExtras\<close>'s provider: the schema of the context, then the applicator.\<close>

definition reg_form_provider :: "rf_lib \<Rightarrow> env \<Rightarrow> db \<Rightarrow> user \<Rightarrow> any_map \<Rightarrow> string \<Rightarrow> user res" where
  "reg_form_provider L E st u extras ctx =
     (case reg_ListForContext E ctx st of
        Inl e \<Rightarrow> Inl e
      | Inr schema \<Rightarrow> reg_Apply L u extras schema ctx)"

section \<open>Lemmas\<close>

lemma apply_fields_induct_step:
  assumes "apply_fields L extras ctx (f # fs) (u, meta) = Inr um"
  obtains (skipped) "\<not> field_active ctx f \<or> (submitted extras f = None \<and> \<not> rf_required f)"
      "apply_fields L extras ctx fs (u, meta) = Inr um"
    | (taken) raw v um1 where "field_active ctx f" "submitted extras f = Some raw"
      "coerceValue L f raw = Inr v" "validateValue L f v = Inr ()" "apply_value u meta f v = Inr um1"
      "apply_fields L extras ctx fs um1 = Inr um"
  using assms by (auto split: if_splits option.splits sum.splits)

text \<open>Every required field that applies to the context was submitted.\<close>

lemma apply_fields_required:
  "apply_fields L extras ctx schema um = Inr um' \<Longrightarrow> f \<in> set schema \<Longrightarrow> field_active ctx f \<Longrightarrow>
     rf_required f \<Longrightarrow> submitted extras f \<noteq> None"
proof (induction schema arbitrary: um)
  case (Cons g gs)
  obtain u meta where um: "um = (u, meta)" by (cases um)
  from Cons.prems(1) [unfolded um] show ?case
  proof (cases rule: apply_fields_induct_step)
    case skipped
    then show ?thesis using Cons.IH Cons.prems by auto
  next
    case (taken raw v um1)
    then show ?thesis using Cons.IH [of um1] Cons.prems by auto
  qed
qed simp

text \<open>What a submitted form may change of a user: two columns and the metadata.\<close>

definition without_profile :: "user \<Rightarrow> user" where
  "without_profile u = u\<lparr>us_display_name := None, us_phone := None, us_metadata := []\<rparr>"

definition profile_only :: "user \<Rightarrow> user \<Rightarrow> bool" where
  "profile_only u u' \<longleftrightarrow> without_profile u = without_profile u'"

lemma profile_only_refl: "profile_only u u"
  by (simp add: profile_only_def)

lemma profile_only_trans: "profile_only u v \<Longrightarrow> profile_only v w \<Longrightarrow> profile_only u w"
  by (simp add: profile_only_def)

lemma profile_only_fields: "profile_only u u' \<Longrightarrow>
    us_id u' = us_id u \<and> us_email u' = us_email u \<and> us_email_verified u' = us_email_verified u \<and>
    us_password_hash u' = us_password_hash u \<and> us_active u' = us_active u \<and>
    us_must_set_password u' = us_must_set_password u \<and> us_failed_login_attempts u' = us_failed_login_attempts u \<and>
    us_locked_until u' = us_locked_until u"
  by (cases u; cases u') (simp add: profile_only_def without_profile_def)

lemma profile_only_display: "profile_only u (u\<lparr>us_display_name := x\<rparr>)"
  by (simp add: profile_only_def without_profile_def)

lemma profile_only_phone: "profile_only u (u\<lparr>us_phone := x\<rparr>)"
  by (simp add: profile_only_def without_profile_def)

lemma profile_only_metadata: "profile_only u (u\<lparr>us_metadata := x\<rparr>)"
  by (simp add: profile_only_def without_profile_def)

lemma apply_value_profile: "apply_value u meta f v = Inr (u', meta') \<Longrightarrow> profile_only u u'"
  by (auto simp: apply_value_def applyStandard_def Let_def profile_only_refl profile_only_display
      profile_only_phone split: if_splits option.splits)

lemma apply_fields_profile:
  "apply_fields L extras ctx schema (u, meta) = Inr (u', meta') \<Longrightarrow> profile_only u u'"
proof (induction schema arbitrary: u meta)
  case Nil
  then show ?case by (simp add: profile_only_refl)
next
  case (Cons f fs)
  from Cons.prems show ?case
  proof (cases rule: apply_fields_induct_step)
    case skipped
    then show ?thesis using Cons.IH by blast
  next
    case (taken raw v um1)
    then obtain u1 meta1 where um1: "um1 = (u1, meta1)" by (cases um1)
    with taken have "profile_only u u1" "profile_only u1 u'"
      using apply_value_profile Cons.IH by auto
    then show ?thesis by (rule profile_only_trans)
  qed
qed

lemma reg_Apply_profile: "reg_Apply L u extras schema ctx = Inr u' \<Longrightarrow> profile_only u u'"
  by (auto simp: reg_Apply_def split: sum.splits prod.splits if_splits
      dest!: apply_fields_profile intro: profile_only_trans profile_only_metadata)

text \<open>Keys of the metadata outside the catalogue survive, and a custom field cannot overwrite them.\<close>

definition catalogue_keys :: "string list" where
  "catalogue_keys = map snd metadata_targets @ [''custom_fields'']"

lemma map_of_metadata_target: "map_of metadata_targets t = Some k \<Longrightarrow> k \<in> set catalogue_keys"
  by (force simp: catalogue_keys_def dest!: map_of_SomeD)

lemma apply_value_metadata:
  assumes "apply_value u meta f v = Inr (u', meta')" and "k \<notin> set catalogue_keys"
  shows "map_of meta' k = map_of meta k"
proof -
  have "k \<noteq> ''custom_fields''" using assms(2) by (auto simp: catalogue_keys_def)
  then show ?thesis
    using assms map_of_metadata_target
    by (fastforce simp: apply_value_def applyStandard_def applyCustom_def Let_def update_conv'
        split: if_splits option.splits)
qed

lemma apply_fields_metadata:
  "apply_fields L extras ctx schema (u, meta) = Inr (u', meta') \<Longrightarrow> k \<notin> set catalogue_keys \<Longrightarrow>
     map_of meta' k = map_of meta k"
proof (induction schema arbitrary: u meta)
  case (Cons f fs)
  from Cons.prems(1) show ?case
  proof (cases rule: apply_fields_induct_step)
    case skipped
    then show ?thesis using Cons by blast
  next
    case (taken raw v um1)
    then obtain u1 meta1 where um1: "um1 = (u1, meta1)" by (cases um1)
    with taken have "map_of meta1 k = map_of meta k" "map_of meta' k = map_of meta1 k"
      using apply_value_metadata Cons by blast+
    then show ?thesis by simp
  qed
qed simp

text \<open>A field that the schema service accepts is one the applicator can process: whatever a client
  submits, the answer is an accepted user or a bad request.\<close>

definition field_ok :: "rf_lib \<Rightarrow> reg_field \<Rightarrow> bool" where
  "field_ok L f \<longleftrightarrow>
     validateKindTargetType (rf_kind f) (rf_standard_target f) (rf_type f) = Inr () \<and>
     validateOptions L (rf_type f) (rf_options f) = Inr ()"

definition is_bad_request :: "err \<Rightarrow> bool" where
  "is_bad_request e \<longleftrightarrow> (\<exists>m. e = ErrBadRequest m)"

lemma field_error_bad_request [simp]: "is_bad_request (field_error f m)"
  by (auto simp: is_bad_request_def field_error_def)

lemma coerceValue_error: "coerceValue L f raw = Inl e \<Longrightarrow> is_bad_request e"
  by (auto simp: coerceValue_def split: if_splits any.splits option.splits)

lemma coerceValue_text: "rf_type f = ''select'' \<or> rf_type f = ''radio'' \<Longrightarrow> coerceValue L f raw = Inr v \<Longrightarrow>
    \<exists>s. v = AStr s"
  by (auto simp: coerceValue_def text_types_def split: any.splits)

lemma coerceValue_multiselect: "rf_type f = ''multiselect'' \<Longrightarrow> coerceValue L f raw = Inr v \<Longrightarrow>
    \<exists>ss. v = AStrings ss"
  by (auto simp: coerceValue_def text_types_def split: any.splits option.splits)

lemma all_allowed_error: "all_allowed f allowed vs = Inl e \<Longrightarrow> is_bad_request e"
  by (induction vs) (auto split: if_splits)

lemma all_allowed_iff: "all_allowed f allowed vs = Inr () \<longleftrightarrow> set vs \<subseteq> set allowed"
  by (induction vs) auto

lemma decodeOptions_ok: "validateOptions L typ raw = Inr () \<Longrightarrow>
    typ \<in> {''select'', ''radio'', ''multiselect''} \<Longrightarrow> \<exists>opts. decodeOptions L raw = Inr opts"
  by (auto simp: validateOptions_def decodeOptions_def split: if_splits option.splits)

lemma validateValue_error:
  assumes "field_ok L f" and "coerceValue L f raw = Inr v" and "validateValue L f v = Inl e"
  shows "is_bad_request e"
proof -
  consider (choice) "rf_type f = ''select'' \<or> rf_type f = ''radio''" | (multi) "rf_type f = ''multiselect''"
    using assms(3) by (auto simp: validateValue_def split: if_splits)
  then show ?thesis
  proof cases
    case choice
    then obtain s where "v = AStr s" using coerceValue_text assms(2) by blast
    moreover obtain opts where "decodeOptions L (rf_options f) = Inr opts"
      using decodeOptions_ok [of L "rf_type f" "rf_options f"] assms(1) choice
      by (auto simp: field_ok_def)
    ultimately show ?thesis using assms(3) choice
      by (auto simp: validateValue_def split: if_splits)
  next
    case multi
    then obtain ss where "v = AStrings ss" using coerceValue_multiselect assms(2) by blast
    moreover obtain opts where "decodeOptions L (rf_options f) = Inr opts"
      using decodeOptions_ok [of L "rf_type f" "rf_options f"] assms(1) multi
      by (auto simp: field_ok_def)
    ultimately show ?thesis using assms(3) multi
      by (auto simp: validateValue_def dest: all_allowed_error)
  qed
qed

lemma map_of_target_ex: "t \<in> set (map fst m) \<Longrightarrow> \<exists>k. map_of m t = Some k"
  by (simp add: map_of_eq_None_iff flip: not_None_eq)

lemma applyStandard_ok: "t \<in> set standard_targets \<Longrightarrow> \<exists>u' meta'. applyStandard u meta t v = Inr (u', meta')"
  using map_of_target_ex [of t metadata_targets]
  unfolding standard_targets_def applyStandard_def Let_def
  by (cases "map_of metadata_targets t") auto

lemma apply_value_ok: "field_ok L f \<Longrightarrow> \<exists>u' meta'. apply_value u meta f v = Inr (u', meta')"
  by (auto simp: field_ok_def validateKindTargetType_def apply_value_def applyStandard_ok
      split: if_splits option.splits)

lemma apply_value_not_error: "field_ok L f \<Longrightarrow> apply_value u meta f v \<noteq> Inl e"
  using apply_value_ok [of L f u meta v] by auto

lemma apply_fields_error:
  "apply_fields L extras ctx schema um = Inl e \<Longrightarrow> list_all (field_ok L) schema \<Longrightarrow> is_bad_request e"
proof (induction schema arbitrary: um)
  case (Cons f fs)
  obtain u meta where um: "um = (u, meta)" by (cases um)
  have f: "field_ok L f" using Cons.prems(2) by simp
  show ?case
  proof (cases "field_active ctx f \<and> submitted extras f \<noteq> None")
    case True
    then obtain raw where raw: "field_active ctx f" "submitted extras f = Some raw" by auto
    consider (coerce) "coerceValue L f raw = Inl e"
      | (validate) v where "coerceValue L f raw = Inr v" "validateValue L f v = Inl e"
      | (rest) um1 where "apply_fields L extras ctx fs um1 = Inl e"
      using Cons.prems(1) raw apply_value_not_error [OF f] unfolding um by (auto split: sum.splits)
    then show ?thesis
      using coerceValue_error validateValue_error [OF f] Cons.IH Cons.prems(2) by cases auto
  next
    case False
    then show ?thesis using Cons unfolding um by (auto split: if_splits)
  qed
qed simp

lemma reg_Apply_error:
  "reg_Apply L u extras schema ctx = Inl e \<Longrightarrow> list_all (field_ok L) schema \<Longrightarrow>
     (\<And>m. rl_marshal_ok L m) \<Longrightarrow> is_bad_request e"
  by (auto simp: reg_Apply_def dest: apply_fields_error split: sum.splits if_splits prod.splits)

text \<open>Creation and update keep every stored field acceptable.\<close>

definition schema_ok :: "rf_lib \<Rightarrow> db \<Rightarrow> bool" where
  "schema_ok L st \<longleftrightarrow> list_all (field_ok L) (t_reg_fields st)"

lemma reg_Create_row_fields:
  "reg_Create_row E f st = (r, st') \<Longrightarrow>
     t_reg_fields st' = t_reg_fields st \<or>
     (\<exists>i. t_reg_fields st' = t_reg_fields st @ [f\<lparr>rf_id := i, rf_enabled := True\<rparr>])"
  by (auto simp: reg_Create_row_def new_uuid_def bump_def stmt_opt_def insert_row_Some_iff
      gorm_default_true_def Let_def split: option.splits dbres.splits if_splits)

lemma field_ok_id [simp]: "field_ok L (f\<lparr>rf_id := i, rf_enabled := b\<rparr>) = field_ok L f"
  by (simp add: field_ok_def)

lemma validateOptions_default: "validateOptions L typ raw = Inr () \<Longrightarrow>
    validateOptions L typ (if raw = [] then ''[]'' else raw) = Inr ()"
  by (auto simp: validateOptions_def split: if_splits)

lemma reg_Create_schema:
  assumes "reg_Create L E inp st = (r, st')" and "schema_ok L st"
  shows "schema_ok L st'"
proof -
  have "t_reg_fields st' = t_reg_fields st \<or> (\<exists>f. field_ok L f \<and> t_reg_fields st' = t_reg_fields st @ [f])"
    using assms(1) validateOptions_default [of L "rc_type inp" "rc_options inp"]
    unfolding reg_Create_def Let_def
    by (force simp: field_ok_def split: if_splits sum.splits prod.splits dbres.splits
        dest!: reg_Create_row_fields)
  then show ?thesis using assms(2) by (auto simp: schema_ok_def)
qed

lemma list_all_save_row: "list_all P rs \<Longrightarrow> P r \<Longrightarrow> list_all P (save_row key r rs)"
  using set_save_row [of key r rs] by (auto simp: list_all_iff)

lemma reg_Update_schema:
  assumes "reg_Update L E i inp st = (r, st')" and "schema_ok L st"
  shows "schema_ok L st'"
proof -
  have "t_reg_fields st' = t_reg_fields st \<or>
      (\<exists>f. field_ok L f \<and> t_reg_fields st' = save_row rf_id f (t_reg_fields st))"
    using assms(1) by (auto simp: reg_Update_def reg_Update_row_def stmt_def field_ok_def
        split: sum.splits dbres.splits if_splits)
  then show ?thesis
    using assms(2) list_all_save_row by (auto simp: schema_ok_def)
qed

section \<open>The provider as an interface\<close>

text \<open>
  What the user service relies on in its \<^verbatim>\<open>RegFormProvider\<close>: the form fills in profile columns and
  cannot touch the identity, the credentials or the state of the account.
\<close>

locale registration_form =
  fixes fill :: "user \<Rightarrow> any_map \<Rightarrow> string \<Rightarrow> user res"
  assumes fill_profile: "fill u extras ctx = Inr u' \<Longrightarrow> profile_only u u'"
begin

lemma fill_keeps_account:
  "fill u extras ctx = Inr u' \<Longrightarrow> us_email u' = us_email u \<and> us_email_verified u' = us_email_verified u \<and>
     us_password_hash u' = us_password_hash u \<and> us_active u' = us_active u"
  using profile_only_fields [OF fill_profile] by blast

end

interpretation form: registration_form "reg_form_provider L E st" for L E st
  by unfold_locales (auto simp: reg_form_provider_def dest: reg_Apply_profile split: sum.splits)

end
