(* ===== verification/Mail.thy ===== *)
theory Mail
  imports Store
begin

text \<open>
  Transactional mail (package \<^verbatim>\<open>email\<close>): the template resolver with its cached overrides
  (\<^verbatim>\<open>resolver.go\<close>, \<^verbatim>\<open>template_store.go\<close>), the outbox the services write to (\<^verbatim>\<open>outbox.go\<close>) and the
  worker that drains it in batches with retries (\<^verbatim>\<open>outbox_repo.go\<close>, \<^verbatim>\<open>worker.go\<close>). The HTML template
  engine, the embedded default bodies and the SMTP dialogue are parameters.
\<close>

section \<open>Templates\<close>

definition TemplateNames :: "string list" where
  "TemplateNames = [''verification'', ''password_reset'', ''invitation'', ''account_email_change'',
     ''account_email_changed'', ''account_password_changed'', ''account_deletion'']"

definition VariablesFor :: "string \<Rightarrow> string list" where
  "VariablesFor n =
     (if List.member [''verification'', ''password_reset'', ''invitation'', ''account_email_change'', ''account_deletion''] n
      then [''Issuer'', ''Token'']
      else if n = ''account_email_changed'' then [''Issuer'', ''NewEmail'']
      else if n = ''account_password_changed'' then [''Issuer'']
      else [])"

definition DefaultSubject :: "string \<Rightarrow> string" where
  "DefaultSubject n = (case map_of
     [(''verification'', ''Verify your email address''), (''password_reset'', ''Reset your password''),
      (''invitation'', ''You've been invited''), (''account_email_change'', ''Confirm your new email address''),
      (''account_email_changed'', ''Your email address was changed''),
      (''account_password_changed'', ''Your password was changed''),
      (''account_deletion'', ''Account deletion scheduled'')] n of None \<Rightarrow> [] | Some s \<Rightarrow> s)"

record override =
  ov_subject :: string
  ov_body :: string

text \<open>The \<^verbatim>\<open>email_templates\<close> table (with who edited a row last) and the store's cache, in which
  an entry \<open>None\<close> records that the table has no row.\<close>

record template_state =
  ts_rows :: "(string \<times> override \<times> uuid option) list"
  ts_cache :: "string \<rightharpoonup> override option"

definition stored_override :: "template_state \<Rightarrow> string \<Rightarrow> override option" where
  "stored_override ts n = map_option (\<lambda>(_, ov, _). ov) (first_where (\<lambda>r. fst r = n) (ts_rows ts))"

definition template_Get :: "env \<Rightarrow> string \<Rightarrow> template_state \<Rightarrow> override option dbres \<times> template_state" where
  "template_Get E n ts =
     (case ts_cache ts n of
        Some cached \<Rightarrow> (DbOk cached, ts)
      | None \<Rightarrow>
          (case stmt E ''template.Get'' (stored_override ts n) of
             DbErr \<Rightarrow> (DbErr, ts)
           | DbOk ov \<Rightarrow> (DbOk ov, ts\<lparr>ts_cache := (ts_cache ts)(n := Some ov)\<rparr>)))"

definition template_invalidate :: "string \<Rightarrow> template_state \<Rightarrow> template_state" where
  "template_invalidate n ts = ts\<lparr>ts_cache := (ts_cache ts)(n := None)\<rparr>"

definition template_Upsert :: "env \<Rightarrow> string \<Rightarrow> override \<Rightarrow> uuid \<Rightarrow> template_state \<Rightarrow> template_state dbres" where
  "template_Upsert E n ov who ts =
     (case stmt E ''template.Upsert'' (ts\<lparr>ts_rows :=
             save_row fst (n, ov, if who = uuid_nil then None else Some who) (ts_rows ts)\<rparr>) of
        DbErr \<Rightarrow> DbErr
      | DbOk ts1 \<Rightarrow> DbOk (template_invalidate n ts1))"

definition template_Delete :: "env \<Rightarrow> string \<Rightarrow> template_state \<Rightarrow> template_state dbres" where
  "template_Delete E n ts =
     (case stmt E ''template.Delete'' (ts\<lparr>ts_rows := delete_where (\<lambda>r. fst r = n) (ts_rows ts)\<rparr>) of
        DbErr \<Rightarrow> DbErr
      | DbOk ts1 \<Rightarrow> DbOk (template_invalidate n ts1))"

text \<open>\<open>eng_default\<close> reads the embedded file, \<open>eng_run\<close> parses and executes a template body.\<close>

record template_engine =
  eng_default :: "string \<Rightarrow> string option"
  eng_run :: "string \<Rightarrow> string \<Rightarrow> mail \<Rightarrow> string option"

definition Resolve :: "template_engine \<Rightarrow> env \<Rightarrow> bool \<Rightarrow> string \<Rightarrow> template_state
    \<Rightarrow> (string \<times> string \<times> bool) option \<times> template_state" where
  "Resolve T E has_store n ts =
     (let fallback = (case eng_default T n of
                        None \<Rightarrow> None | Some b \<Rightarrow> Some (DefaultSubject n, b, False))
      in if \<not> has_store then (fallback, ts)
         else case template_Get E n ts of
                (DbErr, ts1) \<Rightarrow> (None, ts1)
              | (DbOk (Some ov), ts1) \<Rightarrow> (Some (ov_subject ov, ov_body ov, True), ts1)
              | (DbOk None, ts1) \<Rightarrow> (fallback, ts1))"

definition Render :: "template_engine \<Rightarrow> env \<Rightarrow> bool \<Rightarrow> mail \<Rightarrow> template_state
    \<Rightarrow> (string \<times> string) option \<times> template_state" where
  "Render T E has_store m ts =
     (case Resolve T E has_store (ml_kind m) ts of
        (None, ts1) \<Rightarrow> (None, ts1)
      | (Some (subject, raw, _), ts1) \<Rightarrow>
          (case eng_run T (ml_kind m) raw m of
             None \<Rightarrow> (None, ts1)
           | Some body \<Rightarrow> (Some (subject, body), ts1)))"

text \<open>The cache never disagrees with the table.\<close>

definition cache_coherent :: "template_state \<Rightarrow> bool" where
  "cache_coherent ts \<longleftrightarrow> (\<forall>n ov. ts_cache ts n = Some ov \<longrightarrow> ov = stored_override ts n)"

lemma stored_override_upsert [simp]:
  "stored_override (ts\<lparr>ts_rows := save_row fst (n, ov, w) (ts_rows ts)\<rparr>) k =
     (if k = n then Some ov else stored_override ts k)"
  by (simp add: stored_override_def first_where_save)

lemma first_where_other: "k \<noteq> n \<Longrightarrow> (fst r = k \<and> fst r \<noteq> n) = (fst r = k)"
  by auto

lemma stored_override_delete [simp]:
  "stored_override (ts\<lparr>ts_rows := delete_where (\<lambda>r. fst r = n) (ts_rows ts)\<rparr>) k =
     (if k = n then None else stored_override ts k)"
proof -
  have "first_where (\<lambda>r. fst r = k \<and> fst r \<noteq> n) rs = (if k = n then None else first_where (\<lambda>r. fst r = k) rs)"
    for rs :: "(string \<times> override \<times> uuid option) list"
    by (induction rs) auto
  then show ?thesis by (simp add: stored_override_def first_where_delete)
qed

lemma stored_override_cache [simp]: "stored_override (ts\<lparr>ts_cache := c\<rparr>) = stored_override ts"
  by (rule ext) (simp add: stored_override_def)

lemma stored_override_invalidate [simp]: "stored_override (template_invalidate n ts) = stored_override ts"
  by (simp add: template_invalidate_def)

lemma template_Get_coherent:
  assumes "cache_coherent ts" and "template_Get E n ts = (r, ts')"
  shows "cache_coherent ts' \<and> stored_override ts' = stored_override ts \<and>
    (r = DbErr \<or> r = DbOk (stored_override ts n))"
  using assms
  by (auto simp: template_Get_def cache_coherent_def stmt_def stored_override_def
      split: option.splits dbres.splits if_splits)

lemma template_Upsert_coherent:
  assumes "cache_coherent ts" and "template_Upsert E n ov w ts = DbOk ts'"
  shows "cache_coherent ts' \<and> stored_override ts' = (stored_override ts)(n := Some ov)"
  using assms
  by (auto simp: template_Upsert_def cache_coherent_def template_invalidate_def stmt_def fun_eq_iff
      split: if_splits)

lemma template_Delete_coherent:
  assumes "cache_coherent ts" and "template_Delete E n ts = DbOk ts'"
  shows "cache_coherent ts' \<and> stored_override ts' = (stored_override ts)(n := None)"
  using assms
  by (auto simp: template_Delete_def cache_coherent_def template_invalidate_def stmt_def fun_eq_iff
      split: if_splits)

section \<open>The outbox\<close>

definition blank_email :: outbound_email where
  "blank_email = \<lparr>oe_id = uuid_nil, oe_recipient = [], oe_subject = [], oe_body_html = [], oe_status = [],
     oe_attempts = 0, oe_max_attempts = 0, oe_next_retry_at = 0, oe_last_error = None, oe_created_at = 0,
     oe_sent_at = None\<rparr>"

text \<open>A nil identifier is drawn, its error dropped; \<^verbatim>\<open>now()\<close> is the column default of the retry time.\<close>

definition enqueueOutboundEmail :: "env \<Rightarrow> outbound_email \<Rightarrow> db \<Rightarrow> unit res \<times> db" where
  "enqueueOutboundEmail E e0 st =
     (let (e1, st1) = (if oe_id e0 = uuid_nil
                       then (case new_uuid E st of
                               (None, s) \<Rightarrow> (e0\<lparr>oe_id := uuid_nil\<rparr>, s)
                             | (Some i, s) \<Rightarrow> (e0\<lparr>oe_id := i\<rparr>, s))
                       else (e0, st));
          e2 = e1\<lparr>oe_max_attempts := (if oe_max_attempts e1 = 0 then 5 else oe_max_attempts e1),
                  oe_status := (if oe_status e1 = [] then ''pending'' else oe_status e1),
                  oe_next_retry_at := (if oe_next_retry_at e1 = 0 then wall E else oe_next_retry_at e1),
                  oe_created_at := wall E\<rparr>
      in case stmt_opt E ''outbox.Enqueue'' (map_option (\<lambda>t. st1\<lparr>t_outbox := t\<rparr>)
                (insert_row oe_id e2 (t_outbox st1))) of
           DbErr \<Rightarrow> (Inl (DriverError ''outbox.Enqueue''), st1)
         | DbOk st2 \<Rightarrow> (Inr (), st2))"

text \<open>The \<^verbatim>\<open>Send*\<close> methods differ in template and data only. Services call them through an optional
  sender and skip the mail without one.\<close>

definition enqueueRendered :: "env \<Rightarrow> (mail \<Rightarrow> (string \<times> string) option) \<Rightarrow> mail \<Rightarrow> db \<Rightarrow> unit res \<times> db" where
  "enqueueRendered E render m st =
     (case render m of
        None \<Rightarrow> (Inl (DriverError (''render '' @ ml_kind m)), st)
      | Some (subject, body) \<Rightarrow>
          enqueueOutboundEmail E (blank_email\<lparr>oe_recipient := ml_to m, oe_subject := subject,
            oe_body_html := body\<rparr>) st)"

definition send_mail :: "env \<Rightarrow> mail \<Rightarrow> db \<Rightarrow> unit res \<times> db" where
  "send_mail E m st =
     (case mail_sender E of None \<Rightarrow> (Inr (), st) | Some render \<Rightarrow> enqueueRendered E render m st)"

definition mail_of :: "string \<Rightarrow> string \<Rightarrow> string \<Rightarrow> mail" where
  "mail_of to tmpl tok = \<lparr>ml_to = to, ml_kind = tmpl, ml_token = tok, ml_new_email = []\<rparr>"

definition mail_SendVerificationEmail :: "env \<Rightarrow> string \<Rightarrow> string \<Rightarrow> db \<Rightarrow> unit res \<times> db" where
  "mail_SendVerificationEmail E to tok = send_mail E (mail_of to ''verification'' tok)"

definition mail_SendPasswordResetEmail :: "env \<Rightarrow> string \<Rightarrow> string \<Rightarrow> db \<Rightarrow> unit res \<times> db" where
  "mail_SendPasswordResetEmail E to tok = send_mail E (mail_of to ''password_reset'' tok)"

definition mail_SendInvitationEmail :: "env \<Rightarrow> string \<Rightarrow> string \<Rightarrow> db \<Rightarrow> unit res \<times> db" where
  "mail_SendInvitationEmail E to tok = send_mail E (mail_of to ''invitation'' tok)"

definition mail_SendEmailChangeConfirmation :: "env \<Rightarrow> string \<Rightarrow> string \<Rightarrow> db \<Rightarrow> unit res \<times> db" where
  "mail_SendEmailChangeConfirmation E to tok = send_mail E (mail_of to ''account_email_change'' tok)"

definition mail_SendEmailChangedNotice :: "env \<Rightarrow> string \<Rightarrow> string \<Rightarrow> db \<Rightarrow> unit res \<times> db" where
  "mail_SendEmailChangedNotice E old new =
     send_mail E \<lparr>ml_to = old, ml_kind = ''account_email_changed'', ml_token = [], ml_new_email = new\<rparr>"

definition mail_SendPasswordChangedNotice :: "env \<Rightarrow> string \<Rightarrow> db \<Rightarrow> unit res \<times> db" where
  "mail_SendPasswordChangedNotice E to = send_mail E (mail_of to ''account_password_changed'' [])"

definition mail_SendAccountDeletionEmail :: "env \<Rightarrow> string \<Rightarrow> string \<Rightarrow> db \<Rightarrow> unit res \<times> db" where
  "mail_SendAccountDeletionEmail E to tok = send_mail E (mail_of to ''account_deletion'' tok)"

lemma send_mail_frame: "send_mail E m st = (x, st') \<Longrightarrow>
    st' = st\<lparr>t_outbox := t_outbox st', draws := draws st'\<rparr>"
  by (auto simp: send_mail_def enqueueRendered_def enqueueOutboundEmail_def stmt_opt_def new_uuid_def bump_def
      insert_row_def Let_def split: if_splits option.splits prod.splits dbres.splits)

section \<open>The worker\<close>

text \<open>Doubling from two minutes, capped at one hour.\<close>

fun backoff_loop :: "nat \<Rightarrow> duration \<Rightarrow> duration" where
  "backoff_loop 0 d = d"
| "backoff_loop (Suc n) d = (let d2 = int64 (d * 2) in if d2 \<ge> hours 1 then hours 1 else backoff_loop n d2)"

definition ExpBackoff :: "int \<Rightarrow> duration" where
  "ExpBackoff attempts = backoff_loop (nat (attempts - 1)) (minutes 2)"

definition after_delivery ::
  "(int \<Rightarrow> duration) \<Rightarrow> time \<Rightarrow> outbound_email \<Rightarrow> string option \<Rightarrow> outbound_email" where
  "after_delivery backoff now e outcome =
     (let e1 = e\<lparr>oe_attempts := oe_attempts e + 1\<rparr>
      in case outcome of
           None \<Rightarrow> e1\<lparr>oe_status := ''sent'', oe_sent_at := Some now, oe_last_error := None\<rparr>
         | Some msg \<Rightarrow>
             (if oe_attempts e1 \<ge> oe_max_attempts e1
              then e1\<lparr>oe_last_error := Some msg, oe_status := ''failed''\<rparr>
              else e1\<lparr>oe_last_error := Some msg, oe_next_retry_at := now + backoff (oe_attempts e1)\<rparr>))"

definition due_rows :: "env \<Rightarrow> nat \<Rightarrow> db \<Rightarrow> outbound_email list" where
  "due_rows E limit st =
     take limit (sort_key oe_next_retry_at
       (filter (\<lambda>e. oe_status e = ''pending'' \<and> oe_next_retry_at e \<le> wall E) (t_outbox st)))"

text \<open>The last component is what the SMTP server accepted: deliveries are not undone by a rollback.\<close>

fun process_rows :: "env \<Rightarrow> (int \<Rightarrow> duration) \<Rightarrow> (outbound_email \<Rightarrow> string option) \<Rightarrow> outbound_email list
    \<Rightarrow> db \<Rightarrow> nat res \<times> db \<times> outbound_email list" where
  "process_rows E backoff deliver [] st = (Inr 0, st, [])"
| "process_rows E backoff deliver (e # es) st =
     (let outcome = deliver e; sent = (if outcome = None then [e] else [])
      in case stmt E ''outbox.Save'' (st\<lparr>t_outbox :=
                 save_row oe_id (after_delivery backoff (wall E) e outcome) (t_outbox st)\<rparr>) of
           DbErr \<Rightarrow> (Inl (DriverError ''outbox.Save''), st, sent)
         | DbOk st1 \<Rightarrow>
             (case process_rows E backoff deliver es st1 of
                (Inl err, st2, out) \<Rightarrow> (Inl err, st2, sent @ out)
              | (Inr n, st2, out) \<Rightarrow> (Inr (Suc n), st2, sent @ out)))"

definition ProcessBatch :: "env \<Rightarrow> nat \<Rightarrow> (int \<Rightarrow> duration) \<Rightarrow> (outbound_email \<Rightarrow> string option) \<Rightarrow> db
    \<Rightarrow> nat res \<times> db \<times> outbound_email list" where
  "ProcessBatch E limit backoff deliver st =
     (if db_err E ''outbox.Select'' then (Inl (DriverError ''outbox.Select''), rollback E st st, [])
      else let (r, st1, out) = process_rows E backoff deliver (due_rows E limit st) st
           in case Transaction E (\<lambda>_. (r, st1)) st of (r1, st2) \<Rightarrow> (r1, st2, out))"

definition PendingCount :: "env \<Rightarrow> db \<Rightarrow> nat dbres" where
  "PendingCount E st = stmt E ''outbox.PendingCount''
     (length (filter (\<lambda>e. oe_status e = ''pending'') (t_outbox st)))"

text \<open>One round of the worker, with its default batch of ten; \<open>cancelled\<close> is the context's error.\<close>

definition tick :: "env \<Rightarrow> bool \<Rightarrow> (outbound_email \<Rightarrow> string option) \<Rightarrow> db \<Rightarrow> db \<times> outbound_email list" where
  "tick E cancelled deliver st =
     (if cancelled then (st, [])
      else case ProcessBatch E 10 ExpBackoff deliver st of (_, st1, out) \<Rightarrow> (st1, out))"

lemma ExpBackoff_small: "attempts \<le> 1 \<Longrightarrow> ExpBackoff attempts = minutes 2"
  by (simp add: ExpBackoff_def)

lemma backoff_loop_bounds: "minutes 2 \<le> d \<Longrightarrow> d \<le> hours 1 \<Longrightarrow> minutes 2 \<le> backoff_loop n d \<and> backoff_loop n d \<le> hours 1"
proof (induction n arbitrary: d)
  case (Suc n)
  have h: "hours 1 = 3600000000000" "minutes 2 = 120000000000"
    by (simp_all add: hours_def minutes_def nanos_per_second_def int64_id)
  have "int64 (d * 2) = d * 2" using Suc.prems by (intro int64_id) (auto simp: h)
  then show ?case using Suc by (simp add: h Let_def)
qed simp

lemma ExpBackoff_bounds: "minutes 2 \<le> ExpBackoff n \<and> ExpBackoff n \<le> hours 1"
  unfolding ExpBackoff_def
  by (rule backoff_loop_bounds) (simp_all add: hours_def minutes_def nanos_per_second_def int64_id)

lemma backoff_loop_double:
  "0 \<le> d \<Longrightarrow> d < hours 1 \<Longrightarrow> backoff_loop n d = min (hours 1) (d * 2 ^ n)"
proof (induction n arbitrary: d)
  case (Suc n)
  have h: "hours 1 = 3600000000000"
    by (simp add: hours_def nanos_per_second_def int64_id)
  have e: "int64 (d * 2) = d * 2" using Suc.prems by (intro int64_id) (auto simp: h)
  show ?case
  proof (cases "hours 1 \<le> d * 2")
    case True
    have "d * 2 * 1 \<le> d * 2 * 2 ^ n" using Suc.prems by (intro mult_left_mono) auto
    with True show ?thesis by (simp add: e Let_def)
  next
    case False
    then show ?thesis using Suc.IH [of "d * 2"] Suc.prems by (simp add: e Let_def mult_ac)
  qed
qed simp

text \<open>The documented schedule: two minutes doubled for each attempt after the first, at most an hour.\<close>

lemma ExpBackoff_schedule: "ExpBackoff n = min (hours 1) (minutes 2 * 2 ^ nat (n - 1))"
  unfolding ExpBackoff_def
  by (rule backoff_loop_double) (simp_all add: hours_def minutes_def nanos_per_second_def int64_id)

subsection \<open>Rows and deliveries\<close>

lemma after_delivery_id [simp]: "oe_id (after_delivery b now e r) = oe_id e"
  by (simp add: after_delivery_def Let_def split: option.splits)

lemma save_unique:
  assumes "keys_unique key rs" and "e \<in> set rs" and "key e' = key e"
  shows "save_row key e' rs = map (\<lambda>r. if r = e then e' else r) rs"
proof -
  have "key r = key e \<longleftrightarrow> r = e" if "r \<in> set rs" for r
    using assms(1,2) that by (auto simp: keys_unique_def distinct_map inj_on_def)
  then show ?thesis using assms(2,3) by (auto simp: save_row_def)
qed

lemma process_rows_Inr:
  assumes "process_rows E b deliver es st = (Inr n, st', out)" and "keys_unique oe_id (t_outbox st)"
    and "distinct es" and "set es \<subseteq> set (t_outbox st)"
  shows "t_outbox st' = map (\<lambda>r. if r \<in> set es then after_delivery b (wall E) r (deliver r) else r) (t_outbox st) \<and>
    out = filter (\<lambda>e. deliver e = None) es \<and> n = length es \<and> st' = st\<lparr>t_outbox := t_outbox st'\<rparr>"
  using assms
proof (induction es arbitrary: st n out)
  case (Cons e es)
  let ?f = "\<lambda>r. after_delivery b (wall E) r (deliver r)"
  let ?st1 = "st\<lparr>t_outbox := save_row oe_id (?f e) (t_outbox st)\<rparr>"
  have one: "save_row oe_id (?f e) (t_outbox st) = map (\<lambda>r. if r = e then ?f e else r) (t_outbox st)"
    using Cons.prems by (intro save_unique) auto
  from Cons.prems(1) obtain m out1 where
    rest: "process_rows E b deliver es ?st1 = (Inr m, st', out1)"
    and n: "n = Suc m" and out: "out = (if deliver e = None then [e] else []) @ out1"
    by (auto simp: Let_def stmt_def split: if_splits prod.splits sum.splits)
  have ku: "keys_unique oe_id (t_outbox ?st1)" using Cons.prems(2) by (simp add: keys_unique_save)
  have sub: "set es \<subseteq> set (t_outbox ?st1)" using Cons.prems(3,4) by (auto simp: one)
  have dist: "distinct es" and nin: "e \<notin> set es" using Cons.prems(3) by auto
  have fe: "?f e \<notin> set es"
  proof
    assume "?f e \<in> set es"
    then have "?f e \<in> set (t_outbox st)" using Cons.prems(4) by auto
    then have "?f e = e"
      using Cons.prems(2,4) by (auto simp: keys_unique_def distinct_map inj_on_def)
    then show False using \<open>?f e \<in> set es\<close> nin by simp
  qed
  show ?case
    using Cons.IH [OF rest ku dist sub] n out fe nin
    by (auto simp: one)
qed simp

end
