(* ===== verification/Users.thy ===== *)
theory Users
  imports Rbac Profile RegForm Mail
begin

text \<open>
  Local accounts (\<^verbatim>\<open>user/service.go\<close> over \<^verbatim>\<open>user/repository.go\<close>): registration, password login with
  lockout and transparent rehash, the administrative and profile updates, e-mail verification by
  action token, and password reset. A partial update (\<^verbatim>\<open>UpdateFields\<close> with a map of columns) is a
  function on the row; outgoing mail is a row of the outbox.
\<close>

section \<open>Repository\<close>

definition user_row :: "db \<Rightarrow> uuid \<Rightarrow> user option" where
  "user_row st i = first_where (\<lambda>u. us_id u = i) (t_users st)"

definition email_row :: "db \<Rightarrow> string \<Rightarrow> user option" where
  "email_row st e = first_where (\<lambda>u. us_email u = e) (t_users st)"

definition user_FindByID :: "env \<Rightarrow> uuid \<Rightarrow> db \<Rightarrow> user option dbres" where
  "user_FindByID E i st = stmt E ''user.FindByID'' (user_row st i)"

definition user_FindByEmail :: "env \<Rightarrow> string \<Rightarrow> db \<Rightarrow> user option dbres" where
  "user_FindByEmail E e st = stmt E ''user.FindByEmail'' (email_row st e)"

text \<open>\<^verbatim>\<open>t > NOW()\<close> is not true of a null \<^verbatim>\<open>t\<close>.\<close>

definition is_after :: "time option \<Rightarrow> time \<Rightarrow> bool" where
  "is_after t now = (case t of None \<Rightarrow> False | Some x \<Rightarrow> x > now)"

definition FindByResetToken :: "env \<Rightarrow> string \<Rightarrow> db \<Rightarrow> user option dbres" where
  "FindByResetToken E h st = stmt E ''user.FindByResetToken''
     (first_where (\<lambda>u. us_password_reset_token u = Some h \<and> is_after (us_password_reset_expires_at u) (wall E)) (t_users st))"

definition FindByVerifyToken :: "env \<Rightarrow> string \<Rightarrow> db \<Rightarrow> user option dbres" where
  "FindByVerifyToken E h st = stmt E ''user.FindByVerifyToken''
     (first_where (\<lambda>u. us_email_verify_token u = Some h \<and> is_after (us_email_verify_expires_at u) (wall E)) (t_users st))"

definition FindByEmailChangeToken :: "env \<Rightarrow> string \<Rightarrow> db \<Rightarrow> user option dbres" where
  "FindByEmailChangeToken E h st = stmt E ''user.FindByEmailChangeToken''
     (first_where (\<lambda>u. us_email_change_token u = Some h \<and> is_after (us_email_change_expires_at u) (wall E)) (t_users st))"

definition FindByDeletionToken :: "env \<Rightarrow> string \<Rightarrow> db \<Rightarrow> user option dbres" where
  "FindByDeletionToken E h st = stmt E ''user.FindByDeletionToken''
     (first_where (\<lambda>u. us_deletion_token u = Some h \<and> is_after (us_deletion_purge_after u) (wall E)) (t_users st))"

text \<open>E-mail addresses are unique; GORM stamps the two automatic times.\<close>

definition user_Create :: "env \<Rightarrow> user \<Rightarrow> db \<Rightarrow> user dbres \<times> db" where
  "user_Create E u st =
     (case new_uuid E st of
        (None, st1) \<Rightarrow> (DbErr, st1)
      | (Some i, st1) \<Rightarrow>
          (let u1 = u\<lparr>us_id := i, us_created_at := wall E, us_updated_at := wall E\<rparr>
           in if email_row st1 (us_email u) \<noteq> None then (DbErr, st1)
              else (case stmt_opt E ''user.Create'' (map_option (\<lambda>t. st1\<lparr>t_users := t\<rparr>)
                      (insert_row us_id u1 (t_users st1))) of
                 DbErr \<Rightarrow> (DbErr, st1)
               | DbOk st2 \<Rightarrow> (DbOk u1, st2))))"

definition email_taken :: "db \<Rightarrow> uuid \<Rightarrow> string \<Rightarrow> bool" where
  "email_taken st i e \<longleftrightarrow> first_where (\<lambda>u. us_email u = e \<and> us_id u \<noteq> i) (t_users st) \<noteq> None"

definition user_Update :: "env \<Rightarrow> user \<Rightarrow> db \<Rightarrow> db dbres" where
  "user_Update E u st = stmt_opt E ''user.Update''
     (if email_taken st (us_id u) (us_email u) then None
      else Some (st\<lparr>t_users := save_row us_id (u\<lparr>us_updated_at := wall E\<rparr>) (t_users st)\<rparr>))"

text \<open>Only an update that changes the address can violate its unique index.\<close>

definition email_conflict :: "(user \<Rightarrow> user) \<Rightarrow> uuid \<Rightarrow> db \<Rightarrow> bool" where
  "email_conflict f i st =
     (case user_row st i of
        None \<Rightarrow> False
      | Some u \<Rightarrow> us_email (f u) \<noteq> us_email u \<and> email_taken st i (us_email (f u)))"

definition touch_user :: "env \<Rightarrow> (user \<Rightarrow> user) \<Rightarrow> user \<Rightarrow> user" where
  "touch_user E f u = (f u)\<lparr>us_updated_at := wall E\<rparr>"

definition UpdateFields :: "env \<Rightarrow> uuid \<Rightarrow> (user \<Rightarrow> user) \<Rightarrow> db \<Rightarrow> db dbres" where
  "UpdateFields E i f st = stmt_opt E ''user.UpdateFields''
     (if email_conflict f i st then None
      else Some (st\<lparr>t_users := update_where (\<lambda>u. us_id u = i) (touch_user E f) (t_users st)\<rparr>))"

text \<open>Deleting a user deletes every row that refers to it (\<^verbatim>\<open>ON DELETE CASCADE\<close>), the sessions'
  own dependants included.\<close>

definition user_sessions :: "uuid \<Rightarrow> db \<Rightarrow> uuid list" where
  "user_sessions i st = map se_id (filter (\<lambda>s. se_user_id s = i) (t_sessions st))"

definition of_session :: "uuid list \<Rightarrow> uuid option \<Rightarrow> bool" where
  "of_session ss s = (case s of None \<Rightarrow> False | Some x \<Rightarrow> List.member ss x)"

definition delete_user_rows :: "uuid \<Rightarrow> db \<Rightarrow> db" where
  "delete_user_rows i st =
     (let ss = user_sessions i st in
      st\<lparr>t_users := delete_where (\<lambda>u. us_id u = i) (t_users st),
         t_user_roles := delete_where (\<lambda>(u, r). u = i) (t_user_roles st),
         t_sessions := delete_where (\<lambda>s. se_user_id s = i) (t_sessions st),
         t_auth_requests := delete_where (\<lambda>r. ar_user_id r = Some i) (t_auth_requests st),
         t_auth_codes := delete_where (\<lambda>c. ac_user_id c = i \<or> of_session ss (ac_session_id c)) (t_auth_codes st),
         t_access_tokens := delete_where (\<lambda>t. at_user_id t = Some i \<or> of_session ss (at_session_id t)) (t_access_tokens st),
         t_refresh_tokens := delete_where (\<lambda>t. rt_user_id t = i \<or> List.member ss (rt_session_id t)) (t_refresh_tokens st),
         t_consents := delete_where (\<lambda>c. co_user_id c = i) (t_consents st),
         t_device_codes := delete_where (\<lambda>d. dc_user_id d = Some i \<or> of_session ss (dc_session_id d)) (t_device_codes st),
         t_mfa_methods := delete_where (\<lambda>m. mf_user_id m = i) (t_mfa_methods st),
         t_invitations := delete_where (\<lambda>v. iv_invited_by v = i) (t_invitations st),
         t_reauth_tokens := delete_where (\<lambda>t. ra_user_id t = i \<or> List.member ss (ra_session_id t)) (t_reauth_tokens st),
         t_fed_links := delete_where (\<lambda>l. fl_user_id l = i) (t_fed_links st),
         t_fed_requests := delete_where (\<lambda>r. fr_link_user_id r = Some i) (t_fed_requests st),
         t_fed_pending_links := delete_where (\<lambda>l. fk_user_id l = i) (t_fed_pending_links st),
         t_passkeys := delete_where (\<lambda>p. pk_user_id p = i) (t_passkeys st),
         t_passkey_challenges := delete_where (\<lambda>c. pc_user_id c = Some i) (t_passkey_challenges st)\<rparr>)"

definition user_Delete_row :: "env \<Rightarrow> uuid \<Rightarrow> db \<Rightarrow> db dbres" where
  "user_Delete_row E i st = stmt E ''user.Delete'' (delete_user_rows i st)"

lemmas [repo_defs] = user_FindByID_def user_FindByEmail_def FindByResetToken_def FindByVerifyToken_def
  FindByEmailChangeToken_def FindByDeletionToken_def user_Update_def UpdateFields_def user_Delete_row_def

section \<open>Helpers of the service\<close>

definition requiresEmailVerification :: "env \<Rightarrow> bool" where
  "requiresEmailVerification E = (case email_verification_gate E of None \<Rightarrow> True | Some b \<Rightarrow> b)"

definition derefStr :: "string option \<Rightarrow> string" where
  "derefStr s = (case s of None \<Rightarrow> [] | Some x \<Rightarrow> x)"

definition userHintsForID :: "env \<Rightarrow> uuid \<Rightarrow> db \<Rightarrow> string list" where
  "userHintsForID E i st =
     (case db_maybe (user_FindByID E i st) of
        None \<Rightarrow> []
      | Some u \<Rightarrow> us_email u # (case us_display_name u of None \<Rightarrow> [] | Some d \<Rightarrow> if d \<noteq> [] then [d] else []))"

definition HashPassword :: "env \<Rightarrow> string \<Rightarrow> db \<Rightarrow> string option \<times> db" where
  "HashPassword E pw st = (hash_password E (draws st) pw, bump st)"

definition GetByID :: "env \<Rightarrow> uuid \<Rightarrow> db \<Rightarrow> user res" where
  "GetByID E i st =
     (case user_FindByID E i st of
        DbErr \<Rightarrow> Inl (ErrInternal ''failed to find user'')
      | DbOk None \<Rightarrow> Inl (ErrNotFound ''user not found'')
      | DbOk (Some u) \<Rightarrow> Inr u)"

definition applyRegFormExtras :: "env \<Rightarrow> user \<Rightarrow> any_map \<Rightarrow> string \<Rightarrow> user res" where
  "applyRegFormExtras E u extras ctx = (case reg_form E of None \<Rightarrow> Inr u | Some f \<Rightarrow> f u extras ctx)"

text \<open>\<^verbatim>\<open>db_write\<close>: a statement whose driver error the service passes through unchanged.\<close>

definition db_write :: "string \<Rightarrow> db \<Rightarrow> db dbres \<Rightarrow> unit res \<times> db" where
  "db_write c st r = (case r of DbErr \<Rightarrow> (Inl (DriverError c), st) | DbOk st1 \<Rightarrow> (Inr (), st1))"

fun assign_roles :: "env \<Rightarrow> uuid \<Rightarrow> uuid list \<Rightarrow> db \<Rightarrow> unit res \<times> db" where
  "assign_roles E u [] st = (Inr (), st)"
| "assign_roles E u (r # rs) st =
     (case AssignRole E u r st of
        (Inl e, st1) \<Rightarrow>
          (Inl (ErrInternal (''failed to assign role '' @ uuid_string E r @ '': '' @ err_text e)), st1)
      | (Inr _, st1) \<Rightarrow> assign_roles E u rs st1)"

section \<open>Registration\<close>

record register_input =
  ri_email :: string
  ri_password :: string
  ri_display_name :: "string option"
  ri_extra_fields :: any_map
  ri_skip_verification_email :: bool

definition enqueueVerifyEmailInTx :: "env \<Rightarrow> user \<Rightarrow> uuid option \<Rightarrow> db \<Rightarrow> unit res \<times> db" where
  "enqueueVerifyEmailInTx E u authRequestID st =
     (case action_token_sign E of
        None \<Rightarrow> (Inr (), st)
      | Some sign \<Rightarrow>
          (case new_uuid E st of
             (None, st1) \<Rightarrow> (Inl (ErrInternal ''failed to generate verification jti''), st1)
           | (Some jti, st1) \<Rightarrow>
               (let expiresAt = clk E + hours 24
                in case sign (us_id u) ''verify_email'' (uuid_string E jti) authRequestID (clk E) expiresAt of
                     None \<Rightarrow> (Inl (ErrInternal ''failed to sign verification token''), st1)
                   | Some tokenStr \<Rightarrow>
                       (case UpdateFields E (us_id u)
                               (\<lambda>x. x\<lparr>us_email_verify_token := Some (uuid_string E jti),
                                     us_email_verify_expires_at := Some expiresAt\<rparr>) st1 of
                          DbErr \<Rightarrow> (Inl (ErrInternal ''failed to store verification jti''), st1)
                        | DbOk st2 \<Rightarrow> mail_SendVerificationEmail E (us_email u) tokenStr st2))))"

definition register_checks :: "env \<Rightarrow> string \<Rightarrow> string \<Rightarrow> string \<Rightarrow> db \<Rightarrow> string res \<times> db" where
  "register_checks E email pw displayName st =
     (case password_policy E pw [email, displayName] of
        Some e \<Rightarrow> (Inl e, st)
      | None \<Rightarrow>
          (case user_FindByEmail E email st of
             DbErr \<Rightarrow> (Inl (ErrInternal ''failed to check existing user''), st)
           | DbOk (Some _) \<Rightarrow> (Inl (ErrConflict ''email already registered''), st)
           | DbOk None \<Rightarrow>
               (case HashPassword E pw st of
                  (None, st1) \<Rightarrow> (Inl (ErrInternal ''failed to hash password''), st1)
                | (Some hash, st1) \<Rightarrow> (Inr hash, st1))))"

definition create_user_step :: "env \<Rightarrow> user \<Rightarrow> db \<Rightarrow> user res \<times> db" where
  "create_user_step E u st =
     (case user_Create E u st of
        (DbErr, st1) \<Rightarrow> (Inl (ErrInternal ''failed to create user''), st1)
      | (DbOk u1, st1) \<Rightarrow> (Inr u1, st1))"

definition register_tx :: "env \<Rightarrow> register_input \<Rightarrow> user \<Rightarrow> db \<Rightarrow> user res \<times> db" where
  "register_tx E inp u st =
     (case create_user_step E u st of
        (Inl e, st1) \<Rightarrow> (Inl e, st1)
      | (Inr u1, st1) \<Rightarrow>
          (case (case default_role E of
                   None \<Rightarrow> (Inr (), st1)
                 | Some r \<Rightarrow>
                     if r = uuid_nil then (Inr (), st1)
                     else (case AssignRole E (us_id u1) r st1 of
                             (Inl e, st2) \<Rightarrow> (Inl (ErrInternal (''failed to assign default role: '' @ err_text e)), st2)
                           | (Inr _, st2) \<Rightarrow> (Inr (), st2))) of
             (Inl e, st2) \<Rightarrow> (Inl e, st2)
           | (Inr _, st2) \<Rightarrow>
               if ri_skip_verification_email inp then (Inr u1, st2)
               else (case enqueueVerifyEmailInTx E u1 None st2 of
                       (Inl e, st3) \<Rightarrow> (Inl e, st3)
                     | (Inr _, st3) \<Rightarrow> (Inr u1, st3))))"

definition Register :: "env \<Rightarrow> register_input \<Rightarrow> db \<Rightarrow> user res \<times> db" where
  "Register E inp st =
     (let email = lower_trim (ri_email inp)
      in case register_checks E email (ri_password inp) (derefStr (ri_display_name inp)) st of
           (Inl e, st1) \<Rightarrow> (Inl e, st1)
         | (Inr hash, st1) \<Rightarrow>
             (case applyRegFormExtras E
                     (blank_user\<lparr>us_email := email, us_password_hash := Some hash,
                                 us_display_name := ri_display_name inp, us_active := True\<rparr>)
                     (ri_extra_fields inp) ''register'' of
                Inl e \<Rightarrow> (Inl e, st1)
              | Inr u \<Rightarrow> Transaction E (register_tx E inp u) st1))"

text \<open>The provisioning path: exactly the given roles, no default role, no mail.\<close>

definition create_with_roles :: "env \<Rightarrow> user \<Rightarrow> uuid list \<Rightarrow> db \<Rightarrow> user res \<times> db" where
  "create_with_roles E u roleIDs st =
     (case create_user_step E u st of
        (Inl e, st1) \<Rightarrow> (Inl e, st1)
      | (Inr u1, st1) \<Rightarrow>
          if default_role E = None then (Inr u1, st1)
          else (case assign_roles E (us_id u1) roleIDs st1 of
                  (Inl e, st2) \<Rightarrow> (Inl e, st2)
                | (Inr _, st2) \<Rightarrow> (Inr u1, st2)))"

definition RegisterAdmin :: "env \<Rightarrow> register_input \<Rightarrow> uuid list \<Rightarrow> db \<Rightarrow> user res \<times> db" where
  "RegisterAdmin E inp roleIDs st =
     (let email = lower_trim (ri_email inp)
      in case register_checks E email (ri_password inp) (derefStr (ri_display_name inp)) st of
           (Inl e, st1) \<Rightarrow> (Inl e, st1)
         | (Inr hash, st1) \<Rightarrow>
             Transaction E (create_with_roles E
               (blank_user\<lparr>us_email := email, us_password_hash := Some hash,
                           us_display_name := ri_display_name inp, us_active := True\<rparr>) roleIDs) st1)"

record federation_input =
  fi_email :: string
  fi_email_verified :: bool
  fi_display_name :: string
  fi_avatar_url :: string
  fi_password :: string
  fi_extra_fields :: any_map

text \<open>The default role applies only when the caller names none. The assigner is wired together
  with the default role (\<^verbatim>\<open>SetDefaultRole\<close>), so no role is assigned without it.\<close>

definition CreateFromFederation :: "env \<Rightarrow> federation_input \<Rightarrow> uuid list \<Rightarrow> db \<Rightarrow> user res \<times> db" where
  "CreateFromFederation E inp roleIDs st =
     (let email = lower_trim (fi_email inp)
      in if email = [] then (Inl (ErrBadRequest ''federation provider returned no email''), st)
         else case register_checks E email (fi_password inp) (fi_display_name inp) st of
           (Inl e, st1) \<Rightarrow> (Inl e, st1)
         | (Inr hash, st1) \<Rightarrow>
             (case applyRegFormExtras E
                     (blank_user\<lparr>us_email := email, us_email_verified := fi_email_verified inp,
                                 us_password_hash := Some hash, us_must_set_password := False,
                                 us_active := True, us_display_name := non_empty (fi_display_name inp),
                                 us_avatar_url := non_empty (fi_avatar_url inp)\<rparr>)
                     (fi_extra_fields inp) ''federation'' of
                Inl e \<Rightarrow> (Inl e, st1)
              | Inr u \<Rightarrow>
                  (let assignRoles = (case default_role E of
                         Some r \<Rightarrow> if roleIDs = [] \<and> r \<noteq> uuid_nil then [r] else roleIDs
                       | None \<Rightarrow> roleIDs)
                   in Transaction E (create_with_roles E u assignRoles) st1)))"

section \<open>Login\<close>

definition incrementFailedAttempts :: "env \<Rightarrow> user \<Rightarrow> db \<Rightarrow> db" where
  "incrementFailedAttempts E u st =
     (let attempts = us_failed_login_attempts u + 1
      in db_ignore st (UpdateFields E (us_id u)
           (\<lambda>x. if attempts \<ge> cfg_max_fail_attempts (cfg E)
                then x\<lparr>us_failed_login_attempts := attempts,
                       us_locked_until := Some (clk E + cfg_lockout_duration (cfg E))\<rparr>
                else x\<lparr>us_failed_login_attempts := attempts\<rparr>) st))"

definition maybeRehash :: "env \<Rightarrow> user \<Rightarrow> string \<Rightarrow> bool \<Rightarrow> db \<Rightarrow> user \<times> db" where
  "maybeRehash E u plaintext needsRehash st =
     (if \<not> needsRehash then (u, st)
      else case HashPassword E plaintext st of
             (None, st1) \<Rightarrow> (u, st1)
           | (Some hash, st1) \<Rightarrow>
               (case UpdateFields E (us_id u) (\<lambda>x. x\<lparr>us_password_hash := Some hash\<rparr>) st1 of
                  DbErr \<Rightarrow> (u, st1)
                | DbOk st2 \<Rightarrow> (u\<lparr>us_password_hash := Some hash\<rparr>, st2)))"

definition clear_lockout :: "user \<Rightarrow> user" where
  "clear_lockout u = u\<lparr>us_failed_login_attempts := 0, us_locked_until := None\<rparr>"

definition Authenticate :: "env \<Rightarrow> string \<Rightarrow> string \<Rightarrow> db \<Rightarrow> user res \<times> db" where
  "Authenticate E email0 pw st =
     (case user_FindByEmail E (lower_trim email0) st of
        DbErr \<Rightarrow> (Inl (ErrInternal ''failed to find user''), st)
      | DbOk None \<Rightarrow> (Inl (ErrUnauthorized ''invalid email or password''), st)
      | DbOk (Some u) \<Rightarrow>
          if \<not> us_active u then (Inl (ErrForbidden ''account is deactivated''), st)
          else if us_IsLocked u (clk E)
          then (Inl (ErrAccountLocked ''account is temporarily locked due to too many failed login attempts''), st)
          else (case us_password_hash u of
                  None \<Rightarrow> (Inl (ErrUnauthorized ''invalid email or password''), st)
                | Some stored \<Rightarrow>
                    (case verify_identify E pw stored of
                       Some (True, needsRehash) \<Rightarrow>
                         (case maybeRehash E u pw needsRehash st of
                            (u1, st1) \<Rightarrow>
                              if \<not> us_email_verified u1 \<and> requiresEmailVerification E
                              then (Inl (ErrEmailNotVerified ''verify your email to sign in''), st1)
                              else if us_failed_login_attempts u1 > 0
                              then (Inr u1, db_ignore st1 (UpdateFields E (us_id u1) clear_lockout st1))
                              else (Inr u1, st1))
                     | _ \<Rightarrow> (Inl (ErrUnauthorized ''invalid email or password''),
                             incrementFailedAttempts E u st))))"

definition VerifyPassword :: "env \<Rightarrow> uuid \<Rightarrow> string \<Rightarrow> db \<Rightarrow> bool res \<times> db" where
  "VerifyPassword E i pw st =
     (case user_FindByID E i st of
        DbErr \<Rightarrow> (Inl (DriverError ''user.FindByID''), st)
      | DbOk None \<Rightarrow> (Inr False, st)
      | DbOk (Some u) \<Rightarrow>
          (case us_password_hash u of
             None \<Rightarrow> (Inr False, st)
           | Some stored \<Rightarrow>
               (case verify_identify E pw stored of
                  None \<Rightarrow> (Inl (DriverError ''hasher''), st)
                | Some (False, needsRehash) \<Rightarrow> (Inr False, st)
                | Some (True, needsRehash) \<Rightarrow> (Inr True, snd (maybeRehash E u pw needsRehash st)))))"

section \<open>Updates\<close>

record m2m_update_input =
  mu_email :: "string option"
  mu_email_verified :: "bool option"
  mu_display_name :: "string option"
  mu_avatar_url :: "string option"
  mu_phone :: "string option"
  mu_active :: "bool option"
  mu_metadata :: "profile_metadata option"

definition set_given :: "'a option \<Rightarrow> 'a \<Rightarrow> 'a" where
  "set_given v old = (case v of None \<Rightarrow> old | Some x \<Rightarrow> x)"

definition set_pointer :: "'a option \<Rightarrow> 'a option \<Rightarrow> 'a option" where
  "set_pointer v old = (case v of None \<Rightarrow> old | Some x \<Rightarrow> Some x)"

definition set_metadata :: "profile_metadata option \<Rightarrow> user \<Rightarrow> user" where
  "set_metadata v u = (case v of None \<Rightarrow> u | Some inp \<Rightarrow> u\<lparr>us_metadata := merged_metadata u inp\<rparr>)"

definition save_user :: "env \<Rightarrow> string \<Rightarrow> user \<Rightarrow> db \<Rightarrow> user res \<times> db" where
  "save_user E msg u st =
     (case user_Update E u st of
        DbErr \<Rightarrow> (Inl (ErrInternal msg), st)
      | DbOk st1 \<Rightarrow> (Inr u, st1))"

text \<open>The new address, checked against the other accounts.\<close>

definition checked_email :: "env \<Rightarrow> uuid \<Rightarrow> string \<Rightarrow> db \<Rightarrow> string res" where
  "checked_email E i email st =
     (case user_FindByEmail E email st of
        DbErr \<Rightarrow> Inl (ErrInternal ''failed to check email'')
      | DbOk None \<Rightarrow> Inr email
      | DbOk (Some x) \<Rightarrow> if us_id x \<noteq> i then Inl (ErrConflict ''email already in use'') else Inr email)"

definition M2MUpdate :: "env \<Rightarrow> uuid \<Rightarrow> m2m_update_input \<Rightarrow> db \<Rightarrow> user res \<times> db" where
  "M2MUpdate E i inp st =
     (case GetByID E i st of
        Inl e \<Rightarrow> (Inl e, st)
      | Inr u \<Rightarrow>
          (case (case mu_email inp of
                   None \<Rightarrow> Inr (us_email u)
                 | Some e0 \<Rightarrow>
                     let email = lower_trim e0
                     in if email = us_email u then Inr (us_email u) else checked_email E i email st) of
             Inl e \<Rightarrow> (Inl e, st)
           | Inr email \<Rightarrow>
               save_user E ''failed to update user''
                 (set_metadata (mu_metadata inp)
                   (u\<lparr>us_email := email, us_email_verified := set_given (mu_email_verified inp) (us_email_verified u),
                      us_display_name := set_pointer (mu_display_name inp) (us_display_name u),
                      us_avatar_url := set_pointer (mu_avatar_url inp) (us_avatar_url u),
                      us_phone := set_pointer (mu_phone inp) (us_phone u),
                      us_active := set_given (mu_active inp) (us_active u)\<rparr>)) st))"

record admin_update_input =
  au_email :: "string option"
  au_display_name :: "string option"
  au_active :: "bool option"
  au_email_verified :: "bool option"

definition AdminUpdate :: "env \<Rightarrow> uuid \<Rightarrow> admin_update_input \<Rightarrow> db \<Rightarrow> user res \<times> db" where
  "AdminUpdate E i inp st =
     (case GetByID E i st of
        Inl e \<Rightarrow> (Inl e, st)
      | Inr u \<Rightarrow>
          (case (case au_email inp of None \<Rightarrow> Inr (us_email u) | Some e0 \<Rightarrow> checked_email E i (lower_trim e0) st) of
             Inl e \<Rightarrow> (Inl e, st)
           | Inr email \<Rightarrow>
               save_user E ''failed to update user''
                 (u\<lparr>us_email := email, us_display_name := set_pointer (au_display_name inp) (us_display_name u),
                    us_active := set_given (au_active inp) (us_active u),
                    us_email_verified := set_given (au_email_verified inp) (us_email_verified u)\<rparr>) st))"

record profile_input =
  pi_display_name :: "string option"
  pi_avatar_url :: "string option"
  pi_phone :: "string option"
  pi_metadata :: "profile_metadata option"

definition UpdateProfile :: "env \<Rightarrow> uuid \<Rightarrow> profile_input \<Rightarrow> db \<Rightarrow> user res \<times> db" where
  "UpdateProfile E i inp st =
     (case GetByID E i st of
        Inl e \<Rightarrow> (Inl e, st)
      | Inr u \<Rightarrow>
          save_user E ''failed to update profile''
            (set_metadata (pi_metadata inp)
              (u\<lparr>us_display_name := set_pointer (pi_display_name inp) (us_display_name u),
                 us_avatar_url := set_pointer (pi_avatar_url inp) (us_avatar_url u),
                 us_phone := set_pointer (pi_phone inp) (us_phone u)\<rparr>)) st)"

definition Unlock :: "env \<Rightarrow> uuid \<Rightarrow> db \<Rightarrow> unit res \<times> db" where
  "Unlock E i st = db_write ''user.UpdateFields'' st (UpdateFields E i clear_lockout st)"

definition user_Delete :: "env \<Rightarrow> uuid \<Rightarrow> db \<Rightarrow> unit res \<times> db" where
  "user_Delete E i st =
     (case GetByID E i st of
        Inl e \<Rightarrow> (Inl e, st)
      | Inr u \<Rightarrow>
          (case user_Delete_row E i st of
             DbErr \<Rightarrow> (Inl (ErrInternal ''failed to delete user''), st)
           | DbOk st1 \<Rightarrow> (Inr (), st1)))"

section \<open>Passwords\<close>

definition set_password_fields :: "string \<Rightarrow> user \<Rightarrow> user" where
  "set_password_fields hash u = u\<lparr>us_password_hash := Some hash, us_must_set_password := False\<rparr>"

definition SetPassword :: "env \<Rightarrow> uuid \<Rightarrow> string \<Rightarrow> db \<Rightarrow> unit res \<times> db" where
  "SetPassword E i pw st =
     (case password_policy E pw (userHintsForID E i st) of
        Some e \<Rightarrow> (Inl e, st)
      | None \<Rightarrow>
          (case HashPassword E pw st of
             (None, st1) \<Rightarrow> (Inl (ErrInternal ''failed to hash password''), st1)
           | (Some hash, st1) \<Rightarrow>
               db_write ''user.UpdateFields'' st1 (UpdateFields E i (set_password_fields hash) st1)))"

definition SetInitialPassword :: "env \<Rightarrow> uuid \<Rightarrow> string \<Rightarrow> db \<Rightarrow> unit res \<times> db" where
  "SetInitialPassword E i pw st =
     (case password_policy E pw (userHintsForID E i st) of
        Some e \<Rightarrow> (Inl e, st)
      | None \<Rightarrow>
          (case GetByID E i st of
             Inl e \<Rightarrow> (Inl e, st)
           | Inr u \<Rightarrow>
               if us_password_hash u \<noteq> None \<and> \<not> us_must_set_password u
               then (Inl (ErrBadRequest ''password already set; use the change-password endpoint instead''), st)
               else (case HashPassword E pw st of
                       (None, st1) \<Rightarrow> (Inl (ErrInternal ''failed to hash password''), st1)
                     | (Some hash, st1) \<Rightarrow>
                         db_write ''user.UpdateFields'' st1 (UpdateFields E i (set_password_fields hash) st1))))"

definition ChangePassword :: "env \<Rightarrow> uuid \<Rightarrow> string \<Rightarrow> string \<Rightarrow> db \<Rightarrow> unit res \<times> db" where
  "ChangePassword E i current pw st =
     (case password_policy E pw (userHintsForID E i st) of
        Some e \<Rightarrow> (Inl e, st)
      | None \<Rightarrow>
          (case GetByID E i st of
             Inl e \<Rightarrow> (Inl e, st)
           | Inr u \<Rightarrow>
               (case us_password_hash u of
                  None \<Rightarrow> (Inl (ErrBadRequest ''account has no password set yet; use the set-password endpoint instead''), st)
                | Some stored \<Rightarrow>
                    (case verify_identify E current stored of
                       Some (True, _) \<Rightarrow>
                         (case HashPassword E pw st of
                            (None, st1) \<Rightarrow> (Inl (ErrInternal ''failed to hash password''), st1)
                          | (Some hash, st1) \<Rightarrow>
                              db_write ''user.UpdateFields'' st1
                                (UpdateFields E i (\<lambda>x. x\<lparr>us_password_hash := Some hash\<rparr>) st1))
                     | _ \<Rightarrow> (Inl (ErrUnauthorized ''current password is incorrect''), st)))))"

definition issuePasswordResetInTx :: "env \<Rightarrow> user \<Rightarrow> db \<Rightarrow> unit res \<times> db" where
  "issuePasswordResetInTx E u st =
     (case GenerateRandomString E 32 st of
        (None, st1) \<Rightarrow> (Inl (ErrInternal ''failed to generate reset token''), st1)
      | (Some tok, st1) \<Rightarrow>
          Transaction E (\<lambda>s.
            case UpdateFields E (us_id u)
                   (\<lambda>x. x\<lparr>us_password_reset_token := Some (HashToken (sha256 E) tok),
                         us_password_reset_expires_at := Some (clk E + hours 1)\<rparr>) s of
              DbErr \<Rightarrow> (Inl (ErrInternal ''failed to store reset token''), s)
            | DbOk s1 \<Rightarrow> mail_SendPasswordResetEmail E (us_email u) tok s1) st1)"

definition ForgotPassword :: "env \<Rightarrow> string \<Rightarrow> db \<Rightarrow> unit res \<times> db" where
  "ForgotPassword E email st =
     (case db_maybe (user_FindByEmail E (lower_trim email) st) of
        None \<Rightarrow> (Inr (), st)
      | Some u \<Rightarrow> issuePasswordResetInTx E u st)"

definition AdminTriggerPasswordReset :: "env \<Rightarrow> uuid \<Rightarrow> db \<Rightarrow> unit res \<times> db" where
  "AdminTriggerPasswordReset E i st =
     (case GetByID E i st of
        Inl e \<Rightarrow> (Inl e, st)
      | Inr u \<Rightarrow> issuePasswordResetInTx E u st)"

definition reset_fields :: "string \<Rightarrow> user \<Rightarrow> user" where
  "reset_fields hash u = u\<lparr>us_password_hash := Some hash, us_password_reset_token := None,
     us_password_reset_expires_at := None, us_failed_login_attempts := 0, us_locked_until := None\<rparr>"

definition ResetPassword :: "env \<Rightarrow> string \<Rightarrow> string \<Rightarrow> db \<Rightarrow> unit res \<times> db" where
  "ResetPassword E tok pw st =
     (case password_policy E pw [] of
        Some e \<Rightarrow> (Inl e, st)
      | None \<Rightarrow>
          (case FindByResetToken E (HashToken (sha256 E) tok) st of
             DbErr \<Rightarrow> (Inl (ErrInternal ''failed to verify reset token''), st)
           | DbOk None \<Rightarrow> (Inl (ErrBadRequest ''invalid or expired reset token''), st)
           | DbOk (Some u) \<Rightarrow>
               (case HashPassword E pw st of
                  (None, st1) \<Rightarrow> (Inl (ErrInternal ''failed to hash password''), st1)
                | (Some hash, st1) \<Rightarrow>
                    db_write ''user.UpdateFields'' st1 (UpdateFields E (us_id u) (reset_fields hash) st1))))"

section \<open>E-mail verification\<close>

definition SendVerificationEmail :: "env \<Rightarrow> uuid \<Rightarrow> uuid option \<Rightarrow> db \<Rightarrow> unit res \<times> db" where
  "SendVerificationEmail E i authRequestID st =
     (case GetByID E i st of
        Inl e \<Rightarrow> (Inl e, st)
      | Inr u \<Rightarrow>
          if us_email_verified u then (Inl (ErrBadRequest ''email already verified''), st)
          else if action_token_sign E = None
          then (Inl (ErrInternal ''action token signing key not configured''), st)
          else Transaction E (enqueueVerifyEmailInTx E u authRequestID) st)"

definition ResendVerificationEmail :: "env \<Rightarrow> string \<Rightarrow> uuid option \<Rightarrow> db \<Rightarrow> unit res \<times> db" where
  "ResendVerificationEmail E email authRequestID st =
     (case user_FindByEmail E (lower_trim email) st of
        DbErr \<Rightarrow> (Inl (ErrInternal ''failed to look up user''), st)
      | DbOk None \<Rightarrow> (Inr (), st)
      | DbOk (Some u) \<Rightarrow>
          if us_email_verified u then (Inr (), st)
          else SendVerificationEmail E (us_id u) authRequestID st)"

definition verified_fields :: "user \<Rightarrow> user" where
  "verified_fields u = u\<lparr>us_email_verified := True, us_email_verify_token := None,
     us_email_verify_expires_at := None\<rparr>"

definition ConsumeVerificationToken :: "env \<Rightarrow> string \<Rightarrow> db \<Rightarrow> (user \<times> uuid option) res \<times> db" where
  "ConsumeVerificationToken E raw st =
     (if action_token_sign E = None
      then (Inl (ErrInternal ''action token signing key not configured''), st)
      else case action_token_parse E raw of
             None \<Rightarrow> (Inl (ErrBadRequest ''invalid or expired verification token''), st)
           | Some (subj, action, jti, rid) \<Rightarrow>
               if action \<noteq> ''verify_email'' then (Inl (ErrBadRequest ''invalid token action''), st)
               else (case FindByVerifyToken E jti st of
                       DbErr \<Rightarrow> (Inl (ErrInternal ''failed to verify email''), st)
                     | DbOk None \<Rightarrow> (Inl (ErrBadRequest ''invalid or expired verification token''), st)
                     | DbOk (Some u) \<Rightarrow>
                         if us_id u \<noteq> subj
                         then (Inl (ErrBadRequest ''invalid or expired verification token''), st)
                         else (case UpdateFields E (us_id u) verified_fields st of
                                 DbErr \<Rightarrow> (Inl (ErrInternal ''failed to mark email verified''), st)
                               | DbOk st1 \<Rightarrow> (Inr (u, rid), st1))))"

definition VerifyEmail :: "env \<Rightarrow> string \<Rightarrow> db \<Rightarrow> unit res \<times> db" where
  "VerifyEmail E tok st =
     (case ConsumeVerificationToken E tok st of
        (Inl e, st1) \<Rightarrow> (Inl e, st1)
      | (Inr x, st1) \<Rightarrow> (Inr (), st1))"

section \<open>Lemmas\<close>

subsection \<open>Rows after a partial update\<close>

lemma UpdateFields_table:
  "UpdateFields E i f st = DbOk st' \<Longrightarrow>
     st' = st\<lparr>t_users := update_where (\<lambda>u. us_id u = i) (touch_user E f) (t_users st)\<rparr>"
  by (auto simp: UpdateFields_def stmt_opt_def split: if_splits)

lemma UpdateFields_succeeds:
  assumes "\<not> db_err E ''user.UpdateFields''" and "\<And>u. us_email (f u) = us_email u"
  shows "UpdateFields E i f st =
    DbOk (st\<lparr>t_users := update_where (\<lambda>u. us_id u = i) (touch_user E f) (t_users st)\<rparr>)"
  using assms by (simp add: UpdateFields_def stmt_opt_def email_conflict_def split: option.splits)

lemma touch_user_fields [simp]:
  "us_id (touch_user E f u) = us_id (f u)" "us_email (touch_user E f u) = us_email (f u)"
  "us_active (touch_user E f u) = us_active (f u)" "us_locked_until (touch_user E f u) = us_locked_until (f u)"
  "us_failed_login_attempts (touch_user E f u) = us_failed_login_attempts (f u)"
  "us_password_hash (touch_user E f u) = us_password_hash (f u)"
  "us_password_reset_token (touch_user E f u) = us_password_reset_token (f u)"
  "us_email_verify_token (touch_user E f u) = us_email_verify_token (f u)"
  "us_email_verified (touch_user E f u) = us_email_verified (f u)"
  "us_must_set_password (touch_user E f u) = us_must_set_password (f u)"
  by (simp_all add: touch_user_def)

definition with_users :: "db \<Rightarrow> user list \<Rightarrow> db" where
  "with_users st us = st\<lparr>t_users := us\<rparr>"

lemma user_row_update:
  assumes "\<And>u. us_id (f u) = us_id u"
  shows "user_row (st\<lparr>t_users := update_where (\<lambda>u. us_id u = i) (touch_user E f) (t_users st)\<rparr>) j =
    map_option (\<lambda>u. if us_id u = i then touch_user E f u else u) (user_row st j)"
  using first_where_update [of us_id "touch_user E f" j "\<lambda>u. us_id u = i" "t_users st"] assms
  by (simp add: user_row_def)

lemma email_row_update:
  assumes "\<And>u. us_email (f u) = us_email u"
  shows "email_row (st\<lparr>t_users := update_where (\<lambda>u. us_id u = i) (touch_user E f) (t_users st)\<rparr>) e =
    map_option (\<lambda>u. if us_id u = i then touch_user E f u else u) (email_row st e)"
  using first_where_update [of us_email "touch_user E f" e "\<lambda>u. us_id u = i" "t_users st"] assms
  by (simp add: email_row_def)

subsection \<open>Password login\<close>

definition right_password :: "env \<Rightarrow> user \<Rightarrow> string \<Rightarrow> bool" where
  "right_password E u pw \<longleftrightarrow>
     (\<exists>stored r. us_password_hash u = Some stored \<and> verify_identify E pw stored = Some (True, r))"

lemma maybeRehash_user: "maybeRehash E u pw b st = (u', st') \<Longrightarrow>
    us_id u' = us_id u \<and> us_email u' = us_email u \<and> us_active u' = us_active u \<and>
    us_email_verified u' = us_email_verified u \<and> us_locked_until u' = us_locked_until u \<and>
    us_failed_login_attempts u' = us_failed_login_attempts u"
  by (auto simp: maybeRehash_def HashPassword_def split: if_splits prod.splits option.splits dbres.splits)

text \<open>A login succeeds only for an active, unlocked account, with the right password, and with a
  verified address where that is required.\<close>

lemma Authenticate_success:
  assumes "Authenticate E e pw st = (Inr u, st')"
  obtains u0 where "email_row st (lower_trim e) = Some u0" "us_active u0" "\<not> us_IsLocked u0 (clk E)"
    "right_password E u0 pw" "us_email_verified u0 \<or> \<not> requiresEmailVerification E" "us_id u = us_id u0"
proof -
  obtain u0 stored r where u0: "email_row st (lower_trim e) = Some u0" "us_active u0"
      "\<not> us_IsLocked u0 (clk E)" "us_password_hash u0 = Some stored"
      "verify_identify E pw stored = Some (True, r)"
    using assms
    by (auto simp: Authenticate_def user_FindByEmail_def stmt_def split: dbres.splits option.splits if_splits bool.splits)
  obtain u1 st1 where r: "maybeRehash E u0 pw r st = (u1, st1)" by fastforce
  have "user_FindByEmail E (lower_trim e) st = DbOk (Some u0)"
    using assms u0 by (auto simp: Authenticate_def user_FindByEmail_def stmt_def split: if_splits)
  then have "us_email_verified u1 \<or> \<not> requiresEmailVerification E" "u = u1"
    using assms u0 r by (auto simp: Authenticate_def split: if_splits)
  then show ?thesis
    using that [OF u0(1-3)] u0(4,5) maybeRehash_user [OF r] by (auto simp: right_password_def)
qed

text \<open>A failed login counts; the attempt that reaches the limit locks the account.\<close>

definition count_failure :: "env \<Rightarrow> int \<Rightarrow> user \<Rightarrow> user" where
  "count_failure E attempts u =
     (if attempts \<ge> cfg_max_fail_attempts (cfg E)
      then u\<lparr>us_failed_login_attempts := attempts,
             us_locked_until := Some (clk E + cfg_lockout_duration (cfg E))\<rparr>
      else u\<lparr>us_failed_login_attempts := attempts\<rparr>)"

lemma count_failure_fields [simp]:
  "us_id (count_failure E n u) = us_id u" "us_email (count_failure E n u) = us_email u"
  "us_active (count_failure E n u) = us_active u" "us_password_hash (count_failure E n u) = us_password_hash u"
  "us_failed_login_attempts (count_failure E n u) = n"
  by (simp_all add: count_failure_def)

lemma incrementFailedAttempts_alt:
  "incrementFailedAttempts E u st =
     db_ignore st (UpdateFields E (us_id u) (count_failure E (us_failed_login_attempts u + 1)) st)"
  by (simp add: incrementFailedAttempts_def count_failure_def [abs_def] Let_def)

definition users_online :: "env \<Rightarrow> bool" where
  "users_online E \<longleftrightarrow> \<not> db_err E ''user.FindByEmail'' \<and> \<not> db_err E ''user.UpdateFields''"

lemma Authenticate_wrong_password:
  assumes "users_online E" "email_row st (lower_trim e) = Some u" "us_active u"
    "\<not> us_IsLocked u (clk E)" "us_password_hash u \<noteq> None" "\<not> right_password E u pw"
  shows "Authenticate E e pw st =
    (Inl (ErrUnauthorized ''invalid email or password''),
     st\<lparr>t_users := update_where (\<lambda>x. us_id x = us_id u)
          (touch_user E (count_failure E (us_failed_login_attempts u + 1))) (t_users st)\<rparr>)"
proof -
  obtain stored where stored: "us_password_hash u = Some stored" using assms(5) by auto
  have inc: "incrementFailedAttempts E u st = st\<lparr>t_users := update_where (\<lambda>x. us_id x = us_id u)
      (touch_user E (count_failure E (us_failed_login_attempts u + 1))) (t_users st)\<rparr>"
    using assms(1) by (simp add: incrementFailedAttempts_alt users_online_def UpdateFields_succeeds)
  have "\<nexists>r. verify_identify E pw stored = Some (True, r)"
    using assms(6) stored by (simp add: right_password_def)
  then show ?thesis
    using assms(1-4) stored inc
    by (auto simp: Authenticate_def users_online_def user_FindByEmail_def stmt_def
        split: option.splits bool.splits)
qed

lemma Authenticate_locked:
  assumes "users_online E" "email_row st (lower_trim e) = Some u" "us_active u" "us_IsLocked u (clk E)"
  shows "Authenticate E e pw st =
    (Inl (ErrAccountLocked ''account is temporarily locked due to too many failed login attempts''), st)"
  using assms by (simp add: Authenticate_def users_online_def user_FindByEmail_def stmt_def)

text \<open>A run of logins against one address.\<close>

fun login_attempts :: "env \<Rightarrow> string \<Rightarrow> string list \<Rightarrow> db \<Rightarrow> db" where
  "login_attempts E e [] st = st"
| "login_attempts E e (pw # pws) st = login_attempts E e pws (snd (Authenticate E e pw st))"

lemma login_attempts_locked:
  assumes "users_online E" "email_row st (lower_trim e) = Some u" "us_active u" "us_IsLocked u (clk E)"
  shows "login_attempts E e pws st = st"
  using assms by (induction pws) (simp_all add: Authenticate_locked)

lemma brute_force_step:
  assumes "users_online E" "0 < cfg_lockout_duration (cfg E)"
    "email_row st (lower_trim e) = Some u" "us_active u" "us_password_hash u \<noteq> None"
    "list_all (\<lambda>pw. \<not> right_password E u pw) pws"
    "cfg_max_fail_attempts (cfg E) \<le> us_failed_login_attempts u + int (length pws)" "pws \<noteq> []"
  shows "\<exists>u'. email_row (login_attempts E e pws st) (lower_trim e) = Some u' \<and> us_active u' \<and>
    us_id u' = us_id u \<and> us_IsLocked u' (clk E)"
  using assms(3-8)
proof (induction pws arbitrary: st u)
  case (Cons pw pws)
  show ?case
  proof (cases "us_IsLocked u (clk E)")
    case True
    then have "login_attempts E e (pw # pws) st = st"
      by (rule login_attempts_locked [OF assms(1) Cons.prems(1,2)])
    with True show ?thesis using Cons.prems by simp
  next
    case False
    let ?f = "count_failure E (us_failed_login_attempts u + 1)"
    let ?st = "st\<lparr>t_users := update_where (\<lambda>x. us_id x = us_id u) (touch_user E ?f) (t_users st)\<rparr>"
    let ?u = "touch_user E ?f u"
    have step: "login_attempts E e (pw # pws) st = login_attempts E e pws ?st"
      using Authenticate_wrong_password [OF assms(1) Cons.prems(1,2) False Cons.prems(3)] Cons.prems(4) by simp
    have row: "email_row ?st (lower_trim e) = Some ?u"
      using email_row_update [where f = ?f and st = st and i = "us_id u" and E = E and e = "lower_trim e"] Cons.prems(1) by simp
    show ?thesis
    proof (cases "cfg_max_fail_attempts (cfg E) \<le> us_failed_login_attempts u + 1")
      case True
      then have "us_IsLocked ?u (clk E)"
        using assms(2) by (simp add: us_IsLocked_def count_failure_def)
      then show ?thesis
        using login_attempts_locked [OF assms(1) row] row Cons.prems(2) step by auto
    next
      case False
      then have "pws \<noteq> []" using Cons.prems(5) by auto
      moreover have "list_all (\<lambda>p. \<not> right_password E ?u p) pws"
        using Cons.prems(4) by (simp add: right_password_def)
      ultimately show ?thesis
        using Cons.IH [OF row] Cons.prems step by simp
    qed
  qed
qed simp

subsection \<open>Accounts stay unique\<close>

definition users_inv :: "db \<Rightarrow> bool" where
  "users_inv st \<longleftrightarrow> keys_unique us_id (t_users st) \<and> keys_unique us_email (t_users st)"

lemma users_inv_cong: "t_users st' = t_users st \<Longrightarrow> users_inv st' = users_inv st"
  by (simp add: users_inv_def)

lemma emails_after_change:
  assumes ids: "keys_unique us_id rs" and emails: "keys_unique us_email rs"
    and free: "\<And>u v. u \<in> set rs \<Longrightarrow> us_id u = i \<Longrightarrow> v \<in> set rs \<Longrightarrow> us_id v \<noteq> i \<Longrightarrow> us_email v \<noteq> us_email (f u)"
  shows "keys_unique us_email (update_where (\<lambda>u. us_id u = i) f rs)"
proof -
  let ?g = "\<lambda>u. us_email (if us_id u = i then f u else u)"
  have d: "distinct rs" and inj_id: "inj_on us_id (set rs)" and inj_email: "inj_on us_email (set rs)"
    using ids emails by (auto simp: keys_unique_def distinct_map)
  have "inj_on ?g (set rs)"
  proof (rule inj_onI)
    fix u v assume uv: "u \<in> set rs" "v \<in> set rs" "?g u = ?g v"
    show "u = v"
    proof (cases "us_id u = us_id v")
      case True
      with uv inj_id show ?thesis by (auto dest: inj_onD)
    next
      case False
      then have "\<not> (us_id u = i \<and> us_id v = i)" by auto
      then show ?thesis
        using uv free [of u v] free [of v u] inj_email by (auto dest: inj_onD split: if_splits)
    qed
  qed
  then have "distinct (map ?g rs)" using d by (simp add: distinct_map)
  then show ?thesis by (simp add: keys_unique_def update_where_def comp_def)
qed

lemma not_taken: "\<not> email_taken st i e \<Longrightarrow> v \<in> set (t_users st) \<Longrightarrow> us_id v \<noteq> i \<Longrightarrow> us_email v \<noteq> e"
  by (auto simp: email_taken_def first_where_None_iff)

lemma users_inv_UpdateFields:
  assumes "UpdateFields E i f st = DbOk st'" and inv: "users_inv st" and ids: "\<And>u. us_id (f u) = us_id u"
  shows "users_inv st'"
proof -
  have st': "t_users st' = update_where (\<lambda>u. us_id u = i) (touch_user E f) (t_users st)"
    using UpdateFields_table [OF assms(1)] by simp
  have nc: "\<not> email_conflict f i st"
    using assms(1) by (auto simp: UpdateFields_def stmt_opt_def split: if_splits)
  have "us_email v \<noteq> us_email (touch_user E f u)"
    if uv: "u \<in> set (t_users st)" "us_id u = i" "v \<in> set (t_users st)" "us_id v \<noteq> i" for u v
  proof -
    have row: "user_row st i = Some u"
      using first_where_key [of us_id "t_users st" u] inv uv by (auto simp: users_inv_def user_row_def)
    show ?thesis
    proof (cases "us_email (f u) = us_email u")
      case True
      have "v \<noteq> u" using uv by auto
      then show ?thesis
        using inv uv True by (auto simp: users_inv_def keys_unique_def distinct_map dest: inj_onD)
    next
      case False
      then show ?thesis using nc row not_taken uv by (auto simp: email_conflict_def)
    qed
  qed
  then have "keys_unique us_email (t_users st')"
    unfolding st' using inv by (intro emails_after_change) (auto simp: users_inv_def)
  moreover have "keys_unique us_id (t_users st')"
    unfolding st' using inv ids by (intro keys_unique_update) (auto simp: users_inv_def)
  ultimately show ?thesis by (simp add: users_inv_def)
qed

lemma users_inv_Update:
  assumes "user_Update E u st = DbOk st'" and inv: "users_inv st"
  shows "users_inv st'"
proof -
  let ?u = "u\<lparr>us_updated_at := wall E\<rparr>"
  have st': "t_users st' = save_row us_id ?u (t_users st)" and nt: "\<not> email_taken st (us_id u) (us_email u)"
    using assms(1) by (auto simp: user_Update_def stmt_opt_def split: if_splits)
  have "keys_unique us_email (save_row us_id ?u (t_users st))"
  proof (cases "us_id u \<in> set (map us_id (t_users st))")
    case True
    then have "save_row us_id ?u (t_users st) = update_where (\<lambda>x. us_id x = us_id u) (\<lambda>_. ?u) (t_users st)"
      by (simp add: save_row_def update_where_def)
    then show ?thesis
      using emails_after_change [of "t_users st" "us_id u" "\<lambda>_. ?u"] inv not_taken [OF nt]
      by (simp add: users_inv_def)
  next
    case False
    then have fresh: "us_email u \<noteq> us_email v" if "v \<in> set (t_users st)" for v
      using not_taken [OF nt that] that by (metis image_eqI set_map)
    have "save_row us_id ?u (t_users st) = t_users st @ [?u]"
      using False by (simp add: save_row_def)
    then show ?thesis using inv fresh by (auto simp: users_inv_def keys_unique_def)
  qed
  then show ?thesis using st' inv by (simp add: users_inv_def keys_unique_save)
qed

lemma user_Create_DbOk:
  assumes "user_Create E u st = (DbOk u1, st')"
  obtains i where "u1 = u\<lparr>us_id := i, us_created_at := wall E, us_updated_at := wall E\<rparr>"
    "email_row st (us_email u) = None" "i \<notin> set (map us_id (t_users st))"
    "st' = (bump st)\<lparr>t_users := t_users st @ [u1]\<rparr>"
  using assms
  by (auto simp: user_Create_def new_uuid_def stmt_opt_def insert_row_Some_iff email_row_def Let_def bump_def
      split: option.splits dbres.splits if_splits)

lemma user_Create_DbErr: "user_Create E u st = (DbErr, st') \<Longrightarrow> st' = bump st"
  by (auto simp: user_Create_def new_uuid_def stmt_opt_def Let_def
      split: option.splits dbres.splits if_splits)

lemma users_inv_Create:
  assumes "user_Create E u st = (r, st')" and "users_inv st"
  shows "users_inv st'"
proof (cases r)
  case DbErr
  with assms(1) have "st' = bump st" using user_Create_DbErr by simp
  then show ?thesis using assms(2) by (simp add: bump_def users_inv_def)
next
  case (DbOk u1)
  with assms(1) have c: "user_Create E u st = (DbOk u1, st')" by simp
  from c obtain i where i: "u1 = u\<lparr>us_id := i, us_created_at := wall E, us_updated_at := wall E\<rparr>"
      "email_row st (us_email u) = None" "i \<notin> set (map us_id (t_users st))"
      "st' = (bump st)\<lparr>t_users := t_users st @ [u1]\<rparr>"
    by (rule user_Create_DbOk)
  have "us_email u \<notin> us_email ` set (t_users st)"
    using i(2) by (auto simp: email_row_def first_where_None_iff)
  then show ?thesis using i assms(2) by (auto simp: users_inv_def keys_unique_def)
qed

subsection \<open>Registration\<close>

lemma AssignRole_users: "AssignRole E u r st = (x, st') \<Longrightarrow> t_users st' = t_users st"
  by (auto simp: AssignRole_def AssignRole_row_def stmt_opt_def split: sum.splits dbres.splits if_splits)

lemma AssignRole_roles: "AssignRole E u r st = (x, st') \<Longrightarrow>
    set (t_user_roles st') \<subseteq> insert (u, r) (set (t_user_roles st))"
  by (auto simp: AssignRole_def AssignRole_row_def stmt_opt_def split: sum.splits dbres.splits if_splits)

lemma send_mail_users:
  assumes "send_mail E m st = (x, st')"
  shows "t_users st' = t_users st \<and> t_user_roles st' = t_user_roles st"
  by (subst send_mail_frame [OF assms], subst (2) send_mail_frame [OF assms]) simp

lemma enqueueVerifyEmail_effect:
  assumes "enqueueVerifyEmailInTx E u rid st = (x, st')"
  shows "t_user_roles st' = t_user_roles st \<and> (t_users st' = t_users st \<or>
    (\<exists>f. (\<forall>v. us_id (f v) = us_id v \<and> us_email (f v) = us_email v \<and> us_email_verified (f v) = us_email_verified v) \<and>
       t_users st' = update_where (\<lambda>v. us_id v = us_id u) f (t_users st)))"
proof (cases "t_users st' = t_users st")
  case True
  then show ?thesis using assms
    by (auto simp: enqueueVerifyEmailInTx_def mail_SendVerificationEmail_def new_uuid_def bump_def Let_def
        split: option.splits dbres.splits dest!: UpdateFields_table send_mail_users)
next
  case False
  let ?F = "\<lambda>jti x. x\<lparr>us_email_verify_token := Some (uuid_string E jti),
      us_email_verify_expires_at := Some (clk E + hours 24)\<rparr>"
  obtain jti st2 tok where s: "UpdateFields E (us_id u) (?F jti) (bump st) = DbOk st2"
      "send_mail E (mail_of (us_email u) ''verification'' tok) st2 = (x, st')"
    using assms False
    by (auto simp: enqueueVerifyEmailInTx_def mail_SendVerificationEmail_def new_uuid_def bump_def Let_def
        split: option.splits dbres.splits)
  have "t_users st' = update_where (\<lambda>v. us_id v = us_id u) (touch_user E (?F jti)) (t_users st)"
    "t_user_roles st' = t_user_roles st"
    using UpdateFields_table [OF s(1)] send_mail_users [OF s(2)] by (simp_all add: bump_def)
  then show ?thesis by (intro conjI disjI2 exI [of _ "touch_user E (?F jti)"]) simp_all
qed

text \<open>A registration that answers with an error has changed nothing.\<close>

lemma register_checks_tables: "register_checks E e pw d st = (r, st') \<Longrightarrow> tables st' = tables st"
  by (auto simp: register_checks_def HashPassword_def split: option.splits dbres.splits)

lemma Register_atomic:
  assumes "gorm_rollback E" and "Register E inp st = (Inl e, st')"
  shows "tables st' = tables st"
  using assms(2)
  by (auto simp: Register_def Let_def split: prod.splits sum.splits dest!: register_checks_tables Transaction_Inl_tables [OF assms(1)])

lemma RegisterAdmin_atomic:
  assumes "gorm_rollback E" and "RegisterAdmin E inp rs st = (Inl e, st')"
  shows "tables st' = tables st"
  using assms(2)
  by (auto simp: RegisterAdmin_def Let_def split: prod.splits sum.splits dest!: register_checks_tables Transaction_Inl_tables [OF assms(1)])

lemma CreateFromFederation_atomic:
  assumes "gorm_rollback E" and "CreateFromFederation E inp rs st = (Inl e, st')"
  shows "tables st' = tables st"
  using assms(2)
  by (auto simp: CreateFromFederation_def Let_def split: prod.splits sum.splits if_splits
      dest!: register_checks_tables Transaction_Inl_tables [OF assms(1)])

lemma register_checks_Inr:
  assumes "register_checks E e pw d st = (Inr h, st')"
  shows "password_policy E pw [e, d] = None" "email_row st e = None" "st' = bump st"
  using assms by (auto simp: register_checks_def HashPassword_def user_FindByEmail_def stmt_def
      split: option.splits dbres.splits if_splits)

lemma create_user_step_Inr: "create_user_step E u st = (Inr u1, st') \<Longrightarrow> user_Create E u st = (DbOk u1, st')"
  by (auto simp: create_user_step_def split: prod.splits dbres.splits)

lemma register_tx_roles:
  assumes "register_tx E inp u st = (Inr v, st')"
  shows "set (t_user_roles st') \<subseteq> set (t_user_roles st) \<union> {(us_id v, r) | r. default_role E = Some r}"
proof -
  obtain u1 st1 where c: "create_user_step E u st = (Inr u1, st1)"
    using assms by (auto simp: register_tx_def split: prod.splits sum.splits)
  have r1: "t_user_roles st1 = t_user_roles st"
    using create_user_step_Inr [OF c] by (auto elim!: user_Create_DbOk simp: bump_def)
  have v: "v = u1" and sub: "\<exists>st2. (st2 = st1 \<or> (\<exists>r y. default_role E = Some r \<and> AssignRole E (us_id u1) r st1 = (y, st2)))
      \<and> t_user_roles st' = t_user_roles st2"
    using assms c
    by (auto simp: register_tx_def split: prod.splits sum.splits option.splits if_splits
        dest!: enqueueVerifyEmail_effect)
  then show ?thesis using r1 AssignRole_roles by fastforce
qed

context registration_form
begin

text \<open>What a successful registration establishes: a new, active, unverified account under the
  normalised address, with at most the default role.\<close>

lemma Register_success:
  assumes "reg_form E = Some fill" and "Register E inp st = (Inr u, st')"
  shows "us_email u = lower_trim (ri_email inp) \<and> us_active u \<and> \<not> us_email_verified u \<and>
    email_row st (lower_trim (ri_email inp)) = None \<and>
    password_policy E (ri_password inp) [lower_trim (ri_email inp), derefStr (ri_display_name inp)] = None \<and>
    user_row st (us_id u) = None \<and>
    set (t_user_roles st') \<subseteq> set (t_user_roles st) \<union> {(us_id u, r) | r. default_role E = Some r}"
proof -
  let ?e = "lower_trim (ri_email inp)"
  obtain h st1 where chk: "register_checks E ?e (ri_password inp) (derefStr (ri_display_name inp)) st = (Inr h, st1)"
    using assms(2) by (auto simp: Register_def Let_def split: prod.splits sum.splits)
  let ?b = "blank_user\<lparr>us_email := ?e, us_password_hash := Some h,
      us_display_name := ri_display_name inp, us_active := True\<rparr>"
  obtain u0 where f: "fill ?b (ri_extra_fields inp) ''register'' = Inr u0"
    and tx: "Transaction E (register_tx E inp u0) st1 = (Inr u, st')"
    using assms chk by (auto simp: Register_def Let_def applyRegFormExtras_def split: sum.splits)
  have tx': "register_tx E inp u0 st1 = (Inr u, st')" by (rule Transaction_Inr [OF tx])
  then obtain st2 where c: "create_user_step E u0 st1 = (Inr u, st2)"
    by (auto simp: register_tx_def split: prod.splits sum.splits if_splits)
  have created: "us_email u = us_email u0" "us_active u = us_active u0"
      "us_email_verified u = us_email_verified u0" "user_row st1 (us_id u) = None"
    using create_user_step_Inr [OF c]
    by (auto elim!: user_Create_DbOk simp: user_row_def intro: first_where_absent)
  have st1: "st1 = bump st" by (rule register_checks_Inr(3) [OF chk])
  show ?thesis
    using created fill_keeps_account [OF f] register_checks_Inr(1,2) [OF chk]
      register_tx_roles [OF tx']
    unfolding st1 by (simp add: bump_def user_row_def blank_user_def)
qed

end

subsection \<open>Single-use secrets\<close>

text \<open>No two accounts carry the same secret: the secrets are fresh random strings.\<close>

definition distinct_secrets :: "(user \<Rightarrow> string option) \<Rightarrow> db \<Rightarrow> bool" where
  "distinct_secrets tok st \<longleftrightarrow>
     (\<forall>u \<in> set (t_users st). \<forall>v \<in> set (t_users st). tok u \<noteq> None \<and> tok u = tok v \<longrightarrow> us_id u = us_id v)"

lemma secret_gone:
  assumes "distinct_secrets tok st" and "u \<in> set (t_users st)" and "tok u = Some h"
    and "\<And>v. tok (f v) = None"
    and "v \<in> set (update_where (\<lambda>x. us_id x = us_id u) f (t_users st))"
  shows "tok v \<noteq> Some h"
  using assms(5)
proof (cases rule: in_update_whereE)
  case (changed r)
  then show ?thesis using assms(4) by simp
next
  case kept
  then show ?thesis using assms(1-3) unfolding distinct_secrets_def by (metis option.distinct(1))
qed

lemma FindByResetToken_SomeD: "FindByResetToken E h st = DbOk (Some u) \<Longrightarrow>
    u \<in> set (t_users st) \<and> us_password_reset_token u = Some h \<and> is_after (us_password_reset_expires_at u) (wall E)"
  by (auto simp: FindByResetToken_def stmt_def split: if_splits dest: first_where_SomeD)

lemma db_write_Inr: "db_write c st r = (Inr (), st') \<longleftrightarrow> r = DbOk st'"
  by (cases r) (auto simp: db_write_def)

lemma ResetPassword_success:
  assumes "ResetPassword E tok pw st = (Inr (), st')"
  obtains u hash where "u \<in> set (t_users st)" "us_password_reset_token u = Some (HashToken (sha256 E) tok)"
    "is_after (us_password_reset_expires_at u) (wall E)" "password_policy E pw [] = None"
    "t_users st' = update_where (\<lambda>x. us_id x = us_id u) (touch_user E (reset_fields hash)) (t_users st)"
proof -
  obtain u hash where u: "FindByResetToken E (HashToken (sha256 E) tok) st = DbOk (Some u)"
      and upd: "UpdateFields E (us_id u) (reset_fields hash) (bump st) = DbOk st'"
      and p: "password_policy E pw [] = None"
    using assms by (auto simp: ResetPassword_def HashPassword_def db_write_Inr
        split: option.splits dbres.splits)
  have "t_users st' = update_where (\<lambda>x. us_id x = us_id u) (touch_user E (reset_fields hash)) (t_users st)"
    using UpdateFields_table [OF upd] by (simp add: bump_def)
  then show ?thesis using that FindByResetToken_SomeD [OF u] p by blast
qed

text \<open>A reset token works once.\<close>

lemma ResetPassword_once:
  assumes "distinct_secrets us_password_reset_token st" and "ResetPassword E tok pw st = (Inr (), st')"
    and that: "sha256 E' = sha256 E"
  shows "fst (ResetPassword E' tok pw' st') \<noteq> Inr ()"
proof
  assume "fst (ResetPassword E' tok pw' st') = Inr ()"
  then obtain st'' where second: "ResetPassword E' tok pw' st' = (Inr (), st'')"
    by (metis prod.collapse)
  obtain u hash where u: "u \<in> set (t_users st)" "us_password_reset_token u = Some (HashToken (sha256 E) tok)"
      "t_users st' = update_where (\<lambda>x. us_id x = us_id u) (touch_user E (reset_fields hash)) (t_users st)"
    using assms(2) by (rule ResetPassword_success)
  obtain v where v: "v \<in> set (t_users st')" "us_password_reset_token v = Some (HashToken (sha256 E') tok)"
    using second by (rule ResetPassword_success)
  have "us_password_reset_token v \<noteq> Some (HashToken (sha256 E) tok)"
    by (rule secret_gone [OF assms(1) u(1,2) _ v(1) [unfolded u(3)]]) (simp add: reset_fields_def)
  then show False using v(2) that by simp
qed

lemma ConsumeVerificationToken_success:
  assumes "ConsumeVerificationToken E raw st = (Inr (u, rid), st')"
  obtains jti act where "action_token_parse E raw = Some (us_id u, ''verify_email'', jti, rid)"
    "u \<in> set (t_users st)" "us_email_verify_token u = Some jti"
    "is_after (us_email_verify_expires_at u) (wall E)"
    "t_users st' = update_where (\<lambda>x. us_id x = us_id u) (touch_user E verified_fields) (t_users st)"
proof -
  obtain jti where p: "action_token_parse E raw = Some (us_id u, ''verify_email'', jti, rid)"
    and fnd: "FindByVerifyToken E jti st = DbOk (Some u)"
    and upd: "UpdateFields E (us_id u) verified_fields st = DbOk st'"
    using assms by (auto simp: ConsumeVerificationToken_def split: option.splits dbres.splits if_splits)
  have "u \<in> set (t_users st)" "us_email_verify_token u = Some jti" "is_after (us_email_verify_expires_at u) (wall E)"
    using fnd by (auto simp: FindByVerifyToken_def stmt_def split: if_splits dest: first_where_SomeD)
  then show ?thesis using that p UpdateFields_table [OF upd] by simp
qed

text \<open>A verification link works once, and it verifies the account it was issued to.\<close>

lemma ConsumeVerificationToken_once:
  assumes "distinct_secrets us_email_verify_token st"
    and "ConsumeVerificationToken E raw st = (Inr (u, rid), st')"
    and "ConsumeVerificationToken E' raw st' = (Inr (v, rid'), st'')"
    and "action_token_parse E' raw = action_token_parse E raw"
  shows False
proof -
  obtain jti where 1: "action_token_parse E raw = Some (us_id u, ''verify_email'', jti, rid)"
      "u \<in> set (t_users st)" "us_email_verify_token u = Some jti"
      "t_users st' = update_where (\<lambda>x. us_id x = us_id u) (touch_user E verified_fields) (t_users st)"
    using assms(2) by (rule ConsumeVerificationToken_success)
  obtain jti' where 2: "action_token_parse E' raw = Some (us_id v, ''verify_email'', jti', rid')"
      "v \<in> set (t_users st')" "us_email_verify_token v = Some jti'"
    using assms(3) by (rule ConsumeVerificationToken_success)
  have "us_email_verify_token v \<noteq> Some jti"
    by (rule secret_gone [OF assms(1) 1(2,3) _ 2(2) [unfolded 1(4)]]) (simp add: verified_fields_def)
  then show False using 1(1) 2(1,3) assms(4) by simp
qed

lemma ConsumeVerificationToken_verifies:
  assumes "ConsumeVerificationToken E raw st = (Inr (u, rid), st')" and "users_inv st"
  shows "\<exists>v. user_row st' (us_id u) = Some v \<and> us_email_verified v"
proof -
  obtain jti where 1: "u \<in> set (t_users st)"
      "t_users st' = update_where (\<lambda>x. us_id x = us_id u) (touch_user E verified_fields) (t_users st)"
    using assms(1) by (rule ConsumeVerificationToken_success)
  have "first_where (\<lambda>x. us_id x = us_id u) (t_users st) = Some u"
    using 1 assms(2) first_where_key [of us_id "t_users st" u] by (simp add: users_inv_def)
  then show ?thesis
    using 1(2) first_where_update [of us_id "touch_user E verified_fields" "us_id u" "\<lambda>x. us_id x = us_id u" "t_users st"]
    by (simp add: user_row_def verified_fields_def)
qed

subsection \<open>Deletion and first passwords\<close>

definition no_trace :: "uuid \<Rightarrow> db \<Rightarrow> bool" where
  "no_trace i st \<longleftrightarrow>
     (\<forall>u \<in> set (t_users st). us_id u \<noteq> i) \<and> (\<forall>s \<in> set (t_sessions st). se_user_id s \<noteq> i) \<and>
     (\<forall>t \<in> set (t_access_tokens st). at_user_id t \<noteq> Some i) \<and>
     (\<forall>t \<in> set (t_refresh_tokens st). rt_user_id t \<noteq> i) \<and> (\<forall>c \<in> set (t_auth_codes st). ac_user_id c \<noteq> i) \<and>
     (\<forall>c \<in> set (t_consents st). co_user_id c \<noteq> i) \<and> (\<forall>m \<in> set (t_mfa_methods st). mf_user_id m \<noteq> i) \<and>
     (\<forall>r. (i, r) \<notin> set (t_user_roles st)) \<and>
     (\<forall>l \<in> set (t_fed_links st). fl_user_id l \<noteq> i) \<and> (\<forall>p \<in> set (t_passkeys st). pk_user_id p \<noteq> i) \<and>
     (\<forall>t \<in> set (t_reauth_tokens st). ra_user_id t \<noteq> i)"

lemma user_Delete_no_trace:
  assumes "user_Delete E i st = (Inr (), st')"
  shows "no_trace i st'"
proof -
  have "st' = delete_user_rows i st"
    using assms by (auto simp: user_Delete_def user_Delete_row_def stmt_def split: sum.splits dbres.splits if_splits)
  then show ?thesis by (auto simp: delete_user_rows_def Let_def no_trace_def set_delete_where)
qed

lemma SetInitialPassword_guard:
  assumes "SetInitialPassword E i pw st = (Inr (), st')"
  shows "\<exists>u. user_row st i = Some u \<and> (us_password_hash u = None \<or> us_must_set_password u)"
  using assms
  by (auto simp: SetInitialPassword_def GetByID_def user_FindByID_def stmt_def
      split: option.splits sum.splits dbres.splits if_splits)

lemma ChangePassword_guard:
  assumes "ChangePassword E i current pw st = (Inr (), st')"
  shows "\<exists>u. user_row st i = Some u \<and> right_password E u current \<and>
    password_policy E pw (userHintsForID E i st) = None"
  using assms
  by (auto simp: ChangePassword_def GetByID_def user_FindByID_def stmt_def right_password_def
      split: option.splits sum.splits dbres.splits if_splits bool.splits)

text \<open>Whoever asks for a reset learns nothing about the account from a successful answer.\<close>

lemma ForgotPassword_unknown: "email_row st (lower_trim e) = None \<Longrightarrow> ForgotPassword E e st = (Inr (), st)"
  by (simp add: ForgotPassword_def user_FindByEmail_def stmt_def)

end
