(* ===== verification/Resources.thy ===== *)
theory Resources
  imports Rbac
begin

text \<open>
  Protected APIs (\<^verbatim>\<open>resource/service.go\<close> over \<^verbatim>\<open>resource/repository.go\<close>): the resources with their
  permissions, the grants of permissions to clients and to roles, and the three checks the OAuth
  service makes of an audience. The checks are its \<open>resource_validator\<close> interface: the scopes
  they return are always among the requested ones.
\<close>

section \<open>Repository\<close>

definition preload :: "db \<Rightarrow> api_resource \<Rightarrow> api_resource" where
  "preload st r = r\<lparr>res_permissions := filter (\<lambda>p. pm_resource_id p = res_id r) (t_resource_permissions st)\<rparr>"

definition gorm_default :: "'a \<Rightarrow> 'a \<Rightarrow> 'a \<Rightarrow> 'a" where
  "gorm_default zero dflt v = (if v = zero then dflt else v)"

definition res_Create_row :: "env \<Rightarrow> api_resource \<Rightarrow> db \<Rightarrow> api_resource dbres \<times> db" where
  "res_Create_row E r st =
     (case new_uuid E st of
        (None, st1) \<Rightarrow> (DbErr, st1)
      | (Some i, st1) \<Rightarrow>
          (let r1 = r\<lparr>res_id := i, res_signing_alg := gorm_default [] ''RS256'' (res_signing_alg r),
                      res_token_format := gorm_default [] ''opaque'' (res_token_format r),
                      res_access_token_ttl := gorm_default 0 3600 (res_access_token_ttl r),
                      res_active := gorm_default False True (res_active r)\<rparr>
           in if List.member (map res_identifier (t_resources st1)) (res_identifier r) then (DbErr, st1)
              else (case stmt_opt E ''resource.Create'' (map_option (\<lambda>t. st1\<lparr>t_resources := t\<rparr>)
                      (insert_row res_id r1 (t_resources st1))) of
                 DbErr \<Rightarrow> (DbErr, st1)
               | DbOk st2 \<Rightarrow> (DbOk r1, st2))))"

definition res_FindByID :: "env \<Rightarrow> uuid \<Rightarrow> db \<Rightarrow> api_resource option dbres" where
  "res_FindByID E i st = stmt E ''resource.FindByID''
     (map_option (preload st) (first_where (\<lambda>r. res_id r = i) (t_resources st)))"

definition FindByIdentifier :: "env \<Rightarrow> string \<Rightarrow> db \<Rightarrow> api_resource option dbres" where
  "FindByIdentifier E a st = stmt E ''resource.FindByIdentifier''
     (first_where (\<lambda>r. res_identifier r = a) (t_resources st))"

definition FindActiveByIdentifier :: "env \<Rightarrow> string \<Rightarrow> db \<Rightarrow> api_resource option dbres" where
  "FindActiveByIdentifier E a st = stmt E ''resource.FindActiveByIdentifier''
     (map_option (preload st) (first_where (\<lambda>r. res_identifier r = a \<and> res_active r) (t_resources st)))"

definition res_Update_row :: "env \<Rightarrow> api_resource \<Rightarrow> db \<Rightarrow> db dbres" where
  "res_Update_row E r st = stmt_opt E ''resource.Update''
     (if first_where (\<lambda>x. res_identifier x = res_identifier r \<and> res_id x \<noteq> res_id r) (t_resources st) \<noteq> None then None
      else Some (st\<lparr>t_resources := save_row res_id r (t_resources st)\<rparr>))"

text \<open>Deleting a resource deletes its permissions, and deleting a permission deletes its grants.\<close>

definition drop_permissions :: "(permission \<Rightarrow> bool) \<Rightarrow> db \<Rightarrow> db" where
  "drop_permissions P st =
     (let gone = map pm_id (filter P (t_resource_permissions st)) in
      st\<lparr>t_resource_permissions := delete_where P (t_resource_permissions st),
         t_client_permissions := delete_where (\<lambda>(c, p). List.member gone p) (t_client_permissions st),
         t_role_resource_permissions := delete_where (\<lambda>(r, p). List.member gone p) (t_role_resource_permissions st)\<rparr>)"

definition res_Delete_row :: "env \<Rightarrow> uuid \<Rightarrow> db \<Rightarrow> db dbres" where
  "res_Delete_row E i st = stmt E ''resource.Delete''
     ((drop_permissions (\<lambda>p. pm_resource_id p = i) st)\<lparr>t_resources := delete_where (\<lambda>r. res_id r = i) (t_resources st)\<rparr>)"

definition CreatePermission :: "env \<Rightarrow> permission \<Rightarrow> db \<Rightarrow> permission dbres \<times> db" where
  "CreatePermission E p st =
     (case new_uuid E st of
        (None, st1) \<Rightarrow> (DbErr, st1)
      | (Some i, st1) \<Rightarrow>
          (let p1 = p\<lparr>pm_id := i\<rparr>
           in if List.member (map (\<lambda>x. (pm_resource_id x, pm_name x)) (t_resource_permissions st1))
                   (pm_resource_id p, pm_name p) then (DbErr, st1)
              else (case stmt_opt E ''resource.CreatePermission'' (map_option (\<lambda>t. st1\<lparr>t_resource_permissions := t\<rparr>)
                      (insert_row pm_id p1 (t_resource_permissions st1))) of
                 DbErr \<Rightarrow> (DbErr, st1)
               | DbOk st2 \<Rightarrow> (DbOk p1, st2))))"

definition FindPermissionByID :: "env \<Rightarrow> uuid \<Rightarrow> db \<Rightarrow> permission option dbres" where
  "FindPermissionByID E i st = stmt E ''resource.FindPermissionByID''
     (first_where (\<lambda>p. pm_id p = i) (t_resource_permissions st))"

definition DeletePermission :: "env \<Rightarrow> uuid \<Rightarrow> db \<Rightarrow> db dbres" where
  "DeletePermission E i st = stmt E ''resource.DeletePermission'' (drop_permissions (\<lambda>p. pm_id p = i) st)"

fun add_client_permissions :: "db \<Rightarrow> uuid \<Rightarrow> uuid list \<Rightarrow> db option" where
  "add_client_permissions st c [] = Some st"
| "add_client_permissions st c (p # ps) =
     (if \<not> List.member (map cl_id (t_clients st)) c \<or> \<not> List.member (map pm_id (t_resource_permissions st)) p
         \<or> List.member (t_client_permissions st) (c, p) then None
      else add_client_permissions (st\<lparr>t_client_permissions := t_client_permissions st @ [(c, p)]\<rparr>) c ps)"

definition SetClientPermissions_row :: "env \<Rightarrow> uuid \<Rightarrow> uuid list \<Rightarrow> db \<Rightarrow> unit res \<times> db" where
  "SetClientPermissions_row E c ps st = Transaction E
     (\<lambda>st1. let st2 = st1\<lparr>t_client_permissions := delete_where (\<lambda>(x, p). x = c) (t_client_permissions st1)\<rparr>
            in case stmt_opt E ''resource.SetClientPermissions'' (add_client_permissions st2 c ps) of
                 DbErr \<Rightarrow> (Inl (DriverError ''resource.SetClientPermissions''), st2)
               | DbOk st3 \<Rightarrow> (Inr (), st3)) st"

fun add_role_resource_permissions :: "db \<Rightarrow> uuid \<Rightarrow> uuid list \<Rightarrow> db option" where
  "add_role_resource_permissions st r [] = Some st"
| "add_role_resource_permissions st r (p # ps) =
     (if role_row st r = None \<or> \<not> List.member (map pm_id (t_resource_permissions st)) p
         \<or> List.member (t_role_resource_permissions st) (r, p) then None
      else add_role_resource_permissions
             (st\<lparr>t_role_resource_permissions := t_role_resource_permissions st @ [(r, p)]\<rparr>) r ps)"

definition SetRoleResourcePermissions_row :: "env \<Rightarrow> uuid \<Rightarrow> uuid list \<Rightarrow> db \<Rightarrow> unit res \<times> db" where
  "SetRoleResourcePermissions_row E r ps st = Transaction E
     (\<lambda>st1. let st2 = st1\<lparr>t_role_resource_permissions := delete_where (\<lambda>(x, p). x = r) (t_role_resource_permissions st1)\<rparr>
            in case stmt_opt E ''resource.SetRolePermissions'' (add_role_resource_permissions st2 r ps) of
                 DbErr \<Rightarrow> (Inl (DriverError ''resource.SetRolePermissions''), st2)
               | DbOk st3 \<Rightarrow> (Inr (), st3)) st"

definition client_holds :: "db \<Rightarrow> uuid \<Rightarrow> permission \<Rightarrow> bool" where
  "client_holds st c p \<longleftrightarrow> List.member (t_client_permissions st) (c, pm_id p)"

definition user_holds :: "db \<Rightarrow> uuid \<Rightarrow> permission \<Rightarrow> bool" where
  "user_holds st u p \<longleftrightarrow>
     list_ex (\<lambda>(x, r). x = u \<and> List.member (t_role_resource_permissions st) (r, pm_id p)) (t_user_roles st)"

text \<open>\<^verbatim>\<open>name IN (?)\<close> with an empty list is \<^verbatim>\<open>IN (NULL)\<close>, which no row satisfies.\<close>

definition scoped_permissions :: "db \<Rightarrow> uuid \<Rightarrow> string list \<Rightarrow> (permission \<Rightarrow> bool) \<Rightarrow> string list" where
  "scoped_permissions st r scopes P =
     map pm_name (filter (\<lambda>p. P p \<and> pm_resource_id p = r \<and> List.member scopes (pm_name p)) (t_resource_permissions st))"

definition ValidateClientScopes_row :: "env \<Rightarrow> uuid \<Rightarrow> uuid \<Rightarrow> string list \<Rightarrow> db \<Rightarrow> string list dbres" where
  "ValidateClientScopes_row E c r scopes st = stmt E ''resource.ValidateClientScopes''
     (scoped_permissions st r scopes (client_holds st c))"

definition ValidateUserScopes_row :: "env \<Rightarrow> uuid \<Rightarrow> uuid \<Rightarrow> string list \<Rightarrow> db \<Rightarrow> string list dbres" where
  "ValidateUserScopes_row E u r scopes st = stmt E ''resource.ValidateUserScopes''
     (remdups (scoped_permissions st r scopes (user_holds st u)))"

definition GetAllActiveScopes :: "env \<Rightarrow> db \<Rightarrow> string list dbres" where
  "GetAllActiveScopes E st = stmt E ''resource.GetAllActiveScopes''
     (map pm_name (filter (\<lambda>p. list_ex (\<lambda>r. res_id r = pm_resource_id p \<and> res_active r) (t_resources st))
        (t_resource_permissions st)))"

section \<open>Service\<close>

record resource_create_input =
  rci_name :: string
  rci_identifier :: string
  rci_description :: "string option"
  rci_signing_alg :: "string option"
  rci_token_format :: "string option"
  rci_access_token_ttl :: "int option"

definition validateTokenFormat :: "string \<Rightarrow> bool" where
  "validateTokenFormat v = (v = ''opaque'' \<or> v = ''jwt'')"

definition bad_token_format :: err where
  "bad_token_format = ErrBadRequest (''token_format must be '' @ [char_of (39::nat)] @ ''opaque''
     @ [char_of (39::nat)] @ '' or '' @ [char_of (39::nat)] @ ''jwt'' @ [char_of (39::nat)])"

definition given_or :: "'a option \<Rightarrow> 'a \<Rightarrow> 'a" where
  "given_or v d = (case v of None \<Rightarrow> d | Some x \<Rightarrow> x)"

definition res_Create :: "env \<Rightarrow> resource_create_input \<Rightarrow> db \<Rightarrow> api_resource res \<times> db" where
  "res_Create E inp st =
     (case FindByIdentifier E (rci_identifier inp) st of
        DbErr \<Rightarrow> (Inl (ErrInternal ''failed to check identifier uniqueness''), st)
      | DbOk (Some _) \<Rightarrow> (Inl (ErrConflict ''a resource with this identifier already exists''), st)
      | DbOk None \<Rightarrow>
          if rci_token_format inp \<noteq> None \<and> \<not> validateTokenFormat (the (rci_token_format inp))
          then (Inl bad_token_format, st)
          else (case res_Create_row E
                       \<lparr>res_id = uuid_nil, res_name = rci_name inp, res_identifier = rci_identifier inp,
                        res_description = rci_description inp, res_signing_alg = given_or (rci_signing_alg inp) [],
                        res_token_format = given_or (rci_token_format inp) [],
                        res_access_token_ttl = given_or (rci_access_token_ttl inp) 0, res_active = True,
                        res_permissions = []\<rparr> st of
                  (DbErr, st1) \<Rightarrow> (Inl (ErrInternal ''failed to create resource''), st1)
                | (DbOk r, st1) \<Rightarrow> (Inr r, st1)))"

definition res_GetByID :: "env \<Rightarrow> uuid \<Rightarrow> db \<Rightarrow> api_resource res" where
  "res_GetByID E i st =
     (case res_FindByID E i st of
        DbErr \<Rightarrow> Inl (ErrInternal ''failed to find resource'')
      | DbOk None \<Rightarrow> Inl (ErrNotFound ''resource not found'')
      | DbOk (Some r) \<Rightarrow> Inr r)"

record resource_update_input =
  rui_name :: "string option"
  rui_description :: "string option"
  rui_signing_alg :: "string option"
  rui_token_format :: "string option"
  rui_access_token_ttl :: "int option"
  rui_active :: "bool option"

definition res_Update :: "env \<Rightarrow> uuid \<Rightarrow> resource_update_input \<Rightarrow> db \<Rightarrow> api_resource res \<times> db" where
  "res_Update E i inp st =
     (case res_GetByID E i st of
        Inl e \<Rightarrow> (Inl e, st)
      | Inr r \<Rightarrow>
          if rui_token_format inp \<noteq> None \<and> \<not> validateTokenFormat (the (rui_token_format inp))
          then (Inl bad_token_format, st)
          else
            (let r1 = r\<lparr>res_name := given_or (rui_name inp) (res_name r),
                        res_description := (case rui_description inp of None \<Rightarrow> res_description r | Some d \<Rightarrow> Some d),
                        res_signing_alg := given_or (rui_signing_alg inp) (res_signing_alg r),
                        res_token_format := given_or (rui_token_format inp) (res_token_format r),
                        res_access_token_ttl := given_or (rui_access_token_ttl inp) (res_access_token_ttl r),
                        res_active := given_or (rui_active inp) (res_active r)\<rparr>
             in case res_Update_row E r1 st of
                  DbErr \<Rightarrow> (Inl (ErrInternal ''failed to update resource''), st)
                | DbOk st1 \<Rightarrow> (Inr r1, st1)))"

definition res_Delete :: "env \<Rightarrow> uuid \<Rightarrow> db \<Rightarrow> unit res \<times> db" where
  "res_Delete E i st =
     (case res_GetByID E i st of
        Inl e \<Rightarrow> (Inl e, st)
      | Inr r \<Rightarrow>
          (case res_Delete_row E i st of
             DbErr \<Rightarrow> (Inl (ErrInternal ''failed to delete resource''), st)
           | DbOk st1 \<Rightarrow> (Inr (), st1)))"

definition AddPermission :: "env \<Rightarrow> uuid \<Rightarrow> string \<Rightarrow> string option \<Rightarrow> db \<Rightarrow> permission res \<times> db" where
  "AddPermission E r name description st =
     (case res_GetByID E r st of
        Inl e \<Rightarrow> (Inl e, st)
      | Inr _ \<Rightarrow>
          (case CreatePermission E \<lparr>pm_id = uuid_nil, pm_resource_id = r, pm_name = name, pm_description = description\<rparr> st of
             (DbErr, st1) \<Rightarrow> (Inl (ErrInternal ''failed to create permission''), st1)
           | (DbOk p, st1) \<Rightarrow> (Inr p, st1)))"

definition RemovePermission :: "env \<Rightarrow> uuid \<Rightarrow> uuid \<Rightarrow> db \<Rightarrow> unit res \<times> db" where
  "RemovePermission E r i st =
     (case FindPermissionByID E i st of
        DbErr \<Rightarrow> (Inl (ErrInternal ''failed to find permission''), st)
      | DbOk None \<Rightarrow> (Inl (ErrNotFound ''permission not found''), st)
      | DbOk (Some p) \<Rightarrow>
          if pm_resource_id p \<noteq> r then (Inl (ErrNotFound ''permission not found''), st)
          else (case DeletePermission E i st of
                  DbErr \<Rightarrow> (Inl (ErrInternal ''failed to delete permission''), st)
                | DbOk st1 \<Rightarrow> (Inr (), st1)))"

definition SetClientPermissions :: "env \<Rightarrow> uuid \<Rightarrow> uuid list \<Rightarrow> db \<Rightarrow> unit res \<times> db" where
  "SetClientPermissions E c ps st =
     (case SetClientPermissions_row E c ps st of
        (Inl e, st1) \<Rightarrow> (Inl (ErrInternal ''failed to set client permissions''), st1)
      | (Inr x, st1) \<Rightarrow> (Inr (), st1))"

definition SetRoleResourcePermissions :: "env \<Rightarrow> uuid \<Rightarrow> uuid list \<Rightarrow> db \<Rightarrow> unit res \<times> db" where
  "SetRoleResourcePermissions E r ps st =
     (case SetRoleResourcePermissions_row E r ps st of
        (Inl e, st1) \<Rightarrow> (Inl (ErrInternal ''failed to set role resource permissions''), st1)
      | (Inr x, st1) \<Rightarrow> (Inr (), st1))"

definition ValidateAudience :: "env \<Rightarrow> string \<Rightarrow> db \<Rightarrow> api_resource res" where
  "ValidateAudience E a st =
     (case FindActiveByIdentifier E a st of
        DbErr \<Rightarrow> Inl (ErrInternal ''failed to validate audience'')
      | DbOk None \<Rightarrow> Inl (ErrNotFound ''resource not found'')
      | DbOk (Some r) \<Rightarrow> Inr r)"

definition ValidateClientScopes :: "env \<Rightarrow> uuid \<Rightarrow> uuid \<Rightarrow> string list \<Rightarrow> db \<Rightarrow> string list res" where
  "ValidateClientScopes E c r scopes st =
     (case ValidateClientScopes_row E c r scopes st of
        DbErr \<Rightarrow> Inl (DriverError ''resource.ValidateClientScopes'')
      | DbOk ss \<Rightarrow> Inr ss)"

definition ValidateUserScopes :: "env \<Rightarrow> uuid \<Rightarrow> uuid \<Rightarrow> string list \<Rightarrow> db \<Rightarrow> string list res" where
  "ValidateUserScopes E u r scopes st =
     (case ValidateUserScopes_row E u r scopes st of
        DbErr \<Rightarrow> Inl (DriverError ''resource.ValidateUserScopes'')
      | DbOk ss \<Rightarrow> Inr ss)"

definition resource_service :: "env \<Rightarrow> db \<Rightarrow> resource_validator" where
  "resource_service E st =
     \<lparr>rv_audience = (\<lambda>a. ValidateAudience E a st),
      rv_client_scopes = (\<lambda>c r ss. ValidateClientScopes E c r ss st),
      rv_user_scopes = (\<lambda>u r ss. ValidateUserScopes E u r ss st)\<rparr>"

section \<open>The validator as an interface\<close>

locale scope_validator =
  fixes rv :: resource_validator
  assumes client_scopes_requested: "rv_client_scopes rv c r ss = Inr granted \<Longrightarrow> set granted \<subseteq> set ss"
    and user_scopes_requested: "rv_user_scopes rv u r ss = Inr granted \<Longrightarrow> set granted \<subseteq> set ss"
    and audience_identifier: "rv_audience rv a = Inr res \<Longrightarrow> res_identifier res = a \<and> res_active res"
begin

text \<open>Both checks in a row, as the token endpoint makes them, never add a scope.\<close>

lemma both_checks_requested:
  "rv_client_scopes rv c r ss = Inr mid \<Longrightarrow> rv_user_scopes rv u r mid = Inr granted \<Longrightarrow> set granted \<subseteq> set ss"
  using client_scopes_requested user_scopes_requested by blast

end

lemma scoped_permissions_set: "s \<in> set (scoped_permissions st r scopes P) \<longleftrightarrow>
    s \<in> set scopes \<and> (\<exists>p \<in> set (t_resource_permissions st). pm_name p = s \<and> pm_resource_id p = r \<and> P p)"
  by (auto simp: scoped_permissions_def)

interpretation resources: scope_validator "resource_service E st" for E st
  by unfold_locales
    (auto simp: resource_service_def ValidateClientScopes_def ValidateUserScopes_def ValidateAudience_def
      ValidateClientScopes_row_def ValidateUserScopes_row_def FindActiveByIdentifier_def stmt_def
      scoped_permissions_set preload_def split: if_splits dbres.splits option.splits dest!: first_where_SomeD)

section \<open>Lemmas\<close>

text \<open>A scope is granted to a user for a resource exactly when one of the user's roles carries it.\<close>

lemma user_holds_iff: "user_holds st u p \<longleftrightarrow>
    (\<exists>role. (u, role) \<in> set (t_user_roles st) \<and> (role, pm_id p) \<in> set (t_role_resource_permissions st))"
  by (auto simp: user_holds_def list_ex_iff)

lemma ValidateUserScopes_exact:
  assumes "ValidateUserScopes E u r scopes st = Inr granted"
  shows "s \<in> set granted \<longleftrightarrow> s \<in> set scopes \<and>
    (\<exists>p \<in> set (t_resource_permissions st). pm_name p = s \<and> pm_resource_id p = r \<and>
       (\<exists>role. (u, role) \<in> set (t_user_roles st) \<and> (role, pm_id p) \<in> set (t_role_resource_permissions st)))"
proof -
  have "granted = remdups (scoped_permissions st r scopes (user_holds st u))"
    using assms by (auto simp: ValidateUserScopes_def ValidateUserScopes_row_def stmt_def
        split: dbres.splits if_splits)
  then show ?thesis by (simp add: scoped_permissions_set user_holds_iff)
qed

lemma ValidateClientScopes_exact:
  assumes "ValidateClientScopes E c r scopes st = Inr granted"
  shows "s \<in> set granted \<longleftrightarrow> s \<in> set scopes \<and>
    (\<exists>p \<in> set (t_resource_permissions st). pm_name p = s \<and> pm_resource_id p = r \<and>
       (c, pm_id p) \<in> set (t_client_permissions st))"
  using assms
  by (auto simp: ValidateClientScopes_def ValidateClientScopes_row_def stmt_def scoped_permissions_set
      client_holds_def split: dbres.splits if_splits)

lemma add_client_permissions_table:
  "add_client_permissions st c ps = Some st' \<Longrightarrow>
     st' = st\<lparr>t_client_permissions := t_client_permissions st @ map (Pair c) ps\<rparr>"
proof (induction ps arbitrary: st)
  case (Cons p ps)
  then have "add_client_permissions (st\<lparr>t_client_permissions := t_client_permissions st @ [(c, p)]\<rparr>) c ps = Some st'"
    by (simp split: if_splits)
  from Cons.IH [OF this] show ?case by simp
qed simp

lemma SetClientPermissions_exact:
  assumes "SetClientPermissions E c ps st = (Inr (), st')"
  shows "(x, p) \<in> set (t_client_permissions st') \<longleftrightarrow>
    (if x = c then p \<in> set ps else (x, p) \<in> set (t_client_permissions st))"
proof -
  let ?st2 = "st\<lparr>t_client_permissions := delete_where (\<lambda>(x, p). x = c) (t_client_permissions st)\<rparr>"
  have "SetClientPermissions_row E c ps st = (Inr (), st')"
    using assms by (auto simp: SetClientPermissions_def split: prod.splits sum.splits)
  then have "add_client_permissions ?st2 c ps = Some st'"
    unfolding SetClientPermissions_row_def
    by (auto simp: stmt_opt_def Let_def split: dbres.splits option.splits if_splits dest!: Transaction_Inr)
  from add_client_permissions_table [OF this]
  have "t_client_permissions st' = delete_where (\<lambda>(x, p). x = c) (t_client_permissions st) @ map (Pair c) ps" by simp
  then show ?thesis by (auto simp: set_delete_where)
qed

text \<open>A permission can be removed through its own resource only, and its grants go with it.\<close>

lemma RemovePermission_success:
  assumes "RemovePermission E r i st = (Inr (), st')"
  shows "(\<exists>p \<in> set (t_resource_permissions st). pm_id p = i \<and> pm_resource_id p = r) \<and>
    (\<forall>p \<in> set (t_resource_permissions st'). pm_id p \<noteq> i) \<and>
    (\<forall>c. (c, i) \<notin> set (t_client_permissions st')) \<and> (\<forall>c. (c, i) \<notin> set (t_role_resource_permissions st'))"
proof -
  have "FindPermissionByID E i st = DbOk (first_where (\<lambda>p. pm_id p = i) (t_resource_permissions st))"
    and st': "st' = drop_permissions (\<lambda>p. pm_id p = i) st"
    and p: "\<exists>p. first_where (\<lambda>p. pm_id p = i) (t_resource_permissions st) = Some p \<and> pm_resource_id p = r"
    using assms by (auto simp: RemovePermission_def FindPermissionByID_def DeletePermission_def stmt_def
        split: dbres.splits option.splits if_splits)
  then obtain p where "p \<in> set (t_resource_permissions st)" "pm_id p = i" "pm_resource_id p = r"
    by (auto dest: first_where_SomeD)
  then show ?thesis
    unfolding st' by (auto simp: drop_permissions_def Let_def set_delete_where)
qed

end
