(* ===== verification/PolicyEngine.thy ===== *)
theory PolicyEngine
  imports Rbac "HOL-Library.Multiset"
begin

text \<open>
  Policies (package \<^verbatim>\<open>policy\<close>): the engine's cache of compiled policies by type with load, replace,
  remove and evaluate (\<^verbatim>\<open>engine.go\<close>), the administrative service over it (\<^verbatim>\<open>service.go\<close>), the adapter
  to the OAuth service's interface, and the fail-closed gate of the admin API (\<^verbatim>\<open>middleware.go\<close>).
  Rego is outside the repository: \<open>rego_lib\<close> compiles a module and a query to a function, and also
  stands for \<^verbatim>\<open>sort.Slice\<close>, which is not stable, and for \<^verbatim>\<open>fmt\<close>'s rendering of composite values.
\<close>

section \<open>Compiled policies\<close>

datatype query_result = QErr | QNone | QVal any

type_synonym query = "any_map \<Rightarrow> query_result"

record prepared_policy =
  pp_id :: uuid
  pp_name :: string
  pp_priority :: int
  pp_deny :: "query option"
  pp_modify :: "query option"

record rego_lib =
  rg_compile :: "string \<Rightarrow> string \<Rightarrow> query option"
  rg_sort :: "prepared_policy list \<Rightarrow> prepared_policy list"
  rg_fmt :: "any \<Rightarrow> string"

text \<open>What \<^verbatim>\<open>sort.Slice\<close> with a descending comparison of priorities guarantees.\<close>

definition sorts_by_priority :: "rego_lib \<Rightarrow> bool" where
  "sorts_by_priority L \<longleftrightarrow>
     (\<forall>ps. mset (rg_sort L ps) = mset ps \<and>
        sorted_wrt (\<lambda>p q. pp_priority p \<ge> pp_priority q) (rg_sort L ps))"

definition query_of :: "string \<Rightarrow> string \<Rightarrow> string" where
  "query_of ty field = ''x = data.orionauth.'' @ ty @ ''.'' @ field"

text \<open>The \<^verbatim>\<open>allow\<close> query must compile; its result is never looked at.\<close>

definition compile_policy :: "rego_lib \<Rightarrow> policy \<Rightarrow> prepared_policy option" where
  "compile_policy L p =
     (case rg_compile L (po_rego p) (query_of (po_type p) ''allow'') of
        None \<Rightarrow> None
      | Some allowQuery \<Rightarrow>
          Some \<lparr>pp_id = po_id p, pp_name = po_name p, pp_priority = po_priority p,
                pp_deny = rg_compile L (po_rego p) (query_of (po_type p) ''deny''),
                pp_modify = rg_compile L (po_rego p) (query_of (po_type p) ''modify'')\<rparr>)"

section \<open>The cache\<close>

type_synonym policy_engine = "string \<Rightarrow> prepared_policy list"

definition NewEngine :: policy_engine where
  "NewEngine = (\<lambda>ty. [])"

fun group_policies :: "rego_lib \<Rightarrow> policy list \<Rightarrow> policy_engine \<Rightarrow> policy_engine option" where
  "group_policies L [] g = Some g"
| "group_policies L (p # ps) g =
     (case compile_policy L p of
        None \<Rightarrow> None
      | Some pp \<Rightarrow> group_policies L ps (g(po_type p := g (po_type p) @ [pp])))"

text \<open>A policy that does not compile leaves the whole cache as it was.\<close>

definition LoadPolicies :: "rego_lib \<Rightarrow> policy list \<Rightarrow> policy_engine \<Rightarrow> bool \<times> policy_engine" where
  "LoadPolicies L ps e =
     (case group_policies L ps NewEngine of
        None \<Rightarrow> (False, e)
      | Some g \<Rightarrow> (True, \<lambda>ty. rg_sort L (g ty)))"

fun replace_policy :: "prepared_policy \<Rightarrow> prepared_policy list \<Rightarrow> prepared_policy list option" where
  "replace_policy pp [] = None"
| "replace_policy pp (q # qs) =
     (if pp_id q = pp_id pp then Some (pp # qs) else map_option (Cons q) (replace_policy pp qs))"

definition LoadPolicy :: "rego_lib \<Rightarrow> policy \<Rightarrow> policy_engine \<Rightarrow> bool \<times> policy_engine" where
  "LoadPolicy L p e =
     (case compile_policy L p of
        None \<Rightarrow> (False, e)
      | Some pp \<Rightarrow>
          (let policies = (case replace_policy pp (e (po_type p)) of
                             Some qs \<Rightarrow> qs
                           | None \<Rightarrow> e (po_type p) @ [pp])
           in (True, e(po_type p := rg_sort L policies))))"

fun remove_first :: "uuid \<Rightarrow> prepared_policy list \<Rightarrow> prepared_policy list" where
  "remove_first i [] = []"
| "remove_first i (q # qs) = (if pp_id q = i then qs else q # remove_first i qs)"

definition RemovePolicy :: "uuid \<Rightarrow> string \<Rightarrow> policy_engine \<Rightarrow> policy_engine" where
  "RemovePolicy i ty e = e(ty := remove_first i (e ty))"

section \<open>Evaluation\<close>

text \<open>\<^verbatim>\<open>fmt.Sprintf("%v", v)\<close>.\<close>

definition fmt_v :: "rego_lib \<Rightarrow> any \<Rightarrow> string" where
  "fmt_v L v =
     (case v of
        ANil \<Rightarrow> ''<nil>''
      | ABool b \<Rightarrow> if b then ''true'' else ''false''
      | AInt n \<Rightarrow> itoa n
      | ANumber s \<Rightarrow> s
      | AStr s \<Rightarrow> s
      | _ \<Rightarrow> rg_fmt L v)"

text \<open>An object yields one of its keys; Go's iteration order is not specified, so the list order of
  the object stands for it.\<close>

definition extractDenyReason :: "rego_lib \<Rightarrow> any \<Rightarrow> string" where
  "extractDenyReason L v =
     (case v of
        AArr [] \<Rightarrow> []
      | AArr (x # xs) \<Rightarrow> fmt_v L x
      | AObj [] \<Rightarrow> []
      | AObj ((k, x) # m) \<Rightarrow> k
      | _ \<Rightarrow> (let s = fmt_v L v in if s \<noteq> [] \<and> s \<noteq> ''[]'' \<and> s \<noteq> ''map[]'' then s else []))"

record eval_result =
  ev_allow :: bool
  ev_deny :: bool
  ev_deny_reason :: string
  ev_modify :: "any_map option"
  ev_policy_name :: string

text \<open>Go's map assignment in a loop: later entries replace earlier ones.\<close>

fun map_assign :: "any_map \<Rightarrow> any_map \<Rightarrow> any_map" where
  "map_assign merged [] = merged"
| "map_assign merged ((k, v) # m) = map_assign (filter (\<lambda>(k', v'). k' \<noteq> k) merged @ [(k, v)]) m"

definition deny_step :: "rego_lib \<Rightarrow> prepared_policy \<Rightarrow> any_map \<Rightarrow> string res" where
  "deny_step L p input =
     (case pp_deny p of
        None \<Rightarrow> Inr []
      | Some q \<Rightarrow>
          (case q input of
             QErr \<Rightarrow> Inl (DriverError (''policy '' @ quoted (pp_name p) @ '' deny evaluation failed''))
           | QNone \<Rightarrow> Inr []
           | QVal v \<Rightarrow> Inr (extractDenyReason L v)))"

definition modify_step :: "prepared_policy \<Rightarrow> any_map \<Rightarrow> any_map \<Rightarrow> any_map" where
  "modify_step p input merged =
     (case pp_modify p of
        None \<Rightarrow> merged
      | Some q \<Rightarrow> (case q input of QVal (AObj m) \<Rightarrow> map_assign merged m | _ \<Rightarrow> merged))"

fun eval_policies :: "rego_lib \<Rightarrow> prepared_policy list \<Rightarrow> any_map \<Rightarrow> any_map \<Rightarrow> eval_result res" where
  "eval_policies L [] input merged =
     Inr \<lparr>ev_allow = True, ev_deny = False, ev_deny_reason = [],
          ev_modify = (if merged = [] then None else Some merged), ev_policy_name = []\<rparr>"
| "eval_policies L (p # ps) input merged =
     (case deny_step L p input of
        Inl e \<Rightarrow> Inl e
      | Inr reason \<Rightarrow>
          if reason \<noteq> []
          then Inr \<lparr>ev_allow = False, ev_deny = True, ev_deny_reason = reason, ev_modify = None,
                    ev_policy_name = pp_name p\<rparr>
          else eval_policies L ps input (modify_step p input merged))"

definition engine_Evaluate :: "rego_lib \<Rightarrow> policy_engine \<Rightarrow> string \<Rightarrow> any_map \<Rightarrow> eval_result res" where
  "engine_Evaluate L e ty input =
     (if e ty = []
      then Inr \<lparr>ev_allow = True, ev_deny = False, ev_deny_reason = [], ev_modify = None, ev_policy_name = []\<rparr>
      else eval_policies L (e ty) input [])"

text \<open>\<^verbatim>\<open>EvaluateRaw\<close>, behind the test endpoint, does look at \<^verbatim>\<open>allow\<close>.\<close>

definition raw_binding :: "rego_lib \<Rightarrow> string \<Rightarrow> string \<Rightarrow> any_map \<Rightarrow> string \<Rightarrow> any option" where
  "raw_binding L rego path input field =
     (case rg_compile L rego (''x = '' @ path @ ''.'' @ field) of
        None \<Rightarrow> None
      | Some q \<Rightarrow> (case q input of QVal v \<Rightarrow> if v = ANil then None else Some v | _ \<Rightarrow> None))"

fun package_of_lines :: "string list \<Rightarrow> string" where
  "package_of_lines [] = ''data''"
| "package_of_lines (l # ls) =
     (if has_prefix ''package '' (trim_space l)
      then ''data.'' @ trim_space (drop 8 (trim_space l))
      else package_of_lines ls)"

definition extractPackagePath :: "string \<Rightarrow> string" where
  "extractPackagePath rego = package_of_lines (split_on (char_of (10::nat)) rego)"

definition ValidateRego :: "rego_lib \<Rightarrow> string \<Rightarrow> bool" where
  "ValidateRego L rego \<longleftrightarrow> rg_compile L rego ''data'' \<noteq> None"

definition EvaluateRaw :: "rego_lib \<Rightarrow> string \<Rightarrow> any_map \<Rightarrow> eval_result res" where
  "EvaluateRaw L rego input =
     (if \<not> ValidateRego L rego then Inl (DriverError ''compilation failed'')
      else
        (let bind = raw_binding L rego (extractPackagePath rego) input;
             allow = (case bind ''allow'' of Some (ABool b) \<Rightarrow> b | _ \<Rightarrow> True);
             reason = (case bind ''deny'' of Some v \<Rightarrow> extractDenyReason L v | None \<Rightarrow> []);
             modif = (case bind ''modify'' of Some (AObj m) \<Rightarrow> if m = [] then None else Some m | _ \<Rightarrow> None)
         in Inr \<lparr>ev_allow = (if reason \<noteq> [] then False else allow), ev_deny = (reason \<noteq> []),
                 ev_deny_reason = reason, ev_modify = modif, ev_policy_name = []\<rparr>))"

section \<open>Adapter and admin gate\<close>

definition oauth_adapter :: "rego_lib \<Rightarrow> policy_engine \<Rightarrow> string \<Rightarrow> any_map \<Rightarrow> policy_result option dbres" where
  "oauth_adapter L e ty input =
     (case engine_Evaluate L e ty input of
        Inl _ \<Rightarrow> DbErr
      | Inr r \<Rightarrow> DbOk (Some \<lparr>pol_allow = ev_allow r, pol_deny = ev_deny r,
                             pol_deny_reason = ev_deny_reason r, pol_modify = ev_modify r\<rparr>))"

definition RequirePolicy ::
  "rego_lib \<Rightarrow> policy_engine \<Rightarrow> env \<Rightarrow> uuid option \<Rightarrow> string \<Rightarrow> string \<Rightarrow> string \<Rightarrow> db \<Rightarrow> unit res" where
  "RequirePolicy L e E caller meth path ip st =
     (case caller of
        None \<Rightarrow> Inl (ErrUnauthorized ''admin policy gate requires an authenticated user'')
      | Some u \<Rightarrow>
          (case GetUserPermissions_row E u st of
             DbErr \<Rightarrow> Inl (ErrInternal ''authorization check unavailable'')
           | DbOk perms \<Rightarrow>
               (case engine_Evaluate L e ''admin_api'' (BuildAdminAPIInput (input_env_of E) u perms meth path ip) of
                  Inl _ \<Rightarrow> Inl (ErrInternal ''authorization policy unavailable'')
                | Inr r \<Rightarrow> if ev_deny r then Inl (ErrForbidden (ev_deny_reason r)) else Inr ())))"

section \<open>Administration\<close>

definition policy_FindByID :: "env \<Rightarrow> uuid \<Rightarrow> db \<Rightarrow> policy option dbres" where
  "policy_FindByID E i st = stmt E ''policy.FindByID'' (first_where (\<lambda>p. po_id p = i) (t_policies st))"

definition policy_FindByName :: "env \<Rightarrow> string \<Rightarrow> db \<Rightarrow> policy option dbres" where
  "policy_FindByName E n st = stmt E ''policy.FindByName'' (first_where (\<lambda>p. po_name p = n) (t_policies st))"

text \<open>GORM replaces the zero values of \<^verbatim>\<open>Active\<close> and \<^verbatim>\<open>Version\<close> by the column defaults on create, so
  that a policy created inactive is stored, and handed back, active.\<close>

definition policy_Create_row :: "env \<Rightarrow> policy \<Rightarrow> db \<Rightarrow> policy dbres \<times> db" where
  "policy_Create_row E p st =
     (case new_uuid E st of
        (None, st1) \<Rightarrow> (DbErr, st1)
      | (Some i, st1) \<Rightarrow>
          (let p1 = p\<lparr>po_id := i, po_active := (if po_active p then po_active p else True),
                      po_version := (if po_version p = 0 then 1 else po_version p)\<rparr>
           in if List.member (map po_name (t_policies st1)) (po_name p) then (DbErr, st1)
              else (case stmt_opt E ''policy.Create'' (map_option (\<lambda>t. st1\<lparr>t_policies := t\<rparr>)
                      (insert_row po_id p1 (t_policies st1))) of
                 DbErr \<Rightarrow> (DbErr, st1)
               | DbOk st2 \<Rightarrow> (DbOk p1, st2))))"

definition policy_Update_row :: "env \<Rightarrow> policy \<Rightarrow> db \<Rightarrow> db dbres" where
  "policy_Update_row E p st = stmt_opt E ''policy.Update''
     (if first_where (\<lambda>x. po_name x = po_name p \<and> po_id x \<noteq> po_id p) (t_policies st) \<noteq> None then None
      else Some (st\<lparr>t_policies := save_row po_id p (t_policies st)\<rparr>))"

definition policy_Delete_row :: "env \<Rightarrow> uuid \<Rightarrow> db \<Rightarrow> db dbres" where
  "policy_Delete_row E i st = stmt E ''policy.Delete''
     (st\<lparr>t_policies := delete_where (\<lambda>p. po_id p = i) (t_policies st)\<rparr>)"

record policy_create_input =
  pci_name :: string
  pci_description :: "string option"
  pci_type :: string
  pci_rego :: string
  pci_priority :: "int option"
  pci_active :: "bool option"

record policy_update_input =
  pui_name :: "string option"
  pui_description :: "string option"
  pui_rego :: "string option"
  pui_priority :: "int option"
  pui_active :: "bool option"

definition CreatePolicy ::
  "rego_lib \<Rightarrow> env \<Rightarrow> policy_create_input \<Rightarrow> db \<times> policy_engine \<Rightarrow> policy res \<times> db \<times> policy_engine" where
  "CreatePolicy L E inp se =
     (let (st, e) = se
      in if db_maybe (policy_FindByName E (pci_name inp) st) \<noteq> None
         then (Inl (ErrConflict ''policy name already exists''), st, e)
         else if \<not> ValidateRego L (pci_rego inp)
         then (Inl (ErrBadRequest ''invalid rego''), st, e)
         else (case policy_Create_row E
                      \<lparr>po_id = uuid_nil, po_name = pci_name inp, po_description = pci_description inp,
                       po_type = pci_type inp, po_rego = pci_rego inp, po_version = 1,
                       po_active = (case pci_active inp of None \<Rightarrow> True | Some b \<Rightarrow> b),
                       po_priority = (case pci_priority inp of None \<Rightarrow> 0 | Some n \<Rightarrow> n)\<rparr> st of
                 (DbErr, st1) \<Rightarrow> (Inl (ErrInternal ''failed to create policy''), st1, e)
               | (DbOk p, st1) \<Rightarrow> (Inr p, st1, if po_active p then snd (LoadPolicy L p e) else e)))"

definition GetPolicy :: "env \<Rightarrow> uuid \<Rightarrow> db \<Rightarrow> policy res" where
  "GetPolicy E i st =
     (case policy_FindByID E i st of
        DbErr \<Rightarrow> Inl (ErrInternal ''failed to find policy'')
      | DbOk None \<Rightarrow> Inl (ErrNotFound ''policy not found'')
      | DbOk (Some p) \<Rightarrow> Inr p)"

definition updated_policy :: "policy_update_input \<Rightarrow> policy \<Rightarrow> policy" where
  "updated_policy inp p =
     (let p1 = (case pui_rego inp of None \<Rightarrow> p | Some r \<Rightarrow> p\<lparr>po_rego := r, po_version := po_version p + 1\<rparr>)
      in p1\<lparr>po_name := (case pui_name inp of None \<Rightarrow> po_name p | Some n \<Rightarrow> n),
            po_description := (case pui_description inp of None \<Rightarrow> po_description p | Some d \<Rightarrow> Some d),
            po_priority := (case pui_priority inp of None \<Rightarrow> po_priority p | Some n \<Rightarrow> n),
            po_active := (case pui_active inp of None \<Rightarrow> po_active p | Some b \<Rightarrow> b)\<rparr>)"

definition UpdatePolicy ::
  "rego_lib \<Rightarrow> env \<Rightarrow> uuid \<Rightarrow> policy_update_input \<Rightarrow> db \<times> policy_engine \<Rightarrow> policy res \<times> db \<times> policy_engine" where
  "UpdatePolicy L E i inp se =
     (let (st, e) = se
      in case GetPolicy E i st of
           Inl err \<Rightarrow> (Inl err, st, e)
         | Inr p \<Rightarrow>
             if pui_rego inp \<noteq> None \<and> \<not> ValidateRego L (the (pui_rego inp))
             then (Inl (ErrBadRequest ''invalid rego''), st, e)
             else
               (let p1 = updated_policy inp p
                in case policy_Update_row E p1 st of
                     DbErr \<Rightarrow> (Inl (ErrInternal ''failed to update policy''), st, e)
                   | DbOk st1 \<Rightarrow>
                       (Inr p1, st1,
                        if po_active p1 then snd (LoadPolicy L p1 e) else RemovePolicy (po_id p1) (po_type p1) e)))"

definition DeletePolicy ::
  "env \<Rightarrow> uuid \<Rightarrow> db \<times> policy_engine \<Rightarrow> unit res \<times> db \<times> policy_engine" where
  "DeletePolicy E i se =
     (let (st, e) = se
      in case GetPolicy E i st of
           Inl err \<Rightarrow> (Inl err, st, e)
         | Inr p \<Rightarrow>
             (case policy_Delete_row E i st of
                DbErr \<Rightarrow> (Inl (ErrInternal ''failed to delete policy''), st, e)
              | DbOk st1 \<Rightarrow> (Inr (), st1, RemovePolicy i (po_type p) e)))"

text \<open>\<^verbatim>\<open>LoadAll\<close> at startup: the active policies, ordered by priority.\<close>

definition policy_LoadAll :: "rego_lib \<Rightarrow> env \<Rightarrow> db \<times> policy_engine \<Rightarrow> unit res \<times> policy_engine" where
  "policy_LoadAll L E se =
     (let (st, e) = se
      in case stmt E ''policy.ListAllActive'' (sort_key (\<lambda>p. - po_priority p) (filter po_active (t_policies st))) of
           DbErr \<Rightarrow> (Inl (DriverError ''policy.ListAllActive''), e)
         | DbOk ps \<Rightarrow>
             if ps = [] then (Inr (), e)
             else (case LoadPolicies L ps e of
                     (True, e1) \<Rightarrow> (Inr (), e1)
                   | (False, e1) \<Rightarrow> (Inl (DriverError ''failed to compile policy''), e1)))"

section \<open>Lemmas\<close>

subsection \<open>Decisions\<close>

definition denies :: "rego_lib \<Rightarrow> prepared_policy \<Rightarrow> any_map \<Rightarrow> bool" where
  "denies L p input \<longleftrightarrow> (\<exists>reason. deny_step L p input = Inr reason \<and> reason \<noteq> [])"

lemma eval_policies_deny:
  "eval_policies L ps input merged = Inr r \<Longrightarrow> ev_deny r \<longleftrightarrow> (\<exists>p \<in> set ps. denies L p input)"
  by (induction L ps input merged rule: eval_policies.induct)
     (auto simp: denies_def split: sum.splits if_splits)

lemma eval_policies_result:
  "eval_policies L ps input merged = Inr r \<Longrightarrow> ev_allow r = (\<not> ev_deny r) \<and> (ev_deny r \<longleftrightarrow> ev_deny_reason r \<noteq> [])"
  by (induction L ps input merged rule: eval_policies.induct) (auto split: sum.splits if_splits)

text \<open>A request is denied exactly when some cached policy of the type denies it.\<close>

lemma engine_Evaluate_deny:
  "engine_Evaluate L e ty input = Inr r \<Longrightarrow> ev_deny r \<longleftrightarrow> (\<exists>p \<in> set (e ty). denies L p input)"
  by (auto simp: engine_Evaluate_def eval_policies_deny split: if_splits)

lemma engine_Evaluate_result:
  "engine_Evaluate L e ty input = Inr r \<Longrightarrow> ev_allow r = (\<not> ev_deny r) \<and> (ev_deny r \<longleftrightarrow> ev_deny_reason r \<noteq> [])"
  by (auto simp: engine_Evaluate_def dest: eval_policies_result split: if_splits)

lemma engine_Evaluate_fails:
  "engine_Evaluate L e ty input = Inl err \<Longrightarrow> \<exists>p \<in> set (e ty). \<exists>q. pp_deny p = Some q \<and> q input = QErr"
proof -
  have "eval_policies L ps input merged = Inl err \<Longrightarrow> \<exists>p \<in> set ps. \<exists>q. pp_deny p = Some q \<and> q input = QErr" for ps merged
    by (induction L ps input merged rule: eval_policies.induct)
       (auto simp: deny_step_def split: sum.splits if_splits option.splits query_result.splits)
  then show "engine_Evaluate L e ty input = Inl err \<Longrightarrow> ?thesis"
    by (auto simp: engine_Evaluate_def split: if_splits)
qed

text \<open>The \<^verbatim>\<open>allow\<close> rule of a policy has no influence beyond compiling.\<close>

lemma compile_ignores_allow:
  assumes "rg_compile L' r (query_of ty ''allow'') \<noteq> None" "rg_compile L r (query_of ty ''allow'') \<noteq> None"
    and "rg_compile L' r (query_of ty ''deny'') = rg_compile L r (query_of ty ''deny'')"
    and "rg_compile L' r (query_of ty ''modify'') = rg_compile L r (query_of ty ''modify'')"
    and "po_rego p = r" "po_type p = ty"
  shows "compile_policy L' p = compile_policy L p"
  using assms by (auto simp: compile_policy_def split: option.splits)

text \<open>\<^verbatim>\<open>deny := false\<close> denies, because its rendering is not empty.\<close>

lemma extractDenyReason_false: "extractDenyReason L (ABool False) = ''false''"
  by (simp add: extractDenyReason_def fmt_v_def)

subsection \<open>Precedence of modifications\<close>

lemma map_of_filter_other: "map_of (filter (\<lambda>(k', v'). k' \<noteq> k) m) j = (if j = k then None else map_of m j)"
  by (induction m) auto

lemma map_of_map_assign: "map_of (map_assign merged m) j =
    (case map_of (rev m) j of Some v \<Rightarrow> Some v | None \<Rightarrow> map_of merged j)"
  by (induction merged m rule: map_assign.induct)
     (auto simp: map_of_append map_of_filter_other map_add_def split: option.splits)

lemma eval_policies_append:
  "eval_policies L (ps @ qs) input merged = Inr r \<Longrightarrow> \<not> ev_deny r \<Longrightarrow>
     eval_policies L qs input (fold (\<lambda>p. modify_step p input) ps merged) = Inr r"
  by (induction ps arbitrary: merged) (auto split: sum.splits if_splits)

lemma map_assign_Nil_iff: "map_assign merged m = [] \<longleftrightarrow> merged = [] \<and> m = []"
  by (induction merged m rule: map_assign.induct) auto

text \<open>The policies are visited from the highest priority to the lowest and each one overwrites the
  keys of those before it, so the policy of the lowest priority decides a key.\<close>

lemma lowest_priority_wins:
  assumes "e ty = ps @ [p]" and "engine_Evaluate L e ty input = Inr r" and "\<not> ev_deny r"
    and "pp_modify p = Some q" and "q input = QVal (AObj m)" and "map_of (rev m) k = Some v"
  shows "\<exists>merged. ev_modify r = Some merged \<and> map_of merged k = Some v"
proof -
  let ?before = "fold (\<lambda>p. modify_step p input) ps []"
  have "eval_policies L [p] input ?before = Inr r"
    using assms(1-3) eval_policies_append [of L ps "[p]" input "[]" r] by (simp add: engine_Evaluate_def)
  then have "ev_modify r = (if map_assign ?before m = [] then None else Some (map_assign ?before m))"
    using assms(3-5) by (auto simp: modify_step_def split: sum.splits if_splits)
  moreover have "map_of (map_assign ?before m) k = Some v"
    using assms(6) by (simp add: map_of_map_assign)
  moreover have "m \<noteq> []" using assms(6) by auto
  ultimately show ?thesis by (simp add: map_assign_Nil_iff)
qed

subsection \<open>The cache\<close>

definition engine_ok :: "policy_engine \<Rightarrow> bool" where
  "engine_ok e \<longleftrightarrow>
     (\<forall>ty. sorted_wrt (\<lambda>p q. pp_priority p \<ge> pp_priority q) (e ty) \<and> distinct (map pp_id (e ty)))"

lemma distinct_ids_perm: "mset qs = mset ps \<Longrightarrow> distinct (map pp_id ps) \<Longrightarrow> distinct (map pp_id qs)"
  by (metis mset_eq_imp_distinct_iff mset_map)

lemma sort_ok: "sorts_by_priority L \<Longrightarrow> distinct (map pp_id ps) \<Longrightarrow>
    sorted_wrt (\<lambda>p q. pp_priority p \<ge> pp_priority q) (rg_sort L ps) \<and> distinct (map pp_id (rg_sort L ps))"
  using distinct_ids_perm [of "rg_sort L ps" ps] by (simp add: sorts_by_priority_def)

lemma replace_policy_None: "replace_policy pp qs = None \<longleftrightarrow> pp_id pp \<notin> set (map pp_id qs)"
  by (induction qs) auto

lemma replace_policy_ids: "replace_policy pp qs = Some qs' \<Longrightarrow> map pp_id qs' = map pp_id qs"
  by (induction qs arbitrary: qs') (auto split: if_splits)

lemma replace_policy_mem: "replace_policy pp qs = Some qs' \<Longrightarrow> pp \<in> set qs' \<and> set qs' \<subseteq> insert pp (set qs)"
  by (induction qs arbitrary: qs') (auto split: if_splits)

lemma LoadPolicy_ok:
  assumes "sorts_by_priority L" and "engine_ok e" and "LoadPolicy L p e = (b, e')"
  shows "engine_ok e'"
proof -
  define new where "new pp = (case replace_policy pp (e (po_type p)) of Some qs \<Rightarrow> qs | None \<Rightarrow> e (po_type p) @ [pp])" for pp
  have "distinct (map pp_id (new pp))" for pp
    using assms(2) replace_policy_ids [of pp "e (po_type p)"] replace_policy_None [of pp "e (po_type p)"]
    by (auto simp: engine_ok_def new_def split: option.splits)
  then have new: "sorted_wrt (\<lambda>p q. pp_priority p \<ge> pp_priority q) (rg_sort L (new pp)) \<and>
      distinct (map pp_id (rg_sort L (new pp)))" for pp
    by (rule sort_ok [OF assms(1)])
  have "e' = e \<or> (\<exists>pp. e' = e(po_type p := rg_sort L (new pp)))"
    using assms(3) by (auto simp: LoadPolicy_def Let_def new_def [symmetric] split: option.splits)
  then show ?thesis using assms(2) new by (auto simp: engine_ok_def)
qed

lemma remove_first_subset: "set (remove_first i qs) \<subseteq> set qs"
  by (induction qs) auto

lemma remove_first_sorted: "sorted_wrt R qs \<Longrightarrow> sorted_wrt R (remove_first i qs)"
  using remove_first_subset by (induction qs) fastforce+

lemma remove_first_ids: "distinct (map pp_id qs) \<Longrightarrow>
    distinct (map pp_id (remove_first i qs)) \<and> i \<notin> set (map pp_id (remove_first i qs))"
proof (induction qs)
  case (Cons q qs)
  have "pp_id ` set (remove_first i qs) \<subseteq> pp_id ` set qs" using remove_first_subset by (rule image_mono)
  then show ?case using Cons by auto
qed simp

lemma RemovePolicy_ok: "engine_ok e \<Longrightarrow> engine_ok (RemovePolicy i ty e)"
  using remove_first_sorted remove_first_ids by (simp add: engine_ok_def RemovePolicy_def)

lemma engine_ok_New: "engine_ok NewEngine"
  by (simp add: engine_ok_def NewEngine_def)

text \<open>The three ways a policy reaches the cache or leaves it.\<close>

lemma LoadPolicy_loaded:
  assumes "sorts_by_priority L" and "LoadPolicy L p e = (True, e')"
  shows "\<exists>pp. compile_policy L p = Some pp \<and> pp \<in> set (e' (po_type p))"
proof -
  obtain pp where pp: "compile_policy L p = Some pp"
    using assms(2) by (auto simp: LoadPolicy_def split: option.splits)
  have "pp \<in> set (case replace_policy pp (e (po_type p)) of Some qs \<Rightarrow> qs | None \<Rightarrow> e (po_type p) @ [pp])"
    using replace_policy_mem by (auto split: option.splits)
  moreover have "set (rg_sort L ps) = set ps" for ps
    using assms(1) unfolding sorts_by_priority_def by (metis set_mset_mset)
  ultimately show ?thesis using assms(2) pp by (auto simp: LoadPolicy_def Let_def)
qed

text \<open>Deleting or deactivating a policy takes it out of every later decision.\<close>

lemma DeletePolicy_removes:
  assumes "DeletePolicy E i (st, e) = (Inr (), st', e')" and "engine_ok e"
  shows "\<exists>ty. e' = RemovePolicy i ty e \<and> i \<notin> set (map pp_id (e' ty)) \<and> (\<forall>p \<in> set (t_policies st'). po_id p \<noteq> i)"
proof -
  obtain ty where e': "e' = RemovePolicy i ty e"
    and st': "st' = st\<lparr>t_policies := delete_where (\<lambda>p. po_id p = i) (t_policies st)\<rparr>"
    using assms(1) by (auto simp: DeletePolicy_def policy_Delete_row_def stmt_def
        split: sum.splits dbres.splits if_splits)
  have "i \<notin> set (map pp_id (e' ty))"
    using remove_first_ids [of "e ty" i] assms(2) by (simp add: e' RemovePolicy_def engine_ok_def)
  then show ?thesis using e' st' by (auto simp: set_delete_where)
qed

lemma UpdatePolicy_deactivates:
  assumes "UpdatePolicy L E i inp (st, e) = (Inr p, st', e')" and "engine_ok e" and "pui_active inp = Some False"
  shows "i \<notin> set (map pp_id (e' (po_type p)))"
proof -
  obtain p0 where p0: "GetPolicy E i st = Inr p0" and p: "p = updated_policy inp p0"
    using assms(1) by (auto simp: UpdatePolicy_def Let_def split: sum.splits dbres.splits if_splits)
  have "po_id p0 = i"
    using p0 by (auto simp: GetPolicy_def policy_FindByID_def stmt_def split: dbres.splits option.splits if_splits
        dest: first_where_SomeD)
  moreover have "po_id p = po_id p0" "\<not> po_active p"
    unfolding p updated_policy_def Let_def using assms(3) by (simp_all split: option.splits)
  ultimately have "e' = RemovePolicy i (po_type p) e"
    using assms(1) p0 p by (auto simp: UpdatePolicy_def Let_def split: dbres.splits if_splits)
  then show ?thesis
    using remove_first_ids [of "e (po_type p)" i] assms(2) by (simp add: RemovePolicy_def engine_ok_def)
qed

text \<open>A policy cannot be created inactive: the column default wins over the zero value.\<close>

lemma CreatePolicy_active: "CreatePolicy L E inp (st, e) = (Inr p, se') \<Longrightarrow> po_active p"
  by (auto simp: CreatePolicy_def policy_Create_row_def Let_def new_uuid_def
      split: if_splits prod.splits dbres.splits option.splits)

subsection \<open>The evaluator as an interface\<close>

text \<open>What the OAuth service relies on in its \<^verbatim>\<open>PolicyEvaluator\<close>.\<close>

locale policy_contract =
  fixes evaluate :: "string \<Rightarrow> any_map \<Rightarrow> policy_result option dbres"
  assumes evaluates: "evaluate ty input \<noteq> DbOk None"
    and denial_has_reason: "evaluate ty input = DbOk (Some r) \<Longrightarrow> pol_deny r \<longleftrightarrow> pol_deny_reason r \<noteq> []"
    and allow_unless_denied: "evaluate ty input = DbOk (Some r) \<Longrightarrow> pol_allow r = (\<not> pol_deny r)"
begin

lemma denied_or_allowed: "evaluate ty input = DbOk (Some r) \<Longrightarrow> pol_deny r \<noteq> pol_allow r"
  using allow_unless_denied by blast

end

interpretation adapter: policy_contract "oauth_adapter L e" for L e
  by unfold_locales
    (auto simp: oauth_adapter_def dest: engine_Evaluate_result split: sum.splits)

subsection \<open>The admin gate fails closed\<close>

lemma RequirePolicy_iff:
  "RequirePolicy L e E caller meth path ip st = Inr () \<longleftrightarrow>
     (\<exists>u perms r. caller = Some u \<and> GetUserPermissions_row E u st = DbOk perms \<and>
        engine_Evaluate L e ''admin_api'' (BuildAdminAPIInput (input_env_of E) u perms meth path ip) = Inr r \<and>
        \<not> ev_deny r)"
  by (auto simp: RequirePolicy_def split: option.splits dbres.splits sum.splits)

end
