(* ===== verification/Tokens.thy ===== *)
theory Tokens
  imports Users Resources PolicyEngine
begin

text \<open>
  The token endpoint of \<^verbatim>\<open>oauth/service.go\<close>: \<open>issueTokens\<close> (policy, audience, user scopes, token
  format, refresh token, ID token) and the grants that end in it: authorization code, refresh
  token and client credentials. The first two run in one database transaction.
\<close>

section \<open>Shared lookups\<close>

definition loadRoles :: "env \<Rightarrow> uuid \<Rightarrow> string list \<times> string list" where
  "loadRoles E u =
     (case role_provider E of
        None \<Rightarrow> ([], [])
      | Some rp \<Rightarrow> ((case rp_roles rp u of None \<Rightarrow> [] | Some r \<Rightarrow> r),
                    (case rp_permissions rp u of None \<Rightarrow> [] | Some p \<Rightarrow> p)))"

text \<open>\<^verbatim>\<open>u, _ = s.userService.GetByID(id)\<close>\<close>

definition user_or_nil :: "env \<Rightarrow> uuid \<Rightarrow> db \<Rightarrow> user option" where
  "user_or_nil E i st = (case GetByID E i st of Inl _ \<Rightarrow> None | Inr u \<Rightarrow> Some u)"

text \<open>A policy evaluation whose error is logged and passed over: \<open>None\<close> is no decision.\<close>

definition evaluate_policy :: "env \<Rightarrow> string \<Rightarrow> any_map \<Rightarrow> policy_result option" where
  "evaluate_policy E ty input =
     (case policy_evaluator E of
        None \<Rightarrow> None
      | Some evaluate \<Rightarrow> (case evaluate ty input of DbErr \<Rightarrow> None | DbOk r \<Rightarrow> r))"

definition LookupActiveAccessToken :: "env \<Rightarrow> string \<Rightarrow> db \<Rightarrow> access_token option res" where
  "LookupActiveAccessToken E raw st =
     (if raw = [] then Inr None
      else case FindAccessToken E (HashToken (sha256 E) raw) st of
             DbErr \<Rightarrow> Inl (DriverError ''FindAccessToken'')
           | DbOk None \<Rightarrow> Inr None
           | DbOk (Some t) \<Rightarrow> Inr (if at_IsValid t (wall E) then Some t else None))"

section \<open>Issuing tokens\<close>

record token_response =
  tr_access_token :: string
  tr_token_type :: string
  tr_expires_in :: int
  tr_refresh_token :: string
  tr_id_token :: string
  tr_scope :: string

record issue_opts =
  io_nonce :: string
  io_auth_time :: time
  io_audience :: "string option"
  io_resource_id :: "uuid option"
  io_requested_claims :: string
  io_acr :: string
  io_amr :: "string list"

definition no_opts :: issue_opts where
  "no_opts = \<lparr>io_nonce = [], io_auth_time = 0, io_audience = None, io_resource_id = None,
     io_requested_claims = [], io_acr = [], io_amr = []\<rparr>"

text \<open>The zero \<^verbatim>\<open>time.Time\<close> is the first instant of year 1.\<close>

definition zero_time :: time where
  "zero_time = - 62135596800 * nanos_per_second"

text \<open>The token-issuance policy may deny, change the two lifetimes of the client at hand, narrow
  the scopes and add claims.\<close>

definition modified_client :: "any_map \<Rightarrow> client \<Rightarrow> client" where
  "modified_client m c =
     c\<lparr>cl_access_token_ttl := (case readModifyInt m ''access_token_ttl'' of
                                 None \<Rightarrow> cl_access_token_ttl c | Some n \<Rightarrow> n),
       cl_refresh_token_ttl := (case readModifyInt m ''refresh_token_ttl'' of
                                  None \<Rightarrow> cl_refresh_token_ttl c | Some n \<Rightarrow> n)\<rparr>"

definition extra_claims :: "any_map \<Rightarrow> any_map option" where
  "extra_claims m = (case map_of m ''claims'' of Some (AObj kvs) \<Rightarrow> Some kvs | _ \<Rightarrow> None)"

definition narrowed :: "any_map \<Rightarrow> string list \<Rightarrow> string list" where
  "narrowed m scopes = (case readModifyScopes m scopes of None \<Rightarrow> scopes | Some ss \<Rightarrow> ss)"

definition token_policy ::
  "env \<Rightarrow> client \<Rightarrow> uuid \<Rightarrow> string list \<Rightarrow> db \<Rightarrow> (client \<times> string list \<times> any_map option) res" where
  "token_policy E c u scopes st =
     (case loadRoles E u of (roles, perms) \<Rightarrow>
      (case evaluate_policy E ''token_issuance''
              (BuildTokenIssuanceInput (input_env_of E) c (user_or_nil E u st) roles perms scopes []) of
         None \<Rightarrow> Inr (c, scopes, None)
       | Some r \<Rightarrow>
           if pol_deny r then Inl (ErrAccessDenied (pol_deny_reason r))
           else (case pol_modify r of
                   None \<Rightarrow> Inr (c, scopes, None)
                 | Some m \<Rightarrow> Inr (modified_client m c, narrowed m scopes, extra_claims m))))"

definition resolve_resource :: "env \<Rightarrow> string option \<Rightarrow> api_resource option" where
  "resolve_resource E audience =
     (case (audience, resource_validator E) of
        (Some a, Some rv) \<Rightarrow> (case rv_audience rv a of Inl _ \<Rightarrow> None | Inr r \<Rightarrow> Some r)
      | _ \<Rightarrow> None)"

text \<open>Only the scopes that are permissions of the resource are narrowed by the user's roles; when
  the check itself fails the scopes stay as they are.\<close>

definition user_scopes :: "env \<Rightarrow> api_resource option \<Rightarrow> uuid option \<Rightarrow> uuid \<Rightarrow> string list \<Rightarrow> string list" where
  "user_scopes E resource resource_id u scopes =
     (case (resource, resource_validator E) of
        (Some r, Some rv) \<Rightarrow>
          (case splitResourceScopes scopes (res_permissions r) of (res_scopes, other) \<Rightarrow>
             if res_scopes = [] then scopes
             else (case rv_user_scopes rv u (case resource_id of None \<Rightarrow> res_id r | Some i \<Rightarrow> i) res_scopes of
                     Inl _ \<Rightarrow> scopes
                   | Inr allowed \<Rightarrow> unionScopes other allowed))
      | _ \<Rightarrow> scopes)"

definition access_ttl :: "client \<Rightarrow> api_resource option \<Rightarrow> duration" where
  "access_ttl c resource =
     (case resource of
        Some r \<Rightarrow> if res_access_token_ttl r > 0 then seconds (res_access_token_ttl r)
                   else seconds (cl_access_token_ttl c)
      | None \<Rightarrow> seconds (cl_access_token_ttl c))"

text \<open>The access token itself: a JWT when the resource asks for one and a signer is installed,
  an opaque token otherwise. The row is keyed by the hash of the raw token in both cases.\<close>

definition mint_access ::
  "env \<Rightarrow> api_resource option \<Rightarrow> jwt_claims \<Rightarrow> db \<Rightarrow> (string \<times> string \<times> string option) res \<times> db" where
  "mint_access E resource claims st =
     (let opaque = (case GenerateOpaqueToken E st of
                      (None, st1) \<Rightarrow> (Inl (ErrServerError ''failed to generate access token''), st1)
                    | (Some (raw, h), st1) \<Rightarrow> (Inr (raw, h, None), st1))
      in case (resource, jwt_signer E) of
           (Some r, Some signer) \<Rightarrow>
             if EmitsJWTAccessTokens r
             then (case js_generate signer (draws st) claims (res_signing_alg r) of
                     Inl msg \<Rightarrow> (Inl (ErrServerError (''failed to generate access token: '' @ msg)), bump st)
                   | Inr (jwt, jti) \<Rightarrow> (Inr (jwt, HashToken (sha256 E) jwt, Some jti), bump st))
             else opaque
         | _ \<Rightarrow> opaque)"

definition deref :: "string option \<Rightarrow> string" where
  "deref s = (case s of None \<Rightarrow> [] | Some x \<Rightarrow> x)"

definition issued_id_token ::
  "env \<Rightarrow> client \<Rightarrow> uuid \<Rightarrow> string list \<Rightarrow> issue_opts \<Rightarrow> any_map option \<Rightarrow> string \<Rightarrow> db \<Rightarrow> string \<times> db" where
  "issued_id_token E c u scopes opts extra rawAT st =
     (case id_token_gen E of
        None \<Rightarrow> ([], st)
      | Some gen \<Rightarrow>
          if \<not> containsScope scopes ''openid'' then ([], st)
          else (deref (gen (draws st)
                  \<lparr>it_user_id = u, it_client_id = cl_id c, it_scopes = scopes, it_nonce = io_nonce opts,
                   it_auth_time = (if io_auth_time opts = zero_time then clk E else io_auth_time opts),
                   it_at_hash = computeATHash (sha256 E) rawAT, it_c_hash = [], it_s_hash = [],
                   it_ttl = seconds (cl_id_token_ttl c), it_requested_claims = io_requested_claims opts,
                   it_acr = io_acr opts, it_amr = io_amr opts, it_subject_type = cl_subject_type c,
                   it_sector_identifier = deref (cl_sector_identifier_uri c), it_extra_claims = extra,
                   it_enc_jwks_uri = deref (cl_jwks_uri c), it_enc_alg = deref (cl_id_token_enc_alg c),
                   it_enc_enc = deref (cl_id_token_enc_enc c)\<rparr>), bump st))"

definition refresh_of ::
  "env \<Rightarrow> client \<Rightarrow> uuid \<Rightarrow> uuid \<Rightarrow> string list \<Rightarrow> issue_opts \<Rightarrow> string \<Rightarrow> uuid \<Rightarrow> refresh_token" where
  "refresh_of E c u s scopes opts h family =
     \<lparr>rt_id = h, rt_client_id = cl_id c, rt_user_id = u, rt_session_id = s, rt_scopes = scopes,
      rt_audience = io_audience opts, rt_family_id = family, rt_parent_id = None,
      rt_expires_at = clk E + seconds (cl_refresh_token_ttl c), rt_revoked = False,
      rt_rotated_at = None, rt_created_at = zero_time\<rparr>"

definition access_of ::
  "env \<Rightarrow> client \<Rightarrow> uuid \<Rightarrow> uuid \<Rightarrow> string list \<Rightarrow> issue_opts \<Rightarrow> string \<Rightarrow> string \<Rightarrow> string option \<Rightarrow> duration \<Rightarrow>
   access_token" where
  "access_of E c u s scopes opts h rth jti ttl =
     \<lparr>at_id = h, at_client_id = cl_id c, at_user_id = Some u, at_session_id = Some s,
      at_refresh_token_id = Some rth, at_scopes = scopes, at_audience = io_audience opts, at_jti = jti,
      at_expires_at = clk E + ttl, at_revoked = False, at_created_at = zero_time\<rparr>"

text \<open>The two rows are written refresh token first. A nil session is a nil dereference in Go: the
  panic aborts the request, and with it the transaction.\<close>

definition store_tokens ::
  "env \<Rightarrow> client \<Rightarrow> uuid \<Rightarrow> uuid option \<Rightarrow> string list \<Rightarrow> issue_opts \<Rightarrow> api_resource option \<Rightarrow>
   any_map option \<Rightarrow> string \<times> string \<times> string option \<Rightarrow> db \<Rightarrow> token_response res \<times> db" where
  "store_tokens E c u session scopes opts resource extra minted st =
     (case minted of (rawAT, atID, jti) \<Rightarrow>
      (case GenerateOpaqueToken E st of
         (None, st1) \<Rightarrow> (Inl (ErrServerError ''failed to generate refresh token''), st1)
       | (Some (rawRT, rtHash), st1) \<Rightarrow>
           (case new_uuid E st1 of (family, st2) \<Rightarrow>
           (case session of
              None \<Rightarrow> (Inl (DriverError ''panic: nil session''), st2)
            | Some s \<Rightarrow>
           (case CreateRefreshToken E (refresh_of E c u s scopes opts rtHash
                   (case family of None \<Rightarrow> uuid_nil | Some f \<Rightarrow> f)) st2 of
              DbErr \<Rightarrow> (Inl (ErrServerError ''failed to store refresh token''), st2)
            | DbOk st3 \<Rightarrow>
           (case CreateAccessToken E (access_of E c u s scopes opts atID rtHash jti (access_ttl c resource)) st3 of
              DbErr \<Rightarrow> (Inl (ErrServerError ''failed to store access token''), st3)
            | DbOk st4 \<Rightarrow>
           (case issued_id_token E c u scopes opts extra rawAT st4 of (idt, st5) \<Rightarrow>
              (Inr \<lparr>tr_access_token = rawAT, tr_token_type = ''Bearer'',
                    tr_expires_in = whole_seconds (access_ttl c resource), tr_refresh_token = rawRT,
                    tr_id_token = idt, tr_scope = joinScopes scopes\<rparr>, st5))))))))"

definition issueTokensWithOpts ::
  "env \<Rightarrow> client \<Rightarrow> uuid \<Rightarrow> uuid option \<Rightarrow> string list \<Rightarrow> issue_opts \<Rightarrow> db \<Rightarrow> token_response res \<times> db" where
  "issueTokensWithOpts E c u session scopes opts st =
     (case token_policy E c u scopes st of
        Inl e \<Rightarrow> (Inl e, st)
      | Inr (c1, scopes1, extra) \<Rightarrow>
          (let resource = resolve_resource E (io_audience opts);
               scopes2 = user_scopes E resource (io_resource_id opts) u scopes1
           in case mint_access E resource
                     \<lparr>jc_user_id = Some u, jc_client_id = cl_id c1, jc_scopes = scopes2,
                      jc_audience = deref (io_audience opts), jc_ttl = access_ttl c1 resource,
                      jc_extra_claims = extra\<rparr> st of
                (Inl e, st1) \<Rightarrow> (Inl e, st1)
              | (Inr minted, st1) \<Rightarrow>
                  store_tokens E c1 u session scopes2 opts resource extra minted st1))"

section \<open>The authorization code grant\<close>

definition code_checks :: "env \<Rightarrow> client \<Rightarrow> string \<Rightarrow> string \<Rightarrow> auth_code \<Rightarrow> err option" where
  "code_checks E c redirect_uri verifier ac =
     (if ac_client_id ac \<noteq> cl_id c then Some (ErrInvalidGrant ''client mismatch'')
      else if ac_redirect_uri ac \<noteq> redirect_uri then Some (ErrInvalidGrant ''redirect_uri mismatch'')
      else if HasPKCE ac
      then (if verifier = [] then Some (ErrInvalidGrant ''code_verifier required'')
            else if \<not> verifyPKCE (sha256 E) verifier (deref (ac_code_challenge ac))
            then Some (ErrInvalidGrant ''PKCE verification failed'')
            else None)
      else if cl_is_public c then Some (ErrInvalidRequest ''PKCE required for public clients'')
      else None)"

definition code_opts :: "auth_code \<Rightarrow> issue_opts" where
  "code_opts ac =
     \<lparr>io_nonce = deref (ac_nonce ac),
      io_auth_time = (case ac_auth_time ac of None \<Rightarrow> ac_created_at ac | Some t \<Rightarrow> t),
      io_audience = ac_audience ac, io_resource_id = None,
      io_requested_claims = deref (ac_claims_param ac),
      io_acr = fst (computeACR (ac_auth_methods ac)), io_amr = snd (computeACR (ac_auth_methods ac))\<rparr>"

text \<open>The second test of \<open>ac_used\<close> is the source's replay branch.\<close>

definition exchange_code_tx ::
  "env \<Rightarrow> client \<Rightarrow> string \<Rightarrow> string \<Rightarrow> string \<Rightarrow> db \<Rightarrow> token_response res \<times> db" where
  "exchange_code_tx E c codeHash redirect_uri verifier st =
     (case FindAuthCode E codeHash st of
        DbErr \<Rightarrow> (Inl (ErrInvalidGrant ''invalid authorization code''), st)
      | DbOk None \<Rightarrow> (Inl (ErrInvalidGrant ''invalid authorization code''), st)
      | DbOk (Some ac) \<Rightarrow>
          if \<not> ac_IsValid ac (wall E)
          then (Inl (ErrInvalidGrant ''authorization code expired or already used''), st)
          else if ac_used ac
          then (Inl (ErrInvalidGrant ''authorization code already used''),
                case ac_session_id ac of
                  None \<Rightarrow> st
                | Some s \<Rightarrow>
                    (let st1 = db_ignore st (RevokeAccessTokensBySession E s st)
                     in db_ignore st1 (RevokeRefreshTokensBySession E s st1)))
          else (case code_checks E c redirect_uri verifier ac of
                  Some e \<Rightarrow> (Inl e, st)
                | None \<Rightarrow>
                    (case MarkAuthCodeUsed E codeHash st of
                       DbErr \<Rightarrow> (Inl (ErrServerError ''failed to consume authorization code''), st)
                     | DbOk st1 \<Rightarrow>
                         issueTokensWithOpts E c (ac_user_id ac) (ac_session_id ac) (ac_scopes ac)
                           (code_opts ac) st1)))"

definition ExchangeAuthorizationCode ::
  "env \<Rightarrow> client \<Rightarrow> string \<Rightarrow> string \<Rightarrow> string \<Rightarrow> db \<Rightarrow> token_response res \<times> db" where
  "ExchangeAuthorizationCode E c code redirect_uri verifier st =
     Transaction E (exchange_code_tx E c (HashToken (sha256 E) code) redirect_uri verifier) st"

section \<open>The refresh token grant\<close>

definition refresh_policy ::
  "env \<Rightarrow> client \<Rightarrow> refresh_token \<Rightarrow> string list \<Rightarrow> string list \<Rightarrow> db \<Rightarrow> string list res" where
  "refresh_policy E c rt requested granted st =
     (case loadRoles E (rt_user_id rt) of (roles, perms) \<Rightarrow>
      (case evaluate_policy E ''refresh''
              (BuildRefreshInput (input_env_of E) (user_or_nil E (rt_user_id rt) st) c roles perms
                 requested granted (uuid_string E (rt_session_id rt)) []) of
         None \<Rightarrow> Inr granted
       | Some r \<Rightarrow>
           if pol_deny r then Inl (ErrAccessDenied (pol_deny_reason r))
           else (case pol_modify r of
                   None \<Rightarrow> Inr granted
                 | Some m \<Rightarrow>
                     (case readModifyScopes m granted of
                        None \<Rightarrow> Inr granted
                      | Some ss \<Rightarrow>
                          if ss = [] then Inl (ErrAccessDenied ''policy narrowed all scopes'') else Inr ss))))"

definition refresh_checks :: "env \<Rightarrow> client \<Rightarrow> refresh_token \<Rightarrow> err option" where
  "refresh_checks E c rt =
     (if rt_client_id rt \<noteq> cl_id c then Some (ErrInvalidGrant ''token not issued to this client'')
      else if rt_expires_at rt < clk E then Some (ErrInvalidGrant ''refresh token expired'')
      else if rt_revoked rt then Some (ErrInvalidGrant ''refresh token revoked'')
      else None)"

definition requested_of :: "string list \<Rightarrow> string list \<Rightarrow> string list res" where
  "requested_of requested original =
     (if requested = [] then Inr original
      else if filterScopes requested original = []
      then Inl (ErrInvalidScope ''requested scopes exceed original grant'')
      else Inr (filterScopes requested original))"

definition exchange_refresh_tx ::
  "env \<Rightarrow> client \<Rightarrow> string \<Rightarrow> string \<Rightarrow> db \<Rightarrow> token_response res \<times> db" where
  "exchange_refresh_tx E c rtHash scope st =
     (case FindRefreshToken E rtHash st of
        DbErr \<Rightarrow> (Inl (ErrInvalidGrant ''invalid refresh token''), st)
      | DbOk None \<Rightarrow> (Inl (ErrInvalidGrant ''invalid refresh token''), st)
      | DbOk (Some rt) \<Rightarrow>
          (case refresh_checks E c rt of
             Some e \<Rightarrow> (Inl e, st)
           | None \<Rightarrow>
               if WasRotated rt
               then (Inl (ErrInvalidGrant ''token reuse detected''),
                     db_ignore st (RevokeRefreshTokenFamily E (rt_family_id rt) st))
               else (case requested_of (parseSpaceDelimited scope) (rt_scopes rt) of
                       Inl e \<Rightarrow> (Inl e, st)
                     | Inr granted \<Rightarrow>
                         (case refresh_policy E c rt (parseSpaceDelimited scope) granted st of
                            Inl e \<Rightarrow> (Inl e, st)
                          | Inr granted1 \<Rightarrow>
                              (case RotateRefreshToken E rtHash st of
                                 DbErr \<Rightarrow> (Inl (ErrServerError ''failed to rotate refresh token''), st)
                               | DbOk st1 \<Rightarrow>
                                   issueTokensWithOpts E c (rt_user_id rt) (Some (rt_session_id rt)) granted1
                                     (no_opts\<lparr>io_auth_time := clk E, io_audience := rt_audience rt\<rparr>)
                                     (db_ignore st1 (RevokeAccessTokensByRefreshToken E rtHash st1)))))))"

definition ExchangeRefreshToken ::
  "env \<Rightarrow> client \<Rightarrow> string \<Rightarrow> string \<Rightarrow> db \<Rightarrow> token_response res \<times> db" where
  "ExchangeRefreshToken E c raw scope st =
     (if \<not> HasGrantType c ''refresh_token''
      then (Inl (ErrUnauthorizedClient ''client is not authorized for refresh_token grant''), st)
      else Transaction E (exchange_refresh_tx E c (HashToken (sha256 E) raw) scope) st)"

section \<open>The client credentials grant\<close>

definition client_grant ::
  "env \<Rightarrow> client \<Rightarrow> string \<Rightarrow> string \<Rightarrow> (string list \<times> string option \<times> api_resource option \<times> int) res" where
  "client_grant E c scope audience =
     (case resource_validator E of
        Some rv \<Rightarrow>
          if audience = []
          then Inr (ValidateScopes c (parseSpaceDelimited scope), None, None, cl_access_token_ttl c)
          else (case rv_audience rv audience of
                  Inl e \<Rightarrow> Inl e
                | Inr r \<Rightarrow>
                    (case rv_client_scopes rv (cl_id c) (res_id r) (parseSpaceDelimited scope) of
                       Inl e \<Rightarrow> Inl e
                     | Inr ss \<Rightarrow>
                         if ss = [] then Inl (ErrInvalidScope ''client has no permissions for this resource'')
                         else Inr (ss, Some audience, Some r, res_access_token_ttl r)))
      | None \<Rightarrow> Inr (ValidateScopes c (parseSpaceDelimited scope), None, None, cl_access_token_ttl c))"

definition ExchangeClientCredentials ::
  "env \<Rightarrow> client \<Rightarrow> string \<Rightarrow> string \<Rightarrow> db \<Rightarrow> token_response res \<times> db" where
  "ExchangeClientCredentials E c scope audience st =
     (if cl_is_public c
      then (Inl (ErrUnauthorizedClient ''public clients cannot use client_credentials grant''), st)
      else if \<not> HasGrantType c ''client_credentials''
      then (Inl (ErrUnauthorizedClient ''client is not authorized for client_credentials grant''), st)
      else (case client_grant E c scope audience of
              Inl e \<Rightarrow> (Inl e, st)
            | Inr (scopes, aud, resource, ttl) \<Rightarrow>
                (case mint_access E resource
                        \<lparr>jc_user_id = None, jc_client_id = cl_id c, jc_scopes = scopes,
                         jc_audience = audience, jc_ttl = seconds ttl, jc_extra_claims = None\<rparr> st of
                   (Inl e, st1) \<Rightarrow> (Inl e, st1)
                 | (Inr (raw, h, jti), st1) \<Rightarrow>
                     (case CreateAccessToken E
                             \<lparr>at_id = h, at_client_id = cl_id c, at_user_id = None, at_session_id = None,
                              at_refresh_token_id = None, at_scopes = scopes, at_audience = aud,
                              at_jti = jti, at_expires_at = clk E + seconds ttl, at_revoked = False,
                              at_created_at = zero_time\<rparr> st1 of
                        DbErr \<Rightarrow> (Inl (ErrServerError ''failed to store access token''), st1)
                      | DbOk st2 \<Rightarrow>
                          (Inr \<lparr>tr_access_token = raw, tr_token_type = ''Bearer'', tr_expires_in = ttl,
                                tr_refresh_token = [], tr_id_token = [], tr_scope = joinScopes scopes\<rparr>,
                           st2)))))"


section \<open>Lemmas: issuing\<close>

text \<open>Issuing appends one row to each token table and draws randomness; nothing else moves.\<close>

definition without_tokens :: "db \<Rightarrow> db" where
  "without_tokens st = st\<lparr>t_access_tokens := [], t_refresh_tokens := [], draws := 0\<rparr>"

lemma without_tokens_simps [simp]:
  "without_tokens (st\<lparr>t_access_tokens := x\<rparr>) = without_tokens st"
  "without_tokens (st\<lparr>t_refresh_tokens := y\<rparr>) = without_tokens st"
  "without_tokens (st\<lparr>draws := n\<rparr>) = without_tokens st"
  "without_tokens (bump st) = without_tokens st"
  by (simp_all add: without_tokens_def bump_def)

lemma without_tokens_field:
  "without_tokens st = without_tokens st' \<Longrightarrow>
   (\<And>s x y n. f (s\<lparr>t_access_tokens := x, t_refresh_tokens := y, draws := n\<rparr>) = f s) \<Longrightarrow> f st = f st'"
  unfolding without_tokens_def by metis

lemma without_tokens_codes: "without_tokens st = without_tokens st' \<Longrightarrow> t_auth_codes st = t_auth_codes st'"
  by (rule without_tokens_field) simp_all

text \<open>The first rows of the two tables stay where they were.\<close>

lemma mint_access_Inr:
  "mint_access E r cl st = (Inr (raw, h, jti), st') \<Longrightarrow> h = HashToken (sha256 E) raw \<and> st' = bump st"
  by (auto simp: mint_access_def Let_def split: option.splits prod.splits if_splits sum.splits
      dest: GenerateOpaqueToken_SomeD)

lemma mint_access_state: "snd (mint_access E r cl st) = bump st"
  using GenerateOpaqueToken_state [of E st]
  by (auto simp: mint_access_def Let_def split: option.splits prod.splits if_splits sum.splits)

lemma issued_id_token_state: "issued_id_token E c u ss opts x raw st = (t, st') \<Longrightarrow> st' = st \<or> st' = bump st"
  by (auto simp: issued_id_token_def split: option.splits if_splits)

lemma CreateRefreshToken_DbOk: "CreateRefreshToken E t st = DbOk st' \<longleftrightarrow>
    \<not> db_err E ''CreateRefreshToken'' \<and> rt_id t \<notin> rt_id ` set (t_refresh_tokens st) \<and>
    st' = st\<lparr>t_refresh_tokens := t_refresh_tokens st @ [t\<lparr>rt_created_at := wall E\<rparr>]\<rparr>"
  by (auto simp: CreateRefreshToken_def stmt_opt_def add_refresh_def insert_row_def)

lemma CreateAccessToken_DbOk: "CreateAccessToken E t st = DbOk st' \<longleftrightarrow>
    \<not> db_err E ''CreateAccessToken'' \<and> at_id t \<notin> at_id ` set (t_access_tokens st) \<and>
    st' = st\<lparr>t_access_tokens := t_access_tokens st @ [t\<lparr>at_created_at := wall E\<rparr>]\<rparr>"
  by (auto simp: CreateAccessToken_def stmt_opt_def add_access_def insert_row_def)

definition issued_rows ::
  "env \<Rightarrow> client \<Rightarrow> uuid \<Rightarrow> uuid \<Rightarrow> string option \<Rightarrow> string list \<Rightarrow> token_response \<Rightarrow>
   access_token \<Rightarrow> refresh_token \<Rightarrow> bool" where
  "issued_rows E c u s aud scopes resp tok rt \<longleftrightarrow>
     at_id tok = HashToken (sha256 E) (tr_access_token resp) \<and> at_client_id tok = cl_id c \<and>
     at_user_id tok = Some u \<and> at_session_id tok = Some s \<and> at_refresh_token_id tok = Some (rt_id rt) \<and>
     at_scopes tok = scopes \<and> at_audience tok = aud \<and> \<not> at_revoked tok \<and>
     rt_id rt = HashToken (sha256 E) (tr_refresh_token resp) \<and> rt_client_id rt = cl_id c \<and>
     rt_user_id rt = u \<and> rt_session_id rt = s \<and> rt_scopes rt = scopes \<and> rt_audience rt = aud \<and>
     \<not> rt_revoked rt \<and> \<not> WasRotated rt \<and> tr_scope resp = joinScopes scopes"

lemma store_tokens_Inr:
  assumes "store_tokens E c u session scopes opts resource extra (raw, h, jti) st = (Inr resp, st')"
    and "h = HashToken (sha256 E) raw"
  shows "\<exists>s tok rt. session = Some s \<and> issued_rows E c u s (io_audience opts) scopes resp tok rt \<and>
    t_access_tokens st' = t_access_tokens st @ [tok] \<and> t_refresh_tokens st' = t_refresh_tokens st @ [rt] \<and>
    at_id tok \<notin> at_id ` set (t_access_tokens st) \<and> rt_id rt \<notin> rt_id ` set (t_refresh_tokens st) \<and>
    without_tokens st' = without_tokens st"
proof -
  from assms(1) obtain rawRT rth st1 family st2 s st3 st4 idt
    where rt: "GenerateOpaqueToken E st = (Some (rawRT, rth), st1)"
      and fam: "new_uuid E st1 = (family, st2)" and s: "session = Some s"
      and r: "CreateRefreshToken E (refresh_of E c u s scopes opts rth
                (case family of None \<Rightarrow> uuid_nil | Some f \<Rightarrow> f)) st2 = DbOk st3"
      and a: "CreateAccessToken E (access_of E c u s scopes opts h rth jti (access_ttl c resource)) st3 = DbOk st4"
      and i: "issued_id_token E c u scopes opts extra raw st4 = (idt, st')"
      and resp: "resp = \<lparr>tr_access_token = raw, tr_token_type = ''Bearer'',
          tr_expires_in = whole_seconds (access_ttl c resource), tr_refresh_token = rawRT,
          tr_id_token = idt, tr_scope = joinScopes scopes\<rparr>"
    by (auto simp: store_tokens_def split: prod.splits option.splits dbres.splits)
  define f where "f = (case family of None \<Rightarrow> uuid_nil | Some f \<Rightarrow> f)"
  define tok where "tok = (access_of E c u s scopes opts h rth jti (access_ttl c resource))\<lparr>at_created_at := wall E\<rparr>"
  define rt where "rt = (refresh_of E c u s scopes opts rth f)\<lparr>rt_created_at := wall E\<rparr>"
  have st: "st1 = bump st" "st2 = bump st1" "rth = HashToken (sha256 E) rawRT"
    using GenerateOpaqueToken_SomeD [OF rt] fam by (auto simp: new_uuid_def)
  have st3: "st3 = st2\<lparr>t_refresh_tokens := t_refresh_tokens st2 @ [rt]\<rparr>"
    and fresh_rt: "rt_id rt \<notin> rt_id ` set (t_refresh_tokens st2)"
    using r by (auto simp: CreateRefreshToken_DbOk rt_def f_def)
  have st4: "st4 = st3\<lparr>t_access_tokens := t_access_tokens st3 @ [tok]\<rparr>"
    and fresh_at: "at_id tok \<notin> at_id ` set (t_access_tokens st3)"
    using a by (auto simp: CreateAccessToken_DbOk tok_def)
  have rows: "issued_rows E c u s (io_audience opts) scopes resp tok rt"
    using assms(2) st(3)
    by (simp add: issued_rows_def tok_def rt_def resp access_of_def refresh_of_def WasRotated_def)
  have st': "st' = st4 \<or> st' = bump st4" using issued_id_token_state [OF i] .
  show ?thesis
    using st' s rows fresh_rt fresh_at
    by (intro exI [of _ s] exI [of _ tok] exI [of _ rt]) (auto simp: st4 st3 st(1,2) bump_def)
qed

text \<open>A validator that keeps its contract only ever narrows the scopes.\<close>

definition validator_ok :: "env \<Rightarrow> bool" where
  "validator_ok E \<longleftrightarrow> (\<forall>rv. resource_validator E = Some rv \<longrightarrow> scope_validator rv)"

lemma user_scopes_subset:
  assumes "validator_ok E"
  shows "set (user_scopes E r i u scopes) \<subseteq> set scopes"
proof (cases "\<exists>res rv. r = Some res \<and> resource_validator E = Some rv")
  case False
  then show ?thesis by (auto simp: user_scopes_def split: option.splits)
next
  case True
  then obtain res rv where r: "r = Some res" "resource_validator E = Some rv" by blast
  obtain rs oth where sp: "splitResourceScopes scopes (res_permissions res) = (rs, oth)" by fastforce
  have sets: "set rs \<subseteq> set scopes" "set oth \<subseteq> set scopes"
    using splitResourceScopes_sets [OF sp] by auto
  have "scope_validator rv" using assms r(2) by (simp add: validator_ok_def)
  show ?thesis
  proof (cases "rv_user_scopes rv u (case i of None \<Rightarrow> res_id res | Some j \<Rightarrow> j) rs")
    case (Inl e)
    then show ?thesis by (simp add: user_scopes_def r sp)
  next
    case (Inr allowed)
    then have "set allowed \<subseteq> set rs"
      using scope_validator.user_scopes_requested [OF \<open>scope_validator rv\<close>] by blast
    with sets Inr show ?thesis by (auto simp: user_scopes_def r sp)
  qed
qed

lemma narrowed_subset: "set (narrowed m scopes) \<subseteq> set scopes"
  by (auto simp: narrowed_def split: option.splits dest: readModifyScopes_narrows)

lemma token_policy_Inr:
  assumes "token_policy E c u scopes st = Inr (c1, scopes1, extra)"
  shows "cl_id c1 = cl_id c" "set scopes1 \<subseteq> set scopes"
  using assms narrowed_subset
  by (fastforce simp: token_policy_def modified_client_def split: prod.splits option.splits if_splits)+

lemma issued_rows_client: "issued_rows E c1 u s aud ss resp tok rt \<Longrightarrow> cl_id c1 = cl_id c \<Longrightarrow>
    issued_rows E c u s aud ss resp tok rt"
  by (simp add: issued_rows_def)

lemma issueTokens_Inr:
  assumes "issueTokensWithOpts E c u session scopes opts st = (Inr resp, st')"
  obtains s tok rt granted where "session = Some s"
    "issued_rows E c u s (io_audience opts) granted resp tok rt"
    "t_access_tokens st' = t_access_tokens st @ [tok]" "t_refresh_tokens st' = t_refresh_tokens st @ [rt]"
    "at_id tok \<notin> at_id ` set (t_access_tokens st)" "rt_id rt \<notin> rt_id ` set (t_refresh_tokens st)"
    "without_tokens st' = without_tokens st" "validator_ok E \<Longrightarrow> set granted \<subseteq> set scopes"
proof -
  let ?r = "resolve_resource E (io_audience opts)"
  from assms obtain c1 scopes1 extra raw h jti st1 where
    pol: "token_policy E c u scopes st = Inr (c1, scopes1, extra)"
    and m: "mint_access E ?r
       \<lparr>jc_user_id = Some u, jc_client_id = cl_id c1,
        jc_scopes = user_scopes E ?r (io_resource_id opts) u scopes1,
        jc_audience = deref (io_audience opts), jc_ttl = access_ttl c1 ?r,
        jc_extra_claims = extra\<rparr> st = (Inr (raw, h, jti), st1)"
    and s: "store_tokens E c1 u session (user_scopes E ?r (io_resource_id opts) u scopes1) opts ?r extra
      (raw, h, jti) st1 = (Inr resp, st')"
    by (auto simp: issueTokensWithOpts_def Let_def split: sum.splits prod.splits)
  let ?g = "user_scopes E ?r (io_resource_id opts) u scopes1"
  have st1: "st1 = bump st" "h = HashToken (sha256 E) raw" using mint_access_Inr [OF m] by auto
  from store_tokens_Inr [OF s st1(2)] obtain s tok rt where rows: "session = Some s"
    "issued_rows E c1 u s (io_audience opts) ?g resp tok rt"
    "t_access_tokens st' = t_access_tokens st1 @ [tok]" "t_refresh_tokens st' = t_refresh_tokens st1 @ [rt]"
    "at_id tok \<notin> at_id ` set (t_access_tokens st1)" "rt_id rt \<notin> rt_id ` set (t_refresh_tokens st1)"
    "without_tokens st' = without_tokens st1"
    by blast
  have sub: "validator_ok E \<Longrightarrow> set ?g \<subseteq> set scopes"
    using user_scopes_subset token_policy_Inr(2) [OF pol] by blast
  show thesis
    using that [OF rows(1) issued_rows_client [OF rows(2) token_policy_Inr(1) [OF pol]]] rows sub
    by (simp add: st1(1) bump_def)
qed


section \<open>Lemmas: the grants\<close>

lemma code_checks_None:
  "code_checks E c uri v ac = None \<longleftrightarrow>
     ac_client_id ac = cl_id c \<and> ac_redirect_uri ac = uri \<and>
     (if HasPKCE ac then v \<noteq> [] \<and> verifyPKCE (sha256 E) v (deref (ac_code_challenge ac)) else \<not> cl_is_public c)"
  by (simp add: code_checks_def)

lemma exchange_code_Inr:
  assumes "ExchangeAuthorizationCode E c code uri v st = (Inr resp, st')"
  obtains ac where "code_row st (HashToken (sha256 E) code) = Some ac" "ac_IsValid ac (wall E)"
    "code_checks E c uri v ac = None"
    "issueTokensWithOpts E c (ac_user_id ac) (ac_session_id ac) (ac_scopes ac) (code_opts ac)
       (use_code st (HashToken (sha256 E) code)) = (Inr resp, st')"
proof -
  have "exchange_code_tx E c (HashToken (sha256 E) code) uri v st = (Inr resp, st')"
    using assms Transaction_Inr by (simp add: ExchangeAuthorizationCode_def)
  then show thesis
    using that
    by (auto simp: exchange_code_tx_def FindAuthCode_def MarkAuthCodeUsed_def stmt_def
        split: dbres.splits option.splits if_splits)
qed

text \<open>A successful exchange: the code was there, unused, unexpired, the client's own, and the
  tokens carry its user, session and scopes.\<close>

lemma exchange_code_sound:
  assumes "ExchangeAuthorizationCode E c code uri v st = (Inr resp, st')"
  obtains ac s tok rt granted where "code_row st (HashToken (sha256 E) code) = Some ac"
    "ac_IsValid ac (wall E)" "code_checks E c uri v ac = None" "ac_session_id ac = Some s"
    "issued_rows E c (ac_user_id ac) s (ac_audience ac) granted resp tok rt"
    "t_access_tokens st' = t_access_tokens st @ [tok]" "t_refresh_tokens st' = t_refresh_tokens st @ [rt]"
    "at_id tok \<notin> at_id ` set (t_access_tokens st)" "rt_id rt \<notin> rt_id ` set (t_refresh_tokens st)"
    "t_auth_codes st' = t_auth_codes (use_code st (HashToken (sha256 E) code))"
    "validator_ok E \<Longrightarrow> set granted \<subseteq> set (ac_scopes ac)"
proof -
  obtain ac where ac: "code_row st (HashToken (sha256 E) code) = Some ac" "ac_IsValid ac (wall E)"
    "code_checks E c uri v ac = None"
    "issueTokensWithOpts E c (ac_user_id ac) (ac_session_id ac) (ac_scopes ac) (code_opts ac)
       (use_code st (HashToken (sha256 E) code)) = (Inr resp, st')"
    using exchange_code_Inr [OF assms] .
  have aud: "io_audience (code_opts ac) = ac_audience ac" by (simp add: code_opts_def)
  have t: "t_access_tokens (use_code st h) = t_access_tokens st"
    "t_refresh_tokens (use_code st h) = t_refresh_tokens st" for h
    by (simp_all add: use_code_def)
  from ac(4) show thesis
  proof (rule issueTokens_Inr)
    fix s tok rt granted
    assume "ac_session_id ac = Some s"
      "issued_rows E c (ac_user_id ac) s (io_audience (code_opts ac)) granted resp tok rt"
      "t_access_tokens st' = t_access_tokens (use_code st (HashToken (sha256 E) code)) @ [tok]"
      "t_refresh_tokens st' = t_refresh_tokens (use_code st (HashToken (sha256 E) code)) @ [rt]"
      "at_id tok \<notin> at_id ` set (t_access_tokens (use_code st (HashToken (sha256 E) code)))"
      "rt_id rt \<notin> rt_id ` set (t_refresh_tokens (use_code st (HashToken (sha256 E) code)))"
      "without_tokens st' = without_tokens (use_code st (HashToken (sha256 E) code))"
      "validator_ok E \<Longrightarrow> set granted \<subseteq> set (ac_scopes ac)"
    then show thesis
      using that [OF ac(1-3)] without_tokens_codes unfolding aud t by blast
  qed
qed

definition code_used :: "db \<Rightarrow> string \<Rightarrow> bool" where
  "code_used st h \<longleftrightarrow> (\<exists>ac. code_row st h = Some ac \<and> ac_used ac)"

lemma code_row_cong: "t_auth_codes st' = t_auth_codes st \<Longrightarrow> code_row st' h = code_row st h"
  by (simp add: code_row_def)

lemma exchange_code_uses:
  assumes "ExchangeAuthorizationCode E c code uri v st = (Inr resp, st')"
  shows "code_used st' (HashToken (sha256 E) code)"
proof -
  obtain ac where ac: "code_row st (HashToken (sha256 E) code) = Some ac"
    and t: "t_auth_codes st' = t_auth_codes (use_code st (HashToken (sha256 E) code))"
    by (rule exchange_code_sound [OF assms]) blast
  then show ?thesis
    using codes.find_modify [of st "HashToken (sha256 E) code" "HashToken (sha256 E) code"]
    unfolding code_used_def code_row_cong [OF t] by simp
qed

lemma used_code_refused:
  assumes "code_used st (HashToken (sha256 E) code)"
  shows "\<exists>st'. ExchangeAuthorizationCode E c code uri v st = (Inl (ErrInvalidGrant
      (if db_err E ''FindAuthCode'' then ''invalid authorization code''
       else ''authorization code expired or already used'')), st')"
  using assms
  by (auto simp: code_used_def ExchangeAuthorizationCode_def exchange_code_tx_def Transaction_def
      FindAuthCode_def stmt_def ac_IsValid_def)

lemma exchange_code_failure:
  "gorm_rollback E \<Longrightarrow> ExchangeAuthorizationCode E c code uri v st = (Inl e, st') \<Longrightarrow> tables st' = tables st"
  unfolding ExchangeAuthorizationCode_def by (rule Transaction_Inl_tables)

subsection \<open>Refresh\<close>

lemma requested_of_Inr:
  "requested_of req orig = Inr granted \<Longrightarrow> set granted \<subseteq> set orig \<and> (req = [] \<longrightarrow> granted = orig)"
  by (auto simp: requested_of_def filterScopes_set split: if_splits)

lemma refresh_policy_Inr: "refresh_policy E c rt req granted st = Inr g \<Longrightarrow> set g \<subseteq> set granted"
  by (auto simp: refresh_policy_def split: prod.splits option.splits if_splits dest: readModifyScopes_narrows)

lemma refresh_checks_None: "refresh_checks E c rt = None \<longleftrightarrow>
    rt_client_id rt = cl_id c \<and> clk E \<le> rt_expires_at rt \<and> \<not> rt_revoked rt"
  by (auto simp: refresh_checks_def)

definition revoke_linked :: "string \<Rightarrow> access_token list \<Rightarrow> access_token list" where
  "revoke_linked h = update_where (\<lambda>t. at_refresh_token_id t = Some h \<and> \<not> at_revoked t)
     (\<lambda>t. t\<lparr>at_revoked := True\<rparr>)"

definition after_rotation :: "env \<Rightarrow> string \<Rightarrow> db \<Rightarrow> db" where
  "after_rotation E h st =
     (let st1 = rotate_refresh (wall E) st h in db_ignore st1 (RevokeAccessTokensByRefreshToken E h st1))"

lemma after_rotation_tables:
  "t_refresh_tokens (after_rotation E h st) = t_refresh_tokens (rotate_refresh (wall E) st h)"
  "t_access_tokens (after_rotation E h st) =
     (if db_err E ''RevokeAccessTokensByRefreshToken'' then t_access_tokens st
      else revoke_linked h (t_access_tokens st))"
  "t_auth_codes (after_rotation E h st) = t_auth_codes st"
  by (simp_all add: after_rotation_def Let_def RevokeAccessTokensByRefreshToken_def stmt_def
      rotate_refresh_def revoke_linked_def)

lemma exchange_refresh_sound:
  assumes "ExchangeRefreshToken E c raw scope st = (Inr resp, st')"
  obtains old tok rt granted where "HasGrantType c ''refresh_token''"
    "refresh_row st (HashToken (sha256 E) raw) = Some old"
    "refresh_checks E c old = None" "\<not> WasRotated old"
    "issued_rows E c (rt_user_id old) (rt_session_id old) (rt_audience old) granted resp tok rt"
    "t_refresh_tokens st' = t_refresh_tokens (rotate_refresh (wall E) st (HashToken (sha256 E) raw)) @ [rt]"
    "t_access_tokens st' = t_access_tokens (after_rotation E (HashToken (sha256 E) raw) st) @ [tok]"
    "rt_id rt \<notin> rt_id ` set (t_refresh_tokens (rotate_refresh (wall E) st (HashToken (sha256 E) raw)))"
    "t_auth_codes st' = t_auth_codes st"
    "validator_ok E \<Longrightarrow> set granted \<subseteq> set (rt_scopes old)"
proof -
  let ?h = "HashToken (sha256 E) raw"
  have grant: "HasGrantType c ''refresh_token''"
    using assms by (simp add: ExchangeRefreshToken_def split: if_splits)
  have tx: "exchange_refresh_tx E c ?h scope st = (Inr resp, st')"
    using assms Transaction_Inr by (simp add: ExchangeRefreshToken_def split: if_splits)
  from tx obtain old granted0 granted1 where old: "refresh_row st ?h = Some old"
    "refresh_checks E c old = None" "\<not> WasRotated old"
    and req: "requested_of (parseSpaceDelimited scope) (rt_scopes old) = Inr granted0"
    and pol: "refresh_policy E c old (parseSpaceDelimited scope) granted0 st = Inr granted1"
    and iss: "issueTokensWithOpts E c (rt_user_id old) (Some (rt_session_id old)) granted1
      (no_opts\<lparr>io_auth_time := clk E, io_audience := rt_audience old\<rparr>) (after_rotation E ?h st) = (Inr resp, st')"
    by (auto simp: exchange_refresh_tx_def FindRefreshToken_def RotateRefreshToken_def stmt_def
        after_rotation_def Let_def split: dbres.splits option.splits if_splits sum.splits)
  have sub: "set granted1 \<subseteq> set (rt_scopes old)"
    using requested_of_Inr [OF req] refresh_policy_Inr [OF pol] by blast
  from iss show thesis
  proof (rule issueTokens_Inr)
    fix s tok rt granted
    assume i: "Some (rt_session_id old) = Some s"
      "issued_rows E c (rt_user_id old) s
         (io_audience (no_opts\<lparr>io_auth_time := clk E, io_audience := rt_audience old\<rparr>)) granted resp tok rt"
      "t_access_tokens st' = t_access_tokens (after_rotation E ?h st) @ [tok]"
      "t_refresh_tokens st' = t_refresh_tokens (after_rotation E ?h st) @ [rt]"
      "rt_id rt \<notin> rt_id ` set (t_refresh_tokens (after_rotation E ?h st))"
      "without_tokens st' = without_tokens (after_rotation E ?h st)"
      "validator_ok E \<Longrightarrow> set granted \<subseteq> set granted1"
    have codes: "t_auth_codes st' = t_auth_codes st"
      using without_tokens_codes [OF i(6)] by (simp add: after_rotation_tables)
    have rows: "issued_rows E c (rt_user_id old) (rt_session_id old) (rt_audience old) granted resp tok rt"
      using i(1,2) by simp
    show thesis
    proof (rule that [OF grant old rows _ _ _ codes])
      show "validator_ok E \<Longrightarrow> set granted \<subseteq> set (rt_scopes old)" using i(7) sub by blast
    qed (use i(3-5) in \<open>simp_all add: after_rotation_tables\<close>)
  qed
qed

definition refresh_spent :: "db \<Rightarrow> string \<Rightarrow> bool" where
  "refresh_spent st h \<longleftrightarrow> (\<exists>t. refresh_row st h = Some t \<and> (WasRotated t \<or> rt_revoked t))"

lemma refresh_row_append: "t_refresh_tokens st' = t_refresh_tokens st @ [r] \<Longrightarrow>
    refresh_row st h = Some t \<Longrightarrow> refresh_row st' h = Some t"
  by (simp add: refresh_row_def first_where_append)

lemma exchange_refresh_spends:
  assumes "ExchangeRefreshToken E c raw scope st = (Inr resp, st')"
  shows "refresh_spent st' (HashToken (sha256 E) raw)"
proof (rule exchange_refresh_sound [OF assms])
  fix old rt
  assume old: "refresh_row st (HashToken (sha256 E) raw) = Some old"
    and t: "t_refresh_tokens st' = t_refresh_tokens (rotate_refresh (wall E) st (HashToken (sha256 E) raw)) @ [rt]"
  have "refresh_row (rotate_refresh (wall E) st (HashToken (sha256 E) raw)) (HashToken (sha256 E) raw) =
      Some (old\<lparr>rt_rotated_at := Some (wall E)\<rparr>)"
    using old refresh.find_modify [of "wall E" st "HashToken (sha256 E) raw" "HashToken (sha256 E) raw"] by simp
  then show ?thesis
    using refresh_row_append [OF t] by (auto simp: refresh_spent_def WasRotated_def)
qed

lemma spent_refresh_refused:
  assumes "refresh_spent st (HashToken (sha256 E) raw)"
  shows "\<exists>e st'. ExchangeRefreshToken E c raw scope st = (Inl e, st')"
proof (rule ccontr)
  assume n: "\<nexists>e st'. ExchangeRefreshToken E c raw scope st = (Inl e, st')"
  obtain r st' where r: "ExchangeRefreshToken E c raw scope st = (r, st')" by fastforce
  with n obtain resp where "ExchangeRefreshToken E c raw scope st = (Inr resp, st')" by (cases r) auto
  then show False
    by (rule exchange_refresh_sound) (use assms in \<open>auto simp: refresh_spent_def refresh_checks_None\<close>)
qed

lemma exchange_refresh_failure:
  assumes "gorm_rollback E" and "ExchangeRefreshToken E c raw scope st = (Inl e, st')"
  shows "tables st' = tables st"
  using assms Transaction_Inl_tables [OF assms(1)] by (auto simp: ExchangeRefreshToken_def split: if_splits)

lemma rotate_refresh_ids: "rt_id ` set (t_refresh_tokens (rotate_refresh now st h)) = rt_id ` set (t_refresh_tokens st)"
  by (auto simp: rotate_refresh_def update_where_def image_Un image_image image_iff)

lemma refresh_kills_linked:
  assumes "ExchangeRefreshToken E c raw scope st = (Inr resp, st')"
    and "\<not> db_err E ''RevokeAccessTokensByRefreshToken''"
    and "t \<in> set (t_access_tokens st')" "at_refresh_token_id t = Some (HashToken (sha256 E) raw)"
    and "refresh_row st (HashToken (sha256 E) raw) \<noteq> None"
  shows "at_revoked t"
proof (rule exchange_refresh_sound [OF assms(1)])
  fix old tok rt granted
  assume rows: "issued_rows E c (rt_user_id old) (rt_session_id old) (rt_audience old) granted resp tok rt"
    and a: "t_access_tokens st' = t_access_tokens (after_rotation E (HashToken (sha256 E) raw) st) @ [tok]"
    and fresh: "rt_id rt \<notin> rt_id ` set (t_refresh_tokens (rotate_refresh (wall E) st (HashToken (sha256 E) raw)))"
    and old: "refresh_row st (HashToken (sha256 E) raw) = Some old"
  have "rt_id old = HashToken (sha256 E) raw" "old \<in> set (t_refresh_tokens st)"
    using first_where_SomeD [OF old [unfolded refresh_row_def]] by auto
  then have "HashToken (sha256 E) raw \<in> rt_id ` set (t_refresh_tokens (rotate_refresh (wall E) st (HashToken (sha256 E) raw)))"
    using rotate_refresh_ids by (metis imageI)
  with fresh have "rt_id rt \<noteq> HashToken (sha256 E) raw" by metis
  with rows have "at_refresh_token_id tok \<noteq> Some (HashToken (sha256 E) raw)"
    by (simp add: issued_rows_def)
  with assms(3,4) a have "t \<in> set (revoke_linked (HashToken (sha256 E) raw) (t_access_tokens st))"
    by (auto simp: after_rotation_tables assms(2))
  then show ?thesis
    unfolding revoke_linked_def by (rule in_update_whereE) (use assms(4) in auto)
qed

subsection \<open>Client credentials\<close>

lemma client_grant_Inr:
  assumes "client_grant E c scope audience = Inr (scopes, aud, resource, ttl)"
  shows "aud = None \<and> resource = None \<and> set scopes \<subseteq> set (cl_scopes c) \<or>
    (\<exists>rv r. resource_validator E = Some rv \<and> aud = Some audience \<and> resource = Some r \<and>
       rv_audience rv audience = Inr r \<and> scopes \<noteq> [] \<and>
       rv_client_scopes rv (cl_id c) (res_id r) (parseSpaceDelimited scope) = Inr scopes)"
  using assms ValidateScopes_subset [of c "parseSpaceDelimited scope"]
  by (auto simp: client_grant_def split: option.splits if_splits sum.splits)

lemma client_credentials_sound:
  assumes "ExchangeClientCredentials E c scope audience st = (Inr resp, st')"
  obtains scopes aud resource ttl tok where
    "\<not> cl_is_public c" "HasGrantType c ''client_credentials''"
    "client_grant E c scope audience = Inr (scopes, aud, resource, ttl)"
    "t_access_tokens st' = t_access_tokens st @ [tok]" "at_id tok = HashToken (sha256 E) (tr_access_token resp)"
    "at_client_id tok = cl_id c" "at_user_id tok = None" "at_session_id tok = None" "at_scopes tok = scopes"
    "at_audience tok = aud" "tr_refresh_token resp = []" "tr_id_token resp = []"
    "tr_scope resp = joinScopes scopes" "t_refresh_tokens st' = t_refresh_tokens st"
    "t_auth_codes st' = t_auth_codes st"
  using assms
  by (auto simp: ExchangeClientCredentials_def CreateAccessToken_DbOk bump_def
      split: if_splits sum.splits prod.splits dbres.splits dest!: mint_access_Inr)

subsection \<open>Lookup\<close>

lemma LookupActiveAccessToken_Some:
  "LookupActiveAccessToken E raw st = Inr (Some t) \<longleftrightarrow>
     raw \<noteq> [] \<and> \<not> db_err E ''FindAccessToken'' \<and>
     access_row st (HashToken (sha256 E) raw) = Some t \<and> at_IsValid t (wall E)"
  by (auto simp: LookupActiveAccessToken_def FindAccessToken_def stmt_def split: if_splits option.splits dbres.splits)

end
