(* ===== verification/Sessions.thy ===== *)
theory Sessions
  imports Store
begin

text \<open>
  The session service (\<^verbatim>\<open>session/service.go\<close> over \<^verbatim>\<open>session/repository.go\<close>): creation with an opaque
  single-sign-on cookie whose hash alone is stored, lookup by cookie, liveness, revocation of one
  session by its owner and of all sessions of a user but one. Production installs the real clock
  in this service, so its \<^verbatim>\<open>now()\<close> is \<open>wall\<close>.
\<close>

section \<open>Repository\<close>

definition session_row :: "db \<Rightarrow> uuid \<Rightarrow> session option" where
  "session_row st i = first_where (\<lambda>s. se_id s = i) (t_sessions st)"

definition session_Create :: "env \<Rightarrow> session \<Rightarrow> db \<Rightarrow> db dbres" where
  "session_Create E s st = stmt_opt E ''session.Create''
     (map_option (\<lambda>t. st\<lparr>t_sessions := t\<rparr>) (insert_row se_id s (t_sessions st)))"

definition session_FindByID :: "env \<Rightarrow> uuid \<Rightarrow> db \<Rightarrow> session option dbres" where
  "session_FindByID E i st = stmt E ''session.FindByID'' (session_row st i)"

definition FindActiveByCookieHash :: "env \<Rightarrow> string \<Rightarrow> db \<Rightarrow> session option dbres" where
  "FindActiveByCookieHash E h st = stmt E ''session.FindActiveByCookieHash''
     (first_where (\<lambda>s. se_cookie_token_hash s = h \<and> \<not> se_revoked s \<and> se_expires_at s > wall E) (t_sessions st))"

text \<open>Sorted by last activity, most recent first; the sort is stable on equal instants.\<close>

definition FindActiveByUser :: "env \<Rightarrow> uuid \<Rightarrow> db \<Rightarrow> session list dbres" where
  "FindActiveByUser E u st = stmt E ''session.FindActiveByUser''
     (sort_key (\<lambda>s. - se_last_active_at s)
       (filter (\<lambda>s. se_user_id s = u \<and> \<not> se_revoked s \<and> se_expires_at s > wall E) (t_sessions st)))"

definition mark_revoked :: "env \<Rightarrow> session \<Rightarrow> session" where
  "mark_revoked E s = s\<lparr>se_revoked := True, se_revoked_at := Some (wall E)\<rparr>"

definition session_Revoke_row :: "env \<Rightarrow> uuid \<Rightarrow> db \<Rightarrow> db dbres" where
  "session_Revoke_row E i st = stmt E ''session.Revoke''
     (st\<lparr>t_sessions := update_where (\<lambda>s. se_id s = i) (mark_revoked E) (t_sessions st)\<rparr>)"

definition revoke_match :: "uuid \<Rightarrow> uuid option \<Rightarrow> session \<Rightarrow> bool" where
  "revoke_match u except s \<longleftrightarrow> se_user_id s = u \<and> \<not> se_revoked s \<and> Some (se_id s) \<noteq> except"

definition RevokeAllForUser :: "env \<Rightarrow> uuid \<Rightarrow> uuid option \<Rightarrow> db \<Rightarrow> (nat \<times> db) dbres" where
  "RevokeAllForUser E u except st = stmt E ''session.RevokeAllForUser''
     (length (filter (revoke_match u except) (t_sessions st)),
      st\<lparr>t_sessions := update_where (revoke_match u except) (mark_revoked E) (t_sessions st)\<rparr>)"

lemmas [repo_defs] = session_Create_def session_FindByID_def FindActiveByCookieHash_def
  FindActiveByUser_def session_Revoke_row_def RevokeAllForUser_def

section \<open>Service\<close>

definition resolveTTL :: "env \<Rightarrow> bool \<Rightarrow> duration" where
  "resolveTTL E extended =
     (case session_ttl_resolver E of
        Some f \<Rightarrow> f extended
      | None \<Rightarrow> if extended then cfg_session_extended_ttl (cfg E) else cfg_session_ttl (cfg E))"

definition session_Create_op ::
  "env \<Rightarrow> uuid \<Rightarrow> string \<Rightarrow> string \<Rightarrow> bool \<Rightarrow> db \<Rightarrow> (session \<times> string) res \<times> db" where
  "session_Create_op E user_id ip ua extended st =
     (case new_uuid E st of
        (None, st1) \<Rightarrow> (Inl (ErrInternal ''failed to generate session ID''), st1)
      | (Some i, st1) \<Rightarrow>
          (case GenerateOpaqueToken E st1 of
             (None, st2) \<Rightarrow> (Inl (ErrInternal ''failed to generate session cookie token''), st2)
           | (Some (rawCookie, cookieHash), st2) \<Rightarrow>
               (let s = \<lparr>se_id = i, se_user_id = user_id, se_ip_address = non_empty ip,
                         se_user_agent = non_empty ua, se_last_active_at = wall E,
                         se_authenticated_at = wall E, se_revoked = False, se_revoked_at = None,
                         se_expires_at = wall E + resolveTTL E extended, se_extended = extended,
                         se_cookie_token_hash = cookieHash\<rparr>
                in case session_Create E s st2 of
                     DbErr \<Rightarrow> (Inl (ErrInternal ''failed to create session''), st2)
                   | DbOk st3 \<Rightarrow> (Inr (s, rawCookie), st3))))"

definition FindByCookieToken :: "env \<Rightarrow> string \<Rightarrow> db \<Rightarrow> session option res" where
  "FindByCookieToken E raw st =
     (if raw = [] then Inr None
      else case FindActiveByCookieHash E (HashToken (sha256 E) raw) st of
             DbErr \<Rightarrow> Inl (ErrInternal ''failed to look up session'')
           | DbOk s \<Rightarrow> Inr s)"

definition session_IsActive :: "env \<Rightarrow> uuid \<Rightarrow> db \<Rightarrow> bool res" where
  "session_IsActive E i st =
     (case session_FindByID E i st of
        DbErr \<Rightarrow> Inl (DriverError ''session.FindByID'')
      | DbOk None \<Rightarrow> Inr False
      | DbOk (Some s) \<Rightarrow> Inr (\<not> se_revoked s \<and> se_expires_at s > wall E))"

definition ListActive :: "env \<Rightarrow> uuid \<Rightarrow> db \<Rightarrow> session list res" where
  "ListActive E u st =
     (case FindActiveByUser E u st of
        DbErr \<Rightarrow> Inl (ErrInternal ''failed to list sessions'')
      | DbOk ss \<Rightarrow> Inr ss)"

definition session_Revoke :: "env \<Rightarrow> uuid \<Rightarrow> uuid \<Rightarrow> db \<Rightarrow> unit res \<times> db" where
  "session_Revoke E session_id user_id st =
     (case session_FindByID E session_id st of
        DbErr \<Rightarrow> (Inl (ErrInternal ''failed to find session''), st)
      | DbOk None \<Rightarrow> (Inl (ErrNotFound ''session not found''), st)
      | DbOk (Some s) \<Rightarrow>
          if se_user_id s \<noteq> user_id then (Inl (ErrForbidden ''session does not belong to user''), st)
          else if se_revoked s then (Inr (), st)
          else (case session_Revoke_row E session_id st of
                  DbErr \<Rightarrow> (Inl (ErrInternal ''failed to revoke session''), st)
                | DbOk st' \<Rightarrow> (Inr (), st')))"

definition session_RevokeAll :: "env \<Rightarrow> uuid \<Rightarrow> uuid option \<Rightarrow> db \<Rightarrow> nat res \<times> db" where
  "session_RevokeAll E user_id current st =
     (case RevokeAllForUser E user_id current st of
        DbErr \<Rightarrow> (Inl (ErrInternal ''failed to revoke sessions''), st)
      | DbOk (n, st') \<Rightarrow> (Inr n, st'))"

lemmas [op_defs] = session_Create_op_def FindByCookieToken_def session_IsActive_def ListActive_def
  session_Revoke_def session_RevokeAll_def

section \<open>Lemmas\<close>

definition sessions_unique :: "db \<Rightarrow> bool" where
  "sessions_unique st \<longleftrightarrow> keys_unique se_id (t_sessions st)"

lemma session_Create_op_InrD:
  assumes "session_Create_op E u ip ua ext st = (Inr (s, raw), st')"
  shows "se_user_id s = u" "\<not> se_revoked s" "se_extended s = ext"
    "se_expires_at s = wall E + resolveTTL E ext" "se_authenticated_at s = wall E"
    "se_cookie_token_hash s = HashToken (sha256 E) raw"
    "t_sessions st' = t_sessions st @ [s]" "session_row st (se_id s) = None"
    "st' = st\<lparr>t_sessions := t_sessions st @ [s], draws := Suc (Suc (draws st))\<rparr>"
  using assms
  by (auto simp: session_Create_op_def new_uuid_def GenerateOpaqueToken_def bump_def repo_defs
      insert_row_Some_iff session_row_def first_where_absent Let_def
      split: prod.splits option.splits dbres.splits if_splits)

text \<open>Whatever the outcome, creation touches the session table and the randomness only.\<close>

definition session_frame :: "db \<Rightarrow> db \<Rightarrow> bool" where
  "session_frame st st' \<longleftrightarrow> st' = st\<lparr>t_sessions := t_sessions st', draws := draws st'\<rparr>"

lemma session_Create_op_InlD:
  assumes "session_Create_op E u ip ua ext st = (Inl e, st')"
  shows "t_sessions st' = t_sessions st" "session_frame st st'"
  using assms
  by (simp_all add: session_Create_op_def new_uuid_def GenerateOpaqueToken_def bump_def Let_def
      session_Create_def stmt_opt_def session_frame_def
      split: prod.splits option.splits dbres.splits if_splits)
     auto

lemma session_Create_op_frame:
  assumes "session_Create_op E u ip ua ext st = (r, st')"
  shows "session_frame st st' \<and> set (t_sessions st) \<subseteq> set (t_sessions st')"
proof (cases r)
  case (Inl e)
  with assms show ?thesis using session_Create_op_InlD [of E u ip ua ext st e st'] by simp
next
  case (Inr x)
  then obtain s raw where "r = Inr (s, raw)" by (cases x) auto
  with assms have "st' = st\<lparr>t_sessions := t_sessions st @ [s], draws := Suc (Suc (draws st))\<rparr>"
    using session_Create_op_InrD(9) by blast
  then show ?thesis by (auto simp: session_frame_def)
qed

lemma session_Create_op_unique:
  assumes "session_Create_op E u ip ua ext st = (r, st')" and "sessions_unique st"
  shows "sessions_unique st'"
proof (cases r)
  case (Inl e)
  with assms show ?thesis
    using session_Create_op_InlD [of E u ip ua ext st e st'] by (simp add: sessions_unique_def)
next
  case (Inr x)
  then obtain s raw where "r = Inr (s, raw)" by (cases x) auto
  with assms(1) have "t_sessions st' = t_sessions st @ [s]" "session_row st (se_id s) = None"
    using session_Create_op_InrD(7,8) by blast+
  with assms(2) show ?thesis
    by (auto simp: sessions_unique_def keys_unique_def session_row_def first_where_None_iff)
qed

lemma FindByCookieToken_SomeD:
  "FindByCookieToken E raw st = Inr (Some s) \<Longrightarrow>
     s \<in> set (t_sessions st) \<and> se_cookie_token_hash s = HashToken (sha256 E) raw \<and>
     \<not> se_revoked s \<and> se_expires_at s > wall E"
  by (auto simp: FindByCookieToken_def repo_defs split: if_splits dest!: first_where_SomeD)

lemma session_Revoke_row_table:
  "session_Revoke_row E i st = DbOk st' \<Longrightarrow>
     t_sessions st' = update_where (\<lambda>s. se_id s = i) (mark_revoked E) (t_sessions st)"
  unfolding session_Revoke_row_def stmt_def by (cases "db_err E ''session.Revoke''") auto

lemma revoke_row_dead:
  assumes "session_Revoke_row E i st = DbOk st'" and "s \<in> set (t_sessions st')" and "se_id s = i"
  shows "se_revoked s"
  using assms(2) unfolding session_Revoke_row_table [OF assms(1)]
proof (rule in_update_whereE)
  fix r assume "s = mark_revoked E r"
  then show ?thesis by (simp add: mark_revoked_def)
next
  assume "se_id s \<noteq> i"
  with assms(3) show ?thesis by simp
qed

text \<open>A revoked session never answers a cookie again, and is reported inactive.\<close>

lemma revoke_closes_cookie:
  assumes "session_Revoke E i u st = (Inr (), st')"
    and "FindByCookieToken E' raw st' = Inr (Some s)"
    and "sessions_unique st"
  shows "se_id s \<noteq> i"
proof
  assume i: "se_id s = i"
  have s: "s \<in> set (t_sessions st')" "\<not> se_revoked s"
    using FindByCookieToken_SomeD [OF assms(2)] by auto
  from assms(1) consider
      (already) s0 where "session_row st i = Some s0" "se_revoked s0" "st' = st"
    | (now) "session_Revoke_row E i st = DbOk st'"
    by (auto simp: session_Revoke_def session_FindByID_def stmt_def
        split: dbres.splits option.splits if_splits)
  then show False
  proof cases
    case already
    then have "session_row st (se_id s) = Some s"
      using s(1) assms(3) by (simp add: session_row_def sessions_unique_def first_where_key)
    with already i s(2) show False by simp
  next
    case now
    then show False using revoke_row_dead s i by blast
  qed
qed

lemma session_row_revoked:
  assumes "session_Revoke E i u st = (Inr (), st')" and "session_row st' i = Some s"
  shows "se_revoked s"
proof -
  from assms(1) consider
      (already) s0 where "session_row st i = Some s0" "se_revoked s0" "st' = st"
    | (now) "session_Revoke_row E i st = DbOk st'"
    by (auto simp: session_Revoke_def session_FindByID_def stmt_def
        split: dbres.splits option.splits if_splits)
  then show ?thesis
  proof cases
    case already
    with assms(2) show ?thesis by simp
  next
    case now
    then show ?thesis
      using assms(2) revoke_row_dead by (auto simp: session_row_def dest: first_where_SomeD)
  qed
qed

lemma revoke_makes_inactive:
  assumes "session_Revoke E i u st = (Inr (), st')" and "session_IsActive E' i st' = Inr b"
  shows "\<not> b"
  using session_row_revoked [OF assms(1)] assms(2)
  by (simp add: session_IsActive_def session_FindByID_def stmt_def
      split: dbres.splits option.splits if_splits)

lemma RevokeAll_table:
  assumes "session_RevokeAll E u cur st = (Inr n, st')"
  shows "t_sessions st' = update_where (revoke_match u cur) (mark_revoked E) (t_sessions st)"
    and "n = length (filter (revoke_match u cur) (t_sessions st))"
  using assms
  by (simp_all add: session_RevokeAll_def RevokeAllForUser_def stmt_def split: if_splits) auto

lemma revoked_row_dead: "revoke_match u cur s \<Longrightarrow> se_revoked (mark_revoked E s)"
  by (simp add: mark_revoked_def)

lemma RevokeAll_keeps_only_current:
  assumes "session_RevokeAll E u cur st = (Inr n, st')" and "s \<in> set (t_sessions st')"
    and "se_user_id s = u" and "\<not> se_revoked s"
  shows "cur = Some (se_id s)"
proof -
  from assms(2) obtain r where "r \<in> set (t_sessions st)"
    and r: "s = (if revoke_match u cur r then mark_revoked E r else r)"
    unfolding RevokeAll_table(1) [OF assms(1)] set_update_where by blast
  then have "\<not> revoke_match u cur r" using assms(4) revoked_row_dead by metis
  with r have "\<not> revoke_match u cur s" by simp
  with assms(3,4) show ?thesis by (simp add: revoke_match_def)
qed

lemma RevokeAll_other_users:
  assumes "session_RevokeAll E u cur st = (Inr n, st')" and "se_user_id s \<noteq> u"
    and "s \<in> set (t_sessions st)"
  shows "s \<in> set (t_sessions st')"
  unfolding RevokeAll_table(1) [OF assms(1)] set_update_where
  using assms(2,3) by (intro bexI [of _ s]) (simp_all add: revoke_match_def)

end
