(* ===== verification/Mfa.thy ===== *)
theory Mfa
  imports Store
begin

text \<open>
  Second factors (\<^verbatim>\<open>mfa/service.go\<close> over \<^verbatim>\<open>mfa/repository.go\<close>): TOTP enrolment and activation, the
  check of a TOTP or backup code at login with its replay guard, and removal. The TOTP
  computation of \<^verbatim>\<open>pquerna/otp\<close> is the environment's \<open>totp_validate\<close>, read at the server's clock.
\<close>

section \<open>Repository\<close>

definition FindByUserAndType :: "env \<Rightarrow> uuid \<Rightarrow> string \<Rightarrow> db \<Rightarrow> mfa_method option dbres" where
  "FindByUserAndType E u ty st = stmt E ''mfa.FindByUserAndType''
     (first_where (\<lambda>m. mf_user_id m = u \<and> mf_type m = ty) (t_mfa_methods st))"

definition verified_method :: "db \<Rightarrow> uuid \<Rightarrow> mfa_method option" where
  "verified_method st u = first_where (\<lambda>m. mf_user_id m = u \<and> mf_verified m) (t_mfa_methods st)"

definition FindVerifiedByUser :: "env \<Rightarrow> uuid \<Rightarrow> db \<Rightarrow> mfa_method option dbres" where
  "FindVerifiedByUser E u st = stmt E ''mfa.FindVerifiedByUser'' (verified_method st u)"

definition mfa_Create :: "env \<Rightarrow> mfa_method \<Rightarrow> db \<Rightarrow> mfa_method dbres \<times> db" where
  "mfa_Create E m st =
     (case new_uuid E st of
        (None, st1) \<Rightarrow> (DbErr, st1)
      | (Some i, st1) \<Rightarrow>
          (case stmt_opt E ''mfa.Create'' (map_option (\<lambda>t. st1\<lparr>t_mfa_methods := t\<rparr>)
                  (insert_row mf_id (m\<lparr>mf_id := i\<rparr>) (t_mfa_methods st1))) of
             DbErr \<Rightarrow> (DbErr, st1)
           | DbOk st2 \<Rightarrow> (DbOk (m\<lparr>mf_id := i\<rparr>), st2)))"

definition mfa_Update :: "env \<Rightarrow> mfa_method \<Rightarrow> db \<Rightarrow> db dbres" where
  "mfa_Update E m st = stmt E ''mfa.Update'' (st\<lparr>t_mfa_methods := save_row mf_id m (t_mfa_methods st)\<rparr>)"

definition mfa_Delete :: "env \<Rightarrow> uuid \<Rightarrow> db \<Rightarrow> db dbres" where
  "mfa_Delete E i st = stmt E ''mfa.Delete''
     (st\<lparr>t_mfa_methods := delete_where (\<lambda>m. mf_id m = i) (t_mfa_methods st)\<rparr>)"

lemmas [repo_defs] = FindByUserAndType_def FindVerifiedByUser_def mfa_Update_def mfa_Delete_def

section \<open>Service\<close>

definition totpPeriodSeconds :: int where
  "totpPeriodSeconds = 30"

definition backupCodeCount :: nat where
  "backupCodeCount = 10"

definition totp_step :: "time \<Rightarrow> int" where
  "totp_step t = trunc_div (unix t) totpPeriodSeconds"

text \<open>\<open>Enroll\<close> returns the secret, its provisioning URL and the stored method.\<close>

definition mfa_Enroll :: "env \<Rightarrow> uuid \<Rightarrow> string \<Rightarrow> db \<Rightarrow> (string \<times> string \<times> mfa_method) res \<times> db" where
  "mfa_Enroll E u email st =
     (case FindByUserAndType E u ''totp'' st of
        DbErr \<Rightarrow> (Inl (ErrInternal ''failed to check existing MFA''), st)
      | DbOk existing \<Rightarrow>
          if (case existing of None \<Rightarrow> False | Some m \<Rightarrow> mf_verified m)
          then (Inl (ErrConflict ''TOTP already enrolled and verified''), st)
          else
            (let st1 = (case existing of None \<Rightarrow> st | Some m \<Rightarrow> db_ignore st (mfa_Delete E (mf_id m) st))
             in case totp_generate E (draws st1) email of
                  None \<Rightarrow> (Inl (ErrInternal ''failed to generate TOTP key''), bump st1)
                | Some (secret, url) \<Rightarrow>
                    (case mfa_Create E \<lparr>mf_id = uuid_nil, mf_user_id = u, mf_type = ''totp'',
                            mf_secret = secret, mf_verified = False, mf_backup_codes = [],
                            mf_last_used_totp_step = 0\<rparr> (bump st1) of
                       (DbErr, st2) \<Rightarrow> (Inl (ErrInternal ''failed to save MFA method''), st2)
                     | (DbOk m, st2) \<Rightarrow> (Inr (secret, url, m), st2))))"

fun draw_backup_codes :: "env \<Rightarrow> nat \<Rightarrow> db \<Rightarrow> string list option \<times> db" where
  "draw_backup_codes E 0 st = (Some [], st)"
| "draw_backup_codes E (Suc n) st =
     (case GenerateRandomString E 6 st of
        (None, st1) \<Rightarrow> (None, st1)
      | (Some code, st1) \<Rightarrow>
          (case draw_backup_codes E n st1 of
             (None, st2) \<Rightarrow> (None, st2)
           | (Some codes, st2) \<Rightarrow> (Some (code # codes), st2)))"

definition generateBackupCodes :: "env \<Rightarrow> db \<Rightarrow> (string list \<times> string list) option \<times> db" where
  "generateBackupCodes E st =
     (case draw_backup_codes E backupCodeCount st of
        (None, st1) \<Rightarrow> (None, st1)
      | (Some raw, st1) \<Rightarrow> (Some (raw, map (HashToken (sha256 E)) raw), st1))"

definition mfa_Verify :: "env \<Rightarrow> uuid \<Rightarrow> string \<Rightarrow> db \<Rightarrow> string list res \<times> db" where
  "mfa_Verify E u code st =
     (case db_maybe (FindByUserAndType E u ''totp'' st) of
        None \<Rightarrow> (Inl (ErrNotFound ''no TOTP enrollment found''), st)
      | Some m \<Rightarrow>
          if mf_verified m then (Inl (ErrBadRequest ''TOTP already verified''), st)
          else if \<not> totp_validate E (wall E) code (mf_secret m)
          then (Inl (ErrBadRequest ''invalid TOTP code''), st)
          else (case generateBackupCodes E st of
                  (None, st1) \<Rightarrow> (Inl (ErrInternal ''failed to generate backup codes''), st1)
                | (Some (raw, hashed), st1) \<Rightarrow>
                    (case mfa_Update E (m\<lparr>mf_verified := True, mf_backup_codes := hashed\<rparr>) st1 of
                       DbErr \<Rightarrow> (Inl (ErrInternal ''failed to activate TOTP''), st1)
                     | DbOk st2 \<Rightarrow> (Inr raw, st2))))"

text \<open>The backup-code loop removes the first stored hash that matches.\<close>

definition mfa_ValidateCode :: "env \<Rightarrow> uuid \<Rightarrow> string \<Rightarrow> db \<Rightarrow> bool res \<times> db" where
  "mfa_ValidateCode E u code st =
     (case db_maybe (FindVerifiedByUser E u st) of
        None \<Rightarrow> (Inr False, st)
      | Some m \<Rightarrow>
          if totp_validate E (wall E) code (mf_secret m)
          then
            (let currentStep = totp_step (wall E)
             in if currentStep \<le> mf_last_used_totp_step m
                then (Inl (ErrUnauthorized ''TOTP code already used; wait for the next code''), st)
                else (case mfa_Update E (m\<lparr>mf_last_used_totp_step := currentStep\<rparr>) st of
                        DbErr \<Rightarrow> (Inl (ErrInternal ''authentication failed; please retry''), st)
                      | DbOk st1 \<Rightarrow> (Inr True, st1)))
          else
            (let codeHash = HashToken (sha256 E) code
             in if List.member (mf_backup_codes m) codeHash
                then (case mfa_Update E (m\<lparr>mf_backup_codes := remove1 codeHash (mf_backup_codes m)\<rparr>) st of
                        DbErr \<Rightarrow> (Inl (ErrInternal ''authentication failed; please retry''), st)
                      | DbOk st1 \<Rightarrow> (Inr True, st1))
                else (Inr False, st)))"

definition HasMFA :: "env \<Rightarrow> uuid \<Rightarrow> db \<Rightarrow> bool res" where
  "HasMFA E u st =
     (case FindVerifiedByUser E u st of
        DbErr \<Rightarrow> Inl (DriverError ''mfa.FindVerifiedByUser'')
      | DbOk m \<Rightarrow> Inr (m \<noteq> None))"

definition mfa_ForceDisable :: "env \<Rightarrow> uuid \<Rightarrow> db \<Rightarrow> unit res \<times> db" where
  "mfa_ForceDisable E u st =
     (case FindVerifiedByUser E u st of
        DbErr \<Rightarrow> (Inl (ErrInternal ''failed to look up MFA''), st)
      | DbOk None \<Rightarrow> (Inr (), st)
      | DbOk (Some m) \<Rightarrow>
          (case mfa_Delete E (mf_id m) st of
             DbErr \<Rightarrow> (Inl (ErrInternal ''failed to disable MFA''), st)
           | DbOk st1 \<Rightarrow> (Inr (), st1)))"

definition mfa_Disable :: "env \<Rightarrow> uuid \<Rightarrow> string \<Rightarrow> db \<Rightarrow> unit res \<times> db" where
  "mfa_Disable E u code st =
     (case db_maybe (FindVerifiedByUser E u st) of
        None \<Rightarrow> (Inl (ErrNotFound ''no verified MFA method found''), st)
      | Some m \<Rightarrow>
          if \<not> totp_validate E (wall E) code (mf_secret m)
          then (Inl (ErrBadRequest ''invalid TOTP code''), st)
          else (case mfa_Delete E (mf_id m) st of
                  DbErr \<Rightarrow> (Inl (ErrInternal ''failed to disable MFA''), st)
                | DbOk st1 \<Rightarrow> (Inr (), st1)))"

definition RegenerateBackupCodes :: "env \<Rightarrow> uuid \<Rightarrow> string \<Rightarrow> db \<Rightarrow> string list res \<times> db" where
  "RegenerateBackupCodes E u code st =
     (case db_maybe (FindVerifiedByUser E u st) of
        None \<Rightarrow> (Inl (ErrNotFound ''no verified MFA method found''), st)
      | Some m \<Rightarrow>
          if \<not> totp_validate E (wall E) code (mf_secret m)
          then (Inl (ErrBadRequest ''invalid TOTP code''), st)
          else (case generateBackupCodes E st of
                  (None, st1) \<Rightarrow> (Inl (ErrInternal ''failed to generate backup codes''), st1)
                | (Some (raw, hashed), st1) \<Rightarrow>
                    (case mfa_Update E (m\<lparr>mf_backup_codes := hashed\<rparr>) st1 of
                       DbErr \<Rightarrow> (Inl (ErrInternal ''failed to save backup codes''), st1)
                     | DbOk st2 \<Rightarrow> (Inr raw, st2))))"

section \<open>Lemmas\<close>

text \<open>The partial unique index allows one verified method of a type for each user; TOTP is the
  only type, so one verified method in all. Ids are primary keys.\<close>

definition mfa_inv :: "db \<Rightarrow> bool" where
  "mfa_inv st \<longleftrightarrow> keys_unique mf_id (t_mfa_methods st) \<and>
     (\<forall>m \<in> set (t_mfa_methods st). \<forall>m' \<in> set (t_mfa_methods st).
        mf_verified m \<and> mf_verified m' \<and> mf_user_id m = mf_user_id m' \<longrightarrow> m = m')"

lemma verified_methodD:
  "verified_method st u = Some m \<Longrightarrow> m \<in> set (t_mfa_methods st) \<and> mf_user_id m = u \<and> mf_verified m"
  unfolding verified_method_def by (drule first_where_SomeD) simp

text \<open>Saving a changed version of a user's verified method makes it the one found next.\<close>

lemma verified_method_after_save:
  assumes inv: "mfa_inv st" and m: "verified_method st u = Some m"
    and m': "mf_id m' = mf_id m" "mf_user_id m' = u" "mf_verified m'"
  shows "verified_method (st\<lparr>t_mfa_methods := save_row mf_id m' (t_mfa_methods st)\<rparr>) u = Some m'"
proof -
  let ?t = "save_row mf_id m' (t_mfa_methods st)"
  have mem: "m \<in> set (t_mfa_methods st)" using verified_methodD [OF m] by simp
  have t: "?t = map (\<lambda>x. if mf_id x = mf_id m then m' else x) (t_mfa_methods st)"
    using mem m' by (auto simp: save_row_def)
  have only: "x = m'" if x: "x \<in> set ?t" "mf_user_id x = u" "mf_verified x" for x
  proof -
    from x(1) t obtain y where y: "y \<in> set (t_mfa_methods st)"
      and xy: "x = (if mf_id y = mf_id m then m' else y)" by auto
    show ?thesis
    proof (cases "mf_id y = mf_id m")
      case True
      with xy show ?thesis by simp
    next
      case False
      with xy x have "mf_user_id y = u" "mf_verified y" by auto
      with inv y mem verified_methodD [OF m] have "y = m" unfolding mfa_inv_def by blast
      with False show ?thesis by simp
    qed
  qed
  have "m' \<in> set ?t" by (rule save_row_in)
  then have "first_where (\<lambda>m. mf_user_id m = u \<and> mf_verified m) ?t \<noteq> None"
    using m' by (auto simp: first_where_None_iff)
  then obtain x where x: "first_where (\<lambda>m. mf_user_id m = u \<and> mf_verified m) ?t = Some x" by blast
  then have "x = m'" using only first_where_SomeD [OF x] by blast
  with x show ?thesis by (simp add: verified_method_def)
qed

lemma mfa_Update_DbOk: "mfa_Update E m st = DbOk st' \<longleftrightarrow>
    \<not> db_err E ''mfa.Update'' \<and> st' = st\<lparr>t_mfa_methods := save_row mf_id m (t_mfa_methods st)\<rparr>"
  by (auto simp: mfa_Update_def stmt_def)

lemma FindVerifiedByUser_Some: "db_maybe (FindVerifiedByUser E u st) = Some m \<Longrightarrow> verified_method st u = Some m"
  by (simp add: FindVerifiedByUser_def stmt_def split: if_splits)

text \<open>An accepted code was a fresh TOTP step, or a backup code that is then struck off.\<close>

lemma mfa_ValidateCode_TrueE:
  assumes "mfa_ValidateCode E u code st = (Inr True, st')"
  obtains (totp) m where "verified_method st u = Some m" "totp_validate E (wall E) code (mf_secret m)"
      "mf_last_used_totp_step m < totp_step (wall E)"
      "st' = st\<lparr>t_mfa_methods := save_row mf_id (m\<lparr>mf_last_used_totp_step := totp_step (wall E)\<rparr>) (t_mfa_methods st)\<rparr>"
  | (backup) m where "verified_method st u = Some m"
      "HashToken (sha256 E) code \<in> set (mf_backup_codes m)"
      "st' = st\<lparr>t_mfa_methods := save_row mf_id
         (m\<lparr>mf_backup_codes := remove1 (HashToken (sha256 E) code) (mf_backup_codes m)\<rparr>) (t_mfa_methods st)\<rparr>"
proof (cases "db_maybe (FindVerifiedByUser E u st)")
  case None
  with assms show ?thesis by (simp add: mfa_ValidateCode_def)
next
  case (Some m)
  show ?thesis
  proof (cases "totp_validate E (wall E) code (mf_secret m)")
    case True
    with Some assms show ?thesis
      using totp [of m] FindVerifiedByUser_Some [OF Some]
      by (auto simp: mfa_ValidateCode_def Let_def mfa_Update_DbOk split: if_splits dbres.splits)
  next
    case False
    with Some assms show ?thesis
      using backup [of m] FindVerifiedByUser_Some [OF Some]
      by (auto simp: mfa_ValidateCode_def Let_def mfa_Update_DbOk split: if_splits dbres.splits)
  qed
qed

text \<open>After an accepted TOTP code, every TOTP code presented in the same or an earlier step is
  refused with an error, whatever the code.\<close>

lemma totp_step_single_use:
  assumes inv: "mfa_inv st" and acc: "mfa_ValidateCode E u code st = (Inr True, st')"
    and m: "verified_method st u = Some m" and t: "totp_validate E (wall E) code (mf_secret m)"
    and later: "totp_step (wall E') \<le> totp_step (wall E)"
    and t': "totp_validate E' (wall E') code' (mf_secret m)" and up: "\<not> db_err E' ''mfa.FindVerifiedByUser''"
  shows "mfa_ValidateCode E' u code' st' =
    (Inl (ErrUnauthorized ''TOTP code already used; wait for the next code''), st')"
proof -
  let ?m = "m\<lparr>mf_last_used_totp_step := totp_step (wall E)\<rparr>"
  have "st' = st\<lparr>t_mfa_methods := save_row mf_id ?m (t_mfa_methods st)\<rparr>"
  proof -
    from acc m t have "mfa_Update E ?m st = DbOk st'"
      by (auto simp: mfa_ValidateCode_def FindVerifiedByUser_def stmt_def Let_def
          split: if_splits dbres.splits)
    then show ?thesis by (simp add: mfa_Update_DbOk)
  qed
  then have "verified_method st' u = Some ?m"
    using verified_method_after_save [OF inv m, of ?m] verified_methodD [OF m] by simp
  then show ?thesis
    using later t' up by (simp add: mfa_ValidateCode_def FindVerifiedByUser_def stmt_def)
qed

text \<open>A backup code works once: with distinct stored hashes, presenting it again is refused.\<close>

lemma backup_code_single_use:
  assumes inv: "mfa_inv st" and acc: "mfa_ValidateCode E u code st = (Inr True, st')"
    and m: "verified_method st u = Some m" and d: "distinct (mf_backup_codes m)"
    and nt: "\<not> totp_validate E (wall E) code (mf_secret m)"
    and nt': "\<not> totp_validate E' (wall E') code (mf_secret m)" and sha: "sha256 E' = sha256 E"
  shows "mfa_ValidateCode E' u code st' = (Inr False, st')"
proof -
  let ?h = "HashToken (sha256 E) code"
  let ?m = "m\<lparr>mf_backup_codes := remove1 ?h (mf_backup_codes m)\<rparr>"
  have "mfa_Update E ?m st = DbOk st'"
    using acc m nt by (auto simp: mfa_ValidateCode_def FindVerifiedByUser_def stmt_def Let_def
        split: if_splits dbres.splits)
  then have "st' = st\<lparr>t_mfa_methods := save_row mf_id ?m (t_mfa_methods st)\<rparr>"
    by (simp add: mfa_Update_DbOk)
  then have "verified_method st' u = Some ?m"
    using verified_method_after_save [OF inv m, of ?m] verified_methodD [OF m] by simp
  moreover have "?h \<notin> set (remove1 ?h (mf_backup_codes m))" using d by simp
  ultimately show ?thesis
    using nt' sha by (simp add: mfa_ValidateCode_def FindVerifiedByUser_def stmt_def Let_def)
qed

text \<open>The replay guard compares the server's step, not the step the code belongs to. A TOTP
  library that accepts codes of the neighbouring steps (as \<^verbatim>\<open>pquerna/otp\<close> documents) therefore lets
  one code through again as soon as the next step begins.\<close>

definition totp_window :: "env \<Rightarrow> (string \<Rightarrow> int \<Rightarrow> string) \<Rightarrow> bool" where
  "totp_window E gen \<longleftrightarrow> (\<forall>t code secret. totp_validate E t code secret =
     (code \<in> {gen secret (totp_step t - 1), gen secret (totp_step t), gen secret (totp_step t + 1)}))"

lemma totp_replayed_next_step:
  assumes inv: "mfa_inv st" and win: "totp_window E gen" "totp_window E' gen"
    and m: "verified_method st u = Some m" and fresh: "mf_last_used_totp_step m < totp_step (wall E)"
    and code: "code = gen (mf_secret m) (totp_step (wall E))"
    and nxt: "totp_step (wall E') = totp_step (wall E) + 1"
    and up: "\<And>c. \<not> db_err E c" "\<And>c. \<not> db_err E' c"
  shows "\<exists>st1 st2. mfa_ValidateCode E u code st = (Inr True, st1) \<and>
    mfa_ValidateCode E' u code st1 = (Inr True, st2)"
proof -
  let ?m = "m\<lparr>mf_last_used_totp_step := totp_step (wall E)\<rparr>"
  let ?st1 = "st\<lparr>t_mfa_methods := save_row mf_id ?m (t_mfa_methods st)\<rparr>"
  have v: "totp_validate E (wall E) code (mf_secret m)" "totp_validate E' (wall E') code (mf_secret m)"
    using win code nxt by (simp_all add: totp_window_def)
  have "mfa_ValidateCode E u code st = (Inr True, ?st1)"
    using m v fresh up by (simp add: mfa_ValidateCode_def FindVerifiedByUser_def stmt_def mfa_Update_def)
  moreover have "verified_method ?st1 u = Some ?m"
    using verified_method_after_save [OF inv m, of ?m] verified_methodD [OF m] by simp
  then have "fst (mfa_ValidateCode E' u code ?st1) = Inr True"
    using v nxt up by (simp add: mfa_ValidateCode_def FindVerifiedByUser_def stmt_def mfa_Update_def)
  then obtain st2 where "mfa_ValidateCode E' u code ?st1 = (Inr True, st2)"
    by (cases "mfa_ValidateCode E' u code ?st1") simp
  ultimately show ?thesis by blast
qed

text \<open>The code check changes second-factor rows only.\<close>

lemma mfa_ValidateCode_frame:
  "mfa_ValidateCode E u code st = (r, st') \<Longrightarrow> \<exists>t. st' = st\<lparr>t_mfa_methods := t\<rparr>"
proof -
  have same: "\<exists>t. st = st\<lparr>t_mfa_methods := t\<rparr>" by (rule exI [of _ "t_mfa_methods st"]) simp
  assume "mfa_ValidateCode E u code st = (r, st')"
  then show ?thesis
    using same
    by (auto simp: mfa_ValidateCode_def Let_def mfa_Update_def stmt_def
        split: option.splits if_splits dbres.splits)
qed

end
