(* ===== verification/Authorize.thy ===== *)
theory Authorize
  imports Tokens Sessions Mfa
begin

text \<open>
  The authorization endpoint of \<^verbatim>\<open>oauth/service.go\<close>: pushed requests, the parameter checks of
  \<open>InitAuthorize\<close>, silent authentication (\<^verbatim>\<open>prompt=none\<close> and the single-sign-on cookie), the
  login, registration, second-factor, consent, federation and e-mail steps of a pending request,
  and \<open>completeAuthorize\<close>, which turns a ready request into a session, a code and the tokens of a
  hybrid response.
\<close>

section \<open>Responses\<close>

record resource_info =
  rn_name :: string
  rn_identifier :: string
  rn_permissions :: "(string \<times> string option) list"

record authorize_response =
  az_redirect_uri :: string
  az_code :: string
  az_state :: string
  az_issuer :: string
  az_session_state :: string
  az_response_mode :: string
  az_access_token :: string
  az_token_type :: string
  az_expires_in :: int
  az_id_token :: string
  az_session_cookie :: string
  az_cookie_extended :: bool
  az_cookie_max_age :: int

record init_response =
  ir_request_id :: uuid
  ir_client_name :: string
  ir_client_id :: uuid
  ir_scopes :: "string list"
  ir_requires_login :: bool
  ir_requires_consent :: bool
  ir_resource :: "resource_info option"
  ir_login_hint :: string
  ir_display :: string
  ir_prompt :: string
  ir_response_mode :: string
  ir_redirect :: "authorize_response option"

record login_response =
  lr_request_id :: uuid
  lr_authenticated :: bool
  lr_requires_consent :: bool
  lr_requires_mfa :: bool
  lr_scopes :: "string list"

section \<open>Completion\<close>

definition computeSessionState :: "env \<Rightarrow> string \<Rightarrow> string \<Rightarrow> string \<Rightarrow> db \<Rightarrow> string \<times> db" where
  "computeSessionState E clientID redirectURI sessionID st =
     (case GenerateRandomString E 16 st of
        (salt0, st1) \<Rightarrow>
          (let origin = (case url_origin E redirectURI of None \<Rightarrow> redirectURI | Some x \<Rightarrow> x);
               salt = deref salt0
           in (hex_encode (sha256 E (clientID @ '' '' @ origin @ '' '' @ sessionID @ '' '' @ salt)) @ ''.'' @ salt,
               st1)))"

definition code_of :: "env \<Rightarrow> auth_request \<Rightarrow> uuid \<Rightarrow> uuid \<Rightarrow> string \<Rightarrow> auth_code" where
  "code_of E req u s h =
     \<lparr>ac_code_hash = h, ac_client_id = ar_client_id req, ac_user_id = u,
      ac_redirect_uri = ar_redirect_uri req, ac_scopes = ar_scopes req,
      ac_code_challenge = ar_code_challenge req,
      ac_code_challenge_method =
        (if ar_code_challenge req = None then None else ar_code_challenge_method req),
      ac_nonce = ar_nonce req, ac_session_id = Some s, ac_audience = ar_audience req,
      ac_claims_param = ar_claims_param req, ac_auth_time = ar_auth_time req,
      ac_auth_methods = ar_auth_methods req,
      ac_expires_at = clk E + cfg_auth_code_ttl (cfg E), ac_used = False, ac_created_at = zero_time\<rparr>"

definition code_response :: "env \<Rightarrow> auth_request \<Rightarrow> session \<Rightarrow> string \<Rightarrow> string \<Rightarrow> string \<Rightarrow> authorize_response" where
  "code_response E req s cookie rawCode session_state =
     \<lparr>az_redirect_uri = ar_redirect_uri req, az_code = rawCode, az_state = deref (ar_state req),
      az_issuer = issuer E, az_session_state = session_state,
      az_response_mode = deref (ar_response_mode req), az_access_token = [], az_token_type = [],
      az_expires_in = 0, az_id_token = [], az_session_cookie = cookie,
      az_cookie_extended = se_extended s,
      az_cookie_max_age = whole_seconds (time_sub (se_expires_at s) (clk E))\<rparr>"

definition hybrid_access ::
  "env \<Rightarrow> auth_request \<Rightarrow> uuid \<Rightarrow> uuid \<Rightarrow> authorize_response \<Rightarrow> db \<Rightarrow> authorize_response res \<times> db" where
  "hybrid_access E req u s resp st =
     (if \<not> responseTypeIncludes (ar_response_type req) ''token'' then (Inr resp, st)
      else case findClient E (uuid_string E (ar_client_id req)) st of
             Inl _ \<Rightarrow> (Inl (ErrServerError ''failed to look up client''), st)
           | Inr c \<Rightarrow>
               (case GenerateOpaqueToken E st of
                  (None, st1) \<Rightarrow> (Inl (ErrServerError ''failed to generate access token''), st1)
                | (Some (raw, h), st1) \<Rightarrow>
                    (case CreateAccessToken E
                            \<lparr>at_id = h, at_client_id = cl_id c, at_user_id = Some u, at_session_id = Some s,
                             at_refresh_token_id = None, at_scopes = ar_scopes req,
                             at_audience = ar_audience req, at_jti = None,
                             at_expires_at = clk E + seconds (cl_access_token_ttl c), at_revoked = False,
                             at_created_at = zero_time\<rparr> st1 of
                       DbErr \<Rightarrow> (Inl (ErrServerError ''failed to store access token''), st1)
                     | DbOk st2 \<Rightarrow>
                         (Inr (resp\<lparr>az_access_token := raw, az_token_type := ''Bearer'',
                                    az_expires_in := cl_access_token_ttl c\<rparr>), st2))))"

definition generateHybridIDToken ::
  "env \<Rightarrow> (nat \<Rightarrow> id_token_claims \<Rightarrow> string option) \<Rightarrow> id_token_claims \<Rightarrow> string \<Rightarrow> string \<Rightarrow> string \<Rightarrow> db \<Rightarrow>
   string option \<times> db" where
  "generateHybridIDToken E gen claims code accessToken state st =
     (gen (draws st)
        (claims\<lparr>it_c_hash := computeATHash (sha256 E) code,
                it_at_hash := (if accessToken \<noteq> [] then computeATHash (sha256 E) accessToken else it_at_hash claims),
                it_s_hash := (if state \<noteq> [] then computeATHash (sha256 E) state else it_s_hash claims)\<rparr>),
      bump st)"

definition hybrid_id_token ::
  "env \<Rightarrow> auth_request \<Rightarrow> uuid \<Rightarrow> authorize_response \<Rightarrow> db \<Rightarrow> authorize_response res \<times> db" where
  "hybrid_id_token E req u resp st =
     (case id_token_gen E of
        None \<Rightarrow> (Inr resp, st)
      | Some gen \<Rightarrow>
          if \<not> responseTypeIncludes (ar_response_type req) ''id_token'' then (Inr resp, st)
          else case findClient E (uuid_string E (ar_client_id req)) st of
                 Inl _ \<Rightarrow> (Inl (ErrServerError ''failed to look up client''), st)
               | Inr c \<Rightarrow>
                   (let claims =
                      \<lparr>it_user_id = u, it_client_id = ar_client_id req, it_scopes = ar_scopes req,
                       it_nonce = deref (ar_nonce req),
                       it_auth_time = (case ar_auth_time req of None \<Rightarrow> clk E | Some t \<Rightarrow> t),
                       it_at_hash = [], it_c_hash = [], it_s_hash = [],
                       it_ttl = seconds (cl_id_token_ttl c), it_requested_claims = [],
                       it_acr = fst (computeACR (ar_auth_methods req)),
                       it_amr = snd (computeACR (ar_auth_methods req)),
                       it_subject_type = cl_subject_type c,
                       it_sector_identifier = deref (cl_sector_identifier_uri c), it_extra_claims = None,
                       it_enc_jwks_uri = [], it_enc_alg = [], it_enc_enc = []\<rparr>
                    in case generateHybridIDToken E gen claims (az_code resp) (az_access_token resp)
                              (az_state resp) st of
                         (None, st1) \<Rightarrow> (Inr resp, st1)
                       | (Some idt, st1) \<Rightarrow> (Inr (resp\<lparr>az_id_token := idt\<rparr>), st1)))"

definition hybrid_tokens ::
  "env \<Rightarrow> auth_request \<Rightarrow> uuid \<Rightarrow> uuid \<Rightarrow> authorize_response \<Rightarrow> db \<Rightarrow> authorize_response res \<times> db" where
  "hybrid_tokens E req u s resp st =
     (if \<not> isHybridResponseType (ar_response_type req) then (Inr resp, st)
      else case hybrid_access E req u s
                  (if az_response_mode resp = [] then resp\<lparr>az_response_mode := ''fragment''\<rparr> else resp) st of
             (Inl e, st1) \<Rightarrow> (Inl e, st1)
           | (Inr resp1, st1) \<Rightarrow> hybrid_id_token E req u resp1 st1)"

text \<open>The request is deleted after the session is created and before the code exists; a failing
  deletion is only logged. A request without a user is a nil dereference.\<close>

definition completeAuthorize ::
  "env \<Rightarrow> auth_request \<Rightarrow> string \<Rightarrow> string \<Rightarrow> db \<Rightarrow> authorize_response res \<times> db" where
  "completeAuthorize E req ip ua st =
     (case ar_user_id req of
        None \<Rightarrow> (Inl (DriverError ''panic: nil user''), st)
      | Some u \<Rightarrow>
     (case session_Create_op E u ip ua (ar_remember_me req) st of
        (Inl _, st1) \<Rightarrow> (Inl (ErrServerError ''failed to create session''), st1)
      | (Inr (s, cookie), st1) \<Rightarrow>
     (case GenerateOpaqueToken E (db_ignore st1 (DeleteAuthRequest E (ar_id req) st1)) of
        (None, st3) \<Rightarrow> (Inl (ErrServerError ''failed to generate authorization code''), st3)
      | (Some (rawCode, codeHash), st3) \<Rightarrow>
     (case CreateAuthCode E (code_of E req u (se_id s) codeHash) st3 of
        DbErr \<Rightarrow> (Inl (ErrServerError ''failed to create authorization code''), st3)
      | DbOk st4 \<Rightarrow>
     (case computeSessionState E (uuid_string E (ar_client_id req)) (ar_redirect_uri req)
             (uuid_string E (se_id s)) st4 of
        (session_state, st5) \<Rightarrow>
          hybrid_tokens E req u (se_id s) (code_response E req s cookie rawCode session_state) st5)))))"

section \<open>Pushed authorization requests\<close>

definition par_uri :: "env \<Rightarrow> uuid \<Rightarrow> string" where
  "par_uri E u = ''urn:ietf:params:oauth:request_uri:'' @ uuid_string E u"

definition CreatePAR :: "env \<Rightarrow> client \<Rightarrow> authorize_params \<Rightarrow> db \<Rightarrow> (string \<times> int) res \<times> db" where
  "CreatePAR E c p st =
     (if \<not> isValidResponseType (p_response_type p)
      then (Inl (ErrUnsupportedResponseType ''invalid response_type''), st)
      else if \<not> HasRedirectURI c (p_redirect_uri p)
      then (Inl (ErrInvalidRequest ''invalid redirect_uri''), st)
      else (case new_uuid E st of
              (None, st1) \<Rightarrow> (Inl (DriverError ''panic: uuid''), st1)
            | (Some u, st1) \<Rightarrow>
                (case CreatePAR_row E \<lparr>pr_request_uri = par_uri E u, pr_client_id = cl_id c,
                        pr_params = marshal_params E p, pr_expires_at = clk E + seconds 60\<rparr> st1 of
                   DbErr \<Rightarrow> (Inl (ErrServerError ''failed to store PAR''), st1)
                 | DbOk st2 \<Rightarrow> (Inr (par_uri E u, 60), st2))))"

section \<open>Checking the parameters\<close>

text \<open>The tests of \<^verbatim>\<open>InitAuthorize\<close> in the source's order; the result is the parsed \<^verbatim>\<open>max_age\<close>.\<close>

definition check_max_age :: "string \<Rightarrow> int option res" where
  "check_max_age s =
     (if s = [] then Inr None
      else case atoi s of
             None \<Rightarrow> Inl (ErrInvalidRequest ''max_age must be a non-negative integer'')
           | Some v \<Rightarrow> if v < 0 then Inl (ErrInvalidRequest ''max_age must be a non-negative integer'')
                        else Inr (Some v))"

definition one_of :: "string \<Rightarrow> string list \<Rightarrow> bool" where
  "one_of s allowed \<longleftrightarrow> s = [] \<or> List.member allowed s"

definition init_checks :: "env \<Rightarrow> client \<Rightarrow> authorize_params \<Rightarrow> int option res" where
  "init_checks E c p =
     (if \<not> isValidResponseType (p_response_type p)
      then Inl (ErrUnsupportedResponseType
             ''supported response_types: code, code id_token, code token, code id_token token'')
      else if \<not> HasRedirectURI c (p_redirect_uri p) then Inl (ErrInvalidRequest ''invalid redirect_uri'')
      else if \<not> HasGrantType c ''authorization_code''
      then Inl (ErrUnauthorizedClient ''client is not authorized for authorization_code grant'')
      else if (cl_is_public c \<or> cl_require_pkce c) \<and> p_code_challenge p = []
      then Inl (ErrInvalidRequest ''PKCE (code_challenge) is required'')
      else if p_code_challenge p \<noteq> [] \<and> p_code_challenge_method p \<noteq> ''S256'' \<and> p_code_challenge_method p \<noteq> []
      then Inl (ErrInvalidRequest ''only S256 code_challenge_method is supported'')
      else if \<not> one_of (p_prompt p) [''none'', ''login'', ''consent'', ''select_account'']
      then Inl (ErrInvalidRequest ''invalid prompt value'')
      else if \<not> one_of (p_display p) [''page'', ''popup'', ''touch'', ''wap'']
      then Inl (ErrInvalidRequest ''invalid display value'')
      else if \<not> one_of (p_response_mode p) [''query'', ''fragment'', ''form_post'']
      then Inl (ErrInvalidRequest ''invalid response_mode value'')
      else (case check_max_age (p_max_age p) of
              Inl e \<Rightarrow> Inl e
            | Inr max_age \<Rightarrow>
                if p_claims p \<noteq> [] \<and> \<not> json_valid E (p_claims p)
                then Inl (ErrInvalidRequest ''invalid claims parameter: must be valid JSON'')
                else if p_prompt p = ''select_account''
                then Inl (ErrAccountSelectionRequired ''account selection is not supported'')
                else Inr max_age))"

definition resource_info_of :: "api_resource \<Rightarrow> resource_info" where
  "resource_info_of r = \<lparr>rn_name = res_name r, rn_identifier = res_identifier r,
     rn_permissions = map (\<lambda>p. (pm_name p, pm_description p)) (res_permissions r)\<rparr>"

definition init_scopes ::
  "env \<Rightarrow> client \<Rightarrow> authorize_params \<Rightarrow> (string list \<times> string option \<times> resource_info option) res" where
  "init_scopes E c p =
     (let requested = parseSpaceDelimited (p_scope p);
          clientScopes = ValidateScopes c requested;
          plain = (if clientScopes = [] then Inl (ErrInvalidScope ''no valid scopes requested'')
                   else Inr (clientScopes, None, None))
      in case resource_validator E of
           None \<Rightarrow> plain
         | Some rv \<Rightarrow>
             if p_audience p = [] then plain
             else (case rv_audience rv (p_audience p) of
                     Inl e \<Rightarrow> Inl e
                   | Inr r \<Rightarrow>
                       (case rv_client_scopes rv (cl_id c) (res_id r) requested of
                          Inl e \<Rightarrow> Inl e
                        | Inr ss \<Rightarrow>
                            if ss = [] then Inl (ErrInvalidScope ''client has no permissions for this resource'')
                            else Inr (unionScopes clientScopes ss, Some (p_audience p),
                                      Some (resource_info_of r)))))"

section \<open>Building the request row\<close>

text \<open>The fields every kind of request takes from the parameters.\<close>

definition base_request :: "client \<Rightarrow> authorize_params \<Rightarrow> string list \<Rightarrow> string option \<Rightarrow> time \<Rightarrow> auth_request" where
  "base_request c p scopes aud expires =
     \<lparr>ar_id = uuid_nil, ar_client_id = cl_id c, ar_redirect_uri = p_redirect_uri p,
      ar_response_type = p_response_type p, ar_scopes = scopes, ar_state = non_empty (p_state p),
      ar_nonce = non_empty (p_nonce p), ar_code_challenge = non_empty (p_code_challenge p),
      ar_code_challenge_method =
        (if p_code_challenge p = [] then None else Some (p_code_challenge_method p)),
      ar_user_id = None, ar_authenticated = False, ar_consent_given = False, ar_audience = aud,
      ar_prompt = None, ar_max_age = None, ar_display = None, ar_ui_locales = None,
      ar_claims_locales = None, ar_acr_values = None, ar_login_hint = None,
      ar_claims_param = non_empty (p_claims p), ar_id_token_hint = None, ar_auth_time = None,
      ar_response_mode = None, ar_auth_methods = [], ar_remember_me = False, ar_expires_at = expires\<rparr>"

definition interactive_request ::
  "env \<Rightarrow> client \<Rightarrow> authorize_params \<Rightarrow> string list \<Rightarrow> string option \<Rightarrow> int option \<Rightarrow> auth_request" where
  "interactive_request E c p scopes aud max_age =
     (base_request c p scopes aud (clk E + minutes 10))
       \<lparr>ar_prompt := non_empty (p_prompt p), ar_max_age := max_age, ar_display := non_empty (p_display p),
        ar_ui_locales := non_empty (p_ui_locales p), ar_claims_locales := non_empty (p_claims_locales p),
        ar_acr_values := non_empty (p_acr_values p), ar_login_hint := non_empty (p_login_hint p),
        ar_id_token_hint := non_empty (p_id_token_hint p),
        ar_response_mode := non_empty (p_response_mode p)\<rparr>"

definition silent_response ::
  "client \<Rightarrow> uuid \<Rightarrow> string list \<Rightarrow> authorize_response option \<Rightarrow> init_response" where
  "silent_response c i scopes redirect =
     \<lparr>ir_request_id = i, ir_client_name = cl_name c, ir_client_id = cl_id c, ir_scopes = scopes,
      ir_requires_login = False, ir_requires_consent = False, ir_resource = None, ir_login_hint = [],
      ir_display = [], ir_prompt = [], ir_response_mode = [], ir_redirect = redirect\<rparr>"

definition consent_covers :: "env \<Rightarrow> uuid \<Rightarrow> uuid \<Rightarrow> string list \<Rightarrow> db \<Rightarrow> bool" where
  "consent_covers E u c scopes st =
     (case FindActiveConsent E u c st of
        DbErr \<Rightarrow> scopes = []
      | DbOk None \<Rightarrow> False
      | DbOk (Some co) \<Rightarrow> CoversScopes co scopes)"

section \<open>\<^verbatim>\<open>prompt=none\<close>\<close>

definition handlePromptNone ::
  "env \<Rightarrow> client \<Rightarrow> authorize_params \<Rightarrow> string list \<Rightarrow> string option \<Rightarrow> db \<Rightarrow> init_response res \<times> db" where
  "handlePromptNone E c p scopes aud st =
     (case id_token_validator E of
        None \<Rightarrow> (Inl (ErrLoginRequired ''prompt=none requires id_token_hint''), st)
      | Some validate \<Rightarrow>
          if p_id_token_hint p = [] then (Inl (ErrLoginRequired ''prompt=none requires id_token_hint''), st)
          else (case validate (p_id_token_hint p) of
                  None \<Rightarrow> (Inl (ErrLoginRequired ''invalid id_token_hint''), st)
                | Some u \<Rightarrow>
                    if \<not> consent_covers E u (cl_id c) scopes st \<and> \<not> cl_is_first_party c
                    then (Inl (ErrConsentRequired ''user has not consented to the requested scopes''), st)
                    else (case CreateAuthRequest E
                                 ((base_request c p scopes aud (clk E + minutes 1))
                                    \<lparr>ar_user_id := Some u, ar_authenticated := True,
                                     ar_consent_given := True, ar_auth_time := Some (clk E)\<rparr>) st of
                            (DbErr, st1) \<Rightarrow> (Inl (ErrServerError ''failed to create authorization request''), st1)
                          | (DbOk req, st1) \<Rightarrow>
                              (case completeAuthorize E req [] [] st1 of
                                 (Inl e, st2) \<Rightarrow> (Inl e, st2)
                               | (Inr redirect, st2) \<Rightarrow>
                                   (Inr (silent_response c (ar_id req) scopes (Some redirect)), st2)))))"

section \<open>Silent single sign-on\<close>

definition sso_request ::
  "env \<Rightarrow> client \<Rightarrow> authorize_params \<Rightarrow> string list \<Rightarrow> string option \<Rightarrow> session \<Rightarrow> bool \<Rightarrow> auth_request" where
  "sso_request E c p scopes aud s needsConsent =
     (base_request c p scopes aud (clk E + minutes 10))
       \<lparr>ar_user_id := Some (se_user_id s), ar_remember_me := se_extended s, ar_authenticated := True,
        ar_consent_given := (\<not> needsConsent), ar_auth_time := Some (se_authenticated_at s),
        ar_response_mode := non_empty (p_response_mode p)\<rparr>"

text \<open>\<open>None\<close> falls back to the interactive login.\<close>

definition trySilentSSO ::
  "env \<Rightarrow> client \<Rightarrow> authorize_params \<Rightarrow> string list \<Rightarrow> string option \<Rightarrow> resource_info option \<Rightarrow> int option \<Rightarrow>
   db \<Rightarrow> init_response option \<times> db" where
  "trySilentSSO E c p scopes aud resource max_age st =
     (case FindByCookieToken E (p_session_cookie p) st of
        Inl _ \<Rightarrow> (None, st)
      | Inr None \<Rightarrow> (None, st)
      | Inr (Some s) \<Rightarrow>
          if (case max_age of
                None \<Rightarrow> False
              | Some a \<Rightarrow> time_sub (clk E) (se_authenticated_at s) > seconds a)
          then (None, st)
          else
            (let needsConsent =
                   (p_prompt p = ''consent'' \<or>
                    \<not> cl_is_first_party c \<and> \<not> consent_covers E (se_user_id s) (cl_id c) scopes st)
             in case CreateAuthRequest E (sso_request E c p scopes aud s needsConsent) st of
                  (DbErr, st1) \<Rightarrow> (None, st1)
                | (DbOk req, st1) \<Rightarrow>
                    if needsConsent
                    then (Some ((silent_response c (ar_id req) scopes None)
                            \<lparr>ir_requires_consent := True, ir_resource := resource,
                             ir_response_mode := p_response_mode p\<rparr>), st1)
                    else (case completeAuthorize E req [] [] st1 of
                            (Inl _, st2) \<Rightarrow> (None, st2)
                          | (Inr redirect, st2) \<Rightarrow>
                              (Some (silent_response c (ar_id req) scopes (Some redirect)), st2))))"

section \<open>\<^verbatim>\<open>InitAuthorize\<close>\<close>

definition start_interactive ::
  "env \<Rightarrow> client \<Rightarrow> authorize_params \<Rightarrow> string list \<Rightarrow> string option \<Rightarrow> resource_info option \<Rightarrow> int option \<Rightarrow>
   db \<Rightarrow> init_response res \<times> db" where
  "start_interactive E c p scopes aud resource max_age st =
     (case CreateAuthRequest E (interactive_request E c p scopes aud max_age) st of
        (DbErr, st1) \<Rightarrow> (Inl (ErrServerError ''failed to create authorization request''), st1)
      | (DbOk req, st1) \<Rightarrow>
          (Inr \<lparr>ir_request_id = ar_id req, ir_client_name = cl_name c, ir_client_id = cl_id c,
                ir_scopes = scopes, ir_requires_login = True,
                ir_requires_consent = (\<not> cl_is_first_party c \<or> p_prompt p = ''consent''),
                ir_resource = resource, ir_login_hint = p_login_hint p, ir_display = p_display p,
                ir_prompt = p_prompt p, ir_response_mode = p_response_mode p, ir_redirect = None\<rparr>, st1))"

definition default_challenge_method :: "authorize_params \<Rightarrow> authorize_params" where
  "default_challenge_method p =
     (if p_code_challenge p \<noteq> [] \<and> p_code_challenge_method p = [] then p\<lparr>p_code_challenge_method := ''S256''\<rparr> else p)"

definition InitAuthorize :: "env \<Rightarrow> client \<Rightarrow> authorize_params \<Rightarrow> db \<Rightarrow> init_response res \<times> db" where
  "InitAuthorize E c p0 st =
     (case init_checks E c p0 of
        Inl e \<Rightarrow> (Inl e, st)
      | Inr max_age \<Rightarrow>
          (let p = default_challenge_method p0
           in case init_scopes E c p of
                Inl e \<Rightarrow> (Inl e, st)
              | Inr (scopes, aud, resource) \<Rightarrow>
                  if p_prompt p = ''none'' then handlePromptNone E c p scopes aud st
                  else if p_session_cookie p \<noteq> [] \<and> p_prompt p \<noteq> ''login''
                  then (case trySilentSSO E c p scopes aud resource max_age st of
                          (Some resp, st1) \<Rightarrow> (Inr resp, st1)
                        | (None, st1) \<Rightarrow> start_interactive E c p scopes aud resource max_age st1)
                  else start_interactive E c p scopes aud resource max_age st))"

definition InitAuthorizeFromPAR :: "env \<Rightarrow> string \<Rightarrow> string \<Rightarrow> string \<Rightarrow> db \<Rightarrow> init_response res \<times> db" where
  "InitAuthorizeFromPAR E requestURI clientIDStr sessionCookie st =
     (case FindPAR E requestURI st of
        DbErr \<Rightarrow> (Inl (ErrInvalidRequest ''invalid or expired request_uri''), st)
      | DbOk None \<Rightarrow> (Inl (ErrInvalidRequest ''invalid or expired request_uri''), st)
      | DbOk (Some par) \<Rightarrow>
          if uuid_string E (pr_client_id par) \<noteq> clientIDStr
          then (Inl (ErrInvalidRequest ''client_id mismatch''), st)
          else
            (let st1 = db_ignore st (DeletePAR E requestURI st)
             in case unmarshal_params E (pr_params par) of
                  None \<Rightarrow> (Inl (ErrServerError ''failed to parse PAR params''), st1)
                | Some p \<Rightarrow>
                    (case findClient E clientIDStr st1 of
                       Inl e \<Rightarrow> (Inl e, st1)
                     | Inr c \<Rightarrow> InitAuthorize E c (p\<lparr>p_session_cookie := sessionCookie\<rparr>) st1)))"

end
