(* ===== verification/AuthorizeSteps.thy ===== *)
theory AuthorizeSteps
  imports Authorize
begin

text \<open>
  The steps of a pending authorization request (\<^verbatim>\<open>oauth/service.go\<close> and the glue of
  \<^verbatim>\<open>oauth/handler.go\<close>): password login, registration, second factor, consent, return from a
  federation provider, return from the verification e-mail, and completion.
\<close>

section \<open>Finding the request\<close>

text \<open>The common opening of the steps: the row is there and not expired.\<close>

definition pending_request :: "env \<Rightarrow> uuid \<Rightarrow> db \<Rightarrow> auth_request res" where
  "pending_request E i st =
     (case db_maybe (FindAuthRequest E i st) of
        None \<Rightarrow> Inl (ErrInvalidRequest ''invalid or expired authorization request'')
      | Some req \<Rightarrow>
          if ar_IsExpired req (wall E) then Inl (ErrInvalidRequest ''authorization request expired'')
          else Inr req)"

definition save_request :: "env \<Rightarrow> auth_request \<Rightarrow> 'a \<Rightarrow> db \<Rightarrow> 'a res \<times> db" where
  "save_request E req v st =
     (case UpdateAuthRequest E req st of
        DbErr \<Rightarrow> (Inl (ErrServerError ''failed to update authorization request''), st)
      | DbOk st1 \<Rightarrow> (Inr v, st1))"

definition asks_consent :: "auth_request \<Rightarrow> bool" where
  "asks_consent req \<longleftrightarrow> ar_prompt req = Some ''consent''"

section \<open>Login\<close>

record login_input =
  li_request_id :: uuid
  li_email :: string
  li_password :: string
  li_remember_me :: bool

definition login_policy ::
  "env \<Rightarrow> user \<Rightarrow> client \<Rightarrow> string \<Rightarrow> string \<Rightarrow> err option" where
  "login_policy E u c ip ua =
     (case loadRoles E (us_id u) of (roles, perms) \<Rightarrow>
      (case evaluate_policy E ''login'' (BuildLoginInput (input_env_of E) u (Some c) roles perms ip ua) of
         None \<Rightarrow> None
       | Some r \<Rightarrow> if pol_deny r then Some (ErrAccessDenied (pol_deny_reason r)) else None))"

definition has_mfa :: "env \<Rightarrow> uuid \<Rightarrow> db \<Rightarrow> bool" where
  "has_mfa E u st = (mfa_configured E \<and> HasMFA E u st = Inr True)"

text \<open>The policy may force the second factor on, or off.\<close>

definition mfa_needed ::
  "env \<Rightarrow> user \<Rightarrow> client \<Rightarrow> string list \<Rightarrow> string \<Rightarrow> string \<Rightarrow> db \<Rightarrow> bool res" where
  "mfa_needed E u c scopes ip ua st =
     (case loadRoles E (us_id u) of (roles, perms) \<Rightarrow>
      (let hasMFA = has_mfa E (us_id u) st
       in case evaluate_policy E ''mfa''
                 (BuildMFAInput (input_env_of E) u (Some c) roles perms scopes hasMFA ip ua) of
            None \<Rightarrow> Inr hasMFA
          | Some r \<Rightarrow>
              if pol_deny r then Inl (ErrAccessDenied (pol_deny_reason r))
              else (case readModifyBool (case pol_modify r of None \<Rightarrow> [] | Some m \<Rightarrow> m) ''require_mfa'' of
                      None \<Rightarrow> Inr hasMFA
                    | Some v \<Rightarrow>
                        if v \<and> \<not> hasMFA
                        then Inl (ErrAccessDenied ''multi-factor authentication required but not enrolled'')
                        else Inr v)))"

definition step_response :: "auth_request \<Rightarrow> bool \<Rightarrow> bool \<Rightarrow> login_response" where
  "step_response req needsMFA needsConsent =
     \<lparr>lr_request_id = ar_id req, lr_authenticated = (\<not> needsMFA), lr_requires_consent = needsConsent,
      lr_requires_mfa = needsMFA, lr_scopes = ar_scopes req\<rparr>"

text \<open>The request row after a first factor \<open>meth\<close> of user \<open>u\<close>.\<close>

definition after_first_factor ::
  "env \<Rightarrow> uuid \<Rightarrow> string \<Rightarrow> bool \<Rightarrow> bool \<Rightarrow> auth_request \<Rightarrow> auth_request" where
  "after_first_factor E u meth needsMFA needsConsent req =
     (let req1 = req\<lparr>ar_user_id := Some u, ar_auth_methods := ar_auth_methods req @ [meth]\<rparr>;
          req2 = (if needsMFA then req1 else req1\<lparr>ar_authenticated := True, ar_auth_time := Some (clk E)\<rparr>)
      in if \<not> needsConsent \<and> ar_authenticated req2 then req2\<lparr>ar_consent_given := True\<rparr> else req2)"

definition AuthorizeLogin ::
  "env \<Rightarrow> login_input \<Rightarrow> string \<Rightarrow> string \<Rightarrow> db \<Rightarrow> login_response res \<times> db" where
  "AuthorizeLogin E inp ip ua st =
     (case pending_request E (li_request_id inp) st of
        Inl e \<Rightarrow> (Inl e, st)
      | Inr req \<Rightarrow>
          if ar_authenticated req then (Inl (ErrInvalidRequest ''already authenticated''), st)
          else (case Authenticate E (li_email inp) (li_password inp) st of
                  (Inl e, st1) \<Rightarrow> (Inl e, st1)
                | (Inr u, st1) \<Rightarrow>
          (case findClient E (uuid_string E (ar_client_id req)) st1 of
             Inl _ \<Rightarrow> (Inl (ErrServerError ''failed to look up client''), st1)
           | Inr c \<Rightarrow>
          (case login_policy E u c ip ua of
             Some e \<Rightarrow> (Inl e, st1)
           | None \<Rightarrow>
          (case mfa_needed E u c (ar_scopes req) ip ua st1 of
             Inl e \<Rightarrow> (Inl e, st1)
           | Inr needsMFA \<Rightarrow>
               (let needsConsent = (asks_consent req \<or>
                      \<not> consent_covers E (us_id u) (ar_client_id req) (ar_scopes req) st1 \<and>
                      \<not> cl_is_first_party c)
                in save_request E
                     (after_first_factor E (us_id u) ''pwd'' needsMFA needsConsent
                        (req\<lparr>ar_remember_me := li_remember_me inp\<rparr>))
                     (step_response req needsMFA needsConsent) st1))))))"

section \<open>Registration inside the flow\<close>

record register_step_input =
  rg_request_id :: uuid
  rg_email :: string
  rg_password :: string
  rg_display_name :: "string option"
  rg_extra_fields :: any_map

definition AuthorizeRegister :: "env \<Rightarrow> register_step_input \<Rightarrow> db \<Rightarrow> (uuid \<times> uuid) res \<times> db" where
  "AuthorizeRegister E inp st =
     (case pending_request E (rg_request_id inp) st of
        Inl e \<Rightarrow> (Inl e, st)
      | Inr req \<Rightarrow>
          if ar_authenticated req then (Inl (ErrInvalidRequest ''already authenticated''), st)
          else (case findClient E (uuid_string E (ar_client_id req)) st of
             Inl _ \<Rightarrow> (Inl (ErrServerError ''failed to look up client''), st)
           | Inr c \<Rightarrow>
          (case Register E \<lparr>ri_email = rg_email inp, ri_password = rg_password inp,
                   ri_display_name = rg_display_name inp, ri_extra_fields = rg_extra_fields inp,
                   ri_skip_verification_email = True\<rparr> st of
             (Inl e, st1) \<Rightarrow> (Inl e, st1)
           | (Inr u, st1) \<Rightarrow>
          (case UpdateAuthRequest E
                  (req\<lparr>ar_user_id := Some (us_id u), ar_expires_at := clk E + hours 24\<rparr>) st1 of
             DbErr \<Rightarrow> (Inl (ErrServerError ''failed to update authorization request''), st1)
           | DbOk st2 \<Rightarrow>
               (case SendVerificationEmail E (us_id u) (Some (ar_id req)) st2 of
                  (sent, st3) \<Rightarrow> (Inr (ar_id req, us_id u), st3))))))"

section \<open>Second factor\<close>

text \<open>The client is read only when no stored consent covers the scopes.\<close>

definition consent_after_mfa :: "env \<Rightarrow> auth_request \<Rightarrow> uuid \<Rightarrow> db \<Rightarrow> bool res" where
  "consent_after_mfa E req u st =
     (if consent_covers E u (ar_client_id req) (ar_scopes req) st then Inr False
      else case findClient E (uuid_string E (ar_client_id req)) st of
             Inl _ \<Rightarrow> Inl (ErrServerError ''failed to look up client'')
           | Inr c \<Rightarrow> Inr (\<not> cl_is_first_party c))"

definition after_second_factor :: "env \<Rightarrow> bool \<Rightarrow> auth_request \<Rightarrow> auth_request" where
  "after_second_factor E needsConsent req =
     (let req1 = req\<lparr>ar_authenticated := True, ar_auth_methods := ar_auth_methods req @ [''otp''],
                     ar_auth_time := Some (clk E)\<rparr>;
          req2 = (if needsConsent then req1 else req1\<lparr>ar_consent_given := True\<rparr>)
      in if asks_consent req then req2\<lparr>ar_consent_given := False\<rparr> else req2)"

definition AuthorizeMFA :: "env \<Rightarrow> uuid \<Rightarrow> string \<Rightarrow> db \<Rightarrow> login_response res \<times> db" where
  "AuthorizeMFA E i code st =
     (case pending_request E i st of
        Inl e \<Rightarrow> (Inl e, st)
      | Inr req \<Rightarrow>
          (case ar_user_id req of
             None \<Rightarrow> (Inl (ErrInvalidRequest ''must authenticate first''), st)
           | Some u \<Rightarrow>
               if ar_authenticated req then (Inl (ErrInvalidRequest ''MFA already completed''), st)
               else if \<not> mfa_configured E then (Inl (ErrServerError ''MFA validator not configured''), st)
               else (case mfa_ValidateCode E u code st of
                       (Inl _, st1) \<Rightarrow> (Inl (ErrAccessDenied ''invalid MFA code''), st1)
                     | (Inr False, st1) \<Rightarrow> (Inl (ErrAccessDenied ''invalid MFA code''), st1)
                     | (Inr True, st1) \<Rightarrow>
                         (case consent_after_mfa E req u st1 of
                            Inl e \<Rightarrow> (Inl e, st1)
                          | Inr needsConsent \<Rightarrow>
                              save_request E (after_second_factor E needsConsent req)
                                (step_response req False (needsConsent \<or> asks_consent req)) st1))))"

section \<open>Consent\<close>

definition consent_policy ::
  "env \<Rightarrow> auth_request \<Rightarrow> uuid \<Rightarrow> string list \<Rightarrow> string \<Rightarrow> string \<Rightarrow> db \<Rightarrow> string list res" where
  "consent_policy E req u granted ip ua st =
     (case (user_or_nil E u st, findClient E (uuid_string E (ar_client_id req)) st) of
        (Some usr, Inr c) \<Rightarrow>
          (case loadRoles E (us_id usr) of (roles, perms) \<Rightarrow>
           (case evaluate_policy E ''consent''
                   (BuildConsentInput (input_env_of E) usr c roles perms (ar_scopes req) granted ip ua) of
              None \<Rightarrow> Inr granted
            | Some r \<Rightarrow>
                if pol_deny r then Inl (ErrAccessDenied (pol_deny_reason r))
                else (case pol_modify r of
                        None \<Rightarrow> Inr granted
                      | Some m \<Rightarrow>
                          (case readModifyScopes m granted of
                             None \<Rightarrow> Inr granted
                           | Some ss \<Rightarrow>
                               if ss = [] then Inl (ErrAccessDenied ''policy narrowed all scopes'')
                               else Inr ss))))
      | _ \<Rightarrow> Inr granted)"

text \<open>A failing lookup yields the zero consent, whose insertion the foreign key on the user rejects.\<close>

definition store_consent :: "env \<Rightarrow> uuid \<Rightarrow> uuid \<Rightarrow> string list \<Rightarrow> db \<Rightarrow> unit res \<times> db" where
  "store_consent E u c granted st =
     (case FindActiveConsent E u c st of
        DbErr \<Rightarrow> (Inl (ErrServerError ''failed to update consent''), bump st)
      | DbOk None \<Rightarrow>
          (case CreateConsent E \<lparr>co_id = uuid_nil, co_user_id = u, co_client_id = c, co_scopes = granted,
                  co_granted_at = clk E, co_revoked_at = None\<rparr> st of
             (DbErr, st1) \<Rightarrow> (Inl (ErrServerError ''failed to store consent''), st1)
           | (DbOk st2, st1) \<Rightarrow> (Inr (), st2))
      | DbOk (Some co) \<Rightarrow>
          (case UpdateConsent E (co\<lparr>co_scopes := granted, co_granted_at := clk E\<rparr>) st of
             DbErr \<Rightarrow> (Inl (ErrServerError ''failed to update consent''), st)
           | DbOk st1 \<Rightarrow> (Inr (), st1)))"

definition AuthorizeConsent ::
  "env \<Rightarrow> uuid \<Rightarrow> string list \<Rightarrow> string \<Rightarrow> string \<Rightarrow> db \<Rightarrow> authorize_response res \<times> db" where
  "AuthorizeConsent E i granted0 ip ua st =
     (case pending_request E i st of
        Inl e \<Rightarrow> (Inl e, st)
      | Inr req \<Rightarrow>
          if \<not> ar_authenticated req then (Inl (ErrInvalidRequest ''must authenticate first''), st)
          else (case ar_user_id req of
             None \<Rightarrow> (Inl (ErrServerError ''authorization request has no user''), st)
           | Some u \<Rightarrow>
               if filterScopes granted0 (ar_scopes req) = []
               then (Inl (ErrInvalidScope ''no valid scopes granted''), st)
               else (case consent_policy E req u (filterScopes granted0 (ar_scopes req)) ip ua st of
             Inl e \<Rightarrow> (Inl e, st)
           | Inr granted \<Rightarrow>
          (case store_consent E u (ar_client_id req) granted st of
             (Inl e, st1) \<Rightarrow> (Inl e, st1)
           | (Inr _, st1) \<Rightarrow>
               (let req1 = req\<lparr>ar_consent_given := True, ar_scopes := granted\<rparr>
                in case UpdateAuthRequest E req1 st1 of
                     DbErr \<Rightarrow> (Inl (ErrServerError ''failed to update authorization request''), st1)
                   | DbOk st2 \<Rightarrow> completeAuthorize E req1 ip ua st2)))))"

section \<open>Return from a federation provider\<close>

definition ResumeAuthorizeAfterExternalLogin ::
  "env \<Rightarrow> uuid \<Rightarrow> uuid \<Rightarrow> string \<Rightarrow> db \<Rightarrow> login_response res \<times> db" where
  "ResumeAuthorizeAfterExternalLogin E i userID providerName st =
     (case pending_request E i st of
        Inl e \<Rightarrow> (Inl e, st)
      | Inr req \<Rightarrow>
          if ar_authenticated req
          then (Inl (ErrInvalidRequest ''authorization request already authenticated''), st)
          else (case GetByID E userID st of
             Inl _ \<Rightarrow> (Inl (ErrInternal ''federated user not found''), st)
           | Inr u \<Rightarrow>
               if \<not> us_active u then (Inl (ErrForbidden ''account is deactivated''), st)
               else (case findClient E (uuid_string E (ar_client_id req)) st of
             Inl _ \<Rightarrow> (Inl (ErrServerError ''failed to look up client''), st)
           | Inr c \<Rightarrow>
               (let needsMFA = has_mfa E (us_id u) st;
                    needsConsent = (asks_consent req \<or>
                      \<not> consent_covers E (us_id u) (ar_client_id req) (ar_scopes req) st \<and>
                      \<not> cl_is_first_party c)
                in save_request E
                     (after_first_factor E (us_id u) (''fed:'' @ providerName) needsMFA needsConsent req)
                     (step_response req needsMFA needsConsent) st))))"

section \<open>Completion\<close>

definition CompleteAuthorizeFirstParty ::
  "env \<Rightarrow> uuid \<Rightarrow> string \<Rightarrow> string \<Rightarrow> db \<Rightarrow> authorize_response res \<times> db" where
  "CompleteAuthorizeFirstParty E i ip ua st =
     (case db_maybe (FindAuthRequest E i st) of
        None \<Rightarrow> (Inl (ErrInvalidRequest ''invalid or expired authorization request''), st)
      | Some req \<Rightarrow>
          if \<not> ar_IsReady req (wall E)
          then (Inl (ErrInvalidRequest ''authorization request is not ready''), st)
          else completeAuthorize E req ip ua st)"

definition verified_request :: "env \<Rightarrow> auth_request \<Rightarrow> auth_request" where
  "verified_request E req =
     req\<lparr>ar_authenticated := True, ar_auth_time := Some (clk E), ar_consent_given := True,
         ar_auth_methods := ar_auth_methods req @ [''email'']\<rparr>"

text \<open>The response of the completed flow; the caller renders it as a URL.\<close>

definition CompleteAfterEmailVerification ::
  "env \<Rightarrow> uuid \<Rightarrow> uuid \<Rightarrow> string \<Rightarrow> string \<Rightarrow> db \<Rightarrow> authorize_response res \<times> db" where
  "CompleteAfterEmailVerification E i userID ip ua st =
     (case db_maybe (FindAuthRequest E i st) of
        None \<Rightarrow> (Inl (ErrInvalidRequest ''authorization request not found''), st)
      | Some req \<Rightarrow>
          if ar_IsExpired req (wall E) then (Inl (ErrInvalidRequest ''authorization request expired''), st)
          else if ar_user_id req \<noteq> Some userID
          then (Inl (ErrInvalidRequest ''authorization request does not match user''), st)
          else (case UpdateAuthRequest E (verified_request E req) st of
                  DbErr \<Rightarrow> (Inl (ErrServerError ''failed to update authorization request''), st)
                | DbOk st1 \<Rightarrow> completeAuthorize E (verified_request E req) ip ua st1))"

section \<open>The handlers\<close>

text \<open>\<^verbatim>\<open>POST /authorize/login\<close> and \<^verbatim>\<open>/authorize/mfa\<close> complete the flow at once when no consent is
  needed, whatever the response says about the second factor.\<close>

definition finish_step ::
  "env \<Rightarrow> string \<Rightarrow> string \<Rightarrow> login_response res \<times> db \<Rightarrow> (login_response + authorize_response) res \<times> db" where
  "finish_step E ip ua x =
     (case x of
        (Inl e, st1) \<Rightarrow> (Inl e, st1)
      | (Inr resp, st1) \<Rightarrow>
          if lr_requires_consent resp then (Inr (Inl resp), st1)
          else (case CompleteAuthorizeFirstParty E (lr_request_id resp) ip ua st1 of
                  (Inl e, st2) \<Rightarrow> (Inl e, st2)
                | (Inr code, st2) \<Rightarrow> (Inr (Inr code), st2)))"

definition handle_login ::
  "env \<Rightarrow> login_input \<Rightarrow> string \<Rightarrow> string \<Rightarrow> db \<Rightarrow> (login_response + authorize_response) res \<times> db" where
  "handle_login E inp ip ua st = finish_step E ip ua (AuthorizeLogin E inp ip ua st)"

definition handle_mfa ::
  "env \<Rightarrow> uuid \<Rightarrow> string \<Rightarrow> string \<Rightarrow> string \<Rightarrow> db \<Rightarrow> (login_response + authorize_response) res \<times> db" where
  "handle_mfa E i code ip ua st = finish_step E ip ua (AuthorizeMFA E i code st)"

end
