(* ===== verification/Device.thy ===== *)
theory Device
  imports Tokens Sessions
begin

text \<open>
  The device authorization grant (\<^verbatim>\<open>oauth/device.go\<close>): issue of a device and user code, display and
  approval by the user, and the polling exchange with its status machine
  pending, authorized or denied, consumed.
\<close>

section \<open>Codes\<close>

definition userCodeAlphabet :: string where
  "userCodeAlphabet = ''BCDFGHJKLMNPQRSTVWXZ''"

fun draw_user_code :: "env \<Rightarrow> nat \<Rightarrow> db \<Rightarrow> string option \<times> db" where
  "draw_user_code E 0 st = (Some [], st)"
| "draw_user_code E (Suc n) st =
     (case rand_int E (draws st) (length userCodeAlphabet) of
        None \<Rightarrow> (None, bump st)
      | Some i \<Rightarrow>
          (case draw_user_code E n (bump st) of
             (None, st1) \<Rightarrow> (None, st1)
           | (Some cs, st1) \<Rightarrow> (Some (userCodeAlphabet ! i # cs), st1)))"

definition generateUserCode :: "env \<Rightarrow> db \<Rightarrow> string option \<times> db" where
  "generateUserCode E st =
     (case draw_user_code E 8 st of
        (None, st1) \<Rightarrow> (None, st1)
      | (Some b, st1) \<Rightarrow> (Some (take 4 b @ ''-'' @ drop 4 b), st1))"

record device_response =
  dr_device_code :: string
  dr_user_code :: string
  dr_verification_uri :: string
  dr_verification_uri_complete :: string
  dr_expires_in :: int
  dr_interval :: int

definition device_grant :: string where
  "device_grant = ''urn:ietf:params:oauth:grant-type:device_code''"

definition new_device_code :: "env \<Rightarrow> client \<Rightarrow> string list \<Rightarrow> string \<Rightarrow> string \<Rightarrow> device_code" where
  "new_device_code E c scopes h userCode =
     \<lparr>dc_hash = h, dc_user_code = userCode, dc_client_id = cl_id c, dc_scopes = scopes, dc_user_id = None,
      dc_session_id = None, dc_audience = None, dc_status = ''pending'', dc_interval_secs = 5,
      dc_expires_at = clk E + cfg_device_code_ttl (cfg E), dc_last_polled_at = None, dc_created_at = zero_time\<rparr>"

definition InitDeviceAuthorization ::
  "env \<Rightarrow> client \<Rightarrow> string \<Rightarrow> string \<Rightarrow> db \<Rightarrow> device_response res \<times> db" where
  "InitDeviceAuthorization E c scope iss st =
     (if \<not> HasGrantType c device_grant
      then (Inl (ErrUnauthorizedClient ''client is not authorized for device_code grant''), st)
      else (case GenerateOpaqueToken E st of
              (None, st1) \<Rightarrow> (Inl (ErrServerError ''failed to generate device code''), st1)
            | (Some (rawCode, codeHash), st1) \<Rightarrow>
                (case generateUserCode E st1 of
                   (None, st2) \<Rightarrow> (Inl (ErrServerError ''failed to generate user code''), st2)
                 | (Some userCode, st2) \<Rightarrow>
                     (case CreateDeviceCode E
                             (new_device_code E c (ValidateScopes c (parseSpaceDelimited scope)) codeHash userCode) st2 of
                        DbErr \<Rightarrow> (Inl (ErrServerError ''failed to create device code''), st2)
                      | DbOk st3 \<Rightarrow>
                          (Inr \<lparr>dr_device_code = rawCode, dr_user_code = userCode,
                                dr_verification_uri = iss @ ''/device/verify'',
                                dr_verification_uri_complete = iss @ ''/device/verify'' @ ''?code='' @ userCode,
                                dr_expires_in = whole_seconds (cfg_device_code_ttl (cfg E)),
                                dr_interval = 5\<rparr>, st3)))))"

section \<open>Verification and approval\<close>

definition find_pending :: "env \<Rightarrow> string \<Rightarrow> db \<Rightarrow> device_code res" where
  "find_pending E userCode st =
     (case db_maybe (FindDeviceCodeByUserCode E userCode st) of
        None \<Rightarrow> Inl (ErrInvalidGrant ''invalid user code'')
      | Some dc \<Rightarrow>
          if dc_IsExpired dc (wall E) then Inl (ErrExpiredToken ''device code expired'')
          else if dc_status dc \<noteq> ''pending''
          then Inl (ErrInvalidGrant (''device code already '' @ dc_status dc))
          else Inr dc)"

definition DeviceVerify :: "env \<Rightarrow> string \<Rightarrow> db \<Rightarrow> (string \<times> string \<times> string list) res" where
  "DeviceVerify E userCode st =
     (case find_pending E userCode st of
        Inl e \<Rightarrow> Inl e
      | Inr dc \<Rightarrow>
          Inr (dc_user_code dc,
               (case findClient E (uuid_string E (dc_client_id dc)) st of Inl _ \<Rightarrow> [] | Inr c \<Rightarrow> cl_name c),
               dc_scopes dc))"

definition approval_policy :: "env \<Rightarrow> device_code \<Rightarrow> uuid \<Rightarrow> string \<Rightarrow> string \<Rightarrow> db \<Rightarrow> err option" where
  "approval_policy E dc u ip ua st =
     (case user_or_nil E u st of
        None \<Rightarrow> None
      | Some usr \<Rightarrow>
          (case loadRoles E u of (roles, perms) \<Rightarrow>
           (case evaluate_policy E ''device_approval''
                   (BuildDeviceApprovalInput (input_env_of E) usr
                      (case findClient E (uuid_string E (dc_client_id dc)) st of Inl _ \<Rightarrow> None | Inr c \<Rightarrow> Some c)
                      roles perms (dc_scopes dc) (dc_user_code dc) ip ua) of
              None \<Rightarrow> None
            | Some r \<Rightarrow> if pol_deny r then Some (ErrAccessDenied (pol_deny_reason r)) else None)))"

definition DeviceApprove ::
  "env \<Rightarrow> string \<Rightarrow> bool \<Rightarrow> uuid \<Rightarrow> string \<Rightarrow> string \<Rightarrow> db \<Rightarrow> unit res \<times> db" where
  "DeviceApprove E userCode approved u ip ua st =
     (case find_pending E userCode st of
        Inl e \<Rightarrow> (Inl e, st)
      | Inr dc \<Rightarrow>
          if \<not> approved
          then db_write ''UpdateDeviceCode'' st (UpdateDeviceCode E (dc\<lparr>dc_status := ''denied''\<rparr>) st)
          else (case approval_policy E dc u ip ua st of
                  Some e \<Rightarrow> (Inl e, st)
                | None \<Rightarrow>
                    (case session_Create_op E u ip ua False st of
                       (Inl _, st1) \<Rightarrow> (Inl (ErrServerError ''failed to create session''), st1)
                     | (Inr (s, cookie), st1) \<Rightarrow>
                         (case UpdateDeviceCode E
                                 (dc\<lparr>dc_status := ''authorized'', dc_user_id := Some u,
                                     dc_session_id := Some (se_id s)\<rparr>) st1 of
                            DbErr \<Rightarrow> (Inl (ErrServerError ''failed to update device code''), st1)
                          | DbOk st2 \<Rightarrow> (Inr (), st2)))))"

section \<open>Polling\<close>

definition polls_too_fast :: "env \<Rightarrow> device_code \<Rightarrow> bool" where
  "polls_too_fast E dc =
     (case dc_last_polled_at dc of
        None \<Rightarrow> False
      | Some t \<Rightarrow> time_sub (clk E) t < seconds (dc_interval_secs dc))"

text \<open>The tokens are issued in a transaction of their own; the row is marked consumed after it,
  and a failure to do so is ignored.\<close>

definition issue_for_device ::
  "env \<Rightarrow> client \<Rightarrow> device_code \<Rightarrow> db \<Rightarrow> token_response res \<times> db" where
  "issue_for_device E c dc st =
     (case (dc_user_id dc, dc_session_id dc) of
        (Some u, Some s) \<Rightarrow>
          (case Transaction E (issueTokensWithOpts E c u (Some s) (dc_scopes dc)
                  (no_opts\<lparr>io_auth_time := dc_created_at dc\<rparr>)) st of
             (Inl e, st1) \<Rightarrow> (Inl e, st1)
           | (Inr resp, st1) \<Rightarrow>
               (Inr resp, db_ignore st1 (UpdateDeviceCode E (dc\<lparr>dc_status := ''consumed''\<rparr>) st1)))
      | _ \<Rightarrow> (Inl (ErrInvalidGrant ''device code not properly authorized''), st))"

definition ExchangeDeviceCode :: "env \<Rightarrow> client \<Rightarrow> string \<Rightarrow> db \<Rightarrow> token_response res \<times> db" where
  "ExchangeDeviceCode E c raw st =
     (case db_maybe (FindDeviceCode E (HashToken (sha256 E) raw) st) of
        None \<Rightarrow> (Inl (ErrInvalidGrant ''invalid device code''), st)
      | Some dc0 \<Rightarrow>
          if dc_client_id dc0 \<noteq> cl_id c
          then (Inl (ErrInvalidGrant ''device code not issued to this client''), st)
          else if dc_IsExpired dc0 (wall E) then (Inl (ErrExpiredToken ''device code expired''), st)
          else if polls_too_fast E dc0 then (Inl ErrSlowDown, st)
          else
            (let dc = dc0\<lparr>dc_last_polled_at := Some (clk E)\<rparr>;
                 st1 = db_ignore st (UpdateDeviceCode E dc st)
             in if dc_status dc = ''pending'' then (Inl ErrAuthorizationPending, st1)
                else if dc_status dc = ''denied''
                then (Inl (ErrAccessDenied ''user denied the authorization request''), st1)
                else if dc_status dc = ''authorized'' then issue_for_device E c dc st1
                else (Inl (ErrInvalidGrant ''unexpected device code status''), st1)))"

end
