(* ===== verification/Introspection.thy ===== *)
theory Introspection
  imports Tokens
begin

text \<open>
  Introspection and revocation (\<^verbatim>\<open>oauth/introspect.go\<close>, \<^verbatim>\<open>oauth/revoke.go\<close>). A JWT access token is
  recognised by its two dots and verified by the signer; everything else is looked up by its hash.
  Both answer a token the caller may not see as if it did not exist.
\<close>

section \<open>Introspection\<close>

record introspect_response =
  in_active :: bool
  in_scope :: string
  in_client_id :: string
  in_username :: string
  in_token_type :: string
  in_exp :: int
  in_iat :: int
  in_sub :: string
  in_iss :: string
  in_aud :: string

definition inactive :: introspect_response where
  "inactive = \<lparr>in_active = False, in_scope = [], in_client_id = [], in_username = [], in_token_type = [],
     in_exp = 0, in_iat = 0, in_sub = [], in_iss = [], in_aud = []\<rparr>"

definition looksLikeJWT :: "string \<Rightarrow> bool" where
  "looksLikeJWT token \<longleftrightarrow> length (filter (\<lambda>c. c = CHR ''.'') token) = 2"

definition str_claim :: "any_map \<Rightarrow> string \<Rightarrow> string" where
  "str_claim claims k = (case map_of claims k of Some (AStr s) \<Rightarrow> s | _ \<Rightarrow> [])"

definition num_claim :: "any_map \<Rightarrow> string \<Rightarrow> rat option" where
  "num_claim claims k = (case map_of claims k of Some (AFloat r) \<Rightarrow> Some r | _ \<Rightarrow> None)"

definition deniedByIntrospectPolicy ::
  "env \<Rightarrow> string \<Rightarrow> uuid \<Rightarrow> uuid option \<Rightarrow> string list \<Rightarrow> string option \<Rightarrow> uuid \<Rightarrow> bool" where
  "deniedByIntrospectPolicy E ty tokenClient tokenUser scopes aud requester =
     (case evaluate_policy E ''introspect''
             (BuildIntrospectInput (input_env_of E) ty (uuid_string E tokenClient)
                (case tokenUser of None \<Rightarrow> [] | Some u \<Rightarrow> uuid_string E u) scopes aud
                (uuid_string E requester) []) of
        None \<Rightarrow> False
      | Some r \<Rightarrow> pol_deny r)"

text \<open>\<^verbatim>\<open>uuid.Parse\<close> with its error dropped yields the nil UUID.\<close>

definition parse_or_nil :: "env \<Rightarrow> string \<Rightarrow> uuid" where
  "parse_or_nil E s = (case uuid_parse E s of None \<Rightarrow> uuid_nil | Some u \<Rightarrow> u)"

definition jwt_user :: "env \<Rightarrow> any_map \<Rightarrow> uuid option" where
  "jwt_user E claims =
     (let sub = str_claim claims ''sub''
      in if sub \<noteq> [] \<and> sub \<noteq> str_claim claims ''client_id'' then uuid_parse E sub else None)"

definition introspectJWTAccessToken ::
  "env \<Rightarrow> any_map \<Rightarrow> string \<Rightarrow> uuid \<Rightarrow> db \<Rightarrow> introspect_response" where
  "introspectJWTAccessToken E claims iss requester st =
     (let clientID = str_claim claims ''client_id'';
          tokenClient = parse_or_nil E clientID;
          scopeStr = str_claim claims ''scope'';
          aud = non_empty (str_claim claims ''aud'');
          tokenUser = jwt_user E claims
      in if (case IsJTIRevoked E (str_claim claims ''jti'') st of DbErr \<Rightarrow> False | DbOk b \<Rightarrow> b) then inactive
         else if deniedByIntrospectPolicy E ''access_token'' tokenClient tokenUser
                   (parseSpaceDelimited scopeStr) aud requester then inactive
         else \<lparr>in_active = True, in_scope = scopeStr, in_client_id = clientID,
               in_username =
                 (case tokenUser of
                    None \<Rightarrow> []
                  | Some u \<Rightarrow>
                      if tokenClient = requester
                      then (case GetByID E u st of Inl _ \<Rightarrow> [] | Inr usr \<Rightarrow> us_email usr)
                      else []),
               in_token_type = ''Bearer'',
               in_exp = (case num_claim claims ''exp'' of None \<Rightarrow> 0 | Some r \<Rightarrow> trunc_rat r),
               in_iat = (case num_claim claims ''iat'' of None \<Rightarrow> 0 | Some r \<Rightarrow> trunc_rat r),
               in_sub = str_claim claims ''sub'', in_iss = iss, in_aud = deref aud\<rparr>)"

definition introspectAccessToken ::
  "env \<Rightarrow> access_token \<Rightarrow> string \<Rightarrow> uuid \<Rightarrow> db \<Rightarrow> introspect_response" where
  "introspectAccessToken E tok iss requester st =
     (if \<not> at_IsValid tok (wall E) then inactive
      else if deniedByIntrospectPolicy E ''access_token'' (at_client_id tok) (at_user_id tok) (at_scopes tok)
                (at_audience tok) requester then inactive
      else \<lparr>in_active = True, in_scope = joinScopes (at_scopes tok),
            in_client_id = uuid_string E (at_client_id tok),
            in_username =
              (case at_user_id tok of
                 None \<Rightarrow> []
               | Some u \<Rightarrow>
                   if at_client_id tok = requester
                   then (case GetByID E u st of Inl _ \<Rightarrow> [] | Inr usr \<Rightarrow> us_email usr)
                   else []),
            in_token_type = ''Bearer'', in_exp = unix (at_expires_at tok), in_iat = unix (at_created_at tok),
            in_sub = (case at_user_id tok of None \<Rightarrow> [] | Some u \<Rightarrow> uuid_string E u),
            in_iss = iss, in_aud = deref (at_audience tok)\<rparr>)"

definition introspectRefreshToken ::
  "env \<Rightarrow> refresh_token \<Rightarrow> string \<Rightarrow> uuid \<Rightarrow> introspect_response" where
  "introspectRefreshToken E rt iss requester =
     (if rt_revoked rt \<or> WasRotated rt \<or> rt_expires_at rt < clk E then inactive
      else if deniedByIntrospectPolicy E ''refresh_token'' (rt_client_id rt) (Some (rt_user_id rt)) (rt_scopes rt)
                (rt_audience rt) requester then inactive
      else \<lparr>in_active = True, in_scope = joinScopes (rt_scopes rt),
            in_client_id = uuid_string E (rt_client_id rt), in_username = [],
            in_token_type = ''refresh_token'', in_exp = unix (rt_expires_at rt),
            in_iat = unix (rt_created_at rt), in_sub = uuid_string E (rt_user_id rt),
            in_iss = iss, in_aud = deref (rt_audience rt)\<rparr>)"

text \<open>The claims of a verified JWT access token, when the JWT branch applies.\<close>

definition hinted :: "string \<Rightarrow> string \<Rightarrow> bool" where
  "hinted hint kind \<longleftrightarrow> hint = [] \<or> hint = kind"

definition jwt_branch :: "env \<Rightarrow> string \<Rightarrow> string \<Rightarrow> any_map option" where
  "jwt_branch E token hint =
     (case jwt_signer E of
        None \<Rightarrow> None
      | Some signer \<Rightarrow>
          if hinted hint ''access_token'' \<and> looksLikeJWT token then js_validate signer token else None)"

definition Introspect :: "env \<Rightarrow> string \<Rightarrow> string \<Rightarrow> string \<Rightarrow> uuid \<Rightarrow> db \<Rightarrow> introspect_response res" where
  "Introspect E token hint iss requester st =
     (if token = [] then Inl (ErrInvalidRequest ''missing token'')
      else case jwt_branch E token hint of
             Some claims \<Rightarrow> Inr (introspectJWTAccessToken E claims iss requester st)
           | None \<Rightarrow>
               (let h = HashToken (sha256 E) token;
                    refreshPart =
                      (if hinted hint ''refresh_token''
                       then (case db_maybe (FindRefreshToken E h st) of
                               Some rt \<Rightarrow> introspectRefreshToken E rt iss requester
                             | None \<Rightarrow> inactive)
                       else inactive)
                in Inr (if hinted hint ''access_token''
                        then (case db_maybe (FindAccessToken E h st) of
                                Some tok \<Rightarrow> introspectAccessToken E tok iss requester st
                              | None \<Rightarrow> refreshPart)
                        else refreshPart)))"

section \<open>Revocation\<close>

definition revokeRefreshToken :: "env \<Rightarrow> refresh_token \<Rightarrow> db \<Rightarrow> unit res \<times> db" where
  "revokeRefreshToken E rt st =
     (case RevokeRefreshTokenFamily E (rt_family_id rt) st of
        DbErr \<Rightarrow> (Inl (ErrServerError ''failed to revoke refresh token''), st)
      | DbOk st1 \<Rightarrow> (Inr (), db_ignore st1 (RevokeAccessTokensBySession E (rt_session_id rt) st1)))"

definition revokeAccessToken :: "env \<Rightarrow> access_token \<Rightarrow> db \<Rightarrow> unit res \<times> db" where
  "revokeAccessToken E tok st =
     (case RevokeAccessToken E (at_id tok) st of
        DbErr \<Rightarrow> (Inl (ErrServerError ''failed to revoke access token''), st)
      | DbOk st1 \<Rightarrow> (Inr (), st1))"

text \<open>The JWT branch: \<open>Some\<close> result ends the call (the caller does not own the token, or the
  denylist cannot be written); \<open>None\<close> goes on to the rows, with the JTI on the denylist.\<close>

definition revoke_jwt :: "env \<Rightarrow> any_map \<Rightarrow> client \<Rightarrow> db \<Rightarrow> unit res option \<times> db" where
  "revoke_jwt E claims c st =
     (if str_claim claims ''client_id'' \<noteq> uuid_string E (cl_id c) then (Some (Inr ()), st)
      else
        (let jti = str_claim claims ''jti'';
             expiry = (case num_claim claims ''exp'' of
                         None \<Rightarrow> clk E + hours 24
                       | Some r \<Rightarrow> trunc_rat r * nanos_per_second)
         in if jti = [] then (None, st)
            else (case RevokeJTI E jti expiry st of
                    DbErr \<Rightarrow> (Some (Inl (ErrServerError ''failed to denylist jwt access token'')), st)
                  | DbOk st1 \<Rightarrow> (None, st1))))"

definition revoke_rows :: "env \<Rightarrow> string \<Rightarrow> string \<Rightarrow> client \<Rightarrow> db \<Rightarrow> unit res \<times> db" where
  "revoke_rows E h hint c st =
     (let accessPart =
        (if hinted hint ''access_token''
         then (case db_maybe (FindAccessToken E h st) of
                 Some tok \<Rightarrow> if at_client_id tok \<noteq> cl_id c then (Inr (), st) else revokeAccessToken E tok st
               | None \<Rightarrow> (Inr (), st))
         else (Inr (), st))
      in if hinted hint ''refresh_token''
         then (case db_maybe (FindRefreshToken E h st) of
                 Some rt \<Rightarrow> if rt_client_id rt \<noteq> cl_id c then (Inr (), st) else revokeRefreshToken E rt st
               | None \<Rightarrow> accessPart)
         else accessPart)"

definition Revoke :: "env \<Rightarrow> string \<Rightarrow> string \<Rightarrow> client \<Rightarrow> db \<Rightarrow> unit res \<times> db" where
  "Revoke E token hint c st =
     (if token = [] then (Inl (ErrInvalidRequest ''missing token''), st)
      else (case (case jwt_branch E token hint of None \<Rightarrow> (None, st) | Some claims \<Rightarrow> revoke_jwt E claims c st) of
              (Some r, st1) \<Rightarrow> (r, st1)
            | (None, st1) \<Rightarrow> revoke_rows E (HashToken (sha256 E) token) hint c st1))"

end
