(* ===== verification/History.thy ===== *)
theory History
  imports AuthorizeSteps Device Introspection
begin

text \<open>
  What never goes back in the OAuth tables: the row order of each kind of secret (a code used, a
  token revoked or rotated, a device code further along its status machine), stated once for any
  table with a key and an order, and proved of every operation of the OAuth service.
\<close>

section \<open>Tables that only grow\<close>

definition grows :: "('r \<Rightarrow> 'k) \<Rightarrow> ('r \<Rightarrow> 'r \<Rightarrow> bool) \<Rightarrow> 'r list \<Rightarrow> 'r list \<Rightarrow> bool" where
  "grows key le rs rs' \<longleftrightarrow>
     (\<forall>k r. first_where (\<lambda>x. key x = k) rs = Some r \<longrightarrow>
        (\<exists>r'. first_where (\<lambda>x. key x = k) rs' = Some r' \<and> le r r'))"

locale row_order =
  fixes key :: "'r \<Rightarrow> 'k"
    and le :: "'r \<Rightarrow> 'r \<Rightarrow> bool"
  assumes le_refl: "le r r"
    and le_trans: "le r s \<Longrightarrow> le s t \<Longrightarrow> le r t"
    and le_key: "le r s \<Longrightarrow> key s = key r"
begin

lemma grows_refl: "grows key le rs rs"
  by (auto simp: grows_def le_refl)

lemma grows_trans: "grows key le rs ss \<Longrightarrow> grows key le ss ts \<Longrightarrow> grows key le rs ts"
  unfolding grows_def using le_trans by meson

lemma grows_append: "grows key le rs (rs @ xs)"
  by (auto simp: grows_def first_where_append le_refl)

lemma grows_update:
  assumes "\<And>r. P r \<Longrightarrow> le r (f r)"
  shows "grows key le rs (update_where P f rs)"
proof -
  define g where "g r = (if P r then f r else r)" for r
  have g: "le r (g r)" for r using assms le_refl by (simp add: g_def)
  have up: "update_where P f rs = map g rs" by (simp add: update_where_def g_def [abs_def])
  have "first_where (\<lambda>x. key x = k) (map g rs) = map_option g (first_where (\<lambda>x. key x = k) rs)" for k
    using le_key [OF g] by (induction rs) auto
  then show ?thesis using g by (auto simp: grows_def up)
qed

lemma grows_save:
  assumes "\<And>r. first_where (\<lambda>x. key x = key new) rs = Some r \<Longrightarrow> le r new"
  shows "grows key le rs (save_row key new rs)"
  unfolding grows_def
proof (intro allI impI)
  fix k r assume r: "first_where (\<lambda>x. key x = k) rs = Some r"
  show "\<exists>r'. first_where (\<lambda>x. key x = k) (save_row key new rs) = Some r' \<and> le r r'"
    using r assms [of r] le_refl by (cases "k = key new") (simp_all add: first_where_save)
qed

end

text \<open>The four orders: the bindings of a row never change, its flags only go one way.\<close>

definition code_le :: "auth_code \<Rightarrow> auth_code \<Rightarrow> bool" where
  "code_le c c' \<longleftrightarrow> c' = c\<lparr>ac_used := ac_used c'\<rparr> \<and> (ac_used c \<longrightarrow> ac_used c')"

definition access_le :: "access_token \<Rightarrow> access_token \<Rightarrow> bool" where
  "access_le t t' \<longleftrightarrow> t' = t\<lparr>at_revoked := at_revoked t'\<rparr> \<and> (at_revoked t \<longrightarrow> at_revoked t')"

definition refresh_le :: "refresh_token \<Rightarrow> refresh_token \<Rightarrow> bool" where
  "refresh_le t t' \<longleftrightarrow> t' = t\<lparr>rt_revoked := rt_revoked t', rt_rotated_at := rt_rotated_at t'\<rparr> \<and>
     (rt_revoked t \<longrightarrow> rt_revoked t') \<and> (WasRotated t \<longrightarrow> WasRotated t')"

definition status_next :: "string \<Rightarrow> string list" where
  "status_next s =
     (if s = ''pending'' then [''authorized'', ''denied'', ''consumed'']
      else if s = ''authorized'' then [''consumed''] else [])"

definition device_le :: "device_code \<Rightarrow> device_code \<Rightarrow> bool" where
  "device_le d d' \<longleftrightarrow> dc_hash d' = dc_hash d \<and> dc_user_code d' = dc_user_code d \<and>
     dc_client_id d' = dc_client_id d \<and> dc_scopes d' = dc_scopes d \<and> dc_expires_at d' = dc_expires_at d \<and>
     (dc_status d' = dc_status d \<or> dc_status d' \<in> set (status_next (dc_status d)))"

interpretation codes_order: row_order ac_code_hash code_le
proof unfold_locales
  fix r s t :: auth_code
  show "code_le r r" by (simp add: code_le_def)
  show "code_le r s \<Longrightarrow> code_le s t \<Longrightarrow> code_le r t"
    unfolding code_le_def by (metis auth_code.surjective auth_code.update_convs(15))
  show "code_le r s \<Longrightarrow> ac_code_hash s = ac_code_hash r"
    unfolding code_le_def by (metis auth_code.select_convs(1) auth_code.surjective auth_code.update_convs(15))
qed


interpretation access_order: row_order at_id access_le
proof unfold_locales
  fix r s t :: access_token
  show "access_le r r" by (simp add: access_le_def)
  show "access_le r s \<Longrightarrow> access_le s t \<Longrightarrow> access_le r t"
    unfolding access_le_def by (metis access_token.surjective access_token.update_convs(10))
  show "access_le r s \<Longrightarrow> at_id s = at_id r"
    unfolding access_le_def by (metis access_token.select_convs(1) access_token.surjective access_token.update_convs(10))
qed

lemma refresh_le_fields:
  "refresh_le t t' \<Longrightarrow> rt_id t' = rt_id t \<and> rt_client_id t' = rt_client_id t \<and> rt_user_id t' = rt_user_id t \<and>
     rt_session_id t' = rt_session_id t \<and> rt_scopes t' = rt_scopes t \<and> rt_family_id t' = rt_family_id t"
  unfolding refresh_le_def by (cases t; cases t') simp

lemma access_le_fields:
  "access_le t t' \<Longrightarrow> at_id t' = at_id t \<and> at_client_id t' = at_client_id t \<and> at_user_id t' = at_user_id t \<and>
     at_session_id t' = at_session_id t \<and> at_scopes t' = at_scopes t \<and> at_audience t' = at_audience t \<and>
     at_expires_at t' = at_expires_at t"
  unfolding access_le_def by (cases t; cases t') simp

lemma code_le_fields:
  "code_le c c' \<Longrightarrow> ac_code_hash c' = ac_code_hash c \<and> ac_client_id c' = ac_client_id c \<and>
     ac_user_id c' = ac_user_id c \<and> ac_redirect_uri c' = ac_redirect_uri c \<and> ac_scopes c' = ac_scopes c \<and>
     ac_code_challenge c' = ac_code_challenge c \<and> ac_session_id c' = ac_session_id c \<and>
     ac_expires_at c' = ac_expires_at c"
  unfolding code_le_def by (cases c; cases c') simp

interpretation refresh_order: row_order rt_id refresh_le
proof unfold_locales
  fix r s t :: refresh_token
  show "refresh_le r r" by (simp add: refresh_le_def)
  show "refresh_le r s \<Longrightarrow> refresh_le s t \<Longrightarrow> refresh_le r t"
    by (cases r; cases s; cases t) (simp add: refresh_le_def)
  show "refresh_le r s \<Longrightarrow> rt_id s = rt_id r" using refresh_le_fields by blast
qed

lemma status_next_trans: "b \<in> set (status_next a) \<Longrightarrow> c \<in> set (status_next b) \<Longrightarrow> c \<in> set (status_next a)"
  by (auto simp: status_next_def split: if_splits)

interpretation device_order: row_order dc_hash device_le
proof unfold_locales
  fix r s t :: device_code
  show "device_le r r" by (simp add: device_le_def)
  show "device_le r s \<Longrightarrow> device_le s t \<Longrightarrow> device_le r t"
    unfolding device_le_def using status_next_trans by metis
  show "device_le r s \<Longrightarrow> dc_hash s = dc_hash r" by (simp add: device_le_def)
qed

section \<open>The history of the database\<close>

definition history :: "db \<Rightarrow> db \<Rightarrow> bool" where
  "history st st' \<longleftrightarrow>
     grows ac_code_hash code_le (t_auth_codes st) (t_auth_codes st') \<and>
     grows at_id access_le (t_access_tokens st) (t_access_tokens st') \<and>
     grows rt_id refresh_le (t_refresh_tokens st) (t_refresh_tokens st') \<and>
     grows dc_hash device_le (t_device_codes st) (t_device_codes st')"

lemma history_refl: "history st st"
  by (simp add: history_def codes_order.grows_refl access_order.grows_refl refresh_order.grows_refl
      device_order.grows_refl)

lemma history_trans: "history st st1 \<Longrightarrow> history st1 st2 \<Longrightarrow> history st st2"
  unfolding history_def
  using codes_order.grows_trans access_order.grows_trans refresh_order.grows_trans device_order.grows_trans
  by blast

definition token_tables :: "db \<Rightarrow> auth_code list \<times> access_token list \<times> refresh_token list \<times> device_code list" where
  "token_tables st = (t_auth_codes st, t_access_tokens st, t_refresh_tokens st, t_device_codes st)"

lemma history_same: "token_tables st' = token_tables st \<Longrightarrow> history st st'"
  using history_refl [of st] by (simp add: history_def token_tables_def)

lemma history_tables: "tables st' = tables st \<Longrightarrow> history st st'"
  unfolding tables_def by (rule history_same, cases st, cases st') (simp add: token_tables_def)

lemma history_code_used: "history st st' \<Longrightarrow> code_used st h \<Longrightarrow> code_used st' h"
  unfolding history_def grows_def code_used_def code_row_def code_le_def by blast

lemma history_refresh_spent: "history st st' \<Longrightarrow> refresh_spent st h \<Longrightarrow> refresh_spent st' h"
  unfolding history_def grows_def refresh_spent_def refresh_row_def refresh_le_def by blast

definition access_dead :: "db \<Rightarrow> string \<Rightarrow> bool" where
  "access_dead st h \<longleftrightarrow> (\<exists>t. access_row st h = Some t \<and> at_revoked t)"

lemma history_access_dead: "history st st' \<Longrightarrow> access_dead st h \<Longrightarrow> access_dead st' h"
  unfolding history_def grows_def access_dead_def access_row_def access_le_def by blast

subsection \<open>Statements\<close>

lemma history_use_code: "history st (use_code st h)"
  using codes_order.grows_update [of "\<lambda>c. ac_code_hash c = h" "\<lambda>c. c\<lparr>ac_used := True\<rparr>" "t_auth_codes st"]
    history_refl [of st]
  by (simp add: history_def use_code_def code_le_def)

lemma history_revoke_access:
  "history st (st\<lparr>t_access_tokens := update_where P (\<lambda>t. t\<lparr>at_revoked := True\<rparr>) (t_access_tokens st)\<rparr>)"
  using access_order.grows_update [of P "\<lambda>t. t\<lparr>at_revoked := True\<rparr>" "t_access_tokens st"] history_refl [of st]
  by (simp add: history_def access_le_def)

lemma history_revoke_refresh:
  "history st (st\<lparr>t_refresh_tokens := update_where P (\<lambda>t. t\<lparr>rt_revoked := True\<rparr>) (t_refresh_tokens st)\<rparr>)"
  using refresh_order.grows_update [of P "\<lambda>t. t\<lparr>rt_revoked := True\<rparr>" "t_refresh_tokens st"] history_refl [of st]
  by (simp add: history_def refresh_le_def WasRotated_def)

lemma history_rotate: "history st (rotate_refresh now st h)"
  using refresh_order.grows_update [of "\<lambda>t. rt_id t = h" "\<lambda>t. t\<lparr>rt_rotated_at := Some now\<rparr>" "t_refresh_tokens st"]
    history_refl [of st]
  by (simp add: history_def rotate_refresh_def refresh_le_def WasRotated_def)

lemma history_append:
  assumes "t_auth_codes st' = t_auth_codes st @ cs" and "t_access_tokens st' = t_access_tokens st @ as"
    and "t_refresh_tokens st' = t_refresh_tokens st @ rs" and "t_device_codes st' = t_device_codes st @ ds"
  shows "history st st'"
  unfolding history_def assms
  by (simp add: codes_order.grows_append access_order.grows_append refresh_order.grows_append
      device_order.grows_append)

lemma history_save_device:
  assumes "device_row st (dc_hash d) = Some d0" and "device_le d0 d"
  shows "history st (st\<lparr>t_device_codes := save_row dc_hash d (t_device_codes st)\<rparr>)"
  using device_order.grows_save [of d "t_device_codes st"] assms history_refl [of st]
  by (simp add: history_def device_row_def)


section \<open>What the user, session and MFA services leave alone\<close>

definition oauth_part :: "db \<Rightarrow> db" where
  "oauth_part st = st\<lparr>t_users := [], t_user_roles := [], t_outbox := [], t_mfa_methods := [], draws := 0\<rparr>"

lemma oauth_part_simps [simp]:
  "oauth_part (st\<lparr>t_users := a\<rparr>) = oauth_part st" "oauth_part (st\<lparr>t_user_roles := b\<rparr>) = oauth_part st"
  "oauth_part (st\<lparr>t_outbox := c\<rparr>) = oauth_part st" "oauth_part (st\<lparr>t_mfa_methods := d\<rparr>) = oauth_part st"
  "oauth_part (st\<lparr>draws := n\<rparr>) = oauth_part st"
  "oauth_part (bump st) = oauth_part st"
  by (simp_all add: oauth_part_def bump_def)

lemma oauth_part_eq: "oauth_part st' = oauth_part st \<Longrightarrow>
    t_auth_requests st' = t_auth_requests st \<and> token_tables st' = token_tables st \<and>
    t_sessions st' = t_sessions st"
  by (cases st; cases st') (simp add: oauth_part_def token_tables_def)

lemma oauth_part_tables: "tables st' = tables st \<Longrightarrow> oauth_part st' = oauth_part st"
  by (cases st; cases st') (simp add: oauth_part_def tables_def)

lemma oauth_part_ignore: "(\<And>st'. r = DbOk st' \<Longrightarrow> oauth_part st' = oauth_part st) \<Longrightarrow>
    oauth_part (db_ignore st r) = oauth_part st"
  by (cases r) simp_all

lemma Transaction_part:
  assumes "gorm_rollback E" and "\<And>r st'. fn st = (r, st') \<Longrightarrow> oauth_part st' = oauth_part st"
    and "Transaction E fn st = (r, st')"
  shows "oauth_part st' = oauth_part st"
  using assms
  by (cases "fn st") (auto simp: Transaction_def gorm_rollback_def split: sum.splits if_splits)

lemma UpdateFields_part: "UpdateFields E i f st = DbOk st' \<Longrightarrow> oauth_part st' = oauth_part st"
  by (auto simp: UpdateFields_def stmt_opt_def split: if_splits)

lemma send_mail_part:
  assumes "send_mail E m st = (r, st')"
  shows "oauth_part st' = oauth_part st"
  by (subst send_mail_frame [OF assms]) simp

lemma HashPassword_part: "HashPassword E pw st = (r, st') \<Longrightarrow> oauth_part st' = oauth_part st"
  by (auto simp: HashPassword_def)

lemma user_Create_part: "user_Create E u st = (r, st') \<Longrightarrow> oauth_part st' = oauth_part st"
  by (auto simp: user_Create_def new_uuid_def stmt_opt_def Let_def
      split: prod.splits option.splits dbres.splits if_splits)

lemma AssignRole_part: "AssignRole E u r st = (x, st') \<Longrightarrow> oauth_part st' = oauth_part st"
  by (auto simp: AssignRole_def AssignRole_row_def stmt_opt_def split: sum.splits dbres.splits if_splits)

lemma maybeRehash_part: "maybeRehash E u pw b st = (r, st') \<Longrightarrow> oauth_part st' = oauth_part st"
  by (auto simp: maybeRehash_def split: if_splits prod.splits option.splits dbres.splits
      dest!: HashPassword_part UpdateFields_part)

lemma incrementFailedAttempts_part: "oauth_part (incrementFailedAttempts E u st) = oauth_part st"
  unfolding incrementFailedAttempts_def Let_def by (rule oauth_part_ignore) (rule UpdateFields_part)

lemma Authenticate_part:
  assumes "Authenticate E e pw st = (r, st')"
  shows "oauth_part st' = oauth_part st"
proof -
  have clear: "oauth_part (db_ignore s (UpdateFields E i clear_lockout s)) = oauth_part s" for s i
    by (rule oauth_part_ignore) (rule UpdateFields_part)
  show ?thesis
    using assms
    by (auto simp: Authenticate_def incrementFailedAttempts_part clear
        split: dbres.splits option.splits if_splits prod.splits bool.splits dest!: maybeRehash_part)
qed

lemma enqueueVerifyEmail_part: "enqueueVerifyEmailInTx E u q st = (r, st') \<Longrightarrow> oauth_part st' = oauth_part st"
  by (auto simp: enqueueVerifyEmailInTx_def mail_SendVerificationEmail_def new_uuid_def Let_def
      split: option.splits prod.splits dbres.splits dest!: UpdateFields_part send_mail_part)

lemma register_tx_part: "register_tx E inp u st = (r, st') \<Longrightarrow> oauth_part st' = oauth_part st"
  by (auto simp: register_tx_def create_user_step_def
      split: prod.splits dbres.splits sum.splits option.splits if_splits
      dest!: user_Create_part AssignRole_part enqueueVerifyEmail_part)

lemma Register_part:
  assumes "gorm_rollback E" and "Register E inp st = (r, st')"
  shows "oauth_part st' = oauth_part st"
proof -
  obtain r1 st1 where c: "register_checks E (lower_trim (ri_email inp)) (ri_password inp)
      (derefStr (ri_display_name inp)) st = (r1, st1)" by fastforce
  have st1: "oauth_part st1 = oauth_part st"
    using oauth_part_tables [OF register_checks_tables [OF c]] .
  show ?thesis
    using assms(2) st1 Transaction_part [OF assms(1), of "register_tx E inp u" for u, OF register_tx_part]
    by (auto simp: Register_def Let_def c split: sum.splits)
qed

lemma SendVerificationEmail_part:
  assumes "gorm_rollback E" and "SendVerificationEmail E i q st = (r, st')"
  shows "oauth_part st' = oauth_part st"
  using assms(2) Transaction_part [OF assms(1), of "enqueueVerifyEmailInTx E u q" for u, OF enqueueVerifyEmail_part]
  by (auto simp: SendVerificationEmail_def split: sum.splits if_splits)

lemma mfa_ValidateCode_part: "mfa_ValidateCode E u code st = (r, st') \<Longrightarrow> oauth_part st' = oauth_part st"
  by (auto simp: mfa_ValidateCode_def mfa_Update_def stmt_def Let_def
      split: option.splits if_splits)

section \<open>The invariant\<close>

text \<open>A pending request with consent is authenticated, and one that is authenticated names its
  user; a code, a token and an approved device code name a session of their own user.\<close>

definition request_ok :: "auth_request \<Rightarrow> bool" where
  "request_ok r \<longleftrightarrow> (ar_authenticated r \<longrightarrow> ar_user_id r \<noteq> None) \<and> (ar_consent_given r \<longrightarrow> ar_authenticated r)"

definition owns :: "db \<Rightarrow> uuid option \<Rightarrow> uuid \<Rightarrow> bool" where
  "owns st s u \<longleftrightarrow> (\<exists>x \<in> set (t_sessions st). s = Some (se_id x) \<and> se_user_id x = u)"

definition access_ok :: "db \<Rightarrow> access_token \<Rightarrow> bool" where
  "access_ok st t \<longleftrightarrow> (case at_user_id t of None \<Rightarrow> at_session_id t = None | Some u \<Rightarrow> owns st (at_session_id t) u)"

definition device_ok :: "db \<Rightarrow> device_code \<Rightarrow> bool" where
  "device_ok st d \<longleftrightarrow> (dc_status d = ''authorized'' \<longrightarrow>
     (case dc_user_id d of None \<Rightarrow> False | Some u \<Rightarrow> owns st (dc_session_id d) u))"

definition oauth_inv :: "db \<Rightarrow> bool" where
  "oauth_inv st \<longleftrightarrow>
     (\<forall>r \<in> set (t_auth_requests st). request_ok r) \<and>
     (\<forall>c \<in> set (t_auth_codes st). owns st (ac_session_id c) (ac_user_id c)) \<and>
     (\<forall>t \<in> set (t_access_tokens st). access_ok st t) \<and>
     (\<forall>t \<in> set (t_refresh_tokens st). owns st (Some (rt_session_id t)) (rt_user_id t)) \<and>
     (\<forall>d \<in> set (t_device_codes st). device_ok st d)"

text \<open>The primary key of the device table, which the search by user code relies on.\<close>

definition device_keys :: "db \<Rightarrow> bool" where
  "device_keys st \<longleftrightarrow> keys_unique dc_hash (t_device_codes st)"

lemma device_keys_cong: "t_device_codes st' = t_device_codes st \<Longrightarrow> device_keys st' = device_keys st"
  by (simp add: device_keys_def)

definition step_ok :: "db \<Rightarrow> db \<Rightarrow> bool" where
  "step_ok st st' \<longleftrightarrow> history st st' \<and> set (t_sessions st) \<subseteq> set (t_sessions st') \<and>
     (device_keys st \<longrightarrow> device_keys st') \<and> (oauth_inv st \<longrightarrow> oauth_inv st')"

lemma owns_mono: "set (t_sessions st) \<subseteq> set (t_sessions st') \<Longrightarrow> owns st s u \<Longrightarrow> owns st' s u"
  by (auto simp: owns_def)

lemma sessions_cong:
  assumes "t_sessions st' = t_sessions st"
  shows "owns st' = owns st" "access_ok st' = access_ok st" "device_ok st' = device_ok st"
proof -
  show o: "owns st' = owns st" using assms by (intro ext) (simp add: owns_def)
  show "access_ok st' = access_ok st" "device_ok st' = device_ok st"
    by (intro ext, simp add: access_ok_def device_ok_def o split: option.split)+
qed

lemma step_refl: "step_ok st st"
  by (simp add: step_ok_def history_refl)

lemma step_trans [trans]: "step_ok st st1 \<Longrightarrow> step_ok st1 st2 \<Longrightarrow> step_ok st st2"
  unfolding step_ok_def using history_trans by blast

lemma step_tables:
  assumes "token_tables st' = token_tables st" and "set (t_auth_requests st') \<subseteq> set (t_auth_requests st)"
    and "set (t_sessions st) \<subseteq> set (t_sessions st')"
  shows "step_ok st st'"
proof -
  have t: "t_auth_codes st' = t_auth_codes st" "t_access_tokens st' = t_access_tokens st"
    "t_refresh_tokens st' = t_refresh_tokens st" "t_device_codes st' = t_device_codes st"
    using assms(1) by (simp_all add: token_tables_def)
  have "access_ok st a \<Longrightarrow> access_ok st' a" and "device_ok st d \<Longrightarrow> device_ok st' d" for a d
    using owns_mono [OF assms(3)]
    by (auto simp: access_ok_def device_ok_def split: option.splits)
  then show ?thesis
    using assms owns_mono [OF assms(3)] history_same [OF assms(1)]
    by (auto simp: step_ok_def oauth_inv_def device_keys_def t)
qed

lemma step_part:
  assumes "oauth_part st' = oauth_part st"
  shows "step_ok st st'"
  using oauth_part_eq [OF assms] by (intro step_tables) auto

lemma step_same_tables: "tables st' = tables st \<Longrightarrow> step_ok st st'"
  by (rule step_part) (rule oauth_part_tables)

lemma step_bump: "step_ok st (bump st)"
  by (rule step_part) simp

lemma step_ignore: "(\<And>st'. r = DbOk st' \<Longrightarrow> step_ok st st') \<Longrightarrow> step_ok st (db_ignore st r)"
  by (cases r) (simp_all add: step_refl)

lemma step_Transaction_Inl: "gorm_rollback E \<Longrightarrow> Transaction E fn st = (Inl e, st') \<Longrightarrow> step_ok st st'"
  by (rule step_same_tables) (rule Transaction_Inl_tables)

subsection \<open>Statements keep it\<close>

lemma step_session_create:
  assumes "session_Create_op E u ip ua ext st = (r, st')"
  shows "step_ok st st'"
proof -
  have f: "st' = st\<lparr>t_sessions := t_sessions st', draws := draws st'\<rparr>"
    and sub: "set (t_sessions st) \<subseteq> set (t_sessions st')"
    using session_Create_op_frame [OF assms] by (auto simp: session_frame_def)
  have "t_auth_requests st' = t_auth_requests st" "token_tables st' = token_tables st"
    by (subst f, simp add: token_tables_def)+
  then show ?thesis using sub by (intro step_tables) simp_all
qed

lemma session_Create_owns:
  assumes "session_Create_op E u ip ua ext st = (Inr (s, raw), st')"
  shows "owns st' (Some (se_id s)) u"
  using session_Create_op_InrD(1,7) [OF assms] by (auto simp: owns_def)

lemma step_requests:
  assumes "\<And>r. r \<in> set rs \<Longrightarrow> r \<in> set (t_auth_requests st) \<or> request_ok r"
  shows "step_ok st (st\<lparr>t_auth_requests := rs\<rparr>)"
proof -
  let ?s = "st\<lparr>t_auth_requests := rs\<rparr>"
  have "owns ?s = owns st" "access_ok ?s = access_ok st" "device_ok ?s = device_ok st"
    by (rule sessions_cong; simp)+
  then show ?thesis
    using assms history_same [of ?s st] by (auto simp: step_ok_def oauth_inv_def token_tables_def device_keys_def)
qed

lemma step_CreateAuthRequest:
  assumes "CreateAuthRequest E r st = (x, st')" and "request_ok r"
  shows "step_ok st st'"
proof -
  have "step_ok (bump st) ((bump st)\<lparr>t_auth_requests := t_auth_requests st @ [r\<lparr>ar_id := i\<rparr>]\<rparr>)" for i
    using assms(2) by (intro step_requests) (auto simp: request_ok_def bump_def)
  then have "step_ok st ((bump st)\<lparr>t_auth_requests := t_auth_requests st @ [r\<lparr>ar_id := i\<rparr>]\<rparr>)" for i
    using step_trans [OF step_bump] by blast
  with assms(1) show ?thesis
    by (auto simp: CreateAuthRequest_def new_uuid_def stmt_opt_def add_request_def insert_row_def step_bump
        split: prod.splits option.splits dbres.splits if_splits) (simp_all add: bump_def)
qed

lemma CreateAuthRequest_row: "CreateAuthRequest E r st = (DbOk r', st') \<Longrightarrow> \<exists>i. r' = r\<lparr>ar_id := i\<rparr>"
  by (auto simp: CreateAuthRequest_def split: prod.splits option.splits dbres.splits)

lemma step_UpdateAuthRequest:
  assumes "UpdateAuthRequest E r st = DbOk st'" and "request_ok r"
  shows "step_ok st st'"
proof -
  have "st' = st\<lparr>t_auth_requests := save_row ar_id r (t_auth_requests st)\<rparr>"
    using assms(1) by (simp add: UpdateAuthRequest_def stmt_def split: if_splits)
  moreover have "step_ok st (st\<lparr>t_auth_requests := save_row ar_id r (t_auth_requests st)\<rparr>)"
    using set_save_row [of ar_id r "t_auth_requests st"] assms(2) by (intro step_requests) auto
  ultimately show ?thesis by simp
qed

lemma step_DeleteAuthRequest: "DeleteAuthRequest E i st = DbOk st' \<Longrightarrow> step_ok st st'"
  by (auto simp: DeleteAuthRequest_def stmt_def set_delete_where intro!: step_requests split: if_splits)

lemma step_CreateAuthCode:
  assumes "CreateAuthCode E c st = DbOk st'" and "owns st (ac_session_id c) (ac_user_id c)"
  shows "step_ok st st'"
proof -
  have st': "st' = st\<lparr>t_auth_codes := t_auth_codes st @ [c\<lparr>ac_created_at := wall E\<rparr>]\<rparr>"
    using assms(1) by (auto simp: CreateAuthCode_def stmt_opt_def add_code_def insert_row_def split: if_splits)
  have "history st st'" by (rule history_append) (simp_all add: st')
  moreover have "owns st' = owns st" "access_ok st' = access_ok st" "device_ok st' = device_ok st"
    by (rule sessions_cong; simp add: st')+
  ultimately show ?thesis
    using assms(2) by (auto simp: step_ok_def oauth_inv_def device_keys_def st')
qed

lemma access_ok_created: "access_ok st (t\<lparr>at_created_at := x\<rparr>) = access_ok st t"
  by (simp add: access_ok_def split: option.split)

lemma step_CreateAccessToken:
  assumes "CreateAccessToken E t st = DbOk st'" and "access_ok st t"
  shows "step_ok st st'"
proof -
  have st': "st' = st\<lparr>t_access_tokens := t_access_tokens st @ [t\<lparr>at_created_at := wall E\<rparr>]\<rparr>"
    using assms(1) by (simp add: CreateAccessToken_DbOk)
  have "history st st'" by (rule history_append) (simp_all add: st')
  moreover have "owns st' = owns st" "access_ok st' = access_ok st" "device_ok st' = device_ok st"
    by (rule sessions_cong; simp add: st')+
  ultimately show ?thesis
    using assms(2) access_ok_created by (auto simp: step_ok_def oauth_inv_def device_keys_def st')
qed

end
