(* ===== verification/Machine.thy ===== *)
theory Machine
  imports History
begin

text \<open>
  Every operation of the OAuth service respects the history of the database and its invariant
  (\<open>step_ok\<close>), so any interleaving of operations does: the service as a state machine, one step
  per call, with its reachable states.
\<close>

section \<open>Completion\<close>

lemma bump_via: "step_ok (bump st) st' \<Longrightarrow> step_ok st st'"
  by (rule step_trans [OF step_bump])

lemma owns_bump [simp]: "owns (bump st) = owns st"
  by (rule sessions_cong) (simp add: bump_def)

lemma step_hybrid_access:
  assumes "hybrid_access E req u s resp st = (r, st')" and "owns st (Some s) u"
  shows "step_ok st st'"
proof (cases "st' = st \<or> st' = bump st")
  case True
  then show ?thesis using step_refl step_bump by auto
next
  case False
  with assms(1) obtain t where c: "CreateAccessToken E t (bump st) = DbOk st'"
    and t: "at_user_id t = Some u" "at_session_id t = Some s"
    by (auto simp: hybrid_access_def split: if_splits sum.splits prod.splits option.splits dbres.splits
        dest!: GenerateOpaqueToken_SomeD)
       (use GenerateOpaqueToken_state in \<open>metis snd_conv\<close>)+
  have "access_ok (bump st) t" using assms(2) by (simp add: access_ok_def t)
  with c show ?thesis by (rule bump_via [OF step_CreateAccessToken])
qed

lemma step_hybrid_id_token: "hybrid_id_token E req u resp st = (r, st') \<Longrightarrow> step_ok st st'"
  by (auto simp: hybrid_id_token_def generateHybridIDToken_def Let_def step_refl step_bump
      split: option.splits if_splits sum.splits)

lemma step_hybrid_tokens:
  assumes "hybrid_tokens E req u s resp st = (r, st')" and "owns st (Some s) u"
  shows "step_ok st st'"
  using assms(1) step_hybrid_access [OF _ assms(2)] step_hybrid_id_token step_trans step_refl
  unfolding hybrid_tokens_def by (auto split: if_splits prod.splits sum.splits) blast+

lemma step_computeSessionState: "computeSessionState E c ru s st = (x, st') \<Longrightarrow> st' = bump st"
  by (auto simp: computeSessionState_def GenerateRandomString_def Let_def)

lemma step_completeAuthorize:
  assumes "completeAuthorize E req ip ua st = (r, st')"
  shows "step_ok st st'"
proof (cases "ar_user_id req")
  case None
  with assms show ?thesis by (simp add: completeAuthorize_def step_refl)
next
  case (Some u)
  obtain r1 st1 where s1: "session_Create_op E u ip ua (ar_remember_me req) st = (r1, st1)" by fastforce
  have ok1: "step_ok st st1" using step_session_create [OF s1] .
  show ?thesis
  proof (cases r1)
    case (Inl e)
    with assms Some s1 ok1 show ?thesis by (simp add: completeAuthorize_def)
  next
    case (Inr x)
    then obtain s cookie where x: "r1 = Inr (s, cookie)" by (cases x) auto
    let ?st2 = "db_ignore st1 (DeleteAuthRequest E (ar_id req) st1)"
    have own1: "owns st1 (Some (se_id s)) u" using session_Create_owns s1 x by simp
    have ok2: "step_ok st1 ?st2" by (rule step_ignore) (rule step_DeleteAuthRequest)
    then have own2: "owns ?st2 (Some (se_id s)) u" using own1 owns_mono step_ok_def by blast
    obtain c st3 where g: "GenerateOpaqueToken E ?st2 = (c, st3)" by fastforce
    have st3: "st3 = bump ?st2" using GenerateOpaqueToken_state [of E ?st2] g by simp
    have ok3: "step_ok st st3" using step_trans [OF step_trans [OF ok1 ok2] step_bump] st3 by simp
    show ?thesis
    proof (cases "st' = st3")
      case True
      with ok3 show ?thesis by simp
    next
      case False
      with assms Some s1 x g obtain h raw st4 ss st5
        where c4: "CreateAuthCode E (code_of E req u (se_id s) h) st3 = DbOk st4"
          and c5: "computeSessionState E (uuid_string E (ar_client_id req)) (ar_redirect_uri req)
             (uuid_string E (se_id s)) st4 = (ss, st5)"
          and h: "hybrid_tokens E req u (se_id s) (code_response E req s cookie raw ss) st5 = (r, st')"
        by (auto simp: completeAuthorize_def split: option.splits prod.splits dbres.splits)
      have ok4: "step_ok st3 st4"
        using own2 by (intro step_CreateAuthCode [OF c4]) (simp add: code_of_def st3)
      have st5: "st5 = bump st4" using step_computeSessionState [OF c5] .
      have "owns st4 (Some (se_id s)) u"
        using own2 ok4 owns_mono by (auto simp: step_ok_def st3)
      then have "step_ok st5 st'" by (intro step_hybrid_tokens [OF h]) (simp add: st5)
      then show ?thesis
        using step_trans [OF step_trans [OF ok3 ok4]] bump_via by (simp add: st5)
    qed
  qed
qed


section \<open>The authorization endpoint\<close>

lemma step_other:
  "step_ok st (st\<lparr>t_pars := x\<rparr>)" "step_ok st (st\<lparr>t_consents := y\<rparr>)" "step_ok st (st\<lparr>t_revoked_jtis := z\<rparr>)"
  by (rule step_tables; simp add: token_tables_def)+

lemma step_CreatePAR: "CreatePAR E c p st = (r, st') \<Longrightarrow> step_ok st st'"
  by (auto simp: CreatePAR_def CreatePAR_row_def stmt_opt_def new_uuid_def step_refl step_bump
      bump_via [OF step_other(1)] split: if_splits option.splits dbres.splits)

lemma step_DeletePAR: "DeletePAR E u st = DbOk st' \<Longrightarrow> step_ok st st'"
  by (auto simp: DeletePAR_def stmt_def intro!: step_other split: if_splits)

lemma step_then_complete:
  assumes "CreateAuthRequest E r st = (x, st1)" and "request_ok r"
    and "completeAuthorize E req ip ua st1 = (y, st')"
  shows "step_ok st st'"
  using step_trans [OF step_CreateAuthRequest [OF assms(1,2)] step_completeAuthorize [OF assms(3)]] .

lemma step_handlePromptNone:
  assumes "handlePromptNone E c p scopes aud st = (r, st')"
  shows "step_ok st st'"
proof -
  let ?q = "\<lambda>u. (base_request c p scopes aud (clk E + minutes 1))
    \<lparr>ar_user_id := Some u, ar_authenticated := True, ar_consent_given := True, ar_auth_time := Some (clk E)\<rparr>"
  have ok: "request_ok (?q u)" for u by (simp add: request_ok_def)
  show ?thesis
    using assms step_CreateAuthRequest [OF _ ok] step_then_complete [OF _ ok]
    by (auto simp: handlePromptNone_def step_refl split: option.splits if_splits prod.splits dbres.splits sum.splits)
qed

lemma sso_request_ok: "request_ok (sso_request E c p scopes aud s b)"
  by (simp add: request_ok_def sso_request_def)

lemma step_trySilentSSO:
  assumes "trySilentSSO E c p scopes aud resource max_age st = (r, st')"
  shows "step_ok st st'"
  using assms step_CreateAuthRequest [OF _ sso_request_ok] step_then_complete [OF _ sso_request_ok]
  by (auto simp: trySilentSSO_def step_refl Let_def
      split: sum.splits option.splits if_splits prod.splits dbres.splits)

lemma interactive_request_ok: "request_ok (interactive_request E c p scopes aud m)"
  by (simp add: request_ok_def interactive_request_def base_request_def)

lemma step_start_interactive:
  "start_interactive E c p scopes aud resource max_age st = (r, st') \<Longrightarrow> step_ok st st'"
  using step_CreateAuthRequest [OF _ interactive_request_ok]
  by (auto simp: start_interactive_def split: prod.splits dbres.splits)

lemma step_InitAuthorize:
  assumes "InitAuthorize E c p st = (r, st')"
  shows "step_ok st st'"
proof -
  have seq: "step_ok st st'" if "trySilentSSO E c q ss aud res m st = (x, st1)"
    "start_interactive E c q ss aud res m st1 = (r, st')" for q ss aud res m x st1
    using step_trans [OF step_trySilentSSO [OF that(1)] step_start_interactive [OF that(2)]] .
  show ?thesis
    using assms seq step_handlePromptNone step_trySilentSSO step_start_interactive step_refl
    unfolding InitAuthorize_def Let_def
    by (simp split: sum.splits prod.splits if_splits option.splits)
qed

lemma step_InitAuthorizeFromPAR:
  assumes "InitAuthorizeFromPAR E u i sid st = (r, st')"
  shows "step_ok st st'"
proof -
  have d: "step_ok st (db_ignore st (DeletePAR E u st))" by (rule step_ignore) (rule step_DeletePAR)
  show ?thesis
    using assms d step_refl step_trans [OF d step_InitAuthorize]
    by (auto simp: InitAuthorizeFromPAR_def Let_def split: dbres.splits option.splits if_splits sum.splits)
qed

section \<open>The steps of a request\<close>

lemma pending_request_ok:
  "pending_request E i st = Inr req \<Longrightarrow> oauth_inv st \<Longrightarrow> request_ok req"
  by (auto simp: pending_request_def FindAuthRequest_def stmt_def oauth_inv_def
      split: option.splits if_splits dest!: first_where_SomeD)

text \<open>A row read before other calls and saved after them: the invariant of the first state is
  what makes the saved row good.\<close>

lemma step_update_later:
  assumes "step_ok st st1" and "UpdateAuthRequest E req st1 = DbOk st'" and "oauth_inv st \<Longrightarrow> request_ok req"
  shows "step_ok st st'"
proof -
  have st': "st' = st1\<lparr>t_auth_requests := save_row ar_id req (t_auth_requests st1)\<rparr>"
    using assms(2) by (simp add: UpdateAuthRequest_def stmt_def split: if_splits)
  have "history st1 st'" "t_sessions st' = t_sessions st1"
    using history_same [of st' st1] by (simp_all add: st' token_tables_def)
  moreover have "oauth_inv st \<Longrightarrow> oauth_inv st'"
    using assms(1) step_UpdateAuthRequest [OF assms(2) assms(3)] by (auto simp: step_ok_def)
  moreover have "device_keys st' = device_keys st1" by (rule device_keys_cong) (simp add: st')
  ultimately show ?thesis using assms(1) history_trans by (auto simp: step_ok_def)
qed

lemma step_save_later:
  assumes "step_ok st st1" and "save_request E req v st1 = (r, st')" and "oauth_inv st \<Longrightarrow> request_ok req"
  shows "step_ok st st'"
  using assms(1,2) step_update_later [OF assms(1) _ assms(3)]
  by (auto simp: save_request_def split: dbres.splits)

lemma step_complete_later:
  assumes "step_ok st st1" and "UpdateAuthRequest E req st1 = DbOk st2" and "oauth_inv st \<Longrightarrow> request_ok req"
    and "completeAuthorize E req ip ua st2 = (r, st')"
  shows "step_ok st st'"
  using step_trans [OF step_update_later [OF assms(1-3)] step_completeAuthorize [OF assms(4)]] by blast

lemma first_factor_ok: "request_ok req \<Longrightarrow> request_ok (after_first_factor E u meth b needs req)"
  by (auto simp: request_ok_def after_first_factor_def Let_def)

lemma second_factor_ok: "ar_user_id req = Some u \<Longrightarrow> request_ok (after_second_factor E needs req)"
  by (simp add: request_ok_def after_second_factor_def Let_def)


lemma step_AuthorizeLogin:
  assumes "AuthorizeLogin E inp ip ua st = (r, st')"
  shows "step_ok st st'"
proof (cases "pending_request E (li_request_id inp) st")
  case (Inl e)
  with assms show ?thesis by (simp add: AuthorizeLogin_def step_refl)
next
  case (Inr req)
  obtain x st1 where a: "Authenticate E (li_email inp) (li_password inp) st = (x, st1)" by fastforce
  have ok1: "step_ok st st1" by (rule step_part) (rule Authenticate_part [OF a])
  have ok: "oauth_inv st \<Longrightarrow> request_ok (after_first_factor E u meth b n (req\<lparr>ar_remember_me := m\<rparr>))" for u meth b n m
    using pending_request_ok [OF Inr] by (intro first_factor_ok) (simp add: request_ok_def)
  show ?thesis
    using assms ok1 step_refl step_save_later [OF ok1 _ ok]
    by (auto simp: AuthorizeLogin_def Inr a Let_def split: if_splits sum.splits option.splits)
qed

lemma step_AuthorizeRegister:
  assumes "gorm_rollback E" and "AuthorizeRegister E inp st = (r, st')"
  shows "step_ok st st'"
proof (cases "pending_request E (rg_request_id inp) st")
  case (Inl e)
  with assms show ?thesis by (simp add: AuthorizeRegister_def step_refl)
next
  case (Inr req)
  let ?in = "\<lparr>ri_email = rg_email inp, ri_password = rg_password inp,
    ri_display_name = rg_display_name inp, ri_extra_fields = rg_extra_fields inp,
    ri_skip_verification_email = True\<rparr>"
  obtain x st1 where a: "Register E ?in st = (x, st1)" by fastforce
  have ok1: "step_ok st st1" by (rule step_part) (rule Register_part [OF assms(1) a])
  have sent: "step_ok s s'" if "SendVerificationEmail E i q s = (y, s')" for i q s y s'
    by (rule step_part) (rule SendVerificationEmail_part [OF assms(1) that])
  have later: "step_ok st st'" if u: "UpdateAuthRequest E (req\<lparr>ar_user_id := Some i, ar_expires_at := t\<rparr>) st1 = DbOk st2"
    and m: "SendVerificationEmail E j q st2 = (y, st')" for i t st2 j q y
  proof -
    have "step_ok st st2"
      using pending_request_ok [OF Inr] by (intro step_update_later [OF ok1 u]) (simp add: request_ok_def)
    then show ?thesis using step_trans sent [OF m] by blast
  qed
  show ?thesis
    using assms(2) ok1 step_refl later
    by (auto simp: AuthorizeRegister_def Inr a split: if_splits sum.splits dbres.splits prod.splits)
qed

lemma step_AuthorizeMFA:
  assumes "AuthorizeMFA E i code st = (r, st')"
  shows "step_ok st st'"
proof (cases "pending_request E i st")
  case (Inl e)
  with assms show ?thesis by (simp add: AuthorizeMFA_def step_refl)
next
  case (Inr req)
  have part: "step_ok st st1" if "mfa_ValidateCode E u code st = (x, st1)" for u x st1
    by (rule step_part) (rule mfa_ValidateCode_part [OF that])
  show ?thesis
  proof (cases "ar_user_id req")
    case None
    with assms Inr show ?thesis by (simp add: AuthorizeMFA_def step_refl)
  next
    case (Some u)
    show ?thesis
      using assms step_refl part step_save_later [OF part _ second_factor_ok [OF Some]]
      by (auto simp: AuthorizeMFA_def Inr Some split: if_splits sum.splits prod.splits bool.splits)
  qed
qed

lemma step_store_consent: "store_consent E u c ss st = (r, st') \<Longrightarrow> step_ok st st'"
  by (auto simp: store_consent_def CreateConsent_def UpdateConsent_def stmt_def stmt_opt_def insert_row_def
      new_uuid_def step_refl step_bump step_other bump_via [OF step_other(2)]
      split: dbres.splits option.splits prod.splits if_splits)

lemma step_AuthorizeConsent:
  assumes "AuthorizeConsent E i ss ip ua st = (r, st')"
  shows "step_ok st st'"
proof (cases "pending_request E i st")
  case (Inl e)
  with assms show ?thesis by (simp add: AuthorizeConsent_def step_refl)
next
  case (Inr req)
  show ?thesis
  proof (cases "ar_authenticated req \<and> ar_user_id req \<noteq> None")
    case False
    with assms Inr show ?thesis
      by (auto simp: AuthorizeConsent_def step_refl split: if_splits option.splits)
  next
    case True
    then have ok: "request_ok (req\<lparr>ar_consent_given := True, ar_scopes := g\<rparr>)" for g
      by (simp add: request_ok_def)
    show ?thesis
      using assms True step_refl step_store_consent step_complete_later [OF step_store_consent _ ok]
      by (auto simp: AuthorizeConsent_def Inr Let_def
          split: if_splits option.splits sum.splits prod.splits dbres.splits)
  qed
qed

lemma step_Resume:
  assumes "ResumeAuthorizeAfterExternalLogin E i u p st = (r, st')"
  shows "step_ok st st'"
proof (cases "pending_request E i st")
  case (Inl e)
  with assms show ?thesis by (simp add: ResumeAuthorizeAfterExternalLogin_def step_refl)
next
  case (Inr req)
  have ok: "oauth_inv st \<Longrightarrow> request_ok (after_first_factor E v meth b n req)" for v meth b n
    using pending_request_ok [OF Inr] by (intro first_factor_ok)
  show ?thesis
    using assms step_refl step_save_later [OF step_refl _ ok]
    by (auto simp: ResumeAuthorizeAfterExternalLogin_def Inr Let_def split: if_splits sum.splits)
qed

lemma step_CompleteFirstParty: "CompleteAuthorizeFirstParty E i ip ua st = (r, st') \<Longrightarrow> step_ok st st'"
  by (auto simp: CompleteAuthorizeFirstParty_def step_refl split: option.splits if_splits
      intro: step_completeAuthorize)

lemma step_CompleteAfterEmail:
  assumes "CompleteAfterEmailVerification E i u ip ua st = (r, st')"
  shows "step_ok st st'"
proof -
  have ok: "request_ok (verified_request E req)" if "ar_user_id req = Some u" for req
    using that by (simp add: request_ok_def verified_request_def)
  show ?thesis
    using assms step_refl step_complete_later [OF step_refl _ ok]
    by (auto simp: CompleteAfterEmailVerification_def split: option.splits if_splits dbres.splits)
qed


section \<open>The token endpoint\<close>

lemma step_rows_appended:
  assumes "t_access_tokens st' = t_access_tokens st @ [a]" and "t_refresh_tokens st' = t_refresh_tokens st @ [r]"
    and "without_tokens st' = without_tokens st"
    and "access_ok st a" and "owns st (Some (rt_session_id r)) (rt_user_id r)"
  shows "step_ok st st'"
proof -
  have f: "t_auth_codes st' = t_auth_codes st" "t_device_codes st' = t_device_codes st"
    "t_sessions st' = t_sessions st" "t_auth_requests st' = t_auth_requests st"
    by (rule without_tokens_field [OF assms(3)]; simp)+
  have "history st st'" using assms(1,2) f by (intro history_append) auto
  moreover have "owns st' = owns st" "access_ok st' = access_ok st" "device_ok st' = device_ok st"
    by (rule sessions_cong; simp add: f)+
  ultimately show ?thesis
    using assms device_keys_cong [OF f(2)] by (auto simp: step_ok_def oauth_inv_def f)
qed

lemma step_issueTokens:
  assumes "issueTokensWithOpts E c u session scopes opts st = (Inr resp, st')" and "owns st session u"
  shows "step_ok st st'"
proof (rule issueTokens_Inr [OF assms(1)])
  fix s tok rt granted
  assume s: "session = Some s" and rows: "issued_rows E c u s (io_audience opts) granted resp tok rt"
    and t: "t_access_tokens st' = t_access_tokens st @ [tok]" "t_refresh_tokens st' = t_refresh_tokens st @ [rt]"
      "without_tokens st' = without_tokens st"
  show ?thesis
    using rows assms(2) s
    by (intro step_rows_appended [OF t]) (simp_all add: issued_rows_def access_ok_def)
qed

lemma step_history_if:
  assumes "oauth_inv st \<Longrightarrow> step_ok st st'" and "history st st'" and "set (t_sessions st) \<subseteq> set (t_sessions st')"
    and "device_keys st \<Longrightarrow> device_keys st'"
  shows "step_ok st st'"
  using assms by (auto simp: step_ok_def)

text \<open>Without the invariant the two frames still hold, since the issued rows are new.\<close>

lemma issueTokens_frame:
  assumes "issueTokensWithOpts E c u session scopes opts st = (Inr resp, st')"
  shows "history st st' \<and> t_sessions st' = t_sessions st \<and> t_device_codes st' = t_device_codes st"
proof (rule issueTokens_Inr [OF assms])
  fix s tok rt granted
  assume t: "t_access_tokens st' = t_access_tokens st @ [tok]" "t_refresh_tokens st' = t_refresh_tokens st @ [rt]"
      "without_tokens st' = without_tokens st"
  have f: "t_auth_codes st' = t_auth_codes st" "t_device_codes st' = t_device_codes st"
    "t_sessions st' = t_sessions st"
    by (rule without_tokens_field [OF t(3)]; simp)+
  then show ?thesis using t(1,2) by (auto intro!: history_append)
qed

lemma step_issue_later:
  assumes "step_ok st st1" and "issueTokensWithOpts E c u session scopes opts st1 = (Inr resp, st')"
    and "oauth_inv st \<Longrightarrow> owns st1 session u"
  shows "step_ok st st'"
proof (rule step_history_if)
  show "history st st'" "set (t_sessions st) \<subseteq> set (t_sessions st')"
    using assms(1) issueTokens_frame [OF assms(2)] history_trans by (auto simp: step_ok_def)
  show "device_keys st \<Longrightarrow> device_keys st'"
    using assms(1) issueTokens_frame [OF assms(2)] device_keys_cong [of st' st1] by (auto simp: step_ok_def)
  show "oauth_inv st \<Longrightarrow> step_ok st st'"
    using step_trans [OF assms(1) step_issueTokens [OF assms(2) assms(3)]] .
qed

lemma step_keeps_sessions:
  assumes "t_sessions st' = t_sessions st" and "history st st'"
    and "t_auth_requests st' = t_auth_requests st"
    and "\<And>c. c \<in> set (t_auth_codes st') \<Longrightarrow> \<exists>c0 \<in> set (t_auth_codes st). code_le c0 c"
    and "\<And>t. t \<in> set (t_access_tokens st') \<Longrightarrow> \<exists>t0 \<in> set (t_access_tokens st). access_le t0 t"
    and "\<And>t. t \<in> set (t_refresh_tokens st') \<Longrightarrow> \<exists>t0 \<in> set (t_refresh_tokens st). refresh_le t0 t"
    and "t_device_codes st' = t_device_codes st"
  shows "step_ok st st'"
proof -
  have o: "owns st' = owns st" "access_ok st' = access_ok st" "device_ok st' = device_ok st"
    by (rule sessions_cong; simp add: assms)+
  have "oauth_inv st'" if inv: "oauth_inv st"
    unfolding oauth_inv_def o assms(3,7)
  proof (intro conjI ballI)
    fix c assume "c \<in> set (t_auth_codes st')"
    then obtain c0 where "c0 \<in> set (t_auth_codes st)" "code_le c0 c" using assms(4) by blast
    then show "owns st (ac_session_id c) (ac_user_id c)"
      using inv code_le_fields [of c0 c] by (auto simp: oauth_inv_def)
  next
    fix t assume "t \<in> set (t_access_tokens st')"
    then obtain t0 where "t0 \<in> set (t_access_tokens st)" "access_le t0 t" using assms(5) by blast
    moreover have "access_ok st t0 = access_ok st t"
      using access_le_fields [OF \<open>access_le t0 t\<close>] by (simp add: access_ok_def split: option.split)
    ultimately show "access_ok st t" using inv by (auto simp: oauth_inv_def)
  next
    fix t assume "t \<in> set (t_refresh_tokens st')"
    then obtain t0 where "t0 \<in> set (t_refresh_tokens st)" "refresh_le t0 t" using assms(6) by blast
    then show "owns st (Some (rt_session_id t)) (rt_user_id t)"
      using inv refresh_le_fields [of t0 t] by (auto simp: oauth_inv_def)
  qed (use inv in \<open>auto simp: oauth_inv_def\<close>)
  then show ?thesis using assms(1,2) device_keys_cong [OF assms(7)] by (simp add: step_ok_def)
qed

lemma update_where_le: "(\<And>r. le r r) \<Longrightarrow> (\<And>r. P r \<Longrightarrow> le r (f r)) \<Longrightarrow> x \<in> set (update_where P f rs) \<Longrightarrow>
    \<exists>r \<in> set rs. le r x"
  by (auto simp: set_update_where split: if_splits)

lemma step_use_code: "step_ok st (use_code st h)"
proof (rule step_keeps_sessions)
  fix c assume "c \<in> set (t_auth_codes (use_code st h))"
  then show "\<exists>c0 \<in> set (t_auth_codes st). code_le c0 c"
    unfolding use_code_def
    by simp (erule update_where_le [rotated 2]; simp add: code_le_def)
qed (simp_all add: history_use_code, simp_all add: use_code_def access_order.le_refl refresh_order.le_refl,
    (use access_order.le_refl refresh_order.le_refl in blast)+)

lemma step_revoke_access_where:
  "step_ok st (st\<lparr>t_access_tokens := update_where P (\<lambda>t. t\<lparr>at_revoked := True\<rparr>) (t_access_tokens st)\<rparr>)"
proof (rule step_keeps_sessions)
  fix t assume "t \<in> set (t_access_tokens (st\<lparr>t_access_tokens := update_where P (\<lambda>t. t\<lparr>at_revoked := True\<rparr>) (t_access_tokens st)\<rparr>))"
  then show "\<exists>t0 \<in> set (t_access_tokens st). access_le t0 t"
    by simp (erule update_where_le [rotated 2]; simp add: access_le_def)
qed (simp_all add: history_revoke_access, (use codes_order.le_refl refresh_order.le_refl in blast)+)

lemma step_revoke_refresh_where:
  "step_ok st (st\<lparr>t_refresh_tokens := update_where P (\<lambda>t. t\<lparr>rt_revoked := True\<rparr>) (t_refresh_tokens st)\<rparr>)"
proof (rule step_keeps_sessions)
  fix t assume "t \<in> set (t_refresh_tokens (st\<lparr>t_refresh_tokens := update_where P (\<lambda>t. t\<lparr>rt_revoked := True\<rparr>) (t_refresh_tokens st)\<rparr>))"
  then show "\<exists>t0 \<in> set (t_refresh_tokens st). refresh_le t0 t"
    by simp (erule update_where_le [rotated 2]; simp add: refresh_le_def WasRotated_def)
qed (simp_all add: history_revoke_refresh, (use codes_order.le_refl access_order.le_refl in blast)+)

lemma step_rotate: "step_ok st (rotate_refresh now st h)"
proof (rule step_keeps_sessions)
  fix t assume "t \<in> set (t_refresh_tokens (rotate_refresh now st h))"
  then show "\<exists>t0 \<in> set (t_refresh_tokens st). refresh_le t0 t"
    unfolding rotate_refresh_def
    by simp (erule update_where_le [rotated 2]; simp add: refresh_le_def WasRotated_def)
qed (simp_all add: history_rotate, simp_all add: rotate_refresh_def,
    (use codes_order.le_refl access_order.le_refl in blast)+)


lemma code_row_inv:
  "oauth_inv st \<Longrightarrow> code_row st h = Some ac \<Longrightarrow> owns st (ac_session_id ac) (ac_user_id ac)"
  by (auto simp: oauth_inv_def code_row_def dest!: first_where_SomeD)

lemma refresh_row_inv:
  "oauth_inv st \<Longrightarrow> refresh_row st h = Some t \<Longrightarrow> owns st (Some (rt_session_id t)) (rt_user_id t)"
  by (auto simp: oauth_inv_def refresh_row_def dest!: first_where_SomeD)

lemma step_ExchangeAuthorizationCode:
  assumes "gorm_rollback E" and "ExchangeAuthorizationCode E c code uri v st = (r, st')"
  shows "step_ok st st'"
proof (cases r)
  case (Inl e)
  then show ?thesis
    using assms step_Transaction_Inl by (simp add: ExchangeAuthorizationCode_def)
next
  case (Inr resp)
  with assms(2) have ex: "ExchangeAuthorizationCode E c code uri v st = (Inr resp, st')" by simp
  show ?thesis
  proof (rule exchange_code_Inr [OF ex])
    fix ac
    assume row: "code_row st (HashToken (sha256 E) code) = Some ac"
      and i: "issueTokensWithOpts E c (ac_user_id ac) (ac_session_id ac) (ac_scopes ac) (code_opts ac)
         (use_code st (HashToken (sha256 E) code)) = (Inr resp, st')"
    show ?thesis
    proof (rule step_issue_later [OF step_use_code i])
      assume "oauth_inv st"
      then show "owns (use_code st (HashToken (sha256 E) code)) (ac_session_id ac) (ac_user_id ac)"
        using code_row_inv [OF _ row] owns_mono [of st "use_code st (HashToken (sha256 E) code)"]
        by (simp add: use_code_def)
    qed
  qed
qed

lemma step_after_rotation: "step_ok st (after_rotation E h st)"
  unfolding after_rotation_def Let_def
proof (rule step_trans [OF step_rotate step_ignore])
  fix st' assume "RevokeAccessTokensByRefreshToken E h (rotate_refresh (wall E) st h) = DbOk st'"
  then show "step_ok (rotate_refresh (wall E) st h) st'"
    by (auto simp: RevokeAccessTokensByRefreshToken_def stmt_def step_revoke_access_where split: if_splits)
qed

lemma step_ExchangeRefreshToken:
  assumes "gorm_rollback E" and "ExchangeRefreshToken E c raw scope st = (r, st')"
  shows "step_ok st st'"
proof (cases r)
  case (Inl e)
  then show ?thesis
    using assms exchange_refresh_failure [OF assms(1)] step_same_tables by blast
next
  case (Inr resp)
  let ?h = "HashToken (sha256 E) raw"
  have tx: "exchange_refresh_tx E c ?h scope st = (Inr resp, st')"
    using assms(2) Inr Transaction_Inr by (simp add: ExchangeRefreshToken_def split: if_splits)
  from tx obtain old g opts where old: "refresh_row st ?h = Some old"
    and i: "issueTokensWithOpts E c (rt_user_id old) (Some (rt_session_id old)) g opts (after_rotation E ?h st)
      = (Inr resp, st')"
    by (auto simp: exchange_refresh_tx_def FindRefreshToken_def RotateRefreshToken_def stmt_def
        after_rotation_def Let_def split: dbres.splits option.splits if_splits sum.splits)
  show ?thesis
  proof (rule step_issue_later [OF step_after_rotation i])
    assume "oauth_inv st"
    then show "owns (after_rotation E ?h st) (Some (rt_session_id old)) (rt_user_id old)"
      using refresh_row_inv [OF _ old] owns_mono step_after_rotation [of st E ?h] by (auto simp: step_ok_def)
  qed
qed

lemma step_ExchangeClientCredentials:
  assumes "ExchangeClientCredentials E c scope audience st = (r, st')"
  shows "step_ok st st'"
proof (cases "st' = st \<or> st' = bump st")
  case True
  then show ?thesis using step_refl step_bump by auto
next
  case False
  have m: "s' = bump s" if "mint_access E rs cl s = (x, s')" for rs cl s x s'
    using mint_access_state [of E rs cl s] that by simp
  from assms False m obtain t where "CreateAccessToken E t (bump st) = DbOk st'"
    and "at_user_id t = None" "at_session_id t = None"
    by (auto simp: ExchangeClientCredentials_def split: if_splits sum.splits prod.splits dbres.splits)
  then show ?thesis
    using bump_via [OF step_CreateAccessToken] by (simp add: access_ok_def)
qed

section \<open>Devices\<close>

lemma draw_user_code_part: "draw_user_code E n st = (r, st') \<Longrightarrow> oauth_part st' = oauth_part st"
  by (induction n arbitrary: st r) (auto split: option.splits prod.splits)

lemma generateUserCode_part: "generateUserCode E st = (r, st') \<Longrightarrow> oauth_part st' = oauth_part st"
  by (auto simp: generateUserCode_def split: option.splits prod.splits dest!: draw_user_code_part)

lemma step_CreateDeviceCode:
  assumes "CreateDeviceCode E d st = DbOk st'" and "dc_status d \<noteq> ''authorized''"
  shows "step_ok st st'"
proof -
  have st': "st' = st\<lparr>t_device_codes := t_device_codes st @ [d\<lparr>dc_created_at := wall E\<rparr>]\<rparr>"
    using assms(1) by (auto simp: CreateDeviceCode_def stmt_opt_def insert_row_def split: if_splits option.splits)
  have "insert_row dc_hash (d\<lparr>dc_created_at := wall E\<rparr>) (t_device_codes st) = Some (t_device_codes st')"
    using assms(1) by (auto simp: CreateDeviceCode_def stmt_opt_def split: if_splits option.splits)
  then have keys: "device_keys st \<Longrightarrow> device_keys st'"
    unfolding device_keys_def by (rule keys_unique_insert)
  have "history st st'" by (rule history_append) (simp_all add: st')
  moreover have "owns st' = owns st" "access_ok st' = access_ok st" "device_ok st' = device_ok st"
    by (rule sessions_cong; simp add: st')+
  ultimately show ?thesis
    using assms(2) keys by (auto simp: step_ok_def oauth_inv_def st' device_ok_def)
qed

lemma step_InitDeviceAuthorization:
  assumes "InitDeviceAuthorization E c scope iss st = (r, st')"
  shows "step_ok st st'"
proof -
  obtain x st1 where g: "GenerateOpaqueToken E st = (x, st1)" by fastforce
  obtain y st2 where u: "generateUserCode E st1 = (y, st2)" by fastforce
  have ok1: "step_ok st st1" using step_bump GenerateOpaqueToken_state [of E st] g by simp
  have ok2: "step_ok st st2"
    by (rule step_trans [OF ok1]) (rule step_part [OF generateUserCode_part [OF u]])
  have "dc_status (new_device_code E c ss h uc) \<noteq> ''authorized''" for ss h uc
    by (simp add: new_device_code_def)
  then show ?thesis
    using assms step_refl ok1 ok2 step_trans [OF ok2 step_CreateDeviceCode]
    by (auto simp: InitDeviceAuthorization_def g u split: if_splits option.splits dbres.splits)
qed

lemma device_row_inv: "oauth_inv st \<Longrightarrow> device_row st h = Some d \<Longrightarrow> device_ok st d"
  by (auto simp: oauth_inv_def device_row_def dest!: first_where_SomeD)

lemma device_key: "device_row st h = Some d \<Longrightarrow> dc_hash d = h"
  by (auto simp: device_row_def dest!: first_where_SomeD)

text \<open>Saving a device row that moves forward from the stored one.\<close>

lemma step_UpdateDeviceCode:
  assumes "UpdateDeviceCode E d st1 = DbOk st'" and "step_ok st st1"
    and "device_row st1 (dc_hash d) = Some d0" "device_le d0 d"
    and "oauth_inv st \<Longrightarrow> device_ok st1 d"
  shows "step_ok st st'"
proof (rule step_history_if)
  have st': "st' = st1\<lparr>t_device_codes := save_row dc_hash d (t_device_codes st1)\<rparr>"
    using assms(1) by (simp add: UpdateDeviceCode_def stmt_def split: if_splits)
  have h: "history st1 st'" unfolding st' by (rule history_save_device [OF assms(3,4)])
  show "history st st'" using history_trans h assms(2) by (auto simp: step_ok_def)
  show "set (t_sessions st) \<subseteq> set (t_sessions st')" using assms(2) by (simp add: step_ok_def st')
  show keys: "device_keys st \<Longrightarrow> device_keys st'"
    using assms(2) keys_unique_save [of dc_hash "t_device_codes st1" d]
    by (simp add: step_ok_def device_keys_def st')
  have o: "owns st' = owns st1" "access_ok st' = access_ok st1" "device_ok st' = device_ok st1"
    by (rule sessions_cong; simp add: st')+
  assume inv: "oauth_inv st"
  then have "oauth_inv st1" using assms(2) by (simp add: step_ok_def)
  moreover have "\<forall>x \<in> set (t_device_codes st'). device_ok st1 x"
    using \<open>oauth_inv st1\<close> assms(5) [OF inv] set_save_row [of dc_hash d "t_device_codes st1"]
    by (auto simp: oauth_inv_def st')
  ultimately have "oauth_inv st'"
    unfolding oauth_inv_def o by (simp add: st')
  with \<open>history st st'\<close> \<open>set (t_sessions st) \<subseteq> set (t_sessions st')\<close>
  show "step_ok st st'" using keys by (simp add: step_ok_def)
qed


lemma find_pending_row:
  assumes "find_pending E uc st = Inr dc"
  shows "dc \<in> set (t_device_codes st)" "dc_user_code dc = uc" "dc_status dc = ''pending''"
    "\<not> dc_IsExpired dc (wall E)"
  using assms
  by (auto simp: find_pending_def FindDeviceCodeByUserCode_def stmt_def split: option.splits if_splits
      dest!: first_where_SomeD)

lemma device_row_of: "device_keys st \<Longrightarrow> d \<in> set (t_device_codes st) \<Longrightarrow> device_row st (dc_hash d) = Some d"
  unfolding device_keys_def device_row_def by (rule first_where_key)

lemma step_DeviceApprove:
  assumes "device_keys st" and "DeviceApprove E uc ok u ip ua st = (r, st')"
  shows "step_ok st st'"
proof (cases "find_pending E uc st")
  case (Inl e)
  with assms show ?thesis by (simp add: DeviceApprove_def step_refl)
next
  case (Inr dc)
  note f = find_pending_row [OF Inr]
  have row: "device_row st (dc_hash dc) = Some dc" using device_row_of assms(1) f(1) by blast
  have denied: "step_ok st st'" if "UpdateDeviceCode E (dc\<lparr>dc_status := ''denied''\<rparr>) st = DbOk st'"
    using row f(3)
    by (intro step_UpdateDeviceCode [OF that step_refl, where ?d0.0 = dc])
      (simp_all add: device_le_def device_ok_def status_next_def)
  have approved: "step_ok st st'"
    if s: "session_Create_op E u ip ua False st = (Inr (s, cookie), st1)"
      and up: "UpdateDeviceCode E (dc\<lparr>dc_status := ''authorized'', dc_user_id := Some u,
                 dc_session_id := Some (se_id s)\<rparr>) st1 = DbOk st'" for s cookie st1
  proof -
    have fr: "st1 = st\<lparr>t_sessions := t_sessions st1, draws := draws st1\<rparr>"
      using session_Create_op_frame [OF s] by (auto simp: session_frame_def)
    have "t_device_codes st1 = t_device_codes st" by (subst fr) simp
    then have "device_row st1 (dc_hash dc) = Some dc" using row by (simp add: device_row_def)
    then show ?thesis
      using f(3) session_Create_owns [OF s]
      by (intro step_UpdateDeviceCode [OF up step_session_create [OF s], where ?d0.0 = dc])
        (simp_all add: device_le_def device_ok_def status_next_def)
  qed
  show ?thesis
    using assms(2) denied approved step_refl step_session_create
    by (auto simp: DeviceApprove_def Inr db_write_def
        split: if_splits option.splits dbres.splits prod.splits sum.splits)
qed

lemma step_poll:
  assumes "device_row st (dc_hash d) = Some d"
  shows "step_ok st (db_ignore st (UpdateDeviceCode E (d\<lparr>dc_last_polled_at := x\<rparr>) st))"
proof (rule step_ignore)
  fix st' assume up: "UpdateDeviceCode E (d\<lparr>dc_last_polled_at := x\<rparr>) st = DbOk st'"
  have "oauth_inv st \<Longrightarrow> device_ok st (d\<lparr>dc_last_polled_at := x\<rparr>)"
    using device_row_inv [OF _ assms] by (simp add: device_ok_def split: option.splits)
  then show "step_ok st st'"
    using assms by (intro step_UpdateDeviceCode [OF up step_refl, where ?d0.0 = d]) (simp_all add: device_le_def)
qed

lemma device_row_saved: "device_row st (dc_hash d) = Some d0 \<Longrightarrow>
    \<exists>d1. device_row (db_ignore st (UpdateDeviceCode E d st)) (dc_hash d) = Some d1 \<and> (d1 = d \<or> d1 = d0)"
  by (auto simp: UpdateDeviceCode_def stmt_def device_row_def first_where_save)

lemma step_issue_for_device:
  assumes "gorm_rollback E" and "issue_for_device E c d st = (r, st')"
    and "device_row st (dc_hash d) = Some d0" "device_le d0 d" "dc_status d = ''authorized''"
    and "oauth_inv st \<Longrightarrow> device_ok st d"
  shows "step_ok st st'"
proof (cases "dc_user_id d = None \<or> dc_session_id d = None")
  case True
  with assms(2) show ?thesis by (auto simp: issue_for_device_def step_refl split: option.splits)
next
  case False
  then obtain u s where us: "dc_user_id d = Some u" "dc_session_id d = Some s" by auto
  let ?fn = "issueTokensWithOpts E c u (Some s) (dc_scopes d) (no_opts\<lparr>io_auth_time := dc_created_at d\<rparr>)"
  obtain x st1 where tx: "Transaction E ?fn st = (x, st1)" by fastforce
  show ?thesis
  proof (cases x)
    case (Inl e)
    with assms(2) tx us have "st' = st1" by (simp add: issue_for_device_def)
    with tx Inl show ?thesis using step_Transaction_Inl [OF assms(1)] by simp
  next
    case (Inr resp)
    with tx have i: "?fn st = (Inr resp, st1)" using Transaction_Inr by simp
    have own: "oauth_inv st \<Longrightarrow> owns st (Some s) u" using assms(5,6) us by (simp add: device_ok_def)
    have ok: "step_ok st st1" by (rule step_issue_later [OF step_refl i own])
    have row: "device_row st1 (dc_hash d) = Some d0"
      using issueTokens_frame [OF i] assms(3) by (simp add: device_row_def)
    have st': "st' = db_ignore st1 (UpdateDeviceCode E (d\<lparr>dc_status := ''consumed''\<rparr>) st1)"
      using assms(2) tx us Inr by (simp add: issue_for_device_def)
    show ?thesis
    proof (cases "UpdateDeviceCode E (d\<lparr>dc_status := ''consumed''\<rparr>) st1")
      case DbErr
      with ok st' show ?thesis by simp
    next
      case (DbOk st2)
      have "step_ok st st2"
        using assms(4,5) row
        by (intro step_UpdateDeviceCode [OF DbOk ok, where ?d0.0 = d0])
          (auto simp: device_le_def device_ok_def status_next_def split: if_splits)
      with st' DbOk show ?thesis by simp
    qed
  qed
qed

lemma step_ExchangeDeviceCode:
  assumes "gorm_rollback E" and "ExchangeDeviceCode E c raw st = (r, st')"
  shows "step_ok st st'"
proof (cases "db_maybe (FindDeviceCode E (HashToken (sha256 E) raw) st)")
  case None
  with assms(2) show ?thesis by (simp add: ExchangeDeviceCode_def step_refl)
next
  case (Some d)
  then have row: "device_row st (dc_hash d) = Some d"
    using device_key [of st "HashToken (sha256 E) raw" d] by (simp add: FindDeviceCode_def stmt_def split: if_splits)
  let ?d = "d\<lparr>dc_last_polled_at := Some (clk E)\<rparr>"
  let ?st1 = "db_ignore st (UpdateDeviceCode E ?d st)"
  have poll: "step_ok st ?st1" by (rule step_poll [OF row])
  have later: "step_ok st st'" if "issue_for_device E c ?d ?st1 = (r, st')" "dc_status d = ''authorized''"
  proof -
    obtain d1 where d1: "device_row ?st1 (dc_hash d) = Some d1" "d1 = ?d \<or> d1 = d"
      using device_row_saved [of st ?d d E] row by auto
    have "device_le d1 ?d" using d1(2) by (auto simp: device_le_def)
    moreover have "device_ok ?st1 ?d" if "oauth_inv ?st1"
      using device_row_inv [OF that d1(1)] d1(2) by (auto simp: device_ok_def split: option.splits)
    ultimately have "step_ok ?st1 st'"
      using that(2) d1(1) by (intro step_issue_for_device [OF assms(1) that(1), of d1]) simp_all
    then show ?thesis using step_trans [OF poll] by blast
  qed
  show ?thesis
    using assms(2) later poll step_refl
    by (auto simp: ExchangeDeviceCode_def Some Let_def split: if_splits)
qed

section \<open>Revocation\<close>

lemma step_revoke_rows: "revoke_rows E h hint c st = (r, st') \<Longrightarrow> step_ok st st'"
proof -
  have fam: "step_ok st (db_ignore (st\<lparr>t_refresh_tokens := x\<rparr>) (RevokeAccessTokensBySession E i (st\<lparr>t_refresh_tokens := x\<rparr>)))"
    if "step_ok st (st\<lparr>t_refresh_tokens := x\<rparr>)" for x i
  proof (rule step_trans [OF that step_ignore])
    fix st' assume "RevokeAccessTokensBySession E i (st\<lparr>t_refresh_tokens := x\<rparr>) = DbOk st'"
    then show "step_ok (st\<lparr>t_refresh_tokens := x\<rparr>) st'"
      using step_revoke_access_where [of "st\<lparr>t_refresh_tokens := x\<rparr>"]
      by (auto simp: RevokeAccessTokensBySession_def stmt_def split: if_splits)
  qed
  have "step_ok st st'" if "revokeRefreshToken E rt st = (r, st')" for rt r st'
    using that fam [OF step_revoke_refresh_where] step_refl
    by (auto simp: revokeRefreshToken_def RevokeRefreshTokenFamily_def stmt_def split: dbres.splits if_splits)
  moreover have "step_ok st st'" if "revokeAccessToken E t st = (r, st')" for t r st'
    using that step_revoke_access_where step_refl
    by (auto simp: revokeAccessToken_def RevokeAccessToken_def revoke_access_def stmt_def split: dbres.splits if_splits)
  ultimately show "revoke_rows E h hint c st = (r, st') \<Longrightarrow> step_ok st st'"
    using step_refl by (auto simp: revoke_rows_def Let_def split: if_splits option.splits)
qed

lemma step_revoke_jwt: "revoke_jwt E claims c st = (r, st') \<Longrightarrow> step_ok st st'"
  by (auto simp: revoke_jwt_def RevokeJTI_def stmt_def Let_def step_refl step_other
      split: if_splits dbres.splits option.splits)

lemma step_Revoke:
  assumes "Revoke E token hint c st = (r, st')"
  shows "step_ok st st'"
  using assms step_refl step_revoke_jwt step_revoke_rows step_trans [OF step_revoke_jwt step_revoke_rows]
  by (auto simp: Revoke_def split: if_splits option.splits prod.splits)


section \<open>The service as a state machine\<close>

text \<open>One step is one call of the service, with any parameters and any environment whose SHA-256 is
  \<open>sha\<close> and whose database rolls failed transactions back.\<close>

inductive oauth_step :: "(string \<Rightarrow> string) \<Rightarrow> db \<Rightarrow> db \<Rightarrow> bool" for sha :: "string \<Rightarrow> string" where
  PAR: "sha256 E = sha \<Longrightarrow> gorm_rollback E \<Longrightarrow> CreatePAR E c p st = (r, st') \<Longrightarrow> oauth_step sha st st'"
| Init: "sha256 E = sha \<Longrightarrow> gorm_rollback E \<Longrightarrow> InitAuthorize E c p st = (r, st') \<Longrightarrow> oauth_step sha st st'"
| InitPAR: "sha256 E = sha \<Longrightarrow> gorm_rollback E \<Longrightarrow> InitAuthorizeFromPAR E uri cid sid st = (r, st') \<Longrightarrow>
    oauth_step sha st st'"
| Login: "sha256 E = sha \<Longrightarrow> gorm_rollback E \<Longrightarrow> AuthorizeLogin E inp ip ua st = (r, st') \<Longrightarrow> oauth_step sha st st'"
| Signup: "sha256 E = sha \<Longrightarrow> gorm_rollback E \<Longrightarrow> AuthorizeRegister E rin st = (r, st') \<Longrightarrow> oauth_step sha st st'"
| Second: "sha256 E = sha \<Longrightarrow> gorm_rollback E \<Longrightarrow> AuthorizeMFA E i code st = (r, st') \<Longrightarrow> oauth_step sha st st'"
| Consent: "sha256 E = sha \<Longrightarrow> gorm_rollback E \<Longrightarrow> AuthorizeConsent E i ss ip ua st = (r, st') \<Longrightarrow>
    oauth_step sha st st'"
| External: "sha256 E = sha \<Longrightarrow> gorm_rollback E \<Longrightarrow> ResumeAuthorizeAfterExternalLogin E i u prov st = (r, st') \<Longrightarrow>
    oauth_step sha st st'"
| FirstParty: "sha256 E = sha \<Longrightarrow> gorm_rollback E \<Longrightarrow> CompleteAuthorizeFirstParty E i ip ua st = (r, st') \<Longrightarrow>
    oauth_step sha st st'"
| Verified: "sha256 E = sha \<Longrightarrow> gorm_rollback E \<Longrightarrow> CompleteAfterEmailVerification E i u ip ua st = (r, st') \<Longrightarrow>
    oauth_step sha st st'"
| Code: "sha256 E = sha \<Longrightarrow> gorm_rollback E \<Longrightarrow> ExchangeAuthorizationCode E c raw uri v st = (r, st') \<Longrightarrow>
    oauth_step sha st st'"
| Refresh: "sha256 E = sha \<Longrightarrow> gorm_rollback E \<Longrightarrow> ExchangeRefreshToken E c raw scope st = (r, st') \<Longrightarrow>
    oauth_step sha st st'"
| Credentials: "sha256 E = sha \<Longrightarrow> gorm_rollback E \<Longrightarrow> ExchangeClientCredentials E c scope aud st = (r, st') \<Longrightarrow>
    oauth_step sha st st'"
| DeviceInit: "sha256 E = sha \<Longrightarrow> gorm_rollback E \<Longrightarrow> InitDeviceAuthorization E c scope iss st = (r, st') \<Longrightarrow>
    oauth_step sha st st'"
| DeviceDecide: "sha256 E = sha \<Longrightarrow> gorm_rollback E \<Longrightarrow> device_keys st \<Longrightarrow> DeviceApprove E uc ok u ip ua st = (r, st') \<Longrightarrow>
    oauth_step sha st st'"
| DevicePoll: "sha256 E = sha \<Longrightarrow> gorm_rollback E \<Longrightarrow> ExchangeDeviceCode E c raw st = (r, st') \<Longrightarrow> oauth_step sha st st'"
| Revocation: "sha256 E = sha \<Longrightarrow> gorm_rollback E \<Longrightarrow> Revoke E token hint c st = (r, st') \<Longrightarrow> oauth_step sha st st'"

inductive oauth_steps :: "(string \<Rightarrow> string) \<Rightarrow> db \<Rightarrow> db \<Rightarrow> bool" for sha :: "string \<Rightarrow> string" where
  Done: "oauth_steps sha st st"
| More: "oauth_steps sha st st1 \<Longrightarrow> oauth_step sha st1 st2 \<Longrightarrow> oauth_steps sha st st2"

inductive_cases oauth_stepE: "oauth_step sha st st'"

lemma oauth_step_ok: "oauth_step sha st st' \<Longrightarrow> step_ok st st'"
  by (induction rule: oauth_step.induct)
    (blast intro: step_CreatePAR step_InitAuthorize step_InitAuthorizeFromPAR step_AuthorizeLogin
      step_AuthorizeRegister step_AuthorizeMFA step_AuthorizeConsent step_Resume step_CompleteFirstParty
      step_CompleteAfterEmail step_ExchangeAuthorizationCode step_ExchangeRefreshToken
      step_ExchangeClientCredentials step_InitDeviceAuthorization step_DeviceApprove step_ExchangeDeviceCode
      step_Revoke)+

lemma oauth_steps_ok: "oauth_steps sha st st' \<Longrightarrow> step_ok st st'"
  by (induction rule: oauth_steps.induct) (auto intro: step_refl step_trans oauth_step_ok)

text \<open>The device key condition is no restriction: it holds in the empty database and every step
  keeps it.\<close>

lemma oauth_steps_device_keys: "oauth_steps sha st st' \<Longrightarrow> device_keys st \<Longrightarrow> device_keys st'"
  using oauth_steps_ok by (auto simp: step_ok_def)

lemma oauth_steps_inv: "oauth_steps sha st st' \<Longrightarrow> oauth_inv st \<Longrightarrow> oauth_inv st'"
  using oauth_steps_ok by (auto simp: step_ok_def)

lemma oauth_steps_history: "oauth_steps sha st st' \<Longrightarrow> history st st'"
  using oauth_steps_ok by (auto simp: step_ok_def)

end
