(* ===== verification/Demo.thy ===== *)
theory Demo
  imports Tokens
begin

text \<open>
  A concrete environment and a small database on which the properties are exercised: one
  confidential and one public client, one user with a password, a live session, an unused
  authorization code bound to it and a refresh token.
\<close>

definition demo_cfg :: auth_config where
  "demo_cfg = \<lparr>cfg_auth_code_ttl = 60000000000, cfg_device_code_ttl = 600000000000,
     cfg_session_ttl = 86400000000000, cfg_session_extended_ttl = 864000000000000,
     cfg_max_fail_attempts = 3, cfg_lockout_duration = 900000000000\<rparr>"

definition demo_uuid_string :: "uuid \<Rightarrow> string" where
  "demo_uuid_string u = (case u of UUID n \<Rightarrow> replicate n (CHR ''u''))"

definition demo_uuid_parse :: "string \<Rightarrow> uuid option" where
  "demo_uuid_parse s = (if list_all (\<lambda>c. c = CHR ''u'') s then Some (UUID (length s)) else None)"

lemma demo_uuid_roundtrip [simp]: "demo_uuid_parse (demo_uuid_string u) = Some u"
  by (cases u) (simp add: demo_uuid_parse_def demo_uuid_string_def list_all_iff)

text \<open>The \<open>n\<close>-th draw is a string of \<open>n\<close> letters; tokens of the demo rows contain a dot, which no
  drawn token does.\<close>

definition demo_rand :: "nat \<Rightarrow> nat \<Rightarrow> string option" where
  "demo_rand n k = Some (replicate n (CHR ''x''))"

definition demo_hash :: "nat \<Rightarrow> string \<Rightarrow> string option" where
  "demo_hash n p = Some (CHR ''h'' # p)"

definition demo_verify :: "string \<Rightarrow> string \<Rightarrow> (bool \<times> bool) option" where
  "demo_verify p h = Some (h = CHR ''h'' # p, False)"

definition demo_pw_policy :: "string \<Rightarrow> string list \<Rightarrow> err option" where
  "demo_pw_policy p hints = (if length p < 4 then Some (ErrBadRequest ''password too short'') else None)"

definition demo_rollback :: "db \<Rightarrow> db \<Rightarrow> db" where
  "demo_rollback st st' = st\<lparr>draws := draws st'\<rparr>"

text \<open>The JSON codec of pushed parameters is a parameter of the development; the demo stores the
  two fields its requests need.\<close>

definition demo_marshal :: "authorize_params \<Rightarrow> string" where
  "demo_marshal p = p_redirect_uri p"

definition demo_unmarshal :: "string \<Rightarrow> authorize_params option" where
  "demo_unmarshal s = Some (empty_params\<lparr>p_redirect_uri := s, p_response_type := ''code'',
     p_scope := ''openid'', p_code_challenge := b64_encode ''v1''\<rparr>)"

definition demo_env :: env where
  "demo_env = \<lparr>clk = 1000000000000, wall = 1000000000000, zone = 0, cfg = demo_cfg, issuer = ''iss'',
     sha256 = id, rand_bytes = demo_rand, rand_int = (\<lambda>n k. if k = 0 then None else Some (n mod k)), uuid_v7 = (\<lambda>n. Some (UUID (10 + n))),
     uuid_string = demo_uuid_string, uuid_parse = demo_uuid_parse,
     db_err = (\<lambda>c. False), rollback = demo_rollback,
     hash_password = demo_hash, verify_identify = demo_verify, password_policy = demo_pw_policy,
     totp_validate = (\<lambda>t secret code. code = secret), totp_generate = (\<lambda>n acc. Some (''secret'', ''otp'')),
     json_valid = (\<lambda>s. s \<noteq> []), marshal_params = demo_marshal, unmarshal_params = demo_unmarshal,
     url_origin = Some, policy_evaluator = None, resource_validator = None,
     id_token_gen = Some (\<lambda>n c. Some ''idt''), id_token_validator = Some demo_uuid_parse,
     jwt_signer = None, role_provider = None, mfa_configured = True, session_ttl_resolver = None,
     email_verification_gate = None, default_role = None, reg_form = None, action_token_sign = None,
     action_token_parse = (\<lambda>s. None), mail_sender = Some (\<lambda>m. Some (ml_kind m, ml_token m))\<rparr>"

lemma demo_env_sel [simp]:
  "clk demo_env = 1000000000000" "wall demo_env = 1000000000000" "zone demo_env = 0"
  "cfg demo_env = demo_cfg" "issuer demo_env = ''iss''" "sha256 demo_env = id"
  "rand_bytes demo_env = demo_rand" "rand_int demo_env n k = (if k = 0 then None else Some (n mod k))" "uuid_v7 demo_env n = Some (UUID (10 + n))"
  "uuid_string demo_env = demo_uuid_string" "uuid_parse demo_env = demo_uuid_parse"
  "\<not> db_err demo_env c" "rollback demo_env = demo_rollback" "hash_password demo_env = demo_hash"
  "verify_identify demo_env = demo_verify" "password_policy demo_env = demo_pw_policy"
  "totp_validate demo_env t secret code = (code = secret)" "totp_generate demo_env k acc = Some (''secret'', ''otp'')"
  "json_valid demo_env s = (s \<noteq> [])" "marshal_params demo_env = demo_marshal"
  "unmarshal_params demo_env = demo_unmarshal" "url_origin demo_env = Some"
  "policy_evaluator demo_env = None" "resource_validator demo_env = None"
  "id_token_gen demo_env = Some (\<lambda>n c. Some ''idt'')" "id_token_validator demo_env = Some demo_uuid_parse"
  "jwt_signer demo_env = None" "role_provider demo_env = None" "mfa_configured demo_env"
  "session_ttl_resolver demo_env = None" "email_verification_gate demo_env = None"
  "default_role demo_env = None" "reg_form demo_env = None" "action_token_sign demo_env = None"
  "mail_sender demo_env = Some (\<lambda>m. Some (ml_kind m, ml_token m))"
  by (simp_all add: demo_env_def)

lemma demo_env_rollback: "gorm_rollback demo_env"
  by (simp add: gorm_rollback_def demo_rollback_def)

lemma b64_not_dot [simp]: "b64_encode s \<noteq> CHR ''.'' # cs" "CHR ''.'' # cs \<noteq> b64_encode s"
  using b64_encode_no_dot [of s] by (metis list.set_intros(1))+

definition demo_client :: client where
  "demo_client = blank_client\<lparr>cl_id := UUID 1, cl_secret_hash := Some ''s'', cl_name := ''shop'',
     cl_redirect_uris := [''cb''],
     cl_grant_types := [''authorization_code'', ''refresh_token'', ''client_credentials'',
        ''urn:ietf:params:oauth:grant-type:device_code''],
     cl_scopes := [''openid'', ''orders''], cl_token_auth_method := ''client_secret_basic'',
     cl_is_first_party := True, cl_require_pkce := True, cl_access_token_ttl := 600,
     cl_refresh_token_ttl := 3600, cl_id_token_ttl := 600, cl_subject_type := ''public'', cl_active := True\<rparr>"

definition demo_user :: user where
  "demo_user = blank_user\<lparr>us_id := UUID 2, us_email := ''a@b.c'', us_email_verified := True,
     us_password_hash := Some ''hpass'', us_active := True\<rparr>"

definition demo_session :: session where
  "demo_session = \<lparr>se_id = UUID 3, se_user_id = UUID 2, se_ip_address = None, se_user_agent = None,
     se_last_active_at = 999000000000, se_authenticated_at = 999000000000, se_revoked = False, se_revoked_at = None,
     se_expires_at = 2000000000000, se_extended = False, se_cookie_token_hash = HashToken id ''.cookie''\<rparr>"

text \<open>The code \<open>.c1\<close> is bound to the PKCE verifier \<open>v1\<close>.\<close>

definition demo_code :: auth_code where
  "demo_code = \<lparr>ac_code_hash = HashToken id ''.c1'', ac_client_id = UUID 1, ac_user_id = UUID 2,
     ac_redirect_uri = ''cb'', ac_scopes = [''openid'', ''orders''],
     ac_code_challenge = Some (b64_encode ''v1''), ac_code_challenge_method = Some ''S256'', ac_nonce = None,
     ac_session_id = Some (UUID 3), ac_audience = None, ac_claims_param = None,
     ac_auth_time = Some 999000000000, ac_auth_methods = [''pwd''], ac_expires_at = 1050000000000,
     ac_used = False, ac_created_at = 999500000000\<rparr>"

definition demo_refresh :: refresh_token where
  "demo_refresh = \<lparr>rt_id = HashToken id ''.r1'', rt_client_id = UUID 1, rt_user_id = UUID 2,
     rt_session_id = UUID 3, rt_scopes = [''openid'', ''orders''], rt_audience = None, rt_family_id = UUID 5,
     rt_parent_id = None, rt_expires_at = 5000000000000, rt_revoked = False, rt_rotated_at = None,
     rt_created_at = 999000000000\<rparr>"

definition demo_access :: access_token where
  "demo_access = \<lparr>at_id = HashToken id ''.a1'', at_client_id = UUID 1, at_user_id = Some (UUID 2),
     at_session_id = Some (UUID 3), at_refresh_token_id = Some (HashToken id ''.r1''),
     at_scopes = [''openid'', ''orders''], at_audience = None, at_jti = None, at_expires_at = 1600000000000,
     at_revoked = False, at_created_at = 999000000000\<rparr>"

definition empty_db :: db where
  "empty_db = \<lparr>t_clients = [], t_users = [], t_roles = [], t_permissions = [], t_role_permissions = [],
     t_user_roles = [], t_resources = [], t_resource_permissions = [], t_client_permissions = [],
     t_role_resource_permissions = [], t_sessions = [], t_auth_requests = [], t_auth_codes = [],
     t_access_tokens = [], t_refresh_tokens = [], t_consents = [], t_device_codes = [], t_pars = [],
     t_revoked_jtis = [], t_mfa_methods = [], t_settings = [], t_invitations = [], t_reauth_tokens = [],
     t_reg_fields = [], t_policies = [], t_outbox = [],
     t_signing_keys = [], t_fed_providers = [], t_fed_links = [], t_fed_requests = [], t_fed_pending_links = [],
     t_fed_pending_signups = [], t_passkeys = [], t_passkey_challenges = [], draws = 0\<rparr>"

definition demo_db :: db where
  "demo_db = empty_db\<lparr>t_clients := [demo_client], t_users := [demo_user], t_sessions := [demo_session],
     t_auth_codes := [demo_code], t_access_tokens := [demo_access], t_refresh_tokens := [demo_refresh]\<rparr>"

lemma demo_db_sel [simp]:
  "t_clients demo_db = [demo_client]" "t_users demo_db = [demo_user]" "t_sessions demo_db = [demo_session]"
  "t_auth_codes demo_db = [demo_code]" "t_access_tokens demo_db = [demo_access]"
  "t_refresh_tokens demo_db = [demo_refresh]" "t_auth_requests demo_db = []" "t_consents demo_db = []"
  "t_device_codes demo_db = []" "t_pars demo_db = []" "t_revoked_jtis demo_db = []" "t_mfa_methods demo_db = []"
  "t_user_roles demo_db = []" "t_outbox demo_db = []" "draws demo_db = 0"
  by (simp_all add: demo_db_def empty_db_def)

text \<open>A call that evaluates to a value is that value: how a witness discharges a hypothesis.\<close>

definition ran :: "'a res \<times> db \<Rightarrow> bool" where
  "ran x = (case x of (Inr _, _) \<Rightarrow> True | _ \<Rightarrow> False)"

lemma ran_Inr: "ran x \<Longrightarrow> x = (Inr (projr (fst x)), snd x)"
  by (cases x; cases "fst x") (auto simp: ran_def)

definition failed :: "'a res \<times> db \<Rightarrow> bool" where
  "failed x = (case x of (Inl _, _) \<Rightarrow> True | _ \<Rightarrow> False)"

lemma failed_Inl: "failed x \<Longrightarrow> x = (Inl (projl (fst x)), snd x)"
  by (cases x; cases "fst x") (auto simp: failed_def)

lemmas demo_rows = demo_client_def blank_client_def demo_user_def demo_session_def demo_code_def demo_refresh_def
  demo_access_def demo_cfg_def demo_rand_def demo_rollback_def demo_hash_def demo_verify_def
  demo_pw_policy_def blank_user_def

lemmas run_store = ran_def failed_def repo_defs bump_def new_uuid_def GenerateOpaqueToken_def GenerateRandomString_def
  HashToken_inject code_row_def refresh_row_def access_row_def request_row_def device_row_def par_row_def
  add_code_def add_refresh_def add_access_def add_request_def use_code_def rotate_refresh_def revoke_access_def
  insert_row_def update_where_def save_row_def delete_where_def Transaction_def deref_def

lemmas run_tokens = ExchangeAuthorizationCode_def exchange_code_tx_def code_checks_def code_opts_def ac_IsValid_def
  HasPKCE_def verifyPKCE_def issueTokensWithOpts_def token_policy_def loadRoles_def evaluate_policy_def mint_access_def
  store_tokens_def resolve_resource_def user_scopes_def refresh_of_def access_of_def issued_id_token_def
  ExchangeRefreshToken_def exchange_refresh_tx_def refresh_checks_def WasRotated_def requested_of_def
  refresh_policy_def HasGrantType_def ExchangeClientCredentials_def client_grant_def no_opts_def
  LookupActiveAccessToken_def at_IsValid_def containsScope_def

end
