(* ===== verification/AuthorizeLemmas.thy ===== *)
theory AuthorizeLemmas
  imports AuthorizeSteps
begin

text \<open>
  What the operations of the authorization endpoint achieve when they succeed: the code of a
  completed request and its bindings, the tests a request has passed, the effect of each step on
  the request row.
\<close>

section \<open>Completion\<close>

lemma hybrid_access_Inr:
  assumes "hybrid_access E req u s resp st = (Inr resp', st')"
  shows "t_auth_codes st' = t_auth_codes st" "t_sessions st' = t_sessions st"
    "t_auth_requests st' = t_auth_requests st" "t_refresh_tokens st' = t_refresh_tokens st"
    "az_code resp' = az_code resp" "az_redirect_uri resp' = az_redirect_uri resp"
    "az_state resp' = az_state resp" "az_issuer resp' = az_issuer resp"
    "az_session_cookie resp' = az_session_cookie resp"
  using assms
  by (auto simp: hybrid_access_def CreateAccessToken_DbOk bump_def
      split: if_splits sum.splits prod.splits option.splits dbres.splits dest!: GenerateOpaqueToken_SomeD)

lemma hybrid_id_token_Inr:
  assumes "hybrid_id_token E req u resp st = (Inr resp', st')"
  shows "t_auth_codes st' = t_auth_codes st" "t_sessions st' = t_sessions st"
    "t_auth_requests st' = t_auth_requests st" "t_refresh_tokens st' = t_refresh_tokens st"
    "az_code resp' = az_code resp" "az_redirect_uri resp' = az_redirect_uri resp"
    "az_state resp' = az_state resp" "az_issuer resp' = az_issuer resp"
    "az_session_cookie resp' = az_session_cookie resp"
  using assms
  by (auto simp: hybrid_id_token_def generateHybridIDToken_def bump_def Let_def
      split: if_splits sum.splits prod.splits option.splits)

lemma hybrid_tokens_Inr:
  assumes "hybrid_tokens E req u s resp st = (Inr resp', st')"
  shows "t_auth_codes st' = t_auth_codes st \<and> t_sessions st' = t_sessions st \<and>
    t_auth_requests st' = t_auth_requests st \<and> t_refresh_tokens st' = t_refresh_tokens st \<and>
    az_code resp' = az_code resp \<and> az_redirect_uri resp' = az_redirect_uri resp \<and>
    az_state resp' = az_state resp \<and> az_issuer resp' = az_issuer resp \<and>
    az_session_cookie resp' = az_session_cookie resp"
proof (cases "isHybridResponseType (ar_response_type req)")
  case False
  with assms show ?thesis by (simp add: hybrid_tokens_def)
next
  case True
  let ?resp = "if az_response_mode resp = [] then resp\<lparr>az_response_mode := ''fragment''\<rparr> else resp"
  from assms True obtain r1 st1 where a: "hybrid_access E req u s ?resp st = (Inr r1, st1)"
    and i: "hybrid_id_token E req u r1 st1 = (Inr resp', st')"
    by (auto simp: hybrid_tokens_def split: prod.splits sum.splits)
  have "az_code ?resp = az_code resp" "az_redirect_uri ?resp = az_redirect_uri resp"
    "az_state ?resp = az_state resp" "az_issuer ?resp = az_issuer resp"
    "az_session_cookie ?resp = az_session_cookie resp"
    by simp_all
  then show ?thesis
    using hybrid_access_Inr [OF a] hybrid_id_token_Inr [OF i] by metis
qed

text \<open>A completed request: the code and its session exist, bound as the request says, and the
  request itself is gone unless its deletion failed.\<close>

definition completed :: "env \<Rightarrow> auth_request \<Rightarrow> db \<Rightarrow> authorize_response \<Rightarrow> db \<Rightarrow> bool" where
  "completed E req st resp st' \<longleftrightarrow>
     (\<exists>u s. ar_user_id req = Some u \<and> se_user_id s = u \<and> \<not> se_revoked s \<and>
        se_cookie_token_hash s = HashToken (sha256 E) (az_session_cookie resp) \<and>
        t_sessions st' = t_sessions st @ [s] \<and>
        t_auth_codes st' = t_auth_codes st @
          [(code_of E req u (se_id s) (HashToken (sha256 E) (az_code resp)))\<lparr>ac_created_at := wall E\<rparr>]) \<and>
     HashToken (sha256 E) (az_code resp) \<notin> ac_code_hash ` set (t_auth_codes st) \<and>
     az_redirect_uri resp = ar_redirect_uri req \<and> az_state resp = deref (ar_state req) \<and>
     az_issuer resp = issuer E \<and>
     (\<not> db_err E ''DeleteAuthRequest'' \<longrightarrow> (\<forall>r \<in> set (t_auth_requests st'). ar_id r \<noteq> ar_id req))"

lemma completeAuthorize_completed:
  assumes "completeAuthorize E req ip ua st = (Inr resp, st')"
  shows "completed E req st resp st'"
proof -
  from assms obtain u s cookie st1 raw h st3 st4 ss st5
    where u: "ar_user_id req = Some u"
      and s: "session_Create_op E u ip ua (ar_remember_me req) st = (Inr (s, cookie), st1)"
      and g: "GenerateOpaqueToken E (db_ignore st1 (DeleteAuthRequest E (ar_id req) st1)) = (Some (raw, h), st3)"
      and c: "CreateAuthCode E (code_of E req u (se_id s) h) st3 = DbOk st4"
      and ss: "computeSessionState E (uuid_string E (ar_client_id req)) (ar_redirect_uri req)
             (uuid_string E (se_id s)) st4 = (ss, st5)"
      and hy: "hybrid_tokens E req u (se_id s) (code_response E req s cookie raw ss) st5 = (Inr resp, st')"
    by (auto simp: completeAuthorize_def split: option.splits prod.splits sum.splits dbres.splits)
  let ?st2 = "db_ignore st1 (DeleteAuthRequest E (ar_id req) st1)"
  have st3: "st3 = bump ?st2" "h = HashToken (sha256 E) raw" using GenerateOpaqueToken_SomeD [OF g] by auto
  have st4: "st4 = st3\<lparr>t_auth_codes := t_auth_codes st3 @
      [(code_of E req u (se_id s) h)\<lparr>ac_created_at := wall E\<rparr>]\<rparr>"
    using c by (auto simp: CreateAuthCode_def stmt_opt_def add_code_def insert_row_def split: if_splits)
  have fresh: "h \<notin> ac_code_hash ` set (t_auth_codes st3)"
    using c by (auto simp: CreateAuthCode_def stmt_opt_def add_code_def insert_row_def code_of_def split: if_splits)
  have st5: "st5 = bump st4"
    using ss by (auto simp: computeSessionState_def GenerateRandomString_def Let_def)
  have st2: "t_sessions ?st2 = t_sessions st1" "t_auth_codes ?st2 = t_auth_codes st1"
    "\<not> db_err E ''DeleteAuthRequest'' \<Longrightarrow> t_auth_requests ?st2 = delete_where (\<lambda>r. ar_id r = ar_id req) (t_auth_requests st1)"
    by (simp_all add: DeleteAuthRequest_def stmt_def)
  have "t_auth_codes st1 = t_auth_codes st" by (subst session_Create_op_InrD(9) [OF s]) simp
  with hybrid_tokens_Inr [OF hy] session_Create_op_InrD(1,2,6,7) [OF s] u st2 fresh
  show ?thesis
    by (auto simp: completed_def code_response_def st5 st4 st3 bump_def set_delete_where)
qed


text \<open>The code row of a completed request, by the hash of the code the browser gets.\<close>

lemma completed_code_row:
  assumes "completed E req st resp st'"
  obtains u s where "ar_user_id req = Some u"
    "code_row st' (HashToken (sha256 E) (az_code resp)) =
       Some ((code_of E req u s (HashToken (sha256 E) (az_code resp)))\<lparr>ac_created_at := wall E\<rparr>)"
proof -
  let ?h = "HashToken (sha256 E) (az_code resp)"
  have "\<exists>u s. ar_user_id req = Some u \<and>
      t_auth_codes st' = t_auth_codes st @ [(code_of E req u s ?h)\<lparr>ac_created_at := wall E\<rparr>]"
    and fresh: "?h \<notin> ac_code_hash ` set (t_auth_codes st)"
    using assms unfolding completed_def by blast+
  then obtain u s where u: "ar_user_id req = Some u"
    and codes: "t_auth_codes st' = t_auth_codes st @ [(code_of E req u s ?h)\<lparr>ac_created_at := wall E\<rparr>]"
    by blast
  have "first_where (\<lambda>x. ac_code_hash x = ?h) (t_auth_codes st) = None"
    using fresh by (intro first_where_absent) auto
  then show thesis
    using that [OF u, of s] codes by (simp add: code_row_def first_where_append code_of_def)
qed


section \<open>Starting a request\<close>

text \<open>What every accepted authorization request satisfies.\<close>

definition acceptable :: "env \<Rightarrow> client \<Rightarrow> authorize_params \<Rightarrow> bool" where
  "acceptable E c p \<longleftrightarrow>
     List.member (cl_redirect_uris c) (p_redirect_uri p) \<and>
     List.member (cl_grant_types c) ''authorization_code'' \<and>
     responseTypeIncludes (p_response_type p) ''code'' \<and>
     (cl_is_public c \<or> cl_require_pkce c \<longrightarrow> p_code_challenge p \<noteq> []) \<and>
     (p_code_challenge p \<noteq> [] \<longrightarrow> p_code_challenge_method p = ''S256'' \<or> p_code_challenge_method p = []) \<and>
     (p_claims p \<noteq> [] \<longrightarrow> json_valid E (p_claims p)) \<and> p_prompt p \<noteq> ''select_account''"

lemma init_checks_Inr: "init_checks E c p = Inr m \<Longrightarrow> acceptable E c p"
  by (auto simp: init_checks_def acceptable_def HasRedirectURI_def HasGrantType_def
      valid_response_type_has_code split: if_splits sum.splits)

lemma init_checks_max_age: "init_checks E c p = Inr (Some a) \<Longrightarrow> 0 \<le> a"
  by (auto simp: init_checks_def check_max_age_def split: if_splits sum.splits option.splits)

text \<open>A scope comes from the client's list or, with an audience, from the client's permissions on
  that resource.\<close>

definition scope_allowed :: "env \<Rightarrow> client \<Rightarrow> authorize_params \<Rightarrow> string \<Rightarrow> bool" where
  "scope_allowed E c p s \<longleftrightarrow>
     s \<in> set (cl_scopes c) \<or>
     (\<exists>rv r ss. resource_validator E = Some rv \<and> rv_audience rv (p_audience p) = Inr r \<and>
        rv_client_scopes rv (cl_id c) (res_id r) (parseSpaceDelimited (p_scope p)) = Inr ss \<and> s \<in> set ss)"

lemma init_scopes_Inr:
  assumes "init_scopes E c p = Inr (scopes, aud, info)"
  shows "\<forall>s \<in> set scopes. scope_allowed E c p s" "scopes \<noteq> []"
    "aud = None \<or> aud = Some (p_audience p)"
  using assms ValidateScopes_subset [of c "parseSpaceDelimited (p_scope p)"]
  by (auto simp: init_scopes_def scope_allowed_def Let_def unionScopes_Nil_iff
      split: if_splits option.splits sum.splits)

lemma default_challenge_method_fields [simp]:
  "p_scope (default_challenge_method p) = p_scope p" "p_audience (default_challenge_method p) = p_audience p"
  "p_redirect_uri (default_challenge_method p) = p_redirect_uri p"
  "p_code_challenge (default_challenge_method p) = p_code_challenge p"
  by (simp_all add: default_challenge_method_def)

lemma scope_allowed_default [simp]: "scope_allowed E c (default_challenge_method p) = scope_allowed E c p"
  by (intro ext) (simp add: scope_allowed_def)

lemma handlePromptNone_scopes: "handlePromptNone E c p ss aud st = (Inr resp, st') \<Longrightarrow> ir_scopes resp = ss"
  by (auto simp: handlePromptNone_def silent_response_def
      split: option.splits if_splits prod.splits dbres.splits sum.splits)

lemma trySilentSSO_scopes: "trySilentSSO E c p ss aud info m st = (Some resp, st') \<Longrightarrow> ir_scopes resp = ss"
  by (auto simp: trySilentSSO_def silent_response_def Let_def
      split: option.splits if_splits prod.splits dbres.splits sum.splits)

lemma start_interactive_scopes: "start_interactive E c p ss aud info m st = (Inr resp, st') \<Longrightarrow> ir_scopes resp = ss"
  by (auto simp: start_interactive_def split: prod.splits dbres.splits)

lemma InitAuthorize_Inr:
  assumes "InitAuthorize E c p st = (Inr resp, st')"
  shows "acceptable E c p" "\<forall>s \<in> set (ir_scopes resp). scope_allowed E c p s" "ir_scopes resp \<noteq> []"
proof -
  from assms obtain m where m: "init_checks E c p = Inr m"
    by (auto simp: InitAuthorize_def split: sum.splits)
  then show "acceptable E c p" by (rule init_checks_Inr)
  from assms m obtain ss aud info where i: "init_scopes E c (default_challenge_method p) = Inr (ss, aud, info)"
    by (auto simp: InitAuthorize_def Let_def split: sum.splits)
  have "ir_scopes resp = ss"
    using assms m i handlePromptNone_scopes trySilentSSO_scopes start_interactive_scopes
    by (auto simp: InitAuthorize_def Let_def split: if_splits prod.splits option.splits)
  then show "\<forall>s \<in> set (ir_scopes resp). scope_allowed E c p s" "ir_scopes resp \<noteq> []"
    using init_scopes_Inr [OF i] by simp_all
qed

section \<open>Pushed requests\<close>

lemma DeletePAR_gone:
  "\<not> db_err E ''DeletePAR'' \<Longrightarrow> t_pars (db_ignore st (DeletePAR E u st)) = delete_where (\<lambda>p. pr_request_uri p = u) (t_pars st)"
  by (simp add: DeletePAR_def stmt_def)

definition par_spent :: "db \<Rightarrow> string \<Rightarrow> bool" where
  "par_spent st u \<longleftrightarrow> (\<forall>p \<in> set (t_pars st). pr_request_uri p \<noteq> u)"

lemma par_spent_refused:
  "par_spent st u \<Longrightarrow> InitAuthorizeFromPAR E u cid sid st =
     (Inl (ErrInvalidRequest ''invalid or expired request_uri''), st)"
  by (auto simp: InitAuthorizeFromPAR_def FindPAR_def stmt_def par_spent_def
      split: option.splits dest!: first_where_SomeD)

lemma InitFromPAR_owner:
  assumes "InitAuthorizeFromPAR E u cid sid st = (Inr resp, st')"
  obtains par p c where "par \<in> set (t_pars st)" "pr_request_uri par = u" "pr_expires_at par > wall E"
    "uuid_string E (pr_client_id par) = cid" "unmarshal_params E (pr_params par) = Some p"
    "findClient E cid (db_ignore st (DeletePAR E u st)) = Inr c"
    "InitAuthorize E c (p\<lparr>p_session_cookie := sid\<rparr>) (db_ignore st (DeletePAR E u st)) = (Inr resp, st')"
  using assms
  by (auto simp: InitAuthorizeFromPAR_def FindPAR_def stmt_def Let_def
      split: if_splits option.splits sum.splits dest!: first_where_SomeD)

text \<open>The pushed parameters reach \<^verbatim>\<open>InitAuthorize\<close> unchanged.\<close>

lemma CreatePAR_Inr:
  assumes "CreatePAR E c p st = (Inr (uri, ttl), st')"
  shows "ttl = 60 \<and> HasRedirectURI c (p_redirect_uri p) \<and> isValidResponseType (p_response_type p)
    \<and> t_pars st' = t_pars st @ [\<lparr>pr_request_uri = uri, pr_client_id = cl_id c,
       pr_params = marshal_params E p, pr_expires_at = clk E + seconds 60\<rparr>]
    \<and> uri \<notin> pr_request_uri ` set (t_pars st)"
  using assms
  by (auto simp: CreatePAR_def CreatePAR_row_def stmt_opt_def new_uuid_def bump_def insert_row_def
      split: if_splits option.splits dbres.splits)

end
