(* ===== verification/TokenProperties.thy ===== *)
theory TokenProperties
  imports Machine Demo AuthorizeLemmas
begin

text \<open>
  The properties of the token endpoint: authorization codes and refresh tokens are spent once and
  for good, whatever the service does in between, and the tokens a grant issues are bound to what
  was granted.
\<close>

section \<open>Demo runs\<close>

lemma demo_code_runs: "ran (ExchangeAuthorizationCode demo_env demo_client ''.c1'' ''cb'' ''v1'' demo_db)"
  by (simp add: run_store run_tokens demo_rows)

lemma demo_scope [simp]: "parseSpaceDelimited ''openid'' = [''openid'']"
  by code_simp

lemma demo_refresh_runs: "ran (ExchangeRefreshToken demo_env demo_client ''.r1'' ''openid'' demo_db)"
  by (simp add: run_store run_tokens demo_rows filterScopes_def)

lemma demo_credentials_run: "ran (ExchangeClientCredentials demo_env demo_client '''' '''' demo_db)"
  by (simp add: run_store run_tokens demo_rows)

text \<open>One more request of the machine, from any state.\<close>

definition demo_next :: "db \<Rightarrow> db" where
  "demo_next st = snd (ExchangeClientCredentials demo_env demo_client '''' '''' st)"

lemma demo_next_steps: "oauth_steps (sha256 demo_env) st (demo_next st)"
proof (rule oauth_steps.More [OF oauth_steps.Done])
  show "oauth_step (sha256 demo_env) st (demo_next st)"
    by (rule oauth_step.Credentials [OF refl demo_env_rollback, of demo_client "''''" "''''" st
          "fst (ExchangeClientCredentials demo_env demo_client '''' '''' st)"]) (simp add: demo_next_def)
qed

section \<open>Authorization codes\<close>

text \<open>C1 An authorization code is exchanged at most once: after a successful exchange, no matter
  which requests the OAuth service processes next and whatever fails in them, every later exchange
  of the code by any client, with any redirect URI or verifier, is refused with
  \<^verbatim>\<open>invalid_grant\<close> and leaves the tables as they were.\<close>

theorem code_exchanged_once:
  assumes "ExchangeAuthorizationCode E c code uri v st = (Inr resp, st1)"
    and "oauth_steps (sha256 E) st1 st2" and "sha256 E' = sha256 E" and "gorm_rollback E'"
  shows "\<exists>m st3. ExchangeAuthorizationCode E' c' code uri' v' st2 = (Inl (ErrInvalidGrant m), st3) \<and>
    tables st3 = tables st2"
proof -
  have "code_used st2 (HashToken (sha256 E') code)"
    using history_code_used [OF oauth_steps_history [OF assms(2)] exchange_code_uses [OF assms(1)]] assms(3)
    by simp
  then show ?thesis
    using used_code_refused [of st2 E' code c' uri' v'] exchange_code_failure [OF assms(4)] by blast
qed

theorem code_exchanged_once_witness:
  "\<exists>resp st1 m st3. ExchangeAuthorizationCode demo_env demo_client ''.c1'' ''cb'' ''v1'' demo_db = (Inr resp, st1) \<and>
     ExchangeAuthorizationCode demo_env demo_client ''.c1'' ''cb'' ''v1'' (demo_next st1) =
       (Inl (ErrInvalidGrant m), st3)"
  using ran_Inr [OF demo_code_runs]
    code_exchanged_once [OF ran_Inr [OF demo_code_runs] demo_next_steps refl demo_env_rollback] by blast

text \<open>C3 A successful code exchange spends a stored, unused and unexpired code of this very client
  and redirect URI; a code bound to a PKCE challenge needs the verifier whose S256 hash it is, one
  without is refused to public clients. The access and refresh tokens it stores carry the code's
  user, session and audience, and only scopes of the code.\<close>

theorem code_exchange_sound:
  assumes "ExchangeAuthorizationCode E c code uri v st = (Inr resp, st')"
  shows "\<exists>ac s tok rt granted.
     code_row st (HashToken (sha256 E) code) = Some ac \<and> ac_IsValid ac (wall E) \<and>
     ac_client_id ac = cl_id c \<and> ac_redirect_uri ac = uri \<and>
     (if HasPKCE ac then v \<noteq> [] \<and> verifyPKCE (sha256 E) v (deref (ac_code_challenge ac))
      else \<not> cl_is_public c) \<and>
     ac_session_id ac = Some s \<and>
     issued_rows E c (ac_user_id ac) s (ac_audience ac) granted resp tok rt \<and>
     t_access_tokens st' = t_access_tokens st @ [tok] \<and> t_refresh_tokens st' = t_refresh_tokens st @ [rt] \<and>
     (validator_ok E \<longrightarrow> set granted \<subseteq> set (ac_scopes ac))"
  by (rule exchange_code_sound [OF assms]) (use code_checks_None in blast)

theorem code_exchange_sound_witness:
  "\<exists>ac tok rt. code_row demo_db (HashToken (sha256 demo_env) ''.c1'') = Some ac \<and> ac_IsValid ac (wall demo_env) \<and>
     t_access_tokens (snd (ExchangeAuthorizationCode demo_env demo_client ''.c1'' ''cb'' ''v1'' demo_db)) =
       t_access_tokens demo_db @ [tok] \<and>
     t_refresh_tokens (snd (ExchangeAuthorizationCode demo_env demo_client ''.c1'' ''cb'' ''v1'' demo_db)) =
       t_refresh_tokens demo_db @ [rt]"
  using code_exchange_sound [OF ran_Inr [OF demo_code_runs]] by blast

section \<open>Refresh tokens\<close>

text \<open>C4 A refresh token is used at most once: after a successful refresh, every later refresh with
  the same token is refused, whatever the OAuth service has done in between, and leaves the tables
  as they were.\<close>

theorem refresh_used_once:
  assumes "ExchangeRefreshToken E c raw scope st = (Inr resp, st1)"
    and "oauth_steps (sha256 E) st1 st2" and "sha256 E' = sha256 E" and "gorm_rollback E'"
  shows "\<exists>e st3. ExchangeRefreshToken E' c' raw scope' st2 = (Inl e, st3) \<and> tables st3 = tables st2"
proof -
  have "refresh_spent st2 (HashToken (sha256 E') raw)"
    using history_refresh_spent [OF oauth_steps_history [OF assms(2)] exchange_refresh_spends [OF assms(1)]]
      assms(3) by simp
  then show ?thesis
    using spent_refresh_refused [of st2 E' raw c' scope'] exchange_refresh_failure [OF assms(4)] by blast
qed

theorem refresh_used_once_witness:
  "\<exists>resp st1 e st3. ExchangeRefreshToken demo_env demo_client ''.r1'' ''openid'' demo_db = (Inr resp, st1) \<and>
     ExchangeRefreshToken demo_env demo_client ''.r1'' ''openid'' (demo_next st1) = (Inl e, st3)"
  using ran_Inr [OF demo_refresh_runs]
    refresh_used_once [OF ran_Inr [OF demo_refresh_runs] demo_next_steps refl demo_env_rollback] by blast

text \<open>C5 A successful refresh presents a live token of this client, which must be allowed the
  \<^verbatim>\<open>refresh_token\<close> grant. The new pair carries the old token's user, session and audience,
  no scope the old token did not have, and (when the statement that does it succeeds) every access
  token issued with the old refresh token is revoked.\<close>

theorem refresh_sound:
  assumes "ExchangeRefreshToken E c raw scope st = (Inr resp, st')"
  shows "\<exists>old tok rt granted.
     HasGrantType c ''refresh_token'' \<and> refresh_row st (HashToken (sha256 E) raw) = Some old \<and>
     rt_client_id old = cl_id c \<and> clk E \<le> rt_expires_at old \<and> \<not> rt_revoked old \<and> \<not> WasRotated old \<and>
     issued_rows E c (rt_user_id old) (rt_session_id old) (rt_audience old) granted resp tok rt \<and>
     tok \<in> set (t_access_tokens st') \<and> rt \<in> set (t_refresh_tokens st') \<and>
     (validator_ok E \<longrightarrow> set granted \<subseteq> set (rt_scopes old)) \<and>
     (db_err E ''RevokeAccessTokensByRefreshToken'' \<or>
      (\<forall>t \<in> set (t_access_tokens st'). at_refresh_token_id t = Some (HashToken (sha256 E) raw) \<longrightarrow> at_revoked t))"
  using exchange_refresh_sound [OF assms] refresh_kills_linked [OF assms] refresh_checks_None
  by (metis in_set_conv_decomp option.distinct(1))

theorem refresh_sound_witness:
  "\<exists>old tok. refresh_row demo_db (HashToken id ''.r1'') = Some old \<and> \<not> WasRotated old \<and>
     tok \<in> set (t_access_tokens (snd (ExchangeRefreshToken demo_env demo_client ''.r1'' ''openid'' demo_db))) \<and>
     at_user_id tok = Some (rt_user_id old) \<and> at_client_id tok = cl_id demo_client"
  using refresh_sound [OF ran_Inr [OF demo_refresh_runs]] by (auto simp: issued_rows_def)

end
