(* ===== verification/RevocationProperties.thy ===== *)
theory RevocationProperties
  imports TokenProperties
begin

text \<open>
  Revocation and introspection: what a revocation achieves, that it is final, that it is the owner's
  alone, and that introspection agrees with the token rows.
\<close>

section \<open>What a call of the revocation endpoint does\<close>

lemma Revoke_opaque:
  assumes "jwt_branch E token hint = None"
  shows "Revoke E token hint c st =
    (if token = [] then (Inl (ErrInvalidRequest ''missing token''), st)
     else revoke_rows E (HashToken (sha256 E) token) hint c st)"
  using assms by (simp add: Revoke_def)

lemma access_row_revoked:
  "access_row st h = Some t \<Longrightarrow> access_row (revoke_access st h) h = Some (t\<lparr>at_revoked := True\<rparr>)"
  using access.find_modify [of st h h] by simp

lemma Revoke_access_dead:
  assumes "Revoke E token hint c st = (Inr (), st1)" and "jwt_branch E token hint = None"
    and "hinted hint ''access_token''"
    and "hinted hint ''refresh_token'' \<Longrightarrow> refresh_row st (HashToken (sha256 E) token) = None"
    and "access_row st (HashToken (sha256 E) token) = Some t" and "at_client_id t = cl_id c"
    and "\<not> db_err E ''FindAccessToken''"
  shows "access_dead st1 (HashToken (sha256 E) token)"
proof -
  let ?h = "HashToken (sha256 E) token"
  have key: "at_id t = ?h" using first_where_SomeD [OF assms(5) [unfolded access_row_def]] by simp
  have "revokeAccessToken E t st = (Inr (), st1)"
    using assms by (auto simp: Revoke_opaque revoke_rows_def Let_def FindAccessToken_def FindRefreshToken_def
        stmt_def split: if_splits)
  then have "st1 = revoke_access st ?h"
    by (auto simp: revokeAccessToken_def RevokeAccessToken_def stmt_def key split: dbres.splits if_splits)
  then show ?thesis using access_row_revoked [OF assms(5)] by (auto simp: access_dead_def)
qed

lemma dead_not_active: "access_dead st (HashToken (sha256 E) raw) \<Longrightarrow> LookupActiveAccessToken E raw st \<noteq> Inr (Some t)"
  by (auto simp: LookupActiveAccessToken_Some access_dead_def at_IsValid_def)

lemma dead_introspects_inactive:
  assumes "access_dead st (HashToken (sha256 E) raw)" and "raw \<noteq> []" and "jwt_branch E raw ''access_token'' = None"
  shows "Introspect E raw ''access_token'' iss requester st = Inr inactive"
  using assms
  by (auto simp: Introspect_def hinted_def FindAccessToken_def stmt_def access_dead_def introspectAccessToken_def
      at_IsValid_def)

lemma history_refresh_row: "history st st' \<Longrightarrow> refresh_row st h = Some r \<Longrightarrow>
    \<exists>r'. refresh_row st' h = Some r' \<and> refresh_le r r'"
  by (simp add: history_def grows_def refresh_row_def)

section \<open>Revocation is final\<close>

text \<open>C12 Revoking an opaque access token is final: once the endpoint has answered success to the
  token's own client, and as long as its row lookup did not fail, the token is never again an active
  token for the resource endpoints and introspects as inactive, whatever the OAuth service does
  afterwards.\<close>

theorem revoked_access_stays_dead:
  assumes "Revoke E token hint c st = (Inr (), st1)" and "jwt_branch E token hint = None"
    and "hinted hint ''access_token''"
    and "hinted hint ''refresh_token'' \<Longrightarrow> refresh_row st (HashToken (sha256 E) token) = None"
    and "access_row st (HashToken (sha256 E) token) = Some t" and "at_client_id t = cl_id c"
    and "\<not> db_err E ''FindAccessToken''"
    and "oauth_steps (sha256 E) st1 st2" and "sha256 E' = sha256 E"
  shows "LookupActiveAccessToken E' token st2 \<noteq> Inr (Some t') \<and>
    (jwt_branch E' token ''access_token'' = None \<longrightarrow>
       Introspect E' token ''access_token'' iss requester st2 = Inr inactive)"
proof -
  have "access_dead st2 (HashToken (sha256 E') token)"
    using history_access_dead [OF oauth_steps_history [OF assms(8)] Revoke_access_dead [OF assms(1-7)]] assms(9)
    by simp
  moreover have "token \<noteq> []" using assms(1) by (auto simp: Revoke_def)
  ultimately show ?thesis using dead_not_active dead_introspects_inactive by blast
qed

lemmas run_revoke = Revoke_def revoke_rows_def revokeAccessToken_def revokeRefreshToken_def jwt_branch_def hinted_def
  Let_def

lemma demo_revoke_access: "ran (Revoke demo_env ''.a1'' ''access_token'' demo_client demo_db)"
  by (simp add: run_store run_revoke demo_rows)

theorem revoked_access_stays_dead_witness:
  "\<exists>st1. Revoke demo_env ''.a1'' ''access_token'' demo_client demo_db = (Inr (), st1) \<and>
     Introspect demo_env ''.a1'' ''access_token'' ''iss'' (UUID 1) (demo_next st1) = Inr inactive"
proof -
  let ?st1 = "snd (Revoke demo_env ''.a1'' ''access_token'' demo_client demo_db)"
  have r: "Revoke demo_env ''.a1'' ''access_token'' demo_client demo_db = (Inr (), ?st1)"
    using ran_Inr [OF demo_revoke_access] by simp
  have "jwt_branch demo_env ''.a1'' ''access_token'' = None" by (simp add: jwt_branch_def)
  moreover have "LookupActiveAccessToken demo_env ''.a1'' (demo_next ?st1) \<noteq> Inr (Some demo_access) \<and>
      (jwt_branch demo_env ''.a1'' ''access_token'' = None \<longrightarrow>
       Introspect demo_env ''.a1'' ''access_token'' ''iss'' (UUID 1) (demo_next ?st1) = Inr inactive)"
    by (rule revoked_access_stays_dead [OF r _ _ _ _ _ _ demo_next_steps refl, where t = demo_access])
      (simp_all add: jwt_branch_def hinted_def access_row_def demo_rows)
  ultimately have "Introspect demo_env ''.a1'' ''access_token'' ''iss'' (UUID 1) (demo_next ?st1) = Inr inactive"
    by blast
  with r show ?thesis by blast
qed

text \<open>C13 Revoking a refresh token reaches everything it can still produce: after the endpoint has
  answered success to its own client (its row lookup not failing), the token and all of its family
  are revoked, every access token of its session is revoked unless that statement itself failed, and
  the token can never be exchanged again.\<close>

theorem revoked_refresh_stays_dead:
  assumes "Revoke E token hint c st = (Inr (), st1)" and "jwt_branch E token hint = None"
    and "hinted hint ''refresh_token''" and "\<not> db_err E ''FindRefreshToken''"
    and "refresh_row st (HashToken (sha256 E) token) = Some rt" and "rt_client_id rt = cl_id c"
    and "oauth_steps (sha256 E) st1 st2" and "sha256 E' = sha256 E"
  shows "(\<forall>r \<in> set (t_refresh_tokens st1). rt_family_id r = rt_family_id rt \<longrightarrow> rt_revoked r) \<and>
    (db_err E ''RevokeAccessTokensBySession'' \<or>
     (\<forall>t \<in> set (t_access_tokens st1). at_session_id t = Some (rt_session_id rt) \<longrightarrow> at_revoked t)) \<and>
    (\<exists>e st3. ExchangeRefreshToken E' c' token scope st2 = (Inl e, st3))"
proof -
  let ?h = "HashToken (sha256 E) token"
  have "revokeRefreshToken E rt st = (Inr (), st1)"
    using assms by (auto simp: Revoke_opaque revoke_rows_def Let_def FindRefreshToken_def stmt_def split: if_splits)
  then obtain st0 where fam: "RevokeRefreshTokenFamily E (rt_family_id rt) st = DbOk st0"
    and st1: "st1 = db_ignore st0 (RevokeAccessTokensBySession E (rt_session_id rt) st0)"
    by (auto simp: revokeRefreshToken_def split: dbres.splits)
  have t0: "t_refresh_tokens st1 = update_where (\<lambda>r. rt_family_id r = rt_family_id rt \<and> \<not> rt_revoked r)
      (\<lambda>r. r\<lparr>rt_revoked := True\<rparr>) (t_refresh_tokens st)"
    using fam by (auto simp: st1 RevokeRefreshTokenFamily_def RevokeAccessTokensBySession_def stmt_def split: if_splits)
  have fam_dead: "\<forall>r \<in> set (t_refresh_tokens st1). rt_family_id r = rt_family_id rt \<longrightarrow> rt_revoked r"
    by (auto simp: t0 elim!: in_update_whereE)
  have session_dead: "db_err E ''RevokeAccessTokensBySession'' \<or>
     (\<forall>t \<in> set (t_access_tokens st1). at_session_id t = Some (rt_session_id rt) \<longrightarrow> at_revoked t)"
    by (auto simp: st1 RevokeAccessTokensBySession_def stmt_def elim!: in_update_whereE split: if_splits)
  obtain r where r: "refresh_row st1 ?h = Some r" "r \<in> set (t_refresh_tokens st1)" "rt_family_id r = rt_family_id rt"
  proof -
    have "history st st1" using step_Revoke [OF assms(1)] by (simp add: step_ok_def)
    then obtain r where r: "refresh_row st1 ?h = Some r" "refresh_le rt r"
      using history_refresh_row [OF _ assms(5)] by blast
    then show thesis
      using that refresh_le_fields [OF r(2)] first_where_SomeD [OF r(1) [unfolded refresh_row_def]] by simp
  qed
  then have "refresh_spent st1 ?h" using fam_dead by (auto simp: refresh_spent_def)
  then have "refresh_spent st2 (HashToken (sha256 E') token)"
    using history_refresh_spent [OF oauth_steps_history [OF assms(7)]] assms(8) by simp
  then show ?thesis using fam_dead session_dead spent_refresh_refused by blast
qed

lemma demo_revoke_refresh: "ran (Revoke demo_env ''.r1'' ''refresh_token'' demo_client demo_db)"
  by (simp add: run_store run_revoke demo_rows)

theorem revoked_refresh_stays_dead_witness:
  "\<exists>st1 e st3. Revoke demo_env ''.r1'' ''refresh_token'' demo_client demo_db = (Inr (), st1) \<and>
     ExchangeRefreshToken demo_env demo_client ''.r1'' '''' (demo_next st1) = (Inl e, st3)"
proof -
  let ?st1 = "snd (Revoke demo_env ''.r1'' ''refresh_token'' demo_client demo_db)"
  have r: "Revoke demo_env ''.r1'' ''refresh_token'' demo_client demo_db = (Inr (), ?st1)"
    using ran_Inr [OF demo_revoke_refresh] by simp
  have "\<exists>e st3. ExchangeRefreshToken demo_env demo_client ''.r1'' '''' (demo_next ?st1) = (Inl e, st3)"
    by (rule revoked_refresh_stays_dead [OF r _ _ _ _ _ demo_next_steps refl, where rt = demo_refresh, THEN conjunct2, THEN conjunct2])
      (simp_all add: jwt_branch_def hinted_def refresh_row_def demo_rows)
  with r show ?thesis by blast
qed

section \<open>Ownership\<close>

text \<open>Revocation is the owner's: a client that presents another client's opaque token is told
  success and changes nothing, not even a row it could have guessed.\<close>

theorem revoke_foreign_token:
  assumes "token \<noteq> []" and "jwt_branch E token hint = None"
    and "\<And>rt. refresh_row st (HashToken (sha256 E) token) = Some rt \<Longrightarrow> rt_client_id rt \<noteq> cl_id c"
    and "\<And>t. access_row st (HashToken (sha256 E) token) = Some t \<Longrightarrow> at_client_id t \<noteq> cl_id c"
  shows "Revoke E token hint c st = (Inr (), st)"
  using assms
  by (auto simp: Revoke_opaque revoke_rows_def Let_def FindRefreshToken_def FindAccessToken_def stmt_def
      split: option.splits)

theorem revoke_foreign_token_witness:
  "Revoke demo_env ''.a1'' '''' (demo_client\<lparr>cl_id := UUID 9\<rparr>) demo_db = (Inr (), demo_db)"
  by (rule revoke_foreign_token) (auto simp: jwt_branch_def refresh_row_def access_row_def demo_rows split: if_splits)

section \<open>Introspection\<close>

text \<open>Introspection never reports a dead opaque token as active: an active answer means that the
  row of the token exists and is valid (an access token unexpired and unrevoked, a refresh token
  also unrotated), that the policy did not deny the caller, and the answer carries the client and
  scopes of that row.\<close>

theorem introspect_active_row:
  assumes "Introspect E token hint iss requester st = Inr resp" and "in_active resp"
    and "jwt_branch E token hint = None"
  shows "(\<exists>t. access_row st (HashToken (sha256 E) token) = Some t \<and> at_IsValid t (wall E) \<and>
        in_scope resp = joinScopes (at_scopes t) \<and> in_client_id resp = uuid_string E (at_client_id t) \<and>
        \<not> deniedByIntrospectPolicy E ''access_token'' (at_client_id t) (at_user_id t) (at_scopes t)
            (at_audience t) requester) \<or>
    (\<exists>r. refresh_row st (HashToken (sha256 E) token) = Some r \<and> \<not> rt_revoked r \<and> \<not> WasRotated r \<and>
        clk E \<le> rt_expires_at r \<and> in_scope resp = joinScopes (rt_scopes r) \<and>
        in_client_id resp = uuid_string E (rt_client_id r) \<and>
        \<not> deniedByIntrospectPolicy E ''refresh_token'' (rt_client_id r) (Some (rt_user_id r)) (rt_scopes r)
            (rt_audience r) requester)"
proof -
  have acc: "in_active (introspectAccessToken E t iss requester st) \<Longrightarrow> at_IsValid t (wall E) \<and>
      in_scope (introspectAccessToken E t iss requester st) = joinScopes (at_scopes t) \<and>
      in_client_id (introspectAccessToken E t iss requester st) = uuid_string E (at_client_id t) \<and>
      \<not> deniedByIntrospectPolicy E ''access_token'' (at_client_id t) (at_user_id t) (at_scopes t) (at_audience t) requester"
    for t by (simp add: introspectAccessToken_def inactive_def split: if_splits)
  have ref: "in_active (introspectRefreshToken E r iss requester) \<Longrightarrow> \<not> rt_revoked r \<and> \<not> WasRotated r \<and>
      clk E \<le> rt_expires_at r \<and> in_scope (introspectRefreshToken E r iss requester) = joinScopes (rt_scopes r) \<and>
      in_client_id (introspectRefreshToken E r iss requester) = uuid_string E (rt_client_id r) \<and>
      \<not> deniedByIntrospectPolicy E ''refresh_token'' (rt_client_id r) (Some (rt_user_id r)) (rt_scopes r)
          (rt_audience r) requester"
    for r by (simp add: introspectRefreshToken_def inactive_def split: if_splits)
  have "\<not> in_active inactive" by (simp add: inactive_def)
  with assms acc ref show ?thesis
    by (auto simp: Introspect_def Let_def FindAccessToken_def FindRefreshToken_def stmt_def
        split: if_splits option.splits)
qed

theorem introspect_active_row_witness:
  "\<exists>resp. Introspect demo_env ''.a1'' '''' ''iss'' (UUID 1) demo_db = Inr resp \<and> in_active resp \<and>
     in_scope resp = joinScopes (at_scopes demo_access)"
proof -
  let ?r = "introspectAccessToken demo_env demo_access ''iss'' (UUID 1) demo_db"
  have r: "Introspect demo_env ''.a1'' '''' ''iss'' (UUID 1) demo_db = Inr ?r"
    by (simp add: Introspect_def jwt_branch_def hinted_def FindAccessToken_def stmt_def access_row_def)
      (simp add: demo_access_def)
  have a: "in_active ?r"
    by (simp add: introspectAccessToken_def at_IsValid_def deniedByIntrospectPolicy_def evaluate_policy_def demo_access_def)
  have "access_row demo_db (HashToken id ''.a1'') = Some demo_access"
    "refresh_row demo_db (HashToken id ''.a1'') = None"
    by (simp_all add: access_row_def refresh_row_def demo_access_def demo_refresh_def HashToken_inject)
  then have "in_scope ?r = joinScopes (at_scopes demo_access)"
    using introspect_active_row [OF r a] by (simp add: jwt_branch_def)
  with r a show ?thesis by blast
qed

end
