(* ===== verification/DeviceProperties.thy ===== *)
theory DeviceProperties
  imports TokenProperties
begin

text \<open>
  The device grant: tokens only for an approved and unexpired code of the polling client, a decision
  that is never undone, and the format of the user code.
\<close>

section \<open>The polling exchange\<close>

lemma issue_for_device_Inr:
  assumes "issue_for_device E c d st = (Inr resp, st')"
  obtains u s st1 where "dc_user_id d = Some u" "dc_session_id d = Some s"
    "issueTokensWithOpts E c u (Some s) (dc_scopes d) (no_opts\<lparr>io_auth_time := dc_created_at d\<rparr>) st = (Inr resp, st1)"
    "st' = db_ignore st1 (UpdateDeviceCode E (d\<lparr>dc_status := ''consumed''\<rparr>) st1)"
  using assms
  by (auto simp: issue_for_device_def split: option.splits prod.splits sum.splits dest: Transaction_Inr)

lemma ExchangeDeviceCode_Inr:
  assumes "ExchangeDeviceCode E c raw st = (Inr resp, st')"
  obtains d where "device_row st (HashToken (sha256 E) raw) = Some d" "dc_client_id d = cl_id c"
    "\<not> dc_IsExpired d (wall E)" "\<not> polls_too_fast E d" "dc_status d = ''authorized''"
    "issue_for_device E c (d\<lparr>dc_last_polled_at := Some (clk E)\<rparr>)
       (db_ignore st (UpdateDeviceCode E (d\<lparr>dc_last_polled_at := Some (clk E)\<rparr>) st)) = (Inr resp, st')"
  using assms
  by (auto simp: ExchangeDeviceCode_def FindDeviceCode_def stmt_def Let_def split: option.splits if_splits)

text \<open>The status of the row with a given hash.\<close>

definition device_status :: "db \<Rightarrow> string \<Rightarrow> string option" where
  "device_status st h = map_option dc_status (device_row st h)"

lemma device_status_history:
  "history st st' \<Longrightarrow> device_status st h = Some a \<Longrightarrow>
     \<exists>b. device_status st' h = Some b \<and> (b = a \<or> b \<in> set (status_next a))"
  unfolding history_def grows_def device_le_def device_status_def device_row_def by fastforce

lemma device_not_authorized:
  assumes "device_status st (HashToken (sha256 E) raw) \<noteq> Some ''authorized''"
  shows "\<exists>e st'. ExchangeDeviceCode E c raw st = (Inl e, st')"
proof (rule ccontr)
  assume n: "\<nexists>e st'. ExchangeDeviceCode E c raw st = (Inl e, st')"
  obtain r st' where r: "ExchangeDeviceCode E c raw st = (r, st')" by fastforce
  with n obtain resp where "ExchangeDeviceCode E c raw st = (Inr resp, st')" by (cases r) auto
  then show False by (rule ExchangeDeviceCode_Inr) (use assms in \<open>simp add: device_status_def\<close>)
qed

lemma decided_refused:
  assumes "device_status st (HashToken (sha256 E) raw) = Some a" and "a = ''denied'' \<or> a = ''consumed''"
    and "oauth_steps (sha256 E) st st2" and "sha256 E' = sha256 E"
  shows "\<exists>e st3. ExchangeDeviceCode E' c raw st2 = (Inl e, st3)"
proof -
  have "device_status st2 (HashToken (sha256 E) raw) = Some a"
    using device_status_history [OF oauth_steps_history [OF assms(3)] assms(1)] assms(2)
    by (auto simp: status_next_def)
  then show ?thesis using assms(2,4) by (intro device_not_authorized) auto
qed

section \<open>Demo rows\<close>

definition demo_device :: device_code where
  "demo_device = \<lparr>dc_hash = HashToken id ''.d1'', dc_user_code = ''BCDF-GHJK'', dc_client_id = UUID 1,
     dc_scopes = [''openid''], dc_user_id = Some (UUID 2), dc_session_id = Some (UUID 3), dc_audience = None,
     dc_status = ''authorized'', dc_interval_secs = 5, dc_expires_at = 1500000000000,
     dc_last_polled_at = None, dc_created_at = 999000000000\<rparr>"

definition device_db :: db where
  "device_db = demo_db\<lparr>t_device_codes := [demo_device]\<rparr>"

definition pending_db :: db where
  "pending_db = demo_db\<lparr>t_device_codes :=
     [demo_device\<lparr>dc_status := ''pending'', dc_user_id := None, dc_session_id := None\<rparr>]\<rparr>"

lemmas run_device = device_db_def pending_db_def demo_device_def ExchangeDeviceCode_def dc_IsExpired_def
  polls_too_fast_def issue_for_device_def DeviceApprove_def find_pending_def db_write_def Let_def

lemma demo_device_runs: "ran (ExchangeDeviceCode demo_env demo_client ''.d1'' device_db)"
  by (simp add: run_device run_store run_tokens demo_rows)

lemma demo_device_denied: "ran (DeviceApprove demo_env ''BCDF-GHJK'' False (UUID 2) [] [] pending_db)"
  by (simp add: run_device run_store demo_rows)

section \<open>Properties\<close>

text \<open>C15 The device endpoint issues tokens only for a code that a user approved: the row is the
  polling client's own, unexpired and authorized, and the stored pair of tokens is the approving
  user's, in the session opened by the approval, with only scopes the device asked for. The row is
  then consumed, unless the statement that marks it fails.\<close>

theorem device_exchange_sound:
  assumes "ExchangeDeviceCode E c raw st = (Inr resp, st')"
  shows "\<exists>d u s tok rt granted. device_row st (HashToken (sha256 E) raw) = Some d \<and>
    dc_client_id d = cl_id c \<and> \<not> dc_IsExpired d (wall E) \<and> dc_status d = ''authorized'' \<and>
    dc_user_id d = Some u \<and> dc_session_id d = Some s \<and> issued_rows E c u s None granted resp tok rt \<and>
    tok \<in> set (t_access_tokens st') \<and> rt \<in> set (t_refresh_tokens st') \<and>
    (validator_ok E \<longrightarrow> set granted \<subseteq> set (dc_scopes d)) \<and>
    (db_err E ''UpdateDeviceCode'' \<or> device_status st' (HashToken (sha256 E) raw) = Some ''consumed'')"
proof (rule ExchangeDeviceCode_Inr [OF assms])
  fix d :: device_code
  let ?h = "HashToken (sha256 E) raw"
  let ?d = "d\<lparr>dc_last_polled_at := Some (clk E)\<rparr>"
  let ?st1 = "db_ignore st (UpdateDeviceCode E ?d st)"
  assume d: "device_row st ?h = Some d" "dc_client_id d = cl_id c" "\<not> dc_IsExpired d (wall E)"
    "dc_status d = ''authorized''" and i: "issue_for_device E c ?d ?st1 = (Inr resp, st')"
  show ?thesis
  proof (rule issue_for_device_Inr [OF i])
    fix u s st2
    assume us: "dc_user_id ?d = Some u" "dc_session_id ?d = Some s"
      and iss: "issueTokensWithOpts E c u (Some s) (dc_scopes ?d) (no_opts\<lparr>io_auth_time := dc_created_at ?d\<rparr>) ?st1 = (Inr resp, st2)"
      and st': "st' = db_ignore st2 (UpdateDeviceCode E (?d\<lparr>dc_status := ''consumed''\<rparr>) st2)"
    have status: "db_err E ''UpdateDeviceCode'' \<or> device_status st' ?h = Some ''consumed''"
      using device_key [OF d(1)]
      by (auto simp: st' UpdateDeviceCode_def stmt_def device_status_def device_row_def first_where_save)
    have same: "t_access_tokens st' = t_access_tokens st2" "t_refresh_tokens st' = t_refresh_tokens st2"
      by (auto simp: st' UpdateDeviceCode_def stmt_def)
    show ?thesis
      by (rule issueTokens_Inr [OF iss]) (use d us status same in \<open>fastforce simp: no_opts_def\<close>)
  qed
qed

theorem device_exchange_sound_witness:
  "\<exists>u tok. dc_user_id demo_device = Some u \<and> at_user_id tok = Some u \<and>
     tok \<in> set (t_access_tokens (snd (ExchangeDeviceCode demo_env demo_client ''.d1'' device_db))) \<and>
     device_status (snd (ExchangeDeviceCode demo_env demo_client ''.d1'' device_db)) (HashToken id ''.d1'') = Some ''consumed''"
proof -
  have row: "device_row device_db (HashToken id ''.d1'') = Some demo_device"
    by (simp add: device_row_def device_db_def demo_device_def)
  show ?thesis
    using device_exchange_sound [OF ran_Inr [OF demo_device_runs]] row by (auto simp: issued_rows_def)
qed

text \<open>A user's refusal is final: after a device request was denied, its device code never yields
  tokens, whatever the OAuth service does next. Pending rows must have distinct device hashes, as
  every reachable database has.\<close>

theorem device_denied_for_good:
  assumes "DeviceApprove E uc False u ip ua st = (Inr (), st1)" and "device_keys st"
    and "device_row st (HashToken (sha256 E) raw) = Some d" and "dc_user_code d = uc"
    and "\<And>d1 d2. d1 \<in> set (t_device_codes st) \<Longrightarrow> d2 \<in> set (t_device_codes st) \<Longrightarrow>
           dc_user_code d1 = dc_user_code d2 \<Longrightarrow> d1 = d2"
    and "oauth_steps (sha256 E) st1 st2" and "sha256 E' = sha256 E"
  shows "\<exists>e st3. ExchangeDeviceCode E' c raw st2 = (Inl e, st3)"
proof -
  obtain dc where f: "find_pending E uc st = Inr dc"
    and up: "UpdateDeviceCode E (dc\<lparr>dc_status := ''denied''\<rparr>) st = DbOk st1"
    using assms(1) by (auto simp: DeviceApprove_def db_write_def split: sum.splits dbres.splits)
  have "dc = d"
    using find_pending_row [OF f] assms(3-5) first_where_SomeD [OF assms(3) [unfolded device_row_def]] by metis
  then have "device_status st1 (HashToken (sha256 E) raw) = Some ''denied''"
    using up device_key [OF assms(3)]
    by (auto simp: UpdateDeviceCode_def stmt_def device_status_def device_row_def first_where_save split: if_splits)
  then show ?thesis using decided_refused [OF _ _ assms(6,7)] by simp
qed

theorem device_denied_for_good_witness:
  "\<exists>st1 e st3. DeviceApprove demo_env ''BCDF-GHJK'' False (UUID 2) [] [] pending_db = (Inr (), st1) \<and>
     ExchangeDeviceCode demo_env demo_client ''.d1'' (demo_next st1) = (Inl e, st3)"
proof -
  let ?st1 = "snd (DeviceApprove demo_env ''BCDF-GHJK'' False (UUID 2) [] [] pending_db)"
  have r: "DeviceApprove demo_env ''BCDF-GHJK'' False (UUID 2) [] [] pending_db = (Inr (), ?st1)"
    using ran_Inr [OF demo_device_denied] by simp
  have "\<exists>e st3. ExchangeDeviceCode demo_env demo_client ''.d1'' (demo_next ?st1) = (Inl e, st3)"
    by (rule device_denied_for_good [OF r _ _ _ _ demo_next_steps refl,
          where d = "demo_device\<lparr>dc_status := ''pending'', dc_user_id := None, dc_session_id := None\<rparr>"])
      (simp_all add: pending_db_def device_keys_def keys_unique_def device_row_def demo_device_def)
  with r show ?thesis by blast
qed

text \<open>A device code buys one pair of tokens: after a successful exchange whose consuming statement
  did not fail, every later poll is refused.\<close>

theorem device_code_used_once:
  assumes "ExchangeDeviceCode E c raw st = (Inr resp, st1)" and "\<not> db_err E ''UpdateDeviceCode''"
    and "oauth_steps (sha256 E) st1 st2" and "sha256 E' = sha256 E"
  shows "\<exists>e st3. ExchangeDeviceCode E' c' raw st2 = (Inl e, st3)"
proof -
  have "device_status st1 (HashToken (sha256 E) raw) = Some ''consumed''"
  proof (rule ExchangeDeviceCode_Inr [OF assms(1)])
    fix d :: device_code
    let ?d = "d\<lparr>dc_last_polled_at := Some (clk E)\<rparr>"
    assume d: "device_row st (HashToken (sha256 E) raw) = Some d"
      and i: "issue_for_device E c ?d (db_ignore st (UpdateDeviceCode E ?d st)) = (Inr resp, st1)"
    show ?thesis
      by (rule issue_for_device_Inr [OF i])
        (use assms(2) device_key [OF d] in
          \<open>auto simp: UpdateDeviceCode_def stmt_def device_status_def device_row_def first_where_save\<close>)
  qed
  then show ?thesis using decided_refused [OF _ _ assms(3,4)] by simp
qed

theorem device_code_used_once_witness:
  "\<exists>resp st1 e st3. ExchangeDeviceCode demo_env demo_client ''.d1'' device_db = (Inr resp, st1) \<and>
     ExchangeDeviceCode demo_env demo_client ''.d1'' (demo_next st1) = (Inl e, st3)"
proof -
  have ok: "\<not> db_err demo_env ''UpdateDeviceCode''" by simp
  show ?thesis
    using ran_Inr [OF demo_device_runs]
      device_code_used_once [OF ran_Inr [OF demo_device_runs] ok demo_next_steps refl] by blast
qed

lemma draw_user_code_Some:
  "rand_int_bounded E \<Longrightarrow> draw_user_code E n st = (Some cs, st') \<Longrightarrow>
     length cs = n \<and> set cs \<subseteq> set userCodeAlphabet"
proof (induction n arbitrary: st cs)
  case (Suc n)
  then obtain i cs1 where "rand_int E (draws st) (length userCodeAlphabet) = Some i" "cs = userCodeAlphabet ! i # cs1"
    "draw_user_code E n (bump st) = (Some cs1, st')"
    by (auto split: option.splits prod.splits)
  moreover from this have "i < length userCodeAlphabet" using Suc.prems(1) by (auto simp: rand_int_bounded_def)
  ultimately show ?case using Suc.IH [OF Suc.prems(1)] by (metis insert_subset length_Cons list.simps(15) nth_mem)
qed simp

lemma demo_draws: "\<exists>cs st'. draw_user_code demo_env n st = (Some cs, st')"
proof (induction n arbitrary: st)
  case (Suc n)
  obtain cs st' where "draw_user_code demo_env n (bump st) = (Some cs, st')" using Suc.IH by blast
  then show ?case by (simp add: userCodeAlphabet_def)
qed simp

text \<open>A user code has the documented form: four letters, a dash and four letters, all from the
  twenty-letter alphabet without vowels, for any source of random indices below the alphabet's
  length.\<close>

theorem user_code_format:
  assumes "rand_int_bounded E" and "generateUserCode E st = (Some code, st')"
  shows "\<exists>a b. code = a @ ''-'' @ b \<and> length a = 4 \<and> length b = 4 \<and> set (a @ b) \<subseteq> set userCodeAlphabet"
proof -
  obtain cs where "draw_user_code E 8 st = (Some cs, st')" "code = take 4 cs @ ''-'' @ drop 4 cs"
    using assms(2) by (auto simp: generateUserCode_def split: prod.splits option.splits)
  with draw_user_code_Some [OF assms(1)] show ?thesis
    by (intro exI [of _ "take 4 cs"] exI [of _ "drop 4 cs"]) auto
qed

theorem user_code_format_witness:
  "\<exists>a b. fst (generateUserCode demo_env demo_db) = Some (a @ ''-'' @ b) \<and> length a = 4 \<and> length b = 4"
proof -
  have b: "rand_int_bounded demo_env" by (simp add: rand_int_bounded_def)
  obtain code st' where "generateUserCode demo_env demo_db = (Some code, st')"
    using demo_draws [of 8 demo_db] by (auto simp: generateUserCode_def)
  then show ?thesis using user_code_format [OF b] by fastforce
qed

end
