(* ===== verification/AuthorizeProperties.thy ===== *)
theory AuthorizeProperties
  imports TokenProperties
begin

text \<open>
  The authorization endpoint from the request to the tokens: what a request must satisfy, what each
  step demands, and what the code it ends in can be exchanged for.
\<close>

section \<open>Frames\<close>

lemma history_code_row: "history st st' \<Longrightarrow> code_row st h = Some c \<Longrightarrow>
    \<exists>c'. code_row st' h = Some c' \<and> code_le c c'"
  by (simp add: history_def grows_def code_row_def)

lemma request_row_saved:
  "UpdateAuthRequest E req st = DbOk st' \<Longrightarrow> request_row st' (ar_id req) = Some req"
  by (auto simp: UpdateAuthRequest_def stmt_def request_row_def first_where_save split: if_splits)

lemma save_request_Inr:
  "save_request E req v st = (Inr x, st') \<Longrightarrow>
     x = v \<and> UpdateAuthRequest E req st = DbOk st' \<and> request_row st' (ar_id req) = Some req \<and>
     t_auth_codes st' = t_auth_codes st"
  by (auto simp: save_request_def request_row_saved UpdateAuthRequest_def stmt_def split: dbres.splits if_splits)

lemma FindAuthRequest_Some:
  "db_maybe (FindAuthRequest E i st) = Some req \<Longrightarrow>
     req \<in> set (t_auth_requests st) \<and> ar_id req = i \<and> wall E < ar_expires_at req"
  by (auto simp: FindAuthRequest_def stmt_def split: if_splits dest: first_where_SomeD)

lemma pending_request_Inr:
  "pending_request E i st = Inr req \<Longrightarrow>
     req \<in> set (t_auth_requests st) \<and> ar_id req = i \<and> wall E < ar_expires_at req"
  by (auto simp: pending_request_def split: option.splits if_splits dest: FindAuthRequest_Some)

lemma users_only:
  "UpdateFields E i f st = DbOk st' \<Longrightarrow> t_mfa_methods st' = t_mfa_methods st"
  by (auto dest: UpdateFields_table)

lemma maybeRehash_mfa: "maybeRehash E u pw b st = (r, st') \<Longrightarrow> t_mfa_methods st' = t_mfa_methods st"
  by (auto simp: maybeRehash_def HashPassword_def bump_def split: if_splits prod.splits option.splits dbres.splits
      dest!: users_only)

lemma ignore_mfa: "t_mfa_methods (db_ignore st (UpdateFields E i f st)) = t_mfa_methods st"
  by (cases "UpdateFields E i f st") (simp_all add: users_only)

lemma Authenticate_mfa:
  assumes "Authenticate E e pw st = (r, st')"
  shows "t_mfa_methods st' = t_mfa_methods st"
  using assms
  by (auto simp: Authenticate_def incrementFailedAttempts_alt ignore_mfa
      split: dbres.splits option.splits if_splits prod.splits bool.splits dest!: maybeRehash_mfa)

lemma Authenticate_codes:
  "Authenticate E e pw st = (r, st') \<Longrightarrow> t_auth_codes st' = t_auth_codes st \<and> t_auth_requests st' = t_auth_requests st"
  using oauth_part_eq [OF Authenticate_part] by (auto simp: token_tables_def)

lemma has_mfa_cong: "t_mfa_methods st' = t_mfa_methods st \<Longrightarrow> has_mfa E u st' = has_mfa E u st"
  by (simp add: has_mfa_def HasMFA_def FindVerifiedByUser_def verified_method_def stmt_def)

section \<open>From a request to tokens\<close>

lemma CompleteFirstParty_Inr:
  assumes "CompleteAuthorizeFirstParty E i ip ua st = (Inr resp, st')"
  obtains req where "req \<in> set (t_auth_requests st)" "ar_id req = i" "ar_IsReady req (wall E)"
    "completed E req st resp st'"
  using assms completeAuthorize_completed
  by (auto simp: CompleteAuthorizeFirstParty_def split: option.splits if_splits dest: FindAuthRequest_Some)

text \<open>C2 The whole code flow keeps its bindings: if a request was completed and, any number of
  service calls later, its code is exchanged, then the request was authenticated, consented and
  unexpired, the exchanging client and redirect URI are the request's, a PKCE challenge of the
  request is met by the verifier, and the tokens are those of the request's user with no scope the
  request did not have.\<close>

theorem code_flow_binds:
  assumes "CompleteAuthorizeFirstParty E i ip ua st = (Inr resp, st1)"
    and "oauth_steps (sha256 E) st1 st2" and "sha256 E' = sha256 E"
    and "ExchangeAuthorizationCode E' c (az_code resp) uri v st2 = (Inr tr, st3)"
  shows "\<exists>req u s tok rt granted. req \<in> set (t_auth_requests st) \<and> ar_id req = i \<and>
    ar_IsReady req (wall E) \<and> ar_user_id req = Some u \<and> ar_client_id req = cl_id c \<and>
    ar_redirect_uri req = uri \<and>
    (case ar_code_challenge req of None \<Rightarrow> \<not> cl_is_public c
     | Some ch \<Rightarrow> ch = [] \<and> \<not> cl_is_public c \<or> verifyPKCE (sha256 E) v ch) \<and>
    issued_rows E' c u s (ar_audience req) granted tr tok rt \<and>
    tok \<in> set (t_access_tokens st3) \<and> rt \<in> set (t_refresh_tokens st3) \<and>
    (validator_ok E' \<longrightarrow> set granted \<subseteq> set (ar_scopes req))"
proof -
  let ?h = "HashToken (sha256 E) (az_code resp)"
  obtain req where req: "req \<in> set (t_auth_requests st)" "ar_id req = i" "ar_IsReady req (wall E)"
    and done1: "completed E req st resp st1"
    using CompleteFirstParty_Inr [OF assms(1)] .
  obtain u s0 where u: "ar_user_id req = Some u"
    and row: "code_row st1 ?h = Some ((code_of E req u s0 ?h)\<lparr>ac_created_at := wall E\<rparr>)"
    using completed_code_row [OF done1] .
  obtain ac where ac: "code_row st2 ?h = Some ac" "code_le ((code_of E req u s0 ?h)\<lparr>ac_created_at := wall E\<rparr>) ac"
    using history_code_row [OF oauth_steps_history [OF assms(2)] row] by blast
  have f: "ac_client_id ac = ar_client_id req" "ac_user_id ac = u" "ac_redirect_uri ac = ar_redirect_uri req"
    "ac_scopes ac = ar_scopes req" "ac_code_challenge ac = ar_code_challenge req" "ac_audience ac = ar_audience req"
    using ac(2) unfolding code_le_def by (cases ac; simp add: code_of_def)+
  show ?thesis
  proof (rule exchange_code_sound [OF assms(4)])
    fix ac' s tok rt granted
    assume x: "code_row st2 (HashToken (sha256 E') (az_code resp)) = Some ac'" "code_checks E' c uri v ac' = None"
      "issued_rows E' c (ac_user_id ac') s (ac_audience ac') granted tr tok rt"
      "t_access_tokens st3 = t_access_tokens st2 @ [tok]" "t_refresh_tokens st3 = t_refresh_tokens st2 @ [rt]"
      "validator_ok E' \<Longrightarrow> set granted \<subseteq> set (ac_scopes ac')"
    have "ac' = ac" using x(1) ac(1) assms(3) by simp
    moreover have "case ar_code_challenge req of None \<Rightarrow> \<not> cl_is_public c
        | Some ch \<Rightarrow> ch = [] \<and> \<not> cl_is_public c \<or> verifyPKCE (sha256 E) v ch"
      using x(2) \<open>ac' = ac\<close> assms(3)
      by (auto simp: code_checks_None HasPKCE_def f deref_def split: option.splits if_splits)
    moreover have "ar_client_id req = cl_id c" "ar_redirect_uri req = uri"
      using x(2) f \<open>ac' = ac\<close> by (simp_all add: code_checks_None)
    ultimately show ?thesis
      using req u x(3-6) f
      by (intro exI [of _ req] exI [of _ u] exI [of _ s] exI [of _ tok] exI [of _ rt] exI [of _ granted]) simp
  qed
qed

section \<open>The login step\<close>

text \<open>C6 A successful login step authenticated a real account: the request is pending and was not yet
  authenticated, the account with the submitted e-mail is active, not locked, has this password and
  a verified e-mail where that is required. The request is then marked authenticated exactly when
  no second factor is asked for, no code is issued, and without a policy engine a user with MFA is
  always asked.\<close>

theorem login_step_sound:
  assumes "AuthorizeLogin E inp ip ua st = (Inr resp, st')"
  shows "\<exists>req u saved. req \<in> set (t_auth_requests st) \<and> ar_id req = li_request_id inp \<and>
    wall E < ar_expires_at req \<and> \<not> ar_authenticated req \<and>
    email_row st (lower_trim (li_email inp)) = Some u \<and> us_active u \<and> \<not> us_IsLocked u (clk E) \<and>
    right_password E u (li_password inp) \<and> (us_email_verified u \<or> \<not> requiresEmailVerification E) \<and>
    request_row st' (li_request_id inp) = Some saved \<and> ar_user_id saved = Some (us_id u) \<and>
    ar_authenticated saved = (\<not> lr_requires_mfa resp) \<and>
    (ar_consent_given saved \<longrightarrow> ar_consent_given req \<or> \<not> lr_requires_consent resp) \<and>
    t_auth_codes st' = t_auth_codes st \<and>
    (policy_evaluator E = None \<longrightarrow> lr_requires_mfa resp = has_mfa E (us_id u) st)"
proof -
  from assms obtain req u1 st1 c needs cons where req: "pending_request E (li_request_id inp) st = Inr req"
    "\<not> ar_authenticated req"
    and a: "Authenticate E (li_email inp) (li_password inp) st = (Inr u1, st1)"
    and m: "mfa_needed E u1 c (ar_scopes req) ip ua st1 = Inr needs"
    and s: "save_request E (after_first_factor E (us_id u1) ''pwd'' needs cons
              (req\<lparr>ar_remember_me := li_remember_me inp\<rparr>)) (step_response req needs cons) st1 = (Inr resp, st')"
    by (auto simp: AuthorizeLogin_def Let_def split: sum.splits if_splits prod.splits option.splits)
  obtain u where u: "email_row st (lower_trim (li_email inp)) = Some u" "us_active u" "\<not> us_IsLocked u (clk E)"
    "right_password E u (li_password inp)" "us_email_verified u \<or> \<not> requiresEmailVerification E" "us_id u1 = us_id u"
    using Authenticate_success [OF a] .
  let ?saved = "after_first_factor E (us_id u1) ''pwd'' needs cons (req\<lparr>ar_remember_me := li_remember_me inp\<rparr>)"
  note p = pending_request_Inr [OF req(1)]
  have saved: "ar_id ?saved = ar_id req" "ar_user_id ?saved = Some (us_id u)" "ar_authenticated ?saved = (\<not> needs)"
    "ar_consent_given ?saved \<longrightarrow> ar_consent_given req \<or> \<not> cons"
    using req(2) u(6) by (auto simp: after_first_factor_def Let_def)
  have mfa: "policy_evaluator E = None \<longrightarrow> needs = has_mfa E (us_id u) st"
    using m has_mfa_cong [OF Authenticate_mfa [OF a]] u(6)
    by (auto simp: mfa_needed_def evaluate_policy_def Let_def split: prod.splits)
  have r: "resp = step_response req needs cons" "request_row st' (ar_id ?saved) = Some ?saved"
    "t_auth_codes st' = t_auth_codes st"
    using save_request_Inr [OF s] Authenticate_codes [OF a] by simp_all
  show ?thesis
    using p req(2) u r saved mfa
    by (intro exI [of _ req] exI [of _ u] exI [of _ ?saved]) (simp add: step_response_def)
qed

section \<open>Demo rows\<close>

definition demo_request :: auth_request where
  "demo_request = \<lparr>ar_id = UUID 4, ar_client_id = UUID 1, ar_redirect_uri = ''cb'', ar_response_type = ''code'',
     ar_scopes = [''openid''], ar_state = Some ''s'', ar_nonce = None,
     ar_code_challenge = Some (b64_encode ''v1''), ar_code_challenge_method = Some ''S256'',
     ar_user_id = None, ar_authenticated = False, ar_consent_given = False, ar_audience = None,
     ar_prompt = None, ar_max_age = None, ar_display = None, ar_ui_locales = None, ar_claims_locales = None,
     ar_acr_values = None, ar_login_hint = None, ar_claims_param = None, ar_id_token_hint = None,
     ar_auth_time = None, ar_response_mode = None, ar_auth_methods = [], ar_remember_me = False,
     ar_expires_at = 1500000000000\<rparr>"

definition request_db :: db where
  "request_db = demo_db\<lparr>t_auth_requests := [demo_request]\<rparr>"

definition ready_db :: db where
  "ready_db = demo_db\<lparr>t_auth_requests := [demo_request\<lparr>ar_user_id := Some (UUID 2), ar_authenticated := True,
     ar_consent_given := True\<rparr>]\<rparr>"

definition demo_login :: login_input where
  "demo_login = \<lparr>li_request_id = UUID 4, li_email = ''a@b.c'', li_password = ''pass'', li_remember_me = False\<rparr>"

lemmas run_sessions = session_Create_op_def resolveTTL_def session_Create_def

lemmas run_authorize = CompleteAuthorizeFirstParty_def ar_IsReady_def ar_IsExpired_def completeAuthorize_def
  run_sessions code_of_def code_response_def computeSessionState_def hybrid_tokens_def isHybridResponseType_def Let_def

lemma b64_digit_dot [simp]: "n < 64 \<Longrightarrow> b64_digit n \<noteq> CHR ''.''" "n < 64 \<Longrightarrow> CHR ''.'' \<noteq> b64_digit n"
  using b64_digit_not_dot by metis+

lemma demo_email [simp]: "lower_trim ''a@b.c'' = ''a@b.c''"
  by code_simp

lemma demo_flow_runs:
  "ran (CompleteAuthorizeFirstParty demo_env (UUID 4) [] [] ready_db)"
  by (simp add: ready_db_def demo_request_def run_store run_authorize demo_rows)

definition demo_flow :: "token_response res \<times> db" where
  "demo_flow =
     (case CompleteAuthorizeFirstParty demo_env (UUID 4) [] [] ready_db of
        (Inl e, st) \<Rightarrow> (Inl e, st)
      | (Inr resp, st) \<Rightarrow> ExchangeAuthorizationCode demo_env demo_client (az_code resp) ''cb'' ''v1'' st)"

lemma demo_whole_flow_runs: "ran demo_flow"
  by (simp add: demo_flow_def ready_db_def demo_request_def run_store run_authorize run_tokens demo_rows)

lemmas run_login = AuthorizeLogin_def pending_request_def Authenticate_def user_FindByEmail_def email_row_def
  us_IsLocked_def maybeRehash_def requiresEmailVerification_def login_policy_def mfa_needed_def has_mfa_def
  HasMFA_def FindVerifiedByUser_def verified_method_def consent_covers_def save_request_def step_response_def
  after_first_factor_def asks_consent_def loadRoles_def evaluate_policy_def findClient_def

lemma demo_login_runs: "ran (AuthorizeLogin demo_env demo_login [] [] request_db)"
  by (simp add: run_login demo_login_def request_db_def demo_request_def run_store demo_rows ar_IsExpired_def Let_def)

section \<open>Witnesses\<close>

theorem code_flow_binds_witness:
  "\<exists>resp st1 tr st3 req u. CompleteAuthorizeFirstParty demo_env (UUID 4) [] [] ready_db = (Inr resp, st1) \<and>
     ExchangeAuthorizationCode demo_env demo_client (az_code resp) ''cb'' ''v1'' st1 = (Inr tr, st3) \<and>
     req \<in> set (t_auth_requests ready_db) \<and> ar_user_id req = Some u \<and> ar_redirect_uri req = ''cb''"
proof -
  let ?x = "CompleteAuthorizeFirstParty demo_env (UUID 4) [] [] ready_db"
  obtain resp st1 where c: "?x = (Inr resp, st1)" using ran_Inr [OF demo_flow_runs] by blast
  have "ran (ExchangeAuthorizationCode demo_env demo_client (az_code resp) ''cb'' ''v1'' st1)"
    using demo_whole_flow_runs by (simp add: demo_flow_def c)
  from ran_Inr [OF this] obtain tr st3 where
    e: "ExchangeAuthorizationCode demo_env demo_client (az_code resp) ''cb'' ''v1'' st1 = (Inr tr, st3)" by blast
  show ?thesis using code_flow_binds [OF c oauth_steps.Done refl e] c e by blast
qed

theorem login_step_sound_witness:
  "\<exists>resp st' saved. AuthorizeLogin demo_env demo_login [] [] request_db = (Inr resp, st') \<and>
     request_row st' (UUID 4) = Some saved \<and> ar_user_id saved = Some (us_id demo_user) \<and>
     ar_authenticated saved = (\<not> lr_requires_mfa resp)"
proof -
  obtain resp st' where r: "AuthorizeLogin demo_env demo_login [] [] request_db = (Inr resp, st')"
    using ran_Inr [OF demo_login_runs] by blast
  have "email_row request_db (lower_trim (li_email demo_login)) = Some demo_user"
    by (simp add: email_row_def request_db_def demo_login_def demo_user_def blank_user_def)
  moreover have "li_request_id demo_login = UUID 4" by (simp add: demo_login_def)
  ultimately show ?thesis using login_step_sound [OF r] r by auto
qed

end
