(* ===== verification/AuthorizeStepProperties.thy ===== *)
theory AuthorizeStepProperties
  imports AuthorizeProperties
begin

text \<open>
  The second factor, consent, the checks of a new request and pushed requests: what each grants and
  what it leaves alone.
\<close>

section \<open>What completing a request leaves alone\<close>

definition flow_part :: "db \<Rightarrow> db" where
  "flow_part st = st\<lparr>t_sessions := [], t_auth_requests := [], t_auth_codes := [], t_access_tokens := [], draws := 0\<rparr>"

lemma flow_part_simps [simp]:
  "flow_part (st\<lparr>t_sessions := a\<rparr>) = flow_part st" "flow_part (st\<lparr>t_auth_requests := b\<rparr>) = flow_part st"
  "flow_part (st\<lparr>t_auth_codes := c\<rparr>) = flow_part st" "flow_part (st\<lparr>t_access_tokens := d\<rparr>) = flow_part st"
  "flow_part (st\<lparr>draws := n\<rparr>) = flow_part st" "flow_part (bump st) = flow_part st"
  by (simp_all add: flow_part_def bump_def)

lemma flow_part_eq: "flow_part st' = flow_part st \<Longrightarrow>
    t_pars st' = t_pars st \<and> t_consents st' = t_consents st \<and> t_users st' = t_users st \<and>
    t_refresh_tokens st' = t_refresh_tokens st"
  by (cases st; cases st') (simp add: flow_part_def)

lemma session_Create_flow: "session_Create_op E u ip ua ext st = (r, st') \<Longrightarrow> flow_part st' = flow_part st"
  using session_Create_op_frame [of E u ip ua ext st r st']
  by (auto simp: session_frame_def) (metis flow_part_simps(1,5))

lemma hybrid_flow:
  "hybrid_access E req u s resp st = (r, st') \<Longrightarrow> flow_part st' = flow_part st"
  "hybrid_id_token E req u resp st = (r, st') \<Longrightarrow> flow_part st' = flow_part st"
  by (auto simp: hybrid_access_def hybrid_id_token_def generateHybridIDToken_def CreateAccessToken_DbOk Let_def
      GenerateOpaqueToken_def split: if_splits sum.splits prod.splits option.splits dbres.splits)

lemma hybrid_tokens_flow: "hybrid_tokens E req u s resp st = (r, st') \<Longrightarrow> flow_part st' = flow_part st"
  by (auto simp: hybrid_tokens_def split: if_splits sum.splits prod.splits dest!: hybrid_flow)

lemma completeAuthorize_flow:
  assumes "completeAuthorize E req ip ua st = (r, st')"
  shows "flow_part st' = flow_part st"
proof -
  have del: "flow_part (db_ignore s (DeleteAuthRequest E i s)) = flow_part s" for s i
    by (simp add: DeleteAuthRequest_def stmt_def)
  have code: "CreateAuthCode E c s = DbOk s' \<Longrightarrow> flow_part s' = flow_part s" for c s s'
    by (auto simp: CreateAuthCode_def stmt_opt_def add_code_def insert_row_def split: if_splits)
  have state: "computeSessionState E a b c s = (x, s') \<Longrightarrow> flow_part s' = flow_part s" for a b c s x s'
    by (auto simp: computeSessionState_def GenerateRandomString_def Let_def)
  have gen: "GenerateOpaqueToken E s = (x, s') \<Longrightarrow> flow_part s' = flow_part s" for s x s'
    by (auto simp: GenerateOpaqueToken_def split: option.splits)
  show ?thesis
    using assms
    by (auto simp: completeAuthorize_def del split: option.splits prod.splits sum.splits dbres.splits
        dest!: session_Create_flow gen code state hybrid_tokens_flow)
qed

lemma CreateAuthRequest_flow: "CreateAuthRequest E req st = (r, st') \<Longrightarrow> flow_part st' = flow_part st"
  by (auto simp: CreateAuthRequest_def new_uuid_def stmt_opt_def add_request_def
      split: prod.splits option.splits dbres.splits if_splits)

lemma InitAuthorize_flow:
  assumes "InitAuthorize E c p st = (r, st')"
  shows "flow_part st' = flow_part st"
proof -
  have none: "handlePromptNone E c q ss aud s = (x, s') \<Longrightarrow> flow_part s' = flow_part s" for q ss aud s x s'
    by (auto simp: handlePromptNone_def split: option.splits if_splits prod.splits dbres.splits sum.splits
        dest!: CreateAuthRequest_flow completeAuthorize_flow)
  have sso: "trySilentSSO E c q ss aud i m s = (x, s') \<Longrightarrow> flow_part s' = flow_part s" for q ss aud i m s x s'
    by (auto simp: trySilentSSO_def Let_def split: sum.splits option.splits if_splits prod.splits dbres.splits
        dest!: CreateAuthRequest_flow completeAuthorize_flow)
  have inter: "start_interactive E c q ss aud i m s = (x, s') \<Longrightarrow> flow_part s' = flow_part s" for q ss aud i m s x s'
    by (auto simp: start_interactive_def split: prod.splits dbres.splits dest!: CreateAuthRequest_flow)
  show ?thesis
    using assms
    by (auto simp: InitAuthorize_def Let_def split: sum.splits prod.splits if_splits option.splits
        dest!: none sso inter)
qed

section \<open>The second factor\<close>


section \<open>Consent\<close>

lemma consent_policy_Inr: "consent_policy E req u granted ip ua st = Inr g \<Longrightarrow> set g \<subseteq> set granted"
  by (auto simp: consent_policy_def split: option.splits sum.splits prod.splits if_splits dest: readModifyScopes_narrows)

lemma save_row_mem: "r \<in> set (save_row key r rs)"
  by (force simp: save_row_def)

lemma store_consent_Inr:
  assumes "store_consent E u c granted st = (Inr (), st')"
  shows "\<exists>co \<in> set (t_consents st'). co_user_id co = u \<and> co_client_id co = c \<and> co_scopes co = granted"
  using assms
  by (auto simp: store_consent_def FindActiveConsent_def CreateConsent_def UpdateConsent_def stmt_def stmt_opt_def
      insert_row_def new_uuid_def bump_def
      split: dbres.splits option.splits prod.splits if_splits dest!: first_where_SomeD
      intro!: bexI [OF _ save_row_mem])

text \<open>C8 Consent grants at most what was asked and agreed: the code issued by the consent step carries
  the scopes that the user submitted among those of the request, narrowed further by the policy at
  most, and the same set is what the stored consent of this user and client records.\<close>

theorem consent_step_sound:
  assumes "AuthorizeConsent E i agreed ip ua st = (Inr resp, st')"
  shows "\<exists>req u granted s co. req \<in> set (t_auth_requests st) \<and> ar_id req = i \<and> wall E < ar_expires_at req \<and>
    ar_authenticated req \<and> ar_user_id req = Some u \<and> set granted \<subseteq> set agreed \<inter> set (ar_scopes req) \<and>
    code_row st' (HashToken (sha256 E) (az_code resp)) =
      Some ((code_of E (req\<lparr>ar_consent_given := True, ar_scopes := granted\<rparr>) u s
               (HashToken (sha256 E) (az_code resp)))\<lparr>ac_created_at := wall E\<rparr>) \<and>
    co \<in> set (t_consents st') \<and> co_user_id co = u \<and> co_client_id co = ar_client_id req \<and> co_scopes co = granted"
proof -
  from assms obtain req u granted st1 st2 where req: "pending_request E i st = Inr req" "ar_authenticated req"
    "ar_user_id req = Some u"
    and pol: "consent_policy E req u (filterScopes agreed (ar_scopes req)) ip ua st = Inr granted"
    and co: "store_consent E u (ar_client_id req) granted st = (Inr (), st1)"
    and up: "UpdateAuthRequest E (req\<lparr>ar_consent_given := True, ar_scopes := granted\<rparr>) st1 = DbOk st2"
    and c: "completeAuthorize E (req\<lparr>ar_consent_given := True, ar_scopes := granted\<rparr>) ip ua st2 = (Inr resp, st')"
    by (auto simp: AuthorizeConsent_def Let_def split: sum.splits if_splits prod.splits option.splits dbres.splits)
  have sub: "set granted \<subseteq> set agreed \<inter> set (ar_scopes req)"
    using consent_policy_Inr [OF pol] by (simp add: filterScopes_set)
  have "t_consents st' = t_consents st1"
    using flow_part_eq [OF completeAuthorize_flow [OF c]] up
    by (auto simp: UpdateAuthRequest_def stmt_def split: if_splits)
  with store_consent_Inr [OF co] obtain co' where co': "co' \<in> set (t_consents st')" "co_user_id co' = u"
    "co_client_id co' = ar_client_id req" "co_scopes co' = granted" by auto
  obtain u' s where "ar_user_id (req\<lparr>ar_consent_given := True, ar_scopes := granted\<rparr>) = Some u'"
    "code_row st' (HashToken (sha256 E) (az_code resp)) =
      Some ((code_of E (req\<lparr>ar_consent_given := True, ar_scopes := granted\<rparr>) u' s
               (HashToken (sha256 E) (az_code resp)))\<lparr>ac_created_at := wall E\<rparr>)"
    using completed_code_row [OF completeAuthorize_completed [OF c]] .
  then show ?thesis
    using pending_request_Inr [OF req(1)] req(2,3) sub co'
    by (intro exI [of _ req] exI [of _ u] exI [of _ granted] exI [of _ s] exI [of _ co']) simp
qed

section \<open>New requests\<close>

text \<open>C14 A request the authorization endpoint accepts is acceptable: the redirect URI is registered and
  the client has the authorization code grant, the response type asks for a code, PKCE is present
  for public clients and wherever the client requires it, only with S256, and every scope of the
  answer is one of the client's own or one the client holds on the requested resource.\<close>

theorem init_authorize_acceptable:
  assumes "InitAuthorize E c p st = (Inr resp, st')"
  shows "acceptable E c p \<and> ir_scopes resp \<noteq> [] \<and> (\<forall>s \<in> set (ir_scopes resp). scope_allowed E c p s)"
  using InitAuthorize_Inr [OF assms] by simp

definition demo_params :: authorize_params where
  "demo_params = empty_params\<lparr>p_redirect_uri := ''cb'', p_response_type := ''code'', p_scope := ''openid'',
     p_code_challenge := b64_encode ''v1''\<rparr>"

lemmas run_init = InitAuthorize_def init_checks_def isValidResponseType_def HasRedirectURI_def HasGrantType_def
  one_of_def check_max_age_def init_scopes_def ValidateScopes_def HasScope_def default_challenge_method_def start_interactive_def
  interactive_request_def base_request_def CreateAuthRequest_def empty_params_def

lemma demo_init_runs: "ran (InitAuthorize demo_env demo_client demo_params demo_db)"
  by (simp add: run_init demo_params_def run_store demo_rows Let_def)

theorem init_authorize_acceptable_witness:
  "acceptable demo_env demo_client demo_params"
  using init_authorize_acceptable [OF ran_Inr [OF demo_init_runs]] by blast

text \<open>A pushed request is used by its owner and once: a successful use of a request URI finds a stored
  and unexpired row pushed by the client that now presents it, runs the endpoint on exactly the
  pushed parameters, and, unless the deletion failed, the same URI is refused straight after,
  whoever presents it.\<close>

theorem pushed_request_once:
  assumes "InitAuthorizeFromPAR E uri cid cookie st = (Inr resp, st')"
  shows "(\<exists>par p c. par \<in> set (t_pars st) \<and> pr_request_uri par = uri \<and> wall E < pr_expires_at par \<and>
      uuid_string E (pr_client_id par) = cid \<and> unmarshal_params E (pr_params par) = Some p \<and>
      acceptable E c (p\<lparr>p_session_cookie := cookie\<rparr>)) \<and>
    (db_err E ''DeletePAR'' \<or>
     InitAuthorizeFromPAR E' uri cid' cookie' st' = (Inl (ErrInvalidRequest ''invalid or expired request_uri''), st'))"
proof -
  obtain par p c where par: "par \<in> set (t_pars st)" "pr_request_uri par = uri" "pr_expires_at par > wall E"
    "uuid_string E (pr_client_id par) = cid" "unmarshal_params E (pr_params par) = Some p"
    and init: "InitAuthorize E c (p\<lparr>p_session_cookie := cookie\<rparr>) (db_ignore st (DeletePAR E uri st)) = (Inr resp, st')"
    by (rule InitFromPAR_owner [OF assms])
  have "par_spent st' uri" if "\<not> db_err E ''DeletePAR''"
    using flow_part_eq [OF InitAuthorize_flow [OF init]] DeletePAR_gone [OF that]
    by (simp add: par_spent_def set_delete_where)
  then show ?thesis using par InitAuthorize_Inr(1) [OF init] par_spent_refused by blast
qed

section \<open>The invariant\<close>

text \<open>C9 The service keeps its tables consistent: in every state reached from a consistent one, a request
  with consent is authenticated and an authenticated one has a user, and every code, access token,
  refresh token and approved device code belongs to the user of the session it names.\<close>

theorem oauth_tables_consistent:
  assumes "oauth_inv st" and "oauth_steps sha st st'"
  shows "oauth_inv st'"
  using oauth_steps_inv [OF assms(2,1)] .

lemma demo_db_inv: "oauth_inv demo_db"
  by (simp add: oauth_inv_def owns_def access_ok_def demo_code_def demo_access_def demo_refresh_def demo_session_def)

theorem oauth_tables_consistent_witness: "oauth_inv (demo_next demo_db)"
  by (rule oauth_tables_consistent [OF demo_db_inv demo_next_steps])

section \<open>Witnesses of the steps\<close>

definition demo_method :: mfa_method where
  "demo_method = \<lparr>mf_id = UUID 6, mf_user_id = UUID 2, mf_type = ''totp'', mf_secret = ''123456'', mf_verified = True,
     mf_backup_codes = [], mf_last_used_totp_step = 0\<rparr>"

definition mfa_db :: db where
  "mfa_db = demo_db\<lparr>t_mfa_methods := [demo_method],
     t_auth_requests := [demo_request\<lparr>ar_user_id := Some (UUID 2)\<rparr>]\<rparr>"

lemmas run_mfa = AuthorizeMFA_def mfa_ValidateCode_def FindVerifiedByUser_def verified_method_def
  mfa_Update_def consent_after_mfa_def consent_covers_def findClient_def pending_request_def save_request_def
  ar_IsExpired_def

lemma demo_totp_step [simp]: "totp_step 1000000000000 = 33"
  by code_simp

lemma demo_mfa_runs: "ran (AuthorizeMFA demo_env (UUID 4) ''123456'' mfa_db)"
  by (simp add: run_mfa mfa_db_def demo_method_def demo_request_def run_store demo_rows Let_def)


definition consent_db :: db where
  "consent_db = demo_db\<lparr>t_auth_requests := [demo_request\<lparr>ar_user_id := Some (UUID 2), ar_authenticated := True\<rparr>]\<rparr>"

lemma demo_consent_runs: "ran (AuthorizeConsent demo_env (UUID 4) [''openid'', ''orders''] [] [] consent_db)"
  by (simp add: AuthorizeConsent_def consent_db_def demo_request_def run_store run_authorize demo_rows
      pending_request_def filterScopes_def consent_policy_def user_or_nil_def store_consent_def loadRoles_def
      evaluate_policy_def CreateConsent_def split: option.splits sum.splits)

theorem consent_step_sound_witness:
  "\<exists>req co. req \<in> set (t_auth_requests consent_db) \<and>
     co \<in> set (t_consents (snd (AuthorizeConsent demo_env (UUID 4) [''openid'', ''orders''] [] [] consent_db))) \<and>
     set (co_scopes co) \<subseteq> set (ar_scopes req)"
  using consent_step_sound [OF ran_Inr [OF demo_consent_runs]] by blast

definition par_db :: db where
  "par_db = demo_db\<lparr>t_pars := [\<lparr>pr_request_uri = ''urn:1'', pr_client_id = UUID 1, pr_params = ''cb'',
     pr_expires_at = 1500000000000\<rparr>]\<rparr>"

lemma demo_par_runs: "ran (InitAuthorizeFromPAR demo_env ''urn:1'' ''u'' '''' par_db)"
  by (simp add: InitAuthorizeFromPAR_def par_db_def run_init run_store demo_rows demo_unmarshal_def findClient_def
      demo_uuid_string_def demo_uuid_parse_def Let_def)

theorem pushed_request_once_witness:
  "InitAuthorizeFromPAR demo_env ''urn:1'' ''u'' '''' (snd (InitAuthorizeFromPAR demo_env ''urn:1'' ''u'' '''' par_db)) =
     (Inl (ErrInvalidRequest ''invalid or expired request_uri''),
      snd (InitAuthorizeFromPAR demo_env ''urn:1'' ''u'' '''' par_db))"
proof -
  have ok: "\<not> db_err demo_env ''DeletePAR''" by simp
  show ?thesis using pushed_request_once [OF ran_Inr [OF demo_par_runs]] ok by blast
qed

end
