(* ===== verification/Settings.thy ===== *)
theory Settings
  imports Store
begin

text \<open>
  The settings table and what reads it: the switches and session lifetimes of
  \<^verbatim>\<open>invitation/service.go\<close>, and the password policy of package \<^verbatim>\<open>password\<close> (normalisation, storage
  and the validator). The strength estimate of zxcvbn, the classes of non-ASCII runes and the
  JSON codec of the policy are the fields of \<open>pw_lib\<close>.
\<close>

section \<open>The settings table\<close>

definition setting_of :: "db \<Rightarrow> string \<Rightarrow> string option" where
  "setting_of st k = map_option snd (first_where (\<lambda>s. fst s = k) (t_settings st))"

text \<open>A missing row reads as the empty string.\<close>

definition GetSetting :: "env \<Rightarrow> string \<Rightarrow> db \<Rightarrow> string dbres" where
  "GetSetting E k st = stmt E ''settings.Get''
     (case setting_of st k of None \<Rightarrow> [] | Some v \<Rightarrow> v)"

definition SetSetting :: "env \<Rightarrow> string \<Rightarrow> string \<Rightarrow> db \<Rightarrow> db dbres" where
  "SetSetting E k v st = stmt E ''settings.Set'' (st\<lparr>t_settings := save_row fst (k, v) (t_settings st)\<rparr>)"

lemmas [repo_defs] = GetSetting_def SetSetting_def

definition setting_flag :: "env \<Rightarrow> string \<Rightarrow> db \<Rightarrow> bool" where
  "setting_flag E k st =
     (case GetSetting E k st of
        DbErr \<Rightarrow> True
      | DbOk v \<Rightarrow> if v = [] then True else v = ''true'')"

definition IsRegistrationEnabled :: "env \<Rightarrow> db \<Rightarrow> bool" where
  "IsRegistrationEnabled E st = setting_flag E ''registration_enabled'' st"

definition IsEmailVerificationRequired :: "env \<Rightarrow> db \<Rightarrow> bool" where
  "IsEmailVerificationRequired E st = setting_flag E ''registration_email_verification_required'' st"

definition SessionTTL :: "env \<Rightarrow> bool \<Rightarrow> db \<Rightarrow> duration" where
  "SessionTTL E extended st =
     (let key = (if extended then ''default_session_extended_ttl'' else ''default_session_ttl'');
          fallback = (if extended then cfg_session_extended_ttl (cfg E) else cfg_session_ttl (cfg E))
      in case GetSetting E key st of
           DbErr \<Rightarrow> fallback
         | DbOk v \<Rightarrow>
             if v = [] then fallback
             else (case atoi v of
                     None \<Rightarrow> fallback
                   | Some secs \<Rightarrow> if secs \<le> 0 then fallback else seconds secs))"

definition GetPostRegisterRedirectURL :: "env \<Rightarrow> db \<Rightarrow> string" where
  "GetPostRegisterRedirectURL E st =
     (case GetSetting E ''default_post_register_redirect_url'' st of DbErr \<Rightarrow> [] | DbOk v \<Rightarrow> v)"

definition UpdateSetting :: "env \<Rightarrow> string \<Rightarrow> string \<Rightarrow> db \<Rightarrow> unit res \<times> db" where
  "UpdateSetting E k v st =
     (case SetSetting E k v st of
        DbErr \<Rightarrow> (Inl (ErrInternal ''failed to update setting''), st)
      | DbOk st1 \<Rightarrow> (Inr (), st1))"

lemma setting_of_save: "setting_of (st\<lparr>t_settings := save_row fst (k, v) (t_settings st)\<rparr>) k' =
    (if k' = k then Some v else setting_of st k')"
  by (simp add: setting_of_def row_simps)

lemma UpdateSetting_reads_back:
  assumes "UpdateSetting E k v st = (Inr (), st')" and "\<not> db_err E ''settings.Get''"
  shows "GetSetting E k' st' = (if k' = k then DbOk v else GetSetting E k' st)"
  using assms by (auto simp: UpdateSetting_def repo_defs setting_of_save split: dbres.splits if_splits)

text \<open>The gate is closed only by an explicit setting: any value but the empty one and \<^verbatim>\<open>true\<close>.\<close>

lemma setting_flag_False: "\<not> setting_flag E k st \<longleftrightarrow>
    \<not> db_err E ''settings.Get'' \<and> (\<exists>v. setting_of st k = Some v \<and> v \<noteq> [] \<and> v \<noteq> ''true'')"
  by (cases "setting_of st k") (auto simp: setting_flag_def GetSetting_def stmt_def)

text \<open>A configured lifetime is positive up to the largest one a \<^verbatim>\<open>time.Duration\<close> holds; above it
  the multiplication by \<^verbatim>\<open>time.Second\<close> wraps around.\<close>

lemma SessionTTL_pos:
  assumes "0 < cfg_session_ttl (cfg E)" and "0 < cfg_session_extended_ttl (cfg E)"
    and "\<And>v n. t_settings st \<noteq> [] \<Longrightarrow> (k, v) \<in> set (t_settings st) \<Longrightarrow> atoi v = Some n \<Longrightarrow> n \<le> 9223372036"
    and "k = (if ext then ''default_session_extended_ttl'' else ''default_session_ttl'')"
  shows "0 < SessionTTL E ext st"
proof (cases "GetSetting E k st")
  case DbErr
  then show ?thesis using assms by (simp add: SessionTTL_def Let_def)
next
  case (DbOk v)
  have bound: "n \<le> 9223372036" if "v \<noteq> []" "atoi v = Some n" for n
  proof -
    have "setting_of st k = Some v"
      using DbOk that by (auto simp: GetSetting_def stmt_def split: if_splits option.splits)
    then have "(k, v) \<in> set (t_settings st)"
      by (auto simp: setting_of_def dest: first_where_SomeD)
    then show ?thesis using assms(3) that by (metis empty_iff empty_set)
  qed
  show ?thesis
    using DbOk bound assms(1,2,4) seconds_pos
    by (cases "atoi v") (auto simp: SessionTTL_def Let_def)
qed

lemma SessionTTL_wraps: "atoi ''9223372037'' = Some n \<Longrightarrow> seconds n < 0"
  by (auto simp: digit_value_def range_checked_def in_int64_def Let_def seconds_def
      nanos_per_second_def int64_def signed_take_bit_eq_if_negative)

section \<open>The password policy\<close>

record pw_policy =
  pp_min_length :: int
  pp_max_length :: int
  pp_require_upper :: bool
  pp_require_lower :: bool
  pp_require_digit :: bool
  pp_require_symbol :: bool
  pp_min_score :: int

record pw_lib =
  pl_zxcvbn :: "string \<Rightarrow> string list \<Rightarrow> int"
  pl_classes :: "string \<Rightarrow> bool \<times> bool \<times> bool \<times> bool"
  pl_unmarshal :: "string \<Rightarrow> pw_policy option"
  pl_marshal :: "pw_policy \<Rightarrow> string"

definition DefaultPolicy :: pw_policy where
  "DefaultPolicy = \<lparr>pp_min_length = 8, pp_max_length = 128, pp_require_upper = False,
     pp_require_lower = False, pp_require_digit = False, pp_require_symbol = False, pp_min_score = 0\<rparr>"

text \<open>The guards of \<^verbatim>\<open>Normalize\<close> in the source's order, two on each field; a later guard reads the
  fields the earlier ones have written.\<close>

definition clamp_min_length :: "pw_policy \<Rightarrow> pw_policy" where
  "clamp_min_length p =
     (if pp_min_length p < 1 then p\<lparr>pp_min_length := 1\<rparr>
      else if pp_min_length p > 256 then p\<lparr>pp_min_length := 256\<rparr> else p)"

definition clamp_max_length :: "pw_policy \<Rightarrow> pw_policy" where
  "clamp_max_length p =
     (let p1 = (if pp_max_length p \<noteq> 0 \<and> pp_max_length p < pp_min_length p
                then p\<lparr>pp_max_length := pp_min_length p\<rparr> else p)
      in if pp_max_length p1 > 512 then p1\<lparr>pp_max_length := 512\<rparr> else p1)"

definition clamp_min_score :: "pw_policy \<Rightarrow> pw_policy" where
  "clamp_min_score p =
     (if pp_min_score p < 0 then p\<lparr>pp_min_score := 0\<rparr>
      else if pp_min_score p > 4 then p\<lparr>pp_min_score := 4\<rparr> else p)"

definition Normalize :: "pw_policy \<Rightarrow> pw_policy" where
  "Normalize p = clamp_min_score (clamp_max_length (clamp_min_length p))"

definition is_ascii :: "char \<Rightarrow> bool" where
  "is_ascii c \<longleftrightarrow> (of_char c :: nat) < 128"

definition is_upper :: "char \<Rightarrow> bool" where
  "is_upper c \<longleftrightarrow> (let n = (of_char c :: nat) in 65 \<le> n \<and> n \<le> 90)"

definition is_lower :: "char \<Rightarrow> bool" where
  "is_lower c \<longleftrightarrow> (let n = (of_char c :: nat) in 97 \<le> n \<and> n \<le> 122)"

definition is_digit :: "char \<Rightarrow> bool" where
  "is_digit c \<longleftrightarrow> (let n = (of_char c :: nat) in 48 \<le> n \<and> n \<le> 57)"

text \<open>Punctuation, symbols and white space: every printable ASCII character that is no letter or
  digit, and the space characters.\<close>

definition is_symbol :: "char \<Rightarrow> bool" where
  "is_symbol c \<longleftrightarrow> is_ascii c \<and> (is_space c \<or>
     (33 \<le> (of_char c :: nat) \<and> (of_char c :: nat) \<le> 126 \<and> \<not> is_upper c \<and> \<not> is_lower c \<and> \<not> is_digit c))"

definition classify :: "pw_lib \<Rightarrow> string \<Rightarrow> bool \<times> bool \<times> bool \<times> bool" where
  "classify L pw =
     (let (u, l, d, s) = pl_classes L (filter (\<lambda>c. \<not> is_ascii c) pw)
      in (u \<or> list_ex is_upper pw, l \<or> list_ex is_lower pw, d \<or> list_ex is_digit pw, s \<or> list_ex is_symbol pw))"

definition sanitizeInputs :: "string list \<Rightarrow> string list" where
  "sanitizeInputs ins = filter (\<lambda>s. s \<noteq> []) (map trim_space ins)"

definition problem :: "bool \<Rightarrow> string \<Rightarrow> string list" where
  "problem b m = (if b then [m] else [])"

definition password_problems :: "pw_lib \<Rightarrow> pw_policy \<Rightarrow> string \<Rightarrow> string list \<Rightarrow> string list" where
  "password_problems L p pw hints =
     (let (hasUpper, hasLower, hasDigit, hasSymbol) = classify L pw;
          score = pl_zxcvbn L pw (sanitizeInputs hints)
      in problem (int (length pw) < pp_min_length p)
           (''must be at least '' @ itoa (pp_min_length p) @ '' characters'')
         @ problem (pp_max_length p > 0 \<and> int (length pw) > pp_max_length p)
           (''must be at most '' @ itoa (pp_max_length p) @ '' characters'')
         @ problem (pp_require_upper p \<and> \<not> hasUpper) ''must contain an uppercase letter''
         @ problem (pp_require_lower p \<and> \<not> hasLower) ''must contain a lowercase letter''
         @ problem (pp_require_digit p \<and> \<not> hasDigit) ''must contain a digit''
         @ problem (pp_require_symbol p \<and> \<not> hasSymbol) ''must contain a symbol''
         @ problem (pp_min_score p > 0 \<and> length pw > 0 \<and> score < pp_min_score p)
           (''must reach a strength score of at least '' @ itoa (pp_min_score p) @
            '' (currently '' @ itoa score @ '')''))"

definition pw_Get :: "pw_lib \<Rightarrow> env \<Rightarrow> db \<Rightarrow> pw_policy" where
  "pw_Get L E st =
     (case GetSetting E ''password_policy'' st of
        DbErr \<Rightarrow> DefaultPolicy
      | DbOk raw \<Rightarrow>
          if raw = [] then DefaultPolicy
          else (case pl_unmarshal L raw of None \<Rightarrow> DefaultPolicy | Some p \<Rightarrow> Normalize p))"

definition pw_Update :: "pw_lib \<Rightarrow> env \<Rightarrow> pw_policy \<Rightarrow> db \<Rightarrow> db dbres" where
  "pw_Update L E p st = SetSetting E ''password_policy'' (pl_marshal L (Normalize p)) st"

definition pw_Validate :: "pw_lib \<Rightarrow> env \<Rightarrow> db \<Rightarrow> string \<Rightarrow> string list \<Rightarrow> err option" where
  "pw_Validate L E st pw hints =
     (let problems = password_problems L (Normalize (pw_Get L E st)) pw hints
      in if problems = [] then None
         else Some (ErrBadRequest (''password '' @ join_with ''; '' problems)))"

text \<open>What a policy must satisfy to be enforceable.\<close>

definition policy_ok :: "pw_policy \<Rightarrow> bool" where
  "policy_ok p \<longleftrightarrow> 1 \<le> pp_min_length p \<and> pp_min_length p \<le> 256 \<and>
     (pp_max_length p = 0 \<or> (pp_min_length p \<le> pp_max_length p \<and> pp_max_length p \<le> 512)) \<and>
     0 \<le> pp_min_score p \<and> pp_min_score p \<le> 4"

lemma clamp_min_length_ok:
  "1 \<le> pp_min_length (clamp_min_length p) \<and> pp_min_length (clamp_min_length p) \<le> 256"
  by (simp add: clamp_min_length_def)

lemma clamp_max_length_ok:
  "pp_min_length p \<le> 512 \<Longrightarrow> pp_max_length (clamp_max_length p) = 0 \<or>
     (pp_min_length p \<le> pp_max_length (clamp_max_length p) \<and> pp_max_length (clamp_max_length p) \<le> 512)"
  by (simp add: clamp_max_length_def Let_def)

lemma clamp_max_length_min [simp]: "pp_min_length (clamp_max_length p) = pp_min_length p"
  by (simp add: clamp_max_length_def Let_def)

lemma clamp_min_score_ok:
  "0 \<le> pp_min_score (clamp_min_score p) \<and> pp_min_score (clamp_min_score p) \<le> 4"
  by (simp add: clamp_min_score_def)

lemma clamp_min_score_lengths [simp]:
  "pp_min_length (clamp_min_score p) = pp_min_length p"
  "pp_max_length (clamp_min_score p) = pp_max_length p"
  by (simp_all add: clamp_min_score_def)

lemma Normalize_ok: "policy_ok (Normalize p)"
  unfolding policy_ok_def Normalize_def
  using clamp_min_length_ok [of p] clamp_min_score_ok [of "clamp_max_length (clamp_min_length p)"]
    clamp_max_length_ok [of "clamp_min_length p"]
  by simp

lemma Normalize_id: "policy_ok p \<Longrightarrow> Normalize p = p"
proof -
  assume ok: "policy_ok p"
  then have "clamp_min_length p = p" by (simp add: clamp_min_length_def policy_ok_def)
  moreover have "clamp_max_length p = p" using ok by (auto simp: clamp_max_length_def Let_def policy_ok_def)
  moreover have "clamp_min_score p = p" using ok by (simp add: clamp_min_score_def policy_ok_def)
  ultimately show ?thesis by (simp add: Normalize_def)
qed

lemma Normalize_idem: "Normalize (Normalize p) = Normalize p"
  by (rule Normalize_id [OF Normalize_ok])

lemma pw_Get_ok: "policy_ok (pw_Get L E st)"
proof -
  have "policy_ok DefaultPolicy" by (simp add: policy_ok_def DefaultPolicy_def)
  then show ?thesis unfolding pw_Get_def by (auto simp: Normalize_ok split: dbres.splits option.splits)
qed

definition meets_policy :: "pw_lib \<Rightarrow> pw_policy \<Rightarrow> string \<Rightarrow> string list \<Rightarrow> bool" where
  "meets_policy L p pw hints \<longleftrightarrow>
     pp_min_length p \<le> int (length pw) \<and>
     (pp_max_length p = 0 \<or> int (length pw) \<le> pp_max_length p) \<and>
     (case classify L pw of (u, l, d, s) \<Rightarrow>
        (pp_require_upper p \<longrightarrow> u) \<and> (pp_require_lower p \<longrightarrow> l) \<and>
        (pp_require_digit p \<longrightarrow> d) \<and> (pp_require_symbol p \<longrightarrow> s)) \<and>
     (pp_min_score p = 0 \<or> pp_min_score p \<le> pl_zxcvbn L pw (sanitizeInputs hints))"

lemma no_problem [simp]: "problem b m = [] \<longleftrightarrow> \<not> b"
  by (simp add: problem_def)

lemma pw_Validate_iff:
  "pw_Validate L E st pw hints = None \<longleftrightarrow> meets_policy L (pw_Get L E st) pw hints"
proof -
  define p where "p = pw_Get L E st"
  have p: "policy_ok p" unfolding p_def by (rule pw_Get_ok)
  obtain u l d s where c: "classify L pw = (u, l, d, s)" by (cases "classify L pw") auto
  have "password_problems L p pw hints = [] \<longleftrightarrow>
      \<not> int (length pw) < pp_min_length p \<and> \<not> (pp_max_length p > 0 \<and> int (length pw) > pp_max_length p) \<and>
      \<not> (pp_require_upper p \<and> \<not> u) \<and> \<not> (pp_require_lower p \<and> \<not> l) \<and> \<not> (pp_require_digit p \<and> \<not> d) \<and>
      \<not> (pp_require_symbol p \<and> \<not> s) \<and>
      \<not> (pp_min_score p > 0 \<and> length pw > 0 \<and> pl_zxcvbn L pw (sanitizeInputs hints) < pp_min_score p)"
    unfolding password_problems_def c Let_def prod.case
    by (simp only: append_is_Nil_conv no_problem)
  also have "\<dots> \<longleftrightarrow> meets_policy L p pw hints"
  proof -
    have "0 < length pw" if "pp_min_length p \<le> int (length pw)" using that p unfolding policy_ok_def by linarith
    then show ?thesis using p unfolding meets_policy_def c prod.case policy_ok_def by linarith
  qed
  finally have "password_problems L p pw hints = [] \<longleftrightarrow> meets_policy L p pw hints" .
  then show ?thesis
    by (simp add: pw_Validate_def Let_def p_def [symmetric] Normalize_id [OF p])
qed

lemma pw_Update_Get:
  assumes "pw_Update L E p st = DbOk st'" and "\<not> db_err E ''settings.Get''"
    and codec: "\<And>q. pl_unmarshal L (pl_marshal L q) = Some q" "\<And>q. pl_marshal L q \<noteq> []"
  shows "pw_Get L E st' = Normalize p"
  using assms
  by (auto simp: pw_Update_def pw_Get_def repo_defs setting_of_save Normalize_idem split: if_splits)

end
