(* ===== verification/AccountProperties.thy ===== *)
theory AccountProperties
  imports Demo Settings PolicyEngine Sessions Mfa
begin

text \<open>
  The properties of accounts and administration: lockout, one-time links, registration, sessions,
  permissions, resource scopes, policies, the registration form and the profile.
\<close>

section \<open>Accounts\<close>

text \<open>C18 Guessing locks the account: after enough wrong passwords in a row (as many as are missing to
  the configured limit), even the right password is refused with \<^verbatim>\<open>account_locked\<close>, and the refused
  attempt changes nothing.\<close>

theorem brute_force_locks_out:
  assumes "users_online E" "0 < cfg_lockout_duration (cfg E)"
    "email_row st (lower_trim e) = Some u" "us_active u" "us_password_hash u \<noteq> None"
    "list_all (\<lambda>pw. \<not> right_password E u pw) pws"
    "cfg_max_fail_attempts (cfg E) \<le> us_failed_login_attempts u + int (length pws)" "pws \<noteq> []"
  shows "Authenticate E e pw (login_attempts E e pws st) =
    (Inl (ErrAccountLocked ''account is temporarily locked due to too many failed login attempts''),
     login_attempts E e pws st)"
  using brute_force_step [OF assms] Authenticate_locked [OF assms(1)] by blast

lemma demo_user_row: "email_row demo_db (lower_trim ''a@b.c'') = Some demo_user"
proof -
  have "lower_trim ''a@b.c'' = ''a@b.c''" by code_simp
  then show ?thesis by (simp add: email_row_def demo_user_def blank_user_def)
qed

theorem brute_force_locks_out_witness:
  "fst (Authenticate demo_env ''a@b.c'' ''pass'' (login_attempts demo_env ''a@b.c'' [''a'', ''b'', ''c''] demo_db)) =
     Inl (ErrAccountLocked ''account is temporarily locked due to too many failed login attempts'')"
proof -
  have "Authenticate demo_env ''a@b.c'' ''pass'' (login_attempts demo_env ''a@b.c'' [''a'', ''b'', ''c''] demo_db) =
    (Inl (ErrAccountLocked ''account is temporarily locked due to too many failed login attempts''),
     login_attempts demo_env ''a@b.c'' [''a'', ''b'', ''c''] demo_db)"
    by (rule brute_force_locks_out [OF _ _ demo_user_row])
      (auto simp: users_online_def demo_cfg_def demo_user_def blank_user_def right_password_def demo_verify_def)
  then show ?thesis by simp
qed

text \<open>A password reset link works once and only while it is valid: a successful reset presents a token
  stored (hashed) for some user and unexpired, with a password the policy accepts, and the same
  token never resets a password again in the state it leaves.\<close>

theorem reset_link_once:
  assumes "distinct_secrets us_password_reset_token st" and "ResetPassword E tok pw st = (Inr (), st')"
    and "sha256 E' = sha256 E"
  shows "(\<exists>u \<in> set (t_users st). us_password_reset_token u = Some (HashToken (sha256 E) tok) \<and>
      is_after (us_password_reset_expires_at u) (wall E) \<and> password_policy E pw [] = None) \<and>
    fst (ResetPassword E' tok pw' st') \<noteq> Inr ()"
  using ResetPassword_success [OF assms(2)] ResetPassword_once [OF assms] by blast

definition reset_db :: db where
  "reset_db = demo_db\<lparr>t_users := [demo_user\<lparr>us_password_reset_token := Some (HashToken id ''.t''),
     us_password_reset_expires_at := Some 2000000000000\<rparr>]\<rparr>"

lemmas run_users = user_FindByEmail_def FindByResetToken_def UpdateFields_def HashPassword_def is_after_def
  user_row_def email_row_def db_write_def touch_user_def email_conflict_def email_taken_def FindByVerifyToken_def

lemma demo_reset_runs: "ran (ResetPassword demo_env ''.t'' ''newpass'' reset_db)"
  by (simp add: ResetPassword_def reset_db_def run_users run_store demo_rows reset_fields_def)

theorem reset_link_once_witness:
  "\<exists>st'. ResetPassword demo_env ''.t'' ''newpass'' reset_db = (Inr (), st') \<and>
     fst (ResetPassword demo_env ''.t'' ''other'' st') \<noteq> Inr ()"
proof -
  have d: "distinct_secrets us_password_reset_token reset_db" by (simp add: distinct_secrets_def reset_db_def)
  obtain st' where r: "ResetPassword demo_env ''.t'' ''newpass'' reset_db = (Inr (), st')"
    using ran_Inr [OF demo_reset_runs] by (metis old.unit.exhaust)
  then show ?thesis using reset_link_once [OF d r refl] by blast
qed

text \<open>A verification link verifies its user's e-mail once: a successful use matches the identifier
  stored for the user named in the signed token, leaves that user's e-mail verified, and the same
  token is refused from then on.\<close>

theorem verification_link_once:
  assumes "ConsumeVerificationToken E raw st = (Inr (u, rid), st')" and "users_inv st"
    and "distinct_secrets us_email_verify_token st"
    and "action_token_parse E' raw = action_token_parse E raw"
  shows "(\<exists>jti. action_token_parse E raw = Some (us_id u, ''verify_email'', jti, rid) \<and> us_email_verify_token u = Some jti) \<and>
    (\<exists>v. user_row st' (us_id u) = Some v \<and> us_email_verified v) \<and>
    (\<nexists>r st''. ConsumeVerificationToken E' raw st' = (Inr r, st''))"
  using ConsumeVerificationToken_success [OF assms(1)] ConsumeVerificationToken_verifies [OF assms(1,2)]
    ConsumeVerificationToken_once [OF assms(3,1) _ assms(4)]
  by (metis surj_pair)

definition verify_env :: env where
  "verify_env = demo_env\<lparr>action_token_sign := Some (\<lambda>u a j r t x. Some ''link''),
     action_token_parse := (\<lambda>s. if s = ''link'' then Some (UUID 2, ''verify_email'', ''j1'', None) else None)\<rparr>"

definition verify_db :: db where
  "verify_db = demo_db\<lparr>t_users := [demo_user\<lparr>us_email_verified := False, us_email_verify_token := Some ''j1'',
     us_email_verify_expires_at := Some 2000000000000\<rparr>]\<rparr>"

lemma demo_verify_runs: "ran (ConsumeVerificationToken verify_env ''link'' verify_db)"
  by (simp add: ConsumeVerificationToken_def verify_env_def verify_db_def run_users run_store demo_rows verified_fields_def)

theorem verification_link_once_witness:
  "\<exists>u rid st'. ConsumeVerificationToken verify_env ''link'' verify_db = (Inr (u, rid), st') \<and>
     (\<nexists>r st''. ConsumeVerificationToken verify_env ''link'' st' = (Inr r, st''))"
proof -
  obtain u rid st' where r: "ConsumeVerificationToken verify_env ''link'' verify_db = (Inr (u, rid), st')"
    using ran_Inr [OF demo_verify_runs] by (metis surj_pair)
  have "users_inv verify_db" "distinct_secrets us_email_verify_token verify_db"
    by (simp_all add: users_inv_def keys_unique_def distinct_secrets_def verify_db_def)
  with r show ?thesis using verification_link_once [OF r _ _ refl] by blast
qed

text \<open>Registration creates an ordinary account or nothing: a new user has the normalised e-mail, which no
  row had, an unverified address, a password the policy accepts and no role but the default one; a
  failing registration leaves the tables as they were.\<close>

theorem register_all_or_nothing:
  assumes "reg_form E = Some (reg_form_provider L F s)" and "gorm_rollback E" and "Register E inp st = (r, st')"
  shows "case r of
      Inl e \<Rightarrow> tables st' = tables st
    | Inr u \<Rightarrow> us_email u = lower_trim (ri_email inp) \<and> us_active u \<and> \<not> us_email_verified u \<and>
        email_row st (us_email u) = None \<and> user_row st (us_id u) = None \<and>
        password_policy E (ri_password inp) [us_email u, derefStr (ri_display_name inp)] = None \<and>
        set (t_user_roles st') \<subseteq> set (t_user_roles st) \<union> {(us_id u, r) | r. default_role E = Some r}"
proof (cases r)
  case (Inl e)
  with assms show ?thesis using Register_atomic [OF assms(2)] by simp
next
  case (Inr u)
  with form.Register_success [OF assms(1)] assms(3) show ?thesis by fastforce
qed

definition demo_rf :: rf_lib where
  "demo_rf = \<lparr>rl_options = (\<lambda>s. Some []), rl_parse_float = (\<lambda>s. None), rl_marshal_ok = (\<lambda>m. True)\<rparr>"

definition register_env :: env where
  "register_env = demo_env\<lparr>reg_form := Some (reg_form_provider demo_rf demo_env empty_db)\<rparr>"

definition demo_signup :: register_input where
  "demo_signup = \<lparr>ri_email = ''N@b.c'', ri_password = ''secret'', ri_display_name = None, ri_extra_fields = [],
     ri_skip_verification_email = True\<rparr>"

lemma demo_signup_email [simp]: "lower_trim ''N@b.c'' = ''n@b.c''"
  by code_simp

lemma demo_register_runs: "ran (Register register_env demo_signup demo_db)"
  by (simp add: Register_def register_checks_def register_tx_def create_user_step_def user_Create_def
      applyRegFormExtras_def reg_form_provider_def reg_ListForContext_def reg_ListForContext_row_def reg_Apply_def
      register_env_def demo_signup_def demo_rf_def empty_db_def allowedContexts_def field_order_def
      derefStr_def run_users run_store demo_rows Let_def)

theorem register_all_or_nothing_witness:
  "\<exists>u st'. Register register_env demo_signup demo_db = (Inr u, st') \<and> us_email u = ''n@b.c''"
proof -
  obtain u st' where r: "Register register_env demo_signup demo_db = (Inr u, st')"
    using ran_Inr [OF demo_register_runs] by blast
  have "gorm_rollback register_env" using demo_env_rollback by (simp add: register_env_def gorm_rollback_def)
  moreover have "reg_form register_env = Some (reg_form_provider demo_rf demo_env empty_db)"
    by (simp add: register_env_def)
  ultimately have "us_email u = lower_trim (ri_email demo_signup)"
    using register_all_or_nothing [OF _ _ r] by simp
  with r show ?thesis by (simp add: demo_signup_def)
qed

text \<open>Deleting an account leaves no trace of it: no user row, session, token, code, consent, second
  factor or role assignment of that user remains.\<close>

theorem deleted_user_leaves_nothing:
  assumes "user_Delete E i st = (Inr (), st')"
  shows "no_trace i st'"
  using user_Delete_no_trace [OF assms] .

lemma demo_delete_runs: "ran (user_Delete demo_env (UUID 2) demo_db)"
  by (simp add: user_Delete_def GetByID_def repo_defs user_row_def demo_user_def blank_user_def ran_def)

theorem deleted_user_leaves_nothing_witness:
  "no_trace (UUID 2) (snd (user_Delete demo_env (UUID 2) demo_db))"
proof -
  have "user_Delete demo_env (UUID 2) demo_db = (Inr (), snd (user_Delete demo_env (UUID 2) demo_db))"
    using ran_Inr [OF demo_delete_runs] by simp
  then show ?thesis by (rule deleted_user_leaves_nothing)
qed

section \<open>Sessions\<close>

text \<open>Signing out everywhere else does so: after it, every unrevoked session of the user is the current
  one, its count is the number of sessions it closed, and sessions of other users are untouched.\<close>

theorem sign_out_others:
  assumes "session_RevokeAll E u cur st = (Inr n, st')"
  shows "(\<forall>s \<in> set (t_sessions st'). se_user_id s = u \<and> \<not> se_revoked s \<longrightarrow> cur = Some (se_id s)) \<and>
    n = length (filter (revoke_match u cur) (t_sessions st)) \<and>
    (\<forall>s \<in> set (t_sessions st). se_user_id s \<noteq> u \<longrightarrow> s \<in> set (t_sessions st'))"
  using RevokeAll_keeps_only_current [OF assms] RevokeAll_table(2) [OF assms] RevokeAll_other_users [OF assms]
  by blast

lemma demo_revoke_all: "ran (session_RevokeAll demo_env (UUID 2) None demo_db)"
  by (simp add: session_RevokeAll_def RevokeAllForUser_def run_store repo_defs demo_rows)

theorem sign_out_others_witness:
  "list_all (\<lambda>s. se_user_id s = UUID 2 \<longrightarrow> se_revoked s)
     (t_sessions (snd (session_RevokeAll demo_env (UUID 2) None demo_db)))"
  using sign_out_others [OF ran_Inr [OF demo_revoke_all]] by (auto simp: list_all_iff)

text \<open>A revoked session's cookie stops working at once: after a session was revoked, neither the
  single sign-on cookie nor the activity check finds it.\<close>

theorem revoked_session_is_closed:
  assumes "session_Revoke E i u st = (Inr (), st')" and "sessions_unique st"
  shows "(\<nexists>s raw. FindByCookieToken E' raw st' = Inr (Some s) \<and> se_id s = i) \<and>
    session_IsActive E' i st' \<noteq> Inr True"
  using revoke_closes_cookie [OF assms(1) _ assms(2)] revoke_makes_inactive [OF assms(1)] by blast

lemma demo_session_revoke: "ran (session_Revoke demo_env (UUID 3) (UUID 2) demo_db)"
  by (simp add: session_Revoke_def session_row_def repo_defs run_store demo_rows)

theorem revoked_session_is_closed_witness:
  "session_IsActive demo_env (UUID 3) (snd (session_Revoke demo_env (UUID 3) (UUID 2) demo_db)) \<noteq> Inr True"
proof -
  have r: "session_Revoke demo_env (UUID 3) (UUID 2) demo_db =
      (Inr (), snd (session_Revoke demo_env (UUID 3) (UUID 2) demo_db))"
    using ran_Inr [OF demo_session_revoke] by simp
  have "sessions_unique demo_db" by (simp add: sessions_unique_def keys_unique_def)
  then show ?thesis using revoked_session_is_closed [OF r] by blast
qed

end
