(* ===== verification/AdminProperties.thy ===== *)
theory AdminProperties
  imports Demo Settings PolicyEngine Rbac Mfa
begin

text \<open>
  The properties of administration: permissions and roles, resource scopes, the policy engine, the
  password policy, the registration form and the profile.
\<close>

section \<open>Roles and permissions\<close>

lemma SetRolePermissions_frame:
  assumes "SetRolePermissions E i ps st = (Inr (), st')"
  shows "t_user_roles st' = t_user_roles st \<and> t_permissions st' = t_permissions st"
  using assms
  by (auto simp: SetRolePermissions_def SetRolePermissions_row_def stmt_opt_def Let_def
      split: sum.splits prod.splits dbres.splits option.splits if_splits
      dest!: Transaction_Inr add_role_permissions_table)

text \<open>Administration is guarded by exactly the permissions of the caller's roles: after the permissions
  of a role were set, a guarded endpoint lets a caller through if and only if one of the caller's
  roles grants the permission, where that role grants exactly the new set and every other role what
  it granted before.\<close>

theorem permission_gate_after_grant:
  assumes "SetRolePermissions E i ps st = (Inr (), st')" and "\<not> db_err E' ''rbac.GetUserPermissions''"
  shows "RequirePermission E' p (Some u) st' = Inr () \<longleftrightarrow>
    (\<exists>r k. (u, r) \<in> set (t_user_roles st) \<and> (k, p) \<in> set (t_permissions st) \<and>
       (if r = i then k \<in> set ps else (r, k) \<in> set (t_role_permissions st)))"
  using SetRolePermissions_exact [OF assms(1)] SetRolePermissions_frame [OF assms(1)] assms(2)
  by (auto simp: RequirePermission_iff permitted_def)

definition role_db :: db where
  "role_db = demo_db\<lparr>t_roles := [\<lparr>ro_id = UUID 7, ro_name = ''ops'', ro_description = None\<rparr>],
     t_permissions := [(UUID 8, ''users:read'')], t_user_roles := [(UUID 2, UUID 7)], t_role_permissions := []\<rparr>"

lemma demo_grant_runs: "ran (SetRolePermissions demo_env (UUID 7) [UUID 8] role_db)"
  by (simp add: SetRolePermissions_def GetRole_def SetRolePermissions_row_def role_db_def repo_defs ran_def
      Transaction_def Let_def delete_where_def role_row_def)

theorem permission_gate_after_grant_witness:
  "RequirePermission demo_env ''users:read'' (Some (UUID 2))
     (snd (SetRolePermissions demo_env (UUID 7) [UUID 8] role_db)) = Inr ()"
proof -
  have "SetRolePermissions demo_env (UUID 7) [UUID 8] role_db =
      (Inr (), snd (SetRolePermissions demo_env (UUID 7) [UUID 8] role_db))"
    using ran_Inr [OF demo_grant_runs] by simp
  from permission_gate_after_grant [OF this, of demo_env "''users:read''" "UUID 2"]
  show ?thesis by (simp add: role_db_def)
qed

text \<open>Deleting a role takes back what it granted: any permission still held afterwards is held through
  another role the user already had.\<close>

theorem deleted_role_grants_nothing:
  assumes "DeleteRole E i st = (Inr (), st')" and "permitted st' u p"
  shows "\<exists>r k. r \<noteq> i \<and> (u, r) \<in> set (t_user_roles st) \<and> (r, k) \<in> set (t_role_permissions st) \<and>
    (k, p) \<in> set (t_permissions st)"
  using DeleteRole_revokes [OF assms] .

section \<open>Policies\<close>

text \<open>The policy gate of the administration endpoints is conjunctive: a caller passes if and only if it
  is authenticated, its permissions can be read, the evaluation succeeds, and not one policy of type
  \<^verbatim>\<open>admin_api\<close> denies the request; no policy can override another's denial.\<close>

theorem policy_gate_needs_every_policy:
  "RequirePolicy L e E caller meth path ip st = Inr () \<longleftrightarrow>
     (\<exists>u perms r. caller = Some u \<and> GetUserPermissions_row E u st = DbOk perms \<and>
        engine_Evaluate L e ''admin_api'' (BuildAdminAPIInput (input_env_of E) u perms meth path ip) = Inr r \<and>
        \<not> (\<exists>p \<in> set (e ''admin_api''). denies L p (BuildAdminAPIInput (input_env_of E) u perms meth path ip)))"
proof -
  have "engine_Evaluate L e ty inp = Inr r \<and> \<not> ev_deny r \<longleftrightarrow>
      engine_Evaluate L e ty inp = Inr r \<and> \<not> (\<exists>p \<in> set (e ty). denies L p inp)" for ty inp r
    using engine_Evaluate_deny [of L e ty inp r] by auto
  then show ?thesis unfolding RequirePolicy_iff by simp
qed

lemma compile_policy_id: "compile_policy L p = Some pp \<Longrightarrow> pp_id pp = po_id p"
  by (auto simp: compile_policy_def split: option.splits)

lemma group_policies_ids:
  "group_policies L ps g = Some g' \<Longrightarrow>
     map pp_id (g' ty) = map pp_id (g ty) @ map po_id (filter (\<lambda>p. po_type p = ty) ps)"
  by (induction L ps g rule: group_policies.induct)
    (auto split: option.splits if_splits simp: compile_policy_id)

lemma LoadPolicies_ok:
  assumes "sorts_by_priority L" and "distinct (map po_id ps)" and "LoadPolicies L ps e = (True, e')"
  shows "engine_ok e'"
proof -
  obtain g where g: "group_policies L ps NewEngine = Some g" and e': "e' = (\<lambda>ty. rg_sort L (g ty))"
    using assms(3) by (auto simp: LoadPolicies_def split: option.splits)
  have "distinct (map pp_id (g ty))" for ty
    using group_policies_ids [OF g, of ty] assms(2) by (simp add: NewEngine_def distinct_map_filter)
  then show ?thesis using sort_ok [OF assms(1)] by (simp add: e' engine_ok_def)
qed

text \<open>One administrative operation on policies, with the engine it keeps up to date.\<close>

inductive policy_step :: "rego_lib \<Rightarrow> db \<times> policy_engine \<Rightarrow> db \<times> policy_engine \<Rightarrow> bool" for L where
  Create: "CreatePolicy L E inp se = (r, se') \<Longrightarrow> policy_step L se se'"
| Update: "UpdatePolicy L E i uinp se = (r, se') \<Longrightarrow> policy_step L se se'"
| Delete: "DeletePolicy E i se = (d, se') \<Longrightarrow> policy_step L se se'"
| Load: "policy_LoadAll L E se = (d, e') \<Longrightarrow> keys_unique po_id (t_policies (fst se)) \<Longrightarrow>
    policy_step L se (fst se, e')"

inductive policy_steps :: "rego_lib \<Rightarrow> db \<times> policy_engine \<Rightarrow> db \<times> policy_engine \<Rightarrow> bool" for L where
  Here: "policy_steps L se se"
| Then: "policy_steps L se se1 \<Longrightarrow> policy_step L se1 se2 \<Longrightarrow> policy_steps L se se2"

lemma policy_step_ok:
  assumes "policy_step L se se'" and "sorts_by_priority L" and "engine_ok (snd se)"
  shows "engine_ok (snd se')"
proof -
  have load: "engine_ok (snd (LoadPolicy L p e))" if "engine_ok e" for p e
    using LoadPolicy_ok [OF assms(2) that] by (metis prod.collapse)
  show ?thesis
    using assms(1)
  proof cases
    case (Create E inp r)
    then show ?thesis
      using assms(3) load by (cases se) (auto simp: CreatePolicy_def split: if_splits prod.splits dbres.splits)
  next
    case (Update E i uinp r)
    then show ?thesis
      using assms(3) load RemovePolicy_ok
      by (cases se) (auto simp: UpdatePolicy_def Let_def split: sum.splits if_splits dbres.splits)
  next
    case (Delete E i d)
    then show ?thesis
      using assms(3) RemovePolicy_ok by (cases se) (auto simp: DeletePolicy_def split: sum.splits dbres.splits)
  next
    case (Load E d e')
    obtain st e where se: "se = (st, e)" by (cases se)
    define ps where "ps = sort_key (\<lambda>p. - po_priority p) (filter po_active (t_policies st))"
    have "distinct (map po_id (filter po_active (t_policies st)))"
      using Load(3) by (simp add: se keys_unique_def distinct_map_filter)
    then have "distinct (map po_id ps)"
      using mset_sort [of "\<lambda>p. - po_priority p" "filter po_active (t_policies st)"] unfolding ps_def
      by (metis distinct_map mset_eq_imp_distinct_iff set_sort mset_map)
    then show ?thesis
      using Load(1,2) assms(3) LoadPolicies_ok [OF assms(2)]
      by (auto simp: se policy_LoadAll_def stmt_def ps_def [symmetric] LoadPolicies_def
          split: dbres.splits if_splits prod.splits bool.splits option.splits)
  qed
qed

text \<open>The engine stays in priority order: from an empty engine, whatever sequence of policy creations,
  updates, deletions and reloads runs, each type's loaded policies are in descending priority and no
  policy is loaded twice. (The sort of the standard library is assumed to sort.)\<close>

theorem engine_stays_ordered:
  assumes "policy_steps L (st, NewEngine) (st', e')" and "sorts_by_priority L"
  shows "sorted_wrt (\<lambda>p q. pp_priority p \<ge> pp_priority q) (e' ty) \<and> distinct (map pp_id (e' ty))"
proof -
  have "engine_ok (snd se')" if "policy_steps L se se'" "engine_ok (snd se)" for se se'
    using that by (induction rule: policy_steps.induct) (auto intro: policy_step_ok [OF _ assms(2)])
  from this [OF assms(1)] show ?thesis using engine_ok_New by (simp add: engine_ok_def)
qed

definition two_roles_db :: db where
  "two_roles_db = role_db\<lparr>t_user_roles := [(UUID 2, UUID 7), (UUID 2, UUID 9)],
     t_role_permissions := [(UUID 7, UUID 8), (UUID 9, UUID 8)]\<rparr>"

theorem deleted_role_grants_nothing_witness:
  "\<exists>r. r \<noteq> UUID 7 \<and> (UUID 2, r) \<in> set (t_user_roles two_roles_db)"
proof -
  let ?x = "DeleteRole demo_env (UUID 7) two_roles_db"
  have "ran ?x"
    by (simp add: DeleteRole_def GetRole_def two_roles_db_def role_db_def repo_defs ran_def role_row_def)
  then have r: "?x = (Inr (), snd ?x)" using ran_Inr by fastforce
  have "permitted (snd ?x) (UUID 2) ''users:read''"
    by (simp add: permitted_def DeleteRole_def GetRole_def two_roles_db_def role_db_def repo_defs role_row_def
        delete_where_def)
  from deleted_role_grants_nothing [OF r this] show ?thesis by blast
qed

definition demo_rego :: rego_lib where
  "demo_rego = \<lparr>rg_compile = (\<lambda>s q. Some (\<lambda>i. QNone)), rg_sort = sort_key (\<lambda>p. - pp_priority p), rg_fmt = (\<lambda>a. [])\<rparr>"

lemma demo_rego_sorts: "sorts_by_priority demo_rego"
proof -
  have "sorted_wrt (\<lambda>p q. pp_priority p \<ge> pp_priority q) (sort_key (\<lambda>p. - pp_priority p) ps)"
    for ps :: "prepared_policy list"
    using sorted_sort_key [of "\<lambda>p. - pp_priority p" ps] by (simp add: sorted_map)
  then show ?thesis by (simp add: sorts_by_priority_def demo_rego_def)
qed

theorem engine_stays_ordered_witness:
  "sorted_wrt (\<lambda>p q. pp_priority p \<ge> pp_priority q)
     (snd (snd (CreatePolicy demo_rego demo_env
        \<lparr>pci_name = ''n'', pci_description = None, pci_type = ''login'', pci_rego = ''r'', pci_priority = Some 3,
         pci_active = None\<rparr> (demo_db, NewEngine))) ''login'')"
proof -
  let ?in = "\<lparr>pci_name = ''n'', pci_description = None, pci_type = ''login'', pci_rego = ''r'', pci_priority = Some (3::int),
         pci_active = None\<rparr>"
  obtain r st' e' where c: "CreatePolicy demo_rego demo_env ?in (demo_db, NewEngine) = (r, st', e')"
    by (metis prod.exhaust)
  have "policy_steps demo_rego (demo_db, NewEngine) (st', e')"
    by (rule policy_steps.Then [OF policy_steps.Here policy_step.Create [OF c]])
  from engine_stays_ordered [OF this demo_rego_sorts] c show ?thesis by simp
qed

section \<open>Passwords\<close>

text \<open>The password check is the documented policy: whatever is stored as the policy, the one in force has
  lengths between 1 and 512 in the right order and a score between 0 and 4, and a password is
  accepted exactly when it has the length, the required character classes and the strength this
  policy asks for.\<close>

theorem password_check_is_policy:
  "policy_ok (pw_Get L E st) \<and>
   (pw_Validate L E st pw hints = None) = meets_policy L (pw_Get L E st) pw hints"
  using pw_Get_ok pw_Validate_iff by blast

section \<open>The registration form\<close>

text \<open>A submitted form touches the profile only: a form that is accepted gave a value for every required
  active field, and the user it yields has the identifiers, e-mail, password, activity and lockout
  state it had before, so no form field can verify an e-mail or activate an account.\<close>

theorem form_touches_profile_only:
  assumes "reg_Apply L u extras schema ctx = Inr u'"
  shows "us_id u' = us_id u \<and> us_email u' = us_email u \<and> us_email_verified u' = us_email_verified u \<and>
    us_password_hash u' = us_password_hash u \<and> us_active u' = us_active u \<and>
    us_locked_until u' = us_locked_until u \<and>
    list_all (\<lambda>f. field_active ctx f \<longrightarrow> rf_required f \<longrightarrow> submitted extras f \<noteq> None) schema"
proof -
  obtain um where "apply_fields L extras ctx schema (u, us_metadata u) = Inr um"
    using assms by (auto simp: reg_Apply_def split: sum.splits)
  then have "list_all (\<lambda>f. field_active ctx f \<longrightarrow> rf_required f \<longrightarrow> submitted extras f \<noteq> None) schema"
    using apply_fields_required by (auto simp: list_all_iff)
  then show ?thesis using profile_only_fields [OF reg_Apply_profile [OF assms]] by blast
qed

theorem form_touches_profile_only_witness:
  "\<exists>u'. reg_Apply \<lparr>rl_options = (\<lambda>s. Some []), rl_parse_float = (\<lambda>s. None), rl_marshal_ok = (\<lambda>m. True)\<rparr>
      demo_user [] [] ''register'' = Inr u' \<and> us_email u' = us_email demo_user"
proof -
  let ?L = "\<lparr>rl_options = (\<lambda>s. Some []), rl_parse_float = (\<lambda>s. None), rl_marshal_ok = (\<lambda>m. True)\<rparr>"
  have "reg_Apply ?L demo_user [] [] ''register'' = Inr (demo_user\<lparr>us_metadata := us_metadata demo_user\<rparr>)"
    by (simp add: reg_Apply_def)
  from this form_touches_profile_only [OF this] show ?thesis by blast
qed

section \<open>Profiles and scopes\<close>

text \<open>The profile survives its JSON form, and the user-info claims reveal only what the granted scopes
  name: writing a profile as metadata and reading it back yields the same profile, and every claim of
  a response other than \<^verbatim>\<open>sub\<close> belongs to one of the scopes.\<close>

theorem profile_roundtrip_and_claims:
  "decode_profile (encode_profile p) = p \<and>
   map_of (OIDCClaims str u scopes) ''sub'' = Some (AStr (str (us_id u))) \<and>
   fst ` set (OIDCClaims str u scopes) \<subseteq> insert ''sub'' (\<Union>s \<in> set scopes. set (claims_of_scope s))"
  by (intro conjI profile_roundtrip OIDCClaims_sub OIDCClaims_keys)

text \<open>A scope parameter survives the service: the scopes parsed from any string contain no empty or
  blank-carrying token, and joining and parsing them again, as a token response and the next refresh
  do, gives the same list.\<close>

theorem scope_string_roundtrip:
  "list_all (\<lambda>s. s \<noteq> [] \<and> CHR '' '' \<notin> set s) (parseSpaceDelimited s) \<and>
   parseSpaceDelimited (joinScopes (parseSpaceDelimited s)) = parseSpaceDelimited s"
  using parse_tokens [of s] parse_join_tokens [OF parse_tokens] by (simp add: scope_token_def [abs_def])

section \<open>The TOTP replay guard\<close>

text \<open>The replay guard records the server's time step, not the step of the code: since a code is
  accepted in the step before and after its own, a code accepted in its own step is accepted a
  second time in the next one.\<close>

theorem totp_code_accepted_twice:
  assumes "mfa_inv st" and "totp_window E gen" "totp_window E' gen"
    and "verified_method st u = Some m" and "mf_last_used_totp_step m < totp_step (wall E)"
    and "code = gen (mf_secret m) (totp_step (wall E))"
    and "totp_step (wall E') = totp_step (wall E) + 1"
    and "\<And>c. \<not> db_err E c" "\<And>c. \<not> db_err E' c"
  shows "\<exists>st1 st2. mfa_ValidateCode E u code st = (Inr True, st1) \<and>
    mfa_ValidateCode E' u code st1 = (Inr True, st2)"
  by (rule totp_replayed_next_step [OF assms])

definition demo_totp :: "string \<Rightarrow> int \<Rightarrow> string" where
  "demo_totp secret k = secret @ itoa k"

definition totp_env :: "time \<Rightarrow> env" where
  "totp_env t = demo_env\<lparr>wall := t, totp_validate := (\<lambda>t code secret.
     code \<in> {demo_totp secret (totp_step t - 1), demo_totp secret (totp_step t), demo_totp secret (totp_step t + 1)})\<rparr>"

definition totp_db :: db where
  "totp_db = demo_db\<lparr>t_mfa_methods := [\<lparr>mf_id = UUID 6, mf_user_id = UUID 2, mf_type = ''totp'', mf_secret = ''k'',
     mf_verified = True, mf_backup_codes = [], mf_last_used_totp_step = 0\<rparr>]\<rparr>"

theorem totp_code_accepted_twice_witness:
  "\<exists>st1 st2. mfa_ValidateCode (totp_env 1000000000000) (UUID 2) (demo_totp ''k'' 33) totp_db = (Inr True, st1) \<and>
     mfa_ValidateCode (totp_env 1030000000000) (UUID 2) (demo_totp ''k'' 33) st1 = (Inr True, st2)"
proof -
  have steps: "totp_step 1000000000000 = 33" "totp_step 1030000000000 = 34" by code_simp+
  show ?thesis
    by (rule totp_code_accepted_twice [where gen = demo_totp and m = "hd (t_mfa_methods totp_db)"])
      (simp_all add: mfa_inv_def keys_unique_def totp_window_def totp_env_def totp_db_def verified_method_def steps)
qed

end
