(* ===== verification/ResourceProperties.thy ===== *)
theory ResourceProperties
  imports AuthorizeProperties
begin

text \<open>
  The token endpoint over the resource service it is wired to in \<^verbatim>\<open>main.go\<close>: what scopes of an API
  resource a user's token may carry, and where the check is missing.
\<close>

section \<open>The scopes of issued tokens\<close>

lemma resource_service_validator: "scope_validator (resource_service F s)"
  by (rule resources.scope_validator_axioms)

lemma wired_validator_ok: "resource_validator E = Some (resource_service F s) \<Longrightarrow> validator_ok E"
  by (simp add: validator_ok_def resource_service_validator)

lemma user_scopes_held:
  assumes "resource_validator E = Some (resource_service F s)"
    and "\<not> db_err F ''resource.ValidateUserScopes''"
    and "n \<in> set (user_scopes E (Some r) None u scopes)" and "n \<in> pm_name ` set (res_permissions r)"
  shows "\<exists>p \<in> set (t_resource_permissions s). pm_name p = n \<and> pm_resource_id p = res_id r \<and>
     (\<exists>role. (u, role) \<in> set (t_user_roles s) \<and> (role, pm_id p) \<in> set (t_role_resource_permissions s))"
proof -
  obtain res oth where sp: "splitResourceScopes scopes (res_permissions r) = (res, oth)" by fastforce
  note sets = splitResourceScopes_sets [OF sp]
  obtain allowed where a: "ValidateUserScopes F u (res_id r) res s = Inr allowed"
    using assms(2) by (auto simp: ValidateUserScopes_def ValidateUserScopes_row_def stmt_def)
  have us: "user_scopes E (Some r) None u scopes = (if res = [] then scopes else unionScopes oth allowed)"
    using a by (simp add: user_scopes_def assms(1) sp resource_service_def)
  have "n \<in> set allowed"
    using assms(3,4) sets unfolding us by (auto split: if_splits)
  then show ?thesis using ValidateUserScopes_exact [OF a] by blast
qed

lemma issueTokens_user_scopes:
  assumes "issueTokensWithOpts E c u session scopes opts st = (Inr resp, st')"
  shows "\<exists>tok scopes1. t_access_tokens st' = t_access_tokens st @ [tok] \<and>
    at_scopes tok = user_scopes E (resolve_resource E (io_audience opts)) (io_resource_id opts) u scopes1"
proof -
  let ?r = "resolve_resource E (io_audience opts)"
  from assms obtain c1 scopes1 extra raw h jti st1 where
    m: "mint_access E ?r
       \<lparr>jc_user_id = Some u, jc_client_id = cl_id c1,
        jc_scopes = user_scopes E ?r (io_resource_id opts) u scopes1,
        jc_audience = deref (io_audience opts), jc_ttl = access_ttl c1 ?r,
        jc_extra_claims = extra\<rparr> st = (Inr (raw, h, jti), st1)"
    and s: "store_tokens E c1 u session (user_scopes E ?r (io_resource_id opts) u scopes1) opts ?r extra
      (raw, h, jti) st1 = (Inr resp, st')"
    by (auto simp: issueTokensWithOpts_def Let_def split: sum.splits prod.splits)
  have st1: "st1 = bump st" "h = HashToken (sha256 E) raw" using mint_access_Inr [OF m] by auto
  from store_tokens_Inr [OF s st1(2)] show ?thesis
    by (auto simp: st1(1) bump_def issued_rows_def)
qed

text \<open>A token for an API resource carries only what its user may do there: when a code with an audience
  is exchanged, and the permission lookup of the resource service does not fail, each scope of the
  stored access token that names a permission of that resource is one a role of the user grants.\<close>

theorem resource_token_scopes_held:
  assumes "ExchangeAuthorizationCode E c code uri v st = (Inr resp, st')"
    and "resource_validator E = Some (resource_service F s)" and "\<not> db_err F ''resource.ValidateUserScopes''"
    and "code_row st (HashToken (sha256 E) code) = Some ac" and "ac_audience ac = Some a"
    and "ValidateAudience F a s = Inr r"
  shows "\<exists>tok. t_access_tokens st' = t_access_tokens st @ [tok] \<and>
    (\<forall>n \<in> set (at_scopes tok). n \<in> pm_name ` set (res_permissions r) \<longrightarrow>
      (\<exists>p \<in> set (t_resource_permissions s). pm_name p = n \<and> pm_resource_id p = res_id r \<and>
        (\<exists>role. (ac_user_id ac, role) \<in> set (t_user_roles s) \<and>
           (role, pm_id p) \<in> set (t_role_resource_permissions s))))"
proof (rule exchange_code_Inr [OF assms(1)])
  fix ac'
  assume row: "code_row st (HashToken (sha256 E) code) = Some ac'"
    and i: "issueTokensWithOpts E c (ac_user_id ac') (ac_session_id ac') (ac_scopes ac') (code_opts ac')
       (use_code st (HashToken (sha256 E) code)) = (Inr resp, st')"
  have ac: "ac' = ac" using row assms(4) by simp
  have opts: "io_audience (code_opts ac) = Some a" "io_resource_id (code_opts ac) = None"
    using assms(5) by (simp_all add: code_opts_def no_opts_def)
  have res: "resolve_resource E (Some a) = Some r"
    using assms(2,6) by (simp add: resolve_resource_def resource_service_def)
  from issueTokens_user_scopes [OF i] show ?thesis
    using user_scopes_held [OF assms(2,3)] by (auto simp: ac opts res use_code_def)
qed

definition demo_api :: api_resource where
  "demo_api = \<lparr>res_id = UUID 20, res_name = ''Orders'', res_identifier = ''api'', res_description = None,
     res_signing_alg = ''RS256'', res_token_format = ''opaque'', res_access_token_ttl = 0, res_active = True,
     res_permissions = []\<rparr>"

definition api_db :: db where
  "api_db = demo_db\<lparr>t_resources := [demo_api],
     t_resource_permissions := [\<lparr>pm_id = UUID 21, pm_resource_id = UUID 20, pm_name = ''orders'', pm_description = None\<rparr>],
     t_user_roles := [(UUID 2, UUID 7)], t_role_resource_permissions := [(UUID 7, UUID 21)]\<rparr>"

definition api_env :: env where
  "api_env = demo_env\<lparr>resource_validator := Some (resource_service demo_env api_db)\<rparr>"

definition api_code_db :: db where
  "api_code_db = demo_db\<lparr>t_auth_codes := [demo_code\<lparr>ac_audience := Some ''api''\<rparr>]\<rparr>"

lemmas run_resources = api_db_def demo_api_def resource_service_def ValidateAudience_def FindActiveByIdentifier_def
  preload_def splitResourceScopes_def ValidateUserScopes_def ValidateUserScopes_row_def scoped_permissions_def
  user_holds_def unionScopes_def EmitsJWTAccessTokens_def access_ttl_def

lemma demo_api_runs: "ran (ExchangeAuthorizationCode api_env demo_client ''.c1'' ''cb'' ''v1'' api_code_db)"
  by (simp add: api_env_def api_code_db_def run_resources run_store run_tokens demo_rows Let_def)

theorem resource_token_scopes_held_witness:
  "\<exists>tok. t_access_tokens (snd (ExchangeAuthorizationCode api_env demo_client ''.c1'' ''cb'' ''v1'' api_code_db)) =
     t_access_tokens api_code_db @ [tok]"
proof -
  have v: "resource_validator api_env = Some (resource_service demo_env api_db)" by (simp add: api_env_def)
  have e: "\<not> db_err demo_env ''resource.ValidateUserScopes''" by simp
  have row: "code_row api_code_db (HashToken (sha256 api_env) ''.c1'') = Some (demo_code\<lparr>ac_audience := Some ''api''\<rparr>)"
    by (simp add: code_row_def api_code_db_def demo_code_def api_env_def)
  have aud: "ac_audience (demo_code\<lparr>ac_audience := Some ''api''\<rparr>) = Some ''api''" by simp
  have r: "ValidateAudience demo_env ''api'' api_db = Inr (preload api_db demo_api)"
    by (simp add: ValidateAudience_def FindActiveByIdentifier_def stmt_def api_db_def) (simp add: demo_api_def)
  show ?thesis
    using resource_token_scopes_held [OF ran_Inr [OF demo_api_runs] v e row aud r] by blast
qed

section \<open>Where the check is missing\<close>

lemma hybrid_access_row:
  assumes "hybrid_access E req u s resp st = (Inr resp', st')" and "responseTypeIncludes (ar_response_type req) ''token''"
  shows "\<exists>tok. t_access_tokens st' = t_access_tokens st @ [tok] \<and> at_scopes tok = ar_scopes req \<and>
    at_user_id tok = Some u \<and> at_audience tok = ar_audience req \<and>
    at_id tok = HashToken (sha256 E) (az_access_token resp')"
  using assms
  by (auto simp: hybrid_access_def CreateAccessToken_DbOk bump_def
      split: if_splits sum.splits prod.splits option.splits dbres.splits dest!: GenerateOpaqueToken_SomeD)

text \<open>The authorization endpoint's own access token is not checked: in a hybrid flow with a token, the
  access token returned to the browser carries every scope of the request for the request's
  audience; neither the user's permissions on that resource nor the token policies are consulted.\<close>

theorem hybrid_token_scopes_unchecked:
  assumes "completeAuthorize E req ip ua st = (Inr resp, st')"
    and "ar_response_type req = ''code token'' \<or> ar_response_type req = ''code id_token token''"
  shows "\<exists>tok u. t_access_tokens st' = t_access_tokens st @ [tok] \<and> ar_user_id req = Some u \<and>
    at_user_id tok = Some u \<and> at_scopes tok = ar_scopes req \<and> at_audience tok = ar_audience req"
proof -
  have rt: "isHybridResponseType (ar_response_type req)" "responseTypeIncludes (ar_response_type req) ''token''"
    using assms(2) by (elim disjE; simp; code_simp)+
  from assms(1) obtain u s cookie st1 raw h st3 st4 ss st5
    where u: "ar_user_id req = Some u"
      and s: "session_Create_op E u ip ua (ar_remember_me req) st = (Inr (s, cookie), st1)"
      and g: "GenerateOpaqueToken E (db_ignore st1 (DeleteAuthRequest E (ar_id req) st1)) = (Some (raw, h), st3)"
      and c: "CreateAuthCode E (code_of E req u (se_id s) h) st3 = DbOk st4"
      and ss: "computeSessionState E (uuid_string E (ar_client_id req)) (ar_redirect_uri req)
             (uuid_string E (se_id s)) st4 = (ss, st5)"
      and hy: "hybrid_tokens E req u (se_id s) (code_response E req s cookie raw ss) st5 = (Inr resp, st')"
    by (auto simp: completeAuthorize_def split: option.splits prod.splits sum.splits dbres.splits)
  let ?st2 = "db_ignore st1 (DeleteAuthRequest E (ar_id req) st1)"
  have "t_access_tokens ?st2 = t_access_tokens st"
    using session_Create_op_InrD(9) [OF s] by (simp add: DeleteAuthRequest_def stmt_def)
  moreover have "t_access_tokens st5 = t_access_tokens ?st2"
    using GenerateOpaqueToken_SomeD [OF g] c ss
    by (auto simp: CreateAuthCode_def stmt_opt_def add_code_def insert_row_def computeSessionState_def
        GenerateRandomString_def bump_def Let_def split: if_splits)
  moreover obtain r0 r1 st6 where "hybrid_access E req u (se_id s) r0 st5 = (Inr r1, st6)"
    "hybrid_id_token E req u r1 st6 = (Inr resp, st')"
    using hy rt(1) by (auto simp: hybrid_tokens_def split: prod.splits sum.splits)
  moreover from this(2) have "t_access_tokens st' = t_access_tokens st6"
    by (auto simp: hybrid_id_token_def generateHybridIDToken_def bump_def Let_def
        split: if_splits sum.splits prod.splits option.splits)
  ultimately show ?thesis using hybrid_access_row [OF _ rt(2)] u by metis
qed

definition hybrid_request :: auth_request where
  "hybrid_request = demo_request\<lparr>ar_user_id := Some (UUID 2), ar_authenticated := True,
     ar_response_type := ''code token''\<rparr>"

lemmas run_hybrid = completeAuthorize_def run_sessions code_of_def code_response_def computeSessionState_def
  hybrid_tokens_def hybrid_access_def hybrid_id_token_def generateHybridIDToken_def findClient_def Let_def

lemma demo_hybrid_type [simp]: "isHybridResponseType ''code token''"
  "responseTypeIncludes ''code token'' ''token''" "\<not> responseTypeIncludes ''code token'' ''id_token''"
  by code_simp+

lemma demo_hybrid_runs: "ran (completeAuthorize demo_env hybrid_request [] [] demo_db)"
  by (simp add: hybrid_request_def demo_request_def run_store run_tokens run_hybrid demo_rows)

theorem hybrid_token_scopes_unchecked_witness:
  "\<exists>tok. t_access_tokens (snd (completeAuthorize demo_env hybrid_request [] [] demo_db)) = t_access_tokens demo_db @ [tok]
     \<and> at_scopes tok = ar_scopes hybrid_request"
proof -
  have "ar_response_type hybrid_request = ''code token'' \<or> ar_response_type hybrid_request = ''code id_token token''"
    by (simp add: hybrid_request_def)
  from hybrid_token_scopes_unchecked [OF ran_Inr [OF demo_hybrid_runs] this] show ?thesis by blast
qed

end
