(* ===== verification/MailProperties.thy ===== *)
theory MailProperties
  imports Mail Demo
begin

text \<open>
  The outbox and the template store over time: how often a message is delivered, and that edits of
  a template take effect.
\<close>

section \<open>The outbox as a machine\<close>

text \<open>Rounds of the worker and messages queued by the services, in any order. A round is steady
  when the statements that record its outcome succeed; mail already accepted by the SMTP server
  cannot be rolled back with them.\<close>

definition steady :: "env \<Rightarrow> bool" where
  "steady E \<longleftrightarrow> gorm_rollback E \<and> \<not> db_err E ''outbox.Save'' \<and> \<not> db_err E ''Commit''"

inductive outbox_run :: "db \<Rightarrow> db \<Rightarrow> outbound_email list \<Rightarrow> bool" where
  Done: "outbox_run st st []"
| Round: "steady E \<Longrightarrow> tick E cancelled deliver st = (st1, out1) \<Longrightarrow> outbox_run st1 st2 out \<Longrightarrow>
    outbox_run st st2 (out1 @ out)"
| Queue: "send_mail E m st = (r, st1) \<Longrightarrow> outbox_run st1 st2 out \<Longrightarrow> outbox_run st st2 out"

definition email_ok :: "outbound_email \<Rightarrow> bool" where
  "email_ok e \<longleftrightarrow> List.member [''pending'', ''sent'', ''failed''] (oe_status e) \<and>
     (oe_status e = ''sent'' \<longleftrightarrow> oe_sent_at e \<noteq> None) \<and>
     (oe_status e = ''pending'' \<longrightarrow> oe_attempts e < oe_max_attempts e) \<and> oe_attempts e \<le> oe_max_attempts e"

definition outbox_inv :: "db \<Rightarrow> bool" where
  "outbox_inv st \<longleftrightarrow> keys_unique oe_id (t_outbox st) \<and> (\<forall>e \<in> set (t_outbox st). email_ok e)"

definition settled :: "db \<Rightarrow> uuid set" where
  "settled st = oe_id ` {e \<in> set (t_outbox st). oe_status e \<noteq> ''pending''}"

definition outbox_grows :: "db \<Rightarrow> db \<Rightarrow> bool" where
  "outbox_grows st st' \<longleftrightarrow> settled st \<subseteq> settled st'"

lemma due_rows_sub: "set (due_rows E n st) \<subseteq> {e \<in> set (t_outbox st). oe_status e = ''pending''}"
  using set_take_subset by (fastforce simp: due_rows_def)

lemma due_rows_distinct: "distinct (t_outbox st) \<Longrightarrow> distinct (due_rows E n st)"
  by (simp add: due_rows_def)

lemma after_delivery_ok: "email_ok e \<Longrightarrow> oe_status e = ''pending'' \<Longrightarrow> email_ok (after_delivery b now e r)"
  by (auto simp: email_ok_def after_delivery_def Let_def split: option.splits)

lemma keys_unique_map:
  assumes "\<And>r. key (f r) = key r" and "keys_unique key rs"
  shows "keys_unique key (map f rs)"
  using assms by (simp add: keys_unique_def comp_def)

lemma batch_effect:
  assumes inv: "outbox_inv st"
    and t: "t_outbox st' = map (\<lambda>r. if r \<in> set (due_rows E n st)
       then after_delivery b (wall E) r (deliver r) else r) (t_outbox st)"
  shows "outbox_inv st' \<and> outbox_grows st st' \<and>
    oe_id ` {e \<in> set (due_rows E n st). deliver e = None} \<subseteq> settled st'"
proof -
  let ?f = "\<lambda>r. if r \<in> set (due_rows E n st) then after_delivery b (wall E) r (deliver r) else r"
  have ku: "keys_unique oe_id (t_outbox st')"
    unfolding t by (rule keys_unique_map) (use inv in \<open>auto simp: outbox_inv_def\<close>)
  have rows: "email_ok (?f e)" if "e \<in> set (t_outbox st)" for e
    using that inv due_rows_sub [of E n st] by (auto simp: outbox_inv_def intro: after_delivery_ok)
  have grow: "?f e = e" if "oe_status e \<noteq> ''pending''" for e
    using that due_rows_sub [of E n st] by auto
  have "outbox_inv st'"
    using ku rows unfolding outbox_inv_def t set_map by blast
  moreover have "outbox_grows st st'"
  proof -
    have "e \<in> set (t_outbox st')" if "e \<in> set (t_outbox st)" "oe_status e \<noteq> ''pending''" for e
      using imageI [OF that(1), of ?f] unfolding grow [OF that(2)] t set_map .
    then show ?thesis unfolding outbox_grows_def settled_def by blast
  qed
  moreover have "oe_id e \<in> settled st'" if "e \<in> set (due_rows E n st)" "deliver e = None" for e
  proof -
    have "e \<in> set (t_outbox st)" using that(1) due_rows_sub [of E n st] by auto
    then have "?f e \<in> set (t_outbox st')" unfolding t by auto
    moreover have "oe_status (?f e) \<noteq> ''pending''" "oe_id (?f e) = oe_id e"
      using that by (simp_all add: after_delivery_def Let_def)
    moreover have "oe_id e = oe_id (?f e)" by simp
    ultimately show ?thesis unfolding settled_def by blast
  qed
  ultimately show ?thesis by blast
qed

lemma process_rows_steady:
  assumes "\<not> db_err E ''outbox.Save''"
  shows "\<exists>n st' out. process_rows E b deliver es st = (Inr n, st', out)"
proof (induction es arbitrary: st)
  case (Cons e es)
  show ?case
    using Cons.IH [of "st\<lparr>t_outbox := save_row oe_id (after_delivery b (wall E) e (deliver e)) (t_outbox st)\<rparr>"] assms
    by (auto simp: Let_def stmt_def)
qed simp

lemma outbox_same: "t_outbox st' = t_outbox st \<Longrightarrow> outbox_inv st' = outbox_inv st \<and> settled st' = settled st"
  by (simp add: outbox_inv_def settled_def)

lemma tick_effect:
  assumes "steady E" and "outbox_inv st" and "tick E c deliver st = (st', out)"
  shows "outbox_inv st' \<and> outbox_grows st st' \<and> distinct (map oe_id out) \<and> oe_id ` set out \<subseteq> settled st' \<and>
    oe_id ` set out \<inter> settled st = {}"
proof (cases "c \<or> db_err E ''outbox.Select''")
  case True
  then have "out = []" "t_outbox st' = t_outbox st"
    using assms(1,3) by (auto simp: tick_def ProcessBatch_def steady_def gorm_rollback_def split: if_splits)
  then show ?thesis using assms(2) outbox_same [of st' st] by (simp add: outbox_grows_def)
next
  case False
  let ?due = "due_rows E 10 st"
  obtain n st1 out1 where p: "process_rows E ExpBackoff deliver ?due st = (Inr n, st1, out1)"
    using process_rows_steady assms(1) unfolding steady_def by blast
  have st': "st' = st1" "out = out1"
    using assms(1,3) False p by (auto simp: tick_def ProcessBatch_def Transaction_def steady_def)
  have ku: "keys_unique oe_id (t_outbox st)" using assms(2) by (simp add: outbox_inv_def)
  then have dist: "distinct (t_outbox st)" by (auto simp: keys_unique_def distinct_map)
  note e = process_rows_Inr [OF p ku due_rows_distinct [OF dist]]
  have sub: "set ?due \<subseteq> set (t_outbox st)" using due_rows_sub [of E 10 st] by auto
  from e [OF sub] have t: "t_outbox st' = map (\<lambda>r. if r \<in> set ?due
      then after_delivery ExpBackoff (wall E) r (deliver r) else r) (t_outbox st)"
    and o: "out = filter (\<lambda>e. deliver e = None) ?due" using st' by auto
  have inj: "inj_on oe_id (set (t_outbox st))" using ku by (simp add: keys_unique_def distinct_map)
  have dd: "distinct (map oe_id out)"
    using due_rows_distinct [OF dist, of E 10] sub inj
    by (auto simp: o distinct_map intro: inj_on_subset)
  have "oe_id ` set out \<inter> settled st = {}"
    using inj due_rows_sub [of E 10 st] unfolding o settled_def inj_on_def by auto
  then show ?thesis using batch_effect [OF assms(2) t] dd by (auto simp: o)
qed

lemma enqueue_effect:
  assumes "outbox_inv st" and "send_mail E m st = (r, st')"
  shows "outbox_inv st' \<and> outbox_grows st st'"
proof (cases "t_outbox st' = t_outbox st")
  case True
  then show ?thesis using assms(1) outbox_same [of st' st] by (simp add: outbox_grows_def)
next
  case False
  then obtain e where "insert_row oe_id e (t_outbox st) = Some (t_outbox st')" "oe_status e = ''pending''"
      "oe_attempts e = 0" "oe_max_attempts e = 5" "oe_sent_at e = None"
    using assms(2)
    by (auto simp: send_mail_def enqueueRendered_def enqueueOutboundEmail_def stmt_opt_def new_uuid_def bump_def
        blank_email_def Let_def split: if_splits option.splits prod.splits dbres.splits)
  then show ?thesis
    using assms(1) keys_unique_insert [of oe_id e "t_outbox st" "t_outbox st'"]
    by (auto simp: outbox_inv_def email_ok_def outbox_grows_def settled_def insert_row_Some_iff)
qed

lemma outbox_run_effect:
  "outbox_run st st' out \<Longrightarrow> outbox_inv st \<Longrightarrow>
     outbox_inv st' \<and> distinct (map oe_id out) \<and> oe_id ` set out \<inter> settled st = {}"
proof (induction rule: outbox_run.induct)
  case (Round E cancelled deliver st st1 out1 st2 out)
  have one: "outbox_inv st1" "outbox_grows st st1" "distinct (map oe_id out1)" "oe_id ` set out1 \<subseteq> settled st1"
    "oe_id ` set out1 \<inter> settled st = {}"
    using tick_effect [OF Round(1) Round.prems Round(2)] by auto
  have "oe_id ` set out1 \<inter> oe_id ` set out = {}"
    using Round.IH [OF one(1)] one(4) by blast
  with Round.IH [OF one(1)] one show ?case
    by (auto simp: outbox_grows_def)
next
  case (Queue E m st r st1 st2 out)
  from enqueue_effect [OF Queue.prems Queue(1)] Queue.IH show ?case by (auto simp: outbox_grows_def)
qed simp

text \<open>C29 A queued message reaches its recipient at most once: over any rounds of the worker and any
  messages queued in between, no message is accepted by the mail server twice, none that was already
  sent or given up is delivered, and no row is ever tried more often than its limit allows, as long
  as the statements that record the outcome of a delivery succeed.\<close>

theorem mail_delivered_once:
  assumes "outbox_inv st" and "outbox_run st st' out"
  shows "distinct (map oe_id out) \<and> oe_id ` set out \<inter> settled st = {} \<and>
    list_all (\<lambda>e. oe_attempts e \<le> oe_max_attempts e) (t_outbox st')"
  using outbox_run_effect [OF assms(2,1)] by (auto simp: outbox_inv_def email_ok_def list_all_iff)

definition demo_mail_run :: "db \<times> outbound_email list" where
  "demo_mail_run =
     (case send_mail demo_env (mail_of ''a@b.c'' ''verification'' ''tok'') demo_db of
        (_, st1) \<Rightarrow> tick demo_env False (\<lambda>e. None) st1)"

theorem mail_delivered_once_witness:
  "distinct (map oe_id (snd demo_mail_run)) \<and> map oe_recipient (snd demo_mail_run) = [''a@b.c'']"
proof -
  obtain r st1 where q: "send_mail demo_env (mail_of ''a@b.c'' ''verification'' ''tok'') demo_db = (r, st1)"
    by fastforce
  obtain st2 out where t: "tick demo_env False (\<lambda>e. None) st1 = (st2, out)" by fastforce
  have s: "steady demo_env" by (simp add: steady_def demo_env_rollback)
  have run: "outbox_run demo_db st2 out"
    using outbox_run.Queue [OF q outbox_run.Round [OF s t outbox_run.Done]] by simp
  have inv: "outbox_inv demo_db" by (simp add: outbox_inv_def keys_unique_def)
  have d: "demo_mail_run = (st2, out)" by (simp add: demo_mail_run_def q t)
  have "map oe_recipient (snd demo_mail_run) = [''a@b.c'']"
    by (simp add: demo_mail_run_def send_mail_def enqueueRendered_def enqueueOutboundEmail_def mail_of_def
        blank_email_def new_uuid_def bump_def stmt_opt_def insert_row_def uuid_nil_def Let_def tick_def
        ProcessBatch_def due_rows_def stmt_def Transaction_def)
  then show ?thesis using mail_delivered_once [OF inv run] by (simp add: d)
qed

section \<open>Templates\<close>

text \<open>Edits of an administrator and renders by the services, with the state they leave.\<close>

inductive template_run :: "template_state \<Rightarrow> template_state \<Rightarrow> bool" where
  Start: "template_run ts ts"
| Edit: "template_run ts ts1 \<Longrightarrow> template_Upsert E n ov who ts1 = DbOk ts2 \<Longrightarrow> template_run ts ts2"
| Reset: "template_run ts ts1 \<Longrightarrow> template_Delete E n ts1 = DbOk ts2 \<Longrightarrow> template_run ts ts2"
| Use: "template_run ts ts1 \<Longrightarrow> Render T E has_store m ts1 = (r, ts2) \<Longrightarrow> template_run ts ts2"

lemma Resolve_coherent:
  assumes "cache_coherent ts" and "Resolve T E has_store n ts = (r, ts')"
  shows "cache_coherent ts' \<and> stored_override ts' = stored_override ts"
  using assms template_Get_coherent [OF assms(1)]
  by (auto simp: Resolve_def Let_def split: if_splits prod.splits dbres.splits option.splits)

lemma Render_coherent:
  assumes "cache_coherent ts" and "Render T E has_store m ts = (r, ts')"
  shows "cache_coherent ts' \<and> stored_override ts' = stored_override ts"
  using assms Resolve_coherent [OF assms(1)]
  by (auto simp: Render_def split: prod.splits option.splits)

lemma template_run_coherent: "template_run ts ts' \<Longrightarrow> cache_coherent ts \<Longrightarrow> cache_coherent ts'"
  by (induction rule: template_run.induct)
    (auto dest: template_Upsert_coherent template_Delete_coherent Render_coherent)

text \<open>C31 An edited template takes effect with the next message: after any history of edits, resets and
  sent mail in one process, a message is rendered from the override the table holds at that moment,
  or from the embedded default when it holds none, although the store caches what it reads.\<close>

theorem template_edit_takes_effect:
  assumes "template_run \<lparr>ts_rows = [], ts_cache = Map.empty\<rparr> ts"
    and "Render T E True m ts = (Some (subject, body), ts')"
  shows "case stored_override ts (ml_kind m) of
      Some ov \<Rightarrow> subject = ov_subject ov \<and> eng_run T (ml_kind m) (ov_body ov) m = Some body
    | None \<Rightarrow> subject = DefaultSubject (ml_kind m) \<and>
        (\<exists>raw. eng_default T (ml_kind m) = Some raw \<and> eng_run T (ml_kind m) raw m = Some body)"
proof -
  have c: "cache_coherent ts"
    by (rule template_run_coherent [OF assms(1)]) (simp add: cache_coherent_def)
  obtain g ts1 where g: "template_Get E (ml_kind m) ts = (g, ts1)" by fastforce
  from template_Get_coherent [OF c g] show ?thesis
    using assms(2) g
    by (auto simp: Render_def Resolve_def Let_def split: option.splits prod.splits dbres.splits)
qed

definition demo_engine :: template_engine where
  "demo_engine = \<lparr>eng_default = (\<lambda>n. Some ''default''), eng_run = (\<lambda>n raw m. Some (raw @ ml_token m))\<rparr>"

theorem template_edit_takes_effect_witness:
  "\<exists>ts ts'. Render demo_engine demo_env True (mail_of ''a@b.c'' ''verification'' ''1'') ts = (Some (''Hi'', ''code 1''), ts') \<and>
     stored_override ts ''verification'' = Some \<lparr>ov_subject = ''Hi'', ov_body = ''code ''\<rparr>"
proof -
  let ?ts0 = "\<lparr>ts_rows = [], ts_cache = Map.empty\<rparr> :: template_state"
  let ?ov = "\<lparr>ov_subject = ''Hi'', ov_body = ''code ''\<rparr> :: override"
  let ?m = "mail_of ''a@b.c'' ''verification'' ''1''"
  obtain r ts1 where use1: "Render demo_engine demo_env True ?m ?ts0 = (r, ts1)" by fastforce
  obtain ts2 where edit: "template_Upsert demo_env ''verification'' ?ov uuid_nil ts1 = DbOk ts2"
    by (simp add: template_Upsert_def stmt_def)
  have run: "template_run ?ts0 ts2" using Start Use [OF _ use1] Edit [OF _ edit] by blast
  have c0: "cache_coherent ?ts0" by (simp add: cache_coherent_def)
  have ov: "stored_override ts2 ''verification'' = Some ?ov"
    using template_Upsert_coherent [OF conjunct1 [OF Render_coherent [OF c0 use1]] edit] by simp
  obtain r2 ts3 where use2: "Render demo_engine demo_env True ?m ts2 = (r2, ts3)" by fastforce
  have coh: "cache_coherent ts2"
    using template_run_coherent [OF run] by (simp add: cache_coherent_def)
  obtain g ts4 where g: "template_Get demo_env ''verification'' ts2 = (g, ts4)" by fastforce
  have "g \<noteq> DbErr" using g by (auto simp: template_Get_def stmt_def split: option.splits)
  then have "g = DbOk (Some ?ov)" using template_Get_coherent [OF coh g] ov by simp
  then have "\<exists>sb. r2 = Some sb"
    using use2 g by (auto simp: Render_def Resolve_def demo_engine_def mail_of_def)
  then obtain s b where r2: "r2 = Some (s, b)" by fastforce
  have "s = ''Hi'' \<and> b = ''code 1''"
    using template_edit_takes_effect [OF run use2 [unfolded r2]] ov
    by (simp add: mail_of_def demo_engine_def)
  then show ?thesis using use2 r2 ov by blast
qed

end
