(* ===== verification/GoUrl.thy ===== *)
theory GoUrl
  imports GoLib
begin

text \<open>
  What the sources use of Go's \<^verbatim>\<open>net/url\<close>: parsing a reference into scheme, user, host, path, query
  and fragment, printing it back, and the query encoding of \<^verbatim>\<open>url.Values\<close>; and of \<^verbatim>\<open>net\<close>: parsing IP
  literals. The escaping rules are those of the standard library, mode by mode.
\<close>

section \<open>Cutting strings\<close>

text \<open>\<^verbatim>\<open>strings.Cut\<close> at the first occurrence of a character.\<close>

fun cut_at :: "char \<Rightarrow> string \<Rightarrow> string \<times> string \<times> bool" where
  "cut_at d [] = ([], [], False)"
| "cut_at d (c # cs) =
     (if c = d then ([], cs, True) else case cut_at d cs of (a, b, f) \<Rightarrow> (c # a, b, f))"

definition last_index :: "char \<Rightarrow> string \<Rightarrow> nat option" where
  "last_index d s = (case index_of d (rev s) of None \<Rightarrow> None | Some i \<Rightarrow> Some (length s - Suc i))"

lemma cut_at_absent: "d \<notin> set s \<Longrightarrow> cut_at d s = (s, [], False)"
  by (induction s) auto

lemma cut_at_append: "d \<notin> set s \<Longrightarrow> cut_at d (s @ d # t) = (s, t, True)"
  by (induction s) auto

section \<open>Escaping\<close>

datatype url_mode = EncodePath | EncodeHost | EncodeUserPassword | EncodeQuery | EncodeFragment

definition is_alnum :: "char \<Rightarrow> bool" where
  "is_alnum c \<longleftrightarrow> (let n = (of_char c :: nat) in
     (97 \<le> n \<and> n \<le> 122) \<or> (65 \<le> n \<and> n \<le> 90) \<or> (48 \<le> n \<and> n \<le> 57))"

definition should_escape :: "url_mode \<Rightarrow> char \<Rightarrow> bool" where
  "should_escape m c =
     (if is_alnum c then False
      else if m = EncodeHost \<and> List.member (''!$&()*+,;=:[]<>'' @ [char_of (39::nat), char_of (34::nat)]) c then False
      else if List.member ''-_.~'' c then False
      else if List.member ''$&+,/:;=?@'' c then
        (case m of
           EncodePath \<Rightarrow> c = CHR ''?''
         | EncodeUserPassword \<Rightarrow> List.member ''@/?:'' c
         | EncodeQuery \<Rightarrow> True
         | EncodeFragment \<Rightarrow> False
         | EncodeHost \<Rightarrow> True)
      else if m = EncodeFragment \<and> List.member ''!()*'' c then False
      else True)"

definition upper_hex :: "nat \<Rightarrow> char" where
  "upper_hex n = ''0123456789ABCDEF'' ! n"

definition percent :: "char \<Rightarrow> string" where
  "percent c = (let n = (of_char c :: nat) in [CHR ''%'', upper_hex (n div 16), upper_hex (n mod 16)])"

definition escape_char :: "url_mode \<Rightarrow> char \<Rightarrow> string" where
  "escape_char m c =
     (if \<not> should_escape m c then [c]
      else if c = CHR '' '' \<and> m = EncodeQuery then ''+''
      else percent c)"

definition url_escape :: "url_mode \<Rightarrow> string \<Rightarrow> string" where
  "url_escape m s = concat (map (escape_char m) s)"

definition unhex :: "char \<Rightarrow> nat option" where
  "unhex c = (let n = (of_char c :: nat) in
     if 48 \<le> n \<and> n \<le> 57 then Some (n - 48)
     else if 97 \<le> n \<and> n \<le> 102 then Some (n - 87)
     else if 65 \<le> n \<and> n \<le> 70 then Some (n - 55)
     else None)"

text \<open>In a host only non-ASCII bytes and \<^verbatim>\<open>%25\<close> may be percent-encoded.\<close>

fun url_unescape :: "url_mode \<Rightarrow> string \<Rightarrow> string option" where
  "url_unescape m [] = Some []"
| "url_unescape m (c # cs) =
     (if c = CHR ''%'' then
        (case cs of
           a # b # rest \<Rightarrow>
             (case (unhex a, unhex b) of
                (Some h, Some l) \<Rightarrow>
                  if m = EncodeHost \<and> h < 8 \<and> \<not> (a = CHR ''2'' \<and> b = CHR ''5'') then None
                  else map_option (\<lambda>t. char_of (16 * h + l) # t) (url_unescape m rest)
              | _ \<Rightarrow> None)
         | _ \<Rightarrow> None)
      else if c = CHR ''+'' \<and> m = EncodeQuery then map_option ((#) (CHR '' '')) (url_unescape m cs)
      else if m = EncodeHost \<and> (of_char c :: nat) < 128 \<and> should_escape m c then None
      else map_option ((#) c) (url_unescape m cs))"

definition QueryEscape :: "string \<Rightarrow> string" where
  "QueryEscape s = url_escape EncodeQuery s"

lemma unhex_upper: "n < 16 \<Longrightarrow> unhex (upper_hex n) = Some n"
proof -
  have "\<forall>n \<in> set [0..<16]. unhex (upper_hex n) = Some n" by code_simp
  then show "n < 16 \<Longrightarrow> unhex (upper_hex n) = Some n" by simp
qed

lemma unescape_percent:
  assumes "m \<noteq> EncodeHost"
  shows "url_unescape m (percent c @ t) = map_option ((#) c) (url_unescape m t)"
proof -
  have n: "(of_char c :: nat) div 16 < 16" "(of_char c :: nat) mod 16 < 16"
    by (rule less_mult_imp_div_less, use of_char_less_256 [of c] in simp) simp
  have "16 * ((of_char c :: nat) div 16) + of_char c mod 16 = of_char c" by simp
  then show ?thesis using assms
    by (simp add: percent_def Let_def unhex_upper [OF n(1)] unhex_upper [OF n(2)] del: mult_div_mod_eq)
qed

lemma unescape_escape_char:
  assumes "m \<noteq> EncodeHost"
  shows "url_unescape m (escape_char m c @ t) = map_option ((#) c) (url_unescape m t)"
proof -
  have "\<not> should_escape m (CHR ''%'') \<Longrightarrow> False"
    using assms by (cases m) (simp_all add: should_escape_def is_alnum_def Let_def)
  moreover have "m = EncodeQuery \<Longrightarrow> \<not> should_escape m (CHR ''+'') \<Longrightarrow> False"
    by (simp add: should_escape_def is_alnum_def Let_def)
  ultimately show ?thesis
    using assms unescape_percent [OF assms, of c t] by (auto simp: escape_char_def)
qed

lemma unescape_escape_append:
  "m \<noteq> EncodeHost \<Longrightarrow> url_unescape m (url_escape m s @ t) = map_option ((@) s) (url_unescape m t)"
  by (cases "url_unescape m t"; induction s) (auto simp: url_escape_def unescape_escape_char)

lemma unescape_escape: "m \<noteq> EncodeHost \<Longrightarrow> url_unescape m (url_escape m s) = Some s"
  using unescape_escape_append [of m s "[]"] by simp

section \<open>Query parameters\<close>

text \<open>\<^verbatim>\<open>url.Values.Encode\<close> sorts by key; the sources set each key once, so values are single.\<close>

definition encode_pair :: "string \<times> string \<Rightarrow> string" where
  "encode_pair kv = QueryEscape (fst kv) @ ''='' @ QueryEscape (snd kv)"

fun byte_le :: "string \<Rightarrow> string \<Rightarrow> bool" where
  "byte_le [] t = True"
| "byte_le (a # s) [] = False"
| "byte_le (a # s) (b # t) = (if a = b then byte_le s t else (of_char a :: nat) < of_char b)"

fun insert_by_key :: "string \<times> string \<Rightarrow> (string \<times> string) list \<Rightarrow> (string \<times> string) list" where
  "insert_by_key kv [] = [kv]"
| "insert_by_key kv (x # xs) = (if byte_le (fst kv) (fst x) then kv # x # xs else x # insert_by_key kv xs)"

definition by_key :: "(string \<times> string) list \<Rightarrow> (string \<times> string) list" where
  "by_key kvs = foldr insert_by_key kvs []"

lemma set_insert_by_key: "set (insert_by_key kv xs) = insert kv (set xs)"
  by (induction xs) auto

lemma set_by_key: "set (by_key kvs) = set kvs"
  by (induction kvs) (auto simp: by_key_def set_insert_by_key)

definition Values_Encode :: "(string \<times> string) list \<Rightarrow> string" where
  "Values_Encode kvs = join_with ''&'' (map encode_pair (by_key kvs))"

text \<open>The receiver's side: \<^verbatim>\<open>application/x-www-form-urlencoded\<close> decoding.\<close>

definition decode_pair :: "string \<Rightarrow> (string \<times> string) option" where
  "decode_pair s =
     (case cut_at (CHR ''='') s of (k, v, _) \<Rightarrow>
        (case (url_unescape EncodeQuery k, url_unescape EncodeQuery v) of
           (Some k', Some v') \<Rightarrow> Some (k', v')
         | _ \<Rightarrow> None))"

definition decode_query :: "string \<Rightarrow> (string \<times> string) option list" where
  "decode_query s = map decode_pair (filter (\<lambda>p. p \<noteq> []) (split_on (CHR ''&'') s))"

section \<open>References\<close>

record url =
  u_scheme :: string
  u_opaque :: string
  u_user :: "(string \<times> string option) option"
  u_host :: string
  u_path :: string
  u_omit_host :: bool
  u_force_query :: bool
  u_raw_query :: string
  u_fragment :: string
  u_raw_fragment :: string

fun get_scheme_from :: "nat \<Rightarrow> string \<Rightarrow> string \<Rightarrow> string \<Rightarrow> (string \<times> string) option" where
  "get_scheme_from i acc whole [] = Some ([], whole)"
| "get_scheme_from i acc whole (c # cs) =
     (let n = (of_char c :: nat) in
      if (97 \<le> n \<and> n \<le> 122) \<or> (65 \<le> n \<and> n \<le> 90) then get_scheme_from (Suc i) (c # acc) whole cs
      else if (48 \<le> n \<and> n \<le> 57) \<or> List.member ''+-.'' c then
        (if i = 0 then Some ([], whole) else get_scheme_from (Suc i) (c # acc) whole cs)
      else if c = CHR '':'' then (if i = 0 then None else Some (rev acc, cs))
      else Some ([], whole))"

definition get_scheme :: "string \<Rightarrow> (string \<times> string) option" where
  "get_scheme s = get_scheme_from 0 [] s s"

definition valid_optional_port :: "string \<Rightarrow> bool" where
  "valid_optional_port p \<longleftrightarrow> p = [] \<or> (hd p = CHR '':'' \<and> list_all (\<lambda>c. digit_value c \<noteq> None) (tl p))"

text \<open>A bracketed host may carry a zone; the sources never use one, and it makes the host invalid
  here as its percent sign is refused below.\<close>

definition parse_host :: "string \<Rightarrow> string option" where
  "parse_host h =
     (if h \<noteq> [] \<and> hd h = CHR ''['' then
        (case last_index (CHR '']'') h of
           None \<Rightarrow> None
         | Some i \<Rightarrow> if valid_optional_port (drop (Suc i) h) then url_unescape EncodeHost h else None)
      else case last_index (CHR '':'') h of
             None \<Rightarrow> url_unescape EncodeHost h
           | Some i \<Rightarrow> if valid_optional_port (drop i h) then url_unescape EncodeHost h else None)"

definition valid_userinfo :: "string \<Rightarrow> bool" where
  "valid_userinfo s \<longleftrightarrow> list_all (\<lambda>c. is_alnum c \<or>
     List.member (''-._:~!$&()*+,;=%@'' @ [char_of (39::nat)]) c) s"

definition parse_authority :: "string \<Rightarrow> ((string \<times> string option) option \<times> string) option" where
  "parse_authority a =
     (case last_index (CHR ''@'') a of
        None \<Rightarrow> map_option (Pair None) (parse_host a)
      | Some i \<Rightarrow>
          (case parse_host (drop (Suc i) a) of
             None \<Rightarrow> None
           | Some h \<Rightarrow>
               if \<not> valid_userinfo (take i a) then None
               else (case cut_at (CHR '':'') (take i a) of
                       (name, pass, has_pass) \<Rightarrow>
                         (case (url_unescape EncodeUserPassword name, url_unescape EncodeUserPassword pass) of
                            (Some n, Some p) \<Rightarrow> Some (Some (n, if has_pass then Some p else None), h)
                          | _ \<Rightarrow> None))))"

definition has_ctl :: "string \<Rightarrow> bool" where
  "has_ctl s \<longleftrightarrow> list_ex (\<lambda>c. let n = (of_char c :: nat) in n < 32 \<or> n = 127) s"

definition empty_url :: url where
  "empty_url = \<lparr>u_scheme = [], u_opaque = [], u_user = None, u_host = [], u_path = [], u_omit_host = False,
     u_force_query = False, u_raw_query = [], u_fragment = [], u_raw_fragment = []\<rparr>"

text \<open>The part after scheme and query. \<open>u_path\<close> keeps the path as it was written; both the decoded
  path and its printed form are functions of it.\<close>

definition parse_hier :: "url \<Rightarrow> string \<Rightarrow> url option" where
  "parse_hier u rest =
     (if \<not> has_prefix ''/'' rest \<and> u_scheme u \<noteq> [] then Some (u\<lparr>u_opaque := rest\<rparr>)
      else if \<not> has_prefix ''/'' rest \<and> List.member (fst (cut_at (CHR ''/'') rest)) (CHR '':'') then None
      else
        (let with_path = (\<lambda>u1 p. if url_unescape EncodePath p = None then None else Some (u1\<lparr>u_path := p\<rparr>))
         in if (u_scheme u \<noteq> [] \<or> \<not> has_prefix ''///'' rest) \<and> has_prefix ''//'' rest then
              (case cut_at (CHR ''/'') (drop 2 rest) of
                 (a, p, slash) \<Rightarrow>
                   (case parse_authority a of
                      None \<Rightarrow> None
                    | Some (user, h) \<Rightarrow>
                        with_path (u\<lparr>u_user := user, u_host := h\<rparr>) (if slash then CHR ''/'' # p else [])))
            else with_path (if u_scheme u \<noteq> [] \<and> has_prefix ''/'' rest then u\<lparr>u_omit_host := True\<rparr> else u) rest))"

definition url_Parse :: "string \<Rightarrow> url option" where
  "url_Parse raw =
     (case cut_at (CHR ''#'') raw of
        (s, frag, _) \<Rightarrow>
          if has_ctl s then None
          else
            (case (if s = ''*'' then Some (empty_url\<lparr>u_path := ''*''\<rparr>)
                   else case get_scheme s of
                     None \<Rightarrow> None
                   | Some (scheme, rest) \<Rightarrow>
                       (let u = empty_url\<lparr>u_scheme := to_lower scheme\<rparr>
                        in if rest \<noteq> [] \<and> last rest = CHR ''?'' \<and> char_count (CHR ''?'') rest = 1
                           then parse_hier (u\<lparr>u_force_query := True\<rparr>) (butlast rest)
                           else case cut_at (CHR ''?'') rest of
                                  (r, q, _) \<Rightarrow> parse_hier (u\<lparr>u_raw_query := q\<rparr>) r)) of
               None \<Rightarrow> None
             | Some u \<Rightarrow>
                 if frag = [] then Some u
                 else map_option (\<lambda>f. u\<lparr>u_fragment := f,
                        u_raw_fragment := (if frag = url_escape EncodeFragment f then [] else frag)\<rparr>)
                      (url_unescape EncodeFragment frag)))"

text \<open>\<^verbatim>\<open>URL.Hostname\<close>: without brackets and port.\<close>

definition url_Hostname :: "url \<Rightarrow> string" where
  "url_Hostname u =
     (let h = u_host u;
          h1 = (case last_index (CHR '':'') h of
                  None \<Rightarrow> h
                | Some i \<Rightarrow> if valid_optional_port (drop i h) then take i h else h)
      in if has_prefix ''['' h1 \<and> h1 \<noteq> [] \<and> last h1 = CHR '']'' then butlast (tl h1) else h1)"

definition valid_encoded :: "url_mode \<Rightarrow> string \<Rightarrow> bool" where
  "valid_encoded m s \<longleftrightarrow> list_all (\<lambda>c.
     List.member (''!$&()*+,;=:@[]%'' @ [char_of (39::nat)]) c \<or> \<not> should_escape m c) s"

definition EscapedPath :: "url \<Rightarrow> string" where
  "EscapedPath u =
     (if valid_encoded EncodePath (u_path u) \<or> u_path u = ''*'' then u_path u
      else case url_unescape EncodePath (u_path u) of None \<Rightarrow> [] | Some p \<Rightarrow> url_escape EncodePath p)"

text \<open>The raw fragment is used only while it still encodes the fragment.\<close>

definition EscapedFragment :: "url \<Rightarrow> string" where
  "EscapedFragment u =
     (if u_raw_fragment u \<noteq> [] \<and> valid_encoded EncodeFragment (u_raw_fragment u)
         \<and> url_unescape EncodeFragment (u_raw_fragment u) = Some (u_fragment u)
      then u_raw_fragment u else url_escape EncodeFragment (u_fragment u))"

definition userinfo_String :: "string \<times> string option \<Rightarrow> string" where
  "userinfo_String ui = url_escape EncodeUserPassword (fst ui) @
     (case snd ui of None \<Rightarrow> [] | Some p \<Rightarrow> '':'' @ url_escape EncodeUserPassword p)"

definition url_authority :: "url \<Rightarrow> string" where
  "url_authority u =
     (if u_scheme u \<noteq> [] \<or> u_host u \<noteq> [] \<or> u_user u \<noteq> None then
        (if u_omit_host u \<and> u_host u = [] \<and> u_user u = None then []
         else (if u_host u \<noteq> [] \<or> u_path u \<noteq> [] \<or> u_user u \<noteq> None then ''//'' else []) @
              (case u_user u of None \<Rightarrow> [] | Some ui \<Rightarrow> userinfo_String ui @ ''@'') @
              url_escape EncodeHost (u_host u))
      else [])"

definition url_before_query :: "url \<Rightarrow> string" where
  "url_before_query u =
     (if u_scheme u \<noteq> [] then u_scheme u @ '':'' else []) @
     (if u_opaque u \<noteq> [] then u_opaque u
      else let p = EscapedPath u;
               a = url_authority u;
               sep = (if p \<noteq> [] \<and> hd p \<noteq> CHR ''/'' \<and> u_host u \<noteq> [] then ''/'' else []);
               dot = (if u_scheme u = [] \<and> a = [] \<and> sep = [] \<and> List.member (fst (cut_at (CHR ''/'') p)) (CHR '':'')
                      then ''./'' else [])
           in a @ sep @ dot @ p)"

definition url_String :: "url \<Rightarrow> string" where
  "url_String u = url_before_query u @
     (if u_force_query u \<or> u_raw_query u \<noteq> [] then ''?'' @ u_raw_query u else []) @
     (if u_fragment u \<noteq> [] then ''#'' @ EscapedFragment u else [])"

section \<open>IP literals\<close>

text \<open>\<^verbatim>\<open>net.ParseIP\<close>: an address is its 4 or 16 bytes. Dotted quads have four decimal octets without
  leading zeros.\<close>

definition octet :: "string \<Rightarrow> nat option" where
  "octet s =
     (case digits_value 0 s of
        None \<Rightarrow> None
      | Some v \<Rightarrow>
          if s = [] \<or> length s > 3 \<or> v > 255 \<or> (length s > 1 \<and> hd s = CHR ''0'') then None
          else Some (nat v))"

definition parse_ipv4 :: "string \<Rightarrow> nat list option" where
  "parse_ipv4 s =
     (let os = map octet (split_on (CHR ''.'') s)
      in if length os = 4 \<and> list_all (\<lambda>x. x \<noteq> None) os then Some (map the os) else None)"

fun take_hex :: "string \<Rightarrow> nat \<Rightarrow> nat \<Rightarrow> nat \<times> nat \<times> string" where
  "take_hex [] n acc = (n, acc, [])"
| "take_hex (c # cs) n acc =
     (case unhex c of None \<Rightarrow> (n, acc, c # cs) | Some d \<Rightarrow> take_hex cs (Suc n) (16 * acc + d))"

text \<open>Groups are read until sixteen bytes are there; \<open>fuel\<close> bounds the groups by eight.\<close>

fun v6_groups :: "nat \<Rightarrow> string \<Rightarrow> nat list \<Rightarrow> nat option \<Rightarrow> (nat list \<times> nat option) option" where
  "v6_groups 0 s bytes ell = (if s = [] then Some (bytes, ell) else None)"
| "v6_groups (Suc fuel) s bytes ell =
     (case take_hex s 0 0 of
        (n, acc, rest) \<Rightarrow>
          if n = 0 \<or> n > 4 then None
          else if has_prefix ''.'' rest then
            (if (ell = None \<and> length bytes \<noteq> 12) \<or> length bytes + 4 > 16 then None
             else map_option (\<lambda>v4. (bytes @ v4, ell)) (parse_ipv4 s))
          else
            (let bytes1 = bytes @ [acc div 256, acc mod 256]
             in case rest of
                  [] \<Rightarrow> Some (bytes1, ell)
                | c # cs \<Rightarrow>
                    if c \<noteq> CHR '':'' \<or> cs = [] then None
                    else if hd cs = CHR '':'' then
                      (if ell \<noteq> None then None
                       else if tl cs = [] then Some (bytes1, Some (length bytes1))
                       else v6_groups fuel (tl cs) bytes1 (Some (length bytes1)))
                    else v6_groups fuel cs bytes1 ell))"

definition expand_ellipsis :: "nat list \<times> nat option \<Rightarrow> nat list option" where
  "expand_ellipsis r =
     (case r of
        (bytes, None) \<Rightarrow> if length bytes = 16 then Some bytes else None
      | (bytes, Some e) \<Rightarrow>
          if length bytes < 16 then Some (take e bytes @ replicate (16 - length bytes) 0 @ drop e bytes)
          else None)"

definition parse_ipv6 :: "string \<Rightarrow> nat list option" where
  "parse_ipv6 s =
     (if has_prefix ''::'' s
      then (if drop 2 s = [] then Some (replicate 16 0)
            else Option.bind (v6_groups 8 (drop 2 s) [] (Some 0)) expand_ellipsis)
      else Option.bind (v6_groups 8 s [] None) expand_ellipsis)"

text \<open>The first dot or colon decides the syntax; a zone is refused.\<close>

definition ParseIP :: "string \<Rightarrow> nat list option" where
  "ParseIP s =
     (if List.member s (CHR ''%'') then None
      else case filter (\<lambda>c. c = CHR ''.'' \<or> c = CHR '':'') s of
             [] \<Rightarrow> None
           | c # _ \<Rightarrow> if c = CHR ''.'' then parse_ipv4 s else parse_ipv6 s)"

end
