(* ===== verification/NetSafety.thy ===== *)
theory NetSafety
  imports GoUrl Errors
begin

text \<open>
  Which URLs the server fetches or redirects to (\<^verbatim>\<open>pkg/netsafety/url.go\<close>, \<^verbatim>\<open>pkg/originallow.go\<close>): the
  public-address test of \<^verbatim>\<open>isPublicIP\<close> against the reserved ranges it stands for, the two URL
  validators, and the origin allowlist. DNS is a parameter.
\<close>

section \<open>Addresses\<close>

text \<open>The predicates of \<^verbatim>\<open>net.IP\<close>; an address is 4 or 16 bytes, and \<^verbatim>\<open>To4\<close> also recognises an IPv4
  address mapped into IPv6.\<close>

definition ip_To4 :: "nat list \<Rightarrow> nat list option" where
  "ip_To4 ip =
     (if length ip = 4 then Some ip
      else if length ip = 16 \<and> take 12 ip = replicate 10 0 @ [255, 255] then Some (drop 12 ip)
      else None)"

definition ip_IsLoopback :: "nat list \<Rightarrow> bool" where
  "ip_IsLoopback ip = (case ip_To4 ip of Some v \<Rightarrow> v ! 0 = 127 | None \<Rightarrow> ip = replicate 15 0 @ [1])"

definition ip_IsMulticast :: "nat list \<Rightarrow> bool" where
  "ip_IsMulticast ip =
     (case ip_To4 ip of Some v \<Rightarrow> v ! 0 div 16 = 14 | None \<Rightarrow> length ip = 16 \<and> ip ! 0 = 255)"

definition ip_IsUnspecified :: "nat list \<Rightarrow> bool" where
  "ip_IsUnspecified ip =
     (case ip_To4 ip of Some v \<Rightarrow> v = [0, 0, 0, 0] | None \<Rightarrow> ip = replicate 16 0)"

definition ip_IsLinkLocalUnicast :: "nat list \<Rightarrow> bool" where
  "ip_IsLinkLocalUnicast ip =
     (case ip_To4 ip of
        Some v \<Rightarrow> v ! 0 = 169 \<and> v ! 1 = 254
      | None \<Rightarrow> length ip = 16 \<and> ip ! 0 = 254 \<and> ip ! 1 div 64 = 2)"

definition ip_IsLinkLocalMulticast :: "nat list \<Rightarrow> bool" where
  "ip_IsLinkLocalMulticast ip =
     (case ip_To4 ip of
        Some v \<Rightarrow> v ! 0 = 224 \<and> v ! 1 = 0 \<and> v ! 2 = 0
      | None \<Rightarrow> length ip = 16 \<and> ip ! 0 = 255 \<and> ip ! 1 mod 16 = 2)"

definition ip_IsPrivate :: "nat list \<Rightarrow> bool" where
  "ip_IsPrivate ip =
     (case ip_To4 ip of
        Some v \<Rightarrow> v ! 0 = 10 \<or> (v ! 0 = 172 \<and> v ! 1 div 16 = 1) \<or> (v ! 0 = 192 \<and> v ! 1 = 168)
      | None \<Rightarrow> length ip = 16 \<and> ip ! 0 div 2 = 126)"

definition isPublicIP :: "nat list \<Rightarrow> bool" where
  "isPublicIP ip =
     (if ip_IsLoopback ip \<or> ip_IsMulticast ip \<or> ip_IsUnspecified ip then False
      else if ip_IsLinkLocalUnicast ip \<or> ip_IsLinkLocalMulticast ip then False
      else if ip_IsPrivate ip then False
      else case ip_To4 ip of
             None \<Rightarrow> True
           | Some v \<Rightarrow>
               if v ! 0 = 100 \<and> v ! 1 div 64 = 1 then False
               else if v ! 0 = 0 then False
               else if v = [255, 255, 255, 255] then False
               else True)"

section \<open>The ranges as documented\<close>

text \<open>An address as one number, and a range as a prefix of so many bits.\<close>

definition ip_number :: "nat list \<Rightarrow> nat" where
  "ip_number ip = foldl (\<lambda>acc b. 256 * acc + b) 0 ip"

definition in_range :: "nat \<Rightarrow> nat list \<Rightarrow> nat list \<times> nat \<Rightarrow> bool" where
  "in_range width ip r = (ip_number ip div 2 ^ (width - snd r) = ip_number (fst r) div 2 ^ (width - snd r))"

definition reserved_v4 :: "(nat list \<times> nat) list" where
  "reserved_v4 =
     [([0,0,0,0], 8), ([10,0,0,0], 8), ([100,64,0,0], 10), ([127,0,0,0], 8), ([169,254,0,0], 16),
      ([172,16,0,0], 12), ([192,168,0,0], 16), ([224,0,0,0], 4), ([255,255,255,255], 32)]"

definition reserved_v6 :: "(nat list \<times> nat) list" where
  "reserved_v6 =
     [(replicate 16 0, 128), (replicate 15 0 @ [1], 128), (252 # replicate 15 0, 7),
      ([254, 128] @ replicate 14 0, 10), (255 # replicate 15 0, 8)]"

definition valid_ip :: "nat list \<Rightarrow> bool" where
  "valid_ip ip \<longleftrightarrow> (length ip = 4 \<or> length ip = 16) \<and> list_all (\<lambda>b. b < 256) ip"

lemma length_4E:
  assumes "length v = 4"
  obtains a b c d where "v = [a, b, c, d]"
  using assms by (auto simp: numeral_eq_Suc length_Suc_conv)

lemma ip4_number: "ip_number [a, b, c, d] = a * 16777216 + b * 65536 + c * 256 + d"
  by (simp add: ip_number_def)

lemma digit_eq: "x < m \<Longrightarrow> l < m \<Longrightarrow> (a * m + x = k * m + l) = (a = k \<and> x = (l::nat))"
  by (metis div_mult_self3 div_less add.commute add_right_cancel less_nat_zero_code add_0)

lemma reserved_v4_iff:
  assumes "list_all (\<lambda>b. b < 256) [a, b, c, d]"
  shows "list_ex (in_range 32 [a, b, c, d]) reserved_v4 \<longleftrightarrow>
    a = 0 \<or> a = 10 \<or> (a = 100 \<and> b div 64 = 1) \<or> a = 127 \<or> (a = 169 \<and> b = 254) \<or>
    (a = 172 \<and> b div 16 = 1) \<or> (a = 192 \<and> b = 168) \<or> a div 16 = 14 \<or> [a, b, c, d] = [255, 255, 255, 255]"
proof -
  let ?n = "a * 16777216 + b * 65536 + c * 256 + d"
  have lt: "b < 256" "c < 256" "d < 256" using assms by auto
  have e8: "?n div 16777216 = a" by (rule div_nat_eqI) (use lt in simp_all)
  have e16: "?n div 65536 = a * 256 + b" by (rule div_nat_eqI) (use lt in simp_all)
  have e12: "?n div 1048576 = a * 16 + b div 16"
    using div_mult2_eq [of ?n 65536 16] e16 by simp
  have e10: "?n div 4194304 = a * 4 + b div 64"
    using div_mult2_eq [of ?n 65536 64] e16 by simp
  have e4: "?n div 268435456 = a div 16"
    using div_mult2_eq [of ?n 16777216 16] e8 by simp
  have b: "b div 16 < 16" "b div 64 < 4" using lt by simp_all
  have p32: "?n = 4294967295 \<longleftrightarrow> a = 255 \<and> b = 255 \<and> c = 255 \<and> d = 255"
  proof
    assume n: "?n = 4294967295"
    have a: "a = 255" using e8 unfolding n by simp
    moreover have ab: "b = 255" using e16 unfolding n unfolding a by simp
    moreover have "256 * c + d = 65535" using n unfolding a ab by simp
    then have "c = 255 \<and> d = 255" using digit_eq [of d 256 255 c 255] lt(3) by (simp add: mult.commute)
    ultimately show "a = 255 \<and> b = 255 \<and> c = 255 \<and> d = 255" by simp
  qed simp
  show ?thesis
    using digit_eq [of "b div 64" 4 1 a 100] digit_eq [of b 256 254 a 169] digit_eq [of "b div 16" 16 1 a 172]
      digit_eq [of b 256 168 a 192] p32 b lt(1)
    by (simp add: reserved_v4_def in_range_def ip4_number e4 e8 e10 e12 e16)
qed

definition ip_ranges :: "nat list \<Rightarrow> nat \<times> (nat list \<times> nat) list" where
  "ip_ranges ip = (case ip_To4 ip of Some v \<Rightarrow> (32, reserved_v4) | None \<Rightarrow> (128, reserved_v6))"

definition ip_canonical :: "nat list \<Rightarrow> nat list" where
  "ip_canonical ip = (case ip_To4 ip of Some v \<Rightarrow> v | None \<Rightarrow> ip)"

definition in_reserved :: "nat list \<Rightarrow> bool" where
  "in_reserved ip = list_ex (in_range (fst (ip_ranges ip)) (ip_canonical ip)) (snd (ip_ranges ip))"

lemma ip_number_append: "ip_number (xs @ ys) = ip_number xs * 256 ^ length ys + ip_number ys"
proof (induction ys rule: rev_induct)
  case (snoc y ys)
  have s: "ip_number (zs @ [y]) = 256 * ip_number zs + y" for zs by (simp add: ip_number_def)
  show ?case using snoc s [of "xs @ ys"] s [of ys] by (simp add: algebra_simps)
qed (simp add: ip_number_def)

lemma ip_number_bound: "list_all (\<lambda>b. b < 256) xs \<Longrightarrow> ip_number xs < 256 ^ length xs"
proof (induction xs rule: rev_induct)
  case (snoc x xs)
  then have "ip_number xs + 1 \<le> 256 ^ length xs" "x < 256" by auto
  then have "(ip_number xs + 1) * 256 \<le> 256 ^ length xs * 256" by (intro mult_le_mono1)
  then show ?case using \<open>x < 256\<close> by (simp add: ip_number_def algebra_simps)
qed (simp add: ip_number_def)

lemma ip_number_prefix:
  assumes "list_all (\<lambda>b. b < 256) (xs @ ys)"
  shows "ip_number (xs @ ys) div 256 ^ length ys = ip_number xs"
proof -
  have "ip_number ys < 256 ^ length ys" using ip_number_bound assms by simp
  then show ?thesis by (simp add: ip_number_append)
qed

lemma ip_number_inject:
  "length xs = length ys \<Longrightarrow> list_all (\<lambda>b. b < 256) xs \<Longrightarrow> list_all (\<lambda>b. b < 256) ys \<Longrightarrow>
    ip_number xs = ip_number ys \<longleftrightarrow> xs = ys"
proof (induction xs arbitrary: ys rule: rev_induct)
  case (snoc x xs)
  obtain zs z where ys: "ys = zs @ [z]" using snoc.prems(1) by (cases ys rule: rev_cases) auto
  have s: "ip_number (us @ [y]) = ip_number us * 256 + y" for us y by (simp add: ip_number_def)
  have "x < 256" "z < 256" using snoc.prems ys by auto
  then show ?case using snoc.IH [of zs] snoc.prems digit_eq [of x 256 z "ip_number xs" "ip_number zs"]
    by (auto simp: ys s)
qed simp

lemma v6_prefixes:
  assumes "length r = 14" and "list_all (\<lambda>b. b < 256) (a # b # r)"
  shows "ip_number (a # b # r) div 2 ^ 120 = a" "ip_number (a # b # r) div 2 ^ 121 = a div 2"
    "ip_number (a # b # r) div 2 ^ 118 = a * 4 + b div 64"
proof -
  have n1: "ip_number (a # b # r) div 256 ^ 15 = a"
    using ip_number_prefix [of "[a]" "b # r"] assms by (simp add: ip_number_def)
  have n2: "ip_number (a # b # r) div 256 ^ 14 = a * 256 + b"
    using ip_number_prefix [of "[a, b]" r] assms by (simp add: ip_number_def)
  have w: "(256::nat) ^ 15 = 2 ^ 120" "(256::nat) ^ 14 = 2 ^ 112" by simp_all
  show r8: "ip_number (a # b # r) div 2 ^ 120 = a" using n1 unfolding w .
  show "ip_number (a # b # r) div 2 ^ 121 = a div 2"
    using div_mult2_eq [of "ip_number (a # b # r)" "2 ^ 120" 2] r8 by simp
  show "ip_number (a # b # r) div 2 ^ 118 = a * 4 + b div 64"
    using div_mult2_eq [of "ip_number (a # b # r)" "2 ^ 112" 64] n2 unfolding w by simp
qed

lemma reserved_v6_iff:
  assumes "length ip = 16" and "list_all (\<lambda>b. b < 256) ip"
  shows "list_ex (in_range 128 ip) reserved_v6 \<longleftrightarrow>
    ip = replicate 16 0 \<or> ip = replicate 15 0 @ [1] \<or> ip ! 0 div 2 = 126 \<or> (ip ! 0 = 254 \<and> ip ! 1 div 64 = 2)
    \<or> ip ! 0 = 255"
proof -
  obtain a b r where ip: "ip = a # b # r" and r: "length r = 14"
    using assms(1) by (auto simp: numeral_eq_Suc length_Suc_conv)
  have lt: "a < 256" "b < 256" using assms(2) by (auto simp: ip)
  have z: "252 # replicate 15 0 = 252 # 0 # replicate 14 0" "255 # replicate 15 0 = 255 # 0 # replicate 14 0"
    for zz :: "nat list" by (simp_all add: numeral_eq_Suc)
  note p = v6_prefixes [OF r assms(2) [unfolded ip], folded ip]
  have ok: "list_all (\<lambda>b. b < 256) (x # y # replicate 14 (0::nat))" if "x < 256" "y < 256" for x y
    using that by (simp add: list_all_iff)
  note k = v6_prefixes [of "replicate 14 0", OF _ ok]
  have e: "in_range 128 ip (x, 128) \<longleftrightarrow> ip = x" if "length x = 16" "list_all (\<lambda>b. b < 256) x" for x
    using ip_number_inject [of ip x] assms that by (simp add: in_range_def)
  have a7: "in_range 128 ip (252 # replicate 15 0, 7) \<longleftrightarrow> a div 2 = 126"
    unfolding in_range_def fst_conv snd_conv z using p(2) k(2) [of 252 0] by simp
  have a8: "in_range 128 ip (255 # replicate 15 0, 8) \<longleftrightarrow> a = 255"
    unfolding in_range_def fst_conv snd_conv z using p(1) k(1) [of 255 0] by simp
  have a10: "in_range 128 ip ([254, 128] @ replicate 14 0, 10) \<longleftrightarrow> a = 254 \<and> b div 64 = 2"
    unfolding in_range_def fst_conv snd_conv append.simps
    using p(3) k(3) [of 254 128] digit_eq [of "b div 64" 4 2 a 254] lt by simp
  have e1: "in_range 128 ip (replicate 16 0, 128) \<longleftrightarrow> ip = replicate 16 0"
    "in_range 128 ip (replicate 15 0 @ [1], 128) \<longleftrightarrow> ip = replicate 15 0 @ [1]"
    by (rule e; simp add: list_all_iff)+
  have f: "ip ! 0 = a" "ip ! 1 = b" by (simp_all add: ip)
  have "list_ex (in_range 128 ip) reserved_v6 \<longleftrightarrow> in_range 128 ip (replicate 16 0, 128) \<or>
      in_range 128 ip (replicate 15 0 @ [1], 128) \<or> in_range 128 ip (252 # replicate 15 0, 7) \<or>
      in_range 128 ip ([254, 128] @ replicate 14 0, 10) \<or> in_range 128 ip (255 # replicate 15 0, 8)"
    by (auto simp only: reserved_v6_def list_ex_iff list.set)
  then show ?thesis unfolding e1 a7 a8 a10 f .
qed

text \<open>The byte tests of the source say exactly what its comment lists.\<close>

lemma isPublicIP_iff:
  assumes "valid_ip ip"
  shows "isPublicIP ip \<longleftrightarrow> \<not> in_reserved ip"
proof (cases "ip_To4 ip")
  case (Some v)
  then have l: "length v = 4" and b: "list_all (\<lambda>b. b < 256) v"
    using assms by (auto simp: ip_To4_def valid_ip_def list_all_iff dest: in_set_dropD split: if_splits)
  obtain a b c d where v: "v = [a, b, c, d]" using l by (rule length_4E)
  show ?thesis
    using reserved_v4_iff [OF b [unfolded v]] Some
    by (auto simp: in_reserved_def ip_ranges_def ip_canonical_def isPublicIP_def ip_IsLoopback_def
        ip_IsMulticast_def ip_IsUnspecified_def ip_IsLinkLocalUnicast_def ip_IsLinkLocalMulticast_def
        ip_IsPrivate_def v)
next
  case None
  then have l: "length ip = 16" and b: "list_all (\<lambda>b. b < 256) ip"
    using assms by (auto simp: ip_To4_def valid_ip_def)
  show ?thesis
    using reserved_v6_iff [OF l b] None l
    by (auto simp: in_reserved_def ip_ranges_def ip_canonical_def isPublicIP_def ip_IsLoopback_def
        ip_IsMulticast_def ip_IsUnspecified_def ip_IsLinkLocalUnicast_def ip_IsLinkLocalMulticast_def
        ip_IsPrivate_def)
qed

section \<open>Validators\<close>

fun first_where_not :: "('a \<Rightarrow> bool) \<Rightarrow> 'a list \<Rightarrow> 'a option" where
  "first_where_not P [] = None"
| "first_where_not P (x # xs) = (if P x then first_where_not P xs else Some x)"

lemma first_where_not_None: "first_where_not P xs = None \<longleftrightarrow> list_all P xs"
  by (induction xs) auto

text \<open>The texts of library errors and the resolver come from outside; lookups return addresses.\<close>

record net_lib =
  nl_parse_error :: "string \<Rightarrow> string"
  nl_lookup :: "string \<Rightarrow> string + nat list list"
  nl_ip_string :: "nat list \<Rightarrow> string"

text \<open>\<^verbatim>\<open>strings.EqualFold\<close> against ASCII text: besides case it identifies the long s and the Kelvin
  sign with their letters.\<close>

fun fold_text :: "string \<Rightarrow> string" where
  "fold_text [] = []"
| "fold_text (c # cs) =
     (case (of_char c :: nat, map (of_char :: char \<Rightarrow> nat) (take 2 cs)) of
        (n, ns) \<Rightarrow>
          if n = 197 \<and> ns \<noteq> [] \<and> hd ns = 191 then CHR ''s'' # fold_text (tl cs)
          else if n = 226 \<and> ns = [132, 170] then CHR ''k'' # fold_text (drop 2 cs)
          else lower_char c # fold_text cs)"

definition EqualFold :: "string \<Rightarrow> string \<Rightarrow> bool" where
  "EqualFold a b \<longleftrightarrow> fold_text a = fold_text b"

definition malformed :: "string \<Rightarrow> string" where
  "malformed d = ''URL is malformed: '' @ d"

definition invalid_scheme :: "string \<Rightarrow> string" where
  "invalid_scheme d = ''URL scheme is not allowed: '' @ d"

definition private_address :: "string \<Rightarrow> string" where
  "private_address d = ''URL resolves to a non-public address: '' @ d"

text \<open>The result is the error's text; \<open>None\<close> is success.\<close>

definition ValidatePublicHTTPSURL :: "net_lib \<Rightarrow> string \<Rightarrow> string option" where
  "ValidatePublicHTTPSURL N raw =
     (case url_Parse raw of
        None \<Rightarrow> Some (malformed (nl_parse_error N raw))
      | Some u \<Rightarrow>
          if \<not> EqualFold (u_scheme u) ''https''
          then Some (invalid_scheme (''scheme must be https, got '' @ quoted (u_scheme u)))
          else let host = url_Hostname u in
          if host = [] then Some (malformed ''missing host'')
          else case ParseIP host of
            Some ip \<Rightarrow> if isPublicIP ip then None else Some (private_address (nl_ip_string N ip))
          | None \<Rightarrow>
              if EqualFold host ''localhost'' then Some (private_address ''localhost'')
              else case nl_lookup N host of
                     Inl e \<Rightarrow> Some (''dns lookup for '' @ quoted host @ '' failed: '' @ e)
                   | Inr [] \<Rightarrow> Some (''dns lookup for '' @ quoted host @ '' returned no addresses'')
                   | Inr ips \<Rightarrow>
                       (case first_where_not isPublicIP ips of
                          None \<Rightarrow> None
                        | Some ip \<Rightarrow> Some (private_address (host @ '' resolves to '' @ nl_ip_string N ip))))"

definition ValidateRedirectURIScheme :: "net_lib \<Rightarrow> string \<Rightarrow> string option" where
  "ValidateRedirectURIScheme N raw =
     (case url_Parse raw of
        None \<Rightarrow> Some (malformed (nl_parse_error N raw))
      | Some u \<Rightarrow>
          let scheme = to_lower (u_scheme u) in
          if scheme = [] then Some (malformed ''missing scheme'')
          else if scheme = ''https''
          then (if u_host u = [] then Some (malformed ''https URL missing host'') else None)
          else if scheme = ''http''
          then (let host = url_Hostname u
                in if host = ''127.0.0.1'' \<or> host = ''::1'' \<or> EqualFold host ''localhost'' then None
                   else Some (invalid_scheme
                     (''http allowed only on loopback (127.0.0.1/localhost), got host '' @ quoted host)))
          else if List.member [''javascript'', ''data'', ''vbscript'', ''file'', ''ftp'', ''ws'', ''wss'', ''mailto'',
                    ''tel'', ''sms''] scheme
          then Some (invalid_scheme (''scheme '' @ quoted scheme @ '' is never allowed as a redirect_uri''))
          else if List.member scheme (CHR ''.'') then None
          else Some (invalid_scheme (''scheme '' @ quoted scheme @ '' is not an allowed redirect_uri scheme'')))"

fun IsOriginAllowed_loop :: "url \<Rightarrow> string list \<Rightarrow> bool" where
  "IsOriginAllowed_loop t [] = False"
| "IsOriginAllowed_loop t (raw # rest) =
     (if raw = [] then IsOriginAllowed_loop t rest
      else case url_Parse raw of
             None \<Rightarrow> IsOriginAllowed_loop t rest
           | Some base \<Rightarrow>
               if EqualFold (u_scheme t) (u_scheme base) \<and> EqualFold (u_host t) (u_host base) then True
               else IsOriginAllowed_loop t rest)"

definition IsOriginAllowed :: "string \<Rightarrow> string list \<Rightarrow> bool" where
  "IsOriginAllowed target bases =
     (if target = [] then False
      else case url_Parse target of None \<Rightarrow> False | Some t \<Rightarrow> IsOriginAllowed_loop t bases)"

lemma IsOriginAllowed_iff:
  "IsOriginAllowed target bases \<longleftrightarrow> target \<noteq> [] \<and> (\<exists>t. url_Parse target = Some t \<and>
     (\<exists>raw \<in> set bases. raw \<noteq> [] \<and> (\<exists>b. url_Parse raw = Some b \<and>
        EqualFold (u_scheme t) (u_scheme b) \<and> EqualFold (u_host t) (u_host b))))"
proof -
  have "IsOriginAllowed_loop t bases \<longleftrightarrow> (\<exists>raw \<in> set bases. raw \<noteq> [] \<and> (\<exists>b. url_Parse raw = Some b \<and>
        EqualFold (u_scheme t) (u_scheme b) \<and> EqualFold (u_host t) (u_host b)))" for t
    by (induction bases) (auto split: option.splits)
  then show ?thesis by (auto simp: IsOriginAllowed_def split: option.splits)
qed

text \<open>The addresses a fetch of a URL may connect to: the literal, or what the name resolves to.\<close>

definition url_addresses :: "net_lib \<Rightarrow> string \<Rightarrow> nat list list" where
  "url_addresses N host =
     (case ParseIP host of
        Some ip \<Rightarrow> [ip]
      | None \<Rightarrow> (case nl_lookup N host of Inl _ \<Rightarrow> [] | Inr ips \<Rightarrow> ips))"

lemma ValidatePublicHTTPSURL_ok:
  assumes "ValidatePublicHTTPSURL N raw = None"
  shows "\<exists>u. url_Parse raw = Some u \<and> EqualFold (u_scheme u) ''https'' \<and> url_addresses N (url_Hostname u) \<noteq> [] \<and>
    list_all isPublicIP (url_addresses N (url_Hostname u))"
proof -
  obtain u where u: "url_Parse raw = Some u"
    using assms by (auto simp: ValidatePublicHTTPSURL_def split: option.splits)
  have "EqualFold (u_scheme u) ''https'' \<and> url_addresses N (url_Hostname u) \<noteq> [] \<and>
    list_all isPublicIP (url_addresses N (url_Hostname u))"
    using assms u
    by (auto simp: ValidatePublicHTTPSURL_def url_addresses_def Let_def first_where_not_None
        split: option.splits if_splits sum.splits list.splits)
  with u show ?thesis by blast
qed

end
