(* ===== verification/Crypto.thy ===== *)
theory Crypto
  imports GoUrl Errors
begin

text \<open>
  Password hashes and client HMAC keys (package \<^verbatim>\<open>crypto\<close>): the printed form of an Argon2id hash and its
  parser (\<^verbatim>\<open>argon2.go\<close>), the dispatch on foreign schemes (\<^verbatim>\<open>multi.go\<close>), and the sealing of per-client
  keys (\<^verbatim>\<open>hmac_secret.go\<close>). The primitives (Argon2, bcrypt, digests, AES-GCM) are parameters.
\<close>

section \<open>The primitives\<close>

text \<open>\<open>kd_argon2id pw salt iterations memory parallelism length\<close> is \<open>None\<close> where \<^verbatim>\<open>IDKey\<close> panics (no
  iteration or no lane). A bcrypt comparison matches, mismatches, or fails on a malformed hash.\<close>

record primitives =
  kd_argon2id :: "string \<Rightarrow> string \<Rightarrow> nat \<Rightarrow> nat \<Rightarrow> nat \<Rightarrow> nat \<Rightarrow> string option"
  kd_argon2i :: "string \<Rightarrow> string \<Rightarrow> nat \<Rightarrow> nat \<Rightarrow> nat \<Rightarrow> nat \<Rightarrow> string option"
  kd_bcrypt :: "string \<Rightarrow> string \<Rightarrow> string + bool"
  dg_sha256 :: "string \<Rightarrow> string"
  dg_sha1 :: "string \<Rightarrow> string"
  dg_md5 :: "string \<Rightarrow> string"
  gcm_seal :: "string \<Rightarrow> string \<Rightarrow> string \<Rightarrow> string"
  gcm_open :: "string \<Rightarrow> string \<Rightarrow> string \<Rightarrow> string option"

record hasher =
  ah_memory :: nat
  ah_iterations :: nat
  ah_parallelism :: nat
  ah_salt_length :: nat
  ah_key_length :: nat

section \<open>Encodings\<close>

text \<open>The standard alphabet differs from the URL-safe one in two characters; Go's decoders skip line
  breaks.\<close>

definition std_of_url :: "char \<Rightarrow> char" where
  "std_of_url c = (if c = CHR ''-'' then CHR ''+'' else if c = CHR ''_'' then CHR ''/'' else c)"

definition url_of_std :: "char \<Rightarrow> char" where
  "url_of_std c = (if c = CHR ''+'' then CHR ''-'' else if c = CHR ''/'' then CHR ''_'' else c)"

definition no_breaks :: "string \<Rightarrow> string" where
  "no_breaks s = filter (\<lambda>c. (of_char c :: nat) \<noteq> 10 \<and> (of_char c :: nat) \<noteq> 13) s"

definition raw_std_encode :: "string \<Rightarrow> string" where
  "raw_std_encode s = map std_of_url (b64_encode s)"

definition raw_std_decode :: "string \<Rightarrow> string option" where
  "raw_std_decode s0 =
     (let s = no_breaks s0
      in if List.member s (CHR ''-'') \<or> List.member s (CHR ''_'') then None else b64_decode (map url_of_std s))"

definition raw_url_decode :: "string \<Rightarrow> string option" where
  "raw_url_decode s = b64_decode (no_breaks s)"

definition padded :: "(string \<Rightarrow> string option) \<Rightarrow> string \<Rightarrow> string option" where
  "padded dec s0 =
     (let s = no_breaks s0; body = takeWhile (\<lambda>c. c \<noteq> CHR ''='') s
      in if length s mod 4 = 0 \<and> s = body @ replicate ((4 - length body mod 4) mod 4) (CHR ''='')
            \<and> length body mod 4 \<noteq> 1
         then dec body else None)"

lemma b64_encode_digits: "c \<in> set (b64_encode s) \<Longrightarrow> \<exists>n < 64. c = b64_digit n"
proof (induction s rule: b64_encode.induct)
  case (2 x)
  have "(of_char x :: nat) div 4 < 64" "(of_char x :: nat) mod 4 * 16 < 64"
    using high_bits(1) [OF of_char_less_256 [of x]] by simp_all
  moreover have "c = b64_digit (of_char x div 4) \<or> c = b64_digit (of_char x mod 4 * 16)"
    using 2 by (simp add: Let_def)
  ultimately show ?case by blast
next
  case (3 x y)
  have "(of_char x :: nat) div 4 < 64" "(of_char x :: nat) mod 4 * 16 + of_char y div 16 < 64"
    "(of_char y :: nat) mod 16 * 4 < 64"
    using high_bits [OF of_char_less_256 [of x]] pack_bounds(1) [OF high_bits(2) [OF of_char_less_256 [of y]]]
    by simp_all
  moreover have "c = b64_digit (of_char x div 4) \<or> c = b64_digit (of_char x mod 4 * 16 + of_char y div 16) \<or>
      c = b64_digit (of_char y mod 16 * 4)"
    using 3 by (simp add: Let_def)
  ultimately show ?case by blast
next
  case (4 x y z cs)
  have z: "(of_char z :: nat) div 64 < 4" using of_char_less_256 [of z] by (simp add: less_mult_imp_div_less)
  have "(of_char x :: nat) div 4 < 64" "(of_char x :: nat) mod 4 * 16 + of_char y div 16 < 64"
    "(of_char y :: nat) mod 16 * 4 + of_char z div 64 < 64" "(of_char z :: nat) mod 64 < 64"
    using high_bits [OF of_char_less_256 [of x]] pack_bounds(1) [OF high_bits(2) [OF of_char_less_256 [of y]]]
      pack_bounds(2) [OF z] by simp_all
  moreover have "c = b64_digit (of_char x div 4) \<or> c = b64_digit (of_char x mod 4 * 16 + of_char y div 16) \<or>
      c = b64_digit (of_char y mod 16 * 4 + of_char z div 64) \<or> c = b64_digit (of_char z mod 64) \<or>
      c \<in> set (b64_encode cs)"
    using 4(2) by (simp add: Let_def)
  ultimately show ?case using 4(1) by blast
qed simp

lemma b64_digit_back: "n < 64 \<Longrightarrow> url_of_std (std_of_url (b64_digit n)) = b64_digit n \<and>
    std_of_url (b64_digit n) \<noteq> CHR ''-'' \<and> std_of_url (b64_digit n) \<noteq> CHR ''_'' \<and>
    (of_char (b64_digit n) :: nat) \<noteq> 10 \<and> (of_char (std_of_url (b64_digit n)) :: nat) \<noteq> 10 \<and>
    (of_char (std_of_url (b64_digit n)) :: nat) \<noteq> 13 \<and> std_of_url (b64_digit n) \<noteq> CHR ''$''"
proof -
  have "\<forall>n \<in> set [0..<64]. url_of_std (std_of_url (b64_digit n)) = b64_digit n \<and>
    std_of_url (b64_digit n) \<noteq> CHR ''-'' \<and> std_of_url (b64_digit n) \<noteq> CHR ''_'' \<and>
    (of_char (b64_digit n) :: nat) \<noteq> 10 \<and> (of_char (std_of_url (b64_digit n)) :: nat) \<noteq> 10 \<and>
    (of_char (std_of_url (b64_digit n)) :: nat) \<noteq> 13 \<and> std_of_url (b64_digit n) \<noteq> CHR ''$''"
    by code_simp
  then show "n < 64 \<Longrightarrow> ?thesis" by simp
qed

lemma raw_std_no_dollar: "CHR ''$'' \<notin> set (raw_std_encode s)"
  using b64_encode_digits b64_digit_back by (fastforce simp: raw_std_encode_def)

lemma raw_std_roundtrip: "raw_std_decode (raw_std_encode s) = Some s"
proof -
  have same: "no_breaks (raw_std_encode s) = raw_std_encode s"
    using b64_encode_digits b64_digit_back by (fastforce simp: no_breaks_def raw_std_encode_def filter_id_conv)
  have "CHR ''-'' \<notin> set (raw_std_encode s)" "CHR ''_'' \<notin> set (raw_std_encode s)"
    using b64_encode_digits b64_digit_back by (fastforce simp: raw_std_encode_def)+
  moreover have "map url_of_std (raw_std_encode s) = b64_encode s"
    unfolding raw_std_encode_def map_map
    by (rule map_idI) (use b64_encode_digits b64_digit_back in \<open>fastforce simp: comp_def\<close>)
  ultimately show ?thesis by (simp add: raw_std_decode_def same b64_roundtrip)
qed

section \<open>Argon2id\<close>

definition hash_error :: string where "hash_error = ''invalid argon2id hash format''"
definition version_error :: string where "version_error = ''incompatible argon2id version''"
definition scheme_error :: string where "scheme_error = ''unsupported password hash scheme''"

definition argon2_Hash :: "primitives \<Rightarrow> hasher \<Rightarrow> string option \<Rightarrow> string \<Rightarrow> string option" where
  "argon2_Hash K h salt pw =
     (case salt of
        None \<Rightarrow> None
      | Some sl \<Rightarrow>
          (case kd_argon2id K pw sl (ah_iterations h) (ah_memory h) (ah_parallelism h) (ah_key_length h) of
             None \<Rightarrow> None
           | Some k \<Rightarrow>
               Some (''$argon2id$v=19$m='' @ nat_digits (ah_memory h) @ '',t='' @ nat_digits (ah_iterations h)
                 @ '',p='' @ nat_digits (ah_parallelism h) @ ''$'' @ raw_std_encode sl @ ''$'' @ raw_std_encode k)))"

text \<open>\<^verbatim>\<open>fmt.Sscanf\<close> with \<^verbatim>\<open>%d\<close>: blanks, a sign for signed targets, digits, and the width of the target.\<close>

definition is_digit_char :: "char \<Rightarrow> bool" where
  "is_digit_char c \<longleftrightarrow> digit_value c \<noteq> None"

definition scan_uint :: "nat \<Rightarrow> string \<Rightarrow> (nat \<times> string) option" where
  "scan_uint width s0 =
     (let s = dropWhile (\<lambda>c. c = CHR '' '' \<or> (of_char c :: nat) = 9) s0;
          ds = takeWhile is_digit_char s
      in if ds = [] then None
         else case digits_value 0 ds of
                None \<Rightarrow> None
              | Some v \<Rightarrow> if v < 2 ^ width then Some (nat v, dropWhile is_digit_char s) else None)"

definition scan_int :: "string \<Rightarrow> (int \<times> string) option" where
  "scan_int s0 =
     (let s = dropWhile (\<lambda>c. c = CHR '' '' \<or> (of_char c :: nat) = 9) s0;
          neg = has_prefix ''-'' s;
          t = (if neg \<or> has_prefix ''+'' s then tl s else s);
          ds = takeWhile is_digit_char t
      in if ds = [] then None
         else case range_checked (map_option (\<lambda>v. if neg then - v else v) (digits_value 0 ds)) of
                None \<Rightarrow> None
              | Some v \<Rightarrow> Some (v, dropWhile is_digit_char t))"

definition after_literal :: "string \<Rightarrow> string \<Rightarrow> string option" where
  "after_literal l s = (if has_prefix l s then Some (drop (length l) s) else None)"

definition scan_version :: "string \<Rightarrow> int option" where
  "scan_version s = Option.bind (after_literal ''v='' s) (\<lambda>r. map_option fst (scan_int r))"

definition scan_params :: "string \<Rightarrow> (nat \<times> nat \<times> nat) option" where
  "scan_params s =
     Option.bind (Option.bind (after_literal ''m='' s) (scan_uint 32)) (\<lambda>(m, r1).
     Option.bind (Option.bind (after_literal '',t='' r1) (scan_uint 32)) (\<lambda>(t, r2).
     Option.bind (Option.bind (after_literal '',p='' r2) (scan_uint 8)) (\<lambda>(p, r3). Some (m, t, p))))"

definition decodeHash :: "string \<Rightarrow> string + (string \<times> string \<times> nat \<times> nat \<times> nat)" where
  "decodeHash encoded =
     (let parts = split_on (CHR ''$'') encoded in
      if length parts \<noteq> 6 then Inl hash_error
      else case scan_version (parts ! 2) of
        None \<Rightarrow> Inl hash_error
      | Some v \<Rightarrow>
          if v \<noteq> 19 then Inl version_error
          else case scan_params (parts ! 3) of
            None \<Rightarrow> Inl hash_error
          | Some (m, t, p) \<Rightarrow>
              (case raw_std_decode (parts ! 4) of
                 None \<Rightarrow> Inl hash_error
               | Some salt \<Rightarrow>
                   (case raw_std_decode (parts ! 5) of
                      None \<Rightarrow> Inl hash_error
                    | Some hash \<Rightarrow> Inr (salt, hash, m, t, p))))"

definition verify_with ::
  "(string \<Rightarrow> string \<Rightarrow> nat \<Rightarrow> nat \<Rightarrow> nat \<Rightarrow> nat \<Rightarrow> string option) \<Rightarrow> string \<Rightarrow> string \<Rightarrow> string + bool" where
  "verify_with kdf pw stored =
     (case decodeHash stored of
        Inl e \<Rightarrow> Inl e
      | Inr (salt, hash, m, t, p) \<Rightarrow>
          (case kdf pw salt t m p (length hash) of
             None \<Rightarrow> Inl ''panic: argon2''
           | Some other \<Rightarrow> Inr (hash = other)))"

definition argon2_Verify :: "primitives \<Rightarrow> string \<Rightarrow> string \<Rightarrow> string + bool" where
  "argon2_Verify K pw stored = verify_with (kd_argon2id K) pw stored"

definition verifyArgon2i :: "primitives \<Rightarrow> string \<Rightarrow> string \<Rightarrow> string + bool" where
  "verifyArgon2i K pw stored = verify_with (kd_argon2i K) pw stored"

section \<open>Foreign schemes\<close>

definition importedPrefix :: string where
  "importedPrefix = ''$imported$''"

definition digest_named :: "primitives \<Rightarrow> string \<Rightarrow> (string \<Rightarrow> string) option" where
  "digest_named K n =
     (if n = ''sha256'' then Some (dg_sha256 K) else if n = ''sha1'' then Some (dg_sha1 K)
      else if n = ''md5'' then Some (dg_md5 K) else None)"

definition verifyImportedDigest :: "primitives \<Rightarrow> string \<Rightarrow> string \<Rightarrow> string + bool" where
  "verifyImportedDigest K pw stored =
     (let parts = split_on (CHR ''$'') stored in
      if length parts \<noteq> 4 then Inl hash_error
      else case digest_named K (parts ! 2) of
             None \<Rightarrow> Inl scheme_error
           | Some dg \<Rightarrow> Inr (hex_encode (dg pw) = to_lower (parts ! 3)))"

text \<open>Verdict and whether the hash should be renewed; the flag also accompanies an error.\<close>

definition VerifyIdentify :: "primitives \<Rightarrow> string \<Rightarrow> string \<Rightarrow> (string + bool) \<times> bool" where
  "VerifyIdentify K pw stored =
     (if has_prefix ''$argon2id$'' stored then (argon2_Verify K pw stored, False)
      else if has_prefix ''$argon2i$'' stored then (verifyArgon2i K pw stored, True)
      else if has_prefix ''$2a$'' stored \<or> has_prefix ''$2b$'' stored \<or> has_prefix ''$2y$'' stored
      then (kd_bcrypt K stored pw, True)
      else if has_prefix importedPrefix stored then (verifyImportedDigest K pw stored, True)
      else (Inl scheme_error, False))"

definition hex_valid :: "string \<Rightarrow> bool" where
  "hex_valid s \<longleftrightarrow> even (length s) \<and> list_all (\<lambda>c. unhex c \<noteq> None) s"

definition EncodeForeignHash :: "string \<Rightarrow> string \<Rightarrow> string + string" where
  "EncodeForeignHash meth hexDigest =
     (let m = to_lower meth in
      if \<not> List.member [''sha256'', ''sha1'', ''md5''] m then Inl scheme_error
      else if \<not> hex_valid hexDigest then Inl hash_error
      else Inr (importedPrefix @ m @ ''$'' @ to_lower hexDigest))"

section \<open>Client HMAC keys\<close>

definition HMACSecretBytes :: nat where "HMACSecretBytes = 32"

definition GenerateHMACSecret :: "string option \<Rightarrow> (string \<times> string) option" where
  "GenerateHMACSecret raw = map_option (\<lambda>b. (b, b64_encode b)) raw"

definition EncryptHMACSecret :: "primitives \<Rightarrow> string option \<Rightarrow> string \<Rightarrow> string \<Rightarrow> string option" where
  "EncryptHMACSecret K nonce plaintext key =
     (if length key \<noteq> 32 then None
      else case nonce of None \<Rightarrow> None | Some n \<Rightarrow> Some (n @ gcm_seal K key n plaintext))"

definition DecryptHMACSecret :: "primitives \<Rightarrow> string \<Rightarrow> string \<Rightarrow> string option" where
  "DecryptHMACSecret K ciphered key =
     (if length key \<noteq> 32 then None
      else if length ciphered < 12 + 16 then None
      else gcm_open K key (take 12 ciphered) (drop 12 ciphered))"

fun first_decoding :: "(string \<Rightarrow> string option) list \<Rightarrow> string \<Rightarrow> string option" where
  "first_decoding [] s = None"
| "first_decoding (d # ds) s = (case d s of None \<Rightarrow> first_decoding ds s | Some k \<Rightarrow> Some k)"

definition DecodeHMACEncryptionKey :: "string \<Rightarrow> string option" where
  "DecodeHMACEncryptionKey encoded =
     (case first_decoding [padded raw_std_decode, raw_std_decode, padded raw_url_decode, raw_url_decode] encoded of
        None \<Rightarrow> None
      | Some k \<Rightarrow> if length k = 32 then Some k else None)"

section \<open>What they guarantee\<close>

lemma split_on_cons: "d \<notin> set s \<Longrightarrow> split_on d (s @ d # t) = s # split_on d t"
  by (induction s) auto

lemma split_on_single: "d \<notin> set s \<Longrightarrow> split_on d s = [s]"
  by (induction s) auto

lemma is_digit_dec: "(n::nat) < 10 \<Longrightarrow> is_digit_char (char_of (48 + n))"
  by (simp add: is_digit_char_def digit_value_char)

lemma nat_digits_digits: "c \<in> set (nat_digits n) \<Longrightarrow> is_digit_char c"
proof (induction n rule: nat_digits.induct)
  case (1 n)
  then show ?case
    using is_digit_dec [of n] is_digit_dec [of "n mod 10"] by (auto simp: nat_digits.simps [of n] split: if_splits)
qed

lemma nat_digits_nonempty: "nat_digits n \<noteq> []"
  by (subst nat_digits.simps) simp

lemma not_digit [simp]: "\<not> is_digit_char (CHR '','')" "\<not> is_digit_char (CHR ''$'')" "\<not> is_digit_char (CHR '' '')"
  by (simp_all add: is_digit_char_def digit_value_def Let_def)

lemma digit_not_tab: "is_digit_char c \<Longrightarrow> (of_char c :: nat) \<noteq> 9"
proof
  assume d: "is_digit_char c" and "(of_char c :: nat) = 9"
  then have "(of_char c :: int) = 9" by (metis of_nat_of_char of_nat_numeral)
  with d show False by (auto simp: is_digit_char_def digit_value_def Let_def split: if_splits)
qed

lemma scan_uint_digits:
  assumes "n < 2 ^ width" and "r = [] \<or> \<not> is_digit_char (hd r)"
  shows "scan_uint width (nat_digits n @ r) = Some (n, r)"
proof -
  have all: "list_all is_digit_char (nat_digits n)" by (simp add: list_all_iff nat_digits_digits)
  obtain c cs where d: "nat_digits n = c # cs" using nat_digits_nonempty by (cases "nat_digits n") auto
  have c: "is_digit_char c" using nat_digits_digits [of c n] d by simp
  have b: "dropWhile (\<lambda>c. c = CHR '' '' \<or> (of_char c :: nat) = 9) (nat_digits n @ r) = nat_digits n @ r"
    using c digit_not_tab [OF c] not_digit(3) by (auto simp: d)
  have t: "takeWhile is_digit_char (nat_digits n @ r) = nat_digits n"
    "dropWhile is_digit_char (nat_digits n @ r) = r"
    using all assms(2) by (cases r; simp add: list_all_iff takeWhile_append dropWhile_append)+
  have "int n < 2 ^ width" using assms(1) by (metis of_nat_less_iff of_nat_numeral of_nat_power)
  then show ?thesis
    by (simp add: scan_uint_def b t nat_digits_nonempty digits_value_nat_digits)
qed

lemma scan_params_printed:
  assumes "m < 2 ^ 32" "t < 2 ^ 32" "p < 2 ^ 8"
  shows "scan_params (''m='' @ nat_digits m @ '',t='' @ nat_digits t @ '',p='' @ nat_digits p) = Some (m, t, p)"
proof -
  have a: "after_literal l (l @ r) = Some r" for l r by (simp add: after_literal_def has_prefix_def)
  have a1: "after_literal ''m='' (''m='' @ x) = Some x" "after_literal '',t='' (CHR '','' # CHR ''t'' # CHR ''='' # x) = Some x"
    "after_literal '',p='' (CHR '','' # CHR ''p'' # CHR ''='' # x) = Some x" for x
    using a [of "''m=''" x] a [of "'',t=''" x] a [of "'',p=''" x] by simp_all
  show ?thesis
    using scan_uint_digits [OF assms(1), of "'',t='' @ nat_digits t @ '',p='' @ nat_digits p"]
      scan_uint_digits [OF assms(2), of "'',p='' @ nat_digits p"] scan_uint_digits [OF assms(3), of "[]"]
    unfolding scan_params_def a1 by (simp add: a1)
qed

lemma scan_version_19: "scan_version ''v=19'' = Some 19"
  by code_simp

lemma nat_digits_no_dollar: "CHR ''$'' \<notin> set (nat_digits n)"
  using nat_digits_digits not_digit(2) by blast

lemma decodeHash_printed:
  assumes "m < 2 ^ 32" "t < 2 ^ 32" "p < 2 ^ 8"
  shows "decodeHash (''$argon2id$v=19$m='' @ nat_digits m @ '',t='' @ nat_digits t @ '',p='' @ nat_digits p
      @ ''$'' @ raw_std_encode sl @ ''$'' @ raw_std_encode k) = Inr (sl, k, m, t, p)"
proof -
  let ?ps = "''m='' @ nat_digits m @ '',t='' @ nat_digits t @ '',p='' @ nat_digits p"
  have ps: "CHR ''$'' \<notin> set ?ps" using nat_digits_no_dollar by simp
  have "split_on (CHR ''$'') (''$argon2id$v=19$'' @ ?ps @ CHR ''$'' # raw_std_encode sl @ CHR ''$'' # raw_std_encode k)
      = [[], ''argon2id'', ''v=19'', ?ps, raw_std_encode sl, raw_std_encode k]"
    using split_on_cons [OF ps, of "raw_std_encode sl @ CHR ''$'' # raw_std_encode k"]
      split_on_cons [OF raw_std_no_dollar, of sl "raw_std_encode k"] split_on_single [OF raw_std_no_dollar, of k]
    by simp
  then show ?thesis
    using scan_params_printed [OF assms] by (simp add: decodeHash_def scan_version_19 raw_std_roundtrip)
qed

text \<open>A hash made by \<^verbatim>\<open>Hash\<close> is verified exactly for the passwords with the same key, and needs no
  renewal. Argon2 returns a key of the length it is asked for.\<close>

definition argon2_length :: "primitives \<Rightarrow> bool" where
  "argon2_length K \<longleftrightarrow> (\<forall>pw salt t m p n k. kd_argon2id K pw salt t m p n = Some k \<longrightarrow> length k = n)"

definition hasher_ok :: "hasher \<Rightarrow> bool" where
  "hasher_ok h \<longleftrightarrow> ah_memory h < 2 ^ 32 \<and> ah_iterations h < 2 ^ 32 \<and> ah_parallelism h < 2 ^ 8"

lemma hash_verifies:
  assumes "argon2_Hash K h salt pw = Some stored" and "hasher_ok h" and "argon2_length K"
  shows "\<exists>sl key. salt = Some sl \<and>
    kd_argon2id K pw sl (ah_iterations h) (ah_memory h) (ah_parallelism h) (ah_key_length h) = Some key \<and>
    VerifyIdentify K x stored =
      ((case kd_argon2id K x sl (ah_iterations h) (ah_memory h) (ah_parallelism h) (ah_key_length h) of
          None \<Rightarrow> Inl ''panic: argon2'' | Some k \<Rightarrow> Inr (key = k)), False)"
proof -
  from assms(1) obtain sl k where sl: "salt = Some sl"
    and k: "kd_argon2id K pw sl (ah_iterations h) (ah_memory h) (ah_parallelism h) (ah_key_length h) = Some k"
    and s: "stored = ''$argon2id$v=19$m='' @ nat_digits (ah_memory h) @ '',t='' @ nat_digits (ah_iterations h)
      @ '',p='' @ nat_digits (ah_parallelism h) @ ''$'' @ raw_std_encode sl @ ''$'' @ raw_std_encode k"
    by (auto simp: argon2_Hash_def split: option.splits)
  have pre: "has_prefix ''$argon2id$'' stored" by (simp add: s has_prefix_def)
  have len: "length k = ah_key_length h" using k assms(3) unfolding argon2_length_def by blast
  have d: "decodeHash stored = Inr (sl, k, ah_memory h, ah_iterations h, ah_parallelism h)"
    unfolding s by (rule decodeHash_printed) (use assms(2) in \<open>simp_all add: hasher_ok_def\<close>)
  have "argon2_Verify K x stored = (case kd_argon2id K x sl (ah_iterations h) (ah_memory h) (ah_parallelism h)
      (ah_key_length h) of None \<Rightarrow> Inl ''panic: argon2'' | Some k' \<Rightarrow> Inr (k = k'))"
    by (simp add: argon2_Verify_def verify_with_def d len)
  then show ?thesis using sl k pre by (simp add: VerifyIdentify_def)
qed

lemma lower_char_dollar:
  assumes l: "lower_char c = CHR ''$''"
  shows "c = CHR ''$''"
proof (cases "65 \<le> (of_char c :: nat) \<and> (of_char c :: nat) \<le> 90")
  case True
  then have "char_of ((of_char c :: nat) + 32) = CHR ''$''" using l by (simp only: lower_char_def Let_def if_True simp_thms)
  then have "(of_char (char_of ((of_char c :: nat) + 32) :: char) :: nat) = of_char (CHR ''$'')" by (rule arg_cong)
  then have "((of_char c :: nat) + 32) mod 256 = 36" by (simp only: of_char_of) simp
  with True show ?thesis by simp
next
  case False
  then show ?thesis using l by (simp only: lower_char_def Let_def if_False simp_thms)
qed

lemma to_lower_no_dollar: "CHR ''$'' \<notin> set s \<Longrightarrow> CHR ''$'' \<notin> set (to_lower s)"
  by (auto simp: to_lower_def dest: lower_char_dollar [OF sym])

lemma hex_no_dollar: "hex_valid s \<Longrightarrow> CHR ''$'' \<notin> set s"
  by (auto simp: hex_valid_def list_all_iff unhex_def Let_def)

text \<open>An imported digest verifies exactly the passwords with that digest, and is marked for renewal.\<close>

lemma foreign_hash_verifies:
  assumes "EncodeForeignHash meth hx = Inr stored"
  shows "\<exists>dg. digest_named K (to_lower meth) = Some dg \<and>
    VerifyIdentify K pw stored = (Inr (hex_encode (dg pw) = to_lower hx), True)"
proof -
  let ?m = "to_lower meth"
  from assms have m: "?m \<in> {''sha256'', ''sha1'', ''md5''}" and hv: "hex_valid hx"
    and s: "stored = importedPrefix @ ?m @ ''$'' @ to_lower hx"
    by (auto simp: EncodeForeignHash_def Let_def split: if_splits)
  obtain dg where dg: "digest_named K ?m = Some dg" using m by (auto simp: digest_named_def)
  have md: "CHR ''$'' \<notin> set ?m" using m by auto
  have "split_on (CHR ''$'') stored = [[], ''imported'', ?m, to_lower hx]"
    using split_on_cons [OF md, of "to_lower hx"] split_on_single [OF to_lower_no_dollar [OF hex_no_dollar [OF hv]]]
    by (simp add: s importedPrefix_def)
  then have "verifyImportedDigest K pw stored = Inr (hex_encode (dg pw) = to_lower hx)"
    using dg by (simp add: verifyImportedDigest_def)
  then show ?thesis
    using dg by (simp add: VerifyIdentify_def s importedPrefix_def has_prefix_def)
qed

end
