(* ===== verification/Clients.thy ===== *)
theory Clients
  imports Store NetSafety Crypto
begin

text \<open>
  OAuth clients: administration (\<^verbatim>\<open>client/service.go\<close> over \<^verbatim>\<open>client/repository.go\<close>) and dynamic
  registration with its registration access token (\<^verbatim>\<open>client/dcr_handler.go\<close>). Handlers are functions
  of the parsed request; the HTTP layer around them is not modelled.
\<close>

section \<open>Repository\<close>

text \<open>GORM leaves a zero-valued column with a default out of the insert and reads the default back.\<close>

definition client_defaults :: "client \<Rightarrow> client" where
  "client_defaults c = c\<lparr>
     cl_token_auth_method := (if cl_token_auth_method c = [] then ''client_secret_basic'' else cl_token_auth_method c),
     cl_require_pkce := True,
     cl_access_token_ttl := (if cl_access_token_ttl c = 0 then 3600 else cl_access_token_ttl c),
     cl_refresh_token_ttl := (if cl_refresh_token_ttl c = 0 then 86400 else cl_refresh_token_ttl c),
     cl_id_token_ttl := (if cl_id_token_ttl c = 0 then 3600 else cl_id_token_ttl c),
     cl_subject_type := (if cl_subject_type c = [] then ''public'' else cl_subject_type c),
     cl_active := True\<rparr>"

definition client_Create_row :: "env \<Rightarrow> client \<Rightarrow> db \<Rightarrow> client dbres \<times> db" where
  "client_Create_row E c st =
     (case new_uuid E st of
        (None, st1) \<Rightarrow> (DbErr, st1)
      | (Some i, st1) \<Rightarrow>
          (let c1 = (client_defaults c)\<lparr>cl_id := i, cl_created_at := wall E\<rparr>
           in case stmt_opt E ''client.Create'' (map_option (\<lambda>t. st1\<lparr>t_clients := t\<rparr>)
                    (insert_row cl_id c1 (t_clients st1))) of
                DbErr \<Rightarrow> (DbErr, st1)
              | DbOk st2 \<Rightarrow> (DbOk c1, st2)))"

definition client_row :: "db \<Rightarrow> uuid \<Rightarrow> client option" where
  "client_row st i = first_where (\<lambda>c. cl_id c = i) (t_clients st)"

definition client_FindByID :: "env \<Rightarrow> uuid \<Rightarrow> db \<Rightarrow> client option dbres" where
  "client_FindByID E i st = stmt E ''client.FindByID'' (client_row st i)"

definition FindActiveByID :: "env \<Rightarrow> uuid \<Rightarrow> db \<Rightarrow> client option dbres" where
  "FindActiveByID E i st = stmt E ''client.FindActiveByID''
     (first_where (\<lambda>c. cl_id c = i \<and> cl_active c) (t_clients st))"

definition client_Update_row :: "env \<Rightarrow> client \<Rightarrow> db \<Rightarrow> db dbres" where
  "client_Update_row E c st = stmt E ''client.Update'' (st\<lparr>t_clients := save_row cl_id c (t_clients st)\<rparr>)"

definition client_List_row :: "env \<Rightarrow> int \<Rightarrow> int \<Rightarrow> db \<Rightarrow> (client list \<times> nat) dbres" where
  "client_List_row E page perPage st =
     stmt E ''client.List''
       (take (nat perPage) (drop (nat ((page - 1) * perPage))
          (rev (sort_key cl_created_at (t_clients st)))), length (t_clients st))"

text \<open>The foreign keys cascade, but for pushed requests: they refer to their client without one, and
  so keep it from being deleted.\<close>

definition delete_client_rows :: "uuid \<Rightarrow> db \<Rightarrow> db" where
  "delete_client_rows i st =
     st\<lparr>t_clients := delete_where (\<lambda>c. cl_id c = i) (t_clients st),
        t_client_permissions := delete_where (\<lambda>(c, p). c = i) (t_client_permissions st),
        t_consents := delete_where (\<lambda>c. co_client_id c = i) (t_consents st),
        t_device_codes := delete_where (\<lambda>d. dc_client_id d = i) (t_device_codes st),
        t_access_tokens := delete_where (\<lambda>t. at_client_id t = i) (t_access_tokens st),
        t_refresh_tokens := delete_where (\<lambda>t. rt_client_id t = i) (t_refresh_tokens st),
        t_auth_codes := delete_where (\<lambda>c. ac_client_id c = i) (t_auth_codes st),
        t_auth_requests := delete_where (\<lambda>r. ar_client_id r = i) (t_auth_requests st)\<rparr>"

definition client_Delete_row :: "env \<Rightarrow> uuid \<Rightarrow> db \<Rightarrow> db dbres" where
  "client_Delete_row E i st = stmt_opt E ''client.Delete''
     (if list_ex (\<lambda>p. pr_client_id p = i) (t_pars st) \<and> client_row st i \<noteq> None then None
      else Some (delete_client_rows i st))"

definition consented_clients :: "uuid \<Rightarrow> db \<Rightarrow> uuid list" where
  "consented_clients u st = map co_client_id (filter (\<lambda>c. co_user_id c = u \<and> co_revoked_at c = None) (t_consents st))"

definition FindClientsWithBackchannelLogout :: "env \<Rightarrow> uuid \<Rightarrow> db \<Rightarrow> client list dbres" where
  "FindClientsWithBackchannelLogout E u st = stmt E ''client.FindBackchannel''
     (filter (\<lambda>c. cl_backchannel_logout_uri c \<noteq> None \<and> cl_active c \<and>
        List.member (consented_clients u st) (cl_id c)) (t_clients st))"

definition FindClientsWithFrontchannelLogout :: "env \<Rightarrow> uuid \<Rightarrow> db \<Rightarrow> client list dbres" where
  "FindClientsWithFrontchannelLogout E u st = stmt E ''client.FindFrontchannel''
     (filter (\<lambda>c. cl_frontchannel_logout_uri c \<noteq> None \<and> cl_active c \<and>
        List.member (consented_clients u st) (cl_id c)) (t_clients st))"

lemmas [repo_defs] = client_FindByID_def FindActiveByID_def client_Update_row_def client_Delete_row_def

section \<open>Service\<close>

record client_service =
  cs_net :: net_lib
  cs_prims :: primitives
  cs_hmac_key :: string

record client_input =
  ci_name :: string
  ci_description :: "string option"
  ci_redirect_uris :: "string list"
  ci_grant_types :: "string list"
  ci_response_types :: "string list"
  ci_scopes :: "string list"
  ci_token_auth_method :: "string option"
  ci_is_public :: bool
  ci_is_first_party :: bool
  ci_require_pkce :: "bool option"
  ci_access_token_ttl :: "int option"
  ci_refresh_token_ttl :: "int option"
  ci_id_token_ttl :: "int option"
  ci_request_uris :: "string list"
  ci_jwks_uri :: "string option"
  ci_post_logout_redirect_uris :: "string list"
  ci_backchannel_logout_uri :: "string option"
  ci_backchannel_logout_session_required :: "bool option"
  ci_frontchannel_logout_uri :: "string option"
  ci_frontchannel_logout_session_required :: "bool option"
  ci_subject_type :: "string option"
  ci_sector_identifier_uri :: "string option"
  ci_userinfo_signed_alg :: "string option"
  ci_id_token_enc_alg :: "string option"
  ci_id_token_enc_enc :: "string option"
  ci_userinfo_enc_alg :: "string option"
  ci_userinfo_enc_enc :: "string option"

text \<open>In an update a nil slice leaves the field alone, an empty one clears it.\<close>

record client_update =
  cu_name :: "string option"
  cu_description :: "string option"
  cu_redirect_uris :: "string list option"
  cu_grant_types :: "string list option"
  cu_response_types :: "string list option"
  cu_scopes :: "string list option"
  cu_token_auth_method :: "string option"
  cu_is_first_party :: "bool option"
  cu_require_pkce :: "bool option"
  cu_access_token_ttl :: "int option"
  cu_refresh_token_ttl :: "int option"
  cu_id_token_ttl :: "int option"
  cu_active :: "bool option"
  cu_request_uris :: "string list option"
  cu_jwks_uri :: "string option"
  cu_post_logout_redirect_uris :: "string list option"
  cu_backchannel_logout_uri :: "string option"
  cu_backchannel_logout_session_required :: "bool option"
  cu_frontchannel_logout_uri :: "string option"
  cu_frontchannel_logout_session_required :: "bool option"
  cu_subject_type :: "string option"
  cu_sector_identifier_uri :: "string option"
  cu_userinfo_signed_alg :: "string option"
  cu_id_token_enc_alg :: "string option"
  cu_id_token_enc_enc :: "string option"
  cu_userinfo_enc_alg :: "string option"
  cu_userinfo_enc_enc :: "string option"

fun validateRedirectURIs :: "net_lib \<Rightarrow> string list \<Rightarrow> err option" where
  "validateRedirectURIs N [] = None"
| "validateRedirectURIs N (u # us) =
     (case ValidateRedirectURIScheme N u of
        Some e \<Rightarrow> Some (ErrInvalidRequest (''invalid redirect_uri '' @ u @ '': '' @ e))
      | None \<Rightarrow> validateRedirectURIs N us)"

definition check_jwks_uri :: "net_lib \<Rightarrow> string option \<Rightarrow> err option" where
  "check_jwks_uri N u =
     (case u of
        None \<Rightarrow> None
      | Some s \<Rightarrow>
          if s = [] then None
          else map_option (\<lambda>e. ErrInvalidRequest (''invalid jwks_uri: '' @ e)) (ValidatePublicHTTPSURL N s))"

definition given_else :: "'a option \<Rightarrow> 'a \<Rightarrow> 'a" where
  "given_else v d = (case v of None \<Rightarrow> d | Some x \<Rightarrow> x)"

definition auth_method_of :: "client_input \<Rightarrow> string" where
  "auth_method_of inp =
     (if ci_is_public inp then ''none'' else given_else (ci_token_auth_method inp) ''client_secret_basic'')"

definition client_of_input :: "client_input \<Rightarrow> client" where
  "client_of_input inp = blank_client\<lparr>
     cl_name := ci_name inp, cl_description := ci_description inp,
     cl_redirect_uris := ci_redirect_uris inp, cl_grant_types := ci_grant_types inp,
     cl_response_types := (if ci_response_types inp = [] then [''code''] else ci_response_types inp),
     cl_scopes := ci_scopes inp, cl_token_auth_method := auth_method_of inp,
     cl_is_public := ci_is_public inp, cl_is_first_party := ci_is_first_party inp,
     cl_require_pkce := given_else (ci_require_pkce inp) True, cl_active := True,
     cl_access_token_ttl := given_else (ci_access_token_ttl inp) 0,
     cl_refresh_token_ttl := given_else (ci_refresh_token_ttl inp) 0,
     cl_id_token_ttl := given_else (ci_id_token_ttl inp) 0,
     cl_request_uris := ci_request_uris inp, cl_jwks_uri := ci_jwks_uri inp,
     cl_id_token_enc_alg := ci_id_token_enc_alg inp, cl_id_token_enc_enc := ci_id_token_enc_enc inp,
     cl_userinfo_enc_alg := ci_userinfo_enc_alg inp, cl_userinfo_enc_enc := ci_userinfo_enc_enc inp,
     cl_post_logout_redirect_uris := ci_post_logout_redirect_uris inp,
     cl_backchannel_logout_uri := ci_backchannel_logout_uri inp,
     cl_backchannel_logout_session_req := given_else (ci_backchannel_logout_session_required inp) False,
     cl_frontchannel_logout_uri := ci_frontchannel_logout_uri inp,
     cl_frontchannel_logout_session_req := given_else (ci_frontchannel_logout_session_required inp) False,
     cl_subject_type := given_else (ci_subject_type inp) [],
     cl_sector_identifier_uri := ci_sector_identifier_uri inp,
     cl_userinfo_signed_alg := ci_userinfo_signed_alg inp\<rparr>"

text \<open>The secret for the operator in base64, and the sealed bytes for the row.\<close>

definition generateAndSealHMACSecret :: "client_service \<Rightarrow> env \<Rightarrow> db \<Rightarrow> (string \<times> string) res \<times> db" where
  "generateAndSealHMACSecret S E st =
     (if cs_hmac_key S = []
      then (Inl (ErrBadRequest ''client_secret_jwt is not enabled on this server (auth.hmac_secret_encryption_key is unset)''), st)
      else case GenerateHMACSecret (rand_bytes E (draws st) HMACSecretBytes) of
             None \<Rightarrow> (Inl (ErrInternal ''failed to generate hmac secret''), bump st)
           | Some (raw, encoded) \<Rightarrow>
               (case EncryptHMACSecret (cs_prims S) (rand_bytes E (draws (bump st)) 12) raw (cs_hmac_key S) of
                  None \<Rightarrow> (Inl (ErrInternal ''failed to seal hmac secret''), bump (bump st))
                | Some sealed \<Rightarrow> (Inr (encoded, sealed), bump (bump st))))"

definition new_client_secret :: "env \<Rightarrow> db \<Rightarrow> (string \<times> string) res \<times> db" where
  "new_client_secret E st =
     (case GenerateRandomString E 32 st of
        (None, st1) \<Rightarrow> (Inl (ErrInternal ''failed to generate client secret''), st1)
      | (Some secret, st1) \<Rightarrow>
          (case hash_password E (draws st1) secret of
             None \<Rightarrow> (Inl (ErrInternal ''failed to hash client secret''), bump st1)
           | Some hash \<Rightarrow> (Inr (secret, hash), bump st1)))"

record client_created =
  cc_client :: client
  cc_secret :: string
  cc_hmac_secret :: string

definition client_Create :: "client_service \<Rightarrow> env \<Rightarrow> client_input \<Rightarrow> db \<Rightarrow> client_created res \<times> db" where
  "client_Create S E inp st =
     (case validateRedirectURIs (cs_net S) (ci_redirect_uris inp) of
        Some e \<Rightarrow> (Inl e, st)
      | None \<Rightarrow>
     (case check_jwks_uri (cs_net S) (ci_jwks_uri inp) of
        Some e \<Rightarrow> (Inl e, st)
      | None \<Rightarrow>
     (case (if ci_is_public inp then (Inr ([], None), st)
            else case new_client_secret E st of
                   (Inl e, st1) \<Rightarrow> (Inl e, st1)
                 | (Inr (secret, hash), st1) \<Rightarrow> (Inr (secret, Some hash), st1)) of
        (Inl e, st1) \<Rightarrow> (Inl e, st1)
      | (Inr (secret, hash), st1) \<Rightarrow>
     (case (if auth_method_of inp = ''client_secret_jwt'' then generateAndSealHMACSecret S E st1
            else (Inr ([], []), st1)) of
        (Inl e, st2) \<Rightarrow> (Inl e, st2)
      | (Inr (hmac, sealed), st2) \<Rightarrow>
     (case client_Create_row E ((client_of_input inp)\<lparr>cl_secret_hash := hash, cl_secret_hmac_key := sealed\<rparr>) st2 of
        (DbErr, st3) \<Rightarrow> (Inl (ErrInternal ''failed to create client''), st3)
      | (DbOk c, st3) \<Rightarrow>
          (Inr \<lparr>cc_client = c, cc_secret = secret, cc_hmac_secret = hmac\<rparr>, st3))))))"

definition client_GetByID :: "env \<Rightarrow> uuid \<Rightarrow> db \<Rightarrow> client res" where
  "client_GetByID E i st =
     (case client_FindByID E i st of
        DbErr \<Rightarrow> Inl (ErrInternal ''failed to find client'')
      | DbOk None \<Rightarrow> Inl (ErrNotFound ''client not found'')
      | DbOk (Some c) \<Rightarrow> Inr c)"

definition FindActive :: "env \<Rightarrow> uuid \<Rightarrow> db \<Rightarrow> client option dbres" where
  "FindActive E i st = FindActiveByID E i st"

definition updated_client :: "client_update \<Rightarrow> client \<Rightarrow> client" where
  "updated_client u c = c\<lparr>
     cl_name := given_else (cu_name u) (cl_name c),
     cl_description := (if cu_description u = None then cl_description c else cu_description u),
     cl_redirect_uris := given_else (cu_redirect_uris u) (cl_redirect_uris c),
     cl_grant_types := given_else (cu_grant_types u) (cl_grant_types c),
     cl_response_types := given_else (cu_response_types u) (cl_response_types c),
     cl_scopes := given_else (cu_scopes u) (cl_scopes c),
     cl_token_auth_method := given_else (cu_token_auth_method u) (cl_token_auth_method c),
     cl_is_first_party := given_else (cu_is_first_party u) (cl_is_first_party c),
     cl_require_pkce := given_else (cu_require_pkce u) (cl_require_pkce c),
     cl_access_token_ttl := given_else (cu_access_token_ttl u) (cl_access_token_ttl c),
     cl_refresh_token_ttl := given_else (cu_refresh_token_ttl u) (cl_refresh_token_ttl c),
     cl_id_token_ttl := given_else (cu_id_token_ttl u) (cl_id_token_ttl c),
     cl_active := given_else (cu_active u) (cl_active c),
     cl_request_uris := given_else (cu_request_uris u) (cl_request_uris c),
     cl_jwks_uri := (if cu_jwks_uri u = None then cl_jwks_uri c else cu_jwks_uri u),
     cl_id_token_enc_alg := (if cu_id_token_enc_alg u = None then cl_id_token_enc_alg c else cu_id_token_enc_alg u),
     cl_id_token_enc_enc := (if cu_id_token_enc_enc u = None then cl_id_token_enc_enc c else cu_id_token_enc_enc u),
     cl_userinfo_enc_alg := (if cu_userinfo_enc_alg u = None then cl_userinfo_enc_alg c else cu_userinfo_enc_alg u),
     cl_userinfo_enc_enc := (if cu_userinfo_enc_enc u = None then cl_userinfo_enc_enc c else cu_userinfo_enc_enc u),
     cl_post_logout_redirect_uris := given_else (cu_post_logout_redirect_uris u) (cl_post_logout_redirect_uris c),
     cl_backchannel_logout_uri :=
       (if cu_backchannel_logout_uri u = None then cl_backchannel_logout_uri c else cu_backchannel_logout_uri u),
     cl_backchannel_logout_session_req :=
       given_else (cu_backchannel_logout_session_required u) (cl_backchannel_logout_session_req c),
     cl_frontchannel_logout_uri :=
       (if cu_frontchannel_logout_uri u = None then cl_frontchannel_logout_uri c else cu_frontchannel_logout_uri u),
     cl_frontchannel_logout_session_req :=
       given_else (cu_frontchannel_logout_session_required u) (cl_frontchannel_logout_session_req c),
     cl_subject_type := given_else (cu_subject_type u) (cl_subject_type c),
     cl_sector_identifier_uri :=
       (if cu_sector_identifier_uri u = None then cl_sector_identifier_uri c else cu_sector_identifier_uri u),
     cl_userinfo_signed_alg :=
       (if cu_userinfo_signed_alg u = None then cl_userinfo_signed_alg c else cu_userinfo_signed_alg u)\<rparr>"

definition client_Update :: "client_service \<Rightarrow> env \<Rightarrow> uuid \<Rightarrow> client_update \<Rightarrow> db \<Rightarrow> client res \<times> db" where
  "client_Update S E i u st =
     (case (case cu_redirect_uris u of None \<Rightarrow> None | Some us \<Rightarrow> validateRedirectURIs (cs_net S) us) of
        Some e \<Rightarrow> (Inl e, st)
      | None \<Rightarrow>
     (case check_jwks_uri (cs_net S) (cu_jwks_uri u) of
        Some e \<Rightarrow> (Inl e, st)
      | None \<Rightarrow>
     (case client_GetByID E i st of
        Inl e \<Rightarrow> (Inl e, st)
      | Inr c \<Rightarrow>
          (case client_Update_row E (updated_client u c) st of
             DbErr \<Rightarrow> (Inl (ErrInternal ''failed to update client''), st)
           | DbOk st1 \<Rightarrow> (Inr (updated_client u c), st1)))))"

definition client_Delete :: "env \<Rightarrow> uuid \<Rightarrow> db \<Rightarrow> unit res \<times> db" where
  "client_Delete E i st =
     (case client_GetByID E i st of
        Inl e \<Rightarrow> (Inl e, st)
      | Inr _ \<Rightarrow>
          (case client_Delete_row E i st of
             DbErr \<Rightarrow> (Inl (ErrInternal ''failed to delete client''), st)
           | DbOk st1 \<Rightarrow> (Inr (), st1)))"

definition RotateSecret :: "env \<Rightarrow> uuid \<Rightarrow> db \<Rightarrow> string res \<times> db" where
  "RotateSecret E i st =
     (case client_GetByID E i st of
        Inl e \<Rightarrow> (Inl e, st)
      | Inr c \<Rightarrow>
          if cl_is_public c then (Inl (ErrBadRequest ''cannot rotate secret for public client''), st)
          else (case new_client_secret E st of
                  (Inl e, st1) \<Rightarrow> (Inl e, st1)
                | (Inr (secret, hash), st1) \<Rightarrow>
                    (case client_Update_row E (c\<lparr>cl_secret_hash := Some hash\<rparr>) st1 of
                       DbErr \<Rightarrow> (Inl (ErrInternal ''failed to update client secret''), st1)
                     | DbOk st2 \<Rightarrow> (Inr secret, st2))))"

definition RotateHMACSecret :: "client_service \<Rightarrow> env \<Rightarrow> uuid \<Rightarrow> db \<Rightarrow> string res \<times> db" where
  "RotateHMACSecret S E i st =
     (case client_GetByID E i st of
        Inl e \<Rightarrow> (Inl e, st)
      | Inr c \<Rightarrow>
          if cl_token_auth_method c \<noteq> ''client_secret_jwt''
          then (Inl (ErrBadRequest ''client is not configured for client_secret_jwt''), st)
          else (case generateAndSealHMACSecret S E st of
                  (Inl e, st1) \<Rightarrow> (Inl e, st1)
                | (Inr (b64, sealed), st1) \<Rightarrow>
                    (case client_Update_row E (c\<lparr>cl_secret_hmac_key := sealed\<rparr>) st1 of
                       DbErr \<Rightarrow> (Inl (ErrInternal ''failed to update client hmac secret''), st1)
                     | DbOk st2 \<Rightarrow> (Inr b64, st2))))"

section \<open>Dynamic registration\<close>

record dcr_request =
  dq_client_name :: string
  dq_redirect_uris :: "string list"
  dq_grant_types :: "string list"
  dq_response_types :: "string list"
  dq_token_endpoint_auth_method :: string
  dq_scope :: string
  dq_post_logout_redirect_uris :: "string list"
  dq_backchannel_logout_uri :: string
  dq_frontchannel_logout_uri :: string
  dq_jwks_uri :: string
  dq_subject_type :: string
  dq_require_pkce :: "bool option"
  dq_request_uris :: "string list option"
  dq_id_token_enc_alg :: string
  dq_id_token_enc_enc :: string
  dq_userinfo_enc_alg :: string
  dq_userinfo_enc_enc :: string

record dcr_response =
  dp_client_id :: string
  dp_client_secret :: string
  dp_client_id_issued_at :: int
  dp_client_secret_expires_at :: int
  dp_client_name :: string
  dp_redirect_uris :: "string list"
  dp_grant_types :: "string list"
  dp_response_types :: "string list"
  dp_token_endpoint_auth_method :: string
  dp_require_pkce :: bool
  dp_request_uris :: "string list"
  dp_id_token_enc_alg :: string
  dp_id_token_enc_enc :: string
  dp_userinfo_enc_alg :: string
  dp_userinfo_enc_enc :: string
  dp_registration_access_token :: string

definition ratLifetime :: duration where
  "ratLifetime = int64 (30 * (24 * (3600 * nanos_per_second)))"

definition supportedJWEAlgs :: "string list" where
  "supportedJWEAlgs = [''RSA-OAEP-256'', ''ECDH-ES'', ''ECDH-ES+A128KW'', ''ECDH-ES+A256KW'']"

definition supportedJWEEncs :: "string list" where
  "supportedJWEEncs = [''A256GCM'', ''A128GCM'', ''A256CBC-HS512'', ''A128CBC-HS256'']"

definition validateEncryptionPair :: "string \<Rightarrow> string \<Rightarrow> string \<Rightarrow> err option" where
  "validateEncryptionPair field alg enc =
     (if alg = [] \<and> enc = [] then None
      else if alg = [] \<or> enc = [] then Some (ErrInvalidRequest (field @ ''_alg and _enc must be set together''))
      else if \<not> List.member supportedJWEAlgs alg
      then Some (ErrInvalidRequest (''unsupported '' @ field @ ''_alg: '' @ alg))
      else if \<not> List.member supportedJWEEncs enc
      then Some (ErrInvalidRequest (''unsupported '' @ field @ ''_enc: '' @ enc))
      else None)"

text \<open>\<^verbatim>\<open>splitScopes\<close> cuts at each blank and drops the empty pieces.\<close>

definition splitScopes :: "string \<Rightarrow> string list" where
  "splitScopes s = filter (\<lambda>p. p \<noteq> []) (split_on (CHR '' '') s)"

definition SetInitialAccessToken :: "env \<Rightarrow> string \<Rightarrow> string" where
  "SetInitialAccessToken E raw = (if raw = [] then [] else HashToken (sha256 E) raw)"

definition bearer :: "string \<Rightarrow> string option" where
  "bearer auth = (if has_prefix ''Bearer '' auth then Some (drop 7 auth) else None)"

text \<open>An empty configured hash leaves registration open.\<close>

definition checkInitialAccessToken :: "env \<Rightarrow> string \<Rightarrow> string \<Rightarrow> err option" where
  "checkInitialAccessToken E iat_hash auth =
     (if iat_hash = [] then None
      else case bearer auth of
             None \<Rightarrow> Some (ErrUnauthorized ''registration requires an initial access token'')
           | Some raw \<Rightarrow>
               if HashToken (sha256 E) raw \<noteq> iat_hash
               then Some (ErrUnauthorized ''invalid initial access token'') else None)"

definition non_empty_opt :: "string \<Rightarrow> string option" where
  "non_empty_opt s = (if s = [] then None else Some s)"

definition dcr_input :: "dcr_request \<Rightarrow> client_input" where
  "dcr_input q =
     (let meth = (if dq_token_endpoint_auth_method q = [] then ''client_secret_basic''
                  else dq_token_endpoint_auth_method q)
      in \<lparr>ci_name = dq_client_name q, ci_description = None, ci_redirect_uris = dq_redirect_uris q,
          ci_grant_types = (if dq_grant_types q = [] then [''authorization_code''] else dq_grant_types q),
          ci_response_types = (if dq_response_types q = [] then [''code''] else dq_response_types q),
          ci_scopes = (if dq_scope q = [] then [] else splitScopes (dq_scope q)),
          ci_token_auth_method = Some meth, ci_is_public = (meth = ''none''), ci_is_first_party = False,
          ci_require_pkce = dq_require_pkce q, ci_access_token_ttl = None, ci_refresh_token_ttl = None,
          ci_id_token_ttl = None, ci_request_uris = given_else (dq_request_uris q) [],
          ci_jwks_uri = non_empty_opt (dq_jwks_uri q), ci_post_logout_redirect_uris = [],
          ci_backchannel_logout_uri = None, ci_backchannel_logout_session_required = None,
          ci_frontchannel_logout_uri = None, ci_frontchannel_logout_session_required = None,
          ci_subject_type = None, ci_sector_identifier_uri = None, ci_userinfo_signed_alg = None,
          ci_id_token_enc_alg = non_empty_opt (dq_id_token_enc_alg q),
          ci_id_token_enc_enc = (if dq_id_token_enc_alg q = [] then None else Some (dq_id_token_enc_enc q)),
          ci_userinfo_enc_alg = non_empty_opt (dq_userinfo_enc_alg q),
          ci_userinfo_enc_enc = (if dq_userinfo_enc_alg q = [] then None else Some (dq_userinfo_enc_enc q))\<rparr>)"

definition dcr_response_of :: "env \<Rightarrow> client \<Rightarrow> string \<Rightarrow> time \<Rightarrow> string \<Rightarrow> dcr_response" where
  "dcr_response_of E c secret issued rat =
     \<lparr>dp_client_id = uuid_string E (cl_id c), dp_client_secret = secret, dp_client_id_issued_at = unix issued,
      dp_client_secret_expires_at = 0, dp_client_name = cl_name c, dp_redirect_uris = cl_redirect_uris c,
      dp_grant_types = cl_grant_types c, dp_response_types = cl_response_types c,
      dp_token_endpoint_auth_method = cl_token_auth_method c, dp_require_pkce = cl_require_pkce c,
      dp_request_uris = cl_request_uris c, dp_id_token_enc_alg = given_else (cl_id_token_enc_alg c) [],
      dp_id_token_enc_enc = given_else (cl_id_token_enc_enc c) [],
      dp_userinfo_enc_alg = given_else (cl_userinfo_enc_alg c) [],
      dp_userinfo_enc_enc = given_else (cl_userinfo_enc_enc c) [], dp_registration_access_token = rat\<rparr>"

text \<open>The fresh token with the row that will remember its hash; without randomness the row is as it was.\<close>

definition with_new_rat :: "env \<Rightarrow> client \<Rightarrow> db \<Rightarrow> (string option \<times> client) \<times> db" where
  "with_new_rat E c st =
     (case GenerateOpaqueToken E st of
        (None, st1) \<Rightarrow> ((None, c), st1)
      | (Some (raw, h), st1) \<Rightarrow>
          ((Some raw, c\<lparr>cl_rat_hash := Some h, cl_rat_expires_at := Some (wall E + ratLifetime)\<rparr>), st1))"

text \<open>\<open>body\<close> is the bound JSON document, \<open>None\<close> when binding fails.\<close>

definition dcr_Register ::
  "client_service \<Rightarrow> env \<Rightarrow> string \<Rightarrow> string \<Rightarrow> dcr_request option \<Rightarrow> db \<Rightarrow> dcr_response res \<times> db" where
  "dcr_Register S E iat_hash auth body st =
     (case checkInitialAccessToken E iat_hash auth of
        Some e \<Rightarrow> (Inl e, st)
      | None \<Rightarrow>
     (case body of
        None \<Rightarrow> (Inl (ErrInvalidRequest ''invalid request body''), st)
      | Some q \<Rightarrow>
          if dq_client_name q = [] then (Inl (ErrInvalidRequest ''client_name is required''), st)
          else if dq_redirect_uris q = [] then (Inl (ErrInvalidRequest ''redirect_uris is required''), st)
          else case validateEncryptionPair ''id_token_encrypted_response'' (dq_id_token_enc_alg q) (dq_id_token_enc_enc q) of
            Some e \<Rightarrow> (Inl e, st)
          | None \<Rightarrow>
          (case validateEncryptionPair ''userinfo_encrypted_response'' (dq_userinfo_enc_alg q) (dq_userinfo_enc_enc q) of
            Some e \<Rightarrow> (Inl e, st)
          | None \<Rightarrow>
          (case client_Create S E (dcr_input q) st of
             (Inl e, st1) \<Rightarrow> (Inl e, st1)
           | (Inr made, st1) \<Rightarrow>
               (case with_new_rat E (cc_client made) st1 of
                  ((raw, c), st2) \<Rightarrow>
                    (Inr (dcr_response_of E c (cc_secret made) (wall E) (given_else raw [])),
                     if raw = None then st2 else db_ignore st2 (client_Update_row E c st2)))))))"

definition authenticateRAT :: "env \<Rightarrow> string \<Rightarrow> string \<Rightarrow> db \<Rightarrow> client res" where
  "authenticateRAT E idStr auth st =
     (case uuid_parse E idStr of
        None \<Rightarrow> Inl (ErrInvalidRequest ''invalid client_id'')
      | Some i \<Rightarrow>
     (case bearer auth of
        None \<Rightarrow> Inl (ErrUnauthorized ''missing registration_access_token'')
      | Some raw \<Rightarrow>
     (case db_maybe (client_FindByID E i st) of
        None \<Rightarrow> Inl (ErrNotFound ''client not found'')
      | Some c \<Rightarrow>
          (case cl_rat_hash c of
             None \<Rightarrow> Inl (ErrUnauthorized ''invalid registration_access_token'')
           | Some h \<Rightarrow>
               if h \<noteq> HashToken (sha256 E) raw then Inl (ErrUnauthorized ''invalid registration_access_token'')
               else (case cl_rat_expires_at c of
                       None \<Rightarrow> Inl (ErrUnauthorized ''registration_access_token expired; rotate via PUT /register'')
                     | Some x \<Rightarrow>
                         if x < wall E
                         then Inl (ErrUnauthorized ''registration_access_token expired; rotate via PUT /register'')
                         else Inr c)))))"

definition dcr_ReadRegistration :: "env \<Rightarrow> string \<Rightarrow> string \<Rightarrow> db \<Rightarrow> dcr_response res" where
  "dcr_ReadRegistration E idStr auth st =
     (case authenticateRAT E idStr auth st of
        Inl e \<Rightarrow> Inl e
      | Inr c \<Rightarrow> Inr (dcr_response_of E c [] (cl_created_at c) []))"

definition or_kept :: "'a list \<Rightarrow> 'a list \<Rightarrow> 'a list" where
  "or_kept new old = (if new = [] then old else new)"

definition dcr_updated :: "dcr_request \<Rightarrow> client \<Rightarrow> client" where
  "dcr_updated q c = c\<lparr>
     cl_name := or_kept (dq_client_name q) (cl_name c),
     cl_redirect_uris := or_kept (dq_redirect_uris q) (cl_redirect_uris c),
     cl_grant_types := or_kept (dq_grant_types q) (cl_grant_types c),
     cl_response_types := or_kept (dq_response_types q) (cl_response_types c),
     cl_token_auth_method := or_kept (dq_token_endpoint_auth_method q) (cl_token_auth_method c),
     cl_scopes := (if dq_scope q = [] then cl_scopes c else splitScopes (dq_scope q)),
     cl_require_pkce := given_else (dq_require_pkce q) (cl_require_pkce c),
     cl_request_uris := given_else (dq_request_uris q) (cl_request_uris c),
     cl_id_token_enc_alg := (if dq_id_token_enc_alg q = [] then cl_id_token_enc_alg c else Some (dq_id_token_enc_alg q)),
     cl_id_token_enc_enc := (if dq_id_token_enc_alg q = [] then cl_id_token_enc_enc c else Some (dq_id_token_enc_enc q)),
     cl_userinfo_enc_alg := (if dq_userinfo_enc_alg q = [] then cl_userinfo_enc_alg c else Some (dq_userinfo_enc_alg q)),
     cl_userinfo_enc_enc := (if dq_userinfo_enc_alg q = [] then cl_userinfo_enc_enc c else Some (dq_userinfo_enc_enc q)),
     cl_jwks_uri := (if dq_jwks_uri q = [] then cl_jwks_uri c else Some (dq_jwks_uri q))\<rparr>"

definition dcr_UpdateRegistration ::
  "client_service \<Rightarrow> env \<Rightarrow> string \<Rightarrow> string \<Rightarrow> dcr_request option \<Rightarrow> db \<Rightarrow> dcr_response res \<times> db" where
  "dcr_UpdateRegistration S E idStr auth body st =
     (case authenticateRAT E idStr auth st of
        Inl e \<Rightarrow> (Inl e, st)
      | Inr c \<Rightarrow>
     (case body of
        None \<Rightarrow> (Inl (ErrInvalidRequest ''invalid request body''), st)
      | Some q \<Rightarrow>
     (case validateRedirectURIs (cs_net S) (dq_redirect_uris q) of
        Some e \<Rightarrow> (Inl e, st)
      | None \<Rightarrow>
     (case validateEncryptionPair ''id_token_encrypted_response'' (dq_id_token_enc_alg q) (dq_id_token_enc_enc q) of
        Some e \<Rightarrow> (Inl e, st)
      | None \<Rightarrow>
     (case validateEncryptionPair ''userinfo_encrypted_response'' (dq_userinfo_enc_alg q) (dq_userinfo_enc_enc q) of
        Some e \<Rightarrow> (Inl e, st)
      | None \<Rightarrow>
     (case check_jwks_uri (cs_net S) (Some (dq_jwks_uri q)) of
        Some e \<Rightarrow> (Inl e, st)
      | None \<Rightarrow>
          (case with_new_rat E (dcr_updated q c) st of
             ((raw, c1), st1) \<Rightarrow>
               (case client_Update_row E c1 st1 of
                  DbErr \<Rightarrow> (Inl (ErrInternal ''failed to update client''), st1)
                | DbOk st2 \<Rightarrow> (Inr (dcr_response_of E c1 [] (cl_created_at c1) (given_else raw [])), st2)))))))))"

definition dcr_DeleteRegistration :: "env \<Rightarrow> string \<Rightarrow> string \<Rightarrow> db \<Rightarrow> unit res \<times> db" where
  "dcr_DeleteRegistration E idStr auth st =
     (case authenticateRAT E idStr auth st of
        Inl e \<Rightarrow> (Inl e, st)
      | Inr c \<Rightarrow>
          (case client_Delete_row E (cl_id c) st of
             DbErr \<Rightarrow> (Inl (ErrInternal ''failed to delete client''), st)
           | DbOk st1 \<Rightarrow> (Inr (), st1)))"

section \<open>Registered clients\<close>

definition uri_allowed :: "net_lib \<Rightarrow> string \<Rightarrow> bool" where
  "uri_allowed N u \<longleftrightarrow> ValidateRedirectURIScheme N u = None"

lemma validateRedirectURIs_None: "validateRedirectURIs N us = None \<longleftrightarrow> list_all (uri_allowed N) us"
  by (induction us) (auto simp: uri_allowed_def split: option.splits)

text \<open>What every stored client satisfies: redirect URIs of the allowed kinds, and public clients
  without a secret, confidential ones with one.\<close>

definition client_ok :: "net_lib \<Rightarrow> client \<Rightarrow> bool" where
  "client_ok N c \<longleftrightarrow> list_all (uri_allowed N) (cl_redirect_uris c) \<and>
     (cl_is_public c \<longleftrightarrow> cl_secret_hash c = None)"

definition clients_inv :: "net_lib \<Rightarrow> db \<Rightarrow> bool" where
  "clients_inv N st \<longleftrightarrow> keys_unique cl_id (t_clients st) \<and> (\<forall>c \<in> set (t_clients st). client_ok N c)"

lemma client_defaults_simps [simp]:
  "cl_redirect_uris (client_defaults c) = cl_redirect_uris c" "cl_is_public (client_defaults c) = cl_is_public c"
  "cl_secret_hash (client_defaults c) = cl_secret_hash c" "cl_is_first_party (client_defaults c) = cl_is_first_party c"
  by (simp_all add: client_defaults_def)

lemma new_client_secret_state: "new_client_secret E st = (r, st') \<Longrightarrow> st' = st\<lparr>draws := draws st'\<rparr>"
  by (auto simp: new_client_secret_def GenerateRandomString_def bump_def split: prod.splits option.splits)

lemma seal_state: "generateAndSealHMACSecret S E st = (r, st') \<Longrightarrow> st' = st\<lparr>draws := draws st'\<rparr>"
  by (auto simp: generateAndSealHMACSecret_def bump_def split: if_splits prod.splits option.splits)

lemma clients_inv_draws: "st' = st\<lparr>draws := n\<rparr> \<Longrightarrow> clients_inv N st' = clients_inv N st"
  by (simp add: clients_inv_def)

lemma clients_inv_save:
  assumes "clients_inv N st" and "client_ok N c"
  shows "clients_inv N (st\<lparr>t_clients := save_row cl_id c (t_clients st)\<rparr>)"
  using assms set_save_row [of cl_id c "t_clients st"] by (auto simp: clients_inv_def keys_unique_save)

lemma client_row_in: "client_row st i = Some c \<Longrightarrow> c \<in> set (t_clients st) \<and> cl_id c = i"
  by (auto simp: client_row_def dest: first_where_SomeD)

lemma client_GetByID_Inr: "client_GetByID E i st = Inr c \<longleftrightarrow>
    \<not> db_err E ''client.FindByID'' \<and> client_row st i = Some c"
  by (auto simp: client_GetByID_def client_FindByID_def stmt_def split: dbres.splits option.splits if_splits)

lemma client_Update_row_DbOk: "client_Update_row E c st = DbOk st' \<Longrightarrow>
    st' = st\<lparr>t_clients := save_row cl_id c (t_clients st)\<rparr>"
  by (auto simp: client_Update_row_def stmt_def split: if_splits)

lemma client_Create_row_DbOk:
  assumes "client_Create_row E c st = (DbOk c1, st')"
  shows "\<exists>i. c1 = (client_defaults c)\<lparr>cl_id := i, cl_created_at := wall E\<rparr> \<and>
    insert_row cl_id c1 (t_clients st) = Some (t_clients st') \<and>
    st' = st\<lparr>t_clients := t_clients st', draws := draws st'\<rparr>"
  using assms
  by (auto simp: client_Create_row_def new_uuid_def bump_def stmt_opt_def Let_def
      split: prod.splits option.splits dbres.splits if_splits)

lemma client_Create_row_DbErr: "client_Create_row E c st = (DbErr, st') \<Longrightarrow> st' = st\<lparr>draws := draws st'\<rparr>"
  by (auto simp: client_Create_row_def new_uuid_def bump_def stmt_opt_def Let_def
      split: prod.splits option.splits dbres.splits if_splits)

end
