(* ===== verification/ClientProperties.thy ===== *)
theory ClientProperties
  imports Clients Demo
begin

text \<open>
  The registered clients over any history of administration and dynamic registration, the rotation
  of registration access tokens, and the client that cannot be deleted.
\<close>

section \<open>Histories\<close>

inductive client_step :: "client_service \<Rightarrow> db \<Rightarrow> db \<Rightarrow> bool" for S where
  Create: "client_Create S E inp st = (r, st') \<Longrightarrow> client_step S st st'"
| Update: "client_Update S E i u st = (r, st') \<Longrightarrow> client_step S st st'"
| Delete: "client_Delete E i st = (d, st') \<Longrightarrow> client_step S st st'"
| Rotate: "RotateSecret E i st = (s, st') \<Longrightarrow> client_step S st st'"
| RotateHMAC: "RotateHMACSecret S E i st = (s, st') \<Longrightarrow> client_step S st st'"
| Register: "dcr_Register S E iat auth body st = (q, st') \<Longrightarrow> client_step S st st'"
| Change: "dcr_UpdateRegistration S E i2 auth body st = (q, st') \<Longrightarrow> client_step S st st'"
| Unregister: "dcr_DeleteRegistration E i2 auth st = (d, st') \<Longrightarrow> client_step S st st'"

lemma created_ok:
  assumes "clients_inv N st" and "client_Create_row E c st = (r, st')" and "client_ok N c"
  shows "clients_inv N st'"
proof (cases r)
  case DbErr
  then show ?thesis using assms client_Create_row_DbErr [of E c st st'] clients_inv_draws by metis
next
  case (DbOk c1)
  then obtain i where c1: "c1 = (client_defaults c)\<lparr>cl_id := i, cl_created_at := wall E\<rparr>"
    and ins: "insert_row cl_id c1 (t_clients st) = Some (t_clients st')"
    using client_Create_row_DbOk assms(2) by blast
  have "client_ok N c1" using assms(3) by (simp add: c1 client_ok_def)
  moreover have "t_clients st' = t_clients st @ [c1]" using ins by (simp add: insert_row_Some_iff)
  moreover have "keys_unique cl_id (t_clients st')"
    using keys_unique_insert [OF ins] assms(1) by (simp add: clients_inv_def)
  ultimately show ?thesis using assms(1) by (auto simp: clients_inv_def)
qed

lemma saved_ok:
  assumes "clients_inv N st" and "client_ok N c" and "client_Update_row E c st = DbOk st'"
  shows "clients_inv N st'"
  unfolding client_Update_row_DbOk [OF assms(3)] by (rule clients_inv_save [OF assms(1,2)])

lemma deleted_ok:
  assumes "clients_inv N st" and "client_Delete_row E i st = DbOk st'"
  shows "clients_inv N st'"
  using assms
  by (auto simp: client_Delete_row_def stmt_opt_def clients_inv_def delete_client_rows_def keys_unique_delete
      set_delete_where split: if_splits)

lemma row_ok: "clients_inv N st \<Longrightarrow> client_row st i = Some c \<Longrightarrow> client_ok N c"
  using client_row_in [of st i c] by (simp add: clients_inv_def)

lemma client_of_input_simps [simp]:
  "cl_redirect_uris (client_of_input inp) = ci_redirect_uris inp"
  "cl_is_public (client_of_input inp) = ci_is_public inp"
  by (simp_all add: client_of_input_def)

lemma client_Create_inv:
  assumes inv: "clients_inv (cs_net S) st" and c: "client_Create S E inp st = (r, st')"
  shows "clients_inv (cs_net S) st' \<and> (\<forall>made. r = Inr made \<longrightarrow> cc_client made \<in> set (t_clients st'))"
proof (cases "validateRedirectURIs (cs_net S) (ci_redirect_uris inp) \<noteq> None \<or>
    check_jwks_uri (cs_net S) (ci_jwks_uri inp) \<noteq> None")
  case True
  then show ?thesis using inv c by (auto simp: client_Create_def split: option.splits)
next
  case False
  obtain r1 st1 where s1: "(if ci_is_public inp then (Inr ([], None), st)
       else case new_client_secret E st of (Inl e, st1) \<Rightarrow> (Inl e, st1)
            | (Inr (secret, hash), st1) \<Rightarrow> (Inr (secret, Some hash), st1)) = (r1, st1)"
    by fastforce
  have st1: "st1 = st\<lparr>draws := draws st1\<rparr>"
    using s1 new_client_secret_state [of E st] by (auto split: if_splits prod.splits sum.splits)
  have i1: "clients_inv (cs_net S) st1" using inv clients_inv_draws [OF st1] by simp
  show ?thesis
  proof (cases r1)
    case (Inl e)
    then show ?thesis using c s1 False i1 by (auto simp: client_Create_def)
  next
    case (Inr sh)
    obtain secret hash where sh: "sh = (secret, hash)" by fastforce
    have pub: "ci_is_public inp \<longleftrightarrow> hash = None"
      using s1 Inr sh by (auto split: if_splits prod.splits sum.splits)
    obtain r2 st2 where s2: "(if auth_method_of inp = ''client_secret_jwt'' then generateAndSealHMACSecret S E st1
        else (Inr ([], []), st1)) = (r2, st2)" by fastforce
    have st2: "st2 = st1\<lparr>draws := draws st2\<rparr>"
      using s2 seal_state [of S E st1] by (auto split: if_splits)
    have i2: "clients_inv (cs_net S) st2" using i1 clients_inv_draws [OF st2] by simp
    show ?thesis
    proof (cases r2)
      case (Inl e)
      then show ?thesis using c s1 s2 False Inr sh i2 by (auto simp: client_Create_def)
    next
      case (Inr hm)
      obtain hmac sealed where hm: "hm = (hmac, sealed)" by fastforce
      let ?c = "(client_of_input inp)\<lparr>cl_secret_hash := hash, cl_secret_hmac_key := sealed\<rparr>"
      obtain d st3 where s3: "client_Create_row E ?c st2 = (d, st3)" by fastforce
      have ok: "client_ok (cs_net S) ?c"
        using False pub by (simp add: client_ok_def validateRedirectURIs_None)
      have st': "st' = st3" and r: "\<And>made. r = Inr made \<Longrightarrow> d = DbOk (cc_client made)"
        using c s1 s2 s3 False \<open>r1 = Inr sh\<close> sh Inr hm by (auto simp: client_Create_def split: dbres.splits)
      have "cc_client made \<in> set (t_clients st')" if "r = Inr made" for made
        using client_Create_row_DbOk [OF s3 [unfolded r [OF that]]] st' by (auto simp: insert_row_Some_iff)
      then show ?thesis using created_ok [OF i2 s3 ok] st' by blast
    qed
  qed
qed

lemma with_new_rat_state: "with_new_rat E c st = ((raw, c'), st') \<Longrightarrow>
    st' = st\<lparr>draws := draws st'\<rparr> \<and> cl_redirect_uris c' = cl_redirect_uris c \<and> cl_is_public c' = cl_is_public c \<and>
    cl_secret_hash c' = cl_secret_hash c \<and> cl_id c' = cl_id c"
  by (auto simp: with_new_rat_def GenerateOpaqueToken_def bump_def split: prod.splits option.splits)

lemma authenticateRAT_row: "authenticateRAT E i auth st = Inr c \<Longrightarrow> \<exists>j. client_row st j = Some c \<and> uuid_parse E i = Some j"
  by (auto simp: authenticateRAT_def client_FindByID_def stmt_def split: option.splits if_splits)

lemma updated_client_ok:
  assumes "client_ok N c" and "(case cu_redirect_uris u of None \<Rightarrow> None | Some us \<Rightarrow> validateRedirectURIs N us) = None"
  shows "client_ok N (updated_client u c)"
  using assms by (auto simp: client_ok_def updated_client_def given_else_def validateRedirectURIs_None split: option.splits)

lemma dcr_updated_ok:
  assumes "client_ok N c" and "validateRedirectURIs N (dq_redirect_uris q) = None"
  shows "client_ok N (dcr_updated q c)"
  using assms by (auto simp: client_ok_def dcr_updated_def or_kept_def validateRedirectURIs_None)

lemma client_step_inv:
  assumes "client_step S st st'" and inv: "clients_inv (cs_net S) st"
  shows "clients_inv (cs_net S) st'"
  using assms(1)
proof cases
  case (Create E inp r)
  then show ?thesis using client_Create_inv [OF inv] by blast
next
  case (Update E i u r)
  show ?thesis
  proof (cases "st' = st")
    case False
    then obtain c where row: "client_row st i = Some c"
      and v: "(case cu_redirect_uris u of None \<Rightarrow> None | Some us \<Rightarrow> validateRedirectURIs (cs_net S) us) = None"
      and w: "client_Update_row E (updated_client u c) st = DbOk st'"
      using Update by (auto simp: client_Update_def client_GetByID_Inr split: option.splits sum.splits dbres.splits)
    show ?thesis by (rule saved_ok [OF inv updated_client_ok [OF row_ok [OF inv row] v] w])
  qed (use inv in simp)
next
  case (Delete E i d)
  then show ?thesis using inv deleted_ok [OF inv]
    by (auto simp: client_Delete_def split: sum.splits dbres.splits)
next
  case (Rotate E i s)
  show ?thesis
  proof (cases "client_GetByID E i st")
    case (Inl e)
    then show ?thesis using Rotate inv by (simp add: RotateSecret_def)
  next
    case (Inr c)
    obtain r1 st1 where n: "new_client_secret E st = (r1, st1)" by fastforce
    have i1: "clients_inv (cs_net S) st1" using inv clients_inv_draws [OF new_client_secret_state [OF n]] by simp
    have "client_ok (cs_net S) (c\<lparr>cl_secret_hash := Some h\<rparr>)" if "\<not> cl_is_public c" for h
      using row_ok [OF inv, of i c] Inr that by (simp add: client_GetByID_Inr client_ok_def)
    then show ?thesis
      using Rotate inv i1 saved_ok [OF i1] Inr n
      by (auto simp: RotateSecret_def split: if_splits sum.splits prod.splits dbres.splits)
  qed
next
  case (RotateHMAC E i s)
  show ?thesis
  proof (cases "client_GetByID E i st")
    case (Inl e)
    then show ?thesis using RotateHMAC inv by (simp add: RotateHMACSecret_def)
  next
    case (Inr c)
    obtain r1 st1 where n: "generateAndSealHMACSecret S E st = (r1, st1)" by fastforce
    have i1: "clients_inv (cs_net S) st1" using inv clients_inv_draws [OF seal_state [OF n]] by simp
    have "client_ok (cs_net S) (c\<lparr>cl_secret_hmac_key := k\<rparr>)" for k
      using row_ok [OF inv, of i c] Inr by (simp add: client_GetByID_Inr client_ok_def)
    then show ?thesis
      using RotateHMAC inv i1 saved_ok [OF i1] Inr n
      by (auto simp: RotateHMACSecret_def split: if_splits sum.splits prod.splits dbres.splits)
  qed
next
  case (Register E iat auth body q)
  show ?thesis
  proof (cases "st' = st")
    case False
    then obtain p where p: "body = Some p" using Register
      by (auto simp: dcr_Register_def split: option.splits)
    obtain r1 st1 where c: "client_Create S E (dcr_input p) st = (r1, st1)" by fastforce
    note i1 = client_Create_inv [OF inv c]
    show ?thesis
    proof (cases r1)
      case (Inl e)
      then show ?thesis using Register p c i1 inv by (auto simp: dcr_Register_def split: option.splits if_splits)
    next
      case (Inr made)
      obtain raw c2 st2 where n: "with_new_rat E (cc_client made) st1 = ((raw, c2), st2)"
        by (metis prod.exhaust)
      note w = with_new_rat_state [OF n]
      have i2: "clients_inv (cs_net S) st2" using i1 clients_inv_draws w by metis
      have ok: "client_ok (cs_net S) c2" using i1 Inr w by (auto simp: clients_inv_def client_ok_def)
      have "st' = st2 \<or> st' = db_ignore st2 (client_Update_row E c2 st2)"
        using Register p c Inr n False by (auto simp: dcr_Register_def split: option.splits if_splits)
      then show ?thesis using i2 saved_ok [OF i2 ok, of E] by (cases "client_Update_row E c2 st2") auto
    qed
  qed (use inv in simp)
next
  case (Change E i2 auth body q)
  show ?thesis
  proof (cases "st' = st")
    case False
    then obtain c p raw c1 st1 where a: "authenticateRAT E i2 auth st = Inr c"
      and v: "validateRedirectURIs (cs_net S) (dq_redirect_uris p) = None"
      and n: "with_new_rat E (dcr_updated p c) st = ((raw, c1), st1)"
      and st': "st' = st1 \<or> client_Update_row E c1 st1 = DbOk st'"
      using Change by (auto simp: dcr_UpdateRegistration_def split: sum.splits option.splits prod.splits dbres.splits)
    note w = with_new_rat_state [OF n]
    have i1: "clients_inv (cs_net S) st1" using inv clients_inv_draws w by metis
    have "client_ok (cs_net S) c" using authenticateRAT_row [OF a] row_ok [OF inv] by blast
    then have "client_ok (cs_net S) c1" using dcr_updated_ok [OF _ v, of c] w by (auto simp: client_ok_def)
    then show ?thesis using st' i1 saved_ok [OF i1] by blast
  qed (use inv in simp)
next
  case (Unregister E i2 auth d)
  then show ?thesis using inv deleted_ok [OF inv]
    by (auto simp: dcr_DeleteRegistration_def split: sum.splits dbres.splits)
qed


definition demo_net :: net_lib where
  "demo_net = \<lparr>nl_parse_error = (\<lambda>s. ''bad url''), nl_lookup = (\<lambda>h. Inr [[8, 8, 8, 8]]), nl_ip_string = (\<lambda>ip. ''ip'')\<rparr>"

definition demo_prims :: primitives where
  "demo_prims = \<lparr>kd_argon2id = (\<lambda>pw s t m p n. Some (replicate n (CHR ''k''))),
     kd_argon2i = (\<lambda>pw s t m p n. Some (replicate n (CHR ''i''))), kd_bcrypt = (\<lambda>h pw. Inr (h = pw)),
     dg_sha256 = id, dg_sha1 = id, dg_md5 = id, gcm_seal = (\<lambda>k n p. p), gcm_open = (\<lambda>k n c. Some c)\<rparr>"

definition demo_clients :: client_service where
  "demo_clients = \<lparr>cs_net = demo_net, cs_prims = demo_prims, cs_hmac_key = replicate 32 (CHR ''k'')\<rparr>"

definition demo_input :: client_input where
  "demo_input = \<lparr>ci_name = ''app'', ci_description = None, ci_redirect_uris = [''https://a.b/cb''],
     ci_grant_types = [''authorization_code''], ci_response_types = [], ci_scopes = [''openid''],
     ci_token_auth_method = None, ci_is_public = False, ci_is_first_party = False, ci_require_pkce = Some False,
     ci_access_token_ttl = None, ci_refresh_token_ttl = None, ci_id_token_ttl = None, ci_request_uris = [],
     ci_jwks_uri = None, ci_post_logout_redirect_uris = [], ci_backchannel_logout_uri = None,
     ci_backchannel_logout_session_required = None, ci_frontchannel_logout_uri = None,
     ci_frontchannel_logout_session_required = None, ci_subject_type = None, ci_sector_identifier_uri = None,
     ci_userinfo_signed_alg = None, ci_id_token_enc_alg = None, ci_id_token_enc_enc = None,
     ci_userinfo_enc_alg = None, ci_userinfo_enc_enc = None\<rparr>"

lemma demo_uri [simp]: "ValidateRedirectURIScheme demo_net ''https://a.b/cb'' = None"
  by code_simp

lemmas run_clients = client_Create_def demo_clients_def demo_input_def check_jwks_uri_def
  new_client_secret_def GenerateRandomString_def auth_method_of_def given_else_def client_Create_row_def
  client_of_input_def client_defaults_def insert_row_def stmt_opt_def new_uuid_def bump_def ran_def empty_db_def


section \<open>The registration access token\<close>

text \<open>A registration access token works until it is replaced: after a registration was updated and a
  new token handed out, a caller is let through to this registration only with the new token, before
  it expires; the one used for the update is refused from then on.\<close>

theorem registration_token_rotates:
  assumes "dcr_UpdateRegistration S E i auth body st = (Inr resp, st')"
    and "dp_registration_access_token resp \<noteq> []" and "clients_inv (cs_net S) st"
    and "authenticateRAT E' i auth' st' = Inr c" and "uuid_parse E' i = uuid_parse E i" and "sha256 E' = sha256 E"
  shows "\<exists>raw. bearer auth' = Some raw \<and> sha256 E raw = sha256 E (dp_registration_access_token resp) \<and>
    wall E' \<le> wall E + ratLifetime"
proof -
  from assms(1) obtain c0 p raw c1 st1 where a: "authenticateRAT E i auth st = Inr c0"
    and n: "with_new_rat E (dcr_updated p c0) st = ((raw, c1), st1)"
    and u: "client_Update_row E c1 st1 = DbOk st'"
    and resp: "resp = dcr_response_of E c1 [] (cl_created_at c1) (given_else raw [])"
    by (auto simp: dcr_UpdateRegistration_def split: sum.splits option.splits prod.splits dbres.splits)
  obtain tok where tok: "raw = Some tok" and rat: "dp_registration_access_token resp = tok"
    using assms(2) resp by (cases raw) (auto simp: dcr_response_of_def given_else_def)
  have c1: "cl_rat_hash c1 = Some (HashToken (sha256 E) tok)" "cl_rat_expires_at c1 = Some (wall E + ratLifetime)"
    and id1: "cl_id c1 = cl_id c0"
    using n tok by (auto simp: with_new_rat_def dcr_updated_def split: prod.splits option.splits dest!: GenerateOpaqueToken_SomeD)
  obtain j where j: "uuid_parse E i = Some j" "client_row st j = Some c0"
    using authenticateRAT_row [OF a] by blast
  have "client_row st' j = Some c1"
    using client_Update_row_DbOk [OF u] client_row_in [OF j(2)] id1
    by (simp add: client_row_def first_where_save)
  moreover obtain j' where "uuid_parse E' i = Some j'" "client_row st' j' = Some c"
    using authenticateRAT_row [OF assms(4)] by blast
  ultimately have c: "c = c1" using j assms(5) by simp
  show ?thesis
    using assms(4) c1 rat assms(6) unfolding c
    by (auto simp: authenticateRAT_def HashToken_inject split: option.splits if_splits)
qed

definition rat_client :: client where
  "rat_client = demo_client\<lparr>cl_redirect_uris := [''https://a.b/cb''], cl_rat_hash := Some (HashToken id ''.rat''),
     cl_rat_expires_at := Some 2000000000000\<rparr>"

definition demo_change :: dcr_request where
  "demo_change = \<lparr>dq_client_name = ''new'', dq_redirect_uris = [''https://a.b/cb''], dq_grant_types = [],
     dq_response_types = [], dq_token_endpoint_auth_method = [], dq_scope = [], dq_post_logout_redirect_uris = [],
     dq_backchannel_logout_uri = [], dq_frontchannel_logout_uri = [], dq_jwks_uri = [], dq_subject_type = [],
     dq_require_pkce = None, dq_request_uris = None, dq_id_token_enc_alg = [], dq_id_token_enc_enc = [],
     dq_userinfo_enc_alg = [], dq_userinfo_enc_enc = []\<rparr>"

definition rat_db :: db where
  "rat_db = demo_db\<lparr>t_clients := [rat_client], draws := 3\<rparr>"

lemmas run_dcr = dcr_UpdateRegistration_def authenticateRAT_def bearer_def has_prefix_def client_FindByID_def
  client_row_def stmt_def validateEncryptionPair_def with_new_rat_def GenerateOpaqueToken_def client_Update_row_def
  dcr_response_of_def given_else_def dcr_updated_def or_kept_def save_row_def rat_db_def rat_client_def
  demo_change_def

definition rat_change :: "dcr_response res \<times> db" where
  "rat_change = dcr_UpdateRegistration demo_clients demo_env (demo_uuid_string (UUID 1)) ''Bearer .rat''
     (Some demo_change) rat_db"

lemma demo_token [simp]: "b64_encode (replicate 3 (CHR ''x'')) = ''eHh4''"
  by code_simp

lemma rat_change_runs: "ran rat_change"
  by (simp add: rat_change_def run_dcr run_clients demo_rows Let_def)

lemma rat_change_token: "dp_registration_access_token (projr (fst rat_change)) = ''eHh4''"
  by (simp add: rat_change_def run_dcr run_clients demo_rows Let_def)

lemma ratLifetime_pos: "\<not> ratLifetime < 0"
  by code_simp

lemma rat_change_authenticates:
  "\<exists>c. authenticateRAT demo_env (demo_uuid_string (UUID 1)) (''Bearer '' @ ''eHh4'') (snd rat_change) = Inr c"
  by (simp add: rat_change_def ratLifetime_pos run_dcr run_clients demo_rows Let_def)

lemma rat_db_valid: "clients_inv demo_net rat_db"
  by (simp add: clients_inv_def keys_unique_def client_ok_def uri_allowed_def rat_db_def rat_client_def demo_rows)

theorem registration_token_rotates_witness:
  "\<exists>resp st' raw. rat_change = (Inr resp, st') \<and> dp_registration_access_token resp = ''eHh4'' \<and>
     bearer (''Bearer '' @ ''eHh4'') = Some raw \<and> raw = ''eHh4''"
proof -
  from ran_Inr [OF rat_change_runs] obtain resp st' where c: "rat_change = (Inr resp, st')" by blast
  then have resp: "dp_registration_access_token resp = ''eHh4''" using rat_change_token unfolding c by simp
  obtain c where
    "authenticateRAT demo_env (demo_uuid_string (UUID 1)) (''Bearer '' @ ''eHh4'') st' = Inr c"
    using rat_change_authenticates unfolding c by auto
  from registration_token_rotates [OF trans [OF rat_change_def [symmetric] c] _ _ this]
  have "\<exists>raw. bearer (''Bearer '' @ ''eHh4'') = Some raw \<and> raw = ''eHh4''"
    using resp rat_db_valid by (simp add: demo_clients_def)
  then show ?thesis using c resp by blast
qed

section \<open>Deleting a client\<close>

text \<open>A client with an unused pushed request cannot be deleted: the foreign key of the pushed
  requests has no cascade, and neither their expiry nor a repetition helps, since nothing but the use
  of a pushed request removes its row. The deletion fails and changes nothing.\<close>

theorem pushed_request_blocks_deletion:
  assumes "par \<in> set (t_pars st)" and "client_row st (pr_client_id par) = Some c"
  shows "fst (client_Delete E (pr_client_id par) st) \<in> {Inl (ErrInternal ''failed to delete client''),
      Inl (ErrInternal ''failed to find client'')} \<and> snd (client_Delete E (pr_client_id par) st) = st"
  using assms
  by (auto simp: client_Delete_def client_GetByID_def client_FindByID_def client_Delete_row_def stmt_def stmt_opt_def
      list_ex_iff split: sum.splits)

definition demo_par :: par_request where
  "demo_par = \<lparr>pr_request_uri = ''urn:x'', pr_client_id = UUID 1, pr_params = [], pr_expires_at = 0\<rparr>"

theorem pushed_request_blocks_deletion_witness:
  "\<exists>m. client_Delete demo_env (UUID 1) (demo_db\<lparr>t_pars := [demo_par]\<rparr>) =
     (Inl (ErrInternal m), demo_db\<lparr>t_pars := [demo_par]\<rparr>)"
proof -
  have "client_row (demo_db\<lparr>t_pars := [demo_par]\<rparr>) (pr_client_id demo_par) = Some demo_client"
    by (simp add: client_row_def demo_par_def demo_rows)
  from pushed_request_blocks_deletion [OF _ this, of demo_env] show ?thesis
    by (cases "client_Delete demo_env (UUID 1) (demo_db\<lparr>t_pars := [demo_par]\<rparr>)") (auto simp: demo_par_def)
qed

end
