(* ===== verification/Passkeys.thy ===== *)
theory Passkeys
  imports Users
begin

text \<open>
  WebAuthn passkeys (\<^verbatim>\<open>passkey/service.go\<close> over \<^verbatim>\<open>passkey/repository.go\<close>): registration, usernameless
  login and step-up assertions, each a begin and a finish joined by a stored challenge that is used
  once. The ceremonies of \<^verbatim>\<open>go-webauthn\<close> and the \<^verbatim>\<open>gob\<close> codec of its session data are the fields
  of \<open>webauthn_lib\<close>.
\<close>

section \<open>Repository\<close>

definition passkey_row :: "db \<Rightarrow> uuid \<Rightarrow> passkey option" where
  "passkey_row st i = first_where (\<lambda>p. pk_id p = i) (t_passkeys st)"

definition passkey_Create :: "env \<Rightarrow> passkey \<Rightarrow> db \<Rightarrow> passkey dbres \<times> db" where
  "passkey_Create E p st =
     (case new_uuid E st of
        (None, st1) \<Rightarrow> (DbErr, st1)
      | (Some i, st1) \<Rightarrow>
          (let p1 = p\<lparr>pk_id := i, pk_created_at := wall E\<rparr>
           in if List.member (map pk_credential_id (t_passkeys st1)) (pk_credential_id p) then (DbErr, st1)
              else (case stmt_opt E ''passkey.Create'' (map_option (\<lambda>t. st1\<lparr>t_passkeys := t\<rparr>)
                      (insert_row pk_id p1 (t_passkeys st1))) of
                      DbErr \<Rightarrow> (DbErr, st1)
                    | DbOk st2 \<Rightarrow> (DbOk p1, st2))))"

definition passkey_FindByID :: "env \<Rightarrow> uuid \<Rightarrow> db \<Rightarrow> passkey option dbres" where
  "passkey_FindByID E i st = stmt E ''passkey.FindByID'' (passkey_row st i)"

definition passkey_FindByCredentialID :: "env \<Rightarrow> string \<Rightarrow> db \<Rightarrow> passkey option dbres" where
  "passkey_FindByCredentialID E c st = stmt E ''passkey.FindByCredentialID''
     (first_where (\<lambda>p. pk_credential_id p = c) (t_passkeys st))"

text \<open>Newest first.\<close>

definition user_passkeys :: "db \<Rightarrow> uuid \<Rightarrow> passkey list" where
  "user_passkeys st u = rev (sort_key pk_created_at (filter (\<lambda>p. pk_user_id p = u) (t_passkeys st)))"

definition passkey_ListByUser :: "env \<Rightarrow> uuid \<Rightarrow> db \<Rightarrow> passkey list dbres" where
  "passkey_ListByUser E u st = stmt E ''passkey.ListByUser'' (user_passkeys st u)"

text \<open>\<^verbatim>\<open>RowsAffected == 0\<close> is reported as an error, like a failed statement.\<close>

definition passkey_UpdateName :: "env \<Rightarrow> uuid \<Rightarrow> uuid \<Rightarrow> string \<Rightarrow> db \<Rightarrow> db dbres" where
  "passkey_UpdateName E i u n st = stmt_opt E ''passkey.UpdateName''
     (if list_ex (\<lambda>p. pk_id p = i \<and> pk_user_id p = u) (t_passkeys st)
      then Some (st\<lparr>t_passkeys := update_where (\<lambda>p. pk_id p = i \<and> pk_user_id p = u) (\<lambda>p. p\<lparr>pk_name := n\<rparr>)
             (t_passkeys st)\<rparr>)
      else None)"

definition UpdateSignCount :: "env \<Rightarrow> uuid \<Rightarrow> nat \<Rightarrow> int \<Rightarrow> db \<Rightarrow> db dbres" where
  "UpdateSignCount E i n lastUsedUnix st = stmt E ''passkey.UpdateSignCount''
     (st\<lparr>t_passkeys := update_where (\<lambda>p. pk_id p = i)
        (\<lambda>p. p\<lparr>pk_sign_count := n, pk_last_used_at := Some (lastUsedUnix * nanos_per_second)\<rparr>) (t_passkeys st)\<rparr>)"

definition SetCloneWarning :: "env \<Rightarrow> uuid \<Rightarrow> bool \<Rightarrow> db \<Rightarrow> db dbres" where
  "SetCloneWarning E i b st = stmt E ''passkey.SetCloneWarning''
     (st\<lparr>t_passkeys := update_where (\<lambda>p. pk_id p = i) (\<lambda>p. p\<lparr>pk_clone_warning := b\<rparr>) (t_passkeys st)\<rparr>)"

definition passkey_Delete_row :: "env \<Rightarrow> uuid \<Rightarrow> uuid \<Rightarrow> db \<Rightarrow> db dbres" where
  "passkey_Delete_row E i u st = stmt_opt E ''passkey.Delete''
     (if list_ex (\<lambda>p. pk_id p = i \<and> pk_user_id p = u) (t_passkeys st)
      then Some (st\<lparr>t_passkeys := delete_where (\<lambda>p. pk_id p = i \<and> pk_user_id p = u) (t_passkeys st)\<rparr>)
      else None)"

definition challenge_row :: "db \<Rightarrow> uuid \<Rightarrow> passkey_challenge option" where
  "challenge_row st i = first_where (\<lambda>c. pc_id c = i) (t_passkey_challenges st)"

definition CreateChallenge :: "env \<Rightarrow> passkey_challenge \<Rightarrow> db \<Rightarrow> db dbres" where
  "CreateChallenge E c st = stmt_opt E ''passkey.CreateChallenge''
     (map_option (\<lambda>t. st\<lparr>t_passkey_challenges := t\<rparr>) (insert_row pc_id c (t_passkey_challenges st)))"

definition FindChallenge :: "env \<Rightarrow> uuid \<Rightarrow> db \<Rightarrow> passkey_challenge option dbres" where
  "FindChallenge E i st = stmt E ''passkey.FindChallenge'' (challenge_row st i)"

definition drop_challenge :: "uuid \<Rightarrow> db \<Rightarrow> db" where
  "drop_challenge i st = st\<lparr>t_passkey_challenges := delete_where (\<lambda>c. pc_id c = i) (t_passkey_challenges st)\<rparr>"

definition DeleteChallenge :: "env \<Rightarrow> uuid \<Rightarrow> db \<Rightarrow> db dbres" where
  "DeleteChallenge E i st = stmt E ''passkey.DeleteChallenge'' (drop_challenge i st)"

definition DeleteExpiredChallenges :: "env \<Rightarrow> db \<Rightarrow> db dbres" where
  "DeleteExpiredChallenges E st = stmt E ''passkey.DeleteExpiredChallenges''
     (st\<lparr>t_passkey_challenges := delete_where (\<lambda>c. pc_expires_at c < clk E) (t_passkey_challenges st)\<rparr>)"

lemmas [repo_defs] = passkey_FindByID_def passkey_FindByCredentialID_def passkey_ListByUser_def passkey_UpdateName_def
  UpdateSignCount_def SetCloneWarning_def passkey_Delete_row_def CreateChallenge_def FindChallenge_def
  DeleteChallenge_def DeleteExpiredChallenges_def

section \<open>The WebAuthn library\<close>

text \<open>A credential as \<^verbatim>\<open>go-webauthn\<close> returns it from a finished ceremony.\<close>

record credential =
  cr_id :: string
  cr_public_key :: string
  cr_attestation_type :: string
  cr_aaguid :: string
  cr_sign_count :: nat
  cr_transports :: "string list"
  cr_flags :: nat
  cr_clone_warning :: bool

text \<open>What the adapter \<^verbatim>\<open>webauthnUser\<close> shows the library of a user and its passkeys; the stored
  clone warning is not part of it.\<close>

record webauthn_user =
  wu_id :: uuid
  wu_name :: string
  wu_display_name :: string
  wu_credentials :: "credential list"

definition WebAuthnDisplayName :: "user \<Rightarrow> string" where
  "WebAuthnDisplayName u =
     (case us_display_name u of None \<Rightarrow> us_email u | Some d \<Rightarrow> if d \<noteq> [] then d else us_email u)"

definition WebAuthnCredentials :: "passkey list \<Rightarrow> credential list" where
  "WebAuthnCredentials ps = map (\<lambda>p. \<lparr>cr_id = pk_credential_id p, cr_public_key = pk_public_key p,
     cr_attestation_type = pk_attestation_type p, cr_aaguid = pk_aaguid p, cr_sign_count = pk_sign_count p,
     cr_transports = pk_transports p, cr_flags = pk_flags p, cr_clone_warning = False\<rparr>) ps"

definition newWebAuthnUser :: "user \<Rightarrow> passkey list \<Rightarrow> webauthn_user" where
  "newWebAuthnUser u ps = \<lparr>wu_id = us_id u, wu_name = us_email u, wu_display_name = WebAuthnDisplayName u,
     wu_credentials = WebAuthnCredentials ps\<rparr>"

text \<open>The ceremonies draw randomness for the challenge; a failure is its message. A discoverable
  login first reads the credential identifier and the user handle from the response, asks the
  application for that user, then verifies.\<close>

record webauthn_lib =
  wa_begin_registration :: "nat \<Rightarrow> webauthn_user \<Rightarrow> string list \<Rightarrow> string + (string \<times> string)"
  wa_finish_registration :: "webauthn_user \<Rightarrow> string \<Rightarrow> string \<Rightarrow> string + credential"
  wa_begin_discoverable :: "nat \<Rightarrow> string + (string \<times> string)"
  wa_begin_login :: "nat \<Rightarrow> webauthn_user \<Rightarrow> string + (string \<times> string)"
  wa_assertion_ids :: "string \<Rightarrow> (string \<times> string) option"
  wa_finish_login :: "webauthn_user \<Rightarrow> string \<Rightarrow> string \<Rightarrow> string + credential"
  wa_user_verified :: "nat \<Rightarrow> bool"
  wa_encode :: "string \<Rightarrow> string option"
  wa_decode :: "string \<Rightarrow> string option"
  wa_uuid_from_bytes :: "string \<Rightarrow> uuid option"
  wa_challenge_ttl :: duration

section \<open>Challenges\<close>

definition storeChallenge :: "webauthn_lib \<Rightarrow> env \<Rightarrow> uuid option \<Rightarrow> string \<Rightarrow> string \<Rightarrow> db \<Rightarrow> uuid res \<times> db" where
  "storeChallenge W E user purpose sess st =
     (case wa_encode W sess of
        None \<Rightarrow> (Inl (ErrInternal ''failed to encode session data''), st)
      | Some bytes \<Rightarrow>
          (case new_uuid E st of
             (r, st1) \<Rightarrow>
               (let i = (case r of None \<Rightarrow> uuid_nil | Some i \<Rightarrow> i)
                in case CreateChallenge E \<lparr>pc_id = i, pc_user_id = user, pc_purpose = purpose,
                     pc_session_data = bytes, pc_expires_at = clk E + wa_challenge_ttl W\<rparr> st1 of
                     DbErr \<Rightarrow> (Inl (ErrInternal ''failed to persist challenge''), st1)
                   | DbOk st2 \<Rightarrow> (Inr i, st2))))"

definition challenge_checks :: "env \<Rightarrow> passkey_challenge \<Rightarrow> uuid option \<Rightarrow> string \<Rightarrow> err option" where
  "challenge_checks E c expectedUser expectedPurpose =
     (if pc_IsExpired c (clk E) then Some (ErrBadRequest ''challenge expired'')
      else if pc_purpose c \<noteq> expectedPurpose then Some (ErrBadRequest ''challenge purpose mismatch'')
      else if expectedUser \<noteq> None \<and> pc_user_id c \<noteq> expectedUser
      then Some (ErrBadRequest ''challenge does not belong to user'')
      else None)"

text \<open>The row is deleted on every way out once it was found; a failing deletion goes unnoticed.\<close>

definition popChallenge ::
  "webauthn_lib \<Rightarrow> env \<Rightarrow> uuid \<Rightarrow> uuid option \<Rightarrow> string \<Rightarrow> db \<Rightarrow> string res \<times> db" where
  "popChallenge W E i expectedUser expectedPurpose st =
     (case FindChallenge E i st of
        DbErr \<Rightarrow> (Inl (ErrInternal ''failed to fetch challenge''), st)
      | DbOk None \<Rightarrow> (Inl (ErrBadRequest ''invalid challenge''), st)
      | DbOk (Some c) \<Rightarrow>
          ((case challenge_checks E c expectedUser expectedPurpose of
              Some e \<Rightarrow> Inl e
            | None \<Rightarrow>
                (case wa_decode W (pc_session_data c) of
                   None \<Rightarrow> Inl (ErrInternal ''failed to decode session data'')
                 | Some sess \<Rightarrow> Inr sess)),
           db_ignore st (DeleteChallenge E i st)))"

section \<open>Registration\<close>

definition list_passkeys :: "env \<Rightarrow> uuid \<Rightarrow> string \<Rightarrow> db \<Rightarrow> passkey list res" where
  "list_passkeys E u msg st = (case passkey_ListByUser E u st of DbErr \<Rightarrow> Inl (ErrInternal msg) | DbOk ps \<Rightarrow> Inr ps)"

definition BeginRegistration :: "webauthn_lib \<Rightarrow> env \<Rightarrow> uuid \<Rightarrow> db \<Rightarrow> (uuid \<times> string) res \<times> db" where
  "BeginRegistration W E u st =
     (case GetByID E u st of
        Inl e \<Rightarrow> (Inl e, st)
      | Inr usr \<Rightarrow>
     (case list_passkeys E u ''failed to list existing passkeys'' st of
        Inl e \<Rightarrow> (Inl e, st)
      | Inr existing \<Rightarrow>
     (case wa_begin_registration W (draws st) (newWebAuthnUser usr existing) (map pk_credential_id existing) of
        Inl msg \<Rightarrow> (Inl (ErrBadRequest (''failed to start passkey registration: '' @ msg)), bump st)
      | Inr (creation, sess) \<Rightarrow>
          (case storeChallenge W E (Some u) ''registration'' sess (bump st) of
             (Inl e, st1) \<Rightarrow> (Inl e, st1)
           | (Inr i, st1) \<Rightarrow> (Inr (i, creation), st1)))))"

text \<open>\<^verbatim>\<open>Format("2006-01-02")\<close>: the civil date of a day number counted from 1970, in the proleptic
  Gregorian calendar.\<close>

definition civil_of_days :: "int \<Rightarrow> int \<times> int \<times> int" where
  "civil_of_days z0 =
     (let z = z0 + 719468; era = z div 146097; doe = z mod 146097;
          yoe = (doe - doe div 1460 + doe div 36524 - doe div 146096) div 365;
          doy = doe - (365 * yoe + yoe div 4 - yoe div 100);
          mp = (5 * doy + 2) div 153; d = doy - (153 * mp + 2) div 5 + 1;
          m = (if mp < 10 then mp + 3 else mp - 9);
          y = yoe + era * 400 + (if m \<le> 2 then 1 else 0)
      in (y, m, d))"

definition padded_digits :: "nat \<Rightarrow> int \<Rightarrow> string" where
  "padded_digits n k = (let s = nat_digits (nat k) in replicate (n - length s) (CHR ''0'') @ s)"

definition format_date :: "int \<Rightarrow> time \<Rightarrow> string" where
  "format_date off t =
     (case civil_of_days ((unix t + off) div 86400) of
        (y, m, d) \<Rightarrow> padded_digits 4 y @ ''-'' @ padded_digits 2 m @ ''-'' @ padded_digits 2 d)"

definition passkey_of :: "env \<Rightarrow> uuid \<Rightarrow> string \<Rightarrow> credential \<Rightarrow> passkey" where
  "passkey_of E u name c =
     \<lparr>pk_id = uuid_nil, pk_user_id = u, pk_credential_id = cr_id c, pk_public_key = cr_public_key c,
      pk_attestation_type = cr_attestation_type c, pk_aaguid = cr_aaguid c, pk_sign_count = cr_sign_count c,
      pk_transports = cr_transports c, pk_flags = cr_flags c mod 256, pk_clone_warning = False,
      pk_name = (if name = [] then ''Passkey '' @ format_date (zone E) (clk E) else name),
      pk_last_used_at = None, pk_created_at = 0\<rparr>"

definition FinishRegistration ::
  "webauthn_lib \<Rightarrow> env \<Rightarrow> uuid \<Rightarrow> uuid \<Rightarrow> string \<Rightarrow> string \<Rightarrow> db \<Rightarrow> passkey res \<times> db" where
  "FinishRegistration W E u challengeID name response st =
     (case popChallenge W E challengeID (Some u) ''registration'' st of
        (Inl e, st1) \<Rightarrow> (Inl e, st1)
      | (Inr sess, st1) \<Rightarrow>
     (case GetByID E u st1 of
        Inl e \<Rightarrow> (Inl e, st1)
      | Inr usr \<Rightarrow>
     (case list_passkeys E u ''failed to list existing passkeys'' st1 of
        Inl e \<Rightarrow> (Inl e, st1)
      | Inr existing \<Rightarrow>
     (case wa_finish_registration W (newWebAuthnUser usr existing) sess response of
        Inl msg \<Rightarrow> (Inl (ErrBadRequest (''passkey registration failed: '' @ msg)), st1)
      | Inr cred \<Rightarrow>
          (case passkey_Create E (passkey_of E u name cred) st1 of
             (DbErr, st2) \<Rightarrow> (Inl (ErrInternal ''failed to save passkey''), st2)
           | (DbOk p, st2) \<Rightarrow> (Inr p, st2))))))"

section \<open>Login\<close>

definition passkey_BeginLogin :: "webauthn_lib \<Rightarrow> env \<Rightarrow> db \<Rightarrow> (uuid \<times> string) res \<times> db" where
  "passkey_BeginLogin W E st =
     (case wa_begin_discoverable W (draws st) of
        Inl msg \<Rightarrow> (Inl (ErrInternal (''failed to start passkey login: '' @ msg)), bump st)
      | Inr (assertion, sess) \<Rightarrow>
          (case storeChallenge W E None ''login'' sess (bump st) of
             (Inl e, st1) \<Rightarrow> (Inl e, st1)
           | (Inr i, st1) \<Rightarrow> (Inr (i, assertion), st1)))"

text \<open>The callback of a discoverable login: the user named by the handle and, among its passkeys, the
  one with the asserted identifier.\<close>

definition login_handler ::
  "webauthn_lib \<Rightarrow> env \<Rightarrow> string \<Rightarrow> string \<Rightarrow> db \<Rightarrow> string + (user \<times> passkey list \<times> passkey option)" where
  "login_handler W E rawID userHandle st =
     (case wa_uuid_from_bytes W userHandle of
        None \<Rightarrow> Inl ''invalid user handle''
      | Some u \<Rightarrow>
          (case GetByID E u st of
             Inl e \<Rightarrow> Inl (err_text e)
           | Inr usr \<Rightarrow>
               (case passkey_ListByUser E u st of
                  DbErr \<Rightarrow> Inl ''passkey.ListByUser''
                | DbOk ps \<Rightarrow> Inr (usr, ps, first_where (\<lambda>p. pk_credential_id p = rawID) ps))))"

definition finish_discoverable ::
  "webauthn_lib \<Rightarrow> env \<Rightarrow> string \<Rightarrow> string \<Rightarrow> db \<Rightarrow> string + (user \<times> passkey option \<times> credential)" where
  "finish_discoverable W E sess response st =
     (case wa_assertion_ids W response of
        None \<Rightarrow> Inl ''malformed assertion''
      | Some (rawID, userHandle) \<Rightarrow>
          (case login_handler W E rawID userHandle st of
             Inl msg \<Rightarrow> Inl msg
           | Inr (usr, ps, matched) \<Rightarrow>
               (case wa_finish_login W (newWebAuthnUser usr ps) sess response of
                  Inl msg \<Rightarrow> Inl msg
                | Inr cred \<Rightarrow> Inr (usr, matched, cred))))"

definition clone_detected :: err where
  "clone_detected = ErrUnauthorized ''passkey verification failed; please re-enroll your passkey''"

definition FinishLogin ::
  "webauthn_lib \<Rightarrow> env \<Rightarrow> uuid \<Rightarrow> string \<Rightarrow> db \<Rightarrow> (user \<times> passkey option) res \<times> db" where
  "FinishLogin W E challengeID response st =
     (case popChallenge W E challengeID None ''login'' st of
        (Inl e, st1) \<Rightarrow> (Inl e, st1)
      | (Inr sess, st1) \<Rightarrow>
     (case finish_discoverable W E sess response st1 of
        Inl msg \<Rightarrow> (Inl (ErrUnauthorized (''invalid passkey assertion: '' @ msg)), st1)
      | Inr (usr, None, cred) \<Rightarrow> (Inr (usr, None), st1)
      | Inr (usr, Some p, cred) \<Rightarrow>
          if cr_clone_warning cred
          then (Inl clone_detected, db_ignore st1 (SetCloneWarning E (pk_id p) True st1))
          else (Inr (usr, Some p), db_ignore st1 (UpdateSignCount E (pk_id p) (cr_sign_count cred) (unix (clk E)) st1))))"

section \<open>Step-up assertions\<close>

definition BeginReauth :: "webauthn_lib \<Rightarrow> env \<Rightarrow> uuid \<Rightarrow> db \<Rightarrow> (uuid \<times> string) res \<times> db" where
  "BeginReauth W E u st =
     (case GetByID E u st of
        Inl e \<Rightarrow> (Inl e, st)
      | Inr usr \<Rightarrow>
     (case list_passkeys E u ''failed to list passkeys'' st of
        Inl e \<Rightarrow> (Inl e, st)
      | Inr ps \<Rightarrow>
          if ps = [] then (Inl (ErrBadRequest ''user has no passkeys''), st)
          else (case wa_begin_login W (draws st) (newWebAuthnUser usr ps) of
             Inl msg \<Rightarrow> (Inl (ErrInternal (''failed to start passkey reauth: '' @ msg)), bump st)
           | Inr (assertion, sess) \<Rightarrow>
               (case storeChallenge W E (Some u) ''reauth'' sess (bump st) of
                  (Inl e, st1) \<Rightarrow> (Inl e, st1)
                | (Inr i, st1) \<Rightarrow> (Inr (i, assertion), st1)))))"

definition ValidateReauthAssertion ::
  "webauthn_lib \<Rightarrow> env \<Rightarrow> uuid \<Rightarrow> uuid \<Rightarrow> string \<Rightarrow> db \<Rightarrow> bool res \<times> db" where
  "ValidateReauthAssertion W E u challengeID response st =
     (case popChallenge W E challengeID (Some u) ''reauth'' st of
        (Inl e, st1) \<Rightarrow> (Inl e, st1)
      | (Inr sess, st1) \<Rightarrow>
     (case GetByID E u st1 of
        Inl e \<Rightarrow> (Inl e, st1)
      | Inr usr \<Rightarrow>
     (case list_passkeys E u ''failed to list passkeys'' st1 of
        Inl e \<Rightarrow> (Inl e, st1)
      | Inr ps \<Rightarrow>
     (case wa_finish_login W (newWebAuthnUser usr ps) sess response of
        Inl msg \<Rightarrow> (Inr False, st1)
      | Inr cred \<Rightarrow>
          (case first_where (\<lambda>p. pk_credential_id p = cr_id cred) ps of
             None \<Rightarrow> (Inr True, st1)
           | Some p \<Rightarrow>
               if cr_clone_warning cred
               then (Inl clone_detected, db_ignore st1 (SetCloneWarning E (pk_id p) True st1))
               else (Inr True,
                     db_ignore st1 (UpdateSignCount E (pk_id p) (cr_sign_count cred) (unix (clk E)) st1)))))))"

section \<open>Managing passkeys\<close>

definition HasUserVerifiedPasskey :: "webauthn_lib \<Rightarrow> env \<Rightarrow> uuid \<Rightarrow> db \<Rightarrow> bool dbres" where
  "HasUserVerifiedPasskey W E u st =
     (case passkey_ListByUser E u st of
        DbErr \<Rightarrow> DbErr
      | DbOk ps \<Rightarrow> DbOk (list_ex (\<lambda>p. \<not> pk_clone_warning p \<and> wa_user_verified W (pk_flags p)) ps))"

definition passkey_Rename :: "env \<Rightarrow> uuid \<Rightarrow> uuid \<Rightarrow> string \<Rightarrow> db \<Rightarrow> unit res \<times> db" where
  "passkey_Rename E i u n st =
     (case passkey_UpdateName E i u n st of
        DbErr \<Rightarrow> (Inl (ErrNotFound ''passkey not found''), st)
      | DbOk st1 \<Rightarrow> (Inr (), st1))"

definition passkey_Delete :: "env \<Rightarrow> uuid \<Rightarrow> uuid \<Rightarrow> db \<Rightarrow> unit res \<times> db" where
  "passkey_Delete E i u st =
     (case passkey_Delete_row E i u st of
        DbErr \<Rightarrow> (Inl (ErrNotFound ''passkey not found''), st)
      | DbOk st1 \<Rightarrow> (Inr (), st1))"

definition PublicView :: "env \<Rightarrow> passkey \<Rightarrow> any_map" where
  "PublicView E p = [(''id'', AStr (uuid_string E (pk_id p))), (''name'', AStr (pk_name p)),
     (''transports'', AStrings (pk_transports p)), (''created_at'', AInt (pk_created_at p)),
     (''last_used_at'', (case pk_last_used_at p of None \<Rightarrow> ANil | Some t \<Rightarrow> AInt t))]"

end
