(* ===== verification/Reauth.thy ===== *)
theory Reauth
  imports Mfa Passkeys
begin

text \<open>
  Step-up reauthentication (\<^verbatim>\<open>reauth/service.go\<close> over \<^verbatim>\<open>reauth/repository.go\<close>): a fresh credential
  buys a short-lived token bound to the session, which a sensitive action needs and then spends.
\<close>

section \<open>Repository\<close>

definition reauth_row :: "db \<Rightarrow> string \<Rightarrow> reauth_token option" where
  "reauth_row st h = first_where (\<lambda>t. ra_id t = h) (t_reauth_tokens st)"

definition reauth_Create :: "env \<Rightarrow> reauth_token \<Rightarrow> db \<Rightarrow> db dbres" where
  "reauth_Create E t st = stmt_opt E ''reauth.Create''
     (map_option (\<lambda>ts. st\<lparr>t_reauth_tokens := ts\<rparr>) (insert_row ra_id t (t_reauth_tokens st)))"

definition FindByHash :: "env \<Rightarrow> string \<Rightarrow> db \<Rightarrow> reauth_token option dbres" where
  "FindByHash E h st = stmt E ''reauth.FindByHash'' (reauth_row st h)"

definition spend_reauth :: "time \<Rightarrow> string \<Rightarrow> string \<Rightarrow> db \<Rightarrow> db" where
  "spend_reauth now h action st = st\<lparr>t_reauth_tokens :=
     update_where (\<lambda>t. ra_id t = h \<and> \<not> ra_used t)
       (\<lambda>t. t\<lparr>ra_used := True, ra_used_at := Some now, ra_consumed_by := Some action\<rparr>) (t_reauth_tokens st)\<rparr>"

definition MarkUsed :: "env \<Rightarrow> string \<Rightarrow> string \<Rightarrow> db \<Rightarrow> db dbres" where
  "MarkUsed E h action st = stmt E ''reauth.MarkUsed'' (spend_reauth (clk E) h action st)"

definition DeleteExpired :: "env \<Rightarrow> db \<Rightarrow> (nat \<times> db) dbres" where
  "DeleteExpired E st = stmt E ''reauth.DeleteExpired''
     (length (filter (\<lambda>t. ra_expires_at t < clk E) (t_reauth_tokens st)),
      st\<lparr>t_reauth_tokens := delete_where (\<lambda>t. ra_expires_at t < clk E) (t_reauth_tokens st)\<rparr>)"

definition DeleteForSession :: "env \<Rightarrow> uuid \<Rightarrow> db \<Rightarrow> db dbres" where
  "DeleteForSession E s st = stmt E ''reauth.DeleteForSession''
     (st\<lparr>t_reauth_tokens := delete_where (\<lambda>t. ra_session_id t = s) (t_reauth_tokens st)\<rparr>)"

lemmas [repo_defs] = reauth_Create_def FindByHash_def MarkUsed_def DeleteExpired_def DeleteForSession_def

definition ra_IsValid :: "reauth_token \<Rightarrow> time \<Rightarrow> bool" where
  "ra_IsValid t now \<longleftrightarrow> \<not> ra_used t \<and> ra_expires_at t > now"

section \<open>Service\<close>

text \<open>The two validators are wired after construction and may be missing.\<close>

record reauth_service =
  rs_ttl :: duration
  rs_mfa :: bool
  rs_passkeys :: "webauthn_lib option"

record issue_request =
  iq_method :: string
  iq_password :: string
  iq_code :: string
  iq_challenge_id :: uuid
  iq_response :: string

definition verify_password_method :: "env \<Rightarrow> uuid \<Rightarrow> issue_request \<Rightarrow> db \<Rightarrow> unit res \<times> db" where
  "verify_password_method E u q st =
     (if iq_password q = [] then (Inl (ErrBadRequest ''password is required''), st)
      else case VerifyPassword E u (iq_password q) st of
             (Inl _, st1) \<Rightarrow> (Inl (ErrInternal ''failed to verify password''), st1)
           | (Inr False, st1) \<Rightarrow> (Inl (ErrUnauthorized ''invalid password''), st1)
           | (Inr True, st1) \<Rightarrow> (Inr (), st1))"

definition verify_code_method :: "reauth_service \<Rightarrow> env \<Rightarrow> uuid \<Rightarrow> issue_request \<Rightarrow> db \<Rightarrow> unit res \<times> db" where
  "verify_code_method S E u q st =
     (if \<not> rs_mfa S then (Inl (ErrInternal ''mfa validator not configured''), st)
      else if iq_code q = [] then (Inl (ErrBadRequest ''code is required''), st)
      else case HasMFA E u st of
             Inl _ \<Rightarrow> (Inl (ErrInternal ''failed to check mfa''), st)
           | Inr False \<Rightarrow> (Inl (ErrBadRequest ''mfa is not enrolled''), st)
           | Inr True \<Rightarrow>
               (case mfa_ValidateCode E u (iq_code q) st of
                  (Inl _, st1) \<Rightarrow> (Inl (ErrInternal ''failed to validate mfa code''), st1)
                | (Inr False, st1) \<Rightarrow> (Inl (ErrUnauthorized ''invalid mfa code''), st1)
                | (Inr True, st1) \<Rightarrow> (Inr (), st1)))"

definition verify_passkey_method :: "reauth_service \<Rightarrow> env \<Rightarrow> uuid \<Rightarrow> issue_request \<Rightarrow> db \<Rightarrow> unit res \<times> db" where
  "verify_passkey_method S E u q st =
     (case rs_passkeys S of
        None \<Rightarrow> (Inl (ErrInternal ''passkey validator not configured''), st)
      | Some W \<Rightarrow>
          if iq_challenge_id q = uuid_nil \<or> iq_response q = []
          then (Inl (ErrBadRequest ''passkey_challenge_id and passkey_response are required''), st)
          else case ValidateReauthAssertion W E u (iq_challenge_id q) (iq_response q) st of
                 (Inl _, st1) \<Rightarrow> (Inl (ErrInternal ''failed to validate passkey assertion''), st1)
               | (Inr False, st1) \<Rightarrow> (Inl (ErrUnauthorized ''invalid passkey assertion''), st1)
               | (Inr True, st1) \<Rightarrow> (Inr (), st1))"

definition verifyMethod :: "reauth_service \<Rightarrow> env \<Rightarrow> uuid \<Rightarrow> issue_request \<Rightarrow> db \<Rightarrow> unit res \<times> db" where
  "verifyMethod S E u q st =
     (if iq_method q = ''password'' then verify_password_method E u q st
      else if iq_method q \<in> {''totp'', ''backup_code''} then verify_code_method S E u q st
      else if iq_method q = ''passkey'' then verify_passkey_method S E u q st
      else (Inl (ErrBadRequest (''unsupported reauth method: '' @ iq_method q)), st))"

definition reauth_Issue ::
  "reauth_service \<Rightarrow> env \<Rightarrow> uuid \<Rightarrow> uuid \<Rightarrow> issue_request \<Rightarrow> db \<Rightarrow> (string \<times> time \<times> string) res \<times> db" where
  "reauth_Issue S E u s q st =
     (case verifyMethod S E u q st of
        (Inl e, st1) \<Rightarrow> (Inl e, st1)
      | (Inr _, st1) \<Rightarrow>
     (case GenerateOpaqueToken E st1 of
        (None, st2) \<Rightarrow> (Inl (ErrInternal ''failed to generate reauth token''), st2)
      | (Some (raw, h), st2) \<Rightarrow>
          (let expiresAt = clk E + rs_ttl S
           in case reauth_Create E \<lparr>ra_id = h, ra_user_id = u, ra_session_id = s, ra_method = iq_method q,
                ra_used = False, ra_used_at = None, ra_consumed_by = None, ra_expires_at = expiresAt\<rparr> st2 of
                DbErr \<Rightarrow> (Inl (ErrInternal ''failed to issue reauth token''), st2)
              | DbOk st3 \<Rightarrow> (Inr (raw, expiresAt, iq_method q), st3))))"

definition reauth_Verify :: "env \<Rightarrow> string \<Rightarrow> uuid \<Rightarrow> uuid \<Rightarrow> db \<Rightarrow> reauth_token option dbres" where
  "reauth_Verify E raw u s st =
     (if raw = [] then DbOk None
      else case FindByHash E (HashToken (sha256 E) raw) st of
             DbErr \<Rightarrow> DbErr
           | DbOk None \<Rightarrow> DbOk None
           | DbOk (Some t) \<Rightarrow>
               DbOk (if \<not> ra_IsValid t (clk E) then None
                     else if ra_user_id t \<noteq> u \<or> ra_session_id t \<noteq> s then None else Some t))"

definition reauth_Consume :: "env \<Rightarrow> string \<Rightarrow> string \<Rightarrow> db \<Rightarrow> unit res \<times> db" where
  "reauth_Consume E h action st =
     (case MarkUsed E h action st of
        DbErr \<Rightarrow> (Inl (ErrInternal ''failed to consume reauth token''), st)
      | DbOk st1 \<Rightarrow> (Inr (), st1))"

definition RevokeForSession :: "env \<Rightarrow> uuid \<Rightarrow> db \<Rightarrow> db dbres" where
  "RevokeForSession E s st = DeleteForSession E s st"

definition CleanupExpired :: "env \<Rightarrow> db \<Rightarrow> (nat \<times> db) dbres" where
  "CleanupExpired E st = DeleteExpired E st"

section \<open>Lemmas\<close>

lemma reauth_Verify_iff:
  "reauth_Verify E raw u s st = DbOk (Some t) \<longleftrightarrow>
     raw \<noteq> [] \<and> \<not> db_err E ''reauth.FindByHash'' \<and> reauth_row st (HashToken (sha256 E) raw) = Some t \<and>
     ra_IsValid t (clk E) \<and> ra_user_id t = u \<and> ra_session_id t = s"
  by (auto simp: reauth_Verify_def repo_defs split: if_splits option.splits)

lemma reauth_row_spent:
  "reauth_row (spend_reauth now h action st) h' =
     map_option (\<lambda>t. if h' = h \<and> \<not> ra_used t
       then t\<lparr>ra_used := True, ra_used_at := Some now, ra_consumed_by := Some action\<rparr> else t) (reauth_row st h')"
proof -
  have "first_where (\<lambda>t. ra_id t = h') (update_where (\<lambda>t. ra_id t = h \<and> \<not> ra_used t) f ts) =
      map_option (\<lambda>t. if h' = h \<and> \<not> ra_used t then f t else t) (first_where (\<lambda>t. ra_id t = h') ts)"
    if "\<And>t. ra_id (f t) = ra_id t" for f :: "reauth_token \<Rightarrow> reauth_token" and ts
    using that by (induction ts) (auto simp: update_where_def)
  then show ?thesis by (simp add: reauth_row_def spend_reauth_def)
qed

lemma spent_row_used: "reauth_row (spend_reauth now h action st) h = Some t \<Longrightarrow> ra_used t"
proof -
  assume "reauth_row (spend_reauth now h action st) h = Some t"
  then obtain t0 where "t = (if \<not> ra_used t0
      then t0\<lparr>ra_used := True, ra_used_at := Some now, ra_consumed_by := Some action\<rparr> else t0)"
    by (auto simp: reauth_row_spent)
  then show "ra_used t" by (cases "ra_used t0") simp_all
qed

lemma spent_token_refused:
  assumes "reauth_Consume E h action st = (Inr (), st')" and "h = HashToken (sha256 E') raw"
  shows "reauth_Verify E' raw u s st' \<noteq> DbOk (Some t)"
proof -
  have "st' = spend_reauth (clk E) h action st"
    using assms(1) by (auto simp: reauth_Consume_def repo_defs split: if_splits)
  then show ?thesis using assms(2) spent_row_used by (auto simp: reauth_Verify_iff ra_IsValid_def)
qed

end
