(* ===== verification/Accounts.thy ===== *)
theory Accounts
  imports Reauth Sessions
begin

text \<open>
  Self-service on an account (\<^verbatim>\<open>account/service.go\<close>): password change, the two-step change of the
  e-mail address and deletion with a grace period. The multi-row steps run in one transaction with
  the revocation of the sessions and the mail. \<^verbatim>\<open>account/policy.go\<close> evaluates the
  \<^verbatim>\<open>account_action\<close> policies and fails open.
\<close>

record account_service =
  as_email_change_ttl :: duration
  as_deletion_grace :: duration

section \<open>Passwords\<close>

text \<open>Sessions and notice are best effort: their failures are logged.\<close>

definition account_ChangePassword :: "env \<Rightarrow> uuid \<Rightarrow> string \<Rightarrow> string \<Rightarrow> db \<Rightarrow> unit res \<times> db" where
  "account_ChangePassword E u current pw st =
     (case GetByID E u st of
        Inl e \<Rightarrow> (Inl e, st)
      | Inr usr \<Rightarrow>
          (case ChangePassword E u current pw st of
             (Inl e, st1) \<Rightarrow> (Inl e, st1)
           | (Inr _, st1) \<Rightarrow>
               (let st2 = snd (session_RevokeAll E u None st1)
                in (Inr (), snd (mail_SendPasswordChangedNotice E (us_email usr) st2)))))"

definition account_SetInitialPassword :: "env \<Rightarrow> uuid \<Rightarrow> string \<Rightarrow> db \<Rightarrow> unit res \<times> db" where
  "account_SetInitialPassword E u pw st =
     (case GetByID E u st of
        Inl e \<Rightarrow> (Inl e, st)
      | Inr usr \<Rightarrow>
          (case SetInitialPassword E u pw st of
             (Inl e, st1) \<Rightarrow> (Inl e, st1)
           | (Inr _, st1) \<Rightarrow> (Inr (), snd (mail_SendPasswordChangedNotice E (us_email usr) st1))))"

section \<open>Change of the e-mail address\<close>

definition email_change_tx :: "env \<Rightarrow> uuid \<Rightarrow> string \<Rightarrow> string \<Rightarrow> string \<Rightarrow> time \<Rightarrow> db \<Rightarrow> unit res \<times> db" where
  "email_change_tx E u newEmail rawToken h expiresAt st =
     (case UpdateFields E u (\<lambda>x. x\<lparr>us_email_change_new := Some newEmail, us_email_change_token := Some h,
             us_email_change_expires_at := Some expiresAt\<rparr>) st of
        DbErr \<Rightarrow> (Inl (ErrInternal ''failed to record email change request''), st)
      | DbOk st1 \<Rightarrow> mail_SendEmailChangeConfirmation E newEmail rawToken st1)"

definition RequestEmailChange :: "account_service \<Rightarrow> env \<Rightarrow> uuid \<Rightarrow> string \<Rightarrow> db \<Rightarrow> unit res \<times> db" where
  "RequestEmailChange S E u newEmail0 st =
     (let newEmail = lower_trim newEmail0
      in case GetByID E u st of
        Inl e \<Rightarrow> (Inl e, st)
      | Inr usr \<Rightarrow>
          if newEmail = us_email usr then (Inl (ErrBadRequest ''new email must differ from current email''), st)
          else (case user_FindByEmail E newEmail st of
             DbErr \<Rightarrow> (Inl (ErrInternal ''failed to check email availability''), st)
           | DbOk (Some _) \<Rightarrow> (Inl (ErrConflict ''email is already in use''), st)
           | DbOk None \<Rightarrow>
               (case GenerateOpaqueToken E st of
                  (None, st1) \<Rightarrow> (Inl (ErrInternal ''failed to generate token''), st1)
                | (Some (raw, h), st1) \<Rightarrow>
                    Transaction E (email_change_tx E u newEmail raw h (clk E + as_email_change_ttl S)) st1)))"

definition swap_email :: "string \<Rightarrow> user \<Rightarrow> user" where
  "swap_email newAddr x = x\<lparr>us_email := newAddr, us_email_verified := True, us_email_change_new := None,
     us_email_change_token := None, us_email_change_expires_at := None\<rparr>"

definition confirm_email_tx :: "env \<Rightarrow> user \<Rightarrow> string \<Rightarrow> db \<Rightarrow> unit res \<times> db" where
  "confirm_email_tx E usr newAddr st =
     (case UpdateFields E (us_id usr) (swap_email newAddr) st of
        DbErr \<Rightarrow> (Inl (ErrInternal ''failed to apply email change''), st)
      | DbOk st1 \<Rightarrow>
          (case session_RevokeAll E (us_id usr) None st1 of
             (Inl e, st2) \<Rightarrow> (Inl (ErrInternal (''failed to revoke sessions: '' @ err_text e)), st2)
           | (Inr _, st2) \<Rightarrow> mail_SendEmailChangedNotice E (us_email usr) newAddr st2))"

definition ConfirmEmailChange :: "env \<Rightarrow> string \<Rightarrow> db \<Rightarrow> (string \<times> string \<times> uuid) res \<times> db" where
  "ConfirmEmailChange E token st =
     (case FindByEmailChangeToken E (HashToken (sha256 E) token) st of
        DbErr \<Rightarrow> (Inl (ErrInternal ''failed to validate token''), st)
      | DbOk None \<Rightarrow> (Inl (ErrBadRequest ''invalid or expired token''), st)
      | DbOk (Some usr) \<Rightarrow>
          (case us_email_change_new usr of
             None \<Rightarrow> (Inl (ErrBadRequest ''invalid or expired token''), st)
           | Some newAddr \<Rightarrow>
               (case user_FindByEmail E newAddr st of
                  DbErr \<Rightarrow> (Inl (ErrInternal ''failed to check email availability''), st)
                | DbOk existing \<Rightarrow>
                    if existing \<noteq> None \<and> map_option us_id existing \<noteq> Some (us_id usr)
                    then (Inl (ErrConflict ''email is already in use''), st)
                    else (case Transaction E (confirm_email_tx E usr newAddr) st of
                            (Inl e, st1) \<Rightarrow> (Inl e, st1)
                          | (Inr _, st1) \<Rightarrow> (Inr (us_email usr, newAddr, us_id usr), st1)))))"

section \<open>Deletion with a grace period\<close>

definition schedule_deletion :: "time \<Rightarrow> string \<Rightarrow> time \<Rightarrow> user \<Rightarrow> user" where
  "schedule_deletion now h purgeAfter x = x\<lparr>us_deleted_at := Some now, us_deletion_token := Some h,
     us_deletion_purge_after := Some purgeAfter, us_active := False\<rparr>"

definition deletion_tx :: "env \<Rightarrow> user \<Rightarrow> uuid \<Rightarrow> string \<Rightarrow> string \<Rightarrow> time \<Rightarrow> db \<Rightarrow> unit res \<times> db" where
  "deletion_tx E usr u rawToken h purgeAfter st =
     (case UpdateFields E u (schedule_deletion (clk E) h purgeAfter) st of
        DbErr \<Rightarrow> (Inl (ErrInternal ''failed to schedule deletion''), st)
      | DbOk st1 \<Rightarrow>
          (case session_RevokeAll E u None st1 of
             (Inl e, st2) \<Rightarrow> (Inl (ErrInternal (''failed to revoke sessions: '' @ err_text e)), st2)
           | (Inr _, st2) \<Rightarrow> mail_SendAccountDeletionEmail E (us_email usr) rawToken st2))"

definition RequestDeletion :: "account_service \<Rightarrow> env \<Rightarrow> uuid \<Rightarrow> db \<Rightarrow> unit res \<times> db" where
  "RequestDeletion S E u st =
     (case GetByID E u st of
        Inl e \<Rightarrow> (Inl e, st)
      | Inr usr \<Rightarrow>
          if us_deleted_at usr \<noteq> None then (Inl (ErrConflict ''account deletion already requested''), st)
          else (case GenerateOpaqueToken E st of
             (None, st1) \<Rightarrow> (Inl (ErrInternal ''failed to generate cancellation token''), st1)
           | (Some (raw, h), st1) \<Rightarrow>
               Transaction E (deletion_tx E usr u raw h (clk E + as_deletion_grace S)) st1))"

definition restore_account :: "user \<Rightarrow> user" where
  "restore_account x = x\<lparr>us_deleted_at := None, us_deletion_token := None, us_deletion_purge_after := None,
     us_active := True\<rparr>"

definition CancelDeletion :: "env \<Rightarrow> string \<Rightarrow> db \<Rightarrow> unit res \<times> db" where
  "CancelDeletion E token st =
     (case FindByDeletionToken E (HashToken (sha256 E) token) st of
        DbErr \<Rightarrow> (Inl (ErrInternal ''failed to validate token''), st)
      | DbOk None \<Rightarrow> (Inl (ErrBadRequest ''invalid or expired token''), st)
      | DbOk (Some usr) \<Rightarrow>
          (case UpdateFields E (us_id usr) restore_account st of
             DbErr \<Rightarrow> (Inl (ErrInternal ''failed to cancel deletion''), st)
           | DbOk st1 \<Rightarrow> (Inr (), st1)))"

section \<open>The policy gate of self-service actions\<close>

record policy_gate =
  pg_policies :: "(string \<Rightarrow> any_map \<Rightarrow> (bool \<times> string) option dbres) option"
  pg_mfa :: bool
  pg_passkeys :: "webauthn_lib option"

text \<open>\<^verbatim>\<open>int(time.Since(t).Hours() / 24)\<close>; the floating point quotient is taken exactly.\<close>

definition age_days :: "time \<Rightarrow> time \<Rightarrow> int" where
  "age_days now created = trunc_div (time_sub now created) (86400 * nanos_per_second)"

definition account_action_input ::
  "policy_gate \<Rightarrow> env \<Rightarrow> user \<Rightarrow> string \<Rightarrow> string \<Rightarrow> string \<Rightarrow> db \<Rightarrow> any_map" where
  "account_action_input G E usr action ip ua st =
     (let R = rbac_role_provider E st; u = us_id usr;
          names = (case rp_roles R u of None \<Rightarrow> [] | Some rs \<Rightarrow> rs);
          perms = (case rp_permissions R u of None \<Rightarrow> [] | Some ps \<Rightarrow> ps);
          hasMFA = (pg_mfa G \<and> HasMFA E u st = Inr True);
          hasPasskey = (case pg_passkeys G of
             None \<Rightarrow> False | Some W \<Rightarrow> HasUserVerifiedPasskey W E u st = DbOk True)
      in BuildAccountActionInput (input_env_of E) usr names perms action hasMFA hasPasskey
           (age_days (clk E) (us_created_at usr)) ip ua)"

text \<open>The gate answers with an error only when a policy was evaluated and denies.\<close>

definition account_gate ::
  "policy_gate \<Rightarrow> env \<Rightarrow> string \<Rightarrow> uuid option \<Rightarrow> string \<Rightarrow> string \<Rightarrow> db \<Rightarrow> unit res" where
  "account_gate G E action caller ip ua st =
     (case pg_policies G of
        None \<Rightarrow> Inr ()
      | Some evaluate \<Rightarrow>
          (case caller of
             None \<Rightarrow> Inr ()
           | Some u \<Rightarrow>
               (case GetByID E u st of
                  Inl _ \<Rightarrow> Inr ()
                | Inr usr \<Rightarrow>
                    (case evaluate ''account_action'' (account_action_input G E usr action ip ua st) of
                       DbOk (Some (True, reason)) \<Rightarrow> Inl (ErrForbidden reason)
                     | _ \<Rightarrow> Inr ()))))"

section \<open>Lemmas\<close>

lemma touch_user_more [simp]:
  "us_deleted_at (touch_user E f u) = us_deleted_at (f u)"
  "us_deletion_token (touch_user E f u) = us_deletion_token (f u)"
  "us_deletion_purge_after (touch_user E f u) = us_deletion_purge_after (f u)"
  "us_email_change_token (touch_user E f u) = us_email_change_token (f u)"
  "us_email_change_new (touch_user E f u) = us_email_change_new (f u)"
  by (simp_all add: touch_user_def)

lemma user_row_UpdateFields:
  assumes "UpdateFields E i f st = DbOk st'" and "\<And>u. us_id (f u) = us_id u"
  shows "user_row st' j = map_option (\<lambda>u. if us_id u = i then touch_user E f u else u) (user_row st j)"
  unfolding UpdateFields_table [OF assms(1)] by (rule user_row_update [OF assms(2)])

lemma user_row_cong: "t_users st' = t_users st \<Longrightarrow> user_row st' i = user_row st i"
  by (simp add: user_row_def)

lemma user_row_id: "user_row st i = Some u \<Longrightarrow> us_id u = i \<and> u \<in> set (t_users st)"
  by (auto simp: user_row_def dest: first_where_SomeD)

lemma user_row_of: "users_inv st \<Longrightarrow> u \<in> set (t_users st) \<Longrightarrow> user_row st (us_id u) = Some u"
  by (simp add: users_inv_def user_row_def first_where_key)

text \<open>The common core of the confirmed change and of the deletion: a partial update, the revocation of
  every session, a mail.\<close>

lemma update_revoke_mail:
  assumes "UpdateFields E u f st = DbOk st1" and "session_RevokeAll E u None st1 = (Inr n, st2)"
    and "send_mail E m st2 = (x, st3)"
  shows "t_users st3 = t_users st1 \<and> (\<forall>s \<in> set (t_sessions st3). se_user_id s = u \<longrightarrow> se_revoked s)"
proof -
  have "t_users st2 = t_users st1"
    using assms(2) by (auto simp: session_RevokeAll_def RevokeAllForUser_def stmt_def split: if_splits)
  moreover have "\<forall>s \<in> set (t_sessions st2). se_user_id s = u \<longrightarrow> se_revoked s"
    using RevokeAll_keeps_only_current [OF assms(2)] by auto
  moreover have "st3 = st2\<lparr>t_outbox := t_outbox st3, draws := draws st3\<rparr>"
    using send_mail_frame [OF assms(3)] .
  ultimately show ?thesis by (metis db.select_convs db.surjective db.update_convs(26,35))
qed

lemma RequestDeletion_effect:
  assumes "RequestDeletion S E u st = (Inr (), st')"
  shows "\<exists>x h. user_row st u = Some x \<and> us_deleted_at x = None \<and>
    user_row st' u = Some (touch_user E (schedule_deletion (clk E) h (clk E + as_deletion_grace S)) x) \<and>
    (\<forall>s \<in> set (t_sessions st'). se_user_id s = u \<longrightarrow> se_revoked s)"
proof -
  obtain x raw h st1 where x: "user_row st u = Some x" "us_deleted_at x = None"
    and g: "GenerateOpaqueToken E st = (Some (raw, h), st1)"
    and tx: "deletion_tx E x u raw h (clk E + as_deletion_grace S) st1 = (Inr (), st')"
    using assms by (auto simp: RequestDeletion_def GetByID_def user_FindByID_def stmt_def
        split: sum.splits option.splits prod.splits dbres.splits if_splits dest!: Transaction_Inr)
  let ?f = "schedule_deletion (clk E) h (clk E + as_deletion_grace S)"
  obtain st2 n st3 where u: "UpdateFields E u ?f st1 = DbOk st2"
    and r: "session_RevokeAll E u None st2 = (Inr n, st3)"
    and m: "send_mail E (mail_of (us_email x) ''account_deletion'' raw) st3 = (Inr (), st')"
    using tx by (auto simp: deletion_tx_def mail_SendAccountDeletionEmail_def split: dbres.splits prod.splits sum.splits)
  have "user_row st1 u = Some x" using g x(1) GenerateOpaqueToken_SomeD [OF g] by (simp add: user_row_def bump_def)
  then have "user_row st2 u = Some (touch_user E ?f x)"
    using user_row_UpdateFields [OF u, of u] user_row_id by (fastforce simp: schedule_deletion_def)
  then show ?thesis using x update_revoke_mail [OF u r m] user_row_cong by metis
qed

lemma inactive_not_authenticated:
  assumes "users_inv st" and "user_row st u = Some x" and "\<not> us_active x"
    and "Authenticate E e pw st = (Inr v, st')"
  shows "us_id v \<noteq> u"
proof -
  obtain u0 where "email_row st (lower_trim e) = Some u0" "us_active u0" "us_id v = us_id u0"
    using Authenticate_success [OF assms(4)] by metis
  then show ?thesis using assms(1-3) user_row_of [OF assms(1), of u0]
    by (auto simp: email_row_def dest: first_where_SomeD)
qed

lemma ConfirmEmailChange_effect:
  assumes "ConfirmEmailChange E tok st = (Inr (old, new, i), st')"
  shows "\<exists>x \<in> set (t_users st). us_id x = i \<and> us_email x = old \<and> us_email_change_new x = Some new \<and>
    us_email_change_token x = Some (HashToken (sha256 E) tok) \<and>
    is_after (us_email_change_expires_at x) (wall E) \<and>
    (\<exists>st1. UpdateFields E i (swap_email new) st = DbOk st1 \<and> t_users st' = t_users st1) \<and>
    (\<forall>s \<in> set (t_sessions st'). se_user_id s = i \<longrightarrow> se_revoked s)"
proof -
  obtain x where x: "FindByEmailChangeToken E (HashToken (sha256 E) tok) st = DbOk (Some x)"
    "us_email_change_new x = Some new" "us_email x = old" "us_id x = i"
    and tx: "confirm_email_tx E x new st = (Inr (), st')"
    using assms by (auto simp: ConfirmEmailChange_def split: dbres.splits option.splits prod.splits sum.splits
        if_splits dest!: Transaction_Inr)
  obtain st1 n st2 where u: "UpdateFields E (us_id x) (swap_email new) st = DbOk st1"
    and r: "session_RevokeAll E (us_id x) None st1 = (Inr n, st2)"
    and m: "send_mail E \<lparr>ml_to = us_email x, ml_kind = ''account_email_changed'', ml_token = [], ml_new_email = new\<rparr> st2
      = (Inr (), st')"
    using tx by (auto simp: confirm_email_tx_def mail_SendEmailChangedNotice_def split: dbres.splits prod.splits sum.splits)
  have "x \<in> set (t_users st) \<and> us_email_change_token x = Some (HashToken (sha256 E) tok) \<and>
      is_after (us_email_change_expires_at x) (wall E)"
    using x(1) by (auto simp: FindByEmailChangeToken_def stmt_def split: if_splits dest: first_where_SomeD)
  then show ?thesis using x u update_revoke_mail [OF u r m] by blast
qed

lemma ConfirmEmailChange_atomic:
  assumes "gorm_rollback E" and "ConfirmEmailChange E tok st = (Inl e, st')"
  shows "tables st' = tables st"
  using assms Transaction_Inl_tables [OF assms(1)]
  by (auto simp: ConfirmEmailChange_def split: dbres.splits option.splits prod.splits sum.splits if_splits)

lemma CancelDeletion_effect:
  assumes "CancelDeletion E tok st = (Inr (), st')"
  shows "\<exists>x \<in> set (t_users st). us_deletion_token x = Some (HashToken (sha256 E) tok) \<and>
    is_after (us_deletion_purge_after x) (wall E) \<and>
    t_users st' = update_where (\<lambda>y. us_id y = us_id x) (touch_user E restore_account) (t_users st)"
proof -
  obtain x where x: "FindByDeletionToken E (HashToken (sha256 E) tok) st = DbOk (Some x)"
    and u: "UpdateFields E (us_id x) restore_account st = DbOk st'"
    using assms by (auto simp: CancelDeletion_def split: dbres.splits option.splits)
  have "x \<in> set (t_users st) \<and> us_deletion_token x = Some (HashToken (sha256 E) tok) \<and>
      is_after (us_deletion_purge_after x) (wall E)"
    using x by (auto simp: FindByDeletionToken_def stmt_def split: if_splits dest: first_where_SomeD)
  then show ?thesis using UpdateFields_table [OF u] by auto
qed

end
