(* ===== verification/Middleware.thy ===== *)
theory Middleware
  imports Accounts Introspection Clients
begin

text \<open>
  The HTTP layer: responses and pagination (\<^verbatim>\<open>pkg/response.go\<close>) and the middlewares of the package
  \<^verbatim>\<open>middleware\<close> (bearer and client authentication, client assertions over a cache of remote key
  sets, scope and step-up gates, rate limiting, CORS), with \<^verbatim>\<open>main.chainMW\<close>. Gin is outside the
  repository: a request is a record of what the middlewares read from it, the request context a
  record of the keys they set, and \<^verbatim>\<open>c.Next()\<close> an argument.
\<close>

section \<open>Requests, contexts and responses\<close>

record http_request =
  rq_method :: string
  rq_path :: string
  rq_header :: "string \<Rightarrow> string"
  rq_query :: "string \<Rightarrow> string"
  rq_form :: "string \<Rightarrow> string"
  rq_cookie :: "string \<Rightarrow> string option"
  rq_ip :: string

record gin =
  gc_user_id :: "uuid option"
  gc_session_id :: "uuid option"
  gc_token_id :: "string option"
  gc_client_id :: "uuid option"
  gc_scopes :: "string list option"
  gc_oauth_client :: "client option"
  gc_reauth :: "reauth_token option"

definition empty_gin :: gin where
  "empty_gin = \<lparr>gc_user_id = None, gc_session_id = None, gc_token_id = None, gc_client_id = None,
     gc_scopes = None, gc_oauth_client = None, gc_reauth = None\<rparr>"

text \<open>The three shapes of an error body: an OAuth error, an application error nested under
  \<^verbatim>\<open>error\<close>, and an application error written as it is.\<close>

datatype error_body =
    OAuthBody string string
  | NestedBody string string
  | FlatBody string string

record refusal =
  rf_status :: nat
  rf_body :: error_body
  rf_headers :: "(string \<times> string) list"

fun HandleError :: "err \<Rightarrow> refusal" where
  "HandleError (OAuthError code desc status) = \<lparr>rf_status = status, rf_body = OAuthBody code desc, rf_headers = []\<rparr>"
| "HandleError (AppError msg code status) = \<lparr>rf_status = status, rf_body = NestedBody code msg, rf_headers = []\<rparr>"
| "HandleError (DriverError s) = \<lparr>rf_status = 500,
     rf_body = NestedBody ''internal_error'' ''an unexpected error occurred'', rf_headers = []\<rparr>"

definition abort_json :: "nat \<Rightarrow> string \<Rightarrow> string \<Rightarrow> refusal" where
  "abort_json status code msg = \<lparr>rf_status = status, rf_body = FlatBody code msg, rf_headers = []\<rparr>"

subsection \<open>Pagination\<close>

record 'a page =
  pg_data :: 'a
  pg_total :: int
  pg_page :: int
  pg_per_page :: int
  pg_total_pages :: int

definition Paginated :: "'a \<Rightarrow> int \<Rightarrow> int \<Rightarrow> int \<Rightarrow> 'a page" where
  "Paginated data n page perPage =
     \<lparr>pg_data = data, pg_total = n, pg_page = page, pg_per_page = perPage,
      pg_total_pages = trunc_div n perPage + (if n - trunc_div n perPage * perPage > 0 then 1 else 0)\<rparr>"

definition pkg_List :: "'a \<Rightarrow> int \<Rightarrow> 'a page" where
  "pkg_List items n = Paginated items n 1 (if n = 0 then 1 else n)"

fun pkg_atoi :: "int \<Rightarrow> string \<Rightarrow> int" where
  "pkg_atoi n [] = n"
| "pkg_atoi n (c # cs) =
     (if (of_char c :: nat) < 48 \<or> (of_char c :: nat) > 57 then 0
      else pkg_atoi (int64 (n * 10 + (of_char c - 48))) cs)"

definition ParsePagination :: "http_request \<Rightarrow> int \<times> int" where
  "ParsePagination r =
     ((let v = pkg_atoi 0 (rq_query r ''page'') in if rq_query r ''page'' \<noteq> [] \<and> v > 0 then v else 1),
      (let v = pkg_atoi 0 (rq_query r ''per_page'')
       in if rq_query r ''per_page'' \<noteq> [] \<and> v > 0 \<and> v \<le> 100 then v else 20))"

section \<open>Bearer tokens\<close>

definition ParseBearer :: "string \<Rightarrow> string" where
  "ParseBearer h =
     (case cut_at (CHR '' '') h of
        (scheme, rest, found) \<Rightarrow> if found \<and> EqualFold scheme ''Bearer'' \<and> rest \<noteq> [] then rest else [])"

definition BearerAuth :: "env \<Rightarrow> db \<Rightarrow> http_request \<Rightarrow> gin \<Rightarrow> refusal + gin" where
  "BearerAuth E st r g =
     (let raw = ParseBearer (rq_header r ''Authorization'')
      in if raw = [] then Inl (HandleError (ErrUnauthorized ''missing or invalid authorization header''))
         else case LookupActiveAccessToken E raw st of
           Inr (Some t) \<Rightarrow>
             if (case at_session_id t of
                   None \<Rightarrow> True
                 | Some s \<Rightarrow> session_IsActive E s st = Inr True)
             then Inr (g\<lparr>gc_token_id := Some (at_id t), gc_client_id := Some (at_client_id t),
                  gc_user_id := (case at_user_id t of None \<Rightarrow> gc_user_id g | Some u \<Rightarrow> Some u),
                  gc_session_id := (case at_session_id t of None \<Rightarrow> gc_session_id g | Some s \<Rightarrow> Some s),
                  gc_scopes := Some (at_scopes t)\<rparr>)
             else Inl (HandleError (ErrUnauthorized ''session expired or revoked''))
         | _ \<Rightarrow> Inl (HandleError (ErrUnauthorized ''invalid or expired token'')))"

section \<open>Machine-to-machine scopes\<close>

definition abortForbidden :: "nat \<Rightarrow> string \<Rightarrow> string \<Rightarrow> string \<Rightarrow> refusal" where
  "abortForbidden status code msg scope =
     \<lparr>rf_status = status, rf_body = FlatBody code msg,
      rf_headers = [(''WWW-Authenticate'', ''Bearer error='' @ quoted code @ '', error_description='' @ quoted msg
        @ '', scope='' @ quoted scope)]\<rparr>"

definition RequireClientScope ::
  "env \<Rightarrow> string \<Rightarrow> string \<Rightarrow> db \<Rightarrow> http_request \<Rightarrow> gin \<Rightarrow> refusal + gin" where
  "RequireClientScope E requiredScope audience st r g =
     (let raw = ParseBearer (rq_header r ''Authorization'')
      in if raw = [] then Inl (HandleError (ErrUnauthorized ''missing or invalid authorization header''))
         else case LookupActiveAccessToken E raw st of
           Inr (Some t) \<Rightarrow>
             if at_user_id t \<noteq> None
             then Inl (abortForbidden 403 ''m2m_only''
                    ''this endpoint requires a client_credentials token (no user binding)'' requiredScope)
             else if at_audience t \<noteq> Some audience
             then Inl (abortForbidden 403 ''wrong_audience''
                    (''token audience does not match '' @ quoted audience) requiredScope)
             else if \<not> List.member (at_scopes t) requiredScope
             then Inl (abortForbidden 403 ''insufficient_scope''
                    (''token is missing required scope '' @ quoted requiredScope) requiredScope)
             else Inr (g\<lparr>gc_client_id := Some (at_client_id t), gc_token_id := Some (at_id t),
                  gc_scopes := Some (at_scopes t)\<rparr>)
         | _ \<Rightarrow> Inl (HandleError (ErrUnauthorized ''invalid or expired token'')))"

section \<open>Step-up reauthentication\<close>

definition RequireReauth :: "env \<Rightarrow> db \<Rightarrow> http_request \<Rightarrow> gin \<Rightarrow> refusal + gin" where
  "RequireReauth E st r g =
     (let raw = rq_header r ''X-Reauth-Token''
      in if raw = [] then Inl (abort_json 403 ''reauth_required'' ''step-up reauthentication required'')
         else case gc_user_id g of
           None \<Rightarrow> Inl (abort_json 401 ''unauthorized'' ''not authenticated'')
         | Some u \<Rightarrow>
             (case gc_session_id g of
                None \<Rightarrow> Inl (abort_json 401 ''unauthorized'' ''reauth requires a session-bound token'')
              | Some s \<Rightarrow>
                  (case reauth_Verify E raw u s st of
                     DbErr \<Rightarrow> Inl (abort_json 500 ''internal_error'' ''failed to verify reauth token'')
                   | DbOk None \<Rightarrow> Inl (abort_json 403 ''reauth_invalid'' ''invalid or expired reauth token'')
                   | DbOk (Some t) \<Rightarrow> Inr (g\<lparr>gc_reauth := Some t\<rparr>))))"

text \<open>Called by a handler after the action succeeded; a failing consumption goes unnoticed.\<close>

definition ConsumeReauth :: "env \<Rightarrow> string \<Rightarrow> gin \<Rightarrow> db \<Rightarrow> bool \<times> db" where
  "ConsumeReauth E action g st =
     (case gc_reauth g of
        None \<Rightarrow> (False, st)
      | Some t \<Rightarrow> (True, snd (reauth_Consume E (ra_id t) action st)))"

end
