(* ===== verification/RateLimit.thy ===== *)
theory RateLimit
  imports Middleware
begin

text \<open>
  The remaining middlewares: the token buckets per address (\<^verbatim>\<open>middleware/ratelimit.go\<close>), CORS
  (\<^verbatim>\<open>middleware/cors.go\<close>) and the fixed headers. The floating point arithmetic of the buckets is
  taken exactly, over the rationals.
\<close>

section \<open>Rate limiting\<close>

definition ErrTooManyRequests :: "string \<Rightarrow> err" where
  "ErrTooManyRequests m = AppError m ''too_many_requests'' 429"

record tokenBucket =
  tb_tokens :: rat
  tb_maxTokens :: rat
  tb_refillRate :: rat
  tb_lastRefill :: time

definition elapsed_seconds :: "time \<Rightarrow> time \<Rightarrow> rat" where
  "elapsed_seconds now since = of_int (time_sub now since) / 1000000000"

definition bucket_allow :: "time \<Rightarrow> tokenBucket \<Rightarrow> bool \<times> tokenBucket" where
  "bucket_allow now b =
     (let n = min (tb_maxTokens b) (tb_tokens b + elapsed_seconds now (tb_lastRefill b) * tb_refillRate b)
      in if n \<ge> 1 then (True, b\<lparr>tb_tokens := n - 1, tb_lastRefill := now\<rparr>)
         else (False, b\<lparr>tb_tokens := n, tb_lastRefill := now\<rparr>))"

record rateLimiter =
  rl_buckets :: "string \<Rightarrow> tokenBucket option"
  rl_max :: rat
  rl_rate :: rat

definition NewRateLimiter :: "rat \<Rightarrow> rat \<Rightarrow> rateLimiter" where
  "NewRateLimiter maxRequests perSecond =
     \<lparr>rl_buckets = (\<lambda>ip. None), rl_max = maxRequests, rl_rate = perSecond\<rparr>"

definition rl_cleanup :: "time \<Rightarrow> rateLimiter \<Rightarrow> rateLimiter" where
  "rl_cleanup now L = L\<lparr>rl_buckets := (\<lambda>ip. case rl_buckets L ip of
     None \<Rightarrow> None
   | Some b \<Rightarrow> if tb_lastRefill b < now - minutes 10 then None else Some b)\<rparr>"

definition getBucket :: "time \<Rightarrow> string \<Rightarrow> rateLimiter \<Rightarrow> tokenBucket \<times> rateLimiter" where
  "getBucket now ip L =
     (case rl_buckets L ip of
        Some b \<Rightarrow> (b, L)
      | None \<Rightarrow>
          (let b = \<lparr>tb_tokens = rl_max L, tb_maxTokens = rl_max L, tb_refillRate = rl_rate L, tb_lastRefill = now\<rparr>
           in (b, L\<lparr>rl_buckets := (rl_buckets L)(ip := Some b)\<rparr>)))"

definition rl_Middleware :: "time \<Rightarrow> http_request \<Rightarrow> rateLimiter \<Rightarrow> (refusal + unit) \<times> rateLimiter" where
  "rl_Middleware now r L =
     (case getBucket now (rq_ip r) L of
        (b, L1) \<Rightarrow>
          (case bucket_allow now b of
             (allowed, b1) \<Rightarrow>
               ((if allowed then Inr ()
                 else Inl (HandleError (ErrTooManyRequests ''rate limit exceeded, try again later''))),
                L1\<lparr>rl_buckets := (rl_buckets L1)(rq_ip r := Some b1)\<rparr>)))"

section \<open>CORS and fixed headers\<close>

record cors_config =
  cc_allowed_origins :: "string list"
  cc_allowed_methods :: "string list"
  cc_allowed_headers :: "string list"
  cc_max_age :: int

text \<open>The headers set, and whether the request ends here (a preflight).\<close>

definition CORS :: "cors_config \<Rightarrow> http_request \<Rightarrow> (string \<times> string) list \<times> bool" where
  "CORS c r =
     (let origin = rq_header r ''Origin'';
          allowed = filter (\<lambda>x. x \<noteq> ''*'') (cc_allowed_origins c);
          common = [(''Access-Control-Allow-Methods'', join_with '', '' (cc_allowed_methods c)),
            (''Access-Control-Allow-Headers'', join_with '', '' (cc_allowed_headers c)),
            (''Access-Control-Max-Age'', itoa (cc_max_age c))]
      in if origin = [] then ([], False)
         else ((if List.member allowed origin
                then (''Access-Control-Allow-Origin'', origin) # common @ [(''Access-Control-Allow-Credentials'', ''true'')]
                else if List.member (cc_allowed_origins c) ''*''
                then (''Access-Control-Allow-Origin'', ''*'') # common
                else []), rq_method r = ''OPTIONS''))"

definition SecurityHeaders :: "bool \<Rightarrow> (string \<times> string) list" where
  "SecurityHeaders hstsEnabled =
     [(''X-Content-Type-Options'', ''nosniff''), (''X-Frame-Options'', ''DENY''),
      (''Referrer-Policy'', ''strict-origin-when-cross-origin''), (''X-XSS-Protection'', ''0''),
      (''Content-Security-Policy'', ''default-src '' @ [char_of (39::nat)] @ ''none'' @ [char_of (39::nat)] @
         ''; frame-ancestors '' @ [char_of (39::nat)] @ ''none'' @ [char_of (39::nat)])]
     @ (if hstsEnabled then [(''Strict-Transport-Security'', ''max-age=31536000; includeSubDomains'')] else [])"

text \<open>The identifier of the request comes from the client when it sends one.\<close>

definition RequestID :: "string \<Rightarrow> http_request \<Rightarrow> string" where
  "RequestID fresh r = (if rq_header r ''X-Request-ID'' = [] then fresh else rq_header r ''X-Request-ID'')"

section \<open>How much a limiter admits\<close>

datatype rl_event = Hit time http_request | Sweep time

fun ev_time :: "rl_event \<Rightarrow> time" where
  "ev_time (Hit t r) = t"
| "ev_time (Sweep t) = t"

fun rl_step :: "rl_event \<Rightarrow> rateLimiter \<Rightarrow> rateLimiter" where
  "rl_step (Hit t r) L = snd (rl_Middleware t r L)"
| "rl_step (Sweep t) L = rl_cleanup t L"

fun admits :: "string \<Rightarrow> rl_event \<Rightarrow> rateLimiter \<Rightarrow> bool" where
  "admits ip (Hit t r) L = (rq_ip r = ip \<and> fst (rl_Middleware t r L) = Inr ())"
| "admits ip (Sweep t) L = False"

fun rl_run :: "rl_event list \<Rightarrow> rateLimiter \<Rightarrow> rateLimiter" where
  "rl_run [] L = L"
| "rl_run (e # es) L = rl_run es (rl_step e L)"

fun admitted :: "string \<Rightarrow> rl_event list \<Rightarrow> rateLimiter \<Rightarrow> nat" where
  "admitted ip [] L = 0"
| "admitted ip (e # es) L = (if admits ip e L then 1 else 0) + admitted ip es (rl_step e L)"

text \<open>What an address could spend at an instant: a bucket that does not exist counts as full.\<close>

definition credit :: "time \<Rightarrow> string \<Rightarrow> rateLimiter \<Rightarrow> rat" where
  "credit t ip L = (case rl_buckets L ip of
     None \<Rightarrow> rl_max L
   | Some b \<Rightarrow> min (rl_max L) (tb_tokens b + elapsed_seconds t (tb_lastRefill b) * rl_rate L))"

definition limiter_ok :: "time \<Rightarrow> rateLimiter \<Rightarrow> bool" where
  "limiter_ok t L \<longleftrightarrow> 0 \<le> rl_rate L \<and> 0 \<le> rl_max L \<and> rl_max L \<le> 600 * rl_rate L \<and>
     (\<forall>ip b. rl_buckets L ip = Some b \<longrightarrow> tb_maxTokens b = rl_max L \<and> tb_refillRate b = rl_rate L \<and>
        0 \<le> tb_tokens b \<and> tb_lastRefill b \<le> t)"

lemma elapsed_le: "a \<le> b \<Longrightarrow> 0 \<le> elapsed_seconds b a \<and> elapsed_seconds b a \<le> of_int (b - a) / 1000000000"
  by (auto simp: elapsed_seconds_def time_sub_def divide_right_mono)

lemma elapsed_self [simp]: "elapsed_seconds t t = 0"
  by (simp add: elapsed_seconds_def time_sub_def)

lemma elapsed_step: "l \<le> t \<Longrightarrow> t \<le> t' \<Longrightarrow>
    elapsed_seconds t' l \<le> elapsed_seconds t l + of_int (t' - t) / 1000000000"
  by (auto simp: elapsed_seconds_def time_sub_def min_def max_def field_simps simp flip: of_int_diff of_int_add)

lemma credit_le_max: "limiter_ok t L \<Longrightarrow> credit t ip L \<le> rl_max L"
  by (auto simp: credit_def split: option.splits)

lemma credit_nonneg: "limiter_ok t L \<Longrightarrow> 0 \<le> credit t ip L"
  using elapsed_le by (fastforce simp: credit_def limiter_ok_def split: option.splits)

lemma credit_later:
  assumes "limiter_ok t L" and "t \<le> t'"
  shows "credit t' ip L \<le> credit t ip L + rl_rate L * of_int (t' - t) / 1000000000"
proof (cases "rl_buckets L ip")
  case None
  then show ?thesis using assms by (simp add: credit_def limiter_ok_def)
next
  case (Some b)
  have r: "0 \<le> rl_rate L" and l: "tb_lastRefill b \<le> t" using assms(1) Some by (auto simp: limiter_ok_def)
  define d where "d = rl_rate L * of_int (t' - t) / 1000000000"
  have d: "0 \<le> d" using r assms(2) by (simp add: d_def)
  have "elapsed_seconds t' (tb_lastRefill b) * rl_rate L
      \<le> (elapsed_seconds t (tb_lastRefill b) + of_int (t' - t) / 1000000000) * rl_rate L"
    by (rule mult_right_mono [OF elapsed_step [OF l assms(2)] r])
  then have "elapsed_seconds t' (tb_lastRefill b) * rl_rate L \<le> elapsed_seconds t (tb_lastRefill b) * rl_rate L + d"
    by (simp add: d_def ring_distribs add_divide_distrib mult.commute)
  then show ?thesis using Some d unfolding d_def [symmetric] by (auto simp: credit_def min_def)
qed

lemma minutes_10: "minutes 10 = 600000000000"
  by code_simp

lemma rl_limits: "rl_max (rl_step e L) = rl_max L" "rl_rate (rl_step e L) = rl_rate L"
  by (cases e; auto simp: rl_Middleware_def rl_cleanup_def getBucket_def Let_def split: prod.splits option.splits)+

lemma rl_Middleware_limits [simp]: "rl_max (snd (rl_Middleware t r L)) = rl_max L"
    "rl_rate (snd (rl_Middleware t r L)) = rl_rate L"
  using rl_limits [of "Hit t r"] by simp_all

lemma rl_cleanup_limits [simp]: "rl_max (rl_cleanup t L) = rl_max L" "rl_rate (rl_cleanup t L) = rl_rate L"
  by (simp_all add: rl_cleanup_def)

lemma bucket_allow_parts:
  "bucket_allow t b = (a, b') \<Longrightarrow> tb_maxTokens b' = tb_maxTokens b \<and> tb_refillRate b' = tb_refillRate b \<and>
     tb_lastRefill b' = t \<and> (if a then 1 else 0) + tb_tokens b' =
       min (tb_maxTokens b) (tb_tokens b + elapsed_seconds t (tb_lastRefill b) * tb_refillRate b) \<and>
     (0 \<le> tb_tokens b \<longrightarrow> 0 \<le> tb_maxTokens b \<longrightarrow> 0 \<le> tb_refillRate b \<longrightarrow> tb_lastRefill b \<le> t \<longrightarrow> 0 \<le> tb_tokens b')"
  using elapsed_le [of "tb_lastRefill b" t] by (auto simp: bucket_allow_def Let_def split: if_splits)

lemma Hit_bucket:
  assumes "rl_step (Hit t r) L = L'"
  shows "\<exists>b b'. (rl_buckets L (rq_ip r) = Some b \<or> rl_buckets L (rq_ip r) = None \<and>
      b = \<lparr>tb_tokens = rl_max L, tb_maxTokens = rl_max L, tb_refillRate = rl_rate L, tb_lastRefill = t\<rparr>) \<and>
    bucket_allow t b = (admits (rq_ip r) (Hit t r) L, b') \<and> rl_buckets L' = (rl_buckets L)(rq_ip r := Some b')"
  using assms by (cases "rl_buckets L (rq_ip r)")
    (auto simp: rl_Middleware_def getBucket_def Let_def split: prod.splits)

lemma rl_step_ok:
  assumes "limiter_ok t L" and "t \<le> ev_time e"
  shows "limiter_ok (ev_time e) (rl_step e L)"
proof (cases e)
  case (Hit t' r)
  obtain b b' where b: "rl_buckets L (rq_ip r) = Some b \<or> rl_buckets L (rq_ip r) = None \<and>
      b = \<lparr>tb_tokens = rl_max L, tb_maxTokens = rl_max L, tb_refillRate = rl_rate L, tb_lastRefill = t'\<rparr>"
    and a: "bucket_allow t' b = (admits (rq_ip r) (Hit t' r) L, b')"
    and u: "rl_buckets (rl_step (Hit t' r) L) = (rl_buckets L)(rq_ip r := Some b')"
    using Hit_bucket [OF refl] by blast
  have "tb_maxTokens b = rl_max L \<and> tb_refillRate b = rl_rate L \<and> 0 \<le> tb_tokens b \<and> tb_lastRefill b \<le> t'"
    using b assms Hit by (auto simp: limiter_ok_def dest: order_trans)
  moreover have "\<forall>ip b. rl_buckets L ip = Some b \<longrightarrow> tb_lastRefill b \<le> t'"
    using assms Hit by (fastforce simp: limiter_ok_def)
  ultimately show ?thesis
    using assms(1) bucket_allow_parts [OF a] u unfolding Hit limiter_ok_def rl_limits by auto
next
  case (Sweep t')
  then show ?thesis using assms
    by (fastforce simp: limiter_ok_def rl_cleanup_def split: option.splits if_splits)
qed

lemma credit_step:
  assumes "limiter_ok t L" and "t \<le> ev_time e"
  shows "(if admits ip e L then 1 else 0) + credit (ev_time e) ip (rl_step e L) \<le> credit (ev_time e) ip L"
proof (cases e)
  case (Hit t' r)
  obtain b b' where b: "rl_buckets L (rq_ip r) = Some b \<or> rl_buckets L (rq_ip r) = None \<and>
      b = \<lparr>tb_tokens = rl_max L, tb_maxTokens = rl_max L, tb_refillRate = rl_rate L, tb_lastRefill = t'\<rparr>"
    and a: "bucket_allow t' b = (admits (rq_ip r) (Hit t' r) L, b')"
    and u: "rl_buckets (rl_step (Hit t' r) L) = (rl_buckets L)(rq_ip r := Some b')"
    using Hit_bucket [OF refl] by blast
  note p = bucket_allow_parts [OF a]
  have "tb_maxTokens b = rl_max L \<and> tb_refillRate b = rl_rate L" using b assms by (auto simp: limiter_ok_def)
  then have "(if admits ip (Hit t' r) L then 1 else 0) + tb_tokens b' = credit t' ip L" if "ip = rq_ip r"
    using that b p by (auto simp: credit_def)
  moreover have "credit t' ip (rl_step (Hit t' r) L) \<le> tb_tokens b'" if "ip = rq_ip r"
    using that u p by (simp add: credit_def)
  ultimately show ?thesis
    using u unfolding Hit by (cases "ip = rq_ip r") (auto simp: credit_def split: option.splits)
next
  case (Sweep t')
  have "rl_max L \<le> tb_tokens b + elapsed_seconds t' (tb_lastRefill b) * rl_rate L"
    if "rl_buckets L ip = Some b" and "tb_lastRefill b < t' - 600000000000" for b
  proof -
    have "600 \<le> elapsed_seconds t' (tb_lastRefill b)"
      using that(2) by (simp add: elapsed_seconds_def time_sub_def min_def max_def field_simps
          flip: of_int_diff of_int_add)
    then have "600 * rl_rate L \<le> elapsed_seconds t' (tb_lastRefill b) * rl_rate L"
      using assms(1) by (auto simp: limiter_ok_def intro: mult_right_mono)
    then show ?thesis using assms(1) that(1) by (fastforce simp: limiter_ok_def)
  qed
  then show ?thesis
    unfolding Sweep by (auto simp: credit_def rl_cleanup_def minutes_10 split: option.splits)
qed

lemma admitted_le_credit:
  "sorted (t # map ev_time es) \<Longrightarrow> limiter_ok t L \<Longrightarrow>
     of_nat (admitted ip es L) \<le> credit t ip L + rl_rate L * of_int (last (t # map ev_time es) - t) / 1000000000"
proof (induction es arbitrary: t L)
  case Nil
  then show ?case using credit_nonneg [of t L ip] by simp
next
  case (Cons e es)
  let ?t = "ev_time e" and ?L = "rl_step e L"
  have le: "t \<le> ?t" using Cons.prems by simp
  have "of_nat (admitted ip es ?L) \<le> credit ?t ip ?L
      + rl_rate L * of_int (last (?t # map ev_time es) - ?t) / 1000000000"
    using Cons.IH [of ?t ?L] Cons.prems rl_step_ok [OF Cons.prems(2) le] by (simp add: rl_limits)
  moreover note credit_step [OF Cons.prems(2) le, of ip]
  moreover note credit_later [OF Cons.prems(2) le, of ip]
  ultimately show ?case by (simp add: ring_distribs add_divide_distrib diff_divide_distrib split: if_splits)
qed

lemma rl_run_ok: "sorted (t # map ev_time es) \<Longrightarrow> limiter_ok t L \<Longrightarrow>
    limiter_ok (last (t # map ev_time es)) (rl_run es L) \<and> rl_max (rl_run es L) = rl_max L \<and> rl_rate (rl_run es L) = rl_rate L"
proof (induction es arbitrary: t L)
  case (Cons e es)
  then show ?case using Cons.IH [of "ev_time e" "rl_step e L"] rl_step_ok [of t L e] by (auto simp: rl_limits)
qed simp

end
