(* ===== verification/ClientAuth.thy ===== *)
theory ClientAuth
  imports Middleware
begin

text \<open>
  Authentication of OAuth clients (\<^verbatim>\<open>middleware/client_auth.go\<close>): a secret by HTTP Basic or in the
  form, no secret for public clients, or a signed assertion checked against the client's sealed
  HMAC key or its remote key set (\<^verbatim>\<open>middleware/jwt_client_auth.go\<close>). Signed request objects
  (\<^verbatim>\<open>oauth/request_object.go\<close>) use the same cache of key sets. The JWT library, HTTP and JSON
  decoding are the fields of \<open>jwt_lib\<close> and \<open>web\<close>.
\<close>

section \<open>Keys and tokens\<close>

datatype jwt_key = HmacKey string | RsaKey nat int

record jwt =
  jt_alg :: string
  jt_header :: any_map
  jt_claims :: any_map

text \<open>\<^verbatim>\<open>golang-jwt\<close>: parsing without and with verification (the options say whether an expiry is
  required and which algorithms are allowed; the key function sees the parsed token), and the typed
  claim getters, which fail on a claim of another type.\<close>

record jwt_lib =
  jl_unverified :: "string \<Rightarrow> jwt option"
  jl_parse :: "bool \<Rightarrow> string list option \<Rightarrow> (jwt \<Rightarrow> string + jwt_key) \<Rightarrow> time \<Rightarrow> string \<Rightarrow> string + jwt"
  jl_string :: "any_map \<Rightarrow> string \<Rightarrow> string option"
  jl_audience :: "any_map \<Rightarrow> string list option"
  jl_struct_field :: "string \<Rightarrow> string \<Rightarrow> string option"
  jl_jwks :: "string \<Rightarrow> (string \<times> string \<times> string \<times> string) list option"

text \<open>HTTP GET: an error, or status and body.\<close>

record web =
  wb_net :: net_lib
  wb_get :: "string \<Rightarrow> string + (nat \<times> string)"

definition is_hmac :: "string \<Rightarrow> bool" where
  "is_hmac alg \<longleftrightarrow> List.member [''HS256'', ''HS384'', ''HS512''] alg"

definition is_rsa :: "string \<Rightarrow> bool" where
  "is_rsa alg \<longleftrightarrow> List.member [''RS256'', ''RS384'', ''RS512'', ''PS256'', ''PS384'', ''PS512''] alg"

definition is_ecdsa :: "string \<Rightarrow> bool" where
  "is_ecdsa alg \<longleftrightarrow> List.member [''ES256'', ''ES384'', ''ES512''] alg"

text \<open>What the library promises of a verified token: it is the token read without verification, the
  key function accepted it, its algorithm is allowed, and a required expiry has not passed.\<close>

definition exp_claim :: "any_map \<Rightarrow> rat option" where
  "exp_claim m = num_claim m ''exp''"

definition jwt_verifies :: "jwt_lib \<Rightarrow> (string \<Rightarrow> jwt_key \<Rightarrow> string \<Rightarrow> bool) \<Rightarrow> bool" where
  "jwt_verifies J sig_ok \<longleftrightarrow>
     (\<forall>req methods keyf now s t. jl_parse J req methods keyf now s = Inr t \<longrightarrow>
        jl_unverified J s = Some t \<and> (\<exists>k. keyf t = Inr k \<and> sig_ok (jt_alg t) k s) \<and>
        (case methods of None \<Rightarrow> True | Some ms \<Rightarrow> jt_alg t \<in> set ms) \<and>
        (req \<longrightarrow> (\<exists>e. exp_claim (jt_claims t) = Some e \<and> of_int (unix now) \<le> e)))"

subsection \<open>Key sets\<close>

definition bytes_nat :: "string \<Rightarrow> nat" where
  "bytes_nat s = foldl (\<lambda>n c. n * 256 + of_char c) 0 s"

text \<open>\<^verbatim>\<open>big.Int.Int64\<close> keeps the low 64 bits.\<close>

definition ParseJWKToRSAPublicKey :: "string \<Rightarrow> string \<Rightarrow> jwt_key option" where
  "ParseJWKToRSAPublicKey nB64 eB64 =
     (case raw_url_decode nB64 of
        None \<Rightarrow> None
      | Some n \<Rightarrow>
          (case raw_url_decode eB64 of
             None \<Rightarrow> None
           | Some e \<Rightarrow> Some (RsaKey (bytes_nat n) (int64 (int (bytes_nat e))))))"

fun collect_keys :: "(string \<times> string \<times> string \<times> string) list \<Rightarrow> (string \<times> jwt_key) list" where
  "collect_keys [] = []"
| "collect_keys ((kid, kty, n, e) # ks) =
     (if kty \<noteq> ''RSA'' \<or> kid = [] then collect_keys ks
      else case ParseJWKToRSAPublicKey n e of
             None \<Rightarrow> collect_keys ks
           | Some k \<Rightarrow> collect_keys ks @ [(kid, k)])"

definition fetchJWKS :: "web \<Rightarrow> jwt_lib \<Rightarrow> string \<Rightarrow> string + (string \<times> jwt_key) list" where
  "fetchJWKS W J uri =
     (case ValidatePublicHTTPSURL (wb_net W) uri of
        Some msg \<Rightarrow> Inl (''jwks_uri rejected: '' @ msg)
      | None \<Rightarrow>
          (case wb_get W uri of
             Inl msg \<Rightarrow> Inl msg
           | Inr (status, body) \<Rightarrow>
               if status \<noteq> 200 then Inl (''JWKS endpoint returned status '' @ itoa (int status))
               else (case jl_jwks J (take 1048576 body) of
                       None \<Rightarrow> Inl ''invalid JWKS''
                     | Some ks \<Rightarrow> Inr (collect_keys ks))))"

type_synonym jwks_cache = "(string \<times> (string \<times> jwt_key) list \<times> time) list"

definition jwksCacheTTL :: duration where
  "jwksCacheTTL = minutes 5"

definition cached_key :: "time \<Rightarrow> jwks_cache \<Rightarrow> string \<Rightarrow> string \<Rightarrow> jwt_key option" where
  "cached_key now C uri kid =
     (case map_of C uri of
        None \<Rightarrow> None
      | Some (keys, fetchedAt) \<Rightarrow> if time_sub now fetchedAt < jwksCacheTTL then map_of keys kid else None)"

text \<open>An unknown key identifier refetches the set, so that a rotated key is found at once.\<close>

definition GetKey ::
  "web \<Rightarrow> jwt_lib \<Rightarrow> time \<Rightarrow> string \<Rightarrow> string \<Rightarrow> jwks_cache \<Rightarrow> (string + jwt_key) \<times> jwks_cache" where
  "GetKey W J now uri kid C =
     (case cached_key now C uri kid of
        Some k \<Rightarrow> (Inr k, C)
      | None \<Rightarrow>
          (case fetchJWKS W J uri of
             Inl msg \<Rightarrow> (Inl (''failed to fetch JWKS from '' @ uri @ '': '' @ msg), C)
           | Inr keys \<Rightarrow>
               ((case map_of keys kid of
                   None \<Rightarrow> Inl (''key '' @ kid @ '' not found in JWKS'')
                 | Some k \<Rightarrow> Inr k),
                (uri, keys, now) # C)))"

section \<open>Client assertions\<close>

definition str_of :: "any_map \<Rightarrow> string \<Rightarrow> string" where
  "str_of m k = (case map_of m k of Some (AStr s) \<Rightarrow> s | _ \<Rightarrow> [])"

definition validateAssertionCommonClaims ::
  "jwt_lib \<Rightarrow> env \<Rightarrow> string \<Rightarrow> string \<Rightarrow> string + (jwt \<times> uuid)" where
  "validateAssertionCommonClaims J E assertion tokenEndpoint =
     (case jl_unverified J assertion of
        None \<Rightarrow> Inl ''malformed client assertion JWT''
      | Some t \<Rightarrow>
          (case jl_string J (jt_claims t) ''sub'' of
             None \<Rightarrow> Inl ''missing sub claim in client assertion''
           | Some sub \<Rightarrow>
               if sub = [] then Inl ''missing sub claim in client assertion''
               else (case uuid_parse E sub of
                  None \<Rightarrow> Inl ''invalid client_id in sub claim''
                | Some clientID \<Rightarrow>
                    if jl_string J (jt_claims t) ''iss'' \<noteq> Some sub
                    then Inl ''iss must equal sub in client assertion''
                    else (case jl_audience J (jt_claims t) of
                       None \<Rightarrow> Inl ''missing aud claim''
                     | Some aud \<Rightarrow>
                         if \<not> List.member aud tokenEndpoint
                         then Inl ''aud must contain the token endpoint URL''
                         else if str_of (jt_claims t) ''jti'' = [] then Inl ''missing jti claim''
                         else Inr (t, clientID)))))"

definition ValidateClientSecretJWT :: "jwt_lib \<Rightarrow> env \<Rightarrow> string \<Rightarrow> string \<Rightarrow> string \<Rightarrow> string + uuid" where
  "ValidateClientSecretJWT J E assertion tokenEndpoint hmacKey =
     (if hmacKey = [] then Inl ''client has no hmac key configured for client_secret_jwt''
      else case validateAssertionCommonClaims J E assertion tokenEndpoint of
        Inl msg \<Rightarrow> Inl msg
      | Inr (t, clientID) \<Rightarrow>
          if \<not> is_hmac (jt_alg t) then Inl ''client_secret_jwt requires an HMAC signing method''
          else (case jl_parse J True (Some [''HS256''])
                       (\<lambda>t. if is_hmac (jt_alg t) then Inr (HmacKey hmacKey) else Inl ''unexpected signing method'')
                       (clk E) assertion of
                  Inl msg \<Rightarrow> Inl (''client assertion verification failed: '' @ msg)
                | Inr _ \<Rightarrow> Inr clientID))"

definition ValidateClientAssertionJWT ::
  "web \<Rightarrow> jwt_lib \<Rightarrow> env \<Rightarrow> string \<Rightarrow> string \<Rightarrow> string \<Rightarrow> jwks_cache \<Rightarrow> (string + uuid) \<times> jwks_cache" where
  "ValidateClientAssertionJWT W J E assertion tokenEndpoint uri C =
     (case validateAssertionCommonClaims J E assertion tokenEndpoint of
        Inl msg \<Rightarrow> (Inl msg, C)
      | Inr (t, clientID) \<Rightarrow>
          (let kid = str_of (jt_header t) ''kid''
           in if kid = [] then (Inl ''missing kid in JWT header'', C)
              else (case GetKey W J (clk E) uri kid C of
                 (Inl msg, C1) \<Rightarrow> (Inl (''failed to get signing key: '' @ msg), C1)
               | (Inr k, C1) \<Rightarrow>
                   ((case jl_parse J True None
                            (\<lambda>t. if is_rsa (jt_alg t) then Inr k else Inl ''unexpected signing method'')
                            (clk E) assertion of
                       Inl msg \<Rightarrow> Inl (''client assertion verification failed: '' @ msg)
                     | Inr _ \<Rightarrow> Inr clientID), C1))))"

text \<open>Header algorithm and stored credentials of the client an assertion names.\<close>

definition resolveAssertionClient ::
  "jwt_lib \<Rightarrow> env \<Rightarrow> string \<Rightarrow> db \<Rightarrow> string + (string \<times> uuid \<times> string \<times> string)" where
  "resolveAssertionClient J E assertion st =
     (case split_on (CHR ''.'') assertion of
        h # p # sig # rest \<Rightarrow>
          (case raw_url_decode h of
             None \<Rightarrow> Inl ''malformed JWT header''
           | Some hb \<Rightarrow>
          (case jl_struct_field J ''alg'' hb of
             None \<Rightarrow> Inl ''invalid JWT header''
           | Some alg \<Rightarrow>
          (case raw_url_decode p of
             None \<Rightarrow> Inl ''malformed JWT payload''
           | Some pb \<Rightarrow>
          (case jl_struct_field J ''sub'' pb of
             None \<Rightarrow> Inl ''invalid JWT claims''
           | Some sub \<Rightarrow>
          (case uuid_parse E sub of
             None \<Rightarrow> Inl ''invalid client_id in sub claim''
           | Some cid \<Rightarrow>
               (case FindActive E cid st of
                  DbOk (Some c) \<Rightarrow> Inr (alg, cid, cl_secret_hmac_key c, given_else (cl_jwks_uri c) [])
                | _ \<Rightarrow> Inl ''unknown client''))))))
      | _ \<Rightarrow> Inl ''malformed JWT'')"

section \<open>The middleware\<close>

record client_auth =
  ca_prims :: primitives
  ca_token_endpoint :: string
  ca_web :: web
  ca_jwt :: jwt_lib
  ca_hmac_key :: string
  ca_policy :: "(string \<Rightarrow> any_map \<Rightarrow> (bool \<times> string) dbres) option"

text \<open>What the request presents: the client, the secret, the method and whether a signature was
  verified.\<close>

type_synonym presented = "uuid \<times> string \<times> string \<times> bool"

definition basic_credentials :: "env \<Rightarrow> http_request \<Rightarrow> string + presented option" where
  "basic_credentials E r =
     (let h = rq_header r ''Authorization''
      in if \<not> has_prefix ''Basic '' h then Inr None
         else case padded raw_std_decode (drop 6 h) of
           None \<Rightarrow> Inl ''malformed basic auth header''
         | Some decoded \<Rightarrow>
             (case cut_at (CHR '':'') decoded of
                (user, pw, found) \<Rightarrow>
                  if \<not> found then Inl ''malformed basic auth credentials''
                  else (case uuid_parse E user of
                          None \<Rightarrow> Inl ''invalid client_id''
                        | Some i \<Rightarrow> Inr (Some (i, pw, ''client_secret_basic'', False)))))"

definition post_credentials :: "env \<Rightarrow> http_request \<Rightarrow> string + presented option" where
  "post_credentials E r =
     (if rq_form r ''client_id'' = [] then Inr None
      else case uuid_parse E (rq_form r ''client_id'') of
             None \<Rightarrow> Inl ''invalid client_id''
           | Some i \<Rightarrow> Inr (Some (i, rq_form r ''client_secret'',
               (if rq_form r ''client_secret'' \<noteq> [] then ''client_secret_post'' else ''none''), False)))"

definition assertion_type :: string where
  "assertion_type = ''urn:ietf:params:oauth:client-assertion-type:jwt-bearer''"

definition hmac_assertion ::
  "client_auth \<Rightarrow> env \<Rightarrow> string \<Rightarrow> string \<Rightarrow> string + uuid" where
  "hmac_assertion A E assertion sealed =
     (if ca_hmac_key A = [] then Inl ''client_secret_jwt is not enabled on this server''
      else if sealed = [] then Inl ''client has no hmac key configured for client_secret_jwt''
      else case DecryptHMACSecret (ca_prims A) sealed (ca_hmac_key A) of
             None \<Rightarrow> Inl ''failed to recover client hmac key''
           | Some k \<Rightarrow> ValidateClientSecretJWT (ca_jwt A) E assertion (ca_token_endpoint A) k)"

definition assertion_credentials ::
  "client_auth \<Rightarrow> env \<Rightarrow> http_request \<Rightarrow> db \<Rightarrow> jwks_cache \<Rightarrow> (string + presented option) \<times> jwks_cache" where
  "assertion_credentials A E r st C =
     (let assertion = rq_form r ''client_assertion''
      in if rq_form r ''client_assertion_type'' \<noteq> assertion_type \<or> assertion = [] then (Inr None, C)
         else case resolveAssertionClient (ca_jwt A) E assertion st of
           Inl msg \<Rightarrow> (Inl msg, C)
         | Inr (alg, sub, sealed, uri) \<Rightarrow>
             (let (res, meth, C1) =
                (if alg = ''HS256'' then (hmac_assertion A E assertion sealed, ''client_secret_jwt'', C)
                 else if uri = [] then (Inl ''client has no jwks_uri configured for private_key_jwt'', ''private_key_jwt'', C)
                 else case ValidateClientAssertionJWT (ca_web A) (ca_jwt A) E assertion (ca_token_endpoint A) uri C of
                        (res, C1) \<Rightarrow> (res, ''private_key_jwt'', C1))
              in case res of
                   Inl msg \<Rightarrow> (Inl msg, C1)
                 | Inr cid \<Rightarrow>
                     if cid \<noteq> sub then (Inl ''client_id mismatch'', C1)
                     else (Inr (Some (cid, [], meth, True)), C1)))"

text \<open>A source is consulted only while no client is known; the nil identifier counts as none.\<close>

definition known :: "presented option \<Rightarrow> bool" where
  "known p = (case p of None \<Rightarrow> False | Some (i, _) \<Rightarrow> i \<noteq> uuid_nil)"

definition presented_credentials ::
  "client_auth \<Rightarrow> env \<Rightarrow> http_request \<Rightarrow> db \<Rightarrow> jwks_cache \<Rightarrow> (string + presented) \<times> jwks_cache" where
  "presented_credentials A E r st C =
     (case basic_credentials E r of
        Inl msg \<Rightarrow> (Inl msg, C)
      | Inr p1 \<Rightarrow>
     (case (if known p1 then Inr p1 else post_credentials E r) of
        Inl msg \<Rightarrow> (Inl msg, C)
      | Inr p2 \<Rightarrow>
     (case (if known p2 then (Inr p2, C) else assertion_credentials A E r st C) of
        (Inl msg, C1) \<Rightarrow> (Inl msg, C1)
      | (Inr p3, C1) \<Rightarrow>
          (case p3 of
             Some p \<Rightarrow> if known p3 then (Inr p, C1) else (Inl ''missing client credentials'', C1)
           | None \<Rightarrow> (Inl ''missing client credentials'', C1)))))"

definition check_secret :: "client_auth \<Rightarrow> client \<Rightarrow> presented \<Rightarrow> string option" where
  "check_secret A c p =
     (case p of (i, secret, meth, verified) \<Rightarrow>
        if verified \<or> cl_is_public c then None
        else if secret = [] then Some ''client authentication required''
        else case cl_secret_hash c of
               None \<Rightarrow> Some ''client has no secret configured''
             | Some h \<Rightarrow>
                 if argon2_Verify (ca_prims A) secret h = Inr True then None
                 else Some ''invalid client credentials'')"

text \<open>A failing evaluation lets the client through.\<close>

definition client_auth_policy :: "client_auth \<Rightarrow> env \<Rightarrow> http_request \<Rightarrow> client \<Rightarrow> string \<Rightarrow> string option" where
  "client_auth_policy A E r c meth =
     (case ca_policy A of
        None \<Rightarrow> None
      | Some evaluate \<Rightarrow>
          (case evaluate ''client_auth'' (BuildClientAuthInput (input_env_of E) c meth
                  (rq_method r) (rq_path r) (rq_ip r) (rq_header r ''User-Agent'')) of
             DbOk (True, reason) \<Rightarrow> Some reason
           | _ \<Rightarrow> None))"

definition ClientAuth ::
  "client_auth \<Rightarrow> env \<Rightarrow> db \<Rightarrow> http_request \<Rightarrow> gin \<Rightarrow> jwks_cache \<Rightarrow> (refusal + gin) \<times> jwks_cache" where
  "ClientAuth A E st r g C =
     (case presented_credentials A E r st C of
        (Inl msg, C1) \<Rightarrow> (Inl (HandleError (ErrInvalidClient msg)), C1)
      | (Inr p, C1) \<Rightarrow>
          ((case FindActive E (fst p) st of
              DbOk (Some c) \<Rightarrow>
                (case check_secret A c p of
                   Some msg \<Rightarrow> Inl (HandleError (ErrInvalidClient msg))
                 | None \<Rightarrow>
                     (case client_auth_policy A E r c (fst (snd (snd p))) of
                        Some reason \<Rightarrow> Inl (HandleError (ErrInvalidClient reason))
                      | None \<Rightarrow> Inr (g\<lparr>gc_oauth_client := Some c\<rparr>)))
            | _ \<Rightarrow> Inl (HandleError (ErrInvalidClient ''unknown client''))), C1))"

section \<open>Signed request objects\<close>

definition string_claims :: "any_map \<Rightarrow> (string \<times> string) list" where
  "string_claims m = concat (map (\<lambda>(k, v). case v of AStr s \<Rightarrow> [(k, s)] | _ \<Rightarrow> []) m)"

definition ParseAndVerifyRequestObject ::
  "web \<Rightarrow> jwt_lib \<Rightarrow> env \<Rightarrow> string \<Rightarrow> client \<Rightarrow> jwks_cache \<Rightarrow> (string + (string \<times> string) list) \<times> jwks_cache" where
  "ParseAndVerifyRequestObject W J E s c C =
     (case given_else (cl_jwks_uri c) [] of
        [] \<Rightarrow> (Inl ''client has no jwks_uri configured; signed request objects are required'', C)
      | uri \<Rightarrow>
     (case jl_unverified J s of
        None \<Rightarrow> (Inl ''malformed request object'', C)
      | Some t \<Rightarrow>
          (let alg = str_of (jt_header t) ''alg''; kid = str_of (jt_header t) ''kid''
           in if alg = [] \<or> alg = ''none'' then (Inl ''request object must be signed (alg=none rejected)'', C)
              else if kid = [] then (Inl ''missing kid in request object header'', C)
              else (case GetKey W J (clk E) uri kid C of
                 (Inl msg, C1) \<Rightarrow> (Inl (''failed to resolve request object signing key: '' @ msg), C1)
               | (Inr k, C1) \<Rightarrow>
                   ((case jl_parse J False None
                            (\<lambda>t. if is_rsa (jt_alg t) \<or> is_ecdsa (jt_alg t) then Inr k
                                  else Inl (''unsupported request object alg '' @ quoted alg))
                            (clk E) s of
                       Inl msg \<Rightarrow> Inl (''request object signature verification failed: '' @ msg)
                     | Inr t' \<Rightarrow> Inr (string_claims (jt_claims t'))), C1)))))"

text \<open>Fetched request objects are cached by address for five minutes.\<close>

type_synonym fetch_cache = "(string \<times> string \<times> time) list"

definition requestObjectMaxBytes :: nat where
  "requestObjectMaxBytes = 1048576"

definition requestObjectFetchCacheTTL :: duration where
  "requestObjectFetchCacheTTL = minutes 5"

definition fetch_cache_get :: "time \<Rightarrow> string \<Rightarrow> fetch_cache \<Rightarrow> string option" where
  "fetch_cache_get now u F =
     (case map_of F u of
        None \<Rightarrow> None
      | Some (body, fetchedAt) \<Rightarrow> if time_sub now fetchedAt > requestObjectFetchCacheTTL then None else Some body)"

definition fetch_cache_set :: "time \<Rightarrow> string \<Rightarrow> string \<Rightarrow> fetch_cache \<Rightarrow> fetch_cache" where
  "fetch_cache_set now u body F = (u, body, now) # F"

definition FetchRequestURI :: "web \<Rightarrow> time \<Rightarrow> string \<Rightarrow> fetch_cache \<Rightarrow> (string + string) \<times> fetch_cache" where
  "FetchRequestURI W now u F =
     (case fetch_cache_get now u F of
        Some body \<Rightarrow> (Inr body, F)
      | None \<Rightarrow>
          (case wb_get W u of
             Inl msg \<Rightarrow> (Inl (''fetch request_uri: '' @ msg), F)
           | Inr (status, body) \<Rightarrow>
               if status \<noteq> 200 then (Inl (''request_uri returned status '' @ itoa (int status)), F)
               else if length body > requestObjectMaxBytes
               then (Inl (''request_uri body exceeds '' @ itoa (int requestObjectMaxBytes) @ '' bytes''), F)
               else (Inr body, fetch_cache_set now u body F)))"

section \<open>Lemmas\<close>

text \<open>Where a verification key can come from.\<close>

definition key_of_client :: "client_auth \<Rightarrow> jwks_cache \<Rightarrow> client \<Rightarrow> jwt_key \<Rightarrow> bool" where
  "key_of_client A C c k \<longleftrightarrow>
     (\<exists>hk. k = HmacKey hk \<and> DecryptHMACSecret (ca_prims A) (cl_secret_hmac_key c) (ca_hmac_key A) = Some hk) \<or>
     (\<exists>uri keys. cl_jwks_uri c = Some uri \<and> k \<in> snd ` set keys \<and>
        (map_option fst (map_of C uri) = Some keys \<or> fetchJWKS (ca_web A) (ca_jwt A) uri = Inr keys))"

text \<open>A signed statement of the client, for this token endpoint, that has not expired.\<close>

definition assertion_proves ::
  "client_auth \<Rightarrow> env \<Rightarrow> (string \<Rightarrow> jwt_key \<Rightarrow> string \<Rightarrow> bool) \<Rightarrow> jwks_cache \<Rightarrow> client \<Rightarrow> string \<Rightarrow> bool" where
  "assertion_proves A E sig_ok C c s \<longleftrightarrow>
     (\<exists>t k sub aud e. jl_unverified (ca_jwt A) s = Some t \<and> sig_ok (jt_alg t) k s \<and> key_of_client A C c k \<and>
        jl_string (ca_jwt A) (jt_claims t) ''sub'' = Some sub \<and> uuid_parse E sub = Some (cl_id c) \<and>
        jl_string (ca_jwt A) (jt_claims t) ''iss'' = Some sub \<and>
        jl_audience (ca_jwt A) (jt_claims t) = Some aud \<and> ca_token_endpoint A \<in> set aud \<and>
        exp_claim (jt_claims t) = Some e \<and> of_int (unix (clk E)) \<le> e)"

lemma common_claims_Inr:
  "validateAssertionCommonClaims J E s ep = Inr (t, i) \<Longrightarrow>
     \<exists>sub aud. jl_unverified J s = Some t \<and> jl_string J (jt_claims t) ''sub'' = Some sub \<and>
       uuid_parse E sub = Some i \<and> jl_string J (jt_claims t) ''iss'' = Some sub \<and>
       jl_audience J (jt_claims t) = Some aud \<and> ep \<in> set aud"
  by (auto simp: validateAssertionCommonClaims_def Let_def split: option.splits if_splits)

lemma GetKey_Inr:
  assumes "GetKey W J now uri kid C = (Inr k, C')"
  shows "\<exists>keys. k \<in> snd ` set keys \<and> (map_option fst (map_of C uri) = Some keys \<or> fetchJWKS W J uri = Inr keys)"
proof (cases "cached_key now C uri kid")
  case None
  then obtain keys where "fetchJWKS W J uri = Inr keys" "map_of keys kid = Some k"
    using assms by (auto simp: GetKey_def split: sum.splits option.splits)
  then show ?thesis by (force dest: map_of_SomeD)
next
  case (Some k')
  then have "k' = k" using assms by (simp add: GetKey_def)
  then obtain keys since where "map_of C uri = Some (keys, since)" "map_of keys kid = Some k"
    using Some by (auto simp: cached_key_def split: option.splits prod.splits if_splits)
  then show ?thesis by (force dest: map_of_SomeD)
qed

lemma is_hmac_HS256 [simp]: "is_hmac ''HS256''"
  by (simp add: is_hmac_def)

lemma hmac_assertion_Inr:
  assumes J: "jwt_verifies (ca_jwt A) sig_ok" and "hmac_assertion A E s sealed = Inr i"
  shows "\<exists>hk t. DecryptHMACSecret (ca_prims A) sealed (ca_hmac_key A) = Some hk \<and>
    validateAssertionCommonClaims (ca_jwt A) E s (ca_token_endpoint A) = Inr (t, i) \<and>
    sig_ok (jt_alg t) (HmacKey hk) s \<and> (\<exists>e. exp_claim (jt_claims t) = Some e \<and> of_int (unix (clk E)) \<le> e)"
proof -
  obtain hk where hk: "DecryptHMACSecret (ca_prims A) sealed (ca_hmac_key A) = Some hk"
    and v: "ValidateClientSecretJWT (ca_jwt A) E s (ca_token_endpoint A) hk = Inr i"
    using assms(2) by (auto simp: hmac_assertion_def split: if_splits option.splits)
  let ?keyf = "\<lambda>t. if is_hmac (jt_alg t) then Inr (HmacKey hk) else Inl ''unexpected signing method''"
  obtain t t' where t: "validateAssertionCommonClaims (ca_jwt A) E s (ca_token_endpoint A) = Inr (t, i)"
    and p: "jl_parse (ca_jwt A) True (Some [''HS256'']) ?keyf (clk E) s = Inr t'"
    using v by (auto simp: ValidateClientSecretJWT_def split: if_splits sum.splits)
  from J [unfolded jwt_verifies_def, rule_format, OF p]
  have "jl_unverified (ca_jwt A) s = Some t'" "\<exists>k. ?keyf t' = Inr k \<and> sig_ok (jt_alg t') k s"
    "\<exists>e. exp_claim (jt_claims t') = Some e \<and> of_int (unix (clk E)) \<le> e" by auto
  moreover have "t' = t" using calculation(1) common_claims_Inr [OF t] by auto
  ultimately show ?thesis using hk t by (auto split: if_splits)
qed

lemma rsa_assertion_Inr:
  assumes J: "jwt_verifies J sig_ok" and "ValidateClientAssertionJWT W J E s ep uri C = (Inr i, C')"
  shows "\<exists>k t keys. validateAssertionCommonClaims J E s ep = Inr (t, i) \<and> sig_ok (jt_alg t) k s \<and>
    k \<in> snd ` set keys \<and> (map_option fst (map_of C uri) = Some keys \<or> fetchJWKS W J uri = Inr keys) \<and>
    (\<exists>e. exp_claim (jt_claims t) = Some e \<and> of_int (unix (clk E)) \<le> e)"
proof -
  obtain t k C1 t' where t: "validateAssertionCommonClaims J E s ep = Inr (t, i)"
    and k: "GetKey W J (clk E) uri (str_of (jt_header t) ''kid'') C = (Inr k, C1)"
    and p: "jl_parse J True None (\<lambda>t. if is_rsa (jt_alg t) then Inr k else Inl ''unexpected signing method'') (clk E) s = Inr t'"
    using assms(2) by (auto simp: ValidateClientAssertionJWT_def Let_def split: sum.splits if_splits prod.splits)
  from J [unfolded jwt_verifies_def, rule_format, OF p]
  have "jl_unverified J s = Some t'"
    "\<exists>k'. (if is_rsa (jt_alg t') then Inr k else Inl ''unexpected signing method'') = Inr k' \<and> sig_ok (jt_alg t') k' s"
    "\<exists>e. exp_claim (jt_claims t') = Some e \<and> of_int (unix (clk E)) \<le> e" by auto
  moreover have "t' = t" using calculation(1) common_claims_Inr [OF t] by auto
  ultimately show ?thesis using t GetKey_Inr [OF k] by (auto split: if_splits)
qed

lemma FindActive_Some: "FindActive E i st = DbOk (Some c) \<Longrightarrow> c \<in> set (t_clients st) \<and> cl_id c = i \<and> cl_active c"
  by (auto simp: FindActive_def FindActiveByID_def stmt_def split: if_splits dest: first_where_SomeD)

lemma resolve_Inr: "resolveAssertionClient J E s st = Inr (alg, cid, sealed, uri) \<Longrightarrow>
    \<exists>c. FindActive E cid st = DbOk (Some c) \<and> sealed = cl_secret_hmac_key c \<and> uri = given_else (cl_jwks_uri c) []"
  by (auto simp: resolveAssertionClient_def split: list.splits option.splits dbres.splits)

lemma assertion_provesI:
  assumes "validateAssertionCommonClaims (ca_jwt A) E s (ca_token_endpoint A) = Inr (t, cl_id c)"
    and "sig_ok (jt_alg t) k s" and "key_of_client A C c k"
    and "\<exists>e. exp_claim (jt_claims t) = Some e \<and> of_int (unix (clk E)) \<le> e"
  shows "assertion_proves A E sig_ok C c s"
  using common_claims_Inr [OF assms(1)] assms(2-4) unfolding assertion_proves_def by blast

lemma assertion_credentials_proved:
  assumes J: "jwt_verifies (ca_jwt A) sig_ok"
    and "assertion_credentials A E r st C = (Inr (Some (i, sec, m, v)), C')"
  shows "\<exists>c. FindActive E i st = DbOk (Some c) \<and>
    assertion_proves A E sig_ok C c (rq_form r ''client_assertion'')"
proof -
  let ?s = "rq_form r ''client_assertion''"
  obtain alg sealed uri where res: "resolveAssertionClient (ca_jwt A) E ?s st = Inr (alg, i, sealed, uri)"
    and chk: "alg = ''HS256'' \<and> hmac_assertion A E ?s sealed = Inr i \<or>
      uri \<noteq> [] \<and> (\<exists>C1. ValidateClientAssertionJWT (ca_web A) (ca_jwt A) E ?s (ca_token_endpoint A) uri C = (Inr i, C1))"
    using assms(2) by (auto simp: assertion_credentials_def Let_def split: sum.splits if_splits prod.splits)
  obtain c where c: "FindActive E i st = DbOk (Some c)" "sealed = cl_secret_hmac_key c" "uri = given_else (cl_jwks_uri c) []"
    using resolve_Inr [OF res] by blast
  have i: "i = cl_id c" using FindActive_Some [OF c(1)] by simp
  from chk have "assertion_proves A E sig_ok C c ?s"
  proof
    assume "alg = ''HS256'' \<and> hmac_assertion A E ?s sealed = Inr i"
    then obtain hk t where "DecryptHMACSecret (ca_prims A) sealed (ca_hmac_key A) = Some hk"
      and t: "validateAssertionCommonClaims (ca_jwt A) E ?s (ca_token_endpoint A) = Inr (t, i)"
      "sig_ok (jt_alg t) (HmacKey hk) ?s" "\<exists>e. exp_claim (jt_claims t) = Some e \<and> of_int (unix (clk E)) \<le> e"
      using hmac_assertion_Inr [OF J] by blast
    then have "key_of_client A C c (HmacKey hk)" using c(2) by (simp add: key_of_client_def)
    then show ?thesis using assertion_provesI t i by blast
  next
    assume u: "uri \<noteq> [] \<and> (\<exists>C1. ValidateClientAssertionJWT (ca_web A) (ca_jwt A) E ?s (ca_token_endpoint A) uri C = (Inr i, C1))"
    then obtain k t keys where t: "validateAssertionCommonClaims (ca_jwt A) E ?s (ca_token_endpoint A) = Inr (t, i)"
      "sig_ok (jt_alg t) k ?s" "\<exists>e. exp_claim (jt_claims t) = Some e \<and> of_int (unix (clk E)) \<le> e"
      and k: "k \<in> snd ` set keys" "map_option fst (map_of C uri) = Some keys \<or> fetchJWKS (ca_web A) (ca_jwt A) uri = Inr keys"
      using rsa_assertion_Inr [OF J] by blast
    have "cl_jwks_uri c = Some uri" using c(3) u by (cases "cl_jwks_uri c") (auto simp: given_else_def)
    then have "key_of_client A C c k" using k unfolding key_of_client_def by blast
    then show ?thesis using assertion_provesI t i by blast
  qed
  then show ?thesis using c(1) by blast
qed

lemma verified_by_assertion:
  assumes "presented_credentials A E r st C = (Inr (i, sec, m, True), C')"
  shows "assertion_credentials A E r st C = (Inr (Some (i, sec, m, True)), C')"
proof -
  have "basic_credentials E r \<noteq> Inr (Some (i, sec, m, True))"
    "post_credentials E r \<noteq> Inr (Some (i, sec, m, True))"
    by (auto simp: basic_credentials_def post_credentials_def Let_def split: if_splits option.splits prod.splits)
  then show ?thesis
    using assms by (auto simp: presented_credentials_def split: sum.splits if_splits prod.splits option.splits)
qed

lemma ClientAuth_admits:
  assumes J: "jwt_verifies (ca_jwt A) sig_ok" and "ClientAuth A E st r g C = (Inr g', C')"
  shows "\<exists>c. gc_oauth_client g' = Some c \<and> c \<in> set (t_clients st) \<and> cl_active c \<and>
    (cl_is_public c \<or>
     (\<exists>secret h. secret \<noteq> [] \<and> cl_secret_hash c = Some h \<and> argon2_Verify (ca_prims A) secret h = Inr True) \<or>
     assertion_proves A E sig_ok C c (rq_form r ''client_assertion''))"
proof -
  obtain p C1 c where p: "presented_credentials A E r st C = (Inr p, C1)" and c: "FindActive E (fst p) st = DbOk (Some c)"
    and s: "check_secret A c p = None" and g: "gc_oauth_client g' = Some c"
    using assms(2) by (auto simp: ClientAuth_def split: sum.splits prod.splits dbres.splits option.splits)
  obtain i secret m v where pp: "p = (i, secret, m, v)" by (cases p) auto
  have "assertion_proves A E sig_ok C c (rq_form r ''client_assertion'')" if "v"
    using assertion_credentials_proved [OF J, of E r st C i secret m v] verified_by_assertion [of A E r st C i secret m] p pp c that
    by auto
  moreover have "cl_is_public c \<or> secret \<noteq> [] \<and> (\<exists>h. cl_secret_hash c = Some h \<and> argon2_Verify (ca_prims A) secret h = Inr True)"
    if "\<not> v" using s pp that by (auto simp: check_secret_def split: if_splits option.splits)
  ultimately show ?thesis using g FindActive_Some [OF c] by (cases v) auto
qed

end
