(* ===== verification/Gates.thy ===== *)
theory Gates
  imports ClientAuth
begin

text \<open>
  Routes as gin runs them: middlewares around the pending handlers, \<^verbatim>\<open>main.chainMW\<close>, and the
  account handlers (\<^verbatim>\<open>account/handler.go\<close>) behind their permission, policy and step-up gates.
\<close>

section \<open>Middlewares around the pending handlers\<close>

datatype reply = Refused refusal | Sent nat any

text \<open>One request on its way: the database, the context, the answers written so far, whether the
  chain was aborted and whether the pending handlers have run.\<close>

record exchange =
  ex_db :: db
  ex_gin :: gin
  ex_replies :: "reply list"
  ex_aborted :: bool
  ex_handled :: bool

type_synonym handler = "exchange \<Rightarrow> exchange"

definition answer :: "reply \<Rightarrow> handler" where
  "answer r x = x\<lparr>ex_replies := ex_replies x @ [r]\<rparr>"

definition refuse :: "err \<Rightarrow> handler" where
  "refuse e = answer (Refused (HandleError e))"

text \<open>A middleware that refuses and aborts, or passes on with \<^verbatim>\<open>c.Next()\<close>.\<close>

definition gate :: "(exchange \<Rightarrow> refusal + gin) \<Rightarrow> handler \<Rightarrow> handler" where
  "gate chk next_handlers x =
     (case chk x of
        Inl r \<Rightarrow> (answer (Refused r) x)\<lparr>ex_aborted := True\<rparr>
      | Inr g \<Rightarrow> next_handlers (x\<lparr>ex_gin := g\<rparr>))"

fun chainMW :: "(handler \<Rightarrow> handler) list \<Rightarrow> handler \<Rightarrow> handler" where
  "chainMW [] next_handlers x = x"
| "chainMW (mw # mws) next_handlers x =
     (if ex_aborted x then x else chainMW mws next_handlers (mw next_handlers x))"

text \<open>What gin documents of \<^verbatim>\<open>Next\<close>: it runs the pending handlers, so a second call runs none.\<close>

definition runs_pending :: "handler \<Rightarrow> handler \<Rightarrow> bool" where
  "runs_pending next_handlers h \<longleftrightarrow>
     (\<forall>x. next_handlers x = (if ex_handled x then x else (h x)\<lparr>ex_handled := True\<rparr>))"

definition of_check :: "(exchange \<Rightarrow> unit res) \<Rightarrow> exchange \<Rightarrow> refusal + gin" where
  "of_check chk x = (case chk x of Inl e \<Rightarrow> Inl (HandleError e) | Inr _ \<Rightarrow> Inr (ex_gin x))"

definition permission_mw :: "env \<Rightarrow> string \<Rightarrow> handler \<Rightarrow> handler" where
  "permission_mw E p = gate (of_check (\<lambda>x. RequirePermission E p (gc_user_id (ex_gin x)) (ex_db x)))"

definition policy_mw :: "policy_gate \<Rightarrow> env \<Rightarrow> string \<Rightarrow> http_request \<Rightarrow> handler \<Rightarrow> handler" where
  "policy_mw G E action r = gate (of_check (\<lambda>x.
     account_gate G E action (gc_user_id (ex_gin x)) (rq_ip r) (rq_header r ''User-Agent'') (ex_db x)))"

definition reauth_mw :: "env \<Rightarrow> http_request \<Rightarrow> handler \<Rightarrow> handler" where
  "reauth_mw E r = gate (\<lambda>x. RequireReauth E (ex_db x) r (ex_gin x))"

definition bearer_mw :: "env \<Rightarrow> http_request \<Rightarrow> handler \<Rightarrow> handler" where
  "bearer_mw E r = gate (\<lambda>x. BearerAuth E (ex_db x) r (ex_gin x))"

section \<open>Account handlers\<close>

text \<open>A body that does not bind is \<open>None\<close>, with the binder's message. Auditing is not modelled.\<close>

type_synonym 'a body = "string + 'a"

definition message :: "string \<Rightarrow> reply" where
  "message m = Sent 200 (AObj [(''message'', AStr m)])"

definition bad_body :: "string \<Rightarrow> err" where
  "bad_body m = ErrBadRequest (''invalid request body: '' @ m)"

definition consumeReauth :: "env \<Rightarrow> string \<Rightarrow> handler" where
  "consumeReauth E action x = x\<lparr>ex_db := snd (ConsumeReauth E action (ex_gin x) (ex_db x))\<rparr>"

text \<open>A service call on the database, its error answered, its success continued with.\<close>

definition served :: "(db \<Rightarrow> 'a res \<times> db) \<Rightarrow> ('a \<Rightarrow> handler) \<Rightarrow> handler" where
  "served op k x =
     (case op (ex_db x) of
        (Inl e, st) \<Rightarrow> refuse e (x\<lparr>ex_db := st\<rparr>)
      | (Inr v, st) \<Rightarrow> k v (x\<lparr>ex_db := st\<rparr>))"

definition for_user :: "(uuid \<Rightarrow> handler) \<Rightarrow> handler" where
  "for_user k x =
     (case gc_user_id (ex_gin x) of
        None \<Rightarrow> refuse (ErrUnauthorized ''not authenticated'') x
      | Some u \<Rightarrow> k u x)"

definition with_body :: "'a body \<Rightarrow> ('a \<Rightarrow> handler) \<Rightarrow> handler" where
  "with_body b k x = (case b of Inl m \<Rightarrow> refuse (bad_body m) x | Inr v \<Rightarrow> k v x)"

definition ChangePassword_handler :: "env \<Rightarrow> (string \<times> string) body \<Rightarrow> handler" where
  "ChangePassword_handler E b = for_user (\<lambda>u. with_body b (\<lambda>(current, pw).
     served (account_ChangePassword E u current pw)
       (\<lambda>_ x. answer (message ''password changed'') (consumeReauth E ''account.password_changed'' x))))"

definition SetInitialPassword_handler :: "env \<Rightarrow> string body \<Rightarrow> handler" where
  "SetInitialPassword_handler E b = for_user (\<lambda>u. with_body b (\<lambda>pw.
     served (account_SetInitialPassword E u pw) (\<lambda>_. answer (message ''password set''))))"

definition RequestEmailChange_handler :: "account_service \<Rightarrow> env \<Rightarrow> string body \<Rightarrow> handler" where
  "RequestEmailChange_handler S E b = for_user (\<lambda>u. with_body b (\<lambda>new.
     served (RequestEmailChange S E u new)
       (\<lambda>_ x. answer (message ''confirmation email sent'') (consumeReauth E ''account.email_change_requested'' x))))"

definition ConfirmEmailChange_handler :: "env \<Rightarrow> string body \<Rightarrow> handler" where
  "ConfirmEmailChange_handler E b = with_body b (\<lambda>token.
     served (ConfirmEmailChange E token) (\<lambda>_. answer (message ''email updated'')))"

definition RequestDeletion_handler :: "account_service \<Rightarrow> env \<Rightarrow> handler" where
  "RequestDeletion_handler S E = for_user (\<lambda>u. served (RequestDeletion S E u)
     (\<lambda>_ x. answer (message ''account scheduled for deletion'') (consumeReauth E ''account.deletion_requested'' x)))"

definition CancelDeletion_handler :: "env \<Rightarrow> string body \<Rightarrow> handler" where
  "CancelDeletion_handler E b = with_body b (\<lambda>token.
     served (CancelDeletion E token) (\<lambda>_. answer (message ''deletion cancelled'')))"

text \<open>The route \<^verbatim>\<open>DELETE /me\<close> behind the bearer middleware, as \<^verbatim>\<open>setupRouter\<close> wires it.\<close>

definition delete_me :: "policy_gate \<Rightarrow> account_service \<Rightarrow> env \<Rightarrow> http_request \<Rightarrow> handler \<Rightarrow> handler" where
  "delete_me G S E r next_handlers =
     chainMW [permission_mw E ''account:delete_account'', policy_mw G E ''delete_account'' r] next_handlers"

definition delete_me_rest :: "account_service \<Rightarrow> env \<Rightarrow> http_request \<Rightarrow> handler" where
  "delete_me_rest S E r = reauth_mw E r (RequestDeletion_handler S E)"

end
