(* ===== verification/GateProperties.thy ===== *)
theory GateProperties
  imports RateLimit Gates Demo
begin

text \<open>
  What the HTTP layer and the self-service operations guarantee: who passes the client, bearer,
  machine and step-up gates, how much the rate limiter admits, what a deletion request and a
  confirmed change of address leave behind, and where the policy gate fails to gate.
\<close>

section \<open>Rate limiting\<close>


definition demo_request :: "string \<Rightarrow> http_request" where
  "demo_request auth = \<lparr>rq_method = ''POST'', rq_path = ''/token'',
     rq_header = (\<lambda>h. if h = ''Authorization'' then auth else if h = ''X-Reauth-Token'' then ''.step'' else []),
     rq_query = (\<lambda>k. []), rq_form = (\<lambda>k. []), rq_cookie = (\<lambda>k. None), rq_ip = ''10.0.0.1''\<rparr>"


section \<open>Bearer tokens and sessions\<close>

lemma BearerAuth_Inr:
  "BearerAuth E st r g = Inr g' \<Longrightarrow> \<exists>t. LookupActiveAccessToken E (ParseBearer (rq_header r ''Authorization'')) st = Inr (Some t) \<and>
     (case at_session_id t of None \<Rightarrow> True | Some s \<Rightarrow> session_IsActive E s st = Inr True) \<and>
     gc_user_id g' = (case at_user_id t of None \<Rightarrow> gc_user_id g | Some u \<Rightarrow> Some u) \<and>
     gc_session_id g' = (case at_session_id t of None \<Rightarrow> gc_session_id g | Some s \<Rightarrow> Some s) \<and>
     gc_client_id g' = Some (at_client_id t) \<and> gc_scopes g' = Some (at_scopes t)"
  by (auto simp: BearerAuth_def Let_def split: if_splits sum.splits option.splits)

text \<open>Signing a session out stops its tokens: once a session was revoked, no request gets through the
  bearer middleware on its behalf, even with an access token that is itself unexpired and unrevoked.\<close>

theorem signed_out_session_stops_tokens:
  assumes "session_Revoke E s u st = (Inr (), st')" and "BearerAuth E' st' r empty_gin = Inr g"
  shows "gc_session_id g \<noteq> Some s"
  using BearerAuth_Inr [OF assms(2)] revoke_makes_inactive [OF assms(1)]
  by (auto simp: empty_gin_def split: option.splits)

lemma demo_revoke: "ran (session_Revoke demo_env (UUID 3) (UUID 2) (demo_db\<lparr>t_access_tokens := [demo_access\<lparr>at_session_id := None\<rparr>]\<rparr>))"
  by (simp add: session_Revoke_def session_FindByID_def session_Revoke_row_def session_row_def run_store demo_rows)

lemma demo_bearer: "\<exists>g. BearerAuth demo_env (snd (session_Revoke demo_env (UUID 3) (UUID 2)
    (demo_db\<lparr>t_access_tokens := [demo_access\<lparr>at_session_id := None\<rparr>]\<rparr>))) (demo_request ''Bearer .a1'') empty_gin = Inr g"
proof -
  have "ParseBearer ''Bearer .a1'' = ''.a1''" by code_simp
  then show ?thesis
    by (simp add: BearerAuth_def demo_request_def session_Revoke_def session_FindByID_def session_Revoke_row_def
        session_row_def LookupActiveAccessToken_def at_IsValid_def run_store demo_rows Let_def)
qed

theorem signed_out_session_stops_tokens_witness:
  "\<exists>st' g. session_Revoke demo_env (UUID 3) (UUID 2) (demo_db\<lparr>t_access_tokens := [demo_access\<lparr>at_session_id := None\<rparr>]\<rparr>)
      = (Inr (), st') \<and> BearerAuth demo_env st' (demo_request ''Bearer .a1'') empty_gin = Inr g \<and>
    gc_session_id g \<noteq> Some (UUID 3)"
proof -
  from ran_Inr [OF demo_revoke] obtain st' where s: "session_Revoke demo_env (UUID 3) (UUID 2)
      (demo_db\<lparr>t_access_tokens := [demo_access\<lparr>at_session_id := None\<rparr>]\<rparr>) = (Inr (), st')" by auto
  obtain g where g: "BearerAuth demo_env st' (demo_request ''Bearer .a1'') empty_gin = Inr g"
    using demo_bearer s by auto
  from signed_out_session_stops_tokens [OF s g] show ?thesis using s g by blast
qed

section \<open>Step-up tokens\<close>

lemma RequireReauth_Inr:
  "RequireReauth E st r g = Inr g' \<Longrightarrow> \<exists>u s t. gc_user_id g = Some u \<and> gc_session_id g = Some s \<and>
     reauth_Verify E (rq_header r ''X-Reauth-Token'') u s st = DbOk (Some t) \<and> gc_reauth g' = Some t"
  by (auto simp: RequireReauth_def Let_def split: if_splits option.splits dbres.splits)


definition demo_step :: reauth_token where
  "demo_step = \<lparr>ra_id = HashToken id ''.step'', ra_user_id = UUID 2, ra_session_id = UUID 3, ra_method = ''password'',
     ra_used = False, ra_used_at = None, ra_consumed_by = None, ra_expires_at = 1000300000000\<rparr>"

definition step_db :: db where
  "step_db = demo_db\<lparr>t_reauth_tokens := [demo_step]\<rparr>"

definition demo_gin :: gin where
  "demo_gin = empty_gin\<lparr>gc_user_id := Some (UUID 2), gc_session_id := Some (UUID 3)\<rparr>"

lemma demo_step_passes:
  "RequireReauth demo_env step_db (demo_request []) demo_gin = Inr (demo_gin\<lparr>gc_reauth := Some demo_step\<rparr>)"
  by (simp add: RequireReauth_def demo_request_def demo_gin_def empty_gin_def reauth_Verify_def FindByHash_def
      reauth_row_def stmt_def step_db_def demo_step_def ra_IsValid_def)


section \<open>Client authentication\<close>


definition demo_jwt_lib :: jwt_lib where
  "demo_jwt_lib = \<lparr>jl_unverified = (\<lambda>s. None), jl_parse = (\<lambda>b ms k t s. Inl ''no token''),
     jl_string = (\<lambda>m k. Some []), jl_audience = (\<lambda>m. None), jl_struct_field = (\<lambda>k s. None), jl_jwks = (\<lambda>s. None)\<rparr>"

definition demo_auth :: client_auth where
  "demo_auth = \<lparr>ca_prims = \<lparr>kd_argon2id = (\<lambda>pw s t m p n. Some (replicate n (CHR ''k''))),
       kd_argon2i = (\<lambda>pw s t m p n. None), kd_bcrypt = (\<lambda>h pw. Inr False), dg_sha256 = id, dg_sha1 = id, dg_md5 = id,
       gcm_seal = (\<lambda>k n p. p), gcm_open = (\<lambda>k n c. None)\<rparr>,
     ca_token_endpoint = ''iss/token'', ca_web = \<lparr>wb_net = \<lparr>nl_parse_error = (\<lambda>s. []), nl_lookup = (\<lambda>h. Inl []),
       nl_ip_string = (\<lambda>ip. [])\<rparr>, wb_get = (\<lambda>u. Inl [])\<rparr>,
     ca_jwt = demo_jwt_lib, ca_hmac_key = [], ca_policy = None\<rparr>"

definition public_form :: "string \<Rightarrow> string" where
  "public_form k = (if k = ''client_id'' then ''u'' else [])"

definition public_request :: http_request where
  "public_request = (demo_request [])\<lparr>rq_form := public_form\<rparr>"

definition public_db :: db where
  "public_db = demo_db\<lparr>t_clients := [demo_client\<lparr>cl_is_public := True\<rparr>]\<rparr>"

lemma demo_client_admitted: "ClientAuth demo_auth demo_env public_db public_request empty_gin []
    = (Inr (empty_gin\<lparr>gc_oauth_client := Some (demo_client\<lparr>cl_is_public := True\<rparr>)\<rparr>), [])"
  by (simp add: ClientAuth_def presented_credentials_def basic_credentials_def post_credentials_def known_def
      public_request_def demo_request_def public_form_def has_prefix_def demo_uuid_parse_def uuid_nil_def public_db_def
      FindActive_def FindActiveByID_def stmt_def demo_rows check_secret_def client_auth_policy_def demo_auth_def Let_def)


section \<open>Deleting an account\<close>

lemma deletion_leaves:
  assumes "RequestDeletion S E u st = (Inr (), st')"
  shows "\<exists>x. user_row st' u = Some x \<and> \<not> us_active x \<and> us_deleted_at x = Some (clk E) \<and>
      us_deletion_purge_after x = Some (clk E + as_deletion_grace S)"
  using RequestDeletion_effect [OF assms] by (auto simp: schedule_deletion_def)

lemma RequestDeletion_users_inv:
  assumes "RequestDeletion S E u st = (Inr (), st')" and "users_inv st"
  shows "users_inv st'"
proof -
  obtain x raw h st1 where g: "GenerateOpaqueToken E st = (Some (raw, h), st1)"
    and tx: "deletion_tx E x u raw h (clk E + as_deletion_grace S) st1 = (Inr (), st')"
    using assms(1) by (auto simp: RequestDeletion_def split: sum.splits option.splits prod.splits if_splits dest!: Transaction_Inr)
  let ?f = "schedule_deletion (clk E) h (clk E + as_deletion_grace S)"
  obtain st2 n st3 where u: "UpdateFields E u ?f st1 = DbOk st2" and r: "session_RevokeAll E u None st2 = (Inr n, st3)"
    and m: "send_mail E (mail_of (us_email x) ''account_deletion'' raw) st3 = (Inr (), st')"
    using tx by (auto simp: deletion_tx_def mail_SendAccountDeletionEmail_def split: dbres.splits prod.splits sum.splits)
  have "users_inv st1" using assms(2) GenerateOpaqueToken_SomeD [OF g] by (simp add: users_inv_def bump_def)
  then have "users_inv st2" using users_inv_UpdateFields [OF u] by (simp add: schedule_deletion_def)
  then show ?thesis using update_revoke_mail [OF u r m] users_inv_cong by metis
qed

text \<open>A deletion request closes the account at once: the account is deactivated with its purge date,
  every session of the user is revoked, and no password login of this user succeeds in the state it
  leaves.\<close>

theorem deletion_request_closes_account:
  assumes "RequestDeletion S E u st = (Inr (), st')" and "users_inv st"
  shows "(\<exists>x. user_row st' u = Some x \<and> \<not> us_active x \<and>
      us_deletion_purge_after x = Some (clk E + as_deletion_grace S)) \<and>
    list_all (\<lambda>s. se_user_id s = u \<longrightarrow> se_revoked s) (t_sessions st') \<and>
    (\<nexists>E' e pw v st''. Authenticate E' e pw st' = (Inr v, st'') \<and> us_id v = u)"
  using deletion_leaves [OF assms(1)] RequestDeletion_effect [OF assms(1)]
    inactive_not_authenticated [OF RequestDeletion_users_inv [OF assms]]
  unfolding list_all_iff by metis

definition demo_account :: account_service where
  "demo_account = \<lparr>as_email_change_ttl = 3600000000000, as_deletion_grace = 600000000000\<rparr>"

lemmas run_account = RequestDeletion_def deletion_tx_def GetByID_def user_FindByID_def user_row_def
  GenerateOpaqueToken_def UpdateFields_def email_conflict_def schedule_deletion_def update_where_def touch_user_def
  session_RevokeAll_def RevokeAllForUser_def mail_SendAccountDeletionEmail_def send_mail_def enqueueRendered_def
  enqueueOutboundEmail_def new_uuid_def insert_row_def Transaction_def stmt_def stmt_opt_def mail_of_def
  blank_email_def demo_account_def bump_def

lemma demo_deletion: "ran (RequestDeletion demo_account demo_env (UUID 2) demo_db)"
  by (simp add: run_account ran_def demo_rows demo_db_def empty_db_def uuid_nil_def)

lemma demo_users_inv: "users_inv demo_db"
  by (simp add: users_inv_def keys_unique_def)

theorem deletion_request_closes_account_witness:
  "\<exists>st' x. RequestDeletion demo_account demo_env (UUID 2) demo_db = (Inr (), st') \<and>
     user_row st' (UUID 2) = Some x \<and> \<not> us_active x"
proof -
  from ran_Inr [OF demo_deletion] obtain st' where
    d: "RequestDeletion demo_account demo_env (UUID 2) demo_db = (Inr (), st')" by auto
  from deletion_request_closes_account [OF d demo_users_inv] show ?thesis using d by blast
qed

section \<open>The policy gate of self-service routes\<close>

lemma permission_passes:
  "RequirePermission E p (gc_user_id (ex_gin x)) (ex_db x) = Inr () \<Longrightarrow> permission_mw E p nxt x = nxt x"
  by (simp add: permission_mw_def gate_def of_check_def)

lemma policy_refuses:
  "account_gate G E action (gc_user_id (ex_gin x)) (rq_ip r) (rq_header r ''User-Agent'') (ex_db x) = Inl e \<Longrightarrow>
     policy_mw G E action r nxt x = (answer (Refused (HandleError e)) x)\<lparr>ex_aborted := True\<rparr>"
  by (simp add: policy_mw_def gate_def of_check_def)

lemma reauth_passes:
  "RequireReauth E (ex_db x) r (ex_gin x) = Inr g \<Longrightarrow> reauth_mw E r nxt x = nxt (x\<lparr>ex_gin := g\<rparr>)"
  by (simp add: reauth_mw_def gate_def)

lemma spend_keeps_users: "user_row (snd (ConsumeReauth E a g st)) u = user_row st u"
  by (auto simp: ConsumeReauth_def reauth_Consume_def MarkUsed_def stmt_def spend_reauth_def user_row_def split: option.splits)

text \<open>C33 A denying account policy does not stop an action: on a route gated by
  \<^verbatim>\<open>chainMW(permission, policy)\<close> the permission middleware already runs the pending handlers when it
  calls \<^verbatim>\<open>c.Next()\<close>, so the account is scheduled for deletion and the success is answered before the
  policy is asked, whatever the policy says.\<close>

theorem denied_deletion_still_happens:
  assumes "runs_pending nxt (delete_me_rest S E r)" and "\<not> ex_aborted x" and "\<not> ex_handled x"
    and "gc_user_id (ex_gin x) = Some u"
    and "RequirePermission E ''account:delete_account'' (Some u) (ex_db x) = Inr ()"
    and "RequireReauth E (ex_db x) r (ex_gin x) = Inr g"
    and "RequestDeletion S E u (ex_db x) = (Inr (), st)"
    and "pg_policies G = Some (\<lambda>ty inp. DbOk (Some (True, reason)))"
  shows "(\<exists>y. user_row (ex_db (delete_me G S E r nxt x)) u = Some y \<and> \<not> us_active y \<and> us_deleted_at y = Some (clk E)) \<and>
    message ''account scheduled for deletion'' \<in> set (ex_replies (delete_me G S E r nxt x))"
proof -
  have gu: "gc_user_id g = Some u"
    using assms(4,6) by (auto simp: RequireReauth_def Let_def split: if_splits option.splits dbres.splits)
  define y where "y = nxt x"
  have y: "y = (answer (message ''account scheduled for deletion'')
      (x\<lparr>ex_gin := g, ex_db := snd (ConsumeReauth E ''account.deletion_requested'' g st)\<rparr>))\<lparr>ex_handled := True\<rparr>"
    using assms(1,3,6,7) gu
    by (simp add: y_def runs_pending_def delete_me_rest_def reauth_passes RequestDeletion_handler_def for_user_def
        served_def consumeReauth_def answer_def)
  have row: "\<exists>z. user_row (ex_db y) u = Some z \<and> \<not> us_active z \<and> us_deleted_at z = Some (clk E)"
    using deletion_leaves [OF assms(7)] spend_keeps_users [of E "''account.deletion_requested''" g st u]
    by (auto simp: y answer_def)
  have ans: "message ''account scheduled for deletion'' \<in> set (ex_replies y)" by (simp add: y answer_def)
  have seen: "nxt y = y" using assms(1) by (simp add: runs_pending_def y)
  have pass: "permission_mw E ''account:delete_account'' nxt x = y"
    using permission_passes [of E "''account:delete_account''" x nxt] assms(4,5) by (simp add: y_def)
  have na: "\<not> ex_aborted y" using assms(2) by (simp add: y answer_def)
  have "delete_me G S E r nxt x = policy_mw G E ''delete_account'' r nxt y"
    using assms(2) na by (simp add: delete_me_def pass)
  moreover have "ex_db (policy_mw G E ''delete_account'' r nxt y) = ex_db y \<and>
      set (ex_replies y) \<subseteq> set (ex_replies (policy_mw G E ''delete_account'' r nxt y))"
    by (auto simp: policy_mw_def gate_def of_check_def answer_def seen split: sum.splits)
  ultimately show ?thesis using row ans by auto
qed

definition guarded_db :: db where
  "guarded_db = step_db\<lparr>t_permissions := [(UUID 7, ''account:delete_account'')],
     t_user_roles := [(UUID 2, UUID 8)], t_role_permissions := [(UUID 8, UUID 7)]\<rparr>"

definition frozen_gate :: policy_gate where
  "frozen_gate = \<lparr>pg_policies = Some (\<lambda>ty inp. DbOk (Some (True, ''frozen''))), pg_mfa = True, pg_passkeys = None\<rparr>"

definition demo_exchange :: exchange where
  "demo_exchange = \<lparr>ex_db = guarded_db, ex_gin = demo_gin, ex_replies = [], ex_aborted = False, ex_handled = False\<rparr>"

definition run_once :: "handler \<Rightarrow> handler" where
  "run_once h x = (if ex_handled x then x else (h x)\<lparr>ex_handled := True\<rparr>)"

lemma guarded_deletion: "ran (RequestDeletion demo_account demo_env (UUID 2) guarded_db)"
  by (simp add: run_account ran_def demo_rows demo_db_def empty_db_def uuid_nil_def guarded_db_def step_db_def)

lemma guarded_permission: "RequirePermission demo_env ''account:delete_account'' (Some (UUID 2)) guarded_db = Inr ()"
  by (simp add: RequirePermission_def HasPermission_def GetUserPermissions_row_def stmt_def guarded_db_def
      holds_permission_def)

theorem denied_deletion_still_happens_witness:
  "\<exists>y. user_row (ex_db (delete_me frozen_gate demo_account demo_env (demo_request [])
      (run_once (delete_me_rest demo_account demo_env (demo_request []))) demo_exchange)) (UUID 2) = Some y \<and> \<not> us_active y"
proof -
  from ran_Inr [OF guarded_deletion] obtain st where
    d: "RequestDeletion demo_account demo_env (UUID 2) guarded_db = (Inr (), st)" by auto
  have p: "RequireReauth demo_env guarded_db (demo_request []) demo_gin = Inr (demo_gin\<lparr>gc_reauth := Some demo_step\<rparr>)"
    by (simp add: RequireReauth_def demo_request_def demo_gin_def empty_gin_def reauth_Verify_def FindByHash_def
        reauth_row_def stmt_def guarded_db_def step_db_def demo_step_def ra_IsValid_def)
  have r: "runs_pending (run_once (delete_me_rest demo_account demo_env (demo_request [])))
      (delete_me_rest demo_account demo_env (demo_request []))"
    by (simp add: runs_pending_def run_once_def)
  have "(\<exists>y. user_row (ex_db (delete_me frozen_gate demo_account demo_env (demo_request [])
      (run_once (delete_me_rest demo_account demo_env (demo_request []))) demo_exchange)) (UUID 2) = Some y \<and> \<not> us_active y \<and>
      us_deleted_at y = Some (clk demo_env)) \<and> message ''account scheduled for deletion'' \<in> set (ex_replies (delete_me frozen_gate
      demo_account demo_env (demo_request []) (run_once (delete_me_rest demo_account demo_env (demo_request []))) demo_exchange))"
    by (rule denied_deletion_still_happens [OF r, where u = "UUID 2" and reason = "''frozen''"])
      (simp_all add: demo_exchange_def guarded_permission p d frozen_gate_def, simp_all add: demo_gin_def)
  then show ?thesis by blast
qed

section \<open>Changing the address\<close>

text \<open>A change of address is confirmed only with the unexpired token stored for it: the address becomes
  the one the user had asked for and counts as verified, addresses and identifiers stay unique, every
  session of the user is revoked, and the token confirms nothing a second time.\<close>

theorem email_change_confirmed_once:
  assumes "ConfirmEmailChange E tok st = (Inr (old, new, i), st')" and "users_inv st"
    and "distinct_secrets us_email_change_token st" and "sha256 E' = sha256 E"
  shows "(\<exists>x. user_row st i = Some x \<and> us_email x = old \<and> us_email_change_new x = Some new \<and>
      is_after (us_email_change_expires_at x) (wall E)) \<and>
    (\<exists>y. user_row st' i = Some y \<and> us_email y = new \<and> us_email_verified y) \<and> users_inv st' \<and>
    list_all (\<lambda>s. se_user_id s = i \<longrightarrow> se_revoked s) (t_sessions st') \<and>
    (\<nexists>v st''. ConfirmEmailChange E' tok st' = (Inr v, st''))"
proof -
  obtain x st1 where x: "x \<in> set (t_users st)" "us_id x = i" "us_email x = old" "us_email_change_new x = Some new"
      "us_email_change_token x = Some (HashToken (sha256 E) tok)" "is_after (us_email_change_expires_at x) (wall E)"
    and u: "UpdateFields E i (swap_email new) st = DbOk st1" and t: "t_users st' = t_users st1"
    and s: "\<forall>s \<in> set (t_sessions st'). se_user_id s = i \<longrightarrow> se_revoked s"
    using ConfirmEmailChange_effect [OF assms(1)] by blast
  have row: "user_row st i = Some x" using user_row_of [OF assms(2) x(1)] x(2) by simp
  have "user_row st1 i = Some (touch_user E (swap_email new) x)"
    using user_row_UpdateFields [OF u, of i] row x(2) by (simp add: swap_email_def)
  then have "user_row st' i = Some (touch_user E (swap_email new) x)" using user_row_cong [OF t] by simp
  then have row': "\<exists>y. user_row st' i = Some y \<and> us_email y = new \<and> us_email_verified y"
    by (simp add: swap_email_def)
  have inv: "users_inv st'" using users_inv_UpdateFields [OF u assms(2)] users_inv_cong [OF t] by (simp add: swap_email_def)
  have gone: "us_email_change_token v \<noteq> Some (HashToken (sha256 E) tok)" if "v \<in> set (t_users st')" for v
    using secret_gone [OF assms(3) x(1,5), of "touch_user E (swap_email new)" v] that UpdateFields_table [OF u] t x(2)
    by (simp add: swap_email_def)
  have "\<nexists>v st''. ConfirmEmailChange E' tok st' = (Inr v, st'')"
  proof
    assume "\<exists>v st''. ConfirmEmailChange E' tok st' = (Inr v, st'')"
    then obtain o' n' i' st'' where "ConfirmEmailChange E' tok st' = (Inr (o', n', i'), st'')" by auto
    from ConfirmEmailChange_effect [OF this] show False using gone assms(4) by auto
  qed
  then show ?thesis using row x(3,4,6) row' inv s by (auto simp: list_all_iff)
qed

definition changing_user :: user where
  "changing_user = demo_user\<lparr>us_email_change_new := Some ''n@b.c'', us_email_change_token := Some (HashToken id ''.ch''),
     us_email_change_expires_at := Some 1000000600000\<rparr>"

definition changing_db :: db where
  "changing_db = demo_db\<lparr>t_users := [changing_user]\<rparr>"

lemma demo_change_confirmed: "ran (ConfirmEmailChange demo_env ''.ch'' changing_db)"
  by (simp add: ConfirmEmailChange_def FindByEmailChangeToken_def is_after_def user_FindByEmail_def email_row_def
      confirm_email_tx_def swap_email_def mail_SendEmailChangedNotice_def email_taken_def run_account ran_def
      changing_db_def changing_user_def demo_rows demo_db_def empty_db_def uuid_nil_def)

theorem email_change_confirmed_once_witness:
  "\<exists>old new i st' y. ConfirmEmailChange demo_env ''.ch'' changing_db = (Inr (old, new, i), st') \<and>
     user_row st' i = Some y \<and> us_email y = new \<and> users_inv st'"
proof -
  from ran_Inr [OF demo_change_confirmed] obtain old new i st' where
    c: "ConfirmEmailChange demo_env ''.ch'' changing_db = (Inr (old, new, i), st')"
    by (metis prod_cases3)
  have "users_inv changing_db" "distinct_secrets us_email_change_token changing_db"
    by (simp_all add: users_inv_def keys_unique_def distinct_secrets_def changing_db_def)
  from email_change_confirmed_once [OF c this refl] show ?thesis using c by blast
qed

end
