(* ===== verification/OAuthHandlers.thy ===== *)
theory OAuthHandlers
  imports Gates AuthorizeSteps Device
begin

text \<open>
  The HTTP endpoints of the OAuth server (\<^verbatim>\<open>oauth/handler.go\<close>): the dispatch of \<^verbatim>\<open>/authorize\<close> over plain
  parameters, pushed requests and signed request objects, the steps of a flow, the token endpoint and
  the device endpoints, and the redirect built from a finished flow (\<^verbatim>\<open>oauth/service.go\<close>). Audit
  entries and metrics are not modelled.
\<close>

section \<open>Answers\<close>

record cookie =
  ck_name :: string
  ck_value :: string
  ck_max_age :: int
  ck_same_site :: string
  ck_http_only :: bool

record 'a http_reply =
  hr_status :: nat
  hr_body :: "error_body + 'a"
  hr_cookies :: "cookie list"

definition error_reply :: "err \<Rightarrow> 'a http_reply" where
  "error_reply e = \<lparr>hr_status = rf_status (HandleError e), hr_body = Inl (rf_body (HandleError e)), hr_cookies = []\<rparr>"

definition ok_json :: "cookie list \<Rightarrow> 'a \<Rightarrow> 'a http_reply" where
  "ok_json cs v = \<lparr>hr_status = 200, hr_body = Inr v, hr_cookies = cs\<rparr>"

definition replied :: "('a \<Rightarrow> 'b http_reply) \<Rightarrow> 'a res \<times> db \<Rightarrow> 'b http_reply \<times> db" where
  "replied k x = (case x of (Inl e, st) \<Rightarrow> (error_reply e, st) | (Inr v, st) \<Rightarrow> (k v, st))"

definition bad_json :: "string \<Rightarrow> err" where
  "bad_json m = ErrInvalidRequest (''invalid request body: '' @ m)"

definition sessionCookieName :: string where
  "sessionCookieName = ''orionauth_sid''"

text \<open>Path \<^verbatim>\<open>/\<close> and \<^verbatim>\<open>Secure\<close> are common to both cookies.\<close>

definition setSessionStateCookie :: "authorize_response \<Rightarrow> cookie list" where
  "setSessionStateCookie r =
     (if az_session_state r = [] then []
      else [\<lparr>ck_name = ''orionauth_session_state'', ck_value = az_session_state r, ck_max_age = 0,
             ck_same_site = ''None'', ck_http_only = False\<rparr>])"

definition setSessionCookie :: "authorize_response \<Rightarrow> cookie list" where
  "setSessionCookie r =
     (if az_session_cookie r = [] then []
      else [\<lparr>ck_name = sessionCookieName, ck_value = az_session_cookie r,
             ck_max_age = (if az_cookie_extended r \<and> az_cookie_max_age r > 0 then az_cookie_max_age r else 0),
             ck_same_site = ''Lax'', ck_http_only = True\<rparr>])"

definition session_cookies :: "authorize_response \<Rightarrow> cookie list" where
  "session_cookies r = setSessionCookie r @ setSessionStateCookie r"

section \<open>The authorization endpoint\<close>

record oauth_handler =
  oh_web :: web
  oh_jwt :: jwt_lib
  oh_issuer :: string

text \<open>What the handler keeps between requests: the database and the two caches.\<close>

type_synonym oauth_server = "db \<times> jwks_cache \<times> fetch_cache"

definition jar_value :: "(string \<times> string) list \<Rightarrow> string \<Rightarrow> string \<Rightarrow> string" where
  "jar_value jar k current =
     (case map_of jar k of None \<Rightarrow> current | Some v \<Rightarrow> if v = [] then current else v)"

definition mergeJARParams :: "authorize_params \<Rightarrow> (string \<times> string) list \<Rightarrow> authorize_params" where
  "mergeJARParams p jar = p\<lparr>
     p_redirect_uri := jar_value jar ''redirect_uri'' (p_redirect_uri p),
     p_response_type := jar_value jar ''response_type'' (p_response_type p),
     p_scope := jar_value jar ''scope'' (p_scope p),
     p_state := jar_value jar ''state'' (p_state p),
     p_nonce := jar_value jar ''nonce'' (p_nonce p),
     p_code_challenge := jar_value jar ''code_challenge'' (p_code_challenge p),
     p_code_challenge_method := jar_value jar ''code_challenge_method'' (p_code_challenge_method p),
     p_audience := jar_value jar ''audience'' (p_audience p),
     p_prompt := jar_value jar ''prompt'' (p_prompt p),
     p_max_age := jar_value jar ''max_age'' (p_max_age p),
     p_display := jar_value jar ''display'' (p_display p),
     p_login_hint := jar_value jar ''login_hint'' (p_login_hint p),
     p_claims := jar_value jar ''claims'' (p_claims p),
     p_id_token_hint := jar_value jar ''id_token_hint'' (p_id_token_hint p),
     p_response_mode := jar_value jar ''response_mode'' (p_response_mode p)\<rparr>"

definition params_from :: "(string \<Rightarrow> string) \<Rightarrow> authorize_params" where
  "params_from q = \<lparr>p_redirect_uri = q ''redirect_uri'', p_response_type = q ''response_type'',
     p_scope = q ''scope'', p_state = q ''state'', p_nonce = q ''nonce'',
     p_code_challenge = q ''code_challenge'', p_code_challenge_method = q ''code_challenge_method'',
     p_audience = q ''audience'', p_prompt = q ''prompt'', p_max_age = q ''max_age'',
     p_display = q ''display'', p_ui_locales = q ''ui_locales'', p_claims_locales = q ''claims_locales'',
     p_acr_values = q ''acr_values'', p_login_hint = q ''login_hint'', p_claims = q ''claims'',
     p_id_token_hint = q ''id_token_hint'', p_response_mode = q ''response_mode'', p_session_cookie = []\<rparr>"

definition init_reply :: "init_response \<Rightarrow> init_response http_reply" where
  "init_reply r = ok_json (case ir_redirect r of None \<Rightarrow> [] | Some a \<Rightarrow> session_cookies a) r"

definition par_prefix :: string where
  "par_prefix = ''urn:ietf:params:oauth:request_uri:''"

definition remote_request ::
  "oauth_handler \<Rightarrow> env \<Rightarrow> client \<Rightarrow> string \<Rightarrow> string \<Rightarrow> oauth_server \<Rightarrow> init_response http_reply \<times> oauth_server" where
  "remote_request H E c uri sid s =
     (case s of (st, C, F) \<Rightarrow>
      if \<not> HasRequestURI c uri
      then (error_reply (ErrInvalidRequest ''request_uri is not registered for this client''), s)
      else case FetchRequestURI (oh_web H) (clk E) uri F of
        (Inl m, F1) \<Rightarrow> (error_reply (ErrInvalidRequest (''failed to fetch request_uri: '' @ m)), st, C, F1)
      | (Inr body, F1) \<Rightarrow>
          (case ParseAndVerifyRequestObject (oh_web H) (oh_jwt H) E body c C of
             (Inl m, C1) \<Rightarrow> (error_reply (ErrInvalidRequest (''invalid remote request object: '' @ m)), st, C1, F1)
           | (Inr jar, C1) \<Rightarrow>
               (case replied init_reply
                       (InitAuthorize E c (mergeJARParams (empty_params\<lparr>p_session_cookie := sid\<rparr>) jar) st) of
                  (r, st1) \<Rightarrow> (r, st1, C1, F1))))"

definition plain_request ::
  "oauth_handler \<Rightarrow> env \<Rightarrow> client \<Rightarrow> http_request \<Rightarrow> string \<Rightarrow> oauth_server \<Rightarrow> init_response http_reply \<times> oauth_server" where
  "plain_request H E c r sid s =
     (case s of (st, C, F) \<Rightarrow>
      let p = params_from (rq_query r);
          (checked, C1) = (if rq_query r ''request'' = [] then (Inr [], C)
                           else ParseAndVerifyRequestObject (oh_web H) (oh_jwt H) E (rq_query r ''request'') c C)
      in case checked of
           Inl m \<Rightarrow> (error_reply (ErrInvalidRequest (''invalid request object: '' @ m)), st, C1, F)
         | Inr jar \<Rightarrow>
             (case replied init_reply
                     (InitAuthorize E c ((mergeJARParams p jar)\<lparr>p_session_cookie := sid\<rparr>) st) of
                (rep, st1) \<Rightarrow> (rep, st1, C1, F)))"

definition Authorize_handler ::
  "oauth_handler \<Rightarrow> env \<Rightarrow> http_request \<Rightarrow> oauth_server \<Rightarrow> init_response http_reply \<times> oauth_server" where
  "Authorize_handler H E r s =
     (case s of (st, C, F) \<Rightarrow>
      let clientID = rq_query r ''client_id'';
          sid = given_else (rq_cookie r sessionCookieName) [];
          uri = rq_query r ''request_uri''
      in if clientID = [] then (error_reply (ErrInvalidRequest ''missing client_id''), s)
         else if uri \<noteq> [] \<and> has_prefix par_prefix uri
         then (case replied init_reply (InitAuthorizeFromPAR E uri clientID sid st) of (rep, st1) \<Rightarrow> (rep, st1, C, F))
         else (case findClient E clientID st of
                 Inl e \<Rightarrow> (error_reply e, s)
               | Inr c \<Rightarrow> if uri \<noteq> [] then remote_request H E c uri sid s else plain_request H E c r sid s))"

section \<open>The steps of a flow\<close>

definition AuthorizeLogin_handler ::
  "env \<Rightarrow> http_request \<Rightarrow> login_input body \<Rightarrow> db \<Rightarrow> (login_response + authorize_response) http_reply \<times> db" where
  "AuthorizeLogin_handler E r b st =
     (case b of
        Inl m \<Rightarrow> (error_reply (bad_json m), st)
      | Inr inp \<Rightarrow>
          replied (\<lambda>v. ok_json (case v of Inl _ \<Rightarrow> [] | Inr a \<Rightarrow> session_cookies a) v)
            (handle_login E inp (rq_ip r) (rq_header r ''User-Agent'') st))"

definition AuthorizeMFA_handler ::
  "env \<Rightarrow> http_request \<Rightarrow> (uuid \<times> string) body \<Rightarrow> db \<Rightarrow> (login_response + authorize_response) http_reply \<times> db" where
  "AuthorizeMFA_handler E r b st =
     (case b of
        Inl m \<Rightarrow> (error_reply (bad_json m), st)
      | Inr (i, code) \<Rightarrow>
          replied (\<lambda>v. ok_json (case v of Inl _ \<Rightarrow> [] | Inr a \<Rightarrow> session_cookies a) v)
            (handle_mfa E i code (rq_ip r) (rq_header r ''User-Agent'') st))"

definition AuthorizeRegister_handler ::
  "env \<Rightarrow> register_step_input body \<Rightarrow> db \<Rightarrow> (uuid \<times> uuid) http_reply \<times> db" where
  "AuthorizeRegister_handler E b st =
     (case b of Inl m \<Rightarrow> (error_reply (bad_json m), st) | Inr inp \<Rightarrow> replied (ok_json []) (AuthorizeRegister E inp st))"

definition AuthorizeConsent_handler ::
  "env \<Rightarrow> http_request \<Rightarrow> (uuid \<times> string list) body \<Rightarrow> db \<Rightarrow> authorize_response http_reply \<times> db" where
  "AuthorizeConsent_handler E r b st =
     (case b of
        Inl m \<Rightarrow> (error_reply (bad_json m), st)
      | Inr (i, granted) \<Rightarrow>
          replied (\<lambda>a. ok_json (session_cookies a) a)
            (AuthorizeConsent E i granted (rq_ip r) (rq_header r ''User-Agent'') st))"

section \<open>The endpoints of authenticated clients\<close>

definition PushedAuthorization :: "env \<Rightarrow> http_request \<Rightarrow> gin \<Rightarrow> db \<Rightarrow> (string \<times> int) http_reply \<times> db" where
  "PushedAuthorization E r g st =
     (case gc_oauth_client g of
        None \<Rightarrow> (error_reply (ErrInvalidClient ''missing client''), st)
      | Some c \<Rightarrow>
          replied (\<lambda>v. \<lparr>hr_status = 201, hr_body = Inr v, hr_cookies = []\<rparr>)
            (CreatePAR E c (params_from (rq_form r)) st))"

definition handleAuthorizationCodeGrant :: "env \<Rightarrow> http_request \<Rightarrow> client \<Rightarrow> db \<Rightarrow> token_response http_reply \<times> db" where
  "handleAuthorizationCodeGrant E r c st =
     (if rq_form r ''code'' = [] then (error_reply (ErrInvalidRequest ''missing code''), st)
      else if rq_form r ''redirect_uri'' = [] then (error_reply (ErrInvalidRequest ''missing redirect_uri''), st)
      else replied (ok_json [])
             (ExchangeAuthorizationCode E c (rq_form r ''code'') (rq_form r ''redirect_uri'')
                (rq_form r ''code_verifier'') st))"

definition handleClientCredentialsGrant :: "env \<Rightarrow> http_request \<Rightarrow> client \<Rightarrow> db \<Rightarrow> token_response http_reply \<times> db" where
  "handleClientCredentialsGrant E r c st =
     replied (ok_json []) (ExchangeClientCredentials E c (rq_form r ''scope'') (rq_form r ''audience'') st)"

definition handleRefreshTokenGrant :: "env \<Rightarrow> http_request \<Rightarrow> client \<Rightarrow> db \<Rightarrow> token_response http_reply \<times> db" where
  "handleRefreshTokenGrant E r c st =
     (if rq_form r ''refresh_token'' = [] then (error_reply (ErrInvalidRequest ''missing refresh_token''), st)
      else replied (ok_json []) (ExchangeRefreshToken E c (rq_form r ''refresh_token'') (rq_form r ''scope'') st))"

definition handleDeviceCodeGrant :: "env \<Rightarrow> http_request \<Rightarrow> client \<Rightarrow> db \<Rightarrow> token_response http_reply \<times> db" where
  "handleDeviceCodeGrant E r c st =
     (if rq_form r ''device_code'' = [] then (error_reply (ErrInvalidRequest ''missing device_code''), st)
      else replied (ok_json []) (ExchangeDeviceCode E c (rq_form r ''device_code'') st))"

definition Token_handler :: "env \<Rightarrow> http_request \<Rightarrow> gin \<Rightarrow> db \<Rightarrow> token_response http_reply \<times> db" where
  "Token_handler E r g st =
     (case gc_oauth_client g of
        None \<Rightarrow> (error_reply (ErrInvalidClient ''client authentication error_reply''), st)
      | Some c \<Rightarrow>
          (let grant = rq_form r ''grant_type''
           in if grant = ''authorization_code'' then handleAuthorizationCodeGrant E r c st
              else if grant = ''client_credentials'' then handleClientCredentialsGrant E r c st
              else if grant = ''refresh_token'' then handleRefreshTokenGrant E r c st
              else if grant = device_grant then handleDeviceCodeGrant E r c st
              else (error_reply (ErrUnsupportedGrantType (''unsupported grant_type: '' @ grant)), st)))"

definition Introspect_handler :: "oauth_handler \<Rightarrow> env \<Rightarrow> http_request \<Rightarrow> gin \<Rightarrow> db \<Rightarrow> introspect_response http_reply" where
  "Introspect_handler H E r g st =
     (case gc_oauth_client g of
        None \<Rightarrow> error_reply (ErrInvalidClient ''client authentication required'')
      | Some c \<Rightarrow>
          (case Introspect E (rq_form r ''token'') (rq_form r ''token_type_hint'') (oh_issuer H) (cl_id c) st of
             Inl e \<Rightarrow> error_reply e
           | Inr v \<Rightarrow> ok_json [] v))"

definition Revoke_handler :: "env \<Rightarrow> http_request \<Rightarrow> gin \<Rightarrow> db \<Rightarrow> unit http_reply \<times> db" where
  "Revoke_handler E r g st =
     (case gc_oauth_client g of
        None \<Rightarrow> (error_reply (ErrInvalidClient ''client authentication required''), st)
      | Some c \<Rightarrow>
          replied (ok_json []) (Revoke E (rq_form r ''token'') (rq_form r ''token_type_hint'') c st))"

section \<open>The device endpoints\<close>

definition DeviceAuthorization :: "oauth_handler \<Rightarrow> env \<Rightarrow> http_request \<Rightarrow> gin \<Rightarrow> db \<Rightarrow> device_response http_reply \<times> db" where
  "DeviceAuthorization H E r g st =
     (case gc_oauth_client g of
        None \<Rightarrow> (error_reply (ErrInvalidClient ''client authentication required''), st)
      | Some c \<Rightarrow> replied (ok_json []) (InitDeviceAuthorization E c (rq_form r ''scope'') (oh_issuer H) st))"

definition DeviceVerify_handler :: "env \<Rightarrow> string body \<Rightarrow> db \<Rightarrow> (string \<times> string \<times> string list) http_reply" where
  "DeviceVerify_handler E b st =
     (case b of
        Inl m \<Rightarrow> error_reply (bad_json m)
      | Inr code \<Rightarrow> (case DeviceVerify E code st of Inl e \<Rightarrow> error_reply e | Inr v \<Rightarrow> ok_json [] v))"

record approve_input =
  ap_user_code :: string
  ap_approved :: bool
  ap_email :: string
  ap_password :: string

definition DeviceApprove_handler :: "env \<Rightarrow> http_request \<Rightarrow> approve_input body \<Rightarrow> db \<Rightarrow> string http_reply \<times> db" where
  "DeviceApprove_handler E r b st =
     (case b of
        Inl m \<Rightarrow> (error_reply (bad_json m), st)
      | Inr inp \<Rightarrow>
          (case Authenticate E (ap_email inp) (ap_password inp) st of
             (Inl e, st1) \<Rightarrow> (error_reply e, st1)
           | (Inr u, st1) \<Rightarrow>
               replied (\<lambda>_. ok_json [] (if ap_approved inp then ''device authorization approved''
                                         else ''device authorization denied''))
                 (DeviceApprove E (ap_user_code inp) (ap_approved inp) (us_id u) (rq_ip r)
                    (rq_header r ''User-Agent'') st1)))"

section \<open>The redirect of a finished flow\<close>

definition redirect_params :: "authorize_response \<Rightarrow> (string \<times> string) list" where
  "redirect_params r =
     filter (\<lambda>kv. snd kv \<noteq> []) [(''code'', az_code r), (''state'', az_state r), (''iss'', az_issuer r)] @
     (if az_access_token r = [] then []
      else [(''access_token'', az_access_token r), (''token_type'', az_token_type r)]) @
     filter (\<lambda>kv. snd kv \<noteq> []) [(''id_token'', az_id_token r)]"

definition with_params :: "authorize_response \<Rightarrow> url \<Rightarrow> url" where
  "with_params r u =
     (let q = Values_Encode (redirect_params r)
      in if az_response_mode r = ''fragment'' then u\<lparr>u_fragment := q\<rparr>
         else if u_raw_query u = [] then u\<lparr>u_raw_query := q\<rparr>
         else u\<lparr>u_raw_query := u_raw_query u @ ''&'' @ q\<rparr>)"

definition BuildAuthorizeRedirectURL :: "authorize_response \<Rightarrow> string res" where
  "BuildAuthorizeRedirectURL r =
     (if az_redirect_uri r = [] then Inl (ErrServerError ''missing redirect_uri in authorize response'')
      else case url_Parse (az_redirect_uri r) of
        None \<Rightarrow> Inl (ErrServerError ''invalid redirect_uri'')
      | Some u \<Rightarrow> Inr (url_String (with_params r u)))"

text \<open>\<^verbatim>\<open>CompleteAfterEmailVerification\<close> answers with the address to send the browser to.\<close>

definition complete_verified :: "env \<Rightarrow> uuid \<Rightarrow> uuid \<Rightarrow> string \<Rightarrow> string \<Rightarrow> db \<Rightarrow> string res \<times> db" where
  "complete_verified E i u ip ua st =
     (case CompleteAfterEmailVerification E i u ip ua st of
        (Inl e, st1) \<Rightarrow> (Inl e, st1)
      | (Inr r, st1) \<Rightarrow> (BuildAuthorizeRedirectURL r, st1))"

section \<open>Lemmas\<close>

lemma error_reply_body [simp]: "hr_body (error_reply e) \<noteq> Inr v" "hr_body (ok_json cs w) = Inr w"
  by (simp_all add: error_reply_def ok_json_def)

lemma replied_Inr: "replied k x = (rep, st) \<Longrightarrow> hr_body rep = Inr b \<Longrightarrow> \<exists>v. x = (Inr v, st) \<and> rep = k v"
  by (auto simp: replied_def split: prod.splits sum.splits)

lemma escaped_chars:
  "set (QueryEscape s) \<subseteq> {c. is_alnum c} \<union> set ''-_.~+%''"
proof -
  have h: "is_alnum (upper_hex n)" if "n < 16" for n
  proof -
    have "\<forall>n \<in> set [0..<16]. is_alnum (upper_hex n)" by code_simp
    then show ?thesis using that by simp
  qed
  have "set (escape_char EncodeQuery c) \<subseteq> {c. is_alnum c} \<union> set ''-_.~+%''" for c
  proof -
    have "(of_char c :: nat) div 16 < 16" by (rule less_mult_imp_div_less, use of_char_less_256 [of c] in simp)
    then show ?thesis
      by (auto simp: escape_char_def should_escape_def percent_def Let_def h split: if_splits)
  qed
  then show ?thesis by (auto simp: QueryEscape_def url_escape_def)
qed

lemma no_separators: "CHR ''&'' \<notin> set (QueryEscape s)" "CHR ''='' \<notin> set (QueryEscape s)"
  using escaped_chars [of s] by (auto simp: is_alnum_def Let_def)

lemma split_joined_values:
  assumes "ps \<noteq> []" and "\<And>p. p \<in> set ps \<Longrightarrow> d \<notin> set p"
  shows "split_on d (join_with [d] ps) = ps"
proof -
  have one: "d \<notin> set p \<Longrightarrow> split_on d p = [p]" for p by (induction p) auto
  have two: "d \<notin> set p \<Longrightarrow> split_on d (p @ d # t) = p # split_on d t" for p t by (induction p) auto
  show ?thesis using assms by (induction "[d]" ps rule: join_with.induct) (auto simp: one two)
qed

lemma unescape_QueryEscape [simp]: "url_unescape EncodeQuery (QueryEscape s) = Some s"
  by (simp add: QueryEscape_def unescape_escape)

lemma decode_encoded_pair: "decode_pair (encode_pair kv) = Some kv"
  by (cases kv) (simp add: decode_pair_def encode_pair_def cut_at_append [OF no_separators(2)])

lemma decode_Values_Encode: "decode_query (Values_Encode kvs) = map Some (by_key kvs)"
proof (cases "by_key kvs = []")
  case False
  have "split_on (CHR ''&'') (Values_Encode kvs) = map encode_pair (by_key kvs)"
    unfolding Values_Encode_def
    by (rule split_joined_values) (use False no_separators in \<open>auto simp: encode_pair_def\<close>)
  moreover have "filter (\<lambda>p. p \<noteq> []) (map encode_pair ps) = map encode_pair ps" for ps
    by (auto simp: encode_pair_def filter_id_conv)
  ultimately show ?thesis by (simp add: decode_query_def decode_encoded_pair)
qed (simp add: decode_query_def Values_Encode_def)

text \<open>What a reader of the fragment sees: the values still escaped once.\<close>

definition still_escaped :: "string \<Rightarrow> string" where
  "still_escaped v = map (\<lambda>c. if c = CHR ''+'' then CHR '' '' else c) (QueryEscape v)"

lemma unescape_fragment_escaped:
  assumes "set t \<subseteq> {c. is_alnum c} \<union> set ''-_.~+%''"
  shows "url_unescape EncodeQuery (url_escape EncodeFragment t)
    = Some (map (\<lambda>c. if c = CHR ''+'' then CHR '' '' else c) t)"
  using assms
proof (induction t)
  case (Cons c t)
  have e: "url_escape EncodeFragment (c # t) = escape_char EncodeFragment c @ url_escape EncodeFragment t"
    by (simp add: url_escape_def)
  show ?case
  proof (cases "c = CHR ''%''")
    case True
    have "escape_char EncodeFragment (CHR ''%'') = ''%25''" "unhex (CHR ''2'') = Some 2" "unhex (CHR ''5'') = Some 5"
      "char_of (37 :: nat) = CHR ''%''"
      by code_simp+
    moreover have "set t \<subseteq> {c. is_alnum c} \<union> set ''-_.~+%''" using Cons.prems by auto
    note Cons.IH [OF this]
    ultimately show ?thesis using e unfolding True by simp
  next
    case False
    then have "\<not> should_escape EncodeFragment c" using Cons.prems by (auto simp: should_escape_def)
    then show ?thesis using Cons False by (simp add: e escape_char_def)
  qed
qed (simp add: url_escape_def)

text \<open>Whose signature an accepted request object carries.\<close>

lemma ParseAndVerify_Inr:
  assumes J: "jwt_verifies J sig_ok" and "ParseAndVerifyRequestObject W J E s c C = (Inr jar, C')"
  shows "\<exists>uri t k keys. cl_jwks_uri c = Some uri \<and> jl_unverified J s = Some t \<and> sig_ok (jt_alg t) k s \<and>
    (is_rsa (jt_alg t) \<or> is_ecdsa (jt_alg t)) \<and> k \<in> snd ` set keys \<and>
    (map_option fst (map_of C uri) = Some keys \<or> fetchJWKS W J uri = Inr keys) \<and> jar = string_claims (jt_claims t)"
proof -
  let ?keyf = "\<lambda>alg k t. if is_rsa (jt_alg t) \<or> is_ecdsa (jt_alg t) then Inr k
      else Inl (''unsupported request object alg '' @ quoted alg)"
  obtain uri where u: "cl_jwks_uri c = Some uri" "uri \<noteq> []"
    using assms(2) by (auto simp: ParseAndVerifyRequestObject_def given_else_def split: option.splits list.splits)
  obtain kid alg k t where k: "GetKey W J (clk E) uri kid C = (Inr k, C')"
    and v: "jl_parse J False None (?keyf alg k) (clk E) s = Inr t" and jar: "jar = string_claims (jt_claims t)"
    using assms(2) u by (cases uri) (auto simp: ParseAndVerifyRequestObject_def given_else_def Let_def
        split: option.splits sum.splits prod.splits if_splits)
  have "jl_unverified J s = Some t" "\<exists>k'. ?keyf alg k t = Inr k' \<and> sig_ok (jt_alg t) k' s"
    using J [unfolded jwt_verifies_def, rule_format, OF v] by auto
  moreover obtain keys where "k \<in> snd ` set keys"
    "map_option fst (map_of C uri) = Some keys \<or> fetchJWKS W J uri = Inr keys"
    using GetKey_Inr [OF k] by blast
  ultimately show ?thesis using u(1) jar by (auto split: if_splits)
qed

end
