(* ===== verification/EndpointProperties.thy ===== *)
theory EndpointProperties
  imports OAuthHandlers GateProperties AuthorizeStepProperties DeviceProperties
begin

text \<open>
  The OAuth endpoints as a client sees them: what the token endpoint demands, what a signed request
  object proves, who can approve a device and what reaches the redirect URI.
\<close>

section \<open>The token endpoint\<close>


text \<open>The demo client redeems its code with its secret in the form.\<close>

definition token_form :: "string \<Rightarrow> string" where
  "token_form k =
     (if k = ''client_id'' then ''u'' else if k = ''client_secret'' then ''s1''
      else if k = ''grant_type'' then ''authorization_code'' else if k = ''code'' then ''.c1''
      else if k = ''redirect_uri'' then ''cb'' else if k = ''code_verifier'' then ''v1'' else [])"

lemma token_form_values:
  "token_form ''code'' = ''.c1''" "token_form ''redirect_uri'' = ''cb''" "token_form ''code_verifier'' = ''v1''"
  by (simp_all add: token_form_def)

definition token_request :: http_request where
  "token_request = (GateProperties.demo_request [])\<lparr>rq_form := token_form\<rparr>"

definition token_client :: client where
  "token_client = demo_client\<lparr>cl_is_public := True\<rparr>"

definition token_db :: db where
  "token_db = demo_db\<lparr>t_clients := [token_client]\<rparr>"

lemma token_client_admitted:
  "ClientAuth demo_auth demo_env token_db token_request empty_gin [] = (Inr (empty_gin\<lparr>gc_oauth_client := Some token_client\<rparr>), [])"
  by (simp add: ClientAuth_def presented_credentials_def basic_credentials_def post_credentials_def known_def
      token_request_def token_form_def GateProperties.demo_request_def has_prefix_def demo_uuid_parse_def uuid_nil_def token_db_def
      token_client_def FindActive_def FindActiveByID_def stmt_def demo_rows check_secret_def client_auth_policy_def
      demo_auth_def Let_def)

lemma token_endpoint_runs: "ran (ExchangeAuthorizationCode demo_env token_client ''.c1'' ''cb'' ''v1'' token_db)"
  by (simp add: run_store run_tokens demo_rows token_client_def token_db_def)


section \<open>Signed request objects\<close>

text \<open>A request object speaks for its client: when the authorization endpoint goes on with a request
  that carries one, the object was signed with an asymmetric algorithm under a key that the client of
  the request published at its registered \<^verbatim>\<open>jwks_uri\<close> (now, or within the cache), and the request
  that is processed is the one on the URL overridden by the signed claims only.\<close>

theorem request_object_speaks_for_client:
  assumes "jwt_verifies (oh_jwt H) sig_ok" and "rq_query r ''request'' \<noteq> []" and "rq_query r ''request_uri'' = []"
    and "Authorize_handler H E r (st, C, F) = (rep, st', C', F')" and "hr_body rep = Inr resp"
  shows "\<exists>c uri t k keys. findClient E (rq_query r ''client_id'') st = Inr c \<and> cl_jwks_uri c = Some uri \<and>
    jl_unverified (oh_jwt H) (rq_query r ''request'') = Some t \<and> sig_ok (jt_alg t) k (rq_query r ''request'') \<and>
    (is_rsa (jt_alg t) \<or> is_ecdsa (jt_alg t)) \<and> k \<in> snd ` set keys \<and>
    (map_option fst (map_of C uri) = Some keys \<or> fetchJWKS (oh_web H) (oh_jwt H) uri = Inr keys) \<and>
    InitAuthorize E c ((mergeJARParams (params_from (rq_query r)) (string_claims (jt_claims t)))
       \<lparr>p_session_cookie := given_else (rq_cookie r sessionCookieName) []\<rparr>) st = (Inr resp, st')"
proof -
  obtain c where c: "findClient E (rq_query r ''client_id'') st = Inr c"
    and p: "plain_request H E c r (given_else (rq_cookie r sessionCookieName) []) (st, C, F) = (rep, st', C', F')"
    using assms(3-5) by (auto simp: Authorize_handler_def Let_def split: if_splits sum.splits)
  obtain jar where j: "ParseAndVerifyRequestObject (oh_web H) (oh_jwt H) E (rq_query r ''request'') c C = (Inr jar, C')"
    and i: "replied init_reply (InitAuthorize E c ((mergeJARParams (params_from (rq_query r)) jar)
       \<lparr>p_session_cookie := given_else (rq_cookie r sessionCookieName) []\<rparr>) st) = (rep, st')"
    using p assms(2,5) by (auto simp: plain_request_def Let_def split: if_splits sum.splits prod.splits)
  from i assms(5) have "InitAuthorize E c ((mergeJARParams (params_from (rq_query r)) jar)
       \<lparr>p_session_cookie := given_else (rq_cookie r sessionCookieName) []\<rparr>) st = (Inr resp, st')"
    by (auto dest: replied_Inr simp: init_reply_def)
  then show ?thesis using c ParseAndVerify_Inr [OF assms(1) j] by blast
qed

text \<open>An object that asks for the scope \<open>openid\<close>, under a key in the cache.\<close>

definition signed_object :: jwt where
  "signed_object = \<lparr>jt_alg = ''RS256'', jt_header = [(''alg'', AStr ''RS256''), (''kid'', AStr ''k1'')],
     jt_claims = [(''scope'', AStr ''openid'')]\<rparr>"

definition signed_jwt_lib :: jwt_lib where
  "signed_jwt_lib = demo_jwt_lib\<lparr>jl_unverified := (\<lambda>s. if s = ''jwt'' then Some signed_object else None),
     jl_parse := (\<lambda>req methods keyf now s.
       if s = ''jwt'' \<and> \<not> req \<and> methods = None \<and> keyf signed_object = Inr (RsaKey 35 5)
       then Inr signed_object else Inl ''invalid'')\<rparr>"

definition signed_handler :: oauth_handler where
  "signed_handler = \<lparr>oh_web = ca_web demo_auth, oh_jwt = signed_jwt_lib, oh_issuer = ''iss''\<rparr>"

definition signed_request :: http_request where
  "signed_request = (GateProperties.demo_request [])\<lparr>rq_query := (\<lambda>k.
     if k = ''client_id'' then ''u'' else if k = ''request'' then ''jwt'' else if k = ''redirect_uri'' then ''cb''
     else if k = ''response_type'' then ''code'' else if k = ''code_challenge'' then b64_encode ''v1'' else [])\<rparr>"

definition signed_client :: client where
  "signed_client = demo_client\<lparr>cl_jwks_uri := Some ''https://c/jwks''\<rparr>"

definition signed_db :: db where
  "signed_db = demo_db\<lparr>t_clients := [signed_client]\<rparr>"

definition signed_cache :: jwks_cache where
  "signed_cache = [(''https://c/jwks'', [(''k1'', RsaKey 35 5)], clk demo_env)]"

lemma signed_lib_verifies: "jwt_verifies signed_jwt_lib (\<lambda>a k s. k = RsaKey 35 5 \<and> s = ''jwt'')"
  by (simp add: jwt_verifies_def signed_jwt_lib_def)

lemma signed_key: "GetKey W J (clk demo_env) ''https://c/jwks'' ''k1'' signed_cache = (Inr (RsaKey 35 5), signed_cache)"
proof -
  have "jwksCacheTTL = 300000000000" by code_simp
  then show ?thesis by (simp add: GetKey_def cached_key_def signed_cache_def time_sub_def)
qed

lemma signed_object_accepted: "ParseAndVerifyRequestObject (oh_web signed_handler) (oh_jwt signed_handler) demo_env ''jwt''
    signed_client signed_cache = (Inr [(''scope'', ''openid'')], signed_cache)"
  by (simp add: ParseAndVerifyRequestObject_def signed_handler_def signed_jwt_lib_def signed_client_def given_else_def
      signed_object_def str_of_def signed_key [simplified] is_rsa_def string_claims_def has_prefix_def Let_def)

lemma signed_client_found: "findClient demo_env ''u'' signed_db = Inr signed_client"
  by (simp add: findClient_def signed_db_def signed_client_def demo_rows demo_uuid_parse_def)

lemma signed_request_runs: "ran (InitAuthorize demo_env signed_client
    ((mergeJARParams (params_from (rq_query signed_request)) [(''scope'', ''openid'')])\<lparr>p_session_cookie := []\<rparr>) signed_db)"
  by (simp add: run_init run_store demo_rows Let_def params_from_def mergeJARParams_def jar_value_def signed_request_def
      signed_client_def signed_db_def)

theorem request_object_speaks_for_client_witness:
  "\<exists>resp st'. InitAuthorize demo_env signed_client ((mergeJARParams (params_from (rq_query signed_request))
      (string_claims (jt_claims signed_object)))\<lparr>p_session_cookie := []\<rparr>) signed_db = (Inr resp, st')"
proof -
  obtain v st' where i: "InitAuthorize demo_env signed_client ((mergeJARParams (params_from (rq_query signed_request))
      [(''scope'', ''openid'')])\<lparr>p_session_cookie := []\<rparr>) signed_db = (Inr v, st')"
    using ran_Inr [OF signed_request_runs] by blast
  have q: "rq_query signed_request ''client_id'' = ''u''" "rq_query signed_request ''request'' = ''jwt''"
    "rq_query signed_request ''request_uri'' = []" "rq_cookie signed_request sessionCookieName = None"
    by (simp_all add: signed_request_def GateProperties.demo_request_def)
  have h: "Authorize_handler signed_handler demo_env signed_request (signed_db, signed_cache, [])
      = (init_reply v, st', signed_cache, [])"
    by (simp add: Authorize_handler_def plain_request_def q signed_client_found signed_object_accepted i
        replied_def given_else_def Let_def)
  have j: "jwt_verifies (oh_jwt signed_handler) (\<lambda>a k s. k = RsaKey 35 5 \<and> s = ''jwt'')"
    using signed_lib_verifies by (simp add: signed_handler_def)
  have r: "hr_body (init_reply v) = Inr v" by (simp add: init_reply_def)
  obtain c t where "findClient demo_env ''u'' signed_db = Inr c" "jl_unverified (oh_jwt signed_handler) ''jwt'' = Some t"
    "InitAuthorize demo_env c ((mergeJARParams (params_from (rq_query signed_request)) (string_claims (jt_claims t)))
       \<lparr>p_session_cookie := given_else (rq_cookie signed_request sessionCookieName) []\<rparr>) signed_db = (Inr v, st')"
    using request_object_speaks_for_client [OF j _ q(3) h r] unfolding q by blast
  then show ?thesis by (auto simp: signed_client_found signed_handler_def signed_jwt_lib_def q given_else_def)
qed

section \<open>Approving a device\<close>

text \<open>A device is approved by the password of its user alone: when the approval endpoint grants a user
  code, an active account that is not locked was named with its right password, the code was pending
  and unexpired, and its row is now authorized for that account; whether the account has a second
  factor is never asked, so this holds of accounts with one as of those without.\<close>

theorem device_approval_by_password:
  assumes "DeviceApprove_handler E r (Inr inp) st = (rep, st')" and "ap_approved inp" and "hr_body rep = Inr m"
  shows "\<exists>u0 d s. email_row st (lower_trim (ap_email inp)) = Some u0 \<and> us_active u0 \<and> \<not> us_IsLocked u0 (clk E) \<and>
    right_password E u0 (ap_password inp) \<and> dc_user_code d = ap_user_code inp \<and> dc_status d = ''pending'' \<and>
    \<not> dc_IsExpired d (wall E) \<and>
    d\<lparr>dc_status := ''authorized'', dc_user_id := Some (us_id u0), dc_session_id := Some s\<rparr> \<in> set (t_device_codes st')"
proof -
  obtain u st1 where a: "Authenticate E (ap_email inp) (ap_password inp) st = (Inr u, st1)"
    and p: "DeviceApprove E (ap_user_code inp) True (us_id u) (rq_ip r) (rq_header r ''User-Agent'') st1 = (Inr (), st')"
    using assms by (auto simp: DeviceApprove_handler_def split: prod.splits sum.splits dest!: replied_Inr)
  obtain u0 where u0: "email_row st (lower_trim (ap_email inp)) = Some u0" "us_active u0" "\<not> us_IsLocked u0 (clk E)"
    "right_password E u0 (ap_password inp)" "us_id u = us_id u0"
    using Authenticate_success [OF a] by metis
  obtain d :: device_code and s :: session and st2 where d: "find_pending E (ap_user_code inp) st1 = Inr d"
    and up: "UpdateDeviceCode E (d\<lparr>dc_status := ''authorized'', dc_user_id := Some (us_id u), dc_session_id := Some (se_id s)\<rparr>) st2
      = DbOk st'"
    using p by (auto simp: DeviceApprove_def split: sum.splits option.splits prod.splits dbres.splits)
  have "dc_user_code d = ap_user_code inp \<and> dc_status d = ''pending'' \<and> \<not> dc_IsExpired d (wall E)"
    using d by (auto simp: find_pending_def FindDeviceCodeByUserCode_def stmt_def split: option.splits if_splits dest: first_where_SomeD)
  moreover have "d\<lparr>dc_status := ''authorized'', dc_user_id := Some (us_id u0), dc_session_id := Some (se_id s)\<rparr> \<in> set (t_device_codes st')"
    using up u0(5) by (auto simp: UpdateDeviceCode_def stmt_def save_row_mem split: if_splits)
  ultimately show ?thesis using u0(1-4) by blast
qed

text \<open>The demo user has a second factor here; its password approves the device.\<close>

definition factor_db :: db where
  "factor_db = pending_db\<lparr>t_mfa_methods := [\<lparr>mf_id = UUID 9, mf_user_id = UUID 2, mf_type = ''totp'', mf_secret = ''s'',
     mf_verified = True, mf_backup_codes = [], mf_last_used_totp_step = 0\<rparr>]\<rparr>"

definition approve_demo :: approve_input where
  "approve_demo = \<lparr>ap_user_code = ''BCDF-GHJK'', ap_approved = True, ap_email = ''a@b.c'', ap_password = ''pass''\<rparr>"

lemma factor_set: "HasMFA demo_env (UUID 2) factor_db = Inr True"
  by (simp add: HasMFA_def FindVerifiedByUser_def verified_method_def factor_db_def stmt_def)

lemma demo_no_policy: "approval_policy demo_env d u ip ua st = None"
  by (auto simp: approval_policy_def evaluate_policy_def split: option.splits prod.splits)

lemma demo_password_approves:
  "hr_body (fst (DeviceApprove_handler demo_env (GateProperties.demo_request []) (Inr approve_demo) factor_db))
     = Inr ''device authorization approved''"
  by (simp add: DeviceApprove_handler_def approve_demo_def run_device run_login run_store demo_rows factor_db_def
      demo_no_policy session_Create_op_def session_Create_def replied_def GateProperties.demo_request_def)

theorem device_approval_by_password_witness:
  "HasMFA demo_env (UUID 2) factor_db = Inr True \<and>
   (\<exists>d s. d\<lparr>dc_status := ''authorized'', dc_user_id := Some (UUID 2), dc_session_id := Some s\<rparr> \<in>
      set (t_device_codes (snd (DeviceApprove_handler demo_env (GateProperties.demo_request []) (Inr approve_demo) factor_db))))"
proof -
  let ?x = "DeviceApprove_handler demo_env (GateProperties.demo_request []) (Inr approve_demo) factor_db"
  have "?x = (fst ?x, snd ?x)" "ap_approved approve_demo" by (simp_all add: approve_demo_def)
  from device_approval_by_password [OF this demo_password_approves]
  obtain u0 d s where "email_row factor_db (lower_trim (ap_email approve_demo)) = Some u0"
    "d\<lparr>dc_status := ''authorized'', dc_user_id := Some (us_id u0), dc_session_id := Some s\<rparr> \<in> set (t_device_codes (snd ?x))"
    by blast
  moreover have "email_row factor_db (lower_trim (ap_email approve_demo)) = Some demo_user"
    by (simp add: email_row_def factor_db_def pending_db_def approve_demo_def demo_user_def)
  moreover have "us_id demo_user = UUID 2" by (simp add: demo_user_def)
  ultimately show ?thesis using factor_set by (metis option.inject)
qed

section \<open>The redirect\<close>

lemma before_query_keeps [simp]:
  "url_before_query (u\<lparr>u_raw_query := q\<rparr>) = url_before_query u" "url_before_query (u\<lparr>u_fragment := f\<rparr>) = url_before_query u"
proof -
  have "EscapedPath (u\<lparr>u_raw_query := q\<rparr>) = EscapedPath u" "EscapedPath (u\<lparr>u_fragment := f\<rparr>) = EscapedPath u"
    "url_authority (u\<lparr>u_raw_query := q\<rparr>) = url_authority u" "url_authority (u\<lparr>u_fragment := f\<rparr>) = url_authority u"
    by (simp_all add: EscapedPath_def url_authority_def)
  then show "url_before_query (u\<lparr>u_raw_query := q\<rparr>) = url_before_query u" "url_before_query (u\<lparr>u_fragment := f\<rparr>) = url_before_query u"
    by (simp_all add: url_before_query_def)
qed

lemma params_encoded: "az_code r \<noteq> [] \<Longrightarrow> Values_Encode (redirect_params r) \<noteq> []"
proof
  assume c: "az_code r \<noteq> []" and "Values_Encode (redirect_params r) = []"
  then have "by_key (redirect_params r) = []"
    using decode_Values_Encode [of "redirect_params r"] by (simp add: decode_query_def)
  then have "redirect_params r = []" using set_by_key [of "redirect_params r"] by simp
  then show False using c by (simp add: redirect_params_def)
qed


definition demo_answer :: authorize_response where
  "demo_answer = \<lparr>az_redirect_uri = ''cb'', az_code = ''c'', az_state = ''a=b'', az_issuer = [], az_session_state = [],
     az_response_mode = [], az_access_token = [], az_token_type = [], az_expires_in = 0, az_id_token = [],
     az_session_cookie = [], az_cookie_extended = False, az_cookie_max_age = 0\<rparr>"

lemma demo_redirect: "BuildAuthorizeRedirectURL demo_answer = Inr ''cb?code=c&state=a%3Db''"
  unfolding demo_answer_def by code_simp


lemma url_escape_append: "url_escape m (s @ t) = url_escape m s @ url_escape m t"
  by (simp add: url_escape_def)

lemma url_escape_Cons: "url_escape m (c # t) = escape_char m c @ url_escape m t"
  by (simp add: url_escape_def)

lemma fragment_separators: "escape_char EncodeFragment (CHR ''&'') = ''&''" "escape_char EncodeFragment (CHR ''='') = ''=''"
  by code_simp+

lemma escape_safe:
  assumes "c \<in> {c. is_alnum c} \<union> set ''-_.~+%''"
  shows "escape_char EncodeFragment c = (if c = CHR ''%'' then ''%25'' else [c])"
proof (cases "c = CHR ''%''")
  case True
  moreover have "escape_char EncodeFragment (CHR ''%'') = ''%25''" by code_simp
  ultimately show ?thesis by simp
next
  case False
  then have "\<not> should_escape EncodeFragment c" using assms by (auto simp: should_escape_def)
  then show ?thesis using False by (simp add: escape_char_def)
qed

lemma escaped_again: "set (url_escape EncodeFragment (QueryEscape s)) \<subseteq> {c. is_alnum c} \<union> set ''-_.~+%''"
proof -
  define S where "S = {c. is_alnum c} \<union> set ''-_.~+%''"
  have two: "set ''%25'' \<subseteq> S" by (simp add: S_def is_alnum_def Let_def)
  have "set (escape_char EncodeFragment c) \<subseteq> S" if "c \<in> S" for c
    using escape_safe [of c] that two by (auto simp only: S_def [symmetric] split: if_split) simp
  then have "set (url_escape EncodeFragment t) \<subseteq> S" if "set t \<subseteq> S" for t
    using that by (force simp: url_escape_def)
  then show ?thesis using escaped_chars [of s] by (simp only: S_def [symmetric])
qed

lemma fragment_pair:
  "decode_pair (url_escape EncodeFragment (encode_pair kv)) = Some (still_escaped (fst kv), still_escaped (snd kv))"
proof -
  have "CHR ''='' \<notin> set (url_escape EncodeFragment (QueryEscape (fst kv)))"
    using escaped_again [of "fst kv"] by (auto simp: is_alnum_def Let_def)
  then show ?thesis
    by (simp add: decode_pair_def encode_pair_def url_escape_append url_escape_Cons fragment_separators cut_at_append
        unescape_fragment_escaped [OF escaped_chars] still_escaped_def)
qed

lemma escape_joined: "url_escape EncodeFragment (join_with ''&'' ps) = join_with ''&'' (map (url_escape EncodeFragment) ps)"
  by (induction "''&''" ps rule: join_with.induct)
    (simp_all add: url_escape_append url_escape_Cons fragment_separators, simp add: url_escape_def)

lemma decode_fragment: "decode_query (url_escape EncodeFragment (Values_Encode kvs))
    = map (\<lambda>kv. Some (still_escaped (fst kv), still_escaped (snd kv))) (by_key kvs)"
proof (cases "by_key kvs = []")
  case False
  let ?ps = "map (url_escape EncodeFragment \<circ> encode_pair) (by_key kvs)"
  have "CHR ''&'' \<notin> set (url_escape EncodeFragment (encode_pair kv))" for kv
    using escaped_again [of "fst kv"] escaped_again [of "snd kv"]
    by (auto simp: encode_pair_def url_escape_append url_escape_Cons fragment_separators is_alnum_def Let_def)
  then have "split_on (CHR ''&'') (url_escape EncodeFragment (Values_Encode kvs)) = ?ps"
    unfolding Values_Encode_def escape_joined by (subst split_joined_values) (use False in auto)
  moreover have "filter (\<lambda>p. p \<noteq> []) ?ps = ?ps"
    by (auto simp: encode_pair_def filter_id_conv url_escape_append url_escape_Cons fragment_separators)
  ultimately show ?thesis by (simp add: decode_query_def fragment_pair)
qed (simp add: decode_query_def Values_Encode_def url_escape_def)

lemma plain_keys: "k \<in> fst ` set (redirect_params r) \<Longrightarrow> still_escaped k = k"
proof -
  have "\<forall>k \<in> set [''code'', ''state'', ''iss'', ''access_token'', ''token_type'', ''id_token'']. still_escaped k = k"
    by code_simp
  then show "k \<in> fst ` set (redirect_params r) \<Longrightarrow> still_escaped k = k"
    by (auto simp: redirect_params_def split: if_splits)
qed

text \<open>In fragment mode the client receives other values than were decided: the parameters are encoded
  and the encoding is escaped once more when the address is printed, so that decoding the fragment
  gives each value in its escaped form; a state or an issuer with a character outside the unreserved
  ones does not come back as it was sent.\<close>

theorem fragment_redirect_escapes_twice:
  assumes "BuildAuthorizeRedirectURL r = Inr s" and "az_response_mode r = ''fragment''" and "az_code r \<noteq> []"
    and "url_Parse (az_redirect_uri r) = Some u" and "u_raw_fragment u = []"
  shows "\<exists>f. s = url_before_query u @ (if u_force_query u \<or> u_raw_query u \<noteq> [] then ''?'' @ u_raw_query u else []) @ ''#'' @ f \<and>
    set (decode_query f) = (\<lambda>(k, v). Some (k, still_escaped v)) ` set (redirect_params r)"
proof -
  let ?f = "url_escape EncodeFragment (Values_Encode (redirect_params r))"
  have "s = url_String (with_params r u)" using assms(1,4) by (auto simp: BuildAuthorizeRedirectURL_def split: if_splits)
  then have "s = url_before_query u @ (if u_force_query u \<or> u_raw_query u \<noteq> [] then ''?'' @ u_raw_query u else []) @ ''#'' @ ?f"
    using assms(2,5) params_encoded [OF assms(3)] by (simp add: with_params_def url_String_def Let_def EscapedFragment_def)
  moreover have "set (decode_query ?f) = (\<lambda>(k, v). Some (k, still_escaped v)) ` set (redirect_params r)"
    using plain_keys [of _ r] by (force simp: decode_fragment set_by_key)
  ultimately show ?thesis by blast
qed

lemma demo_fragment: "BuildAuthorizeRedirectURL (demo_answer\<lparr>az_response_mode := ''fragment''\<rparr>) = Inr ''cb#code=c&state=a%253Db''"
  unfolding demo_answer_def by code_simp

theorem fragment_redirect_escapes_twice_witness:
  "\<exists>f. ''cb#code=c&state=a%253Db'' = ''cb'' @ ''#'' @ f \<and>
     set (decode_query f) = {Some (''code'', ''c''), Some (''state'', ''a%3Db'')}"
proof -
  have u: "url_Parse (az_redirect_uri (demo_answer\<lparr>az_response_mode := ''fragment''\<rparr>)) = Some (empty_url\<lparr>u_path := ''cb''\<rparr>)"
    unfolding demo_answer_def by code_simp
  have "redirect_params (demo_answer\<lparr>az_response_mode := ''fragment''\<rparr>) = [(''code'', ''c''), (''state'', ''a=b'')]"
    by (simp add: redirect_params_def demo_answer_def)
  moreover have "url_before_query (empty_url\<lparr>u_path := ''cb''\<rparr>) = ''cb''" "still_escaped ''c'' = ''c''"
    "still_escaped ''a=b'' = ''a%3Db''" by code_simp+
  moreover have "az_code (demo_answer\<lparr>az_response_mode := ''fragment''\<rparr>) \<noteq> []" by (simp add: demo_answer_def)
  ultimately show ?thesis
    using fragment_redirect_escapes_twice [OF demo_fragment _ _ u] by (simp add: empty_url_def)
qed

end
