(* ===== verification/Oidc.thy ===== *)
theory Oidc
  imports ClientAuth PolicyEngine
begin

text \<open>
  The OpenID provider (\<^verbatim>\<open>oidc/\<close>): signing keys and their rotation, ID tokens, JWT access tokens,
  user info, published keys, discovery and logout. The JWT and JWE libraries and RSA are the records
  \<open>jwt_lib\<close>, \<open>jwe_lib\<close> and \<open>rsa_lib\<close>. The process keeps the active key and the list of keys it
  verifies with in memory (\<open>oidc\<close>); \<^verbatim>\<open>main\<close> sets the role, session and client services.
\<close>

section \<open>Keys\<close>

record rsa_lib =
  rs_generate :: "nat \<Rightarrow> (string \<times> string) option"
  rs_private_ok :: "string \<Rightarrow> bool"
  rs_public :: "string \<Rightarrow> (nat \<times> int) option"
  rs_sign :: "string \<Rightarrow> any_map \<Rightarrow> any_map \<Rightarrow> string option"

text \<open>One entry of a client's key set: its use, its identifier and the rest.\<close>

record jwk_entry =
  jw_use :: "string option"
  jw_kid :: "string option"
  jw_material :: string

record jwe_lib =
  je_key_alg :: "string \<Rightarrow> bool"
  je_content_alg :: "string \<Rightarrow> bool"
  je_parse :: "string \<Rightarrow> jwk_entry list option"
  je_encrypt :: "string \<Rightarrow> jwk_entry \<Rightarrow> string \<Rightarrow> string \<Rightarrow> string \<Rightarrow> string + string"

record oidc_lib =
  ol_rsa :: rsa_lib
  ol_jwt :: jwt_lib
  ol_jwe :: jwe_lib
  ol_web :: web
  ol_requested :: "string \<Rightarrow> (string \<times> any_map) list option"

record oidc =
  oi_issuer :: string
  oi_salt :: string
  oi_active :: "signing_key option"
  oi_private :: "string option"
  oi_all :: "signing_key list"

subsection \<open>Repository\<close>

definition FindActive_key :: "env \<Rightarrow> db \<Rightarrow> signing_key option dbres" where
  "FindActive_key E st = stmt E ''keys.FindActive''
     (case rev (sort_key sk_created_at (filter sk_active (t_signing_keys st))) of [] \<Rightarrow> None | k # _ \<Rightarrow> Some k)"

definition FindAllValid :: "env \<Rightarrow> time \<Rightarrow> db \<Rightarrow> signing_key list dbres" where
  "FindAllValid E now st = stmt E ''keys.FindAllValid''
     (rev (sort_key sk_created_at (filter (\<lambda>k. sk_active k \<or> is_after (sk_expires_at k) now) (t_signing_keys st))))"

definition DeactivateActive :: "env \<Rightarrow> time \<Rightarrow> db \<Rightarrow> db dbres" where
  "DeactivateActive E grace st = stmt E ''keys.DeactivateActive'' (st\<lparr>t_signing_keys :=
     update_where sk_active (\<lambda>k. k\<lparr>sk_active := False, sk_expires_at := Some grace\<rparr>) (t_signing_keys st)\<rparr>)"

definition key_Create :: "env \<Rightarrow> signing_key \<Rightarrow> db \<Rightarrow> db dbres" where
  "key_Create E k st = stmt_opt E ''keys.Create''
     (map_option (\<lambda>t. st\<lparr>t_signing_keys := t\<rparr>) (insert_row sk_id (k\<lparr>sk_created_at := wall E\<rparr>) (t_signing_keys st)))"

subsection \<open>Loading and rotating\<close>

definition loadAllKeys :: "env \<Rightarrow> db \<Rightarrow> oidc \<Rightarrow> oidc" where
  "loadAllKeys E st P = (case FindAllValid E (clk E) st of DbErr \<Rightarrow> P | DbOk ks \<Rightarrow> P\<lparr>oi_all := ks\<rparr>)"

definition RotateKey :: "oidc_lib \<Rightarrow> env \<Rightarrow> oidc \<Rightarrow> db \<Rightarrow> unit res \<times> oidc \<times> db" where
  "RotateKey L E P st0 =
     (case rs_generate (ol_rsa L) (draws st0) of
        None \<Rightarrow> (Inl (DriverError ''failed to generate RSA key''), P, bump st0)
      | Some (privPEM, pubPEM) \<Rightarrow>
          (case new_uuid E (bump st0) of
             (None, st) \<Rightarrow> (Inl (DriverError ''uuid''), P, st)
           | (Some i, st) \<Rightarrow>
               (case DeactivateActive E (clk E + hours 24) st of
                  DbErr \<Rightarrow> (Inl (DriverError ''keys.DeactivateActive''), P, st)
                | DbOk st1 \<Rightarrow>
                    (let key = \<lparr>sk_id = i, sk_private_key_pem = privPEM, sk_public_key_pem = pubPEM,
                           sk_algorithm = ''RS256'', sk_active = True, sk_expires_at = None, sk_created_at = wall E\<rparr>
                     in case key_Create E key st1 of
                          DbErr \<Rightarrow> (Inl (DriverError ''keys.Create''), P, st1)
                        | DbOk st2 \<Rightarrow>
                            if \<not> rs_private_ok (ol_rsa L) privPEM
                            then (Inl (DriverError ''failed to parse private key''), P, st2)
                            else (Inr (), loadAllKeys E st2 (P\<lparr>oi_active := Some key, oi_private := Some privPEM\<rparr>), st2)))))"

definition EnsureSigningKey :: "oidc_lib \<Rightarrow> env \<Rightarrow> oidc \<Rightarrow> db \<Rightarrow> unit res \<times> oidc \<times> db" where
  "EnsureSigningKey L E P st =
     (case FindActive_key E st of
        DbErr \<Rightarrow> (Inl (DriverError ''keys.FindActive''), P, st)
      | DbOk None \<Rightarrow> RotateKey L E P st
      | DbOk (Some key) \<Rightarrow>
          if \<not> rs_private_ok (ol_rsa L) (sk_private_key_pem key)
          then (Inl (DriverError ''failed to parse private key''), P, st)
          else (Inr (), loadAllKeys E st (P\<lparr>oi_active := Some key, oi_private := Some (sk_private_key_pem key)\<rparr>), st))"

definition HasActiveKey :: "oidc \<Rightarrow> bool" where
  "HasActiveKey P \<longleftrightarrow> oi_active P \<noteq> None \<and> oi_private P \<noteq> None"

subsection \<open>The published key set\<close>

record jwk =
  jk_kty :: string
  jk_use :: string
  jk_alg :: string
  jk_kid :: string
  jk_n :: string
  jk_e :: string

fun nat_bytes :: "nat \<Rightarrow> string" where
  "nat_bytes n = (if n = 0 then [] else nat_bytes (n div 256) @ [char_of (n mod 256)])"

declare nat_bytes.simps [simp del]

definition jwk_of :: "oidc_lib \<Rightarrow> env \<Rightarrow> signing_key \<Rightarrow> jwk option" where
  "jwk_of L E key =
     map_option (\<lambda>(n, e). \<lparr>jk_kty = ''RSA'', jk_use = ''sig'', jk_alg = sk_algorithm key,
         jk_kid = uuid_string E (sk_id key), jk_n = b64_encode (nat_bytes n),
         jk_e = b64_encode (nat_bytes (nat \<bar>e\<bar>))\<rparr>)
       (rs_public (ol_rsa L) (sk_public_key_pem key))"

definition GetJWKS :: "oidc_lib \<Rightarrow> env \<Rightarrow> oidc \<Rightarrow> jwk list" where
  "GetJWKS L E P = List.map_filter (jwk_of L E) (oi_all P)"

section \<open>Encryption for a client\<close>

definition SupportedJWEAlgs :: "string list" where
  "SupportedJWEAlgs = [''RSA-OAEP-256'', ''ECDH-ES'', ''ECDH-ES+A128KW'', ''ECDH-ES+A256KW'']"

definition SupportedJWEEncs :: "string list" where
  "SupportedJWEEncs = [''A256GCM'', ''A128GCM'', ''A256CBC-HS512'', ''A128CBC-HS256'']"

definition ValidateJWEEncryptionPair :: "jwe_lib \<Rightarrow> string \<Rightarrow> string \<Rightarrow> string option" where
  "ValidateJWEEncryptionPair W alg enc =
     (if alg = [] \<and> enc = [] then None
      else if alg = [] \<or> enc = [] then Some ''both alg and enc must be set together''
      else if \<not> je_key_alg W alg then Some (''unsupported encryption alg: '' @ alg)
      else if \<not> je_content_alg W enc then Some (''unsupported encryption enc: '' @ enc)
      else None)"

type_synonym jwe_cache = "(string \<times> jwk_entry list \<times> time) list"

definition jweJWKSCacheTTL :: duration where
  "jweJWKSCacheTTL = minutes 5"

definition jwe_cache_get :: "time \<Rightarrow> string \<Rightarrow> jwe_cache \<Rightarrow> jwk_entry list option" where
  "jwe_cache_get now uri C =
     (case map_of C uri of
        None \<Rightarrow> None
      | Some (ks, fetchedAt) \<Rightarrow> if time_sub now fetchedAt > jweJWKSCacheTTL then None else Some ks)"

definition fetchClientJWKS :: "oidc_lib \<Rightarrow> time \<Rightarrow> string \<Rightarrow> jwe_cache \<Rightarrow> (string + jwk_entry list) \<times> jwe_cache" where
  "fetchClientJWKS L now uri C =
     (case jwe_cache_get now uri C of
        Some ks \<Rightarrow> (Inr ks, C)
      | None \<Rightarrow>
          (case ValidatePublicHTTPSURL (wb_net (ol_web L)) uri of
             Some msg \<Rightarrow> (Inl (''client jwks_uri rejected: '' @ msg), C)
           | None \<Rightarrow>
               (case wb_get (ol_web L) uri of
                  Inl msg \<Rightarrow> (Inl (''fetch client jwks: '' @ msg), C)
                | Inr (status, body) \<Rightarrow>
                    if status \<noteq> 200 then (Inl (''client jwks endpoint returned '' @ itoa (int status)), C)
                    else (case je_parse (ol_jwe L) (take 1048576 body) of
                            None \<Rightarrow> (Inl ''parse client jwks'', C)
                          | Some ks \<Rightarrow> (Inr ks, (uri, ks, now) # C)))))"

fun pickEncryptionKey :: "jwk_entry option \<Rightarrow> jwk_entry list \<Rightarrow> jwk_entry option" where
  "pickEncryptionKey fallback [] = fallback"
| "pickEncryptionKey fallback (k # ks) =
     (let use = given_else (jw_use k) []
      in if use = ''enc'' then Some k
         else if use = [] \<and> fallback = None then pickEncryptionKey (Some k) ks
         else pickEncryptionKey fallback ks)"

definition EncryptForClient ::
  "oidc_lib \<Rightarrow> time \<Rightarrow> string \<Rightarrow> string \<Rightarrow> string \<Rightarrow> string \<Rightarrow> jwe_cache \<Rightarrow> (string + string) \<times> jwe_cache" where
  "EncryptForClient L now payload uri alg enc C =
     (if \<not> je_key_alg (ol_jwe L) alg then (Inl (''unsupported encryption alg: '' @ alg), C)
      else if \<not> je_content_alg (ol_jwe L) enc then (Inl (''unsupported encryption enc: '' @ enc), C)
      else if uri = [] then (Inl ''client has no jwks_uri configured; cannot encrypt'', C)
      else case fetchClientJWKS L now uri C of
        (Inl msg, C1) \<Rightarrow> (Inl msg, C1)
      | (Inr ks, C1) \<Rightarrow>
          (case pickEncryptionKey None ks of
             None \<Rightarrow> (Inl ''no encryption-capable key found in client JWKS'', C1)
           | Some k \<Rightarrow>
               (case je_encrypt (ol_jwe L) payload k alg enc (given_else (jw_kid k) []) of
                  Inl msg \<Rightarrow> (Inl (''jwe encrypt: '' @ msg), C1)
                | Inr s \<Rightarrow> (Inr s, C1))))"

section \<open>Claims\<close>

definition ComputePairwiseSub :: "env \<Rightarrow> string \<Rightarrow> uuid \<Rightarrow> string \<Rightarrow> string" where
  "ComputePairwiseSub E sector u salt = b64_encode (sha256 E (salt @ sector @ uuid_string E u))"

text \<open>Go's map assignment of one key.\<close>

definition claim_set :: "string \<Rightarrow> any \<Rightarrow> any_map \<Rightarrow> any_map" where
  "claim_set k v m = map_assign m [(k, v)]"

definition enrichClaimsWithRoles :: "env \<Rightarrow> db \<Rightarrow> uuid \<Rightarrow> string list \<Rightarrow> any_map \<Rightarrow> any_map" where
  "enrichClaimsWithRoles E st u scopes m =
     (if List.member scopes ''roles''
      then (case GetUserRoles_row E u st of
              DbErr \<Rightarrow> m
            | DbOk rs \<Rightarrow> claim_set ''groups'' (AStrings (map ro_name rs)) (claim_set ''roles'' (AStrings (map ro_name rs)) m))
      else m)"

definition reservedIDTokenClaims :: "string list" where
  "reservedIDTokenClaims = [''iss'', ''sub'', ''aud'', ''exp'', ''iat'', ''auth_time'', ''nonce'', ''at_hash'',
     ''c_hash'', ''s_hash'', ''acr'', ''amr'']"

definition applyExtraClaims :: "any_map \<Rightarrow> any_map \<Rightarrow> any_map" where
  "applyExtraClaims m extra = map_assign m (filter (\<lambda>(k, v). \<not> List.member reservedIDTokenClaims k) extra)"

definition all_user_claims :: "env \<Rightarrow> user \<Rightarrow> any_map" where
  "all_user_claims E u = OIDCClaims (uuid_string E) u [''openid'', ''profile'', ''email'', ''phone'', ''address'']"

fun add_requested :: "any_map \<Rightarrow> any_map \<Rightarrow> any_map \<Rightarrow> any_map" where
  "add_requested [] available m = m"
| "add_requested ((k, x) # ks) available m =
     add_requested ks available
       (case (map_of m k, map_of available k) of (None, Some v) \<Rightarrow> claim_set k v m | _ \<Rightarrow> m)"

definition applyRequestedClaims :: "oidc_lib \<Rightarrow> env \<Rightarrow> string \<Rightarrow> string \<Rightarrow> user \<Rightarrow> any_map \<Rightarrow> any_map" where
  "applyRequestedClaims L E requested target u m =
     (case ol_requested L requested of
        None \<Rightarrow> m
      | Some parsed \<Rightarrow>
          (case map_of parsed target of None \<Rightarrow> m | Some t \<Rightarrow> add_requested t (all_user_claims E u) m))"

section \<open>ID tokens\<close>

definition id_token_sub :: "env \<Rightarrow> oidc \<Rightarrow> id_token_claims \<Rightarrow> string" where
  "id_token_sub E P c =
     (if it_subject_type c = ''pairwise'' \<and> oi_salt P \<noteq> []
      then ComputePairwiseSub E
             (if it_sector_identifier c = [] then uuid_string E (it_client_id c) else it_sector_identifier c)
             (it_user_id c) (oi_salt P)
      else uuid_string E (it_user_id c))"

definition optional_claim :: "string \<Rightarrow> string \<Rightarrow> any_map" where
  "optional_claim k v = (if v = [] then [] else [(k, AStr v)])"

definition base_id_claims :: "env \<Rightarrow> oidc \<Rightarrow> id_token_claims \<Rightarrow> any_map" where
  "base_id_claims E P c =
     [(''iss'', AStr (oi_issuer P)), (''sub'', AStr (id_token_sub E P c)),
      (''aud'', AStr (uuid_string E (it_client_id c))), (''exp'', AInt (unix (clk E + it_ttl c))),
      (''iat'', AInt (unix (clk E))), (''auth_time'', AInt (unix (it_auth_time c)))] @
     optional_claim ''nonce'' (it_nonce c) @ optional_claim ''at_hash'' (it_at_hash c) @
     optional_claim ''c_hash'' (it_c_hash c) @ optional_claim ''s_hash'' (it_s_hash c) @
     optional_claim ''acr'' (it_acr c) @ (if it_amr c = [] then [] else [(''amr'', AStrings (it_amr c))])"

definition id_token_payload :: "oidc_lib \<Rightarrow> env \<Rightarrow> oidc \<Rightarrow> id_token_claims \<Rightarrow> db \<Rightarrow> any_map" where
  "id_token_payload L E P c st =
     (let u = (case GetByID E (it_user_id c) st of Inl _ \<Rightarrow> None | Inr u \<Rightarrow> Some u);
          m1 = (case u of
                  None \<Rightarrow> base_id_claims E P c
                | Some u \<Rightarrow> map_assign (base_id_claims E P c)
                    (filter (\<lambda>(k, v). k \<noteq> ''sub'') (OIDCClaims (uuid_string E) u (it_scopes c))));
          m2 = enrichClaimsWithRoles E st (it_user_id c) (it_scopes c) m1;
          m3 = applyExtraClaims m2 (given_else (it_extra_claims c) [])
      in case u of
           None \<Rightarrow> m3
         | Some u \<Rightarrow> if it_requested_claims c = [] then m3
                     else applyRequestedClaims L E (it_requested_claims c) ''id_token'' u m3)"

definition signed_with :: "oidc_lib \<Rightarrow> env \<Rightarrow> oidc \<Rightarrow> any_map \<Rightarrow> any_map \<Rightarrow> string + string" where
  "signed_with L E P header m =
     (case (oi_active P, oi_private P) of
        (Some key, Some priv) \<Rightarrow>
          (case rs_sign (ol_rsa L) priv (header @ [(''kid'', AStr (uuid_string E (sk_id key)))]) m of
             None \<Rightarrow> Inl ''failed to sign'' | Some s \<Rightarrow> Inr s)
      | _ \<Rightarrow> Inl ''no active signing key'')"

definition GenerateIDToken ::
  "oidc_lib \<Rightarrow> env \<Rightarrow> oidc \<Rightarrow> id_token_claims \<Rightarrow> db \<Rightarrow> jwe_cache \<Rightarrow> (string + string) \<times> jwe_cache" where
  "GenerateIDToken L E P c st C =
     (case signed_with L E P [] (id_token_payload L E P c st) of
        Inl msg \<Rightarrow> (Inl msg, C)
      | Inr s \<Rightarrow>
          if it_enc_alg c = [] then (Inr s, C)
          else EncryptForClient L (clk E) s (it_enc_jwks_uri c) (it_enc_alg c) (it_enc_enc c) C)"

subsection \<open>Validation\<close>

definition key_named :: "oidc_lib \<Rightarrow> env \<Rightarrow> signing_key list \<Rightarrow> string \<Rightarrow> string + jwt_key" where
  "key_named L E keys kid =
     (case first_where (\<lambda>k. uuid_string E (sk_id k) = kid) keys of
        None \<Rightarrow> Inl ''unknown signing key''
      | Some k \<Rightarrow>
          (case rs_public (ol_rsa L) (sk_public_key_pem k) of
             None \<Rightarrow> Inl ''failed to parse public key'' | Some (n, e) \<Rightarrow> Inr (RsaKey n e)))"

definition own_key :: "oidc_lib \<Rightarrow> env \<Rightarrow> oidc \<Rightarrow> jwt \<Rightarrow> string + jwt_key" where
  "own_key L E P t =
     (if \<not> List.member [''RS256'', ''RS384'', ''RS512''] (jt_alg t) then Inl ''unexpected signing method''
      else case map_of (jt_header t) ''kid'' of
        Some (AStr kid) \<Rightarrow> key_named L E (oi_all P) kid
      | _ \<Rightarrow> Inl ''missing kid in token header'')"

text \<open>\<^verbatim>\<open>jwt.WithIssuer\<close> refuses a token without the issuer or with another one.\<close>

definition parsed_own :: "oidc_lib \<Rightarrow> env \<Rightarrow> oidc \<Rightarrow> bool \<Rightarrow> string \<Rightarrow> string + any_map" where
  "parsed_own L E P needs_exp s =
     (case jl_parse (ol_jwt L) needs_exp (Some [''RS256'']) (own_key L E P) (clk E) s of
        Inl msg \<Rightarrow> Inl msg
      | Inr t \<Rightarrow>
          if jl_string (ol_jwt L) (jt_claims t) ''iss'' \<noteq> Some (oi_issuer P) then Inl ''token has invalid issuer''
          else Inr (jt_claims t))"

definition validateIDTokenClaims :: "oidc_lib \<Rightarrow> env \<Rightarrow> oidc \<Rightarrow> string \<Rightarrow> string + any_map" where
  "validateIDTokenClaims L E P s = parsed_own L E P False s"

definition idTokenSubject :: "env \<Rightarrow> any_map \<Rightarrow> string + uuid" where
  "idTokenSubject E m =
     (case map_of m ''sub'' of
        Some (AStr sub) \<Rightarrow> (case uuid_parse E sub of None \<Rightarrow> Inl ''invalid sub claim'' | Some u \<Rightarrow> Inr u)
      | _ \<Rightarrow> Inl ''missing sub claim'')"

fun first_uuid :: "env \<Rightarrow> any list \<Rightarrow> uuid" where
  "first_uuid E [] = uuid_nil"
| "first_uuid E (AStr s # xs) = (case uuid_parse E s of Some i \<Rightarrow> i | None \<Rightarrow> first_uuid E xs)"
| "first_uuid E (x # xs) = first_uuid E xs"

definition idTokenAudience :: "env \<Rightarrow> any_map \<Rightarrow> uuid" where
  "idTokenAudience E m =
     (case map_of m ''aud'' of
        Some (AStr s) \<Rightarrow> first_uuid E [AStr s]
      | Some (AArr xs) \<Rightarrow> first_uuid E xs
      | _ \<Rightarrow> uuid_nil)"

definition ValidateIDToken :: "oidc_lib \<Rightarrow> env \<Rightarrow> oidc \<Rightarrow> string \<Rightarrow> string + uuid" where
  "ValidateIDToken L E P s =
     (case validateIDTokenClaims L E P s of Inl msg \<Rightarrow> Inl msg | Inr m \<Rightarrow> idTokenSubject E m)"

section \<open>JWT access tokens\<close>

definition reservedAccessTokenClaims :: "string list" where
  "reservedAccessTokenClaims = [''iss'', ''sub'', ''aud'', ''exp'', ''iat'', ''jti'', ''client_id'', ''scope'']"

definition access_payload :: "env \<Rightarrow> oidc \<Rightarrow> jwt_claims \<Rightarrow> string \<Rightarrow> db \<Rightarrow> any_map" where
  "access_payload E P c jti st =
     (let m = [(''iss'', AStr (oi_issuer P)),
               (''sub'', AStr (uuid_string E (given_else (jc_user_id c) (jc_client_id c)))),
               (''aud'', AStr (jc_audience c)), (''exp'', AInt (unix (clk E + jc_ttl c))),
               (''iat'', AInt (unix (clk E))), (''jti'', AStr jti),
               (''client_id'', AStr (uuid_string E (jc_client_id c))), (''scope'', AStr (joinScopes (jc_scopes c)))]
      in map_assign (case jc_user_id c of None \<Rightarrow> m | Some u \<Rightarrow> enrichClaimsWithRoles E st u (jc_scopes c) m)
           (filter (\<lambda>(k, v). \<not> List.member reservedAccessTokenClaims k) (given_else (jc_extra_claims c) [])))"

definition GenerateAccessTokenJWT ::
  "oidc_lib \<Rightarrow> env \<Rightarrow> oidc \<Rightarrow> jwt_claims \<Rightarrow> string \<Rightarrow> db \<Rightarrow> (string + (string \<times> string)) \<times> db" where
  "GenerateAccessTokenJWT L E P c alg st =
     (if \<not> HasActiveKey P then (Inl ''no active signing key'', st)
      else if \<not> List.member [[], ''RS256'', ''RS384'', ''RS512'', ''PS256''] alg
      then (Inl (''unsupported access token signing alg for current server key: '' @ alg), st)
      else (case new_uuid E st of
              (None, st1) \<Rightarrow> (Inl ''uuid'', st1)
            | (Some i, st1) \<Rightarrow>
                ((case signed_with L E P [(''typ'', AStr ''at+jwt'')] (access_payload E P c (uuid_string E i) st) of
                    Inl msg \<Rightarrow> Inl msg
                  | Inr s \<Rightarrow> Inr (s, uuid_string E i)), st1)))"

definition ValidateAccessTokenJWT :: "oidc_lib \<Rightarrow> env \<Rightarrow> oidc \<Rightarrow> string \<Rightarrow> string + any_map" where
  "ValidateAccessTokenJWT L E P s = parsed_own L E P True s"

section \<open>User info\<close>

definition sector_of :: "env \<Rightarrow> client \<Rightarrow> uuid \<Rightarrow> string" where
  "sector_of E c i = (let s = given_else (cl_sector_identifier_uri c) [] in if s = [] then uuid_string E i else s)"

text \<open>A client that is not found and not reported as an error is dereferenced: the request panics.\<close>

definition GetUserInfo :: "env \<Rightarrow> oidc \<Rightarrow> uuid \<Rightarrow> uuid \<Rightarrow> string list \<Rightarrow> db \<Rightarrow> any_map res" where
  "GetUserInfo E P u i scopes st =
     (case GetByID E u st of
        Inl e \<Rightarrow> Inl e
      | Inr usr \<Rightarrow>
          (let m = enrichClaimsWithRoles E st u scopes (OIDCClaims (uuid_string E) usr scopes)
           in if i = uuid_nil then Inr m
              else case FindActiveByID E i st of
                DbErr \<Rightarrow> Inr m
              | DbOk None \<Rightarrow> Inl (DriverError ''panic: nil pointer dereference'')
              | DbOk (Some c) \<Rightarrow>
                  if cl_subject_type c = ''pairwise''
                  then Inr (claim_set ''sub'' (AStr (ComputePairwiseSub E (sector_of E c i) u (oi_salt P))) m)
                  else Inr m))"

definition GenerateUserInfoJWT :: "oidc_lib \<Rightarrow> env \<Rightarrow> oidc \<Rightarrow> any_map \<Rightarrow> uuid \<Rightarrow> string + string" where
  "GenerateUserInfoJWT L E P m i =
     signed_with L E P [] (map_assign [(''iss'', AStr (oi_issuer P)), (''aud'', AStr (uuid_string E i)),
       (''iat'', AInt (unix (clk E)))] m)"

section \<open>Logout\<close>

record end_session_params =
  es_id_token_hint :: string
  es_post_logout_redirect_uri :: string
  es_state :: string
  es_client_id :: string

record end_session_response =
  er_redirect_uri :: string
  er_logged_out :: bool
  er_frontchannel :: "string list"

definition logout_event :: any where
  "logout_event = AObj [(''http://schemas.openid.net/event/backchannel-logout'', AObj [])]"

definition GenerateLogoutToken ::
  "oidc_lib \<Rightarrow> env \<Rightarrow> oidc \<Rightarrow> uuid \<Rightarrow> uuid \<Rightarrow> bool \<Rightarrow> uuid option \<Rightarrow> db \<Rightarrow> (string + string) \<times> db" where
  "GenerateLogoutToken L E P u i sessionRequired sid st =
     (if \<not> HasActiveKey P then (Inl ''no active signing key'', st)
      else case new_uuid E st of
        (jti, st1) \<Rightarrow>
          (signed_with L E P []
             ([(''iss'', AStr (oi_issuer P)), (''sub'', AStr (uuid_string E u)), (''aud'', AStr (uuid_string E i)),
               (''iat'', AInt (unix (clk E))), (''jti'', AStr (uuid_string E (given_else jti uuid_nil))),
               (''events'', logout_event)] @
              (case sid of Some s \<Rightarrow> if sessionRequired then [(''sid'', AStr (uuid_string E s))] else [] | None \<Rightarrow> [])), st1))"

text \<open>The logout tokens posted, each to its client's address; the requests run concurrently.\<close>

fun post_logout_tokens :: "oidc_lib \<Rightarrow> env \<Rightarrow> oidc \<Rightarrow> uuid \<Rightarrow> client list \<Rightarrow> db \<Rightarrow> (string \<times> string) list \<times> db" where
  "post_logout_tokens L E P u [] st = ([], st)"
| "post_logout_tokens L E P u (c # cs) st =
     (case cl_backchannel_logout_uri c of
        None \<Rightarrow> post_logout_tokens L E P u cs st
      | Some uri \<Rightarrow>
          (case GenerateLogoutToken L E P u (cl_id c) (cl_backchannel_logout_session_req c) None st of
             (Inl _, st1) \<Rightarrow> post_logout_tokens L E P u cs st1
           | (Inr tok, st1) \<Rightarrow>
               (case post_logout_tokens L E P u cs st1 of (ps, st2) \<Rightarrow> ((uri, tok) # ps, st2))))"

definition dispatchBackchannelLogout :: "oidc_lib \<Rightarrow> env \<Rightarrow> oidc \<Rightarrow> uuid \<Rightarrow> db \<Rightarrow> (string \<times> string) list \<times> db" where
  "dispatchBackchannelLogout L E P u st =
     (case FindClientsWithBackchannelLogout E u st of
        DbErr \<Rightarrow> ([], st) | DbOk cs \<Rightarrow> post_logout_tokens L E P u cs st)"

text \<open>Whom the hint names: its subject, and the client of its audience.\<close>

definition hinted_session :: "oidc_lib \<Rightarrow> env \<Rightarrow> oidc \<Rightarrow> string \<Rightarrow> uuid option \<times> uuid" where
  "hinted_session L E P hint =
     (if hint = [] then (None, uuid_nil)
      else case validateIDTokenClaims L E P hint of
        Inl _ \<Rightarrow> (None, uuid_nil)
      | Inr m \<Rightarrow> ((case idTokenSubject E m of Inl _ \<Rightarrow> None | Inr u \<Rightarrow> Some u), idTokenAudience E m))"

definition logout_redirect :: "env \<Rightarrow> end_session_params \<Rightarrow> uuid \<Rightarrow> db \<Rightarrow> string" where
  "logout_redirect E p hintClient st =
     (let named = (if es_client_id p = [] then uuid_nil else given_else (uuid_parse E (es_client_id p)) uuid_nil);
          i = (if named = uuid_nil then hintClient else named)
      in if es_post_logout_redirect_uri p = [] \<or> i = uuid_nil then []
         else case FindActiveByID E i st of
           DbOk (Some c) \<Rightarrow>
             if HasPostLogoutRedirectURI c (es_post_logout_redirect_uri p)
             then es_post_logout_redirect_uri p @ (if es_state p = [] then [] else ''?state='' @ es_state p)
             else []
         | _ \<Rightarrow> [])"

definition front_channel_uris :: "env \<Rightarrow> uuid \<Rightarrow> db \<Rightarrow> string list" where
  "front_channel_uris E u st =
     (case FindClientsWithFrontchannelLogout E u st of
        DbErr \<Rightarrow> [] | DbOk cs \<Rightarrow> List.map_filter cl_frontchannel_logout_uri cs)"

definition EndSession ::
  "oidc_lib \<Rightarrow> env \<Rightarrow> oidc \<Rightarrow> end_session_params \<Rightarrow> db \<Rightarrow> end_session_response \<times> (string \<times> string) list \<times> db" where
  "EndSession L E P p st =
     (case hinted_session L E P (es_id_token_hint p) of
        (u, hintClient) \<Rightarrow>
          (let st1 = (case u of None \<Rightarrow> st | Some u \<Rightarrow> snd (session_RevokeAll E u None st));
               (posts, st2) = (case u of None \<Rightarrow> ([], st1) | Some u \<Rightarrow> dispatchBackchannelLogout L E P u st1)
           in (\<lparr>er_redirect_uri = logout_redirect E p hintClient st2, er_logged_out = True,
                er_frontchannel = (case u of None \<Rightarrow> [] | Some u \<Rightarrow> front_channel_uris E u st2)\<rparr>, posts, st2)))"

section \<open>Handlers\<close>

datatype userinfo_reply = Plain any_map | Jwt string

definition non_blank :: "string option \<Rightarrow> bool" where
  "non_blank v \<longleftrightarrow> v \<noteq> None \<and> v \<noteq> Some []"

definition userinfo_for ::
  "oidc_lib \<Rightarrow> env \<Rightarrow> oidc \<Rightarrow> client \<Rightarrow> uuid \<Rightarrow> any_map \<Rightarrow> jwe_cache \<Rightarrow> userinfo_reply res \<times> jwe_cache" where
  "userinfo_for L E P c i m C =
     (let needsEnc = (non_blank (cl_userinfo_enc_alg c) \<and> non_blank (cl_userinfo_enc_enc c))
      in if \<not> non_blank (cl_userinfo_signed_alg c) \<and> \<not> needsEnc then (Inr (Plain m), C)
         else case GenerateUserInfoJWT L E P m i of
           Inl msg \<Rightarrow> (Inl (DriverError msg), C)
         | Inr s \<Rightarrow>
             if \<not> needsEnc then (Inr (Jwt s), C)
             else if \<not> non_blank (cl_jwks_uri c)
             then (Inl (ErrInternal ''client requests encrypted userinfo but has no jwks_uri''), C)
             else (case EncryptForClient L (clk E) s (given_else (cl_jwks_uri c) []) (given_else (cl_userinfo_enc_alg c) [])
                          (given_else (cl_userinfo_enc_enc c) []) C of
                     (Inl msg, C1) \<Rightarrow> (Inl (ErrInternal (''failed to encrypt userinfo: '' @ msg)), C1)
                   | (Inr j, C1) \<Rightarrow> (Inr (Jwt j), C1)))"

definition UserInfo_handler ::
  "oidc_lib \<Rightarrow> env \<Rightarrow> oidc \<Rightarrow> gin \<Rightarrow> db \<Rightarrow> jwe_cache \<Rightarrow> userinfo_reply res \<times> jwe_cache" where
  "UserInfo_handler L E P g st C =
     (case gc_user_id g of
        None \<Rightarrow> (Inl (ErrUnauthorized ''not authenticated''), C)
      | Some u \<Rightarrow>
          (let i = given_else (gc_client_id g) uuid_nil
           in case GetUserInfo E P u i (given_else (gc_scopes g) []) st of
                Inl e \<Rightarrow> (Inl e, C)
              | Inr m \<Rightarrow>
                  if i = uuid_nil then (Inr (Plain m), C)
                  else (case FindActiveByID E i st of
                          DbOk (Some c) \<Rightarrow> userinfo_for L E P c i m C
                        | _ \<Rightarrow> (Inr (Plain m), C))))"

text \<open>The address the browser is sent to; the cookies of the session are cleared.\<close>

definition EndSession_handler :: "oidc_lib \<Rightarrow> env \<Rightarrow> oidc \<Rightarrow> http_request \<Rightarrow> db \<Rightarrow> string \<times> db" where
  "EndSession_handler L E P r st =
     (case EndSession L E P \<lparr>es_id_token_hint = rq_query r ''id_token_hint'',
             es_post_logout_redirect_uri = rq_query r ''post_logout_redirect_uri'', es_state = rq_query r ''state'',
             es_client_id = rq_query r ''client_id''\<rparr> st of
        (resp, posts, st1) \<Rightarrow>
          (let q = Values_Encode (map (Pair ''frontchannel_logout_uris'') (er_frontchannel resp) @
                     (if er_redirect_uri resp = [] then [] else [(''redirect_uri'', er_redirect_uri resp)]))
           in (''/ui/logout'' @ (if q = [] then [] else ''?'' @ q), st1)))"

definition ListKeys_handler :: "oidc_lib \<Rightarrow> env \<Rightarrow> oidc \<Rightarrow> jwk list page" where
  "ListKeys_handler L E P = pkg_List (GetJWKS L E P) (int (length (GetJWKS L E P)))"

definition RotateKey_handler :: "oidc_lib \<Rightarrow> env \<Rightarrow> oidc \<Rightarrow> db \<Rightarrow> unit res \<times> oidc \<times> db" where
  "RotateKey_handler L E P st =
     (case RotateKey L E P st of
        (Inl e, P1, st1) \<Rightarrow> (Inl (ErrInternal (''failed to rotate signing key: '' @ err_text e)), P1, st1)
      | (Inr _, P1, st1) \<Rightarrow> (Inr (), P1, st1))"

section \<open>Metadata documents\<close>

definition response_types :: "string list" where
  "response_types = [''code'', ''code id_token'', ''code token'', ''code id_token token'']"

definition grant_types :: "string list" where
  "grant_types = [''authorization_code'', ''client_credentials'', ''refresh_token'',
     ''urn:ietf:params:oauth:grant-type:device_code'']"

definition auth_methods :: "string list" where
  "auth_methods = [''client_secret_basic'', ''client_secret_post'', ''private_key_jwt'', ''client_secret_jwt'', ''none'']"

definition scopes_supported :: "string list" where
  "scopes_supported = [''openid'', ''profile'', ''email'', ''phone'', ''address'', ''roles'', ''offline_access'']"

definition request_object_algs :: "string list" where
  "request_object_algs = [''RS256'', ''RS384'', ''RS512'', ''PS256'', ''ES256'', ''ES384'']"

definition claims_supported :: "string list" where
  "claims_supported = [''sub'', ''iss'', ''aud'', ''exp'', ''iat'', ''auth_time'', ''nonce'', ''at_hash'', ''acr'', ''amr'',
     ''name'', ''given_name'', ''family_name'', ''middle_name'', ''nickname'', ''preferred_username'', ''profile'',
     ''picture'', ''website'', ''gender'', ''birthdate'', ''zoneinfo'', ''locale'', ''email'', ''email_verified'',
     ''phone_number'', ''phone_number_verified'', ''address'', ''updated_at'', ''roles'', ''groups'']"

text \<open>The documents under the names of their JSON members.\<close>

definition GetDiscovery :: "oidc \<Rightarrow> any_map" where
  "GetDiscovery P = (let url = (\<lambda>p. AStr (oi_issuer P @ p)) in
     [(''issuer'', AStr (oi_issuer P)), (''authorization_endpoint'', url ''/ui/authorize''),
      (''token_endpoint'', url ''/token''), (''userinfo_endpoint'', url ''/userinfo''),
      (''jwks_uri'', url ''/.well-known/jwks.json''), (''introspection_endpoint'', url ''/introspect''),
      (''revocation_endpoint'', url ''/revoke''), (''device_authorization_endpoint'', url ''/device_authorization''),
      (''end_session_endpoint'', url ''/end_session''), (''response_types_supported'', AStrings response_types),
      (''grant_types_supported'', AStrings grant_types), (''subject_types_supported'', AStrings [''public'', ''pairwise'']),
      (''id_token_signing_alg_values_supported'', AStrings [''RS256'']),
      (''id_token_encryption_alg_values_supported'', AStrings SupportedJWEAlgs),
      (''id_token_encryption_enc_values_supported'', AStrings SupportedJWEEncs),
      (''userinfo_encryption_alg_values_supported'', AStrings SupportedJWEAlgs),
      (''userinfo_encryption_enc_values_supported'', AStrings SupportedJWEEncs),
      (''access_token_signing_alg_values_supported'', AStrings [''RS256'']),
      (''scopes_supported'', AStrings scopes_supported),
      (''token_endpoint_auth_methods_supported'', AStrings auth_methods),
      (''claims_supported'', AStrings claims_supported), (''code_challenge_methods_supported'', AStrings [''S256'']),
      (''response_modes_supported'', AStrings [''query'', ''fragment'', ''form_post'']),
      (''request_parameter_supported'', ABool True), (''request_uri_parameter_supported'', ABool True),
      (''request_object_signing_alg_values_supported'', AStrings request_object_algs),
      (''claims_parameter_supported'', ABool True), (''backchannel_logout_supported'', ABool True),
      (''backchannel_logout_session_supported'', ABool True),
      (''authorization_response_iss_parameter_supported'', ABool True),
      (''pushed_authorization_request_endpoint'', url ''/par''), (''frontchannel_logout_supported'', ABool True),
      (''frontchannel_logout_session_supported'', ABool True), (''check_session_iframe'', url ''/check_session''),
      (''userinfo_signing_alg_values_supported'', AStrings [''RS256'']), (''registration_endpoint'', url ''/register'')])"

definition GetOAuthAuthorizationServerMetadata :: "oidc \<Rightarrow> any_map" where
  "GetOAuthAuthorizationServerMetadata P = (let url = (\<lambda>p. AStr (oi_issuer P @ p)) in
     [(''issuer'', AStr (oi_issuer P)), (''authorization_endpoint'', url ''/ui/authorize''),
      (''token_endpoint'', url ''/token''), (''jwks_uri'', url ''/.well-known/jwks.json''),
      (''introspection_endpoint'', url ''/introspect''), (''revocation_endpoint'', url ''/revoke''),
      (''device_authorization_endpoint'', url ''/device_authorization''),
      (''response_types_supported'', AStrings response_types), (''grant_types_supported'', AStrings grant_types),
      (''scopes_supported'', AStrings scopes_supported),
      (''token_endpoint_auth_methods_supported'', AStrings auth_methods),
      (''code_challenge_methods_supported'', AStrings [''S256'']),
      (''response_modes_supported'', AStrings [''query'', ''fragment'', ''form_post'']),
      (''request_parameter_supported'', ABool True), (''request_uri_parameter_supported'', ABool True),
      (''request_object_signing_alg_values_supported'', AStrings request_object_algs),
      (''authorization_response_iss_parameter_supported'', ABool True),
      (''pushed_authorization_request_endpoint'', url ''/par''), (''registration_endpoint'', url ''/register''),
      (''introspection_endpoint_auth_methods_supported'', AStrings auth_methods),
      (''revocation_endpoint_auth_methods_supported'', AStrings auth_methods),
      (''access_token_signing_alg_values_supported'', AStrings [''RS256''])])"

section \<open>The provider as the OAuth service uses it\<close>

definition IDTokenAdapter :: "oidc_lib \<Rightarrow> env \<Rightarrow> oidc \<Rightarrow> db \<Rightarrow> jwe_cache \<Rightarrow> nat \<Rightarrow> id_token_claims \<Rightarrow> string option" where
  "IDTokenAdapter L E P st C n c = (case fst (GenerateIDToken L E P c st C) of Inl _ \<Rightarrow> None | Inr s \<Rightarrow> Some s)"

definition AccessTokenJWTSignerAdapter :: "oidc_lib \<Rightarrow> env \<Rightarrow> oidc \<Rightarrow> db \<Rightarrow> jwt_signer" where
  "AccessTokenJWTSignerAdapter L E P st =
     \<lparr>js_generate = (\<lambda>n c alg. fst (GenerateAccessTokenJWT L E P c alg (st\<lparr>draws := n\<rparr>))),
      js_validate = (\<lambda>s. case ValidateAccessTokenJWT L E P s of Inl _ \<Rightarrow> None | Inr m \<Rightarrow> Some m)\<rparr>"

text \<open>\<^verbatim>\<open>main\<close> hands the provider to the OAuth service in three roles.\<close>

definition with_oidc :: "oidc_lib \<Rightarrow> oidc \<Rightarrow> db \<Rightarrow> jwe_cache \<Rightarrow> env \<Rightarrow> env" where
  "with_oidc L P st C E = E\<lparr>id_token_gen := Some (IDTokenAdapter L E P st C),
     id_token_validator := Some (\<lambda>s. case ValidateIDToken L E P s of Inl _ \<Rightarrow> None | Inr u \<Rightarrow> Some u),
     jwt_signer := Some (AccessTokenJWTSignerAdapter L E P st)\<rparr>"

end
