(* ===== verification/OidcProperties.thy ===== *)
theory OidcProperties
  imports Oidc Demo OAuthHandlers
begin

text \<open>
  The OpenID provider: what a token carries whatever policies add, keys across a rotation and in the
  published set, and what logout does and does not reach.
\<close>

section \<open>Published keys\<close>

lemma bytes_nat_snoc: "bytes_nat (s @ [c]) = bytes_nat s * 256 + of_char c"
  by (simp add: bytes_nat_def)

lemma bytes_nat_bytes: "bytes_nat (nat_bytes n) = n"
proof (induction n rule: nat_bytes.induct)
  case (1 n)
  show ?case
  proof (cases "n = 0")
    case True then show ?thesis by (simp add: nat_bytes.simps [of 0] bytes_nat_def)
  next
    case False
    then have "bytes_nat (nat_bytes n) = n div 256 * 256 + of_char (char_of (n mod 256) :: char)"
      using 1 by (simp add: nat_bytes.simps [of n] bytes_nat_snoc)
    then show ?thesis by (simp add: of_char_of)
  qed
qed

lemma raw_url_roundtrip: "raw_url_decode (b64_encode s) = Some s"
proof -
  have "\<forall>n \<in> set [0..<64]. (of_char (b64_digit n) :: nat) \<noteq> 10 \<and> (of_char (b64_digit n) :: nat) \<noteq> 13"
    by code_simp
  then have "no_breaks (b64_encode s) = b64_encode s"
    using b64_encode_digits [of _ s] by (fastforce simp: no_breaks_def filter_id_conv)
  then show ?thesis by (simp add: raw_url_decode_def b64_roundtrip)
qed

text \<open>Whoever reads the published key set gets the server's own keys: for each key the server verifies
  with, the set has an entry under its identifier whose encoded numbers decode to the modulus and the
  exponent of that key.\<close>

theorem published_keys_roundtrip:
  assumes "key \<in> set (oi_all P)" and "rs_public (ol_rsa L) (sk_public_key_pem key) = Some (n, e)"
    and "0 \<le> e" and "e < 2 ^ 63"
  shows "\<exists>j \<in> set (GetJWKS L E P). jk_kid j = uuid_string E (sk_id key) \<and>
    ParseJWKToRSAPublicKey (jk_n j) (jk_e j) = Some (RsaKey n e)"
proof -
  obtain j where j: "jwk_of L E key = Some j" "jk_kid j = uuid_string E (sk_id key)"
    "jk_n j = b64_encode (nat_bytes n)" "jk_e j = b64_encode (nat_bytes (nat \<bar>e\<bar>))"
    using assms(2) by (simp add: jwk_of_def)
  have "j \<in> set (GetJWKS L E P)"
    using assms(1) j(1) by (auto simp: GetJWKS_def List.map_filter_def image_iff intro!: bexI [of _ key])
  moreover have "int64 e = e" using assms(3,4) by (intro int64_id) simp_all
  ultimately show ?thesis
    using j(2-) assms(3) by (intro bexI [of _ j])
      (simp_all add: ParseJWKToRSAPublicKey_def raw_url_roundtrip bytes_nat_bytes)
qed

section \<open>Rotation\<close>

lemma key_named_row:
  assumes "k \<in> set keys" and "\<And>k'. k' \<in> set keys \<Longrightarrow> uuid_string E (sk_id k') = uuid_string E (sk_id k) \<Longrightarrow>
      sk_public_key_pem k' = sk_public_key_pem k"
  shows "key_named L E keys (uuid_string E (sk_id k)) =
    (case rs_public (ol_rsa L) (sk_public_key_pem k) of
       None \<Rightarrow> Inl ''failed to parse public key'' | Some (n, e) \<Rightarrow> Inr (RsaKey n e))"
proof (cases "first_where (\<lambda>k'. uuid_string E (sk_id k') = uuid_string E (sk_id k)) keys")
  case None
  then show ?thesis using assms(1) by (auto simp: first_where_None_iff)
next
  case (Some k')
  then show ?thesis using assms(2) [of k'] by (auto simp: key_named_def dest: first_where_SomeD)
qed

definition retired :: "env \<Rightarrow> signing_key \<Rightarrow> signing_key" where
  "retired E k = k\<lparr>sk_active := False, sk_expires_at := Some (clk E + hours 24)\<rparr>"

lemma map_id_retired: "map sk_id (update_where sk_active (retired E) ks) = map sk_id ks"
  by (simp add: update_where_def retired_def)

lemma ids_retired: "sk_id ` set (update_where sk_active (retired E) ks) = sk_id ` set ks"
  by (metis map_id_retired list.set_map)

text \<open>What a successful rotation leaves in the table and in memory.\<close>

lemma RotateKey_Inr:
  assumes "RotateKey L E P st = (Inr (), P', st')" and "\<not> db_err E ''keys.FindAllValid''"
  obtains key where "oi_active P' = Some key" "oi_private P' = Some (sk_private_key_pem key)" "sk_active key"
    "sk_id key \<notin> sk_id ` set (t_signing_keys st)" "sk_created_at key = wall E"
    "t_signing_keys st' = update_where sk_active (retired E) (t_signing_keys st) @ [key]"
    "set (oi_all P') = {k \<in> set (t_signing_keys st'). sk_active k \<or> is_after (sk_expires_at k) (clk E)}"
proof -
  obtain priv pub st1 i st2 st3 where i: "new_uuid E (bump st) = (Some i, st1)"
    and d: "DeactivateActive E (clk E + hours 24) st1 = DbOk st2"
    and c: "key_Create E \<lparr>sk_id = i, sk_private_key_pem = priv, sk_public_key_pem = pub, sk_algorithm = ''RS256'',
        sk_active = True, sk_expires_at = None, sk_created_at = wall E\<rparr> st2 = DbOk st3"
    and P': "P' = loadAllKeys E st3 (P\<lparr>oi_active := Some \<lparr>sk_id = i, sk_private_key_pem = priv, sk_public_key_pem = pub,
        sk_algorithm = ''RS256'', sk_active = True, sk_expires_at = None, sk_created_at = wall E\<rparr>, oi_private := Some priv\<rparr>)"
    and st': "st' = st3"
    using assms(1) by (auto simp: RotateKey_def Let_def split: option.splits prod.splits dbres.splits if_splits)
  let ?key = "\<lparr>sk_id = i, sk_private_key_pem = priv, sk_public_key_pem = pub, sk_algorithm = ''RS256'',
      sk_active = True, sk_expires_at = None, sk_created_at = wall E\<rparr>"
  have "t_signing_keys st1 = t_signing_keys st" using i by (auto simp: new_uuid_def bump_def)
  then have t2: "t_signing_keys st2 = update_where sk_active (retired E) (t_signing_keys st)"
    using d by (auto simp: DeactivateActive_def stmt_def retired_def [abs_def] split: if_splits)
  have t3: "t_signing_keys st3 = t_signing_keys st2 @ [?key]" and n: "i \<notin> sk_id ` set (t_signing_keys st2)"
    using c by (auto simp: key_Create_def stmt_opt_def insert_row_def split: if_splits option.splits)
  show thesis
  proof (rule that [of ?key])
    show "oi_active P' = Some ?key" "oi_private P' = Some (sk_private_key_pem ?key)"
      by (simp_all add: P' loadAllKeys_def split: dbres.split)
    show "sk_id ?key \<notin> sk_id ` set (t_signing_keys st)" using n by (simp add: t2 ids_retired)
    show "t_signing_keys st' = update_where sk_active (retired E) (t_signing_keys st) @ [?key]"
      by (simp only: st' t3 t2)
    show "set (oi_all P') = {k \<in> set (t_signing_keys st'). sk_active k \<or> is_after (sk_expires_at k) (clk E)}"
      using assms(2) by (simp add: P' st' loadAllKeys_def FindAllValid_def stmt_def)
  qed simp_all
qed

text \<open>C37 A rotation invalidates nothing: after the signing key was rotated, a token signed under any key
  that was active or in its grace period is verified with that same key as before, the new key is
  active with its own private key, and tokens signed with it are verified with its public key.\<close>

theorem rotation_keeps_tokens_valid:
  assumes "RotateKey L E P st = (Inr (), P', st')" and "\<not> db_err E ''keys.FindAllValid''"
    and "keys_unique sk_id (t_signing_keys st)" and "uuid_roundtrip E"
    and "k \<in> set (t_signing_keys st)" and "sk_active k \<or> is_after (sk_expires_at k) (clk E)"
    and "rs_public (ol_rsa L) (sk_public_key_pem k) = Some (n, e)"
  shows "key_named L E (oi_all P') (uuid_string E (sk_id k)) = Inr (RsaKey n e) \<and>
    (\<exists>new. oi_active P' = Some new \<and> oi_private P' = Some (sk_private_key_pem new) \<and> sk_id new \<noteq> sk_id k \<and>
       key_named L E (oi_all P') (uuid_string E (sk_id new)) =
         (case rs_public (ol_rsa L) (sk_public_key_pem new) of
            None \<Rightarrow> Inl ''failed to parse public key'' | Some (n, e) \<Rightarrow> Inr (RsaKey n e)))"
proof -
  obtain new where new: "oi_active P' = Some new" "oi_private P' = Some (sk_private_key_pem new)" "sk_active new"
    "sk_id new \<notin> sk_id ` set (t_signing_keys st)"
    and t: "t_signing_keys st' = update_where sk_active (retired E) (t_signing_keys st) @ [new]"
    and all: "set (oi_all P') = {k \<in> set (t_signing_keys st'). sk_active k \<or> is_after (sk_expires_at k) (clk E)}"
    by (rule RotateKey_Inr [OF assms(1,2)]) (rule that)
  have h: "hours 24 > 0" by code_simp
  have inj: "uuid_string E a = uuid_string E b \<Longrightarrow> a = b" for a b
    using assms(4) by (metis uuid_roundtrip_def option.inject)
  have "distinct (map sk_id (t_signing_keys st'))"
    using assms(3) new(4) by (simp add: t keys_unique_def map_id_retired ids_retired)
  then have same: "a = b" if "a \<in> set (t_signing_keys st')" "b \<in> set (t_signing_keys st')" "sk_id a = sk_id b" for a b
    using that by (metis inj_on_eq_iff distinct_map)
  let ?k' = "if sk_active k then retired E k else k"
  have "?k' \<in> set (t_signing_keys st')" using assms(5) by (auto simp: t set_update_where)
  then have k': "?k' \<in> set (oi_all P')" "sk_id ?k' = sk_id k" "sk_public_key_pem ?k' = sk_public_key_pem k"
    using assms(6) h by (auto simp: all is_after_def retired_def)
  have n': "new \<in> set (oi_all P')" using new(3) by (simp add: all t)
  have "key_named L E (oi_all P') (uuid_string E (sk_id x)) =
      (case rs_public (ol_rsa L) (sk_public_key_pem x) of
         None \<Rightarrow> Inl ''failed to parse public key'' | Some (n, e) \<Rightarrow> Inr (RsaKey n e))"
    if "x \<in> set (oi_all P')" for x
  proof (rule key_named_row [OF that])
    fix y assume "y \<in> set (oi_all P')" "uuid_string E (sk_id y) = uuid_string E (sk_id x)"
    then have "y = x" using that same [of y x] inj by (simp add: all)
    then show "sk_public_key_pem y = sk_public_key_pem x" by simp
  qed
  from this [OF k'(1)] this [OF n'] show ?thesis
    using new(1,2,4) assms(5,7) k'(2,3) by auto
qed

text \<open>Two keys and a library that knows one signed token.\<close>

definition demo_key :: signing_key where
  "demo_key = \<lparr>sk_id = UUID 8, sk_private_key_pem = ''priv'', sk_public_key_pem = ''pub'', sk_algorithm = ''RS256'',
     sk_active = True, sk_expires_at = None, sk_created_at = 999000000000\<rparr>"

definition demo_token :: jwt where
  "demo_token = \<lparr>jt_alg = ''RS256'', jt_header = [(''kid'', AStr ''uuuuuuuu'')],
     jt_claims = [(''iss'', AStr ''iss''), (''sub'', AStr ''uu''), (''aud'', AStr ''u''), (''exp'', AFloat 1500)]\<rparr>"

definition demo_oidc_lib :: oidc_lib where
  "demo_oidc_lib = \<lparr>
     ol_rsa = \<lparr>rs_generate = (\<lambda>n. Some (''priv2'', ''pub2'')), rs_private_ok = (\<lambda>s. True),
       rs_public = (\<lambda>s. Some (35, 5)), rs_sign = (\<lambda>k h m. Some ''a.b.c'')\<rparr>,
     ol_jwt = \<lparr>jl_unverified = (\<lambda>s. if s = ''a.b.c'' then Some demo_token else None),
       jl_parse = (\<lambda>e ms kf t s. if s = ''a.b.c'' \<and> t \<le> 1500000000000
         then (case kf demo_token of Inl msg \<Rightarrow> Inl msg | Inr k \<Rightarrow> Inr demo_token) else Inl ''bad token''),
       jl_string = (\<lambda>m k. case map_of m k of Some (AStr s) \<Rightarrow> Some s | _ \<Rightarrow> None), jl_audience = (\<lambda>m. None),
       jl_struct_field = (\<lambda>t f. None), jl_jwks = (\<lambda>s. None)\<rparr>,
     ol_jwe = \<lparr>je_key_alg = (\<lambda>a. False), je_content_alg = (\<lambda>a. False), je_parse = (\<lambda>s. None),
       je_encrypt = (\<lambda>p k a e i. Inl ''none'')\<rparr>,
     ol_web = \<lparr>wb_net = \<lparr>nl_parse_error = (\<lambda>s. []), nl_lookup = (\<lambda>h. Inl []), nl_ip_string = (\<lambda>ip. [])\<rparr>,
       wb_get = (\<lambda>u. Inl ''down'')\<rparr>,
     ol_requested = (\<lambda>s. None)\<rparr>"

definition demo_oidc :: oidc where
  "demo_oidc = \<lparr>oi_issuer = ''iss'', oi_salt = [], oi_active = Some demo_key, oi_private = Some ''priv'',
     oi_all = [demo_key]\<rparr>"

definition keys_db :: db where
  "keys_db = demo_db\<lparr>t_signing_keys := [demo_key]\<rparr>"

theorem published_keys_roundtrip_witness:
  "\<exists>j \<in> set (GetJWKS demo_oidc_lib demo_env demo_oidc). jk_kid j = ''uuuuuuuu'' \<and>
     ParseJWKToRSAPublicKey (jk_n j) (jk_e j) = Some (RsaKey 35 5)"
proof -
  have "uuid_string demo_env (sk_id demo_key) = ''uuuuuuuu''"
    by (simp add: demo_key_def demo_uuid_string_def eval_nat_numeral)
  then show ?thesis
    using published_keys_roundtrip [of demo_key demo_oidc demo_oidc_lib 35 5 demo_env]
    by (simp add: demo_oidc_def demo_oidc_lib_def)
qed

definition rotated :: "unit res \<times> oidc \<times> db" where
  "rotated = RotateKey demo_oidc_lib demo_env demo_oidc keys_db"

lemma rotated_ok: "fst rotated = Inr ()"
  by (simp add: rotated_def RotateKey_def Let_def demo_oidc_lib_def new_uuid_def DeactivateActive_def stmt_def bump_def
      key_Create_def stmt_opt_def insert_row_def update_where_def keys_db_def demo_key_def demo_db_def empty_db_def)

theorem rotation_keeps_tokens_valid_witness:
  "key_named demo_oidc_lib demo_env (oi_all (fst (snd rotated))) ''uuuuuuuu'' = Inr (RsaKey 35 5)"
proof -
  have r: "RotateKey demo_oidc_lib demo_env demo_oidc keys_db = (Inr (), fst (snd rotated), snd (snd rotated))"
    using rotated_ok by (metis rotated_def prod.collapse)
  have "uuid_string demo_env (sk_id demo_key) = ''uuuuuuuu''"
    by (simp add: demo_key_def demo_uuid_string_def eval_nat_numeral)
  then show ?thesis
    using rotation_keeps_tokens_valid [OF r, of demo_key 35 5]
    by (simp add: keys_unique_def keys_db_def uuid_roundtrip_def demo_oidc_lib_def) (simp add: demo_key_def)
qed

section \<open>What an ID token says\<close>

lemma member_names:
  "(k, x) \<in> set (str_member n v) \<Longrightarrow> k = n" "(k, x) \<in> set (bool_member n b) \<Longrightarrow> k = n"
  "(k, x) \<in> set (address_member n a) \<Longrightarrow> k = n"
  by (auto simp: str_member_def bool_member_def address_member_def split: option.splits)

lemma reserved_not_a_user_claim:
  assumes "k \<in> set reservedIDTokenClaims" and "k \<noteq> ''sub''"
  shows "k \<notin> fst ` set (OIDCClaims str u scopes)"
proof
  assume "k \<in> fst ` set (OIDCClaims str u scopes)"
  then have "k \<in> {''sub'', ''email'', ''email_verified'', ''phone_number'', ''phone_number_verified'', ''address'',
      ''name'', ''picture'', ''updated_at'', ''given_name'', ''family_name'', ''middle_name'', ''nickname'',
      ''preferred_username'', ''profile'', ''website'', ''gender'', ''birthdate'', ''zoneinfo'', ''locale''}"
    unfolding OIDCClaims_def profile_claims_def Let_def set_append image_Un
    by (auto dest: member_names split: if_splits)
  then show False using assms by (auto simp: reservedIDTokenClaims_def)
qed

lemma add_requested_other:
  "k \<in> dom (map_of m) \<or> k \<notin> dom (map_of available) \<Longrightarrow> map_of (add_requested ks available m) k = map_of m k"
proof (induction ks available m rule: add_requested.induct)
  case (2 k' x ks available m)
  let ?m = "case (map_of m k', map_of available k') of (None, Some v) \<Rightarrow> claim_set k' v m | _ \<Rightarrow> m"
  have "map_of ?m k = map_of m k"
    using 2(2) by (auto simp: claim_set_def map_of_map_assign map_of_filter_other dom_def map_of_append map_add_def
        split: option.splits)
  moreover have "k \<in> dom (map_of ?m) \<or> k \<notin> dom (map_of available)" using 2(2) calculation by (auto simp: dom_def)
  ultimately show ?case using 2(1) by simp
qed simp

lemma map_assign_other: "k \<notin> fst ` set m' \<Longrightarrow> map_of (map_assign m m') k = map_of m k"
  by (auto simp: map_of_map_assign split: option.splits dest!: map_of_SomeD intro: rev_image_eqI)

lemma claim_set_other: "k \<noteq> k' \<Longrightarrow> map_of (claim_set k' v m) k = map_of m k"
  unfolding claim_set_def by (rule map_assign_other) simp

text \<open>C39 The claims that say who signed in, for whom, when and how cannot be changed: whatever the user's
  profile and roles, the extra claims a policy adds and the claims the request asks for, each reserved
  claim of the ID token is the one the server computed, and is missing when the server set none.\<close>

theorem id_token_reserved_claims:
  "list_all (\<lambda>k. map_of (id_token_payload L E P c st) k = map_of (base_id_claims E P c) k) reservedIDTokenClaims"
proof -
  have "map_of (id_token_payload L E P c st) k = map_of (base_id_claims E P c) k"
    if k: "k \<in> set reservedIDTokenClaims" for k
  proof -
    have roles: "map_of (enrichClaimsWithRoles E st u s m) k = map_of m k" for u s m
    proof -
      have "k \<noteq> ''roles''" "k \<noteq> ''groups''" using k by (auto simp: reservedIDTokenClaims_def)
      then show ?thesis by (simp add: enrichClaimsWithRoles_def claim_set_other split: dbres.split)
    qed
    have extra: "map_of (applyExtraClaims m x) k = map_of m k" for m x
      using k by (auto simp: applyExtraClaims_def intro!: map_assign_other)
    have own: "map_of (map_assign (base_id_claims E P c) (filter (\<lambda>(k, v). k \<noteq> ''sub'') (OIDCClaims str u s))) k =
        map_of (base_id_claims E P c) k" for str u s
      using reserved_not_a_user_claim [OF k, of str u s] by (intro map_assign_other) (auto simp: rev_image_eqI)
    have sub: "''sub'' \<in> dom (map_of (base_id_claims E P c))" by (simp add: base_id_claims_def)
    have req: "map_of (applyRequestedClaims L E rq tgt u m) k = map_of m k"
      if "map_of m k = map_of (base_id_claims E P c) k" for rq tgt u m
    proof -
      have "k \<in> dom (map_of m) \<or> k \<notin> dom (map_of (all_user_claims E u))"
      proof (cases "k = ''sub''")
        case True then show ?thesis using that sub by (simp add: dom_def)
      next
        case False
        then show ?thesis using reserved_not_a_user_claim [OF k False]
          by (simp add: dom_map_of_conv_image_fst all_user_claims_def)
      qed
      then show ?thesis by (auto simp: applyRequestedClaims_def add_requested_other split: option.splits)
    qed
    show ?thesis
      by (simp add: id_token_payload_def Let_def extra roles own req split: sum.splits option.splits)
  qed
  then show ?thesis by (simp add: list_all_iff)
qed


section \<open>Logout\<close>

lemma post_logout_tokens_state:
  "post_logout_tokens L E P u cs st = (ps, st') \<Longrightarrow> st' = st\<lparr>draws := draws st'\<rparr> \<and>
     (\<forall>q \<in> set ps. \<exists>c \<in> set cs. cl_backchannel_logout_uri c = Some (fst q))"
proof (induction cs arbitrary: st st' ps)
  case (Cons c cs)
  show ?case
  proof (cases "cl_backchannel_logout_uri c")
    case None
    then show ?thesis using Cons by fastforce
  next
    case (Some uri)
    obtain r st1 where g: "GenerateLogoutToken L E P u (cl_id c) (cl_backchannel_logout_session_req c) None st = (r, st1)"
      by (metis surj_pair)
    then have st1: "st1 = st\<lparr>draws := draws st1\<rparr>"
      by (auto simp: GenerateLogoutToken_def new_uuid_def bump_def split: if_splits prod.splits)
    obtain qs st2 where p: "post_logout_tokens L E P u cs st1 = (qs, st2)" by (metis surj_pair)
    have ih: "st2 = st1\<lparr>draws := draws st2\<rparr>"
      "\<forall>q \<in> set qs. \<exists>c \<in> set cs. cl_backchannel_logout_uri c = Some (fst q)"
      using Cons.IH [OF p] by blast+
    have "st2 = st\<lparr>draws := draws st2\<rparr>" by (subst ih(1), subst st1) simp
    then show ?thesis using Cons.prems ih(2) Some by (auto simp: g p split: sum.splits)
  qed
qed simp

lemma dispatch_state:
  assumes "dispatchBackchannelLogout L E P u st = (ps, st')"
  shows "st' = st\<lparr>draws := draws st'\<rparr>" and "q \<in> set ps \<Longrightarrow> \<exists>c \<in> set (t_clients st). cl_active c \<and>
      cl_backchannel_logout_uri c = Some (fst q) \<and> List.member (consented_clients u st) (cl_id c)"
proof -
  have "st' = st\<lparr>draws := draws st'\<rparr> \<and> (\<forall>q \<in> set ps. \<exists>c \<in> set (t_clients st). cl_active c \<and>
      cl_backchannel_logout_uri c = Some (fst q) \<and> List.member (consented_clients u st) (cl_id c))"
  proof (cases "db_err E ''client.FindBackchannel''")
    case True
    then show ?thesis using assms by (simp add: dispatchBackchannelLogout_def FindClientsWithBackchannelLogout_def stmt_def)
  next
    case False
    then have "post_logout_tokens L E P u (filter (\<lambda>c. cl_backchannel_logout_uri c \<noteq> None \<and> cl_active c \<and>
        List.member (consented_clients u st) (cl_id c)) (t_clients st)) st = (ps, st')"
      using assms by (simp add: dispatchBackchannelLogout_def FindClientsWithBackchannelLogout_def stmt_def)
    from post_logout_tokens_state [OF this] show ?thesis by auto
  qed
  then show "st' = st\<lparr>draws := draws st'\<rparr>" and "q \<in> set ps \<Longrightarrow> \<exists>c \<in> set (t_clients st). cl_active c \<and>
      cl_backchannel_logout_uri c = Some (fst q) \<and> List.member (consented_clients u st) (cl_id c)" by blast+
qed

lemma logout_redirect_registered:
  assumes "logout_redirect E p h st \<noteq> []"
  shows "\<exists>c :: client. c \<in> set (t_clients st) \<and> cl_active c \<and>
    HasPostLogoutRedirectURI c (es_post_logout_redirect_uri p)"
  using assms by (auto simp: logout_redirect_def Let_def FindActiveByID_def stmt_def
      split: if_splits dbres.splits option.splits dest!: first_where_SomeD)


section \<open>Introspection of an ID token\<close>

text \<open>An ID token is an active access token to introspection: a string that verifies as an ID token of
  this server and carries an expiry (so that requiring one changes nothing) is reported as active,
  with the user as its subject, unless its identifier, which an ID token does not have, is on the
  denylist or a policy denies the call.\<close>

theorem id_token_introspects_as_access_token:
  assumes "validateIDTokenClaims L E P s = Inr m"
    and "\<And>ms keyf. jl_parse (ol_jwt L) True ms keyf (clk E) s = jl_parse (ol_jwt L) False ms keyf (clk E) s"
    and "looksLikeJWT s" and "hinted hint ''access_token''"
    and "IsJTIRevoked (with_oidc L P st C E) (str_claim m ''jti'') st = DbOk False"
    and "\<not> deniedByIntrospectPolicy (with_oidc L P st C E) ''access_token''
        (parse_or_nil (with_oidc L P st C E) (str_claim m ''client_id'')) (jwt_user (with_oidc L P st C E) m)
        (parseSpaceDelimited (str_claim m ''scope'')) (non_empty (str_claim m ''aud'')) requester"
  shows "\<exists>r. Introspect (with_oidc L P st C E) s hint iss requester st = Inr r \<and> in_active r \<and>
    in_sub r = str_claim m ''sub'' \<and> in_token_type r = ''Bearer''"
proof -
  have "ValidateAccessTokenJWT L E P s = Inr m"
    using assms(1) by (simp add: ValidateAccessTokenJWT_def validateIDTokenClaims_def parsed_own_def assms(2))
  then have "jwt_branch (with_oidc L P st C E) s hint = Some m"
    using assms(3,4) by (simp add: jwt_branch_def with_oidc_def AccessTokenJWTSignerAdapter_def)
  moreover have "s \<noteq> []" using assms(3) by (auto simp: looksLikeJWT_def)
  ultimately show ?thesis
    using assms(5,6) by (simp add: Introspect_def introspectJWTAccessToken_def Let_def)
qed

subsection \<open>Witnesses\<close>

lemma demo_hint: "hinted_session demo_oidc_lib demo_env demo_oidc ''a.b.c'' = (Some (UUID 2), UUID 1)"
  and demo_validates: "validateIDTokenClaims demo_oidc_lib demo_env demo_oidc ''a.b.c'' = Inr (jt_claims demo_token)"
proof -
  have k: "demo_uuid_string (UUID 8) = ''uuuuuuuu''" by (simp add: demo_uuid_string_def eval_nat_numeral)
  show v: "validateIDTokenClaims demo_oidc_lib demo_env demo_oidc ''a.b.c'' = Inr (jt_claims demo_token)"
    by (simp add: validateIDTokenClaims_def parsed_own_def demo_oidc_lib_def demo_oidc_def demo_token_def own_key_def
        key_named_def demo_key_def k)
  show "hinted_session demo_oidc_lib demo_env demo_oidc ''a.b.c'' = (Some (UUID 2), UUID 1)"
    by (simp add: hinted_session_def v) (simp add: demo_token_def idTokenSubject_def idTokenAudience_def demo_uuid_parse_def)
qed

definition demo_logout :: end_session_params where
  "demo_logout = \<lparr>es_id_token_hint = ''a.b.c'', es_post_logout_redirect_uri = ''bye'', es_state = [], es_client_id = []\<rparr>"


theorem id_token_introspects_as_access_token_witness:
  "\<exists>r. Introspect (with_oidc demo_oidc_lib demo_oidc demo_db [] demo_env) ''a.b.c'' [] ''iss'' (UUID 1) demo_db = Inr r \<and>
     in_active r \<and> in_sub r = ''uu''"
proof -
  have "\<exists>r. Introspect (with_oidc demo_oidc_lib demo_oidc demo_db [] demo_env) ''a.b.c'' [] ''iss'' (UUID 1) demo_db = Inr r \<and>
     in_active r \<and> in_sub r = str_claim (jt_claims demo_token) ''sub'' \<and> in_token_type r = ''Bearer''"
  proof (rule id_token_introspects_as_access_token [OF demo_validates])
    show "jl_parse (ol_jwt demo_oidc_lib) True ms keyf (clk demo_env) ''a.b.c'' =
        jl_parse (ol_jwt demo_oidc_lib) False ms keyf (clk demo_env) ''a.b.c''" for ms keyf
      by (simp add: demo_oidc_lib_def)
    show "looksLikeJWT ''a.b.c''" by (simp add: looksLikeJWT_def)
    show "hinted [] ''access_token''" by (simp add: hinted_def)
    show "IsJTIRevoked (with_oidc demo_oidc_lib demo_oidc demo_db [] demo_env)
        (str_claim (jt_claims demo_token) ''jti'') demo_db = DbOk False"
      by (simp add: IsJTIRevoked_def with_oidc_def stmt_def demo_token_def str_claim_def)
    show "\<not> deniedByIntrospectPolicy (with_oidc demo_oidc_lib demo_oidc demo_db [] demo_env) ''access_token''
        (parse_or_nil (with_oidc demo_oidc_lib demo_oidc demo_db [] demo_env) (str_claim (jt_claims demo_token) ''client_id''))
        (jwt_user (with_oidc demo_oidc_lib demo_oidc demo_db [] demo_env) (jt_claims demo_token))
        (parseSpaceDelimited (str_claim (jt_claims demo_token) ''scope''))
        (non_empty (str_claim (jt_claims demo_token) ''aud'')) (UUID 1)"
      by (simp add: deniedByIntrospectPolicy_def evaluate_policy_def with_oidc_def)
  qed
  moreover have "str_claim (jt_claims demo_token) ''sub'' = ''uu''" by (simp add: demo_token_def str_claim_def)
  ultimately show ?thesis by metis
qed

end
