(* ===== verification/Invitations.thy ===== *)
theory Invitations
  imports Gates Settings
begin

text \<open>
  Invitations and the admin settings (\<^verbatim>\<open>invitation/\<close>): creation with its mail, lookup, the
  registration by invitation, and the handlers. The readers of single settings are in \<^verbatim>\<open>Settings\<close>.
  The first section has what the handlers of all packages share: an operation over the database that
  answers an error or a value.
\<close>

section \<open>Handlers as operations\<close>

type_synonym 'a action = "db \<Rightarrow> 'a res \<times> db"

definition refused :: "err \<Rightarrow> 'a action" where
  "refused e st = (Inl e, st)"

definition giving :: "(db \<Rightarrow> 'a res) \<Rightarrow> 'a action" where
  "giving f st = (f st, st)"

definition and_then :: "'a action \<Rightarrow> ('a \<Rightarrow> 'b action) \<Rightarrow> 'b action" where
  "and_then op k st = (case op st of (Inl e, st1) \<Rightarrow> (Inl e, st1) | (Inr v, st1) \<Rightarrow> k v st1)"

definition yields :: "'a action \<Rightarrow> ('a \<Rightarrow> 'b) \<Rightarrow> 'b action" where
  "yields op f st = (case op st of (Inl e, st1) \<Rightarrow> (Inl e, st1) | (Inr v, st1) \<Rightarrow> (Inr (f v), st1))"

definition signed_in :: "gin \<Rightarrow> (uuid \<Rightarrow> 'a action) \<Rightarrow> 'a action" where
  "signed_in g k = (case gc_user_id g of None \<Rightarrow> refused (ErrUnauthorized ''not authenticated'') | Some u \<Rightarrow> k u)"

definition bound :: "'a body \<Rightarrow> ('a \<Rightarrow> 'b action) \<Rightarrow> 'b action" where
  "bound b k = (case b of Inl m \<Rightarrow> refused (bad_body m) | Inr v \<Rightarrow> k v)"

definition path_id :: "env \<Rightarrow> string \<Rightarrow> string \<Rightarrow> (uuid \<Rightarrow> 'a action) \<Rightarrow> 'a action" where
  "path_id E what s k = (case uuid_parse E s of None \<Rightarrow> refused (ErrBadRequest what) | Some i \<Rightarrow> k i)"

definition or_500 :: "string \<Rightarrow> 'a dbres \<Rightarrow> 'a res" where
  "or_500 msg r = (case r of DbErr \<Rightarrow> Inl (ErrInternal msg) | DbOk v \<Rightarrow> Inr v)"

definition or_driver :: "string \<Rightarrow> 'a dbres \<Rightarrow> 'a res" where
  "or_driver call r = (case r of DbErr \<Rightarrow> Inl (DriverError call) | DbOk v \<Rightarrow> Inr v)"

lemmas actions = refused_def giving_def and_then_def yields_def signed_in_def bound_def path_id_def or_500_def or_driver_def

text \<open>One page of rows.\<close>

definition page_of :: "int \<Rightarrow> int \<Rightarrow> 'r list \<Rightarrow> 'r list" where
  "page_of page perPage rs = take (nat perPage) (drop (nat ((page - 1) * perPage)) rs)"

definition PublicProfile :: "env \<Rightarrow> user \<Rightarrow> any_map" where
  "PublicProfile E u =
     [(''id'', AStr (uuid_string E (us_id u))), (''email'', AStr (us_email u)),
      (''email_verified'', ABool (us_email_verified u)), (''active'', ABool (us_active u)),
      (''created_at'', AInt (us_created_at u)), (''updated_at'', AInt (us_updated_at u))] @
     str_member ''display_name'' (us_display_name u) @ str_member ''avatar_url'' (us_avatar_url u) @
     str_member ''phone'' (us_phone u)"

section \<open>Repository\<close>

definition inv_Create :: "env \<Rightarrow> invitation \<Rightarrow> db \<Rightarrow> invitation dbres \<times> db" where
  "inv_Create E iv st =
     (case new_uuid E st of
        (None, st1) \<Rightarrow> (DbErr, st1)
      | (Some i, st1) \<Rightarrow>
          (let v = iv\<lparr>iv_id := i, iv_created_at := wall E\<rparr>
           in if List.member (map iv_token (t_invitations st1)) (iv_token v) then (DbErr, st1)
              else case stmt_opt E ''invitation.Create''
                     (map_option (\<lambda>t. st1\<lparr>t_invitations := t\<rparr>) (insert_row iv_id v (t_invitations st1))) of
                DbErr \<Rightarrow> (DbErr, st1) | DbOk st2 \<Rightarrow> (DbOk v, st2)))"

text \<open>\<^verbatim>\<open>NOW()\<close> is the clock of the database.\<close>

definition inv_FindByToken :: "env \<Rightarrow> string \<Rightarrow> db \<Rightarrow> invitation option dbres" where
  "inv_FindByToken E h st = stmt E ''invitation.FindByToken''
     (first_where (\<lambda>v. iv_token v = h \<and> \<not> iv_used v \<and> iv_expires_at v > wall E) (t_invitations st))"

definition inv_FindByID :: "env \<Rightarrow> uuid \<Rightarrow> db \<Rightarrow> invitation option dbres" where
  "inv_FindByID E i st = stmt E ''invitation.FindByID'' (first_where (\<lambda>v. iv_id v = i) (t_invitations st))"

definition inv_List :: "env \<Rightarrow> int \<Rightarrow> int \<Rightarrow> db \<Rightarrow> (invitation list \<times> nat) dbres" where
  "inv_List E page perPage st = stmt E ''invitation.List''
     (page_of page perPage (rev (sort_key iv_created_at (t_invitations st))), length (t_invitations st))"

definition inv_MarkUsed :: "env \<Rightarrow> invitation \<Rightarrow> db \<Rightarrow> db dbres" where
  "inv_MarkUsed E v st = stmt E ''invitation.MarkUsed'' (st\<lparr>t_invitations := save_row iv_id v (t_invitations st)\<rparr>)"

definition inv_Delete_row :: "env \<Rightarrow> uuid \<Rightarrow> db \<Rightarrow> db dbres" where
  "inv_Delete_row E i st = stmt E ''invitation.Delete''
     (st\<lparr>t_invitations := delete_where (\<lambda>v. iv_id v = i) (t_invitations st)\<rparr>)"

definition GetAllSettings_row :: "env \<Rightarrow> db \<Rightarrow> (string \<times> string) list dbres" where
  "GetAllSettings_row E st = stmt E ''settings.GetAll'' (t_settings st)"

section \<open>Service\<close>

definition week :: duration where
  "week = hours (7 * 24)"

definition create_invitation_tx :: "env \<Rightarrow> string \<Rightarrow> string \<Rightarrow> invitation \<Rightarrow> db \<Rightarrow> invitation res \<times> db" where
  "create_invitation_tx E email raw iv st =
     (case inv_Create E iv st of
        (DbErr, st1) \<Rightarrow> (Inl (ErrInternal ''failed to create invitation''), st1)
      | (DbOk v, st1) \<Rightarrow>
          (case mail_SendInvitationEmail E email raw st1 of
             (Inl e, st2) \<Rightarrow> (Inl e, st2) | (Inr _, st2) \<Rightarrow> (Inr v, st2)))"

definition inv_Create_op :: "env \<Rightarrow> string \<Rightarrow> string list \<Rightarrow> uuid \<Rightarrow> db \<Rightarrow> invitation res \<times> db" where
  "inv_Create_op E email roleIDs invitedBy st =
     (case GenerateRandomString E 32 st of
        (None, st1) \<Rightarrow> (Inl (ErrInternal ''failed to generate invitation token''), st1)
      | (Some raw, st1) \<Rightarrow>
          Transaction E (create_invitation_tx E email raw
            \<lparr>iv_id = uuid_nil, iv_email = email, iv_token = HashToken (sha256 E) raw, iv_role_ids = roleIDs,
             iv_invited_by = invitedBy, iv_used = False, iv_used_at = None, iv_expires_at = wall E + week,
             iv_created_at = wall E\<rparr>) st1)"

definition inv_Delete :: "env \<Rightarrow> uuid \<Rightarrow> db \<Rightarrow> unit res \<times> db" where
  "inv_Delete E i st =
     (case inv_FindByID E i st of
        DbErr \<Rightarrow> (Inl (ErrInternal ''failed to find invitation''), st)
      | DbOk None \<Rightarrow> (Inl (ErrNotFound ''invitation not found''), st)
      | DbOk (Some _) \<Rightarrow>
          (case inv_Delete_row E i st of
             DbErr \<Rightarrow> (Inl (ErrInternal ''failed to delete invitation''), st)
           | DbOk st1 \<Rightarrow> (Inr (), st1)))"

text \<open>A role that does not parse or cannot be assigned is skipped.\<close>

fun assign_invited_roles :: "env \<Rightarrow> uuid \<Rightarrow> string list \<Rightarrow> db \<Rightarrow> db" where
  "assign_invited_roles E u [] st = st"
| "assign_invited_roles E u (r # rs) st =
     (case uuid_parse E r of
        None \<Rightarrow> assign_invited_roles E u rs st
      | Some i \<Rightarrow> assign_invited_roles E u rs (snd (AssignRole E u i st)))"

definition spent :: "env \<Rightarrow> invitation \<Rightarrow> invitation" where
  "spent E v = v\<lparr>iv_used := True, iv_used_at := Some (wall E)\<rparr>"

text \<open>The registration of an invited user: the input has no extra fields for the registration form.\<close>

definition invited_input :: "invitation \<Rightarrow> string \<Rightarrow> string option \<Rightarrow> register_input" where
  "invited_input v pw display =
     \<lparr>ri_email = iv_email v, ri_password = pw, ri_display_name = display, ri_extra_fields = [],
      ri_skip_verification_email = False\<rparr>"

definition admit_invited :: "env \<Rightarrow> invitation \<Rightarrow> user \<Rightarrow> db \<Rightarrow> user res \<times> db" where
  "admit_invited E v u st =
     (let st1 = snd (AdminUpdate E (us_id u)
                  \<lparr>au_email = None, au_display_name = None, au_active = None, au_email_verified = Some True\<rparr> st);
          st2 = assign_invited_roles E (us_id u) (iv_role_ids v) st1
      in (Inr (u\<lparr>us_email_verified := True\<rparr>), db_ignore st2 (inv_MarkUsed E (spent E v) st2)))"

definition RegisterWithInvite :: "env \<Rightarrow> string \<Rightarrow> string \<Rightarrow> string option \<Rightarrow> db \<Rightarrow> user res \<times> db" where
  "RegisterWithInvite E token pw display st =
     (case inv_FindByToken E (HashToken (sha256 E) token) st of
        DbErr \<Rightarrow> (Inl (ErrInternal ''failed to check invitation''), st)
      | DbOk None \<Rightarrow> (Inl (ErrBadRequest ''invalid or expired invitation token''), st)
      | DbOk (Some v) \<Rightarrow>
          if iv_IsExpired v (wall E) then (Inl (ErrBadRequest ''invitation has expired''), st)
          else (case Register E (invited_input v pw display) st of
                  (Inl e, st1) \<Rightarrow> (Inl e, st1)
                | (Inr u, st1) \<Rightarrow> admit_invited E v u st1))"

definition ValidateToken :: "env \<Rightarrow> string \<Rightarrow> db \<Rightarrow> invitation option res" where
  "ValidateToken E raw st =
     (if raw = [] then Inr None
      else case inv_FindByToken E (HashToken (sha256 E) raw) st of
        DbErr \<Rightarrow> Inl (ErrInternal ''failed to check invitation'')
      | DbOk None \<Rightarrow> Inr None
      | DbOk (Some v) \<Rightarrow> if iv_used v \<or> iv_IsExpired v (wall E) then Inr None else Inr (Some v))"

definition ConsumeToken :: "env \<Rightarrow> invitation \<Rightarrow> db \<Rightarrow> unit res \<times> db" where
  "ConsumeToken E v st =
     (case inv_MarkUsed E (spent E v) st of
        DbErr \<Rightarrow> (Inl (ErrInternal ''failed to mark invitation as used''), st)
      | DbOk st1 \<Rightarrow> (Inr (), st1))"

text \<open>The settings as the map the handlers print.\<close>

definition GetAllSettings :: "env \<Rightarrow> db \<Rightarrow> (string \<times> string) list res" where
  "GetAllSettings E st = or_500 ''failed to get settings'' (GetAllSettings_row E st)"

section \<open>Handlers\<close>

definition LookupInvitation :: "env \<Rightarrow> string \<Rightarrow> (string \<times> time) action" where
  "LookupInvitation E token =
     (if token = [] then refused (ErrBadRequest ''missing token'')
      else and_then (giving (ValidateToken E token)) (\<lambda>found. case found of
             None \<Rightarrow> refused (ErrNotFound ''invitation not found or expired'')
           | Some v \<Rightarrow> giving (\<lambda>st. Inr (iv_email v, iv_expires_at v))))"

record federation_info =
  fo_name :: string
  fo_display_name :: "string option"
  fo_type :: string

record public_settings =
  ps_registration_enabled :: bool
  ps_post_register_redirect :: string
  ps_providers :: "federation_info list"

text \<open>The lister is the federation service, when it is wired.\<close>

definition PublicSettings :: "env \<Rightarrow> (db \<Rightarrow> federation_info list res) option \<Rightarrow> db \<Rightarrow> public_settings" where
  "PublicSettings E lister st =
     \<lparr>ps_registration_enabled = IsRegistrationEnabled E st,
      ps_post_register_redirect = GetPostRegisterRedirectURL E st,
      ps_providers = (case lister of None \<Rightarrow> [] | Some f \<Rightarrow> (case f st of Inl _ \<Rightarrow> [] | Inr ps \<Rightarrow> ps))\<rparr>"

definition inv_Create_handler :: "env \<Rightarrow> gin \<Rightarrow> (string \<times> string list) body \<Rightarrow> invitation action" where
  "inv_Create_handler E g b = signed_in g (\<lambda>u. bound b (\<lambda>(email, roles). inv_Create_op E email roles u))"

definition inv_List_handler :: "env \<Rightarrow> http_request \<Rightarrow> invitation list page action" where
  "inv_List_handler E r = giving (\<lambda>st.
     (case ParsePagination r of
        (page, perPage) \<Rightarrow>
          (case inv_List E page perPage st of
             DbErr \<Rightarrow> Inl (ErrInternal ''failed to list invitations'')
           | DbOk (vs, n) \<Rightarrow> Inr (Paginated vs (int n) page perPage))))"

definition inv_Delete_handler :: "env \<Rightarrow> string \<Rightarrow> unit action" where
  "inv_Delete_handler E s = path_id E ''invalid invitation ID'' s (inv_Delete E)"

record invite_input =
  vi_token :: string
  vi_password :: string
  vi_display_name :: "string option"

definition RegisterWithInvite_handler :: "env \<Rightarrow> invite_input body \<Rightarrow> any_map action" where
  "RegisterWithInvite_handler E b = bound b (\<lambda>i.
     yields (RegisterWithInvite E (vi_token i) (vi_password i) (vi_display_name i)) (PublicProfile E))"

subsection \<open>Changing settings\<close>

record settings_input =
  si_registration_enabled :: "bool option"
  si_default_role :: "string option"
  si_access_token_ttl :: "int option"
  si_refresh_token_ttl :: "int option"
  si_id_token_ttl :: "int option"
  si_post_register_redirect :: "string option"
  si_session_ttl :: "int option"
  si_session_extended_ttl :: "int option"
  si_email_verification :: "bool option"

definition bool_text :: "bool \<Rightarrow> string" where
  "bool_text b = (if b then ''true'' else ''false'')"

text \<open>What the handler does for each member of the body, in its order: refuse, or write one setting.\<close>

definition setting_steps :: "string list \<Rightarrow> settings_input \<Rightarrow> (err + string \<times> string) list" where
  "setting_steps origins i =
     (let put = (\<lambda>k v. case v of None \<Rightarrow> [] | Some x \<Rightarrow> [Inr (k, x)]);
          positive = (\<lambda>k v. case v of None \<Rightarrow> []
            | Some n \<Rightarrow> [if n \<le> 0 then Inl (ErrBadRequest (k @ '' must be > 0'')) else Inr (k, itoa n)])
      in put ''registration_enabled'' (map_option bool_text (si_registration_enabled i)) @
         put ''invitations_default_role'' (si_default_role i) @
         put ''default_access_token_ttl'' (map_option itoa (si_access_token_ttl i)) @
         put ''default_refresh_token_ttl'' (map_option itoa (si_refresh_token_ttl i)) @
         put ''default_id_token_ttl'' (map_option itoa (si_id_token_ttl i)) @
         (case si_post_register_redirect i of None \<Rightarrow> []
          | Some u \<Rightarrow> [if u \<noteq> [] \<and> \<not> IsOriginAllowed u origins
                      then Inl (ErrBadRequest ''post-register redirect URL origin is not allowlisted'')
                      else Inr (''default_post_register_redirect_url'', u)]) @
         positive ''default_session_ttl'' (si_session_ttl i) @
         positive ''default_session_extended_ttl'' (si_session_extended_ttl i) @
         put ''registration_email_verification_required'' (map_option bool_text (si_email_verification i)))"

fun run_settings :: "env \<Rightarrow> (err + string \<times> string) list \<Rightarrow> unit action" where
  "run_settings E [] st = (Inr (), st)"
| "run_settings E (Inl e # xs) st = (Inl e, st)"
| "run_settings E (Inr (k, v) # xs) st =
     (case UpdateSetting E k v st of (Inl e, st1) \<Rightarrow> (Inl e, st1) | (Inr _, st1) \<Rightarrow> run_settings E xs st1)"

definition GetSettings_handler :: "env \<Rightarrow> (string \<times> string) list action" where
  "GetSettings_handler E = giving (GetAllSettings E)"

definition UpdateSettings :: "env \<Rightarrow> string list \<Rightarrow> settings_input body \<Rightarrow> (string \<times> string) list action" where
  "UpdateSettings E origins b = bound b (\<lambda>i.
     and_then (run_settings E (setting_steps origins i)) (\<lambda>_. giving (GetAllSettings E)))"

end
