(* ===== verification/FedProviders.thy ===== *)
theory FedProviders
  imports Invitations OAuthHandlers Clients "HOL-Library.List_Lexorder"
begin

text \<open>
  Federation with external identity providers, up to the verified claims (\<^verbatim>\<open>federation/service.go\<close>,
  \<^verbatim>\<open>oauth_client.go\<close>, \<^verbatim>\<open>repository.go\<close>, \<^verbatim>\<open>state_repository.go\<close>): the provider rows, the OAuth client
  built for a provider with its cache of discovery documents, the start of a login or of a link, and
  the callback. The packages \<^verbatim>\<open>golang.org/x/oauth2\<close> and \<^verbatim>\<open>go-oidc\<close> are the record \<open>fed_lib\<close>.
\<close>

section \<open>The libraries\<close>

text \<open>A discovery document; the address of the user info is an error when it cannot be read.\<close>

record discovery =
  di_auth_url :: string
  di_token_url :: string
  di_userinfo :: "string + string"
  di_keys :: string

record oauth_config =
  xc_client_id :: string
  xc_client_secret :: string
  xc_redirect_url :: string
  xc_auth_url :: string
  xc_token_url :: string
  xc_scopes :: "string list"

record fed_token =
  ft_access :: string
  ft_id_token :: "string option"

text \<open>A verified ID token: its nonce, and its claims unless they do not decode.\<close>

record fed_id_token =
  ti_nonce :: string
  ti_claims :: "any_map option"

record fed_lib =
  fd_discover :: "string \<Rightarrow> string + discovery"
  fd_auth_url :: "oauth_config \<Rightarrow> string \<Rightarrow> (string \<times> string) list \<Rightarrow> string"
  fd_exchange :: "oauth_config \<Rightarrow> string \<Rightarrow> string \<Rightarrow> string + fed_token"
  fd_verify :: "discovery \<Rightarrow> string \<Rightarrow> string list \<Rightarrow> time \<Rightarrow> string \<Rightarrow> string + fed_id_token"
  fd_userinfo :: "oauth_config \<Rightarrow> fed_token \<Rightarrow> string \<Rightarrow> string + nat \<times> any_map option"

section \<open>Repositories\<close>

definition fed_CreateProvider_row :: "env \<Rightarrow> fed_provider \<Rightarrow> db \<Rightarrow> fed_provider dbres \<times> db" where
  "fed_CreateProvider_row E p st =
     (case new_uuid E st of
        (None, st1) \<Rightarrow> (DbErr, st1)
      | (Some i, st1) \<Rightarrow>
          (let q = p\<lparr>fp_id := i, fp_updated_at := wall E\<rparr>
           in if List.member (map fp_name (t_fed_providers st1)) (fp_name q) then (DbErr, st1)
              else case stmt_opt E ''federation.CreateProvider''
                     (map_option (\<lambda>t. st1\<lparr>t_fed_providers := t\<rparr>) (insert_row fp_id q (t_fed_providers st1))) of
                DbErr \<Rightarrow> (DbErr, st1) | DbOk st2 \<Rightarrow> (DbOk q, st2)))"

definition FindProviderByID :: "env \<Rightarrow> uuid \<Rightarrow> db \<Rightarrow> fed_provider option dbres" where
  "FindProviderByID E i st = stmt E ''federation.FindProviderByID'' (first_where (\<lambda>p. fp_id p = i) (t_fed_providers st))"

definition FindProviderByName :: "env \<Rightarrow> string \<Rightarrow> db \<Rightarrow> fed_provider option dbres" where
  "FindProviderByName E n st = stmt E ''federation.FindProviderByName''
     (first_where (\<lambda>p. fp_name p = n \<and> fp_active p) (t_fed_providers st))"

definition fed_ListProviders_row :: "env \<Rightarrow> db \<Rightarrow> fed_provider list dbres" where
  "fed_ListProviders_row E st = stmt E ''federation.ListProviders'' (sort_key (\<lambda>p. map (of_char :: char \<Rightarrow> nat) (fp_name p)) (t_fed_providers st))"

definition fed_UpdateProvider_row :: "env \<Rightarrow> fed_provider \<Rightarrow> db \<Rightarrow> fed_provider dbres \<times> db" where
  "fed_UpdateProvider_row E p st =
     (let q = p\<lparr>fp_updated_at := wall E\<rparr>
      in case stmt E ''federation.UpdateProvider'' (st\<lparr>t_fed_providers := save_row fp_id q (t_fed_providers st)\<rparr>) of
           DbErr \<Rightarrow> (DbErr, st) | DbOk st1 \<Rightarrow> (DbOk q, st1))"

text \<open>The foreign keys cascade.\<close>

definition fed_DeleteProvider_row :: "env \<Rightarrow> uuid \<Rightarrow> db \<Rightarrow> db dbres" where
  "fed_DeleteProvider_row E i st = stmt E ''federation.DeleteProvider''
     (st\<lparr>t_fed_providers := delete_where (\<lambda>p. fp_id p = i) (t_fed_providers st),
         t_fed_links := delete_where (\<lambda>l. fl_provider_id l = i) (t_fed_links st),
         t_fed_requests := delete_where (\<lambda>r. fr_provider_id r = i) (t_fed_requests st),
         t_fed_pending_links := delete_where (\<lambda>p. fk_provider_id p = i) (t_fed_pending_links st),
         t_fed_pending_signups := delete_where (\<lambda>p. fs_provider_id p = i) (t_fed_pending_signups st)\<rparr>)"

text \<open>The table has a unique index on provider and external identity, and its foreign keys.\<close>

definition CreateLink :: "env \<Rightarrow> fed_link \<Rightarrow> db \<Rightarrow> fed_link dbres \<times> db" where
  "CreateLink E l st =
     (case new_uuid E st of
        (None, st1) \<Rightarrow> (DbErr, st1)
      | (Some i, st1) \<Rightarrow>
          (let k = l\<lparr>fl_id := i\<rparr>
           in if first_where (\<lambda>x. fl_provider_id x = fl_provider_id k \<and> fl_external_id x = fl_external_id k) (t_fed_links st1) \<noteq> None
                 \<or> user_row st1 (fl_user_id k) = None
                 \<or> \<not> List.member (map fp_id (t_fed_providers st1)) (fl_provider_id k) then (DbErr, st1)
              else case stmt_opt E ''federation.CreateLink''
                     (map_option (\<lambda>t. st1\<lparr>t_fed_links := t\<rparr>) (insert_row fl_id k (t_fed_links st1))) of
                DbErr \<Rightarrow> (DbErr, st1) | DbOk st2 \<Rightarrow> (DbOk k, st2)))"

definition FindLink :: "env \<Rightarrow> uuid \<Rightarrow> string \<Rightarrow> db \<Rightarrow> fed_link option dbres" where
  "FindLink E p x st = stmt E ''federation.FindLink''
     (first_where (\<lambda>l. fl_provider_id l = p \<and> fl_external_id l = x) (t_fed_links st))"

definition FindLinksByUser :: "env \<Rightarrow> uuid \<Rightarrow> db \<Rightarrow> fed_link list dbres" where
  "FindLinksByUser E u st = stmt E ''federation.FindLinksByUser'' (filter (\<lambda>l. fl_user_id l = u) (t_fed_links st))"

definition DeleteLink :: "env \<Rightarrow> uuid \<Rightarrow> db \<Rightarrow> db dbres" where
  "DeleteLink E i st = stmt E ''federation.DeleteLink''
     (st\<lparr>t_fed_links := delete_where (\<lambda>l. fl_id l = i) (t_fed_links st)\<rparr>)"

definition FindLinkByID :: "env \<Rightarrow> uuid \<Rightarrow> db \<Rightarrow> fed_link option dbres" where
  "FindLinkByID E i st = stmt E ''federation.FindLinkByID'' (first_where (\<lambda>l. fl_id l = i) (t_fed_links st))"

subsection \<open>One-shot rows\<close>

definition InsertAuthRequest :: "env \<Rightarrow> fed_request \<Rightarrow> db \<Rightarrow> db dbres" where
  "InsertAuthRequest E r st = stmt_opt E ''federation.InsertAuthRequest''
     (map_option (\<lambda>t. st\<lparr>t_fed_requests := t\<rparr>) (insert_row fr_state r (t_fed_requests st)))"

definition InsertPendingLink :: "env \<Rightarrow> fed_pending_link \<Rightarrow> db \<Rightarrow> db dbres" where
  "InsertPendingLink E p st = stmt_opt E ''federation.InsertPendingLink''
     (map_option (\<lambda>t. st\<lparr>t_fed_pending_links := t\<rparr>) (insert_row fk_token_hash p (t_fed_pending_links st)))"

definition InsertPendingSignup :: "env \<Rightarrow> fed_pending_signup \<Rightarrow> db \<Rightarrow> db dbres" where
  "InsertPendingSignup E p st = stmt_opt E ''federation.InsertPendingSignup''
     (map_option (\<lambda>t. st\<lparr>t_fed_pending_signups := t\<rparr>) (insert_row fs_token_hash p (t_fed_pending_signups st)))"

definition record_not_found :: err where
  "record_not_found = DriverError ''record not found''"

text \<open>Delete on read: the row is found and deleted in one transaction, and then its expiry looked at.\<close>

definition take_tx :: "env \<Rightarrow> string \<Rightarrow> 'r option \<Rightarrow> db \<Rightarrow> db \<Rightarrow> 'r res \<times> db" where
  "take_tx E call found gone st =
     (case stmt E (call @ ''.find'') found of
        DbErr \<Rightarrow> (Inl (DriverError call), st)
      | DbOk None \<Rightarrow> (Inl record_not_found, st)
      | DbOk (Some r) \<Rightarrow>
          (case stmt E (call @ ''.delete'') gone of
             DbErr \<Rightarrow> (Inl (DriverError call), st) | DbOk st1 \<Rightarrow> (Inr r, st1)))"

definition consumed :: "env \<Rightarrow> ('r \<Rightarrow> time) \<Rightarrow> 'r res \<times> db \<Rightarrow> 'r option dbres \<times> db" where
  "consumed E expiry x =
     (case x of
        (Inl e, st) \<Rightarrow> (if e = record_not_found then DbOk None else DbErr, st)
      | (Inr r, st) \<Rightarrow> (DbOk (if wall E > expiry r then None else Some r), st))"

definition ConsumeAuthRequest :: "env \<Rightarrow> string \<Rightarrow> db \<Rightarrow> fed_request option dbres \<times> db" where
  "ConsumeAuthRequest E s st = consumed E fr_expires_at (Transaction E (\<lambda>st. take_tx E ''federation.ConsumeAuthRequest''
     (first_where (\<lambda>r. fr_state r = s) (t_fed_requests st))
     (st\<lparr>t_fed_requests := delete_where (\<lambda>r. fr_state r = s) (t_fed_requests st)\<rparr>) st) st)"

definition ConsumePendingLink :: "env \<Rightarrow> string \<Rightarrow> db \<Rightarrow> fed_pending_link option dbres \<times> db" where
  "ConsumePendingLink E h st = consumed E fk_expires_at (Transaction E (\<lambda>st. take_tx E ''federation.ConsumePendingLink''
     (first_where (\<lambda>p. fk_token_hash p = h) (t_fed_pending_links st))
     (st\<lparr>t_fed_pending_links := delete_where (\<lambda>p. fk_token_hash p = h) (t_fed_pending_links st)\<rparr>) st) st)"

definition ConsumePendingSignup :: "env \<Rightarrow> string \<Rightarrow> db \<Rightarrow> fed_pending_signup option dbres \<times> db" where
  "ConsumePendingSignup E h st = consumed E fs_expires_at (Transaction E (\<lambda>st. take_tx E ''federation.ConsumePendingSignup''
     (first_where (\<lambda>p. fs_token_hash p = h) (t_fed_pending_signups st))
     (st\<lparr>t_fed_pending_signups := delete_where (\<lambda>p. fs_token_hash p = h) (t_fed_pending_signups st)\<rparr>) st) st)"

definition GetPendingSignup :: "env \<Rightarrow> string \<Rightarrow> db \<Rightarrow> fed_pending_signup option dbres" where
  "GetPendingSignup E h st =
     (case stmt E ''federation.GetPendingSignup'' (first_where (\<lambda>p. fs_token_hash p = h) (t_fed_pending_signups st)) of
        DbErr \<Rightarrow> DbErr
      | DbOk None \<Rightarrow> DbOk None
      | DbOk (Some p) \<Rightarrow> DbOk (if wall E > fs_expires_at p then None else Some p))"

definition DeleteExpiredAuthRequests :: "env \<Rightarrow> db \<Rightarrow> db dbres" where
  "DeleteExpiredAuthRequests E st = stmt E ''federation.DeleteExpiredAuthRequests''
     (st\<lparr>t_fed_requests := delete_where (\<lambda>r. fr_expires_at r < wall E) (t_fed_requests st)\<rparr>)"

definition DeleteExpiredPendingLinks :: "env \<Rightarrow> db \<Rightarrow> db dbres" where
  "DeleteExpiredPendingLinks E st = stmt E ''federation.DeleteExpiredPendingLinks''
     (st\<lparr>t_fed_pending_links := delete_where (\<lambda>p. fk_expires_at p < wall E) (t_fed_pending_links st)\<rparr>)"

definition DeleteExpiredPendingSignups :: "env \<Rightarrow> db \<Rightarrow> db dbres" where
  "DeleteExpiredPendingSignups E st = stmt E ''federation.DeleteExpiredPendingSignups''
     (st\<lparr>t_fed_pending_signups := delete_where (\<lambda>p. fs_expires_at p < wall E) (t_fed_pending_signups st)\<rparr>)"

section \<open>The client of a provider\<close>

record builder_entry =
  be_updated_at :: time
  be_provider :: discovery
  be_userinfo :: string
  be_client_id :: string

type_synonym builder = "(uuid \<times> builder_entry) list"

text \<open>The verifier of an OIDC provider is its discovery document and the client it checks for.\<close>

record oauth_client =
  xo_config :: oauth_config
  xo_verifier :: "(discovery \<times> string) option"
  xo_userinfo :: string
  xo_is_oidc :: bool

definition Invalidate :: "uuid \<Rightarrow> builder \<Rightarrow> builder" where
  "Invalidate i B = filter (\<lambda>(k, e). k \<noteq> i) B"

definition cached_entry :: "builder \<Rightarrow> fed_provider \<Rightarrow> builder_entry option" where
  "cached_entry B p =
     (case map_of B (fp_id p) of
        None \<Rightarrow> None
      | Some e \<Rightarrow> if \<not> fp_updated_at p > be_updated_at e \<and> be_client_id e = fp_client_id p then Some e else None)"

definition oidcEntry :: "fed_lib \<Rightarrow> fed_provider \<Rightarrow> builder \<Rightarrow> builder_entry res \<times> builder" where
  "oidcEntry L p B =
     (case cached_entry B p of
        Some e \<Rightarrow> (Inr e, B)
      | None \<Rightarrow>
          (case fd_discover L (derefStr (fp_issuer_url p)) of
             Inl msg \<Rightarrow> (Inl (ErrInternal (''oidc discovery failed: '' @ msg)), B)
           | Inr d \<Rightarrow>
               (case di_userinfo d of
                  Inl msg \<Rightarrow> (Inl (ErrInternal (''oidc discovery claims unreadable: '' @ msg)), B)
                | Inr u \<Rightarrow>
                    (let e = \<lparr>be_updated_at = fp_updated_at p, be_provider = d, be_userinfo = u, be_client_id = fp_client_id p\<rparr>
                     in (Inr e, (fp_id p, e) # Invalidate (fp_id p) B)))))"

definition config_of :: "fed_provider \<Rightarrow> string \<Rightarrow> string \<Rightarrow> string \<Rightarrow> string \<Rightarrow> oauth_config" where
  "config_of p secret redirect auth tok =
     \<lparr>xc_client_id = fp_client_id p, xc_client_secret = secret, xc_redirect_url = redirect,
      xc_auth_url = auth, xc_token_url = tok, xc_scopes = fp_scopes p\<rparr>"

definition forOIDC :: "fed_lib \<Rightarrow> fed_provider \<Rightarrow> string \<Rightarrow> string \<Rightarrow> builder \<Rightarrow> oauth_client res \<times> builder" where
  "forOIDC L p secret redirect B =
     (if derefStr (fp_issuer_url p) = [] then (Inl (ErrBadRequest ''oidc provider requires issuer_url''), B)
      else case oidcEntry L p B of
        (Inl e, B1) \<Rightarrow> (Inl e, B1)
      | (Inr e, B1) \<Rightarrow>
          (Inr \<lparr>xo_config = config_of p secret redirect (di_auth_url (be_provider e)) (di_token_url (be_provider e)),
                xo_verifier = Some (be_provider e, be_client_id e),
                xo_userinfo = (if derefStr (fp_userinfo_url p) \<noteq> [] then derefStr (fp_userinfo_url p) else be_userinfo e),
                xo_is_oidc = True\<rparr>, B1))"

definition forOAuth2 :: "fed_provider \<Rightarrow> string \<Rightarrow> string \<Rightarrow> oauth_client" where
  "forOAuth2 p secret redirect =
     \<lparr>xo_config = config_of p secret redirect (derefStr (fp_authorization_url p)) (derefStr (fp_token_url p)),
      xo_verifier = None, xo_userinfo = derefStr (fp_userinfo_url p), xo_is_oidc = False\<rparr>"

definition ForProvider :: "fed_lib \<Rightarrow> fed_provider \<Rightarrow> string \<Rightarrow> string \<Rightarrow> builder \<Rightarrow> oauth_client res \<times> builder" where
  "ForProvider L p secret redirect B =
     (if fp_type p = ''oidc'' then forOIDC L p secret redirect B
      else if fp_type p = ''oauth2'' then (Inr (forOAuth2 p secret redirect), B)
      else (Inl (ErrBadRequest (''unsupported federation provider type '' @ quoted (fp_type p))), B))"

section \<open>Administration of providers\<close>

record fed_service =
  fv_lib :: fed_lib
  fv_net :: net_lib
  fv_prims :: primitives
  fv_key :: string
  fv_issuer :: string
  fv_auth_ui :: string
  fv_origins :: "string list"

definition trim_slashes :: "string \<Rightarrow> string" where
  "trim_slashes s = rev (dropWhile (\<lambda>c. c = CHR ''/'') (rev s))"

definition AuthUIBaseURL :: "fed_service \<Rightarrow> string" where
  "AuthUIBaseURL S = (let ui = trim_slashes (fv_auth_ui S) in if ui \<noteq> [] then ui else trim_slashes (fv_issuer S) @ ''/ui'')"

fun first_bad_url :: "fed_service \<Rightarrow> (string \<times> string option) list \<Rightarrow> err option" where
  "first_bad_url S [] = None"
| "first_bad_url S ((field, u) # us) =
     (if derefStr u = [] then first_bad_url S us
      else case ValidatePublicHTTPSURL (fv_net S) (derefStr u) of
        Some msg \<Rightarrow> Some (ErrBadRequest (''invalid '' @ field @ '': '' @ msg))
      | None \<Rightarrow> first_bad_url S us)"

definition validateProviderURLs ::
  "fed_service \<Rightarrow> string option \<Rightarrow> string option \<Rightarrow> string option \<Rightarrow> string option \<Rightarrow> string option \<Rightarrow> err option" where
  "validateProviderURLs S iss auth tok info jwks =
     first_bad_url S [(''issuer_url'', iss), (''authorization_url'', auth), (''token_url'', tok),
       (''userinfo_url'', info), (''jwks_uri'', jwks)]"

definition sealSecret :: "fed_service \<Rightarrow> env \<Rightarrow> string \<Rightarrow> db \<Rightarrow> string res \<times> db" where
  "sealSecret S E plain st =
     (if fv_key S = []
      then (Inl (ErrBadRequest ''federation client_secret encryption is not configured (auth.hmac_secret_encryption_key is unset)''), st)
      else case EncryptHMACSecret (fv_prims S) (rand_bytes E (draws st) 12) plain (fv_key S) of
        None \<Rightarrow> (Inl (DriverError ''hmac encryption''), bump st)
      | Some c \<Rightarrow> (Inr c, bump st))"

definition RevealSecret :: "fed_service \<Rightarrow> fed_provider \<Rightarrow> string res" where
  "RevealSecret S p =
     (if fp_client_secret_encrypted p \<noteq> []
      then if fv_key S = []
           then Inl (ErrInternal ''encrypted federation secret cannot be opened (auth.hmac_secret_encryption_key is unset)'')
           else (case DecryptHMACSecret (fv_prims S) (fp_client_secret_encrypted p) (fv_key S) of
                   None \<Rightarrow> Inl (ErrInternal ''failed to decrypt federation client_secret'')
                 | Some s \<Rightarrow> Inr s)
      else if derefStr (fp_client_secret p) \<noteq> [] then Inr (derefStr (fp_client_secret p))
      else Inl (ErrInternal ''federation provider has no client_secret configured''))"

definition allowedMapperKeys :: "string list" where
  "allowedMapperKeys = [''external_id'', ''email'', ''email_verified'', ''name'', ''picture'']"

fun mapper_error :: "any_map \<Rightarrow> err option" where
  "mapper_error [] = None"
| "mapper_error ((k, v) # m) =
     (if \<not> List.member allowedMapperKeys k
      then Some (ErrBadRequest (''attribute_mapper key '' @ quoted k @ '' is not allowed''))
      else case v of AStr s \<Rightarrow> mapper_error m
           | _ \<Rightarrow> Some (ErrBadRequest (''attribute_mapper['' @ quoted k @ ''] must be a string'')))"

text \<open>A mapper is absent or a JSON value; \<^verbatim>\<open>null\<close> decodes into the empty map.\<close>

definition validateAttributeMapper :: "any option \<Rightarrow> err option" where
  "validateAttributeMapper raw =
     (case raw of
        None \<Rightarrow> None
      | Some ANil \<Rightarrow> None
      | Some (AObj m) \<Rightarrow> mapper_error m
      | _ \<Rightarrow> Some (ErrBadRequest ''attribute_mapper must be a JSON object''))"

definition defaultAttributeMapper :: any where
  "defaultAttributeMapper = AObj [(''external_id'', AStr ''sub''), (''email'', AStr ''email''),
     (''email_verified'', AStr ''email_verified''), (''name'', AStr ''name''), (''picture'', AStr ''picture'')]"

record provider_input =
  np_name :: string
  np_display_name :: "string option"
  np_type :: string
  np_client_id :: string
  np_client_secret :: string
  np_issuer_url :: "string option"
  np_authorization_url :: "string option"
  np_token_url :: "string option"
  np_userinfo_url :: "string option"
  np_jwks_uri :: "string option"
  np_scopes :: "string list"
  np_attribute_mapper :: "any option"
  np_sync_on_login :: "bool option"
  np_allow_link_confirmation :: "bool option"

definition provider_of_input :: "provider_input \<Rightarrow> string \<Rightarrow> fed_provider" where
  "provider_of_input i ciphered =
     \<lparr>fp_id = uuid_nil, fp_name = np_name i, fp_display_name = np_display_name i, fp_type = np_type i,
      fp_client_id = np_client_id i, fp_client_secret = None, fp_client_secret_encrypted = ciphered,
      fp_issuer_url = np_issuer_url i, fp_authorization_url = np_authorization_url i, fp_token_url = np_token_url i,
      fp_userinfo_url = np_userinfo_url i, fp_jwks_uri = np_jwks_uri i, fp_scopes = np_scopes i,
      fp_attribute_mapper = (case np_attribute_mapper i of None \<Rightarrow> Some defaultAttributeMapper | Some v \<Rightarrow> Some v),
      fp_sync_on_login = (np_sync_on_login i = Some True),
      fp_allow_link_confirmation = (np_allow_link_confirmation i = Some True), fp_active = True, fp_updated_at = 0\<rparr>"

definition bad_type :: err where
  "bad_type = ErrBadRequest (''type must be 'oidc' or 'oauth2'' @ [CHR 0x27])"

text \<open>A failing look-up of the name leaves a provider behind its error, and reads as a conflict.\<close>

definition CreateProvider :: "fed_service \<Rightarrow> env \<Rightarrow> provider_input \<Rightarrow> db \<Rightarrow> fed_provider res \<times> db" where
  "CreateProvider S E i st =
     (if FindProviderByName E (np_name i) st \<noteq> DbOk None then (Inl (ErrConflict ''provider name already exists''), st)
      else case validateAttributeMapper (np_attribute_mapper i) of
        Some e \<Rightarrow> (Inl e, st)
      | None \<Rightarrow>
          if \<not> List.member [''oidc'', ''oauth2''] (np_type i) then (Inl bad_type, st)
          else (case validateProviderURLs S (np_issuer_url i) (np_authorization_url i) (np_token_url i)
                       (np_userinfo_url i) (np_jwks_uri i) of
                  Some e \<Rightarrow> (Inl e, st)
                | None \<Rightarrow>
                    (case sealSecret S E (np_client_secret i) st of
                       (Inl e, st1) \<Rightarrow> (Inl e, st1)
                     | (Inr c, st1) \<Rightarrow>
                         (case fed_CreateProvider_row E (provider_of_input i c) st1 of
                            (DbErr, st2) \<Rightarrow> (Inl (ErrInternal ''failed to create provider''), st2)
                          | (DbOk p, st2) \<Rightarrow> (Inr p, st2)))))"

definition fed_GetProvider :: "env \<Rightarrow> uuid \<Rightarrow> db \<Rightarrow> fed_provider res" where
  "fed_GetProvider E i st =
     (case FindProviderByID E i st of DbOk (Some p) \<Rightarrow> Inr p | _ \<Rightarrow> Inl (ErrNotFound ''provider not found''))"

definition fed_ListProviders :: "env \<Rightarrow> db \<Rightarrow> fed_provider list res" where
  "fed_ListProviders E st = or_driver ''federation.ListProviders'' (fed_ListProviders_row E st)"

definition ListActiveProviders :: "env \<Rightarrow> db \<Rightarrow> fed_provider list res" where
  "ListActiveProviders E st =
     (case fed_ListProviders E st of Inl e \<Rightarrow> Inl e | Inr ps \<Rightarrow> Inr (filter fp_active ps))"

definition InvitationLister :: "env \<Rightarrow> db \<Rightarrow> federation_info list res" where
  "InvitationLister E st =
     (case ListActiveProviders E st of
        Inl e \<Rightarrow> Inl e
      | Inr ps \<Rightarrow> Inr (map (\<lambda>p. \<lparr>fo_name = fp_name p, fo_display_name = fp_display_name p, fo_type = fp_type p\<rparr>) ps))"

record provider_update =
  up_display_name :: "string option"
  up_type :: "string option"
  up_client_id :: "string option"
  up_client_secret :: "string option"
  up_issuer_url :: "string option"
  up_authorization_url :: "string option"
  up_token_url :: "string option"
  up_userinfo_url :: "string option"
  up_jwks_uri :: "string option"
  up_scopes :: "string list option"
  up_attribute_mapper :: "any option"
  up_sync_on_login :: "bool option"
  up_allow_link_confirmation :: "bool option"
  up_active :: "bool option"

definition keep_or :: "'a option \<Rightarrow> 'a \<Rightarrow> 'a" where
  "keep_or new old = (case new of None \<Rightarrow> old | Some v \<Rightarrow> v)"

definition updated_provider :: "provider_update \<Rightarrow> string option \<Rightarrow> fed_provider \<Rightarrow> fed_provider" where
  "updated_provider i ciphered p = p\<lparr>
     fp_display_name := (if up_display_name i \<noteq> None then up_display_name i else fp_display_name p),
     fp_type := keep_or (up_type i) (fp_type p), fp_client_id := keep_or (up_client_id i) (fp_client_id p),
     fp_client_secret_encrypted := keep_or ciphered (fp_client_secret_encrypted p),
     fp_client_secret := (if ciphered \<noteq> None then None else fp_client_secret p),
     fp_issuer_url := (if up_issuer_url i \<noteq> None then up_issuer_url i else fp_issuer_url p),
     fp_authorization_url := (if up_authorization_url i \<noteq> None then up_authorization_url i else fp_authorization_url p),
     fp_token_url := (if up_token_url i \<noteq> None then up_token_url i else fp_token_url p),
     fp_userinfo_url := (if up_userinfo_url i \<noteq> None then up_userinfo_url i else fp_userinfo_url p),
     fp_jwks_uri := (if up_jwks_uri i \<noteq> None then up_jwks_uri i else fp_jwks_uri p),
     fp_scopes := keep_or (up_scopes i) (fp_scopes p),
     fp_attribute_mapper := (if up_attribute_mapper i \<noteq> None then up_attribute_mapper i else fp_attribute_mapper p),
     fp_sync_on_login := keep_or (up_sync_on_login i) (fp_sync_on_login p),
     fp_allow_link_confirmation := keep_or (up_allow_link_confirmation i) (fp_allow_link_confirmation p),
     fp_active := keep_or (up_active i) (fp_active p)\<rparr>"

definition sealed_update :: "fed_service \<Rightarrow> env \<Rightarrow> string option \<Rightarrow> db \<Rightarrow> string option res \<times> db" where
  "sealed_update S E secret st =
     (case secret of
        None \<Rightarrow> (Inr None, st)
      | Some s \<Rightarrow> (case sealSecret S E s st of (Inl e, st1) \<Rightarrow> (Inl e, st1) | (Inr c, st1) \<Rightarrow> (Inr (Some c), st1)))"

definition UpdateProvider ::
  "fed_service \<Rightarrow> env \<Rightarrow> uuid \<Rightarrow> provider_update \<Rightarrow> db \<times> builder \<Rightarrow> fed_provider res \<times> (db \<times> builder)" where
  "UpdateProvider S E i inp s =
     (case s of (st, B) \<Rightarrow>
       (case fed_GetProvider E i st of
          Inl e \<Rightarrow> (Inl e, (st, B))
        | Inr p \<Rightarrow>
            (case validateAttributeMapper (up_attribute_mapper inp) of
               Some e \<Rightarrow> (Inl e, (st, B))
             | None \<Rightarrow>
                 (case validateProviderURLs S (up_issuer_url inp) (up_authorization_url inp) (up_token_url inp)
                         (up_userinfo_url inp) (up_jwks_uri inp) of
                    Some e \<Rightarrow> (Inl e, (st, B))
                  | None \<Rightarrow>
                      if \<not> List.member [''oidc'', ''oauth2''] (keep_or (up_type inp) ''oidc'') then (Inl bad_type, (st, B))
                      else (case sealed_update S E (up_client_secret inp) st of
                              (Inl e, st1) \<Rightarrow> (Inl e, (st1, B))
                            | (Inr c, st1) \<Rightarrow>
                                (case fed_UpdateProvider_row E (updated_provider inp c p) st1 of
                                   (DbErr, st2) \<Rightarrow> (Inl (ErrInternal ''failed to update provider''), (st2, B))
                                 | (DbOk q, st2) \<Rightarrow> (Inr q, (st2, Invalidate (fp_id q) B))))))))"

definition DeleteProvider :: "env \<Rightarrow> uuid \<Rightarrow> db \<times> builder \<Rightarrow> unit res \<times> (db \<times> builder)" where
  "DeleteProvider E i s =
     (case s of (st, B) \<Rightarrow>
       (case fed_GetProvider E i st of
          Inl e \<Rightarrow> (Inl e, (st, B))
        | Inr _ \<Rightarrow>
            (case fed_DeleteProvider_row E i st of
               DbErr \<Rightarrow> (Inl (DriverError ''federation.DeleteProvider''), (st, B))
             | DbOk st1 \<Rightarrow> (Inr (), (st1, Invalidate i B)))))"

section \<open>Starting a flow\<close>

record init_options =
  io_return_to :: string
  io_oauth_request_id :: "uuid option"
  io_invitation_token :: string
  io_link_user_id :: "uuid option"
  io_ip_address :: string
  io_user_agent :: string

definition authRequestTTL :: duration where
  "authRequestTTL = minutes 10"

definition callbackURL :: "fed_service \<Rightarrow> fed_provider \<Rightarrow> string" where
  "callbackURL S p = fv_issuer S @ ''/api/v1/auth/federation/'' @ fp_name p @ ''/callback''"

definition pkceS256Challenge :: "env \<Rightarrow> string \<Rightarrow> string" where
  "pkceS256Challenge E verifier = b64_encode (sha256 E verifier)"

text \<open>The state, the PKCE verifier and the nonce.\<close>

definition flow_secrets :: "env \<Rightarrow> db \<Rightarrow> (string \<times> string \<times> string) res \<times> db" where
  "flow_secrets E st =
     (case GenerateRandomString E 32 st of
        (None, st1) \<Rightarrow> (Inl (ErrInternal ''failed to generate state''), st1)
      | (Some s, st1) \<Rightarrow>
          (case GenerateRandomString E 32 st1 of
             (None, st2) \<Rightarrow> (Inl (ErrInternal ''failed to generate PKCE verifier''), st2)
           | (Some v, st2) \<Rightarrow>
               (case GenerateRandomString E 16 st2 of
                  (None, st3) \<Rightarrow> (Inl (ErrInternal ''failed to generate nonce''), st3)
                | (Some n, st3) \<Rightarrow> (Inr (s, v, n), st3))))"

definition fed_request_of :: "env \<Rightarrow> fed_provider \<Rightarrow> string \<times> string \<times> string \<Rightarrow> init_options \<Rightarrow> fed_request" where
  "fed_request_of E p svn opts =
     \<lparr>fr_state = fst svn, fr_provider_id = fp_id p, fr_code_verifier = fst (snd svn), fr_nonce = snd (snd svn),
      fr_return_to = non_empty (io_return_to opts), fr_oauth_request_id = io_oauth_request_id opts,
      fr_invitation_token = non_empty (io_invitation_token opts), fr_link_user_id = io_link_user_id opts,
      fr_ip_address = non_empty (io_ip_address opts), fr_user_agent = non_empty (io_user_agent opts),
      fr_expires_at = wall E + authRequestTTL\<rparr>"

definition InitSocialLogin ::
  "fed_service \<Rightarrow> env \<Rightarrow> string \<Rightarrow> init_options \<Rightarrow> db \<times> builder \<Rightarrow> string res \<times> (db \<times> builder)" where
  "InitSocialLogin S E name opts s =
     (case s of (st, B) \<Rightarrow>
       (case FindProviderByName E name st of
          DbOk (Some p) \<Rightarrow>
            (case RevealSecret S p of
               Inl e \<Rightarrow> (Inl e, (st, B))
             | Inr secret \<Rightarrow>
                 (case flow_secrets E st of
                    (Inl e, st1) \<Rightarrow> (Inl e, (st1, B))
                  | (Inr svn, st1) \<Rightarrow>
                      (case ForProvider (fv_lib S) p secret (callbackURL S p) B of
                         (Inl e, B1) \<Rightarrow> (Inl e, (st1, B1))
                       | (Inr oc, B1) \<Rightarrow>
                           (case InsertAuthRequest E (fed_request_of E p svn opts) st1 of
                              DbErr \<Rightarrow> (Inl (ErrInternal ''failed to persist federation auth request''), (st1, B1))
                            | DbOk st2 \<Rightarrow>
                                (Inr (fd_auth_url (fv_lib S) (xo_config oc) (fst svn)
                                   [(''access_type'', ''offline''),
                                    (''code_challenge'', pkceS256Challenge E (fst (snd svn))),
                                    (''code_challenge_method'', ''S256''), (''nonce'', snd (snd svn))]), (st2, B1))))))
        | _ \<Rightarrow> (Inl (ErrNotFound ''provider not found''), (st, B))))"

definition BeginLink ::
  "fed_service \<Rightarrow> env \<Rightarrow> uuid \<Rightarrow> string \<Rightarrow> init_options \<Rightarrow> db \<times> builder \<Rightarrow> string res \<times> (db \<times> builder)" where
  "BeginLink S E u name opts s =
     (if u = uuid_nil then (Inl (ErrBadRequest ''user id is required for begin-link''), s)
      else InitSocialLogin S E name
             (opts\<lparr>io_link_user_id := Some u, io_oauth_request_id := None, io_invitation_token := []\<rparr>) s)"

section \<open>The callback\<close>

record provider_claims =
  pq_external_id :: string
  pq_email :: string
  pq_email_verified :: bool
  pq_name :: string
  pq_picture :: string
  pq_raw :: any_map

record callback_context =
  cb_provider :: fed_provider
  cb_request :: fed_request
  cb_claims :: provider_claims
  cb_id_token :: string

definition extractClaims ::
  "fed_lib \<Rightarrow> env \<Rightarrow> oauth_client \<Rightarrow> fed_token \<Rightarrow> string \<Rightarrow> (any_map \<times> string) res" where
  "extractClaims L E oc tok expected =
     (case xo_verifier oc of
        Some (d, i) \<Rightarrow>
          (let raw = derefStr (ft_id_token tok)
           in if raw = [] then Inl (ErrBadRequest ''provider response missing id_token'')
              else case fd_verify L d i [''RS256'', ''ES256'', ''PS256''] (wall E) raw of
                Inl msg \<Rightarrow> Inl (ErrBadRequest (''id_token verification failed: '' @ msg))
              | Inr t \<Rightarrow>
                  if ti_nonce t \<noteq> expected then Inl (ErrBadRequest ''id_token nonce mismatch'')
                  else (case ti_claims t of
                          None \<Rightarrow> Inl (ErrInternal ''failed to decode id_token claims'')
                        | Some m \<Rightarrow> Inr (m, raw)))
      | None \<Rightarrow>
          if xo_userinfo oc = [] then Inl (ErrBadRequest ''oauth2 provider requires userinfo_url'')
          else (case fd_userinfo L (xo_config oc) tok (xo_userinfo oc) of
                  Inl msg \<Rightarrow> Inl (ErrBadRequest (''userinfo fetch failed: '' @ msg))
                | Inr (status, body) \<Rightarrow>
                    if status div 100 \<noteq> 2 then Inl (ErrBadRequest (''userinfo returned HTTP '' @ itoa (int status)))
                    else (case body of
                            None \<Rightarrow> Inl (ErrBadRequest ''userinfo response is not JSON'')
                          | Some m \<Rightarrow> Inr (m, []))))"

text \<open>The mapper decoded into a map of strings, where \<^verbatim>\<open>null\<close> leaves the empty string.\<close>

fun string_members :: "any_map \<Rightarrow> (string \<times> string) list option" where
  "string_members [] = Some []"
| "string_members ((k, v) # m) =
     (case (v, string_members m) of
        (AStr s, Some r) \<Rightarrow> Some ((k, s) # r) | (ANil, Some r) \<Rightarrow> Some ((k, []) # r) | _ \<Rightarrow> None)"

definition decode_mapper :: "any option \<Rightarrow> (string \<times> string) list option" where
  "decode_mapper raw =
     (case given_else raw defaultAttributeMapper of
        ANil \<Rightarrow> Some [] | AObj m \<Rightarrow> string_members m | _ \<Rightarrow> None)"

definition mapped_claim :: "(string \<times> string) list \<Rightarrow> any_map \<Rightarrow> string \<Rightarrow> any option" where
  "mapped_claim m raw k = (case map_of m k of None \<Rightarrow> None | Some c \<Rightarrow> if c = [] then None else map_of raw c)"

definition pick :: "(string \<times> string) list \<Rightarrow> any_map \<Rightarrow> string \<Rightarrow> string" where
  "pick m raw k = (case mapped_claim m raw k of Some (AStr s) \<Rightarrow> s | _ \<Rightarrow> [])"

definition pickBool :: "(string \<times> string) list \<Rightarrow> any_map \<Rightarrow> string \<Rightarrow> bool" where
  "pickBool m raw k = (case mapped_claim m raw k of Some (ABool b) \<Rightarrow> b | _ \<Rightarrow> False)"

definition applyAttributeMapper :: "any_map \<Rightarrow> any option \<Rightarrow> provider_claims res" where
  "applyAttributeMapper raw mapper =
     (case decode_mapper mapper of
        None \<Rightarrow> Inl (ErrInternal ''invalid attribute_mapper stored on provider'')
      | Some m \<Rightarrow> Inr \<lparr>pq_external_id = pick m raw ''external_id'', pq_email = pick m raw ''email'',
          pq_email_verified = pickBool m raw ''email_verified'', pq_name = pick m raw ''name'',
          pq_picture = pick m raw ''picture'', pq_raw = raw\<rparr>)"

definition exchange_claims ::
  "fed_service \<Rightarrow> env \<Rightarrow> fed_provider \<Rightarrow> fed_request \<Rightarrow> string \<Rightarrow> builder \<Rightarrow> callback_context res \<times> builder" where
  "exchange_claims S E p r code B =
     (case RevealSecret S p of
        Inl e \<Rightarrow> (Inl e, B)
      | Inr secret \<Rightarrow>
          (case ForProvider (fv_lib S) p secret (callbackURL S p) B of
             (Inl e, B1) \<Rightarrow> (Inl e, B1)
           | (Inr oc, B1) \<Rightarrow>
               ((case fd_exchange (fv_lib S) (xo_config oc) code (fr_code_verifier r) of
                   Inl msg \<Rightarrow> Inl (ErrBadRequest (''code exchange failed: '' @ msg))
                 | Inr tok \<Rightarrow>
                     (case extractClaims (fv_lib S) E oc tok (fr_nonce r) of
                        Inl e \<Rightarrow> Inl e
                      | Inr (raw, idt) \<Rightarrow>
                          (case applyAttributeMapper raw (fp_attribute_mapper p) of
                             Inl e \<Rightarrow> Inl e
                           | Inr claims \<Rightarrow>
                               Inr \<lparr>cb_provider = p, cb_request = r, cb_claims = claims, cb_id_token = idt\<rparr>))), B1)))"

definition ProcessCallback ::
  "fed_service \<Rightarrow> env \<Rightarrow> string \<Rightarrow> string \<Rightarrow> string \<Rightarrow> db \<times> builder \<Rightarrow> callback_context res \<times> (db \<times> builder)" where
  "ProcessCallback S E name code state s =
     (case s of (st, B) \<Rightarrow>
       if code = [] \<or> state = [] then (Inl (ErrBadRequest ''code and state are required''), (st, B))
       else (case ConsumeAuthRequest E state st of
               (DbErr, st1) \<Rightarrow> (Inl (ErrInternal ''failed to consume federation state''), (st1, B))
             | (DbOk None, st1) \<Rightarrow> (Inl (ErrBadRequest ''invalid or expired state''), (st1, B))
             | (DbOk (Some r), st1) \<Rightarrow>
                 (case FindProviderByName E name st1 of
                    DbOk (Some p) \<Rightarrow>
                      if fp_id p \<noteq> fr_provider_id r
                      then (Inl (ErrBadRequest ''state does not match provider''), (st1, B))
                      else (case exchange_claims S E p r code B of (x, B1) \<Rightarrow> (x, (st1, B1)))
                  | _ \<Rightarrow> (Inl (ErrNotFound ''provider not found''), (st1, B)))))"

section \<open>Linked accounts\<close>

definition GetLinkedAccounts :: "env \<Rightarrow> uuid \<Rightarrow> db \<Rightarrow> fed_link list res" where
  "GetLinkedAccounts E u st = or_driver ''federation.FindLinksByUser'' (FindLinksByUser E u st)"

definition GetLinkedAccount :: "env \<Rightarrow> uuid \<Rightarrow> uuid \<Rightarrow> db \<Rightarrow> fed_link res" where
  "GetLinkedAccount E i u st =
     (case FindLinkByID E i st of
        DbErr \<Rightarrow> Inl (ErrInternal ''failed to load linked account'')
      | DbOk None \<Rightarrow> Inl (ErrNotFound ''linked account not found'')
      | DbOk (Some l) \<Rightarrow> if fl_user_id l \<noteq> u then Inl (ErrNotFound ''linked account not found'') else Inr l)"

definition UnlinkAccount :: "env \<Rightarrow> uuid \<Rightarrow> uuid \<Rightarrow> db \<Rightarrow> unit res \<times> db" where
  "UnlinkAccount E i u st =
     (case FindLinkByID E i st of
        DbOk (Some l) \<Rightarrow>
          if fl_user_id l \<noteq> u then (Inl (ErrForbidden ''linked account does not belong to user''), st)
          else (case DeleteLink E i st of
                  DbErr \<Rightarrow> (Inl (DriverError ''federation.DeleteLink''), st) | DbOk st1 \<Rightarrow> (Inr (), st1))
      | _ \<Rightarrow> (Inl (ErrNotFound ''linked account not found''), st))"

end
