(* ===== verification/Federation.thy ===== *)
theory Federation
  imports FedProviders
begin

text \<open>
  What a verified external identity leads to (\<^verbatim>\<open>federation/provisioning.go\<close>): a login, a link for the
  signed-in user, a pending link or a pending signup, and the two confirmations; then the handlers
  (\<^verbatim>\<open>federation/handler.go\<close>) with the resumption of an OAuth flow. The dependencies on users,
  invitations and the OAuth service are wired by \<^verbatim>\<open>main\<close>. \<^verbatim>\<open>GetByID\<close> answers a missing user with an
  error, so the branches for a nil user are not reached.
\<close>

section \<open>Provisioning\<close>

definition pendingLinkTTL :: duration where
  "pendingLinkTTL = minutes 5"

definition pendingSignupTTL :: duration where
  "pendingSignupTTL = minutes 15"

datatype provision_outcome =
    ProvisionLoginExisting user
  | ProvisionPendingSignup string
  | ProvisionPendingLinkConfirmation string
  | ProvisionAuthenticatedLink user fed_link

definition ErrAccountExistsLinkRequired :: err where
  "ErrAccountExistsLinkRequired =
     ErrBadRequest ''account exists; sign in with your existing method and link from /me/linked-accounts''"

definition ErrRegistrationDisabled :: err where
  "ErrRegistrationDisabled = ErrBadRequest ''public registration is disabled; an invitation is required''"

definition ErrIdentityLinkedToOtherUser :: err where
  "ErrIdentityLinkedToOtherUser = ErrConflict ''this provider identity is already linked to another account''"

definition checkSignupAllowed :: "env \<Rightarrow> fed_request \<Rightarrow> db \<Rightarrow> unit res" where
  "checkSignupAllowed E r st =
     (let by_setting = (if IsRegistrationEnabled E st then Inr () else Inl ErrRegistrationDisabled)
      in if derefStr (fr_invitation_token r) = [] then by_setting
         else case ValidateToken E (derefStr (fr_invitation_token r)) st of
           Inl e \<Rightarrow> Inl e
         | Inr None \<Rightarrow> by_setting
         | Inr (Some _) \<Rightarrow> Inr ())"

definition stagePendingSignup ::
  "env \<Rightarrow> fed_provider \<Rightarrow> provider_claims \<Rightarrow> string \<Rightarrow> fed_request \<Rightarrow> db \<Rightarrow> string res \<times> db" where
  "stagePendingSignup E p c normEmail r st =
     (case GenerateRandomString E 32 st of
        (None, st1) \<Rightarrow> (Inl (ErrInternal ''failed to generate pending-signup token''), st1)
      | (Some raw, st1) \<Rightarrow>
          (case InsertPendingSignup E
                  \<lparr>fs_token_hash = HashToken (sha256 E) raw, fs_provider_id = fp_id p, fs_external_id = pq_external_id c,
                   fs_email = normEmail, fs_email_verified = pq_email_verified c, fs_display_name = non_empty (pq_name c),
                   fs_avatar_url = non_empty (pq_picture c), fs_raw_claims = pq_raw c,
                   fs_oauth_request_id = fr_oauth_request_id r, fs_return_to = fr_return_to r,
                   fs_invitation_token = fr_invitation_token r, fs_ip_address = fr_ip_address r,
                   fs_user_agent = fr_user_agent r, fs_expires_at = wall E + pendingSignupTTL\<rparr> st1 of
             DbErr \<Rightarrow> (Inl (ErrInternal ''failed to persist pending signup''), st1)
           | DbOk st2 \<Rightarrow> (Inr raw, st2)))"

definition stagePendingLink ::
  "env \<Rightarrow> user \<Rightarrow> fed_provider \<Rightarrow> provider_claims \<Rightarrow> fed_request \<Rightarrow> db \<Rightarrow> string res \<times> db" where
  "stagePendingLink E u p c r st =
     (case GenerateRandomString E 32 st of
        (None, st1) \<Rightarrow> (Inl (ErrInternal ''failed to generate pending-link token''), st1)
      | (Some raw, st1) \<Rightarrow>
          (case InsertPendingLink E
                  \<lparr>fk_token_hash = HashToken (sha256 E) raw, fk_user_id = us_id u, fk_provider_id = fp_id p,
                   fk_external_id = pq_external_id c, fk_email = non_empty (pq_email c), fk_raw_claims = pq_raw c,
                   fk_oauth_request_id = fr_oauth_request_id r, fk_return_to = fr_return_to r,
                   fk_ip_address = fr_ip_address r, fk_user_agent = fr_user_agent r,
                   fk_expires_at = wall E + pendingLinkTTL\<rparr> st1 of
             DbErr \<Rightarrow> (Inl (ErrInternal ''failed to persist pending link''), st1)
           | DbOk st2 \<Rightarrow> (Inr raw, st2)))"

definition createLink :: "env \<Rightarrow> uuid \<Rightarrow> fed_provider \<Rightarrow> provider_claims \<Rightarrow> db \<Rightarrow> fed_link res \<times> db" where
  "createLink E u p c st =
     (case CreateLink E \<lparr>fl_id = uuid_nil, fl_user_id = u, fl_provider_id = fp_id p, fl_external_id = pq_external_id c,
              fl_email = non_empty (pq_email c), fl_metadata = pq_raw c\<rparr> st of
        (DbErr, st1) \<Rightarrow> (Inl (ErrInternal ''failed to create federation link''), st1)
      | (DbOk l, st1) \<Rightarrow> (Inr l, st1))"

definition completeAuthenticatedLink ::
  "env \<Rightarrow> uuid \<Rightarrow> fed_provider \<Rightarrow> provider_claims \<Rightarrow> db \<Rightarrow> provision_outcome res \<times> db" where
  "completeAuthenticatedLink E i p c st =
     (case GetByID E i st of
        Inl _ \<Rightarrow> (Inl (ErrInternal ''failed to load user for link''), st)
      | Inr u \<Rightarrow>
          (case FindLink E (fp_id p) (pq_external_id c) st of
             DbErr \<Rightarrow> (Inl (ErrInternal ''failed to look up federation link''), st)
           | DbOk (Some l) \<Rightarrow>
               if fl_user_id l \<noteq> i then (Inl ErrIdentityLinkedToOtherUser, st)
               else (Inr (ProvisionAuthenticatedLink u l), st)
           | DbOk None \<Rightarrow>
               (case createLink E i p c st of
                  (Inl e, st1) \<Rightarrow> (Inl e, st1)
                | (Inr l, st1) \<Rightarrow> (Inr (ProvisionAuthenticatedLink u l), st1))))"

text \<open>The path of an identity that is not linked yet.\<close>

definition provision_unlinked ::
  "env \<Rightarrow> fed_provider \<Rightarrow> provider_claims \<Rightarrow> fed_request \<Rightarrow> db \<Rightarrow> provision_outcome res \<times> db" where
  "provision_unlinked E p c r st =
     (if pq_email c = []
      then (Inl (ErrBadRequest ''federation provider returned no email; cannot provision or link account''), st)
      else let normEmail = to_lower (trim_space (pq_email c))
           in case user_FindByEmail E normEmail st of
             DbErr \<Rightarrow> (Inl (ErrInternal ''failed to look up user by email''), st)
           | DbOk (Some u) \<Rightarrow>
               if \<not> fp_allow_link_confirmation p \<or> us_password_hash u = None then (Inl ErrAccountExistsLinkRequired, st)
               else (case stagePendingLink E u p c r st of
                       (Inl e, st1) \<Rightarrow> (Inl e, st1)
                     | (Inr tok, st1) \<Rightarrow> (Inr (ProvisionPendingLinkConfirmation tok), st1))
           | DbOk None \<Rightarrow>
               (case checkSignupAllowed E r st of
                  Inl e \<Rightarrow> (Inl e, st)
                | Inr _ \<Rightarrow>
                    (case stagePendingSignup E p c normEmail r st of
                       (Inl e, st1) \<Rightarrow> (Inl e, st1)
                     | (Inr tok, st1) \<Rightarrow> (Inr (ProvisionPendingSignup tok), st1))))"

definition FindOrProvisionUser :: "env \<Rightarrow> callback_context \<Rightarrow> db \<Rightarrow> provision_outcome res \<times> db" where
  "FindOrProvisionUser E ctx st =
     (let p = cb_provider ctx; c = cb_claims ctx; r = cb_request ctx
      in if pq_external_id c = []
         then (Inl (ErrBadRequest ''federation provider returned no subject identifier''), st)
         else case fr_link_user_id r of
           Some u \<Rightarrow> completeAuthenticatedLink E u p c st
         | None \<Rightarrow>
             (case FindLink E (fp_id p) (pq_external_id c) st of
                DbErr \<Rightarrow> (Inl (ErrInternal ''failed to look up federation link''), st)
              | DbOk (Some l) \<Rightarrow>
                  (case GetByID E (fl_user_id l) st of
                     Inl _ \<Rightarrow> (Inl (ErrInternal ''failed to load linked user''), st)
                   | Inr u \<Rightarrow> (Inr (ProvisionLoginExisting u), st))
              | DbOk None \<Rightarrow> provision_unlinked E p c r st))"

section \<open>Confirmations\<close>

record continuation =
  cn_user :: user
  cn_oauth_request_id :: "uuid option"
  cn_return_to :: "string option"

definition invalidPasswordSentinel :: string where
  "invalidPasswordSentinel = ''federation: invalid password for pending link confirmation''"

definition IsInvalidConfirmPassword :: "err \<Rightarrow> bool" where
  "IsInvalidConfirmPassword e \<longleftrightarrow> err_text e = invalidPasswordSentinel"

definition link_confirmed :: "env \<Rightarrow> fed_pending_link \<Rightarrow> db \<Rightarrow> continuation res \<times> db" where
  "link_confirmed E k st =
     (case FindProviderByID E (fk_provider_id k) st of
        DbOk (Some p) \<Rightarrow>
          (case CreateLink E \<lparr>fl_id = uuid_nil, fl_user_id = fk_user_id k, fl_provider_id = fk_provider_id k,
                  fl_external_id = fk_external_id k, fl_email = fk_email k, fl_metadata = fk_raw_claims k\<rparr> st of
             (DbErr, st1) \<Rightarrow> (Inl (ErrInternal ''failed to create federation link''), st1)
           | (DbOk _, st1) \<Rightarrow>
               (case GetByID E (fk_user_id k) st1 of
                  Inl _ \<Rightarrow> (Inl (ErrInternal ''failed to load confirmed user''), st1)
                | Inr u \<Rightarrow> (Inr \<lparr>cn_user = u, cn_oauth_request_id = fk_oauth_request_id k, cn_return_to = fk_return_to k\<rparr>, st1)))
      | _ \<Rightarrow> (Inl (ErrInternal ''pending link references unknown provider''), st))"

definition ConfirmLink :: "env \<Rightarrow> string \<Rightarrow> string \<Rightarrow> db \<Rightarrow> continuation res \<times> db" where
  "ConfirmLink E raw pw st =
     (if raw = [] \<or> pw = [] then (Inl (ErrBadRequest ''token and password are required''), st)
      else case ConsumePendingLink E (HashToken (sha256 E) raw) st of
        (DbErr, st1) \<Rightarrow> (Inl (ErrInternal ''failed to consume pending link''), st1)
      | (DbOk None, st1) \<Rightarrow> (Inl (ErrBadRequest ''invalid or expired pending link token''), st1)
      | (DbOk (Some k), st1) \<Rightarrow>
          (case VerifyPassword E (fk_user_id k) pw st1 of
             (Inl _, st2) \<Rightarrow> (Inl (ErrInternal ''failed to verify password''), st2)
           | (Inr False, st2) \<Rightarrow> (Inl (DriverError invalidPasswordSentinel), st2)
           | (Inr True, st2) \<Rightarrow> link_confirmed E k st2))"

record signup_input =
  sn_token :: string
  sn_password :: string
  sn_display_name :: string
  sn_extra_fields :: any_map

text \<open>The invitation that was attached, when it still is valid.\<close>

definition attached_invitation :: "env \<Rightarrow> fed_pending_signup \<Rightarrow> db \<Rightarrow> invitation option res" where
  "attached_invitation E k st =
     (if derefStr (fs_invitation_token k) = [] then Inr None else ValidateToken E (derefStr (fs_invitation_token k)) st)"

definition invited_roles :: "env \<Rightarrow> invitation option \<Rightarrow> uuid list" where
  "invited_roles E v = (case v of None \<Rightarrow> [] | Some v \<Rightarrow> List.map_filter (uuid_parse E) (iv_role_ids v))"

definition new_account :: "signup_input \<Rightarrow> fed_pending_signup \<Rightarrow> federation_input" where
  "new_account i k =
     \<lparr>fi_email = fs_email k, fi_email_verified = fs_email_verified k,
      fi_display_name = (if sn_display_name i = [] then derefStr (fs_display_name k) else sn_display_name i),
      fi_avatar_url = derefStr (fs_avatar_url k), fi_password = sn_password i, fi_extra_fields = sn_extra_fields i\<rparr>"

text \<open>A link that cannot be created and an invitation that cannot be marked are only logged.\<close>

definition signup_completed ::
  "env \<Rightarrow> signup_input \<Rightarrow> fed_provider \<Rightarrow> fed_pending_signup \<Rightarrow> invitation option \<Rightarrow> db \<Rightarrow> continuation res \<times> db" where
  "signup_completed E i p k v st =
     (case CreateFromFederation E (new_account i k) (invited_roles E v) st of
        (Inl e, st1) \<Rightarrow> (Inl e, st1)
      | (Inr u, st1) \<Rightarrow>
          (let st2 = snd (createLink E (us_id u) p
                 \<lparr>pq_external_id = fs_external_id k, pq_email = fs_email k, pq_email_verified = False, pq_name = [],
                  pq_picture = [], pq_raw = fs_raw_claims k\<rparr> st1);
               st3 = (case v of None \<Rightarrow> st2 | Some v \<Rightarrow> snd (ConsumeToken E v st2))
           in (Inr \<lparr>cn_user = u, cn_oauth_request_id = fs_oauth_request_id k, cn_return_to = fs_return_to k\<rparr>, st3)))"

definition fed_CompleteSignup :: "env \<Rightarrow> signup_input \<Rightarrow> db \<Rightarrow> continuation res \<times> db" where
  "fed_CompleteSignup E i st =
     (if sn_token i = [] \<or> sn_password i = [] then (Inl (ErrBadRequest ''token and password are required''), st)
      else case ConsumePendingSignup E (HashToken (sha256 E) (sn_token i)) st of
        (DbErr, st1) \<Rightarrow> (Inl (ErrInternal ''failed to consume pending signup''), st1)
      | (DbOk None, st1) \<Rightarrow> (Inl (ErrBadRequest ''invalid or expired signup token''), st1)
      | (DbOk (Some k), st1) \<Rightarrow>
          (case FindProviderByID E (fs_provider_id k) st1 of
             DbOk (Some p) \<Rightarrow>
               (case attached_invitation E k st1 of
                  Inl e \<Rightarrow> (Inl e, st1)
                | Inr v \<Rightarrow>
                    if v = None \<and> \<not> IsRegistrationEnabled E st1 then (Inl ErrRegistrationDisabled, st1)
                    else signup_completed E i p k v st1)
           | _ \<Rightarrow> (Inl (ErrInternal ''pending signup references unknown provider''), st1)))"

record pending_signup_view =
  pv_provider_name :: string
  pv_provider_display_name :: string
  pv_email :: string
  pv_email_verified :: bool
  pv_display_name :: string
  pv_expires_at :: time

definition PeekPendingSignup :: "env \<Rightarrow> string \<Rightarrow> db \<Rightarrow> pending_signup_view res" where
  "PeekPendingSignup E raw st =
     (if raw = [] then Inl (ErrBadRequest ''token is required'')
      else case GetPendingSignup E (HashToken (sha256 E) raw) st of
        DbErr \<Rightarrow> Inl (ErrInternal ''failed to load pending signup'')
      | DbOk None \<Rightarrow> Inl (ErrBadRequest ''invalid or expired signup token'')
      | DbOk (Some k) \<Rightarrow>
          (case FindProviderByID E (fs_provider_id k) st of
             DbOk (Some p) \<Rightarrow>
               Inr \<lparr>pv_provider_name = fp_name p,
                    pv_provider_display_name =
                      (if derefStr (fp_display_name p) = [] then fp_name p else derefStr (fp_display_name p)),
                    pv_email = fs_email k, pv_email_verified = fs_email_verified k,
                    pv_display_name = derefStr (fs_display_name k), pv_expires_at = fs_expires_at k\<rparr>
           | _ \<Rightarrow> Inl (ErrInternal ''pending signup references unknown provider'')))"

section \<open>Resuming the OAuth flow\<close>

definition resumer_Complete :: "env \<Rightarrow> uuid \<Rightarrow> string \<Rightarrow> string \<Rightarrow> db \<Rightarrow> string res \<times> db" where
  "resumer_Complete E i ip ua st =
     (case CompleteAuthorizeFirstParty E i ip ua st of
        (Inl e, st1) \<Rightarrow> (Inl e, st1) | (Inr r, st1) \<Rightarrow> (BuildAuthorizeRedirectURL r, st1))"

definition login_error_url :: "fed_service \<Rightarrow> string \<Rightarrow> string" where
  "login_error_url S code = AuthUIBaseURL S @ ''/login?error='' @ QueryEscape code"

definition return_target :: "fed_service \<Rightarrow> string option \<Rightarrow> string" where
  "return_target S return_to =
     (case return_to of
        None \<Rightarrow> AuthUIBaseURL S @ ''/''
      | Some t \<Rightarrow> if IsOriginAllowed t [AuthUIBaseURL S] then t else AuthUIBaseURL S @ ''/'')"

text \<open>The two places that continue a flow: the callback redirects, the confirmations answer with the address.\<close>

definition continueAfterLogin ::
  "fed_service \<Rightarrow> env \<Rightarrow> http_request \<Rightarrow> string \<Rightarrow> user \<Rightarrow> uuid option \<Rightarrow> string option \<Rightarrow> db \<Rightarrow> string \<times> db" where
  "continueAfterLogin S E q providerName u oauthRequest return_to st =
     (case oauthRequest of
        None \<Rightarrow> (return_target S return_to, st)
      | Some i \<Rightarrow>
          (case ResumeAuthorizeAfterExternalLogin E i (us_id u) providerName st of
             (Inl _, st1) \<Rightarrow> (login_error_url S ''authorize_resume_failed'', st1)
           | (Inr r, st1) \<Rightarrow>
               if lr_requires_mfa r
               then (AuthUIBaseURL S @ ''/mfa?request_id='' @ uuid_string E (lr_request_id r), st1)
               else if lr_requires_consent r
               then (AuthUIBaseURL S @ ''/consent?request_id='' @ uuid_string E (lr_request_id r), st1)
               else (case resumer_Complete E (lr_request_id r) (rq_ip q) (rq_header q ''User-Agent'') st1 of
                       (Inl _, st2) \<Rightarrow> (login_error_url S ''authorize_complete_failed'', st2)
                     | (Inr url, st2) \<Rightarrow> (url, st2))))"

definition computeContinuationURL ::
  "fed_service \<Rightarrow> env \<Rightarrow> http_request \<Rightarrow> string \<Rightarrow> user \<Rightarrow> uuid option \<Rightarrow> string option \<Rightarrow> db \<Rightarrow> string \<times> db" where
  "computeContinuationURL S E q providerName u oauthRequest return_to st =
     (case oauthRequest of
        None \<Rightarrow> (return_target S return_to, st)
      | Some i \<Rightarrow>
          (case ResumeAuthorizeAfterExternalLogin E i (us_id u) providerName st of
             (Inl _, st1) \<Rightarrow> (AuthUIBaseURL S @ ''/login?error=authorize_resume_failed'', st1)
           | (Inr r, st1) \<Rightarrow>
               if lr_requires_mfa r
               then (AuthUIBaseURL S @ ''/mfa?request_id='' @ uuid_string E (lr_request_id r), st1)
               else if lr_requires_consent r
               then (AuthUIBaseURL S @ ''/consent?request_id='' @ uuid_string E (lr_request_id r), st1)
               else (case resumer_Complete E (lr_request_id r) (rq_ip q) (rq_header q ''User-Agent'') st1 of
                       (Inl _, st2) \<Rightarrow> (AuthUIBaseURL S @ ''/login?error=authorize_complete_failed'', st2)
                     | (Inr url, st2) \<Rightarrow> (url, st2))))"

section \<open>Handlers\<close>

text \<open>A redirect is the address; the handlers that build clients carry the cache of the builder.\<close>

definition fed_InitSocialLogin_handler ::
  "fed_service \<Rightarrow> env \<Rightarrow> http_request \<Rightarrow> string \<Rightarrow> db \<times> builder \<Rightarrow> string res \<times> (db \<times> builder)" where
  "fed_InitSocialLogin_handler S E q name s =
     (let raw = rq_query q ''oauth_request_id''; i = uuid_parse E raw
      in if raw \<noteq> [] \<and> i = None then (Inl (ErrBadRequest ''oauth_request_id must be a UUID''), s)
         else InitSocialLogin S E name
                \<lparr>io_return_to = rq_query q ''return_to'', io_oauth_request_id = (if raw = [] then None else i),
                 io_invitation_token = rq_query q ''invitation_token'', io_link_user_id = None,
                 io_ip_address = rq_ip q, io_user_agent = rq_header q ''User-Agent''\<rparr> s)"

definition linkResultFromErr :: "err \<Rightarrow> string" where
  "linkResultFromErr e = (if e = ErrIdentityLinkedToOtherUser then ''identity_already_linked'' else ''link_failed'')"

definition redirectLinkResult :: "fed_service \<Rightarrow> fed_request \<Rightarrow> string \<Rightarrow> string \<Rightarrow> string" where
  "redirectLinkResult S r name status =
     (let target = (case fr_return_to r of
            None \<Rightarrow> AuthUIBaseURL S @ ''/linked-accounts''
          | Some t \<Rightarrow> if IsOriginAllowed t (AuthUIBaseURL S # fv_origins S) then t
                      else AuthUIBaseURL S @ ''/linked-accounts'')
      in target @ (if List.member target (CHR ''?'') then ''&'' else ''?'') @ ''link_status='' @ QueryEscape status @
         ''&provider='' @ QueryEscape name)"

definition provision_error_url :: "fed_service \<Rightarrow> callback_context \<Rightarrow> string \<Rightarrow> err \<Rightarrow> string" where
  "provision_error_url S ctx name e =
     (if fr_link_user_id (cb_request ctx) \<noteq> None then redirectLinkResult S (cb_request ctx) name (linkResultFromErr e)
      else if e = ErrAccountExistsLinkRequired then login_error_url S ''account_exists_link_required''
      else if e = ErrRegistrationDisabled then login_error_url S ''registration_disabled''
      else login_error_url S ''provisioning_failed'')"

definition fed_Callback :: "fed_service \<Rightarrow> env \<Rightarrow> http_request \<Rightarrow> string \<Rightarrow> db \<times> builder \<Rightarrow> string \<times> (db \<times> builder)" where
  "fed_Callback S E q name s =
     (if rq_query q ''error'' \<noteq> [] then (login_error_url S (rq_query q ''error''), s)
      else case ProcessCallback S E name (rq_query q ''code'') (rq_query q ''state'') s of
        (Inl _, s1) \<Rightarrow> (login_error_url S ''callback_failed'', s1)
      | (Inr ctx, (st1, B)) \<Rightarrow>
          (case FindOrProvisionUser E ctx st1 of
             (Inl e, st2) \<Rightarrow> (provision_error_url S ctx name e, (st2, B))
           | (Inr (ProvisionAuthenticatedLink u l), st2) \<Rightarrow>
               (redirectLinkResult S (cb_request ctx) name ''linked'', (st2, B))
           | (Inr (ProvisionPendingLinkConfirmation tok), st2) \<Rightarrow>
               (AuthUIBaseURL S @ ''/link-account?token='' @ QueryEscape tok, (st2, B))
           | (Inr (ProvisionPendingSignup tok), st2) \<Rightarrow>
               (AuthUIBaseURL S @ ''/complete-account?token='' @ QueryEscape tok, (st2, B))
           | (Inr (ProvisionLoginExisting u), st2) \<Rightarrow>
               (case continueAfterLogin S E q name u (fr_oauth_request_id (cb_request ctx))
                       (fr_return_to (cb_request ctx)) st2 of
                  (url, st3) \<Rightarrow> (url, (st3, B)))))"

text \<open>The provider named in the resumed flow: that of some link of the user. A failing look-up of the
  provider leaves its empty name.\<close>

definition provider_label :: "env \<Rightarrow> uuid \<Rightarrow> db \<Rightarrow> string" where
  "provider_label E u st =
     (case FindLinksByUser E u st of
        DbOk (l # ls) \<Rightarrow>
          (case FindProviderByID E (fl_provider_id l) st of
             DbOk (Some p) \<Rightarrow> fp_name p | DbOk None \<Rightarrow> ''federation'' | DbErr \<Rightarrow> [])
      | _ \<Rightarrow> ''federation'')"

definition continued :: "fed_service \<Rightarrow> env \<Rightarrow> http_request \<Rightarrow> continuation \<Rightarrow> (uuid \<times> string) action" where
  "continued S E q c st =
     (case computeContinuationURL S E q (provider_label E (us_id (cn_user c)) st) (cn_user c) (cn_oauth_request_id c)
             (cn_return_to c) st of
        (url, st1) \<Rightarrow> (Inr (us_id (cn_user c), url), st1))"

definition ConfirmLink_handler :: "fed_service \<Rightarrow> env \<Rightarrow> http_request \<Rightarrow> (string \<times> string) body \<Rightarrow> (uuid \<times> string) action" where
  "ConfirmLink_handler S E q b = bound b (\<lambda>(token, pw) st.
     (case ConfirmLink E token pw st of
        (Inl e, st1) \<Rightarrow> (Inl (if IsInvalidConfirmPassword e then ErrUnauthorized ''invalid password'' else e), st1)
      | (Inr c, st1) \<Rightarrow> continued S E q c st1))"

definition PeekPendingSignup_handler :: "env \<Rightarrow> http_request \<Rightarrow> pending_signup_view action" where
  "PeekPendingSignup_handler E q = giving (PeekPendingSignup E (rq_query q ''token''))"

definition fed_CompleteSignup_handler :: "fed_service \<Rightarrow> env \<Rightarrow> http_request \<Rightarrow> signup_input body \<Rightarrow> (uuid \<times> string) action" where
  "fed_CompleteSignup_handler S E q b = bound b (\<lambda>i. and_then (fed_CompleteSignup E i) (continued S E q))"

text \<open>A link with the name of its provider.\<close>

definition toLinkedAccountResponse :: "db \<Rightarrow> fed_link \<Rightarrow> fed_link \<times> string" where
  "toLinkedAccountResponse st l =
     (l, case first_where (\<lambda>p. fp_id p = fl_provider_id l) (t_fed_providers st) of None \<Rightarrow> [] | Some p \<Rightarrow> fp_name p)"

definition ListLinkedAccounts :: "env \<Rightarrow> gin \<Rightarrow> (fed_link \<times> string) list page action" where
  "ListLinkedAccounts E g = signed_in g (\<lambda>u. giving (\<lambda>st.
     (case GetLinkedAccounts E u st of
        Inl _ \<Rightarrow> Inl (ErrInternal ''failed to list linked accounts'')
      | Inr ls \<Rightarrow> Inr (pkg_List (map (toLinkedAccountResponse st) ls) (int (length ls))))))"

definition GetLinkedAccount_handler :: "env \<Rightarrow> gin \<Rightarrow> string \<Rightarrow> (fed_link \<times> string) action" where
  "GetLinkedAccount_handler E g s = signed_in g (\<lambda>u. path_id E ''invalid link ID'' s (\<lambda>i. giving (\<lambda>st.
     (case GetLinkedAccount E i u st of Inl e \<Rightarrow> Inl e | Inr l \<Rightarrow> Inr (toLinkedAccountResponse st l)))))"

text \<open>An empty body is accepted.\<close>

definition BeginLinkAccount ::
  "fed_service \<Rightarrow> env \<Rightarrow> http_request \<Rightarrow> gin \<Rightarrow> string \<Rightarrow> string body \<Rightarrow> db \<times> builder \<Rightarrow> string res \<times> (db \<times> builder)" where
  "BeginLinkAccount S E q g name b s =
     (case gc_user_id g of
        None \<Rightarrow> (Inl (ErrUnauthorized ''not authenticated''), s)
      | Some u \<Rightarrow>
          if name = [] then (Inl (ErrBadRequest ''provider is required''), s)
          else (case b of
                  Inl m \<Rightarrow> (Inl (bad_body m), s)
                | Inr return_to \<Rightarrow>
                    BeginLink S E u name \<lparr>io_return_to = return_to, io_oauth_request_id = None, io_invitation_token = [],
                      io_link_user_id = None, io_ip_address = rq_ip q, io_user_agent = rq_header q ''User-Agent''\<rparr> s))"

definition UnlinkAccount_handler :: "env \<Rightarrow> gin \<Rightarrow> string \<Rightarrow> unit action" where
  "UnlinkAccount_handler E g s = signed_in g (\<lambda>u. path_id E ''invalid link ID'' s (\<lambda>i. UnlinkAccount E i u))"

definition CreateProvider_handler :: "fed_service \<Rightarrow> env \<Rightarrow> provider_input body \<Rightarrow> fed_provider action" where
  "CreateProvider_handler S E b = bound b (CreateProvider S E)"

definition fed_GetProvider_handler :: "env \<Rightarrow> string \<Rightarrow> fed_provider action" where
  "fed_GetProvider_handler E s = path_id E ''invalid provider ID'' s (\<lambda>i. giving (fed_GetProvider E i))"

definition fed_ListProviders_handler :: "env \<Rightarrow> fed_provider list page action" where
  "fed_ListProviders_handler E = giving (\<lambda>st.
     (case fed_ListProviders E st of
        Inl _ \<Rightarrow> Inl (ErrInternal ''failed to list providers'') | Inr ps \<Rightarrow> Inr (pkg_List ps (int (length ps)))))"

definition UpdateProvider_handler ::
  "fed_service \<Rightarrow> env \<Rightarrow> string \<Rightarrow> provider_update body \<Rightarrow> db \<times> builder \<Rightarrow> fed_provider res \<times> (db \<times> builder)" where
  "UpdateProvider_handler S E str b s =
     (case uuid_parse E str of
        None \<Rightarrow> (Inl (ErrBadRequest ''invalid provider ID''), s)
      | Some i \<Rightarrow> (case b of Inl m \<Rightarrow> (Inl (bad_body m), s) | Inr inp \<Rightarrow> UpdateProvider S E i inp s))"

definition DeleteProvider_handler :: "env \<Rightarrow> string \<Rightarrow> db \<times> builder \<Rightarrow> unit res \<times> (db \<times> builder)" where
  "DeleteProvider_handler E str s =
     (case uuid_parse E str of
        None \<Rightarrow> (Inl (ErrBadRequest ''invalid provider ID''), s) | Some i \<Rightarrow> DeleteProvider E i s)"

end
