(* ===== verification/FederationProperties.thy ===== *)
theory FederationProperties
  imports Federation Demo
begin

text \<open>
  Federation: what a callback proves, who owns an external identity over any history of the service,
  what the two confirmations demand, and where the lockout of an account does not reach.
\<close>

section \<open>One-shot rows\<close>

lemma consumed_Some:
  assumes "consumed E expiry (Transaction E (\<lambda>st. take_tx E c (found st) (gone st) st) st) = (DbOk (Some r), st1)"
  shows "found st = Some r" and "st1 = gone st" and "wall E \<le> expiry r"
proof -
  obtain r' where t: "Transaction E (\<lambda>st. take_tx E c (found st) (gone st) st) st = (Inr r', st1)"
    and r: "r' = r" "\<not> wall E > expiry r"
    using assms by (auto simp: consumed_def split: prod.splits sum.splits if_splits)
  from Transaction_Inr [OF t] r show "found st = Some r" "st1 = gone st" "wall E \<le> expiry r"
    by (auto simp: take_tx_def stmt_def split: if_splits option.splits)
qed

lemma first_where_deleted: "first_where P (delete_where P rs) = None"
  by (induction rs) (auto simp: delete_where_def)

lemma take_absent: "found st = None \<Longrightarrow>
    \<nexists>r st1. consumed E expiry (Transaction E (\<lambda>st. take_tx E c (found st) (gone st) st) st) = (DbOk (Some r), st1)"
  by (auto dest: consumed_Some(1))

section \<open>The callback\<close>

lemma oidcEntry_Inr:
  assumes "oidcEntry L p B = (Inr e, B1)"
  shows "(cached_entry B p = Some e \<or> fd_discover L (derefStr (fp_issuer_url p)) = Inr (be_provider e)) \<and>
    be_client_id e = fp_client_id p"
  using assms by (auto simp: oidcEntry_def Let_def cached_entry_def split: option.splits sum.splits if_splits)

lemma exchange_claims_Inr:
  assumes "exchange_claims S E p r code B = (Inr ctx, B1)"
  shows "cb_provider ctx = p \<and> cb_request ctx = r \<and>
    (fp_type p = ''oidc'' \<longrightarrow> (\<exists>d cfg tok t m.
       ((\<exists>e. cached_entry B p = Some e \<and> be_provider e = d) \<or> fd_discover (fv_lib S) (derefStr (fp_issuer_url p)) = Inr d) \<and>
       fd_exchange (fv_lib S) cfg code (fr_code_verifier r) = Inr tok \<and> xc_client_id cfg = fp_client_id p \<and>
       fd_verify (fv_lib S) d (fp_client_id p) [''RS256'', ''ES256'', ''PS256''] (wall E) (derefStr (ft_id_token tok)) = Inr t \<and>
       ti_nonce t = fr_nonce r \<and> ti_claims t = Some m \<and> pq_raw (cb_claims ctx) = m))"
proof -
  obtain secret oc tok raw idt claims where f: "ForProvider (fv_lib S) p secret (callbackURL S p) B = (Inr oc, B1)"
    and x: "fd_exchange (fv_lib S) (xo_config oc) code (fr_code_verifier r) = Inr tok"
    and c: "extractClaims (fv_lib S) E oc tok (fr_nonce r) = Inr (raw, idt)"
    and a: "applyAttributeMapper raw (fp_attribute_mapper p) = Inr claims"
    and ctx: "ctx = \<lparr>cb_provider = p, cb_request = r, cb_claims = claims, cb_id_token = idt\<rparr>"
    using assms by (auto simp: exchange_claims_def split: sum.splits prod.splits)
  have raw: "pq_raw claims = raw" using a by (auto simp: applyAttributeMapper_def split: option.splits)
  show ?thesis
  proof (cases "fp_type p = ''oidc''")
    case False
    then show ?thesis by (simp add: ctx)
  next
    case True
    then obtain e where e: "oidcEntry (fv_lib S) p B = (Inr e, B1)"
      and v: "xo_verifier oc = Some (be_provider e, be_client_id e)" and i: "xc_client_id (xo_config oc) = fp_client_id p"
      using f by (auto simp: ForProvider_def forOIDC_def config_of_def split: if_splits sum.splits prod.splits)
    have b: "be_client_id e = fp_client_id p" using oidcEntry_Inr [OF e] by blast
    obtain t m where t: "fd_verify (fv_lib S) (be_provider e) (fp_client_id p) [''RS256'', ''ES256'', ''PS256''] (wall E)
          (derefStr (ft_id_token tok)) = Inr t" "ti_nonce t = fr_nonce r" "ti_claims t = Some m" "raw = m"
      using c by (auto simp: extractClaims_def v b Let_def split: if_splits sum.splits option.splits)
    from oidcEntry_Inr [OF e] have "(\<exists>e'. cached_entry B p = Some e' \<and> be_provider e' = be_provider e) \<or>
        fd_discover (fv_lib S) (derefStr (fp_issuer_url p)) = Inr (be_provider e)" by blast
    then show ?thesis using x i t raw by (simp add: ctx) blast
  qed
qed


section \<open>Who owns an identity\<close>

definition identity :: "fed_link \<Rightarrow> uuid \<times> string" where
  "identity l = (fl_provider_id l, fl_external_id l)"

definition links_ok :: "fed_link list \<Rightarrow> bool" where
  "links_ok ls \<longleftrightarrow> distinct (map identity ls) \<and> distinct (map fl_id ls)"

text \<open>An operation that leaves the links alone, or adds one for an identity that had none.\<close>

definition links_grow :: "db \<Rightarrow> db \<Rightarrow> bool" where
  "links_grow st st' \<longleftrightarrow> t_fed_links st' = t_fed_links st \<or>
     (\<exists>k. t_fed_links st' = t_fed_links st @ [k] \<and> identity k \<notin> identity ` set (t_fed_links st) \<and>
          fl_id k \<notin> fl_id ` set (t_fed_links st))"

lemma CreateLink_grows:
  assumes "CreateLink E l st = (x, st')"
  shows "links_grow st st'"
proof (cases x)
  case DbErr
  then show ?thesis using assms
    by (auto simp: CreateLink_def new_uuid_def bump_def links_grow_def stmt_opt_def Let_def split: option.splits if_splits dbres.splits)
next
  case (DbOk k)
  then have "t_fed_links st' = t_fed_links st @ [k] \<and> fl_id k \<notin> fl_id ` set (t_fed_links st) \<and>
      first_where (\<lambda>x. fl_provider_id x = fl_provider_id k \<and> fl_external_id x = fl_external_id k) (t_fed_links st) = None"
    using assms by (auto simp: CreateLink_def new_uuid_def bump_def stmt_opt_def insert_row_Some_iff Let_def
        split: option.splits if_splits dbres.splits)
  then show ?thesis by (auto simp: links_grow_def identity_def first_where_None_iff)
qed

lemma links_grow_same: "t_fed_links st' = t_fed_links st \<Longrightarrow> links_grow st st'"
  by (simp add: links_grow_def)

lemma links_grow_cong: "t_fed_links st1 = t_fed_links st \<Longrightarrow> links_grow st1 st' \<Longrightarrow> t_fed_links st2 = t_fed_links st' \<Longrightarrow> links_grow st st2"
  by (simp add: links_grow_def)

lemma createLink_grows: "createLink E u p c st = (x, st') \<Longrightarrow> links_grow st st'"
  by (auto simp: createLink_def split: prod.splits dbres.splits dest: CreateLink_grows)

lemma FindOrProvision_grows:
  assumes "FindOrProvisionUser E ctx st = (x, st')"
  shows "links_grow st st'"
proof -
  have stage: "stagePendingLink E u p c r st1 = (y, st2) \<Longrightarrow> t_fed_links st2 = t_fed_links st1"
      "stagePendingSignup E p c e r st1 = (y, st2) \<Longrightarrow> t_fed_links st2 = t_fed_links st1" for u p c e r st1 y st2
    by (auto simp: stagePendingLink_def stagePendingSignup_def GenerateRandomString_def bump_def
        InsertPendingLink_def InsertPendingSignup_def stmt_opt_def insert_row_def split: option.splits if_splits dbres.splits)
  show ?thesis
  proof (cases "fr_link_user_id (cb_request ctx)")
    case None
    then show ?thesis using assms
      by (auto simp: FindOrProvisionUser_def provision_unlinked_def Let_def
          split: if_splits dbres.splits option.splits sum.splits prod.splits intro!: links_grow_same dest: stage)
  next
    case (Some u)
    then show ?thesis using assms
      by (auto simp: FindOrProvisionUser_def completeAuthenticatedLink_def Let_def
          split: if_splits dbres.splits option.splits sum.splits prod.splits
          intro: links_grow_same createLink_grows)
  qed
qed

lemma consume_links:
  assumes "gorm_rollback E"
    and "consumed E expiry (Transaction E (\<lambda>st. take_tx E c (found st) (gone st) st) st) = (x, st')"
    and "\<And>st. t_fed_links (gone st) = t_fed_links st"
  shows "t_fed_links st' = t_fed_links st"
  using assms(2,3) assms(1) by (auto simp: consumed_def Transaction_def take_tx_def stmt_def gorm_rollback_def
      split: prod.splits sum.splits if_splits option.splits dbres.splits)

lemma ConsumePendingLink_links: "gorm_rollback E \<Longrightarrow> ConsumePendingLink E h st = (x, st') \<Longrightarrow> t_fed_links st' = t_fed_links st"
  unfolding ConsumePendingLink_def by (erule (1) consume_links) simp

lemma ConsumePendingSignup_links: "gorm_rollback E \<Longrightarrow> ConsumePendingSignup E h st = (x, st') \<Longrightarrow> t_fed_links st' = t_fed_links st"
  unfolding ConsumePendingSignup_def by (erule (1) consume_links) simp

lemma ConsumeAuthRequest_links: "gorm_rollback E \<Longrightarrow> ConsumeAuthRequest E h st = (x, st') \<Longrightarrow> t_fed_links st' = t_fed_links st"
  unfolding ConsumeAuthRequest_def by (erule (1) consume_links) simp

lemma VerifyPassword_links: "VerifyPassword E i pw st = (x, st') \<Longrightarrow> t_fed_links st' = t_fed_links st"
  by (auto simp: VerifyPassword_def maybeRehash_def HashPassword_def UpdateFields_def stmt_def stmt_opt_def bump_def
      split: dbres.splits option.splits prod.splits if_splits bool.splits)

lemma ConfirmLink_grows:
  assumes "gorm_rollback E" and "ConfirmLink E raw pw st = (x, st')"
  shows "links_grow st st'"
proof -
  obtain y st1 where c: "ConsumePendingLink E (HashToken (sha256 E) raw) st = (y, st1)" by (metis surj_pair)
  have s1: "t_fed_links st1 = t_fed_links st" by (rule ConsumePendingLink_links [OF assms(1) c])
  have conf: "links_grow s s'" if "link_confirmed E k s = (z, s')" for k s z s'
    using that by (auto simp: link_confirmed_def split: dbres.splits option.splits prod.splits sum.splits
        intro: links_grow_same CreateLink_grows)
  show ?thesis
  proof (cases "\<exists>k. y = DbOk (Some k) \<and> \<not> (raw = [] \<or> pw = [])")
    case False
    then show ?thesis using assms(2) s1
      by (auto simp: ConfirmLink_def c split: if_splits dbres.splits option.splits intro!: links_grow_same)
  next
    case True
    then obtain k where k: "y = DbOk (Some k)" "raw \<noteq> []" "pw \<noteq> []" by blast
    obtain v st2 where v: "VerifyPassword E (fk_user_id k) pw st1 = (v, st2)" by (metis surj_pair)
    have s2: "t_fed_links st2 = t_fed_links st" using VerifyPassword_links [OF v] s1 by simp
    have "st' = st2 \<or> link_confirmed E k st2 = (x, st')"
      using assms(2) k by (auto simp: ConfirmLink_def c v split: sum.splits bool.splits)
    then show ?thesis
    proof
      assume "st' = st2"
      then show ?thesis using s2 by (simp add: links_grow_same)
    next
      assume "link_confirmed E k st2 = (x, st')"
      from conf [OF this] show ?thesis using s2 by (simp add: links_grow_def)
    qed
  qed
qed

lemma assign_roles_links: "assign_roles E u rs st = (x, st') \<Longrightarrow> t_fed_links st' = t_fed_links st"
proof (induction rs arbitrary: st)
  case (Cons r rs)
  then show ?case
    by (auto simp: AssignRole_def AssignRole_row_def stmt_opt_def split: sum.splits dbres.splits if_splits prod.splits)
qed simp

lemma CreateFromFederation_links:
  assumes "gorm_rollback E" and "CreateFromFederation E i rs st = (x, st')"
  shows "t_fed_links st' = t_fed_links st"
proof (cases x)
  case (Inl e)
  then have "tables st' = tables st" using CreateFromFederation_atomic [OF assms(1)] assms(2) by blast
  then show ?thesis by (rule tables_field) simp
next
  case (Inr u)
  have tx: "t_fed_links s' = t_fed_links s" if "create_with_roles E v rs s = (Inr w, s')" for v rs s w s'
    using that by (auto simp: create_with_roles_def bump_def split: sum.splits prod.splits if_splits
        dest!: create_user_step_Inr assign_roles_links elim!: user_Create_DbOk)
  show ?thesis using assms(2) Inr
    by (auto simp: CreateFromFederation_def Let_def bump_def split: prod.splits sum.splits if_splits
        dest!: Transaction_Inr register_checks_Inr(3) tx)
qed


lemma Signup_grows:
  assumes "gorm_rollback E" and "fed_CompleteSignup E i st = (x, st')"
  shows "links_grow st st'"
proof -
  obtain y st1 where c: "ConsumePendingSignup E (HashToken (sha256 E) (sn_token i)) st = (y, st1)" by (metis surj_pair)
  have s1: "t_fed_links st1 = t_fed_links st" by (rule ConsumePendingSignup_links [OF assms(1) c])
  have consume: "t_fed_links (snd (ConsumeToken E v s)) = t_fed_links s" for v s
    by (auto simp: ConsumeToken_def inv_MarkUsed_def stmt_def split: dbres.splits)
  have comp: "links_grow s s'" if r: "signup_completed E i p k v s = (z, s')" for p k v s z s'
  proof -
    obtain w s2 where w: "CreateFromFederation E (new_account i k) (invited_roles E v) s = (w, s2)" by (metis surj_pair)
    have s2: "t_fed_links s2 = t_fed_links s" by (rule CreateFromFederation_links [OF assms(1) w])
    show ?thesis
    proof (cases w)
      case (Inl e)
      then show ?thesis using r s2 by (simp add: signup_completed_def w links_grow_same)
    next
      case (Inr u)
      obtain l s3 where l: "createLink E (us_id u) p \<lparr>pq_external_id = fs_external_id k, pq_email = fs_email k,
          pq_email_verified = False, pq_name = [], pq_picture = [], pq_raw = fs_raw_claims k\<rparr> s2 = (l, s3)"
        by (metis surj_pair)
      have "t_fed_links s' = t_fed_links s3"
        using r Inr by (auto simp: signup_completed_def w l consume Let_def split: option.splits)
      then show ?thesis using createLink_grows [OF l] s2 by (simp add: links_grow_def)
    qed
  qed
  show ?thesis
  proof (cases "\<exists>p k v. signup_completed E i p k v st1 = (x, st')")
    case True
    then show ?thesis using comp s1 by (fastforce simp: links_grow_def)
  next
    case False
    then have "st' = st \<or> st' = st1"
      using assms(2) by (auto simp: fed_CompleteSignup_def c split: if_splits dbres.splits option.splits sum.splits)
    then show ?thesis using s1 by (auto intro: links_grow_same)
  qed
qed

text \<open>The operations of the service and of the administration, with what they may take away.\<close>

datatype fed_event = Used | Unlinked uuid uuid | ProviderRemoved uuid | UserErased uuid

inductive fed_step :: "fed_event \<Rightarrow> db \<Rightarrow> db \<Rightarrow> bool" where
  Begin: "InitSocialLogin S E name opts (st, B) = (x, (st', B')) \<Longrightarrow> fed_step Used st st'"
| Callback: "gorm_rollback E \<Longrightarrow> ProcessCallback S E name code state (st, B) = (x, (st', B')) \<Longrightarrow> fed_step Used st st'"
| Provision: "FindOrProvisionUser E ctx st = (y, st') \<Longrightarrow> fed_step Used st st'"
| Confirm: "gorm_rollback E \<Longrightarrow> ConfirmLink E raw pw st = (c, st') \<Longrightarrow> fed_step Used st st'"
| Signup: "gorm_rollback E \<Longrightarrow> fed_CompleteSignup E i st = (c, st') \<Longrightarrow> fed_step Used st st'"
| Create: "CreateProvider S E inp st = (p, st') \<Longrightarrow> fed_step Used st st'"
| Update: "UpdateProvider S E j upd (st, B) = (p, (st', B')) \<Longrightarrow> fed_step Used st st'"
| Unlink: "UnlinkAccount E j u st = (v, st') \<Longrightarrow> fed_step (Unlinked j u) st st'"
| Remove: "DeleteProvider E j (st, B) = (v, (st', B')) \<Longrightarrow> fed_step (ProviderRemoved j) st st'"
| Erase: "user_Delete E u st = (v, st') \<Longrightarrow> fed_step (UserErased u) st st'"

inductive fed_run :: "fed_event list \<Rightarrow> db \<Rightarrow> db \<Rightarrow> bool" where
  Start: "fed_run [] st st"
| Next: "fed_step e st st1 \<Longrightarrow> fed_run es st1 st' \<Longrightarrow> fed_run (e # es) st st'"

inductive_cases fed_runE: "fed_run es st st'"

definition takes_away :: "fed_event \<Rightarrow> fed_link \<Rightarrow> bool" where
  "takes_away e l = (case e of Used \<Rightarrow> False | Unlinked j u \<Rightarrow> j = fl_id l \<and> u = fl_user_id l
     | ProviderRemoved p \<Rightarrow> p = fl_provider_id l | UserErased u \<Rightarrow> u = fl_user_id l)"

text \<open>What a step does to the links: it adds one for a free identity, or keeps those it may not take away.\<close>

lemma seal_links: "sealSecret S E s st = (x, st') \<Longrightarrow> t_fed_links st' = t_fed_links st"
  by (auto simp: sealSecret_def bump_def split: if_splits option.splits)

lemma flow_secrets_links: "flow_secrets E st = (x, st') \<Longrightarrow> t_fed_links st' = t_fed_links st"
  by (auto simp: flow_secrets_def GenerateRandomString_def bump_def split: option.splits prod.splits)

lemma unlink_cases:
  assumes "UnlinkAccount E j u st = (v, st')"
  shows "t_fed_links st' = t_fed_links st \<or>
    (\<exists>l. first_where (\<lambda>l. fl_id l = j) (t_fed_links st) = Some l \<and> fl_user_id l = u \<and>
      t_fed_links st' = delete_where (\<lambda>l. fl_id l = j) (t_fed_links st))"
proof (cases "FindLinkByID E j st")
  case DbErr
  then show ?thesis using assms by (simp add: UnlinkAccount_def)
next
  case (DbOk r)
  then have f: "r = first_where (\<lambda>l. fl_id l = j) (t_fed_links st)"
    by (simp add: FindLinkByID_def stmt_def split: if_splits)
  show ?thesis
  proof (cases r)
    case None
    then show ?thesis using assms DbOk by (simp add: UnlinkAccount_def)
  next
    case (Some l)
    then show ?thesis using assms DbOk f
      by (simp add: UnlinkAccount_def DeleteLink_def stmt_def split: if_splits) auto
  qed
qed

lemma fed_step_links:
  assumes "fed_step e st st'"
  shows "links_grow st st' \<or> (\<exists>P. t_fed_links st' = filter P (t_fed_links st) \<and>
    (links_ok (t_fed_links st) \<longrightarrow> (\<forall>l \<in> set (t_fed_links st). \<not> takes_away e l \<longrightarrow> P l)))"
  using assms
proof cases
  case (Begin S E name opts B x B')
  then have "t_fed_links st' = t_fed_links st"
    by (auto simp: InitSocialLogin_def InsertAuthRequest_def stmt_opt_def insert_row_def
        split: dbres.splits option.splits sum.splits prod.splits if_splits dest!: flow_secrets_links)
  then show ?thesis by (simp add: links_grow_same)
next
  case (Callback E S name code state B x B')
  obtain y st1 where c: "ConsumeAuthRequest E state st = (y, st1)" by (metis surj_pair)
  then have "st' = st \<or> st' = st1" using Callback
    by (auto simp: ProcessCallback_def split: if_splits dbres.splits option.splits prod.splits)
  then show ?thesis using ConsumeAuthRequest_links [OF Callback(2) c] by (auto intro: links_grow_same)
next
  case (Provision E ctx y)
  then show ?thesis using FindOrProvision_grows by blast
next
  case (Confirm E raw pw c)
  then show ?thesis using ConfirmLink_grows by blast
next
  case (Signup E i c)
  then show ?thesis using Signup_grows by blast
next
  case (Create S E inp p)
  then have "t_fed_links st' = t_fed_links st"
    by (auto simp: CreateProvider_def fed_CreateProvider_row_def new_uuid_def bump_def stmt_opt_def insert_row_def Let_def
        split: if_splits option.splits sum.splits prod.splits dbres.splits dest!: seal_links)
  then show ?thesis by (simp add: links_grow_same)
next
  case (Update S E j upd B p B')
  then have "t_fed_links st' = t_fed_links st"
    by (auto simp: UpdateProvider_def sealed_update_def fed_UpdateProvider_row_def stmt_def Let_def
        split: if_splits option.splits sum.splits prod.splits dbres.splits dest!: seal_links)
  then show ?thesis by (simp add: links_grow_same)
next
  case (Unlink E j u v)
  show ?thesis
  proof (cases "t_fed_links st' = t_fed_links st")
    case True then show ?thesis by (simp add: links_grow_same)
  next
    case False
    with unlink_cases [OF Unlink(2)] obtain l where l: "first_where (\<lambda>l. fl_id l = j) (t_fed_links st) = Some l" "fl_user_id l = u"
      and t: "t_fed_links st' = delete_where (\<lambda>l. fl_id l = j) (t_fed_links st)" by blast
    have "fl_id k \<noteq> j" if k: "k \<in> set (t_fed_links st)" "\<not> takes_away e k" "links_ok (t_fed_links st)" for k
    proof
      assume "fl_id k = j"
      then have "k = l" using l(1) k(1,3) by (auto simp: links_ok_def distinct_map inj_on_def dest!: first_where_SomeD)
      then show False using k(2) l(2) \<open>fl_id k = j\<close> Unlink(1) by (simp add: takes_away_def)
    qed
    then show ?thesis using t by (auto simp: delete_where_def)
  qed
next
  case (Remove E j B v B')
  then have "t_fed_links st' = t_fed_links st \<or> t_fed_links st' = filter (\<lambda>l. fl_provider_id l \<noteq> j) (t_fed_links st)"
    by (auto simp: DeleteProvider_def fed_DeleteProvider_row_def stmt_def delete_where_def
        split: sum.splits dbres.splits if_splits)
  then show ?thesis using Remove(1) by (auto simp: takes_away_def intro: links_grow_same)
next
  case (Erase E u v)
  then have "t_fed_links st' = t_fed_links st \<or> t_fed_links st' = filter (\<lambda>l. fl_user_id l \<noteq> u) (t_fed_links st)"
    by (auto simp: user_Delete_def user_Delete_row_def delete_user_rows_def stmt_def delete_where_def Let_def
        split: sum.splits dbres.splits if_splits)
  then show ?thesis using Erase(1) by (auto simp: takes_away_def intro: links_grow_same)
qed

lemma fed_step_keeps:
  assumes "fed_step e st st'" and "links_ok (t_fed_links st)"
  shows "links_ok (t_fed_links st')" and "l \<in> set (t_fed_links st) \<Longrightarrow> \<not> takes_away e l \<Longrightarrow> l \<in> set (t_fed_links st')"
  using fed_step_links [OF assms(1)] assms(2)
  by (auto simp: links_grow_def links_ok_def distinct_map_filter)

text \<open>C17 An external identity stays with its owner: over any history of logins, callbacks, confirmations,
  signups and administration, as long as the owner does not unlink it and neither the provider nor the
  owner is deleted, the link is kept and no other account is linked to the same identity.\<close>

theorem identity_stays_with_owner:
  assumes "fed_run es st st'" and "links_ok (t_fed_links st)" and "l \<in> set (t_fed_links st)"
    and "list_all (\<lambda>e. \<not> takes_away e l) es"
  shows "{k \<in> set (t_fed_links st'). identity k = identity l} = {l}"
  using assms
proof (induction rule: fed_run.induct)
  case (Start st)
  then show ?case by (auto simp: links_ok_def distinct_map inj_on_def)
next
  case (Next e st st1 es st')
  then show ?case using fed_step_keeps [OF Next(1)] by simp
qed

section \<open>The two confirmations\<close>

text \<open>A pending link is confirmed by the password of the account it names: the link is made only for an
  unexpired pending link of this token, when the password verifies against the hash of its user, for
  exactly the identity that was verified at the callback, and the token is spent.\<close>

theorem link_confirmed_by_password:
  assumes "ConfirmLink E raw pw st = (Inr n, st')"
  shows "\<exists>k u h r l. first_where (\<lambda>k. fk_token_hash k = HashToken (sha256 E) raw) (t_fed_pending_links st) = Some k \<and>
    wall E \<le> fk_expires_at k \<and> first_where (\<lambda>u. us_id u = fk_user_id k) (t_users st) = Some u \<and>
    us_password_hash u = Some h \<and> verify_identify E pw h = Some (True, r) \<and> us_id (cn_user n) = us_id u \<and>
    t_fed_links st' = t_fed_links st @ [l] \<and> fl_user_id l = us_id u \<and> identity l = (fk_provider_id k, fk_external_id k) \<and>
    list_all (\<lambda>k. fk_token_hash k \<noteq> HashToken (sha256 E) raw) (t_fed_pending_links st')"
proof -
  obtain k st1 st2 where c: "ConsumePendingLink E (HashToken (sha256 E) raw) st = (DbOk (Some k), st1)"
    and v: "VerifyPassword E (fk_user_id k) pw st1 = (Inr True, st2)"
    and d: "link_confirmed E k st2 = (Inr n, st')"
    using assms by (auto simp: ConfirmLink_def split: if_splits dbres.splits option.splits prod.splits sum.splits bool.splits)
  note c' = consumed_Some [OF c [unfolded ConsumePendingLink_def]]
  obtain u h r where u: "first_where (\<lambda>u. us_id u = fk_user_id k) (t_users st1) = Some u"
      "us_password_hash u = Some h" "verify_identify E pw h = Some (True, r)"
    using v by (auto simp: VerifyPassword_def user_FindByID_def user_row_def stmt_def
        split: dbres.splits option.splits prod.splits if_splits bool.splits)
  have rest: "t_fed_links st2 = t_fed_links st1 \<and> t_fed_pending_links st2 = t_fed_pending_links st1"
    using v by (auto simp: VerifyPassword_def maybeRehash_def HashPassword_def UpdateFields_def stmt_def stmt_opt_def bump_def
        split: dbres.splits option.splits prod.splits if_splits bool.splits)
  obtain l where l: "CreateLink E \<lparr>fl_id = uuid_nil, fl_user_id = fk_user_id k, fl_provider_id = fk_provider_id k,
                  fl_external_id = fk_external_id k, fl_email = fk_email k, fl_metadata = fk_raw_claims k\<rparr> st2 = (DbOk l, st')"
    and n: "GetByID E (fk_user_id k) st' = Inr (cn_user n)"
    using d by (auto simp: link_confirmed_def split: dbres.splits option.splits prod.splits sum.splits)
  have new: "t_fed_links st' = t_fed_links st2 @ [l] \<and> fl_user_id l = fk_user_id k \<and> identity l = (fk_provider_id k, fk_external_id k)
      \<and> t_fed_pending_links st' = t_fed_pending_links st2"
    using l by (auto simp: CreateLink_def new_uuid_def bump_def stmt_opt_def insert_row_Some_iff identity_def Let_def
        split: option.splits if_splits dbres.splits)
  have "us_id (cn_user n) = fk_user_id k"
    using n by (auto simp: GetByID_def user_FindByID_def user_row_def stmt_def dest!: first_where_SomeD
        split: dbres.splits option.splits if_splits)
  moreover have "us_id u = fk_user_id k" using u(1) by (auto dest: first_where_SomeD)
  ultimately show ?thesis
    using u new rest c' by (auto simp: c'(2) delete_where_def list_all_iff)
qed

text \<open>A wrong password at the confirmation form spends the pending link and changes nothing about the
  account: its counter of failed attempts, which locks it at the login form, stays as it was.\<close>

theorem link_guess_not_counted:
  assumes "ConfirmLink E raw pw st = (Inl e, st')" and "IsInvalidConfirmPassword e"
  shows "t_users st' = t_users st \<and> (\<nexists>E' pw' n s. sha256 E' = sha256 E \<and> ConfirmLink E' raw pw' st' = (Inr n, s))"
proof -
  have no: "e \<noteq> ErrBadRequest ''token and password are required''" "e \<noteq> ErrInternal ''failed to consume pending link''"
      "e \<noteq> ErrBadRequest ''invalid or expired pending link token''" "e \<noteq> ErrInternal ''failed to verify password''"
      "e \<noteq> ErrInternal ''pending link references unknown provider''" "e \<noteq> ErrInternal ''failed to create federation link''"
      "e \<noteq> ErrInternal ''failed to load confirmed user''"
    using assms(2) by (auto simp: IsInvalidConfirmPassword_def invalidPasswordSentinel_def ErrBadRequest_def ErrInternal_def)
  obtain k st1 where c: "ConsumePendingLink E (HashToken (sha256 E) raw) st = (DbOk (Some k), st1)"
    and v: "VerifyPassword E (fk_user_id k) pw st1 = (Inr False, st')"
    using assms(1) no by (auto simp: ConfirmLink_def link_confirmed_def
        split: if_splits dbres.splits option.splits prod.splits sum.splits bool.splits)
  note c' = consumed_Some [OF c [unfolded ConsumePendingLink_def]]
  have s: "st' = st1"
    using v by (auto simp: VerifyPassword_def split: dbres.splits option.splits prod.splits if_splits bool.splits)
  have "\<nexists>n s. ConfirmLink E' raw pw' st' = (Inr n, s)" if sha: "sha256 E' = sha256 E" for E' pw'
  proof (intro notI, elim exE)
    fix n s assume "ConfirmLink E' raw pw' st' = (Inr n, s)"
    then obtain k' st2 where "ConsumePendingLink E' (HashToken (sha256 E) raw) st1 = (DbOk (Some k'), st2)"
      by (auto simp: ConfirmLink_def s sha split: if_splits dbres.splits option.splits prod.splits)
    from consumed_Some(1) [OF this [unfolded ConsumePendingLink_def]] show False
      by (simp add: c'(2) first_where_deleted)
  qed
  then show ?thesis by (auto simp: s c'(2))
qed

context registration_form
begin

lemma CreateFromFederation_success:
  assumes "reg_form E = Some fill" and "CreateFromFederation E i rs st = (Inr u, st')"
  shows "us_email u = lower_trim (fi_email i) \<and> us_email_verified u = fi_email_verified i \<and>
    email_row st (lower_trim (fi_email i)) = None \<and>
    password_policy E (fi_password i) [lower_trim (fi_email i), fi_display_name i] = None"
proof -
  let ?e = "lower_trim (fi_email i)"
  obtain h st1 where chk: "register_checks E ?e (fi_password i) (fi_display_name i) st = (Inr h, st1)"
    using assms(2) by (auto simp: CreateFromFederation_def Let_def split: prod.splits sum.splits if_splits)
  obtain u0 rs' where f: "fill (blank_user\<lparr>us_email := ?e, us_email_verified := fi_email_verified i,
        us_password_hash := Some h, us_must_set_password := False, us_active := True,
        us_display_name := non_empty (fi_display_name i), us_avatar_url := non_empty (fi_avatar_url i)\<rparr>)
      (fi_extra_fields i) ''federation'' = Inr u0"
    and tx: "Transaction E (create_with_roles E u0 rs') st1 = (Inr u, st')"
    using assms chk by (auto simp: CreateFromFederation_def Let_def applyRegFormExtras_def split: sum.splits if_splits)
  then obtain st2 where c: "create_user_step E u0 st1 = (Inr u, st2)"
    by (auto simp: create_with_roles_def dest!: Transaction_Inr split: prod.splits sum.splits if_splits)
  have "us_email u = us_email u0" "us_email_verified u = us_email_verified u0"
    using create_user_step_Inr [OF c] by (auto elim!: user_Create_DbOk)
  then show ?thesis using fill_keeps_account [OF f] register_checks_Inr(1,2) [OF chk] by simp
qed

end

text \<open>A signup through a provider passes the same gates as any registration: it needs an unexpired pending
  signup of this token for a known provider, open registration or an unused unexpired invitation, a
  free e-mail address and a password the policy accepts; the account has the verified address.\<close>

theorem signup_passes_gates:
  assumes "reg_form E = Some (reg_form_provider L F s)" and "fed_CompleteSignup E i st = (Inr n, st')"
  shows "\<exists>k p. first_where (\<lambda>k. fs_token_hash k = HashToken (sha256 E) (sn_token i)) (t_fed_pending_signups st) = Some k \<and>
    wall E \<le> fs_expires_at k \<and> first_where (\<lambda>p. fp_id p = fs_provider_id k) (t_fed_providers st) = Some p \<and>
    (IsRegistrationEnabled E st \<or> (\<exists>v \<in> set (t_invitations st). iv_token v = HashToken (sha256 E) (derefStr (fs_invitation_token k)) \<and>
        \<not> iv_used v \<and> wall E < iv_expires_at v)) \<and>
    us_email (cn_user n) = lower_trim (fs_email k) \<and> email_row st (lower_trim (fs_email k)) = None \<and>
    us_email_verified (cn_user n) = fs_email_verified k \<and>
    password_policy E (sn_password i) [lower_trim (fs_email k), fi_display_name (new_account i k)] = None"
proof -
  obtain k st1 p v where c: "ConsumePendingSignup E (HashToken (sha256 E) (sn_token i)) st = (DbOk (Some k), st1)"
    and p: "FindProviderByID E (fs_provider_id k) st1 = DbOk (Some p)"
    and v: "attached_invitation E k st1 = Inr v" "v = None \<longrightarrow> IsRegistrationEnabled E st1"
    and d: "signup_completed E i p k v st1 = (Inr n, st')"
    using assms(2) by (auto simp: fed_CompleteSignup_def split: if_splits dbres.splits option.splits prod.splits sum.splits)
  note c' = consumed_Some [OF c [unfolded ConsumePendingSignup_def]]
  have p': "first_where (\<lambda>p. fp_id p = fs_provider_id k) (t_fed_providers st) = Some p"
    using p by (auto simp: c'(2) FindProviderByID_def stmt_def split: if_splits)
  have reg: "IsRegistrationEnabled E st1 = IsRegistrationEnabled E st"
    by (simp add: c'(2) IsRegistrationEnabled_def setting_flag_def GetSetting_def setting_of_def)
  have inv: "\<exists>w \<in> set (t_invitations st). iv_token w = HashToken (sha256 E) (derefStr (fs_invitation_token k)) \<and>
        \<not> iv_used w \<and> wall E < iv_expires_at w" if "v = Some w0" for w0
    using v(1) that by (auto simp: attached_invitation_def ValidateToken_def inv_FindByToken_def stmt_def c'(2)
        split: if_splits dbres.splits option.splits dest!: first_where_SomeD)
  obtain st2 where f: "CreateFromFederation E (new_account i k) (invited_roles E v) st1 = (Inr (cn_user n), st2)"
    using d by (auto simp: signup_completed_def Let_def split: sum.splits prod.splits)
  have e: "email_row st1 m = email_row st m" for m by (simp add: c'(2) email_row_def)
  show ?thesis using form.CreateFromFederation_success [OF assms(1) f] c'(1,3) p' v(2) reg inv
    by (cases v) (auto simp: new_account_def e)
qed

section \<open>Going on\<close>

lemma resume_codes:
  "QueryEscape ''authorize_resume_failed'' = ''authorize_resume_failed''"
  "QueryEscape ''authorize_complete_failed'' = ''authorize_complete_failed''"
  by code_simp+

text \<open>The redirect after a provider's callback and the address answered after a confirmation are the
  same function of the user, the pending request and the return address.\<close>

theorem continuation_same:
  "continueAfterLogin S E q name u r t st = computeContinuationURL S E q name u r t st"
  unfolding continueAfterLogin_def computeContinuationURL_def login_error_url_def resume_codes
  by (auto split: option.splits sum.splits prod.splits)

text \<open>The default of the \<^verbatim>\<open>attribute_mapper\<close> column is the empty object, which is not the absent mapper: for
  such a provider no claim is read and every callback ends without a subject.\<close>

theorem empty_mapper_maps_nothing:
  assumes "ProcessCallback S E name code state (st, B) = (Inr ctx, s')"
    and "fp_attribute_mapper (cb_provider ctx) = Some (AObj [])"
  shows "FindOrProvisionUser E ctx st' =
    (Inl (ErrBadRequest ''federation provider returned no subject identifier''), st')"
proof -
  obtain r p st1 B1 where x: "exchange_claims S E p r code B = (Inr ctx, B1)"
    using assms(1) by (auto simp: ProcessCallback_def split: if_splits dbres.splits option.splits prod.splits)
  then have "cb_provider ctx = p" "\<exists>raw. Inr (cb_claims ctx) = applyAttributeMapper raw (fp_attribute_mapper p)"
    by (auto simp: exchange_claims_def split: sum.splits prod.splits) metis
  then have "pq_external_id (cb_claims ctx) = []"
    using assms(2) by (auto simp: applyAttributeMapper_def decode_mapper_def pick_def mapped_claim_def given_else_def
        split: option.splits)
  then show ?thesis by (simp add: FindOrProvisionUser_def)
qed

section \<open>Invitations\<close>

text \<open>An invitation admits the invited address only: registration succeeds only with an unused, unexpired
  invitation of this token, and the account has the address it was sent to, which was free.\<close>

theorem invitation_admits_its_address:
  assumes "reg_form E = Some (reg_form_provider L F s)"
    and "RegisterWithInvite E token pw d st = (Inr u, st')"
  shows "\<exists>v \<in> set (t_invitations st). iv_token v = HashToken (sha256 E) token \<and> \<not> iv_used v \<and> wall E < iv_expires_at v \<and>
    us_email u = lower_trim (iv_email v) \<and> email_row st (us_email u) = None"
proof -
  obtain v st1 u0 where v: "inv_FindByToken E (HashToken (sha256 E) token) st = DbOk (Some v)"
    and r: "Register E (invited_input v pw d) st = (Inr u0, st1)"
    and a: "admit_invited E v u0 st1 = (Inr u, st')"
    using assms(2) by (auto simp: RegisterWithInvite_def split: dbres.splits option.splits if_splits sum.splits prod.splits)
  have "us_email u = us_email u0" using a by (auto simp: admit_invited_def Let_def)
  then show ?thesis using form.Register_success [OF assms(1) r] v
    by (auto simp: inv_FindByToken_def stmt_def invited_input_def split: if_splits dest!: first_where_SomeD)
qed

section \<open>A provider on which the properties are exercised\<close>

definition fed_prims :: primitives where
  "fed_prims = \<lparr>kd_argon2id = (\<lambda>pw s t m p n. None), kd_argon2i = (\<lambda>pw s t m p n. None), kd_bcrypt = (\<lambda>h pw. Inr False),
     dg_sha256 = id, dg_sha1 = id, dg_md5 = id, gcm_seal = (\<lambda>k n p. p), gcm_open = (\<lambda>k n c. Some c)\<rparr>"

definition fed_demo_lib :: fed_lib where
  "fed_demo_lib = \<lparr>fd_discover = (\<lambda>iss. Inr \<lparr>di_auth_url = ''auth'', di_token_url = ''token'', di_userinfo = Inr ''info'', di_keys = ''keys''\<rparr>),
     fd_auth_url = (\<lambda>cfg state ps. state),
     fd_exchange = (\<lambda>cfg code v. if v = ''ver'' then Inr \<lparr>ft_access = ''at'', ft_id_token = Some code\<rparr> else Inl ''bad verifier''),
     fd_verify = (\<lambda>d c algs now s. Inr \<lparr>ti_nonce = ''non'', ti_claims = Some [(''sub'', AStr s)]\<rparr>),
     fd_userinfo = (\<lambda>cfg t u. Inl ''unreachable'')\<rparr>"

definition fed_demo :: fed_service where
  "fed_demo = \<lparr>fv_lib = fed_demo_lib, fv_net = \<lparr>nl_parse_error = (\<lambda>s. s), nl_lookup = (\<lambda>h. Inr []), nl_ip_string = (\<lambda>ip. [])\<rparr>,
     fv_prims = fed_prims, fv_key = [], fv_issuer = ''iss'', fv_auth_ui = ''ui'', fv_origins = []\<rparr>"

definition idp :: fed_provider where
  "idp = \<lparr>fp_id = UUID 40, fp_name = ''acme'', fp_display_name = None, fp_type = ''oidc'', fp_client_id = ''orion'',
     fp_client_secret = Some ''s'', fp_client_secret_encrypted = [], fp_issuer_url = Some ''idp'', fp_authorization_url = None,
     fp_token_url = None, fp_userinfo_url = None, fp_jwks_uri = None, fp_scopes = [], fp_attribute_mapper = None,
     fp_sync_on_login = False, fp_allow_link_confirmation = True, fp_active = True, fp_updated_at = 0\<rparr>"

definition fed_flow :: fed_request where
  "fed_flow = \<lparr>fr_state = ''sta'', fr_provider_id = UUID 40, fr_code_verifier = ''ver'', fr_nonce = ''non'', fr_return_to = None,
     fr_oauth_request_id = None, fr_invitation_token = None, fr_link_user_id = None, fr_ip_address = None,
     fr_user_agent = None, fr_expires_at = 2000000000000\<rparr>"

definition fed_link_waiting :: fed_pending_link where
  "fed_link_waiting = \<lparr>fk_token_hash = HashToken id ''t'', fk_user_id = UUID 2, fk_provider_id = UUID 40, fk_external_id = ''x'',
     fk_email = None, fk_raw_claims = [], fk_oauth_request_id = None, fk_return_to = None, fk_ip_address = None,
     fk_user_agent = None, fk_expires_at = 2000000000000\<rparr>"

definition fed_signup_waiting :: fed_pending_signup where
  "fed_signup_waiting = \<lparr>fs_token_hash = HashToken id ''s'', fs_provider_id = UUID 40, fs_external_id = ''y'', fs_email = ''n@b.c'',
     fs_email_verified = True, fs_display_name = None, fs_avatar_url = None, fs_raw_claims = [], fs_oauth_request_id = None,
     fs_return_to = None, fs_invitation_token = None, fs_ip_address = None, fs_user_agent = None, fs_expires_at = 2000000000000\<rparr>"

definition fed_db :: db where
  "fed_db = demo_db\<lparr>t_fed_providers := [idp], t_fed_requests := [fed_flow], t_fed_pending_links := [fed_link_waiting],
     t_fed_pending_signups := [fed_signup_waiting]\<rparr>"

lemmas fed_rows = fed_db_def idp_def fed_flow_def fed_link_waiting_def fed_signup_waiting_def fed_demo_def fed_demo_lib_def
  demo_db_def empty_db_def

lemma demo_callback: "\<exists>ctx s'. ProcessCallback fed_demo demo_env ''acme'' ''c'' ''sta'' (fed_db, []) = (Inr ctx, s') \<and>
    pq_external_id (cb_claims ctx) = ''c'' \<and> fp_type (cb_provider ctx) = ''oidc''"
  by (simp add: ProcessCallback_def ConsumeAuthRequest_def take_tx_def consumed_def Transaction_def stmt_def fed_rows
      delete_where_def FindProviderByName_def exchange_claims_def RevealSecret_def ForProvider_def forOIDC_def oidcEntry_def
      cached_entry_def extractClaims_def applyAttributeMapper_def decode_mapper_def defaultAttributeMapper_def given_else_def pick_def
      mapped_claim_def Let_def derefStr_def config_of_def pickBool_def)


lemma demo_confirm: "\<exists>n s'. ConfirmLink demo_env ''t'' ''pass'' fed_db = (Inr n, s') \<and> length (t_fed_links s') = 1"
  by (simp add: ConfirmLink_def ConsumePendingLink_def take_tx_def consumed_def Transaction_def stmt_def fed_rows
      delete_where_def VerifyPassword_def user_FindByID_def user_row_def demo_rows maybeRehash_def link_confirmed_def
      FindProviderByID_def CreateLink_def new_uuid_def bump_def stmt_opt_def insert_row_def GetByID_def Let_def)

lemma demo_guess: "\<exists>e s'. ConfirmLink demo_env ''t'' ''past'' fed_db = (Inl e, s') \<and> IsInvalidConfirmPassword e"
  by (simp add: ConfirmLink_def ConsumePendingLink_def take_tx_def consumed_def Transaction_def stmt_def fed_rows
      delete_where_def VerifyPassword_def user_FindByID_def user_row_def demo_rows IsInvalidConfirmPassword_def)



definition own_link :: fed_link where
  "own_link = \<lparr>fl_id = UUID 70, fl_user_id = UUID 2, fl_provider_id = UUID 40, fl_external_id = ''own'', fl_email = None, fl_metadata = []\<rparr>"

lemma demo_confirm_second:
  "\<exists>n s'. ConfirmLink demo_env ''t'' ''pass'' (fed_db\<lparr>t_fed_links := [own_link]\<rparr>) = (Inr n, s')"
  by (simp add: ConfirmLink_def ConsumePendingLink_def take_tx_def consumed_def Transaction_def stmt_def fed_rows
      delete_where_def VerifyPassword_def user_FindByID_def user_row_def demo_rows maybeRehash_def link_confirmed_def
      FindProviderByID_def CreateLink_def new_uuid_def bump_def stmt_opt_def insert_row_def GetByID_def Let_def own_link_def)

lemma identity_stays_with_owner_witness:
  "\<exists>st'. fed_run [Used] (fed_db\<lparr>t_fed_links := [own_link]\<rparr>) st' \<and>
    {k \<in> set (t_fed_links st'). identity k = identity own_link} = {own_link}"
proof -
  obtain n s' where "ConfirmLink demo_env ''t'' ''pass'' (fed_db\<lparr>t_fed_links := [own_link]\<rparr>) = (Inr n, s')"
    using demo_confirm_second by blast
  from fed_step.Confirm [OF demo_env_rollback this] have "fed_run [Used] (fed_db\<lparr>t_fed_links := [own_link]\<rparr>) s'"
    by (rule fed_run.Next) (rule fed_run.Start)
  from this identity_stays_with_owner [OF this, of own_link] show ?thesis by (auto simp: links_ok_def takes_away_def)
qed

lemma link_confirmed_by_password_witness:
  "\<exists>n s' l. ConfirmLink demo_env ''t'' ''pass'' fed_db = (Inr n, s') \<and> t_fed_links s' = t_fed_links fed_db @ [l]"
  using demo_confirm link_confirmed_by_password [of demo_env "''t''" "''pass''" fed_db] by blast

lemma link_guess_not_counted_witness:
  "\<exists>e s'. ConfirmLink demo_env ''t'' ''past'' fed_db = (Inl e, s') \<and> t_users s' = t_users fed_db"
  using demo_guess link_guess_not_counted [of demo_env "''t''" "''past''" fed_db] by blast


definition signup_env :: env where
  "signup_env = demo_env\<lparr>reg_form := Some (reg_form_provider
     \<lparr>rl_options = (\<lambda>s. Some []), rl_parse_float = (\<lambda>s. None), rl_marshal_ok = (\<lambda>m. True)\<rparr> demo_env empty_db)\<rparr>"

lemma signup_form: "reg_form signup_env = Some (reg_form_provider
     \<lparr>rl_options = (\<lambda>s. Some []), rl_parse_float = (\<lambda>s. None), rl_marshal_ok = (\<lambda>m. True)\<rparr> demo_env empty_db)"
  by (simp add: signup_env_def)

lemma demo_address: "lower_trim ''n@b.c'' = ''n@b.c''"
  by code_simp

lemma demo_fed_signup: "\<exists>n s'. fed_CompleteSignup signup_env \<lparr>sn_token = ''s'', sn_password = ''pass'', sn_display_name = [],
    sn_extra_fields = []\<rparr> fed_db = (Inr n, s')"
  by (simp add: fed_CompleteSignup_def signup_env_def ConsumePendingSignup_def take_tx_def consumed_def Transaction_def stmt_def
      fed_rows delete_where_def FindProviderByID_def attached_invitation_def derefStr_def IsRegistrationEnabled_def
      setting_flag_def GetSetting_def setting_of_def signup_completed_def CreateFromFederation_def new_account_def
      demo_address register_checks_def user_FindByEmail_def email_row_def HashPassword_def demo_rows applyRegFormExtras_def
      reg_form_provider_def reg_ListForContext_def reg_ListForContext_row_def reg_Apply_def allowedContexts_def field_order_def
      create_with_roles_def create_user_step_def user_Create_def new_uuid_def bump_def stmt_opt_def insert_row_def
      non_empty_def Let_def)

lemma signup_passes_gates_witness:
  "\<exists>n s'. fed_CompleteSignup signup_env \<lparr>sn_token = ''s'', sn_password = ''pass'', sn_display_name = [],
    sn_extra_fields = []\<rparr> fed_db = (Inr n, s') \<and> email_row fed_db ''n@b.c'' = None"
proof -
  obtain n s' where r: "fed_CompleteSignup signup_env \<lparr>sn_token = ''s'', sn_password = ''pass'', sn_display_name = [],
    sn_extra_fields = []\<rparr> fed_db = (Inr n, s')" using demo_fed_signup by blast
  have "\<exists>k. first_where (\<lambda>k. fs_token_hash k = HashToken id ''s'') (t_fed_pending_signups fed_db) = Some k \<and>
      email_row fed_db (lower_trim (fs_email k)) = None"
    using signup_passes_gates [OF signup_form r] by (auto simp: signup_env_def)
  then show ?thesis using r by (simp add: fed_rows demo_address)
qed

lemma demo_empty_mapper: "\<exists>ctx s'. ProcessCallback fed_demo demo_env ''acme'' ''c'' ''sta''
    (fed_db\<lparr>t_fed_providers := [idp\<lparr>fp_attribute_mapper := Some (AObj [])\<rparr>]\<rparr>, []) = (Inr ctx, s') \<and>
    fp_attribute_mapper (cb_provider ctx) = Some (AObj [])"
  by (simp add: ProcessCallback_def ConsumeAuthRequest_def take_tx_def consumed_def Transaction_def stmt_def fed_rows
      delete_where_def FindProviderByName_def exchange_claims_def RevealSecret_def ForProvider_def forOIDC_def oidcEntry_def
      cached_entry_def extractClaims_def applyAttributeMapper_def decode_mapper_def given_else_def pick_def
      mapped_claim_def Let_def derefStr_def config_of_def pickBool_def)

lemma empty_mapper_maps_nothing_witness:
  "\<exists>ctx s'. ProcessCallback fed_demo demo_env ''acme'' ''c'' ''sta''
      (fed_db\<lparr>t_fed_providers := [idp\<lparr>fp_attribute_mapper := Some (AObj [])\<rparr>]\<rparr>, []) = (Inr ctx, s') \<and>
    FindOrProvisionUser demo_env ctx fed_db =
      (Inl (ErrBadRequest ''federation provider returned no subject identifier''), fed_db)"
  using demo_empty_mapper empty_mapper_maps_nothing [where E = demo_env and S = fed_demo] by metis

definition invited :: invitation where
  "invited = \<lparr>iv_id = UUID 80, iv_email = ''n@b.c'', iv_token = HashToken id ''inv'', iv_role_ids = [], iv_invited_by = UUID 2,
     iv_used = False, iv_used_at = None, iv_expires_at = 2000000000000, iv_created_at = 0\<rparr>"

lemma demo_invited: "\<exists>u s'. RegisterWithInvite signup_env ''inv'' ''pass'' None (fed_db\<lparr>t_invitations := [invited]\<rparr>) = (Inr u, s')"
  by (simp add: RegisterWithInvite_def inv_FindByToken_def stmt_def invited_def iv_IsExpired_def invited_input_def fed_rows
      Register_def register_tx_def signup_env_def Transaction_def derefStr_def demo_address register_checks_def
      user_FindByEmail_def email_row_def HashPassword_def demo_rows applyRegFormExtras_def
      reg_form_provider_def reg_ListForContext_def reg_ListForContext_row_def reg_Apply_def allowedContexts_def field_order_def
      create_user_step_def user_Create_def new_uuid_def bump_def stmt_opt_def insert_row_def admit_invited_def
      non_empty_def Let_def AdminUpdate_def enqueueVerifyEmailInTx_def save_user_def run_store)


lemma invitation_admits_its_address_witness:
  "\<exists>u s'. RegisterWithInvite signup_env ''inv'' ''pass'' None (fed_db\<lparr>t_invitations := [invited]\<rparr>) = (Inr u, s') \<and>
    us_email u = ''n@b.c''"
proof -
  obtain u s' where r: "RegisterWithInvite signup_env ''inv'' ''pass'' None (fed_db\<lparr>t_invitations := [invited]\<rparr>) = (Inr u, s')"
    using demo_invited by blast
  show ?thesis using invitation_admits_its_address [OF signup_form r] r by (simp add: invited_def demo_address)
qed


end
