(* ===== verification/PolicySchemas.thy ===== *)
theory PolicySchemas
  imports PolicyInputs
begin

text \<open>
  The catalogue of policy fields that the administration shows (\<^verbatim>\<open>policy/inputs/schemas.go\<close>), maintained by
  hand beside the builders of the inputs; the last section compares the two.
\<close>

record field_def =
  fd_path :: string
  fd_type :: string
  fd_description :: string

record type_schema =
  sc_input :: "field_def list"
  sc_modify :: "field_def list"

definition fld :: "string \<Rightarrow> string \<Rightarrow> field_def" where
  "fld p t = \<lparr>fd_path = p, fd_type = t, fd_description = []\<rparr>"

definition about :: "string \<Rightarrow> string \<Rightarrow> string \<Rightarrow> field_def" where
  "about p t d = \<lparr>fd_path = p, fd_type = t, fd_description = d\<rparr>"

definition timeFieldDefs :: "field_def list" where
  "timeFieldDefs =
     [about ''time.hour'' ''number'' ''Hour of day in server local time, 0-23'',
      about ''time.weekday'' ''string'' (''Weekday name, e.g. '' @ [CHR 0x22] @ ''Monday'' @ [CHR 0x22]),
      about ''time.weekday_n'' ''number'' ''Weekday number, 0=Sunday..6=Saturday'',
      about ''time.unix'' ''number'' ''Unix timestamp in seconds'']"

definition permissions_about :: string where
  "permissions_about = ''Effective permission strings, e.g. '' @ [CHR 0x22] @ ''clients:read'' @ [CHR 0x22]"

definition userFieldDefs :: "field_def list" where
  "userFieldDefs =
     [fld ''user.id'' ''string'', fld ''user.email'' ''string'', fld ''user.email_verified'' ''boolean'',
      fld ''user.active'' ''boolean'',
      about ''user.roles'' ''array'' (''Role names assigned to the user, e.g. '' @ [CHR 0x22] @ ''friends'' @ [CHR 0x22]),
      about ''user.permissions'' ''array'' permissions_about]"

definition clientFieldDefs :: "field_def list" where
  "clientFieldDefs =
     [fld ''client.id'' ''string'', fld ''client.name'' ''string'', fld ''client.is_public'' ''boolean'',
      fld ''client.is_first_party'' ''boolean'']"

definition login_schema :: type_schema where
  "login_schema = \<lparr>sc_input = userFieldDefs @ clientFieldDefs @
     [fld ''ip_address'' ''string'', fld ''user_agent'' ''string''] @ timeFieldDefs, sc_modify = []\<rparr>"

definition token_issuance_schema :: type_schema where
  "token_issuance_schema = \<lparr>sc_input = clientFieldDefs @ userFieldDefs @
     [about ''scopes'' ''array'' ''Requested scopes (array of strings)'', fld ''ip_address'' ''string''] @ timeFieldDefs,
    sc_modify =
     [about ''access_token_ttl'' ''number'' ''Access token TTL in seconds (overrides client default)'',
      about ''refresh_token_ttl'' ''number'' ''Refresh token TTL in seconds (overrides client default)'',
      about ''scopes'' ''array'' ''Narrow granted scopes (intersected with requested)'',
      about ''claims'' ''object'' ''Custom claims merged into the ID token (reserved JWT claims protected)'']\<rparr>"

definition consent_schema :: type_schema where
  "consent_schema = \<lparr>sc_input = userFieldDefs @ clientFieldDefs @
     [fld ''scopes_requested'' ''array'', fld ''scopes_granted'' ''array'', fld ''ip_address'' ''string'',
      fld ''user_agent'' ''string''] @ timeFieldDefs,
    sc_modify = [about ''scopes'' ''array'' ''Narrow granted scopes further before storing consent'']\<rparr>"

definition refresh_schema :: type_schema where
  "refresh_schema = \<lparr>sc_input = clientFieldDefs @ userFieldDefs @
     [fld ''scopes_requested'' ''array'', fld ''scopes_granted'' ''array'', fld ''session_id'' ''string'',
      fld ''ip_address'' ''string''] @ timeFieldDefs,
    sc_modify = [about ''scopes'' ''array'' ''Narrow granted scopes (intersected with current grant)'']\<rparr>"

definition client_auth_schema :: type_schema where
  "client_auth_schema = \<lparr>sc_input = clientFieldDefs @
     [about ''auth_method'' ''string'' ''client_secret_basic | client_secret_post | private_key_jwt | none'',
      fld ''request.method'' ''string'', fld ''request.path'' ''string'', fld ''ip_address'' ''string'',
      fld ''user_agent'' ''string''] @ timeFieldDefs, sc_modify = []\<rparr>"

definition admin_api_schema :: type_schema where
  "admin_api_schema = \<lparr>sc_input =
     [fld ''user.id'' ''string'', about ''user.permissions'' ''array'' permissions_about,
      fld ''request.method'' ''string'', fld ''request.path'' ''string'', fld ''ip_address'' ''string''] @ timeFieldDefs,
    sc_modify = []\<rparr>"

definition introspect_schema :: type_schema where
  "introspect_schema = \<lparr>sc_input =
     [about ''token.type'' ''string'' ''access_token or refresh_token'', fld ''token.client_id'' ''string'',
      about ''token.user_id'' ''string'' ''Absent for client_credentials tokens'', fld ''token.scopes'' ''array'',
      fld ''token.audience'' ''string'', about ''requesting_client.id'' ''string'' ''Client introspecting (the caller)'',
      fld ''ip_address'' ''string''] @ timeFieldDefs, sc_modify = []\<rparr>"

definition device_approval_schema :: type_schema where
  "device_approval_schema = \<lparr>sc_input = userFieldDefs @ clientFieldDefs @
     [fld ''scopes'' ''array'', fld ''user_code'' ''string'', fld ''ip_address'' ''string'',
      fld ''user_agent'' ''string''] @ timeFieldDefs, sc_modify = []\<rparr>"

definition mfa_schema :: type_schema where
  "mfa_schema = \<lparr>sc_input = userFieldDefs @ clientFieldDefs @
     [fld ''scopes'' ''array'', about ''has_mfa'' ''boolean'' ''Whether the user has actually enrolled MFA'',
      fld ''ip_address'' ''string'', fld ''user_agent'' ''string''] @ timeFieldDefs,
    sc_modify = [about ''require_mfa'' ''boolean''
      (''Override default '' @ [CHR 0x22] @ ''needsMFA = has_mfa'' @ [CHR 0x22] @ ''. If true and has_mfa is false, login is denied.'')]\<rparr>"

definition account_action_schema :: type_schema where
  "account_action_schema = \<lparr>sc_input = userFieldDefs @
     [about ''action'' ''string''
        ''One of: update_profile, change_email, change_password, manage_mfa, manage_passkeys, manage_linked_accounts, delete_account'',
      fld ''has_mfa'' ''boolean'', fld ''has_passkey'' ''boolean'',
      about ''account_age_days'' ''number'' ''Days since account creation'', fld ''ip_address'' ''string'',
      fld ''user_agent'' ''string''] @ timeFieldDefs, sc_modify = []\<rparr>"

definition Schemas :: "(string \<times> type_schema) list" where
  "Schemas =
     [(''login'', login_schema), (''token_issuance'', token_issuance_schema), (''consent'', consent_schema),
      (''refresh'', refresh_schema), (''client_auth'', client_auth_schema), (''admin_api'', admin_api_schema),
      (''introspect'', introspect_schema), (''device_approval'', device_approval_schema), (''mfa'', mfa_schema),
      (''account_action'', account_action_schema), (''custom'', \<lparr>sc_input = [], sc_modify = []\<rparr>)]"

definition GetSchemas :: "(string \<times> type_schema) list" where
  "GetSchemas = Schemas"

section \<open>Documents and their catalogue\<close>

text \<open>The JSON type of a value, and the dotted paths of a document down to one level of objects.\<close>

fun json_type :: "any \<Rightarrow> string" where
  "json_type ANil = ''null''"
| "json_type (ABool b) = ''boolean''"
| "json_type (AStr s) = ''string''"
| "json_type (AArr vs) = ''array''"
| "json_type (AStrings ss) = ''array''"
| "json_type (AObj m) = ''object''"
| "json_type v = ''number''"

definition entry_fields :: "string \<times> any \<Rightarrow> (string \<times> string) list" where
  "entry_fields e =
     (case snd e of
        AObj m \<Rightarrow> map (\<lambda>(k, v). (fst e @ ''.'' @ k, json_type v)) m
      | v \<Rightarrow> [(fst e, json_type v)])"

definition document_fields :: "any_map \<Rightarrow> (string \<times> string) list" where
  "document_fields m = concat (map entry_fields m)"

definition catalogue :: "string \<Rightarrow> (string \<times> string) set" where
  "catalogue ty = (case map_of Schemas ty of None \<Rightarrow> {} | Some s \<Rightarrow> set (map (\<lambda>f. (fd_path f, fd_type f)) (sc_input s)))"

text \<open>The documents of each policy point.\<close>

inductive policy_document :: "string \<Rightarrow> any_map \<Rightarrow> bool" where
  login: "policy_document ''login'' (BuildLoginInput I u c roles perms ip ua)"
| token_issuance: "policy_document ''token_issuance'' (BuildTokenIssuanceInput I cl mu roles perms scopes ip)"
| consent: "policy_document ''consent'' (BuildConsentInput I u cl roles perms requested granted ip ua)"
| refresh: "policy_document ''refresh'' (BuildRefreshInput I mu cl roles perms requested granted sid ip)"
| client_auth: "policy_document ''client_auth'' (BuildClientAuthInput I cl method meth path ip ua)"
| admin_api: "policy_document ''admin_api'' (BuildAdminAPIInput I i perms meth path ip)"
| introspect: "policy_document ''introspect'' (BuildIntrospectInput I ty tc tu scopes aud requester ip)"
| device_approval: "policy_document ''device_approval'' (BuildDeviceApprovalInput I u c roles perms scopes code ip ua)"
| mfa: "policy_document ''mfa'' (BuildMFAInput I u c roles perms scopes has ip ua)"
| account_action: "policy_document ''account_action'' (BuildAccountActionInput I u roles perms action has pk age ip ua)"

lemmas schema_defs = login_schema_def token_issuance_schema_def consent_schema_def refresh_schema_def
  client_auth_schema_def admin_api_schema_def introspect_schema_def device_approval_schema_def mfa_schema_def
  account_action_schema_def timeFieldDefs_def userFieldDefs_def clientFieldDefs_def fld_def about_def

lemmas builder_defs = BuildLoginInput_def BuildTokenIssuanceInput_def BuildConsentInput_def BuildRefreshInput_def
  BuildClientAuthInput_def BuildAdminAPIInput_def BuildIntrospectInput_def BuildDeviceApprovalInput_def
  BuildMFAInput_def BuildAccountActionInput_def userFieldsWithRoles_def userFields_def clientFields_def
  time_entry_def client_entry_def user_entry_def timeFields_def

lemmas compare_defs = document_fields_def entry_fields_def catalogue_def Schemas_def schema_defs builder_defs

lemma documents_in_catalogue: "policy_document ty m \<Longrightarrow> set (document_fields m) \<subseteq> catalogue ty"
proof (induction rule: policy_document.induct)
  case (introspect I ty tc tu scopes aud requester ip)
  then show ?case by (cases aud) (auto simp: compare_defs)
next
  case (login I u c)
  then show ?case by (cases c) (simp_all add: compare_defs)
next
  case (token_issuance I cl mu)
  then show ?case by (cases mu) (simp_all add: compare_defs)
next
  case (refresh I mu)
  then show ?case by (cases mu) (simp_all add: compare_defs)
next
  case (device_approval I u c)
  then show ?case by (cases c) (simp_all add: compare_defs)
next
  case (mfa I u c)
  then show ?case by (cases c) (simp_all add: compare_defs)
qed (simp_all add: compare_defs)

text \<open>The document with every optional part has every field of the catalogue.\<close>

definition occurring :: "string \<Rightarrow> (string \<times> string) set" where
  "occurring ty = (\<Union>m \<in> {m. policy_document ty m}. set (document_fields m))"

lemma occurring_all: "policy_document ty m \<Longrightarrow> catalogue ty \<subseteq> set (document_fields m) \<Longrightarrow> catalogue ty \<subseteq> occurring ty"
  by (auto simp: occurring_def)

lemma full_documents: "list_all (\<lambda>ty. catalogue ty \<subseteq> occurring ty) (map fst Schemas)"
proof -
  fix I :: input_env and u :: user and c :: client
  have custom: "catalogue ''custom'' \<subseteq> occurring ''custom''" by (simp add: catalogue_def Schemas_def)
  have login: "catalogue ''login'' \<subseteq> occurring ''login''"
    by (rule occurring_all [OF policy_document.login [of I u "Some c" "[]" "[]" "[]" "[]"]]) (simp add: compare_defs)
  have token_issuance: "catalogue ''token_issuance'' \<subseteq> occurring ''token_issuance''"
    by (rule occurring_all [OF policy_document.token_issuance [of I c "Some u" "[]" "[]" "[]" "[]"]]) (simp add: compare_defs)
  have consent: "catalogue ''consent'' \<subseteq> occurring ''consent''"
    by (rule occurring_all [OF policy_document.consent [of I u c "[]" "[]" "[]" "[]" "[]" "[]"]]) (simp add: compare_defs)
  have refresh: "catalogue ''refresh'' \<subseteq> occurring ''refresh''"
    by (rule occurring_all [OF policy_document.refresh [of I "Some u" c "[]" "[]" "[]" "[]" "[]" "[]"]]) (simp add: compare_defs)
  have client_auth: "catalogue ''client_auth'' \<subseteq> occurring ''client_auth''"
    by (rule occurring_all [OF policy_document.client_auth [of I c "[]" "[]" "[]" "[]" "[]"]]) (simp add: compare_defs)
  have admin_api: "catalogue ''admin_api'' \<subseteq> occurring ''admin_api''"
    by (rule occurring_all [OF policy_document.admin_api [of I uuid_nil "[]" "[]" "[]" "[]"]]) (simp add: compare_defs)
  have introspect: "catalogue ''introspect'' \<subseteq> occurring ''introspect''"
    by (rule occurring_all [OF policy_document.introspect [of I "[]" "[]" "''u''" "[]" "Some []" "[]" "[]"]]) (simp add: compare_defs)
  have device_approval: "catalogue ''device_approval'' \<subseteq> occurring ''device_approval''"
    by (rule occurring_all [OF policy_document.device_approval [of I u "Some c" "[]" "[]" "[]" "[]" "[]" "[]"]]) (simp add: compare_defs)
  have mfa: "catalogue ''mfa'' \<subseteq> occurring ''mfa''"
    by (rule occurring_all [OF policy_document.mfa [of I u "Some c" "[]" "[]" "[]" True "[]" "[]"]]) (simp add: compare_defs)
  have account_action: "catalogue ''account_action'' \<subseteq> occurring ''account_action''"
    by (rule occurring_all [OF policy_document.account_action [of I u "[]" "[]" "[]" True True 0 "[]" "[]"]]) (simp add: compare_defs)
  show ?thesis
    by (simp add: Schemas_def login token_issuance consent refresh client_auth admin_api introspect device_approval mfa account_action custom)
qed

lemma catalogue_in_documents: "catalogue ty \<subseteq> occurring ty"
proof (cases "ty \<in> set (map fst Schemas)")
  case True
  then show ?thesis using full_documents by (auto simp: list_all_iff)
next
  case False
  then have "map_of Schemas ty = None" by (simp add: map_of_eq_None_iff)
  then show ?thesis by (simp add: catalogue_def)
qed


end
