(* ===== verification/SelfService.thy ===== *)
theory SelfService
  imports Federation Passkeys Reauth
begin

text \<open>
  The endpoints of a person about the own account: registration, login, password and address
  (\<^verbatim>\<open>user/handler.go\<close>), sessions (\<^verbatim>\<open>session/handler.go\<close>), the second factor (\<^verbatim>\<open>mfa/handler.go\<close>), passkeys
  (\<^verbatim>\<open>passkey/handler.go\<close>) and step-up tokens (\<^verbatim>\<open>reauth/handler.go\<close>); then the administration of users
  with the search of \<^verbatim>\<open>user/repository.go\<close>. Audit entries and metrics are left out; a handler whose
  answer is a fixed message answers the unit.
\<close>

section \<open>Sessions\<close>

record session_view =
  sv_id :: uuid
  sv_ip_address :: "string option"
  sv_user_agent :: "string option"
  sv_last_active_at :: time
  sv_authenticated_at :: time
  sv_current :: bool

definition session_view_of :: "uuid option \<Rightarrow> session \<Rightarrow> session_view" where
  "session_view_of current s =
     \<lparr>sv_id = se_id s, sv_ip_address = se_ip_address s, sv_user_agent = se_user_agent s,
      sv_last_active_at = se_last_active_at s, sv_authenticated_at = se_authenticated_at s,
      sv_current = (se_id s = given_else current uuid_nil)\<rparr>"

definition session_List_handler :: "env \<Rightarrow> gin \<Rightarrow> session_view list page action" where
  "session_List_handler E g = signed_in g (\<lambda>u. giving (\<lambda>st.
     (case ListActive E u st of
        Inl e \<Rightarrow> Inl e
      | Inr ss \<Rightarrow> Inr (pkg_List (map (session_view_of (gc_session_id g)) ss) (int (length ss))))))"

definition session_Revoke_handler :: "env \<Rightarrow> gin \<Rightarrow> string \<Rightarrow> unit action" where
  "session_Revoke_handler E g s = signed_in g (\<lambda>u. path_id E ''invalid session ID'' s (\<lambda>i. session_Revoke E i u))"

text \<open>The session of the request itself stays, when it has one.\<close>

definition session_RevokeAll_handler :: "env \<Rightarrow> gin \<Rightarrow> nat action" where
  "session_RevokeAll_handler E g = signed_in g (\<lambda>u.
     session_RevokeAll E u (if given_else (gc_session_id g) uuid_nil \<noteq> uuid_nil then gc_session_id g else None))"

section \<open>Second factor\<close>

definition mfa_Enroll_handler :: "env \<Rightarrow> gin \<Rightarrow> (string \<times> string) action" where
  "mfa_Enroll_handler E g = signed_in g (\<lambda>u.
     and_then (giving (GetByID E u)) (\<lambda>usr.
       yields (mfa_Enroll E u (us_email usr)) (\<lambda>(secret, url, m). (secret, url))))"

definition mfa_Verify_handler :: "env \<Rightarrow> gin \<Rightarrow> string body \<Rightarrow> string list action" where
  "mfa_Verify_handler E g b = signed_in g (\<lambda>u. bound b (mfa_Verify E u))"

definition mfa_Disable_handler :: "env \<Rightarrow> gin \<Rightarrow> string body \<Rightarrow> unit action" where
  "mfa_Disable_handler E g b = signed_in g (\<lambda>u. bound b (mfa_Disable E u))"

definition RegenerateBackupCodes_handler :: "env \<Rightarrow> gin \<Rightarrow> string body \<Rightarrow> string list action" where
  "RegenerateBackupCodes_handler E g b = signed_in g (\<lambda>u. bound b (RegenerateBackupCodes E u))"

section \<open>Step-up tokens\<close>

definition reauth_Issue_handler ::
  "reauth_service \<Rightarrow> env \<Rightarrow> gin \<Rightarrow> issue_request body \<Rightarrow> (string \<times> time \<times> string) action" where
  "reauth_Issue_handler R E g b = signed_in g (\<lambda>u.
     case gc_session_id g of
       None \<Rightarrow> refused (ErrUnauthorized ''reauth requires a session-bound token'')
     | Some s \<Rightarrow> bound b (reauth_Issue R E u s))"

section \<open>Passkeys\<close>

definition RegisterBegin :: "webauthn_lib \<Rightarrow> env \<Rightarrow> gin \<Rightarrow> (uuid \<times> string) action" where
  "RegisterBegin W E g = signed_in g (BeginRegistration W E)"

definition RegisterFinish :: "webauthn_lib \<Rightarrow> env \<Rightarrow> gin \<Rightarrow> (uuid \<times> string \<times> string) body \<Rightarrow> any_map action" where
  "RegisterFinish W E g b = signed_in g (\<lambda>u. bound b (\<lambda>(i, name, response).
     yields (FinishRegistration W E u i name response) (PublicView E)))"

definition passkey_List_handler :: "env \<Rightarrow> gin \<Rightarrow> any_map list action" where
  "passkey_List_handler E g = signed_in g (\<lambda>u. giving (\<lambda>st.
     or_500 ''failed to list passkeys''
       (case passkey_ListByUser E u st of DbErr \<Rightarrow> DbErr | DbOk ps \<Rightarrow> DbOk (map (PublicView E) ps))))"

definition passkey_Rename_handler :: "env \<Rightarrow> gin \<Rightarrow> string \<Rightarrow> string body \<Rightarrow> unit action" where
  "passkey_Rename_handler E g s b = signed_in g (\<lambda>u. path_id E ''invalid passkey id'' s (\<lambda>i.
     bound b (passkey_Rename E i u)))"

definition passkey_Delete_handler :: "env \<Rightarrow> gin \<Rightarrow> string \<Rightarrow> unit action" where
  "passkey_Delete_handler E g s = signed_in g (\<lambda>u. path_id E ''invalid passkey id'' s (\<lambda>i. passkey_Delete E i u))"

definition ReauthBegin :: "webauthn_lib \<Rightarrow> env \<Rightarrow> gin \<Rightarrow> (uuid \<times> string) action" where
  "ReauthBegin W E g = signed_in g (BeginReauth W E)"

definition LoginBegin :: "webauthn_lib \<Rightarrow> env \<Rightarrow> (uuid \<times> string) action" where
  "LoginBegin W E = passkey_BeginLogin W E"

definition LoginFinish :: "webauthn_lib \<Rightarrow> env \<Rightarrow> (uuid \<times> string) body \<Rightarrow> (uuid \<times> string \<times> uuid option) action" where
  "LoginFinish W E b = bound b (\<lambda>(i, response).
     yields (FinishLogin W E i response) (\<lambda>(u, p). (us_id u, us_email u, map_option pk_id p)))"

section \<open>Registration, login and the own profile\<close>

text \<open>The checker is missing when no invitation service was wired.\<close>

definition user_Register_handler :: "env \<Rightarrow> bool \<Rightarrow> register_input body \<Rightarrow> any_map action" where
  "user_Register_handler E checked b st =
     (if checked \<and> \<not> IsRegistrationEnabled E st
      then refused (ErrForbidden ''public registration is disabled'') st
      else bound b (\<lambda>i. yields (Register E (i\<lparr>ri_skip_verification_email := False\<rparr>)) (PublicProfile E)) st)"

definition user_Login_handler :: "env \<Rightarrow> (string \<times> string) body \<Rightarrow> any_map action" where
  "user_Login_handler E b = bound b (\<lambda>(email, pw). yields (Authenticate E email pw) (PublicProfile E))"

definition GetProfile :: "env \<Rightarrow> gin \<Rightarrow> any_map action" where
  "GetProfile E g = signed_in g (\<lambda>u. yields (giving (GetByID E u)) (PublicProfile E))"

definition UpdateProfile_handler :: "env \<Rightarrow> gin \<Rightarrow> profile_input body \<Rightarrow> any_map action" where
  "UpdateProfile_handler E g b = signed_in g (\<lambda>u. bound b (\<lambda>i. yields (UpdateProfile E u i) (PublicProfile E)))"

text \<open>The two answers that must not tell whether an address is known.\<close>

definition quietly :: "'a action \<Rightarrow> unit action" where
  "quietly op st = (Inr (), snd (op st))"

definition ForgotPassword_handler :: "env \<Rightarrow> string body \<Rightarrow> unit action" where
  "ForgotPassword_handler E b = bound b (\<lambda>email. quietly (ForgotPassword E email))"

definition ResendVerification :: "env \<Rightarrow> (string \<times> string option) body \<Rightarrow> unit action" where
  "ResendVerification E b = bound b (\<lambda>(email, rid).
     quietly (ResendVerificationEmail E email (if derefStr rid = [] then None else uuid_parse E (derefStr rid))))"

definition ResetPassword_handler :: "env \<Rightarrow> (string \<times> string) body \<Rightarrow> unit action" where
  "ResetPassword_handler E b = bound b (\<lambda>(token, pw). ResetPassword E token pw)"

definition VerifyEmail_handler :: "env \<Rightarrow> string body \<Rightarrow> unit action" where
  "VerifyEmail_handler E b = bound b (VerifyEmail E)"

definition ResendMyVerification :: "env \<Rightarrow> gin \<Rightarrow> unit action" where
  "ResendMyVerification E g = signed_in g (\<lambda>u. SendVerificationEmail E u None)"

definition ui_base :: "string \<Rightarrow> string" where
  "ui_base base = (if base = [] then ''/ui'' else base)"

definition verifySuccessURL :: "string \<Rightarrow> string" where
  "verifySuccessURL base = ui_base base @ ''/verify-email/success''"

definition redirectVerifyError :: "string \<Rightarrow> string \<Rightarrow> string" where
  "redirectVerifyError base code = ui_base base @ ''/verify-email?error='' @ QueryEscape code"

text \<open>The link of the mail: where the browser is sent. The OAuth service resumes the request that the
  registration was part of.\<close>

definition VerifyEmailLink :: "string \<Rightarrow> env \<Rightarrow> http_request \<Rightarrow> db \<Rightarrow> string \<times> db" where
  "VerifyEmailLink base E q st =
     (if rq_query q ''token'' = [] then (redirectVerifyError base ''missing_token'', st)
      else case ConsumeVerificationToken E (rq_query q ''token'') st of
        (Inl _, st1) \<Rightarrow> (redirectVerifyError base ''invalid_token'', st1)
      | (Inr (u, None), st1) \<Rightarrow> (verifySuccessURL base, st1)
      | (Inr (u, Some i), st1) \<Rightarrow>
          (case CompleteAfterEmailVerification E i (us_id u) (rq_ip q) (rq_header q ''User-Agent'') st1 of
             (Inl _, st2) \<Rightarrow> (verifySuccessURL base, st2)
           | (Inr r, st2) \<Rightarrow>
               (case BuildAuthorizeRedirectURL r of
                  Inl _ \<Rightarrow> (verifySuccessURL base, st2) | Inr url \<Rightarrow> (url, st2))))"

section \<open>Administration of users\<close>

text \<open>SQL's \<^verbatim>\<open>LIKE\<close>: the query is put between two \<^verbatim>\<open>%\<close> as it is, so its own wildcards count.\<close>

fun like_match :: "string \<Rightarrow> string \<Rightarrow> bool" where
  "like_match [] s \<longleftrightarrow> s = []"
| "like_match (p # ps) s \<longleftrightarrow>
     (if p = CHR ''%'' then like_match ps s \<or> (case s of [] \<Rightarrow> False | c # cs \<Rightarrow> like_match (p # ps) cs)
      else if p = CHR ''_'' then (case s of [] \<Rightarrow> False | c # cs \<Rightarrow> like_match ps cs)
      else if p = CHR 0x5C then (case ps of [] \<Rightarrow> False
             | e # es \<Rightarrow> (case s of [] \<Rightarrow> False | c # cs \<Rightarrow> c = e \<and> like_match es cs))
      else (case s of [] \<Rightarrow> False | c # cs \<Rightarrow> c = p \<and> like_match ps cs))"

definition search_matches :: "env \<Rightarrow> string \<Rightarrow> user \<Rightarrow> bool" where
  "search_matches E q u \<longleftrightarrow> q = [] \<or>
     (let like = ''%'' @ to_lower q @ ''%''
      in like_match like (to_lower (us_email u)) \<or> like_match like (to_lower (derefStr (us_display_name u))) \<or>
         like_match like (uuid_string E (us_id u)))"

definition user_Search_row :: "env \<Rightarrow> string \<Rightarrow> int \<Rightarrow> int \<Rightarrow> db \<Rightarrow> (user list \<times> nat) dbres" where
  "user_Search_row E q page perPage st =
     (let found = filter (search_matches E q) (t_users st)
      in stmt E ''user.Search''
           (page_of page perPage (rev (sort_key us_created_at found)),
            if db_err E ''user.Search.count'' then 0 else length found))"

definition AdminView :: "env \<Rightarrow> user \<Rightarrow> any_map" where
  "AdminView E u = PublicProfile E u @
     [(''locked_until'', (case us_locked_until u of None \<Rightarrow> ANil | Some t \<Rightarrow> AInt t)),
      (''failed_login_attempts'', AInt (us_failed_login_attempts u)), (''metadata'', AObj (us_metadata u))]"

definition AdminListUsers :: "env \<Rightarrow> http_request \<Rightarrow> any_map list page action" where
  "AdminListUsers E r = giving (\<lambda>st.
     (case ParsePagination r of
        (page, perPage) \<Rightarrow>
          (case user_Search_row E (rq_query r ''q'') page perPage st of
             DbErr \<Rightarrow> Inl (ErrInternal ''failed to list users'')
           | DbOk (us, n) \<Rightarrow> Inr (Paginated (map (PublicProfile E) us) (int n) page perPage))))"

definition AdminGetUser :: "env \<Rightarrow> string \<Rightarrow> any_map action" where
  "AdminGetUser E s = path_id E ''invalid user ID'' s (\<lambda>i. yields (giving (GetByID E i)) (AdminView E))"

definition AdminUpdateUser :: "env \<Rightarrow> string \<Rightarrow> admin_update_input body \<Rightarrow> any_map action" where
  "AdminUpdateUser E s b = path_id E ''invalid user ID'' s (\<lambda>i. bound b (\<lambda>inp. yields (AdminUpdate E i inp) (AdminView E)))"

definition AdminDeleteUser :: "env \<Rightarrow> string \<Rightarrow> unit action" where
  "AdminDeleteUser E s = path_id E ''invalid user ID'' s (user_Delete E)"

definition AdminResetPassword :: "env \<Rightarrow> string \<Rightarrow> unit action" where
  "AdminResetPassword E s = path_id E ''invalid user ID'' s (AdminTriggerPasswordReset E)"

end
