(* ===== verification/AdminHandlers.thy ===== *)
theory AdminHandlers
  imports SelfService Resources PolicyEngine RegForm Clients Mail
begin

text \<open>
  The administration endpoints: roles (\<^verbatim>\<open>rbac/handler.go\<close>), API resources (\<^verbatim>\<open>resource/handler.go\<close>), the
  registration form (\<^verbatim>\<open>regform/handler.go\<close>), clients (\<^verbatim>\<open>client/handler.go\<close>), the password policy
  (\<^verbatim>\<open>password/handler.go\<close>), mail templates (\<^verbatim>\<open>email/handler.go\<close>) and policies (\<^verbatim>\<open>policy/handler.go\<close>) with
  the audit rows that their replay and statistics read (\<^verbatim>\<open>audit/\<close>), and the listings of the
  repositories that only they use.
\<close>

definition name_order :: "string \<Rightarrow> nat list" where
  "name_order n = map of_char n"

section \<open>Roles\<close>

text \<open>A role with its permissions.\<close>

definition with_permissions :: "db \<Rightarrow> role \<Rightarrow> role \<times> (uuid \<times> string) list" where
  "with_permissions st r =
     (r, filter (\<lambda>(p, n). List.member (t_role_permissions st) (ro_id r, p)) (t_permissions st))"

definition ListRoles_row :: "env \<Rightarrow> db \<Rightarrow> (role \<times> (uuid \<times> string) list) list dbres" where
  "ListRoles_row E st = stmt E ''rbac.ListRoles''
     (map (with_permissions st) (sort_key (\<lambda>r. name_order (ro_name r)) (t_roles st)))"

definition ListPermissions_row :: "env \<Rightarrow> db \<Rightarrow> (uuid \<times> string) list dbres" where
  "ListPermissions_row E st = stmt E ''rbac.ListPermissions'' (sort_key (\<lambda>p. name_order (snd p)) (t_permissions st))"

definition listed :: "string \<Rightarrow> (db \<Rightarrow> 'r list dbres) \<Rightarrow> 'r list page action" where
  "listed msg rows = giving (\<lambda>st.
     (case rows st of DbErr \<Rightarrow> Inl (ErrInternal msg) | DbOk rs \<Rightarrow> Inr (pkg_List rs (int (length rs)))))"

definition CreateRole_handler :: "env \<Rightarrow> (string \<times> string option) body \<Rightarrow> role action" where
  "CreateRole_handler E b = bound b (\<lambda>(name, description). CreateRole E name description)"

definition GetRole_handler :: "env \<Rightarrow> string \<Rightarrow> role action" where
  "GetRole_handler E s = path_id E ''invalid role ID'' s (\<lambda>i. giving (GetRole E i))"

definition ListRoles_handler :: "env \<Rightarrow> (role \<times> (uuid \<times> string) list) list page action" where
  "ListRoles_handler E = listed ''failed to list roles'' (ListRoles_row E)"

definition UpdateRole_handler :: "env \<Rightarrow> string \<Rightarrow> (string option \<times> string option) body \<Rightarrow> role action" where
  "UpdateRole_handler E s b = path_id E ''invalid role ID'' s (\<lambda>i. bound b (\<lambda>(name, description). UpdateRole E i name description))"

definition DeleteRole_handler :: "env \<Rightarrow> string \<Rightarrow> unit action" where
  "DeleteRole_handler E s = path_id E ''invalid role ID'' s (DeleteRole E)"

definition SetPermissions_handler :: "env \<Rightarrow> string \<Rightarrow> uuid list body \<Rightarrow> unit action" where
  "SetPermissions_handler E s b = path_id E ''invalid role ID'' s (\<lambda>i. bound b (SetRolePermissions E i))"

definition ListPermissions_handler :: "env \<Rightarrow> (uuid \<times> string) list page action" where
  "ListPermissions_handler E = listed ''failed to list permissions'' (ListPermissions_row E)"

definition AssignRole_handler :: "env \<Rightarrow> string \<Rightarrow> uuid body \<Rightarrow> unit action" where
  "AssignRole_handler E s b = path_id E ''invalid user ID'' s (\<lambda>u. bound b (AssignRole E u))"

definition RemoveRole_handler :: "env \<Rightarrow> string \<Rightarrow> string \<Rightarrow> unit action" where
  "RemoveRole_handler E s t = path_id E ''invalid user ID'' s (\<lambda>u. path_id E ''invalid role ID'' t (RemoveRole E u))"

definition GetUserRoles_handler :: "env \<Rightarrow> string \<Rightarrow> role list page action" where
  "GetUserRoles_handler E s = path_id E ''invalid user ID'' s (\<lambda>u. listed ''failed to get user roles'' (GetUserRoles_row E u))"

section \<open>API resources\<close>

text \<open>Rows are kept in the order of their creation.\<close>

definition res_List_row :: "env \<Rightarrow> int \<Rightarrow> int \<Rightarrow> db \<Rightarrow> (api_resource list \<times> nat) dbres" where
  "res_List_row E page perPage st = stmt E ''resource.List''
     (map (preload st) (page_of page perPage (rev (t_resources st))),
      if db_err E ''resource.List.count'' then 0 else length (t_resources st))"

definition GetClientPermissions_row :: "env \<Rightarrow> uuid \<Rightarrow> db \<Rightarrow> permission list dbres" where
  "GetClientPermissions_row E c st = stmt E ''resource.GetClientPermissions''
     (filter (client_holds st c) (t_resource_permissions st))"

definition GetRolePermissions_row :: "env \<Rightarrow> uuid \<Rightarrow> db \<Rightarrow> permission list dbres" where
  "GetRolePermissions_row E r st = stmt E ''resource.GetRolePermissions''
     (filter (\<lambda>p. List.member (t_role_resource_permissions st) (r, pm_id p)) (t_resource_permissions st))"

definition res_Create_handler :: "env \<Rightarrow> resource_create_input body \<Rightarrow> api_resource action" where
  "res_Create_handler E b = bound b (res_Create E)"

definition res_Get_handler :: "env \<Rightarrow> string \<Rightarrow> api_resource action" where
  "res_Get_handler E s = path_id E ''invalid resource ID'' s (\<lambda>i. giving (res_GetByID E i))"

definition paged :: "string \<Rightarrow> http_request \<Rightarrow> (int \<Rightarrow> int \<Rightarrow> db \<Rightarrow> ('r list \<times> nat) dbres) \<Rightarrow> 'r list page action" where
  "paged msg r rows = giving (\<lambda>st.
     (case ParsePagination r of
        (page, perPage) \<Rightarrow>
          (case rows page perPage st of
             DbErr \<Rightarrow> Inl (ErrInternal msg) | DbOk (rs, n) \<Rightarrow> Inr (Paginated rs (int n) page perPage))))"

definition res_List_handler :: "env \<Rightarrow> http_request \<Rightarrow> api_resource list page action" where
  "res_List_handler E r = paged ''failed to list resources'' r (res_List_row E)"

definition res_Update_handler :: "env \<Rightarrow> string \<Rightarrow> resource_update_input body \<Rightarrow> api_resource action" where
  "res_Update_handler E s b = path_id E ''invalid resource ID'' s (\<lambda>i. bound b (res_Update E i))"

definition res_Delete_handler :: "env \<Rightarrow> string \<Rightarrow> unit action" where
  "res_Delete_handler E s = path_id E ''invalid resource ID'' s (res_Delete E)"

definition AddPermission_handler :: "env \<Rightarrow> string \<Rightarrow> (string \<times> string option) body \<Rightarrow> permission action" where
  "AddPermission_handler E s b = path_id E ''invalid resource ID'' s (\<lambda>i.
     bound b (\<lambda>(name, description). AddPermission E i name description))"

definition RemovePermission_handler :: "env \<Rightarrow> string \<Rightarrow> string \<Rightarrow> unit action" where
  "RemovePermission_handler E s t = path_id E ''invalid resource ID'' s (\<lambda>i.
     path_id E ''invalid permission ID'' t (RemovePermission E i))"

definition SetClientPermissions_handler :: "env \<Rightarrow> string \<Rightarrow> uuid list body \<Rightarrow> unit action" where
  "SetClientPermissions_handler E s b = path_id E ''invalid client ID'' s (\<lambda>c. bound b (SetClientPermissions E c))"

definition GetClientPermissions_handler :: "env \<Rightarrow> string \<Rightarrow> permission list page action" where
  "GetClientPermissions_handler E s = path_id E ''invalid client ID'' s (\<lambda>c.
     listed ''failed to get client permissions'' (GetClientPermissions_row E c))"

definition res_SetRolePermissions_handler :: "env \<Rightarrow> string \<Rightarrow> uuid list body \<Rightarrow> unit action" where
  "res_SetRolePermissions_handler E s b = path_id E ''invalid role ID'' s (\<lambda>r. bound b (SetRoleResourcePermissions E r))"

definition GetRolePermissions_handler :: "env \<Rightarrow> string \<Rightarrow> permission list page action" where
  "GetRolePermissions_handler E s = path_id E ''invalid role ID'' s (\<lambda>r.
     listed ''failed to get role resource permissions'' (GetRolePermissions_row E r))"

section \<open>Registration form\<close>

definition short_body :: "'a body \<Rightarrow> ('a \<Rightarrow> 'b action) \<Rightarrow> 'b action" where
  "short_body b k = (case b of Inl m \<Rightarrow> refused (ErrBadRequest (''invalid body: '' @ m)) | Inr v \<Rightarrow> k v)"

definition reg_List_handler :: "env \<Rightarrow> reg_field list page action" where
  "reg_List_handler E = listed ''failed to list registration fields'' (reg_List_row E)"

definition reg_Get_handler :: "env \<Rightarrow> string \<Rightarrow> reg_field action" where
  "reg_Get_handler E s = path_id E ''invalid id'' s (\<lambda>i. giving (reg_Get E i))"

definition reg_Create_handler :: "rf_lib \<Rightarrow> env \<Rightarrow> reg_create_input body \<Rightarrow> reg_field action" where
  "reg_Create_handler L E b = short_body b (reg_Create L E)"

definition reg_Update_handler :: "rf_lib \<Rightarrow> env \<Rightarrow> string \<Rightarrow> reg_update_input body \<Rightarrow> reg_field action" where
  "reg_Update_handler L E s b = path_id E ''invalid id'' s (\<lambda>i. short_body b (reg_Update L E i))"

definition reg_Delete_handler :: "env \<Rightarrow> string \<Rightarrow> unit action" where
  "reg_Delete_handler E s = path_id E ''invalid id'' s (reg_Delete E)"

definition reg_Reorder_handler :: "env \<Rightarrow> uuid list body \<Rightarrow> unit action" where
  "reg_Reorder_handler E b = short_body b (reg_Reorder E)"

definition PublicList :: "env \<Rightarrow> http_request \<Rightarrow> reg_field list action" where
  "PublicList E q = giving (reg_ListForContext E (if rq_query q ''context'' = [] then ''register'' else rq_query q ''context''))"

section \<open>Clients\<close>

definition client_Create_handler :: "client_service \<Rightarrow> env \<Rightarrow> client_input body \<Rightarrow> client_created action" where
  "client_Create_handler C E b = bound b (client_Create C E)"

definition client_Get_handler :: "env \<Rightarrow> string \<Rightarrow> client action" where
  "client_Get_handler E s = path_id E ''invalid client ID'' s (\<lambda>i. giving (client_GetByID E i))"

definition client_List_handler :: "env \<Rightarrow> http_request \<Rightarrow> client list page action" where
  "client_List_handler E r = paged ''failed to list clients'' r (client_List_row E)"

definition client_Update_handler :: "client_service \<Rightarrow> env \<Rightarrow> string \<Rightarrow> client_update body \<Rightarrow> client action" where
  "client_Update_handler C E s b = path_id E ''invalid client ID'' s (\<lambda>i. bound b (client_Update C E i))"

definition client_Delete_handler :: "env \<Rightarrow> string \<Rightarrow> unit action" where
  "client_Delete_handler E s = path_id E ''invalid client ID'' s (client_Delete E)"

definition RotateSecret_handler :: "env \<Rightarrow> string \<Rightarrow> (uuid \<times> string) action" where
  "RotateSecret_handler E s = path_id E ''invalid client ID'' s (\<lambda>i. yields (RotateSecret E i) (Pair i))"

definition RotateHMACSecret_handler :: "client_service \<Rightarrow> env \<Rightarrow> string \<Rightarrow> (uuid \<times> string) action" where
  "RotateHMACSecret_handler C E s = path_id E ''invalid client ID'' s (\<lambda>i. yields (RotateHMACSecret C E i) (Pair i))"

section \<open>Password policy\<close>

definition GetPublic :: "pw_lib \<Rightarrow> env \<Rightarrow> pw_policy action" where
  "GetPublic L E = giving (\<lambda>st. Inr (pw_Get L E st))"

definition GetAdmin :: "pw_lib \<Rightarrow> env \<Rightarrow> pw_policy action" where
  "GetAdmin L E = giving (\<lambda>st. Inr (pw_Get L E st))"

text \<open>The answer is what is stored then, not what was sent.\<close>

definition pw_Update_handler :: "pw_lib \<Rightarrow> env \<Rightarrow> pw_policy body \<Rightarrow> pw_policy action" where
  "pw_Update_handler L E b = bound b (\<lambda>p st.
     (case pw_Update L E p st of
        DbErr \<Rightarrow> (Inl (ErrInternal ''failed to persist password policy''), st)
      | DbOk st1 \<Rightarrow> (Inr (pw_Get L E st1), st1)))"

end
