(* ===== verification/PolicyAdmin.thy ===== *)
theory PolicyAdmin
  imports AdminHandlers
begin

text \<open>
  The audit log (\<^verbatim>\<open>audit/\<close>), what the policy service does with it (\<^verbatim>\<open>policy/service.go\<close>,
  \<^verbatim>\<open>policy/repository.go\<close>: denials are logged, replayed and counted), the policy endpoints
  (\<^verbatim>\<open>policy/handler.go\<close>), the published catalogue of policy fields (\<^verbatim>\<open>policy/inputs/schemas.go\<close>) and the
  endpoints of the mail templates (\<^verbatim>\<open>email/handler.go\<close>).
\<close>

section \<open>The audit log\<close>

text \<open>The table is a list in the order of insertion. A row's metadata is what was marshalled; reading it
  back is the function \<open>reload\<close>, which fails on text that is not an object.\<close>

record audit_row =
  au_id :: uuid
  au_user_id :: "uuid option"
  au_client_id :: "uuid option"
  au_action :: string
  au_ip_address :: "string option"
  au_user_agent :: "string option"
  au_metadata :: any_map
  au_created_at :: time

record log_entry =
  le_user_id :: "uuid option"
  le_client_id :: "uuid option"
  le_action :: string
  le_ip_address :: string
  le_user_agent :: string
  le_metadata :: any_map

text \<open>A failing draw leaves the nil identifier and a failing insertion only a line in the server's log.\<close>

definition audit_Log :: "env \<Rightarrow> log_entry \<Rightarrow> audit_row list \<times> db \<Rightarrow> audit_row list \<times> db" where
  "audit_Log E e s =
     (case s of (rows, st) \<Rightarrow>
       (case new_uuid E st of
          (i, st1) \<Rightarrow>
            (let row = \<lparr>au_id = given_else i uuid_nil, au_user_id = le_user_id e, au_client_id = le_client_id e,
                        au_action = le_action e, au_ip_address = non_empty (le_ip_address e),
                        au_user_agent = non_empty (le_user_agent e), au_metadata = le_metadata e,
                        au_created_at = wall E\<rparr>
             in (if db_err E ''audit.Create'' then rows else rows @ [row], st1))))"

definition LogFromContext :: "env \<Rightarrow> http_request \<Rightarrow> gin \<Rightarrow> string \<Rightarrow> any_map \<Rightarrow> audit_row list \<times> db \<Rightarrow> audit_row list \<times> db" where
  "LogFromContext E q g action meta =
     audit_Log E \<lparr>le_user_id = gc_user_id g, le_client_id = None, le_action = action, le_ip_address = rq_ip q,
       le_user_agent = rq_header q ''User-Agent'', le_metadata = meta\<rparr>"

record query_input =
  qi_id :: "uuid option"
  qi_user_id :: "uuid option"
  qi_action :: string
  qi_action_prefix :: string
  qi_from :: "time option"
  qi_to :: "time option"
  qi_page :: int
  qi_per_page :: int

definition asks :: "'a option \<Rightarrow> ('a \<Rightarrow> bool) \<Rightarrow> bool" where
  "asks v P \<longleftrightarrow> (case v of None \<Rightarrow> True | Some x \<Rightarrow> P x)"

text \<open>The prefix becomes a \<^verbatim>\<open>LIKE\<close> pattern as it is.\<close>

definition audit_matches :: "query_input \<Rightarrow> audit_row \<Rightarrow> bool" where
  "audit_matches q r \<longleftrightarrow>
     asks (qi_id q) (\<lambda>i. au_id r = i) \<and> asks (qi_user_id q) (\<lambda>u. au_user_id r = Some u) \<and>
     (qi_action q = [] \<or> au_action r = qi_action q) \<and>
     (qi_action_prefix q = [] \<or> like_match (qi_action_prefix q @ ''%'') (au_action r)) \<and>
     asks (qi_from q) (\<lambda>t. au_created_at r \<ge> t) \<and> asks (qi_to q) (\<lambda>t. au_created_at r \<le> t)"

definition newest_first :: "audit_row list \<Rightarrow> audit_row list" where
  "newest_first rows = rev (sort_key au_created_at rows)"

definition audit_Query :: "env \<Rightarrow> query_input \<Rightarrow> audit_row list \<Rightarrow> (audit_row list \<times> nat) dbres" where
  "audit_Query E q rows =
     (let found = filter (audit_matches q) rows
      in stmt E ''audit.Query''
           (page_of (qi_page q) (qi_per_page q) (newest_first found),
            if db_err E ''audit.Query.count'' then 0 else length found))"

definition audit_Query_handler ::
  "env \<Rightarrow> (string \<Rightarrow> time option) \<Rightarrow> http_request \<Rightarrow> audit_row list \<Rightarrow> audit_row list page res" where
  "audit_Query_handler E parse_time r rows =
     (case ParsePagination r of
        (page, perPage) \<Rightarrow>
          (case audit_Query E
                  \<lparr>qi_id = None,
                   qi_user_id = (if rq_query r ''user_id'' = [] then None else uuid_parse E (rq_query r ''user_id'')),
                   qi_action = rq_query r ''action'', qi_action_prefix = rq_query r ''action_prefix'',
                   qi_from = (if rq_query r ''from'' = [] then None else parse_time (rq_query r ''from'')),
                   qi_to = (if rq_query r ''to'' = [] then None else parse_time (rq_query r ''to'')),
                   qi_page = page, qi_per_page = perPage\<rparr> rows of
             DbErr \<Rightarrow> Inl (ErrInternal ''failed to query audit logs'')
           | DbOk (rs, n) \<Rightarrow> Inr (Paginated rs (int n) page perPage)))"

section \<open>Denials\<close>

definition ActionPolicyDenied :: string where
  "ActionPolicyDenied = ''policy.denied''"

definition extractUUID :: "env \<Rightarrow> any_map \<Rightarrow> string \<Rightarrow> string \<Rightarrow> uuid option" where
  "extractUUID E input section field =
     (case map_of input section of
        Some (AObj sub) \<Rightarrow> (case map_of sub field of Some (AStr s) \<Rightarrow> uuid_parse E s | _ \<Rightarrow> None)
      | _ \<Rightarrow> None)"

definition extractString :: "any_map \<Rightarrow> string \<Rightarrow> string" where
  "extractString m k = (case map_of m k of Some (AStr s) \<Rightarrow> s | _ \<Rightarrow> [])"

definition denial_entry :: "env \<Rightarrow> string \<Rightarrow> any_map \<Rightarrow> eval_result \<Rightarrow> log_entry" where
  "denial_entry E ty input r =
     \<lparr>le_user_id = extractUUID E input ''user'' ''id'', le_client_id = extractUUID E input ''client'' ''id'',
      le_action = ActionPolicyDenied, le_ip_address = extractString input ''ip_address'',
      le_user_agent = extractString input ''user_agent'',
      le_metadata = [(''policy_type'', AStr ty), (''policy_name'', AStr (ev_policy_name r)),
                     (''reason'', AStr (ev_deny_reason r)), (''input'', AObj input)]\<rparr>"

definition policy_Evaluate ::
  "rego_lib \<Rightarrow> env \<Rightarrow> policy_engine \<Rightarrow> string \<Rightarrow> any_map \<Rightarrow> audit_row list \<times> db \<Rightarrow> eval_result res \<times> (audit_row list \<times> db)" where
  "policy_Evaluate L E e ty input s =
     (case engine_Evaluate L e ty input of
        Inl err \<Rightarrow> (Inl err, s)
      | Inr r \<Rightarrow> (Inr r, if ev_deny r then audit_Log E (denial_entry E ty input r) s else s))"

record replay_result =
  rr_original_deny :: bool
  rr_original_reason :: string
  rr_type :: string
  rr_input :: any_map
  rr_now :: eval_result

definition Replay ::
  "rego_lib \<Rightarrow> (any_map \<Rightarrow> any_map option) \<Rightarrow> env \<Rightarrow> policy_engine \<Rightarrow> uuid \<Rightarrow> audit_row list \<Rightarrow> replay_result res" where
  "Replay L reload E e i rows =
     (case audit_Query E \<lparr>qi_id = Some i, qi_user_id = None, qi_action = ActionPolicyDenied, qi_action_prefix = [],
             qi_from = None, qi_to = None, qi_page = 1, qi_per_page = 1\<rparr> rows of
        DbOk (r # _, _) \<Rightarrow>
          (case reload (au_metadata r) of
             None \<Rightarrow> Inl (ErrInternal ''invalid audit metadata'')
           | Some meta \<Rightarrow>
               (case map_of meta ''input'' of
                  Some (AObj input) \<Rightarrow>
                    (if extractString meta ''policy_type'' = []
                     then Inl (ErrBadRequest ''audit log has no policy_type'')
                     else (case engine_Evaluate L e (extractString meta ''policy_type'') input of
                             Inl err \<Rightarrow> Inl err
                           | Inr now \<Rightarrow>
                               Inr \<lparr>rr_original_deny = True, rr_original_reason = extractString meta ''reason'',
                                    rr_type = extractString meta ''policy_type'', rr_input = input, rr_now = now\<rparr>))
                | _ \<Rightarrow> Inl (ErrBadRequest ''audit log has no captured input'')))
      | _ \<Rightarrow> Inl (ErrNotFound ''audit log not found''))"

subsection \<open>Statistics\<close>

text \<open>\<^verbatim>\<open>metadata->>'key'\<close>: the denials only store strings under the keys asked for. Buckets of the same
  size come in the order of their first row, which the query leaves open.\<close>

definition meta_text :: "string \<Rightarrow> audit_row \<Rightarrow> string option" where
  "meta_text k r = (case map_of (au_metadata r) k of Some (AStr s) \<Rightarrow> Some s | _ \<Rightarrow> None)"

definition denials_between :: "time \<Rightarrow> time \<Rightarrow> audit_row list \<Rightarrow> audit_row list" where
  "denials_between from to rows =
     filter (\<lambda>r. au_action r = ActionPolicyDenied \<and> from \<le> au_created_at r \<and> au_created_at r < to) rows"

definition policy_aggregate :: "time \<Rightarrow> time \<Rightarrow> string \<Rightarrow> nat \<Rightarrow> audit_row list \<Rightarrow> (string \<times> nat) list" where
  "policy_aggregate from to k limit rows =
     (let ks = List.map_filter (meta_text k) (denials_between from to rows)
      in take limit (sort_key (\<lambda>(x, n). - int n) (map (\<lambda>x. (x, count_list ks x)) (remdups ks))))"

record policy_stats =
  ps_from :: time
  ps_to :: time
  ps_total_denies :: nat
  ps_by_name :: "(string \<times> nat) list"
  ps_by_type :: "(string \<times> nat) list"
  ps_recent :: "audit_row list"

definition policy_Stats :: "env \<Rightarrow> time \<Rightarrow> time \<Rightarrow> int \<Rightarrow> audit_row list \<Rightarrow> policy_stats dbres" where
  "policy_Stats E from to limit rows =
     (let n = nat (if limit \<le> 0 then 10 else limit)
      in stmt E ''policy.Stats''
           \<lparr>ps_from = from, ps_to = to, ps_total_denies = length (denials_between from to rows),
            ps_by_name = policy_aggregate from to ''policy_name'' n rows,
            ps_by_type = policy_aggregate from to ''policy_type'' n rows,
            ps_recent = take n (newest_first (denials_between from to rows))\<rparr>)"

text \<open>The window in nanoseconds wraps around for very long ones.\<close>

definition policy_GetStats :: "env \<Rightarrow> int \<Rightarrow> int \<Rightarrow> audit_row list \<Rightarrow> policy_stats dbres" where
  "policy_GetStats E fromDays limit rows =
     (let days = (if fromDays \<le> 0 then 7 else fromDays)
      in policy_Stats E (clk E + int64 (int64 (- days * 24) * hours 1)) (clk E) limit rows)"

fun query_digits :: "int \<Rightarrow> string \<Rightarrow> int option" where
  "query_digits n [] = Some n"
| "query_digits n (c # cs) =
     (if (of_char c :: nat) < 48 \<or> (of_char c :: nat) > 57 then None
      else query_digits (int64 (n * 10 + (of_char c - 48))) cs)"

definition parseIntQuery :: "http_request \<Rightarrow> string \<Rightarrow> int \<Rightarrow> int" where
  "parseIntQuery q k d =
     (if rq_query q k = [] then d
      else case query_digits 0 (rq_query q k) of None \<Rightarrow> d | Some n \<Rightarrow> if n = 0 then d else n)"

section \<open>The policy endpoints\<close>

type_synonym 'a policy_action = "db \<times> policy_engine \<Rightarrow> 'a res \<times> db \<times> policy_engine"

definition CreatePolicy_handler :: "rego_lib \<Rightarrow> env \<Rightarrow> policy_create_input body \<Rightarrow> policy policy_action" where
  "CreatePolicy_handler L E b s = (case b of Inl m \<Rightarrow> (Inl (bad_body m), s) | Inr i \<Rightarrow> CreatePolicy L E i s)"

definition GetPolicy_handler :: "env \<Rightarrow> string \<Rightarrow> policy action" where
  "GetPolicy_handler E t = path_id E ''invalid policy ID'' t (\<lambda>i. giving (GetPolicy E i))"

text \<open>\<^verbatim>\<open>ORDER BY type, priority DESC, name\<close>; within one type the last two.\<close>

definition policy_List_row :: "env \<Rightarrow> db \<Rightarrow> policy list dbres" where
  "policy_List_row E st = stmt E ''policy.List''
     (sort_key (\<lambda>p. name_order (po_type p)) (sort_key (\<lambda>p. - po_priority p)
        (sort_key (\<lambda>p. name_order (po_name p)) (t_policies st))))"

definition policy_ListByType_row :: "env \<Rightarrow> string \<Rightarrow> db \<Rightarrow> policy list dbres" where
  "policy_ListByType_row E ty st = stmt E ''policy.ListByType''
     (sort_key (\<lambda>p. - po_priority p) (sort_key (\<lambda>p. name_order (po_name p)) (filter (\<lambda>p. po_type p = ty) (t_policies st))))"

definition policy_ListPolicies :: "env \<Rightarrow> string \<Rightarrow> db \<Rightarrow> policy list dbres" where
  "policy_ListPolicies E ty st = (if ty \<noteq> [] then policy_ListByType_row E ty st else policy_List_row E st)"

definition ListPolicies_handler :: "env \<Rightarrow> http_request \<Rightarrow> policy list page action" where
  "ListPolicies_handler E q = listed ''failed to list policies'' (policy_ListPolicies E (rq_query q ''type''))"

definition UpdatePolicy_handler :: "rego_lib \<Rightarrow> env \<Rightarrow> string \<Rightarrow> policy_update_input body \<Rightarrow> policy policy_action" where
  "UpdatePolicy_handler L E t b s =
     (case uuid_parse E t of
        None \<Rightarrow> (Inl (ErrBadRequest ''invalid policy ID''), s)
      | Some i \<Rightarrow> (case b of Inl m \<Rightarrow> (Inl (bad_body m), s) | Inr inp \<Rightarrow> UpdatePolicy L E i inp s))"

definition DeletePolicy_handler :: "env \<Rightarrow> string \<Rightarrow> unit policy_action" where
  "DeletePolicy_handler E t s =
     (case uuid_parse E t of None \<Rightarrow> (Inl (ErrBadRequest ''invalid policy ID''), s) | Some i \<Rightarrow> DeletePolicy E i s)"

record policy_test_result =
  tr_allow :: bool
  tr_deny :: bool
  tr_deny_reason :: string
  tr_modify :: "any_map option"
  tr_error :: string

text \<open>A policy that does not compile is an answer too.\<close>

definition policy_TestPolicy :: "rego_lib \<Rightarrow> string \<Rightarrow> any_map \<Rightarrow> policy_test_result" where
  "policy_TestPolicy L rego input =
     (case EvaluateRaw L rego input of
        Inl e \<Rightarrow> \<lparr>tr_allow = False, tr_deny = False, tr_deny_reason = [], tr_modify = None, tr_error = err_text e\<rparr>
      | Inr r \<Rightarrow> \<lparr>tr_allow = ev_allow r, tr_deny = ev_deny r, tr_deny_reason = ev_deny_reason r,
                  tr_modify = ev_modify r, tr_error = []\<rparr>)"

definition TestPolicy_handler :: "rego_lib \<Rightarrow> (string \<times> any_map) body \<Rightarrow> policy_test_result res" where
  "TestPolicy_handler L b = (case b of Inl m \<Rightarrow> Inl (bad_body m) | Inr (rego, input) \<Rightarrow> Inr (policy_TestPolicy L rego input))"

definition ValidatePolicy :: "rego_lib \<Rightarrow> string body \<Rightarrow> bool res" where
  "ValidatePolicy L b = (case b of Inl m \<Rightarrow> Inl (bad_body m) | Inr rego \<Rightarrow> Inr (ValidateRego L rego))"

definition Replay_handler ::
  "rego_lib \<Rightarrow> (any_map \<Rightarrow> any_map option) \<Rightarrow> env \<Rightarrow> policy_engine \<Rightarrow> string body \<Rightarrow> audit_row list \<Rightarrow> replay_result res" where
  "Replay_handler L reload E e b rows =
     (case b of
        Inl m \<Rightarrow> Inl (bad_body m)
      | Inr s \<Rightarrow> (case uuid_parse E s of
            None \<Rightarrow> Inl (ErrBadRequest ''invalid audit_log_id'') | Some i \<Rightarrow> Replay L reload E e i rows))"

definition GetStats_handler :: "env \<Rightarrow> http_request \<Rightarrow> audit_row list \<Rightarrow> policy_stats res" where
  "GetStats_handler E q rows =
     or_500 ''failed to compute stats'' (policy_GetStats E (parseIntQuery q ''days'' 7) (parseIntQuery q ''limit'' 10) rows)"

section \<open>The mail template endpoints\<close>

text \<open>The HTML template engine: the error of parsing a body, and the execution of a parsed one.\<close>

record email_data =
  ed_issuer :: string
  ed_token :: string
  ed_new_email :: string

record html_engine =
  he_parse :: "string \<Rightarrow> string \<Rightarrow> string option"
  he_exec :: "string \<Rightarrow> string \<Rightarrow> email_data \<Rightarrow> string + string"

definition knownTemplate :: "string \<Rightarrow> bool" where
  "knownTemplate n \<longleftrightarrow> List.member TemplateNames n"

definition unknown_template :: "string \<Rightarrow> err" where
  "unknown_template n = ErrNotFound (''unknown template: '' @ n)"

definition ParseCheck :: "html_engine \<Rightarrow> string \<Rightarrow> string \<Rightarrow> string option" where
  "ParseCheck H n body = he_parse H n body"

record template_item =
  ti_name :: string
  ti_subject :: string
  ti_variables :: "string list"
  ti_customized :: bool

fun template_items :: "template_engine \<Rightarrow> env \<Rightarrow> string list \<Rightarrow> template_state \<Rightarrow> template_item list res \<times> template_state" where
  "template_items T E [] ts = (Inr [], ts)"
| "template_items T E (n # ns) ts =
     (case Resolve T E True n ts of
        (None, ts1) \<Rightarrow> (Inl (ErrInternal (''resolve template '' @ n)), ts1)
      | (Some (subject, _, customized), ts1) \<Rightarrow>
          (case template_items T E ns ts1 of
             (Inl e, ts2) \<Rightarrow> (Inl e, ts2)
           | (Inr rest, ts2) \<Rightarrow>
               (Inr (\<lparr>ti_name = n, ti_subject = subject, ti_variables = VariablesFor n, ti_customized = customized\<rparr> # rest), ts2)))"

definition template_List_handler :: "template_engine \<Rightarrow> env \<Rightarrow> template_state \<Rightarrow> template_item list res \<times> template_state" where
  "template_List_handler T E = template_items T E TemplateNames"

record template_detail =
  td_item :: template_item
  td_body :: string
  td_default_subject :: string
  td_default_body :: string

definition template_Get_handler ::
  "template_engine \<Rightarrow> env \<Rightarrow> string \<Rightarrow> template_state \<Rightarrow> template_detail res \<times> template_state" where
  "template_Get_handler T E n ts =
     (if \<not> knownTemplate n then (Inl (unknown_template n), ts)
      else case Resolve T E True n ts of
        (None, ts1) \<Rightarrow> (Inl (ErrInternal ''resolve''), ts1)
      | (Some (subject, body, customized), ts1) \<Rightarrow>
          (case eng_default T n of
             None \<Rightarrow> (Inl (ErrInternal (''read embedded template '' @ quoted n)), ts1)
           | Some d \<Rightarrow>
               (Inr \<lparr>td_item = \<lparr>ti_name = n, ti_subject = subject, ti_variables = VariablesFor n, ti_customized = customized\<rparr>,
                     td_body = body, td_default_subject = DefaultSubject n, td_default_body = d\<rparr>, ts1)))"

definition template_Upsert_handler ::
  "html_engine \<Rightarrow> env \<Rightarrow> gin \<Rightarrow> string \<Rightarrow> override body \<Rightarrow> template_state \<Rightarrow> string res \<times> template_state" where
  "template_Upsert_handler H E g n b ts =
     (if \<not> knownTemplate n then (Inl (unknown_template n), ts)
      else case b of
        Inl m \<Rightarrow> (Inl (bad_body m), ts)
      | Inr ov \<Rightarrow>
          (case ParseCheck H n (ov_body ov) of
             Some msg \<Rightarrow> (Inl (ErrBadRequest (''template syntax error: '' @ msg)), ts)
           | None \<Rightarrow>
               (case template_Upsert E n ov (given_else (gc_user_id g) uuid_nil) ts of
                  DbErr \<Rightarrow> (Inl (ErrInternal ''template.Upsert''), ts) | DbOk ts1 \<Rightarrow> (Inr n, ts1))))"

definition template_Preview :: "html_engine \<Rightarrow> string \<Rightarrow> override body \<Rightarrow> (string \<times> string) res" where
  "template_Preview H n b =
     (if \<not> knownTemplate n then Inl (unknown_template n)
      else case b of
        Inl m \<Rightarrow> Inl (bad_body m)
      | Inr ov \<Rightarrow>
          (case he_parse H n (ov_body ov) of
             Some msg \<Rightarrow> Inl (ErrBadRequest (''template syntax error: '' @ msg))
           | None \<Rightarrow>
               (case he_exec H n (ov_body ov) \<lparr>ed_issuer = ''https://auth.example.test'', ed_token = ''preview-token-12345'',
                       ed_new_email = ''preview@example.test''\<rparr> of
                  Inl msg \<Rightarrow> Inl (ErrBadRequest (''template runtime error: '' @ msg))
                | Inr body \<Rightarrow> Inr (ov_subject ov, body))))"

definition template_Delete_handler :: "env \<Rightarrow> string \<Rightarrow> template_state \<Rightarrow> unit res \<times> template_state" where
  "template_Delete_handler E n ts =
     (if \<not> knownTemplate n then (Inl (unknown_template n), ts)
      else case template_Delete E n ts of
        DbErr \<Rightarrow> (Inl (ErrInternal ''template.Delete''), ts) | DbOk ts1 \<Rightarrow> (Inr (), ts1))"

text \<open>The cache of parsed templates is keyed by name and body and keeps one body of a name; a template
  that does not parse is not kept.\<close>

definition parsed_key :: "string \<Rightarrow> string \<Rightarrow> string" where
  "parsed_key n body = n @ [CHR 0x00] @ body"

definition parsedFor :: "html_engine \<Rightarrow> string \<Rightarrow> string \<Rightarrow> (string \<times> string) list \<Rightarrow> string res \<times> (string \<times> string) list" where
  "parsedFor H n body cache =
     (case map_of cache (parsed_key n body) of
        Some tpl \<Rightarrow> (Inr tpl, cache)
      | None \<Rightarrow>
          (case he_parse H n body of
             Some msg \<Rightarrow> (Inl (DriverError msg), cache)
           | None \<Rightarrow>
               (Inr body, (parsed_key n body, body) #
                  filter (\<lambda>(k, t). \<not> (length k > length n \<and> take (length n) k = n \<and> k ! length n = CHR 0x00)) cache)))"

end
