(* ===== verification/TemplateProperties.thy ===== *)
theory TemplateProperties
  imports PolicyAdmin
begin

text \<open>
  The cache of parsed mail templates: rendering through it is rendering without it, and it keeps one body
  of a name.
\<close>

definition key_name :: "string \<Rightarrow> string" where
  "key_name k = takeWhile (\<lambda>c. c \<noteq> CHR 0x00) k"

definition plain_name :: "string \<Rightarrow> bool" where
  "plain_name n \<longleftrightarrow> CHR 0x00 \<notin> set n"

lemma key_name_parsed [simp]: "plain_name n \<Longrightarrow> key_name (parsed_key n b) = n"
proof -
  assume "plain_name n"
  then have "takeWhile (\<lambda>c. c \<noteq> CHR 0x00) (n @ [CHR 0x00] @ b) = n @ takeWhile (\<lambda>c. c \<noteq> CHR 0x00) ([CHR 0x00] @ b)"
    by (intro takeWhile_append2) (auto simp: plain_name_def)
  then show ?thesis by (simp add: key_name_def parsed_key_def)
qed

lemma parsed_key_inj: "plain_name n \<Longrightarrow> plain_name m \<Longrightarrow> parsed_key n b = parsed_key m c \<Longrightarrow> n = m \<and> b = c"
  using key_name_parsed [of n b] key_name_parsed [of m c] by (auto simp: parsed_key_def)

lemma key_prefix:
  "plain_name n \<Longrightarrow> plain_name m \<Longrightarrow>
     (length (parsed_key m b) > length n \<and> take (length n) (parsed_key m b) = n \<and> parsed_key m b ! length n = CHR 0x00) \<longleftrightarrow> m = n"
proof
  assume n: "plain_name n" and m: "plain_name m"
    and k: "length (parsed_key m b) > length n \<and> take (length n) (parsed_key m b) = n \<and> parsed_key m b ! length n = CHR 0x00"
  then have "parsed_key m b = n @ CHR 0x00 # drop (Suc (length n)) (parsed_key m b)"
    using id_take_nth_drop [of "length n" "parsed_key m b"] by simp
  then have p: "parsed_key m b = parsed_key n (drop (Suc (length n)) (parsed_key m b))" by (simp add: parsed_key_def)
  from parsed_key_inj [OF m n p] show "m = n" by simp
qed (simp add: parsed_key_def)

text \<open>Every entry is a template under its own key that parses; no two of one name.\<close>

definition cache_of_templates :: "html_engine \<Rightarrow> (string \<times> string) list \<Rightarrow> bool" where
  "cache_of_templates H cache \<longleftrightarrow> distinct (map (key_name \<circ> fst) cache) \<and>
     (\<forall>(k, t) \<in> set cache. \<exists>n. plain_name n \<and> k = parsed_key n t \<and> he_parse H n t = None)"

lemma cache_entry:
  assumes "cache_of_templates H cache" and "e \<in> set cache"
  shows "\<exists>m. plain_name m \<and> fst e = parsed_key m (snd e) \<and> he_parse H m (snd e) = None"
proof -
  have "case e of (k, t) \<Rightarrow> \<exists>n. plain_name n \<and> k = parsed_key n t \<and> he_parse H n t = None"
    using assms unfolding cache_of_templates_def by blast
  then show ?thesis by (cases e) simp
qed

lemma cache_lookup:
  assumes "cache_of_templates H cache" and "plain_name n" and "map_of cache (parsed_key n b) = Some t"
  shows "t = b \<and> he_parse H n b = None"
proof -
  obtain m where m: "plain_name m" "parsed_key n b = parsed_key m t" "he_parse H m t = None"
    using cache_entry [OF assms(1) map_of_SomeD [OF assms(3)]] by auto
  from parsed_key_inj [OF assms(2) m(1,2)] m(3) show ?thesis by simp
qed

lemma parsedFor_answer:
  assumes "cache_of_templates H cache" and "plain_name n"
  shows "fst (parsedFor H n b cache) = (case he_parse H n b of None \<Rightarrow> Inr b | Some msg \<Rightarrow> Inl (DriverError msg))"
  using cache_lookup [OF assms, of b] by (auto simp: parsedFor_def split: option.split)

lemma parsedFor_keeps:
  assumes "cache_of_templates H cache" and "plain_name n"
  shows "cache_of_templates H (snd (parsedFor H n b cache))"
proof -
  let ?old = "\<lambda>(k, t). \<not> (length k > length n \<and> take (length n) k = n \<and> k ! length n = CHR 0x00)"
  have old: "?old e \<longleftrightarrow> key_name (fst e) \<noteq> n" if e: "e \<in> set cache" for e
  proof -
    obtain m where "plain_name m" "fst e = parsed_key m (snd e)"
      using cache_entry [OF assms(1) e] by blast
    then show ?thesis using key_prefix [OF assms(2), of m "snd e"] by (cases e) auto
  qed
  have "cache_of_templates H ((parsed_key n b, b) # filter ?old cache)" if "he_parse H n b = None"
  proof -
    have "n \<notin> set (map (key_name \<circ> fst) (filter ?old cache))" using old by auto
    moreover have "distinct (map (key_name \<circ> fst) (filter ?old cache))"
      using assms(1) by (simp add: cache_of_templates_def distinct_map_filter)
    ultimately have "distinct (map (key_name \<circ> fst) ((parsed_key n b, b) # filter ?old cache))"
      using assms(2) by (simp only: list.map distinct.simps comp_apply fst_conv key_name_parsed simp_thms)
    moreover have "\<forall>(k, t) \<in> set ((parsed_key n b, b) # filter ?old cache). \<exists>n. plain_name n \<and> k = parsed_key n t \<and> he_parse H n t = None"
      using assms that unfolding cache_of_templates_def by auto
    ultimately show ?thesis unfolding cache_of_templates_def by blast
  qed
  then show ?thesis using assms(1) by (simp add: parsedFor_def split: option.split)
qed

definition render_run :: "html_engine \<Rightarrow> (string \<times> string) list \<Rightarrow> (string \<times> string) list" where
  "render_run H run = fold (\<lambda>(n, b) cache. snd (parsedFor H n b cache)) run []"

lemma render_run_cache:
  assumes "\<forall>(n, b) \<in> set run. plain_name n"
  shows "cache_of_templates H (render_run H run)"
proof -
  have "cache_of_templates H (fold (\<lambda>(n, b) cache. snd (parsedFor H n b cache)) run c)" if "cache_of_templates H c" for c
    using assms that by (induction run arbitrary: c) (auto simp: parsedFor_keeps)
  moreover have "cache_of_templates H []" by (simp add: cache_of_templates_def)
  ultimately show ?thesis unfolding render_run_def by blast
qed

text \<open>Parsing mail templates through the cache is parsing them: after any sequence of renderings, with bodies
  edited in between in any way, the answer for a name and body is what the template engine says of exactly this
  body, never an earlier version nor another template's, and the cache holds at most one body of each name, so
  that edits do not make it grow. Template names contain no NUL character.\<close>

theorem parsed_cache_transparent:
  assumes "\<forall>(m, c) \<in> set run. plain_name m" and "plain_name n"
  shows "fst (parsedFor H n b (render_run H run)) =
      (case he_parse H n b of None \<Rightarrow> Inr b | Some msg \<Rightarrow> Inl (DriverError msg)) \<and>
    length (filter (\<lambda>(k, t). key_name k = n) (render_run H run)) \<le> 1"
proof
  note ok = render_run_cache [OF assms(1), of H]
  show "fst (parsedFor H n b (render_run H run)) = (case he_parse H n b of None \<Rightarrow> Inr b | Some msg \<Rightarrow> Inl (DriverError msg))"
    by (rule parsedFor_answer [OF ok assms(2)])
  have "length (filter (\<lambda>(k, t). key_name k = n) cs) \<le> 1" if "distinct (map (key_name \<circ> fst) cs)" for cs :: "(string \<times> string) list"
    using that
  proof (induction cs)
    case (Cons e cs)
    have "filter (\<lambda>(k, t). key_name k = n) cs = []" if "key_name (fst e) = n"
    proof -
      have "n \<notin> (\<lambda>x. key_name (fst x)) ` set cs" using Cons.prems that by auto
      then have "\<forall>e \<in> set cs. key_name (fst e) \<noteq> n" by (metis image_eqI)
      then show ?thesis by (auto simp: filter_empty_conv)
    qed
    then show ?case using Cons by (auto split: prod.split)
  qed simp
  then show "length (filter (\<lambda>(k, t). key_name k = n) (render_run H run)) \<le> 1"
    using ok by (simp add: cache_of_templates_def)
qed

lemma parsed_cache_transparent_witness:
  "fst (parsedFor \<lparr>he_parse = (\<lambda>n b. if b = [] then Some ''empty'' else None), he_exec = (\<lambda>n b d. Inr b)\<rparr> ''verification'' ''new''
     (render_run \<lparr>he_parse = (\<lambda>n b. if b = [] then Some ''empty'' else None), he_exec = (\<lambda>n b d. Inr b)\<rparr>
       [(''verification'', ''old''), (''verification'', []), (''invitation'', ''new'')])) = Inr ''new''"
proof -
  have "\<forall>(m, c) \<in> set [(''verification'', ''old''), (''verification'', []), (''invitation'', ''new'')]. plain_name m"
    "plain_name ''verification''"
    by (simp_all add: plain_name_def)
  from parsed_cache_transparent [OF this, of "\<lparr>he_parse = (\<lambda>n b. if b = [] then Some ''empty'' else None), he_exec = (\<lambda>n b d. Inr b)\<rparr>" "''new''"]
  show ?thesis by simp
qed

end
