(* ===== verification/M2M.thy ===== *)
theory M2M
  imports AdminHandlers
begin

text \<open>
  The machine-to-machine API over users (\<^verbatim>\<open>m2m/service.go\<close>, \<^verbatim>\<open>m2m/handler.go\<close>) and its routes, each in a
  group that asks a client-credentials token of the right audience for one scope
  (\<^verbatim>\<open>main.go\<close>, \<^verbatim>\<open>RegisterRoutes\<close>).
\<close>

section \<open>Service\<close>

text \<open>The identifiers from the configuration; one that does not parse is left out.\<close>

definition SetProtectedRoles :: "env \<Rightarrow> string list \<Rightarrow> uuid list" where
  "SetProtectedRoles E raws = List.map_filter (uuid_parse E) raws"

text \<open>The operations on an account that must exist.\<close>

definition m2m_existing :: "env \<Rightarrow> uuid \<Rightarrow> 'a action \<Rightarrow> 'a action" where
  "m2m_existing E u op st = (case GetByID E u st of Inl e \<Rightarrow> (Inl e, st) | Inr _ \<Rightarrow> op st)"

definition m2m_Get :: "env \<Rightarrow> uuid \<Rightarrow> user action" where
  "m2m_Get E u = giving (GetByID E u)"

definition m2m_List :: "env \<Rightarrow> int \<Rightarrow> int \<Rightarrow> db \<Rightarrow> (user list \<times> nat) dbres" where
  "m2m_List E page perPage = user_Search_row E [] page perPage"

record create_user_input =
  cu_email :: string
  cu_password :: string
  cu_display_name :: "string option"
  cu_email_verified :: "bool option"
  cu_active :: "bool option"
  cu_phone :: "string option"
  cu_avatar_url :: "string option"
  cu_metadata :: "profile_metadata option"
  cu_role_ids :: "uuid list"

definition m2m_password :: "env \<Rightarrow> string \<Rightarrow> (string \<times> string) action" where
  "m2m_password E pw st =
     (if pw \<noteq> [] then (Inr (pw, []), st)
      else case GenerateRandomString E 24 st of
        (None, st1) \<Rightarrow> (Inl (ErrInternal ''failed to generate password''), st1)
      | (Some raw, st1) \<Rightarrow> (Inr (raw, raw), st1))"

text \<open>The fields that registration does not set; a failing update is only logged.\<close>

definition m2m_extra_fields :: "env \<Rightarrow> create_user_input \<Rightarrow> user \<Rightarrow> db \<Rightarrow> user \<times> db" where
  "m2m_extra_fields E i u st =
     (if cu_email_verified i = None \<and> cu_active i = None \<and> cu_phone i = None \<and> cu_avatar_url i = None \<and> cu_metadata i = None
      then (u, st)
      else case M2MUpdate E (us_id u)
                  \<lparr>mu_email = None, mu_email_verified = cu_email_verified i, mu_display_name = None,
                   mu_avatar_url = cu_avatar_url i, mu_phone = cu_phone i, mu_active = cu_active i,
                   mu_metadata = cu_metadata i\<rparr> st of
        (Inl _, st1) \<Rightarrow> (u, st1)
      | (Inr v, st1) \<Rightarrow> (v, st1))"

definition m2m_Create :: "env \<Rightarrow> create_user_input \<Rightarrow> (user \<times> string) action" where
  "m2m_Create E i = and_then (m2m_password E (cu_password i)) (\<lambda>(pw, generated).
     and_then (RegisterAdmin E \<lparr>ri_email = cu_email i, ri_password = pw, ri_display_name = cu_display_name i,
                 ri_extra_fields = [], ri_skip_verification_email = False\<rparr> (cu_role_ids i)) (\<lambda>u st.
       (case m2m_extra_fields E i u st of (v, st1) \<Rightarrow> (Inr (v, generated), st1))))"

definition m2m_Update :: "env \<Rightarrow> uuid \<Rightarrow> m2m_update_input \<Rightarrow> user action" where
  "m2m_Update E u i = M2MUpdate E u i"

definition m2m_Delete :: "env \<Rightarrow> uuid \<Rightarrow> unit action" where
  "m2m_Delete E u = m2m_existing E u (user_Delete E u)"

text \<open>Sessions that cannot be revoked are only logged.\<close>

definition m2m_SetPassword :: "env \<Rightarrow> uuid \<Rightarrow> string \<Rightarrow> unit action" where
  "m2m_SetPassword E u pw = m2m_existing E u (and_then (SetPassword E u pw) (\<lambda>_ st.
     (Inr (), snd (session_RevokeAll E u None st))))"

definition m2m_Unlock :: "env \<Rightarrow> uuid \<Rightarrow> unit action" where
  "m2m_Unlock E u = m2m_existing E u (Unlock E u)"

definition m2m_ResetMFA :: "env \<Rightarrow> uuid \<Rightarrow> unit action" where
  "m2m_ResetMFA E u = m2m_existing E u (mfa_ForceDisable E u)"

definition m2m_ListRoles :: "env \<Rightarrow> uuid \<Rightarrow> role list action" where
  "m2m_ListRoles E u = m2m_existing E u (giving (\<lambda>st. or_driver ''rbac.GetUserRoles'' (GetUserRoles_row E u st)))"

definition m2m_AssignRole :: "env \<Rightarrow> uuid list \<Rightarrow> uuid \<Rightarrow> uuid \<Rightarrow> unit action" where
  "m2m_AssignRole E protected u r =
     (if List.member protected r then refused (ErrForbidden ''role is protected from m2m assignment'')
      else m2m_existing E u (AssignRole E u r))"

definition m2m_RemoveRole :: "env \<Rightarrow> uuid \<Rightarrow> uuid \<Rightarrow> unit action" where
  "m2m_RemoveRole E u r = m2m_existing E u (RemoveRole E u r)"

definition m2m_ListSessions :: "env \<Rightarrow> uuid \<Rightarrow> session list action" where
  "m2m_ListSessions E u = m2m_existing E u (giving (ListActive E u))"

definition m2m_RevokeSession :: "env \<Rightarrow> uuid \<Rightarrow> uuid \<Rightarrow> unit action" where
  "m2m_RevokeSession E s u = m2m_existing E u (session_Revoke E s u)"

definition m2m_RevokeAllSessions :: "env \<Rightarrow> uuid \<Rightarrow> nat action" where
  "m2m_RevokeAllSessions E u = m2m_existing E u (session_RevokeAll E u None)"

definition m2m_ListPasskeys :: "env \<Rightarrow> uuid \<Rightarrow> passkey list action" where
  "m2m_ListPasskeys E u = m2m_existing E u (giving (\<lambda>st. or_driver ''passkey.ListByUser'' (passkey_ListByUser E u st)))"

definition m2m_DeletePasskey :: "env \<Rightarrow> uuid \<Rightarrow> uuid \<Rightarrow> unit action" where
  "m2m_DeletePasskey E p u = m2m_existing E u (passkey_Delete E p u)"

definition m2m_ListLinkedAccounts :: "env \<Rightarrow> uuid \<Rightarrow> fed_link list action" where
  "m2m_ListLinkedAccounts E u = m2m_existing E u (giving (GetLinkedAccounts E u))"

definition m2m_UnlinkAccount :: "env \<Rightarrow> uuid \<Rightarrow> uuid \<Rightarrow> unit action" where
  "m2m_UnlinkAccount E l u = m2m_existing E u (UnlinkAccount E l u)"

section \<open>Handlers\<close>

definition parseUserID :: "env \<Rightarrow> string \<Rightarrow> (uuid \<Rightarrow> 'a action) \<Rightarrow> 'a action" where
  "parseUserID E s = path_id E ''invalid user id'' s"

definition parseParamUUID :: "env \<Rightarrow> string \<Rightarrow> string \<Rightarrow> (uuid \<Rightarrow> 'a action) \<Rightarrow> 'a action" where
  "parseParamUUID E name s = path_id E (''invalid '' @ name) s"

definition m2m_List_handler :: "env \<Rightarrow> http_request \<Rightarrow> any_map list page action" where
  "m2m_List_handler E r = giving (\<lambda>st.
     (case ParsePagination r of
        (page, perPage) \<Rightarrow>
          (case m2m_List E page perPage st of
             DbErr \<Rightarrow> Inl (ErrInternal ''failed to list users'')
           | DbOk (us, n) \<Rightarrow> Inr (Paginated (map (AdminView E) us) (int n) page perPage))))"

definition m2m_Get_handler :: "env \<Rightarrow> string \<Rightarrow> any_map action" where
  "m2m_Get_handler E s = parseUserID E s (\<lambda>u. yields (m2m_Get E u) (AdminView E))"

definition m2m_Create_handler :: "env \<Rightarrow> create_user_input body \<Rightarrow> (any_map \<times> string) action" where
  "m2m_Create_handler E b = bound b (\<lambda>i. yields (m2m_Create E i) (\<lambda>(u, generated). (AdminView E u, generated)))"

definition m2m_Update_handler :: "env \<Rightarrow> string \<Rightarrow> m2m_update_input body \<Rightarrow> any_map action" where
  "m2m_Update_handler E s b = parseUserID E s (\<lambda>u. bound b (\<lambda>i. yields (m2m_Update E u i) (AdminView E)))"

definition m2m_Delete_handler :: "env \<Rightarrow> string \<Rightarrow> unit action" where
  "m2m_Delete_handler E s = parseUserID E s (m2m_Delete E)"

definition m2m_SetPassword_handler :: "env \<Rightarrow> string \<Rightarrow> string body \<Rightarrow> unit action" where
  "m2m_SetPassword_handler E s b = parseUserID E s (\<lambda>u. bound b (m2m_SetPassword E u))"

definition m2m_Unlock_handler :: "env \<Rightarrow> string \<Rightarrow> unit action" where
  "m2m_Unlock_handler E s = parseUserID E s (m2m_Unlock E)"

definition m2m_ResetMFA_handler :: "env \<Rightarrow> string \<Rightarrow> unit action" where
  "m2m_ResetMFA_handler E s = parseUserID E s (m2m_ResetMFA E)"

definition m2m_ListRoles_handler :: "env \<Rightarrow> string \<Rightarrow> role list action" where
  "m2m_ListRoles_handler E s = parseUserID E s (m2m_ListRoles E)"

definition m2m_AssignRole_handler :: "env \<Rightarrow> uuid list \<Rightarrow> string \<Rightarrow> uuid body \<Rightarrow> unit action" where
  "m2m_AssignRole_handler E protected s b = parseUserID E s (\<lambda>u. bound b (m2m_AssignRole E protected u))"

definition m2m_RemoveRole_handler :: "env \<Rightarrow> string \<Rightarrow> string \<Rightarrow> unit action" where
  "m2m_RemoveRole_handler E s t = parseUserID E s (\<lambda>u. parseParamUUID E ''roleId'' t (m2m_RemoveRole E u))"

definition m2m_ListSessions_handler :: "env \<Rightarrow> string \<Rightarrow> session list action" where
  "m2m_ListSessions_handler E s = parseUserID E s (m2m_ListSessions E)"

definition m2m_RevokeSession_handler :: "env \<Rightarrow> string \<Rightarrow> string \<Rightarrow> unit action" where
  "m2m_RevokeSession_handler E s t = parseUserID E s (\<lambda>u. parseParamUUID E ''sid'' t (\<lambda>i. m2m_RevokeSession E i u))"

definition m2m_RevokeAllSessions_handler :: "env \<Rightarrow> string \<Rightarrow> nat action" where
  "m2m_RevokeAllSessions_handler E s = parseUserID E s (m2m_RevokeAllSessions E)"

definition m2m_ListPasskeys_handler :: "env \<Rightarrow> string \<Rightarrow> any_map list action" where
  "m2m_ListPasskeys_handler E s = parseUserID E s (\<lambda>u. yields (m2m_ListPasskeys E u) (map (PublicView E)))"

definition m2m_DeletePasskey_handler :: "env \<Rightarrow> string \<Rightarrow> string \<Rightarrow> unit action" where
  "m2m_DeletePasskey_handler E s t = parseUserID E s (\<lambda>u. parseParamUUID E ''pid'' t (\<lambda>i. m2m_DeletePasskey E i u))"

definition m2m_ListLinkedAccounts_handler :: "env \<Rightarrow> string \<Rightarrow> fed_link list action" where
  "m2m_ListLinkedAccounts_handler E s = parseUserID E s (m2m_ListLinkedAccounts E)"

definition m2m_UnlinkAccount_handler :: "env \<Rightarrow> string \<Rightarrow> string \<Rightarrow> unit action" where
  "m2m_UnlinkAccount_handler E s t = parseUserID E s (\<lambda>u. parseParamUUID E ''linkId'' t (\<lambda>i. m2m_UnlinkAccount E i u))"

section \<open>Routes\<close>

datatype m2m_call =
    ReadUsers
  | CreateUser "create_user_input body"
  | UpdateUser string "m2m_update_input body"
  | DeleteUser string
  | PutPassword string "string body"
  | UnlockUser string
  | ResetUserMFA string
  | RevokeOne string string
  | RevokeEvery string
  | DropPasskey string string
  | DropLink string string
  | GiveRole string "uuid body"
  | TakeRole string string

text \<open>The scope of the group that a route is registered in.\<close>

fun m2m_scope :: "m2m_call \<Rightarrow> string" where
  "m2m_scope ReadUsers = ''m2m:users:read''"
| "m2m_scope (CreateUser b) = ''m2m:users:write''"
| "m2m_scope (UpdateUser s b) = ''m2m:users:write''"
| "m2m_scope (DeleteUser s) = ''m2m:users:delete''"
| "m2m_scope (GiveRole s b) = ''m2m:users:manage_roles''"
| "m2m_scope (TakeRole s t) = ''m2m:users:manage_roles''"
| "m2m_scope call = ''m2m:users:manage_auth''"

definition m2mAudience :: string where
  "m2mAudience = ''urn:orion:m2m''"

text \<open>The effect of a route on the database; the reading ones have none.\<close>

fun m2m_effect :: "env \<Rightarrow> uuid list \<Rightarrow> m2m_call \<Rightarrow> db \<Rightarrow> db" where
  "m2m_effect E protected ReadUsers st = st"
| "m2m_effect E protected (CreateUser b) st = snd (m2m_Create_handler E b st)"
| "m2m_effect E protected (UpdateUser s b) st = snd (m2m_Update_handler E s b st)"
| "m2m_effect E protected (DeleteUser s) st = snd (m2m_Delete_handler E s st)"
| "m2m_effect E protected (PutPassword s b) st = snd (m2m_SetPassword_handler E s b st)"
| "m2m_effect E protected (UnlockUser s) st = snd (m2m_Unlock_handler E s st)"
| "m2m_effect E protected (ResetUserMFA s) st = snd (m2m_ResetMFA_handler E s st)"
| "m2m_effect E protected (RevokeOne s t) st = snd (m2m_RevokeSession_handler E s t st)"
| "m2m_effect E protected (RevokeEvery s) st = snd (m2m_RevokeAllSessions_handler E s st)"
| "m2m_effect E protected (DropPasskey s t) st = snd (m2m_DeletePasskey_handler E s t st)"
| "m2m_effect E protected (DropLink s t) st = snd (m2m_UnlinkAccount_handler E s t st)"
| "m2m_effect E protected (GiveRole s b) st = snd (m2m_AssignRole_handler E protected s b st)"
| "m2m_effect E protected (TakeRole s t) st = snd (m2m_RemoveRole_handler E s t st)"

definition m2m_serve :: "env \<Rightarrow> uuid list \<Rightarrow> http_request \<Rightarrow> m2m_call \<Rightarrow> db \<Rightarrow> refusal option \<times> db" where
  "m2m_serve E protected q call st =
     (case RequireClientScope E (m2m_scope call) m2mAudience st q empty_gin of
        Inl r \<Rightarrow> (Some r, st)
      | Inr g \<Rightarrow> (None, m2m_effect E protected call st))"

end
