(* ===== verification/ActionFrame.thy ===== *)
theory ActionFrame
  imports SelfService
begin

text \<open>
  Frames of handlers: a relation between the database before and after that holds of every change of
  the randomness and composes is kept by a handler as soon as its service calls keep it. Instances:
  the rows of the other people, and the roles.
\<close>

definition keeps :: "(db \<Rightarrow> db \<Rightarrow> bool) \<Rightarrow> 'a action \<Rightarrow> bool" where
  "keeps R op \<longleftrightarrow> (\<forall>st. R st (snd (op st)))"

lemma keepsI: "(\<And>st r st'. op st = (r, st') \<Longrightarrow> R st st') \<Longrightarrow> keeps R op"
  unfolding keeps_def by (metis prod.collapse)

lemma keepsD: "keeps R op \<Longrightarrow> op st = (r, st') \<Longrightarrow> R st st'"
  unfolding keeps_def by (metis snd_conv)

locale db_step =
  fixes R :: "db \<Rightarrow> db \<Rightarrow> bool"
  assumes step_tables: "tables st' = tables st \<Longrightarrow> R st st'"
    and step_trans: "R a b \<Longrightarrow> R b c \<Longrightarrow> R a c"
begin

lemma same_step: "R st st"
  by (rule step_tables) simp

lemma bump_step: "R st (bump st)"
  by (rule step_tables) simp

lemma keeps_refused: "keeps R (refused e)"
  by (simp add: keeps_def refused_def same_step)

lemma keeps_giving: "keeps R (giving f)"
  by (simp add: keeps_def giving_def same_step)

lemma keeps_and_then:
  assumes "keeps R op" and "\<And>v. keeps R (k v)"
  shows "keeps R (and_then op k)"
proof (rule keepsI)
  fix st r st' assume a: "and_then op k st = (r, st')"
  obtain x st1 where o: "op st = (x, st1)" by (cases "op st")
  have s: "R st st1" using keepsD [OF assms(1) o] .
  show "R st st'"
  proof (cases x)
    case (Inl e)
    with a o s show ?thesis by (simp add: and_then_def)
  next
    case (Inr v)
    with a o have "k v st1 = (r, st')" by (simp add: and_then_def)
    then show ?thesis using step_trans [OF s] keepsD [OF assms(2)] by blast
  qed
qed

lemma keeps_yields: "keeps R op \<Longrightarrow> keeps R (yields op f)"
proof -
  assume k: "keeps R op"
  have "snd (yields op f st) = snd (op st)" for st
    by (simp add: yields_def split: prod.split sum.split)
  with k show ?thesis by (simp add: keeps_def)
qed

lemma keeps_quietly: "keeps R op \<Longrightarrow> keeps R (quietly op)"
  by (simp add: keeps_def quietly_def)

lemma keeps_signed_in: "(\<And>u. gc_user_id g = Some u \<Longrightarrow> keeps R (k u)) \<Longrightarrow> keeps R (signed_in g k)"
  by (simp add: signed_in_def keeps_refused split: option.split)

lemma keeps_bound: "(\<And>v. keeps R (k v)) \<Longrightarrow> keeps R (bound b k)"
  by (simp add: bound_def keeps_refused split: sum.split)

lemma keeps_path_id: "(\<And>i. keeps R (k i)) \<Longrightarrow> keeps R (path_id E what s k)"
  by (simp add: path_id_def keeps_refused split: option.split)

lemma keeps_Transaction:
  assumes "gorm_rollback E" and "keeps R op"
  shows "keeps R (Transaction E op)"
proof (rule keepsI)
  fix st r st' assume t: "Transaction E op st = (r, st')"
  show "R st st'"
  proof (cases r)
    case (Inl e)
    with t have "Transaction E op st = (Inl e, st')" by simp
    then show ?thesis by (rule step_tables [OF Transaction_Inl_tables [OF assms(1)]])
  next
    case (Inr v)
    with t have "Transaction E op st = (Inr v, st')" by simp
    then show ?thesis by (rule keepsD [OF assms(2) Transaction_Inr])
  qed
qed

lemmas keeps_combinators = keeps_refused keeps_giving keeps_and_then keeps_yields keeps_quietly
  keeps_signed_in keeps_bound keeps_path_id

end

section \<open>Rows of a table that a change leaves alone\<close>

lemma filter_update_where: "(\<And>r. r \<in> set rs \<Longrightarrow> P r \<Longrightarrow> \<not> Q r \<and> \<not> Q (f r)) \<Longrightarrow> filter Q (update_where P f rs) = filter Q rs"
  by (induction rs) (auto simp: update_where_def)

lemma filter_delete_where: "(\<And>r. r \<in> set rs \<Longrightarrow> P r \<Longrightarrow> \<not> Q r) \<Longrightarrow> filter Q (delete_where P rs) = filter Q rs"
  by (induction rs) (auto simp: delete_where_def)

lemma filter_save_row:
  assumes "\<not> Q r" and "\<And>x. x \<in> set rs \<Longrightarrow> key x = key r \<Longrightarrow> \<not> Q x"
  shows "filter Q (save_row key r rs) = filter Q rs"
proof -
  have "filter Q (map (\<lambda>x. if key x = key r then r else x) rs) = filter Q rs"
    using filter_update_where [of rs "\<lambda>x. key x = key r" Q "\<lambda>_. r"] assms by (simp add: update_where_def)
  then show ?thesis using assms(1) by (simp add: save_row_def)
qed

lemma keys_unique_same: "keys_unique key rs \<Longrightarrow> x \<in> set rs \<Longrightarrow> y \<in> set rs \<Longrightarrow> key x = key y \<Longrightarrow> x = y"
  by (auto simp: keys_unique_def distinct_map inj_on_def)

end
