(* ===== verification/OwnRows.thy ===== *)
theory OwnRows
  imports ActionFrame Accounts
begin

text \<open>
  What a signed-in person can change: a database without the rows of one user, and the operations on
  the own account that leave it as it was. Mails, ceremonies and randomness are left out of the view.
\<close>

definition others :: "uuid \<Rightarrow> db \<Rightarrow> db" where
  "others u st = st\<lparr>t_users := filter (\<lambda>x. us_id x \<noteq> u) (t_users st),
     t_sessions := filter (\<lambda>s. se_user_id s \<noteq> u) (t_sessions st),
     t_mfa_methods := filter (\<lambda>m. mf_user_id m \<noteq> u) (t_mfa_methods st),
     t_passkeys := filter (\<lambda>p. pk_user_id p \<noteq> u) (t_passkeys st),
     t_reauth_tokens := filter (\<lambda>t. ra_user_id t \<noteq> u) (t_reauth_tokens st),
     t_fed_links := filter (\<lambda>l. fl_user_id l \<noteq> u) (t_fed_links st),
     t_passkey_challenges := [], t_outbox := [], draws := 0\<rparr>"

text \<open>Primary keys.\<close>

definition own_keys :: "db \<Rightarrow> bool" where
  "own_keys st \<longleftrightarrow> keys_unique se_id (t_sessions st) \<and> keys_unique mf_id (t_mfa_methods st) \<and>
     keys_unique pk_id (t_passkeys st) \<and> keys_unique fl_id (t_fed_links st)"

definition confined :: "uuid \<Rightarrow> db \<Rightarrow> db \<Rightarrow> bool" where
  "confined u st st' \<longleftrightarrow> (own_keys st \<longrightarrow> own_keys st' \<and> others u st' = others u st)"

lemma others_draws [simp]: "others u (st\<lparr>draws := n\<rparr>) = others u st"
  by (simp add: others_def)

lemma own_keys_draws [simp]: "own_keys (st\<lparr>draws := n\<rparr>) = own_keys st"
  by (simp add: own_keys_def)

interpretation own: db_step "confined u"
proof
  fix st st' :: db assume t: "tables st' = tables st"
  have "others u st' = others u (tables st')" "own_keys st' = own_keys (tables st')" for st' :: db
    by (simp_all add: tables_def)
  with t show "confined u st st'" unfolding confined_def by metis
next
  fix a b c :: db assume "confined u a b" "confined u b c"
  then show "confined u a c" by (simp add: confined_def)
qed

section \<open>Changes of one table\<close>

lemma confined_save_user: "us_id v = u \<Longrightarrow> confined u st (st\<lparr>t_users := save_row us_id v (t_users st)\<rparr>)"
  by (simp add: confined_def others_def own_keys_def filter_save_row)

lemma confined_update_user:
  "(\<And>x. us_id (f x) = us_id x) \<Longrightarrow> confined u st (st\<lparr>t_users := update_where (\<lambda>x. us_id x = u) f (t_users st)\<rparr>)"
  by (simp add: confined_def others_def own_keys_def filter_update_where)

lemma confined_sessions:
  assumes "\<And>s. se_id (f s) = se_id s" and "\<And>s. se_user_id (f s) = se_user_id s"
    and "\<And>s. own_keys st \<Longrightarrow> s \<in> set (t_sessions st) \<Longrightarrow> P s \<Longrightarrow> se_user_id s = u"
  shows "confined u st (st\<lparr>t_sessions := update_where P f (t_sessions st)\<rparr>)"
  using assms by (auto simp: confined_def others_def own_keys_def filter_update_where keys_unique_update)

lemma confined_save_method:
  assumes "mf_user_id m = u" and "m0 \<in> set (t_mfa_methods st)" and "mf_id m0 = mf_id m" and "mf_user_id m0 = u"
  shows "confined u st (st\<lparr>t_mfa_methods := save_row mf_id m (t_mfa_methods st)\<rparr>)"
proof -
  have "mf_user_id x = u" if "own_keys st" "x \<in> set (t_mfa_methods st)" "mf_id x = mf_id m" for x
    using that assms keys_unique_same [of mf_id "t_mfa_methods st" x m0] by (auto simp: own_keys_def)
  then show ?thesis
    using assms(1) by (auto simp: confined_def others_def filter_save_row own_keys_def keys_unique_save)
qed

lemma confined_delete_method:
  assumes "m0 \<in> set (t_mfa_methods st)" and "mf_user_id m0 = u"
  shows "confined u st (st\<lparr>t_mfa_methods := delete_where (\<lambda>m. mf_id m = mf_id m0) (t_mfa_methods st)\<rparr>)"
proof -
  have "mf_user_id x = u" if "own_keys st" "x \<in> set (t_mfa_methods st)" "mf_id x = mf_id m0" for x
    using that assms keys_unique_same [of mf_id "t_mfa_methods st" x m0] by (auto simp: own_keys_def)
  then show ?thesis
    by (auto simp: confined_def others_def filter_delete_where own_keys_def keys_unique_delete)
qed

lemma confined_insert_method:
  "mf_user_id m = u \<Longrightarrow> insert_row mf_id m (t_mfa_methods st) = Some t \<Longrightarrow> confined u st (st\<lparr>t_mfa_methods := t\<rparr>)"
  by (auto simp: confined_def others_def own_keys_def keys_unique_insert insert_row_Some_iff)

lemma confined_passkeys:
  assumes "\<And>p. pk_id (f p) = pk_id p" and "\<And>p. pk_user_id (f p) = pk_user_id p"
    and "\<And>p. own_keys st \<Longrightarrow> p \<in> set (t_passkeys st) \<Longrightarrow> P p \<Longrightarrow> pk_user_id p = u"
  shows "confined u st (st\<lparr>t_passkeys := update_where P f (t_passkeys st)\<rparr>)"
  using assms by (auto simp: confined_def others_def own_keys_def filter_update_where keys_unique_update)

lemma confined_delete_passkey:
  "confined u st (st\<lparr>t_passkeys := delete_where (\<lambda>p. pk_id p = i \<and> pk_user_id p = u) (t_passkeys st)\<rparr>)"
proof -
  have "filter (\<lambda>p. pk_user_id p \<noteq> u) (delete_where (\<lambda>p. pk_id p = i \<and> pk_user_id p = u) ps) =
      filter (\<lambda>p. pk_user_id p \<noteq> u) ps" for ps :: "passkey list"
    by (rule filter_delete_where) simp
  then show ?thesis by (simp add: confined_def others_def own_keys_def keys_unique_delete)
qed

lemma confined_insert_passkey:
  "pk_user_id p = u \<Longrightarrow> insert_row pk_id p (t_passkeys st) = Some t \<Longrightarrow> confined u st (st\<lparr>t_passkeys := t\<rparr>)"
  by (auto simp: confined_def others_def own_keys_def keys_unique_insert insert_row_Some_iff)

lemma confined_challenges: "confined u st (st\<lparr>t_passkey_challenges := t\<rparr>)"
  by (simp add: confined_def others_def own_keys_def)

lemma confined_outbox: "st' = st\<lparr>t_outbox := t, draws := n\<rparr> \<Longrightarrow> confined u st st'"
  by (simp add: confined_def others_def own_keys_def)

lemma confined_insert_reauth:
  "ra_user_id t = u \<Longrightarrow> confined u st (st\<lparr>t_reauth_tokens := t_reauth_tokens st @ [t]\<rparr>)"
  by (simp add: confined_def others_def own_keys_def)

lemma confined_delete_link:
  assumes "l \<in> set (t_fed_links st)" and "fl_user_id l = u"
  shows "confined u st (st\<lparr>t_fed_links := delete_where (\<lambda>x. fl_id x = fl_id l) (t_fed_links st)\<rparr>)"
proof -
  have "fl_user_id x = u" if "own_keys st" "x \<in> set (t_fed_links st)" "fl_id x = fl_id l" for x
    using that assms keys_unique_same [of fl_id "t_fed_links st" x l] by (auto simp: own_keys_def)
  then show ?thesis
    by (auto simp: confined_def others_def filter_delete_where own_keys_def keys_unique_delete)
qed

section \<open>Operations on the own account\<close>

lemma first_where_in: "first_where P rs = Some r \<Longrightarrow> r \<in> set rs \<and> P r"
  by (rule first_where_SomeD)

lemma session_Revoke_confined: "keeps (confined u) (session_Revoke E i u)"
proof (rule keepsI)
  fix st r st' assume a: "session_Revoke E i u st = (r, st')"
  show "confined u st st'"
  proof (cases "st' = st")
    case False
    with a obtain s where s: "session_row st i = Some s" "se_user_id s = u"
      and st': "st' = st\<lparr>t_sessions := update_where (\<lambda>s. se_id s = i) (mark_revoked E) (t_sessions st)\<rparr>"
      by (auto simp: session_Revoke_def session_FindByID_def session_Revoke_row_def stmt_def
          split: dbres.splits option.splits if_splits)
    have "s \<in> set (t_sessions st)" "se_id s = i"
      using s(1) first_where_in [of "\<lambda>s. se_id s = i" "t_sessions st" s] by (simp_all add: session_row_def)
    then have "x = s" if "own_keys st" "x \<in> set (t_sessions st)" "se_id x = i" for x
      using that keys_unique_same [of se_id "t_sessions st" x s] by (simp add: own_keys_def)
    then show ?thesis unfolding st' using s(2) by (intro confined_sessions) (auto simp: mark_revoked_def)
  qed (simp add: own.same_step)
qed

lemma session_RevokeAll_confined: "keeps (confined u) (session_RevokeAll E u cur)"
proof (rule keepsI)
  fix st r st' assume a: "session_RevokeAll E u cur st = (r, st')"
  have "confined u st (st\<lparr>t_sessions := update_where (revoke_match u cur) (mark_revoked E) (t_sessions st)\<rparr>)"
    by (rule confined_sessions) (auto simp: mark_revoked_def revoke_match_def)
  with a show "confined u st st'"
    by (auto simp: session_RevokeAll_def RevokeAllForUser_def stmt_def own.same_step split: if_splits)
qed

lemma send_mail_confined: "keeps (confined u) (send_mail E m)"
proof (rule keepsI)
  fix st r st' assume "send_mail E m st = (r, st')"
  then have "st' = st\<lparr>t_outbox := t_outbox st', draws := draws st'\<rparr>" by (rule send_mail_frame)
  then show "confined u st st'" by (rule confined_outbox)
qed

lemma UpdateFields_confined:
  "UpdateFields E u f st = DbOk st' \<Longrightarrow> (\<And>x. us_id (f x) = us_id x) \<Longrightarrow> confined u st st'"
  using confined_update_user [of "touch_user E f" u st] UpdateFields_table [of E u f st st'] by simp

lemma db_write_confined:
  "(\<And>st'. r = DbOk st' \<Longrightarrow> confined u st st') \<Longrightarrow> confined u st (snd (db_write c st r))"
  by (cases r) (auto simp: db_write_def own.same_step)

lemma user_row_of_GetByID: "GetByID E i st = Inr x \<Longrightarrow> us_id x = i"
  by (auto simp: GetByID_def user_FindByID_def stmt_def user_row_def split: dbres.splits option.splits if_splits
      dest: first_where_SomeD)

lemma save_user_confined: "us_id v = u \<Longrightarrow> confined u st (snd (save_user E msg v st))"
  using confined_save_user [of "v\<lparr>us_updated_at := wall E\<rparr>" u st]
  by (auto simp: save_user_def user_Update_def stmt_opt_def own.same_step)

lemma set_metadata_id [simp]: "us_id (set_metadata m v) = us_id v"
  by (simp add: set_metadata_def split: option.split)

lemma UpdateProfile_confined: "keeps (confined u) (UpdateProfile E u inp)"
  unfolding keeps_def
proof
  fix st show "confined u st (snd (UpdateProfile E u inp st))"
  proof (cases "GetByID E u st")
    case (Inl e)
    then show ?thesis by (simp add: UpdateProfile_def own.same_step)
  next
    case (Inr x)
    then show ?thesis by (simp add: UpdateProfile_def save_user_confined user_row_of_GetByID)
  qed
qed

text \<open>A partial update of the own row followed by a mail, and with the sessions revoked in between.\<close>

lemma update_mail_confined:
  assumes "UpdateFields E u f st = DbOk st1" and "\<And>x. us_id (f x) = us_id x" and "send_mail E m st1 = (r, st')"
  shows "confined u st st'"
  using own.step_trans [OF UpdateFields_confined [OF assms(1,2)] keepsD [OF send_mail_confined assms(3)]] .

lemma update_revoke_confined:
  assumes "UpdateFields E u f st = DbOk st1" and "\<And>x. us_id (f x) = us_id x" and "session_RevokeAll E u c st1 = (n, st2)"
  shows "confined u st st2"
  using own.step_trans [OF UpdateFields_confined [OF assms(1,2)] keepsD [OF session_RevokeAll_confined assms(3)]] .

lemma after_bump: "confined u (bump st) st' \<Longrightarrow> confined u st st'"
  by (rule own.step_trans [OF own.bump_step])

lemma SendVerificationEmail_confined:
  assumes "gorm_rollback E"
  shows "keeps (confined u) (SendVerificationEmail E u rid)"
proof (rule keepsI)
  fix st r st' assume a: "SendVerificationEmail E u rid st = (r, st')"
  have tx: "keeps (confined u) (enqueueVerifyEmailInTx E x rid)" if x: "us_id x = u" for x
  proof (rule keepsI)
    fix st r st' assume q: "enqueueVerifyEmailInTx E x rid st = (r, st')"
    show "confined u st st'"
      using q x update_mail_confined [of E u _ "bump st" _ _ r st', THEN after_bump]
      by (auto simp: enqueueVerifyEmailInTx_def new_uuid_def Let_def own.same_step own.bump_step
          mail_SendVerificationEmail_def split: option.splits dbres.splits)
  qed
  show "confined u st st'"
    using a keepsD [OF own.keeps_Transaction [OF assms tx]]
    by (auto simp: SendVerificationEmail_def own.same_step split: sum.splits if_splits option.splits
        dest: user_row_of_GetByID)
qed

lemma new_password_confined:
  assumes "\<And>x. us_id (f x) = us_id x"
  shows "confined u st (snd (db_write c (bump st) (UpdateFields E u f (bump st))))"
  by (rule after_bump [OF db_write_confined]) (rule UpdateFields_confined [OF _ assms])

lemma ChangePassword_confined: "keeps (confined u) (ChangePassword E u current pw)"
  unfolding keeps_def
proof
  fix st
  have s: "(\<And>x. us_id (f x) = us_id x) \<Longrightarrow> db_write c (bump st) (UpdateFields E u f (bump st)) = (r, st') \<Longrightarrow> confined u st st'"
    for c f r st' using new_password_confined [of f u st c E] by simp
  show "confined u st (snd (ChangePassword E u current pw st))"
    by (auto simp: ChangePassword_def HashPassword_def own.same_step own.bump_step new_password_confined
        split: option.split sum.split bool.split)
qed

lemma SetInitialPassword_confined: "keeps (confined u) (SetInitialPassword E u pw)"
  unfolding keeps_def
  by (auto simp: SetInitialPassword_def HashPassword_def set_password_fields_def own.same_step own.bump_step
      new_password_confined split: option.split sum.split)

lemma account_ChangePassword_confined: "keeps (confined u) (account_ChangePassword E u current pw)"
proof (rule keepsI)
  fix st r st' assume a: "account_ChangePassword E u current pw st = (r, st')"
  obtain x st1 where c: "ChangePassword E u current pw st = (x, st1)" by (cases "ChangePassword E u current pw st")
  obtain n st2 where v: "session_RevokeAll E u None st1 = (n, st2)" by (cases "session_RevokeAll E u None st1")
  have one: "confined u st st1" by (rule keepsD [OF ChangePassword_confined c])
  have two: "confined u st st2" by (rule own.step_trans [OF one keepsD [OF session_RevokeAll_confined v]])
  have three: "confined u st (snd (mail_SendPasswordChangedNotice E e st2))" for e
    using own.step_trans [OF two] send_mail_confined by (auto simp: keeps_def mail_SendPasswordChangedNotice_def)
  show "confined u st st'"
    using a c v one three
    by (auto simp: account_ChangePassword_def own.same_step Let_def split: sum.splits)
qed

lemma account_SetInitialPassword_confined: "keeps (confined u) (account_SetInitialPassword E u pw)"
proof (rule keepsI)
  fix st r st' assume a: "account_SetInitialPassword E u pw st = (r, st')"
  obtain x st1 where c: "SetInitialPassword E u pw st = (x, st1)" by (cases "SetInitialPassword E u pw st")
  have one: "confined u st st1" by (rule keepsD [OF SetInitialPassword_confined c])
  have two: "confined u st (snd (mail_SendPasswordChangedNotice E e st1))" for e
    using own.step_trans [OF one] send_mail_confined by (auto simp: keeps_def mail_SendPasswordChangedNotice_def)
  show "confined u st st'"
    using a c one two by (auto simp: account_SetInitialPassword_def own.same_step split: sum.splits)
qed

lemma RequestEmailChange_confined:
  assumes "gorm_rollback E"
  shows "keeps (confined u) (RequestEmailChange S E u new)"
proof (rule keepsI)
  fix st r st' assume a: "RequestEmailChange S E u new st = (r, st')"
  have tx: "keeps (confined u) (email_change_tx E u e raw h t)" for e raw h t
  proof (rule keepsI)
    fix st r st' assume "email_change_tx E u e raw h t st = (r, st')"
    then show "confined u st st'" using update_mail_confined [of E u _ st _ _ r st']
      by (auto simp: email_change_tx_def own.same_step mail_SendEmailChangeConfirmation_def split: dbres.splits)
  qed
  show "confined u st st'"
    using a keepsD [OF own.keeps_Transaction [OF assms tx], THEN after_bump]
    by (auto simp: RequestEmailChange_def GenerateOpaqueToken_def Let_def own.same_step own.bump_step
        split: sum.splits if_splits option.splits dbres.splits)
qed

lemma RequestDeletion_confined:
  assumes "gorm_rollback E"
  shows "keeps (confined u) (RequestDeletion S E u)"
proof (rule keepsI)
  fix st r st' assume a: "RequestDeletion S E u st = (r, st')"
  have tx: "keeps (confined u) (deletion_tx E x u raw h t)" for x raw h t
  proof (rule keepsI)
    fix st r st' assume d: "deletion_tx E x u raw h t st = (r, st')"
    show "confined u st st'"
    proof (cases "UpdateFields E u (schedule_deletion (clk E) h t) st")
      case DbErr
      with d show ?thesis by (simp add: deletion_tx_def own.same_step)
    next
      case (DbOk st1)
      obtain n st2 where v: "session_RevokeAll E u None st1 = (n, st2)" by (cases "session_RevokeAll E u None st1")
      have two: "confined u st st2" by (rule update_revoke_confined [OF DbOk _ v]) (simp add: schedule_deletion_def)
      have "confined u st st3" if "send_mail E m st2 = (x, st3)" for m x st3
        using own.step_trans [OF two keepsD [OF send_mail_confined that]] .
      with d DbOk v two show ?thesis
        by (auto simp: deletion_tx_def mail_SendAccountDeletionEmail_def split: sum.splits)
    qed
  qed
  show "confined u st st'"
    using a keepsD [OF own.keeps_Transaction [OF assms tx], THEN after_bump]
    by (auto simp: RequestDeletion_def GenerateOpaqueToken_def Let_def own.same_step own.bump_step
        split: sum.splits if_splits option.splits dbres.splits)
qed

subsection \<open>The second factor\<close>

lemma mfa_Update_confined:
  assumes "mfa_Update E m st = DbOk st'" and "m0 \<in> set (t_mfa_methods st)" and "mf_id m0 = mf_id m"
    and "mf_user_id m0 = u" and "mf_user_id m = u"
  shows "confined u st st'"
  using assms confined_save_method [of m u m0 st] by (simp add: mfa_Update_DbOk)

lemma mfa_Delete_confined:
  assumes "mfa_Delete E (mf_id m0) st = DbOk st'" and "m0 \<in> set (t_mfa_methods st)" and "mf_user_id m0 = u"
  shows "confined u st st'"
  using assms confined_delete_method [of m0 st u] by (auto simp: mfa_Delete_def stmt_def split: if_splits)

lemma own_method: "verified_method st u = Some m \<Longrightarrow> m \<in> set (t_mfa_methods st) \<and> mf_user_id m = u"
  by (simp add: verified_methodD)

lemma own_verified: "db_maybe (FindVerifiedByUser E u st) = Some m \<Longrightarrow> m \<in> set (t_mfa_methods st) \<and> mf_user_id m = u"
  using own_method [OF FindVerifiedByUser_Some] by simp

lemma own_enrolled: "db_maybe (FindByUserAndType E u ty st) = Some m \<Longrightarrow> m \<in> set (t_mfa_methods st) \<and> mf_user_id m = u"
  by (auto simp: FindByUserAndType_def stmt_def split: if_splits dest: first_where_SomeD)

lemma draw_backup_codes_tables: "draw_backup_codes E n st = (r, st') \<Longrightarrow> tables st' = tables st"
proof (induction n arbitrary: st r)
  case (Suc n)
  then show ?case by (auto simp: GenerateRandomString_def split: option.splits prod.splits)
qed simp

lemma generateBackupCodes_tables: "generateBackupCodes E st = (r, st') \<Longrightarrow> tables st' = tables st"
  by (auto simp: generateBackupCodes_def draw_backup_codes_tables split: prod.splits option.splits)

lemma tables_methods: "tables st' = tables st \<Longrightarrow> t_mfa_methods st' = t_mfa_methods st"
  by (rule tables_field) simp_all

lemma mfa_Disable_confined: "keeps (confined u) (mfa_Disable E u code)"
proof (rule keepsI)
  fix st r st' assume "mfa_Disable E u code st = (r, st')"
  then show "confined u st st'"
    using mfa_Delete_confined [of E _ st _ u] own_verified [of E u st]
    by (auto simp: mfa_Disable_def own.same_step split: option.splits if_splits dbres.splits)
qed

lemma mfa_ForceDisable_confined: "keeps (confined u) (mfa_ForceDisable E u)"
proof (rule keepsI)
  fix st r st' assume "mfa_ForceDisable E u st = (r, st')"
  then show "confined u st st'"
    using mfa_Delete_confined [of E _ st _ u] own_verified [of E u st]
    by (auto simp: mfa_ForceDisable_def own.same_step split: option.splits if_splits dbres.splits)
qed

text \<open>Fresh backup codes stored in the own method.\<close>

lemma new_codes_confined:
  assumes "generateBackupCodes E st = (r, st1)" and "m0 \<in> set (t_mfa_methods st)" and "mf_user_id m0 = u"
    and "mf_id m = mf_id m0" and "mf_user_id m = u" and "mfa_Update E m st1 = DbOk st'"
  shows "confined u st st'"
proof -
  have t: "tables st1 = tables st" by (rule generateBackupCodes_tables [OF assms(1)])
  have "confined u st1 st'"
    using mfa_Update_confined [OF assms(6), of m0 u] assms(2-5) tables_methods [OF t] by simp
  then show ?thesis by (rule own.step_trans [OF own.step_tables [OF t]])
qed

lemma codes_drawn_confined: "generateBackupCodes E st = (r, st1) \<Longrightarrow> confined u st st1"
  by (rule own.step_tables) (rule generateBackupCodes_tables)

lemma mfa_Verify_confined: "keeps (confined u) (mfa_Verify E u code)"
proof (rule keepsI)
  fix st r st' assume a: "mfa_Verify E u code st = (r, st')"
  show "confined u st st'"
  proof (cases "db_maybe (FindByUserAndType E u ''totp'' st)")
    case None
    with a show ?thesis by (simp add: mfa_Verify_def own.same_step)
  next
    case (Some m)
    have m: "m \<in> set (t_mfa_methods st)" "mf_user_id m = u" using own_enrolled [OF Some] by simp_all
    obtain x st1 where g: "generateBackupCodes E st = (x, st1)" by (cases "generateBackupCodes E st")
    have "confined u st st2" if "mfa_Update E (m\<lparr>mf_verified := True, mf_backup_codes := h\<rparr>) st1 = DbOk st2" for h st2
      by (rule new_codes_confined [OF g m _ _ that]) (simp_all add: m)
    with a Some g codes_drawn_confined [OF g] show ?thesis
      by (auto simp: mfa_Verify_def own.same_step split: option.splits if_splits dbres.splits prod.splits)
  qed
qed

lemma RegenerateBackupCodes_confined: "keeps (confined u) (RegenerateBackupCodes E u code)"
proof (rule keepsI)
  fix st r st' assume a: "RegenerateBackupCodes E u code st = (r, st')"
  show "confined u st st'"
  proof (cases "db_maybe (FindVerifiedByUser E u st)")
    case None
    with a show ?thesis by (simp add: RegenerateBackupCodes_def own.same_step)
  next
    case (Some m)
    have m: "m \<in> set (t_mfa_methods st)" "mf_user_id m = u" using own_verified [OF Some] by simp_all
    obtain x st1 where g: "generateBackupCodes E st = (x, st1)" by (cases "generateBackupCodes E st")
    have "confined u st st2" if "mfa_Update E (m\<lparr>mf_backup_codes := h\<rparr>) st1 = DbOk st2" for h st2
      by (rule new_codes_confined [OF g m _ _ that]) (simp_all add: m)
    with a Some g codes_drawn_confined [OF g] show ?thesis
      by (auto simp: RegenerateBackupCodes_def own.same_step split: option.splits if_splits dbres.splits prod.splits)
  qed
qed

lemma mfa_ValidateCode_confined: "keeps (confined u) (mfa_ValidateCode E u code)"
proof (rule keepsI)
  fix st r st' assume "mfa_ValidateCode E u code st = (r, st')"
  then show "confined u st st'"
    using mfa_Update_confined [of E _ st _ _ u] own_verified [of E u st]
    by (auto simp: mfa_ValidateCode_def Let_def own.same_step split: option.splits if_splits dbres.splits)
qed

lemma mfa_Create_confined:
  assumes "mfa_Create E m st = (x, st')" and "mf_user_id m = u"
  shows "confined u st st'"
  using assms confined_insert_method [of "m\<lparr>mf_id := i\<rparr>" u "bump st" for i, THEN after_bump]
  by (auto simp: mfa_Create_def new_uuid_def stmt_opt_def own.bump_step split: option.splits dbres.splits if_splits)

lemma mfa_Enroll_confined: "keeps (confined u) (mfa_Enroll E u email)"
proof (rule keepsI)
  fix st r st' assume a: "mfa_Enroll E u email st = (r, st')"
  show "confined u st st'"
  proof (cases "FindByUserAndType E u ''totp'' st")
    case DbErr
    with a show ?thesis by (simp add: mfa_Enroll_def own.same_step)
  next
    case (DbOk existing)
    define st1 where "st1 = (case existing of None \<Rightarrow> st | Some m \<Rightarrow> db_ignore st (mfa_Delete E (mf_id m) st))"
    have one: "confined u st st1"
    proof (cases existing)
      case (Some m)
      have "m \<in> set (t_mfa_methods st) \<and> mf_user_id m = u" by (rule own_enrolled [of E u "''totp''"]) (simp add: DbOk Some)
      then show ?thesis using mfa_Delete_confined [of E m st _ u]
        by (cases "mfa_Delete E (mf_id m) st") (auto simp: st1_def Some own.same_step)
    qed (simp add: st1_def own.same_step)
    have "confined u st1 st'" if "\<not> (case existing of None \<Rightarrow> False | Some m \<Rightarrow> mf_verified m)"
      using a DbOk that mfa_Create_confined [of E _ "bump st1" _ _ u, THEN after_bump]
      by (auto simp: mfa_Enroll_def Let_def own.bump_step simp flip: st1_def split: option.splits prod.splits dbres.splits)
    then show ?thesis
      using own.step_trans [OF one] a DbOk
      by (cases "case existing of None \<Rightarrow> False | Some m \<Rightarrow> mf_verified m") (auto simp: mfa_Enroll_def own.same_step)
  qed
qed

subsection \<open>Passkeys and step-up tokens\<close>

lemma storeChallenge_confined: "keeps (confined u) (storeChallenge W E who purpose sess)"
proof (rule keepsI)
  fix st r st' assume "storeChallenge W E who purpose sess st = (r, st')"
  then show "confined u st st'"
    using after_bump [OF confined_challenges [of u "bump st"]]
    by (auto simp: storeChallenge_def new_uuid_def Let_def CreateChallenge_def stmt_opt_def own.same_step own.bump_step
        split: option.splits dbres.splits if_splits)
qed

lemma popChallenge_confined: "keeps (confined u) (popChallenge W E i who purpose)"
proof (rule keepsI)
  fix st r st' assume "popChallenge W E i who purpose st = (r, st')"
  then show "confined u st st'"
    using confined_challenges [of u st]
    by (auto simp: popChallenge_def DeleteChallenge_def drop_challenge_def stmt_def own.same_step
        split: option.splits dbres.splits if_splits)
qed

lemma BeginRegistration_confined: "keeps (confined u) (BeginRegistration W E u)"
proof (rule keepsI)
  fix st r st' assume "BeginRegistration W E u st = (r, st')"
  then show "confined u st st'"
    using keepsD [OF storeChallenge_confined [of u W E], of _ _ _ "bump st", THEN after_bump]
    by (auto simp: BeginRegistration_def own.same_step own.bump_step split: sum.splits prod.splits)
qed

lemma BeginReauth_confined: "keeps (confined u) (BeginReauth W E u)"
proof (rule keepsI)
  fix st r st' assume "BeginReauth W E u st = (r, st')"
  then show "confined u st st'"
    using keepsD [OF storeChallenge_confined [of u W E], of _ _ _ "bump st", THEN after_bump]
    by (auto simp: BeginReauth_def own.same_step own.bump_step split: sum.splits prod.splits if_splits)
qed

lemma passkey_Create_confined:
  assumes "passkey_Create E p st = (x, st')" and "pk_user_id p = u"
  shows "confined u st st'"
  using assms confined_insert_passkey [of "p\<lparr>pk_id := i, pk_created_at := wall E\<rparr>" u "bump st" for i, THEN after_bump]
  by (auto simp: passkey_Create_def new_uuid_def Let_def stmt_opt_def own.bump_step
      split: option.splits dbres.splits if_splits)

lemma FinishRegistration_confined: "keeps (confined u) (FinishRegistration W E u i name response)"
proof (rule keepsI)
  fix st r st' assume a: "FinishRegistration W E u i name response st = (r, st')"
  obtain x st1 where p: "popChallenge W E i (Some u) ''registration'' st = (x, st1)"
    by (cases "popChallenge W E i (Some u) ''registration'' st")
  have one: "confined u st st1" by (rule keepsD [OF popChallenge_confined p])
  have "confined u st st2" if "passkey_Create E (passkey_of E u name c) st1 = (y, st2)" for c y st2
    using own.step_trans [OF one passkey_Create_confined [OF that]] by (simp add: passkey_of_def)
  with a p one show "confined u st st'"
    by (auto simp: FinishRegistration_def split: sum.splits prod.splits dbres.splits)
qed

lemma passkey_Rename_confined: "keeps (confined u) (passkey_Rename E i u n)"
proof (rule keepsI)
  fix st r st' assume a: "passkey_Rename E i u n st = (r, st')"
  have "confined u st (st\<lparr>t_passkeys := update_where (\<lambda>p. pk_id p = i \<and> pk_user_id p = u)
      (\<lambda>p. p\<lparr>pk_name := n\<rparr>) (t_passkeys st)\<rparr>)"
    by (rule confined_passkeys) simp_all
  with a show "confined u st st'"
    by (auto simp: passkey_Rename_def passkey_UpdateName_def stmt_opt_def own.same_step split: dbres.splits if_splits)
qed

lemma passkey_Delete_confined: "keeps (confined u) (passkey_Delete E i u)"
proof (rule keepsI)
  fix st r st' assume "passkey_Delete E i u st = (r, st')"
  with confined_delete_passkey [of u st i] show "confined u st st'"
    by (auto simp: passkey_Delete_def passkey_Delete_row_def stmt_opt_def own.same_step split: dbres.splits if_splits)
qed

lemma own_passkey_update:
  assumes "p \<in> set (t_passkeys st)" and "pk_user_id p = u" and "\<And>x. pk_id (f x) = pk_id x"
    and "\<And>x. pk_user_id (f x) = pk_user_id x"
  shows "confined u st (st\<lparr>t_passkeys := update_where (\<lambda>x. pk_id x = pk_id p) f (t_passkeys st)\<rparr>)"
proof (rule confined_passkeys [OF assms(3,4)])
  fix x assume "own_keys st" "x \<in> set (t_passkeys st)" "pk_id x = pk_id p"
  then have "x = p" using assms(1) keys_unique_same [of pk_id "t_passkeys st" x p] by (simp add: own_keys_def)
  then show "pk_user_id x = u" using assms(2) by simp
qed

lemma ValidateReauthAssertion_confined: "keeps (confined u) (ValidateReauthAssertion W E u i response)"
proof (rule keepsI)
  fix st r st' assume a: "ValidateReauthAssertion W E u i response st = (r, st')"
  obtain x st1 where p: "popChallenge W E i (Some u) ''reauth'' st = (x, st1)"
    by (cases "popChallenge W E i (Some u) ''reauth'' st")
  have one: "confined u st st1" by (rule keepsD [OF popChallenge_confined p])
  have two: "confined u st (db_ignore st1 (SetCloneWarning E (pk_id k) True st1))"
      "confined u st (db_ignore st1 (UpdateSignCount E (pk_id k) n t st1))"
    if l: "list_passkeys E u msg st1 = Inr ps" and k: "first_where P ps = Some k" for msg ps P k n t
  proof -
    have "k \<in> set ps" using first_where_in [OF k] by simp
    then have k: "k \<in> set (t_passkeys st1)" "pk_user_id k = u"
      using l by (auto simp: list_passkeys_def passkey_ListByUser_def user_passkeys_def stmt_def split: dbres.splits if_splits)
    note up = own.step_trans [OF one own_passkey_update [OF k]]
    show "confined u st (db_ignore st1 (SetCloneWarning E (pk_id k) True st1))"
      "confined u st (db_ignore st1 (UpdateSignCount E (pk_id k) n t st1))"
      using one by (simp_all add: SetCloneWarning_def UpdateSignCount_def stmt_def up)
  qed
  from a p one two show "confined u st st'"
    by (auto simp: ValidateReauthAssertion_def split: sum.splits option.splits if_splits)
qed

lemma UnlinkAccount_confined: "keeps (confined u) (UnlinkAccount E i u)"
proof (rule keepsI)
  fix st r st' assume a: "UnlinkAccount E i u st = (r, st')"
  show "confined u st st'"
  proof (cases "st' = st")
    case False
    with a obtain l where l: "first_where (\<lambda>l. fl_id l = i) (t_fed_links st) = Some l" "fl_user_id l = u"
      and st': "st' = st\<lparr>t_fed_links := delete_where (\<lambda>l. fl_id l = i) (t_fed_links st)\<rparr>"
      by (auto simp: UnlinkAccount_def FindLinkByID_def DeleteLink_def stmt_def split: dbres.splits option.splits if_splits)
    have "l \<in> set (t_fed_links st)" "fl_id l = i" using first_where_in [OF l(1)] by simp_all
    then show ?thesis unfolding st' using confined_delete_link [of l st u] l(2) by simp
  qed (simp add: own.same_step)
qed

lemma VerifyPassword_confined: "keeps (confined u) (VerifyPassword E u pw)"
proof (rule keepsI)
  fix st r st' assume a: "VerifyPassword E u pw st = (r, st')"
  have "confined u st (snd (maybeRehash E x pw b st))" if "us_id x = u" for x b
    using that UpdateFields_confined [of E u _ "bump st", THEN after_bump]
    by (auto simp: maybeRehash_def HashPassword_def own.same_step own.bump_step split: option.split dbres.split)
  moreover have "us_id x = u" if "user_FindByID E u st = DbOk (Some x)" for x
    using that by (auto simp: user_FindByID_def stmt_def user_row_def split: if_splits dest: first_where_SomeD)
  ultimately show "confined u st st'"
    using a by (auto simp: VerifyPassword_def own.same_step split: dbres.splits option.splits prod.splits bool.splits)
qed

lemma verifyMethod_confined: "keeps (confined u) (verifyMethod S E u q)"
proof (rule keepsI)
  fix st r st' assume a: "verifyMethod S E u q st = (r, st')"
  have "confined u st st1" if "verify_password_method E u q st = (x, st1)" for x st1
    using that keepsD [OF VerifyPassword_confined [of u E "iq_password q"]]
    by (auto simp: verify_password_method_def own.same_step split: if_splits prod.splits sum.splits bool.splits)
  moreover have "confined u st st1" if "verify_code_method S E u q st = (x, st1)" for x st1
    using that keepsD [OF mfa_ValidateCode_confined [of u E "iq_code q"]]
    by (auto simp: verify_code_method_def own.same_step split: if_splits prod.splits sum.splits bool.splits)
  moreover have "confined u st st1" if "verify_passkey_method S E u q st = (x, st1)" for x st1
    using that keepsD [OF ValidateReauthAssertion_confined [of u _ E "iq_challenge_id q" "iq_response q"]]
    by (auto simp: verify_passkey_method_def own.same_step split: if_splits prod.splits sum.splits bool.splits option.splits)
  ultimately show "confined u st st'"
    using a by (auto simp: verifyMethod_def own.same_step split: if_splits)
qed

lemma reauth_Issue_confined: "keeps (confined u) (reauth_Issue S E u s q)"
proof (rule keepsI)
  fix st r st' assume a: "reauth_Issue S E u s q st = (r, st')"
  obtain x st1 where v: "verifyMethod S E u q st = (x, st1)" by (cases "verifyMethod S E u q st")
  have one: "confined u st st1" by (rule keepsD [OF verifyMethod_confined v])
  have two: "confined u st (bump st1)" by (rule own.step_trans [OF one own.bump_step])
  have "confined u (bump st1) ((bump st1)\<lparr>t_reauth_tokens := ts\<rparr>)"
    if "insert_row ra_id t (t_reauth_tokens (bump st1)) = Some ts" "ra_user_id t = u" for t ts
    using that confined_insert_reauth [of t u "bump st1"] by (simp add: insert_row_Some_iff)
  then have three: "confined u st st2" if "reauth_Create E t (bump st1) = DbOk st2" "ra_user_id t = u" for t st2
    using that own.step_trans [OF two] by (auto simp: reauth_Create_def stmt_opt_def split: if_splits option.splits)
  show "confined u st st'"
    using a v one two three
    by (auto simp: reauth_Issue_def GenerateOpaqueToken_def Let_def split: sum.splits option.splits dbres.splits)
qed

section \<open>The calls of a signed-in person\<close>

datatype own_call =
    SignOut string
  | SignOutOthers
  | EnrollFactor
  | ConfirmFactor "string body"
  | RemoveFactor "string body"
  | NewCodes "string body"
  | StepUp "issue_request body"
  | OfferPasskey
  | SavePasskey "(uuid \<times> string \<times> string) body"
  | RenamePasskey string "string body"
  | RemovePasskey string
  | ChallengePasskey
  | EditProfile "profile_input body"
  | MailAgain
  | NewPassword string string
  | FirstPassword string
  | NewAddress string
  | CloseAccount
  | Unlink string

record own_services =
  os_webauthn :: webauthn_lib
  os_reauth :: reauth_service
  os_account :: account_service

text \<open>What a call leaves of the database, the policies and gates in front of it aside.\<close>

fun own_effect :: "own_services \<Rightarrow> env \<Rightarrow> gin \<Rightarrow> own_call \<Rightarrow> db \<Rightarrow> db" where
  "own_effect S E g (SignOut s) st = snd (session_Revoke_handler E g s st)"
| "own_effect S E g SignOutOthers st = snd (session_RevokeAll_handler E g st)"
| "own_effect S E g EnrollFactor st = snd (mfa_Enroll_handler E g st)"
| "own_effect S E g (ConfirmFactor b) st = snd (mfa_Verify_handler E g b st)"
| "own_effect S E g (RemoveFactor b) st = snd (mfa_Disable_handler E g b st)"
| "own_effect S E g (NewCodes b) st = snd (RegenerateBackupCodes_handler E g b st)"
| "own_effect S E g (StepUp b) st = snd (reauth_Issue_handler (os_reauth S) E g b st)"
| "own_effect S E g OfferPasskey st = snd (RegisterBegin (os_webauthn S) E g st)"
| "own_effect S E g (SavePasskey b) st = snd (RegisterFinish (os_webauthn S) E g b st)"
| "own_effect S E g (RenamePasskey s b) st = snd (passkey_Rename_handler E g s b st)"
| "own_effect S E g (RemovePasskey s) st = snd (passkey_Delete_handler E g s st)"
| "own_effect S E g ChallengePasskey st = snd (ReauthBegin (os_webauthn S) E g st)"
| "own_effect S E g (EditProfile b) st = snd (UpdateProfile_handler E g b st)"
| "own_effect S E g MailAgain st = snd (ResendMyVerification E g st)"
| "own_effect S E g (NewPassword old new) st = snd (signed_in g (\<lambda>u. account_ChangePassword E u old new) st)"
| "own_effect S E g (FirstPassword new) st = snd (signed_in g (\<lambda>u. account_SetInitialPassword E u new) st)"
| "own_effect S E g (NewAddress a) st = snd (signed_in g (\<lambda>u. RequestEmailChange (os_account S) E u a) st)"
| "own_effect S E g CloseAccount st = snd (signed_in g (RequestDeletion (os_account S) E) st)"
| "own_effect S E g (Unlink s) st = snd (UnlinkAccount_handler E g s st)"

lemma keeps_snd: "keeps R op \<Longrightarrow> R st (snd (op st))"
  by (simp add: keeps_def)

lemmas own_operations = session_Revoke_confined session_RevokeAll_confined mfa_Enroll_confined mfa_Verify_confined
  mfa_Disable_confined RegenerateBackupCodes_confined reauth_Issue_confined BeginRegistration_confined
  FinishRegistration_confined passkey_Rename_confined passkey_Delete_confined BeginReauth_confined
  UpdateProfile_confined SendVerificationEmail_confined account_ChangePassword_confined
  account_SetInitialPassword_confined RequestEmailChange_confined RequestDeletion_confined UnlinkAccount_confined

lemmas own_handlers = session_Revoke_handler_def session_RevokeAll_handler_def mfa_Enroll_handler_def
  mfa_Verify_handler_def mfa_Disable_handler_def RegenerateBackupCodes_handler_def reauth_Issue_handler_def
  RegisterBegin_def RegisterFinish_def passkey_Rename_handler_def passkey_Delete_handler_def ReauthBegin_def
  UpdateProfile_handler_def ResendMyVerification_def UnlinkAccount_handler_def

lemma keeps_prod: "(\<And>a b. keeps R (k a b)) \<Longrightarrow> keeps R (case v of (a, b) \<Rightarrow> k a b)"
  by (cases v) simp

lemma keeps_session: "(\<And>s. keeps (confined u) (k s)) \<Longrightarrow> keeps (confined u) (case v of None \<Rightarrow> refused e | Some s \<Rightarrow> k s)"
  by (simp add: own.keeps_refused split: option.split)

lemma own_effect_confined:
  assumes "gorm_rollback E" and "gc_user_id g = Some u"
  shows "confined u st (own_effect S E g c st)"
  by (cases c; hypsubst; unfold own_effect.simps own_handlers signed_in_def assms(2) option.case;
      rule keeps_snd; intro own.keeps_combinators own_operations assms(1) keeps_prod keeps_session)

lemma own_effects_confined:
  assumes "\<forall>(E, g, c) \<in> set run. gorm_rollback E \<and> gc_user_id g = Some u"
  shows "confined u st (fold (\<lambda>(E, g, c). own_effect S E g c) run st)"
  using assms
proof (induction run arbitrary: st)
  case (Cons x run)
  obtain E g c where x: "x = (E, g, c)" by (cases x)
  have "confined u st (own_effect S E g c st)" using Cons.prems by (simp add: x own_effect_confined)
  moreover have "confined u (own_effect S E g c st) (fold (\<lambda>(E, g, c). own_effect S E g c) run (own_effect S E g c st))"
    using Cons.prems by (intro Cons.IH) simp
  ultimately show ?case using own.step_trans by (simp add: x)
qed (simp add: own.same_step)

end
