(* ===== verification/M2MProperties.thy ===== *)
theory M2MProperties
  imports M2M OwnRows Demo
begin

text \<open>
  The machine to machine API: which token a change needs, and what becomes of the roles that services
  may not hand out.
\<close>

section \<open>Scopes\<close>

text \<open>A route of the machine to machine API changes the database only on behalf of a service: the request
  carries a stored, unexpired, unrevoked access token that belongs to no user, was issued for the audience
  \<^verbatim>\<open>urn:orion:m2m\<close> and carries the scope of the route (reading, writing, deleting, credentials or roles).\<close>

theorem m2m_needs_scope:
  assumes "m2m_serve E protected q c st = (r, st')" and "st' \<noteq> st"
  shows "r = None \<and> (\<exists>t \<in> set (t_access_tokens st).
    at_id t = HashToken (sha256 E) (ParseBearer (rq_header q ''Authorization'')) \<and> \<not> at_revoked t \<and>
    wall E < at_expires_at t \<and> at_user_id t = None \<and> at_audience t = Some ''urn:orion:m2m'' \<and>
    m2m_scope c \<in> set (at_scopes t))"
proof -
  obtain g where g: "RequireClientScope E (m2m_scope c) m2mAudience st q empty_gin = Inr g"
    using assms by (auto simp: m2m_serve_def split: sum.splits)
  then obtain t where "LookupActiveAccessToken E (ParseBearer (rq_header q ''Authorization'')) st = Inr (Some t)"
    and "at_user_id t = None" "at_audience t = Some ''urn:orion:m2m''" "m2m_scope c \<in> set (at_scopes t)"
    by (auto simp: RequireClientScope_def Let_def m2mAudience_def split: if_splits sum.splits option.splits)
  with assms(1) g show ?thesis
    using LookupActiveAccessToken_Some [of E "ParseBearer (rq_header q ''Authorization'')" st t]
    by (auto simp: m2m_serve_def access_row_def at_IsValid_def dest!: first_where_SomeD)
qed

section \<open>Protected roles\<close>

definition no_new :: "uuid list \<Rightarrow> db \<Rightarrow> db \<Rightarrow> bool" where
  "no_new P st st' \<longleftrightarrow> (\<forall>(u, r) \<in> set (t_user_roles st'). r \<in> set P \<longrightarrow> (u, r) \<in> set (t_user_roles st))"

interpretation grants: db_step "no_new P"
proof
  fix st st' :: db assume t: "tables st' = tables st"
  have "t_user_roles st' = t_user_roles st" by (rule tables_field [OF t]) simp
  then show "no_new P st st'" by (auto simp: no_new_def)
next
  fix a b c :: db assume "no_new P a b" "no_new P b c"
  then show "no_new P a c" by (fastforce simp: no_new_def)
qed

lemma no_new_same: "t_user_roles st' = t_user_roles st \<Longrightarrow> no_new P st st'"
  by (auto simp: no_new_def)

lemma UpdateFields_roles: "UpdateFields E i f st = DbOk st' \<Longrightarrow> t_user_roles st' = t_user_roles st"
  by (auto dest: UpdateFields_table)

lemma send_mail_no_new: "send_mail E m st = (x, st') \<Longrightarrow> no_new P st st'"
  by (rule no_new_same) (simp add: send_mail_users)

lemma session_RevokeAll_no_new: "keeps (no_new P) (session_RevokeAll E u c)"
  by (rule keepsI, rule no_new_same)
     (auto simp: session_RevokeAll_def RevokeAllForUser_def stmt_def split: if_splits)

lemma session_Revoke_no_new: "keeps (no_new P) (session_Revoke E i u)"
  by (rule keepsI, rule no_new_same)
     (auto simp: session_Revoke_def session_Revoke_row_def stmt_def split: if_splits dbres.splits option.splits)

lemma M2MUpdate_no_new: "keeps (no_new P) (M2MUpdate E u i)"
  by (rule keepsI, rule no_new_same)
     (auto simp: M2MUpdate_def save_user_def user_Update_def stmt_opt_def split: if_splits dbres.splits option.splits sum.splits)

lemma user_Delete_no_new: "keeps (no_new P) (user_Delete E u)"
  by (rule keepsI)
     (auto simp: user_Delete_def user_Delete_row_def delete_user_rows_def delete_where_def Let_def stmt_def no_new_def
       split: if_splits dbres.splits sum.splits)

lemma SetPassword_no_new: "keeps (no_new P) (SetPassword E u pw)"
  by (rule keepsI, rule no_new_same)
     (auto simp: SetPassword_def HashPassword_def bump_def db_write_def UpdateFields_roles split: dbres.splits option.splits)

lemma Unlock_no_new: "keeps (no_new P) (Unlock E u)"
  by (rule keepsI, rule no_new_same) (auto simp: Unlock_def db_write_def UpdateFields_roles split: dbres.splits)

lemma mfa_ForceDisable_no_new: "keeps (no_new P) (mfa_ForceDisable E u)"
  by (rule keepsI, rule no_new_same)
     (auto simp: mfa_ForceDisable_def mfa_Delete_def stmt_def split: if_splits dbres.splits option.splits)

lemma passkey_Delete_no_new: "keeps (no_new P) (passkey_Delete E i u)"
  by (rule keepsI, rule no_new_same)
     (auto simp: passkey_Delete_def passkey_Delete_row_def stmt_opt_def split: if_splits dbres.splits)

lemma UnlinkAccount_no_new: "keeps (no_new P) (UnlinkAccount E i u)"
  by (rule keepsI, rule no_new_same)
     (auto simp: UnlinkAccount_def DeleteLink_def stmt_def split: if_splits dbres.splits option.splits)

lemma RemoveRole_no_new: "keeps (no_new P) (RemoveRole E u r)"
  by (rule keepsI)
     (auto simp: RemoveRole_def RemoveRole_row_def stmt_def no_new_def delete_where_def split: if_splits dbres.splits)

lemma AssignRole_no_new: "r \<notin> set P \<Longrightarrow> keeps (no_new P) (AssignRole E u r)"
  by (rule keepsI) (auto simp: no_new_def dest: AssignRole_roles)

lemma assign_roles_no_new: "set rs \<inter> set P = {} \<Longrightarrow> keeps (no_new P) (assign_roles E u rs)"
proof (induction rs)
  case Nil
  then show ?case by (simp add: keeps_def grants.same_step)
next
  case (Cons r rs)
  show ?case
  proof (rule keepsI)
    fix st x st' assume a: "assign_roles E u (r # rs) st = (x, st')"
    obtain y st1 where y: "AssignRole E u r st = (y, st1)" by (cases "AssignRole E u r st")
    have one: "no_new P st st1" using keepsD [OF AssignRole_no_new y] Cons.prems by simp
    have "no_new P st1 st2" if "assign_roles E u rs st1 = (z, st2)" for z st2
      using keepsD [OF Cons.IH that] Cons.prems by auto
    with a y one show "no_new P st st'" using grants.step_trans by (auto split: sum.splits)
  qed
qed

lemma create_user_step_roles: "create_user_step E v st = (x, st') \<Longrightarrow> t_user_roles st' = t_user_roles st"
  by (auto simp: create_user_step_def user_Create_def new_uuid_def bump_def stmt_opt_def Let_def
      split: option.splits prod.splits dbres.splits if_splits)

lemma create_with_roles_no_new:
  assumes "set rs \<inter> set P = {}"
  shows "keeps (no_new P) (create_with_roles E v rs)"
proof (rule keepsI)
  fix st x st' assume a: "create_with_roles E v rs st = (x, st')"
  obtain y st1 where y: "create_user_step E v st = (y, st1)" by (cases "create_user_step E v st")
  have one: "no_new P st st1" by (rule no_new_same [OF create_user_step_roles [OF y]])
  have "no_new P st1 st2" if "assign_roles E u rs st1 = (z, st2)" for u z st2
    by (rule keepsD [OF assign_roles_no_new [OF assms] that])
  with a y one show "no_new P st st'"
    using grants.step_trans by (auto simp: create_with_roles_def split: sum.splits if_splits prod.splits)
qed

lemma RegisterAdmin_no_new:
  assumes "gorm_rollback E" and "set rs \<inter> set P = {}"
  shows "keeps (no_new P) (RegisterAdmin E i rs)"
proof (rule keepsI)
  fix st x st' assume a: "RegisterAdmin E i rs st = (x, st')"
  obtain y st1 where y: "register_checks E (lower_trim (ri_email i)) (ri_password i) (derefStr (ri_display_name i)) st = (y, st1)"
    by (cases "register_checks E (lower_trim (ri_email i)) (ri_password i) (derefStr (ri_display_name i)) st")
  have one: "no_new P st st1" by (rule grants.step_tables [OF register_checks_tables [OF y]])
  have "no_new P st1 st2" if "Transaction E (create_with_roles E v rs) st1 = (z, st2)" for v z st2
    by (rule keepsD [OF grants.keeps_Transaction [OF assms(1) create_with_roles_no_new [OF assms(2)]] that])
  with a y one show "no_new P st st'"
    using grants.step_trans by (auto simp: RegisterAdmin_def Let_def split: sum.splits)
qed

lemma m2m_password_no_new: "keeps (no_new P) (m2m_password E pw)"
  by (rule keepsI, rule no_new_same)
     (auto simp: m2m_password_def GenerateRandomString_def bump_def split: if_splits option.splits)

lemma m2m_Create_no_new:
  assumes "gorm_rollback E" and "set (cu_role_ids i) \<inter> set P = {}"
  shows "keeps (no_new P) (m2m_Create E i)"
proof -
  have last: "keeps (no_new P) (\<lambda>st. case m2m_extra_fields E i v st of (w, st1) \<Rightarrow> (Inr (w, g), st1))" for v g
  proof (rule keepsI)
    fix st r st' assume "(case m2m_extra_fields E i v st of (w, st1) \<Rightarrow> (Inr (w, g), st1)) = (r, st')"
    then show "no_new P st st'" using keepsD [OF M2MUpdate_no_new]
      by (auto simp: m2m_extra_fields_def grants.same_step split: prod.splits sum.splits if_splits)
  qed
  show ?thesis unfolding m2m_Create_def
    by (intro grants.keeps_and_then keeps_prod m2m_password_no_new RegisterAdmin_no_new assms last)
qed

lemma m2m_existing_no_new: "keeps (no_new P) op \<Longrightarrow> keeps (no_new P) (m2m_existing E u op)"
proof (rule keepsI)
  fix st r st' assume "keeps (no_new P) op" "m2m_existing E u op st = (r, st')"
  then show "no_new P st st'"
    using keepsD [of "no_new P" op st r st'] by (auto simp: m2m_existing_def grants.same_step split: sum.splits)
qed

lemma m2m_AssignRole_no_new: "keeps (no_new P) (m2m_AssignRole E P u r)"
  by (simp add: m2m_AssignRole_def grants.keeps_refused m2m_existing_no_new AssignRole_no_new)

lemma m2m_SetPassword_no_new: "keeps (no_new P) (m2m_SetPassword E u pw)"
proof -
  have "keeps (no_new P) (\<lambda>st. (Inr (), snd (session_RevokeAll E u None st)))"
    using session_RevokeAll_no_new [of P E u None] by (simp add: keeps_def)
  then show ?thesis unfolding m2m_SetPassword_def
    by (intro m2m_existing_no_new grants.keeps_and_then SetPassword_no_new)
qed

lemmas m2m_services = m2m_Update_def m2m_Delete_def m2m_Unlock_def m2m_ResetMFA_def m2m_RevokeSession_def
  m2m_RevokeAllSessions_def m2m_DeletePasskey_def m2m_UnlinkAccount_def m2m_RemoveRole_def

lemmas m2m_handlers = m2m_Create_handler_def m2m_Update_handler_def m2m_Delete_handler_def m2m_SetPassword_handler_def
  m2m_Unlock_handler_def m2m_ResetMFA_handler_def m2m_RevokeSession_handler_def m2m_RevokeAllSessions_handler_def
  m2m_DeletePasskey_handler_def m2m_UnlinkAccount_handler_def m2m_AssignRole_handler_def m2m_RemoveRole_handler_def
  parseUserID_def parseParamUUID_def

lemmas no_new_operations = M2MUpdate_no_new user_Delete_no_new m2m_SetPassword_no_new Unlock_no_new
  mfa_ForceDisable_no_new session_Revoke_no_new session_RevokeAll_no_new passkey_Delete_no_new UnlinkAccount_no_new
  RemoveRole_no_new m2m_AssignRole_no_new

text \<open>Creation is only harmless when the body names no protected role.\<close>

definition names_protected :: "uuid list \<Rightarrow> m2m_call \<Rightarrow> bool" where
  "names_protected P c \<longleftrightarrow> (case c of CreateUser (Inr i) \<Rightarrow> set (cu_role_ids i) \<inter> set P \<noteq> {} | _ \<Rightarrow> False)"

lemma m2m_effect_no_new:
  assumes "gorm_rollback E" and "\<not> names_protected P c"
  shows "no_new P st (m2m_effect E P c st)"
proof (cases c)
  case (CreateUser b)
  have "keeps (no_new P) (m2m_Create_handler E b)"
    using assms CreateUser unfolding m2m_Create_handler_def
    by (cases b) (simp_all add: bound_def grants.keeps_refused names_protected_def grants.keeps_yields m2m_Create_no_new)
  with CreateUser show ?thesis by (simp add: keeps_def)
qed (hypsubst, unfold m2m_effect.simps m2m_handlers m2m_services,
  (rule grants.same_step | (rule keeps_snd, intro grants.keeps_combinators m2m_existing_no_new no_new_operations)))+

text \<open>C20 Protected roles. Over any sequence of machine to machine requests (with any tokens, bodies and
  environments), no user comes to hold a role of the protected list, provided no creation request names
  one: the guard of the assignment route is complete, creation is the one route without it.\<close>

theorem protected_roles_not_granted:
  assumes "\<forall>(E, q, c) \<in> set run. gorm_rollback E \<and> \<not> names_protected protected c"
    and "r \<in> set protected"
    and "(u, r) \<in> set (t_user_roles (fold (\<lambda>(E, q, c) st. snd (m2m_serve E protected q c st)) run st))"
  shows "(u, r) \<in> set (t_user_roles st)"
proof -
  have "no_new protected st (fold (\<lambda>(E, q, c) st. snd (m2m_serve E protected q c st)) run st)"
    using assms(1)
  proof (induction run arbitrary: st)
    case Nil
    show ?case by (simp add: grants.same_step)
  next
    case (Cons x run)
    obtain E q c where x: "x = (E, q, c)" by (cases x)
    have "no_new protected st (snd (m2m_serve E protected q c st))"
      using Cons.prems by (auto simp: x m2m_serve_def grants.same_step m2m_effect_no_new split: sum.split)
    moreover have "no_new protected (snd (m2m_serve E protected q c st))
        (fold (\<lambda>(E, q, c) st. snd (m2m_serve E protected q c st)) run (snd (m2m_serve E protected q c st)))"
      using Cons.prems by (intro Cons.IH) simp
    ultimately show ?case using grants.step_trans by (simp add: x)
  qed
  then show ?thesis using assms(2,3) by (auto simp: no_new_def)
qed

section \<open>Creation hands out protected roles\<close>

lemma AssignRole_assigned: "AssignRole E u r st = (Inr (), st') \<Longrightarrow> t_user_roles st' = t_user_roles st @ [(u, r)]"
  by (auto simp: AssignRole_def AssignRole_row_def stmt_opt_def split: sum.splits dbres.splits if_splits)

lemma assign_roles_assigned: "assign_roles E u rs st = (Inr (), st') \<Longrightarrow>
    set (t_user_roles st') = set (t_user_roles st) \<union> Pair u ` set rs"
proof (induction rs arbitrary: st)
  case (Cons r rs)
  from Cons.prems obtain st1 where "AssignRole E u r st = (Inr (), st1)" "assign_roles E u rs st1 = (Inr (), st')"
    by (auto split: prod.splits sum.splits)
  then show ?case using Cons.IH AssignRole_assigned [of E u r st st1] by auto
qed simp

lemma M2MUpdate_roles: "M2MUpdate E i inp st = (x, st') \<Longrightarrow> t_user_roles st' = t_user_roles st"
  by (auto simp: M2MUpdate_def save_user_def user_Update_def stmt_opt_def
      split: if_splits dbres.splits option.splits sum.splits)

lemma M2MUpdate_same_user: "M2MUpdate E i inp st = (Inr v, st') \<Longrightarrow> us_id v = i"
  by (auto simp: M2MUpdate_def save_user_def dest: user_row_of_GetByID split: dbres.splits sum.splits)

text \<open>C21 Creation grants what assignment refuses: a user created over the machine to machine API holds every
  role its body names, the protected ones included, while the assignment of a protected role is always
  refused and changes nothing.\<close>

theorem creation_grants_protected:
  assumes "m2m_Create E i st = (Inr (u, g), st')" and "default_role E \<noteq> None" and "r \<in> set (cu_role_ids i)"
    and "r \<in> set protected"
  shows "(us_id u, r) \<in> set (t_user_roles st') \<and>
    m2m_AssignRole E protected v r st' = (Inl (ErrForbidden ''role is protected from m2m assignment''), st')"
proof -
  obtain pw st1 v0 st2 where reg: "RegisterAdmin E \<lparr>ri_email = cu_email i, ri_password = pw,
      ri_display_name = cu_display_name i, ri_extra_fields = [], ri_skip_verification_email = False\<rparr> (cu_role_ids i) st1
      = (Inr v0, st2)" and extra: "m2m_extra_fields E i v0 st2 = (u, st')"
    using assms(1) by (auto simp: m2m_Create_def and_then_def split: prod.splits sum.splits)
  from reg obtain v1 st3 where "create_with_roles E v1 (cu_role_ids i) st3 = (Inr v0, st2)"
    by (auto simp: RegisterAdmin_def Let_def split: prod.splits sum.splits dest!: Transaction_Inr)
  with assms(2) obtain st4 where "assign_roles E (us_id v0) (cu_role_ids i) st4 = (Inr (), st2)"
    by (auto simp: create_with_roles_def split: prod.splits sum.splits)
  then have "(us_id v0, r) \<in> set (t_user_roles st2)" using assign_roles_assigned assms(3) by fastforce
  moreover have "us_id u = us_id v0 \<and> t_user_roles st' = t_user_roles st2"
    using extra
    by (auto simp: m2m_extra_fields_def dest: M2MUpdate_roles M2MUpdate_same_user split: if_splits prod.splits sum.splits)
  ultimately show ?thesis using assms(4) by (simp add: m2m_AssignRole_def refused_def)
qed

section \<open>Witnesses\<close>

definition m2m_token :: access_token where
  "m2m_token = demo_access\<lparr>at_id := HashToken id ''.m1'', at_user_id := None, at_session_id := None,
     at_audience := Some ''urn:orion:m2m'', at_scopes := [''m2m:users:delete'', ''m2m:users:manage_roles'']\<rparr>"

definition m2m_db :: db where
  "m2m_db = demo_db\<lparr>t_access_tokens := [m2m_token], t_user_roles := [(UUID 2, UUID 9)],
     t_roles := [\<lparr>ro_id = UUID 9, ro_name = ''admin'', ro_description = None\<rparr>]\<rparr>"

definition m2m_request :: http_request where
  "m2m_request = \<lparr>rq_method = ''POST'', rq_path = ''/api/v1/m2m/users'', rq_header = (\<lambda>h. ''Bearer .m1''),
     rq_query = (\<lambda>k. []), rq_form = (\<lambda>k. []), rq_cookie = (\<lambda>k. None), rq_ip = ''10.0.0.1''\<rparr>"

lemma m2m_bearer: "ParseBearer (rq_header m2m_request n) = ''.m1''"
proof -
  have "ParseBearer ''Bearer .m1'' = ''.m1''" by code_simp
  then show ?thesis by (simp add: m2m_request_def)
qed

lemma m2m_admitted: "sc \<in> {''m2m:users:delete'', ''m2m:users:manage_roles''} \<Longrightarrow>
    \<exists>g. RequireClientScope demo_env sc m2mAudience m2m_db m2m_request empty_gin = Inr g"
  by (auto simp: RequireClientScope_def m2m_bearer LookupActiveAccessToken_def at_IsValid_def run_store m2m_db_def
      m2m_token_def demo_access_def m2mAudience_def Let_def)

lemma m2m_needs_scope_witness:
  "\<exists>t \<in> set (t_access_tokens m2m_db). \<not> at_revoked t \<and> at_user_id t = None \<and>
     ''m2m:users:delete'' \<in> set (at_scopes t)"
proof -
  obtain g where "RequireClientScope demo_env ''m2m:users:delete'' m2mAudience m2m_db m2m_request empty_gin = Inr g"
    using m2m_admitted [of "''m2m:users:delete''"] by auto
  then obtain r st' where run: "m2m_serve demo_env [] m2m_request (DeleteUser ''uu'') m2m_db = (r, st')"
    and gone: "t_users st' = []"
    by (simp add: m2m_serve_def m2m_Delete_handler_def parseUserID_def path_id_def demo_uuid_parse_def m2m_Delete_def
        m2m_existing_def GetByID_def user_FindByID_def user_row_def stmt_def m2m_db_def demo_rows user_Delete_def
        user_Delete_row_def delete_user_rows_def delete_where_def Let_def)
  have "st' \<noteq> m2m_db" using gone by (auto simp: m2m_db_def)
  from m2m_needs_scope [OF run this] show ?thesis by auto
qed

lemma protected_roles_not_granted_witness:
  "(UUID 2, UUID 9) \<in> set (t_user_roles m2m_db) \<and>
   (UUID 2, UUID 9) \<in> set (t_user_roles (fold (\<lambda>(E, q, c) st. snd (m2m_serve E [UUID 9] q c st))
     [(demo_env, m2m_request, GiveRole ''uu'' (Inr (UUID 9)))] m2m_db))"
proof -
  let ?run = "[(demo_env, m2m_request, GiveRole ''uu'' (Inr (UUID 9)))]"
  have safe: "\<forall>(E, q, c) \<in> set ?run. gorm_rollback E \<and> \<not> names_protected [UUID 9] c"
    by (simp add: demo_env_rollback names_protected_def)
  have held: "(UUID 2, UUID 9) \<in> set (t_user_roles (fold (\<lambda>(E, q, c) st. snd (m2m_serve E [UUID 9] q c st)) ?run m2m_db))"
    by (simp add: m2m_serve_def m2m_AssignRole_handler_def parseUserID_def path_id_def demo_uuid_parse_def bound_def
        m2m_AssignRole_def refused_def m2m_db_def split: sum.split)
  from protected_roles_not_granted [OF safe _ held] held show ?thesis by simp
qed

definition m2m_env :: env where
  "m2m_env = demo_env\<lparr>default_role := Some uuid_nil\<rparr>"

definition m2m_body :: create_user_input where
  "m2m_body = \<lparr>cu_email = ''n@b.c'', cu_password = ''pass'', cu_display_name = None, cu_email_verified = None,
     cu_active = None, cu_phone = None, cu_avatar_url = None, cu_metadata = None, cu_role_ids = [UUID 9]\<rparr>"

lemma m2m_created: "\<exists>u g st'. m2m_Create m2m_env m2m_body m2m_db = (Inr (u, g), st')"
proof -
  have a: "lower_trim ''n@b.c'' = ''n@b.c''" by code_simp
  show ?thesis
    by (simp add: m2m_Create_def and_then_def m2m_body_def m2m_password_def RegisterAdmin_def register_checks_def a
        m2m_env_def m2m_db_def demo_rows user_FindByEmail_def email_row_def stmt_def HashPassword_def create_with_roles_def
        create_user_step_def user_Create_def new_uuid_def bump_def stmt_opt_def insert_row_def AssignRole_def
        AssignRole_row_def GetRole_def FindRoleByID_def role_row_def m2m_extra_fields_def Transaction_def Let_def)
qed

lemma creation_grants_protected_witness:
  "\<exists>u g st'. m2m_Create m2m_env m2m_body m2m_db = (Inr (u, g), st') \<and> (us_id u, UUID 9) \<in> set (t_user_roles st')"
proof -
  obtain u g st' where c: "m2m_Create m2m_env m2m_body m2m_db = (Inr (u, g), st')" using m2m_created by blast
  have "default_role m2m_env \<noteq> None" "UUID 9 \<in> set (cu_role_ids m2m_body)"
    by (simp_all add: m2m_env_def m2m_body_def)
  from creation_grants_protected [OF c this, of "[UUID 9]"] c show ?thesis by auto
qed

end
