(* ===== verification/Cleanup.thy ===== *)
theory Cleanup
  imports Users Sessions Reauth
begin

text \<open>
  The hourly clean-up of the database (\<^verbatim>\<open>database/cleanup.go\<close>): thirteen \<^verbatim>\<open>DELETE\<close> statements, each with
  the cascades of the foreign keys, and the clean-ups that packages register. A failing statement is
  logged and the next one runs.
\<close>

section \<open>Deletions with their cascades\<close>

text \<open>An access token loses the reference to a refresh token that is deleted.\<close>

definition forget_refresh :: "string list \<Rightarrow> access_token \<Rightarrow> access_token" where
  "forget_refresh gone t =
     (case at_refresh_token_id t of
        None \<Rightarrow> t | Some r \<Rightarrow> if List.member gone r then t\<lparr>at_refresh_token_id := None\<rparr> else t)"

definition drop_refresh_tokens :: "(refresh_token \<Rightarrow> bool) \<Rightarrow> db \<Rightarrow> db" where
  "drop_refresh_tokens P st =
     st\<lparr>t_refresh_tokens := delete_where P (t_refresh_tokens st),
        t_access_tokens := map (forget_refresh (map rt_id (filter P (t_refresh_tokens st)))) (t_access_tokens st)\<rparr>"

definition drop_sessions :: "(session \<Rightarrow> bool) \<Rightarrow> db \<Rightarrow> db" where
  "drop_sessions P st =
     (let ss = map se_id (filter P (t_sessions st));
          st1 = drop_refresh_tokens (\<lambda>t. List.member ss (rt_session_id t)) st
      in st1\<lparr>t_sessions := delete_where P (t_sessions st1),
             t_access_tokens := delete_where (\<lambda>t. of_session ss (at_session_id t)) (t_access_tokens st1),
             t_auth_codes := delete_where (\<lambda>c. of_session ss (ac_session_id c)) (t_auth_codes st1),
             t_device_codes := delete_where (\<lambda>d. of_session ss (dc_session_id d)) (t_device_codes st1),
             t_reauth_tokens := delete_where (\<lambda>t. List.member ss (ra_session_id t)) (t_reauth_tokens st1)\<rparr>)"

definition due_for_purge :: "time \<Rightarrow> user \<Rightarrow> bool" where
  "due_for_purge now u \<longleftrightarrow> (case us_deletion_purge_after u of None \<Rightarrow> False | Some t \<Rightarrow> t < now)"

definition purge_users :: "time \<Rightarrow> db \<Rightarrow> db" where
  "purge_users now st = fold delete_user_rows (map us_id (filter (due_for_purge now) (t_users st))) st"

definition before :: "time option \<Rightarrow> time \<Rightarrow> bool" where
  "before t limit \<longleftrightarrow> (case t of None \<Rightarrow> False | Some x \<Rightarrow> x < limit)"

section \<open>The statements\<close>

definition builtinCleanups :: "time \<Rightarrow> (string \<times> (db \<Rightarrow> db)) list" where
  "builtinCleanups now =
     (let grace = now - hours 24 in
      [(''access_tokens'', \<lambda>st. st\<lparr>t_access_tokens := delete_where
          (\<lambda>t. at_expires_at t < now \<or> (at_revoked t \<and> at_created_at t < grace)) (t_access_tokens st)\<rparr>),
       (''refresh_tokens'', drop_refresh_tokens (\<lambda>t. rt_expires_at t < now \<or> (rt_revoked t \<and> rt_created_at t < grace))),
       (''authorization_codes'', \<lambda>st. st\<lparr>t_auth_codes := delete_where (\<lambda>c. ac_expires_at c < now) (t_auth_codes st)\<rparr>),
       (''device_codes'', \<lambda>st. st\<lparr>t_device_codes := delete_where (\<lambda>d. dc_expires_at d < now) (t_device_codes st)\<rparr>),
       (''sessions'', drop_sessions (\<lambda>s. se_expires_at s < now \<or> (se_revoked s \<and> before (se_revoked_at s) grace))),
       (''reauth_tokens'', \<lambda>st. st\<lparr>t_reauth_tokens := delete_where
          (\<lambda>t. ra_expires_at t < now \<or> (ra_used t \<and> before (ra_used_at t) grace)) (t_reauth_tokens st)\<rparr>),
       (''passkey_challenges'', \<lambda>st. st\<lparr>t_passkey_challenges := delete_where (\<lambda>c. pc_expires_at c < now) (t_passkey_challenges st)\<rparr>),
       (''federation_auth_requests'', \<lambda>st. st\<lparr>t_fed_requests := delete_where (\<lambda>r. fr_expires_at r < now) (t_fed_requests st)\<rparr>),
       (''federation_pending_links'', \<lambda>st. st\<lparr>t_fed_pending_links := delete_where (\<lambda>k. fk_expires_at k < now) (t_fed_pending_links st)\<rparr>),
       (''federation_pending_signups'', \<lambda>st. st\<lparr>t_fed_pending_signups := delete_where (\<lambda>k. fs_expires_at k < now) (t_fed_pending_signups st)\<rparr>),
       (''revoked_jtis'', \<lambda>st. st\<lparr>t_revoked_jtis := delete_where (\<lambda>j. rj_expires_at j < now) (t_revoked_jtis st)\<rparr>),
       (''users_purged'', purge_users now),
       (''outbound_emails_purged'', \<lambda>st. st\<lparr>t_outbox := delete_where
          (\<lambda>m. List.member [''sent'', ''failed''] (oe_status m) \<and> oe_created_at m < now - hours (7 * 24)) (t_outbox st)\<rparr>)])"

definition execCleanup :: "env \<Rightarrow> string \<times> (db \<Rightarrow> db) \<Rightarrow> db \<Rightarrow> db" where
  "execCleanup E c st = (if db_err E (''cleanup.'' @ fst c) then st else snd c st)"

text \<open>What a package registers: its pass answers how many rows it deleted, or fails, and leaves the database
  it leaves; either answer is only logged.\<close>

type_synonym registered_cleanup = "time \<Rightarrow> db \<Rightarrow> nat dbres \<times> db"

definition RegisterCleanup :: "string \<Rightarrow> registered_cleanup \<Rightarrow> (string \<times> registered_cleanup) list \<Rightarrow> (string \<times> registered_cleanup) list" where
  "RegisterCleanup label f regs = regs @ [(label, f)]"

definition run_registered :: "time \<Rightarrow> string \<times> registered_cleanup \<Rightarrow> db \<Rightarrow> db" where
  "run_registered now r st = snd (snd r now st)"

definition runCleanup :: "env \<Rightarrow> (string \<times> registered_cleanup) list \<Rightarrow> db \<Rightarrow> db" where
  "runCleanup E regs st =
     fold (run_registered (wall E)) regs (fold (execCleanup E) (builtinCleanups (wall E)) st)"

section \<open>What a pass does to the rows that requests are judged by\<close>

text \<open>Two databases in which every session and every access token of the second is one of the first, the
  reference to the refresh token aside, in the same order.\<close>

definition same_token :: "access_token \<Rightarrow> access_token \<Rightarrow> bool" where
  "same_token t t' \<longleftrightarrow> (\<exists>r. t' = t\<lparr>at_refresh_token_id := r\<rparr>)"

lemma same_token_refl [simp]: "same_token t t"
  unfolding same_token_def by (rule exI [of _ "at_refresh_token_id t"]) simp

lemma same_token_trans: "same_token t t' \<Longrightarrow> same_token t' t'' \<Longrightarrow> same_token t t''"
  by (auto simp: same_token_def)

lemma same_token_forget [simp]: "same_token t (forget_refresh gone t)"
proof (cases "at_refresh_token_id t")
  case None
  then show ?thesis by (simp add: forget_refresh_def)
next
  case (Some r)
  have "same_token t (t\<lparr>at_refresh_token_id := None\<rparr>)"
    unfolding same_token_def by (rule exI [of _ None]) simp
  with Some show ?thesis by (simp add: forget_refresh_def)
qed

lemma same_token_in: "t \<in> A \<Longrightarrow> \<exists>u\<in>A. same_token u t"
  by (rule bexI [of _ t]) simp_all

lemma same_token_forget_in: "t \<in> A \<Longrightarrow> \<exists>u\<in>A. same_token u (forget_refresh gone t)"
  by (rule bexI [of _ t]) simp_all

lemma same_tokenD: "same_token t t' \<Longrightarrow> at_id t' = at_id t \<and> at_client_id t' = at_client_id t \<and> at_user_id t' = at_user_id t \<and>
    at_session_id t' = at_session_id t \<and> at_scopes t' = at_scopes t \<and> at_revoked t' = at_revoked t \<and>
    at_expires_at t' = at_expires_at t \<and> at_created_at t' = at_created_at t \<and> at_audience t' = at_audience t"
  by (auto simp: same_token_def)

definition pruned :: "db \<Rightarrow> db \<Rightarrow> bool" where
  "pruned st st' \<longleftrightarrow> (\<forall>s \<in> set (t_sessions st'). s \<in> set (t_sessions st)) \<and>
     (\<forall>t' \<in> set (t_access_tokens st'). \<exists>t \<in> set (t_access_tokens st). same_token t t')"

lemma pruned_refl: "pruned st st"
  unfolding pruned_def by (auto intro: same_token_in)

lemma pruned_trans: "pruned a b \<Longrightarrow> pruned b c \<Longrightarrow> pruned a c"
  unfolding pruned_def by (meson same_token_trans)

lemma pruned_rows: "t_sessions st' = filter P (t_sessions st) \<Longrightarrow> t_access_tokens st' = filter Q (t_access_tokens st) \<Longrightarrow> pruned st st'"
  unfolding pruned_def by (auto intro: same_token_in)

lemma pruned_same: "t_sessions st' = t_sessions st \<Longrightarrow> t_access_tokens st' = t_access_tokens st \<Longrightarrow> pruned st st'"
  unfolding pruned_def by (auto intro: same_token_in)

lemma pruned_delete_user: "pruned st (delete_user_rows i st)"
  by (rule pruned_rows) (auto simp: delete_user_rows_def delete_where_def Let_def)

lemma pruned_drop_refresh: "pruned st (drop_refresh_tokens P st)"
  unfolding pruned_def drop_refresh_tokens_def by (auto intro: same_token_forget_in)

lemma pruned_drop_sessions: "pruned st (drop_sessions P st)"
  by (rule pruned_trans [OF pruned_drop_refresh]) (rule pruned_rows, auto simp: drop_sessions_def delete_where_def Let_def)

lemma pruned_purge: "pruned st (purge_users now st)"
proof -
  have "pruned st (fold delete_user_rows is st)" for "is"
    by (induction "is" arbitrary: st) (auto intro: pruned_refl pruned_trans [OF pruned_delete_user])
  then show ?thesis by (simp add: purge_users_def)
qed

lemma pruned_builtin: "c \<in> set (builtinCleanups now) \<Longrightarrow> pruned st (snd c st)"
  by (auto simp: builtinCleanups_def Let_def delete_where_def pruned_drop_refresh pruned_drop_sessions pruned_purge
      intro: pruned_same pruned_rows [where P = "\<lambda>_. True"])

subsection \<open>What stays\<close>

text \<open>A token that admits requests, of an account (and of a session owner) outside \<open>D\<close>.\<close>

definition live :: "time \<Rightarrow> uuid set \<Rightarrow> db \<Rightarrow> access_token \<Rightarrow> bool" where
  "live now D st t \<longleftrightarrow> t \<in> set (t_access_tokens st) \<and> \<not> at_revoked t \<and> now < at_expires_at t \<and>
     (\<forall>u. at_user_id t = Some u \<longrightarrow> u \<notin> D) \<and>
     (\<forall>i. at_session_id t = Some i \<longrightarrow>
        (\<exists>s \<in> set (t_sessions st). se_id s = i \<and> \<not> se_revoked s \<and> now < se_expires_at s \<and> se_user_id s \<notin> D))"

definition sound_keys :: "time \<Rightarrow> uuid set \<Rightarrow> db \<Rightarrow> bool" where
  "sound_keys now D st \<longleftrightarrow> keys_unique se_id (t_sessions st) \<and> keys_unique at_id (t_access_tokens st) \<and>
     (\<forall>u \<in> set (t_users st). due_for_purge now u \<longrightarrow> us_id u \<in> D)"

definition clean :: "time \<Rightarrow> uuid set \<Rightarrow> db \<Rightarrow> db \<Rightarrow> bool" where
  "clean now D st st' \<longleftrightarrow> (sound_keys now D st \<longrightarrow> sound_keys now D st' \<and>
     (\<forall>t. live now D st t \<longrightarrow> (\<exists>t'. live now D st' t' \<and> same_token t t')))"

lemma clean_refl: "clean now D st st"
  unfolding clean_def using same_token_refl by blast

lemma clean_trans: "clean now D a b \<Longrightarrow> clean now D b c \<Longrightarrow> clean now D a c"
  unfolding clean_def by (meson same_token_trans)

lemma clean_keep:
  assumes "sound_keys now D st \<Longrightarrow> sound_keys now D st'" and "\<And>t. sound_keys now D st \<Longrightarrow> live now D st t \<Longrightarrow> live now D st' t"
  shows "clean now D st st'"
  unfolding clean_def
proof (intro impI conjI allI)
  fix t assume k: "sound_keys now D st" "live now D st t"
  show "\<exists>t'. live now D st' t' \<and> same_token t t'"
    by (rule exI [of _ t]) (simp add: assms(2) [OF k])
qed (rule assms(1))

lemma clean_same: "t_sessions st' = t_sessions st \<Longrightarrow> t_access_tokens st' = t_access_tokens st \<Longrightarrow>
    t_users st' = t_users st \<Longrightarrow> clean now D st st'"
  by (rule clean_keep) (simp_all add: sound_keys_def live_def)

lemma clean_tokens:
  assumes "\<And>t. P t \<Longrightarrow> at_expires_at t < now \<or> at_revoked t"
  shows "clean now D st (st\<lparr>t_access_tokens := delete_where P (t_access_tokens st)\<rparr>)"
proof (rule clean_keep)
  fix t assume "live now D st t"
  then show "live now D (st\<lparr>t_access_tokens := delete_where P (t_access_tokens st)\<rparr>) t"
    using assms [of t] by (auto simp: live_def set_delete_where)
qed (simp add: sound_keys_def keys_unique_delete)

lemma forget_refresh_id [simp]: "at_id (forget_refresh g t) = at_id t"
  using same_tokenD [OF same_token_forget [of t g]] by simp

lemma forget_live:
  assumes "live now D st t"
  shows "live now D (drop_refresh_tokens P st) (forget_refresh (map rt_id (filter P (t_refresh_tokens st))) t)"
proof -
  let ?g = "map rt_id (filter P (t_refresh_tokens st))"
  have "at_revoked (forget_refresh ?g t) = at_revoked t" "at_expires_at (forget_refresh ?g t) = at_expires_at t"
    "at_user_id (forget_refresh ?g t) = at_user_id t" "at_session_id (forget_refresh ?g t) = at_session_id t"
    using same_tokenD [OF same_token_forget [of t ?g]] by simp_all
  then show ?thesis using assms by (simp add: live_def drop_refresh_tokens_def)
qed

lemma clean_drop_refresh: "clean now D st (drop_refresh_tokens P st)"
proof -
  have "map at_id (t_access_tokens (drop_refresh_tokens P st)) = map at_id (t_access_tokens st)"
    by (simp add: drop_refresh_tokens_def)
  then have "sound_keys now D st \<Longrightarrow> sound_keys now D (drop_refresh_tokens P st)"
    by (simp add: sound_keys_def keys_unique_def drop_refresh_tokens_def comp_def)
  then show ?thesis unfolding clean_def using forget_live same_token_forget by blast
qed

text \<open>Sessions go with their tokens; a session with a live token stays.\<close>

lemma clean_drop_sessions:
  assumes "\<And>s. P s \<Longrightarrow> se_expires_at s < now \<or> se_revoked s"
  shows "clean now D st (drop_sessions P st)"
proof -
  let ?ss = "map se_id (filter P (t_sessions st))"
  let ?st1 = "drop_refresh_tokens (\<lambda>t. List.member ?ss (rt_session_id t)) st"
  have s1: "t_sessions (drop_refresh_tokens Q st) = t_sessions st" for Q by (simp add: drop_refresh_tokens_def)
  have "live now D (drop_sessions P st) t" if k: "keys_unique se_id (t_sessions st)" and l: "live now D ?st1 t" for t
  proof -
    have "\<not> of_session ?ss (at_session_id t)"
    proof (cases "at_session_id t")
      case (Some i)
      then obtain s where s: "s \<in> set (t_sessions st)" "se_id s = i" "\<not> se_revoked s" "now < se_expires_at s"
        using l s1 by (auto simp: live_def)
      have "\<not> P s'" if "s' \<in> set (t_sessions st)" "se_id s' = i" for s'
      proof -
        have "s' = s" using that s(1,2) k by (auto simp: keys_unique_def distinct_map inj_on_def)
        then show ?thesis using s(3,4) assms [of s'] by auto
      qed
      then show ?thesis using Some by (auto simp: of_session_def)
    qed (simp add: of_session_def)
    moreover have "\<exists>s \<in> set (t_sessions (drop_sessions P st)). se_id s = i \<and> \<not> se_revoked s \<and> now < se_expires_at s \<and>
        se_user_id s \<notin> D" if i: "at_session_id t = Some i" for i
    proof -
      obtain s where s: "s \<in> set (t_sessions st)" "se_id s = i" "\<not> se_revoked s" "now < se_expires_at s" "se_user_id s \<notin> D"
        using l i s1 by (auto simp: live_def)
      then have "\<not> P s" using assms [of s] by auto
      with s show ?thesis by (intro bexI [of _ s]) (auto simp: drop_sessions_def Let_def set_delete_where s1)
    qed
    ultimately show ?thesis using l by (auto simp: live_def drop_sessions_def Let_def set_delete_where)
  qed
  moreover have "sound_keys now D ?st1 \<Longrightarrow> sound_keys now D (drop_sessions P st)"
    by (auto simp: sound_keys_def drop_sessions_def Let_def keys_unique_delete)
  ultimately have "clean now D ?st1 (drop_sessions P st)"
    using s1 by (intro clean_keep) (auto simp: sound_keys_def)
  then show ?thesis by (rule clean_trans [OF clean_drop_refresh])
qed

lemma clean_delete_user:
  assumes "i \<in> D"
  shows "clean now D st (delete_user_rows i st)"
proof (rule clean_keep)
  assume "sound_keys now D st"
  then show "sound_keys now D (delete_user_rows i st)"
    by (auto simp: sound_keys_def delete_user_rows_def Let_def keys_unique_delete set_delete_where)
next
  fix t assume k: "sound_keys now D st" and l: "live now D st t"
  have "\<not> of_session (user_sessions i st) (at_session_id t)"
  proof (cases "at_session_id t")
    case (Some j)
    then obtain s where s: "s \<in> set (t_sessions st)" "se_id s = j" "se_user_id s \<notin> D"
      using l by (auto simp: live_def)
    have "se_user_id s' \<noteq> i" if "s' \<in> set (t_sessions st)" "se_id s' = j" for s'
    proof -
      have "s' = s" using that s(1,2) k by (auto simp: sound_keys_def keys_unique_def distinct_map inj_on_def)
      then show ?thesis using s(3) assms by auto
    qed
    then show ?thesis using Some by (auto simp: of_session_def user_sessions_def)
  qed (simp add: of_session_def)
  moreover have "\<exists>s \<in> set (t_sessions (delete_user_rows i st)). se_id s = j \<and> \<not> se_revoked s \<and>
      now < se_expires_at s \<and> se_user_id s \<notin> D" if j: "at_session_id t = Some j" for j
  proof -
    obtain s where s: "s \<in> set (t_sessions st)" "se_id s = j" "\<not> se_revoked s" "now < se_expires_at s" "se_user_id s \<notin> D"
      using l j by (auto simp: live_def)
    then have "se_user_id s \<noteq> i" using assms by auto
    with s show ?thesis by (intro bexI [of _ s]) (auto simp: delete_user_rows_def Let_def set_delete_where)
  qed
  moreover have "at_user_id t \<noteq> Some i" using l assms by (auto simp: live_def)
  ultimately show "live now D (delete_user_rows i st) t"
    using l by (auto simp: live_def delete_user_rows_def Let_def set_delete_where)
qed

lemma clean_purge: "clean now D st (purge_users now st)"
proof -
  have "clean now D st (fold delete_user_rows is st)" if "set is \<subseteq> D" for "is"
    using that by (induction "is" arbitrary: st) (auto intro: clean_refl clean_trans [OF clean_delete_user])
  moreover have "set (map us_id (filter (due_for_purge now) (t_users st))) \<subseteq> D" if "sound_keys now D st"
    using that by (auto simp: sound_keys_def)
  ultimately show ?thesis unfolding clean_def purge_users_def by blast
qed

lemma clean_builtin: "c \<in> set (builtinCleanups now) \<Longrightarrow> clean now D st (snd c st)"
  by (auto simp: builtinCleanups_def Let_def clean_purge clean_drop_refresh
      intro: clean_same clean_tokens clean_drop_sessions)

text \<open>A pass over the statements, some of which may fail.\<close>

lemma builtin_pass:
  assumes "set cs \<subseteq> set (builtinCleanups now)"
  shows "pruned st (fold (execCleanup E) cs st) \<and> clean now D st (fold (execCleanup E) cs st)"
  using assms
proof (induction cs arbitrary: st)
  case Nil
  then show ?case by (simp add: pruned_refl clean_refl)
next
  case (Cons c cs)
  then have "pruned st (execCleanup E c st)" "clean now D st (execCleanup E c st)"
    by (auto simp: execCleanup_def pruned_builtin pruned_refl clean_builtin clean_refl)
  moreover have "pruned (execCleanup E c st) (fold (execCleanup E) cs (execCleanup E c st)) \<and>
      clean now D (execCleanup E c st) (fold (execCleanup E) cs (execCleanup E c st))"
    using Cons by simp
  ultimately show ?case using pruned_trans clean_trans by (metis fold_simps(2))
qed

lemma runCleanup_pass: "pruned st (runCleanup E [] st) \<and> clean (wall E) D st (runCleanup E [] st)"
  using builtin_pass [OF subset_refl, where now = "wall E" and st = st and E = E and D = D] by (simp add: runCleanup_def)

end
