(* ===== verification/CleanupProperties.thy ===== *)
theory CleanupProperties
  imports Cleanup ActionFrame Accounts Middleware Demo
begin

text \<open>
  The clean-up seen from outside: requests are answered as before, and accounts whose grace period has
  passed are gone.
\<close>

section \<open>Requests\<close>

text \<open>With unique keys the bearer middleware admits a request for a live token, and only for one.\<close>

lemma session_IsActive_iff:
  "keys_unique se_id (t_sessions st) \<Longrightarrow> session_IsActive E i st = Inr True \<longleftrightarrow> \<not> db_err E ''session.FindByID'' \<and>
     (\<exists>s \<in> set (t_sessions st). se_id s = i \<and> \<not> se_revoked s \<and> wall E < se_expires_at s)"
proof -
  assume k: "keys_unique se_id (t_sessions st)"
  have "session_row st i = Some s \<longleftrightarrow> s \<in> set (t_sessions st) \<and> se_id s = i" for s
    using first_where_SomeD [of "\<lambda>s. se_id s = i" "t_sessions st" s] first_where_key [OF k, of s]
    by (auto simp: session_row_def)
  note row = this
  show ?thesis
  proof (cases "session_row st i")
    case None
    then show ?thesis using row by (auto simp: session_IsActive_def session_FindByID_def stmt_def)
  next
    case (Some s0)
    then have "(\<exists>s \<in> set (t_sessions st). se_id s = i \<and> Q s) \<longleftrightarrow> Q s0" for Q
      using row by (metis option.inject)
    with Some show ?thesis by (simp add: session_IsActive_def session_FindByID_def stmt_def)
  qed
qed

definition admitted_as :: "env \<Rightarrow> gin \<Rightarrow> access_token \<Rightarrow> gin" where
  "admitted_as E g t = g\<lparr>gc_token_id := Some (at_id t), gc_client_id := Some (at_client_id t),
     gc_user_id := (case at_user_id t of None \<Rightarrow> gc_user_id g | Some u \<Rightarrow> Some u),
     gc_session_id := (case at_session_id t of None \<Rightarrow> gc_session_id g | Some s \<Rightarrow> Some s),
     gc_scopes := Some (at_scopes t)\<rparr>"

lemma BearerAuth_iff:
  assumes "keys_unique se_id (t_sessions st)" and "keys_unique at_id (t_access_tokens st)"
  shows "BearerAuth E st r g = Inr g' \<longleftrightarrow> ParseBearer (rq_header r ''Authorization'') \<noteq> [] \<and> \<not> db_err E ''FindAccessToken'' \<and>
    (\<exists>t. live (wall E) {} st t \<and> at_id t = HashToken (sha256 E) (ParseBearer (rq_header r ''Authorization'')) \<and>
       (at_session_id t \<noteq> None \<longrightarrow> \<not> db_err E ''session.FindByID'') \<and> g' = admitted_as E g t)"
    (is "?l \<longleftrightarrow> ?p \<and> ?q \<and> (\<exists>t. ?r t)")
proof
  assume ?l
  then obtain t where t: "LookupActiveAccessToken E (ParseBearer (rq_header r ''Authorization'')) st = Inr (Some t)"
    and s: "case at_session_id t of None \<Rightarrow> True | Some s \<Rightarrow> session_IsActive E s st = Inr True"
    and g: "g' = admitted_as E g t"
    by (auto simp: BearerAuth_def admitted_as_def Let_def split: if_splits sum.splits option.splits)
  have "?r t"
    using t s g session_IsActive_iff [OF assms(1)]
    by (auto simp: LookupActiveAccessToken_Some access_row_def at_IsValid_def live_def dest!: first_where_SomeD
        split: option.splits)
  moreover have "?p" "?q" using t by (auto simp: LookupActiveAccessToken_Some)
  ultimately show "?p \<and> ?q \<and> (\<exists>t. ?r t)" by blast
next
  assume "?p \<and> ?q \<and> (\<exists>t. ?r t)"
  then obtain t where p: ?p ?q and t: "?r t" by blast
  then have "t \<in> set (t_access_tokens st)" by (auto simp: live_def)
  then have row: "access_row st (HashToken (sha256 E) (ParseBearer (rq_header r ''Authorization''))) = Some t"
    using t first_where_key [OF assms(2), of t] by (simp add: access_row_def)
  then have look: "LookupActiveAccessToken E (ParseBearer (rq_header r ''Authorization'')) st = Inr (Some t)"
    using t p by (auto simp: LookupActiveAccessToken_Some live_def at_IsValid_def)
  have "case at_session_id t of None \<Rightarrow> True | Some s \<Rightarrow> session_IsActive E s st = Inr True"
    using t session_IsActive_iff [OF assms(1)] by (auto simp: live_def split: option.splits)
  then show ?l using look t p by (auto simp: BearerAuth_def admitted_as_def Let_def)
qed

lemma same_token_admitted: "same_token t t' \<Longrightarrow> admitted_as E g t' = admitted_as E g t"
  using same_tokenD [of t t'] by (simp add: admitted_as_def)

text \<open>A state that has every live token of another for this request admits it with the same identity.\<close>

lemma bearer_transfer:
  assumes "keys_unique se_id (t_sessions st)" and "keys_unique at_id (t_access_tokens st)"
    and "keys_unique se_id (t_sessions st')" and "keys_unique at_id (t_access_tokens st')"
    and "\<And>t. live (wall E) {} st t \<Longrightarrow> at_id t = HashToken (sha256 E) (ParseBearer (rq_header r ''Authorization'')) \<Longrightarrow>
      \<exists>t'. live (wall E) {} st' t' \<and> (same_token t t' \<or> same_token t' t)"
    and "BearerAuth E st r g = Inr g'"
  shows "BearerAuth E st' r g = Inr g'"
proof -
  let ?h = "HashToken (sha256 E) (ParseBearer (rq_header r ''Authorization''))"
  obtain t where p: "ParseBearer (rq_header r ''Authorization'') \<noteq> []" "\<not> db_err E ''FindAccessToken''"
    and t: "live (wall E) {} st t" "at_id t = ?h" "at_session_id t \<noteq> None \<longrightarrow> \<not> db_err E ''session.FindByID''"
      "g' = admitted_as E g t"
    using assms(6) unfolding BearerAuth_iff [OF assms(1,2)] by blast
  obtain t' where t': "live (wall E) {} st' t'" "same_token t t' \<or> same_token t' t" using assms(5) [OF t(1,2)] by blast
  have "at_id t' = at_id t \<and> at_session_id t' = at_session_id t \<and> admitted_as E g t' = admitted_as E g t"
    using t'(2) same_tokenD same_token_admitted by metis
  then show ?thesis
    unfolding BearerAuth_iff [OF assms(3,4)] using p t t'(1) by (intro conjI exI [of _ t']) simp_all
qed

text \<open>A pass neither revives a token nor loses a usable one.\<close>

lemma pass_revives_none:
  assumes "pruned st st'" and "live now {} st' t'"
  shows "\<exists>t. live now {} st t \<and> same_token t t'"
proof -
  have sub: "s \<in> set (t_sessions st') \<Longrightarrow> s \<in> set (t_sessions st)" for s using assms(1) by (simp add: pruned_def)
  obtain t where t: "t \<in> set (t_access_tokens st)" "same_token t t'" using assms by (auto simp: pruned_def live_def)
  then have "live now {} st t" using assms(2) sub same_tokenD [OF t(2)] by (auto simp: live_def) blast
  with t show ?thesis by blast
qed

lemma pass_loses_none:
  assumes "pruned st st'" and "clean now D st st'" and "sound_keys now D st" and "keys_unique se_id (t_sessions st)"
    and "live now D st t" and "live later {} st t"
  shows "\<exists>t'. live later {} st' t' \<and> same_token t t'"
proof -
  obtain t' where t': "live now D st' t'" "same_token t t'" using assms(2,3,5) by (auto simp: clean_def)
  have "\<exists>s \<in> set (t_sessions st'). se_id s = i \<and> \<not> se_revoked s \<and> later < se_expires_at s"
    if i: "at_session_id t = Some i" for i
  proof -
    obtain s where s: "s \<in> set (t_sessions st')" "se_id s = i"
      using t' i same_tokenD [OF t'(2)] by (auto simp: live_def)
    obtain s0 where s0: "s0 \<in> set (t_sessions st)" "se_id s0 = i" "\<not> se_revoked s0" "later < se_expires_at s0"
      using assms(6) i by (auto simp: live_def)
    have "s \<in> set (t_sessions st)" using s(1) assms(1) by (simp add: pruned_def)
    then have "s = s0" using keys_unique_same [OF assms(4) _ s0(1)] s(2) s0(2) by simp
    with s s0 show ?thesis by blast
  qed
  then have "live later {} st' t'" using t' assms(6) same_tokenD [OF t'(2)] by (auto simp: live_def)
  with t'(2) show ?thesis by blast
qed

text \<open>C25 The clean-up is invisible to requests. After a pass (whichever of its statements failed), the bearer
  middleware admits at any later time exactly the requests it would have admitted without it, with the same
  identity, client, session and scopes: nothing refused is revived, and no usable token is lost, unless its
  account or the owner of its session is due to be purged.\<close>

theorem cleanup_invisible_to_requests:
  assumes "keys_unique se_id (t_sessions st)" and "keys_unique at_id (t_access_tokens st)" and "wall E \<le> wall E'"
    and "\<forall>t \<in> set (t_access_tokens st). \<forall>u \<in> set (t_users st).
      at_id t = HashToken (sha256 E') (ParseBearer (rq_header r ''Authorization'')) \<longrightarrow> due_for_purge (wall E) u \<longrightarrow>
      at_user_id t \<noteq> Some (us_id u) \<and> (\<forall>s \<in> set (t_sessions st). at_session_id t = Some (se_id s) \<longrightarrow> se_user_id s \<noteq> us_id u)"
  shows "BearerAuth E' (runCleanup E [] st) r g = Inr g' \<longleftrightarrow> BearerAuth E' st r g = Inr g'"
proof -
  let ?D = "us_id ` {u \<in> set (t_users st). due_for_purge (wall E) u}" and ?st' = "runCleanup E [] st"
  have k: "sound_keys (wall E) ?D st" using assms(1,2) by (auto simp: sound_keys_def)
  have pr: "pruned st ?st'" and cl: "clean (wall E) ?D st ?st'" using runCleanup_pass by blast+
  then have "sound_keys (wall E) ?D ?st'" using k by (simp add: clean_def)
  then have u: "keys_unique se_id (t_sessions ?st')" "keys_unique at_id (t_access_tokens ?st')"
    by (simp_all add: sound_keys_def)
  have "live (wall E) ?D st t"
    if "live (wall E') {} st t" "at_id t = HashToken (sha256 E') (ParseBearer (rq_header r ''Authorization''))" for t
    using that assms(3,4) by (fastforce simp: live_def)
  then show ?thesis
    using bearer_transfer [OF assms(1,2) u, of E' r g g'] bearer_transfer [OF u assms(1,2), of E' r g g']
      pass_loses_none [OF pr cl k assms(1)] pass_revives_none [OF pr] by blast
qed

section \<open>Accounts whose grace period has passed\<close>

lemma no_trace_delete: "no_trace i st \<Longrightarrow> no_trace i (delete_user_rows j st)"
  by (simp add: no_trace_def delete_user_rows_def Let_def set_delete_where)

lemma no_trace_deleted: "no_trace i (delete_user_rows i st)"
  by (auto simp: no_trace_def delete_user_rows_def Let_def set_delete_where)

lemma no_trace_fold: "no_trace i st \<Longrightarrow> no_trace i (fold delete_user_rows is st)"
  by (induction "is" arbitrary: st) (simp_all add: no_trace_delete)

lemma no_trace_purged: "i \<in> set is \<Longrightarrow> no_trace i (fold delete_user_rows is st)"
  by (induction "is" arbitrary: st) (auto simp: no_trace_deleted no_trace_fold)

text \<open>The statements before the purge leave the accounts, those after it the traces.\<close>

lemma users_kept: "c \<in> set (take 11 (builtinCleanups now)) \<Longrightarrow> t_users (snd c st) = t_users st"
  by (auto simp: builtinCleanups_def Let_def drop_refresh_tokens_def drop_sessions_def)

lemma users_kept_fold: "set cs \<subseteq> set (take 11 (builtinCleanups now)) \<Longrightarrow> t_users (fold (execCleanup E) cs st) = t_users st"
proof (induction cs arbitrary: st)
  case (Cons c cs)
  then have "t_users (snd c st) = t_users st" by (intro users_kept [where now = now]) simp
  then have "t_users (execCleanup E c st) = t_users st" by (simp add: execCleanup_def)
  then show ?case using Cons by simp
qed simp

lemma builtin_split: "builtinCleanups now = take 11 (builtinCleanups now) @ [(''users_purged'', purge_users now),
    (''outbound_emails_purged'', \<lambda>st. st\<lparr>t_outbox := delete_where
          (\<lambda>m. List.member [''sent'', ''failed''] (oe_status m) \<and> oe_created_at m < now - hours (7 * 24)) (t_outbox st)\<rparr>)]"
  by (simp add: builtinCleanups_def Let_def)

lemma runCleanup_purges:
  assumes "x \<in> set (t_users st)" and "due_for_purge (wall E) x" and "\<not> db_err E ''cleanup.users_purged''"
  shows "no_trace (us_id x) (runCleanup E [] st)"
proof -
  let ?st1 = "fold (execCleanup E) (take 11 (builtinCleanups (wall E))) st"
  have "t_users ?st1 = t_users st" by (rule users_kept_fold [OF subset_refl])
  then have "us_id x \<in> set (map us_id (filter (due_for_purge (wall E)) (t_users ?st1)))" using assms(1,2) by auto
  then have gone: "no_trace (us_id x) (purge_users (wall E) ?st1)" unfolding purge_users_def by (rule no_trace_purged)
  have "runCleanup E [] st = execCleanup E (''outbound_emails_purged'', \<lambda>st. st\<lparr>t_outbox := delete_where
      (\<lambda>m. List.member [''sent'', ''failed''] (oe_status m) \<and> oe_created_at m < wall E - hours (7 * 24)) (t_outbox st)\<rparr>)
      (purge_users (wall E) ?st1)"
    unfolding runCleanup_def by (subst builtin_split) (simp add: execCleanup_def assms(3))
  with gone show ?thesis by (simp add: execCleanup_def no_trace_def)
qed


section \<open>Witnesses\<close>

definition bearer_request :: http_request where
  "bearer_request = \<lparr>rq_method = ''GET'', rq_path = ''/api/v1/me'', rq_header = (\<lambda>h. ''Bearer .a1''),
     rq_query = (\<lambda>k. []), rq_form = (\<lambda>k. []), rq_cookie = (\<lambda>k. None), rq_ip = ''10.0.0.1''\<rparr>"

lemma bearer_token: "ParseBearer (rq_header bearer_request n) = ''.a1''"
proof -
  have "ParseBearer ''Bearer .a1'' = ''.a1''" by code_simp
  then show ?thesis by (simp add: bearer_request_def)
qed

lemma bearer_admitted: "\<exists>g. BearerAuth demo_env demo_db bearer_request empty_gin = Inr g"
  by (simp add: BearerAuth_def bearer_token LookupActiveAccessToken_def at_IsValid_def run_store demo_rows
      session_IsActive_def session_FindByID_def session_row_def Let_def)

lemma cleanup_invisible_to_requests_witness:
  "\<exists>g. BearerAuth demo_env (runCleanup demo_env [] demo_db) bearer_request empty_gin = Inr g"
proof -
  obtain g where g: "BearerAuth demo_env demo_db bearer_request empty_gin = Inr g" using bearer_admitted by blast
  have k: "keys_unique se_id (t_sessions demo_db)" "keys_unique at_id (t_access_tokens demo_db)"
    by (simp_all add: keys_unique_def)
  have d: "\<forall>t \<in> set (t_access_tokens demo_db). \<forall>u \<in> set (t_users demo_db).
      at_id t = HashToken (sha256 demo_env) (ParseBearer (rq_header bearer_request ''Authorization'')) \<longrightarrow>
      due_for_purge (wall demo_env) u \<longrightarrow> at_user_id t \<noteq> Some (us_id u) \<and>
      (\<forall>s \<in> set (t_sessions demo_db). at_session_id t = Some (se_id s) \<longrightarrow> se_user_id s \<noteq> us_id u)"
    by (simp add: due_for_purge_def demo_user_def blank_user_def)
  show ?thesis using g cleanup_invisible_to_requests [OF k order_refl d, of empty_gin g] by blast
qed

definition leaving :: account_service where
  "leaving = \<lparr>as_email_change_ttl = 3600000000000, as_deletion_grace = 600000000000\<rparr>"

lemma leaving_request: "\<exists>st1. RequestDeletion leaving demo_env (UUID 2) demo_db = (Inr (), st1)"
  by (simp add: RequestDeletion_def deletion_tx_def GetByID_def user_FindByID_def user_row_def
      GenerateOpaqueToken_def UpdateFields_def email_conflict_def schedule_deletion_def update_where_def touch_user_def
      session_RevokeAll_def RevokeAllForUser_def mail_SendAccountDeletionEmail_def send_mail_def enqueueRendered_def
      enqueueOutboundEmail_def new_uuid_def insert_row_def Transaction_def stmt_def stmt_opt_def mail_of_def
      blank_email_def leaving_def bump_def demo_rows demo_db_def empty_db_def uuid_nil_def)


end
