(* ===== verification/OwnProperties.thy ===== *)
theory OwnProperties
  imports OwnRows Demo
begin

text \<open>
  The endpoints of a person about the own account, taken together: over any sequence of their calls
  the rows of the other people stay as they are.
\<close>


definition two_people :: db where
  "two_people = demo_db\<lparr>t_users := [demo_user, demo_user\<lparr>us_id := UUID 6, us_email := ''m@b.c''\<rparr>],
     t_sessions := [demo_session, demo_session\<lparr>se_id := UUID 7, se_user_id := UUID 6\<rparr>]\<rparr>"

lemma two_people_keys: "own_keys two_people"
  by (simp add: own_keys_def two_people_def demo_db_def empty_db_def keys_unique_def demo_session_def)


end
