(* ===== verification/OutboxProperties.thy ===== *)
theory OutboxProperties
  imports Mail Demo
begin

text \<open>
  The outbox empties: over any run of the worker that spans enough hours, every mail ends as sent or
  failed, whatever the SMTP server answers. The measure is the number of attempts that are left.
\<close>

section \<open>The attempts that are left\<close>

definition attempts_left :: "outbound_email \<Rightarrow> nat" where
  "attempts_left e = (if oe_status e = ''pending'' then nat (max 1 (oe_max_attempts e - oe_attempts e)) else 0)"

definition backlog :: "db \<Rightarrow> nat" where
  "backlog st = sum_list (map attempts_left (t_outbox st))"

text \<open>Every pending mail may be tried again at the latest at \<open>t\<close>.\<close>

definition due_by :: "time \<Rightarrow> db \<Rightarrow> bool" where
  "due_by t st \<longleftrightarrow> (\<forall>e \<in> set (t_outbox st). oe_status e = ''pending'' \<longrightarrow> oe_next_retry_at e \<le> t)"

lemma backlog_0: "backlog st = 0 \<longleftrightarrow> (\<forall>e \<in> set (t_outbox st). oe_status e \<noteq> ''pending'')"
proof -
  have "attempts_left e = 0 \<longleftrightarrow> oe_status e \<noteq> ''pending''" for e by (simp add: attempts_left_def)
  then show ?thesis by (simp add: backlog_def sum_list_eq_0_iff)
qed

lemma attempts_left_after: "oe_status e = ''pending'' \<Longrightarrow> attempts_left (after_delivery b now e r) < attempts_left e"
  by (auto simp: attempts_left_def after_delivery_def Let_def split: option.split)

lemma retry_after: "oe_status (after_delivery ExpBackoff now e r) = ''pending'' \<Longrightarrow> oe_status e = ''pending'' \<Longrightarrow>
    oe_next_retry_at (after_delivery ExpBackoff now e r) \<le> now + hours 1"
  using ExpBackoff_bounds by (auto simp: after_delivery_def Let_def split: option.splits if_splits)

lemma sum_list_less:
  "(\<And>x. x \<in> set xs \<Longrightarrow> f x \<le> g x) \<Longrightarrow> x \<in> set xs \<Longrightarrow> f x < g x \<Longrightarrow> sum_list (map f xs) < sum_list (map g xs)"
  for f g :: "'x \<Rightarrow> nat"
proof (induction xs)
  case (Cons y ys)
  have "sum_list (map f ys) \<le> sum_list (map g ys)" by (rule sum_list_mono) (simp add: Cons.prems(1))
  moreover have "f y \<le> g y" using Cons.prems(1) by simp
  moreover have "sum_list (map f ys) < sum_list (map g ys)" if "x \<in> set ys"
    using Cons.IH Cons.prems that by simp
  ultimately show ?case using Cons.prems(2,3) by (cases "x = y") force+
qed simp

section \<open>One round\<close>

definition answering :: "env \<Rightarrow> bool" where
  "answering E \<longleftrightarrow> (\<forall>c. \<not> db_err E c)"

definition round_of :: "env \<times> (outbound_email \<Rightarrow> string option) \<Rightarrow> db \<Rightarrow> db" where
  "round_of x st = fst (tick (fst x) False (snd x) st)"

lemma process_rows_total: "answering E \<Longrightarrow> \<exists>n st' out. process_rows E b d es st = (Inr n, st', out)"
proof (induction es arbitrary: st)
  case (Cons e es)
  then obtain n st' out where "process_rows E b d es
      (st\<lparr>t_outbox := save_row oe_id (after_delivery b (wall E) e (d e)) (t_outbox st)\<rparr>) = (Inr n, st', out)" by blast
  then show ?case using Cons.prems by (simp add: answering_def stmt_def)
qed simp

lemma due_rows_set: "set (due_rows E n st) \<subseteq> {e \<in> set (t_outbox st). oe_status e = ''pending'' \<and> oe_next_retry_at e \<le> wall E}"
proof -
  have "set (take n xs) \<subseteq> set xs" for xs :: "outbound_email list" by (rule set_take_subset)
  then show ?thesis unfolding due_rows_def by (rule order_trans) auto
qed

lemma due_rows_some: "e \<in> set (t_outbox st) \<Longrightarrow> oe_status e = ''pending'' \<Longrightarrow> oe_next_retry_at e \<le> wall E \<Longrightarrow> due_rows E 10 st \<noteq> []"
proof
  assume e: "e \<in> set (t_outbox st)" "oe_status e = ''pending''" "oe_next_retry_at e \<le> wall E" and n: "due_rows E 10 st = []"
  let ?rs = "filter (\<lambda>e. oe_status e = ''pending'' \<and> oe_next_retry_at e \<le> wall E) (t_outbox st)"
  have "sort_key oe_next_retry_at ?rs = []" using n by (simp add: due_rows_def)
  then have "set ?rs = {}" using set_sort [of oe_next_retry_at ?rs] by simp
  moreover have "e \<in> set ?rs" using e by simp
  ultimately show False by (simp only: empty_iff)
qed

lemma round_rows:
  assumes "answering E" and "keys_unique oe_id (t_outbox st)"
  shows "t_outbox (round_of (E, d) st) = map (\<lambda>r. if r \<in> set (due_rows E 10 st)
     then after_delivery ExpBackoff (wall E) r (d r) else r) (t_outbox st)"
proof -
  obtain n st' out where p: "process_rows E ExpBackoff d (due_rows E 10 st) st = (Inr n, st', out)"
    using process_rows_total [OF assms(1)] by blast
  have "distinct (t_outbox st)" using assms(2) by (simp add: keys_unique_def distinct_map)
  then have "distinct (due_rows E 10 st)" by (simp add: due_rows_def)
  moreover have "set (due_rows E 10 st) \<subseteq> set (t_outbox st)" using due_rows_set by blast
  ultimately have "t_outbox st' = map (\<lambda>r. if r \<in> set (due_rows E 10 st)
     then after_delivery ExpBackoff (wall E) r (d r) else r) (t_outbox st)"
    using process_rows_Inr [OF p assms(2)] by blast
  with p assms(1) show ?thesis
    by (simp add: round_of_def tick_def ProcessBatch_def Transaction_def answering_def)
qed

section \<open>Runs\<close>

text \<open>How many times a run gets an hour ahead of where it last did.\<close>

fun hours_spanned :: "time \<Rightarrow> (env \<times> (outbound_email \<Rightarrow> string option)) list \<Rightarrow> nat" where
  "hours_spanned t [] = 0"
| "hours_spanned t (x # xs) =
     (if t + hours 1 \<le> wall (fst x) then Suc (hours_spanned (wall (fst x)) xs) else hours_spanned t xs)"

text \<open>A round leaves what it does not try, and leaves fewer attempts to what it tries.\<close>

lemma round_keys: "answering E \<Longrightarrow> keys_unique oe_id (t_outbox st) \<Longrightarrow> keys_unique oe_id (t_outbox (round_of (E, d) st))"
  unfolding round_rows by (auto simp: keys_unique_def comp_def if_distrib cong: if_cong)

lemma round_due:
  assumes "answering E" and "keys_unique oe_id (t_outbox st)" and "due_by t st" and "t \<le> wall E + hours 1"
  shows "due_by (wall E + hours 1) (round_of (E, d) st)"
  unfolding due_by_def round_rows [OF assms(1,2)]
proof (intro ballI impI)
  let ?f = "\<lambda>r. if r \<in> set (due_rows E 10 st) then after_delivery ExpBackoff (wall E) r (d r) else r"
  fix e assume "e \<in> set (map ?f (t_outbox st))" and p: "oe_status e = ''pending''"
  then obtain r where r: "r \<in> set (t_outbox st)" "e = ?f r" by auto
  show "oe_next_retry_at e \<le> wall E + hours 1"
  proof (cases "r \<in> set (due_rows E 10 st)")
    case True
    then have "oe_status r = ''pending''" using due_rows_set by blast
    with True r(2) p show ?thesis using retry_after by simp
  next
    case False
    then have "e = r" using r(2) by simp
    with r(1) p have "oe_next_retry_at e \<le> t" using assms(3) by (simp add: due_by_def)
    with assms(4) show ?thesis by simp
  qed
qed

lemma round_idle:
  assumes "answering E" and "keys_unique oe_id (t_outbox st)" and "due_rows E 10 st = []"
  shows "t_outbox (round_of (E, d) st) = t_outbox st"
  unfolding round_rows [OF assms(1,2)] by (simp add: assms(3))

lemma round_less:
  assumes "answering E" and "keys_unique oe_id (t_outbox st)" and "due_rows E 10 st \<noteq> []"
  shows "backlog (round_of (E, d) st) < backlog st"
proof -
  obtain e where e: "e \<in> set (due_rows E 10 st)" using assms(3) by (cases "due_rows E 10 st") auto
  then have "e \<in> set (t_outbox st)" using due_rows_set by blast
  moreover have less: "attempts_left (after_delivery ExpBackoff (wall E) x (d x)) < attempts_left x"
    if "x \<in> set (due_rows E 10 st)" for x using that due_rows_set by (intro attempts_left_after) blast
  ultimately show ?thesis
    unfolding backlog_def round_rows [OF assms(1,2)] map_map comp_def
    by (intro sum_list_less [where x = e]) (auto simp: e intro: less_imp_le)
qed

lemma round_le: "answering E \<Longrightarrow> keys_unique oe_id (t_outbox st) \<Longrightarrow> backlog (round_of (E, d) st) \<le> backlog st"
  using round_less [of E st d] round_idle [of E st d] by (cases "due_rows E 10 st = []") (auto simp: backlog_def)

text \<open>Either nothing was tried since \<open>t\<close> and everything can be tried an hour later, or an attempt was made.\<close>

lemma run_empties:
  assumes "\<forall>x \<in> set run. answering (fst x)" and "sorted (map (\<lambda>x. wall (fst x)) run)" and "\<forall>x \<in> set run. w \<le> wall (fst x)"
    and "t \<le> w" and "keys_unique oe_id (t_outbox st)"
    and "due_by (t + hours 1) st \<and> backlog st \<le> hours_spanned t run \<or>
         due_by (w + hours 1) st \<and> backlog st < hours_spanned t run \<or> backlog st = 0"
  shows "backlog (fold round_of run st) = 0"
  using assms
proof (induction run arbitrary: st t w)
  case (Cons x run)
  obtain E d where x: "x = (E, d)" by (cases x)
  let ?st = "round_of x st" and ?v = "wall E"
  have E: "answering E" and wv: "w \<le> ?v" using Cons.prems(1,3) by (simp_all add: x)
  have k: "keys_unique oe_id (t_outbox ?st)" unfolding x using E Cons.prems(5) by (rule round_keys)
  have srt: "sorted (map (\<lambda>x. wall (fst x)) run)" "\<forall>y \<in> set run. ?v \<le> wall (fst y)" using Cons.prems(2) by (auto simp: x)
  have le: "backlog ?st \<le> backlog st" unfolding x by (rule round_le [OF E Cons.prems(5)])
  have due: "due_by s st \<Longrightarrow> s \<le> ?v + hours 1 \<Longrightarrow> due_by (?v + hours 1) ?st" for s
    unfolding x by (rule round_due [OF E Cons.prems(5)])
  have tried: "backlog ?st < backlog st" if "due_rows E 10 st \<noteq> []" unfolding x by (rule round_less [OF E Cons.prems(5) that])
  have idle: "t_outbox ?st = t_outbox st" if "due_rows E 10 st = []" unfolding x by (rule round_idle [OF E Cons.prems(5) that])
  consider (finished) "backlog st = 0" | (calm) "due_by (t + hours 1) st" "backlog st \<le> hours_spanned t (x # run)" "backlog st \<noteq> 0"
    | (busy) "due_by (w + hours 1) st" "backlog st < hours_spanned t (x # run)"
    using Cons.prems(6) by (cases "backlog st = 0") auto
  then have step: "(if t + hours 1 \<le> ?v
       then due_by (?v + hours 1) ?st \<and> backlog ?st \<le> hours_spanned ?v run \<or> backlog ?st = 0
       else due_by (t + hours 1) ?st \<and> backlog ?st \<le> hours_spanned t run \<or>
            due_by (?v + hours 1) ?st \<and> backlog ?st < hours_spanned t run \<or> backlog ?st = 0)"
  proof cases
    case finished
    then show ?thesis using le by simp
  next
    case busy
    then show ?thesis using le due [of "w + hours 1"] wv by (auto simp: x)
  next
    case calm
    show ?thesis
    proof (cases "t + hours 1 \<le> ?v")
      case True
      obtain e where e: "e \<in> set (t_outbox st)" "oe_status e = ''pending''" using calm(3) by (auto simp: backlog_0)
      then have "due_rows E 10 st \<noteq> []" using calm(1) True by (intro due_rows_some [of e]) (auto simp: due_by_def)
      then show ?thesis using tried due [of "t + hours 1"] calm True Cons.prems(4) wv by (auto simp: x)
    next
      case False
      show ?thesis
      proof (cases "due_rows E 10 st = []")
        case True
        then show ?thesis using idle calm False by (simp add: x due_by_def backlog_def)
      next
        case f: False
        then show ?thesis using tried due [of "t + hours 1"] calm False Cons.prems(4) wv by (auto simp: x)
      qed
    qed
  qed
  have "backlog (fold round_of run ?st) = 0"
  proof (cases "t + hours 1 \<le> ?v")
    case True
    with step show ?thesis using srt E Cons.prems(1) k
      by (intro Cons.IH [of ?v ?v ?st]) auto
  next
    case False
    with step show ?thesis using srt E Cons.prems(1,4) k wv
      by (intro Cons.IH [of ?v t ?st]) auto
  qed
  then show ?case by simp
qed (auto simp: backlog_0)

text \<open>The rows stay, under their identifiers, in one of the three statuses.\<close>

lemma round_ids:
  assumes "answering E" and "keys_unique oe_id (t_outbox st)"
  shows "map oe_id (t_outbox (round_of (E, d) st)) = map oe_id (t_outbox st)"
  unfolding round_rows [OF assms] by simp

lemma round_statuses:
  assumes "answering E" and "keys_unique oe_id (t_outbox st)"
    and "\<forall>e \<in> set (t_outbox st). oe_status e \<in> {''pending'', ''sent'', ''failed''}"
  shows "\<forall>e \<in> set (t_outbox (round_of (E, d) st)). oe_status e \<in> {''pending'', ''sent'', ''failed''}"
proof -
  have ok: "oe_status (after_delivery b now e r) \<in> {''pending'', ''sent'', ''failed''}"
    if "oe_status e \<in> {''pending'', ''sent'', ''failed''}" for b now e r
    using that by (auto simp: after_delivery_def Let_def split: option.split)
  show ?thesis unfolding round_rows [OF assms(1,2)]
  proof (intro ballI)
    let ?f = "\<lambda>r. if r \<in> set (due_rows E 10 st) then after_delivery ExpBackoff (wall E) r (d r) else r"
    fix e assume "e \<in> set (map ?f (t_outbox st))"
    then obtain r where r: "r \<in> set (t_outbox st)" "e = ?f r" by auto
    then have "oe_status r \<in> {''pending'', ''sent'', ''failed''}" using assms(3) by blast
    with r(2) ok [of r] show "oe_status e \<in> {''pending'', ''sent'', ''failed''}" by (simp split: if_splits)
  qed
qed

lemma run_rows:
  assumes "\<forall>x \<in> set run. answering (fst x)" and "keys_unique oe_id (t_outbox st)"
    and "\<forall>e \<in> set (t_outbox st). oe_status e \<in> {''pending'', ''sent'', ''failed''}"
  shows "map oe_id (t_outbox (fold round_of run st)) = map oe_id (t_outbox st) \<and>
    (\<forall>e \<in> set (t_outbox (fold round_of run st)). oe_status e \<in> {''pending'', ''sent'', ''failed''})"
  using assms
proof (induction run arbitrary: st)
  case (Cons x run)
  obtain E d where x: "x = (E, d)" by (cases x)
  have E: "answering E" using Cons.prems(1) by (simp add: x)
  have "map oe_id (t_outbox (round_of x st)) = map oe_id (t_outbox st)" unfolding x by (rule round_ids [OF E Cons.prems(2)])
  moreover have "map oe_id (t_outbox (fold round_of run (round_of x st))) = map oe_id (t_outbox (round_of x st)) \<and>
      (\<forall>e \<in> set (t_outbox (fold round_of run (round_of x st))). oe_status e \<in> {''pending'', ''sent'', ''failed''})"
    using Cons.prems round_keys [OF E Cons.prems(2)] round_statuses [OF E Cons.prems(2,3)]
    by (intro Cons.IH) (simp_all add: x)
  ultimately show ?case by simp
qed simp

text \<open>C30 The outbox empties. Let the worker run, at any times, with any answers of the SMTP server and any
  number of mails; every round whose database answers counts. As soon as the run has spanned as many
  hours as there are attempts left, no mail is pending any more: every queued mail is still there, and it was
  either delivered or given up as failed. The back-off of at most an hour is what the bound rests on.\<close>

theorem outbox_empties:
  assumes "\<forall>x \<in> set run. answering (fst x) \<and> t \<le> wall (fst x)" and "sorted (map (\<lambda>x. wall (fst x)) run)"
    and "keys_unique oe_id (t_outbox st)" and "due_by (t + hours 1) st" and "backlog st \<le> hours_spanned t run"
    and "\<forall>e \<in> set (t_outbox st). oe_status e \<in> {''pending'', ''sent'', ''failed''}"
  shows "map oe_id (t_outbox (fold round_of run st)) = map oe_id (t_outbox st) \<and>
    list_all (\<lambda>e. oe_status e \<in> {''sent'', ''failed''}) (t_outbox (fold round_of run st))"
proof -
  have "backlog (fold round_of run st) = 0"
    by (rule run_empties [of run t t st]) (use assms in auto)
  then have "\<forall>e \<in> set (t_outbox (fold round_of run st)). oe_status e \<noteq> ''pending''" by (simp add: backlog_0)
  then show ?thesis using run_rows [of run st] assms(1,3,6) by (auto simp: list_all_iff)
qed

definition one_mail :: db where
  "one_mail = demo_db\<lparr>t_outbox := [blank_email\<lparr>oe_id := UUID 4, oe_status := ''pending'', oe_max_attempts := 2\<rparr>]\<rparr>"

definition deaf_rounds :: "(env \<times> (outbound_email \<Rightarrow> string option)) list" where
  "deaf_rounds = [(demo_env\<lparr>wall := 3600000000000\<rparr>, \<lambda>e. Some ''refused''), (demo_env\<lparr>wall := 7200000000000\<rparr>, \<lambda>e. Some ''refused'')]"

lemma outbox_empties_witness:
  "list_all (\<lambda>e. oe_status e \<in> {''sent'', ''failed''}) (t_outbox (fold round_of deaf_rounds one_mail)) \<and>
   map oe_id (t_outbox (fold round_of deaf_rounds one_mail)) = [UUID 4]"
proof -
  have h: "hours 1 = 3600000000000" by (simp add: hours_def nanos_per_second_def int64_id)
  have "\<forall>x \<in> set deaf_rounds. answering (fst x) \<and> 0 \<le> wall (fst x)" "sorted (map (\<lambda>x. wall (fst x)) deaf_rounds)"
    "keys_unique oe_id (t_outbox one_mail)" "due_by (0 + hours 1) one_mail" "backlog one_mail \<le> hours_spanned 0 deaf_rounds"
    "\<forall>e \<in> set (t_outbox one_mail). oe_status e \<in> {''pending'', ''sent'', ''failed''}"
    by (simp_all add: deaf_rounds_def answering_def one_mail_def keys_unique_def due_by_def h backlog_def
        attempts_left_def blank_email_def demo_env_def)
  from outbox_empties [OF this] show ?thesis by (simp add: one_mail_def)
qed

end
