(* ===== verification/Importer.thy ===== *)
theory Importer
  imports FedProviders
begin

text \<open>
  The migration of another IAM's accounts (\<^verbatim>\<open>importer/canonical.go\<close>, \<^verbatim>\<open>importer/engine.go\<close>, its
  source \<^verbatim>\<open>importer/logto/logto.go\<close> and the \<^verbatim>\<open>import\<close> command): the canonical user, the operator's
  mapping, the engine that resolves it and writes the accounts one transaction each, and the Logto
  rows it reads. A Go map is the list of its entries, with distinct keys; a JSONB column is the value
  it holds, or None for SQL NULL; the two queries against the foreign database are parameters.
\<close>

section \<open>Canonical users\<close>

record canonical_identity =
  ci_target :: string
  ci_external_id :: string
  ci_email :: "string option"

record canonical_user =
  cx_external_id :: string
  cx_email :: string
  cx_display_name :: "string option"
  cx_avatar_url :: "string option"
  cx_phone :: "string option"
  cx_username :: "string option"
  cx_email_verified :: bool
  cx_password_hash :: "string option"
  cx_password_unsupported :: bool
  cx_active :: bool
  cx_profile :: profile_metadata
  cx_custom_data :: any_map
  cx_identities :: "canonical_identity list"
  cx_roles :: "string list"

section \<open>Mapping and report\<close>

record mapping_config =
  mg_providers :: "(string \<times> string) list"
  mg_roles :: "(string \<times> string) list"
  mg_assume_verified_email :: bool
  mg_default_role :: string
  mg_on_unsupported :: string

definition onUnsupportedReset :: string where "onUnsupportedReset = ''reset''"
definition onUnsupportedSkip :: string where "onUnsupportedSkip = ''skip''"
definition onUnsupportedFail :: string where "onUnsupportedFail = ''fail''"

datatype import_warning = NoEmail string | ImportFailed string err

record report =
  rp_total :: nat
  rp_created :: nat
  rp_skipped_existing :: nat
  rp_skipped_no_email :: nat
  rp_skipped_no_password :: nat
  rp_forced_reset :: nat
  rp_social_only :: nat
  rp_links_created :: nat
  rp_roles_assigned :: nat
  rp_unmapped_providers :: "(string \<times> nat) list"
  rp_unmapped_roles :: "(string \<times> nat) list"
  rp_warnings :: "import_warning list"

definition newReport :: report where
  "newReport = \<lparr>rp_total = 0, rp_created = 0, rp_skipped_existing = 0, rp_skipped_no_email = 0,
     rp_skipped_no_password = 0, rp_forced_reset = 0, rp_social_only = 0, rp_links_created = 0,
     rp_roles_assigned = 0, rp_unmapped_providers = [], rp_unmapped_roles = [], rp_warnings = []\<rparr>"

text \<open>\<^verbatim>\<open>m[k]++\<close> for every key of a list.\<close>

definition counted :: "(string \<times> nat) list \<Rightarrow> string list \<Rightarrow> (string \<times> nat) list" where
  "counted m ks = fold (\<lambda>k. AList.map_default k 0 Suc) ks m"

datatype import_error =
    BadPolicy string
  | UnknownProvider string
  | UnknownRole string
  | CheckExisting string
  | UnsupportedPassword string
  | Cancelled

section \<open>The engine\<close>

record engine =
  en_mapping :: mapping_config
  en_dry_run :: bool
  en_source :: string
  en_provider_ids :: "(string \<times> uuid) list"
  en_role_ids :: "(string \<times> uuid) list"

definition string_order :: "string \<Rightarrow> nat list" where
  "string_order s = map of_char s"

definition distinctValues :: "(string \<times> string) list \<Rightarrow> string list" where
  "distinctValues m = sort_key string_order (remdups (map snd m))"

text \<open>The lookup of each name, in order, stops at the first one that is unknown or cannot be read.\<close>

fun resolve_names :: "(string \<Rightarrow> uuid option) \<Rightarrow> string list \<Rightarrow> string + (string \<times> uuid) list" where
  "resolve_names look [] = Inr []"
| "resolve_names look (n # ns) =
     (case look n of
        None \<Rightarrow> Inl n
      | Some i \<Rightarrow> (case resolve_names look ns of Inl x \<Rightarrow> Inl x | Inr m \<Rightarrow> Inr ((n, i) # m)))"

definition provider_named :: "env \<Rightarrow> db \<Rightarrow> string \<Rightarrow> uuid option" where
  "provider_named E st n = map_option fp_id (db_maybe
     (stmt E ''import.Provider'' (first_where (\<lambda>p. fp_name p = n) (t_fed_providers st))))"

definition role_named :: "env \<Rightarrow> db \<Rightarrow> string \<Rightarrow> uuid option" where
  "role_named E st n = map_option ro_id (db_maybe
     (stmt E ''import.Role'' (first_where (\<lambda>r. ro_name r = n) (t_roles st))))"

definition wanted_roles :: "mapping_config \<Rightarrow> string list" where
  "wanted_roles m = distinctValues (mg_roles m) @ (if mg_default_role m \<noteq> [] then [mg_default_role m] else [])"

definition NewEngine :: "env \<Rightarrow> mapping_config \<Rightarrow> string \<Rightarrow> bool \<Rightarrow> db \<Rightarrow> import_error + engine" where
  "NewEngine E m source dry st =
     (let m1 = (if mg_on_unsupported m = [] then m\<lparr>mg_on_unsupported := onUnsupportedReset\<rparr> else m)
      in if mg_on_unsupported m1 \<noteq> onUnsupportedReset \<and> mg_on_unsupported m1 \<noteq> onUnsupportedSkip
            \<and> mg_on_unsupported m1 \<noteq> onUnsupportedFail
         then Inl (BadPolicy (mg_on_unsupported m1))
         else (case resolve_names (provider_named E st) (distinctValues (mg_providers m1)) of
                 Inl n \<Rightarrow> Inl (UnknownProvider n)
               | Inr ps \<Rightarrow>
                   (case resolve_names (role_named E st) (wanted_roles m1) of
                      Inl n \<Rightarrow> Inl (UnknownRole n)
                    | Inr rs \<Rightarrow> Inr \<lparr>en_mapping = m1, en_dry_run = dry, en_source = source,
                                      en_provider_ids = ps, en_role_ids = rs\<rparr>)))"

text \<open>The ids of the mapped roles and the names without a mapping; the default role stands in when no
  name of the user is matched.\<close>

fun mapped_roles :: "engine \<Rightarrow> string list \<Rightarrow> uuid list \<times> string list" where
  "mapped_roles g [] = ([], [])"
| "mapped_roles g (r # rs) =
     (let (ids, un) = mapped_roles g rs
      in case map_of (mg_roles (en_mapping g)) r of
           None \<Rightarrow> (ids, r # un)
         | Some n \<Rightarrow> (case map_of (en_role_ids g) n of None \<Rightarrow> (ids, un) | Some i \<Rightarrow> (i # ids, un)))"

definition resolveRoles :: "engine \<Rightarrow> string list \<Rightarrow> uuid list \<times> string list" where
  "resolveRoles g rs =
     (let (ids, un) = mapped_roles g rs; d = mg_default_role (en_mapping g)
      in (if ids = [] \<and> d \<noteq> [] then (case map_of (en_role_ids g) d of None \<Rightarrow> ids | Some i \<Rightarrow> ids @ [i]) else ids, un))"

fun resolveLinks :: "engine \<Rightarrow> canonical_identity list \<Rightarrow> fed_link list \<times> string list" where
  "resolveLinks g [] = ([], [])"
| "resolveLinks g (i # is) =
     (let (ls, un) = resolveLinks g is
      in case map_of (mg_providers (en_mapping g)) (ci_target i) of
           None \<Rightarrow> (ls, ci_target i # un)
         | Some n \<Rightarrow>
             (case map_of (en_provider_ids g) n of
                None \<Rightarrow> (ls, ci_target i # un)
              | Some p \<Rightarrow> (\<lparr>fl_id = uuid_nil, fl_user_id = uuid_nil, fl_provider_id = p,
                             fl_external_id = ci_external_id i, fl_email = ci_email i, fl_metadata = []\<rparr> # ls, un)))"

definition buildMetadata :: "engine \<Rightarrow> canonical_user \<Rightarrow> any_map" where
  "buildMetadata g u =
     (let m = encode_profile (cx_profile u);
          m1 = (if cx_custom_data u \<noteq> [] then AList.update ''custom_data'' (AObj (cx_custom_data u)) m else m)
      in AList.update ''_import'' (AObj [(''source'', AStr (en_source g)), (''external_id'', AStr (cx_external_id u))]) m1)"

text \<open>What GORM inserts: \<^verbatim>\<open>active\<close> has the column default true, so a false field is left to it.\<close>

definition user_defaults :: "user \<Rightarrow> user" where
  "user_defaults u = u\<lparr>us_active := True\<rparr>"

definition canonical_row :: "engine \<Rightarrow> canonical_user \<Rightarrow> string \<Rightarrow> bool \<Rightarrow> user" where
  "canonical_row g u email must_set = blank_user\<lparr>us_email := email,
     us_email_verified := (cx_email_verified u \<or> mg_assume_verified_email (en_mapping g) \<and> email \<noteq> []),
     us_password_hash := cx_password_hash u, us_must_set_password := must_set,
     us_display_name := cx_display_name u, us_avatar_url := cx_avatar_url u, us_phone := cx_phone u,
     us_active := cx_active u, us_metadata := buildMetadata g u\<rparr>"

text \<open>\<^verbatim>\<open>ON CONFLICT DO NOTHING\<close> leaves a pair that is already there; the foreign keys still hold.\<close>

definition insert_user_role :: "env \<Rightarrow> uuid \<Rightarrow> uuid \<Rightarrow> db \<Rightarrow> db dbres" where
  "insert_user_role E u r st = stmt_opt E ''import.AssignRole''
     (if List.member (t_user_roles st) (u, r) then Some st
      else if role_row st r = None \<or> user_row st u = None then None
      else Some (st\<lparr>t_user_roles := t_user_roles st @ [(u, r)]\<rparr>))"

fun insert_user_roles :: "env \<Rightarrow> uuid \<Rightarrow> uuid list \<Rightarrow> db \<Rightarrow> unit res \<times> db" where
  "insert_user_roles E u [] st = (Inr (), st)"
| "insert_user_roles E u (r # rs) st =
     (case insert_user_role E u r st of
        DbErr \<Rightarrow> (Inl (DriverError ''assign role''), st)
      | DbOk st1 \<Rightarrow> insert_user_roles E u rs st1)"

fun create_links :: "env \<Rightarrow> uuid \<Rightarrow> fed_link list \<Rightarrow> db \<Rightarrow> unit res \<times> db" where
  "create_links E u [] st = (Inr (), st)"
| "create_links E u (l # ls) st =
     (case CreateLink E (l\<lparr>fl_user_id := u\<rparr>) st of
        (DbErr, st1) \<Rightarrow> (Inl (DriverError ''create federation link''), st1)
      | (DbOk k, st1) \<Rightarrow> create_links E u ls st1)"

definition import_tx :: "env \<Rightarrow> user \<Rightarrow> uuid list \<Rightarrow> fed_link list \<Rightarrow> db \<Rightarrow> unit res \<times> db" where
  "import_tx E u rs ls st =
     (case user_Create E (user_defaults u) st of
        (DbErr, st1) \<Rightarrow> (Inl (DriverError ''create user''), st1)
      | (DbOk v, st1) \<Rightarrow>
          (case insert_user_roles E (us_id v) rs st1 of
             (Inl e, st2) \<Rightarrow> (Inl e, st2)
           | (Inr x, st2) \<Rightarrow> create_links E (us_id v) ls st2))"

definition created :: "nat \<Rightarrow> nat \<Rightarrow> report \<Rightarrow> report" where
  "created roles links r = r\<lparr>rp_created := Suc (rp_created r), rp_roles_assigned := rp_roles_assigned r + roles,
     rp_links_created := rp_links_created r + links\<rparr>"

definition warned :: "import_warning \<Rightarrow> report \<Rightarrow> report" where
  "warned w r = r\<lparr>rp_warnings := rp_warnings r @ [w]\<rparr>"

text \<open>The password policy: the report and whether the user must set a password, an abort, or a skip.\<close>

datatype password_ruling = Proceed bool | SkipUser | Abort

definition password_ruling :: "engine \<Rightarrow> canonical_user \<Rightarrow> password_ruling" where
  "password_ruling g u =
     (if cx_password_hash u \<noteq> None then Proceed False
      else if cx_password_unsupported u
      then (if mg_on_unsupported (en_mapping g) = onUnsupportedFail then Abort
            else if mg_on_unsupported (en_mapping g) = onUnsupportedSkip then SkipUser
            else Proceed True)
      else Proceed True)"

definition ruled :: "canonical_user \<Rightarrow> report \<Rightarrow> report" where
  "ruled u r =
     (if cx_password_hash u \<noteq> None then r
      else if cx_password_unsupported u then r\<lparr>rp_forced_reset := Suc (rp_forced_reset r)\<rparr>
      else r\<lparr>rp_social_only := Suc (rp_social_only r)\<rparr>)"

definition write_user ::
  "engine \<Rightarrow> env \<Rightarrow> canonical_user \<Rightarrow> string \<Rightarrow> bool \<Rightarrow> report \<Rightarrow> db \<Rightarrow> report \<times> db" where
  "write_user g E u email must_set r st =
     (let (roles, no_role) = resolveRoles g (cx_roles u);
          (links, no_provider) = resolveLinks g (cx_identities u);
          r1 = r\<lparr>rp_unmapped_roles := counted (rp_unmapped_roles r) no_role,
                 rp_unmapped_providers := counted (rp_unmapped_providers r) no_provider\<rparr>
      in if en_dry_run g then (created (length roles) (length links) r1, st)
         else (case Transaction E (import_tx E (canonical_row g u email must_set) roles links) st of
                 (Inl e, st1) \<Rightarrow> (warned (ImportFailed email e) r1, st1)
               | (Inr x, st1) \<Rightarrow> (created (length roles) (length links) r1, st1)))"

definition email_count :: "env \<Rightarrow> string \<Rightarrow> db \<Rightarrow> nat dbres" where
  "email_count E e st = stmt E ''import.CountEmail'' (length (filter (\<lambda>u. us_email u = e) (t_users st)))"

text \<open>One user: the report so far, an error that aborts the run, and the database.\<close>

definition importOne ::
  "engine \<Rightarrow> env \<Rightarrow> canonical_user \<Rightarrow> report \<Rightarrow> db \<Rightarrow> (report \<times> import_error option) \<times> db" where
  "importOne g E u r0 st =
     (let r = r0\<lparr>rp_total := Suc (rp_total r0)\<rparr>; email = lower_trim (cx_email u)
      in if email = []
         then ((warned (NoEmail (cx_external_id u)) (r\<lparr>rp_skipped_no_email := Suc (rp_skipped_no_email r)\<rparr>), None), st)
         else (case email_count E email st of
             DbErr \<Rightarrow> ((r, Some (CheckExisting email)), st)
           | DbOk n \<Rightarrow>
               if n > 0 then ((r\<lparr>rp_skipped_existing := Suc (rp_skipped_existing r)\<rparr>, None), st)
               else (case password_ruling g u of
                   Abort \<Rightarrow> ((r, Some (UnsupportedPassword email)), st)
                 | SkipUser \<Rightarrow> ((r\<lparr>rp_skipped_no_password := Suc (rp_skipped_no_password r)\<rparr>, None), st)
                 | Proceed must_set \<Rightarrow>
                     (case write_user g E u email must_set (ruled u r) st of (r1, st1) \<Rightarrow> ((r1, None), st1)))))"

text \<open>The run over the users. Whether the context was cancelled before a user is the first of each pair.\<close>

fun Import :: "engine \<Rightarrow> env \<Rightarrow> (bool \<times> canonical_user) list \<Rightarrow> report \<Rightarrow> db \<Rightarrow> (report \<times> import_error option) \<times> db" where
  "Import g E [] r st = ((r, None), st)"
| "Import g E ((cancelled, u) # us) r st =
     (if cancelled then ((r, Some Cancelled), st)
      else (case importOne g E u r st of
              ((r1, Some e), st1) \<Rightarrow> ((r1, Some e), st1)
            | ((r1, None), st1) \<Rightarrow> Import g E us r1 st1))"

end
