(* ===== verification/Logto.thy ===== *)
theory Logto
  imports Importer
begin

text \<open>
  The Logto source of the importer (\<^verbatim>\<open>importer/logto/logto.go\<close>) and the command that runs it
  (\<^verbatim>\<open>cmd_import.go\<close>). The two queries are parameters: a list of rows, or None when the query or a scan
  fails. The order in which Go walks the identities of a user is the order of the object here.
\<close>

section \<open>Columns\<close>

record logto_row =
  lg_id :: string
  lg_username :: "string option"
  lg_email :: "string option"
  lg_phone :: "string option"
  lg_name :: "string option"
  lg_avatar :: "string option"
  lg_password_encrypted :: "string option"
  lg_password_method :: "string option"
  lg_profile :: "any option"
  lg_custom_data :: "any option"
  lg_identities :: "any option"
  lg_is_suspended :: bool

definition nullToPtr :: "string option \<Rightarrow> string option" where
  "nullToPtr ns = (if ns = Some [] then None else ns)"

definition logto_displayName :: "string option \<Rightarrow> string option \<Rightarrow> string option" where
  "logto_displayName name username = (if nullToPtr name \<noteq> None then nullToPtr name else nullToPtr username)"

definition null_string :: "string option \<Rightarrow> string" where
  "null_string ns = (case ns of None \<Rightarrow> [] | Some s \<Rightarrow> s)"

text \<open>The hash to import, and whether a password was there that cannot be imported.\<close>

definition normalizePassword :: "string option \<Rightarrow> string option \<Rightarrow> string option \<times> bool" where
  "normalizePassword meth encrypted =
     (case (nullToPtr encrypted, meth) of
        (Some h, Some m) \<Rightarrow>
          (if m = ''Argon2i'' \<or> m = ''Argon2id'' \<or> m = ''Bcrypt'' then (Some h, False)
           else if m = ''SHA256'' \<or> m = ''SHA1'' \<or> m = ''MD5''
           then (case EncodeForeignHash (to_lower m) h of Inl e \<Rightarrow> (None, True) | Inr enc \<Rightarrow> (Some enc, False))
           else (None, True))
      | _ \<Rightarrow> (None, False))"

section \<open>Profile, custom data and identities\<close>

text \<open>A value that is not an object decodes to the zero struct: the error is ignored.\<close>

definition object_of :: "any option \<Rightarrow> any_map" where
  "object_of raw = (case raw of Some (AObj m) \<Rightarrow> m | _ \<Rightarrow> [])"

definition buildProfile :: "any option \<Rightarrow> string option \<Rightarrow> profile_metadata" where
  "buildProfile raw username =
     (let m = object_of raw; preferred = string_field ''preferredusername'' m
      in \<lparr>pf_given_name = string_field ''givenname'' m, pf_family_name = string_field ''familyname'' m,
          pf_middle_name = string_field ''middlename'' m, pf_nickname = string_field ''nickname'' m,
          pf_preferred_username = (if preferred = None then nullToPtr username else preferred),
          pf_profile_url = string_field ''profile'' m, pf_website = string_field ''website'' m,
          pf_gender = string_field ''gender'' m, pf_birthdate = string_field ''birthdate'' m,
          pf_zoneinfo = string_field ''zoneinfo'' m, pf_locale = string_field ''locale'' m,
          pf_phone_verified = None, pf_address = None\<rparr>)"

definition decodeCustomData :: "any option \<Rightarrow> any_map" where
  "decodeCustomData raw = object_of raw"

text \<open>One identity: None when the entry or its \<^verbatim>\<open>userId\<close> has another JSON type.\<close>

fun user_id_member :: "string \<Rightarrow> any_map \<Rightarrow> string option" where
  "user_id_member acc [] = Some acc"
| "user_id_member acc ((k, v) # m) =
     (if names_field k ''userid''
      then (case v of AStr s \<Rightarrow> user_id_member s m | ANil \<Rightarrow> user_id_member acc m | _ \<Rightarrow> None)
      else user_id_member acc m)"

definition identity_user_id :: "any \<Rightarrow> string option" where
  "identity_user_id v = (case v of AObj m \<Rightarrow> user_id_member [] m | ANil \<Rightarrow> Some [] | _ \<Rightarrow> None)"

fun identities_in :: "any_map \<Rightarrow> canonical_identity list option" where
  "identities_in [] = Some []"
| "identities_in ((target, v) # m) =
     (case (identity_user_id v, identities_in m) of
        (Some i, Some is) \<Rightarrow>
          Some (if i = [] then is else \<lparr>ci_target = target, ci_external_id = i, ci_email = None\<rparr> # is)
      | _ \<Rightarrow> None)"

definition decodeIdentities :: "any option \<Rightarrow> canonical_identity list" where
  "decodeIdentities raw = (case identities_in (object_of raw) of None \<Rightarrow> [] | Some is \<Rightarrow> is)"

section \<open>The users of the tenant\<close>

definition roles_by_user :: "(string \<times> string) list \<Rightarrow> string \<Rightarrow> string list" where
  "roles_by_user rows i = map snd (filter (\<lambda>(u, r). u = i) rows)"

definition logto_user :: "(string \<times> string) list \<Rightarrow> logto_row \<Rightarrow> canonical_user" where
  "logto_user roles w =
     (let (hash, unsupported) = normalizePassword (lg_password_method w) (lg_password_encrypted w)
      in \<lparr>cx_external_id = lg_id w, cx_email = trim_space (null_string (lg_email w)),
          cx_display_name = logto_displayName (lg_name w) (lg_username w), cx_avatar_url = nullToPtr (lg_avatar w),
          cx_phone = nullToPtr (lg_phone w), cx_username = nullToPtr (lg_username w),
          cx_email_verified = (nullToPtr (lg_email w) \<noteq> None), cx_password_hash = hash,
          cx_password_unsupported = unsupported, cx_active = (\<not> lg_is_suspended w),
          cx_profile = buildProfile (lg_profile w) (lg_username w), cx_custom_data = decodeCustomData (lg_custom_data w),
          cx_identities = decodeIdentities (lg_identities w), cx_roles = roles_by_user roles (lg_id w)\<rparr>)"

definition logto_Users :: "(string \<times> string) list option \<Rightarrow> logto_row list option \<Rightarrow> canonical_user list option" where
  "logto_Users roles rows =
     (case roles of None \<Rightarrow> None | Some rs \<Rightarrow> map_option (map (logto_user rs)) rows)"

section \<open>The command\<close>

record import_flags =
  fg_dsn :: string
  fg_tenant :: string
  fg_mapping_path :: string
  fg_dry_run :: bool

text \<open>What the command reads: the parsed flags, the mapping file, whether the configuration loads and the
  two databases answer, and the two queries for a tenant.\<close>

record import_world =
  iw_flags :: "string list \<Rightarrow> import_flags option"
  iw_mapping :: "string \<Rightarrow> mapping_config option"
  iw_config :: bool
  iw_target :: bool
  iw_source :: "string \<Rightarrow> bool"
  iw_roles :: "string \<Rightarrow> string \<Rightarrow> (string \<times> string) list option"
  iw_rows :: "string \<Rightarrow> string \<Rightarrow> logto_row list option"

definition logto_tenant :: "string \<Rightarrow> string" where
  "logto_tenant t = (if t = [] then ''default'' else t)"

text \<open>The exit code, the report that is printed, and the database.\<close>

definition runImportLogto :: "import_world \<Rightarrow> env \<Rightarrow> string list \<Rightarrow> db \<Rightarrow> (int \<times> report option) \<times> db" where
  "runImportLogto W E args st =
     (case iw_flags W args of None \<Rightarrow> ((2, None), st) | Some f \<Rightarrow>
      if fg_dsn f = [] \<or> fg_mapping_path f = [] then ((2, None), st)
      else case iw_mapping W (fg_mapping_path f) of None \<Rightarrow> ((1, None), st) | Some m \<Rightarrow>
      if \<not> iw_config W \<or> \<not> iw_target W \<or> \<not> iw_source W (fg_dsn f) then ((1, None), st)
      else case NewEngine E m ''logto'' (fg_dry_run f) st of Inl e \<Rightarrow> ((1, None), st) | Inr g \<Rightarrow>
      (let t = logto_tenant (fg_tenant f)
       in case logto_Users (iw_roles W (fg_dsn f) t) (iw_rows W (fg_dsn f) t) of None \<Rightarrow> ((1, None), st) | Some us \<Rightarrow>
          (case Import g E (map (Pair False) us) newReport st of
             ((r, e), st1) \<Rightarrow> ((if e = None then 0 else 1, Some r), st1))))"

definition runImport :: "import_world \<Rightarrow> env \<Rightarrow> string list \<Rightarrow> db \<Rightarrow> (int \<times> report option) \<times> db" where
  "runImport W E args st =
     (case args of
        [] \<Rightarrow> ((2, None), st)
      | source # rest \<Rightarrow> if source = ''logto'' then runImportLogto W E rest st else ((2, None), st))"

end
