(* ===== verification/ImporterProperties.thy ===== *)
theory ImporterProperties
  imports Logto Demo ActionFrame
begin

text \<open>
  What an import may do to the database: it only adds accounts, and only to accounts it added does it
  give roles or identities; an account imported without a password must set one. A second run over
  users the first run has dealt with creates nothing.
\<close>

section \<open>An import adds\<close>

definition new_account :: "db \<Rightarrow> user \<Rightarrow> bool" where
  "new_account st u \<longleftrightarrow> us_id u \<notin> us_id ` set (t_users st) \<and> us_email u \<notin> us_email ` set (t_users st) \<and>
     us_email u \<noteq> [] \<and> us_active u \<and> (us_password_hash u = None \<longrightarrow> us_must_set_password u)"

text \<open>The tables an import has no business with.\<close>

definition rest :: "db \<Rightarrow> db" where
  "rest st = st\<lparr>t_users := [], t_user_roles := [], t_fed_links := [], draws := 0\<rparr>"

lemma rest_simps [simp]:
  "rest (st\<lparr>t_users := us\<rparr>) = rest st" "rest (st\<lparr>t_user_roles := rs\<rparr>) = rest st"
  "rest (st\<lparr>t_fed_links := ls\<rparr>) = rest st" "rest (st\<lparr>draws := n\<rparr>) = rest st"
  by (simp_all add: rest_def)

definition only_adds :: "uuid set \<Rightarrow> db \<Rightarrow> db \<Rightarrow> bool" where
  "only_adds R st st' \<longleftrightarrow> rest st' = rest st \<and>
     (\<exists>us rs ls. t_users st' = t_users st @ us \<and> t_user_roles st' = t_user_roles st @ rs \<and>
        t_fed_links st' = t_fed_links st @ ls \<and> (\<forall>u \<in> set us. new_account st u) \<and>
        set rs \<subseteq> us_id ` set us \<times> R \<and> fl_user_id ` set ls \<subseteq> us_id ` set us)"

lemma only_addsI:
  "rest st' = rest st \<Longrightarrow> t_users st' = t_users st @ us \<Longrightarrow> t_user_roles st' = t_user_roles st @ rs \<Longrightarrow>
    t_fed_links st' = t_fed_links st @ ls \<Longrightarrow> (\<And>u. u \<in> set us \<Longrightarrow> new_account st u) \<Longrightarrow>
    set rs \<subseteq> us_id ` set us \<times> R \<Longrightarrow> fl_user_id ` set ls \<subseteq> us_id ` set us \<Longrightarrow> only_adds R st st'"
  unfolding only_adds_def by blast

lemma only_addsE:
  assumes "only_adds R st st'"
  obtains us rs ls where "rest st' = rest st" "t_users st' = t_users st @ us" "t_user_roles st' = t_user_roles st @ rs"
    "t_fed_links st' = t_fed_links st @ ls" "\<forall>u \<in> set us. new_account st u"
    "set rs \<subseteq> us_id ` set us \<times> R" "fl_user_id ` set ls \<subseteq> us_id ` set us"
  using assms unfolding only_adds_def by (elim conjE exE) (rule that; assumption)

lemma only_adds_refl: "only_adds R st st"
  by (rule only_addsI [of _ _ "[]" "[]" "[]"]) simp_all

lemma only_adds_draws:
  assumes "tables st' = tables st"
  shows "only_adds R st st'"
proof (rule only_addsI [of _ _ "[]" "[]" "[]"])
  show "rest st' = rest st" by (rule tables_field [OF assms]) simp
  show "t_users st' = t_users st @ []" using tables_field [OF assms, of t_users] by simp
  show "t_user_roles st' = t_user_roles st @ []" using tables_field [OF assms, of t_user_roles] by simp
  show "t_fed_links st' = t_fed_links st @ []" using tables_field [OF assms, of t_fed_links] by simp
qed simp_all

lemma only_adds_trans:
  assumes "only_adds R a b" and "only_adds R b c"
  shows "only_adds R a c"
proof -
  from assms(1) obtain us rs ls where one: "rest b = rest a" "t_users b = t_users a @ us"
      "t_user_roles b = t_user_roles a @ rs" "t_fed_links b = t_fed_links a @ ls" "\<forall>u \<in> set us. new_account a u"
      "set rs \<subseteq> us_id ` set us \<times> R" "fl_user_id ` set ls \<subseteq> us_id ` set us"
    by (rule only_addsE)
  from assms(2) obtain us' rs' ls' where two: "rest c = rest b" "t_users c = t_users b @ us'"
      "t_user_roles c = t_user_roles b @ rs'" "t_fed_links c = t_fed_links b @ ls'" "\<forall>u \<in> set us'. new_account b u"
      "set rs' \<subseteq> us_id ` set us' \<times> R" "fl_user_id ` set ls' \<subseteq> us_id ` set us'"
    by (rule only_addsE)
  have new: "new_account a u" if "u \<in> set us'" for u
    using two(5) that by (simp add: new_account_def one(2) image_Un)
  show ?thesis
    by (rule only_addsI [of _ _ "us @ us'" "rs @ rs'" "ls @ ls'"])
       (use one(1-4,6,7) two(1-4,6,7) one(5) new in \<open>auto simp: image_Un\<close>)
qed

lemma insert_user_roles_adds:
  assumes "insert_user_roles E u rs st = (Inr x, st')"
  shows "\<exists>new. st' = st\<lparr>t_user_roles := t_user_roles st @ new\<rparr> \<and> set new \<subseteq> {u} \<times> set rs"
  using assms
proof (induction rs arbitrary: st)
  case Nil
  then show ?case by (intro exI [of _ "[]"]) simp
next
  case (Cons r rs)
  from Cons.prems obtain st1 where one: "insert_user_role E u r st = DbOk st1"
      and others: "insert_user_roles E u rs st1 = (Inr x, st')"
    by (auto split: dbres.splits)
  from Cons.IH [OF others] obtain new where new: "st' = st1\<lparr>t_user_roles := t_user_roles st1 @ new\<rparr>"
      "set new \<subseteq> {u} \<times> set rs" by blast
  have "st1 = st \<or> st1 = st\<lparr>t_user_roles := t_user_roles st @ [(u, r)]\<rparr>"
    using one by (auto simp: insert_user_role_def stmt_opt_def split: if_splits option.splits)
  then show ?case
  proof
    assume "st1 = st" then show ?thesis using new by (intro exI [of _ new]) auto
  next
    assume "st1 = st\<lparr>t_user_roles := t_user_roles st @ [(u, r)]\<rparr>"
    then show ?thesis using new by (intro exI [of _ "(u, r) # new"]) auto
  qed
qed

lemma CreateLink_adds:
  assumes "CreateLink E l st = (DbOk k, st')"
  shows "rest st' = rest st \<and> t_users st' = t_users st \<and> t_user_roles st' = t_user_roles st \<and>
    t_fed_links st' = t_fed_links st @ [k] \<and> fl_user_id k = fl_user_id l"
  using assms by (auto simp: CreateLink_def bump_def new_uuid_def Let_def stmt_opt_def insert_row_Some_iff
      split: option.splits dbres.splits if_splits)

lemma create_links_adds:
  assumes "create_links E u ls st = (Inr x, st')"
  shows "rest st' = rest st \<and> t_users st' = t_users st \<and> t_user_roles st' = t_user_roles st \<and>
    (\<exists>new. t_fed_links st' = t_fed_links st @ new \<and> fl_user_id ` set new \<subseteq> {u})"
  using assms
proof (induction ls arbitrary: st)
  case (Cons l ls)
  from Cons.prems obtain k st1 where one: "CreateLink E (l\<lparr>fl_user_id := u\<rparr>) st = (DbOk k, st1)"
      and others: "create_links E u ls st1 = (Inr x, st')"
    by (auto split: dbres.splits prod.splits)
  have more: "t_fed_links st1 = t_fed_links st @ [k]" "fl_user_id k = u" using CreateLink_adds [OF one] by simp_all
  from Cons.IH [OF others] obtain new where new: "t_fed_links st' = t_fed_links st1 @ new" "fl_user_id ` set new \<subseteq> {u}"
    by blast
  have "t_fed_links st' = t_fed_links st @ (k # new) \<and> fl_user_id ` set (k # new) \<subseteq> {u}" using more new by simp
  then show ?case using Cons.IH [OF others] CreateLink_adds [OF one] by (metis (no_types))
qed simp

lemma user_Create_adds:
  assumes "user_Create E u st = (DbOk v, st')"
  shows "rest st' = rest st \<and> t_users st' = t_users st @ [v] \<and> t_user_roles st' = t_user_roles st \<and>
    t_fed_links st' = t_fed_links st \<and> us_email v = us_email u \<and> us_active v = us_active u \<and>
    us_password_hash v = us_password_hash u \<and> us_must_set_password v = us_must_set_password u \<and>
    us_id v \<notin> us_id ` set (t_users st) \<and> us_email u \<notin> us_email ` set (t_users st)"
  using assms by (auto simp: user_Create_def bump_def new_uuid_def Let_def stmt_opt_def insert_row_Some_iff email_row_def
      first_where_None_iff split: option.splits dbres.splits if_splits)

lemma import_tx_adds:
  assumes "import_tx E u rs ls st = (Inr x, st')" and "us_email u \<noteq> []"
    and "us_password_hash u = None \<longrightarrow> us_must_set_password u" and "set rs \<subseteq> R"
  shows "only_adds R st st' \<and> us_email u \<in> us_email ` set (t_users st')"
proof -
  from assms(1) obtain v st1 y st2 where c: "user_Create E (user_defaults u) st = (DbOk v, st1)"
      and r: "insert_user_roles E (us_id v) rs st1 = (Inr y, st2)" and l: "create_links E (us_id v) ls st2 = (Inr x, st')"
    by (auto simp: import_tx_def split: dbres.splits prod.splits sum.splits)
  note v = user_Create_adds [OF c]
  from insert_user_roles_adds [OF r] obtain rs' where r': "st2 = st1\<lparr>t_user_roles := t_user_roles st1 @ rs'\<rparr>"
      "set rs' \<subseteq> {us_id v} \<times> set rs" by blast
  from create_links_adds [OF l] obtain ls' where l': "t_fed_links st' = t_fed_links st2 @ ls'"
      "fl_user_id ` set ls' \<subseteq> {us_id v}" by blast
  note k = create_links_adds [OF l]
  have new: "new_account st v" using v assms(2,3) by (simp add: new_account_def user_defaults_def)
  have "only_adds R st st'"
  proof (rule only_addsI [of _ _ "[v]" rs' ls'])
    show "rest st' = rest st" "t_users st' = t_users st @ [v]" "t_user_roles st' = t_user_roles st @ rs'"
      "t_fed_links st' = t_fed_links st @ ls'" using v r'(1) l'(1) k by simp_all
  qed (use new r'(2) l'(2) assms(4) in auto)
  then show ?thesis using v r'(1) k by (simp add: user_defaults_def)
qed

text \<open>Roles come from the ids the mapping was resolved to.\<close>

lemma map_of_value: "map_of m k = Some v \<Longrightarrow> v \<in> snd ` set m"
  by (force dest: map_of_SomeD)

lemma mapped_roles_known: "set (fst (mapped_roles g rs)) \<subseteq> snd ` set (en_role_ids g)"
  by (induction rs) (auto split: option.splits prod.splits dest: map_of_value)

lemma resolveRoles_known: "resolveRoles g rs = (ids, un) \<Longrightarrow> set ids \<subseteq> snd ` set (en_role_ids g)"
  using mapped_roles_known [of g rs]
  by (auto simp: resolveRoles_def Let_def split: option.splits prod.splits if_splits dest: map_of_value)

abbreviation known_roles :: "engine \<Rightarrow> uuid set" where
  "known_roles g \<equiv> snd ` set (en_role_ids g)"

definition failures :: "report \<Rightarrow> nat" where
  "failures r = length (filter (\<lambda>w. case w of NoEmail x \<Rightarrow> False | ImportFailed e x \<Rightarrow> True) (rp_warnings r))"

lemma write_user_adds:
  assumes "gorm_rollback E" and "write_user g E u email must r st = (r', st')" and "email \<noteq> []"
    and "cx_password_hash u = None \<longrightarrow> must"
  shows "only_adds (known_roles g) st st'"
    and "\<not> en_dry_run g \<Longrightarrow> failures r' = failures r \<Longrightarrow> email \<in> us_email ` set (t_users st')"
proof -
  obtain ids no_role where roles: "resolveRoles g (cx_roles u) = (ids, no_role)" by fastforce
  obtain ls no_provider where links: "resolveLinks g (cx_identities u) = (ls, no_provider)" by fastforce
  let ?tx = "Transaction E (import_tx E (canonical_row g u email must) ids ls) st"
  note w = assms(2) [unfolded write_user_def roles links Let_def prod.case]
  have tx: "only_adds (known_roles g) st st'' \<and> email \<in> us_email ` set (t_users st'')" if "?tx = (Inr x, st'')" for x st''
    using import_tx_adds [OF Transaction_Inr [OF that] _ _ resolveRoles_known [OF roles]] assms(3,4)
    by (simp add: canonical_row_def)
  have no: "only_adds (known_roles g) st st''" if "?tx = (Inl e, st'')" for e st''
    by (rule only_adds_draws [OF Transaction_Inl_tables [OF assms(1) that]])
  show "only_adds (known_roles g) st st'"
    using w tx no only_adds_refl by (auto split: if_splits sum.splits prod.splits)
  assume live: "\<not> en_dry_run g" and quiet: "failures r' = failures r"
  show "email \<in> us_email ` set (t_users st')"
  proof (cases ?tx)
    case (Pair a st1)
    then show ?thesis using w tx live quiet by (cases a) (auto simp: failures_def warned_def)
  qed
qed

lemma importOne_adds:
  assumes "gorm_rollback E" and "importOne g E u r st = (x, st')"
  shows "only_adds (known_roles g) st st'"
proof (cases "importOne g E u r st = (x, st) \<and> st' = st")
  case False
  then obtain must r1 r2 where w: "write_user g E u (lower_trim (cx_email u)) must r1 st = (r2, st')"
      and e: "lower_trim (cx_email u) \<noteq> []" and p: "password_ruling g u = Proceed must"
    using assms(2) by (auto simp: importOne_def Let_def split: if_splits dbres.splits password_ruling.splits prod.splits)
  have "cx_password_hash u = None \<longrightarrow> must" using p by (auto simp: password_ruling_def split: if_splits)
  from write_user_adds(1) [OF assms(1) w e this] show ?thesis .
qed (simp add: only_adds_refl)

lemma Import_adds:
  "gorm_rollback E \<Longrightarrow> Import g E us r st = (x, st') \<Longrightarrow> only_adds (known_roles g) st st'"
proof (induction us arbitrary: r st)
  case Nil
  then show ?case by (simp add: only_adds_refl)
next
  case (Cons p us)
  obtain c u where p: "p = (c, u)" by (cases p)
  obtain r1 e st1 where one: "importOne g E u r st = ((r1, e), st1)" by (metis prod.collapse)
  note first = importOne_adds [OF Cons.prems(1) one]
  from Cons.prems(2) p one have "st' = st \<or> st' = st1 \<or> Import g E us r1 st1 = (x, st')"
    by (auto split: if_splits option.splits)
  then show ?case using first only_adds_refl only_adds_trans [OF first Cons.IH [OF Cons.prems(1)]] by blast
qed

section \<open>A second run\<close>

text \<open>A user whom a later run has nothing to do for.\<close>

definition settled :: "engine \<Rightarrow> db \<Rightarrow> canonical_user \<Rightarrow> bool" where
  "settled g st u \<longleftrightarrow> lower_trim (cx_email u) = [] \<or> lower_trim (cx_email u) \<in> us_email ` set (t_users st) \<or>
     password_ruling g u = SkipUser"

lemma settled_mono: "only_adds R st st' \<Longrightarrow> settled g st u \<Longrightarrow> settled g st' u"
  by (auto simp: only_adds_def settled_def)

lemma settled_ruling: "en_mapping h = en_mapping g \<Longrightarrow> settled h st u = settled g st u"
  by (simp add: settled_def password_ruling_def)

lemma failures_simps [simp]:
  "failures (created n m r) = failures r" "failures (r\<lparr>rp_total := k\<rparr>) = failures r"
  "failures (r\<lparr>rp_skipped_existing := k\<rparr>) = failures r" "failures (r\<lparr>rp_skipped_no_password := k\<rparr>) = failures r"
  "failures (r\<lparr>rp_skipped_no_email := k\<rparr>) = failures r" "failures (ruled u r) = failures r"
  "failures (warned (NoEmail x) r) = failures r" "failures (warned (ImportFailed a b) r) = Suc (failures r)"
  "failures (r\<lparr>rp_unmapped_roles := m1, rp_unmapped_providers := m2\<rparr>) = failures r"
  by (simp_all add: failures_def created_def ruled_def warned_def)

lemma write_user_failures: "write_user g E u email must r st = (r', st') \<Longrightarrow> failures r \<le> failures r'"
  by (auto simp: write_user_def Let_def split: prod.splits if_splits sum.splits)

lemma importOne_failures: "importOne g E u r st = ((r', e), st') \<Longrightarrow> failures r \<le> failures r'"
  by (auto simp: importOne_def Let_def split: if_splits dbres.splits password_ruling.splits prod.splits
      dest!: write_user_failures)

lemma Import_failures: "Import g E us r st = ((r', e), st') \<Longrightarrow> failures r \<le> failures r'"
proof (induction us arbitrary: r st)
  case (Cons p us)
  obtain c u where p: "p = (c, u)" by (cases p)
  obtain r1 e1 st1 where one: "importOne g E u r st = ((r1, e1), st1)" by (metis prod.collapse)
  show ?case using Cons.prems p one Cons.IH [of r1 st1] importOne_failures [OF one] by (auto split: if_splits option.splits)
qed simp

lemma importOne_settles:
  assumes "gorm_rollback E" and "importOne g E u r st = ((r', None), st')" and "\<not> en_dry_run g"
    and "failures r' = failures r"
  shows "settled g st' u"
proof (cases "settled g st u")
  case True
  then show ?thesis by (rule settled_mono [OF importOne_adds [OF assms(1,2)]])
next
  case False
  then have e: "lower_trim (cx_email u) \<noteq> []" "lower_trim (cx_email u) \<notin> us_email ` set (t_users st)"
      "password_ruling g u \<noteq> SkipUser" by (simp_all add: settled_def)
  then have "length (filter (\<lambda>v. us_email v = lower_trim (cx_email u)) (t_users st)) = 0"
    by (force simp: filter_empty_conv)
  then obtain must where p: "password_ruling g u = Proceed must"
      and w: "write_user g E u (lower_trim (cx_email u)) must (ruled u (r\<lparr>rp_total := Suc (rp_total r)\<rparr>)) st = (r', st')"
    using assms(2) e by (auto simp: importOne_def Let_def email_count_def stmt_def
        split: if_splits dbres.splits password_ruling.splits prod.splits)
  have "cx_password_hash u = None \<longrightarrow> must" using p by (auto simp: password_ruling_def split: if_splits)
  from write_user_adds(2) [OF assms(1) w e(1) this assms(3)] assms(4) show ?thesis by (simp add: settled_def)
qed

lemma Import_settles:
  assumes "gorm_rollback E" and "\<not> en_dry_run g"
  shows "Import g E us r st = ((r', None), st') \<Longrightarrow> failures r' = failures r \<Longrightarrow> \<forall>(c, u) \<in> set us. settled g st' u"
proof (induction us arbitrary: r st)
  case (Cons p us)
  obtain c u where p: "p = (c, u)" by (cases p)
  obtain r1 e1 st1 where one: "importOne g E u r st = ((r1, e1), st1)" by (metis prod.collapse)
  have others: "Import g E us r1 st1 = ((r', None), st')" and e: "e1 = None"
    using Cons.prems(1) p one by (auto split: if_splits option.splits)
  have f: "failures r1 = failures r" "failures r' = failures r1"
    using Cons.prems(2) importOne_failures [OF one] Import_failures [OF others] by simp_all
  have "settled g st1 u" by (rule importOne_settles [OF assms(1) one [unfolded e] assms(2) f(1)])
  then have "settled g st' u" by (rule settled_mono [OF Import_adds [OF assms(1) others]])
  then show ?case using Cons.IH [OF others f(2)] p by simp
qed simp

lemma settled_no_op:
  assumes "settled g st u" and "\<not> db_err E ''import.CountEmail''"
  shows "\<exists>r'. importOne g E u r st = ((r', None), st) \<and> rp_created r' = rp_created r"
proof (cases "length (filter (\<lambda>v. us_email v = lower_trim (cx_email u)) (t_users st)) > 0")
  case True
  then show ?thesis using assms(2) by (simp add: importOne_def Let_def email_count_def stmt_def warned_def)
next
  case False
  then have "lower_trim (cx_email u) \<notin> us_email ` set (t_users st)" by (auto simp: filter_empty_conv)
  then show ?thesis using assms False
    by (auto simp: settled_def importOne_def Let_def email_count_def stmt_def warned_def split: if_splits)
qed

lemma Import_settled:
  assumes "\<not> db_err E ''import.CountEmail''"
  shows "\<forall>u \<in> set us. settled g st u \<Longrightarrow>
    \<exists>r'. Import g E (map (Pair False) us) r st = ((r', None), st) \<and> rp_created r' = rp_created r"
proof (induction us arbitrary: r)
  case (Cons u us)
  from settled_no_op [OF _ assms, of g st u r] Cons.prems obtain r1 where
    one: "importOne g E u r st = ((r1, None), st)" "rp_created r1 = rp_created r" by auto
  from Cons.IH [of r1] Cons.prems one show ?case by auto
qed simp

section \<open>The properties\<close>

text \<open>C22 An import only adds accounts, however the run ends: every existing account, role grant, identity and other
  table is as it was; a new account has an id and an address of its own, is active (also when the source had
  suspended it, because the column default replaces the false field) and must set a password when none came with
  it; the new role grants and identities belong to the new accounts, and the roles are those the mapping resolved.\<close>

theorem import_only_adds:
  assumes "gorm_rollback E" and "Import g E us r st = (x, st')"
  shows "rest st' = rest st \<and> (\<exists>accounts roles links. t_users st' = t_users st @ accounts \<and>
    t_user_roles st' = t_user_roles st @ roles \<and> t_fed_links st' = t_fed_links st @ links \<and>
    (\<forall>u \<in> set accounts. us_id u \<notin> us_id ` set (t_users st) \<and> us_email u \<notin> us_email ` set (t_users st) \<and>
       us_email u \<noteq> [] \<and> us_active u \<and> (us_password_hash u = None \<longrightarrow> us_must_set_password u)) \<and>
    set roles \<subseteq> us_id ` set accounts \<times> snd ` set (en_role_ids g) \<and>
    fl_user_id ` set links \<subseteq> us_id ` set accounts)"
  using Import_adds [OF assms] unfolding only_adds_def new_account_def .

text \<open>C23 An import can be repeated: after a run that ended without an error and without a failed user, a run over
  any of its users with the same mapping and policy ends normally, creates nobody and leaves the database alone.\<close>

theorem import_repeatable:
  assumes "gorm_rollback E" and "\<not> en_dry_run g" and "Import g E us newReport st = ((r, None), st')"
    and "failures r = 0" and "set vs \<subseteq> snd ` set us" and "en_mapping h = en_mapping g"
    and "\<not> db_err E' ''import.CountEmail''"
  shows "\<exists>r'. Import h E' (map (Pair False) vs) newReport st' = ((r', None), st') \<and> rp_created r' = 0"
proof -
  have "failures r = failures newReport" using assms(4) by (simp add: failures_def newReport_def)
  then have "\<forall>(c, u) \<in> set us. settled g st' u" using Import_settles [OF assms(1,2,3)] by blast
  then have "\<forall>u \<in> set vs. settled h st' u" using assms(5) settled_ruling [OF assms(6)] by fastforce
  from Import_settled [OF assms(7) this, of newReport] show ?thesis by (simp add: newReport_def)
qed

text \<open>A Logto tenant with a suspended user, one with a digest, and one without an address.\<close>

definition demo_logto_row :: "string \<Rightarrow> string option \<Rightarrow> bool \<Rightarrow> logto_row" where
  "demo_logto_row i email suspended = \<lparr>lg_id = i, lg_username = Some i, lg_email = email, lg_phone = None,
     lg_name = None, lg_avatar = None, lg_password_encrypted = Some ''AB'', lg_password_method = Some ''Legacy'',
     lg_profile = None, lg_custom_data = None,
     lg_identities = Some (AObj [(''google'', AObj [(''userId'', AStr ''g1'')])]), lg_is_suspended = suspended\<rparr>"

definition demo_users :: "canonical_user list" where
  "demo_users = map (logto_user [(''u1'', ''admin''), (''u1'', ''other'')])
     [demo_logto_row ''u1'' (Some '' New@B.c'') True, demo_logto_row ''u2'' None False]"

definition demo_import :: "(bool \<times> canonical_user) list" where
  "demo_import = map (Pair False) demo_users"

definition demo_engine :: engine where
  "demo_engine = \<lparr>en_mapping = \<lparr>mg_providers = [], mg_roles = [(''admin'', ''staff'')], mg_assume_verified_email = True,
     mg_default_role = [], mg_on_unsupported = onUnsupportedReset\<rparr>, en_dry_run = False, en_source = ''logto'',
     en_provider_ids = [], en_role_ids = [(''staff'', UUID 7)]\<rparr>"

definition demo_target :: db where
  "demo_target = demo_db\<lparr>t_users := [demo_user], t_user_roles := [],
     t_roles := [\<lparr>ro_id = UUID 7, ro_name = ''staff'', ro_description = None\<rparr>]\<rparr>"

lemma demo_engine_made:
  "NewEngine demo_env (en_mapping demo_engine) ''logto'' False demo_target = Inr demo_engine"
  by (simp add: NewEngine_def demo_engine_def onUnsupportedReset_def onUnsupportedSkip_def onUnsupportedFail_def
      wanted_roles_def distinctValues_def role_named_def stmt_def demo_target_def)

lemma demo_import_run:
  "case Import demo_engine demo_env demo_import newReport demo_target of ((r, e), st) \<Rightarrow>
     e = None \<and> failures r = 0 \<and> rp_created r = 1 \<and> map us_email (t_users st) = [''a@b.c'', ''new@b.c'']"
  by code_simp

abbreviation demo_run :: "(report \<times> import_error option) \<times> db" where
  "demo_run \<equiv> Import demo_engine demo_env demo_import newReport demo_target"

lemma import_only_adds_witness:
  "\<exists>accounts. t_users (snd demo_run) = demo_user # accounts \<and> list_all us_active accounts"
  using import_only_adds [OF demo_env_rollback, of demo_engine demo_import newReport demo_target "fst demo_run" "snd demo_run"]
  by (auto simp: demo_target_def list_all_iff)

lemma import_repeatable_witness:
  "\<exists>r'. Import demo_engine demo_env (map (Pair False) (rev demo_users)) newReport (snd demo_run) = ((r', None), snd demo_run) \<and>
     rp_created r' = 0"
proof -
  obtain r e st where run: "demo_run = ((r, e), st)" by (metis prod.collapse)
  have r: "demo_run = ((r, None), st)" "failures r = 0" using demo_import_run unfolding run by simp_all
  have "\<not> en_dry_run demo_engine" by (simp add: demo_engine_def)
  moreover have "set (rev demo_users) \<subseteq> snd ` set demo_import" by (simp add: demo_import_def image_image)
  moreover have "\<not> db_err demo_env ''import.CountEmail''" by simp
  ultimately have "\<exists>r'. Import demo_engine demo_env (map (Pair False) (rev demo_users)) newReport st = ((r', None), st) \<and>
      rp_created r' = 0"
    using r by (intro import_repeatable [OF demo_env_rollback]) simp_all
  then show ?thesis by (simp only: r(1) snd_conv)
qed

end
