(* ===== verification/Routes.thy ===== *)
theory Routes
  imports RateLimit Gates
begin

text \<open>
  The router of the server: every \<^verbatim>\<open>Register...Routes\<close> method of the handlers, with its middleware slots,
  and \<^verbatim>\<open>main.setupRouter\<close>, which mounts them on their groups. A route is its method, its full path, the
  middlewares in front of its handler and the handler's name; matching a request to a route is gin's.
  The second half runs the middlewares of a route as gin does.
\<close>

section \<open>Routes and groups\<close>

datatype mw =
    OAuthLimit
  | AuthLimit
  | ClientAuthMW
  | BearerMW
  | Permission string
  | AnyPermission "string list"
  | PermissionPolicy string string
  | StepUp
  | ClientScope string string

record route =
  rt_method :: string
  rt_path :: string
  rt_guards :: "mw list"
  rt_handler :: string

record group =
  gr_prefix :: string
  gr_guards :: "mw list"

definition Group :: "group \<Rightarrow> string \<Rightarrow> group" where
  "Group g p = g\<lparr>gr_prefix := gr_prefix g @ p\<rparr>"

text \<open>\<^verbatim>\<open>Use\<close>, for a middleware that may be nil.\<close>

definition Use :: "group \<Rightarrow> mw option \<Rightarrow> group" where
  "Use g m = (case m of None \<Rightarrow> g | Some x \<Rightarrow> g\<lparr>gr_guards := gr_guards g @ [x]\<rparr>)"

definition on_route :: "group \<Rightarrow> string \<Rightarrow> string \<Rightarrow> mw list \<Rightarrow> string \<Rightarrow> route" where
  "on_route g meth p ms h = \<lparr>rt_method = meth, rt_path = gr_prefix g @ p, rt_guards = gr_guards g @ ms, rt_handler = h\<rparr>"

definition mounted :: "('g \<Rightarrow> route list) \<Rightarrow> 'g option \<Rightarrow> route list" where
  "mounted f g = (case g of None \<Rightarrow> [] | Some x \<Rightarrow> f x)"

section \<open>The handlers' routes\<close>

definition oauth_RegisterRoutes :: "group \<Rightarrow> mw \<Rightarrow> mw \<Rightarrow> route list" where
  "oauth_RegisterRoutes router clientAuth rateLimiter =
    [on_route router ''GET'' ''/authorize'' [rateLimiter] ''oauth.Authorize'',
     on_route router ''POST'' ''/authorize/login'' [rateLimiter] ''oauth.AuthorizeLogin'',
     on_route router ''POST'' ''/authorize/register'' [rateLimiter] ''oauth.AuthorizeRegister'',
     on_route router ''POST'' ''/authorize/mfa'' [rateLimiter] ''oauth.AuthorizeMFA'',
     on_route router ''POST'' ''/authorize/consent'' [rateLimiter] ''oauth.AuthorizeConsent'',
     on_route router ''POST'' ''/token'' [rateLimiter, clientAuth] ''oauth.Token'',
     on_route router ''POST'' ''/device_authorization'' [rateLimiter, clientAuth] ''oauth.DeviceAuthorization'',
     on_route router ''POST'' ''/device/verify'' [rateLimiter] ''oauth.DeviceVerify'',
     on_route router ''POST'' ''/device/approve'' [rateLimiter] ''oauth.DeviceApprove'',
     on_route router ''POST'' ''/par'' [rateLimiter, clientAuth] ''oauth.PushedAuthorization'',
     on_route router ''POST'' ''/introspect'' [rateLimiter, clientAuth] ''oauth.Introspect'',
     on_route router ''POST'' ''/revoke'' [rateLimiter, clientAuth] ''oauth.Revoke'']"

definition oidc_RegisterRoutes :: "group \<Rightarrow> mw \<Rightarrow> mw \<Rightarrow> route list" where
  "oidc_RegisterRoutes router bearerAuth rateLimiter =
    [on_route router ''GET'' ''/.well-known/openid-configuration'' [] ''oidc.Discovery'',
     on_route router ''GET'' ''/.well-known/oauth-authorization-server'' [] ''oidc.OAuthDiscovery'',
     on_route router ''GET'' ''/.well-known/jwks.json'' [] ''oidc.JWKS'',
     on_route router ''GET'' ''/userinfo'' [rateLimiter, bearerAuth] ''oidc.UserInfo'',
     on_route router ''POST'' ''/userinfo'' [rateLimiter, bearerAuth] ''oidc.UserInfo'',
     on_route router ''GET'' ''/end_session'' [] ''oidc.EndSession'',
     on_route router ''GET'' ''/check_session'' [] ''oidc.CheckSession'']"

definition oidc_RegisterAdminRoutes :: "group \<Rightarrow> route list" where
  "oidc_RegisterAdminRoutes admin =
    [on_route admin ''GET'' ''/keys'' [] ''oidc.ListKeys'',
     on_route admin ''POST'' ''/keys/rotate'' [] ''oidc.RotateKey'']"

definition user_RegisterRoutes :: "group option \<Rightarrow> group option \<Rightarrow> mw option \<Rightarrow> mw option \<Rightarrow> route list" where
  "user_RegisterRoutes pub authenticated readPerm updatePerm =
    mounted (\<lambda>pub. [on_route pub ''POST'' ''/auth/register'' [] ''user.Register'',
     on_route pub ''POST'' ''/auth/login'' [] ''user.Login'',
     on_route pub ''POST'' ''/auth/forgot-password'' [] ''user.ForgotPassword'',
     on_route pub ''POST'' ''/auth/reset-password'' [] ''user.ResetPassword'',
     on_route pub ''POST'' ''/auth/verify-email'' [] ''user.VerifyEmail'',
     on_route pub ''GET'' ''/auth/verify-email'' [] ''user.VerifyEmailLink'',
     on_route pub ''POST'' ''/auth/resend-verification'' [] ''user.ResendVerification'']) pub
    @ mounted (\<lambda>g. let read = Use (Group g []) readPerm; write = Use (Group g []) updatePerm
        in [on_route read ''GET'' ''/me'' [] ''user.GetProfile'',
            on_route write ''PATCH'' ''/me'' [] ''user.UpdateProfile'',
            on_route write ''POST'' ''/me/resend-verification'' [] ''user.ResendMyVerification'']) authenticated"

definition user_RegisterAdminRoutes :: "group \<Rightarrow> route list" where
  "user_RegisterAdminRoutes admin =
    [on_route admin ''GET'' ''/users'' [] ''user.AdminListUsers'',
     on_route admin ''GET'' ''/users/:id'' [] ''user.AdminGetUser'',
     on_route admin ''PATCH'' ''/users/:id'' [] ''user.AdminUpdateUser'',
     on_route admin ''DELETE'' ''/users/:id'' [] ''user.AdminDeleteUser'',
     on_route admin ''POST'' ''/users/:id/reset-password'' [] ''user.AdminResetPassword'']"

definition account_RegisterRoutes ::
  "group option \<Rightarrow> group option \<Rightarrow> mw option \<Rightarrow> mw option \<Rightarrow> mw option \<Rightarrow> mw option \<Rightarrow> route list" where
  "account_RegisterRoutes pub authenticated changePasswordPerm changeEmailPerm deleteAccountPerm requireReauth =
    mounted (\<lambda>pub. [on_route pub ''POST'' ''/me/account/cancel-deletion'' [] ''account.CancelDeletion'',
     on_route pub ''POST'' ''/me/account/email/confirm'' [] ''account.ConfirmEmailChange'']) pub
    @ mounted (\<lambda>g. let pwd = Use (Use (Group g []) changePasswordPerm) requireReauth;
          setPwd = Use (Group g []) changePasswordPerm;
          email = Use (Use (Group g []) changeEmailPerm) requireReauth;
          del = Use (Use (Group g []) deleteAccountPerm) requireReauth
        in [on_route pwd ''PUT'' ''/me/password'' [] ''account.ChangePassword'',
            on_route setPwd ''POST'' ''/me/set-password'' [] ''account.SetInitialPassword'',
            on_route email ''POST'' ''/me/account/email/change-request'' [] ''account.RequestEmailChange'',
            on_route del ''DELETE'' ''/me'' [] ''account.RequestDeletion'']) authenticated"

definition passkey_RegisterRoutes ::
  "group option \<Rightarrow> group option \<Rightarrow> mw option \<Rightarrow> mw option \<Rightarrow> mw option \<Rightarrow> route list" where
  "passkey_RegisterRoutes pub authenticated readPerm managePerm requireReauth =
    mounted (\<lambda>pub. [on_route pub ''POST'' ''/me/passkeys/login/begin'' [] ''passkey.LoginBegin'',
     on_route pub ''POST'' ''/me/passkeys/login/finish'' [] ''passkey.LoginFinish'']) pub
    @ mounted (\<lambda>g. let read = Use (Group g []) readPerm; manage = Use (Group g []) managePerm;
          sensitive = Use (Group manage []) requireReauth
        in [on_route read ''GET'' ''/me/passkeys'' [] ''passkey.List'',
            on_route manage ''POST'' ''/me/passkeys/register/begin'' [] ''passkey.RegisterBegin'',
            on_route manage ''POST'' ''/me/passkeys/register/finish'' [] ''passkey.RegisterFinish'',
            on_route manage ''PATCH'' ''/me/passkeys/:id'' [] ''passkey.Rename'',
            on_route manage ''POST'' ''/me/passkeys/reauth/begin'' [] ''passkey.ReauthBegin'',
            on_route sensitive ''DELETE'' ''/me/passkeys/:id'' [] ''passkey.Delete'']) authenticated"

definition mfa_RegisterRoutes :: "group \<Rightarrow> mw option \<Rightarrow> mw option \<Rightarrow> route list" where
  "mfa_RegisterRoutes authenticated managePerm requireReauth =
    (let g = Use (Group authenticated []) managePerm; sensitive = Use (Group g []) requireReauth
     in [on_route g ''POST'' ''/me/mfa/totp/enroll'' [] ''mfa.Enroll'',
         on_route g ''POST'' ''/me/mfa/totp/verify'' [] ''mfa.Verify'',
         on_route g ''POST'' ''/me/mfa/backup-codes'' [] ''mfa.RegenerateBackupCodes'',
         on_route sensitive ''DELETE'' ''/me/mfa/totp'' [] ''mfa.Disable''])"

definition session_RegisterRoutes :: "group \<Rightarrow> mw option \<Rightarrow> mw option \<Rightarrow> route list" where
  "session_RegisterRoutes authenticated readPerm managePerm =
    (let read = Use (Group authenticated []) readPerm; manage = Use (Group authenticated []) managePerm
     in [on_route read ''GET'' ''/me/sessions'' [] ''session.List'',
         on_route manage ''DELETE'' ''/me/sessions/:id'' [] ''session.Revoke'',
         on_route manage ''DELETE'' ''/me/sessions'' [] ''session.RevokeAll''])"

definition reauth_RegisterRoutes :: "group \<Rightarrow> route list" where
  "reauth_RegisterRoutes authenticated =
    [on_route authenticated ''POST'' ''/me/reauth'' [] ''reauth.Issue'']"

definition fed_RegisterPublicRoutes :: "group \<Rightarrow> route list" where
  "fed_RegisterPublicRoutes pub =
    [on_route pub ''GET'' ''/auth/federation/:provider'' [] ''federation.InitSocialLogin'',
     on_route pub ''GET'' ''/auth/federation/:provider/callback'' [] ''federation.Callback'',
     on_route pub ''POST'' ''/auth/federation/confirm-link'' [] ''federation.ConfirmLink'',
     on_route pub ''GET'' ''/auth/federation/pending-signup'' [] ''federation.PeekPendingSignup'',
     on_route pub ''POST'' ''/auth/federation/complete-signup'' [] ''federation.CompleteSignup'']"

definition fed_RegisterAuthenticatedRoutes :: "group \<Rightarrow> mw option \<Rightarrow> mw option \<Rightarrow> mw option \<Rightarrow> route list" where
  "fed_RegisterAuthenticatedRoutes authenticated readPerm managePerm requireReauth =
    (let read = Use (Group authenticated []) readPerm;
         manage = Use (Use (Group authenticated []) managePerm) requireReauth
     in [on_route read ''GET'' ''/me/linked-accounts'' [] ''federation.ListLinkedAccounts'',
         on_route read ''GET'' ''/me/linked-accounts/:id'' [] ''federation.GetLinkedAccount'',
         on_route manage ''POST'' ''/me/linked-accounts/:provider/begin-link'' [] ''federation.BeginLinkAccount'',
         on_route manage ''DELETE'' ''/me/linked-accounts/:id'' [] ''federation.UnlinkAccount''])"

definition fed_RegisterAdminRoutes :: "group \<Rightarrow> route list" where
  "fed_RegisterAdminRoutes admin =
    [on_route admin ''POST'' ''/federation'' [] ''federation.CreateProvider'',
     on_route admin ''GET'' ''/federation'' [] ''federation.ListProviders'',
     on_route admin ''GET'' ''/federation/:id'' [] ''federation.GetProvider'',
     on_route admin ''PATCH'' ''/federation/:id'' [] ''federation.UpdateProvider'',
     on_route admin ''DELETE'' ''/federation/:id'' [] ''federation.DeleteProvider'']"

definition invitation_RegisterPublicRoutes :: "group \<Rightarrow> route list" where
  "invitation_RegisterPublicRoutes pub =
    [on_route pub ''POST'' ''/auth/register/invite'' [] ''invitation.RegisterWithInvite'',
     on_route pub ''GET'' ''/auth/invitations/lookup'' [] ''invitation.LookupInvitation'',
     on_route pub ''GET'' ''/auth/settings'' [] ''invitation.PublicSettings'']"

definition invitation_RegisterAdminRoutes :: "group \<Rightarrow> route list" where
  "invitation_RegisterAdminRoutes admin =
    [on_route admin ''POST'' ''/invitations'' [] ''invitation.Create'',
     on_route admin ''GET'' ''/invitations'' [] ''invitation.List'',
     on_route admin ''DELETE'' ''/invitations/:id'' [] ''invitation.Delete'',
     on_route admin ''GET'' ''/settings'' [] ''invitation.GetSettings'',
     on_route admin ''PATCH'' ''/settings'' [] ''invitation.UpdateSettings'']"

definition regform_RegisterPublicRoutes :: "group \<Rightarrow> route list" where
  "regform_RegisterPublicRoutes pub =
    [on_route pub ''GET'' ''/auth/registration-fields'' [] ''regform.PublicList'']"

definition regform_RegisterAdminRoutes :: "group \<Rightarrow> route list" where
  "regform_RegisterAdminRoutes admin =
    [on_route admin ''GET'' ''/registration-fields'' [] ''regform.List'',
     on_route admin ''GET'' ''/registration-fields/:id'' [] ''regform.Get'',
     on_route admin ''POST'' ''/registration-fields'' [] ''regform.Create'',
     on_route admin ''PATCH'' ''/registration-fields/:id'' [] ''regform.Update'',
     on_route admin ''DELETE'' ''/registration-fields/:id'' [] ''regform.Delete'',
     on_route admin ''PATCH'' ''/registration-fields/reorder'' [] ''regform.Reorder'']"

definition password_RegisterPublicRoutes :: "group \<Rightarrow> route list" where
  "password_RegisterPublicRoutes pub =
    [on_route pub ''GET'' ''/password-policy'' [] ''password.GetPublic'']"

definition password_RegisterAdminRoutes :: "group \<Rightarrow> route list" where
  "password_RegisterAdminRoutes admin =
    [on_route admin ''GET'' ''/password-policy'' [] ''password.GetAdmin'',
     on_route admin ''PATCH'' ''/password-policy'' [] ''password.Update'']"

definition client_RegisterRoutes :: "group \<Rightarrow> route list" where
  "client_RegisterRoutes admin =
    [on_route admin ''POST'' ''/clients'' [] ''client.Create'',
     on_route admin ''GET'' ''/clients'' [] ''client.List'',
     on_route admin ''GET'' ''/clients/:id'' [] ''client.Get'',
     on_route admin ''PATCH'' ''/clients/:id'' [] ''client.Update'',
     on_route admin ''DELETE'' ''/clients/:id'' [] ''client.Delete'',
     on_route admin ''POST'' ''/clients/:id/rotate-secret'' [] ''client.RotateSecret'',
     on_route admin ''POST'' ''/clients/:id/rotate-hmac-secret'' [] ''client.RotateHMACSecret'']"

definition rbac_RegisterRoutes :: "group \<Rightarrow> route list" where
  "rbac_RegisterRoutes admin =
    [on_route admin ''POST'' ''/roles'' [] ''rbac.CreateRole'',
     on_route admin ''GET'' ''/roles'' [] ''rbac.ListRoles'',
     on_route admin ''GET'' ''/roles/:id'' [] ''rbac.GetRole'',
     on_route admin ''PATCH'' ''/roles/:id'' [] ''rbac.UpdateRole'',
     on_route admin ''DELETE'' ''/roles/:id'' [] ''rbac.DeleteRole'',
     on_route admin ''POST'' ''/roles/:id/permissions'' [] ''rbac.SetPermissions'',
     on_route admin ''GET'' ''/permissions'' [] ''rbac.ListPermissions'',
     on_route admin ''POST'' ''/users/:id/roles'' [] ''rbac.AssignRole'',
     on_route admin ''DELETE'' ''/users/:id/roles/:roleId'' [] ''rbac.RemoveRole'',
     on_route admin ''GET'' ''/users/:id/roles'' [] ''rbac.GetUserRoles'']"

definition policy_RegisterRoutes :: "group \<Rightarrow> route list" where
  "policy_RegisterRoutes admin =
    [on_route admin ''POST'' ''/policies'' [] ''policy.CreatePolicy'',
     on_route admin ''GET'' ''/policies'' [] ''policy.ListPolicies'',
     on_route admin ''GET'' ''/policies/schemas'' [] ''policy.GetSchemas'',
     on_route admin ''GET'' ''/policies/stats'' [] ''policy.GetStats'',
     on_route admin ''POST'' ''/policies/replay'' [] ''policy.Replay'',
     on_route admin ''GET'' ''/policies/:id'' [] ''policy.GetPolicy'',
     on_route admin ''PATCH'' ''/policies/:id'' [] ''policy.UpdatePolicy'',
     on_route admin ''DELETE'' ''/policies/:id'' [] ''policy.DeletePolicy'',
     on_route admin ''POST'' ''/policies/test'' [] ''policy.TestPolicy'',
     on_route admin ''POST'' ''/policies/validate'' [] ''policy.ValidatePolicy'']"

definition resource_RegisterRoutes :: "group \<Rightarrow> route list" where
  "resource_RegisterRoutes admin =
    [on_route admin ''POST'' ''/resources'' [] ''resource.Create'',
     on_route admin ''GET'' ''/resources'' [] ''resource.List'',
     on_route admin ''GET'' ''/resources/:id'' [] ''resource.Get'',
     on_route admin ''PATCH'' ''/resources/:id'' [] ''resource.Update'',
     on_route admin ''DELETE'' ''/resources/:id'' [] ''resource.Delete'',
     on_route admin ''POST'' ''/resources/:id/permissions'' [] ''resource.AddPermission'',
     on_route admin ''DELETE'' ''/resources/:id/permissions/:permId'' [] ''resource.RemovePermission'',
     on_route admin ''POST'' ''/clients/:id/resource-permissions'' [] ''resource.SetClientPermissions'',
     on_route admin ''GET'' ''/clients/:id/resource-permissions'' [] ''resource.GetClientPermissions'',
     on_route admin ''POST'' ''/roles/:id/resource-permissions'' [] ''resource.SetRolePermissions'',
     on_route admin ''GET'' ''/roles/:id/resource-permissions'' [] ''resource.GetRolePermissions'']"

definition audit_RegisterRoutes :: "group \<Rightarrow> route list" where
  "audit_RegisterRoutes admin =
    [on_route admin ''GET'' ''/audit-logs'' [] ''audit.Query'']"

definition email_RegisterAdminRoutes :: "group \<Rightarrow> route list" where
  "email_RegisterAdminRoutes admin =
    [on_route admin ''GET'' ''/email-templates'' [] ''email.List'',
     on_route admin ''GET'' ''/email-templates/:name'' [] ''email.Get'',
     on_route admin ''PUT'' ''/email-templates/:name'' [] ''email.Upsert'',
     on_route admin ''POST'' ''/email-templates/:name/preview'' [] ''email.Preview'',
     on_route admin ''DELETE'' ''/email-templates/:name'' [] ''email.Delete'']"

definition m2m_RegisterRoutes :: "group \<Rightarrow> group \<Rightarrow> group \<Rightarrow> group \<Rightarrow> group \<Rightarrow> route list" where
  "m2m_RegisterRoutes read write deleteGrp manageAuth manageRoles =
    [on_route read ''GET'' ''/users'' [] ''m2m.List'',
     on_route read ''GET'' ''/users/:id'' [] ''m2m.Get'',
     on_route read ''GET'' ''/users/:id/roles'' [] ''m2m.ListRoles'',
     on_route read ''GET'' ''/users/:id/sessions'' [] ''m2m.ListSessions'',
     on_route read ''GET'' ''/users/:id/passkeys'' [] ''m2m.ListPasskeys'',
     on_route read ''GET'' ''/users/:id/linked-accounts'' [] ''m2m.ListLinkedAccounts'',
     on_route write ''POST'' ''/users'' [] ''m2m.Create'',
     on_route write ''PATCH'' ''/users/:id'' [] ''m2m.Update'',
     on_route deleteGrp ''DELETE'' ''/users/:id'' [] ''m2m.Delete'',
     on_route manageAuth ''PUT'' ''/users/:id/password'' [] ''m2m.SetPassword'',
     on_route manageAuth ''POST'' ''/users/:id/unlock'' [] ''m2m.Unlock'',
     on_route manageAuth ''POST'' ''/users/:id/mfa/reset'' [] ''m2m.ResetMFA'',
     on_route manageAuth ''DELETE'' ''/users/:id/sessions/:sid'' [] ''m2m.RevokeSession'',
     on_route manageAuth ''DELETE'' ''/users/:id/sessions'' [] ''m2m.RevokeAllSessions'',
     on_route manageAuth ''DELETE'' ''/users/:id/passkeys/:pid'' [] ''m2m.DeletePasskey'',
     on_route manageAuth ''DELETE'' ''/users/:id/linked-accounts/:linkId'' [] ''m2m.UnlinkAccount'',
     on_route manageRoles ''POST'' ''/users/:id/roles'' [] ''m2m.AssignRole'',
     on_route manageRoles ''DELETE'' ''/users/:id/roles/:roleId'' [] ''m2m.RemoveRole'']"

section \<open>The router\<close>

definition router_group :: group where
  "router_group = \<lparr>gr_prefix = [], gr_guards = []\<rparr>"

definition at_root :: "string \<Rightarrow> string \<Rightarrow> mw list \<Rightarrow> string \<Rightarrow> route" where
  "at_root = on_route router_group"

definition base_routes :: "bool \<Rightarrow> route list" where
  "base_routes debug =
    (if debug then [at_root ''GET'' ''/swagger/*any'' [] ''swagger''] else [])
    @ [at_root ''GET'' ''/'' [] ''root'', at_root ''GET'' ''/health'' [] ''health'', at_root ''GET'' ''/ready'' [] ''ready'',
       at_root ''GET'' ''/metrics'' [] ''metrics'', at_root ''GET'' ''/email-assets/:name'' [] ''email_asset'']"

definition dcr_routes :: "mw \<Rightarrow> route list" where
  "dcr_routes oauthRL =
    [at_root ''POST'' ''/register'' [oauthRL] ''dcr.Register'',
     at_root ''GET'' ''/register/:client_id'' [] ''dcr.ReadRegistration'',
     at_root ''PUT'' ''/register/:client_id'' [] ''dcr.UpdateRegistration'',
     at_root ''DELETE'' ''/register/:client_id'' [] ''dcr.DeleteRegistration'']"

definition public_routes :: "route list" where
  "public_routes =
    (let pub = Use (Group router_group ''/api/v1'') (Some AuthLimit)
     in user_RegisterRoutes (Some pub) None None None
        @ invitation_RegisterPublicRoutes pub @ fed_RegisterPublicRoutes pub @ regform_RegisterPublicRoutes pub
        @ password_RegisterPublicRoutes pub @ account_RegisterRoutes (Some pub) None None None None None
        @ passkey_RegisterRoutes (Some pub) None None None None)"

definition self_service_routes :: "route list" where
  "self_service_routes =
    (let auth = Use (Group router_group ''/api/v1'') (Some BearerMW);
         read = Some (Permission ''account:read_profile'')
     in user_RegisterRoutes None (Some auth) read (Some (PermissionPolicy ''account:update_profile'' ''update_profile''))
        @ session_RegisterRoutes auth read (Some (Permission ''account:manage_sessions''))
        @ mfa_RegisterRoutes auth (Some (PermissionPolicy ''account:manage_mfa'' ''manage_mfa'')) (Some StepUp)
        @ fed_RegisterAuthenticatedRoutes auth read
            (Some (PermissionPolicy ''account:manage_linked_accounts'' ''manage_linked_accounts'')) (Some StepUp)
        @ reauth_RegisterRoutes auth
        @ passkey_RegisterRoutes None (Some auth) read
            (Some (PermissionPolicy ''account:manage_passkeys'' ''manage_passkeys'')) (Some StepUp)
        @ account_RegisterRoutes None (Some auth)
            (Some (PermissionPolicy ''account:change_password'' ''change_password''))
            (Some (PermissionPolicy ''account:change_email'' ''change_email''))
            (Some (PermissionPolicy ''account:delete_account'' ''delete_account'')) (Some StepUp))"

definition m2m_routes :: "route list" where
  "m2m_routes =
    (let base = Group router_group ''/api/v1/m2m'';
         scoped = (\<lambda>s. Use (Group base []) (Some (ClientScope s ''urn:orion:m2m'')))
     in m2m_RegisterRoutes (scoped ''m2m:users:read'') (scoped ''m2m:users:write'') (scoped ''m2m:users:delete'')
          (scoped ''m2m:users:manage_auth'') (scoped ''m2m:users:manage_roles''))"

definition admin_routes :: "route list" where
  "admin_routes =
    (let base = Use (Group router_group ''/api/v1/admin'') (Some BearerMW);
         any_of = (\<lambda>ps. Use (Group base []) (Some (AnyPermission ps)));
         userAdmin = any_of [''users:read'', ''users:write'']
     in user_RegisterAdminRoutes userAdmin @ invitation_RegisterAdminRoutes userAdmin
        @ regform_RegisterAdminRoutes userAdmin @ password_RegisterAdminRoutes userAdmin
        @ client_RegisterRoutes (any_of [''clients:read'', ''clients:write''])
        @ rbac_RegisterRoutes (any_of [''roles:read'', ''roles:write''])
        @ oidc_RegisterAdminRoutes (any_of [''keys:read'', ''keys:write''])
        @ fed_RegisterAdminRoutes (any_of [''federation:read'', ''federation:write''])
        @ policy_RegisterRoutes (any_of [''policies:read'', ''policies:write''])
        @ resource_RegisterRoutes (any_of [''resources:read'', ''resources:write''])
        @ audit_RegisterRoutes (Use (Group base []) (Some (Permission ''audit:read'')))
        @ email_RegisterAdminRoutes (any_of [''email_templates:read'', ''email_templates:write'']))"

definition setupRouter :: "bool \<Rightarrow> route list" where
  "setupRouter debug =
    base_routes debug @ oauth_RegisterRoutes router_group ClientAuthMW OAuthLimit @ dcr_routes OAuthLimit
    @ oidc_RegisterRoutes router_group BearerMW OAuthLimit @ public_routes @ self_service_routes @ m2m_routes @ admin_routes"

section \<open>Running a route\<close>

text \<open>What a request meets: the environment, the request, the policy gate, the client authentication with
  its cache of key sets, and the two limiters as they stand, with the time.\<close>

record world =
  wd_env :: env
  wd_request :: http_request
  wd_gate :: policy_gate
  wd_client :: client_auth
  wd_jwks :: jwks_cache
  wd_now :: time
  wd_oauth_limit :: rateLimiter
  wd_auth_limit :: rateLimiter

text \<open>What a middleware asks before it passes on. Of the permission chained with the policy gate this is the
  permission: its \<^verbatim>\<open>c.Next()\<close> runs the rest before the policy gate is asked.\<close>

definition limited :: "world \<Rightarrow> rateLimiter \<Rightarrow> gin \<Rightarrow> refusal + gin" where
  "limited W L g = (case fst (rl_Middleware (wd_now W) (wd_request W) L) of Inl r \<Rightarrow> Inl r | Inr x \<Rightarrow> Inr g)"

definition checked :: "unit res \<Rightarrow> gin \<Rightarrow> refusal + gin" where
  "checked r g = (case r of Inl e \<Rightarrow> Inl (HandleError e) | Inr x \<Rightarrow> Inr g)"

fun entry :: "world \<Rightarrow> db \<Rightarrow> mw \<Rightarrow> gin \<Rightarrow> refusal + gin" where
  "entry W st OAuthLimit g = limited W (wd_oauth_limit W) g"
| "entry W st AuthLimit g = limited W (wd_auth_limit W) g"
| "entry W st ClientAuthMW g = fst (ClientAuth (wd_client W) (wd_env W) st (wd_request W) g (wd_jwks W))"
| "entry W st BearerMW g = BearerAuth (wd_env W) st (wd_request W) g"
| "entry W st (Permission p) g = checked (RequirePermission (wd_env W) p (gc_user_id g) st) g"
| "entry W st (AnyPermission ps) g = checked (RequireAnyPermission (wd_env W) ps (gc_user_id g) st) g"
| "entry W st (PermissionPolicy p a) g = checked (RequirePermission (wd_env W) p (gc_user_id g) st) g"
| "entry W st StepUp g = RequireReauth (wd_env W) st (wd_request W) g"
| "entry W st (ClientScope s aud) g = RequireClientScope (wd_env W) s aud st (wd_request W) g"

definition plain_mw :: "world \<Rightarrow> mw \<Rightarrow> handler \<Rightarrow> handler" where
  "plain_mw W m = gate (\<lambda>x. entry W (ex_db x) m (ex_gin x))"

fun run_mw :: "world \<Rightarrow> mw \<Rightarrow> handler \<Rightarrow> handler" where
  "run_mw W (PermissionPolicy p a) =
     chainMW [plain_mw W (Permission p), policy_mw (wd_gate W) (wd_env W) a (wd_request W)]"
| "run_mw W m = plain_mw W m"

text \<open>The pending handlers run once; after an abort none does.\<close>

definition pending :: "handler \<Rightarrow> handler" where
  "pending k x = (if ex_handled x \<or> ex_aborted x then x else k x)"

fun run_guards :: "world \<Rightarrow> mw list \<Rightarrow> handler \<Rightarrow> handler" where
  "run_guards W [] h = pending (\<lambda>x. (h x)\<lparr>ex_handled := True\<rparr>)"
| "run_guards W (m # ms) h = pending (run_mw W m (run_guards W ms h))"

definition fresh_exchange :: "db \<Rightarrow> exchange" where
  "fresh_exchange st = \<lparr>ex_db = st, ex_gin = empty_gin, ex_replies = [], ex_aborted = False, ex_handled = False\<rparr>"

definition serve :: "world \<Rightarrow> route \<Rightarrow> handler \<Rightarrow> db \<Rightarrow> exchange" where
  "serve W r h st = run_guards W (rt_guards r) h (fresh_exchange st)"

end
