(* ===== verification/RouteProperties.thy ===== *)
theory RouteProperties
  imports Routes GateProperties
begin

text \<open>
  Who reaches the handlers: the middlewares of a route decide on the state the request found, so a handler
  runs only behind every check of its route; read off the table, that is a permission for every
  administration route, a step-up token for every sensitive self-service route, and a complete list of the
  routes that ask for no credential.
\<close>

section \<open>Checks before handlers\<close>

fun enters :: "world \<Rightarrow> db \<Rightarrow> mw list \<Rightarrow> gin \<Rightarrow> gin option" where
  "enters W st [] g = Some g"
| "enters W st (m # ms) g = (case entry W st m g of Inl r \<Rightarrow> None | Inr g' \<Rightarrow> enters W st ms g')"

lemma pending_done: "ex_handled x \<or> ex_aborted x \<Longrightarrow> pending k x = x"
  by (auto simp: pending_def)

lemma run_guards_done: "ex_handled x \<or> ex_aborted x \<Longrightarrow> run_guards W ms h x = x"
  by (cases ms) (auto simp: pending_done)

lemma plain_mw_cases:
  "plain_mw W m k x = (case entry W (ex_db x) m (ex_gin x) of
     Inl r \<Rightarrow> (answer (Refused r) x)\<lparr>ex_aborted := True\<rparr> | Inr g \<Rightarrow> k (x\<lparr>ex_gin := g\<rparr>))"
  by (simp add: plain_mw_def gate_def)

text \<open>Whatever comes after the pending handlers in a slot finds them done or the request aborted.\<close>

lemma run_guards_settles: "ex_handled (run_guards W ms h x) \<or> ex_aborted (run_guards W ms h x)"
proof (induction ms arbitrary: x)
  case Nil
  then show ?case by (simp add: pending_def)
next
  case (Cons m ms)
  show ?case
  proof (cases "ex_handled x \<or> ex_aborted x")
    case True
    then show ?thesis by (simp add: pending_def)
  next
    case False
    have plain: "ex_handled (plain_mw W m' (run_guards W ms h) x) \<or> ex_aborted (plain_mw W m' (run_guards W ms h) x)" for m'
      using Cons.IH by (simp add: plain_mw_cases answer_def split: sum.split)
    have "ex_handled (run_mw W m (run_guards W ms h) x) \<or> ex_aborted (run_mw W m (run_guards W ms h) x)"
    proof (cases m)
      case (PermissionPolicy p a)
      let ?y = "plain_mw W (Permission p) (run_guards W ms h) x"
      show ?thesis using plain [of "Permission p"] False run_guards_done [of _ W ms h]
        by (auto simp: PermissionPolicy policy_mw_def gate_def answer_def split: sum.split)
    qed (use plain in simp_all)
    then show ?thesis using False by (simp add: pending_def)
  qed
qed

lemma policy_mw_handled:
  assumes "ex_handled (policy_mw G E a r k y)" and "ex_handled y \<or> ex_aborted y"
    and "\<And>z. ex_handled z \<or> ex_aborted z \<Longrightarrow> k z = z"
  shows "ex_handled y"
  using assms by (auto simp: policy_mw_def gate_def answer_def split: sum.splits)

lemma slot_entered:
  assumes "ex_handled (run_mw W m (run_guards W ms h) x)" and "\<not> ex_handled x" and "\<not> ex_aborted x"
  shows "\<exists>g. entry W (ex_db x) m (ex_gin x) = Inr g \<and> ex_handled (run_guards W ms h (x\<lparr>ex_gin := g\<rparr>))"
proof -
  have plain: "\<exists>g. entry W (ex_db x) m' (ex_gin x) = Inr g \<and> ex_handled (run_guards W ms h (x\<lparr>ex_gin := g\<rparr>))"
    if "ex_handled (plain_mw W m' (run_guards W ms h) x)" for m'
    using that assms(2) by (auto simp: plain_mw_cases answer_def split: sum.splits)
  show ?thesis
  proof (cases m)
    case (PermissionPolicy p a)
    let ?y = "plain_mw W (Permission p) (run_guards W ms h) x"
    have settled: "ex_handled ?y \<or> ex_aborted ?y"
      using run_guards_settles by (simp add: plain_mw_cases answer_def split: sum.split)
    have "ex_handled (if ex_aborted ?y then ?y else policy_mw (wd_gate W) (wd_env W) a (wd_request W) (run_guards W ms h) ?y)"
      using assms(1,3) by (simp add: PermissionPolicy split: if_splits)
    then have "ex_handled ?y"
      using policy_mw_handled [OF _ settled run_guards_done] by (auto split: if_splits)
    from plain [OF this] show ?thesis by (simp add: PermissionPolicy)
  qed (use plain [of m] assms(1) in simp_all)
qed

lemma handled_enters:
  "ex_handled (run_guards W ms h x) \<Longrightarrow> \<not> ex_handled x \<Longrightarrow> \<not> ex_aborted x \<Longrightarrow> enters W (ex_db x) ms (ex_gin x) \<noteq> None"
proof (induction ms arbitrary: x)
  case (Cons m ms)
  then have "ex_handled (run_mw W m (run_guards W ms h) x)" by (simp add: pending_def)
  from slot_entered [OF this Cons.prems(2,3)] obtain g where
    g: "entry W (ex_db x) m (ex_gin x) = Inr g" "ex_handled (run_guards W ms h (x\<lparr>ex_gin := g\<rparr>))" by blast
  from Cons.IH [OF g(2)] Cons.prems(2,3) g(1) show ?case by simp
qed simp

lemma slot_runs:
  assumes "entry W (ex_db x) m (ex_gin x) = Inr g" and "\<not> ex_aborted x"
    and "ex_handled (run_guards W ms h (x\<lparr>ex_gin := g\<rparr>))"
  shows "ex_handled (run_mw W m (run_guards W ms h) x)"
proof (cases m)
  case (PermissionPolicy p a)
  let ?y = "plain_mw W (Permission p) (run_guards W ms h) x"
  have "ex_handled ?y" using assms by (simp add: PermissionPolicy plain_mw_cases)
  then show ?thesis using assms(2) run_guards_done [of _ W ms h]
    by (auto simp: PermissionPolicy policy_mw_def gate_def answer_def split: sum.split)
qed (use assms in \<open>simp_all add: plain_mw_cases\<close>)

lemma enters_handled:
  "enters W (ex_db x) ms (ex_gin x) \<noteq> None \<Longrightarrow> \<not> ex_handled x \<Longrightarrow> \<not> ex_aborted x \<Longrightarrow> ex_handled (run_guards W ms h x)"
proof (induction ms arbitrary: x)
  case Nil
  then show ?case by (simp add: pending_def)
next
  case (Cons m ms)
  from Cons.prems(1) obtain g where g: "entry W (ex_db x) m (ex_gin x) = Inr g" "enters W (ex_db x) ms g \<noteq> None"
    by (auto split: sum.splits)
  have "ex_handled (run_guards W ms h (x\<lparr>ex_gin := g\<rparr>))" by (rule Cons.IH) (use g Cons.prems in simp_all)
  from slot_runs [OF g(1) Cons.prems(3) this] Cons.prems show ?case by (simp add: pending_def)
qed

text \<open>A handler runs exactly when every middleware of its route lets the request in.\<close>

lemma serve_iff: "ex_handled (serve W r h st) \<longleftrightarrow> enters W st (rt_guards r) empty_gin \<noteq> None"
  using handled_enters [of W "rt_guards r" h "fresh_exchange st"] enters_handled [of W "fresh_exchange st" "rt_guards r" h]
  by (auto simp: serve_def fresh_exchange_def)

lemmas serve_enters = iffD1 [OF serve_iff]

section \<open>The table\<close>

definition admin_permissions :: "string list" where
  "admin_permissions = [''users:read'', ''users:write'', ''clients:read'', ''clients:write'', ''roles:read'', ''roles:write'',
     ''keys:read'', ''keys:write'', ''federation:read'', ''federation:write'', ''policies:read'', ''policies:write'',
     ''resources:read'', ''resources:write'', ''audit:read'', ''email_templates:read'', ''email_templates:write'']"

text \<open>The two shapes of an administration route's guards.\<close>

fun admin_guarded :: "mw list \<Rightarrow> bool" where
  "admin_guarded [BearerMW, AnyPermission ps] = (set ps \<subseteq> set admin_permissions)"
| "admin_guarded [BearerMW, Permission p] = (p \<in> set admin_permissions)"
| "admin_guarded ms = False"

definition is_admin_route :: "route \<Rightarrow> bool" where
  "is_admin_route r = has_prefix ''/api/v1/admin'' (rt_path r)"

definition sensitive :: "(string \<times> string) list" where
  "sensitive = [(''PUT'', ''/api/v1/me/password''), (''POST'', ''/api/v1/me/account/email/change-request''),
     (''DELETE'', ''/api/v1/me''), (''DELETE'', ''/api/v1/me/mfa/totp''), (''DELETE'', ''/api/v1/me/passkeys/:id''),
     (''POST'', ''/api/v1/me/linked-accounts/:provider/begin-link''), (''DELETE'', ''/api/v1/me/linked-accounts/:id'')]"

fun stepped_up :: "mw list \<Rightarrow> bool" where
  "stepped_up [BearerMW, PermissionPolicy p a, StepUp] = True"
| "stepped_up ms = False"

definition route_key :: "route \<Rightarrow> string \<times> string" where
  "route_key r = (rt_method r, rt_path r)"

text \<open>Guards that ask for a credential.\<close>

fun asks_credential :: "mw \<Rightarrow> bool" where
  "asks_credential OAuthLimit = False"
| "asks_credential AuthLimit = False"
| "asks_credential m = True"

definition open_routes :: "route list \<Rightarrow> (string \<times> string) list" where
  "open_routes rs = map route_key (filter (\<lambda>r. \<not> list_ex asks_credential (rt_guards r)) rs)"

text \<open>What holds of every route, with and without the debug route.\<close>

definition table_ok :: "(route \<Rightarrow> bool) \<Rightarrow> bool" where
  "table_ok Q \<longleftrightarrow> list_all Q (setupRouter True) \<and> list_all Q (setupRouter False)"

lemma table_okD: "table_ok Q \<Longrightarrow> r \<in> set (setupRouter debug) \<Longrightarrow> Q r"
  by (cases debug) (auto simp: table_ok_def list_all_iff)

lemma admin_table: "table_ok (\<lambda>r. is_admin_route r \<longrightarrow> admin_guarded (rt_guards r))"
  by code_simp

lemma step_up_table: "table_ok (\<lambda>r. List.member sensitive (route_key r) = stepped_up (rt_guards r))"
  by code_simp

section \<open>The properties\<close>

lemma entry_Permission_Inr: "entry W st (Permission p) g = Inr g' \<longleftrightarrow> RequirePermission (wd_env W) p (gc_user_id g) st = Inr () \<and> g' = g"
  by (auto simp: checked_def split: sum.split)

lemma entry_AnyPermission_Inr:
  "entry W st (AnyPermission ps) g = Inr g' \<longleftrightarrow> RequireAnyPermission (wd_env W) ps (gc_user_id g) st = Inr () \<and> g' = g"
  by (auto simp: checked_def split: sum.split)

lemma Bearer_user:
  assumes "BearerAuth E st q empty_gin = Inr g" and "gc_user_id g = Some u"
  shows "\<exists>t. LookupActiveAccessToken E (ParseBearer (rq_header q ''Authorization'')) st = Inr (Some t) \<and>
    at_user_id t = Some u \<and> (\<forall>s. gc_session_id g = Some s \<longrightarrow> at_session_id t = Some s \<and> session_IsActive E s st = Inr True)"
  using BearerAuth_Inr [OF assms(1)] assms(2) by (auto simp: empty_gin_def split: option.splits)

text \<open>C10 The administration API is closed to everybody else: whatever route below \<^verbatim>\<open>/api/v1/admin\<close> is asked for, its
  handler runs only for a request with an active access token of a user who holds, through a role, at least one of
  the administration permissions.\<close>

theorem admin_routes_gated:
  assumes "r \<in> set (setupRouter debug)" and "is_admin_route r" and "ex_handled (serve W r h st)"
  shows "\<exists>t u. LookupActiveAccessToken (wd_env W) (ParseBearer (rq_header (wd_request W) ''Authorization'')) st = Inr (Some t) \<and>
    at_user_id t = Some u \<and> list_ex (permitted st u) admin_permissions"
proof -
  have guarded: "admin_guarded (rt_guards r)" using table_okD [OF admin_table assms(1)] assms(2) by simp
  note passed = serve_enters [OF assms(3)]
  have "\<exists>g p. BearerAuth (wd_env W) st (wd_request W) empty_gin = Inr g \<and> p \<in> set admin_permissions \<and>
      RequirePermission (wd_env W) p (gc_user_id g) st = Inr ()"
    using guarded passed
    by (cases "rt_guards r" rule: admin_guarded.cases)
       (auto simp: checked_def RequireAnyPermission_iff split: sum.splits dest: subsetD)
  then obtain g p where g: "BearerAuth (wd_env W) st (wd_request W) empty_gin = Inr g" "p \<in> set admin_permissions"
      "RequirePermission (wd_env W) p (gc_user_id g) st = Inr ()" by blast
  then obtain u where "gc_user_id g = Some u" "permitted st u p" by (auto simp: RequirePermission_iff)
  then show ?thesis using Bearer_user [OF g(1)] g(2) by (auto simp: list_ex_iff)
qed

text \<open>C11 The sensitive self-service actions (changing the password or the address, deleting the account, dropping a
  second factor or a passkey, linking and unlinking an identity) happen only after a step-up: their handlers run only
  for a live session of the bearer's user and with a stored, unspent, unexpired step-up token of that user and session.\<close>

theorem sensitive_routes_step_up:
  assumes "r \<in> set (setupRouter debug)" and "List.member sensitive (route_key r)" and "ex_handled (serve W r h st)"
  shows "\<exists>t k. LookupActiveAccessToken (wd_env W) (ParseBearer (rq_header (wd_request W) ''Authorization'')) st = Inr (Some t) \<and>
    k \<in> set (t_reauth_tokens st) \<and> at_user_id t = Some (ra_user_id k) \<and> at_session_id t = Some (ra_session_id k) \<and>
    session_IsActive (wd_env W) (ra_session_id k) st = Inr True \<and>
    ra_id k = HashToken (sha256 (wd_env W)) (rq_header (wd_request W) ''X-Reauth-Token'') \<and>
    \<not> ra_used k \<and> clk (wd_env W) < ra_expires_at k"
proof -
  have "stepped_up (rt_guards r)" using table_okD [OF step_up_table assms(1)] assms(2) by (simp only:)
  then obtain p a where guards: "rt_guards r = [BearerMW, PermissionPolicy p a, StepUp]"
    by (cases "rt_guards r" rule: stepped_up.cases) auto
  from serve_enters [OF assms(3)] obtain g g' where
    g: "BearerAuth (wd_env W) st (wd_request W) empty_gin = Inr g" "RequireReauth (wd_env W) st (wd_request W) g = Inr g'"
    by (auto simp: guards checked_def split: sum.splits)
  from RequireReauth_Inr [OF g(2)] obtain k where k: "gc_user_id g = Some (ra_user_id k)" "gc_session_id g = Some (ra_session_id k)"
      "reauth_row st (HashToken (sha256 (wd_env W)) (rq_header (wd_request W) ''X-Reauth-Token'')) = Some k"
      "ra_IsValid k (clk (wd_env W))"
    by (auto simp: reauth_Verify_iff)
  have "k \<in> set (t_reauth_tokens st) \<and> ra_id k = HashToken (sha256 (wd_env W)) (rq_header (wd_request W) ''X-Reauth-Token'')"
    using k(3) by (auto simp: reauth_row_def dest: first_where_SomeD)
  then show ?thesis using Bearer_user [OF g(1) k(1)] k(2,4) by (auto simp: ra_IsValid_def)
qed

text \<open>The router in release mode asks a credential everywhere except on exactly these routes: the landing and
  health pages, the authorization pages, device verification, dynamic registration, the OIDC discovery, logout and
  session pages, the public sign-in, sign-up, recovery, invitation and federation routes, and the token-based
  account confirmations. Every other handler runs behind a client, bearer, scope or permission check.\<close>

theorem open_routes_exact:
  "open_routes (setupRouter False) =
    map (Pair ''GET'') [''/'', ''/health'', ''/ready'', ''/metrics'', ''/email-assets/:name'', ''/authorize'']
    @ map (Pair ''POST'') [''/authorize/login'', ''/authorize/register'', ''/authorize/mfa'', ''/authorize/consent'',
        ''/device/verify'', ''/device/approve'', ''/register'']
    @ [(''GET'', ''/register/:client_id''), (''PUT'', ''/register/:client_id''), (''DELETE'', ''/register/:client_id'')]
    @ map (Pair ''GET'') [''/.well-known/openid-configuration'', ''/.well-known/oauth-authorization-server'',
        ''/.well-known/jwks.json'', ''/end_session'', ''/check_session'']
    @ map (\<lambda>(m, p). (m, ''/api/v1'' @ p))
       [(''POST'', ''/auth/register''), (''POST'', ''/auth/login''), (''POST'', ''/auth/forgot-password''),
        (''POST'', ''/auth/reset-password''), (''POST'', ''/auth/verify-email''), (''GET'', ''/auth/verify-email''),
        (''POST'', ''/auth/resend-verification''), (''POST'', ''/auth/register/invite''),
        (''GET'', ''/auth/invitations/lookup''), (''GET'', ''/auth/settings''), (''GET'', ''/auth/federation/:provider''),
        (''GET'', ''/auth/federation/:provider/callback''), (''POST'', ''/auth/federation/confirm-link''),
        (''GET'', ''/auth/federation/pending-signup''), (''POST'', ''/auth/federation/complete-signup''),
        (''GET'', ''/auth/registration-fields''), (''GET'', ''/password-policy''),
        (''POST'', ''/me/account/cancel-deletion''), (''POST'', ''/me/account/email/confirm''),
        (''POST'', ''/me/passkeys/login/begin''), (''POST'', ''/me/passkeys/login/finish'')]"
  by code_simp

section \<open>Witnesses\<close>

definition route_db :: db where
  "route_db = guarded_db\<lparr>t_permissions := [(UUID 7, ''account:delete_account''), (UUID 9, ''roles:read'')],
     t_role_permissions := [(UUID 8, UUID 7), (UUID 8, UUID 9)]\<rparr>"

definition demo_world :: world where
  "demo_world = \<lparr>wd_env = demo_env, wd_request = demo_request ''Bearer .a1'', wd_gate = frozen_gate, wd_client = demo_auth,
     wd_jwks = [], wd_now = 0, wd_oauth_limit = NewRateLimiter 10 3, wd_auth_limit = NewRateLimiter 20 5\<rparr>"

definition list_roles :: route where
  "list_roles = \<lparr>rt_method = ''GET'', rt_path = ''/api/v1/admin/roles'',
     rt_guards = [BearerMW, AnyPermission [''roles:read'', ''roles:write'']], rt_handler = ''rbac.ListRoles''\<rparr>"

definition delete_account :: route where
  "delete_account = \<lparr>rt_method = ''DELETE'', rt_path = ''/api/v1/me'',
     rt_guards = [BearerMW, PermissionPolicy ''account:delete_account'' ''delete_account'', StepUp],
     rt_handler = ''account.RequestDeletion''\<rparr>"

lemma demo_routes: "List.member (setupRouter False) list_roles \<and> List.member (setupRouter False) delete_account"
  by code_simp


lemma demo_bearer_token: "ParseBearer ''Bearer .a1'' = ''.a1''" by code_simp

lemmas demo_entry = demo_world_def demo_request_def demo_bearer_token BearerAuth_def Let_def LookupActiveAccessToken_def
  at_IsValid_def run_store demo_rows route_db_def guarded_db_def step_db_def session_IsActive_def session_FindByID_def
  session_row_def se_IsActive_def checked_def RequireAnyPermission_def RequirePermission_def HasPermission_def
  GetUserPermissions_row_def holds_permission_def RequireReauth_def reauth_Verify_def FindByHash_def reauth_row_def
  demo_step_def ra_IsValid_def

lemma demo_list_roles: "ex_handled (serve demo_world list_roles h route_db)"
  by (simp add: serve_iff list_roles_def demo_entry)

lemma demo_delete_account: "ex_handled (serve demo_world delete_account h route_db)"
  by (simp add: serve_iff delete_account_def demo_entry)

lemma admin_routes_gated_witness:
  "\<exists>t u. LookupActiveAccessToken demo_env (ParseBearer ''Bearer .a1'') route_db = Inr (Some t) \<and> at_user_id t = Some u \<and>
     list_ex (permitted route_db u) admin_permissions"
  using admin_routes_gated [OF _ _ demo_list_roles, of False] demo_routes
  by (auto simp: list_roles_def is_admin_route_def has_prefix_def demo_world_def demo_request_def)

lemma sensitive_routes_step_up_witness:
  "\<exists>k \<in> set (t_reauth_tokens route_db). ra_id k = HashToken id ''.step'' \<and> \<not> ra_used k"
proof -
  have "List.member sensitive (route_key delete_account)" by code_simp
  then show ?thesis using sensitive_routes_step_up [OF _ _ demo_delete_account, of False] demo_routes
    by (auto simp: demo_world_def demo_request_def)
qed

end
