(* ===== verification/ActionTokens.thy ===== *)
theory ActionTokens
  imports ClientAuth Demo
begin

text \<open>
  The signed tokens of verification links (\<^verbatim>\<open>actiontoken/token.go\<close>): the checks before signing, the claims on
  the wire, and what parsing accepts. \<^verbatim>\<open>golang-jwt\<close> is the record \<open>jwt_lib\<close> and a signing function; numbers in
  claims are floats, as its decoder reads them. The theory ends with what the tokens guarantee.
\<close>

section \<open>Claims\<close>

definition ActionVerifyEmail :: string where "ActionVerifyEmail = ''verify_email''"

record action_claims =
  an_subject :: uuid
  an_action :: string
  an_jti :: string
  an_request_id :: "uuid option"
  an_issued_at :: time
  an_expires_at :: time

definition numeric_date :: "time \<Rightarrow> any" where
  "numeric_date t = AFloat (of_int (unix t))"

definition wire_claims :: "env \<Rightarrow> action_claims \<Rightarrow> any_map" where
  "wire_claims E c =
     [(''sub'', AStr (uuid_string E (an_subject c))), (''exp'', numeric_date (an_expires_at c)),
      (''iat'', numeric_date (an_issued_at c)), (''jti'', AStr (an_jti c)), (''act'', AStr (an_action c))]
     @ (case an_request_id c of None \<Rightarrow> [] | Some r \<Rightarrow> [(''rid'', AStr (uuid_string E r))])"

section \<open>Signing\<close>

definition Sign :: "(any_map \<Rightarrow> string \<Rightarrow> string option) \<Rightarrow> env \<Rightarrow> action_claims \<Rightarrow> string \<Rightarrow> string + string" where
  "Sign hs256 E c key =
     (if an_subject c = uuid_nil then Inl ''actiontoken: subject is required''
      else if an_action c = [] then Inl ''actiontoken: action is required''
      else if an_jti c = [] then Inl ''actiontoken: jti is required''
      else if an_expires_at c = zero_time then Inl ''actiontoken: expires_at is required''
      else (case hs256 (wire_claims E c) key of
              None \<Rightarrow> Inl ''signing failed''
            | Some tok \<Rightarrow> Inr tok))"

section \<open>Parsing\<close>

text \<open>A claim of the struct: absent is the zero value, another JSON type an error.\<close>

definition string_claim :: "any_map \<Rightarrow> string \<Rightarrow> string option" where
  "string_claim m k =
     (case map_of m k of None \<Rightarrow> Some [] | Some ANil \<Rightarrow> Some [] | Some (AStr s) \<Rightarrow> Some s | _ \<Rightarrow> None)"

definition date_claim :: "any_map \<Rightarrow> string \<Rightarrow> time option option" where
  "date_claim m k =
     (case map_of m k of None \<Rightarrow> Some None | Some ANil \<Rightarrow> Some None
      | Some (AFloat r) \<Rightarrow> Some (Some (floor r * nanos_per_second)) | _ \<Rightarrow> None)"

definition rid_claim :: "any_map \<Rightarrow> string option option" where
  "rid_claim m =
     (case map_of m ''rid'' of None \<Rightarrow> Some None | Some ANil \<Rightarrow> Some None | Some (AStr s) \<Rightarrow> Some (Some s) | _ \<Rightarrow> None)"

text \<open>The key function takes every HMAC method; the valid methods leave HS256.\<close>

definition hs256_only :: "string \<Rightarrow> jwt \<Rightarrow> string + jwt_key" where
  "hs256_only key t = (if is_hmac (jt_alg t) then Inr (HmacKey key) else Inl ''unexpected signing method'')"

text \<open>A token without a time of issue, which only the holder of the key can make, is a nil dereference.\<close>

datatype parsed = Parsed action_claims | InvalidToken | NilDereference

definition Parse :: "jwt_lib \<Rightarrow> env \<Rightarrow> string \<Rightarrow> string \<Rightarrow> parsed" where
  "Parse J E raw key =
     (case jl_parse J True (Some [''HS256'']) (hs256_only key) (clk E) raw of
        Inl e \<Rightarrow> InvalidToken
      | Inr t \<Rightarrow>
          (let m = jt_claims t in
           case (string_claim m ''sub'', string_claim m ''act'', string_claim m ''jti'', rid_claim m,
                 date_claim m ''iat'', date_claim m ''exp'') of
             (Some sub, Some act, Some jti, Some rid, Some iat, Some expires) \<Rightarrow>
               (case uuid_parse E sub of
                  None \<Rightarrow> InvalidToken
                | Some subj \<Rightarrow>
                    if act = [] \<or> jti = [] then InvalidToken
                    else (case (iat, expires) of
                            (Some i, Some e) \<Rightarrow>
                              (let c = \<lparr>an_subject = subj, an_action = act, an_jti = jti, an_request_id = None,
                                        an_issued_at = i, an_expires_at = e\<rparr>
                               in case rid of
                                    None \<Rightarrow> Parsed c
                                  | Some s \<Rightarrow> (case uuid_parse E s of
                                                 None \<Rightarrow> InvalidToken
                                               | Some r \<Rightarrow> Parsed (c\<lparr>an_request_id := Some r\<rparr>)))
                          | _ \<Rightarrow> NilDereference))
           | _ \<Rightarrow> InvalidToken))"

section \<open>What the tokens guarantee\<close>

text \<open>The library parses what it signed, with the same key and before the expiry.\<close>

definition hs256_roundtrip :: "jwt_lib \<Rightarrow> (any_map \<Rightarrow> string \<Rightarrow> string option) \<Rightarrow> bool" where
  "hs256_roundtrip J hs256 \<longleftrightarrow> (\<forall>m key tok e now. hs256 m key = Some tok \<longrightarrow> exp_claim m = Some e \<longrightarrow>
     of_int (unix now) < e \<longrightarrow>
     (\<exists>t. jl_parse J True (Some [''HS256'']) (hs256_only key) now tok = Inr t \<and> jt_claims t = m))"

definition whole_second :: "time \<Rightarrow> time" where
  "whole_second t = unix t * nanos_per_second"

lemma floor_numeric [simp]: "floor (of_int n :: rat) = n"
  by simp

text \<open>C36 A verification link carries its claims unchanged: a token that was signed parses, with the same key and before
  its expiry, to the same subject, action, identifier and request, with its two times cut to whole seconds.\<close>

theorem action_token_roundtrip:
  assumes "hs256_roundtrip J hs256" and "uuid_roundtrip E" and "Sign hs256 E c key = Inr tok"
    and "unix (clk E) < unix (an_expires_at c)"
  shows "Parse J E tok key = Parsed (c\<lparr>an_issued_at := whole_second (an_issued_at c),
    an_expires_at := whole_second (an_expires_at c)\<rparr>)"
proof -
  have c: "an_action c \<noteq> []" "an_jti c \<noteq> []" and tok: "hs256 (wire_claims E c) key = Some tok"
    using assms(3) by (auto simp: Sign_def split: if_splits option.splits)
  have e: "exp_claim (wire_claims E c) = Some (of_int (unix (an_expires_at c)))"
    by (simp add: exp_claim_def num_claim_def wire_claims_def numeric_date_def)
  have "of_int (unix (clk E)) < (of_int (unix (an_expires_at c)) :: rat)" using assms(4) by simp
  then obtain t where t: "jl_parse J True (Some [''HS256'']) (hs256_only key) (clk E) tok = Inr t"
      "jt_claims t = wire_claims E c"
    using assms(1) tok e unfolding hs256_roundtrip_def by blast
  have u: "uuid_parse E (uuid_string E i) = Some i" for i using assms(2) by (simp add: uuid_roundtrip_def)
  show ?thesis
    using c u by (cases "an_request_id c")
      (auto simp: Parse_def t string_claim_def date_claim_def rid_claim_def wire_claims_def numeric_date_def whole_second_def
        Let_def intro: action_claims.equality)
qed

text \<open>Only the key's holder makes a token that parses: its signature verifies under the server's key with HS256, its
  expiry has not passed, and it names an action and an identifier.\<close>

theorem action_token_sound:
  assumes "jwt_verifies J sig_ok" and "Parse J E raw key = Parsed c"
  shows "sig_ok ''HS256'' (HmacKey key) raw \<and> an_action c \<noteq> [] \<and> an_jti c \<noteq> [] \<and>
    unix (clk E) * nanos_per_second \<le> an_expires_at c"
proof -
  from assms(2) obtain t where t: "jl_parse J True (Some [''HS256'']) (hs256_only key) (clk E) raw = Inr t"
    by (auto simp: Parse_def split: sum.splits)
  with assms(1) have v: "\<exists>k. hs256_only key t = Inr k \<and> sig_ok (jt_alg t) k raw" "jt_alg t = ''HS256''"
      and e: "\<exists>e. exp_claim (jt_claims t) = Some e \<and> of_int (unix (clk E)) \<le> e"
    unfolding jwt_verifies_def by fastforce+
  have sig: "sig_ok ''HS256'' (HmacKey key) raw" using v by (auto simp: hs256_only_def split: if_splits)
  obtain e where ex: "map_of (jt_claims t) ''exp'' = Some (AFloat e)" "of_int (unix (clk E)) \<le> e"
    using e by (auto simp: exp_claim_def num_claim_def split: option.splits any.splits)
  then have "unix (clk E) \<le> floor e" by (simp add: le_floor_iff)
  then have "unix (clk E) * nanos_per_second \<le> floor e * nanos_per_second" by (simp add: nanos_per_second_def)
  then show ?thesis using assms(2) sig ex(1) t
    by (auto simp: Parse_def Let_def date_claim_def split: option.splits if_splits)
qed

section \<open>Witnesses\<close>

definition link_claims :: action_claims where
  "link_claims = \<lparr>an_subject = UUID 2, an_action = ActionVerifyEmail, an_jti = ''j1'', an_request_id = Some (UUID 5),
     an_issued_at = 1000000000001, an_expires_at = 1600000000009\<rparr>"

text \<open>A library that knows one token.\<close>

definition link_token :: jwt where
  "link_token = \<lparr>jt_alg = ''HS256'', jt_header = [], jt_claims = wire_claims demo_env link_claims\<rparr>"

definition link_hs256 :: "any_map \<Rightarrow> string \<Rightarrow> string option" where
  "link_hs256 m key = (if m = jt_claims link_token then Some ''tok'' else None)"

definition link_parse :: "bool \<Rightarrow> string list option \<Rightarrow> (jwt \<Rightarrow> string + jwt_key) \<Rightarrow> time \<Rightarrow> string \<Rightarrow> string + jwt" where
  "link_parse req methods keyf now s =
     (if s = ''tok'' \<and> isl (keyf link_token) = False \<and> (case methods of None \<Rightarrow> True | Some ms \<Rightarrow> List.member ms ''HS256'')
         \<and> unix now < 1600
      then Inr link_token else Inl ''rejected'')"

definition link_jwt :: jwt_lib where
  "link_jwt = \<lparr>jl_unverified = (\<lambda>s. if s = ''tok'' then Some link_token else None), jl_parse = link_parse,
     jl_string = (\<lambda>m k. None), jl_audience = (\<lambda>m. None), jl_struct_field = (\<lambda>k s. None), jl_jwks = (\<lambda>s. None)\<rparr>"

lemma link_exp: "exp_claim (jt_claims link_token) = Some 1600"
  by (simp add: link_token_def exp_claim_def num_claim_def wire_claims_def numeric_date_def link_claims_def unix_def
      nanos_per_second_def)

lemma link_hs256_roundtrip: "hs256_roundtrip link_jwt link_hs256"
  unfolding hs256_roundtrip_def
proof (intro allI impI)
  fix m key tok e now
  assume "link_hs256 m key = Some tok" "exp_claim m = Some e" "of_int (unix now) < (e :: rat)"
  then have "m = jt_claims link_token" "tok = ''tok''" "of_int (unix now) < (of_int 1600 :: rat)"
    using link_exp by (auto simp: link_hs256_def split: if_splits)
  then show "\<exists>t. jl_parse link_jwt True (Some [''HS256'']) (hs256_only key) now tok = Inr t \<and> jt_claims t = m"
    by (simp add: link_jwt_def link_parse_def hs256_only_def link_token_def is_hmac_def del: of_int_numeral)
qed

lemma link_accepts:
  "link_parse req methods keyf now s = Inr t \<Longrightarrow> t = link_token \<and> s = ''tok'' \<and> (\<exists>k. keyf t = Inr k) \<and>
    (case methods of None \<Rightarrow> True | Some ms \<Rightarrow> ''HS256'' \<in> set ms) \<and> of_int (unix now) \<le> (1600 :: rat)"
  by (cases "keyf link_token") (auto simp: link_parse_def split: if_splits option.splits)

lemma link_jwt_verifies: "jwt_verifies link_jwt (\<lambda>alg k s. s = ''tok'')"
  unfolding jwt_verifies_def
proof (intro allI impI)
  fix req methods keyf now s t
  assume "jl_parse link_jwt req methods keyf now s = Inr t"
  then have t: "link_parse req methods keyf now s = Inr t" by (simp add: link_jwt_def)
  from link_accepts [OF t] have alg: "jt_alg t = ''HS256''" "exp_claim (jt_claims t) = Some 1600" "t = link_token"
    using link_exp by (simp_all add: link_token_def)
  then show "jl_unverified link_jwt s = Some t \<and> (\<exists>k. keyf t = Inr k \<and> s = ''tok'') \<and>
      (case methods of None \<Rightarrow> True | Some ms \<Rightarrow> jt_alg t \<in> set ms) \<and>
      (req \<longrightarrow> (\<exists>e. exp_claim (jt_claims t) = Some e \<and> of_int (unix now) \<le> e))"
    using link_accepts [OF t] by (elim conjE) (simp add: link_jwt_def split: option.splits)
qed

lemma link_signed: "Sign link_hs256 demo_env link_claims ''k'' = Inr ''tok''"
  by (simp add: Sign_def link_hs256_def link_token_def link_claims_def uuid_nil_def ActionVerifyEmail_def zero_time_def
      nanos_per_second_def)

lemma link_in_time: "unix (clk demo_env) < unix (an_expires_at link_claims)"
  by (simp add: link_claims_def unix_def nanos_per_second_def)

lemma demo_uuids: "uuid_roundtrip demo_env"
  by (simp add: uuid_roundtrip_def)

lemma action_token_roundtrip_witness:
  "Parse link_jwt demo_env ''tok'' ''k'' = Parsed (link_claims\<lparr>an_issued_at := 1000000000000, an_expires_at := 1600000000000\<rparr>)"
  using action_token_roundtrip [OF link_hs256_roundtrip demo_uuids link_signed link_in_time]
  by (simp add: link_claims_def whole_second_def unix_def nanos_per_second_def)

lemma link_parsed: "Parse link_jwt demo_env ''tok'' ''k'' =
  Parsed (link_claims\<lparr>an_issued_at := 1000000000000, an_expires_at := 1600000000000\<rparr>)"
  by (simp add: Parse_def link_jwt_def link_parse_def hs256_only_def link_token_def is_hmac_def wire_claims_def link_claims_def
      string_claim_def date_claim_def rid_claim_def numeric_date_def unix_def nanos_per_second_def ActionVerifyEmail_def)

lemma action_token_sound_witness: "(\<lambda>alg k s. s = ''tok'') ''HS256'' (HmacKey ''k'') ''tok'' \<and> an_jti link_claims \<noteq> []"
  using action_token_sound [OF link_jwt_verifies link_parsed] by simp

end
