(* ===== verification/Boot.thy ===== *)
theory Boot
  imports RateLimit Oidc Clients Demo
begin

text \<open>
  The start of the server: the configuration records and their validation (\<^verbatim>\<open>config/config.go\<close>,
  \<^verbatim>\<open>config/validate.go\<close>; reading files and the process environment is viper's), the keys decoded from it, the
  rows seeded on the first start and the readiness check (\<^verbatim>\<open>main.go\<close>), and the label of a failed login
  (\<^verbatim>\<open>metrics/metrics.go\<close>). The theory ends with what seeding and validation guarantee.
\<close>

section \<open>Configuration\<close>

record server_config =
  sc_host :: string
  sc_port :: int
  sc_mode :: string
  sc_trusted_proxies :: "string list"
  sc_trusted_platform :: string

record database_config =
  dc_host :: string
  dc_port :: int
  dc_user :: string
  dc_password :: string
  dc_name :: string
  dc_sslmode :: string
  dc_max_open_conns :: int
  dc_max_idle_conns :: int
  dc_conn_max_lifetime :: duration

record auth_settings =
  ax_access_token_ttl :: duration
  ax_refresh_token_ttl :: duration
  ax_session_ttl :: duration
  ax_session_extended_ttl :: duration
  ax_auth_code_ttl :: duration
  ax_device_code_ttl :: duration
  ax_password_min_len :: int
  ax_max_fail_attempts :: int
  ax_lockout_duration :: duration
  ax_hmac_secret_encryption_key :: string
  ax_action_token_signing_key :: string
  ax_dcr_initial_access_token :: string
  ax_m2m_protected_role_ids :: "string list"

record smtp_config =
  sm_host :: string
  sm_port :: int
  sm_username :: string
  sm_password :: string
  sm_from :: string
  sm_from_name :: string
  sm_tls :: bool

record webauthn_config =
  wc_rp_display_name :: string
  wc_rp_id :: string
  wc_rp_origins :: "string list"

record account_config =
  xa_reauth_token_ttl :: duration
  xa_email_change_token_ttl :: duration
  xa_deletion_grace_period :: duration
  xa_passkey_challenge_ttl :: duration

record config =
  cf_server :: server_config
  cf_database :: database_config
  cf_auth :: auth_settings
  cf_cors :: cors_config
  cf_smtp :: smtp_config
  cf_webauthn :: webauthn_config
  cf_account :: account_config
  cf_auth_ui_base_url :: string
  cf_issuer :: string
  cf_pairwise_salt :: string

definition trim_blanks :: "string \<Rightarrow> string" where
  "trim_blanks s = rev (dropWhile (\<lambda>c. c = CHR '' '') (rev (dropWhile (\<lambda>c. c = CHR '' '') s)))"

text \<open>The port is read as text from viper, not from the record.\<close>

definition DSN :: "string \<Rightarrow> database_config \<Rightarrow> string" where
  "DSN port d = ''host='' @ dc_host d @ '' port='' @ trim_blanks port @ '' user='' @ dc_user d
     @ '' password='' @ dc_password d @ '' dbname='' @ dc_name d @ '' sslmode='' @ dc_sslmode d"

definition accountDefaults :: "(string \<times> string list) list" where
  "accountDefaults = [(''account.reauth_token_ttl'', [''10m'']), (''account.email_change_token_ttl'', [''1h'']),
     (''account.deletion_grace_period'', [''168h'']), (''account.passkey_challenge_ttl'', [''5m'']),
     (''auth.m2m_protected_role_ids'', [''00000000-0000-0000-0000-000000000001'']),
     (''auth.session_extended_ttl'', [''720h''])]"

section \<open>Validation\<close>

definition PairwiseSaltSentinel :: string where "PairwiseSaltSentinel = ''change-me-in-production''"

definition isLocalhost :: "string \<Rightarrow> bool" where
  "isLocalhost host = (EqualFold host ''localhost'' \<or> host = ''127.0.0.1'' \<or> host = ''::1'')"

definition local_issuer :: "string \<Rightarrow> bool" where
  "local_issuer i = (i = [] \<or> has_prefix ''http://localhost'' i \<or> has_prefix ''http://127.0.0.1'' i)"

text \<open>The hard checks, in order: whether each is violated, and its message.\<close>

definition hard_checks :: "config \<Rightarrow> (bool \<times> string) list" where
  "hard_checks c =
     [(cf_pairwise_salt c = [] \<or> cf_pairwise_salt c = PairwiseSaltSentinel,
       ''pairwise_salt must be overridden with a strong random value (current value is the shipped placeholder)''),
      (ax_hmac_secret_encryption_key (cf_auth c) = [],
       ''auth.hmac_secret_encryption_key is empty; federation client_secrets will be stored UNENCRYPTED and client_secret_jwt is disabled''),
      (ax_action_token_signing_key (cf_auth c) = [],
       ''auth.action_token_signing_key is empty; verify-email links cannot be issued''),
      (local_issuer (cf_issuer c),
       ''issuer '' @ quoted (cf_issuer c) @ '' is not safe for release mode; must be an https URL pointing to your public endpoint''),
      (List.member (cc_allowed_origins (cf_cors c)) ''*'',
       ''cors.allowed_origins contains '' @ [char_of (39::nat)] @ ''*'' @ [char_of (39::nat)]
         @ '' which is incompatible with Access-Control-Allow-Credentials: true'')]"

definition violations :: "config \<Rightarrow> string list" where
  "violations c = map snd (filter fst (hard_checks c))"

definition is_release :: "config \<Rightarrow> bool" where
  "is_release c = EqualFold (sc_mode (cf_server c)) ''release''"

text \<open>The error, if the start is refused; the warnings are log lines and are left out.\<close>

definition Validate :: "config \<Rightarrow> string option" where
  "Validate c =
     (if is_release c \<and> violations c \<noteq> []
      then Some (''config validation failed for release mode:'' @ [char_of (10::nat)] @ ''  - ''
             @ join_with ([char_of (10::nat)] @ ''  - '') (violations c))
      else None)"

text \<open>The loader, with what viper reads and unmarshals.\<close>

definition config_Load :: "(string + config) \<Rightarrow> string + config" where
  "config_Load read = (case read of Inl e \<Rightarrow> Inl e | Inr c \<Rightarrow> (case Validate c of Some e \<Rightarrow> Inl e | None \<Rightarrow> Inr c))"

section \<open>Keys\<close>

definition loadHMACEncryptionKey :: "string \<Rightarrow> string option" where
  "loadHMACEncryptionKey encoded = (if encoded = [] then None else DecodeHMACEncryptionKey encoded)"

text \<open>The first argument is what the random source gives for an ephemeral key.\<close>

definition loadActionTokenSigningKey :: "string option \<Rightarrow> string \<Rightarrow> string option" where
  "loadActionTokenSigningKey random encoded = (if encoded = [] then random else DecodeHMACEncryptionKey encoded)"

section \<open>Seeding\<close>

definition AdminRoleID :: uuid where "AdminRoleID = UUID 1"
definition AdminClientID :: uuid where "AdminClientID = UUID 2"
definition DefaultUserRoleID :: uuid where "DefaultUserRoleID = UUID 4"

definition admin_input :: "string \<Rightarrow> register_input" where
  "admin_input pw = \<lparr>ri_email = ''admin@orionauth.local'', ri_password = pw, ri_display_name = Some ''Admin'',
     ri_extra_fields = [], ri_skip_verification_email = False\<rparr>"

text \<open>The password of the process environment, or a drawn one.\<close>

definition admin_password :: "env \<Rightarrow> string \<Rightarrow> db \<Rightarrow> string option \<times> db" where
  "admin_password E from_env st = (if from_env \<noteq> [] then (Some from_env, st) else GenerateRandomString E 16 st)"

definition seedAdminUser :: "env \<Rightarrow> string \<Rightarrow> db \<Rightarrow> db" where
  "seedAdminUser E from_env st =
     (case stmt E ''seed.CountUsers'' (length (t_users st)) of
        DbErr \<Rightarrow> st
      | DbOk n \<Rightarrow>
          if n > 0 then st
          else (case admin_password E from_env st of
             (None, st1) \<Rightarrow> st1
           | (Some pw, st1) \<Rightarrow>
               (case Register E (admin_input pw) st1 of
                  (Inl e, st2) \<Rightarrow> st2
                | (Inr u, st2) \<Rightarrow>
                    (case AssignRole E (us_id u) AdminRoleID st2 of
                       (Inl e, st3) \<Rightarrow> st3
                     | (Inr x, st3) \<Rightarrow>
                         (case stmt E ''seed.VerifyAdmin'' (st3\<lparr>t_users := update_where (\<lambda>v. us_id v = us_id u)
                                 (touch_user E (\<lambda>v. v\<lparr>us_email_verified := True\<rparr>)) (t_users st3)\<rparr>) of
                            DbErr \<Rightarrow> st3
                          | DbOk st4 \<Rightarrow> st4)))))"

definition admin_client :: "string \<Rightarrow> client" where
  "admin_client iss = client_defaults (blank_client\<lparr>cl_id := AdminClientID, cl_name := ''Admin UI'',
     cl_redirect_uris := [iss @ ''/admin/callback''], cl_post_logout_redirect_uris := [iss @ ''/admin/''],
     cl_grant_types := [''authorization_code'', ''refresh_token''], cl_response_types := [''code''],
     cl_scopes := [''openid'', ''profile'', ''email''], cl_token_auth_method := ''none'', cl_is_public := True,
     cl_is_first_party := True, cl_access_token_ttl := 3600, cl_refresh_token_ttl := 86400, cl_id_token_ttl := 3600,
     cl_active := True\<rparr>)"

definition seedAdminClient :: "env \<Rightarrow> string \<Rightarrow> db \<Rightarrow> db" where
  "seedAdminClient E iss st =
     (case stmt E ''seed.FindAdminClient'' (client_row st AdminClientID) of
        DbErr \<Rightarrow> st
      | DbOk (Some c) \<Rightarrow>
          if HasPostLogoutRedirectURI c (iss @ ''/admin/'') then st
          else (case stmt E ''seed.BackfillAdminClient'' (st\<lparr>t_clients := update_where (\<lambda>x. cl_id x = AdminClientID)
                  (\<lambda>x. x\<lparr>cl_post_logout_redirect_uris := cl_post_logout_redirect_uris c @ [iss @ ''/admin/'']\<rparr>) (t_clients st)\<rparr>) of
                  DbErr \<Rightarrow> st | DbOk st1 \<Rightarrow> st1)
      | DbOk None \<Rightarrow>
          (case stmt_opt E ''seed.CreateAdminClient'' (map_option (\<lambda>t. st\<lparr>t_clients := t\<rparr>)
                  (insert_row cl_id ((admin_client iss)\<lparr>cl_created_at := wall E\<rparr>) (t_clients st))) of
             DbErr \<Rightarrow> st | DbOk st1 \<Rightarrow> st1))"

definition seedDefaults :: "env \<Rightarrow> string \<Rightarrow> string \<Rightarrow> db \<Rightarrow> db" where
  "seedDefaults E from_env iss st = seedAdminClient E iss (seedAdminUser E from_env st)"

section \<open>Probes\<close>

text \<open>No ping, or whether it succeeded; the probe of the signing keys may be missing.\<close>

definition readinessCheck :: "bool option \<Rightarrow> oidc option \<Rightarrow> nat \<times> (string \<times> string) list" where
  "readinessCheck ping probe =
     (let keys_ok = (case probe of None \<Rightarrow> False | Some P \<Rightarrow> HasActiveKey P);
          checks = [(''database'', case ping of None \<Rightarrow> ''unavailable'' | Some False \<Rightarrow> ''unreachable'' | Some True \<Rightarrow> ''ok''),
                    (''jwks'', if keys_ok then ''ok'' else ''no active signing key'')]
      in (if ping = Some True \<and> keys_ok then 200 else 503, checks))"

definition LoginOutcomeFromError :: "string \<Rightarrow> string" where
  "LoginOutcomeFromError code =
     (if code = ''account_locked'' then ''locked''
      else if code = ''email_not_verified'' then ''email_not_verified'' else ''fail'')"

section \<open>What they guarantee\<close>

lemma Validate_release:
  "is_release c \<Longrightarrow> Validate c = None \<longleftrightarrow> (cf_pairwise_salt c \<noteq> [] \<and> cf_pairwise_salt c \<noteq> PairwiseSaltSentinel \<and>
     ax_hmac_secret_encryption_key (cf_auth c) \<noteq> [] \<and> ax_action_token_signing_key (cf_auth c) \<noteq> [] \<and>
     \<not> local_issuer (cf_issuer c) \<and> ''*'' \<notin> set (cc_allowed_origins (cf_cors c)))"
  by (auto simp: Validate_def violations_def hard_checks_def)

lemma Validate_elsewhere: "\<not> is_release c \<Longrightarrow> Validate c = None"
  by (simp add: Validate_def)

text \<open>A second start with the same issuer finds everything in place.\<close>

lemma seedAdminUser_again: "t_users st \<noteq> [] \<Longrightarrow> seedAdminUser E pw st = st"
  by (simp add: seedAdminUser_def stmt_def)

lemma seedAdminClient_users [simp]: "t_users (seedAdminClient E iss st) = t_users st"
  by (auto simp: seedAdminClient_def stmt_def stmt_opt_def split: dbres.split option.split)

lemma seedAdminClient_again:
  assumes "\<not> db_err E ''seed.FindAdminClient''" "\<not> db_err E ''seed.BackfillAdminClient''" "\<not> db_err E ''seed.CreateAdminClient''"
  shows "seedAdminClient E' iss (seedAdminClient E iss st) = seedAdminClient E iss st"
proof -
  have "\<exists>c. client_row (seedAdminClient E iss st) AdminClientID = Some c \<and> HasPostLogoutRedirectURI c (iss @ ''/admin/'')"
  proof (cases "client_row st AdminClientID")
    case None
    have "AdminClientID \<notin> cl_id ` set (t_clients st)" using None by (auto simp: client_row_def first_where_None_iff)
    then have "insert_row cl_id ((admin_client iss)\<lparr>cl_created_at := wall E\<rparr>) (t_clients st)
        = Some (t_clients st @ [(admin_client iss)\<lparr>cl_created_at := wall E\<rparr>])"
      by (simp add: insert_row_def admin_client_def client_defaults_def)
    moreover have "HasPostLogoutRedirectURI ((admin_client iss)\<lparr>cl_created_at := wall E\<rparr>) (iss @ ''/admin/'')"
      by (simp add: HasPostLogoutRedirectURI_def admin_client_def client_defaults_def)
    moreover have "cl_id (admin_client iss) = AdminClientID" by (simp add: admin_client_def client_defaults_def)
    ultimately show ?thesis using None assms
      by (simp add: seedAdminClient_def stmt_def stmt_opt_def client_row_def first_where_append)
  next
    case (Some c)
    show ?thesis
    proof (cases "HasPostLogoutRedirectURI c (iss @ ''/admin/'')")
      case True
      then show ?thesis using Some assms by (simp add: seedAdminClient_def stmt_def)
    next
      case False
      have "cl_id c = AdminClientID" using Some by (auto simp: client_row_def dest: first_where_SomeD)
      then show ?thesis using Some False assms
        by (simp add: seedAdminClient_def stmt_def client_row_def first_where_update HasPostLogoutRedirectURI_def)
    qed
  qed
  then show ?thesis by (auto simp: seedAdminClient_def stmt_def)
qed

text \<open>Seeding happens once: when a first start left an account, a later start of the same issuer (with whatever
  administrator password, clock and further faults) changes nothing, so it never resets the administrator's password,
  role or client.\<close>

theorem seeding_once:
  assumes "t_users (seedDefaults E pw iss st) \<noteq> []"
    and "\<not> db_err E ''seed.FindAdminClient''" "\<not> db_err E ''seed.BackfillAdminClient''" "\<not> db_err E ''seed.CreateAdminClient''"
  shows "seedDefaults E' pw' iss (seedDefaults E pw iss st) = seedDefaults E pw iss st"
proof -
  let ?st = "seedDefaults E pw iss st"
  have "seedAdminUser E' pw' ?st = ?st" by (rule seedAdminUser_again [OF assms(1)])
  then show ?thesis using seedAdminClient_again [OF assms(2-4), of E' iss "seedAdminUser E pw st"]
    by (simp add: seedDefaults_def)
qed

definition first_start :: db where
  "first_start = empty_db\<lparr>t_roles := [\<lparr>ro_id = AdminRoleID, ro_name = ''admin'', ro_description = None\<rparr>]\<rparr>"

lemma seeding_once_witness:
  "seedDefaults demo_env ''other'' ''iss'' (seedDefaults demo_env ''password1'' ''iss'' first_start)
     = seedDefaults demo_env ''password1'' ''iss'' first_start"
proof (rule seeding_once)
  show "t_users (seedDefaults demo_env ''password1'' ''iss'' first_start) \<noteq> []" by code_simp
qed simp_all

end
