(* ===== verification/Spec2Isabelle.thy ===== *)
theory Spec2Isabelle
  imports TokenProperties RevocationProperties DeviceProperties AuthorizeProperties AuthorizeStepProperties
    AccountProperties AdminProperties ResourceProperties MailProperties ClientProperties GateProperties
    EndpointProperties OidcProperties FederationProperties PolicySchemas TemplateProperties M2MProperties
    CleanupProperties OwnProperties OutboxProperties ImporterProperties RouteProperties ActionTokens Boot
begin

text \<open>
  The OrionAuth server (Go, under \<^verbatim>\<open>src/\<close>): an OAuth 2 and OpenID Connect provider over a PostgreSQL database, with user
  accounts, sessions, second factors, passkeys, roles, policies, federation, invitations, a machine API, an e-mail outbox
  and an import tool. This library models its services, repositories, handlers and middlewares as functions on an
  explicit database and proves what they guarantee.

  How the program fits together. A request passes the middlewares of its route (\<^verbatim>\<open>main.go\<close>, \<^verbatim>\<open>middleware/\<close>, \<^verbatim>\<open>rbac/\<close>),
  reaches a handler (\<^verbatim>\<open>handler.go\<close> of each package), which parses it and calls a service (\<^verbatim>\<open>service.go\<close>); the service reads
  and writes rows through a repository (\<^verbatim>\<open>repository.go\<close>), some of it in a transaction. The OAuth service calls the
  users, sessions, second factors, resources, policies and the OIDC provider; the self-service handlers add a policy gate
  and a step-up check; a worker drains the outbox and an hourly job deletes expired rows.

  How it is represented.
  \<^item> The database is the record \<open>db\<close> (theory Store): one list of rows per table, a row a record of the Go struct's fields
    (theory Model), and \<open>draws\<close>, the number of random draws so far. A repository method is a definition that first asks the
    environment whether its statement fails and then works on the lists; unique indexes, foreign keys, cascades, column
    defaults and automatic times are written out where the code relies on them.
  \<^item> The environment is the record \<open>env\<close>: the two clocks (Go's \<open>clk\<close>, the database's \<open>wall\<close>), randomness by number of draw,
    SHA-256, password hashing, UUIDs, TOTP, JWT signing, database faults by statement name, and what GORM makes of a
    failed transaction. Third-party packages are parameters of this kind: \<open>jwt_lib\<close>, \<open>oidc_lib\<close>, \<open>fed_lib\<close>, \<open>webauthn_lib\<close>,
    \<open>rego_lib\<close>, the HTML templates, HTTP fetches. What a theorem needs of them is a named hypothesis (\<open>gorm_rollback\<close>,
    \<open>uuid_roundtrip\<close>, \<open>json_roundtrip\<close>, \<open>jwt_verifies\<close>, \<open>hs256_roundtrip\<close>), instantiated in its witness.
  \<^item> A service operation has the type \<open>action\<close>, that is a database to a result and a database. An error is a value of
    \<open>err\<close>, the application and OAuth errors of \<^verbatim>\<open>pkg/errors.go\<close>; every early return of the code is a branch.
  \<^item> Times and durations are integers of nanoseconds; a duration computed from a number of seconds wraps at 64 bits as
    Go's does. Strings are byte strings. A Go map is an association list with distinct keys.

  The theories, from the bottom.
  \<^item> Prelude, GoLib, GoUrl, Errors, Model, Scopes, PolicyInputs, Store: rows and results; the parts of Go's library that
    the sources use (text, numbers, hexadecimal, base 64, URLs); the errors; the data model (\<^verbatim>\<open>model/\<close>); scopes and PKCE;
    the policy input documents (\<^verbatim>\<open>policy/inputs/\<close>); the tables and the OAuth repository (\<^verbatim>\<open>oauth/repository.go\<close>). The
    interface \<open>keyed_rows\<close> states what a table keyed by a hash promises and is interpreted for codes, access and refresh tokens.
  \<^item> Rbac, Profile, RegForm, Mail, Users, Resources, PolicyEngine, Sessions, Mfa, Settings: \<^verbatim>\<open>rbac/\<close>, \<^verbatim>\<open>model/user.go\<close>,
    \<^verbatim>\<open>regform/\<close>, \<^verbatim>\<open>email/\<close>, \<^verbatim>\<open>user/\<close>, \<^verbatim>\<open>resource/\<close>, \<^verbatim>\<open>policy/\<close>, \<^verbatim>\<open>session/\<close>, \<^verbatim>\<open>mfa/\<close>, \<^verbatim>\<open>invitation/service.go\<close> (settings) and
    \<^verbatim>\<open>password/\<close>. The interfaces \<open>registration_form\<close>, \<open>policy_contract\<close> and \<open>scope_validator\<close> are what the OAuth service and the
    users ask of the form, the policies and the resources.
  \<^item> Tokens, Authorize, AuthorizeSteps, Device, Introspection: \<^verbatim>\<open>oauth/service.go\<close>, \<^verbatim>\<open>device.go\<close>, \<^verbatim>\<open>introspect.go\<close>, \<^verbatim>\<open>revoke.go\<close>;
    OAuthHandlers: \<^verbatim>\<open>oauth/handler.go\<close>; ClientAuth: \<^verbatim>\<open>middleware/client_auth.go\<close>, \<^verbatim>\<open>jwt_client_auth.go\<close>, \<^verbatim>\<open>oauth/request_object.go\<close>.
  \<^item> Oidc: \<^verbatim>\<open>oidc/\<close>. Clients: \<^verbatim>\<open>client/\<close> with dynamic registration. Crypto: \<^verbatim>\<open>crypto/\<close>. NetSafety: \<^verbatim>\<open>pkg/netsafety/\<close>, origins.
    Passkeys, Reauth, Accounts: \<^verbatim>\<open>passkey/\<close>, \<^verbatim>\<open>reauth/\<close>, \<^verbatim>\<open>account/\<close>. Invitations, FedProviders, Federation: \<^verbatim>\<open>invitation/\<close>, \<^verbatim>\<open>federation/\<close>.
  \<^item> Middleware, RateLimit, Gates, Routes: \<^verbatim>\<open>middleware/\<close>, \<^verbatim>\<open>pkg/\<close>, and the router of \<^verbatim>\<open>main.go\<close> with every route and the
    middlewares in front of it. SelfService, AdminHandlers, PolicyAdmin, PolicySchemas, M2M: the remaining handlers,
    the audit log, the policy field catalogue (\<^verbatim>\<open>policy/inputs/schemas.go\<close>) and \<^verbatim>\<open>m2m/\<close>. Cleanup: \<^verbatim>\<open>database/cleanup.go\<close>.
    ActionTokens: \<^verbatim>\<open>actiontoken/\<close>. Importer, Logto: \<^verbatim>\<open>importer/\<close> and \<^verbatim>\<open>cmd_import.go\<close>. Boot: \<^verbatim>\<open>config/\<close> and the seeding in \<^verbatim>\<open>main.go\<close>.
  \<^item> History and Machine order the rows over time (interface \<open>row_order\<close>) and define the step relation of the OAuth service,
    one rule per operation; ActionFrame and OwnRows carry frame conditions through actions (interface \<open>db_step\<close>,
    interpreted for "the rows of others are untouched" and "no protected role is granted").
  \<^item> Demo holds small concrete inputs; every property with hypotheses has a witness that applies it to them.

  What is proved, by theory of properties.
  \<^item> TokenProperties, RevocationProperties, DeviceProperties, AuthorizeProperties, AuthorizeStepProperties, EndpointProperties:
    codes and refresh tokens are used at most once over any history of requests; the code flow keeps its user, client,
    redirect address, PKCE and scope bindings; revocation is final; each authorization step does what it must; all of
    the reachable states satisfy the consistency invariant of the OAuth tables; redirects can be read back.
  \<^item> GateProperties, RouteProperties: who passes the client, bearer and step-up checks; every handler runs behind all the
    checks of its route, so administration needs a permission and sensitive actions a step-up; the bound of the rate
    limiter; and that the policy gate behind \<^verbatim>\<open>chainMW\<close> is asked too late.
  \<^item> AccountProperties, AdminProperties, OwnProperties, M2MProperties: lockout, password reset and address change; roles and
    policies; self-service touches nobody else's rows; protected roles are not granted over the machine API, except at creation.
  \<^item> OidcProperties, ClientProperties, ResourceProperties, FederationProperties: key rotation, logout, reserved claims; stored
    clients stay valid; resource scopes are held by the user; an external identity keeps its owner.
  \<^item> MailProperties, OutboxProperties, TemplateProperties, CleanupProperties: no mail is sent twice and every mail is settled;
    the template cache is transparent; deletion is carried out; the clean-up is invisible to requests.
  \<^item> ImporterProperties, ActionTokens, Boot: an import only adds and can be repeated; links carry their claims; seeding happens once.

  Bounds and termination. Every definition is a total function: recursion is structural or over a list, loops of the
  code over rows are folds; only the reader of IPv6 addresses counts its groups, of which there are at most eight. The loops that run for ever (the outbox worker, the hourly clean-up) are
  single passes, and their liveness is stated over the number of passes: as many hours as attempts are left for the outbox,
  one pass after the grace period for deletion. Random draws that fail and statements that fail are branches.

  Not modelled. SQL execution and isolation between concurrent requests (a request is one step; the findings name races
  the code leaves open); the audit entries that handlers write in their own goroutines (the audit table is modelled with
  its queries, and nothing else reads it), log lines and metrics; JSON binding of request bodies, which arrive bound or
  refused; gin's matching of paths; the construction of the services, listener and shutdown in \<^verbatim>\<open>main.go\<close>; the connection
  pool and the migrations (\<^verbatim>\<open>database/database.go\<close>); the dialogue with the mail server (\<^verbatim>\<open>email/smtp.go\<close>); test helpers.
\<close>

end
